(* ===== verification/Prelude.thy ===== *)
theory Prelude
  imports Main "HOL-Library.List_Lexorder" "HOL-Library.Char_ord"
begin

text \<open>
  Shared vocabulary of the development: the collections of simplification and introduction
  rules the component theories extend, result types for fallible Go functions, and generic
  facts on lists, options and maps that several components use.
\<close>

named_theorems kcsp_simps \<open>unfolding rules of the model's operations\<close>
named_theorems wf_intros \<open>an operation keeps a well-formedness invariant\<close>
named_theorems frame_simps \<open>state an operation does not touch\<close>

subsection \<open>Results of fallible functions\<close>

text \<open>
  A Go function that returns \<^verbatim>\<open>(T, error)\<close> becomes a function into a sum:
  \<open>Inl e\<close> is a non-nil error, \<open>Inr x\<close> a value with a nil error.
\<close>

definition is_ok :: "'e + 'a \<Rightarrow> bool" where
  "is_ok r = (case r of Inl _ \<Rightarrow> False | Inr _ \<Rightarrow> True)"

lemma is_ok_simps [simp]: "is_ok (Inr x)" "\<not> is_ok (Inl e)"
  by (simp_all add: is_ok_def)

definition bind_ok :: "'e + 'a \<Rightarrow> ('a \<Rightarrow> 'e + 'b) \<Rightarrow> 'e + 'b" where
  "bind_ok r f = (case r of Inl e \<Rightarrow> Inl e | Inr x \<Rightarrow> f x)"

lemma bind_ok_simps [simp]: "bind_ok (Inl e) f = Inl e" "bind_ok (Inr x) f = f x"
  by (simp_all add: bind_ok_def)

lemma bind_ok_eq_Inr: "bind_ok r f = Inr y \<longleftrightarrow> (\<exists>x. r = Inr x \<and> f x = Inr y)"
  by (cases r) simp_all

text \<open>
  Early returns: a function that succeeded passed each of its guards. As rewrite rules these take
  the place of a case split on every guard.
\<close>

lemma guard_Inr [simp]:
  "((if c then Inl e else r) = Inr x) = (\<not> c \<and> r = Inr x)"
  "((if c then r else Inl e) = Inr x) = (c \<and> r = Inr x)"
  "((if c then (Inl e, s) else q) = (Inr x, t)) = (\<not> c \<and> q = (Inr x, t))"
  "((if c then q else (Inl e, s)) = (Inr x, t)) = (c \<and> q = (Inr x, t))"
  by simp_all

lemma branch_Inr: "(if c then Inr x else Inr y) = Inr (if c then x else y)"
  by simp

subsection \<open>First occurrences\<close>

text \<open>
  The idiom of the sources \<^verbatim>\<open>seen := map[string]bool{}; for ... if !seen[v] { seen[v] = true;
  result = append(result, v) }\<close>: keep the first occurrence of each value, in order. The
  accumulator is the slice built so far, whose elements are the keys of \<^verbatim>\<open>seen\<close>.
\<close>

fun add_unseen :: "'a list \<Rightarrow> 'a list \<Rightarrow> 'a list" where
  "add_unseen acc [] = acc"
| "add_unseen acc (x # xs) = add_unseen (if x \<in> set acc then acc else acc @ [x]) xs"

lemma set_add_unseen [simp]: "set (add_unseen acc xs) = set acc \<union> set xs"
  by (induction acc xs rule: add_unseen.induct) auto

lemma distinct_add_unseen [simp]: "distinct (add_unseen acc xs) = distinct acc"
  by (induction acc xs rule: add_unseen.induct) auto

lemma add_unseen_prefix: "\<exists>ys. add_unseen acc xs = acc @ ys"
proof (induction acc xs rule: add_unseen.induct)
  case (2 acc x xs)
  then show ?case by (cases "x \<in> set acc") auto
qed simp

lemma take_add_unseen: "take (length acc) (add_unseen acc xs) = acc"
  using add_unseen_prefix [of acc xs] by auto

lemma length_add_unseen_le: "length (add_unseen acc xs) \<le> length acc + length xs"
  by (induction acc xs rule: add_unseen.induct) (auto intro: le_trans)

lemma length_add_unseen_ge: "length acc \<le> length (add_unseen acc xs)"
  using add_unseen_prefix [of acc xs] by auto

lemma add_unseen_subset: "set xs \<subseteq> set acc \<Longrightarrow> add_unseen acc xs = acc"
  by (induction acc xs rule: add_unseen.induct) auto

lemma add_unseen_append: "add_unseen acc (xs @ ys) = add_unseen (add_unseen acc xs) ys"
  by (induction acc xs rule: add_unseen.induct) auto

lemma add_unseen_distinct:
  "distinct (acc @ xs) \<Longrightarrow> add_unseen acc xs = acc @ xs"
  by (induction acc xs rule: add_unseen.induct) auto

lemma length_add_unseen_card:
  assumes "distinct acc"
  shows "length (add_unseen acc xs) = card (set acc \<union> set xs)"
  using assms by (metis distinct_add_unseen distinct_card set_add_unseen)

subsection \<open>Bounded newest-first scans\<close>

text \<open>
  The list endpoints walk a slice of identifiers from its end, skip what a filter rejects and
  stop at a limit: \<^verbatim>\<open>for i := len(order) - 1; i >= 0 && len(result) < limit; i-- { ... }\<close>.
  \<open>scan_newest\<close> is that loop over the reversed slice.
\<close>

fun scan_newest :: "nat \<Rightarrow> ('a \<Rightarrow> bool) \<Rightarrow> 'a list \<Rightarrow> 'a list \<Rightarrow> 'a list" where
  "scan_newest limit keep [] result = result"
| "scan_newest limit keep (x # xs) result =
     (if length result < limit
      then scan_newest limit keep xs (if keep x then result @ [x] else result)
      else result)"

lemma scan_newest_eq:
  "length result \<le> limit \<Longrightarrow>
     scan_newest limit keep xs result = result @ take (limit - length result) (filter keep xs)"
proof (induction limit keep xs result rule: scan_newest.induct)
  case (2 limit keep x xs result)
  show ?case
  proof (cases "length result < limit")
    case True
    with 2 show ?thesis
      by (cases "keep x") (auto simp: Suc_diff_Suc take_Cons')
  next
    case False
    with 2 show ?thesis by simp
  qed
qed simp

lemma scan_newest_Nil: "scan_newest limit keep xs [] = take limit (filter keep xs)"
  by (simp add: scan_newest_eq)

subsection \<open>Maps and options\<close>

lemma map_upd_Some_iff: "(m(k \<mapsto> v)) x = Some y \<longleftrightarrow> (if x = k then y = v else m x = Some y)"
  by auto

lemma foldl_max_ge: "(a::int) \<le> foldl max a xs"
  by (induction xs arbitrary: a) (simp, metis foldl_Cons max.boundedE)

lemma foldl_max_mem: "foldl max (a::int) xs \<in> insert a (set xs)"
proof (induction xs arbitrary: a)
  case (Cons x xs)
  from Cons [of "max a x"] show ?case by (auto simp: max_def split: if_splits)
qed simp

lemma foldl_max_ub: "x \<in> set xs \<Longrightarrow> (x::int) \<le> foldl max a xs"
proof (induction xs arbitrary: a)
  case (Cons y ys)
  then show ?case
    using foldl_max_ge [of "max a y" ys] by auto
qed simp

end
