(* ===== verification/Go_Strings.thy ===== *)
theory Go_Strings
  imports Prelude
begin

text \<open>
  Package \<^verbatim>\<open>strings\<close> (and \<^verbatim>\<open>sort.Strings\<close>) of the Go standard library, as far as the modelled
  code uses it. A Go string is a byte sequence, so it is a \<^typ>\<open>string\<close> whose characters are
  bytes, \<^verbatim>\<open>len(s)\<close> is \<^term>\<open>length s\<close> and \<^verbatim>\<open><\<close> is the bytewise lexicographic order.

  \<open>trim_space\<close> knows every rune for which \<^verbatim>\<open>unicode.IsSpace\<close> holds, by its UTF-8 encoding, and
  is exact on every byte sequence. \<open>to_upper\<close>, \<open>to_lower\<close> and \<open>equal_fold\<close> map the ASCII letters and the
  four non-ASCII runes whose case mapping is an ASCII letter (U+0131, U+017F, U+0130 and
  U+212A); every other non-ASCII byte is left as it is. Their result is therefore exact
  wherever the sources compare it with ASCII text (states, modes, severities, field names,
  keywords), which is every place the modelled code uses it in a decision with a constant.
\<close>

subsection \<open>Spaces\<close>

definition space_runes :: "string list" where
  "space_runes =
    [[CHR 0x09], [CHR 0x0A], [CHR 0x0B], [CHR 0x0C], [CHR 0x0D], [CHR 0x20],
     [CHR 0xC2, CHR 0x85], [CHR 0xC2, CHR 0xA0], [CHR 0xE1, CHR 0x9A, CHR 0x80],
     [CHR 0xE2, CHR 0x80, CHR 0x80], [CHR 0xE2, CHR 0x80, CHR 0x81], [CHR 0xE2, CHR 0x80, CHR 0x82],
     [CHR 0xE2, CHR 0x80, CHR 0x83], [CHR 0xE2, CHR 0x80, CHR 0x84], [CHR 0xE2, CHR 0x80, CHR 0x85],
     [CHR 0xE2, CHR 0x80, CHR 0x86], [CHR 0xE2, CHR 0x80, CHR 0x87], [CHR 0xE2, CHR 0x80, CHR 0x88],
     [CHR 0xE2, CHR 0x80, CHR 0x89], [CHR 0xE2, CHR 0x80, CHR 0x8A], [CHR 0xE2, CHR 0x80, CHR 0xA8],
     [CHR 0xE2, CHR 0x80, CHR 0xA9], [CHR 0xE2, CHR 0x80, CHR 0xAF], [CHR 0xE2, CHR 0x81, CHR 0x9F],
     [CHR 0xE3, CHR 0x80, CHR 0x80]]"

fun has_prefix :: "string \<Rightarrow> string \<Rightarrow> bool" where
  "has_prefix s [] = True"
| "has_prefix [] (p # ps) = False"
| "has_prefix (c # s) (p # ps) = (c = p \<and> has_prefix s ps)"

lemma has_prefix_iff: "has_prefix s p \<longleftrightarrow> (\<exists>t. s = p @ t)"
  by (induction s p rule: has_prefix.induct) auto

definition has_suffix :: "string \<Rightarrow> string \<Rightarrow> bool" where
  "has_suffix s p = has_prefix (rev s) (rev p)"

lemma has_suffix_iff: "has_suffix s p \<longleftrightarrow> (\<exists>t. s = t @ p)"
  unfolding has_suffix_def has_prefix_iff
  by (metis rev_append rev_rev_ident)

fun trim_by :: "nat \<Rightarrow> string list \<Rightarrow> string \<Rightarrow> string" where
  "trim_by 0 ps s = s"
| "trim_by (Suc n) ps s =
     (case filter (has_prefix s) ps of [] \<Rightarrow> s | p # _ \<Rightarrow> trim_by n ps (drop (length p) s))"

definition trim_left :: "string \<Rightarrow> string" where
  "trim_left s = trim_by (length s) space_runes s"

definition trim_right :: "string \<Rightarrow> string" where
  "trim_right s = rev (trim_by (length s) (map rev space_runes) (rev s))"

definition trim_space :: "string \<Rightarrow> string" where
  "trim_space s = trim_right (trim_left s)"


text \<open>
  The fuel is the length of the string: every space rune has at least one byte, so that many
  rounds reach a string no rune is a prefix of.
\<close>

lemma space_runes_nonempty: "[] \<notin> set space_runes"
  by (simp add: space_runes_def)

lemma trim_by_stops:
  assumes "[] \<notin> set ps" "length s \<le> n" "p \<in> set ps"
  shows "\<not> has_prefix (trim_by n ps s) p"
  using assms
proof (induction n ps s rule: trim_by.induct)
  case (1 ps s)
  then have "p \<noteq> []" by auto
  with 1 show ?case by (auto simp: has_prefix_iff)
next
  case (2 n ps s)
  show ?case
  proof (cases "filter (has_prefix s) ps")
    case Nil
    then have "\<not> has_prefix s p" using 2(4) by (metis filter_empty_conv)
    with Nil show ?thesis by simp
  next
    case (Cons q qs)
    then have "q \<in> set (filter (has_prefix s) ps)" by simp
    then have q: "q \<in> set ps" "has_prefix s q" by auto
    then have "0 < length q" "length q \<le> length s"
      using 2(2) by (auto simp: has_prefix_iff)
    with 2(3) have "length (drop (length q) s) \<le> n" by (simp only: length_drop)
    from 2(1) [OF Cons 2(2) this 2(4)] Cons show ?thesis by simp
  qed
qed

lemma trim_by_id:
  assumes "\<And>p. p \<in> set ps \<Longrightarrow> \<not> has_prefix s p"
  shows "trim_by n ps s = s"
proof -
  from assms have "filter (has_prefix s) ps = []" by (simp add: filter_empty_conv)
  then show ?thesis by (cases n) simp_all
qed

lemma trim_by_suffix: "\<exists>t. s = t @ trim_by n ps s"
proof (induction n ps s rule: trim_by.induct)
  case (2 n ps s)
  show ?case
  proof (cases "filter (has_prefix s) ps")
    case (Cons q qs)
    from 2 [OF Cons] obtain t where "drop (length q) s = t @ trim_by n ps (drop (length q) s)" by blast
    then have "s = (take (length q) s @ t) @ trim_by n ps (drop (length q) s)"
      by (metis append_assoc append_take_drop_id)
    with Cons show ?thesis by (metis list.simps(5) trim_by.simps(2))
  qed simp
qed simp

lemma trim_left_stops: "p \<in> set space_runes \<Longrightarrow> \<not> has_prefix (trim_left s) p"
  unfolding trim_left_def by (rule trim_by_stops) (auto simp: space_runes_nonempty)

lemma trim_right_stops: "p \<in> set space_runes \<Longrightarrow> \<not> has_suffix (trim_right s) p"
  unfolding trim_right_def has_suffix_def rev_rev_ident
  by (rule trim_by_stops) (auto simp: space_runes_nonempty)

lemma trim_right_prefix: "\<exists>t. s = trim_right s @ t"
  using trim_by_suffix [of "rev s" "length s" "map rev space_runes"]
  unfolding trim_right_def by (metis rev_append rev_rev_ident)

text \<open>\<^verbatim>\<open>strings.TrimSpace\<close> leaves no space rune at either end, and is idempotent.\<close>

lemma trim_space_ends:
  assumes "p \<in> set space_runes"
  shows "\<not> has_prefix (trim_space s) p" "\<not> has_suffix (trim_space s) p"
proof -
  from trim_right_prefix [of "trim_left s"] obtain t
    where "trim_left s = trim_space s @ t" unfolding trim_space_def by blast
  with trim_left_stops [OF assms, of s] show "\<not> has_prefix (trim_space s) p"
    by (auto simp: has_prefix_iff)
  show "\<not> has_suffix (trim_space s) p"
    unfolding trim_space_def by (rule trim_right_stops [OF assms])
qed

lemma trim_space_id:
  assumes "\<And>p. p \<in> set space_runes \<Longrightarrow> \<not> has_prefix s p"
    and "\<And>p. p \<in> set space_runes \<Longrightarrow> \<not> has_suffix s p"
  shows "trim_space s = s"
proof -
  have "trim_left s = s" unfolding trim_left_def by (rule trim_by_id) (rule assms(1))
  moreover have "trim_right s = s"
    unfolding trim_right_def using assms(2)
    by (subst trim_by_id) (auto simp: has_suffix_def)
  ultimately show ?thesis by (simp add: trim_space_def)
qed

lemma trim_space_idem [simp]: "trim_space (trim_space s) = trim_space s"
  by (rule trim_space_id) (auto dest: trim_space_ends)

lemma trim_space_Nil [simp]: "trim_space [] = []"
  by (simp add: trim_space_def trim_left_def trim_right_def)

lemma length_trim_space_le: "length (trim_space s) \<le> length s"
proof -
  obtain t where "trim_left s = trim_space s @ t"
    using trim_right_prefix [of "trim_left s"] unfolding trim_space_def by blast
  moreover obtain u where "s = u @ trim_left s"
    using trim_by_suffix unfolding trim_left_def by blast
  ultimately show ?thesis by (metis le_add1 le_add2 le_trans length_append)
qed

definition blank :: "string \<Rightarrow> bool" where
  "blank s \<longleftrightarrow> trim_space s = []"

lemma blank_Nil [simp]: "blank []"
  by (simp add: blank_def)

lemma not_blank_trim [simp]: "blank (trim_space s) \<longleftrightarrow> blank s"
  by (simp add: blank_def)

subsection \<open>Letter case\<close>

definition upper_byte :: "char \<Rightarrow> char" where
  "upper_byte c = (if CHR ''a'' \<le> c \<and> c \<le> CHR ''z'' then char_of (of_char c - 32 :: nat) else c)"

definition lower_byte :: "char \<Rightarrow> char" where
  "lower_byte c = (if CHR ''A'' \<le> c \<and> c \<le> CHR ''Z'' then char_of (of_char c + 32 :: nat) else c)"

fun to_upper :: "string \<Rightarrow> string" where
  "to_upper [] = []"
| "to_upper [c] = [upper_byte c]"
| "to_upper (c # d # s) =
     (if c = CHR 0xC4 \<and> d = CHR 0xB1 then CHR ''I'' # to_upper s
      else if c = CHR 0xC5 \<and> d = CHR 0xBF then CHR ''S'' # to_upper s
      else upper_byte c # to_upper (d # s))"

fun to_lower :: "string \<Rightarrow> string" where
  "to_lower [] = []"
| "to_lower (c # s) =
     (if has_prefix (c # s) [CHR 0xC4, CHR 0xB0] then CHR ''i'' # to_lower (drop 1 s)
      else if has_prefix (c # s) [CHR 0xE2, CHR 0x84, CHR 0xAA] then CHR ''k'' # to_lower (drop 2 s)
      else lower_byte c # to_lower s)"

fun fold_case :: "string \<Rightarrow> string" where
  "fold_case [] = []"
| "fold_case (c # s) =
     (if has_prefix (c # s) [CHR 0xC5, CHR 0xBF] then CHR ''s'' # fold_case (drop 1 s)
      else if has_prefix (c # s) [CHR 0xE2, CHR 0x84, CHR 0xAA] then CHR ''k'' # fold_case (drop 2 s)
      else lower_byte c # fold_case s)"

declare to_upper.simps [simp del] to_lower.simps [simp del] fold_case.simps [simp del]
declare to_upper.simps(1) [simp] to_lower.simps(1) [simp] fold_case.simps(1) [simp]

definition equal_fold :: "string \<Rightarrow> string \<Rightarrow> bool" where
  "equal_fold s t \<longleftrightarrow> fold_case s = fold_case t"

lemma equal_fold_refl [simp]: "equal_fold s s"
  by (simp add: equal_fold_def)

lemma equal_fold_sym: "equal_fold s t \<longleftrightarrow> equal_fold t s"
  by (auto simp: equal_fold_def)

subsection \<open>Searching, joining and splitting\<close>

fun contains :: "string \<Rightarrow> string \<Rightarrow> bool" where
  "contains [] p = (p = [])"
| "contains (c # s) p = (has_prefix (c # s) p \<or> contains s p)"

lemma contains_iff: "contains s p \<longleftrightarrow> (\<exists>t u. s = t @ p @ u)"
proof (induction s p rule: contains.induct)
  case (2 c s p)
  show ?case
  proof
    assume "contains (c # s) p"
    then consider "has_prefix (c # s) p" | "contains s p" by auto
    then show "\<exists>t u. c # s = t @ p @ u"
    proof cases
      case 1
      then show ?thesis by (metis append_Nil has_prefix_iff)
    next
      case c: 2
      with 2 obtain t u where "s = t @ p @ u" by blast
      then have "c # s = (c # t) @ p @ u" by simp
      then show ?thesis by blast
    qed
  next
    assume "\<exists>t u. c # s = t @ p @ u"
    then obtain t u where e: "c # s = t @ p @ u" by blast
    then show "contains (c # s) p"
    proof (cases t)
      case Nil
      with e have "has_prefix (c # s) p" by (simp only: has_prefix_iff) blast
      then show ?thesis by simp
    next
      case (Cons a t')
      with e have "s = t' @ p @ u" by simp
      with 2 show ?thesis by auto
    qed
  qed
qed auto

definition trim_prefix :: "string \<Rightarrow> string \<Rightarrow> string" where
  "trim_prefix s p = (if has_prefix s p then drop (length p) s else s)"

fun join :: "string \<Rightarrow> string list \<Rightarrow> string" where
  "join sep [] = []"
| "join sep [x] = x"
| "join sep (x # y # ys) = x @ sep @ join sep (y # ys)"

fun split_char :: "char \<Rightarrow> string \<Rightarrow> string list" where
  "split_char c [] = [[]]"
| "split_char c (x # xs) =
     (if x = c then [] # split_char c xs
      else (case split_char c xs of [] \<Rightarrow> [[x]] | w # ws \<Rightarrow> (x # w) # ws))"

lemma split_char_nonempty: "split_char c s \<noteq> []"
  by (induction c s rule: split_char.induct) (auto split: list.splits)

text \<open>Joining what \<^verbatim>\<open>strings.Split\<close> returns with the separator gives the string back.\<close>

lemma join_split_char: "join [c] (split_char c s) = s"
proof (induction c s rule: split_char.induct)
  case (2 c x xs)
  then show ?case
    using split_char_nonempty [of c xs]
    by (cases "split_char c xs"; cases "tl (split_char c xs)") auto
qed simp

subsection \<open>Decimal numbers\<close>

definition digit :: "nat \<Rightarrow> char" where
  "digit d = char_of (48 + d)"

fun nat_dec :: "nat \<Rightarrow> string" where
  "nat_dec n = (if n < 10 then [digit n] else nat_dec (n div 10) @ [digit (n mod 10)])"

declare nat_dec.simps [simp del]

definition int_dec :: "int \<Rightarrow> string" where
  "int_dec i = (if i < 0 then CHR ''-'' # nat_dec (nat (- i)) else nat_dec (nat i))"

definition zero_pad :: "nat \<Rightarrow> nat \<Rightarrow> string" where
  "zero_pad w n = (let s = nat_dec n in replicate (w - length s) (CHR ''0'') @ s)"

end
