(* ===== verification/Go_Encoding.thy ===== *)
theory Go_Encoding
  imports Go_Strings "HOL-Library.Word"
begin

text \<open>
  The encodings of the Go standard library that the modelled code hashes or stores: lower-case
  hexadecimal (\<^verbatim>\<open>encoding/hex\<close>), raw URL base64 (\<^verbatim>\<open>encoding/base64\<close>), SHA-256 (\<^verbatim>\<open>crypto/sha256\<close>, FIPS 180-4), \<^verbatim>\<open>json.Marshal\<close> on the
  values that occur in metadata maps, \<^verbatim>\<open>fmt.Sprint\<close> on the same values, and the time layouts
  \<^verbatim>\<open>time.RFC3339Nano\<close> and \<^verbatim>\<open>20060102150405.000000000\<close>.
\<close>

unbundle bit_operations_syntax

subsection \<open>Hexadecimal\<close>

definition hex_digit :: "nat \<Rightarrow> char" where
  "hex_digit d = (if d < 10 then char_of (48 + d) else char_of (87 + d))"

definition hex_byte :: "char \<Rightarrow> string" where
  "hex_byte c = (let n = of_char c :: nat in [hex_digit (n div 16), hex_digit (n mod 16)])"

definition hex_encode :: "string \<Rightarrow> string" where
  "hex_encode bs = concat (map hex_byte bs)"

lemma hex_digit_inj: "a < 16 \<Longrightarrow> b < 16 \<Longrightarrow> hex_digit a = hex_digit b \<Longrightarrow> a = b"
  by (auto simp: hex_digit_def char_of_eq_iff take_bit_eq_mod split: if_splits)

lemma hex_byte_inj: "hex_byte c = hex_byte d \<Longrightarrow> c = d"
proof -
  assume e: "hex_byte c = hex_byte d"
  have "(of_char c :: nat) < 256" "(of_char d :: nat) < 256" by simp_all
  then have c: "of_char c div 16 < (16 :: nat)" and d: "of_char d div 16 < (16 :: nat)"
    by linarith+
  have "of_char c div 16 = (of_char d div 16 :: nat)"
    by (rule hex_digit_inj) (use e c d in \<open>auto simp: hex_byte_def Let_def\<close>)
  moreover have "of_char c mod 16 = (of_char d mod 16 :: nat)"
    by (rule hex_digit_inj) (use e in \<open>auto simp: hex_byte_def Let_def\<close>)
  ultimately have "(of_char c :: nat) = of_char d" by (metis div_mult_mod_eq)
  then show "c = d" by simp
qed

lemma length_hex_byte [simp]: "length (hex_byte c) = 2"
  by (simp add: hex_byte_def Let_def)

lemma length_hex_encode [simp]: "length (hex_encode bs) = 2 * length bs"
  by (induction bs) (simp_all add: hex_encode_def)

text \<open>\<^verbatim>\<open>hex.EncodeToString\<close> is injective: distinct digests have distinct renderings.\<close>

lemma hex_encode_inj: "hex_encode xs = hex_encode ys \<Longrightarrow> xs = ys"
proof (induction xs arbitrary: ys)
  case Nil
  then have "length (hex_encode ys) = 0" by (simp add: hex_encode_def)
  then show ?case by simp
next
  case (Cons x xs)
  have "length (hex_encode ys) = 2 * Suc (length xs)"
    using arg_cong [OF Cons.prems, of length] by simp
  then obtain y ys' where y: "ys = y # ys'" by (cases ys) auto
  with Cons.prems have "hex_byte x @ hex_encode xs = hex_byte y @ hex_encode ys'"
    by (simp add: hex_encode_def)
  then have "hex_byte x = hex_byte y" "hex_encode xs = hex_encode ys'"
    by (simp_all add: append_eq_append_conv)
  with Cons.IH y show ?case by (auto dest: hex_byte_inj)
qed

subsection \<open>SHA-256\<close>

type_synonym w32 = "32 word"

text \<open>
  The constants are the first 32 bits of the fractional parts of roots of the first primes: cube
  roots for the rounds, square roots for the initial state. \<open>root_bits e n b r\<close> extends the root \<open>r\<close>
  of \<open>n\<close> bit by bit from bit \<open>b - 1\<close> down.
\<close>

fun root_bits :: "nat \<Rightarrow> int \<Rightarrow> nat \<Rightarrow> int \<Rightarrow> int" where
  "root_bits e n 0 r = r"
| "root_bits e n (Suc b) r = root_bits e n b (if (r + 2 ^ b) ^ e \<le> n then r + 2 ^ b else r)"

definition small_primes :: "int list" where
  "small_primes = filter (\<lambda>n. list_all (\<lambda>d. n mod d \<noteq> 0) [2..n - 1]) [2..311]"

definition sha_k :: "w32 list" where
  "sha_k = map (\<lambda>p. of_int (root_bits 3 (p * 2 ^ 96) 35 0)) small_primes"

definition sha_init :: "w32 list" where
  "sha_init = map (\<lambda>p. of_int (root_bits 2 (p * 2 ^ 64) 35 0)) [2, 3, 5, 7, 11, 13, 17, 19]"

definition sha_s0 :: "w32 \<Rightarrow> w32" where
  "sha_s0 x = word_rotr 7 x XOR word_rotr 18 x XOR drop_bit 3 x"

definition sha_s1 :: "w32 \<Rightarrow> w32" where
  "sha_s1 x = word_rotr 17 x XOR word_rotr 19 x XOR drop_bit 10 x"

text \<open>The message schedule, newest word first.\<close>

fun sha_expand :: "nat \<Rightarrow> w32 list \<Rightarrow> w32 list" where
  "sha_expand 0 ws = ws"
| "sha_expand (Suc n) ws = sha_expand n ((sha_s1 (ws ! 1) + ws ! 6 + sha_s0 (ws ! 14) + ws ! 15) # ws)"

fun sha_round :: "w32 list \<Rightarrow> w32 \<times> w32 \<Rightarrow> w32 list" where
  "sha_round [a, b, c, d, e, f, g, h] (k, w) =
     (let s1 = word_rotr 6 e XOR word_rotr 11 e XOR word_rotr 25 e;
          ch = (e AND f) XOR (NOT e AND g);
          t1 = h + s1 + ch + k + w;
          s0 = word_rotr 2 a XOR word_rotr 13 a XOR word_rotr 22 a;
          maj = (a AND b) XOR (a AND c) XOR (b AND c);
          t2 = s0 + maj
      in [t1 + t2, a, b, c, d + t1, e, f, g])"
| "sha_round st _ = st"

definition sha_block :: "w32 list \<Rightarrow> w32 list \<Rightarrow> w32 list" where
  "sha_block st ws =
     map2 (+) st (foldl sha_round st (zip sha_k (rev (sha_expand 48 (rev ws)))))"

definition byte_word :: "char \<Rightarrow> w32" where
  "byte_word c = of_nat (of_char c)"

fun be_words :: "string \<Rightarrow> w32 list" where
  "be_words (a # b # c # d # s) =
     (push_bit 24 (byte_word a) OR push_bit 16 (byte_word b) OR push_bit 8 (byte_word c) OR byte_word d)
       # be_words s"
| "be_words _ = []"

fun blocks16 :: "nat \<Rightarrow> w32 list \<Rightarrow> w32 list list" where
  "blocks16 0 ws = []"
| "blocks16 (Suc n) ws = take 16 ws # blocks16 n (drop 16 ws)"

definition nat_be :: "nat \<Rightarrow> nat \<Rightarrow> string" where
  "nat_be k n = map (\<lambda>i. char_of (n div 256 ^ i mod 256)) (rev [0..<k])"

definition sha_pad :: "string \<Rightarrow> string" where
  "sha_pad bs = bs @ [CHR 0x80] @ replicate ((119 - length bs mod 64) mod 64) (CHR 0x00)
                  @ nat_be 8 (8 * length bs)"

definition sha256 :: "string \<Rightarrow> string" where
  "sha256 bs =
     (let p = sha_pad bs
      in concat (map (\<lambda>w. nat_be 4 (unat w))
           (foldl sha_block sha_init (blocks16 (length p div 64) (be_words p)))))"

lemma sha_pad_blocks: "length (sha_pad bs) mod 64 = 0"
proof -
  have "length (sha_pad bs) = length bs + 9 + (119 - length bs mod 64) mod 64"
    by (simp add: sha_pad_def nat_be_def)
  then have "length (sha_pad bs) mod 64 = (length bs + 9 + (119 - length bs mod 64)) mod 64"
    by (simp only: mod_add_right_eq)
  also have "\<dots> = (length bs mod 64 + (9 + (119 - length bs mod 64))) mod 64"
    by (simp only: mod_add_left_eq add.assoc)
  also have "length bs mod 64 + (9 + (119 - length bs mod 64)) = 128"
    using mod_less_divisor [of 64 "length bs"] by linarith
  finally show ?thesis by simp
qed

lemma length_sha_round: "length st = 8 \<Longrightarrow> length (sha_round st p) = 8"
  by (cases "(st, p)" rule: sha_round.cases) (simp_all add: Let_def)

lemma length_sha_rounds: "length st = 8 \<Longrightarrow> length (foldl sha_round st ps) = 8"
  by (induction ps arbitrary: st) (simp_all add: length_sha_round)

lemma length_sha_block: "length st = 8 \<Longrightarrow> length (sha_block st ws) = 8"
  by (simp add: sha_block_def length_sha_rounds)

lemma length_sha_blocks: "length st = 8 \<Longrightarrow> length (foldl sha_block st bs) = 8"
  by (induction bs arbitrary: st) (simp_all add: length_sha_block)

lemma length_concat_const: "(\<And>x. x \<in> set xs \<Longrightarrow> length x = n) \<Longrightarrow> length (concat xs) = n * length xs"
  by (induction xs) auto

text \<open>A digest has 32 bytes, so its hexadecimal rendering is never empty.\<close>

lemma length_sha256 [simp]: "length (sha256 bs) = 32"
proof -
  have "length (foldl sha_block sha_init (blocks16 n ws)) = 8" for n ws
    by (rule length_sha_blocks) (simp add: sha_init_def)
  then show ?thesis
    unfolding sha256_def Let_def
    by (subst length_concat_const [where n = 4]) (auto simp: nat_be_def)
qed

definition sha256_hex :: "string \<Rightarrow> string" where
  "sha256_hex s = hex_encode (sha256 s)"

lemma length_sha256_hex [simp]: "length (sha256_hex s) = 64"
  by (simp add: sha256_hex_def)

lemma sha256_hex_nonempty [simp]: "sha256_hex s \<noteq> []"
  by (metis length_sha256_hex list.size(3) zero_neq_numeral)

lemma sha256_hex_eq_iff: "sha256_hex s = sha256_hex t \<longleftrightarrow> sha256 s = sha256 t"
  by (auto simp: sha256_hex_def dest: hex_encode_inj)

subsection \<open>Base64\<close>

text \<open>\<^verbatim>\<open>base64.RawURLEncoding\<close>: the alphabet for URLs, without padding.\<close>

definition base64_digit :: "nat \<Rightarrow> char" where
  "base64_digit n =
    (if n < 26 then char_of (65 + n) else if n < 52 then char_of (71 + n) else if n < 62 then char_of (n - 4)
     else if n = 62 then CHR ''-'' else CHR ''_'')"

fun base64_raw_url :: "string \<Rightarrow> string" where
  "base64_raw_url [] = []"
| "base64_raw_url [a] =
     (let n = of_char a * 16 in map (\<lambda>k. base64_digit (n div 64 ^ k mod 64)) [1, 0])"
| "base64_raw_url [a, b] =
     (let n = (of_char a * 256 + of_char b) * 4 in map (\<lambda>k. base64_digit (n div 64 ^ k mod 64)) [2, 1, 0])"
| "base64_raw_url (a # b # c # s) =
     (let n = (of_char a * 256 + of_char b) * 256 + of_char c
      in map (\<lambda>k. base64_digit (n div 64 ^ k mod 64)) [3, 2, 1, 0] @ base64_raw_url s)"

lemma base64_length: "3 * length (base64_raw_url s) \<le> 4 * length s + 3"
  by (induction s rule: base64_raw_url.induct) (simp_all add: Let_def)

end
