(* ===== verification/Go_Json.thy ===== *)
theory Go_Json
  imports Go_Encoding
begin

text \<open>
  The dynamically typed values of the sources (\<^verbatim>\<open>interface{}\<close> in metadata maps and in decoded
  documents) and what \<^verbatim>\<open>json.Marshal\<close> and \<^verbatim>\<open>fmt.Sprint\<close> make of them.

  \<open>JObj\<close> is a Go map with string keys, an association list with distinct keys, which
  \<^verbatim>\<open>json.Marshal\<close> and \<^verbatim>\<open>fmt.Sprint\<close> print in key order; \<open>JStruct\<close> is a struct, printed in field
  order. \<open>JFloat\<close> carries the text of a \<^verbatim>\<open>float64\<close>; the formatting of floating-point numbers is
  not modelled, and no audited metadata of the modelled code contains one.
\<close>

datatype json = JNull | JBool bool | JInt int | JFloat string | JStr string
  | JArr "json list" | JObj "(string \<times> json) list" | JStruct "(string \<times> json) list"

subsection \<open>UTF-8\<close>

definition cont_byte :: "nat \<Rightarrow> bool" where
  "cont_byte b \<longleftrightarrow> 128 \<le> b \<and> b < 192"

text \<open>The length of the rune at the head of a byte sequence, 0 where it is not valid UTF-8.\<close>

definition utf8_len :: "nat list \<Rightarrow> nat" where
  "utf8_len bs =
    (case bs of
       [] \<Rightarrow> 0
     | a # r \<Rightarrow>
         if a < 128 then 1
         else if 194 \<le> a \<and> a < 224 then
           (case r of b # _ \<Rightarrow> if cont_byte b then 2 else 0 | _ \<Rightarrow> 0)
         else if 224 \<le> a \<and> a < 240 then
           (case r of b # c # _ \<Rightarrow>
              if cont_byte b \<and> cont_byte c \<and> (a = 224 \<longrightarrow> 160 \<le> b) \<and> (a = 237 \<longrightarrow> b < 160)
              then 3 else 0
            | _ \<Rightarrow> 0)
         else if 240 \<le> a \<and> a < 245 then
           (case r of b # c # d # _ \<Rightarrow>
              if cont_byte b \<and> cont_byte c \<and> cont_byte d \<and> (a = 240 \<longrightarrow> 144 \<le> b) \<and> (a = 244 \<longrightarrow> b < 144)
              then 4 else 0
            | _ \<Rightarrow> 0)
         else 0)"

subsection \<open>\<^verbatim>\<open>json.Marshal\<close>\<close>

definition bslash :: char where "bslash = CHR 0x5C"

definition escape_ascii :: "nat \<Rightarrow> string" where
  "escape_ascii b =
    (if b = 34 \<or> b = 92 then [bslash, char_of b]
     else if b = 8 then [bslash, CHR ''b''] else if b = 12 then [bslash, CHR ''f'']
     else if b = 10 then [bslash, CHR ''n''] else if b = 13 then [bslash, CHR ''r'']
     else if b = 9 then [bslash, CHR ''t'']
     else if b < 32 \<or> b = 60 \<or> b = 62 \<or> b = 38
       then [bslash, CHR ''u'', CHR ''0'', CHR ''0'', hex_digit (b div 16), hex_digit (b mod 16)]
     else [char_of b])"

fun escape_bytes :: "nat \<Rightarrow> nat list \<Rightarrow> string" where
  "escape_bytes _ [] = []"
| "escape_bytes 0 (b # bs) = []"
| "escape_bytes (Suc n) (b # bs) =
     (if b < 128 then escape_ascii b @ escape_bytes n bs
      else (let k = utf8_len (b # bs)
            in if k = 0 then bslash # ''ufffd'' @ escape_bytes n bs
               else if take 3 (b # bs) = [226, 128, 168] then bslash # ''u2028'' @ escape_bytes n (drop 2 bs)
               else if take 3 (b # bs) = [226, 128, 169] then bslash # ''u2029'' @ escape_bytes n (drop 2 bs)
               else map char_of (take k (b # bs)) @ escape_bytes n (drop (k - 1) bs)))"

definition quote :: "string \<Rightarrow> string" where
  "quote s = CHR 0x22 # escape_bytes (length s) (map of_char s) @ [CHR 0x22]"

fun marshal :: "json \<Rightarrow> string" where
  "marshal JNull = ''null''"
| "marshal (JBool b) = (if b then ''true'' else ''false'')"
| "marshal (JInt i) = int_dec i"
| "marshal (JFloat s) = s"
| "marshal (JStr s) = quote s"
| "marshal (JArr xs) = ''['' @ join '','' (map marshal xs) @ '']''"
| "marshal (JObj kvs) =
     ''{'' @ join '','' (map (\<lambda>(k, t). quote k @ '':'' @ t)
                (sort_key fst (map (\<lambda>(k, v). (k, marshal v)) kvs))) @ ''}''"
| "marshal (JStruct kvs) =
     ''{'' @ join '','' (map (\<lambda>(k, v). quote k @ '':'' @ marshal v) kvs) @ ''}''"

definition str_list :: "string list \<Rightarrow> json" where
  "str_list xs = JArr (map JStr xs)"

text \<open>A slice that no \<^verbatim>\<open>append\<close> has touched is nil, which is written \<^verbatim>\<open>null\<close>.\<close>

definition nil_list :: "string list \<Rightarrow> json" where
  "nil_list xs = (if xs = [] then JNull else str_list xs)"

text \<open>A field tagged \<^verbatim>\<open>omitempty\<close> is left out of its struct when it is the zero value.\<close>

definition omit_if :: "bool \<Rightarrow> string \<Rightarrow> json \<Rightarrow> (string \<times> json) list" where
  "omit_if is_zero_value k v = (if is_zero_value then [] else [(k, v)])"

subsection \<open>\<^verbatim>\<open>fmt.Sprint\<close>\<close>

fun sprint :: "json \<Rightarrow> string" where
  "sprint JNull = ''<nil>''"
| "sprint (JBool b) = (if b then ''true'' else ''false'')"
| "sprint (JInt i) = int_dec i"
| "sprint (JFloat s) = s"
| "sprint (JStr s) = s"
| "sprint (JArr xs) = ''['' @ join '' '' (map sprint xs) @ '']''"
| "sprint (JObj kvs) =
     ''map['' @ join '' '' (map (\<lambda>(k, t). k @ '':'' @ t)
                (sort_key fst (map (\<lambda>(k, v). (k, sprint v)) kvs))) @ '']''"
| "sprint (JStruct kvs) = ''{'' @ join '' '' (map (\<lambda>(k, v). sprint v) kvs) @ ''}''"

end
