(* ===== verification/Go_Time.thy ===== *)
theory Go_Time
  imports Go_Encoding
begin

text \<open>
  Package \<^verbatim>\<open>time\<close> and the sources of nondeterminism. A \<^verbatim>\<open>time.Time\<close> is its instant, in nanoseconds
  since Go's zero time (0001-01-01T00:00:00Z), so \<^verbatim>\<open>IsZero\<close> is \<open>t = 0\<close> and \<^verbatim>\<open>UTC()\<close> is the identity.
  A \<^verbatim>\<open>time.Duration\<close> is its number of nanoseconds. \<^verbatim>\<open>t.Sub(u)\<close> saturates at about 292 years in Go;
  the modelled code only compares differences with bounds far below that, where saturation
  changes no comparison.
\<close>

type_synonym time = int
type_synonym duration = int

definition nanosecond :: duration where "nanosecond = 1"
definition go_second :: duration where "go_second = 1000000000"
definition minute :: duration where "minute = 60 * go_second"
definition hour :: duration where "hour = 60 * minute"

lemmas duration_defs = nanosecond_def go_second_def minute_def hour_def

definition is_zero :: "time \<Rightarrow> bool" where
  "is_zero t \<longleftrightarrow> t = 0"

definition after :: "time \<Rightarrow> time \<Rightarrow> bool" where
  "after t u \<longleftrightarrow> u < t"

subsection \<open>Layouts\<close>

text \<open>
  The civil date of a day number (days since 0001-01-01), counted from 1 March so that the leap
  day is the last day of its year.
\<close>

definition civil :: "int \<Rightarrow> int \<times> int \<times> int" where
  "civil days =
    (let z = days + 306;
         era = z div 146097;
         doe = z mod 146097;
         yoe = (doe - doe div 1460 + doe div 36524 - doe div 146096) div 365;
         doy = doe - (365 * yoe + yoe div 4 - yoe div 100);
         mp = (5 * doy + 2) div 153;
         d = doy - (153 * mp + 2) div 5 + 1;
         m = (if mp < 10 then mp + 3 else mp - 9);
         y = yoe + 400 * era + (if m \<le> 2 then 1 else 0)
     in (y, m, d))"

definition two :: "int \<Rightarrow> string" where "two i = zero_pad 2 (nat i)"

definition year4 :: "int \<Rightarrow> string" where
  "year4 y = (if y < 0 then CHR ''-'' # zero_pad 4 (nat (- y)) else zero_pad 4 (nat y))"

definition drop_zeros :: "string \<Rightarrow> string" where
  "drop_zeros s = rev (dropWhile ((=) (CHR ''0'')) (rev s))"

definition clock_of :: "time \<Rightarrow> int \<times> int \<times> int \<times> int" where
  "clock_of t =
    (let s = t div go_second mod 86400
     in (s div 3600, s div 60 mod 60, s mod 60, t mod go_second))"

definition rfc3339nano :: "time \<Rightarrow> string" where
  "rfc3339nano t =
    (let (y, mo, d) = civil (t div (86400 * go_second));
         (h, mi, s, ns) = clock_of t;
         frac = drop_zeros (zero_pad 9 (nat ns))
     in year4 y @ ''-'' @ two mo @ ''-'' @ two d @ ''T'' @ two h @ '':'' @ two mi @ '':'' @ two s
          @ (if frac = [] then [] else CHR ''.'' # frac) @ ''Z'')"

definition compact_nano :: "time \<Rightarrow> string" where
  "compact_nano t =
    (let (y, mo, d) = civil (t div (86400 * go_second));
         (h, mi, s, ns) = clock_of t
     in year4 y @ two mo @ two d @ two h @ two mi @ two s @ ''.'' @ zero_pad 9 (nat ns))"

subsection \<open>The world: clock readings and random bytes\<close>

text \<open>
  \<open>clock\<close> is the sequence of readings \<^verbatim>\<open>time.Now()\<close> returns, \<open>entropy\<close> the sequence of results of
  \<^verbatim>\<open>rand.Read\<close>, the bytes it fills the caller's buffer with (\<open>None\<close> where it fails), and \<open>ctx_done\<close> the sequence of answers to
  \<^verbatim>\<open>ctx.Err() != nil\<close>; the counters say how many have been consumed. All three are arbitrary:
  theorems that need unique identifiers, a monotone clock or a live context say so.
\<close>

record world =
  clock :: "nat \<Rightarrow> time"
  ticks :: nat
  entropy :: "nat \<Rightarrow> string option"
  drawn :: nat
  ctx_done :: "nat \<Rightarrow> bool"
  polls :: nat

definition ctx_err :: "world \<Rightarrow> bool \<times> world" where
  "ctx_err w = (ctx_done w (polls w), w\<lparr>polls := Suc (polls w)\<rparr>)"

definition time_now :: "world \<Rightarrow> time \<times> world" where
  "time_now w = (clock w (ticks w), w\<lparr>ticks := Suc (ticks w)\<rparr>)"

definition new_id :: "string \<Rightarrow> world \<Rightarrow> string \<times> world" where
  "new_id prefix w =
    (let w1 = w\<lparr>drawn := Suc (drawn w)\<rparr>
     in case entropy w (drawn w) of
          Some b \<Rightarrow> (prefix @ ''_'' @ hex_encode b, w1)
        | None \<Rightarrow> (let (t, w2) = time_now w1 in (prefix @ ''_'' @ compact_nano t, w2)))"

definition random_bytes :: "world \<Rightarrow> string option \<times> world" where
  "random_bytes w = (entropy w (drawn w), w\<lparr>drawn := Suc (drawn w)\<rparr>)"

text \<open>
  Identifiers drawn from distinct random values differ: the prefix and the hexadecimal
  rendering are injective.
\<close>

lemma new_id_inj:
  assumes "entropy w (drawn w) = Some b" "entropy w' (drawn w') = Some b'"
    and "fst (new_id p w) = fst (new_id p w')"
  shows "b = b'"
  using assms by (auto simp: new_id_def Let_def dest: hex_encode_inj)

lemma new_id_nonempty [simp]: "fst (new_id p w) \<noteq> []"
  by (auto simp: new_id_def Let_def split: option.splits prod.splits)

lemma time_now_frame [simp]:
  "clock (snd (time_now w)) = clock w" "entropy (snd (time_now w)) = entropy w"
  "ctx_done (snd (time_now w)) = ctx_done w" "polls (snd (time_now w)) = polls w"
  "drawn (snd (time_now w)) = drawn w"
  by (simp_all add: time_now_def)

lemma new_id_frame [simp]:
  "clock (snd (new_id p w)) = clock w" "entropy (snd (new_id p w)) = entropy w"
  "ctx_done (snd (new_id p w)) = ctx_done w" "polls (snd (new_id p w)) = polls w"
  by (auto simp: new_id_def time_now_def Let_def split: option.splits)

lemma ctx_err_frame [simp]:
  "clock (snd (ctx_err w)) = clock w" "entropy (snd (ctx_err w)) = entropy w"
  "ctx_done (snd (ctx_err w)) = ctx_done w" "drawn (snd (ctx_err w)) = drawn w"
  by (simp_all add: ctx_err_def)

text \<open>
  A context that is never cancelled. Every step leaves the sequence \<open>ctx_done\<close> unchanged, so a
  live world stays live.
\<close>

definition live :: "world \<Rightarrow> bool" where
  "live w \<longleftrightarrow> (\<forall>n. \<not> ctx_done w n)"

lemma live_frame [simp]:
  "live (snd (time_now w)) = live w" "live (snd (new_id p w)) = live w"
  "live (snd (ctx_err w)) = live w"
  by (simp_all add: live_def)

lemma live_ctx_err [simp]: "live w \<Longrightarrow> fst (ctx_err w) = False"
  by (simp add: live_def ctx_err_def)

end
