(* ===== verification/Core_Model.thy ===== *)
theory Core_Model
  imports Go_Json Go_Time
begin

text \<open>
  The canonical domain objects of \<^verbatim>\<open>internal/core/model.go\<close>: one record per struct, with the fields
  in the source's order under a prefix of the struct's name. \<^verbatim>\<open>Severity\<close> and the lifecycle states
  are string types in the sources, not closed enumerations, so they stay strings here. A nil
  pointer is \<open>None\<close>; a nil metadata map is \<open>JNull\<close>. Go's \<^verbatim>\<open>int\<close> fields are unbounded integers: no
  modelled operation computes a value near the 64-bit bounds except the version counters,
  which grow by one per accepted write.
\<close>

type_synonym severity = string
type_synonym tenant = string

definition SeverityCritical :: severity where "SeverityCritical = ''CRITICAL''"
definition SeverityHigh :: severity where "SeverityHigh = ''HIGH''"
definition SeverityMedium :: severity where "SeverityMedium = ''MEDIUM''"
definition SeverityLow :: severity where "SeverityLow = ''LOW''"
definition SeverityInformational :: severity where "SeverityInformational = ''INFORMATIONAL''"

lemmas severity_defs = SeverityCritical_def SeverityHigh_def SeverityMedium_def SeverityLow_def
  SeverityInformational_def

subsection \<open>Errors\<close>

text \<open>
  The sentinel errors of the modelled packages. Wrapping (\<^verbatim>\<open>%w\<close>) keeps the sentinel, which is what
  callers test with \<^verbatim>\<open>errors.Is\<close>; the message text is not modelled. \<open>NodeError\<close> is the
  SOAR worker's error type with its code, its detail and whether it is permanent, \<open>PanicIndexOutOfRange\<close> a
  run-time panic, \<open>ErrContext\<close> a cancelled request context and \<open>ErrStorage\<close> any other failure a storage
  adapter reports.
\<close>

datatype error =
    ErrNotFound | ErrVersionConflict | ErrAlreadyExists
  | ErrInvalidTransition | ErrClosureDetails | ErrNoAlerts
  | ErrInvalidEvent
  | ErrInvalidCorrelationObservation | ErrInvalidRule
  | ErrInvalidCase | CaseErrInvalidTransition | CaseErrClosureDetails | ErrTaskTransition
  | ErrInvalidQuery
  | ErrEvidenceState | ErrInvalidEvidence | ErrEvidencePending | ErrEvidenceIntegrity
  | ErrIdempotencyMismatch | ErrBlobNotFound
  | ErrInvalidPlaybook | ErrValidationFailed | SoarErrInvalidState | ErrInvalidExecution
  | ErrInvalidApprovalDecision | ErrInvalidApprovalReason | ErrApprovalVersionConflict
  | ErrInvalidRequest | ErrScopeDenied | ErrUnauthenticated | ErrInvalidToken | ErrEnrollmentRejected
  | ErrNotAsset
  | NodeError string string bool
  | PanicIndexOutOfRange | ErrContext
  | ErrStorage string

type_synonym 'a result = "error + 'a"

text \<open>
  A method of a storage port that takes a context and returns a value or an error: it runs on
  the adapter's state and the world, and returns its result with both updated. \<open>op_bind\<close> is the
  sources' \<^verbatim>\<open>x, err := f(); if err != nil { return err }\<close>.
\<close>

type_synonym ('s, 'a) op = "'s \<times> world \<Rightarrow> 'a result \<times> ('s \<times> world)"

definition op_return :: "'a \<Rightarrow> ('s, 'a) op" where
  "op_return x sw = (Inr x, sw)"

definition op_fail :: "error \<Rightarrow> ('s, 'a) op" where
  "op_fail e sw = (Inl e, sw)"

definition op_bind :: "('s, 'a) op \<Rightarrow> ('a \<Rightarrow> ('s, 'b) op) \<Rightarrow> ('s, 'b) op" where
  "op_bind f g sw = (case f sw of (Inl e, sw') \<Rightarrow> (Inl e, sw') | (Inr x, sw') \<Rightarrow> g x sw')"

definition op_now :: "('s, time) op" where
  "op_now sw = (let (t, w) = time_now (snd sw) in (Inr t, (fst sw, w)))"

definition op_new_id :: "string \<Rightarrow> ('s, string) op" where
  "op_new_id p sw = (let (i, w) = new_id p (snd sw) in (Inr i, (fst sw, w)))"

lemma op_bind_return [simp]: "op_bind (op_return x) g sw = g x sw"
  by (simp add: op_bind_def op_return_def)

lemma op_bind_fail [simp]: "op_bind (op_fail e) g sw = (Inl e, sw)"
  by (simp add: op_bind_def op_fail_def)

lemma op_bind_eq_Inr:
  "op_bind f g sw = (Inr y, sw') \<longleftrightarrow> (\<exists>x sw1. f sw = (Inr x, sw1) \<and> g x sw1 = (Inr y, sw'))"
  by (auto simp: op_bind_def split: prod.splits sum.splits)

subsection \<open>Events\<close>

record event_source =
  src_vendor :: string
  src_product :: string
  src_type :: string

record schema_ref =
  ocsf_version :: string
  class_uid :: int

record user_ref =
  user_id :: string
  user_name :: string
  is_privileged :: bool

record device_ref =
  device_id :: string
  device_hostname :: string
  device_ip :: string
  device_department :: string
  device_criticality :: int

record endpoint_ref =
  endpoint_ip :: string
  endpoint_port :: int
  endpoint_hostname :: string

record process_ref =
  process_name :: string
  process_pid :: int
  process_command_line :: string
  process_parent_name :: string

record security_result =
  sr_action :: string
  sr_outcome :: string

record raw_ref =
  raw_message :: string
  raw_hash :: string
  raw_reference :: string

record parser_ref =
  parser_id :: string
  parser_version :: string

record canonical_event =
  ev_id :: string
  ev_tenant :: tenant
  ev_time :: time
  ev_ingest_time :: time
  ev_collector :: string
  ev_source_id :: string
  ev_source_address :: string
  ev_category :: string
  ev_activity :: string
  ev_source :: event_source
  ev_schema :: schema_ref
  ev_severity :: int
  ev_confidence :: int
  ev_user :: user_ref
  ev_device :: device_ref
  ev_src :: endpoint_ref
  ev_dst :: endpoint_ref
  ev_process :: process_ref
  ev_result :: security_result
  ev_raw :: raw_ref
  ev_parser :: parser_ref
  ev_metadata :: json

definition zero_event :: canonical_event where
  "zero_event =
    \<lparr>ev_id = [], ev_tenant = [], ev_time = 0, ev_ingest_time = 0, ev_collector = [],
     ev_source_id = [], ev_source_address = [], ev_category = [], ev_activity = [],
     ev_source = \<lparr>src_vendor = [], src_product = [], src_type = []\<rparr>,
     ev_schema = \<lparr>ocsf_version = [], class_uid = 0\<rparr>, ev_severity = 0, ev_confidence = 0,
     ev_user = \<lparr>user_id = [], user_name = [], is_privileged = False\<rparr>,
     ev_device = \<lparr>device_id = [], device_hostname = [], device_ip = [], device_department = [],
                  device_criticality = 0\<rparr>,
     ev_src = \<lparr>endpoint_ip = [], endpoint_port = 0, endpoint_hostname = []\<rparr>,
     ev_dst = \<lparr>endpoint_ip = [], endpoint_port = 0, endpoint_hostname = []\<rparr>,
     ev_process = \<lparr>process_name = [], process_pid = 0, process_command_line = [],
                   process_parent_name = []\<rparr>,
     ev_result = \<lparr>sr_action = [], sr_outcome = []\<rparr>,
     ev_raw = \<lparr>raw_message = [], raw_hash = [], raw_reference = []\<rparr>,
     ev_parser = \<lparr>parser_id = [], parser_version = []\<rparr>, ev_metadata = JNull\<rparr>"

subsection \<open>Detection\<close>

record risk_factor =
  rf_code :: string
  rf_label :: string
  rf_delta :: int
  rf_source :: string

definition risk_factor :: "string \<Rightarrow> string \<Rightarrow> int \<Rightarrow> string \<Rightarrow> risk_factor" where
  "risk_factor code label delta source =
     \<lparr>rf_code = code, rf_label = label, rf_delta = delta, rf_source = source\<rparr>"

lemma rf_delta_risk_factor [simp]: "rf_delta (risk_factor c l d s) = d"
  by (simp add: risk_factor_def)

record rule_ref =
  rule_id :: string
  rule_title :: string
  rule_version :: string

record detection_rule =
  dr_id :: string
  dr_title :: string
  dr_description :: string
  dr_version :: string
  dr_severity :: severity
  dr_confidence :: int
  dr_mitre :: "string list"
  dr_data_sources :: "string list"
  dr_false_positives :: "string list"
  dr_owner :: string
  dr_state :: string
  dr_updated_at :: time

record finding =
  fi_id :: string
  fi_tenant :: tenant
  fi_event :: string
  fi_rule :: rule_ref
  fi_title :: string
  fi_severity :: severity
  fi_confidence :: int
  fi_mitre :: "string list"
  fi_matched_fields :: "string list"
  fi_risk_score :: int
  fi_risk_breakdown :: "risk_factor list"
  fi_created_at :: time

definition zero_finding :: finding where
  "zero_finding =
    \<lparr>fi_id = [], fi_tenant = [], fi_event = [],
     fi_rule = \<lparr>rule_id = [], rule_title = [], rule_version = []\<rparr>, fi_title = [], fi_severity = [],
     fi_confidence = 0, fi_mitre = [], fi_matched_fields = [], fi_risk_score = 0,
     fi_risk_breakdown = [], fi_created_at = 0\<rparr>"

subsection \<open>Alerts, incidents and the audit log\<close>

record entity_summary =
  en_type :: string
  en_id :: string
  en_name :: string
  en_label :: string

record sla_info =
  acknowledge_by :: time
  sla_breached :: bool
  acknowledged :: "time option"

record alert =
  al_id :: string
  al_tenant :: tenant
  al_title :: string
  al_severity :: severity
  al_risk_score :: int
  al_risk_breakdown :: "risk_factor list"
  al_status :: string
  al_disposition :: string
  al_assignee :: string
  al_rule :: rule_ref
  al_mitre :: "string list"
  al_entity :: entity_summary
  al_finding_ids :: "string list"
  al_event_ids :: "string list"
  al_event_count :: int
  al_first_seen :: time
  al_last_seen :: time
  al_sla :: sla_info
  al_version :: int
  al_created_at :: time
  al_updated_at :: time

definition zero_alert :: alert where
  "zero_alert =
    \<lparr>al_id = [], al_tenant = [], al_title = [], al_severity = [], al_risk_score = 0,
     al_risk_breakdown = [], al_status = [], al_disposition = [], al_assignee = [],
     al_rule = \<lparr>rule_id = [], rule_title = [], rule_version = []\<rparr>, al_mitre = [],
     al_entity = \<lparr>en_type = [], en_id = [], en_name = [], en_label = []\<rparr>, al_finding_ids = [],
     al_event_ids = [], al_event_count = 0, al_first_seen = 0, al_last_seen = 0,
     al_sla = \<lparr>acknowledge_by = 0, sla_breached = False, acknowledged = None\<rparr>, al_version = 0,
     al_created_at = 0, al_updated_at = 0\<rparr>"

record timeline_entry =
  tl_id :: string
  tl_type :: string
  tl_message :: string
  tl_actor :: string
  tl_created_at :: time
  tl_data :: json

record incident =
  in_id :: string
  in_tenant :: tenant
  in_title :: string
  in_summary :: string
  in_severity :: severity
  in_status :: string
  in_disposition :: string
  in_closure_reason :: string
  in_assignee :: string
  in_alert_ids :: "string list"
  in_finding_ids :: "string list"
  in_event_ids :: "string list"
  in_entities :: "entity_summary list"
  in_mitre :: "string list"
  in_risk_score :: int
  in_timeline :: "timeline_entry list"
  in_sla :: sla_info
  in_allowed :: "string list"
  in_version :: int
  in_created_at :: time
  in_updated_at :: time

definition zero_incident :: incident where
  "zero_incident =
    \<lparr>in_id = [], in_tenant = [], in_title = [], in_summary = [], in_severity = [], in_status = [],
     in_disposition = [], in_closure_reason = [], in_assignee = [], in_alert_ids = [],
     in_finding_ids = [], in_event_ids = [], in_entities = [], in_mitre = [], in_risk_score = 0,
     in_timeline = [], in_sla = \<lparr>acknowledge_by = 0, sla_breached = False, acknowledged = None\<rparr>,
     in_allowed = [], in_version = 0, in_created_at = 0, in_updated_at = 0\<rparr>"

record audit_entry =
  au_id :: string
  au_tenant :: tenant
  au_actor :: string
  au_action :: string
  au_resource_type :: string
  au_resource_id :: string
  au_outcome :: string
  au_request_id :: string
  au_metadata :: json
  au_previous_hash :: string
  au_hash :: string
  au_created_at :: time

record ingest_result =
  ir_event :: canonical_event
  ir_findings :: "finding list"
  ir_alerts :: "alert list"
  ir_duplicate :: bool

subsection \<open>Severities\<close>

definition SeverityRank :: "severity \<Rightarrow> int" where
  "SeverityRank value =
    (if value = SeverityCritical then 5
     else if value = SeverityHigh then 4
     else if value = SeverityMedium then 3
     else if value = SeverityLow then 2
     else 1)"

definition SeverityFromRisk :: "int \<Rightarrow> severity" where
  "SeverityFromRisk score =
    (if 85 \<le> score then SeverityCritical
     else if 65 \<le> score then SeverityHigh
     else if 40 \<le> score then SeverityMedium
     else if 20 \<le> score then SeverityLow
     else SeverityInformational)"

lemma severity_distinct [simp]:
  "SeverityCritical \<noteq> SeverityHigh" "SeverityCritical \<noteq> SeverityMedium"
  "SeverityCritical \<noteq> SeverityLow" "SeverityCritical \<noteq> SeverityInformational"
  "SeverityHigh \<noteq> SeverityMedium" "SeverityHigh \<noteq> SeverityLow"
  "SeverityHigh \<noteq> SeverityInformational" "SeverityMedium \<noteq> SeverityLow"
  "SeverityMedium \<noteq> SeverityInformational" "SeverityLow \<noteq> SeverityInformational"
  "SeverityHigh \<noteq> SeverityCritical" "SeverityMedium \<noteq> SeverityCritical"
  "SeverityLow \<noteq> SeverityCritical" "SeverityInformational \<noteq> SeverityCritical"
  "SeverityMedium \<noteq> SeverityHigh" "SeverityLow \<noteq> SeverityHigh"
  "SeverityInformational \<noteq> SeverityHigh" "SeverityLow \<noteq> SeverityMedium"
  "SeverityInformational \<noteq> SeverityMedium" "SeverityInformational \<noteq> SeverityLow"
  by (simp_all add: severity_defs)

lemma SeverityRank_bounds: "1 \<le> SeverityRank s" "SeverityRank s \<le> 5"
  by (simp_all add: SeverityRank_def)

lemma SeverityRank_simps [simp]:
  "SeverityRank SeverityCritical = 5" "SeverityRank SeverityHigh = 4"
  "SeverityRank SeverityMedium = 3" "SeverityRank SeverityLow = 2"
  "SeverityRank SeverityInformational = 1"
  by (simp_all add: SeverityRank_def)

lemma SeverityFromRisk_mono: "a \<le> b \<Longrightarrow> SeverityRank (SeverityFromRisk a) \<le> SeverityRank (SeverityFromRisk b)"
  by (simp add: SeverityFromRisk_def)

end
