(* ===== verification/Store_Contracts.thy ===== *)
theory Store_Contracts
  imports Core_Model
begin

text \<open>
  The contracts between the services and their stores, as locales: write-once collections
  with an insertion order (events, findings, incidents), optimistically versioned records
  (alerts, incidents, cases) and hash-chained logs (the audit log). A client's lemma is proved
  once here, over the contract, and holds for every store that interprets it.
\<close>

subsection \<open>Tenant-keyed collections\<close>

text \<open>\<open>upd2 f t k v\<close> is \<^verbatim>\<open>f[t][k] = v\<close>, \<open>snoc f t k\<close> is \<^verbatim>\<open>f[t] = append(f[t], k)\<close>.\<close>

definition upd2 :: "('t \<Rightarrow> 'k \<Rightarrow> 'v option) \<Rightarrow> 't \<Rightarrow> 'k \<Rightarrow> 'v \<Rightarrow> 't \<Rightarrow> 'k \<Rightarrow> 'v option" where
  "upd2 f t k v = f(t := (f t)(k \<mapsto> v))"

definition snoc :: "('t \<Rightarrow> 'k list) \<Rightarrow> 't \<Rightarrow> 'k \<Rightarrow> 't \<Rightarrow> 'k list" where
  "snoc f t k = f(t := f t @ [k])"

lemma upd2_apply [simp]: "upd2 f t k v t' k' = (if t' = t \<and> k' = k then Some v else f t' k')"
  by (simp add: upd2_def)

lemma upd2_other [simp]: "t' \<noteq> t \<Longrightarrow> upd2 f t k v t' = f t'"
  by (simp add: upd2_def)

lemma dom_upd2: "dom (upd2 f t k v t') = (if t' = t then insert k (dom (f t)) else dom (f t'))"
  by (simp add: upd2_def)

lemma snoc_apply [simp]: "snoc f t k t' = (if t' = t then f t @ [k] else f t')"
  by (simp add: snoc_def)

text \<open>
  The order slice of a collection lists exactly the keys of its map, once each: what makes the
  list endpoints, which walk the slice, show every stored object and nothing else.
\<close>

definition indexed :: "('t \<Rightarrow> 'k \<Rightarrow> 'v option) \<Rightarrow> ('t \<Rightarrow> 'k list) \<Rightarrow> bool" where
  "indexed f ord \<longleftrightarrow> (\<forall>t. distinct (ord t) \<and> set (ord t) = dom (f t))"

lemma indexed_insert:
  "indexed f ord \<Longrightarrow> f t k = None \<Longrightarrow> indexed (upd2 f t k v) (snoc ord t k)"
  by (auto simp: indexed_def dom_upd2 domIff split: if_splits)

lemma indexed_update:
  "indexed f ord \<Longrightarrow> f t k = Some u \<Longrightarrow> indexed (upd2 f t k v) ord"
  unfolding indexed_def
  by (metis domIff dom_upd2 insert_absorb option.distinct(1))

lemma indexed_clear:
  "indexed f ord \<Longrightarrow> indexed (f(t := Map.empty)) (ord(t := []))"
  by (auto simp: indexed_def)

lemma indexed_empty [simp]: "indexed (\<lambda>_ _. None) (\<lambda>_. [])"
  by (simp add: indexed_def)

lemma indexed_lookup: "indexed f ord \<Longrightarrow> k \<in> set (ord t) \<longleftrightarrow> (\<exists>v. f t k = Some v)"
  by (auto simp: indexed_def)

text \<open>Every stored object is filed under its own tenant and identifier.\<close>

definition filed :: "('v \<Rightarrow> 't) \<Rightarrow> ('v \<Rightarrow> 'k) \<Rightarrow> ('t \<Rightarrow> 'k \<Rightarrow> 'v option) \<Rightarrow> bool" where
  "filed ten key f \<longleftrightarrow> (\<forall>t k v. f t k = Some v \<longrightarrow> ten v = t \<and> key v = k)"

lemma filed_upd2: "filed ten key f \<Longrightarrow> ten v = t \<Longrightarrow> key v = k \<Longrightarrow> filed ten key (upd2 f t k v)"
  by (auto simp: filed_def split: if_splits)

lemma filed_clear: "filed ten key f \<Longrightarrow> filed ten key (f(t := Map.empty))"
  by (auto simp: filed_def)

lemma filed_empty [simp]: "filed ten key (\<lambda>_ _. None)"
  by (simp add: filed_def)

lemma filedD: "filed ten key f \<Longrightarrow> f t k = Some v \<Longrightarrow> ten v = t \<and> key v = k"
  by (auto simp: filed_def)

locale write_once =
  fixes look :: "'s \<Rightarrow> 't \<Rightarrow> 'k \<Rightarrow> 'v option"
    and order :: "'s \<Rightarrow> 't \<Rightarrow> 'k list"
    and put :: "'v \<Rightarrow> 's \<Rightarrow> 's"
    and ten :: "'v \<Rightarrow> 't"
    and key :: "'v \<Rightarrow> 'k"
  assumes put_present: "look s (ten v) (key v) = Some u \<Longrightarrow> put v s = s"
    and put_look: "look s (ten v) (key v) = None \<Longrightarrow> look (put v s) = upd2 (look s) (ten v) (key v) v"
    and put_order: "look s (ten v) (key v) = None \<Longrightarrow> order (put v s) = snoc (order s) (ten v) (key v)"
begin

lemma look_put_self: "look (put v s) (ten v) (key v) \<noteq> None"
  by (cases "look s (ten v) (key v)") (simp_all add: put_look put_present)

lemma put_idem: "put v (put v s) = put v s"
  using look_put_self [of v s] put_present [of "put v s" v] by blast

text \<open>A stored object is never replaced or lost, whatever is put afterwards.\<close>

lemma look_put_keeps: "look s t k = Some u \<Longrightarrow> look (put v s) t k = Some u"
  by (cases "look s (ten v) (key v)") (auto simp: put_look put_present)

lemma look_puts_keeps: "look s t k = Some u \<Longrightarrow> look (foldr put vs s) t k = Some u"
  by (induction vs) (auto intro: look_put_keeps)

lemma put_other_tenant: "t \<noteq> ten v \<Longrightarrow> look (put v s) t = look s t \<and> order (put v s) t = order s t"
  by (cases "look s (ten v) (key v)") (simp_all add: put_look put_order put_present)

lemma indexed_put: "indexed (look s) (order s) \<Longrightarrow> indexed (look (put v s)) (order (put v s))"
  by (cases "look s (ten v) (key v)") (simp_all add: put_look put_order put_present indexed_insert)

lemma filed_put: "filed ten key (look s) \<Longrightarrow> filed ten key (look (put v s))"
  by (cases "look s (ten v) (key v)") (simp_all add: put_look put_present filed_upd2)

text \<open>Existing keys keep their position: the order slice only grows at its end.\<close>

lemma order_put_prefix: "\<exists>ks. order (put v s) t = order s t @ ks"
  by (cases "look s (ten v) (key v)") (auto simp: put_order put_present)

end

subsection \<open>Optimistic concurrency\<close>

text \<open>
  \<^verbatim>\<open>MutateX(tenant, id, expectedVersion, mutate)\<close>: a missing record, a stale version and a refused
  change leave the store as it was; an accepted change is stored under the same key with the
  version one higher. A caller passes the version it read, or 0 for an unconditional change.
\<close>

locale versioned =
  fixes get :: "'s \<Rightarrow> tenant \<Rightarrow> string \<Rightarrow> 'v option"
    and version :: "'v \<Rightarrow> int"
    and mutate :: "tenant \<Rightarrow> string \<Rightarrow> int \<Rightarrow> ('v \<Rightarrow> world \<Rightarrow> 'v result \<times> world) \<Rightarrow> ('s, 'v) op"
  assumes missing: "get s t i = None \<Longrightarrow> mutate t i n f (s, w) = (Inl ErrNotFound, (s, w))"
    and stale: "get s t i = Some a \<Longrightarrow> 0 < n \<Longrightarrow> version a \<noteq> n \<Longrightarrow>
      mutate t i n f (s, w) = (Inl ErrVersionConflict, (s, w))"
    and refused: "get s t i = Some a \<Longrightarrow> \<not> (0 < n \<and> version a \<noteq> n) \<Longrightarrow> f a w = (Inl e, w1) \<Longrightarrow>
      mutate t i n f (s, w) = (Inl e, (s, w1))"
    and accepted: "get s t i = Some a \<Longrightarrow> \<not> (0 < n \<and> version a \<noteq> n) \<Longrightarrow> f a w = (Inr b, w1) \<Longrightarrow>
      \<exists>c s' w2. mutate t i n f (s, w) = (Inr c, (s', w2)) \<and>
                get s' = upd2 (get s) t i c \<and> version c = version b + 1"
begin

text \<open>A failed call changes no record.\<close>

lemma failed_unchanged:
  assumes "mutate t i n f (s, w) = (Inl e, (s', w'))"
  shows "s' = s"
proof (cases "get s t i")
  case None
  with assms show ?thesis by (simp add: missing)
next
  case (Some a)
  show ?thesis
  proof (cases "0 < n \<and> version a \<noteq> n")
    case True
    with Some assms show ?thesis by (simp add: stale)
  next
    case False
    obtain r w1 where f: "f a w = (r, w1)" by fastforce
    show ?thesis
    proof (cases r)
      case (Inl e1)
      with Some False f assms show ?thesis by (simp add: refused)
    next
      case (Inr b)
      with accepted [OF Some False] f assms show ?thesis by fastforce
    qed
  qed
qed

text \<open>A successful call ran the change on the stored record, at the version it expected.\<close>

lemma success_cases:
  assumes "mutate t i n f (s, w) = (Inr c, (s', w'))"
  obtains a b w1 where "get s t i = Some a" "n \<le> 0 \<or> version a = n" "f a w = (Inr b, w1)"
    "version c = version b + 1" "get s' = upd2 (get s) t i c"
proof (cases "get s t i")
  case None
  with assms show ?thesis by (simp add: missing)
next
  case (Some a)
  show ?thesis
  proof (cases "0 < n \<and> version a \<noteq> n")
    case True
    with Some assms show ?thesis by (simp add: stale)
  next
    case False
    obtain r w1 where f: "f a w = (r, w1)" by fastforce
    show ?thesis
    proof (cases r)
      case (Inl e1)
      with Some False f assms show ?thesis by (simp add: refused)
    next
      case (Inr b)
      with accepted [OF Some False] f assms that [of a b w1] Some False show ?thesis by fastforce
    qed
  qed
qed

text \<open>
  No lost update: of two writers that read the same version \<open>n\<close>, once the first has succeeded
  the second is refused and changes nothing, whatever the two changes are, as long as the
  first does not set the version itself.
\<close>

lemma no_lost_update:
  assumes first: "mutate t i n f (s, w) = (Inr c, (s1, w1))" and n: "0 < n"
    and f: "\<And>a w b w'. f a w = (Inr b, w') \<Longrightarrow> version b = version a"
  shows "mutate t i n g (s1, w2) = (Inl ErrVersionConflict, (s1, w2))"
proof -
  from first obtain a b w' where a: "get s t i = Some a" "n \<le> 0 \<or> version a = n" "f a w = (Inr b, w')"
    "version c = version b + 1" "get s1 = upd2 (get s) t i c"
    by (rule success_cases)
  with n f have "version c = n + 1" by auto
  moreover from a have "get s1 t i = Some c" by simp
  ultimately show ?thesis using n by (intro stale) auto
qed

text \<open>Only the record under the given tenant and key is touched.\<close>

lemma other_key: "mutate t i n f (s, w) = (r, (s', w')) \<Longrightarrow> (t', i') \<noteq> (t, i) \<Longrightarrow> get s' t' i' = get s t' i'"
proof (cases r)
  case (Inl e)
  assume "mutate t i n f (s, w) = (r, (s', w'))"
  with Inl failed_unchanged show ?thesis by blast
next
  case (Inr c)
  assume "mutate t i n f (s, w) = (r, (s', w'))" and k: "(t', i') \<noteq> (t, i)"
  with Inr obtain a b w1 where "get s' = upd2 (get s) t i c"
    by (blast elim: success_cases)
  with k show ?thesis by auto
qed

end

text \<open>
  What a client can rely on when the store may also fail for reasons of its own: a failed call
  has changed nothing, a successful one ran the change on what it decoded of the stored record.
\<close>

locale optimistic =
  fixes get :: "'s \<Rightarrow> tenant \<Rightarrow> string \<Rightarrow> 'v option"
    and version :: "'v \<Rightarrow> int"
    and mutate :: "tenant \<Rightarrow> string \<Rightarrow> int \<Rightarrow> ('v \<Rightarrow> world \<Rightarrow> 'v result \<times> world) \<Rightarrow> ('s, 'v) op"
    and decode :: "'v \<Rightarrow> 'v"
  assumes failed: "mutate t i n f (s, w) = (Inl e, (s', w')) \<Longrightarrow> s' = s"
    and succeeded: "mutate t i n f (s, w) = (Inr c, (s', w')) \<Longrightarrow>
      \<exists>a b w1 w2. get s t i = Some a \<and> (n \<le> 0 \<or> version a = n) \<and> f (decode a) w1 = (Inr b, w2) \<and>
        (version b = version a \<longrightarrow> version c = version a + 1) \<and> get s' = upd2 (get s) t i c"
    and decode_version: "version (decode a) = version a"
begin

lemma elsewhere:
  assumes "mutate t i n f (s, w) = (r, (s', w'))" "(t', i') \<noteq> (t, i)"
  shows "get s' t' i' = get s t' i'"
proof (cases r)
  case (Inl e)
  with assms(1) have "s' = s" by (auto intro: failed)
  then show ?thesis by simp
next
  case (Inr c)
  with assms(1) obtain a b w1 w2 where "get s' = upd2 (get s) t i c" by (auto dest: succeeded)
  with assms(2) show ?thesis by auto
qed

text \<open>Of two writers at the same version at most one succeeds; the other changes nothing.\<close>

lemma one_writer:
  assumes first: "mutate t i n f (s, w) = (Inr c, (s1, w1))" and n: "0 < n"
    and f: "\<And>a w b w'. f a w = (Inr b, w') \<Longrightarrow> version b = version a"
    and second: "mutate t i n g (s1, w2) = (r, (s2, w3))"
  shows "\<not> is_ok r \<and> s2 = s1"
proof -
  from succeeded [OF first] obtain a b u1 u2 where a: "n \<le> 0 \<or> version a = n"
    "f (decode a) u1 = (Inr b, u2)" "version b = version a \<longrightarrow> version c = version a + 1" "get s1 = upd2 (get s) t i c"
    by blast
  with n f [OF a(2)] have c: "version c = n + 1" "get s1 t i = Some c" by (auto simp: decode_version)
  show ?thesis
  proof (cases r)
    case (Inl e)
    with second show ?thesis by (auto intro: failed)
  next
    case (Inr d)
    from succeeded [OF second [unfolded Inr]] c n show ?thesis by auto
  qed
qed

end

sublocale versioned \<subseteq> relaxed: optimistic get version mutate "\<lambda>a. a"
proof
  fix t i n f s w c s' w'
  assume "mutate t i n f (s, w) = (Inr c, (s', w'))"
  then show "\<exists>a b w1 w2. get s t i = Some a \<and> (n \<le> 0 \<or> version a = n) \<and> f a w1 = (Inr b, w2) \<and>
        (version b = version a \<longrightarrow> version c = version a + 1) \<and> get s' = upd2 (get s) t i c"
    by (rule success_cases) auto
qed (auto dest: failed_unchanged)

subsection \<open>Hash-chained logs\<close>

locale chained_log =
  fixes append :: "'e \<Rightarrow> 's \<times> world \<Rightarrow> 'e \<times> ('s \<times> world)"
    and log :: "'s \<Rightarrow> tenant \<Rightarrow> 'e list"
    and verify :: "tenant \<Rightarrow> 's \<Rightarrow> bool"
    and ten :: "'e \<Rightarrow> tenant"
  assumes append_log: "append e (s, w) = (e', (s', w')) \<Longrightarrow> log s' = snoc (log s) (ten e) e'"
    and append_ten: "append e (s, w) = (e', (s', w')) \<Longrightarrow> ten e' = ten e"
    and append_verify: "append e (s, w) = (e', (s', w')) \<Longrightarrow> verify t s \<Longrightarrow> verify t s'"
begin

text \<open>A run of appends, as the services issue them one per accepted operation.\<close>

fun appends :: "'e list \<Rightarrow> 's \<times> world \<Rightarrow> 's \<times> world" where
  "appends [] sw = sw"
| "appends (e # es) sw = appends es (snd (append e sw))"

lemma appends_verify: "verify t (fst sw) \<Longrightarrow> verify t (fst (appends es sw))"
proof (induction es sw rule: appends.induct)
  case (2 e es sw)
  obtain e' s' w' where a: "append e sw = (e', (s', w'))" by (metis prod.exhaust)
  with 2(2) append_verify [of e "fst sw" "snd sw" e' s' w' t] have "verify t s'" by simp
  with 2(1) a show ?case by simp
qed simp

lemma appends_log_prefix: "\<exists>es'. log (fst (appends es sw)) t = log (fst sw) t @ es'"
proof (induction es sw rule: appends.induct)
  case (2 e es sw)
  obtain e' s' w' where a: "append e sw = (e', (s', w'))" by (metis prod.exhaust)
  with append_log [of e "fst sw" "snd sw" e' s' w'] have "log s' = snoc (log (fst sw)) (ten e) e'" by simp
  with 2 a show ?case by (auto split: if_splits)
qed simp

lemma appends_length:
  "length (log (fst (appends es sw)) t) = length (log (fst sw) t) + length (filter (\<lambda>e. ten e = t) es)"
proof (induction es sw rule: appends.induct)
  case (2 e es sw)
  obtain e' s' w' where a: "append e sw = (e', (s', w'))" by (metis prod.exhaust)
  with append_log [of e "fst sw" "snd sw" e' s' w'] have "log s' = snoc (log (fst sw)) (ten e) e'" by simp
  with 2 a show ?case by auto
qed simp

end

end
