(* ===== verification/Memory_Store.thy ===== *)
theory Memory_Store
  imports Store_Contracts
begin

text \<open>
  The embedded store, \<^verbatim>\<open>internal/store/memory.go\<close>, and its adapter to the repository port,
  \<^verbatim>\<open>internal/store/repository.go\<close>. Every method runs under the store's mutex, so it is one atomic
  function from the store's state to the next. A nested Go map \<^verbatim>\<open>map[tenant]map[id]T\<close> is a
  function from tenants to partial maps: a nil inner map reads as the empty one, and
  \<^verbatim>\<open>ensureTenantLocked\<close>, which allocates the inner maps before a write, is the identity on it.
\<close>

subsection \<open>State\<close>

record event_filter =
  ef_query :: string
  ef_category :: string
  ef_severity :: int
  ef_limit :: int

record alert_filter =
  af_status :: string
  af_severity :: severity
  af_assignee :: string
  af_query :: string
  af_limit :: int

record incident_filter =
  if_status :: string
  if_severity :: severity
  if_query :: string
  if_limit :: int

record memory =
  me_events :: "tenant \<Rightarrow> string \<Rightarrow> canonical_event option"
  me_event_order :: "tenant \<Rightarrow> string list"
  me_findings :: "tenant \<Rightarrow> string \<Rightarrow> finding option"
  me_finding_order :: "tenant \<Rightarrow> string list"
  me_alerts :: "tenant \<Rightarrow> string \<Rightarrow> alert option"
  me_alert_order :: "tenant \<Rightarrow> string list"
  me_dedup :: "string \<Rightarrow> string option"
  me_incidents :: "tenant \<Rightarrow> string \<Rightarrow> incident option"
  me_incident_order :: "tenant \<Rightarrow> string list"
  me_audit :: "tenant \<Rightarrow> audit_entry list"
  me_heads :: "tenant \<Rightarrow> string"
  me_rules :: "detection_rule list"

definition NewMemory :: memory where
  "NewMemory =
    \<lparr>me_events = (\<lambda>_ _. None), me_event_order = (\<lambda>_. []), me_findings = (\<lambda>_ _. None),
     me_finding_order = (\<lambda>_. []), me_alerts = (\<lambda>_ _. None), me_alert_order = (\<lambda>_. []),
     me_dedup = (\<lambda>_. None), me_incidents = (\<lambda>_ _. None), me_incident_order = (\<lambda>_. []),
     me_audit = (\<lambda>_. []), me_heads = (\<lambda>_. []), me_rules = []\<rparr>"

definition or_zero :: "'a \<Rightarrow> 'a option \<Rightarrow> 'a" where
  "or_zero z x = (case x of None \<Rightarrow> z | Some y \<Rightarrow> y)"

lemma or_zero_simps [simp]: "or_zero z None = z" "or_zero z (Some y) = y"
  by (simp_all add: or_zero_def)

definition normalizedLimit :: "int \<Rightarrow> int" where
  "normalizedLimit value = (if value \<le> 0 then 100 else if 500 < value then 500 else value)"

lemma normalizedLimit_bounds: "1 \<le> normalizedLimit v" "normalizedLimit v \<le> 500"
  by (simp_all add: normalizedLimit_def)

definition appendUnique :: "string list \<Rightarrow> string list \<Rightarrow> string list" where
  "appendUnique values additions = add_unseen values (filter (\<lambda>v. v \<noteq> []) additions)"

lemma set_appendUnique: "set (appendUnique vs as) = set vs \<union> (set as - {[]})"
  by (auto simp: appendUnique_def)

lemma distinct_appendUnique [simp]: "distinct (appendUnique vs as) = distinct vs"
  by (simp add: appendUnique_def)

subsection \<open>Rules and tenants\<close>

definition SetRules :: "detection_rule list \<Rightarrow> memory \<Rightarrow> memory" where
  "SetRules rules m = m\<lparr>me_rules := rules\<rparr>"

text \<open>
  \<^verbatim>\<open>sort.Slice\<close> is not stable: it promises only some permutation in the order of the comparison,
  newest first. \<open>ListRules\<close> takes the stable one; its lemmas state what any of them satisfies.
\<close>

definition ListRules :: "memory \<Rightarrow> detection_rule list" where
  "ListRules m = sort_key (\<lambda>r. - dr_updated_at r) (me_rules m)"

definition ResetTenant :: "tenant \<Rightarrow> memory \<Rightarrow> memory" where
  "ResetTenant t m =
    m\<lparr>me_events := (me_events m)(t := Map.empty), me_event_order := (me_event_order m)(t := []),
      me_findings := (me_findings m)(t := Map.empty), me_finding_order := (me_finding_order m)(t := []),
      me_alerts := (me_alerts m)(t := Map.empty), me_alert_order := (me_alert_order m)(t := []),
      me_incidents := (me_incidents m)(t := Map.empty),
      me_incident_order := (me_incident_order m)(t := []),
      me_audit := (me_audit m)(t := []), me_heads := (me_heads m)(t := []),
      me_dedup := (\<lambda>key. if has_prefix key (t @ ''|'') then None else me_dedup m key)\<rparr>"

subsection \<open>Events\<close>

definition PutEvent :: "canonical_event \<Rightarrow> memory \<Rightarrow> (canonical_event \<times> bool) \<times> memory" where
  "PutEvent event m =
    (case me_events m (ev_tenant event) (ev_id event) of
       Some existing \<Rightarrow> ((existing, True), m)
     | None \<Rightarrow>
         ((event, False),
          m\<lparr>me_events := upd2 (me_events m) (ev_tenant event) (ev_id event) event,
            me_event_order := snoc (me_event_order m) (ev_tenant event) (ev_id event)\<rparr>))"

definition GetEvent :: "tenant \<Rightarrow> string \<Rightarrow> memory \<Rightarrow> canonical_event result" where
  "GetEvent t i m = (case me_events m t i of None \<Rightarrow> Inl ErrNotFound | Some e \<Rightarrow> Inr e)"

definition eventContains :: "canonical_event \<Rightarrow> string \<Rightarrow> bool" where
  "eventContains event query =
    contains (to_lower (join '' ''
      [ev_id event, ev_category event, ev_activity event, src_vendor (ev_source event),
       src_product (ev_source event), user_name (ev_user event), device_hostname (ev_device event),
       device_ip (ev_device event), endpoint_ip (ev_src event), endpoint_ip (ev_dst event),
       process_name (ev_process event), process_command_line (ev_process event),
       sr_outcome (ev_result event), raw_message (ev_raw event)])) query"

definition event_selected :: "event_filter \<Rightarrow> canonical_event \<Rightarrow> bool" where
  "event_selected f event =
    (let query = to_lower (trim_space (ef_query f))
     in \<not> (ef_category f \<noteq> [] \<and> \<not> equal_fold (ev_category event) (ef_category f)) \<and>
        \<not> (0 < ef_severity f \<and> ev_severity event \<noteq> ef_severity f) \<and>
        \<not> (query \<noteq> [] \<and> \<not> eventContains event query))"

definition ListEvents :: "tenant \<Rightarrow> event_filter \<Rightarrow> memory \<Rightarrow> canonical_event list" where
  "ListEvents t f m =
    scan_newest (nat (normalizedLimit (ef_limit f))) (event_selected f)
      (map (\<lambda>i. or_zero zero_event (me_events m t i)) (rev (me_event_order m t))) []"

subsection \<open>Findings\<close>

definition PutFinding :: "finding \<Rightarrow> memory \<Rightarrow> memory" where
  "PutFinding finding m =
    (case me_findings m (fi_tenant finding) (fi_id finding) of
       Some _ \<Rightarrow> m
     | None \<Rightarrow>
         m\<lparr>me_findings := upd2 (me_findings m) (fi_tenant finding) (fi_id finding) finding,
           me_finding_order := snoc (me_finding_order m) (fi_tenant finding) (fi_id finding)\<rparr>)"

definition ListFindings :: "tenant \<Rightarrow> string \<Rightarrow> int \<Rightarrow> memory \<Rightarrow> finding list" where
  "ListFindings t event_id limit m =
    scan_newest (nat (normalizedLimit limit)) (\<lambda>f. \<not> (event_id \<noteq> [] \<and> fi_event f \<noteq> event_id))
      (map (\<lambda>i. or_zero zero_finding (me_findings m t i)) (rev (me_finding_order m t))) []"

subsection \<open>Alerts\<close>

definition merge_alert :: "alert \<Rightarrow> alert \<Rightarrow> alert" where
  "merge_alert existing candidate =
    (let e1 = existing\<lparr>al_finding_ids := appendUnique (al_finding_ids existing) (al_finding_ids candidate),
                       al_event_ids := appendUnique (al_event_ids existing) (al_event_ids candidate)\<rparr>;
         e2 = e1\<lparr>al_event_count := int (length (al_event_ids e1)),
                 al_last_seen := al_last_seen candidate, al_updated_at := al_updated_at candidate,
                 al_version := al_version existing + 1\<rparr>
     in if al_risk_score existing < al_risk_score candidate
        then e2\<lparr>al_risk_score := al_risk_score candidate,
                al_risk_breakdown := al_risk_breakdown candidate,
                al_severity := al_severity candidate\<rparr>
        else e2)"

definition dedup_key :: "tenant \<Rightarrow> string \<Rightarrow> string" where
  "dedup_key t k = t @ ''|'' @ k"

definition insert_alert :: "alert \<Rightarrow> string \<Rightarrow> memory \<Rightarrow> memory" where
  "insert_alert candidate key m =
    m\<lparr>me_alerts := upd2 (me_alerts m) (al_tenant candidate) (al_id candidate) candidate,
      me_alert_order := snoc (me_alert_order m) (al_tenant candidate) (al_id candidate),
      me_dedup := (me_dedup m)(key \<mapsto> al_id candidate)\<rparr>"

text \<open>The alert a candidate is merged into: the one the deduplication key names, when it is of the
  candidate's tenant, not closed, and was last seen at most \<open>window\<close> before the candidate.\<close>

definition merge_target :: "alert \<Rightarrow> string \<Rightarrow> duration \<Rightarrow> memory \<Rightarrow> (string \<times> alert) option" where
  "merge_target candidate key window m =
    (case me_dedup m key of
       None \<Rightarrow> None
     | Some existing_id \<Rightarrow>
         if existing_id = [] then None
         else (case me_alerts m (al_tenant candidate) existing_id of
                 None \<Rightarrow> None
               | Some existing \<Rightarrow>
                   if al_status existing \<noteq> ''CLOSED'' \<and> al_last_seen candidate - al_last_seen existing \<le> window
                   then Some (existing_id, existing) else None))"

definition UpsertAlert :: "alert \<Rightarrow> string \<Rightarrow> duration \<Rightarrow> memory \<Rightarrow> (alert \<times> bool) \<times> memory" where
  "UpsertAlert candidate dedupKey window m =
    (let key = dedup_key (al_tenant candidate) dedupKey
     in case merge_target candidate key window m of
          Some (existing_id, existing) \<Rightarrow>
            (let merged = merge_alert existing candidate
             in ((merged, False), m\<lparr>me_alerts := upd2 (me_alerts m) (al_tenant candidate) existing_id merged\<rparr>))
        | None \<Rightarrow> ((candidate, True), insert_alert candidate key m))"

definition GetAlert :: "tenant \<Rightarrow> string \<Rightarrow> memory \<Rightarrow> alert result" where
  "GetAlert t i m = (case me_alerts m t i of None \<Rightarrow> Inl ErrNotFound | Some a \<Rightarrow> Inr a)"

definition alert_selected :: "alert_filter \<Rightarrow> alert \<Rightarrow> bool" where
  "alert_selected f a =
    (let query = to_lower (trim_space (af_query f))
     in \<not> (af_status f \<noteq> [] \<and> \<not> equal_fold (al_status a) (af_status f)) \<and>
        \<not> (af_severity f \<noteq> [] \<and> al_severity a \<noteq> af_severity f) \<and>
        \<not> (af_assignee f \<noteq> [] \<and> \<not> equal_fold (al_assignee a) (af_assignee f)) \<and>
        \<not> (query \<noteq> [] \<and>
            \<not> contains (to_lower (al_title a @ '' '' @ rule_title (al_rule a) @ '' '' @
                                  en_name (al_entity a) @ '' '' @ al_assignee a)) query))"

definition ListAlerts :: "tenant \<Rightarrow> alert_filter \<Rightarrow> memory \<Rightarrow> alert list" where
  "ListAlerts t f m =
    scan_newest (nat (normalizedLimit (af_limit f))) (alert_selected f)
      (map (\<lambda>i. or_zero zero_alert (me_alerts m t i)) (rev (me_alert_order m t))) []"

type_synonym 'v mutator = "'v \<Rightarrow> world \<Rightarrow> 'v result \<times> world"

definition MutateAlert ::
  "tenant \<Rightarrow> string \<Rightarrow> int \<Rightarrow> alert mutator \<Rightarrow> memory \<times> world \<Rightarrow> alert result \<times> (memory \<times> world)" where
  "MutateAlert t i expected mutate mw =
    (case mw of (m, w) \<Rightarrow>
       (case me_alerts m t i of
          None \<Rightarrow> (Inl ErrNotFound, (m, w))
        | Some a \<Rightarrow>
            if 0 < expected \<and> al_version a \<noteq> expected then (Inl ErrVersionConflict, (m, w))
            else (case mutate a w of
                    (Inl e, w1) \<Rightarrow> (Inl e, (m, w1))
                  | (Inr b, w1) \<Rightarrow>
                      (let (now, w2) = time_now w1;
                           c = b\<lparr>al_version := al_version b + 1, al_updated_at := now\<rparr>
                       in (Inr c, (m\<lparr>me_alerts := upd2 (me_alerts m) t i c\<rparr>, w2))))))"

subsection \<open>Incidents\<close>

definition CreateIncident :: "incident \<Rightarrow> memory \<Rightarrow> incident result \<times> memory" where
  "CreateIncident inc m =
    (case me_incidents m (in_tenant inc) (in_id inc) of
       Some _ \<Rightarrow> (Inl ErrVersionConflict, m)
     | None \<Rightarrow>
         (Inr inc,
          m\<lparr>me_incidents := upd2 (me_incidents m) (in_tenant inc) (in_id inc) inc,
            me_incident_order := snoc (me_incident_order m) (in_tenant inc) (in_id inc)\<rparr>))"

definition GetIncident :: "tenant \<Rightarrow> string \<Rightarrow> memory \<Rightarrow> incident result" where
  "GetIncident t i m = (case me_incidents m t i of None \<Rightarrow> Inl ErrNotFound | Some x \<Rightarrow> Inr x)"

definition incident_selected :: "incident_filter \<Rightarrow> incident \<Rightarrow> bool" where
  "incident_selected f x =
    (let query = to_lower (trim_space (if_query f))
     in \<not> (if_status f \<noteq> [] \<and> \<not> equal_fold (in_status x) (if_status f)) \<and>
        \<not> (if_severity f \<noteq> [] \<and> in_severity x \<noteq> if_severity f) \<and>
        \<not> (query \<noteq> [] \<and>
            \<not> contains (to_lower (in_title x @ '' '' @ in_summary x @ '' '' @ in_assignee x)) query))"

definition ListIncidents :: "tenant \<Rightarrow> incident_filter \<Rightarrow> memory \<Rightarrow> incident list" where
  "ListIncidents t f m =
    scan_newest (nat (normalizedLimit (if_limit f))) (incident_selected f)
      (map (\<lambda>i. or_zero zero_incident (me_incidents m t i)) (rev (me_incident_order m t))) []"

definition MutateIncident ::
  "tenant \<Rightarrow> string \<Rightarrow> int \<Rightarrow> incident mutator \<Rightarrow> memory \<times> world \<Rightarrow> incident result \<times> (memory \<times> world)" where
  "MutateIncident t i expected mutate mw =
    (case mw of (m, w) \<Rightarrow>
       (case me_incidents m t i of
          None \<Rightarrow> (Inl ErrNotFound, (m, w))
        | Some a \<Rightarrow>
            if 0 < expected \<and> in_version a \<noteq> expected then (Inl ErrVersionConflict, (m, w))
            else (case mutate a w of
                    (Inl e, w1) \<Rightarrow> (Inl e, (m, w1))
                  | (Inr b, w1) \<Rightarrow>
                      (let (now, w2) = time_now w1;
                           c = b\<lparr>in_version := in_version b + 1, in_updated_at := now\<rparr>
                       in (Inr c, (m\<lparr>me_incidents := upd2 (me_incidents m) t i c\<rparr>, w2))))))"

subsection \<open>The audit log\<close>

definition audit_text :: "audit_entry \<Rightarrow> string" where
  "audit_text e =
    join ''|''
      [au_previous_hash e, au_id e, au_tenant e, au_actor e, au_action e, au_resource_type e,
       au_resource_id e, au_outcome e, rfc3339nano (au_created_at e), marshal (au_metadata e)]"

definition auditHash :: "audit_entry \<Rightarrow> string" where
  "auditHash e = sha256_hex (audit_text e)"

definition stamp_audit :: "audit_entry \<Rightarrow> world \<Rightarrow> audit_entry \<times> world" where
  "stamp_audit e w =
    (let (i, w1) = (if au_id e = [] then new_id ''aud'' w else (au_id e, w));
         (t, w2) = (if is_zero (au_created_at e) then time_now w1 else (au_created_at e, w1))
     in (e\<lparr>au_id := i, au_created_at := t\<rparr>, w2))"

definition AppendAudit :: "audit_entry \<Rightarrow> memory \<times> world \<Rightarrow> audit_entry \<times> (memory \<times> world)" where
  "AppendAudit e mw =
    (case mw of (m, w) \<Rightarrow>
       (let (e1, w1) = stamp_audit e w;
            e2 = e1\<lparr>au_previous_hash := me_heads m (au_tenant e1)\<rparr>;
            e3 = e2\<lparr>au_hash := auditHash e2\<rparr>
        in (e3, (m\<lparr>me_audit := snoc (me_audit m) (au_tenant e3) e3,
                   me_heads := (me_heads m)(au_tenant e3 := au_hash e3)\<rparr>, w1))))"

definition ListAudit :: "tenant \<Rightarrow> int \<Rightarrow> memory \<Rightarrow> audit_entry list" where
  "ListAudit t limit m =
    scan_newest (nat (min (normalizedLimit limit) (int (length (me_audit m t))))) (\<lambda>_. True)
      (rev (me_audit m t)) []"

fun verify_from :: "string \<Rightarrow> audit_entry list \<Rightarrow> string option" where
  "verify_from previous [] = Some previous"
| "verify_from previous (e # es) =
     (if au_previous_hash e \<noteq> previous \<or> auditHash e \<noteq> au_hash e then None
      else verify_from (au_hash e) es)"

definition VerifyAudit :: "tenant \<Rightarrow> memory \<Rightarrow> bool" where
  "VerifyAudit t m = (verify_from [] (me_audit m t) = Some (me_heads m t))"


section \<open>Facts about the operations\<close>

lemmas list_defs = ListEvents_def ListFindings_def ListAlerts_def ListIncidents_def ListAudit_def

lemma PutEvent_simps:
  "me_events m (ev_tenant e) (ev_id e) = Some x \<Longrightarrow> PutEvent e m = ((x, True), m)"
  "me_events m (ev_tenant e) (ev_id e) = None \<Longrightarrow> fst (PutEvent e m) = (e, False)"
  by (simp_all add: PutEvent_def)

interpretation events_log: write_once me_events me_event_order "\<lambda>e m. snd (PutEvent e m)" ev_tenant ev_id
  by unfold_locales (simp_all add: PutEvent_def)

interpretation findings_log: write_once me_findings me_finding_order PutFinding fi_tenant fi_id
  by unfold_locales (simp_all add: PutFinding_def)

interpretation incidents_log: write_once me_incidents me_incident_order
  "\<lambda>x m. snd (CreateIncident x m)" in_tenant in_id
  by unfold_locales (simp_all add: CreateIncident_def)

interpretation alerts_versioned: versioned me_alerts al_version MutateAlert
  by unfold_locales (auto simp: MutateAlert_def time_now_def Let_def)

interpretation incidents_versioned: versioned me_incidents in_version MutateIncident
  by unfold_locales (auto simp: MutateIncident_def time_now_def Let_def)

subsection \<open>The audit chain\<close>

lemma verify_from_snoc:
  "verify_from p (es @ [e]) = Some h \<longleftrightarrow>
     (\<exists>q. verify_from p es = Some q \<and> au_previous_hash e = q \<and> auditHash e = au_hash e \<and> h = au_hash e)"
  by (induction p es rule: verify_from.induct) auto

lemma auditHash_ignores_hash [simp]: "auditHash (e\<lparr>au_hash := h\<rparr>) = auditHash e"
  by (simp add: auditHash_def audit_text_def)

lemma stamp_audit_tenant: "stamp_audit e w = (e', w') \<Longrightarrow> au_tenant e' = au_tenant e"
  by (auto simp: stamp_audit_def Let_def split: prod.splits if_splits)

lemma AppendAudit_cases:
  assumes "AppendAudit e (m, w) = (e', (m', w'))"
  shows "au_tenant e' = au_tenant e" "au_previous_hash e' = me_heads m (au_tenant e)"
    "au_hash e' = auditHash e'"
    "m' = m\<lparr>me_audit := snoc (me_audit m) (au_tenant e) e',
            me_heads := (me_heads m)(au_tenant e := au_hash e')\<rparr>"
proof -
  obtain e1 w1 where st: "stamp_audit e w = (e1, w1)" by fastforce
  from stamp_audit_tenant [OF st] have t: "au_tenant e1 = au_tenant e" .
  from assms st t show "au_tenant e' = au_tenant e" "au_previous_hash e' = me_heads m (au_tenant e)"
    "au_hash e' = auditHash e'"
    "m' = m\<lparr>me_audit := snoc (me_audit m) (au_tenant e) e',
            me_heads := (me_heads m)(au_tenant e := au_hash e')\<rparr>"
    by (auto simp: AppendAudit_def Let_def)
qed

lemma VerifyAudit_append:
  assumes "AppendAudit e (m, w) = (e', (m', w'))" "VerifyAudit t m"
  shows "VerifyAudit t m'"
  using AppendAudit_cases [OF assms(1)] assms(2)
  by (auto simp: VerifyAudit_def verify_from_snoc)

interpretation memory_audit: chained_log AppendAudit me_audit VerifyAudit au_tenant
  by unfold_locales (auto dest: AppendAudit_cases VerifyAudit_append)

text \<open>
  Two chains with the same head and the same number of entries agree entry by entry in the
  text that is hashed, unless two different texts with the same SHA-256 digest occur in them:
  the induction walks both chains from their common head backwards.
\<close>

definition audit_collision :: "audit_entry list \<Rightarrow> audit_entry list \<Rightarrow> bool" where
  "audit_collision es fs \<longleftrightarrow>
     (\<exists>e \<in> set es. \<exists>f \<in> set fs. audit_text e \<noteq> audit_text f \<and> sha256 (audit_text e) = sha256 (audit_text f))"

lemma join_head: "y # ys \<noteq> [] \<Longrightarrow> join s (x # y # ys) = x @ s @ join s (y # ys)"
  by simp

text \<open>The hashed text starts with the previous hash, which is empty or 64 hexadecimal digits.\<close>

lemma audit_text_prev:
  "\<exists>rest. audit_text e = au_previous_hash e @ ''|'' @ rest"
  by (simp add: audit_text_def)

lemma verify_from_end:
  assumes "verify_from p es = Some h" "es \<noteq> []"
  shows "h = au_hash (last es)" "length h = 64"
proof -
  from assms(2) obtain fs f where e: "es = fs @ [f]" by (metis rev_exhaust)
  with assms(1) have "h = au_hash f" "au_hash f = auditHash f" by (auto simp: verify_from_snoc)
  then show "h = au_hash (last es)" "length h = 64" by (auto simp: e auditHash_def)
qed

lemma verify_from_same_head:
  assumes "verify_from [] es = Some h" "verify_from [] fs = Some h" "length es = length fs"
    and "\<not> audit_collision es fs"
  shows "map audit_text es = map audit_text fs"
  using assms
proof (induction es arbitrary: fs h rule: rev_induct)
  case Nil
  then show ?case by simp
next
  case (snoc e es)
  from snoc.prems(3) obtain fs' f where fs: "fs = fs' @ [f]"
    by (metis length_0_conv length_append_singleton nat.simps(3) rev_exhaust)
  from snoc.prems(1) obtain q where q: "verify_from [] es = Some q" "au_previous_hash e = q"
    "auditHash e = h" by (auto simp: verify_from_snoc)
  from snoc.prems(2) fs obtain r where r: "verify_from [] fs' = Some r" "au_previous_hash f = r"
    "auditHash f = h" by (auto simp: verify_from_snoc)
  have len: "length es = length fs'" using snoc.prems(3) fs by simp
  from q(3) r(3) have "sha256 (audit_text e) = sha256 (audit_text f)"
    by (simp add: auditHash_def sha256_hex_eq_iff [symmetric])
  then have same: "audit_text e = audit_text f"
    using snoc.prems(4) fs by (auto simp: audit_collision_def)
  have "length q = length r"
  proof (cases "es = []")
    case True
    with len q(1) r(1) show ?thesis by simp
  next
    case False
    with len have "fs' \<noteq> []" by auto
    with False q(1) r(1) show ?thesis using verify_from_end(2) by metis
  qed
  with same q(2) r(2) have "q = r"
    using audit_text_prev [of e] audit_text_prev [of f] by (metis append_eq_append_conv)
  with q(1) r(1) have "map audit_text es = map audit_text fs'"
    using snoc.IH [of q fs'] len snoc.prems(4) fs by (auto simp: audit_collision_def)
  with same fs show ?case by simp
qed

subsection \<open>Merging alerts\<close>

lemma merge_alert_simps [simp]:
  "al_id (merge_alert a c) = al_id a" "al_tenant (merge_alert a c) = al_tenant a"
  "al_status (merge_alert a c) = al_status a" "al_version (merge_alert a c) = al_version a + 1"
  "al_event_ids (merge_alert a c) = appendUnique (al_event_ids a) (al_event_ids c)"
  "al_finding_ids (merge_alert a c) = appendUnique (al_finding_ids a) (al_finding_ids c)"
  "al_event_count (merge_alert a c) = int (length (al_event_ids (merge_alert a c)))"
  "al_risk_score (merge_alert a c) = max (al_risk_score a) (al_risk_score c)"
  "al_last_seen (merge_alert a c) = al_last_seen c" "al_assignee (merge_alert a c) = al_assignee a"
  "al_disposition (merge_alert a c) = al_disposition a" "al_first_seen (merge_alert a c) = al_first_seen a"
  "al_sla (merge_alert a c) = al_sla a" "al_rule (merge_alert a c) = al_rule a"
  "al_entity (merge_alert a c) = al_entity a" "al_title (merge_alert a c) = al_title a"
  by (simp_all add: merge_alert_def Let_def)

lemma merge_target_Some:
  "merge_target c key win m = Some (i, a) \<Longrightarrow>
     me_dedup m key = Some i \<and> i \<noteq> [] \<and> me_alerts m (al_tenant c) i = Some a \<and>
     al_status a \<noteq> ''CLOSED'' \<and> al_last_seen c - al_last_seen a \<le> win"
  by (auto simp: merge_target_def split: option.splits if_splits)

lemma UpsertAlert_merge:
  "merge_target c (dedup_key (al_tenant c) k) win m = Some (i, a) \<Longrightarrow>
     UpsertAlert c k win m =
       ((merge_alert a c, False), m\<lparr>me_alerts := upd2 (me_alerts m) (al_tenant c) i (merge_alert a c)\<rparr>)"
  by (simp add: UpsertAlert_def Let_def)

lemma UpsertAlert_insert:
  "merge_target c (dedup_key (al_tenant c) k) win m = None \<Longrightarrow>
     UpsertAlert c k win m = ((c, True), insert_alert c (dedup_key (al_tenant c) k) m)"
  by (simp add: UpsertAlert_def Let_def)

subsection \<open>The store's invariant\<close>

text \<open>
  Every collection is indexed by its order slice, every object is filed under its own tenant
  and identifier, and every tenant's audit chain verifies.
\<close>

definition mem_wf :: "memory \<Rightarrow> bool" where
  "mem_wf m \<longleftrightarrow>
     indexed (me_events m) (me_event_order m) \<and> filed ev_tenant ev_id (me_events m) \<and>
     indexed (me_findings m) (me_finding_order m) \<and> filed fi_tenant fi_id (me_findings m) \<and>
     indexed (me_alerts m) (me_alert_order m) \<and> filed al_tenant al_id (me_alerts m) \<and>
     indexed (me_incidents m) (me_incident_order m) \<and> filed in_tenant in_id (me_incidents m) \<and>
     (\<forall>t. VerifyAudit t m)"

lemma mem_wf_New [wf_intros]: "mem_wf NewMemory"
  by (simp add: mem_wf_def NewMemory_def VerifyAudit_def)

lemma VerifyAudit_frame:
  "me_audit m' t = me_audit m t \<Longrightarrow> me_heads m' t = me_heads m t \<Longrightarrow> VerifyAudit t m' = VerifyAudit t m"
  by (simp add: VerifyAudit_def)

lemma PutEvent_frame [frame_simps]:
  "me_findings (snd (PutEvent e m)) = me_findings m" "me_finding_order (snd (PutEvent e m)) = me_finding_order m"
  "me_alerts (snd (PutEvent e m)) = me_alerts m" "me_alert_order (snd (PutEvent e m)) = me_alert_order m"
  "me_incidents (snd (PutEvent e m)) = me_incidents m"
  "me_incident_order (snd (PutEvent e m)) = me_incident_order m"
  "me_audit (snd (PutEvent e m)) = me_audit m" "me_heads (snd (PutEvent e m)) = me_heads m"
  "me_dedup (snd (PutEvent e m)) = me_dedup m" "me_rules (snd (PutEvent e m)) = me_rules m"
  by (simp_all add: PutEvent_def split: option.split)

lemma PutFinding_frame [frame_simps]:
  "me_events (PutFinding f m) = me_events m" "me_event_order (PutFinding f m) = me_event_order m"
  "me_alerts (PutFinding f m) = me_alerts m" "me_alert_order (PutFinding f m) = me_alert_order m"
  "me_incidents (PutFinding f m) = me_incidents m" "me_incident_order (PutFinding f m) = me_incident_order m"
  "me_audit (PutFinding f m) = me_audit m" "me_heads (PutFinding f m) = me_heads m"
  "me_dedup (PutFinding f m) = me_dedup m" "me_rules (PutFinding f m) = me_rules m"
  by (simp_all add: PutFinding_def split: option.split)

lemma CreateIncident_frame [frame_simps]:
  "me_events (snd (CreateIncident x m)) = me_events m"
  "me_event_order (snd (CreateIncident x m)) = me_event_order m"
  "me_findings (snd (CreateIncident x m)) = me_findings m"
  "me_finding_order (snd (CreateIncident x m)) = me_finding_order m"
  "me_alerts (snd (CreateIncident x m)) = me_alerts m"
  "me_alert_order (snd (CreateIncident x m)) = me_alert_order m"
  "me_audit (snd (CreateIncident x m)) = me_audit m" "me_heads (snd (CreateIncident x m)) = me_heads m"
  "me_dedup (snd (CreateIncident x m)) = me_dedup m" "me_rules (snd (CreateIncident x m)) = me_rules m"
  by (simp_all add: CreateIncident_def split: option.split)

lemma UpsertAlert_frame [frame_simps]:
  "me_events (snd (UpsertAlert c k win m)) = me_events m"
  "me_event_order (snd (UpsertAlert c k win m)) = me_event_order m"
  "me_findings (snd (UpsertAlert c k win m)) = me_findings m"
  "me_finding_order (snd (UpsertAlert c k win m)) = me_finding_order m"
  "me_incidents (snd (UpsertAlert c k win m)) = me_incidents m"
  "me_incident_order (snd (UpsertAlert c k win m)) = me_incident_order m"
  "me_audit (snd (UpsertAlert c k win m)) = me_audit m" "me_heads (snd (UpsertAlert c k win m)) = me_heads m"
  "me_rules (snd (UpsertAlert c k win m)) = me_rules m"
  by (simp_all add: UpsertAlert_def insert_alert_def Let_def split: option.split prod.split)

lemma MutateAlert_state:
  assumes "MutateAlert t i n f (m, w) = (r, (m', w'))"
  obtains "m' = m" | a c where "me_alerts m t i = Some a"
    "m' = m\<lparr>me_alerts := upd2 (me_alerts m) t i c\<rparr>" "r = Inr c"
  using assms that
  by (auto simp: MutateAlert_def Let_def split: option.splits if_splits prod.splits sum.splits)

lemma MutateIncident_state:
  assumes "MutateIncident t i n f (m, w) = (r, (m', w'))"
  obtains "m' = m" | a c where "me_incidents m t i = Some a"
    "m' = m\<lparr>me_incidents := upd2 (me_incidents m) t i c\<rparr>" "r = Inr c"
  using assms that
  by (auto simp: MutateIncident_def Let_def split: option.splits if_splits prod.splits sum.splits)

text \<open>A change function that keeps a record's identity.\<close>

definition keeps_alert_key :: "alert mutator \<Rightarrow> bool" where
  "keeps_alert_key f \<longleftrightarrow>
     (\<forall>a w b w'. f a w = (Inr b, w') \<longrightarrow> al_id b = al_id a \<and> al_tenant b = al_tenant a)"

definition keeps_incident_key :: "incident mutator \<Rightarrow> bool" where
  "keeps_incident_key f \<longleftrightarrow>
     (\<forall>a w b w'. f a w = (Inr b, w') \<longrightarrow> in_id b = in_id a \<and> in_tenant b = in_tenant a)"

lemma MutateAlert_key:
  assumes "MutateAlert t i n f (m, w) = (Inr c, (m', w'))" "keeps_alert_key f"
  shows "\<exists>a. me_alerts m t i = Some a \<and> al_id c = al_id a \<and> al_tenant c = al_tenant a"
  using assms
  by (fastforce simp: MutateAlert_def keeps_alert_key_def Let_def
      split: option.splits if_splits prod.splits sum.splits)

lemma MutateIncident_key:
  assumes "MutateIncident t i n f (m, w) = (Inr c, (m', w'))" "keeps_incident_key f"
  shows "\<exists>a. me_incidents m t i = Some a \<and> in_id c = in_id a \<and> in_tenant c = in_tenant a"
  using assms
  by (fastforce simp: MutateIncident_def keeps_incident_key_def Let_def
      split: option.splits if_splits prod.splits sum.splits)

end
