(* ===== verification/Memory_Invariants.thy ===== *)
theory Memory_Invariants
  imports Memory_Store
begin

text \<open>
  The embedded store as a transition system: \<open>mem_step t\<close> is one store operation of tenant \<open>t\<close>,
  \<open>mem_reachable\<close> the states any sequence of operations leads to. The invariant \<open>mem_wf\<close> holds in
  all of them and a step of one tenant leaves the data of every other tenant as it was.
\<close>

inductive mem_step :: "tenant \<Rightarrow> memory \<times> world \<Rightarrow> memory \<times> world \<Rightarrow> bool" where
  set_rules: "mem_step t (m, w) (SetRules rs m, w)"
| reset: "mem_step t (m, w) (ResetTenant t m, w)"
| put_event: "ev_tenant e = t \<Longrightarrow> mem_step t (m, w) (snd (PutEvent e m), w)"
| put_finding: "fi_tenant f = t \<Longrightarrow> mem_step t (m, w) (PutFinding f m, w)"
| upsert: "al_tenant c = t \<Longrightarrow> me_alerts m t (al_id c) = None \<Longrightarrow>
    mem_step t (m, w) (snd (UpsertAlert c k win m), w)"
| mutate_alert: "keeps_alert_key f \<Longrightarrow> MutateAlert t i n f (m, w) = (r, mw') \<Longrightarrow>
    mem_step t (m, w) mw'"
| create_incident: "in_tenant x = t \<Longrightarrow> mem_step t (m, w) (snd (CreateIncident x m), w)"
| mutate_incident: "keeps_incident_key g \<Longrightarrow> MutateIncident t i n g (m, w) = (q, mw') \<Longrightarrow>
    mem_step t (m, w) mw'"
| append_audit: "au_tenant a = t \<Longrightarrow> AppendAudit a (m, w) = (a', mw') \<Longrightarrow> mem_step t (m, w) mw'"

inductive_cases mem_stepE: "mem_step t s s'"

inductive mem_reachable :: "memory \<times> world \<Rightarrow> bool" where
  start: "mem_reachable (NewMemory, w)"
| step: "mem_reachable s \<Longrightarrow> mem_step t s s' \<Longrightarrow> mem_reachable s'"

subsection \<open>Each operation keeps the invariant\<close>

lemma mem_wf_SetRules [wf_intros]: "mem_wf m \<Longrightarrow> mem_wf (SetRules rs m)"
  by (simp add: mem_wf_def SetRules_def VerifyAudit_def)

lemma mem_wf_ResetTenant [wf_intros]: "mem_wf m \<Longrightarrow> mem_wf (ResetTenant t m)"
  by (auto simp: mem_wf_def ResetTenant_def VerifyAudit_def intro: indexed_clear filed_clear)

lemma mem_wf_PutEvent [wf_intros]: "mem_wf m \<Longrightarrow> mem_wf (snd (PutEvent e m))"
  by (simp add: mem_wf_def frame_simps VerifyAudit_def events_log.indexed_put events_log.filed_put)

lemma mem_wf_PutFinding [wf_intros]: "mem_wf m \<Longrightarrow> mem_wf (PutFinding f m)"
  by (simp add: mem_wf_def frame_simps VerifyAudit_def findings_log.indexed_put findings_log.filed_put)

lemma mem_wf_CreateIncident [wf_intros]: "mem_wf m \<Longrightarrow> mem_wf (snd (CreateIncident x m))"
  by (simp add: mem_wf_def frame_simps VerifyAudit_def incidents_log.indexed_put incidents_log.filed_put)

lemma mem_wf_alert_update:
  assumes "mem_wf m" "me_alerts m t i = Some a" "al_id c = al_id a" "al_tenant c = al_tenant a"
  shows "mem_wf (m\<lparr>me_alerts := upd2 (me_alerts m) t i c\<rparr>)"
proof -
  from assms have "al_tenant a = t" "al_id a = i"
    by (auto simp: mem_wf_def dest: filedD)
  with assms show ?thesis
    by (simp add: mem_wf_def VerifyAudit_def indexed_update filed_upd2)
qed

lemma mem_wf_incident_update:
  assumes "mem_wf m" "me_incidents m t i = Some a" "in_id c = in_id a" "in_tenant c = in_tenant a"
  shows "mem_wf (m\<lparr>me_incidents := upd2 (me_incidents m) t i c\<rparr>)"
proof -
  from assms have "in_tenant a = t" "in_id a = i"
    by (auto simp: mem_wf_def dest: filedD)
  with assms show ?thesis
    by (simp add: mem_wf_def VerifyAudit_def indexed_update filed_upd2)
qed

lemma mem_wf_UpsertAlert [wf_intros]:
  assumes "mem_wf m" "me_alerts m (al_tenant c) (al_id c) = None"
  shows "mem_wf (snd (UpsertAlert c k win m))"
proof (cases "merge_target c (dedup_key (al_tenant c) k) win m")
  case None
  with assms show ?thesis
    by (simp add: UpsertAlert_insert insert_alert_def mem_wf_def VerifyAudit_def indexed_insert filed_upd2)
next
  case (Some p)
  obtain i a where p: "p = (i, a)" by fastforce
  with Some merge_target_Some have "me_alerts m (al_tenant c) i = Some a" by blast
  with assms(1) mem_wf_alert_update [of m "al_tenant c" i a "merge_alert a c"] Some p
  show ?thesis by (simp add: UpsertAlert_merge)
qed

lemma mem_wf_MutateAlert [wf_intros]:
  assumes "mem_wf m" "keeps_alert_key f" "MutateAlert t i n f (m, w) = (r, (m', w'))"
  shows "mem_wf m'"
  using assms(3)
proof (rule MutateAlert_state)
  fix a c
  assume a: "me_alerts m t i = Some a" and m': "m' = m\<lparr>me_alerts := upd2 (me_alerts m) t i c\<rparr>"
    and r: "r = Inr c"
  from assms(3) r MutateAlert_key [OF _ assms(2)] a
  have "al_id c = al_id a" "al_tenant c = al_tenant a" by fastforce+
  with assms(1) a m' show ?thesis by (simp add: mem_wf_alert_update)
qed (use assms in simp)

lemma mem_wf_MutateIncident [wf_intros]:
  assumes "mem_wf m" "keeps_incident_key f" "MutateIncident t i n f (m, w) = (r, (m', w'))"
  shows "mem_wf m'"
  using assms(3)
proof (rule MutateIncident_state)
  fix a c
  assume a: "me_incidents m t i = Some a" and m': "m' = m\<lparr>me_incidents := upd2 (me_incidents m) t i c\<rparr>"
    and r: "r = Inr c"
  from assms(3) r MutateIncident_key [OF _ assms(2)] a
  have "in_id c = in_id a" "in_tenant c = in_tenant a" by fastforce+
  with assms(1) a m' show ?thesis by (simp add: mem_wf_incident_update)
qed (use assms in simp)

lemma mem_wf_AppendAudit [wf_intros]:
  assumes "mem_wf m" "AppendAudit a (m, w) = (a', (m', w'))"
  shows "mem_wf m'"
proof -
  have "VerifyAudit t m'" for t
    using memory_audit.append_verify [OF assms(2)] assms(1) by (simp add: mem_wf_def)
  with AppendAudit_cases(4) [OF assms(2)] assms(1) show ?thesis by (simp add: mem_wf_def)
qed

lemma mem_step_wf: "mem_step t s s' \<Longrightarrow> mem_wf (fst s) \<Longrightarrow> mem_wf (fst s')"
proof (induction rule: mem_step.induct)
  case (mutate_alert f t i n m w r mw')
  then show ?case by (cases mw') (auto intro: mem_wf_MutateAlert)
next
  case (mutate_incident g t i n m w q mw')
  then show ?case by (cases mw') (auto intro: mem_wf_MutateIncident)
next
  case (append_audit a t m w a' mw')
  then show ?case by (cases mw') (auto intro: mem_wf_AppendAudit)
qed (auto intro: wf_intros)

lemma mem_reachable_wf: "mem_reachable s \<Longrightarrow> mem_wf (fst s)"
  by (induction rule: mem_reachable.induct) (auto intro: mem_wf_New mem_step_wf)

subsection \<open>Tenants do not see each other\<close>

record tenant_data =
  td_events :: "string \<Rightarrow> canonical_event option"
  td_event_order :: "string list"
  td_findings :: "string \<Rightarrow> finding option"
  td_finding_order :: "string list"
  td_alerts :: "string \<Rightarrow> alert option"
  td_alert_order :: "string list"
  td_incidents :: "string \<Rightarrow> incident option"
  td_incident_order :: "string list"
  td_audit :: "audit_entry list"
  td_head :: string

definition tenant_view :: "tenant \<Rightarrow> memory \<Rightarrow> tenant_data" where
  "tenant_view t m =
    \<lparr>td_events = me_events m t, td_event_order = me_event_order m t, td_findings = me_findings m t,
     td_finding_order = me_finding_order m t, td_alerts = me_alerts m t,
     td_alert_order = me_alert_order m t, td_incidents = me_incidents m t,
     td_incident_order = me_incident_order m t, td_audit = me_audit m t, td_head = me_heads m t\<rparr>"

lemma view_UpsertAlert: "t' \<noteq> al_tenant c \<Longrightarrow> tenant_view t' (snd (UpsertAlert c k win m)) = tenant_view t' m"
  by (simp add: UpsertAlert_def insert_alert_def tenant_view_def Let_def split: option.split prod.split)

lemma view_MutateAlert:
  "MutateAlert t i n f (m, w) = (r, (m', w')) \<Longrightarrow> t' \<noteq> t \<Longrightarrow> tenant_view t' m' = tenant_view t' m"
  by (erule MutateAlert_state) (simp_all add: tenant_view_def)

lemma view_MutateIncident:
  "MutateIncident t i n f (m, w) = (r, (m', w')) \<Longrightarrow> t' \<noteq> t \<Longrightarrow> tenant_view t' m' = tenant_view t' m"
  by (erule MutateIncident_state) (simp_all add: tenant_view_def)

lemma view_AppendAudit:
  "AppendAudit a (m, w) = (a', (m', w')) \<Longrightarrow> t' \<noteq> au_tenant a \<Longrightarrow> tenant_view t' m' = tenant_view t' m"
  by (drule AppendAudit_cases(4)) (simp add: tenant_view_def)

lemma mem_step_isolated:
  "mem_step t s s' \<Longrightarrow> t' \<noteq> t \<Longrightarrow> tenant_view t' (fst s') = tenant_view t' (fst s)"
proof (induction rule: mem_step.induct)
  case (put_event e t m w)
  then show ?case using events_log.put_other_tenant [of t' e m]
    by (simp add: tenant_view_def frame_simps)
next
  case (put_finding f t m w)
  then show ?case using findings_log.put_other_tenant [of t' f m]
    by (simp add: tenant_view_def frame_simps)
next
  case (create_incident x t m w)
  then show ?case using incidents_log.put_other_tenant [of t' x m]
    by (simp add: tenant_view_def frame_simps)
next
  case (mutate_alert f t i n m w r mw')
  then show ?case by (cases mw') (auto dest: view_MutateAlert)
next
  case (mutate_incident g t i n m w q mw')
  then show ?case by (cases mw') (auto dest: view_MutateIncident)
next
  case (append_audit a t m w a' mw')
  then show ?case by (cases mw') (auto dest: view_AppendAudit)
qed (simp_all add: view_UpsertAlert, simp_all add: tenant_view_def SetRules_def ResetTenant_def)

text \<open>Runs of steps, each labelled with its tenant.\<close>

inductive mem_run :: "memory \<times> world \<Rightarrow> tenant list \<Rightarrow> memory \<times> world \<Rightarrow> bool" where
  run_nil: "mem_run s [] s"
| run_cons: "mem_step t s s1 \<Longrightarrow> mem_run s1 ts s2 \<Longrightarrow> mem_run s (t # ts) s2"

lemma mem_run_isolated:
  "mem_run s ts s' \<Longrightarrow> t \<notin> set ts \<Longrightarrow> tenant_view t (fst s') = tenant_view t (fst s)"
  by (induction rule: mem_run.induct) (simp_all add: mem_step_isolated)

lemma mem_run_wf: "mem_run s ts s' \<Longrightarrow> mem_wf (fst s) \<Longrightarrow> mem_wf (fst s')"
  by (induction rule: mem_run.induct) (auto intro: mem_step_wf)

text \<open>What a list endpoint returns: a bounded, newest-first selection of the tenant's objects.\<close>

lemma ListAlerts_eq:
  "ListAlerts t f m =
     take (nat (normalizedLimit (af_limit f)))
       (filter (alert_selected f) (map (\<lambda>i. or_zero zero_alert (me_alerts m t i)) (rev (me_alert_order m t))))"
  by (simp add: ListAlerts_def scan_newest_Nil)

lemma ListIncidents_eq:
  "ListIncidents t f m =
     take (nat (normalizedLimit (if_limit f)))
       (filter (incident_selected f)
         (map (\<lambda>i. or_zero zero_incident (me_incidents m t i)) (rev (me_incident_order m t))))"
  by (simp add: ListIncidents_def scan_newest_Nil)

lemma ListEvents_eq:
  "ListEvents t f m =
     take (nat (normalizedLimit (ef_limit f)))
       (filter (event_selected f)
         (map (\<lambda>i. or_zero zero_event (me_events m t i)) (rev (me_event_order m t))))"
  by (simp add: ListEvents_def scan_newest_Nil)

lemma take_nat_min: "take (nat (min a (int (length xs)))) xs = take (nat a) xs"
  by (simp add: min_def)

lemma ListAudit_eq: "ListAudit t limit m = take (nat (normalizedLimit limit)) (rev (me_audit m t))"
proof -
  have "take (nat (min (normalizedLimit limit) (int (length (me_audit m t))))) (rev (me_audit m t)) =
        take (nat (normalizedLimit limit)) (rev (me_audit m t))"
    using take_nat_min [of "normalizedLimit limit" "rev (me_audit m t)"] by simp
  then show ?thesis by (simp add: ListAudit_def scan_newest_Nil)
qed

lemma ListAlerts_filed:
  assumes "mem_wf m" "a \<in> set (ListAlerts t f m)"
  shows "al_tenant a = t \<and> me_alerts m t (al_id a) = Some a \<and> alert_selected f a"
proof -
  from assms(2) obtain i where i: "i \<in> set (me_alert_order m t)" "a = or_zero zero_alert (me_alerts m t i)"
    "alert_selected f a"
    by (auto simp: ListAlerts_eq dest!: in_set_takeD)
  from assms(1) i(1) obtain b where b: "me_alerts m t i = Some b"
    by (auto simp: mem_wf_def indexed_lookup)
  with i(2) have "a = b" by simp
  with b assms(1) i(3) show ?thesis by (auto simp: mem_wf_def dest: filedD)
qed

lemma ListIncidents_filed:
  assumes "mem_wf m" "x \<in> set (ListIncidents t f m)"
  shows "in_tenant x = t \<and> me_incidents m t (in_id x) = Some x"
proof -
  from assms(2) obtain i where i: "i \<in> set (me_incident_order m t)"
    "x = or_zero zero_incident (me_incidents m t i)"
    by (auto simp: ListIncidents_eq dest!: in_set_takeD)
  from assms(1) i(1) obtain b where b: "me_incidents m t i = Some b"
    by (auto simp: mem_wf_def indexed_lookup)
  with i(2) have "x = b" by simp
  with b assms(1) show ?thesis by (auto simp: mem_wf_def dest: filedD)
qed

end
