(* ===== verification/Memory_Properties.thy ===== *)
theory Memory_Properties
  imports Memory_Invariants
begin

text \<open>
  The properties of the embedded store: the invariant of its reachable states, tenant isolation,
  write-once events, deduplication of alerts, bounded lists and the evidence the audit chain
  gives. Each witness runs the model on concrete objects.
\<close>

subsection \<open>Sample objects\<close>

definition sample_event :: canonical_event where
  "sample_event = zero_event\<lparr>ev_id := ''evt_1'', ev_tenant := ''acme'', ev_category := ''process''\<rparr>"

definition sample_alert :: alert where
  "sample_alert = zero_alert\<lparr>al_id := ''alt_1'', al_tenant := ''acme'', al_status := ''NEW'',
     al_event_ids := [''evt_1''], al_event_count := 1, al_risk_score := 40, al_version := 1,
     al_severity := ''MEDIUM''\<rparr>"

definition sample_repeat :: alert where
  "sample_repeat = sample_alert\<lparr>al_id := ''alt_2'', al_event_ids := [''evt_2''], al_risk_score := 90,
     al_severity := ''CRITICAL'', al_last_seen := 5\<rparr>"

definition sample_world :: world where
  "sample_world = \<lparr>clock = (\<lambda>n. 1000 + int n), ticks = 0, entropy = (\<lambda>_. None), drawn = 0,
     ctx_done = (\<lambda>_. False), polls = 0\<rparr>"

lemma live_sample [simp]: "live sample_world"
  by (simp add: live_def sample_world_def)

definition sample_entry :: "string \<Rightarrow> audit_entry" where
  "sample_entry action = \<lparr>au_id = [], au_tenant = ''acme'', au_actor = ''bob'', au_action = action,
     au_resource_type = ''alert'', au_resource_id = ''alt_1'', au_outcome = ''success'',
     au_request_id = ''req_1'', au_metadata = JNull, au_previous_hash = [], au_hash = [], au_created_at = 0\<rparr>"

section \<open>Properties\<close>


lemma sample_reachable: "mem_reachable (snd (PutEvent sample_event NewMemory), sample_world)"
  by (rule mem_reachable.step [OF mem_reachable.start mem_step.put_event]) simp


text \<open>C2. Tenants are isolated: a run of any operations on behalf of other tenants leaves every
  collection, list order and audit chain of a tenant exactly as it was.\<close>

theorem store_tenant_isolation:
  assumes "mem_run s ts s'" "t \<notin> set ts"
  shows "tenant_view t (fst s') = tenant_view t (fst s)"
  using mem_run_isolated [OF assms] .

theorem store_tenant_isolation_witness:
  "tenant_view ''other'' (snd (PutEvent sample_event NewMemory)) = tenant_view ''other'' NewMemory"
proof -
  have "mem_run (NewMemory, sample_world) [''acme''] (snd (PutEvent sample_event NewMemory), sample_world)"
    by (rule mem_run.run_cons [OF mem_step.put_event [of sample_event] mem_run.run_nil])
       (simp add: sample_event_def)
  from store_tenant_isolation [OF this, of "''other''"] show ?thesis by simp
qed

text \<open>The first writer of an event wins: whatever events are put afterwards, reading the event
  back gives what the first put returned, and putting it again reports a duplicate and changes
  nothing.\<close>

theorem PutEvent_first_writer_wins:
  fixes e :: canonical_event and m :: memory and es :: "canonical_event list"
  defines "m1 \<equiv> foldr (\<lambda>e m. snd (PutEvent e m)) es (snd (PutEvent e m))"
  shows "GetEvent (ev_tenant e) (ev_id e) m1 = Inr (fst (fst (PutEvent e m))) \<and>
         PutEvent e m1 = ((fst (fst (PutEvent e m)), True), m1)"
proof -
  have "me_events (snd (PutEvent e m)) (ev_tenant e) (ev_id e) = Some (fst (fst (PutEvent e m)))"
    by (simp add: PutEvent_def split: option.split)
  then have "me_events m1 (ev_tenant e) (ev_id e) = Some (fst (fst (PutEvent e m)))"
    unfolding m1_def by (rule events_log.look_puts_keeps)
  then show ?thesis by (simp add: GetEvent_def PutEvent_def)
qed

lemma UpsertAlert_stores:
  assumes "mem_wf m" "al_id c \<noteq> []" "UpsertAlert c k win m = ((a, created), m1)"
  shows "me_alerts m1 (al_tenant c) (al_id a) = Some a \<and>
         me_dedup m1 (dedup_key (al_tenant c) k) = Some (al_id a) \<and> al_id a \<noteq> []"
proof (cases "merge_target c (dedup_key (al_tenant c) k) win m")
  case None
  with assms show ?thesis by (auto simp: UpsertAlert_insert insert_alert_def)
next
  case (Some p)
  obtain i x where p: "p = (i, x)" by fastforce
  with Some have t: "merge_target c (dedup_key (al_tenant c) k) win m = Some (i, x)" by simp
  note mt = merge_target_Some [OF t]
  with assms(1) have "al_id x = i" by (auto simp: mem_wf_def dest: filedD)
  with mt assms(3) UpsertAlert_merge [OF t] show ?thesis by auto
qed

text \<open>C3. Deduplication of alerts: after an alert was stored or merged under a key, a later candidate of
  the same tenant with the same key joins that alert as long as it is not closed and the
  candidate is at most the window later; the alert then carries the events of both without
  duplicates, their count, the higher risk score and a version one higher, and nothing else of
  the tenant's alerts changes.\<close>

theorem UpsertAlert_deduplicates:
  assumes "mem_wf m" "al_id c \<noteq> []" "UpsertAlert c k win m = ((a, created), m1)"
    and "al_tenant d = al_tenant c" "al_status a \<noteq> ''CLOSED''" "al_last_seen d - al_last_seen a \<le> win'"
  shows "\<exists>b m2. UpsertAlert d k win' m1 = ((b, False), m2) \<and> al_id b = al_id a \<and>
    GetAlert (al_tenant c) (al_id a) m2 = Inr b \<and>
    set (al_event_ids b) = set (al_event_ids a) \<union> (set (al_event_ids d) - {[]}) \<and>
    al_event_count b = int (length (al_event_ids b)) \<and>
    al_risk_score b = max (al_risk_score a) (al_risk_score d) \<and> al_version b = al_version a + 1 \<and>
    (\<forall>t i. (t, i) \<noteq> (al_tenant c, al_id a) \<longrightarrow> me_alerts m2 t i = me_alerts m1 t i)"
proof -
  from UpsertAlert_stores [OF assms(1-3)] assms(4-6)
  have "merge_target d (dedup_key (al_tenant d) k) win' m1 = Some (al_id a, a)"
    by (simp add: merge_target_def)
  from UpsertAlert_merge [OF this] assms(4) show ?thesis
    by (simp add: GetAlert_def set_appendUnique)
qed

theorem UpsertAlert_deduplicates_witness:
  "\<exists>b m2. UpsertAlert sample_repeat ''k'' 10 (snd (UpsertAlert sample_alert ''k'' 10 NewMemory)) = ((b, False), m2) \<and>
     al_id b = ''alt_1'' \<and> al_risk_score b = 90 \<and> al_version b = 2"
proof -
  have u: "UpsertAlert sample_alert ''k'' 10 NewMemory =
    ((sample_alert, True), snd (UpsertAlert sample_alert ''k'' 10 NewMemory))"
    by (simp add: UpsertAlert_def merge_target_def NewMemory_def Let_def)
  show ?thesis
    using UpsertAlert_deduplicates [OF mem_wf_New _ u, of sample_repeat 10]
    by (auto simp: sample_repeat_def sample_alert_def zero_alert_def)
qed

lemma ListAlerts_length: "int (length (ListAlerts t f m)) \<le> normalizedLimit (af_limit f)"
  using normalizedLimit_bounds [of "af_limit f"] by (simp add: ListAlerts_eq)

lemma ListAlerts_distinct:
  assumes "mem_wf m"
  shows "distinct (map al_id (ListAlerts t f m))"
proof -
  have ix: "indexed (me_alerts m) (me_alert_order m)" and fl: "filed al_tenant al_id (me_alerts m)"
    using assms by (auto simp: mem_wf_def)
  have "map al_id (map (\<lambda>i. or_zero zero_alert (me_alerts m t i)) (rev (me_alert_order m t))) =
        rev (me_alert_order m t)"
    using ix by (auto simp: indexed_lookup filedD [OF fl] intro!: map_idI)
  then have "distinct (map al_id (map (\<lambda>i. or_zero zero_alert (me_alerts m t i)) (rev (me_alert_order m t))))"
    using ix by (simp add: indexed_def)
  then show ?thesis
    unfolding ListAlerts_eq take_map [symmetric] by (intro distinct_take distinct_map_filter)
qed

lemma ListAlerts_complete:
  assumes "mem_wf m" "int (length (ListAlerts t f m)) < normalizedLimit (af_limit f)"
    and "me_alerts m t i = Some a" "alert_selected f a"
  shows "a \<in> set (ListAlerts t f m)"
proof -
  let ?all = "filter (alert_selected f) (map (\<lambda>i. or_zero zero_alert (me_alerts m t i)) (rev (me_alert_order m t)))"
  from assms(2) have "ListAlerts t f m = ?all" by (simp add: ListAlerts_eq)
  moreover have "i \<in> set (me_alert_order m t)" using assms(1,3) by (auto simp: mem_wf_def indexed_lookup)
  then have "a \<in> set ?all" using assms(3,4) by (force simp: image_iff)
  ultimately show ?thesis by simp
qed

text \<open>The alert list of a tenant is the newest-first selection by the filter, cut at the limit, which
  is at least 1 and at most 500; in a well-formed store it shows no alert twice, only stored
  alerts of the tenant, and, when shorter than the limit, all that match.\<close>

theorem ListAlerts_window:
  assumes "mem_wf m"
  shows "(\<exists>n \<in> {1..500}. int (length (ListAlerts t f m)) \<le> n \<and>
            (int (length (ListAlerts t f m)) < n \<longrightarrow>
              set (ListAlerts t f m) = {a. \<exists>i. me_alerts m t i = Some a \<and> alert_selected f a})) \<and>
         distinct (map al_id (ListAlerts t f m)) \<and>
         (\<forall>a \<in> set (ListAlerts t f m). al_tenant a = t \<and> GetAlert t (al_id a) m = Inr a \<and> alert_selected f a)"
proof (intro conjI bexI [of _ "normalizedLimit (af_limit f)"])
  show "\<forall>a \<in> set (ListAlerts t f m). al_tenant a = t \<and> GetAlert t (al_id a) m = Inr a \<and> alert_selected f a"
    using ListAlerts_filed [OF assms] by (auto simp: GetAlert_def)
  show "int (length (ListAlerts t f m)) < normalizedLimit (af_limit f) \<longrightarrow>
    set (ListAlerts t f m) = {a. \<exists>i. me_alerts m t i = Some a \<and> alert_selected f a}"
    using ListAlerts_complete [OF assms] ListAlerts_filed [OF assms] by blast
qed (use normalizedLimit_bounds in \<open>auto simp: ListAlerts_length ListAlerts_distinct [OF assms]\<close>)

definition no_alert_filter :: alert_filter where
  "no_alert_filter = \<lparr>af_status = [], af_severity = [], af_assignee = [], af_query = [], af_limit = 0\<rparr>"

theorem ListAlerts_window_witness:
  "let m = snd (UpsertAlert sample_alert ''k'' 10 NewMemory)
   in ListAlerts ''acme'' no_alert_filter m = [sample_alert] \<and> distinct (map al_id (ListAlerts ''acme'' no_alert_filter m))"
proof -
  let ?m = "snd (UpsertAlert sample_alert ''k'' 10 NewMemory)"
  have wf: "mem_wf ?m" by (rule mem_wf_UpsertAlert [OF mem_wf_New]) (simp add: NewMemory_def)
  have "ListAlerts ''acme'' no_alert_filter ?m = [sample_alert]"
    by (simp add: ListAlerts_eq UpsertAlert_def merge_target_def NewMemory_def insert_alert_def
        no_alert_filter_def normalizedLimit_def alert_selected_def sample_alert_def Let_def)
  with ListAlerts_window [OF wf, of "''acme''" no_alert_filter] show ?thesis by (simp add: Let_def)
qed

text \<open>C4. The audit chain is tamper evident: two stores whose chains of a tenant both verify under the
  same head and have the same length hold, entry by entry, the same hashed content, unless two
  of the entries' texts are a SHA-256 collision.\<close>

theorem audit_chain_tamper_evident:
  assumes "VerifyAudit t m" "VerifyAudit t m'" "me_heads m t = me_heads m' t"
    and "length (me_audit m t) = length (me_audit m' t)"
    and "\<not> audit_collision (me_audit m t) (me_audit m' t)"
  shows "map audit_text (me_audit m t) = map audit_text (me_audit m' t)"
  using assms by (intro verify_from_same_head) (simp_all add: VerifyAudit_def)

lemma audit_collision_self [simp]: "\<not> audit_collision [e] [e]"
  by (auto simp: audit_collision_def)

theorem audit_chain_tamper_evident_witness:
  "let m = fst (snd (AppendAudit (sample_entry ''alert.triaged'') (NewMemory, sample_world)))
   in VerifyAudit ''acme'' m \<and> length (me_audit m ''acme'') = 1 \<and>
      map audit_text (me_audit m ''acme'') = map audit_text (me_audit (m\<lparr>me_rules := []\<rparr>) ''acme'')"
proof -
  obtain e m w where a: "AppendAudit (sample_entry ''alert.triaged'') (NewMemory, sample_world) = (e, (m, w))"
    by (metis prod.exhaust)
  have v: "VerifyAudit ''acme'' m"
    by (rule memory_audit.append_verify [OF a]) (simp add: VerifyAudit_def NewMemory_def)
  have l: "me_audit m ''acme'' = [e]"
    using AppendAudit_cases(4) [OF a] by (simp add: sample_entry_def NewMemory_def)
  have "map audit_text (me_audit m ''acme'') = map audit_text (me_audit (m\<lparr>me_rules := []\<rparr>) ''acme'')"
    by (rule audit_chain_tamper_evident) (use v l in \<open>simp_all add: VerifyAudit_def\<close>)
  with a v l show ?thesis by simp
qed

lemma auditHash_request_id [simp]: "auditHash (e\<lparr>au_request_id := r\<rparr>) = auditHash e"
  by (simp add: auditHash_def audit_text_def)

lemma verify_from_request_ids:
  "verify_from p (map (\<lambda>e. e\<lparr>au_request_id := r e\<rparr>) es) = verify_from p es"
  by (induction p es rule: verify_from.induct) simp_all

text \<open>The audit chain does not protect the request identifiers: rewriting them in any way, for
  every entry of a tenant, is not noticed by the verification.\<close>

theorem audit_request_ids_unprotected:
  "VerifyAudit t (m\<lparr>me_audit := (me_audit m)(t := map (\<lambda>e. e\<lparr>au_request_id := r e\<rparr>) (me_audit m t))\<rparr>) =
   VerifyAudit t m"
  by (simp add: VerifyAudit_def verify_from_request_ids)

text \<open>The hashed text of an audit entry does not determine the entry: its fields are joined with a
  vertical bar that the fields themselves may contain, so shifting text across the bar between
  the actor and the action changes the entry and keeps its hash.\<close>

theorem audit_fields_ambiguous:
  "auditHash (e\<lparr>au_actor := a @ ''|'' @ b, au_action := c\<rparr>) = auditHash (e\<lparr>au_actor := a, au_action := b @ ''|'' @ c\<rparr>)"
  by (simp add: auditHash_def audit_text_def)

text \<open>Appending audit entries never breaks a chain and never rewrites one: after any sequence of
  appends the tenant's chain verifies if it did before, its old entries are a prefix of the new
  ones, and it has grown by exactly the entries of the tenant.\<close>

theorem audit_append_only:
  assumes "VerifyAudit t m"
  shows "VerifyAudit t (fst (memory_audit.appends es (m, w))) \<and>
    (\<exists>es'. me_audit (fst (memory_audit.appends es (m, w))) t = me_audit m t @ es' \<and>
           length es' = length (filter (\<lambda>e. au_tenant e = t) es))"
proof -
  obtain es' where es': "me_audit (fst (memory_audit.appends es (m, w))) t = me_audit m t @ es'"
    using memory_audit.appends_log_prefix [of es "(m, w)" t] by auto
  moreover have "length es' = length (filter (\<lambda>e. au_tenant e = t) es)"
    using memory_audit.appends_length [of es "(m, w)" t] es' by simp
  moreover have "VerifyAudit t (fst (memory_audit.appends es (m, w)))"
    using memory_audit.appends_verify [of t "(m, w)" es] assms by simp
  ultimately show ?thesis by blast
qed

theorem audit_append_only_witness:
  "VerifyAudit ''acme'' (fst (memory_audit.appends [sample_entry ''x'', sample_entry ''y''] (NewMemory, sample_world))) \<and>
   length (me_audit (fst (memory_audit.appends [sample_entry ''x'', sample_entry ''y''] (NewMemory, sample_world))) ''acme'') = 2"
proof -
  have "VerifyAudit ''acme'' NewMemory" by (simp add: VerifyAudit_def NewMemory_def)
  from audit_append_only [OF this, of "[sample_entry ''x'', sample_entry ''y'']" sample_world]
  show ?thesis by (auto simp: sample_entry_def NewMemory_def)
qed

end
