(* ===== verification/Repository.thy ===== *)
theory Repository
  imports Memory_Invariants
begin

text \<open>
  The repository port of the services and its in-memory adapter, \<^verbatim>\<open>internal/store/repository.go\<close>:
  every method first asks the request context whether it has been cancelled, and then runs
  the method of the embedded store under it.
\<close>

definition guarded :: "(memory, 'a) op \<Rightarrow> (memory, 'a) op" where
  "guarded f mw =
    (let (cancelled, w) = ctx_err (snd mw)
     in if cancelled then (Inl ErrContext, (fst mw, w)) else f (fst mw, w))"

definition pure_op :: "(memory \<Rightarrow> 'a result) \<Rightarrow> (memory, 'a) op" where
  "pure_op f mw = (f (fst mw), mw)"

definition state_op :: "(memory \<Rightarrow> 'a \<times> memory) \<Rightarrow> (memory, 'a) op" where
  "state_op f mw = (let (x, m) = f (fst mw) in (Inr x, (m, snd mw)))"

definition repo_SetRules :: "detection_rule list \<Rightarrow> (memory, unit) op" where
  "repo_SetRules rules = guarded (state_op (\<lambda>m. ((), SetRules rules m)))"

definition repo_ListRules :: "(memory, detection_rule list) op" where
  "repo_ListRules = guarded (pure_op (\<lambda>m. Inr (ListRules m)))"

definition repo_PutEvent :: "canonical_event \<Rightarrow> (memory, canonical_event \<times> bool) op" where
  "repo_PutEvent e = guarded (state_op (PutEvent e))"

definition repo_GetEvent :: "tenant \<Rightarrow> string \<Rightarrow> (memory, canonical_event) op" where
  "repo_GetEvent t i = guarded (pure_op (GetEvent t i))"

definition repo_ListEvents :: "tenant \<Rightarrow> event_filter \<Rightarrow> (memory, canonical_event list) op" where
  "repo_ListEvents t f = guarded (pure_op (\<lambda>m. Inr (ListEvents t f m)))"

definition repo_PutFinding :: "finding \<Rightarrow> (memory, unit) op" where
  "repo_PutFinding f = guarded (state_op (\<lambda>m. ((), PutFinding f m)))"

definition repo_ListFindings :: "tenant \<Rightarrow> string \<Rightarrow> int \<Rightarrow> (memory, finding list) op" where
  "repo_ListFindings t e n = guarded (pure_op (\<lambda>m. Inr (ListFindings t e n m)))"

definition repo_UpsertAlert :: "alert \<Rightarrow> string \<Rightarrow> duration \<Rightarrow> (memory, alert \<times> bool) op" where
  "repo_UpsertAlert c k win = guarded (state_op (UpsertAlert c k win))"

definition repo_GetAlert :: "tenant \<Rightarrow> string \<Rightarrow> (memory, alert) op" where
  "repo_GetAlert t i = guarded (pure_op (GetAlert t i))"

definition repo_ListAlerts :: "tenant \<Rightarrow> alert_filter \<Rightarrow> (memory, alert list) op" where
  "repo_ListAlerts t f = guarded (pure_op (\<lambda>m. Inr (ListAlerts t f m)))"

definition repo_MutateAlert :: "tenant \<Rightarrow> string \<Rightarrow> int \<Rightarrow> alert mutator \<Rightarrow> (memory, alert) op" where
  "repo_MutateAlert t i n f = guarded (MutateAlert t i n f)"

definition repo_CreateIncident :: "incident \<Rightarrow> (memory, incident) op" where
  "repo_CreateIncident x =
    guarded (\<lambda>mw. let (r, m) = CreateIncident x (fst mw) in (r, (m, snd mw)))"

definition repo_GetIncident :: "tenant \<Rightarrow> string \<Rightarrow> (memory, incident) op" where
  "repo_GetIncident t i = guarded (pure_op (GetIncident t i))"

definition repo_ListIncidents :: "tenant \<Rightarrow> incident_filter \<Rightarrow> (memory, incident list) op" where
  "repo_ListIncidents t f = guarded (pure_op (\<lambda>m. Inr (ListIncidents t f m)))"

definition repo_MutateIncident :: "tenant \<Rightarrow> string \<Rightarrow> int \<Rightarrow> incident mutator \<Rightarrow> (memory, incident) op" where
  "repo_MutateIncident t i n f = guarded (MutateIncident t i n f)"

definition repo_AppendAudit :: "audit_entry \<Rightarrow> (memory, audit_entry) op" where
  "repo_AppendAudit e = guarded (\<lambda>mw. let (a, mw') = AppendAudit e mw in (Inr a, mw'))"

definition repo_ListAudit :: "tenant \<Rightarrow> int \<Rightarrow> (memory, audit_entry list) op" where
  "repo_ListAudit t n = guarded (pure_op (\<lambda>m. Inr (ListAudit t n m)))"

definition repo_VerifyAudit :: "tenant \<Rightarrow> (memory, bool) op" where
  "repo_VerifyAudit t = guarded (pure_op (\<lambda>m. Inr (VerifyAudit t m)))"

lemmas repo_defs = repo_SetRules_def repo_ListRules_def repo_PutEvent_def repo_GetEvent_def
  repo_ListEvents_def repo_PutFinding_def repo_ListFindings_def repo_UpsertAlert_def repo_GetAlert_def
  repo_ListAlerts_def repo_MutateAlert_def repo_CreateIncident_def repo_GetIncident_def
  repo_ListIncidents_def repo_MutateIncident_def repo_AppendAudit_def repo_ListAudit_def
  repo_VerifyAudit_def

subsection \<open>Running an adapter method\<close>

text \<open>
  A guarded method that succeeded was not cancelled, and ran on the same store. A guarded
  method that failed on a live context failed in the store itself.
\<close>

lemma guarded_Inr:
  "guarded f (m, w) = (Inr x, s') \<Longrightarrow> \<exists>w1. f (m, w1) = (Inr x, s') \<and> live w1 = live w"
  by (auto simp: guarded_def split: prod.splits if_splits)
     (metis live_frame(3) snd_conv)

lemma guarded_Inl:
  "guarded f (m, w) = (Inl e, (m', w')) \<Longrightarrow>
     (e = ErrContext \<and> m' = m \<and> \<not> live w) \<or> (\<exists>w1. f (m, w1) = (Inl e, (m', w')) \<and> live w1 = live w)"
proof -
  assume a: "guarded f (m, w) = (Inl e, (m', w'))"
  obtain c w1 where c: "ctx_err w = (c, w1)" by fastforce
  from c have "live w1 = live w" by (metis live_frame(3) snd_conv)
  moreover from c have "c \<Longrightarrow> \<not> live w" by (metis live_ctx_err fst_conv)
  ultimately show ?thesis using a c by (auto simp: guarded_def split: if_splits)
qed

lemma guarded_live: "live w \<Longrightarrow> guarded f (m, w) = f (m, snd (ctx_err w))"
  by (simp add: guarded_def case_prod_beta)

subsection \<open>The port of the SOC service\<close>

record 's soc_port =
  port_ListIncidents :: "tenant \<Rightarrow> incident_filter \<Rightarrow> ('s, incident list) op"
  port_GetAlert :: "tenant \<Rightarrow> string \<Rightarrow> ('s, alert) op"
  port_MutateAlert :: "tenant \<Rightarrow> string \<Rightarrow> int \<Rightarrow> alert mutator \<Rightarrow> ('s, alert) op"
  port_CreateIncident :: "incident \<Rightarrow> ('s, incident) op"
  port_MutateIncident :: "tenant \<Rightarrow> string \<Rightarrow> int \<Rightarrow> incident mutator \<Rightarrow> ('s, incident) op"
  port_AppendAudit :: "audit_entry \<Rightarrow> ('s, audit_entry) op"

definition memory_port :: "memory soc_port" where
  "memory_port =
    \<lparr>port_ListIncidents = repo_ListIncidents, port_GetAlert = repo_GetAlert,
     port_MutateAlert = repo_MutateAlert, port_CreateIncident = repo_CreateIncident,
     port_MutateIncident = repo_MutateIncident, port_AppendAudit = repo_AppendAudit\<rparr>"

lemma memory_port_simps [simp]:
  "port_ListIncidents memory_port = repo_ListIncidents" "port_GetAlert memory_port = repo_GetAlert"
  "port_MutateAlert memory_port = repo_MutateAlert" "port_CreateIncident memory_port = repo_CreateIncident"
  "port_MutateIncident memory_port = repo_MutateIncident" "port_AppendAudit memory_port = repo_AppendAudit"
  by (simp_all add: memory_port_def)

lemma repo_AppendAudit_Inr:
  assumes "repo_AppendAudit e (m, w) = (Inr a, (m', w'))"
  obtains w1 where "AppendAudit e (m, w1) = (a, (m', w'))" "live w1 = live w"
proof -
  from guarded_Inr [OF assms [unfolded repo_AppendAudit_def]] obtain w1 where
    w1: "(let (a, mw') = AppendAudit e (m, w1) in (Inr a, mw')) = (Inr a :: audit_entry result, (m', w'))"
      "live w1 = live w" by blast
  then have "AppendAudit e (m, w1) = (a, (m', w'))"
    by (cases "AppendAudit e (m, w1)") simp
  with w1(2) that show ?thesis by blast
qed

lemma repo_AppendAudit_Inl:
  assumes "repo_AppendAudit e (m, w) = (Inl x, (m', w'))"
  shows "x = ErrContext \<and> m' = m \<and> \<not> live w"
  using guarded_Inl [OF assms [unfolded repo_AppendAudit_def]]
  by (auto simp: Let_def case_prod_beta)

end
