(* ===== verification/Op_Relations.thy ===== *)
theory Op_Relations
  imports Core_Model
begin

text \<open>
  A small logic for service operations, which are sequences of port calls with early returns:
  \<open>op_rel R f\<close> says that every run of \<open>f\<close>, successful or failed, relates the store before to the
  store after by \<open>R\<close>. For a reflexive and transitive \<open>R\<close> it is closed under the combinators, so
  a property of a service is proved from the same property of the port's methods. Failures
  count: an operation that stops halfway has run a prefix of its calls.
\<close>

definition op_rel :: "('s \<Rightarrow> 's \<Rightarrow> bool) \<Rightarrow> ('s, 'a) op \<Rightarrow> bool" where
  "op_rel R f \<longleftrightarrow> (\<forall>s w r s' w'. f (s, w) = (r, (s', w')) \<longrightarrow> R s s')"

lemma op_relI: "(\<And>s w r s' w'. f (s, w) = (r, (s', w')) \<Longrightarrow> R s s') \<Longrightarrow> op_rel R f"
  by (simp add: op_rel_def)

lemma op_relD: "op_rel R f \<Longrightarrow> f (s, w) = (r, (s', w')) \<Longrightarrow> R s s'"
  unfolding op_rel_def by blast

text \<open>Lifting a result that does not depend on the state.\<close>

definition op_lift :: "'a result \<Rightarrow> ('s, 'a) op" where
  "op_lift r sw = (r, sw)"

lemma op_lift_simps [simp]: "op_lift (Inl e) = op_fail e" "op_lift (Inr x) = op_return x"
  by (simp_all add: op_lift_def op_fail_def op_return_def fun_eq_iff)

locale step_relation =
  fixes R :: "'s \<Rightarrow> 's \<Rightarrow> bool"
  assumes R_refl: "R s s"
    and R_trans: "R s1 s2 \<Longrightarrow> R s2 s3 \<Longrightarrow> R s1 s3"
begin

lemma rel_return: "op_rel R (op_return x)"
  by (rule op_relI) (auto simp: op_return_def R_refl)

lemma rel_fail: "op_rel R (op_fail e)"
  by (rule op_relI) (auto simp: op_fail_def R_refl)

lemma rel_lift: "op_rel R (op_lift r)"
  by (rule op_relI) (auto simp: op_lift_def R_refl)

lemma rel_now: "op_rel R op_now"
  by (rule op_relI) (auto simp: op_now_def R_refl split: prod.splits)

lemma rel_new_id: "op_rel R (op_new_id p)"
  by (rule op_relI) (auto simp: op_new_id_def R_refl split: prod.splits)

lemma rel_bind:
  assumes "op_rel R f" "\<And>x. op_rel R (g x)"
  shows "op_rel R (op_bind f g)"
proof (rule op_relI)
  fix s w r s' w'
  assume b: "op_bind f g (s, w) = (r, (s', w'))"
  obtain q s1 w1 where f: "f (s, w) = (q, (s1, w1))" by (metis prod.exhaust)
  then have R1: "R s s1" using assms(1) by (rule op_relD [rotated])
  show "R s s'"
  proof (cases q)
    case (Inl e)
    with b f R1 show ?thesis by (simp add: op_bind_def)
  next
    case (Inr x)
    with b f have "g x (s1, w1) = (r, (s', w'))" by (simp add: op_bind_def)
    then have "R s1 s'" using assms(2) by (rule op_relD [rotated])
    with R1 show ?thesis by (rule R_trans)
  qed
qed

lemmas rel_intros = rel_return rel_fail rel_lift rel_now rel_new_id rel_bind

end

text \<open>Keeping an invariant is such a relation.\<close>

definition keeps :: "('s \<Rightarrow> bool) \<Rightarrow> 's \<Rightarrow> 's \<Rightarrow> bool" where
  "keeps P s s' \<longleftrightarrow> (P s \<longrightarrow> P s')"

lemma keepsI: "(P s \<Longrightarrow> P s') \<Longrightarrow> keeps P s s'"
  by (simp add: keeps_def)

interpretation keeps_rel: step_relation "keeps P" for P
  by unfold_locales (auto simp: keeps_def)

subsection \<open>Lifecycles\<close>

text \<open>
  A lifecycle is a set of states with the changes the code allows; its final state has no way
  out. In an acyclic one every change goes strictly upwards in a bounded rank, so an object
  changes its state at most as often as there are ranks above it.
\<close>

locale lifecycle =
  fixes allowed :: "string \<Rightarrow> string \<Rightarrow> bool"
    and final :: string
  assumes final_stuck: "\<not> allowed final s"
begin

fun path :: "string \<Rightarrow> string list \<Rightarrow> bool" where
  "path s [] = True"
| "path s (x # xs) = (allowed s x \<and> path x xs)"

lemma path_from_final: "path final xs \<Longrightarrow> xs = []"
  by (cases xs) (auto simp: final_stuck)

end

locale acyclic_lifecycle = lifecycle +
  fixes rank :: "string \<Rightarrow> nat"
    and top_rank :: nat
  assumes allowed_rank: "allowed s s' \<Longrightarrow> rank s < rank s'"
    and rank_bound: "rank s \<le> top_rank"
begin

lemma path_rank: "path s xs \<Longrightarrow> rank s + length xs \<le> top_rank"
proof (induction s xs rule: path.induct)
  case (1 s)
  then show ?case by (simp add: rank_bound)
next
  case (2 s x xs)
  then have "rank x + length xs \<le> top_rank" "rank s < rank x"
    by (auto dest: allowed_rank)
  then show ?case by simp
qed

lemma path_distinct: "path s xs \<Longrightarrow> distinct (s # xs) \<and> (\<forall>x \<in> set xs. rank s < rank x)"
proof (induction s xs rule: path.induct)
  case (2 s x xs)
  then have "distinct (x # xs)" "\<forall>y \<in> set xs. rank x < rank y" "rank s < rank x"
    by (auto dest: allowed_rank)
  then show ?case by force
qed simp

end

end
