(* ===== verification/Soc_Service.thy ===== *)
theory Soc_Service
  imports Repository Op_Relations
begin

text \<open>
  The SOC service, \<^verbatim>\<open>internal/soc/service.go\<close>: alert triage, promotion of alerts to an incident
  and the incident lifecycle, each with its audit record. The service is a client of the port
  \<open>soc_port\<close>; the theorems run it on the embedded adapter \<open>memory_port\<close>.
\<close>

subsection \<open>Inputs\<close>

record alert_patch =
  ap_status :: string
  ap_assignee :: string
  ap_disposition :: string
  ap_comment :: string
  ap_version :: int

record create_incident_input =
  ci_title :: string
  ci_summary :: string
  ci_assignee :: string
  ci_alert_ids :: "string list"
  ci_request_id :: string

record incident_patch =
  ip_status :: string
  ip_assignee :: string
  ip_disposition :: string
  ip_closure_reason :: string
  ip_comment :: string
  ip_version :: int
  ip_request_id :: string

subsection \<open>Lifecycles\<close>

definition lookup_list :: "(string \<times> string list) list \<Rightarrow> string \<Rightarrow> string list" where
  "lookup_list table k = (case map_of table k of None \<Rightarrow> [] | Some xs \<Rightarrow> xs)"

definition alert_transitions :: "(string \<times> string list) list" where
  "alert_transitions =
    [(''NEW'', [''ACKNOWLEDGED'', ''IN_PROGRESS'', ''CLOSED'']),
     (''ACKNOWLEDGED'', [''IN_PROGRESS'', ''CLOSED'']),
     (''IN_PROGRESS'', [''CLOSED'']),
     (''CLOSED'', [])]"

definition validAlertTransition :: "string \<Rightarrow> string \<Rightarrow> bool" where
  "validAlertTransition current next \<longleftrightarrow>
     current = next \<or> next \<in> set (lookup_list alert_transitions current)"

definition incident_transitions :: "(string \<times> string list) list" where
  "incident_transitions =
    [(''NEW'', [''TRIAGE'']),
     (''TRIAGE'', [''INVESTIGATION'', ''CLOSED'']),
     (''INVESTIGATION'', [''CONTAINMENT'', ''RECOVERY'', ''CLOSED'']),
     (''CONTAINMENT'', [''ERADICATION'', ''RECOVERY'']),
     (''ERADICATION'', [''RECOVERY'']),
     (''RECOVERY'', [''CLOSED'']),
     (''CLOSED'', [])]"

definition AllowedTransitions :: "string \<Rightarrow> string list" where
  "AllowedTransitions status = lookup_list incident_transitions (to_upper status)"

definition acknowledgementWindow :: "severity \<Rightarrow> duration" where
  "acknowledgementWindow s =
    (if s = SeverityCritical then 15 * minute
     else if s = SeverityHigh then 30 * minute
     else if s = SeverityMedium then 4 * hour
     else 24 * hour)"

subsection \<open>Helpers\<close>

definition uniqueSorted :: "string list \<Rightarrow> string list" where
  "uniqueSorted values = sort (appendUnique [] values)"

definition entityExists :: "entity_summary list \<Rightarrow> entity_summary \<Rightarrow> bool" where
  "entityExists values candidate =
     list_ex (\<lambda>v. en_type v = en_type candidate \<and> en_name v = en_name candidate) values"

fun firstNonEmpty :: "string list \<Rightarrow> string" where
  "firstNonEmpty [] = []"
| "firstNonEmpty (v # vs) = (if trim_space v \<noteq> [] then trim_space v else firstNonEmpty vs)"

subsection \<open>Triage of an alert\<close>

definition acknowledge :: "time \<Rightarrow> sla_info \<Rightarrow> sla_info" where
  "acknowledge now s =
    (case acknowledged s of
       None \<Rightarrow> s\<lparr>acknowledged := Some now, sla_breached := after now (acknowledge_by s)\<rparr>
     | Some _ \<Rightarrow> s)"

definition alert_status_change :: "time \<Rightarrow> alert_patch \<Rightarrow> alert \<Rightarrow> alert result" where
  "alert_status_change now p a =
    (if ap_status p = [] then Inr a
     else (let nxt = to_upper (ap_status p)
           in if \<not> validAlertTransition (al_status a) nxt then Inl ErrInvalidTransition
              else if nxt = ''CLOSED'' \<and> trim_space (ap_disposition p) = [] then Inl ErrClosureDetails
              else (let b = a\<lparr>al_status := nxt\<rparr>
                    in if nxt = ''ACKNOWLEDGED'' \<or> nxt = ''IN_PROGRESS'' \<or> nxt = ''CLOSED''
                       then Inr (b\<lparr>al_sla := acknowledge now (al_sla b)\<rparr>) else Inr b)))"

definition alert_change :: "time \<Rightarrow> alert_patch \<Rightarrow> alert mutator" where
  "alert_change now p a w =
    (bind_ok (alert_status_change now p a) (\<lambda>b.
       let c = (if ap_assignee p \<noteq> [] then b\<lparr>al_assignee := trim_space (ap_assignee p)\<rparr> else b);
           d = (if ap_disposition p \<noteq> [] then c\<lparr>al_disposition := to_upper (ap_disposition p)\<rparr> else c)
       in Inr d), w)"

definition new_audit :: "tenant \<Rightarrow> string \<Rightarrow> string \<Rightarrow> string \<Rightarrow> string \<Rightarrow> string \<Rightarrow> string \<Rightarrow> json \<Rightarrow> audit_entry" where
  "new_audit t actor action kind i outcome req meta =
    \<lparr>au_id = [], au_tenant = t, au_actor = actor, au_action = action, au_resource_type = kind,
     au_resource_id = i, au_outcome = outcome, au_request_id = req, au_metadata = meta,
     au_previous_hash = [], au_hash = [], au_created_at = 0\<rparr>"

lemma new_audit_simps [simp]:
  "au_tenant (new_audit t actor action kind i outcome req meta) = t"
  "au_action (new_audit t actor action kind i outcome req meta) = action"
  by (simp_all add: new_audit_def)

definition triage_audit :: "tenant \<Rightarrow> string \<Rightarrow> string \<Rightarrow> alert_patch \<Rightarrow> alert \<Rightarrow> audit_entry" where
  "triage_audit t actor req p a =
    new_audit t actor ''alert.triaged'' ''alert'' (al_id a) ''success'' req
      (JObj [(''status'', JStr (al_status a)), (''assignee'', JStr (al_assignee a)),
             (''disposition'', JStr (al_disposition a)), (''comment'', JStr (ap_comment p))])"

definition UpdateAlert ::
  "'s soc_port \<Rightarrow> tenant \<Rightarrow> string \<Rightarrow> string \<Rightarrow> string \<Rightarrow> alert_patch \<Rightarrow> ('s, alert) op" where
  "UpdateAlert port t alert_id actor req p =
    op_bind op_now (\<lambda>now.
    op_bind (port_MutateAlert port t alert_id (ap_version p) (alert_change now p)) (\<lambda>a.
    op_bind (port_AppendAudit port (triage_audit t actor req p a)) (\<lambda>_.
    op_return a)))"

subsection \<open>Promotion of alerts to an incident\<close>

record lineage =
  ln_alerts :: "alert list"
  ln_severity :: severity
  ln_risk :: int
  ln_findings :: "string list"
  ln_events :: "string list"
  ln_mitre :: "string list"
  ln_entities :: "entity_summary list"

definition no_lineage :: lineage where
  "no_lineage =
    \<lparr>ln_alerts = [], ln_severity = SeverityInformational, ln_risk = 0, ln_findings = [],
     ln_events = [], ln_mitre = [], ln_entities = []\<rparr>"

definition add_alert :: "lineage \<Rightarrow> alert \<Rightarrow> lineage" where
  "add_alert l a =
    \<lparr>ln_alerts = ln_alerts l @ [a],
     ln_severity = (if SeverityRank (ln_severity l) < SeverityRank (al_severity a)
                    then al_severity a else ln_severity l),
     ln_risk = (if ln_risk l < al_risk_score a then al_risk_score a else ln_risk l),
     ln_findings = appendUnique (ln_findings l) (al_finding_ids a),
     ln_events = appendUnique (ln_events l) (al_event_ids a),
     ln_mitre = appendUnique (ln_mitre l) (al_mitre a),
     ln_entities = (if en_name (al_entity a) \<noteq> [] \<and> \<not> entityExists (ln_entities l) (al_entity a)
                    then ln_entities l @ [al_entity a] else ln_entities l)\<rparr>"

fun gather_alerts :: "'s soc_port \<Rightarrow> tenant \<Rightarrow> string list \<Rightarrow> lineage \<Rightarrow> ('s, lineage) op" where
  "gather_alerts port t [] l = op_return l"
| "gather_alerts port t (i # is) l =
     op_bind (port_GetAlert port t i) (\<lambda>a. gather_alerts port t is (add_alert l a))"

definition link_change :: "create_incident_input \<Rightarrow> alert mutator" where
  "link_change input a w =
    (let b = (if al_status a = ''NEW'' \<or> al_status a = ''ACKNOWLEDGED''
              then a\<lparr>al_status := ''IN_PROGRESS''\<rparr> else a);
         c = (if al_assignee b = [] then b\<lparr>al_assignee := ci_assignee input\<rparr> else b)
     in (Inr c, w))"

fun link_alerts :: "'s soc_port \<Rightarrow> tenant \<Rightarrow> create_incident_input \<Rightarrow> alert list \<Rightarrow> ('s, unit) op" where
  "link_alerts port t input [] = op_return ()"
| "link_alerts port t input (a # as) =
     op_bind (port_MutateAlert port t (al_id a) 0 (link_change input)) (\<lambda>_.
     link_alerts port t input as)"

definition created_entry :: "string \<Rightarrow> string \<Rightarrow> time \<Rightarrow> timeline_entry" where
  "created_entry i actor now =
    \<lparr>tl_id = i, tl_type = ''incident.created'', tl_message = ''Incident created from SOC alert'',
     tl_actor = actor, tl_created_at = now, tl_data = JNull\<rparr>"

definition build_incident ::
  "tenant \<Rightarrow> string \<Rightarrow> create_incident_input \<Rightarrow> string list \<Rightarrow> lineage \<Rightarrow> string \<Rightarrow> time \<Rightarrow> string \<Rightarrow> string \<Rightarrow> incident" where
  "build_incident t actor input alert_ids l title now inc_id tim_id =
    \<lparr>in_id = inc_id, in_tenant = t, in_title = title, in_summary = trim_space (ci_summary input),
     in_severity = ln_severity l, in_status = ''NEW'', in_disposition = [], in_closure_reason = [],
     in_assignee = trim_space (ci_assignee input), in_alert_ids = alert_ids,
     in_finding_ids = ln_findings l, in_event_ids = ln_events l, in_entities = ln_entities l,
     in_mitre = ln_mitre l, in_risk_score = ln_risk l, in_timeline = [created_entry tim_id actor now],
     in_sla = \<lparr>acknowledge_by = now + acknowledgementWindow (ln_severity l), sla_breached = False,
               acknowledged = None\<rparr>,
     in_allowed = AllowedTransitions ''NEW'', in_version = 1, in_created_at = now, in_updated_at = now\<rparr>"

definition find_incident :: "string list \<Rightarrow> incident list \<Rightarrow> incident option" where
  "find_incident alert_ids existing = find (\<lambda>x. uniqueSorted (in_alert_ids x) = alert_ids) existing"

definition incident_window :: incident_filter where
  "incident_window = \<lparr>if_status = [], if_severity = [], if_query = [], if_limit = 500\<rparr>"

text \<open>An empty title is the title of the first alert: \<^verbatim>\<open>alerts[0]\<close>, which panics on an empty slice.\<close>

definition incident_title :: "create_incident_input \<Rightarrow> lineage \<Rightarrow> string result" where
  "incident_title input l =
    (if trim_space (ci_title input) \<noteq> [] then Inr (trim_space (ci_title input))
     else case ln_alerts l of [] \<Rightarrow> Inl PanicIndexOutOfRange | a # _ \<Rightarrow> Inr (al_title a))"

definition created_audit :: "tenant \<Rightarrow> string \<Rightarrow> create_incident_input \<Rightarrow> string list \<Rightarrow> lineage \<Rightarrow> incident \<Rightarrow> audit_entry" where
  "created_audit t actor input alert_ids l created =
    new_audit t actor ''incident.created'' ''incident'' (in_id created) ''success'' (ci_request_id input)
      (JObj [(''alert_ids'', nil_list alert_ids), (''severity'', JStr (ln_severity l)),
             (''risk_score'', JInt (ln_risk l))])"

text \<open>The promotion proper, after no incident with the same alerts was found.\<close>

definition promote ::
  "'s soc_port \<Rightarrow> tenant \<Rightarrow> string \<Rightarrow> create_incident_input \<Rightarrow> string list \<Rightarrow> ('s, incident \<times> bool) op" where
  "promote port t actor input alert_ids =
    op_bind (gather_alerts port t alert_ids no_lineage) (\<lambda>l.
    op_bind op_now (\<lambda>now.
    op_bind (op_lift (incident_title input l)) (\<lambda>title.
    op_bind (op_new_id ''inc'') (\<lambda>inc_id.
    op_bind (op_new_id ''tim'') (\<lambda>tim_id.
    op_bind (port_CreateIncident port
               (build_incident t actor input alert_ids l title now inc_id tim_id)) (\<lambda>created.
    op_bind (link_alerts port t input (ln_alerts l)) (\<lambda>_.
    op_bind (port_AppendAudit port (created_audit t actor input alert_ids l created)) (\<lambda>_.
    op_return (created, False)))))))))"

definition SocCreateIncident ::
  "'s soc_port \<Rightarrow> tenant \<Rightarrow> string \<Rightarrow> create_incident_input \<Rightarrow> ('s, incident \<times> bool) op" where
  "SocCreateIncident port t actor input =
    (if ci_alert_ids input = [] then op_fail ErrNoAlerts
     else (let alert_ids = uniqueSorted (ci_alert_ids input)
       in op_bind (port_ListIncidents port t incident_window) (\<lambda>existing.
          case find_incident alert_ids existing of
            Some x \<Rightarrow> op_return (x, True)
          | None \<Rightarrow> promote port t actor input alert_ids)))"

subsection \<open>Progress of an incident\<close>

definition arrow :: string where
  "arrow = [CHR '' '', CHR 0xE2, CHR 0x86, CHR 0x92, CHR '' '']"

definition timeline :: "string \<Rightarrow> string \<Rightarrow> string \<Rightarrow> time \<Rightarrow> incident \<Rightarrow> world \<Rightarrow> incident \<times> world" where
  "timeline kind message actor now x w =
    (let (i, w1) = new_id ''tim'' w
     in (x\<lparr>in_timeline := in_timeline x @
            [\<lparr>tl_id = i, tl_type = kind, tl_message = message, tl_actor = actor, tl_created_at = now,
              tl_data = JNull\<rparr>]\<rparr>, w1))"

definition close_details :: "incident_patch \<Rightarrow> string \<Rightarrow> incident \<Rightarrow> incident result" where
  "close_details p nxt x =
    (if nxt = ''CLOSED'' then
       (let disposition = firstNonEmpty [ip_disposition p, in_disposition x];
            reason = firstNonEmpty [ip_closure_reason p, in_closure_reason x]
        in if disposition = [] \<or> reason = [] then Inl ErrClosureDetails
           else Inr (x\<lparr>in_disposition := to_upper disposition, in_closure_reason := reason\<rparr>))
     else Inr x)"

definition incident_status_change :: "time \<Rightarrow> string \<Rightarrow> incident_patch \<Rightarrow> incident mutator" where
  "incident_status_change now actor p x w =
    (if ip_status p = [] then (Inr x, w)
     else (let previous = in_status x; nxt = to_upper (ip_status p)
           in if nxt \<notin> set (AllowedTransitions previous) \<and> previous \<noteq> nxt then (Inl ErrInvalidTransition, w)
              else (case close_details p nxt x of
                      Inl e \<Rightarrow> (Inl e, w)
                    | Inr y \<Rightarrow>
                        (let y1 = y\<lparr>in_status := nxt\<rparr>;
                             (y2, w1) = (if nxt \<noteq> previous
                                         then timeline ''incident.status_changed'' (previous @ arrow @ nxt) actor now y1 w
                                         else (y1, w));
                             y3 = (if nxt \<noteq> ''NEW'' then y2\<lparr>in_sla := acknowledge now (in_sla y2)\<rparr> else y2)
                         in (Inr y3, w1)))))"

definition incident_change :: "time \<Rightarrow> string \<Rightarrow> incident_patch \<Rightarrow> incident mutator" where
  "incident_change now actor p x w =
    (case incident_status_change now actor p x w of
       (Inl e, w1) \<Rightarrow> (Inl e, w1)
     | (Inr x1, w1) \<Rightarrow>
         (let (x2, w2) = (if ip_assignee p \<noteq> [] \<and> ip_assignee p \<noteq> in_assignee x1
                          then timeline ''incident.assigned'' (''Assigned to '' @ trim_space (ip_assignee p)) actor now
                                 (x1\<lparr>in_assignee := trim_space (ip_assignee p)\<rparr>) w1
                          else (x1, w1));
              x3 = (if ip_disposition p \<noteq> [] then x2\<lparr>in_disposition := to_upper (ip_disposition p)\<rparr> else x2);
              x4 = (if ip_closure_reason p \<noteq> [] then x3\<lparr>in_closure_reason := trim_space (ip_closure_reason p)\<rparr> else x3);
              (x5, w3) = (if trim_space (ip_comment p) \<noteq> []
                          then timeline ''comment'' (trim_space (ip_comment p)) actor now x4 w2
                          else (x4, w2))
          in (Inr (x5\<lparr>in_allowed := AllowedTransitions (in_status x5)\<rparr>), w3)))"

definition updated_audit :: "tenant \<Rightarrow> string \<Rightarrow> incident_patch \<Rightarrow> incident \<Rightarrow> audit_entry" where
  "updated_audit t actor p x =
    new_audit t actor ''incident.updated'' ''incident'' (in_id x) ''success'' (ip_request_id p)
      (JObj [(''status'', JStr (in_status x)), (''assignee'', JStr (in_assignee x)),
             (''disposition'', JStr (in_disposition x))])"

definition UpdateIncident ::
  "'s soc_port \<Rightarrow> tenant \<Rightarrow> string \<Rightarrow> string \<Rightarrow> incident_patch \<Rightarrow> ('s, incident) op" where
  "UpdateIncident port t incident_id actor p =
    op_bind op_now (\<lambda>now.
    op_bind (port_MutateIncident port t incident_id (ip_version p) (incident_change now actor p)) (\<lambda>x.
    op_bind (port_AppendAudit port (updated_audit t actor p x)) (\<lambda>_.
    op_return x)))"

end
