(* ===== verification/Soc_Facts.thy ===== *)
theory Soc_Facts
  imports Soc_Service
begin

text \<open>
  Facts about the SOC service: what each change function does to an alert or an incident, the
  contract \<open>soc_contract\<close> a port has to keep so that every service operation keeps a relation
  on the store, and its interpretations on the embedded adapter (well-formedness, tenant
  isolation, monotone alert lifecycles).
\<close>

subsection \<open>The lifecycles\<close>

lemma alert_transitions_simps [simp]:
  "lookup_list alert_transitions ''NEW'' = [''ACKNOWLEDGED'', ''IN_PROGRESS'', ''CLOSED'']"
  "lookup_list alert_transitions ''ACKNOWLEDGED'' = [''IN_PROGRESS'', ''CLOSED'']"
  "lookup_list alert_transitions ''IN_PROGRESS'' = [''CLOSED'']"
  "lookup_list alert_transitions ''CLOSED'' = []"
  by (simp_all add: lookup_list_def alert_transitions_def)

lemma alert_transitions_dom:
  "n \<in> set (lookup_list alert_transitions s) \<Longrightarrow>
     s = ''NEW'' \<or> s = ''ACKNOWLEDGED'' \<or> s = ''IN_PROGRESS''"
  by (auto simp: lookup_list_def alert_transitions_def split: if_splits)

definition alert_rank :: "string \<Rightarrow> nat" where
  "alert_rank s = (if s = ''ACKNOWLEDGED'' then 1 else if s = ''IN_PROGRESS'' then 2
                   else if s = ''CLOSED'' then 3 else 0)"

lemma alert_rank_simps [simp]:
  "alert_rank ''NEW'' = 0" "alert_rank ''ACKNOWLEDGED'' = 1" "alert_rank ''IN_PROGRESS'' = 2"
  "alert_rank ''CLOSED'' = 3"
  by (simp_all add: alert_rank_def)

lemma alert_transitions_rank:
  assumes "n \<in> set (lookup_list alert_transitions s)"
  shows "alert_rank s < alert_rank n"
  using alert_transitions_dom [OF assms] assms by (elim disjE) auto

lemma alert_rank_le: "alert_rank s \<le> 3"
  by (simp add: alert_rank_def)

interpretation alert_lifecycle: acyclic_lifecycle
  "\<lambda>s n. n \<in> set (lookup_list alert_transitions s)" "''CLOSED''" alert_rank 3
  by unfold_locales (simp_all add: alert_rank_le alert_transitions_rank)

lemma validAlertTransition_rank: "validAlertTransition s n \<Longrightarrow> alert_rank s \<le> alert_rank n"
  by (auto simp: validAlertTransition_def dest: alert_lifecycle.allowed_rank)

lemma incident_states_upper [simp]:
  "to_upper ''NEW'' = ''NEW''" "to_upper ''TRIAGE'' = ''TRIAGE''"
  "to_upper ''INVESTIGATION'' = ''INVESTIGATION''" "to_upper ''CONTAINMENT'' = ''CONTAINMENT''"
  "to_upper ''ERADICATION'' = ''ERADICATION''" "to_upper ''RECOVERY'' = ''RECOVERY''"
  "to_upper ''CLOSED'' = ''CLOSED''"
  by (code_simp)+

lemma AllowedTransitions_simps [simp]:
  "AllowedTransitions ''NEW'' = [''TRIAGE'']"
  "AllowedTransitions ''TRIAGE'' = [''INVESTIGATION'', ''CLOSED'']"
  "AllowedTransitions ''INVESTIGATION'' = [''CONTAINMENT'', ''RECOVERY'', ''CLOSED'']"
  "AllowedTransitions ''CONTAINMENT'' = [''ERADICATION'', ''RECOVERY'']"
  "AllowedTransitions ''ERADICATION'' = [''RECOVERY'']"
  "AllowedTransitions ''RECOVERY'' = [''CLOSED'']"
  "AllowedTransitions ''CLOSED'' = []"
  by (simp_all add: AllowedTransitions_def lookup_list_def incident_transitions_def)

definition incident_rank :: "string \<Rightarrow> nat" where
  "incident_rank s =
    (let u = to_upper s
     in if u = ''TRIAGE'' then 1 else if u = ''INVESTIGATION'' then 2 else if u = ''CONTAINMENT'' then 3
        else if u = ''ERADICATION'' then 4 else if u = ''RECOVERY'' then 5
        else if u = ''CLOSED'' then 6 else 0)"

lemma incident_rank_simps [simp]:
  "incident_rank ''TRIAGE'' = 1" "incident_rank ''INVESTIGATION'' = 2"
  "incident_rank ''CONTAINMENT'' = 3" "incident_rank ''ERADICATION'' = 4"
  "incident_rank ''RECOVERY'' = 5" "incident_rank ''CLOSED'' = 6" "incident_rank ''NEW'' = 0"
  by (simp_all add: incident_rank_def)

lemma AllowedTransitions_rank: "n \<in> set (AllowedTransitions s) \<Longrightarrow> incident_rank s < incident_rank n"
  by (auto simp: AllowedTransitions_def lookup_list_def incident_transitions_def incident_rank_def Let_def
      split: if_splits)

interpretation incident_lifecycle: acyclic_lifecycle
  "\<lambda>s n. n \<in> set (AllowedTransitions s)" "''CLOSED''" incident_rank 6
  by unfold_locales (auto simp: AllowedTransitions_rank, simp add: incident_rank_def Let_def)

subsection \<open>Changes of an alert\<close>

lemma acknowledge_simps [simp]:
  "acknowledge_by (acknowledge now s) = acknowledge_by s"
  "acknowledged s = Some x \<Longrightarrow> acknowledge now s = s"
  "acknowledged s = None \<Longrightarrow> acknowledged (acknowledge now s) = Some now"
  "acknowledged s = None \<Longrightarrow> sla_breached (acknowledge now s) = after now (acknowledge_by s)"
  by (simp_all add: acknowledge_def split: option.split)

lemma alert_status_change_Inr:
  assumes "alert_status_change now p a = Inr b"
  shows "(ap_status p = [] \<and> b = a) \<or>
    (ap_status p \<noteq> [] \<and> validAlertTransition (al_status a) (to_upper (ap_status p)) \<and>
     (to_upper (ap_status p) = ''CLOSED'' \<longrightarrow> trim_space (ap_disposition p) \<noteq> []) \<and>
     (\<exists>sla. b = a\<lparr>al_status := to_upper (ap_status p), al_sla := sla\<rparr>))"
proof (cases "ap_status p = []")
  case True
  with assms show ?thesis by (simp add: alert_status_change_def)
next
  case False
  define n where "n = to_upper (ap_status p)"
  have "alert_status_change now p a =
    (if \<not> validAlertTransition (al_status a) n then Inl ErrInvalidTransition
     else if n = ''CLOSED'' \<and> trim_space (ap_disposition p) = [] then Inl ErrClosureDetails
     else Inr (a\<lparr>al_status := n,
        al_sla := (if n = ''ACKNOWLEDGED'' \<or> n = ''IN_PROGRESS'' \<or> n = ''CLOSED''
                   then acknowledge now (al_sla a) else al_sla a)\<rparr>))"
    using False by (simp add: alert_status_change_def Let_def n_def)
  with assms False show ?thesis unfolding n_def [symmetric] by (simp only: guard_Inr) blast
qed

lemma alert_change_Inr:
  assumes "alert_change now p a w = (Inr b, w')"
  shows "w' = w" "al_id b = al_id a" "al_tenant b = al_tenant a" "al_version b = al_version a"
    "validAlertTransition (al_status a) (al_status b)"
    "ap_status p \<noteq> [] \<Longrightarrow> al_status b = to_upper (ap_status p)"
    "ap_status p = [] \<Longrightarrow> al_status b = al_status a"
    "ap_status p \<noteq> [] \<Longrightarrow> al_status b = ''CLOSED'' \<Longrightarrow>
       trim_space (ap_disposition p) \<noteq> [] \<and> al_disposition b = to_upper (ap_disposition p)"
    "al_event_ids b = al_event_ids a" "al_risk_score b = al_risk_score a"
    "al_finding_ids b = al_finding_ids a" "al_event_count b = al_event_count a"
proof -
  from assms obtain c where c: "alert_status_change now p a = Inr c" and w: "w' = w"
    and b: "b = (let d = (if ap_assignee p \<noteq> [] then c\<lparr>al_assignee := trim_space (ap_assignee p)\<rparr> else c)
                 in if ap_disposition p \<noteq> [] then d\<lparr>al_disposition := to_upper (ap_disposition p)\<rparr> else d)"
    by (cases "alert_status_change now p a") (simp_all add: alert_change_def Let_def)
  note cs = alert_status_change_Inr [OF c]
  have st: "al_status b = al_status c" and id: "al_id b = al_id c" "al_tenant b = al_tenant c"
    "al_version b = al_version c" "al_event_ids b = al_event_ids c" "al_risk_score b = al_risk_score c"
    "al_finding_ids b = al_finding_ids c" "al_event_count b = al_event_count c"
    and di: "ap_disposition p \<noteq> [] \<Longrightarrow> al_disposition b = to_upper (ap_disposition p)"
    by (simp_all add: b Let_def)
  have cid: "al_id c = al_id a" "al_tenant c = al_tenant a"
    "al_version c = al_version a" "al_event_ids c = al_event_ids a" "al_risk_score c = al_risk_score a"
    "al_finding_ids c = al_finding_ids a" "al_event_count c = al_event_count a"
    using cs by (elim disjE conjE exE; simp)+
  have cst: "al_status c = (if ap_status p = [] then al_status a else to_upper (ap_status p))"
    using cs by (elim disjE conjE exE; simp)
  have v: "validAlertTransition (al_status a) (al_status c)"
    using cs by (elim disjE conjE exE; simp add: validAlertTransition_def)
  show "w' = w" by (rule w)
  show "al_id b = al_id a" "al_tenant b = al_tenant a" "al_version b = al_version a"
    "al_event_ids b = al_event_ids a" "al_risk_score b = al_risk_score a"
    "al_finding_ids b = al_finding_ids a" "al_event_count b = al_event_count a"
    by (simp_all add: id cid)
  show "validAlertTransition (al_status a) (al_status b)" using v by (simp add: st)
  show "ap_status p \<noteq> [] \<Longrightarrow> al_status b = to_upper (ap_status p)"
    "ap_status p = [] \<Longrightarrow> al_status b = al_status a" by (simp_all add: st cst)
  show "trim_space (ap_disposition p) \<noteq> [] \<and> al_disposition b = to_upper (ap_disposition p)"
    if "ap_status p \<noteq> []" "al_status b = ''CLOSED''"
  proof -
    from that have u: "to_upper (ap_status p) = ''CLOSED''" by (simp add: st cst)
    with cs that(1) have "trim_space (ap_disposition p) \<noteq> []" by blast
    then show ?thesis using di by fastforce
  qed
qed

lemma keeps_alert_change [simp]: "keeps_alert_key (alert_change now p)"
  by (auto simp: keeps_alert_key_def dest: alert_change_Inr)

lemma link_change_simps:
  "link_change input a w = (Inr b, w') \<Longrightarrow>
     w' = w \<and> al_id b = al_id a \<and> al_tenant b = al_tenant a \<and> al_version b = al_version a \<and>
     al_status b = (if al_status a = ''NEW'' \<or> al_status a = ''ACKNOWLEDGED'' then ''IN_PROGRESS'' else al_status a)"
  by (auto simp: link_change_def Let_def)

lemma keeps_link_change [simp]: "keeps_alert_key (link_change input)"
  by (auto simp: keeps_alert_key_def dest: link_change_simps)

subsection \<open>Changes of an incident\<close>

lemma timeline_simps:
  "timeline k msg actor now x w = (y, w') \<Longrightarrow> \<exists>tl. y = x\<lparr>in_timeline := in_timeline x @ [tl]\<rparr> \<and> tl_type tl = k"
  by (auto simp: timeline_def split: prod.splits)

lemma timeline_frame [simp]:
  "in_id (fst (timeline k msg actor now x w)) = in_id x"
  "in_tenant (fst (timeline k msg actor now x w)) = in_tenant x"
  "in_version (fst (timeline k msg actor now x w)) = in_version x"
  "in_status (fst (timeline k msg actor now x w)) = in_status x"
  "in_disposition (fst (timeline k msg actor now x w)) = in_disposition x"
  "in_closure_reason (fst (timeline k msg actor now x w)) = in_closure_reason x"
  "in_assignee (fst (timeline k msg actor now x w)) = in_assignee x"
  "in_sla (fst (timeline k msg actor now x w)) = in_sla x"
  "in_alert_ids (fst (timeline k msg actor now x w)) = in_alert_ids x"
  "length (in_timeline (fst (timeline k msg actor now x w))) = Suc (length (in_timeline x))"
  by (simp_all add: timeline_def split: prod.split)

lemma timeline_grows: "\<exists>es. in_timeline (fst (timeline k msg actor now x w)) = in_timeline x @ es"
  by (simp add: timeline_def split: prod.split)

lemma timeline_if_grows:
  "\<exists>es. in_timeline (fst (if c then timeline k msg actor now x w else (x', w))) =
        (if c then in_timeline x else in_timeline x') @ es"
  by (cases c) (simp_all only: if_True if_False fst_conv timeline_grows, simp)

lemma close_details_Inr:
  assumes "close_details p n x = Inr y"
  shows "in_id y = in_id x" "in_tenant y = in_tenant x" "in_version y = in_version x"
    "in_timeline y = in_timeline x" "in_sla y = in_sla x" "in_alert_ids y = in_alert_ids x"
    "in_status y = in_status x"
    "n = ''CLOSED'' \<Longrightarrow> in_disposition y = to_upper (firstNonEmpty [ip_disposition p, in_disposition x]) \<and>
       firstNonEmpty [ip_disposition p, in_disposition x] \<noteq> []"
    "n = ''CLOSED'' \<Longrightarrow> in_closure_reason y = firstNonEmpty [ip_closure_reason p, in_closure_reason x] \<and>
       firstNonEmpty [ip_closure_reason p, in_closure_reason x] \<noteq> []"
proof -
  have "in_id y = in_id x \<and> in_tenant y = in_tenant x \<and> in_version y = in_version x \<and>
    in_timeline y = in_timeline x \<and> in_sla y = in_sla x \<and> in_alert_ids y = in_alert_ids x \<and>
    in_status y = in_status x \<and>
    (n = ''CLOSED'' \<longrightarrow> in_disposition y = to_upper (firstNonEmpty [ip_disposition p, in_disposition x]) \<and>
       firstNonEmpty [ip_disposition p, in_disposition x] \<noteq> []) \<and>
    (n = ''CLOSED'' \<longrightarrow> in_closure_reason y = firstNonEmpty [ip_closure_reason p, in_closure_reason x] \<and>
       firstNonEmpty [ip_closure_reason p, in_closure_reason x] \<noteq> [])"
  proof (cases "n = ''CLOSED''")
    case True
    from assms have "firstNonEmpty [ip_disposition p, in_disposition x] \<noteq> []"
      "firstNonEmpty [ip_closure_reason p, in_closure_reason x] \<noteq> []"
      "y = x\<lparr>in_disposition := to_upper (firstNonEmpty [ip_disposition p, in_disposition x]),
             in_closure_reason := firstNonEmpty [ip_closure_reason p, in_closure_reason x]\<rparr>"
      unfolding close_details_def Let_def if_P [OF True] guard_Inr by blast+
    then show ?thesis by simp
  next
    case False
    with assms have "y = x" by (simp add: close_details_def)
    with False show ?thesis by simp
  qed
  then show "in_id y = in_id x" "in_tenant y = in_tenant x" "in_version y = in_version x"
    "in_timeline y = in_timeline x" "in_sla y = in_sla x" "in_alert_ids y = in_alert_ids x"
    "in_status y = in_status x"
    "n = ''CLOSED'' \<Longrightarrow> in_disposition y = to_upper (firstNonEmpty [ip_disposition p, in_disposition x]) \<and>
       firstNonEmpty [ip_disposition p, in_disposition x] \<noteq> []"
    "n = ''CLOSED'' \<Longrightarrow> in_closure_reason y = firstNonEmpty [ip_closure_reason p, in_closure_reason x] \<and>
       firstNonEmpty [ip_closure_reason p, in_closure_reason x] \<noteq> []"
    by blast+
qed

lemma incident_status_change_Inr:
  assumes "incident_status_change now actor p x w = (Inr y, w')"
  shows "(ip_status p = [] \<and> y = x) \<or>
    (ip_status p \<noteq> [] \<and> in_status y = to_upper (ip_status p) \<and>
     (in_status y = in_status x \<or> in_status y \<in> set (AllowedTransitions (in_status x))) \<and>
     (\<exists>z. close_details p (in_status y) x = Inr z \<and> in_disposition y = in_disposition z \<and>
          in_closure_reason y = in_closure_reason z) \<and>
     in_id y = in_id x \<and> in_tenant y = in_tenant x \<and> in_version y = in_version x \<and>
     in_alert_ids y = in_alert_ids x \<and> (\<exists>es. in_timeline y = in_timeline x @ es))"
proof (cases "ip_status p = []")
  case True
  with assms show ?thesis by (simp add: incident_status_change_def)
next
  case False
  define n where "n = to_upper (ip_status p)"
  from assms have legal: "\<not> (n \<notin> set (AllowedTransitions (in_status x)) \<and> in_status x \<noteq> n)"
    unfolding incident_status_change_def Let_def if_not_P [OF False] n_def [symmetric] guard_Inr by blast
  obtain z where z: "close_details p n x = Inr z"
    using assms legal False
    by (cases "close_details p n x") (simp_all add: incident_status_change_def Let_def n_def)
  define y2 where "y2 = fst (if n \<noteq> in_status x
    then timeline ''incident.status_changed'' (in_status x @ arrow @ n) actor now (z\<lparr>in_status := n\<rparr>) w
    else (z\<lparr>in_status := n\<rparr>, w))"
  have y: "y = (if n \<noteq> ''NEW'' then y2\<lparr>in_sla := acknowledge now (in_sla y2)\<rparr> else y2)"
    using assms legal z False unfolding y2_def incident_status_change_def Let_def n_def [symmetric]
    by (simp add: case_prod_beta)
  note cz = close_details_Inr [OF z]
  have "\<exists>es. in_timeline y2 = in_timeline x @ es"
    using timeline_if_grows [of "n \<noteq> in_status x" "''incident.status_changed''" "in_status x @ arrow @ n" actor now
      "z\<lparr>in_status := n\<rparr>" w "z\<lparr>in_status := n\<rparr>"] cz(4) unfolding y2_def by simp
  moreover have "in_id y2 = in_id x \<and> in_tenant y2 = in_tenant x \<and> in_version y2 = in_version x \<and>
    in_alert_ids y2 = in_alert_ids x \<and> in_status y2 = n \<and> in_disposition y2 = in_disposition z \<and>
    in_closure_reason y2 = in_closure_reason z"
    using cz(1,2,3,6) by (simp add: y2_def)
  ultimately have "in_status y = n" "in_id y = in_id x" "in_tenant y = in_tenant x" "in_version y = in_version x"
    "in_alert_ids y = in_alert_ids x" "in_disposition y = in_disposition z"
    "in_closure_reason y = in_closure_reason z" "\<exists>es. in_timeline y = in_timeline x @ es"
    by (simp_all add: y)
  with False legal z show ?thesis unfolding n_def by metis
qed

lemma incident_change_Inr:
  assumes "incident_change now actor p x w = (Inr y, w')"
  obtains x1 w1 where "incident_status_change now actor p x w = (Inr x1, w1)"
    "in_id y = in_id x1" "in_tenant y = in_tenant x1" "in_version y = in_version x1"
    "in_status y = in_status x1" "in_alert_ids y = in_alert_ids x1"
    "in_allowed y = AllowedTransitions (in_status x1)"
    "in_disposition y = (if ip_disposition p \<noteq> [] then to_upper (ip_disposition p) else in_disposition x1)"
    "in_closure_reason y = (if ip_closure_reason p \<noteq> [] then trim_space (ip_closure_reason p)
                            else in_closure_reason x1)"
    "\<exists>es. in_timeline y = in_timeline x1 @ es"
proof -
  obtain r w1 where r: "incident_status_change now actor p x w = (r, w1)" by fastforce
  with assms obtain x1 where x1: "r = Inr x1" by (cases r) (simp_all add: incident_change_def)
  define c2 where "c2 = (if ip_assignee p \<noteq> [] \<and> ip_assignee p \<noteq> in_assignee x1
      then timeline ''incident.assigned'' (''Assigned to '' @ trim_space (ip_assignee p)) actor now
             (x1\<lparr>in_assignee := trim_space (ip_assignee p)\<rparr>) w1
      else (x1, w1))"
  define x3 where "x3 = (if ip_disposition p \<noteq> []
    then fst c2\<lparr>in_disposition := to_upper (ip_disposition p)\<rparr> else fst c2)"
  define x4 where "x4 = (if ip_closure_reason p \<noteq> []
    then x3\<lparr>in_closure_reason := trim_space (ip_closure_reason p)\<rparr> else x3)"
  define c5 where "c5 = (if trim_space (ip_comment p) \<noteq> []
    then timeline ''comment'' (trim_space (ip_comment p)) actor now x4 (snd c2) else (x4, snd c2))"
  have y: "y = fst c5\<lparr>in_allowed := AllowedTransitions (in_status (fst c5))\<rparr>"
    using assms unfolding c5_def x4_def x3_def c2_def incident_change_def r x1 Let_def
    by (simp add: case_prod_beta)
  have f2: "in_id (fst c2) = in_id x1" "in_tenant (fst c2) = in_tenant x1" "in_version (fst c2) = in_version x1"
    "in_status (fst c2) = in_status x1" "in_alert_ids (fst c2) = in_alert_ids x1"
    "in_disposition (fst c2) = in_disposition x1" "in_closure_reason (fst c2) = in_closure_reason x1"
    by (simp_all add: c2_def)
  obtain es2 where t2: "in_timeline (fst c2) = in_timeline x1 @ es2"
    using timeline_if_grows [of "ip_assignee p \<noteq> [] \<and> ip_assignee p \<noteq> in_assignee x1" "''incident.assigned''"
      "''Assigned to '' @ trim_space (ip_assignee p)" actor now "x1\<lparr>in_assignee := trim_space (ip_assignee p)\<rparr>"
      w1 x1] unfolding c2_def by auto
  have f4: "in_id x4 = in_id x1" "in_tenant x4 = in_tenant x1" "in_version x4 = in_version x1"
    "in_status x4 = in_status x1" "in_alert_ids x4 = in_alert_ids x1"
    "in_disposition x4 = (if ip_disposition p \<noteq> [] then to_upper (ip_disposition p) else in_disposition x1)"
    "in_closure_reason x4 = (if ip_closure_reason p \<noteq> [] then trim_space (ip_closure_reason p)
                             else in_closure_reason x1)"
    "in_timeline x4 = in_timeline x1 @ es2"
    by (simp_all add: x4_def x3_def f2 t2)
  obtain es5 where "in_timeline (fst c5) = in_timeline x4 @ es5"
    using timeline_if_grows [of "trim_space (ip_comment p) \<noteq> []" "''comment''" "trim_space (ip_comment p)"
      actor now x4 "snd c2" x4] unfolding c5_def by auto
  then have "\<exists>es. in_timeline y = in_timeline x1 @ es" by (simp add: y f4)
  moreover have "in_id (fst c5) = in_id x4" "in_tenant (fst c5) = in_tenant x4" "in_version (fst c5) = in_version x4"
    "in_status (fst c5) = in_status x4" "in_alert_ids (fst c5) = in_alert_ids x4"
    "in_disposition (fst c5) = in_disposition x4" "in_closure_reason (fst c5) = in_closure_reason x4"
    by (simp_all add: c5_def)
  ultimately show thesis using that [of x1 w1] r x1 by (simp add: y f4)
qed

lemma incident_change_key:
  assumes "incident_change now actor p x w = (Inr y, w')"
  shows "in_id y = in_id x" "in_tenant y = in_tenant x" "in_version y = in_version x"
    "in_alert_ids y = in_alert_ids x" "in_allowed y = AllowedTransitions (in_status y)"
    "in_status y = (if ip_status p = [] then in_status x else to_upper (ip_status p))"
    "in_status y = in_status x \<or> in_status y \<in> set (AllowedTransitions (in_status x))"
    "\<exists>es. in_timeline y = in_timeline x @ es"
  using incident_change_Inr [OF assms] incident_status_change_Inr by (metis append.assoc append_Nil2)+

lemma keeps_incident_change [simp]: "keeps_incident_key (incident_change now actor p)"
  by (auto simp: keeps_incident_key_def dest: incident_change_key)

end
