(* ===== verification/Soc_Contract.thy ===== *)
theory Soc_Contract
  imports Soc_Facts "HOL-Library.Sublist"
begin

text \<open>
  The contract between the SOC service and its repository: \<open>soc_contract R port t\<close> says that each
  port method the service calls for tenant \<open>t\<close>, with the change functions it passes, relates
  the store before and after by \<open>R\<close>. Then so does every service operation. The interpretations
  are on the embedded adapter: well-formedness, tenant isolation and monotone histories.
\<close>

locale soc_contract = step_relation R for R :: "'s \<Rightarrow> 's \<Rightarrow> bool" +
  fixes port :: "'s soc_port" and t :: tenant
  assumes list_incidents: "op_rel R (port_ListIncidents port t f)"
    and get_alert: "op_rel R (port_GetAlert port t i)"
    and triage: "op_rel R (port_MutateAlert port t i n (alert_change now p))"
    and link: "op_rel R (port_MutateAlert port t i 0 (link_change input))"
    and create: "in_tenant x = t \<Longrightarrow> op_rel R (port_CreateIncident port x)"
    and progress: "op_rel R (port_MutateIncident port t i n (incident_change now actor q))"
    and audit: "au_tenant e = t \<Longrightarrow> op_rel R (port_AppendAudit port e)"
begin

lemma update_alert_rel: "op_rel R (UpdateAlert port t i actor req p)"
  unfolding UpdateAlert_def
  by (intro rel_intros triage audit) (simp add: triage_audit_def)

lemma gather_alerts_rel: "op_rel R (gather_alerts port t is l)"
  by (induction "is" arbitrary: l) (auto intro!: rel_intros get_alert)

lemma link_alerts_rel: "op_rel R (link_alerts port t input as)"
  by (induction as) (auto intro!: rel_intros link)

lemma promote_rel: "op_rel R (promote port t actor input ids)"
  unfolding promote_def
  by (intro rel_intros gather_alerts_rel link_alerts_rel create audit)
     (simp_all add: build_incident_def created_audit_def)

lemma create_incident_rel: "op_rel R (SocCreateIncident port t actor input)"
  unfolding SocCreateIncident_def Let_def
  by (auto intro!: rel_intros list_incidents promote_rel split: option.split)

lemma update_incident_rel: "op_rel R (UpdateIncident port t i actor q)"
  unfolding UpdateIncident_def
  by (intro rel_intros progress audit) (simp add: updated_audit_def)

end

subsection \<open>The embedded adapter\<close>

text \<open>What the adapter's methods do to the store, under a reflexive relation.\<close>

lemma rel_guarded: "(\<And>m. R m m) \<Longrightarrow> op_rel R f \<Longrightarrow> op_rel R (guarded f)"
  unfolding op_rel_def guarded_def by (auto simp: Let_def split: prod.splits if_splits)

lemma rel_pure: "(\<And>m. R m m) \<Longrightarrow> op_rel R (pure_op f)"
  by (simp add: op_rel_def pure_op_def)

lemma MutateAlert_op_rel:
  assumes "\<And>m. R m m"
    and "\<And>m a w b w' now. me_alerts m t i = Some a \<Longrightarrow> f a w = (Inr b, w') \<Longrightarrow>
      R m (m\<lparr>me_alerts := upd2 (me_alerts m) t i (b\<lparr>al_version := al_version b + 1, al_updated_at := now\<rparr>)\<rparr>)"
  shows "op_rel R (MutateAlert t i n f)"
  by (intro op_relI)
     (auto simp: MutateAlert_def Let_def assms split: option.splits if_splits prod.splits sum.splits)

lemmas MutateAlert_rel = rel_guarded [OF _ MutateAlert_op_rel, folded repo_MutateAlert_def]

lemma MutateIncident_op_rel:
  assumes "\<And>m. R m m"
    and "\<And>m a w b w' now. me_incidents m t i = Some a \<Longrightarrow> f a w = (Inr b, w') \<Longrightarrow>
      R m (m\<lparr>me_incidents := upd2 (me_incidents m) t i (b\<lparr>in_version := in_version b + 1, in_updated_at := now\<rparr>)\<rparr>)"
  shows "op_rel R (MutateIncident t i n f)"
  by (intro op_relI)
     (auto simp: MutateIncident_def Let_def assms split: option.splits if_splits prod.splits sum.splits)

lemmas MutateIncident_rel = rel_guarded [OF _ MutateIncident_op_rel, folded repo_MutateIncident_def]

lemma CreateIncident_rel:
  assumes "\<And>m. R m m"
    and "\<And>m. me_incidents m (in_tenant x) (in_id x) = None \<Longrightarrow> R m (snd (CreateIncident x m))"
  shows "op_rel R (repo_CreateIncident x)"
  unfolding repo_CreateIncident_def
proof (intro rel_guarded op_relI assms(1))
  fix s w r s' w'
  assume "(let (r, m) = CreateIncident x (fst (s, w)) in (r, (m, snd (s, w)))) = (r, (s', w'))"
  then have s': "s' = snd (CreateIncident x s)" by (auto simp: case_prod_beta)
  show "R s s'"
  proof (cases "me_incidents s (in_tenant x) (in_id x)")
    case None
    then show ?thesis by (simp add: s' assms(2))
  next
    case (Some y)
    then show ?thesis by (simp add: s' CreateIncident_def assms(1))
  qed
qed

lemma AppendAudit_rel:
  assumes "\<And>m. R m m"
    and "\<And>m e' w w' m'. AppendAudit e (m, w) = (e', (m', w')) \<Longrightarrow> R m m'"
  shows "op_rel R (repo_AppendAudit e)"
  unfolding repo_AppendAudit_def
proof (intro rel_guarded op_relI assms(1))
  fix s w r s' w'
  assume "(let (a, mw') = AppendAudit e (s, w) in (Inr a, mw')) = (r, (s', w'))"
  then have "AppendAudit e (s, w) = (fst (AppendAudit e (s, w)), (s', w'))"
    by (cases "AppendAudit e (s, w)") simp
  then show "R s s'" by (rule assms(2))
qed

lemma read_rel:
  assumes "\<And>m. R m m"
  shows "op_rel R (repo_ListIncidents t f)" "op_rel R (repo_GetAlert t i)"
  by (simp_all add: repo_ListIncidents_def repo_GetAlert_def rel_guarded rel_pure assms)

subsection \<open>Well-formedness\<close>

interpretation soc_wf: soc_contract "keeps mem_wf" memory_port t for t
  by unfold_locales
     (auto simp: keeps_def read_rel mem_wf_alert_update mem_wf_incident_update
        intro!: MutateAlert_rel MutateIncident_rel CreateIncident_rel AppendAudit_rel
        intro: mem_wf_CreateIncident mem_wf_AppendAudit
        simp: alert_change_Inr(2,3) incident_change_key(1,2)
        dest: link_change_simps)

subsection \<open>Tenant isolation\<close>

text \<open>Nothing of any tenant but \<open>t\<close> has changed.\<close>

definition only_tenant :: "tenant \<Rightarrow> memory \<Rightarrow> memory \<Rightarrow> bool" where
  "only_tenant t m m' \<longleftrightarrow> (\<forall>t'. t' \<noteq> t \<longrightarrow> tenant_view t' m' = tenant_view t' m)"

interpretation soc_isolation: soc_contract "only_tenant t" memory_port t for t
  by unfold_locales
     (auto simp: only_tenant_def tenant_view_def read_rel CreateIncident_def
        intro!: MutateAlert_rel MutateIncident_rel CreateIncident_rel AppendAudit_rel
        dest!: AppendAudit_cases(4))

subsection \<open>Histories only grow\<close>

text \<open>
  An alert is never lost, its status never moves backwards and its version never decreases; an
  incident is never lost, its status only moves forward, its timeline is only extended, its
  alerts never change; the audit log is only extended.
\<close>

definition alert_advances :: "alert \<Rightarrow> alert \<Rightarrow> bool" where
  "alert_advances a b \<longleftrightarrow>
     alert_rank (al_status a) \<le> alert_rank (al_status b) \<and> al_version a \<le> al_version b \<and>
     al_id b = al_id a \<and> al_tenant b = al_tenant a"

definition incident_advances :: "incident \<Rightarrow> incident \<Rightarrow> bool" where
  "incident_advances x y \<longleftrightarrow>
     incident_rank (in_status x) \<le> incident_rank (in_status y) \<and> in_version x \<le> in_version y \<and>
     in_alert_ids y = in_alert_ids x \<and> prefix (in_timeline x) (in_timeline y)"

definition soc_advances :: "memory \<Rightarrow> memory \<Rightarrow> bool" where
  "soc_advances m m' \<longleftrightarrow>
     (\<forall>t i a. me_alerts m t i = Some a \<longrightarrow> (\<exists>b. me_alerts m' t i = Some b \<and> alert_advances a b)) \<and>
     (\<forall>t i x. me_incidents m t i = Some x \<longrightarrow> (\<exists>y. me_incidents m' t i = Some y \<and> incident_advances x y)) \<and>
     (\<forall>t. prefix (me_audit m t) (me_audit m' t))"

lemma alert_advances_trans: "alert_advances a b \<Longrightarrow> alert_advances b c \<Longrightarrow> alert_advances a c"
  by (auto simp: alert_advances_def)

lemma incident_advances_trans: "incident_advances a b \<Longrightarrow> incident_advances b c \<Longrightarrow> incident_advances a c"
  by (auto simp: incident_advances_def intro: prefix_order.trans)

lemma advances_refl [simp]: "alert_advances a a" "incident_advances x x" "soc_advances m m"
  by (simp_all add: alert_advances_def incident_advances_def soc_advances_def)

lemma soc_advances_trans: "soc_advances m1 m2 \<Longrightarrow> soc_advances m2 m3 \<Longrightarrow> soc_advances m1 m3"
  unfolding soc_advances_def
  by (meson alert_advances_trans incident_advances_trans prefix_order.trans)

lemma alert_change_advances:
  assumes "alert_change now p a w = (Inr b, w')"
  shows "alert_advances a (b\<lparr>al_version := al_version b + 1, al_updated_at := u\<rparr>)"
  using alert_change_Inr(2-5) [OF assms] by (simp add: alert_advances_def validAlertTransition_rank)

lemma link_change_advances:
  assumes "link_change input a w = (Inr b, w')"
  shows "alert_advances a (b\<lparr>al_version := al_version b + 1, al_updated_at := u\<rparr>)"
  using link_change_simps [OF assms] by (auto simp: alert_advances_def)

lemma incident_change_advances:
  assumes "incident_change now actor p x w = (Inr y, w')"
  shows "incident_advances x (y\<lparr>in_version := in_version y + 1, in_updated_at := u\<rparr>)"
proof -
  note k = incident_change_key [OF assms]
  from k(7) have "incident_rank (in_status x) \<le> incident_rank (in_status y)"
    using AllowedTransitions_rank by fastforce
  with k(3,4,8) show ?thesis by (auto simp: incident_advances_def)
qed

interpretation soc_history: soc_contract soc_advances memory_port t for t
proof (unfold_locales, goal_cases)
  case (2 m1 m2 m3)
  then show ?case by (rule soc_advances_trans)
next
  case (5 i n now p)
  then show ?case
    by (auto simp: soc_advances_def intro!: MutateAlert_rel dest!: alert_change_advances)
next
  case (6 i input)
  then show ?case
    by (auto simp: soc_advances_def intro!: MutateAlert_rel dest!: link_change_advances)
next
  case (7 x)
  then show ?case
    by (auto simp: soc_advances_def CreateIncident_def intro!: CreateIncident_rel)
next
  case (8 i n now actor q)
  then show ?case
    by (auto simp: soc_advances_def intro!: MutateIncident_rel dest!: incident_change_advances)
next
  case (9 e)
  then show ?case
    by (auto simp: soc_advances_def intro!: AppendAudit_rel dest!: AppendAudit_cases(4))
qed (simp_all add: read_rel)

end
