(* ===== verification/Soc_Runs.thy ===== *)
theory Soc_Runs
  imports Soc_Contract
begin

text \<open>
  Runs of the SOC service on the embedded adapter: what a successful call did, step by step, and
  what a failed one left behind.
\<close>

lemma op_now_simps: "op_now (m, w) = (Inr (fst (time_now w)), (m, snd (time_now w)))"
  by (simp add: op_now_def case_prod_beta)

lemma op_new_id_simps: "op_new_id p (m, w) = (Inr (fst (new_id p w)), (m, snd (new_id p w)))"
  by (simp add: op_new_id_def case_prod_beta)

lemma op_bind_eq_Inl:
  "op_bind f g sw = (Inl e, sw') \<longleftrightarrow>
     f sw = (Inl e, sw') \<or> (\<exists>x sw1. f sw = (Inr x, sw1) \<and> g x sw1 = (Inl e, sw'))"
  by (auto simp: op_bind_def split: prod.splits sum.splits)

text \<open>The context stays alive over any service operation.\<close>

lemma guarded_pure_live: "live w \<Longrightarrow> guarded (pure_op f) (m, w) = (f m, (m, snd (ctx_err w)))"
  by (simp add: guarded_live pure_op_def)

lemma AppendAudit_entry:
  assumes "AppendAudit e (m, w) = (e', (m', w'))"
  shows "au_action e' = au_action e" "au_actor e' = au_actor e" "au_resource_id e' = au_resource_id e"
    "au_metadata e' = au_metadata e" "au_outcome e' = au_outcome e" "au_resource_type e' = au_resource_type e"
    "au_request_id e' = au_request_id e"
  using assms by (auto simp: AppendAudit_def stamp_audit_def Let_def case_prod_beta)

text \<open>An accepted audit record is appended to the tenant's chain and nothing else changes.\<close>

lemma repo_AppendAudit_success:
  assumes "repo_AppendAudit e (m, w) = (Inr a, (m', w'))"
  shows "m' = m\<lparr>me_audit := snoc (me_audit m) (au_tenant e) a, me_heads := (me_heads m)(au_tenant e := au_hash a)\<rparr>"
    "au_action a = au_action e" "au_actor a = au_actor e" "au_resource_id a = au_resource_id e"
    "au_request_id a = au_request_id e"
  using assms by (auto elim!: repo_AppendAudit_Inr dest: AppendAudit_cases(4) AppendAudit_entry)

lemma repo_AppendAudit_live: "live w \<Longrightarrow> \<exists>a s'. repo_AppendAudit e (m, w) = (Inr a, s')"
  by (simp add: repo_AppendAudit_def guarded_live case_prod_beta)

lemma MutateAlert_Inr:
  assumes "MutateAlert t i n f (m, w) = (Inr b, (m', w'))"
  obtains a c w2 where "me_alerts m t i = Some a" "n \<le> 0 \<or> al_version a = n" "f a w = (Inr c, w2)"
    "b = c\<lparr>al_version := al_version c + 1, al_updated_at := fst (time_now w2)\<rparr>"
    "m' = m\<lparr>me_alerts := upd2 (me_alerts m) t i b\<rparr>" "w' = snd (time_now w2)"
proof (cases "me_alerts m t i")
  case None
  with assms show ?thesis by (simp add: MutateAlert_def)
next
  case (Some a)
  obtain r w2 where f: "f a w = (r, w2)" by fastforce
  from Some assms have v: "\<not> (0 < n \<and> al_version a \<noteq> n)" by (auto simp: MutateAlert_def)
  with Some assms f obtain c where c: "r = Inr c" by (cases r) (auto simp: MutateAlert_def)
  show ?thesis
    by (rule that [of a c w2]) (use Some assms f v c in \<open>auto simp: MutateAlert_def Let_def case_prod_beta\<close>)
qed

lemma MutateIncident_Inr:
  assumes "MutateIncident t i n f (m, w) = (Inr b, (m', w'))"
  obtains a c w2 where "me_incidents m t i = Some a" "n \<le> 0 \<or> in_version a = n" "f a w = (Inr c, w2)"
    "b = c\<lparr>in_version := in_version c + 1, in_updated_at := fst (time_now w2)\<rparr>"
    "m' = m\<lparr>me_incidents := upd2 (me_incidents m) t i b\<rparr>" "w' = snd (time_now w2)"
proof (cases "me_incidents m t i")
  case None
  with assms show ?thesis by (simp add: MutateIncident_def)
next
  case (Some a)
  obtain r w2 where f: "f a w = (r, w2)" by fastforce
  from Some assms have v: "\<not> (0 < n \<and> in_version a \<noteq> n)" by (auto simp: MutateIncident_def)
  with Some assms f obtain c where c: "r = Inr c" by (cases r) (auto simp: MutateIncident_def)
  show ?thesis
    by (rule that [of a c w2]) (use Some assms f v c in \<open>auto simp: MutateIncident_def Let_def case_prod_beta\<close>)
qed

lemma MutateAlert_Inl:
  assumes "MutateAlert t i n f (m, w) = (Inl e, (m', w'))"
  shows "m' = m \<and> ((e = ErrNotFound \<and> me_alerts m t i = None) \<or>
    (\<exists>a. me_alerts m t i = Some a \<and> ((e = ErrVersionConflict \<and> 0 < n \<and> al_version a \<noteq> n) \<or>
       (\<exists>w1 w2. f a w1 = (Inl e, w2)))))"
proof (cases "me_alerts m t i")
  case None
  with assms show ?thesis by (simp add: MutateAlert_def)
next
  case (Some a)
  obtain r w2 where f: "f a w = (r, w2)" by fastforce
  show ?thesis
  proof (cases "0 < n \<and> al_version a \<noteq> n")
    case True
    with Some assms show ?thesis by (simp add: MutateAlert_def)
  next
    case False
    with Some assms f obtain x where "r = Inl x" "x = e" "m' = m"
      by (cases r) (simp_all add: MutateAlert_def Let_def case_prod_beta)
    with Some f show ?thesis by blast
  qed
qed

lemma MutateIncident_Inl:
  assumes "MutateIncident t i n f (m, w) = (Inl e, (m', w'))"
  shows "m' = m \<and> ((e = ErrNotFound \<and> me_incidents m t i = None) \<or>
    (\<exists>a. me_incidents m t i = Some a \<and> ((e = ErrVersionConflict \<and> 0 < n \<and> in_version a \<noteq> n) \<or>
       (\<exists>w1 w2. f a w1 = (Inl e, w2)))))"
proof (cases "me_incidents m t i")
  case None
  with assms show ?thesis by (simp add: MutateIncident_def)
next
  case (Some a)
  obtain r w2 where f: "f a w = (r, w2)" by fastforce
  show ?thesis
  proof (cases "0 < n \<and> in_version a \<noteq> n")
    case True
    with Some assms show ?thesis by (simp add: MutateIncident_def)
  next
    case False
    with Some assms f obtain x where "r = Inl x" "x = e" "m' = m"
      by (cases r) (simp_all add: MutateIncident_def Let_def case_prod_beta)
    with Some f show ?thesis by blast
  qed
qed

lemma stamp_audit_live: "live (snd (stamp_audit e w)) = live w"
  by (simp add: stamp_audit_def Let_def case_prod_beta)

lemma repo_AppendAudit_live_frame:
  "live w \<Longrightarrow> \<exists>a m' w'. repo_AppendAudit e (m, w) = (Inr a, (m', w')) \<and> live w'"
  by (simp add: repo_AppendAudit_def guarded_live AppendAudit_def Let_def case_prod_beta stamp_audit_live)

lemma repo_MutateAlert_success:
  assumes "repo_MutateAlert t i n f (m, w) = (Inr b, (m', w'))"
  obtains a c w1 w2 u where "me_alerts m t i = Some a" "n \<le> 0 \<or> al_version a = n" "f a w1 = (Inr c, w2)"
    "b = c\<lparr>al_version := al_version c + 1, al_updated_at := u\<rparr>" "m' = m\<lparr>me_alerts := upd2 (me_alerts m) t i b\<rparr>"
    "live w' = live w2" "live w1 = live w"
proof -
  from guarded_Inr [OF assms [unfolded repo_MutateAlert_def]] obtain w1 where
    "MutateAlert t i n f (m, w1) = (Inr b, (m', w'))" "live w1 = live w" by blast
  from this(1) show thesis
    by (rule MutateAlert_Inr) (rule that, assumption+, simp_all add: \<open>live w1 = live w\<close>)
qed

lemma repo_MutateAlert_failure:
  assumes "repo_MutateAlert t i n f (m, w) = (Inl e, (m', w'))"
  shows "m' = m \<and> ((e = ErrContext \<and> \<not> live w) \<or> (e = ErrNotFound \<and> me_alerts m t i = None) \<or>
    (\<exists>a. me_alerts m t i = Some a \<and> ((e = ErrVersionConflict \<and> 0 < n \<and> al_version a \<noteq> n) \<or>
       (\<exists>w1 w2. f a w1 = (Inl e, w2)))))"
  using guarded_Inl [OF assms [unfolded repo_MutateAlert_def]]
proof (elim disjE conjE exE)
  fix w1
  assume "MutateAlert t i n f (m, w1) = (Inl e, (m', w'))"
  then show ?thesis using MutateAlert_Inl by blast
qed simp

lemma repo_MutateIncident_success:
  assumes "repo_MutateIncident t i n f (m, w) = (Inr b, (m', w'))"
  obtains a c w1 w2 u where "me_incidents m t i = Some a" "n \<le> 0 \<or> in_version a = n" "f a w1 = (Inr c, w2)"
    "b = c\<lparr>in_version := in_version c + 1, in_updated_at := u\<rparr>" "m' = m\<lparr>me_incidents := upd2 (me_incidents m) t i b\<rparr>"
    "live w' = live w2" "live w1 = live w"
proof -
  from guarded_Inr [OF assms [unfolded repo_MutateIncident_def]] obtain w1 where
    "MutateIncident t i n f (m, w1) = (Inr b, (m', w'))" "live w1 = live w" by blast
  from this(1) show thesis
    by (rule MutateIncident_Inr) (rule that, assumption+, simp_all add: \<open>live w1 = live w\<close>)
qed

lemma repo_MutateIncident_failure:
  assumes "repo_MutateIncident t i n f (m, w) = (Inl e, (m', w'))"
  shows "m' = m \<and> ((e = ErrContext \<and> \<not> live w) \<or> (e = ErrNotFound \<and> me_incidents m t i = None) \<or>
    (\<exists>a. me_incidents m t i = Some a \<and> ((e = ErrVersionConflict \<and> 0 < n \<and> in_version a \<noteq> n) \<or>
       (\<exists>w1 w2. f a w1 = (Inl e, w2)))))"
  using guarded_Inl [OF assms [unfolded repo_MutateIncident_def]]
proof (elim disjE conjE exE)
  fix w1
  assume "MutateIncident t i n f (m, w1) = (Inl e, (m', w'))"
  then show ?thesis using MutateIncident_Inl by blast
qed simp

subsection \<open>Triage\<close>

lemma alert_change_Inl:
  "alert_change now p a w = (Inl e, w') \<Longrightarrow> e = ErrInvalidTransition \<or> e = ErrClosureDetails"
  by (cases "alert_status_change now p a")
     (auto simp: alert_change_def alert_status_change_def Let_def split: if_splits)

lemma alert_change_live: "alert_change now p a w = (r, w') \<Longrightarrow> live w' = live w"
  by (simp add: alert_change_def)

lemma UpdateAlert_success:
  assumes "UpdateAlert memory_port t i actor req p (m, w) = (Inr b, (m', w'))"
  obtains a c w1 w2 u e where "me_alerts m t i = Some a" "ap_version p \<le> 0 \<or> al_version a = ap_version p"
    "alert_change (fst (time_now w)) p a w1 = (Inr c, w2)"
    "b = c\<lparr>al_version := al_version c + 1, al_updated_at := u\<rparr>"
    "m' = m\<lparr>me_alerts := upd2 (me_alerts m) t i b, me_audit := snoc (me_audit m) t e,
           me_heads := (me_heads m)(t := au_hash e)\<rparr>"
    "au_action e = ''alert.triaged''" "au_actor e = actor" "au_resource_id e = al_id b"
proof -
  from assms obtain m1 w1 e where
    mut: "repo_MutateAlert t i (ap_version p) (alert_change (fst (time_now w)) p) (m, snd (time_now w)) = (Inr b, (m1, w1))"
    and aud: "repo_AppendAudit (triage_audit t actor req p b) (m1, w1) = (Inr e, (m', w'))"
    by (auto simp: UpdateAlert_def op_bind_eq_Inr op_now_simps op_return_def)
  from mut obtain a c w2 w3 u where mu: "me_alerts m t i = Some a" "ap_version p \<le> 0 \<or> al_version a = ap_version p"
    "alert_change (fst (time_now w)) p a w2 = (Inr c, w3)"
    "b = c\<lparr>al_version := al_version c + 1, al_updated_at := u\<rparr>" "m1 = m\<lparr>me_alerts := upd2 (me_alerts m) t i b\<rparr>"
    by (rule repo_MutateAlert_success)
  note au = repo_AppendAudit_success [OF aud]
  show thesis
    by (rule that [OF mu(1-4)]) (use mu(5) au in \<open>simp_all add: triage_audit_def new_audit_def\<close>)
qed

lemma UpdateAlert_failure:
  assumes "UpdateAlert memory_port t i actor req p (m, w) = (Inl e, (m', w'))" "live w"
  shows "m' = m \<and> ((e = ErrNotFound \<and> me_alerts m t i = None) \<or>
    (\<exists>a. me_alerts m t i = Some a \<and>
       ((e = ErrVersionConflict \<and> 0 < ap_version p \<and> al_version a \<noteq> ap_version p) \<or>
        (e = ErrInvalidTransition \<or> e = ErrClosureDetails))))"
proof -
  let ?mut = "repo_MutateAlert t i (ap_version p) (alert_change (fst (time_now w)) p) (m, snd (time_now w))"
  obtain r m1 w1 where mut: "?mut = (r, (m1, w1))" by (metis prod.exhaust)
  show ?thesis
  proof (cases r)
    case (Inl x)
    with assms(1) mut have "x = e" "m1 = m'"
      by (simp_all add: UpdateAlert_def op_bind_def op_now_simps)
    with mut Inl have "?mut = (Inl e, (m', w1))" by simp
    from repo_MutateAlert_failure [OF this] assms(2) show ?thesis
      by (simp only: live_frame) (blast dest: alert_change_Inl)
  next
    case (Inr b)
    from mut Inr obtain w2 w3 a c where "alert_change (fst (time_now w)) p a w2 = (Inr c, w3)"
      "live w1 = live w3" "live w2 = live (snd (time_now w))"
      by (auto elim: repo_MutateAlert_success)
    with assms(2) have "live w1" by (simp add: alert_change_live)
    from repo_AppendAudit_live [OF this] obtain x s' where
      "repo_AppendAudit (triage_audit t actor req p b) (m1, w1) = (Inr x, s')" by blast
    with assms(1) mut Inr show ?thesis
      by (simp add: UpdateAlert_def op_bind_def op_now_simps op_return_def)
  qed
qed

text \<open>On a live context a triage request is accepted exactly when the change function accepts.\<close>

lemma repo_MutateAlert_accepts:
  assumes "live w" "me_alerts m t i = Some a" "n \<le> 0 \<or> al_version a = n" "\<And>w. f a w = (Inr c, w)"
  shows "\<exists>u w1. repo_MutateAlert t i n f (m, w) =
    (Inr (c\<lparr>al_version := al_version c + 1, al_updated_at := u\<rparr>),
     (m\<lparr>me_alerts := upd2 (me_alerts m) t i (c\<lparr>al_version := al_version c + 1, al_updated_at := u\<rparr>)\<rparr>, w1)) \<and> live w1"
  using assms by (auto simp: repo_MutateAlert_def guarded_live MutateAlert_def Let_def case_prod_beta)

lemma UpdateAlert_accepts:
  assumes "live w" "me_alerts m t i = Some a" "ap_version p \<le> 0 \<or> al_version a = ap_version p"
    and "alert_change (fst (time_now w)) p a = (\<lambda>w. (Inr c, w))"
  shows "\<exists>u m' w'. UpdateAlert memory_port t i actor req p (m, w) =
    (Inr (c\<lparr>al_version := al_version c + 1, al_updated_at := u\<rparr>), (m', w')) \<and> live w'"
proof -
  from repo_MutateAlert_accepts [of "snd (time_now w)" m t i a "ap_version p" "alert_change (fst (time_now w)) p" c]
  obtain u w1 where mut: "repo_MutateAlert t i (ap_version p) (alert_change (fst (time_now w)) p) (m, snd (time_now w)) =
    (Inr (c\<lparr>al_version := al_version c + 1, al_updated_at := u\<rparr>),
     (m\<lparr>me_alerts := upd2 (me_alerts m) t i (c\<lparr>al_version := al_version c + 1, al_updated_at := u\<rparr>)\<rparr>, w1))" "live w1"
    using assms by auto
  from repo_AppendAudit_live_frame [OF mut(2)] obtain x m' w' where
    "repo_AppendAudit (triage_audit t actor req p (c\<lparr>al_version := al_version c + 1, al_updated_at := u\<rparr>))
       (m\<lparr>me_alerts := upd2 (me_alerts m) t i (c\<lparr>al_version := al_version c + 1, al_updated_at := u\<rparr>)\<rparr>, w1) =
     (Inr x, (m', w'))" "live w'" by blast
  with mut show ?thesis
    by (intro exI [of _ u]) (simp add: UpdateAlert_def op_bind_def op_now_simps op_return_def)
qed

subsection \<open>Progress of an incident\<close>

lemma timeline_live: "live (snd (timeline k msg actor now x w)) = live w"
  by (simp add: timeline_def case_prod_beta)

lemma timeline_if_live: "live (snd (if c then timeline k msg actor now x w else (y, w))) = live w"
  by (simp add: timeline_live)

lemma incident_status_change_live:
  "incident_status_change now actor p x w = (r, w') \<Longrightarrow> live w' = live w"
  by (cases "close_details p (to_upper (ip_status p)) x")
     (auto simp: incident_status_change_def Let_def case_prod_beta timeline_live split: if_splits)

lemma incident_change_live: "incident_change now actor p x w = (r, w') \<Longrightarrow> live w' = live w"
proof -
  assume a: "incident_change now actor p x w = (r, w')"
  obtain q w1 where s: "incident_status_change now actor p x w = (q, w1)" by fastforce
  with incident_status_change_live have l: "live w1 = live w" by blast
  show ?thesis
  proof (cases q)
    case (Inr x1)
    with a s l show ?thesis
      by (simp only: incident_change_def Let_def case_prod_beta sum.case prod.case
            prod.inject fst_conv snd_conv)
         (elim conjE, hypsubst, simp only: timeline_if_live)
  qed (use a s l in \<open>simp add: incident_change_def\<close>)
qed

lemma incident_change_Inl:
  assumes "incident_change now actor p x w = (Inl e, w')"
  shows "e = ErrInvalidTransition \<or> e = ErrClosureDetails"
proof -
  obtain q w1 where s: "incident_status_change now actor p x w = (q, w1)" by fastforce
  with assms have "q = Inl e" by (cases q) (auto simp: incident_change_def Let_def case_prod_beta)
  with s show ?thesis
    by (cases "close_details p (to_upper (ip_status p)) x")
       (auto simp: incident_status_change_def close_details_def Let_def case_prod_beta split: if_splits)
qed

lemma UpdateIncident_success:
  assumes "UpdateIncident memory_port t i actor p (m, w) = (Inr y, (m', w'))"
  obtains x c w1 w2 u e where "me_incidents m t i = Some x" "ip_version p \<le> 0 \<or> in_version x = ip_version p"
    "incident_change (fst (time_now w)) actor p x w1 = (Inr c, w2)"
    "y = c\<lparr>in_version := in_version c + 1, in_updated_at := u\<rparr>"
    "m' = m\<lparr>me_incidents := upd2 (me_incidents m) t i y, me_audit := snoc (me_audit m) t e,
           me_heads := (me_heads m)(t := au_hash e)\<rparr>"
    "au_action e = ''incident.updated''" "au_actor e = actor" "au_resource_id e = in_id y"
proof -
  from assms obtain m1 w1 e where
    mut: "repo_MutateIncident t i (ip_version p) (incident_change (fst (time_now w)) actor p) (m, snd (time_now w)) = (Inr y, (m1, w1))"
    and aud: "repo_AppendAudit (updated_audit t actor p y) (m1, w1) = (Inr e, (m', w'))"
    by (auto simp: UpdateIncident_def op_bind_eq_Inr op_now_simps op_return_def)
  from mut obtain x c w2 w3 u where mu: "me_incidents m t i = Some x" "ip_version p \<le> 0 \<or> in_version x = ip_version p"
    "incident_change (fst (time_now w)) actor p x w2 = (Inr c, w3)"
    "y = c\<lparr>in_version := in_version c + 1, in_updated_at := u\<rparr>" "m1 = m\<lparr>me_incidents := upd2 (me_incidents m) t i y\<rparr>"
    by (rule repo_MutateIncident_success)
  note au = repo_AppendAudit_success [OF aud]
  show thesis
    by (rule that [OF mu(1-4)]) (use mu(5) au in \<open>simp_all add: updated_audit_def new_audit_def\<close>)
qed

lemma UpdateIncident_failure:
  assumes "UpdateIncident memory_port t i actor p (m, w) = (Inl e, (m', w'))" "live w"
  shows "m' = m \<and> ((e = ErrNotFound \<and> me_incidents m t i = None) \<or>
    (\<exists>a. me_incidents m t i = Some a \<and>
       ((e = ErrVersionConflict \<and> 0 < ip_version p \<and> in_version a \<noteq> ip_version p) \<or>
        (e = ErrInvalidTransition \<or> e = ErrClosureDetails))))"
proof -
  let ?mut = "repo_MutateIncident t i (ip_version p) (incident_change (fst (time_now w)) actor p) (m, snd (time_now w))"
  obtain r m1 w1 where mut: "?mut = (r, (m1, w1))" by (metis prod.exhaust)
  show ?thesis
  proof (cases r)
    case (Inl x)
    with assms(1) mut have "x = e" "m1 = m'"
      by (simp_all add: UpdateIncident_def op_bind_def op_now_simps)
    with mut Inl have "?mut = (Inl e, (m', w1))" by simp
    from repo_MutateIncident_failure [OF this] assms(2) show ?thesis
      by (simp only: live_frame) (blast dest: incident_change_Inl)
  next
    case (Inr b)
    from mut Inr obtain w2 w3 a c where "incident_change (fst (time_now w)) actor p a w2 = (Inr c, w3)"
      "live w1 = live w3" "live w2 = live (snd (time_now w))"
      by (auto elim: repo_MutateIncident_success)
    with assms(2) have "live w1" by (simp add: incident_change_live)
    from repo_AppendAudit_live [OF this] obtain x s' where
      "repo_AppendAudit (updated_audit t actor p b) (m1, w1) = (Inr x, s')" by blast
    with assms(1) mut Inr show ?thesis
      by (simp add: UpdateIncident_def op_bind_def op_now_simps op_return_def)
  qed
qed

subsection \<open>Promotion\<close>

text \<open>Gathering reads the alerts in order and folds them into the lineage.\<close>

lemma repo_GetAlert_Inr:
  "repo_GetAlert t i (m, w) = (Inr a, (m', w')) \<Longrightarrow> m' = m \<and> me_alerts m t i = Some a"
  by (auto simp: repo_GetAlert_def guarded_def pure_op_def GetAlert_def Let_def case_prod_beta
      split: if_splits option.splits)

lemma gather_alerts_success:
  "gather_alerts memory_port t is l (m, w) = (Inr l', (m', w')) \<Longrightarrow>
     m' = m \<and> (\<exists>as. map (me_alerts m t) is = map Some as \<and> l' = foldl add_alert l as)"
proof (induction "is" arbitrary: l w)
  case (Cons i "is")
  from Cons.prems obtain a m1 w1 where
    g: "repo_GetAlert t i (m, w) = (Inr a, (m1, w1))" and
    r: "gather_alerts memory_port t is (add_alert l a) (m1, w1) = (Inr l', (m', w'))"
    by (auto simp: op_bind_eq_Inr)
  from repo_GetAlert_Inr [OF g] have m1: "m1 = m" and a: "me_alerts m t i = Some a" by simp_all
  from Cons.IH [of "add_alert l a" w1] r m1 obtain as where
    "m' = m" "map (me_alerts m t) is = map Some as" "l' = foldl add_alert (add_alert l a) as" by auto
  with a show ?case by (intro conjI exI [of _ "a # as"]) simp_all
qed (simp add: op_return_def)

lemma lineage_alerts: "ln_alerts (foldl add_alert l as) = ln_alerts l @ as"
  by (induction as arbitrary: l) (simp_all add: add_alert_def)

lemma lineage_risk: "ln_risk (foldl add_alert l as) = foldl max (ln_risk l) (map al_risk_score as)"
  by (induction as arbitrary: l) (simp_all add: add_alert_def max_def)

lemma lineage_severity:
  "SeverityRank (ln_severity (foldl add_alert l as)) =
   foldl max (SeverityRank (ln_severity l)) (map (\<lambda>a. SeverityRank (al_severity a)) as)"
proof (induction as arbitrary: l)
  case (Cons a as)
  have "SeverityRank (ln_severity (add_alert l a)) = max (SeverityRank (ln_severity l)) (SeverityRank (al_severity a))"
    by (simp add: add_alert_def max_def)
  with Cons.IH [of "add_alert l a"] show ?case by simp
qed simp

lemma lineage_severity_from:
  "ln_severity (foldl add_alert l as) \<in> insert (ln_severity l) (al_severity ` set as)"
proof (induction as arbitrary: l)
  case (Cons a as)
  from Cons.IH [of "add_alert l a"] show ?case by (auto simp: add_alert_def split: if_splits)
qed simp

lemma lineage_events:
  "set (ln_events (foldl add_alert l as)) = set (ln_events l) \<union> (\<Union>a \<in> set as. set (al_event_ids a) - {[]})"
  by (induction as arbitrary: l) (auto simp: add_alert_def set_appendUnique)

lemma lineage_findings:
  "set (ln_findings (foldl add_alert l as)) = set (ln_findings l) \<union> (\<Union>a \<in> set as. set (al_finding_ids a) - {[]})"
  by (induction as arbitrary: l) (auto simp: add_alert_def set_appendUnique)

lemma lineage_distinct:
  "distinct (ln_events (foldl add_alert l as)) = distinct (ln_events l)"
  "distinct (ln_findings (foldl add_alert l as)) = distinct (ln_findings l)"
  by (induction as arbitrary: l) (simp_all add: add_alert_def)

text \<open>Linking changes only the linked alerts, and only as \<open>link_change\<close> says.\<close>

lemma link_alerts_success:
  "link_alerts memory_port t input as (m, w) = (Inr (), (m', w')) \<Longrightarrow>
     \<exists>f. m' = m\<lparr>me_alerts := f\<rparr> \<and> (\<forall>t' i. t' \<noteq> t \<or> i \<notin> al_id ` set as \<longrightarrow> f t' i = me_alerts m t' i) \<and>
         (\<forall>i \<in> al_id ` set as. \<exists>a. f t i = Some a \<and> al_status a \<noteq> ''NEW'' \<and> al_status a \<noteq> ''ACKNOWLEDGED'')"
proof (induction as arbitrary: m w)
  case Nil
  then show ?case by (intro exI [of _ "me_alerts m"]) (simp add: op_return_def)
next
  case (Cons a as)
  from Cons.prems obtain b m1 w1 where
    g: "repo_MutateAlert t (al_id a) 0 (link_change input) (m, w) = (Inr b, (m1, w1))" and
    r: "link_alerts memory_port t input as (m1, w1) = (Inr (), (m', w'))"
    by (auto simp: op_bind_eq_Inr)
  from g obtain x c w2 w3 u where x: "link_change input x w2 = (Inr c, w3)"
    and b: "b = c\<lparr>al_version := al_version c + 1, al_updated_at := u\<rparr>"
    and m1: "m1 = m\<lparr>me_alerts := upd2 (me_alerts m) t (al_id a) b\<rparr>"
    by (rule repo_MutateAlert_success)
  have st: "al_status b \<noteq> ''NEW'' \<and> al_status b \<noteq> ''ACKNOWLEDGED''"
    using link_change_simps [OF x] b by auto
  from Cons.IH [OF r] obtain f where f: "m' = m1\<lparr>me_alerts := f\<rparr>"
    "\<forall>t' i. t' \<noteq> t \<or> i \<notin> al_id ` set as \<longrightarrow> f t' i = me_alerts m1 t' i"
    "\<forall>i \<in> al_id ` set as. \<exists>a. f t i = Some a \<and> al_status a \<noteq> ''NEW'' \<and> al_status a \<noteq> ''ACKNOWLEDGED''"
    by blast
  have "\<exists>y. f t (al_id a) = Some y \<and> al_status y \<noteq> ''NEW'' \<and> al_status y \<noteq> ''ACKNOWLEDGED''"
  proof (cases "al_id a \<in> al_id ` set as")
    case False
    with f(2) m1 st show ?thesis by simp
  qed (use f(3) in blast)
  with f m1 show ?case by (intro exI [of _ f]) auto
qed

lemma repo_ListIncidents_Inr:
  "repo_ListIncidents t f (m, w) = (Inr xs, (m', w')) \<Longrightarrow> m' = m \<and> xs = ListIncidents t f m"
  by (auto simp: repo_ListIncidents_def guarded_def pure_op_def Let_def case_prod_beta split: if_splits)

lemma repo_CreateIncident_success:
  assumes "repo_CreateIncident x (m, w) = (Inr y, (m', w'))"
  shows "y = x \<and> me_incidents m (in_tenant x) (in_id x) = None \<and>
    m' = m\<lparr>me_incidents := upd2 (me_incidents m) (in_tenant x) (in_id x) x,
           me_incident_order := snoc (me_incident_order m) (in_tenant x) (in_id x)\<rparr>"
  using guarded_Inr [OF assms [unfolded repo_CreateIncident_def]]
  by (auto simp: CreateIncident_def Let_def split: option.splits)

text \<open>A promotion that created an incident: the alerts it read, what it built and what it stored.\<close>

lemma SocCreateIncident_created:
  assumes "SocCreateIncident memory_port t actor input (m, w) = (Inr (x, False), (m', w'))"
  obtains as f title now inc_id tim_id e where
    "map (me_alerts m t) (uniqueSorted (ci_alert_ids input)) = map Some as"
    "incident_title input (foldl add_alert no_lineage as) = Inr title"
    "x = build_incident t actor input (uniqueSorted (ci_alert_ids input)) (foldl add_alert no_lineage as)
           title now inc_id tim_id"
    "me_incidents m t (in_id x) = None"
    "m' = m\<lparr>me_alerts := f, me_incidents := upd2 (me_incidents m) t (in_id x) x,
           me_incident_order := snoc (me_incident_order m) t (in_id x),
           me_audit := snoc (me_audit m) t e, me_heads := (me_heads m)(t := au_hash e)\<rparr>"
    "\<forall>t' i. t' \<noteq> t \<or> i \<notin> al_id ` set as \<longrightarrow> f t' i = me_alerts m t' i"
    "\<forall>i \<in> al_id ` set as. \<exists>a. f t i = Some a \<and> al_status a \<noteq> ''NEW'' \<and> al_status a \<noteq> ''ACKNOWLEDGED''"
    "au_action e = ''incident.created''" "au_actor e = actor" "au_resource_id e = in_id x"
    "find_incident (uniqueSorted (ci_alert_ids input)) (ListIncidents t incident_window m) = None"
proof -
  let ?ids = "uniqueSorted (ci_alert_ids input)"
  from assms obtain existing m1 w1 where
    l: "repo_ListIncidents t incident_window (m, w) = (Inr existing, (m1, w1))" and
    c: "(case find_incident ?ids existing of
           Some x \<Rightarrow> op_return (x, True)
         | None \<Rightarrow> promote memory_port t actor input ?ids) (m1, w1) = (Inr (x, False), (m', w'))"
    by (auto simp: SocCreateIncident_def Let_def op_bind_eq_Inr op_fail_def split: if_splits)
  from repo_ListIncidents_Inr [OF l] have ex: "existing = ListIncidents t incident_window m" "m1 = m" by simp_all
  from c have none: "find_incident ?ids existing = None"
    by (cases "find_incident ?ids existing") (auto simp: op_return_def)
  with c ex have pr: "promote memory_port t actor input ?ids (m, w1) = (Inr (x, False), (m', w'))" by simp
  obtain l' w2 title inc_id tim_id w3 created m4 w4 m5 w5 e where
    g: "gather_alerts memory_port t ?ids no_lineage (m, w1) = (Inr l', (m, w2))"
    and ti: "incident_title input l' = Inr title"
    and cr: "repo_CreateIncident (build_incident t actor input ?ids l' title (fst (time_now w2)) inc_id tim_id) (m, w3)
             = (Inr created, (m4, w4))"
    and li: "link_alerts memory_port t input (ln_alerts l') (m4, w4) = (Inr (), (m5, w5))"
    and au: "repo_AppendAudit (created_audit t actor input ?ids l' created) (m5, w5) = (Inr e, (m', w'))"
    and x: "created = x"
    using pr unfolding promote_def op_bind_eq_Inr
    by (clarsimp simp: op_return_def op_now_simps op_new_id_simps op_lift_def)
       (metis gather_alerts_success)
  from gather_alerts_success [OF g] obtain as where as: "map (me_alerts m t) ?ids = map Some as"
    "l' = foldl add_alert no_lineage as" by blast
  have la: "ln_alerts l' = as" by (simp add: as(2) lineage_alerts no_lineage_def)
  note cs = repo_CreateIncident_success [OF cr]
  have xx: "x = build_incident t actor input ?ids l' title (fst (time_now w2)) inc_id tim_id"
    using cs x by simp
  have t: "in_tenant x = t" by (simp add: xx build_incident_def)
  from link_alerts_success [OF li] obtain f where f: "m5 = m4\<lparr>me_alerts := f\<rparr>"
    "\<forall>t' i. t' \<noteq> t \<or> i \<notin> al_id ` set as \<longrightarrow> f t' i = me_alerts m4 t' i"
    "\<forall>i \<in> al_id ` set as. \<exists>a. f t i = Some a \<and> al_status a \<noteq> ''NEW'' \<and> al_status a \<noteq> ''ACKNOWLEDGED''"
    unfolding la by blast
  note ap = repo_AppendAudit_success [OF au]
  have m4: "m4 = m\<lparr>me_incidents := upd2 (me_incidents m) t (in_id x) x,
           me_incident_order := snoc (me_incident_order m) t (in_id x)\<rparr>" and n: "me_incidents m t (in_id x) = None"
    using cs t unfolding xx [symmetric] by simp_all
  show thesis
    by (rule that [of as title "fst (time_now w2)" inc_id tim_id e f])
       (use n ti xx as f m4 ap x none ex in \<open>simp_all add: created_audit_def new_audit_def\<close>)
qed

text \<open>On a live context, promoting existing alerts goes through when a title can be found and the
  drawn identifier is new.\<close>

lemma gather_alerts_live:
  assumes "live w" "map (me_alerts m t) ids = map Some as"
  shows "\<exists>w'. gather_alerts memory_port t ids l (m, w) = (Inr (foldl add_alert l as), (m, w')) \<and> live w'"
  using assms
proof (induction ids arbitrary: as l w)
  case Nil
  then show ?case by (simp add: op_return_def)
next
  case (Cons i ids)
  then obtain a as' where as: "as = a # as'" "me_alerts m t i = Some a" "map (me_alerts m t) ids = map Some as'"
    by auto
  have "repo_GetAlert t i (m, w) = (Inr a, (m, snd (ctx_err w)))"
    using as(2) Cons.prems(1) by (simp add: repo_GetAlert_def guarded_pure_live GetAlert_def)
  with Cons.IH [of "snd (ctx_err w)" as' "add_alert l a"] as Cons.prems(1) show ?case
    by (simp add: op_bind_def)
qed

lemma link_alerts_live:
  assumes "live w" "\<forall>a \<in> set as. me_alerts m t (al_id a) \<noteq> None"
  shows "\<exists>m' w'. link_alerts memory_port t input as (m, w) = (Inr (), (m', w')) \<and> live w'"
  using assms
proof (induction as arbitrary: m w)
  case Nil
  then show ?case by (simp add: op_return_def)
next
  case (Cons a as)
  then obtain b where b: "me_alerts m t (al_id a) = Some b" by auto
  have f: "\<exists>c. \<forall>w. link_change input b w = (Inr c, w)" by (simp add: link_change_def Let_def)
  then obtain c where c: "\<And>w. link_change input b w = (Inr c, w)" by blast
  have "\<exists>u w1. repo_MutateAlert t (al_id a) 0 (link_change input) (m, w) =
    (Inr (c\<lparr>al_version := al_version c + 1, al_updated_at := u\<rparr>),
     (m\<lparr>me_alerts := upd2 (me_alerts m) t (al_id a) (c\<lparr>al_version := al_version c + 1, al_updated_at := u\<rparr>)\<rparr>, w1)) \<and> live w1"
    by (rule repo_MutateAlert_accepts) (use Cons.prems(1) b c in simp_all)
  then obtain u w1 where r: "repo_MutateAlert t (al_id a) 0 (link_change input) (m, w) =
    (Inr (c\<lparr>al_version := al_version c + 1, al_updated_at := u\<rparr>),
     (m\<lparr>me_alerts := upd2 (me_alerts m) t (al_id a) (c\<lparr>al_version := al_version c + 1, al_updated_at := u\<rparr>)\<rparr>, w1))"
    "live w1" by blast
  from Cons.IH [OF r(2), of "m\<lparr>me_alerts := upd2 (me_alerts m) t (al_id a) (c\<lparr>al_version := al_version c + 1, al_updated_at := u\<rparr>)\<rparr>"]
    Cons.prems(2) r(1) show ?case by (simp add: op_bind_def)
qed

lemma SocCreateIncident_live:
  assumes "live w" "mem_wf m" "ci_alert_ids input \<noteq> []"
    and none: "find_incident (uniqueSorted (ci_alert_ids input)) (ListIncidents t incident_window m) = None"
    and as: "map (me_alerts m t) (uniqueSorted (ci_alert_ids input)) = map Some as"
    and ti: "incident_title input (foldl add_alert no_lineage as) = Inr title"
    and fresh: "\<And>w. me_incidents m t (fst (new_id ''inc'' w)) = None"
  shows "\<exists>x m' w'. SocCreateIncident memory_port t actor input (m, w) = (Inr (x, False), (m', w')) \<and> live w'"
proof -
  let ?ids = "uniqueSorted (ci_alert_ids input)"
  let ?l = "foldl add_alert no_lineage as"
  obtain w1 where l: "repo_ListIncidents t incident_window (m, w) = (Inr (ListIncidents t incident_window m), (m, w1))"
    "live w1"
    using assms(1) by (simp add: repo_ListIncidents_def guarded_pure_live)
  obtain w2 where g: "gather_alerts memory_port t ?ids no_lineage (m, w1) = (Inr ?l, (m, w2))" "live w2"
    using gather_alerts_live [OF l(2) as] by blast
  define w3 where "w3 = snd (time_now w2)"
  define w4 where "w4 = snd (new_id ''inc'' w3)"
  define w5 where "w5 = snd (new_id ''tim'' w4)"
  define x where "x = build_incident t actor input ?ids ?l title (fst (time_now w2)) (fst (new_id ''inc'' w3)) (fst (new_id ''tim'' w4))"
  have live5: "live w5" by (simp add: w5_def w4_def w3_def g(2))
  have id: "in_id x = fst (new_id ''inc'' w3)" "in_tenant x = t" by (simp_all add: x_def build_incident_def)
  define m1 where "m1 = snd (CreateIncident x m)"
  have c: "repo_CreateIncident x (m, w5) = (Inr x, (m1, snd (ctx_err w5)))"
    using fresh [of w3] live5
    by (simp add: repo_CreateIncident_def guarded_live CreateIncident_def m1_def id)
  have al: "me_alerts m1 = me_alerts m" by (simp add: m1_def frame_simps)
  have ex: "\<forall>a \<in> set as. me_alerts m1 t (al_id a) \<noteq> None"
  proof
    fix a assume "a \<in> set as"
    then have "Some a \<in> set (map (me_alerts m t) ?ids)" by (simp add: as)
    then obtain i where "me_alerts m t i = Some a" by auto
    with assms(2) show "me_alerts m1 t (al_id a) \<noteq> None" by (auto simp: al mem_wf_def dest: filedD)
  qed
  have la: "ln_alerts ?l = as" by (simp add: lineage_alerts no_lineage_def)
  obtain m2 w6 where k: "link_alerts memory_port t input as (m1, snd (ctx_err w5)) = (Inr (), (m2, w6))" "live w6"
    using link_alerts_live [OF _ ex] live5 by (meson live_frame(3))
  from repo_AppendAudit_live_frame [OF k(2)] obtain e m3 w7 where
    "repo_AppendAudit (created_audit t actor input ?ids ?l x) (m2, w6) = (Inr e, (m3, w7))" "live w7" by blast
  with g c k ti have "promote memory_port t actor input ?ids (m, w1) = (Inr (x, False), (m3, w7))"
    by (simp add: promote_def op_bind_def op_now_simps op_new_id_simps op_lift_def op_return_def la
        x_def [symmetric] w3_def [symmetric] w4_def [symmetric] w5_def [symmetric])
  with l none assms(3) \<open>live w7\<close> show ?thesis
    by (simp add: SocCreateIncident_def Let_def op_bind_def)
qed

end
