(* ===== verification/Soc_Properties.thy ===== *)
theory Soc_Properties
  imports Soc_Runs Memory_Properties
begin

text \<open>
  The properties of the SOC service on the embedded adapter: what triage, promotion and incident
  updates do on success and on every error, that histories only grow, that tenants stay
  isolated, and the corner cases in which the code does not keep what its comments promise.
\<close>

subsection \<open>Sequences of requests\<close>

datatype soc_request =
    Triage tenant string string string alert_patch
  | Promote tenant string create_incident_input
  | Progress tenant string string incident_patch

fun request_tenant :: "soc_request \<Rightarrow> tenant" where
  "request_tenant (Triage t i actor req p) = t"
| "request_tenant (Promote t actor input) = t"
| "request_tenant (Progress t i actor p) = t"

fun handle :: "soc_request \<Rightarrow> memory \<times> world \<Rightarrow> memory \<times> world" where
  "handle (Triage t i actor req p) sw = snd (UpdateAlert memory_port t i actor req p sw)"
| "handle (Promote t actor input) sw = snd (SocCreateIncident memory_port t actor input sw)"
| "handle (Progress t i actor p) sw = snd (UpdateIncident memory_port t i actor p sw)"

fun serve :: "soc_request list \<Rightarrow> memory \<times> world \<Rightarrow> memory \<times> world" where
  "serve [] sw = sw"
| "serve (r # rs) sw = serve rs (handle r sw)"

text \<open>A relation on the store that every service operation keeps, every sequence of them keeps.\<close>

lemma op_rel_snd: "op_rel R f \<Longrightarrow> R (fst sw) (fst (snd (f sw)))"
  by (metis op_relD prod.collapse)

lemma handle_history: "soc_advances (fst sw) (fst (handle r sw))"
  by (cases r) (simp_all add: op_rel_snd soc_history.update_alert_rel soc_history.create_incident_rel
      soc_history.update_incident_rel)

lemma handle_keeps: "keeps mem_wf (fst sw) (fst (handle r sw))"
  by (cases r) (simp_all add: op_rel_snd soc_wf.update_alert_rel soc_wf.create_incident_rel
      soc_wf.update_incident_rel)

lemma handle_wf: "mem_wf (fst sw) \<Longrightarrow> mem_wf (fst (handle r sw))"
  using handle_keeps [of sw r] by (simp add: keeps_def)

lemma handle_isolated: "only_tenant (request_tenant r) (fst sw) (fst (handle r sw))"
  by (cases r) (simp_all add: op_rel_snd soc_isolation.update_alert_rel soc_isolation.create_incident_rel
      soc_isolation.update_incident_rel)

lemma serve_history: "soc_advances (fst sw) (fst (serve rs sw))"
proof (induction rs sw rule: serve.induct)
  case (2 r rs sw)
  then show ?case using soc_advances_trans handle_history by simp blast
qed simp

lemma serve_wf: "mem_wf (fst sw) \<Longrightarrow> mem_wf (fst (serve rs sw))"
  by (induction rs sw rule: serve.induct) (simp_all add: handle_wf)

lemma serve_isolated:
  "t \<notin> request_tenant ` set rs \<Longrightarrow> tenant_view t (fst (serve rs sw)) = tenant_view t (fst sw)"
proof (induction rs sw rule: serve.induct)
  case (2 r rs sw)
  then show ?case using handle_isolated [of r sw] by (auto simp: only_tenant_def)
qed simp

subsection \<open>Sample state\<close>

definition sample_store :: memory where
  "sample_store = snd (UpsertAlert sample_alert ''k'' 10 NewMemory)"

lemma sample_store_wf: "mem_wf sample_store"
  unfolding sample_store_def by (rule mem_wf_UpsertAlert [OF mem_wf_New]) (simp add: NewMemory_def)

lemma sample_store_simps [simp]:
  "me_alerts sample_store ''acme'' ''alt_1'' = Some sample_alert" "me_audit sample_store t = []"
  "me_heads sample_store t = []" "me_incidents sample_store t i = None"
  "me_incident_order sample_store t = []"
  by (simp_all add: sample_store_def UpsertAlert_def merge_target_def insert_alert_def NewMemory_def Let_def
      sample_alert_def)

definition close_patch :: alert_patch where
  "close_patch = \<lparr>ap_status = ''closed'', ap_assignee = [], ap_disposition = ''benign'', ap_comment = [], ap_version = 1\<rparr>"

lemma sample_close_upper: "to_upper ''closed'' = ''CLOSED''" "to_upper ''benign'' = ''BENIGN''"
  "trim_space ''benign'' = ''benign''"
  by (code_simp)+

lemma sample_close:
  "\<exists>b m' w'. UpdateAlert memory_port ''acme'' ''alt_1'' ''bob'' ''req'' close_patch (sample_store, sample_world) =
     (Inr b, (m', w')) \<and> al_status b = ''CLOSED'' \<and> al_version b = 2 \<and> live w'"
proof -
  obtain c where c: "alert_change (fst (time_now sample_world)) close_patch sample_alert = (\<lambda>w. (Inr c, w))"
    "al_status c = ''CLOSED''" "al_version c = 1"
    by (simp add: alert_change_def alert_status_change_def close_patch_def sample_close_upper Let_def
        sample_alert_def validAlertTransition_def fun_eq_iff)
  from UpdateAlert_accepts [of sample_world sample_store "''acme''" "''alt_1''" sample_alert close_patch c
      "''bob''" "''req''"] c
  show ?thesis by (auto simp: close_patch_def sample_alert_def)
qed

section \<open>Properties\<close>

text \<open>C5. Whatever requests the SOC service serves, in any order and from any store: no alert and no
  incident is ever lost, statuses only move forward along the lifecycle (a closed object stays
  closed), versions never decrease, an incident keeps its alerts and its timeline, and every
  tenant's audit log is only extended.\<close>

theorem soc_histories_only_grow: "soc_advances m (fst (serve requests (m, w)))"
  using serve_history [of "(m, w)"] by simp

text \<open>Serving requests of other tenants changes nothing a tenant can observe: not its alerts,
  incidents, list orders or audit chain.\<close>

theorem soc_tenant_isolation:
  assumes "t \<notin> request_tenant ` set requests"
  shows "tenant_view t (fst (serve requests (m, w))) = tenant_view t m"
  using serve_isolated [OF assms, of "(m, w)"] by simp

theorem soc_tenant_isolation_witness:
  "tenant_view ''other'' (fst (serve [Triage ''acme'' ''alt_1'' ''bob'' ''req'' close_patch] (sample_store, sample_world)))
   = tenant_view ''other'' sample_store"
  using soc_tenant_isolation [of "''other''" "[Triage ''acme'' ''alt_1'' ''bob'' ''req'' close_patch]"] by simp

text \<open>Serving any requests keeps the store well formed, every audit chain verifying included.\<close>

theorem soc_keeps_store_wf:
  assumes "mem_wf m"
  shows "mem_wf (fst (serve requests (m, w)))"
  using serve_wf [of "(m, w)"] assms by simp

theorem soc_keeps_store_wf_witness:
  "mem_wf (fst (serve [Triage ''acme'' ''alt_1'' ''bob'' ''req'' close_patch] (sample_store, sample_world)))"
  by (rule soc_keeps_store_wf [OF sample_store_wf])

definition triage_legal :: "alert_patch \<Rightarrow> alert \<Rightarrow> bool" where
  "triage_legal p a \<longleftrightarrow>
     (ap_version p \<le> 0 \<or> al_version a = ap_version p) \<and>
     (ap_status p = [] \<or>
      validAlertTransition (al_status a) (to_upper (ap_status p)) \<and>
      \<not> (to_upper (ap_status p) = ''CLOSED'' \<and> trim_space (ap_disposition p) = []))"

lemma triage_legal_change:
  "triage_legal p a \<longleftrightarrow> (ap_version p \<le> 0 \<or> al_version a = ap_version p) \<and> (\<exists>c. alert_change now p a = (\<lambda>w. (Inr c, w)))"
proof -
  have "(\<exists>b. alert_status_change now p a = Inr b) \<longleftrightarrow>
    (ap_status p = [] \<or> validAlertTransition (al_status a) (to_upper (ap_status p)) \<and>
      \<not> (to_upper (ap_status p) = ''CLOSED'' \<and> trim_space (ap_disposition p) = []))"
    by (simp add: alert_status_change_def Let_def)
  moreover have "(\<exists>c. alert_change now p a = (\<lambda>w. (Inr c, w))) \<longleftrightarrow> (\<exists>b. alert_status_change now p a = Inr b)"
    by (cases "alert_status_change now p a") (auto simp: alert_change_def Let_def fun_eq_iff)
  ultimately show ?thesis by (simp add: triage_legal_def)
qed

text \<open>On a live context a triage request is accepted exactly when the alert exists, the caller
  names no version or the current one, and the requested status, if any, is a legal next status
  that carries a disposition when it closes the alert.\<close>

theorem UpdateAlert_accepts_iff:
  assumes "live w"
  shows "is_ok (fst (UpdateAlert memory_port t i actor req p (m, w))) \<longleftrightarrow>
         (\<exists>a. GetAlert t i m = Inr a \<and> triage_legal p a)"
proof
  assume "is_ok (fst (UpdateAlert memory_port t i actor req p (m, w)))"
  then obtain b m' w' where "UpdateAlert memory_port t i actor req p (m, w) = (Inr b, (m', w'))"
    by (cases "UpdateAlert memory_port t i actor req p (m, w)") (auto simp: is_ok_def split: sum.splits)
  then obtain a c w1 w2 where a: "me_alerts m t i = Some a" "ap_version p \<le> 0 \<or> al_version a = ap_version p"
    "alert_change (fst (time_now w)) p a w1 = (Inr c, w2)"
    by (rule UpdateAlert_success)
  from a(3) have "alert_change (fst (time_now w)) p a = (\<lambda>w. (Inr c, w))"
    by (auto simp: alert_change_def fun_eq_iff)
  with a(1,2) triage_legal_change [of p a "fst (time_now w)"] show "\<exists>a. GetAlert t i m = Inr a \<and> triage_legal p a"
    by (auto simp: GetAlert_def)
next
  assume "\<exists>a. GetAlert t i m = Inr a \<and> triage_legal p a"
  then obtain a where a: "me_alerts m t i = Some a" "triage_legal p a"
    by (auto simp: GetAlert_def split: option.splits)
  then obtain c where "ap_version p \<le> 0 \<or> al_version a = ap_version p"
    "alert_change (fst (time_now w)) p a = (\<lambda>w. (Inr c, w))"
    using triage_legal_change [of p a "fst (time_now w)"] by auto
  from UpdateAlert_accepts [OF assms a(1) this, of actor req]
  show "is_ok (fst (UpdateAlert memory_port t i actor req p (m, w)))" by auto
qed

theorem UpdateAlert_accepts_iff_witness:
  "is_ok (fst (UpdateAlert memory_port ''acme'' ''alt_1'' ''bob'' ''req'' close_patch (sample_store, sample_world))) \<and>
   \<not> is_ok (fst (UpdateAlert memory_port ''acme'' ''alt_9'' ''bob'' ''req'' close_patch (NewMemory, sample_world)))"
  using UpdateAlert_accepts_iff [OF live_sample, of "''acme''" "''alt_1''" "''bob''" "''req''" close_patch sample_store]
    UpdateAlert_accepts_iff [OF live_sample, of "''acme''" "''alt_9''" "''bob''" "''req''" close_patch NewMemory]
  by (simp add: GetAlert_def triage_legal_def close_patch_def sample_close_upper validAlertTransition_def
      sample_alert_def NewMemory_def)



text \<open>A refused triage changes nothing: on a live context every error is one of not found, version
  conflict, invalid transition and missing closure details, and the store, audit log included,
  is the one before the call.\<close>

theorem UpdateAlert_error_unchanged:
  assumes "UpdateAlert memory_port t i actor req p (m, w) = (Inl e, (m', w'))" "live w"
  shows "m' = m \<and> e \<in> {ErrNotFound, ErrVersionConflict, ErrInvalidTransition, ErrClosureDetails}"
  using UpdateAlert_failure [OF assms] by blast

theorem UpdateAlert_error_unchanged_witness:
  "fst (snd (UpdateAlert memory_port ''acme'' ''alt_9'' ''bob'' ''req'' close_patch (NewMemory, sample_world))) = NewMemory"
proof -
  obtain r m' w' where u: "UpdateAlert memory_port ''acme'' ''alt_9'' ''bob'' ''req'' close_patch
    (NewMemory, sample_world) = (r, (m', w'))" by (metis prod.exhaust)
  show ?thesis
  proof (cases r)
    case (Inl e)
    with u UpdateAlert_error_unchanged [of "''acme''" "''alt_9''" "''bob''" "''req''" close_patch NewMemory
        sample_world e m' w'] show ?thesis by simp
  next
    case (Inr b)
    with u have "\<exists>a. me_alerts NewMemory ''acme'' ''alt_9'' = Some a" by (auto elim: UpdateAlert_success)
    then show ?thesis by (simp add: NewMemory_def)
  qed
qed

text \<open>No lost update between two analysts: once a triage at a positive version has been accepted,
  any other triage of the alert at the same version is refused with a version conflict and
  changes nothing.\<close>

theorem UpdateAlert_no_lost_update:
  assumes "UpdateAlert memory_port t i actor req p (m, w) = (Inr b, (m1, w1))" "live w1"
    and "0 < ap_version p" "ap_version q = ap_version p"
  shows "\<exists>w2. UpdateAlert memory_port t i actor' req' q (m1, w1) = (Inl ErrVersionConflict, (m1, w2))"
proof -
  from assms(1) obtain a c w3 w4 u e where a: "ap_version p \<le> 0 \<or> al_version a = ap_version p"
    "alert_change (fst (time_now w)) p a w3 = (Inr c, w4)"
    "b = c\<lparr>al_version := al_version c + 1, al_updated_at := u\<rparr>"
    "m1 = m\<lparr>me_alerts := upd2 (me_alerts m) t i b, me_audit := snoc (me_audit m) t e,
           me_heads := (me_heads m)(t := au_hash e)\<rparr>"
    by (rule UpdateAlert_success)
  have "al_version b = ap_version q + 1" using a(1,3) alert_change_Inr(4) [OF a(2)] assms(3,4) by simp
  moreover have "me_alerts m1 t i = Some b" by (simp add: a(4))
  ultimately have "repo_MutateAlert t i (ap_version q) f (m1, snd (time_now w1)) =
      (Inl ErrVersionConflict, (m1, snd (ctx_err (snd (time_now w1)))))" for f
    using assms by (simp add: repo_MutateAlert_def guarded_live alerts_versioned.stale)
  then show ?thesis by (simp add: UpdateAlert_def op_bind_def op_now_simps)
qed

theorem UpdateAlert_no_lost_update_witness:
  "\<exists>m1 w1 w2. snd (UpdateAlert memory_port ''acme'' ''alt_1'' ''bob'' ''req'' close_patch (sample_store, sample_world)) =
     (m1, w1) \<and>
     UpdateAlert memory_port ''acme'' ''alt_1'' ''eve'' ''req'' close_patch (m1, w1) = (Inl ErrVersionConflict, (m1, w2))"
proof -
  obtain b m' w' where u: "UpdateAlert memory_port ''acme'' ''alt_1'' ''bob'' ''req'' close_patch
    (sample_store, sample_world) = (Inr b, (m', w'))" "live w'"
    using sample_close by blast
  from UpdateAlert_no_lost_update [OF u, of close_patch "''eve''" "''req''"] u(1) show ?thesis
    by (auto simp: close_patch_def)
qed

text \<open>An accepted incident update stores exactly the incident it returns, one version on, with the
  requested status, which is the old one or one of its allowed transitions; the timeline is
  extended, the advertised transitions are those of the new status, no alert and no other
  incident changes, and exactly one audit entry is appended.\<close>

theorem UpdateIncident_effect:
  assumes "UpdateIncident memory_port t i actor p (m, w) = (Inr y, (m', w'))"
  shows "\<exists>x e tl. GetIncident t i m = Inr x \<and> GetIncident t i m' = Inr y \<and> in_version y = in_version x + 1 \<and>
    in_status y = (if ip_status p = [] then in_status x else to_upper (ip_status p)) \<and>
    (in_status y = in_status x \<or> in_status y \<in> set (AllowedTransitions (in_status x))) \<and>
    in_allowed y = AllowedTransitions (in_status y) \<and> in_timeline y = in_timeline x @ tl \<and>
    in_alert_ids y = in_alert_ids x \<and>
    (\<forall>t' i'. (t', i') \<noteq> (t, i) \<longrightarrow> me_incidents m' t' i' = me_incidents m t' i') \<and> me_alerts m' = me_alerts m \<and>
    me_audit m' t = me_audit m t @ [e] \<and> au_action e = ''incident.updated'' \<and> au_actor e = actor \<and>
    au_resource_id e = in_id y"
proof -
  from assms obtain x c w1 w2 u e where x: "me_incidents m t i = Some x"
    "incident_change (fst (time_now w)) actor p x w1 = (Inr c, w2)"
    "y = c\<lparr>in_version := in_version c + 1, in_updated_at := u\<rparr>"
    and m': "m' = m\<lparr>me_incidents := upd2 (me_incidents m) t i y, me_audit := snoc (me_audit m) t e,
           me_heads := (me_heads m)(t := au_hash e)\<rparr>"
    and e: "au_action e = ''incident.updated''" "au_actor e = actor" "au_resource_id e = in_id y"
    by (rule UpdateIncident_success)
  note c = incident_change_key [OF x(2)]
  from c(8) obtain tl where tl: "in_timeline c = in_timeline x @ tl" by blast
  show ?thesis
    by (intro exI [of _ x] exI [of _ e] exI [of _ tl]) (use x c(3-7) tl m' e in \<open>simp add: GetIncident_def\<close>)
qed

definition sample_incident :: incident where
  "sample_incident = zero_incident\<lparr>in_id := ''inc_1'', in_tenant := ''acme'', in_status := ''TRIAGE'',
     in_disposition := ''BENIGN'', in_closure_reason := ''duplicate'', in_version := 3\<rparr>"

definition incident_store :: memory where
  "incident_store = snd (CreateIncident sample_incident sample_store)"

lemma incident_store_simps [simp]:
  "me_incidents incident_store ''acme'' ''inc_1'' = Some sample_incident" "me_audit incident_store t = []"
  "me_incident_order incident_store ''acme'' = [''inc_1'']"
  by (simp_all add: incident_store_def CreateIncident_def sample_incident_def)

definition blank_patch :: incident_patch where
  "blank_patch = \<lparr>ip_status = ''CLOSED'', ip_assignee = [], ip_disposition = '' '', ip_closure_reason = '' '',
     ip_comment = [], ip_version = 0, ip_request_id = ''req''\<rparr>"

text \<open>On a live context an accepted change of an incident goes through.\<close>

lemma UpdateIncident_accepts:
  assumes "live w" "me_incidents m t i = Some x" "ip_version p \<le> 0 \<or> in_version x = ip_version p"
    and "\<And>w. \<exists>c w'. incident_change now actor p x w = (Inr c, w') \<and> P c" "now = fst (time_now w)"
  shows "\<exists>c u m' w'. UpdateIncident memory_port t i actor p (m, w) =
    (Inr (c\<lparr>in_version := in_version c + 1, in_updated_at := u\<rparr>), (m', w')) \<and> P c \<and> live w'"
proof -
  let ?w = "snd (ctx_err (snd (time_now w)))"
  from assms(4) obtain c w' where c: "incident_change now actor p x ?w = (Inr c, w')" "P c" by blast
  from incident_change_live [OF c(1)] assms(1) have l: "live w'" by simp
  let ?y = "c\<lparr>in_version := in_version c + 1, in_updated_at := fst (time_now w')\<rparr>"
  let ?m = "m\<lparr>me_incidents := upd2 (me_incidents m) t i ?y\<rparr>"
  have mut: "repo_MutateIncident t i (ip_version p) (incident_change now actor p) (m, snd (time_now w)) =
    (Inr ?y, (?m, snd (time_now w')))"
    using assms c by (auto simp: repo_MutateIncident_def guarded_live MutateIncident_def Let_def case_prod_beta)
  from l have "live (snd (time_now w'))" by simp
  from repo_AppendAudit_live_frame [OF this] obtain a m2 w2 where
    "repo_AppendAudit (updated_audit t actor p ?y) (?m, snd (time_now w')) = (Inr a, (m2, w2))" "live w2" by blast
  with mut c(2) assms(5) show ?thesis
    by (intro exI [of _ c] exI [of _ "fst (time_now w')"])
       (simp add: UpdateIncident_def op_bind_def op_now_simps op_return_def)
qed

lemma blank_change:
  "\<exists>c w'. incident_change now actor blank_patch sample_incident w = (Inr c, w') \<and>
     (in_status c = ''CLOSED'' \<and> in_disposition c = '' '' \<and> in_closure_reason c = [] \<and> in_version c = 3)"
proof -
  have f: "firstNonEmpty ['' '', ''BENIGN''] = ''BENIGN''" "firstNonEmpty ['' '', ''duplicate''] = ''duplicate''"
    "to_upper '' '' = '' ''" "trim_space '' '' = []"
    by (code_simp)+
  show ?thesis
    by (simp add: incident_change_def incident_status_change_def close_details_def timeline_def blank_patch_def
        sample_incident_def zero_incident_def f Let_def case_prod_beta del: firstNonEmpty.simps)
qed

lemma sample_blank_close:
  "\<exists>y m' w'. UpdateIncident memory_port ''acme'' ''inc_1'' ''bob'' blank_patch (incident_store, sample_world) =
     (Inr y, (m', w')) \<and> in_status y = ''CLOSED'' \<and> in_disposition y = '' '' \<and> in_closure_reason y = [] \<and>
     in_version y = 4 \<and> live w'"
proof -
  have v: "ip_version blank_patch \<le> 0 \<or> in_version sample_incident = ip_version blank_patch"
    by (simp add: blank_patch_def)
  from UpdateIncident_accepts [OF live_sample incident_store_simps(1) v blank_change refl]
  show ?thesis by fastforce
qed

theorem UpdateIncident_effect_witness:
  "\<exists>y m' w' e. UpdateIncident memory_port ''acme'' ''inc_1'' ''bob'' blank_patch (incident_store, sample_world) =
     (Inr y, (m', w')) \<and> me_audit m' ''acme'' = [e] \<and> au_actor e = ''bob'' \<and> in_version y = 4"
proof -
  obtain y m' w' where u: "UpdateIncident memory_port ''acme'' ''inc_1'' ''bob'' blank_patch
    (incident_store, sample_world) = (Inr y, (m', w'))" "in_version y = 4"
    using sample_blank_close by blast
  from UpdateIncident_effect [OF u(1)] u show ?thesis by auto
qed

text \<open>Closing an incident is meant to require a disposition and a reason, but the check and the
  assignment read different values: a patch whose disposition and reason are blank, applied to
  an incident that has both, passes the check on the old values and then erases them, leaving
  a closed incident without a reason and with a blank disposition.\<close>

theorem incident_closed_without_details:
  "\<exists>y m' w'. UpdateIncident memory_port ''acme'' ''inc_1'' ''bob'' blank_patch (incident_store, sample_world) =
     (Inr y, (m', w')) \<and> in_status y = ''CLOSED'' \<and> trim_space (in_disposition y) = [] \<and> in_closure_reason y = []"
proof -
  have "trim_space '' '' = []" by code_simp
  with sample_blank_close show ?thesis by fastforce
qed

lemma firstNonEmpty_nonblank: "firstNonEmpty vs \<noteq> [] \<Longrightarrow> trim_space (firstNonEmpty vs) \<noteq> []"
  by (induction vs) (auto simp: trim_space_idem)

lemma to_upper_eq_Nil: "to_upper s = [] \<longleftrightarrow> s = []"
  by (induction s rule: to_upper.induct) (simp_all add: to_upper.simps)

text \<open>An incident can be closed only with details: when an update moves it to CLOSED, and the
  patch's own disposition and reason, if given, are not blank, the closed incident has both.\<close>

theorem incident_closed_with_details:
  assumes "UpdateIncident memory_port t i actor p (m, w) = (Inr y, (m', w'))"
    and "ip_status p \<noteq> []" "in_status y = ''CLOSED''"
    and "ip_disposition p = [] \<or> trim_space (ip_disposition p) \<noteq> []"
    and "ip_closure_reason p = [] \<or> trim_space (ip_closure_reason p) \<noteq> []"
  shows "in_disposition y \<noteq> [] \<and> in_closure_reason y \<noteq> []"
proof -
  from assms(1) obtain x c w1 w2 u where x: "incident_change (fst (time_now w)) actor p x w1 = (Inr c, w2)"
    "y = c\<lparr>in_version := in_version c + 1, in_updated_at := u\<rparr>"
    by (rule UpdateIncident_success)
  from x(1) obtain x1 w3 where x1: "incident_status_change (fst (time_now w)) actor p x w1 = (Inr x1, w3)"
    "in_status c = in_status x1"
    "in_disposition c = (if ip_disposition p \<noteq> [] then to_upper (ip_disposition p) else in_disposition x1)"
    "in_closure_reason c = (if ip_closure_reason p \<noteq> [] then trim_space (ip_closure_reason p)
                            else in_closure_reason x1)"
    by (rule incident_change_Inr)
  from assms(3) x(2) x1(2) have cl: "in_status x1 = ''CLOSED''" by simp
  with incident_status_change_Inr [OF x1(1)] assms(2) obtain z where
    z: "close_details p ''CLOSED'' x = Inr z" "in_disposition x1 = in_disposition z"
      "in_closure_reason x1 = in_closure_reason z" by auto
  have "in_disposition x1 \<noteq> []" "in_closure_reason x1 \<noteq> []"
    using close_details_Inr(8,9) [OF z(1)] z(2,3) by (simp_all only: to_upper_eq_Nil, simp_all)
  with x(2) x1(3,4) assms(4,5) show ?thesis by (auto simp: to_upper_eq_Nil)
qed

definition close_incident_patch :: incident_patch where
  "close_incident_patch = \<lparr>ip_status = ''CLOSED'', ip_assignee = [], ip_disposition = [], ip_closure_reason = [],
     ip_comment = [], ip_version = 3, ip_request_id = ''req''\<rparr>"

lemma close_incident_change:
  "\<exists>c w'. incident_change now actor close_incident_patch sample_incident w = (Inr c, w') \<and> in_status c = ''CLOSED''"
proof -
  have f: "firstNonEmpty [[], ''BENIGN''] = ''BENIGN''" "firstNonEmpty [[], ''duplicate''] = ''duplicate''"
    by (code_simp)+
  show ?thesis
    by (simp add: incident_change_def incident_status_change_def close_details_def timeline_def
        close_incident_patch_def sample_incident_def zero_incident_def f Let_def case_prod_beta del: firstNonEmpty.simps)
qed

theorem incident_closed_with_details_witness:
  "\<exists>y s'. UpdateIncident memory_port ''acme'' ''inc_1'' ''bob'' close_incident_patch (incident_store, sample_world) =
     (Inr y, s') \<and> in_status y = ''CLOSED'' \<and> in_disposition y \<noteq> [] \<and> in_closure_reason y \<noteq> []"
proof -
  have v: "ip_version close_incident_patch \<le> 0 \<or> in_version sample_incident = ip_version close_incident_patch"
    by (simp add: close_incident_patch_def sample_incident_def)
  from UpdateIncident_accepts [OF live_sample incident_store_simps(1) v close_incident_change refl]
  obtain y m' w' where y: "UpdateIncident memory_port ''acme'' ''inc_1'' ''bob'' close_incident_patch
    (incident_store, sample_world) = (Inr y, (m', w'))" "in_status y = ''CLOSED''"
    by fastforce
  from incident_closed_with_details [OF y(1) _ y(2)] y show ?thesis by (simp add: close_incident_patch_def)
qed

lemma uniqueSorted_facts [simp]:
  "set (uniqueSorted vs) = set vs - {[]}" "distinct (uniqueSorted vs)" "sorted (uniqueSorted vs)"
  by (simp_all add: uniqueSorted_def set_appendUnique)

lemma appendUnique_id: "distinct vs \<Longrightarrow> [] \<notin> set vs \<Longrightarrow> appendUnique [] vs = vs"
  by (simp add: appendUnique_def filter_True add_unseen_distinct)
     (metis (mono_tags, lifting) add_unseen_distinct append_Nil filter_True)

lemma uniqueSorted_idem [simp]: "uniqueSorted (uniqueSorted vs) = uniqueSorted vs"
proof -
  have "appendUnique [] (uniqueSorted vs) = uniqueSorted vs" by (rule appendUnique_id) simp_all
  then show ?thesis by (simp add: uniqueSorted_def [of "uniqueSorted vs"] sorted_sort_id)
qed

lemma filed_ids:
  "filed ten key g \<Longrightarrow> map (g t) ids = map Some as \<Longrightarrow> map key as = ids"
proof (induction ids arbitrary: as)
  case (Cons i ids)
  then obtain a as' where "as = a # as'" "g t i = Some a" "map (g t) ids = map Some as'" by auto
  with Cons.IH [OF Cons.prems(1), of as'] Cons.prems(1) show ?case by (auto dest: filedD)
qed simp

text \<open>C7. Promotion of alerts builds the incident from the alerts' lineage: its alert list is the
  requested identifiers without duplicates, sorted; every one of them exists; its severity and
  risk score are the highest among them and its events and findings are exactly theirs; it is
  stored as a new record in status NEW; every promoted alert is then at least in progress; and
  one audit entry names the new incident.\<close>

theorem SocCreateIncident_lineage:
  assumes "mem_wf m" "SocCreateIncident memory_port t actor input (m, w) = (Inr (x, False), (m', w'))"
  shows "set (in_alert_ids x) = set (ci_alert_ids input) - {[]} \<and> distinct (in_alert_ids x) \<and> sorted (in_alert_ids x) \<and>
    (\<exists>as. map (\<lambda>i. GetAlert t i m) (in_alert_ids x) = map Inr as \<and>
      (\<forall>a \<in> set as. SeverityRank (al_severity a) \<le> SeverityRank (in_severity x) \<and> al_risk_score a \<le> in_risk_score x) \<and>
      in_severity x \<in> insert SeverityInformational (al_severity ` set as) \<and>
      in_risk_score x \<in> insert 0 (al_risk_score ` set as) \<and>
      set (in_event_ids x) = (\<Union>a \<in> set as. set (al_event_ids a)) - {[]} \<and> distinct (in_event_ids x) \<and>
      set (in_finding_ids x) = (\<Union>a \<in> set as. set (al_finding_ids a)) - {[]} \<and> distinct (in_finding_ids x)) \<and>
    in_status x = ''NEW'' \<and> in_version x = 1 \<and>
    GetIncident t (in_id x) m = Inl ErrNotFound \<and> GetIncident t (in_id x) m' = Inr x \<and>
    (\<forall>i \<in> set (in_alert_ids x). \<exists>b. GetAlert t i m' = Inr b \<and> al_status b \<noteq> ''NEW'' \<and> al_status b \<noteq> ''ACKNOWLEDGED'') \<and>
    (\<exists>e. me_audit m' t = me_audit m t @ [e] \<and> au_action e = ''incident.created'' \<and> au_actor e = actor \<and>
         au_resource_id e = in_id x)"
proof -
  from assms(2) obtain as f title now inc_id tim_id e where
    as: "map (me_alerts m t) (uniqueSorted (ci_alert_ids input)) = map Some as" and
    x: "x = build_incident t actor input (uniqueSorted (ci_alert_ids input)) (foldl add_alert no_lineage as)
           title now inc_id tim_id" and
    n: "me_incidents m t (in_id x) = None" and
    m': "m' = m\<lparr>me_alerts := f, me_incidents := upd2 (me_incidents m) t (in_id x) x,
           me_incident_order := snoc (me_incident_order m) t (in_id x),
           me_audit := snoc (me_audit m) t e, me_heads := (me_heads m)(t := au_hash e)\<rparr>" and
    f: "\<forall>i \<in> al_id ` set as. \<exists>a. f t i = Some a \<and> al_status a \<noteq> ''NEW'' \<and> al_status a \<noteq> ''ACKNOWLEDGED''" and
    e: "au_action e = ''incident.created''" "au_actor e = actor" "au_resource_id e = in_id x"
    by (rule SocCreateIncident_created)
  let ?l = "foldl add_alert no_lineage as"
  have ids: "in_alert_ids x = uniqueSorted (ci_alert_ids input)" and fx: "in_severity x = ln_severity ?l"
    "in_risk_score x = ln_risk ?l" "in_event_ids x = ln_events ?l" "in_finding_ids x = ln_findings ?l"
    "in_status x = ''NEW''" "in_version x = 1"
    by (simp_all add: x build_incident_def)
  have gets: "map (\<lambda>i. GetAlert t i m) (in_alert_ids x) = map Inr as"
  proof -
    have "map (\<lambda>i. GetAlert t i m) (in_alert_ids x) =
          map (case_option (Inl ErrNotFound) Inr) (map (me_alerts m t) (in_alert_ids x))"
      by (simp add: GetAlert_def comp_def)
    then show ?thesis by (simp add: ids as comp_def)
  qed
  have fl: "filed al_tenant al_id (me_alerts m)" using assms(1) by (simp add: mem_wf_def)
  have idset: "set (in_alert_ids x) = al_id ` set as"
    using filed_ids [OF fl as] by (metis ids list.set_map)
  have z: "ln_severity no_lineage = SeverityInformational" "ln_risk no_lineage = 0"
    "ln_events no_lineage = []" "ln_findings no_lineage = []"
    by (simp_all add: no_lineage_def)
  have sev: "SeverityRank (al_severity a) \<le> SeverityRank (in_severity x)" if "a \<in> set as" for a
    unfolding fx lineage_severity by (rule foldl_max_ub) (use that in simp)
  have risk: "al_risk_score a \<le> in_risk_score x" if "a \<in> set as" for a
    unfolding fx lineage_risk by (rule foldl_max_ub) (use that in simp)
  have "in_severity x \<in> insert SeverityInformational (al_severity ` set as)"
    "in_risk_score x \<in> insert 0 (al_risk_score ` set as)"
    using lineage_severity_from [of no_lineage as] foldl_max_mem [of 0 "map al_risk_score as"]
    by (simp_all add: fx lineage_risk z)
  moreover have "set (in_event_ids x) = (\<Union>a \<in> set as. set (al_event_ids a)) - {[]}" "distinct (in_event_ids x)"
    "set (in_finding_ids x) = (\<Union>a \<in> set as. set (al_finding_ids a)) - {[]}" "distinct (in_finding_ids x)"
    by (auto simp: fx lineage_events lineage_findings lineage_distinct z)
  moreover have "\<forall>i \<in> set (in_alert_ids x). \<exists>b. GetAlert t i m' = Inr b \<and> al_status b \<noteq> ''NEW'' \<and> al_status b \<noteq> ''ACKNOWLEDGED''"
    using f by (auto simp: idset GetAlert_def m')
  moreover have "GetIncident t (in_id x) m = Inl ErrNotFound \<and> GetIncident t (in_id x) m' = Inr x"
    by (simp add: GetIncident_def n m')
  moreover have "me_audit m' t = me_audit m t @ [e]" by (simp add: m')
  ultimately show ?thesis
    using gets sev risk e fx(5,6) by (intro conjI exI [of _ as] exI [of _ e] ballI) (simp_all add: ids)
qed

text \<open>On a live context a promotion of an existing alert with a title goes through.\<close>

definition promote_input :: create_incident_input where
  "promote_input = \<lparr>ci_title = ''Beacon'', ci_summary = [], ci_assignee = ''bob'', ci_alert_ids = [''alt_1'', [], ''alt_1''],
     ci_request_id = ''req''\<rparr>"

lemma promote_ids: "uniqueSorted (ci_alert_ids promote_input) = [''alt_1'']"
  by (simp add: promote_input_def uniqueSorted_def appendUnique_def)

lemma sample_promote:
  "\<exists>x m' w'. SocCreateIncident memory_port ''acme'' ''bob'' promote_input (sample_store, sample_world) =
     (Inr (x, False), (m', w')) \<and> live w'"
proof -
  have ti: "trim_space ''Beacon'' = ''Beacon''" by code_simp
  show ?thesis
    by (rule SocCreateIncident_live [OF live_sample sample_store_wf, of _ _ "[sample_alert]" "''Beacon''"])
       (simp_all add: promote_ids, simp_all add: promote_input_def ListIncidents_eq find_incident_def
         incident_title_def ti)
qed

theorem SocCreateIncident_lineage_witness:
  "\<exists>x m' w'. SocCreateIncident memory_port ''acme'' ''bob'' promote_input (sample_store, sample_world) =
     (Inr (x, False), (m', w')) \<and> set (in_alert_ids x) = {''alt_1''} \<and> GetIncident ''acme'' (in_id x) m' = Inr x"
proof -
  obtain x m' w' where c: "SocCreateIncident memory_port ''acme'' ''bob'' promote_input (sample_store, sample_world) =
     (Inr (x, False), (m', w'))"
    using sample_promote by blast
  from SocCreateIncident_lineage [OF sample_store_wf c] c show ?thesis by (auto simp: promote_input_def)
qed

text \<open>Promotion is idempotent: after a promotion created an incident, promoting the same set of
  alerts again, in any order and with any repetitions, on a live context returns that incident,
  says it existed, and changes nothing.\<close>

theorem SocCreateIncident_idempotent:
  assumes "SocCreateIncident memory_port t actor input (m, w) = (Inr (x, False), (m', w'))" "live w'"
    and "ci_alert_ids again \<noteq> []" "set (ci_alert_ids again) - {[]} = set (ci_alert_ids input) - {[]}"
  shows "\<exists>w''. SocCreateIncident memory_port t actor' again (m', w') = (Inr (x, True), (m', w''))"
proof -
  have same: "uniqueSorted (ci_alert_ids again) = uniqueSorted (ci_alert_ids input)"
    by (rule sorted_distinct_set_unique) (simp_all add: assms(4))
  from assms(1) obtain as f title now inc_id tim_id e where
    x: "x = build_incident t actor input (uniqueSorted (ci_alert_ids input)) (foldl add_alert no_lineage as)
           title now inc_id tim_id" and
    m': "m' = m\<lparr>me_alerts := f, me_incidents := upd2 (me_incidents m) t (in_id x) x,
           me_incident_order := snoc (me_incident_order m) t (in_id x),
           me_audit := snoc (me_audit m) t e, me_heads := (me_heads m)(t := au_hash e)\<rparr>"
    by (rule SocCreateIncident_created)
  have ids: "in_alert_ids x = uniqueSorted (ci_alert_ids input)" by (simp add: x build_incident_def)
  have sel: "incident_selected incident_window y" for y
    by (simp add: incident_selected_def incident_window_def)
  obtain rest where "ListIncidents t incident_window m' = x # rest"
    by (simp add: ListIncidents_eq m' sel) (simp add: incident_window_def normalizedLimit_def)
  then have "find_incident (uniqueSorted (ci_alert_ids again)) (ListIncidents t incident_window m') = Some x"
    by (simp add: find_incident_def same ids)
  moreover have "repo_ListIncidents t incident_window (m', w') =
      (Inr (ListIncidents t incident_window m'), (m', snd (ctx_err w')))"
    using assms(2) by (simp add: repo_ListIncidents_def guarded_pure_live)
  ultimately show ?thesis
    using assms(3) by (simp add: SocCreateIncident_def Let_def op_bind_def op_return_def)
qed

theorem SocCreateIncident_idempotent_witness:
  "\<exists>x m' w' w''. SocCreateIncident memory_port ''acme'' ''bob'' promote_input (sample_store, sample_world) =
     (Inr (x, False), (m', w')) \<and>
     SocCreateIncident memory_port ''acme'' ''eve'' promote_input (m', w') = (Inr (x, True), (m', w''))"
proof -
  obtain x m' w' where c: "SocCreateIncident memory_port ''acme'' ''bob'' promote_input (sample_store, sample_world) =
     (Inr (x, False), (m', w'))" "live w'"
    using sample_promote by blast
  from SocCreateIncident_idempotent [OF c, of promote_input "''eve''"] c(1) show ?thesis
    by (auto simp: promote_input_def)
qed

definition blank_input :: "string \<Rightarrow> create_incident_input" where
  "blank_input title = \<lparr>ci_title = title, ci_summary = [], ci_assignee = [], ci_alert_ids = [[]], ci_request_id = []\<rparr>"

lemma blank_ids: "uniqueSorted (ci_alert_ids (blank_input title)) = []"
  by (simp add: blank_input_def uniqueSorted_def appendUnique_def)

text \<open>The guard against promoting no alerts looks at the list before blank identifiers are dropped:
  a request whose only identifier is blank and whose title is blank gets past it and the
  handler panics on the first of no alerts.\<close>

theorem SocCreateIncident_blank_id_panics:
  "fst (SocCreateIncident memory_port ''acme'' ''bob'' (blank_input []) (NewMemory, sample_world)) =
   Inl PanicIndexOutOfRange"
proof -
  have l: "repo_ListIncidents ''acme'' incident_window (NewMemory, sample_world) =
    (Inr [], (NewMemory, snd (ctx_err sample_world)))"
    by (simp add: repo_ListIncidents_def guarded_pure_live ListIncidents_eq) (simp add: NewMemory_def)
  have ti: "incident_title (blank_input []) no_lineage = Inl PanicIndexOutOfRange"
    by (simp add: incident_title_def blank_input_def no_lineage_def)
  show ?thesis
    using l ti by (simp add: SocCreateIncident_def promote_def blank_ids Let_def op_bind_def op_return_def
        op_fail_def op_now_simps find_incident_def) (simp add: blank_input_def op_fail_def)
qed

text \<open>With a title, the same request creates an incident that has no alerts at all.\<close>

theorem SocCreateIncident_without_alerts:
  "\<exists>x s'. SocCreateIncident memory_port ''acme'' ''bob'' (blank_input ''Beacon'') (NewMemory, sample_world) =
     (Inr (x, False), s') \<and> in_alert_ids x = [] \<and> GetIncident ''acme'' (in_id x) (fst s') = Inr x"
proof -
  have ti: "trim_space ''Beacon'' = ''Beacon''" by code_simp
  have "\<exists>x m' w'. SocCreateIncident memory_port ''acme'' ''bob'' (blank_input ''Beacon'') (NewMemory, sample_world) =
     (Inr (x, False), (m', w')) \<and> live w'"
    by (rule SocCreateIncident_live [OF live_sample mem_wf_New, of _ _ "[]" "''Beacon''"])
       (simp_all add: blank_ids, simp_all add: blank_input_def ListIncidents_eq NewMemory_def find_incident_def
         incident_title_def ti)
  then obtain x m' w' where c: "SocCreateIncident memory_port ''acme'' ''bob'' (blank_input ''Beacon'')
      (NewMemory, sample_world) = (Inr (x, False), (m', w'))" by blast
  then obtain as f title now inc_id tim_id e where
    x: "x = build_incident ''acme'' ''bob'' (blank_input ''Beacon'') (uniqueSorted (ci_alert_ids (blank_input ''Beacon'')))
          (foldl add_alert no_lineage as) title now inc_id tim_id" and
    m': "m' = NewMemory\<lparr>me_alerts := f, me_incidents := upd2 (me_incidents NewMemory) ''acme'' (in_id x) x,
           me_incident_order := snoc (me_incident_order NewMemory) ''acme'' (in_id x),
           me_audit := snoc (me_audit NewMemory) ''acme'' e, me_heads := (me_heads NewMemory)(''acme'' := au_hash e)\<rparr>"
    by (rule SocCreateIncident_created)
  have "in_alert_ids x = []" by (simp add: x build_incident_def blank_ids)
  moreover have "GetIncident ''acme'' (in_id x) m' = Inr x" by (simp add: m' GetIncident_def)
  ultimately show ?thesis using c by auto
qed

text \<open>An incident changes its status at most six times: a path along the allowed transitions never
  repeats a status and has at most six steps, and CLOSED is final.\<close>

theorem incident_lifecycle_terminates:
  assumes "incident_lifecycle.path s states"
  shows "length states \<le> 6 \<and> distinct (s # states) \<and> AllowedTransitions ''CLOSED'' = []"
  using incident_lifecycle.path_rank [OF assms] incident_lifecycle.path_distinct [OF assms] by simp

theorem incident_lifecycle_terminates_witness:
  "incident_lifecycle.path ''NEW'' [''TRIAGE'', ''INVESTIGATION'', ''CONTAINMENT'', ''ERADICATION'', ''RECOVERY'', ''CLOSED''] \<and>
   distinct [''NEW'', ''TRIAGE'', ''INVESTIGATION'', ''CONTAINMENT'', ''ERADICATION'', ''RECOVERY'', ''CLOSED'']"
  using incident_lifecycle_terminates [of "''NEW''" "[''TRIAGE'', ''INVESTIGATION'', ''CONTAINMENT'', ''ERADICATION'', ''RECOVERY'', ''CLOSED'']"]
  by simp

text \<open>The mutation and its audit record are two calls of the port, not one transaction: when the
  request is cancelled between them, the alert is changed for good, the caller gets an error, and
  the audit log says nothing.\<close>

theorem UpdateAlert_unaudited:
  "\<exists>m' w' b. UpdateAlert memory_port ''acme'' ''alt_1'' ''bob'' ''req'' close_patch
       (sample_store, sample_world\<lparr>ctx_done := (\<lambda>n. n = 1)\<rparr>) = (Inl ErrContext, (m', w')) \<and>
     GetAlert ''acme'' ''alt_1'' m' = Inr b \<and> al_status b = ''CLOSED'' \<and> me_audit m' ''acme'' = []"
proof -
  have c: "\<exists>c. al_status c = ''CLOSED'' \<and> (\<forall>w. alert_change now close_patch sample_alert w = (Inr c, w))" for now
    by (simp add: alert_change_def alert_status_change_def close_patch_def sample_close_upper Let_def
        sample_alert_def validAlertTransition_def)
  let ?w = "sample_world\<lparr>ctx_done := (\<lambda>n. n = 1)\<rparr>"
  obtain c where c: "al_status c = ''CLOSED''"
    "\<And>w. alert_change (fst (time_now ?w)) close_patch sample_alert w = (Inr c, w)"
    using c by blast
  have v: "\<not> (0 < ap_version close_patch \<and> al_version sample_alert \<noteq> ap_version close_patch)"
    by (simp add: close_patch_def sample_alert_def)
  show ?thesis
    using c v
    by (simp add: UpdateAlert_def op_bind_def op_now_simps repo_MutateAlert_def guarded_def MutateAlert_def
        repo_AppendAudit_def ctx_err_def case_prod_beta Let_def GetAlert_def)
       (auto simp: time_now_def sample_world_def)
qed

end
