(* ===== verification/Sigma_Match.thy ===== *)
theory Sigma_Match
  imports Core_Model
begin

text \<open>
  Matching of events against Sigma selections, \<^verbatim>\<open>internal/detection/compiler.go\<close>: the values of an
  event's field, the comparison of one value with one pattern, predicates, alternatives and
  selections. \<^verbatim>\<open>path.Match\<close>, which the sources use for wildcards, is \<open>path_match\<close>.
\<close>

subsection \<open>Values of a field\<close>

text \<open>A metadata map is a \<open>JObj\<close>; a nil map is \<open>JNull\<close>.\<close>

fun nested_path :: "json \<Rightarrow> string list \<Rightarrow> json option" where
  "nested_path v [] = Some v"
| "nested_path (JObj kvs) (seg # segs) =
     (case map_of kvs seg of None \<Rightarrow> None | Some v \<Rightarrow> nested_path v segs)"
| "nested_path _ (seg # segs) = None"

definition nestedValue :: "json \<Rightarrow> string \<Rightarrow> json" where
  "nestedValue metadata path =
    (if metadata = JNull \<or> path = [] then JNull
     else case nested_path metadata (split_char (CHR ''.'') path) of None \<Rightarrow> JNull | Some v \<Rightarrow> v)"

definition builtin_fields :: "canonical_event \<Rightarrow> (string \<times> json) list" where
  "builtin_fields event =
    [(''event_id'', JStr (ev_id event)), (''category'', JStr (ev_category event)),
     (''activity_name'', JStr (ev_activity event)), (''activity'', JStr (ev_activity event)),
     (''source.vendor'', JStr (src_vendor (ev_source event))),
     (''source.product'', JStr (src_product (ev_source event))),
     (''source.type'', JStr (src_type (ev_source event))),
     (''user.name'', JStr (user_name (ev_user event))),
     (''user.is_privileged'', JBool (is_privileged (ev_user event))),
     (''device.hostname'', JStr (device_hostname (ev_device event))),
     (''device.ip'', JStr (device_ip (ev_device event))),
     (''device.criticality'', JInt (device_criticality (ev_device event))),
     (''src_endpoint.ip'', JStr (endpoint_ip (ev_src event))),
     (''src_endpoint.port'', JInt (endpoint_port (ev_src event))),
     (''dst_endpoint.ip'', JStr (endpoint_ip (ev_dst event))),
     (''dst_endpoint.port'', JInt (endpoint_port (ev_dst event))),
     (''process.name'', JStr (process_name (ev_process event))),
     (''process.command_line'', JStr (process_command_line (ev_process event))),
     (''process.parent_name'', JStr (process_parent_name (ev_process event))),
     (''security_result.action'', JStr (sr_action (ev_result event))),
     (''security_result.outcome'', JStr (sr_outcome (ev_result event)))]"

definition field_value :: "canonical_event \<Rightarrow> string \<Rightarrow> json" where
  "field_value event field =
    (case map_of (builtin_fields event) (to_lower field) of
       Some v \<Rightarrow> v
     | None \<Rightarrow> nestedValue (ev_metadata event) (trim_prefix field ''metadata.''))"

text \<open>A value that is a list matches by its elements; an empty string and nil have no values.\<close>

fun value_strings :: "json \<Rightarrow> string list" where
  "value_strings JNull = []"
| "value_strings (JArr items) = map sprint items"
| "value_strings (JStr s) = (if s = [] then [] else [s])"
| "value_strings v = [sprint v]"

definition eventFieldValues :: "canonical_event \<Rightarrow> string \<Rightarrow> string list" where
  "eventFieldValues event field = value_strings (field_value event field)"

subsection \<open>Wildcards\<close>

definition slash :: char where "slash = CHR ''/''"

definition replace_char :: "char \<Rightarrow> char \<Rightarrow> string \<Rightarrow> string" where
  "replace_char a b s = map (\<lambda>c. if c = a then b else c) s"

text \<open>The rune at the head of a byte string; an invalid byte is a rune of its own.\<close>

definition rune_len :: "string \<Rightarrow> nat" where
  "rune_len s = max 1 (utf8_len (map of_char s))"

text \<open>One end of a range of a character class: a rune, or an escaped rune.\<close>

definition class_rune :: "string \<Rightarrow> (string \<times> string) option" where
  "class_rune p =
    (case p of
       [] \<Rightarrow> None
     | c # p' \<Rightarrow>
         if c = CHR ''-'' \<or> c = CHR '']'' then None
         else (let q = (if c = bslash then p' else p)
               in if utf8_len (map of_char q) = 0 then None
                  else Some (take (rune_len q) q, drop (rune_len q) q)))"

text \<open>
  The ranges of a class up to its closing bracket: whether the rune \<open>r\<close> is in one of them and the
  rest of the pattern, \<open>None\<close> where the class is malformed. Runes are compared as code points,
  which is the order of their encodings. Every range has at least one byte, so the length of
  the pattern is fuel enough.
\<close>

fun class_ranges :: "nat \<Rightarrow> string \<Rightarrow> string \<Rightarrow> bool \<Rightarrow> bool \<Rightarrow> (bool \<times> string) option" where
  "class_ranges 0 r p first found = None"
| "class_ranges (Suc n) r p first found =
     (if \<not> first \<and> p \<noteq> [] \<and> hd p = CHR '']'' then Some (found, tl p)
      else case class_rune p of
             None \<Rightarrow> None
           | Some (lo, p1) \<Rightarrow>
               if p1 \<noteq> [] \<and> hd p1 = CHR ''-'' then
                 (case class_rune (tl p1) of
                    None \<Rightarrow> None
                  | Some (hi, p2) \<Rightarrow> class_ranges n r p2 False (found \<or> (lo \<le> r \<and> r \<le> hi)))
               else class_ranges n r p1 False (found \<or> r = lo))"

definition class_match :: "string \<Rightarrow> string \<Rightarrow> (bool \<times> string) option" where
  "class_match r p =
    (let negated = (p \<noteq> [] \<and> hd p = CHR ''^'');
         q = (if negated then tl p else p)
     in case class_ranges (Suc (length q)) r q True False of
          None \<Rightarrow> None
        | Some (found, rest) \<Rightarrow> Some (found \<noteq> negated, rest))"

text \<open>\<open>n\<close> bounds the bytes of pattern and name together: every step consumes one of either.\<close>

fun path_match_fuel :: "nat \<Rightarrow> string \<Rightarrow> string \<Rightarrow> bool" where
  "path_match_fuel 0 p s = (p = [] \<and> s = [])"
| "path_match_fuel (Suc n) p s =
     (case p of
        [] \<Rightarrow> s = []
      | c # p' \<Rightarrow>
          if c = CHR ''*'' then
            path_match_fuel n p' s \<or>
            (case s of [] \<Rightarrow> False | d # s' \<Rightarrow> d \<noteq> slash \<and> path_match_fuel n p s')
          else if s = [] then False
          else if c = CHR ''?'' then hd s \<noteq> slash \<and> path_match_fuel n p' (drop (rune_len s) s)
          else if c = CHR ''['' then
            (case class_match (take (rune_len s) s) p' of
               None \<Rightarrow> False
             | Some (ok, p2) \<Rightarrow> ok \<and> path_match_fuel n p2 (drop (rune_len s) s))
          else if c = bslash then
            (case p' of [] \<Rightarrow> False | d # p2 \<Rightarrow> d = hd s \<and> path_match_fuel n p2 (tl s))
          else c = hd s \<and> path_match_fuel n p' (tl s))"

definition path_match :: "string \<Rightarrow> string \<Rightarrow> bool" where
  "path_match p s = path_match_fuel (length p + length s) p s"

definition matchValue :: "string \<Rightarrow> string \<Rightarrow> string \<Rightarrow> bool" where
  "matchValue actual expected modifier =
    (let a = to_lower actual; e = to_lower expected
     in if modifier = ''contains'' then contains a e
        else if modifier = ''startswith'' then has_prefix a e
        else if modifier = ''endswith'' then has_suffix a e
        else if CHR ''*'' \<in> set e \<or> CHR ''?'' \<in> set e
             then path_match (replace_char bslash slash e) (replace_char bslash slash a)
        else a = e)"

subsection \<open>Selections\<close>

record field_predicate =
  fp_field :: string
  fp_modifier :: string
  fp_all :: bool
  fp_values :: "string list"

type_synonym selection_alternative = "field_predicate list"
type_synonym compiled_selection = "selection_alternative list"

definition predicate_evaluate :: "field_predicate \<Rightarrow> canonical_event \<Rightarrow> bool" where
  "predicate_evaluate p event =
    (let actual = eventFieldValues event (fp_field p);
         matches = (\<lambda>expected. list_ex (\<lambda>a. matchValue a expected (fp_modifier p)) actual)
     in actual \<noteq> [] \<and>
        (if fp_all p then list_all matches (fp_values p) else list_ex matches (fp_values p)))"

fun selection_evaluate :: "compiled_selection \<Rightarrow> canonical_event \<Rightarrow> bool \<times> string list" where
  "selection_evaluate [] event = (False, [])"
| "selection_evaluate (alt # alts) event =
     (if list_all (\<lambda>p. predicate_evaluate p event) alt then (True, map fp_field alt)
      else selection_evaluate alts event)"

subsection \<open>Facts\<close>

lemma selection_evaluate_iff:
  "fst (selection_evaluate alts event) \<longleftrightarrow> (\<exists>alt \<in> set alts. \<forall>p \<in> set alt. predicate_evaluate p event)"
  by (induction alts) (auto simp: list_all_iff)

lemma selection_evaluate_fields:
  "set (snd (selection_evaluate alts event)) \<subseteq> (\<Union>alt \<in> set alts. fp_field ` set alt)"
  by (induction alts) auto

text \<open>A pattern of ordinary bytes matches exactly itself.\<close>

definition ordinary :: "string \<Rightarrow> bool" where
  "ordinary p \<longleftrightarrow> set p \<inter> {CHR ''*'', CHR ''?'', CHR ''['', bslash} = {}"

lemma path_match_ordinary:
  "ordinary p \<Longrightarrow> length p + length s \<le> n \<Longrightarrow> path_match_fuel n p s \<longleftrightarrow> p = s"
proof (induction n arbitrary: p s)
  case (Suc n)
  show ?case
  proof (cases p)
    case (Cons c p')
    with Suc.prems have o: "c \<noteq> CHR ''*''" "c \<noteq> CHR ''?''" "c \<noteq> CHR ''[''" "c \<noteq> bslash" "ordinary p'"
      by (auto simp: ordinary_def)
    show ?thesis
    proof (cases s)
      case (Cons d s')
      with Suc.prems Suc.IH [of p' s'] o \<open>p = c # p'\<close> show ?thesis by auto
    qed (simp add: Cons o)
  qed auto
qed auto

text \<open>A star followed by ordinary bytes matches the names that end in them and have no slash before.\<close>

lemma path_match_star_ordinary:
  "ordinary p \<Longrightarrow> Suc (length p) + length s \<le> n \<Longrightarrow>
     path_match_fuel n (CHR ''*'' # p) s \<longleftrightarrow> (\<exists>t. s = t @ p \<and> slash \<notin> set t)"
proof (induction n arbitrary: s)
  case (Suc n)
  have here: "path_match_fuel n p s \<longleftrightarrow> p = s"
    using Suc.prems by (intro path_match_ordinary) auto
  show ?case
  proof (cases s)
    case Nil
    with here show ?thesis by auto
  next
    case (Cons d s')
    have "path_match_fuel n (CHR ''*'' # p) s' \<longleftrightarrow> (\<exists>t. s' = t @ p \<and> slash \<notin> set t)"
      using Suc.prems Cons by (intro Suc.IH) auto
    with here Cons have "path_match_fuel (Suc n) (CHR ''*'' # p) s \<longleftrightarrow>
      p = d # s' \<or> (d \<noteq> slash \<and> (\<exists>t. s' = t @ p \<and> slash \<notin> set t))"
      by simp
    also have "\<dots> \<longleftrightarrow> (\<exists>t. s = t @ p \<and> slash \<notin> set t)"
    proof
      assume "p = d # s' \<or> (d \<noteq> slash \<and> (\<exists>t. s' = t @ p \<and> slash \<notin> set t))"
      then show "\<exists>t. s = t @ p \<and> slash \<notin> set t"
      proof (elim disjE conjE exE)
        assume "p = d # s'"
        then show ?thesis using Cons by (intro exI [of _ "[]"]) simp
      next
        fix t assume "d \<noteq> slash" "s' = t @ p" "slash \<notin> set t"
        then show ?thesis using Cons by (intro exI [of _ "d # t"]) simp
      qed
    next
      assume "\<exists>t. s = t @ p \<and> slash \<notin> set t"
      then obtain t where "s = t @ p" "slash \<notin> set t" by blast
      then show "p = d # s' \<or> (d \<noteq> slash \<and> (\<exists>t. s' = t @ p \<and> slash \<notin> set t))"
        using Cons by (cases t) auto
    qed
    finally show ?thesis .
  qed
qed simp

end
