(* ===== verification/Correlation.thy ===== *)
theory Correlation
  imports Sigma_Match "HOL-Library.Product_Lexorder"
begin

text \<open>
  Correlation of detections, \<^verbatim>\<open>internal/detection/correlation.go\<close> and the data of
  \<^verbatim>\<open>internal/core/detection_content.go\<close>: evaluation of a window of records against a specification,
  temporal matching, and the in-memory state store with its sliding window, deduplication of
  observations and edge-triggered emission.
\<close>

subsection \<open>Data\<close>

definition CorrelationEventCount :: string where "CorrelationEventCount = ''event_count''"
definition CorrelationValueCount :: string where "CorrelationValueCount = ''value_count''"
definition CorrelationTemporal :: string where "CorrelationTemporal = ''temporal''"
definition CorrelationTemporalOrdered :: string where "CorrelationTemporalOrdered = ''temporal_ordered''"

lemmas correlation_types = CorrelationEventCount_def CorrelationValueCount_def CorrelationTemporal_def
  CorrelationTemporalOrdered_def

record correlation_spec =
  cs_type :: string
  cs_rules :: "string list"
  cs_group_by :: "string list"
  cs_value_field :: string
  cs_timespan :: int
  cs_threshold :: int

record correlation_observation =
  co_tenant :: tenant
  co_rule :: string
  co_version :: string
  co_group :: string
  co_sources :: "string list"
  co_event :: string
  co_time :: time
  co_value :: string
  co_spec :: correlation_spec

record correlation_record =
  cr_source :: string
  cr_event :: string
  cr_time :: time
  cr_value :: string

record correlation_evaluation =
  ce_satisfied :: bool
  ce_triggered :: bool
  ce_count :: int
  ce_distinct :: int
  ce_events :: "string list"

definition no_evaluation :: correlation_evaluation where
  "no_evaluation = \<lparr>ce_satisfied = False, ce_triggered = False, ce_count = 0, ce_distinct = 0, ce_events = []\<rparr>"

subsection \<open>Grouping\<close>

fun group_parts :: "canonical_event \<Rightarrow> string list \<Rightarrow> json list option" where
  "group_parts event [] = Some []"
| "group_parts event (field # fs) =
     (let values = eventFieldValues event field
      in if values = [] then None
         else map_option (\<lambda>rest. JObj [(''field'', JStr field), (''values'', str_list (sort values))] # rest)
                (group_parts event fs))"

definition CorrelationGroup :: "canonical_event \<Rightarrow> string list \<Rightarrow> string option" where
  "CorrelationGroup event fs =
    (if fs = [] then Some ''global''
     else map_option (\<lambda>parts. marshal (JArr parts)) (group_parts event fs))"

definition unit_separator :: string where "unit_separator = [CHR 0x1F]"
definition record_separator :: string where "record_separator = [CHR 0x1E]"

definition CorrelationValue :: "canonical_event \<Rightarrow> string \<Rightarrow> string option" where
  "CorrelationValue event field =
    (let values = eventFieldValues event field
     in if values = [] then None else Some (join unit_separator (sort values)))"

subsection \<open>Evaluation of a window\<close>

definition uniqueEventIDs :: "correlation_record list \<Rightarrow> string list" where
  "uniqueEventIDs records = add_unseen [] (filter (\<lambda>i. i \<noteq> []) (map cr_event records))"

definition distinct_values :: "correlation_record list \<Rightarrow> string list" where
  "distinct_values records = add_unseen [] (filter (\<lambda>v. v \<noteq> []) (map cr_value records))"

definition boundedCorrelationIDs :: "string list \<Rightarrow> string list" where
  "boundedCorrelationIDs ids = take 1000 ids"

text \<open>The records of the specification's rules, by time, event and rule.\<close>

definition correlation_window :: "correlation_spec \<Rightarrow> correlation_record list \<Rightarrow> correlation_record list" where
  "correlation_window spec records =
    sort_key (\<lambda>r. (cr_time r, cr_event r, cr_source r)) (filter (\<lambda>r. cr_source r \<in> set (cs_rules spec)) records)"

text \<open>
  Unordered temporal matching assigns to each rule a record of its own event, by backtracking:
  \<open>first_some f xs\<close> is the loop that tries the records in order until one of them succeeds.
\<close>

fun first_some :: "('a \<Rightarrow> 'b option) \<Rightarrow> 'a list \<Rightarrow> 'b option" where
  "first_some f [] = None"
| "first_some f (x # xs) = (case f x of Some y \<Rightarrow> Some y | None \<Rightarrow> first_some f xs)"

fun assign :: "correlation_record list \<Rightarrow> string list \<Rightarrow> string list \<Rightarrow> string list option" where
  "assign records [] used = Some []"
| "assign records (rule # rules) used =
     first_some (\<lambda>r. if cr_source r \<noteq> rule \<or> cr_event r \<in> set used then None
                     else map_option ((#) (cr_event r)) (assign records rules (cr_event r # used)))
       records"

text \<open>Ordered matching takes for each rule the next record of an event not used yet.\<close>

fun next_match :: "string \<Rightarrow> string list \<Rightarrow> correlation_record list \<Rightarrow> (string \<times> correlation_record list) option" where
  "next_match rule used [] = None"
| "next_match rule used (r # rs) =
     (if cr_source r \<noteq> rule \<or> cr_event r \<in> set used then next_match rule used rs
      else Some (cr_event r, rs))"

fun match_in_order :: "correlation_record list \<Rightarrow> string list \<Rightarrow> string list \<Rightarrow> string list option" where
  "match_in_order records [] used = Some []"
| "match_in_order records (rule # rules) used =
     (case next_match rule used records of
        None \<Rightarrow> None
      | Some (i, rest) \<Rightarrow> map_option ((#) i) (match_in_order rest rules (i # used)))"

definition matchTemporal :: "string list \<Rightarrow> correlation_record list \<Rightarrow> bool \<Rightarrow> string list option" where
  "matchTemporal rules records ordered =
    (if ordered then match_in_order records rules [] else assign records rules [])"

definition temporal_evaluation :: "string list option \<Rightarrow> correlation_evaluation" where
  "temporal_evaluation m =
    (case m of
       None \<Rightarrow> no_evaluation
     | Some ids \<Rightarrow> no_evaluation\<lparr>ce_satisfied := True, ce_count := int (length ids), ce_events := ids\<rparr>)"

definition EvaluateCorrelation :: "correlation_spec \<Rightarrow> correlation_record list \<Rightarrow> correlation_evaluation" where
  "EvaluateCorrelation spec records =
    (let filtered = correlation_window spec records;
         ids = uniqueEventIDs filtered;
         vals = distinct_values filtered
     in if cs_type spec = CorrelationEventCount then
          \<lparr>ce_satisfied = (cs_threshold spec \<le> int (length ids)), ce_triggered = False,
           ce_count = int (length ids), ce_distinct = int (length vals), ce_events = boundedCorrelationIDs ids\<rparr>
        else if cs_type spec = CorrelationValueCount then
          \<lparr>ce_satisfied = (cs_threshold spec \<le> int (length vals)), ce_triggered = False,
           ce_count = int (length ids), ce_distinct = int (length vals), ce_events = boundedCorrelationIDs ids\<rparr>
        else if cs_type spec = CorrelationTemporal then
          temporal_evaluation (matchTemporal (cs_rules spec) filtered False)
        else if cs_type spec = CorrelationTemporalOrdered then
          temporal_evaluation (matchTemporal (cs_rules spec) filtered True)
        else no_evaluation)"

definition CorrelationFingerprint :: "correlation_observation \<Rightarrow> correlation_evaluation \<Rightarrow> string" where
  "CorrelationFingerprint input evaluation =
    sha256_hex (marshal (JStruct
      [(''tenant'', JStr (co_tenant input)), (''rule'', JStr (co_rule input)),
       (''version'', JStr (co_version input)), (''group'', JStr (co_group input)),
       (''trigger'', JStr (co_event input)), (''events'', nil_list (sort (ce_events evaluation)))]))"

subsection \<open>The state store\<close>

record correlation_state =
  mc_records :: "string \<Rightarrow> correlation_record list"
  mc_emissions :: "string \<Rightarrow> bool"
  mc_observation :: "string \<Rightarrow> bool"

definition NewMemoryCorrelationStore :: correlation_state where
  "NewMemoryCorrelationStore = \<lparr>mc_records = (\<lambda>_. []), mc_emissions = (\<lambda>_. False), mc_observation = (\<lambda>_. False)\<rparr>"

definition correlation_key :: "correlation_observation \<Rightarrow> string" where
  "correlation_key input =
    join record_separator [co_tenant input, co_rule input, co_version input, co_group input]"

definition uniqueStrings :: "string list \<Rightarrow> string list" where
  "uniqueStrings values = sort (add_unseen [] (filter (\<lambda>v. v \<noteq> []) (map trim_space values)))"

definition validateCorrelationObservation :: "correlation_observation \<Rightarrow> unit result" where
  "validateCorrelationObservation input =
    (if trim_space (co_tenant input) = [] \<or> trim_space (co_rule input) = [] \<or>
        trim_space (co_version input) = [] \<or> trim_space (co_group input) = [] \<or>
        trim_space (co_event input) = [] \<or> is_zero (co_time input) \<or> co_sources input = []
     then Inl ErrInvalidCorrelationObservation
     else if cs_timespan (co_spec input) \<le> 0 \<or> 24 * hour div go_second < cs_timespan (co_spec input)
     then Inl ErrInvalidCorrelationObservation
     else Inr ())"

definition new_record :: "correlation_observation \<Rightarrow> string \<Rightarrow> correlation_record" where
  "new_record input source =
    \<lparr>cr_source = source, cr_event = co_event input, cr_time = co_time input, cr_value = co_value input\<rparr>"

definition observation_key :: "correlation_observation \<Rightarrow> string \<Rightarrow> string" where
  "observation_key input source =
    correlation_key input @ record_separator @ source @ record_separator @ co_event input"

text \<open>The records of the sources not observed yet, and the marks left for them.\<close>

fun fresh_records ::
  "correlation_observation \<Rightarrow> string list \<Rightarrow> (string \<Rightarrow> bool) \<Rightarrow> correlation_record list \<times> (string \<Rightarrow> bool)" where
  "fresh_records input [] seen = ([], seen)"
| "fresh_records input (source # sources) seen =
     (let key = observation_key input source
      in if seen key then fresh_records input sources seen
         else (let (rs, seen') = fresh_records input sources (seen(key := True))
               in (new_record input source # rs, seen')))"

definition window_span :: "correlation_observation \<Rightarrow> duration" where
  "window_span input = cs_timespan (co_spec input) * go_second"

definition in_window :: "correlation_observation \<Rightarrow> correlation_record \<Rightarrow> bool" where
  "in_window input r \<longleftrightarrow> \<not> cr_time r < co_time input - window_span input \<and> \<not> co_time input < cr_time r"

definition retained :: "correlation_observation \<Rightarrow> correlation_record \<Rightarrow> bool" where
  "retained input r \<longleftrightarrow> \<not> cr_time r < co_time input - 2 * window_span input"

definition observe :: "correlation_observation \<Rightarrow> correlation_state \<Rightarrow> correlation_evaluation \<times> correlation_state" where
  "observe input s =
    (let key = correlation_key input;
         (news, seen) = fresh_records input (uniqueStrings (co_sources input)) (mc_observation s);
         s1 = s\<lparr>mc_observation := seen\<rparr>
     in if news = [] then (no_evaluation, s1)
        else (let old = mc_records s key;
                  window = filter (in_window input) old;
                  before = EvaluateCorrelation (co_spec input) window;
                  s2 = s1\<lparr>mc_records := (mc_records s)(key := filter (retained input) old @ news)\<rparr>;
                  now = EvaluateCorrelation (co_spec input) (window @ news);
                  fingerprint = CorrelationFingerprint input now
              in if ce_satisfied before \<or> \<not> ce_satisfied now then (now, s2)
                 else if mc_emissions s2 fingerprint then (now, s2)
                 else (now\<lparr>ce_triggered := True\<rparr>, s2\<lparr>mc_emissions := (mc_emissions s2)(fingerprint := True)\<rparr>)))"

definition ObserveCorrelation ::
  "correlation_observation \<Rightarrow> (correlation_state, correlation_evaluation) op" where
  "ObserveCorrelation input sw =
    (let (cancelled, w) = ctx_err (snd sw)
     in if cancelled then (Inl ErrContext, (fst sw, w))
        else case validateCorrelationObservation input of
               Inl e \<Rightarrow> (Inl e, (fst sw, w))
             | Inr _ \<Rightarrow> (let (ev, s) = observe input (fst sw) in (Inr ev, (s, w))))"

definition correlation_ResetTenant :: "tenant \<Rightarrow> correlation_state \<Rightarrow> correlation_state" where
  "correlation_ResetTenant t s =
    \<lparr>mc_records = (\<lambda>key. if has_prefix key (t @ record_separator) then [] else mc_records s key),
     mc_emissions = (\<lambda>_. False),
     mc_observation = (\<lambda>key. \<not> has_prefix key (t @ record_separator) \<and> mc_observation s key)\<rparr>"

section \<open>Facts\<close>

subsection \<open>Counting\<close>

lemma set_uniqueEventIDs: "set (uniqueEventIDs rs) = cr_event ` set rs - {[]}"
  by (auto simp: uniqueEventIDs_def)

lemma distinct_uniqueEventIDs [simp]: "distinct (uniqueEventIDs rs)"
  by (simp add: uniqueEventIDs_def)

lemma set_distinct_values: "set (distinct_values rs) = cr_value ` set rs - {[]}"
  by (auto simp: distinct_values_def)

lemma distinct_distinct_values [simp]: "distinct (distinct_values rs)"
  by (simp add: distinct_values_def)

lemma set_correlation_window: "set (correlation_window spec rs) = {r \<in> set rs. cr_source r \<in> set (cs_rules spec)}"
  by (auto simp: correlation_window_def)

text \<open>The counts as cardinalities: what a count correlation counts.\<close>

definition correlated_events :: "correlation_spec \<Rightarrow> correlation_record list \<Rightarrow> string set" where
  "correlated_events spec rs = set (map cr_event (filter (\<lambda>r. cr_source r \<in> set (cs_rules spec)) rs)) - {[]}"

definition correlated_values :: "correlation_spec \<Rightarrow> correlation_record list \<Rightarrow> string set" where
  "correlated_values spec rs = set (map cr_value (filter (\<lambda>r. cr_source r \<in> set (cs_rules spec)) rs)) - {[]}"

lemma length_uniqueEventIDs: "length (uniqueEventIDs (correlation_window spec rs)) = card (correlated_events spec rs)"
  by (simp add: distinct_card [symmetric] set_uniqueEventIDs set_correlation_window correlated_events_def)

lemma length_distinct_values: "length (distinct_values (correlation_window spec rs)) = card (correlated_values spec rs)"
  by (simp add: distinct_card [symmetric] set_distinct_values set_correlation_window correlated_values_def)

subsection \<open>Temporal matching\<close>

lemma first_some_Some: "first_some f xs = Some y \<Longrightarrow> \<exists>x \<in> set xs. f x = Some y"
  by (induction xs) (auto split: option.splits)

lemma first_some_None: "first_some f xs = None \<longleftrightarrow> (\<forall>x \<in> set xs. f x = None)"
  by (induction xs) (auto split: option.splits)

text \<open>\<open>represents rules records used ids\<close>: \<open>ids\<close> are distinct events outside \<open>used\<close>, one per rule, each
  with a record of its rule.\<close>

definition represents :: "string list \<Rightarrow> correlation_record list \<Rightarrow> string list \<Rightarrow> string list \<Rightarrow> bool" where
  "represents rules records used ids \<longleftrightarrow>
     distinct ids \<and> set ids \<inter> set used = {} \<and>
     list_all2 (\<lambda>rule i. \<exists>r \<in> set records. cr_source r = rule \<and> cr_event r = i) rules ids"

lemma represents_Nil [simp]: "represents [] records used ids \<longleftrightarrow> ids = []"
  by (auto simp: represents_def)

lemma represents_Cons:
  "represents (rule # rules) records used ids \<longleftrightarrow>
     (\<exists>i is. ids = i # is \<and> i \<notin> set used \<and> (\<exists>r \<in> set records. cr_source r = rule \<and> cr_event r = i) \<and>
             represents rules records (i # used) is)"
  by (auto simp: represents_def list_all2_Cons1)

lemma assign_sound: "assign records rules used = Some ids \<Longrightarrow> represents rules records used ids"
proof (induction records rules used arbitrary: ids rule: assign.induct)
  case (2 records rule rules used)
  from first_some_Some [OF 2(2) [unfolded assign.simps]] obtain r where
    r: "r \<in> set records" "cr_source r = rule" "cr_event r \<notin> set used"
    and m: "map_option ((#) (cr_event r)) (assign records rules (cr_event r # used)) = Some ids"
    by (auto split: if_splits)
  from m obtain "is" where "assign records rules (cr_event r # used) = Some is" "ids = cr_event r # is" by auto
  with 2(1) [of r] r show ?case by (auto simp: represents_Cons)
qed simp

lemma assign_complete: "represents rules records used ids \<Longrightarrow> assign records rules used \<noteq> None"
proof (induction records rules used arbitrary: ids rule: assign.induct)
  case (2 records rule rules used)
  from 2(2) obtain i "is" r where "ids = i # is" "i \<notin> set used" "r \<in> set records" "cr_source r = rule" "cr_event r = i"
    "represents rules records (i # used) is" by (auto simp: represents_Cons)
  with 2(1) [of r "is"] have "assign records rules (i # used) \<noteq> None" by auto
  with \<open>r \<in> set records\<close> \<open>cr_source r = rule\<close> \<open>cr_event r = i\<close> \<open>i \<notin> set used\<close> show ?case
    by (auto simp: first_some_None intro!: bexI [of _ r])
qed simp

lemma represents_mono: "represents rules records used ids \<Longrightarrow> set records \<subseteq> set records' \<Longrightarrow> represents rules records' used ids"
  by (auto simp: represents_def elim!: list_all2_mono)

text \<open>Ordered matches are found at increasing positions of the records.\<close>

fun ordered_match :: "correlation_record list \<Rightarrow> string list \<Rightarrow> string list \<Rightarrow> string list \<Rightarrow> bool" where
  "ordered_match records [] used ids = (ids = [])"
| "ordered_match records (rule # rules) used [] = False"
| "ordered_match records (rule # rules) used (i # is) =
     (\<exists>pre r rest. records = pre @ r # rest \<and> cr_source r = rule \<and> cr_event r = i \<and> i \<notin> set used \<and>
                   ordered_match rest rules (i # used) is)"

lemma next_match_Some:
  "next_match rule used rs = Some (i, rest) \<Longrightarrow>
     \<exists>pre r. rs = pre @ r # rest \<and> cr_source r = rule \<and> cr_event r = i \<and> i \<notin> set used \<and>
             (\<forall>x \<in> set pre. cr_source x \<noteq> rule \<or> cr_event x \<in> set used)"
proof (induction rule used rs rule: next_match.induct)
  case (2 rule used r rs)
  show ?case
  proof (cases "cr_source r \<noteq> rule \<or> cr_event r \<in> set used")
    case True
    with 2 obtain pre x where "rs = pre @ x # rest" "cr_source x = rule" "cr_event x = i" "i \<notin> set used"
      "\<forall>y \<in> set pre. cr_source y \<noteq> rule \<or> cr_event y \<in> set used" by auto
    with True show ?thesis by (intro exI [of _ "r # pre"] exI [of _ x]) auto
  next
    case False
    with 2(2) show ?thesis by (intro exI [of _ "[]"] exI [of _ r]) auto
  qed
qed simp

lemma match_in_order_sound:
  "match_in_order records rules used = Some ids \<Longrightarrow> ordered_match records rules used ids"
proof (induction records rules used arbitrary: ids rule: match_in_order.induct)
  case (2 records rule rules used)
  from 2(2) obtain i rest "is" where n: "next_match rule used records = Some (i, rest)"
    and m: "match_in_order rest rules (i # used) = Some is" "ids = i # is"
    by (auto split: option.splits)
  from next_match_Some [OF n] 2(1) [OF n refl m(1)] m(2) show ?case by auto
qed simp

lemma ordered_match_distinct:
  "ordered_match records rules used ids \<Longrightarrow> distinct ids \<and> set ids \<inter> set used = {} \<and> length ids = length rules"
  by (induction records rules used ids rule: ordered_match.induct) auto

subsection \<open>Observing\<close>

lemma fresh_records_empty:
  "fst (fresh_records input sources seen) = [] \<longleftrightarrow> (\<forall>source \<in> set sources. seen (observation_key input source))"
  by (induction input sources seen rule: fresh_records.induct) (auto simp: Let_def case_prod_beta)

lemma fresh_records_none:
  "\<forall>source \<in> set sources. seen (observation_key input source) \<Longrightarrow> fresh_records input sources seen = ([], seen)"
  by (induction input sources seen rule: fresh_records.induct) (auto simp: Let_def)

lemma fresh_records_keep: "seen k \<Longrightarrow> snd (fresh_records input sources seen) k"
  by (induction input sources seen rule: fresh_records.induct) (auto simp: Let_def case_prod_beta)

lemma fresh_records_marks:
  "source \<in> set sources \<Longrightarrow> snd (fresh_records input sources seen) (observation_key input source)"
proof (induction input sources seen rule: fresh_records.induct)
  case (2 input x sources seen)
  note IH = this
  show ?case
  proof (cases "seen (observation_key input x)")
    case True
    with IH fresh_records_keep [of seen "observation_key input x" input sources] show ?thesis by (auto simp: Let_def)
  next
    case False
    with IH fresh_records_keep [of "seen(observation_key input x := True)" "observation_key input x" input sources]
    show ?thesis by (auto simp: Let_def case_prod_beta simp del: fun_upd_apply) simp
  qed
qed simp

lemma fresh_records_new: "r \<in> set (fst (fresh_records input sources seen)) \<Longrightarrow> cr_time r = co_time input \<and> cr_event r = co_event input"
  by (induction input sources seen rule: fresh_records.induct)
     (auto simp: Let_def case_prod_beta new_record_def split: if_splits)

text \<open>After an observation all its sources are marked, whatever came of it.\<close>

lemma observe_marks:
  "mc_observation (snd (observe input s)) = snd (fresh_records input (uniqueStrings (co_sources input)) (mc_observation s))"
  by (simp add: observe_def Let_def case_prod_beta)

lemma observe_again:
  "observe input (snd (observe input s)) = (no_evaluation, snd (observe input s))"
proof -
  let ?s = "snd (observe input s)"
  have "fresh_records input (uniqueStrings (co_sources input)) (mc_observation ?s) = ([], mc_observation ?s)"
    by (rule fresh_records_none) (simp add: observe_marks fresh_records_marks)
  then show ?thesis by (simp add: observe_def [of input ?s])
qed

lemma EvaluateCorrelation_not_triggered [simp]: "\<not> ce_triggered (EvaluateCorrelation spec rs)"
  by (simp add: EvaluateCorrelation_def temporal_evaluation_def no_evaluation_def Let_def split: option.split)

text \<open>What a trigger means: the window crossed from unsatisfied to satisfied with this observation.\<close>

lemma observe_triggered:
  assumes "observe input s = (ev, s')" "ce_triggered ev"
  shows "\<exists>news. news \<noteq> [] \<and>
    news = fst (fresh_records input (uniqueStrings (co_sources input)) (mc_observation s)) \<and>
    \<not> ce_satisfied (EvaluateCorrelation (co_spec input) (filter (in_window input) (mc_records s (correlation_key input)))) \<and>
    ce_satisfied (EvaluateCorrelation (co_spec input) (filter (in_window input) (mc_records s (correlation_key input)) @ news)) \<and>
    ev = (EvaluateCorrelation (co_spec input) (filter (in_window input) (mc_records s (correlation_key input)) @ news))\<lparr>ce_triggered := True\<rparr> \<and>
    \<not> mc_emissions s (CorrelationFingerprint input ev) \<and> mc_emissions s' (CorrelationFingerprint input ev)"
  using assms
  by (auto simp: observe_def Let_def case_prod_beta no_evaluation_def CorrelationFingerprint_def split: if_splits)

lemma observe_emissions_grow: "mc_emissions s k \<Longrightarrow> mc_emissions (snd (observe input s)) k"
  by (simp add: observe_def Let_def case_prod_beta)

lemma observe_other_key:
  "key \<noteq> correlation_key input \<Longrightarrow> mc_records (snd (observe input s)) key = mc_records s key"
  by (simp add: observe_def Let_def case_prod_beta)

lemma observe_retained:
  assumes "r \<in> set (mc_records (snd (observe input s)) (correlation_key input))" "r \<notin> set (mc_records s (correlation_key input))"
  shows "cr_time r = co_time input \<and> cr_event r = co_event input"
  using assms fresh_records_new
  by (auto simp: observe_def Let_def case_prod_beta split: if_splits)

lemma observe_expires:
  assumes "fst (fresh_records input (uniqueStrings (co_sources input)) (mc_observation s)) \<noteq> []"
    and "r \<in> set (mc_records (snd (observe input s)) (correlation_key input))" "0 \<le> window_span input"
  shows "co_time input - 2 * window_span input \<le> cr_time r"
  using assms fresh_records_new
  by (auto simp: observe_def Let_def case_prod_beta retained_def split: if_splits)

end
