(* ===== verification/Correlation_Properties.thy ===== *)
theory Correlation_Properties
  imports Correlation
begin

text \<open>
  The properties of event correlation: what each kind of correlation decides, in terms of sets
  and of systems of distinct representatives, and when the state store emits.
\<close>

definition two_rules :: "string \<Rightarrow> correlation_spec" where
  "two_rules kind = \<lparr>cs_type = kind, cs_rules = [''A'', ''B''], cs_group_by = [], cs_value_field = [],
     cs_timespan = 300, cs_threshold = 2\<rparr>"

definition sample_record :: "string \<Rightarrow> string \<Rightarrow> time \<Rightarrow> correlation_record" where
  "sample_record rule event t = \<lparr>cr_source = rule, cr_event = event, cr_time = t, cr_value = []\<rparr>"

section \<open>Properties\<close>

text \<open>C30. An event_count or value_count correlation is satisfied exactly when the number of distinct
  events, or of distinct values, among the window's records of its rules reaches the threshold;
  the reported counts are those cardinalities, and the evidence is at most 1000 of the events.\<close>

theorem count_correlation_exact:
  assumes "cs_type spec = CorrelationEventCount \<or> cs_type spec = CorrelationValueCount"
  shows "let ev = EvaluateCorrelation spec rs; events = correlated_events spec rs; vals = correlated_values spec rs
    in (ce_satisfied ev \<longleftrightarrow>
          cs_threshold spec \<le> int (card (if cs_type spec = CorrelationEventCount then events else vals))) \<and>
       ce_count ev = int (card events) \<and> ce_distinct ev = int (card vals) \<and>
       set (ce_events ev) \<subseteq> events \<and> length (ce_events ev) = min 1000 (card events)"
proof -
  have d: "CorrelationEventCount \<noteq> CorrelationValueCount" by (simp add: correlation_types)
  have "set (boundedCorrelationIDs (uniqueEventIDs (correlation_window spec rs))) \<subseteq> correlated_events spec rs"
    by (auto simp: boundedCorrelationIDs_def set_uniqueEventIDs set_correlation_window correlated_events_def
        dest!: in_set_takeD)
  then show ?thesis
    using assms d
    by (auto simp: EvaluateCorrelation_def Let_def length_uniqueEventIDs length_distinct_values
        boundedCorrelationIDs_def min.commute)
qed

theorem count_correlation_exact_witness:
  "ce_satisfied (EvaluateCorrelation (two_rules CorrelationEventCount) [sample_record ''A'' ''e1'' 5, sample_record ''B'' ''e2'' 9]) \<and>
   \<not> ce_satisfied (EvaluateCorrelation (two_rules CorrelationEventCount) [sample_record ''A'' ''e1'' 5, sample_record ''B'' ''e1'' 5])"
proof -
  have "correlated_events (two_rules CorrelationEventCount) [sample_record ''A'' ''e1'' 5, sample_record ''B'' ''e2'' 9] = {''e1'', ''e2''}"
    "correlated_events (two_rules CorrelationEventCount) [sample_record ''A'' ''e1'' 5, sample_record ''B'' ''e1'' 5] = {''e1''}"
    by (auto simp: correlated_events_def sample_record_def two_rules_def)
  then show ?thesis
    using count_correlation_exact [of "two_rules CorrelationEventCount"] by (simp add: two_rules_def Let_def)
qed

text \<open>C31. A temporal correlation is satisfied exactly when its rules have a system of distinct
  representatives: events, one per rule and all different, each with a record of its rule in
  the window. The backtracking search misses none, and the evidence it returns is one.\<close>

theorem temporal_correlation_exact:
  assumes "cs_type spec = CorrelationTemporal"
  shows "(ce_satisfied (EvaluateCorrelation spec rs) \<longleftrightarrow> (\<exists>ids. represents (cs_rules spec) rs [] ids)) \<and>
         (ce_satisfied (EvaluateCorrelation spec rs) \<longrightarrow>
            represents (cs_rules spec) rs [] (ce_events (EvaluateCorrelation spec rs)))"
proof -
  let ?w = "correlation_window spec rs"
  have d: "CorrelationTemporal \<noteq> CorrelationValueCount" "CorrelationTemporal \<noteq> CorrelationEventCount"
    by (simp_all add: correlation_types)
  have ev: "EvaluateCorrelation spec rs = temporal_evaluation (assign ?w (cs_rules spec) [])"
    using assms d by (simp add: EvaluateCorrelation_def matchTemporal_def)
  have w: "represents (cs_rules spec) ?w [] ids \<longleftrightarrow> represents (cs_rules spec) rs [] ids" for ids
    unfolding represents_def list_all2_conv_all_nth set_correlation_window
    by (auto intro: nth_mem) (metis (mono_tags, lifting) nth_mem)
  show ?thesis
  proof (cases "assign ?w (cs_rules spec) []")
    case None
    with assign_complete [of "cs_rules spec" ?w "[]"] w show ?thesis
      by (auto simp: ev temporal_evaluation_def no_evaluation_def)
  next
    case (Some ids)
    with assign_sound [OF Some] w show ?thesis by (auto simp: ev temporal_evaluation_def)
  qed
qed

theorem temporal_correlation_exact_witness:
  "ce_satisfied (EvaluateCorrelation (two_rules CorrelationTemporal)
     [sample_record ''A'' ''e1'' 5, sample_record ''B'' ''e1'' 5, sample_record ''A'' ''e2'' 9])"
proof -
  have t: "cs_type (two_rules CorrelationTemporal) = CorrelationTemporal" by (simp add: two_rules_def)
  have "represents (cs_rules (two_rules CorrelationTemporal))
     [sample_record ''A'' ''e1'' 5, sample_record ''B'' ''e1'' 5, sample_record ''A'' ''e2'' 9] [] [''e2'', ''e1'']"
    by (simp add: represents_def two_rules_def sample_record_def)
  with temporal_correlation_exact [OF t] show ?thesis by blast
qed

text \<open>A satisfied temporal_ordered correlation has its evidence in order: one distinct event per
  rule, each found after the one before in the window sorted by time, event and rule.\<close>

theorem ordered_correlation_sound:
  assumes "cs_type spec = CorrelationTemporalOrdered" "ce_satisfied (EvaluateCorrelation spec rs)"
  shows "ordered_match (correlation_window spec rs) (cs_rules spec) [] (ce_events (EvaluateCorrelation spec rs)) \<and>
         distinct (ce_events (EvaluateCorrelation spec rs)) \<and>
         length (ce_events (EvaluateCorrelation spec rs)) = length (cs_rules spec) \<and>
         sorted (map cr_time (correlation_window spec rs))"
proof -
  let ?w = "correlation_window spec rs"
  have d: "CorrelationTemporalOrdered \<noteq> CorrelationValueCount" "CorrelationTemporalOrdered \<noteq> CorrelationEventCount"
    "CorrelationTemporalOrdered \<noteq> CorrelationTemporal"
    by (simp_all add: correlation_types)
  have ev: "EvaluateCorrelation spec rs = temporal_evaluation (match_in_order ?w (cs_rules spec) [])"
    using assms(1) d by (simp add: EvaluateCorrelation_def matchTemporal_def)
  obtain ids where m: "match_in_order ?w (cs_rules spec) [] = Some ids"
    using assms(2) by (cases "match_in_order ?w (cs_rules spec) []")
      (auto simp: ev temporal_evaluation_def no_evaluation_def)
  have "sorted (map (\<lambda>r. (cr_time r, cr_event r, cr_source r)) ?w)" by (simp add: correlation_window_def)
  then have "sorted (map cr_time ?w)"
    unfolding sorted_map by (rule sorted_wrt_mono_rel [rotated]) (auto simp: less_eq_prod_def)
  with m match_in_order_sound [OF m] ordered_match_distinct [OF match_in_order_sound [OF m]] show ?thesis
    by (simp add: ev temporal_evaluation_def)
qed

theorem ordered_correlation_sound_witness:
  "distinct (ce_events (EvaluateCorrelation (two_rules CorrelationTemporalOrdered)
     [sample_record ''A'' ''e1'' 5, sample_record ''B'' ''e2'' 9]))"
proof -
  have t: "cs_type (two_rules CorrelationTemporalOrdered) = CorrelationTemporalOrdered" by (simp add: two_rules_def)
  have "ce_satisfied (EvaluateCorrelation (two_rules CorrelationTemporalOrdered)
     [sample_record ''A'' ''e1'' 5, sample_record ''B'' ''e2'' 9])"
    by (simp add: EvaluateCorrelation_def matchTemporal_def correlation_window_def two_rules_def
        sample_record_def correlation_types temporal_evaluation_def Let_def)
  with ordered_correlation_sound [OF t] show ?thesis by blast
qed

text \<open>More evidence never unsatisfies an unordered correlation: if a window satisfies a count or
  temporal correlation, every window with at least the same records does.\<close>

theorem correlation_monotone:
  assumes "cs_type spec \<noteq> CorrelationTemporalOrdered" "set rs \<subseteq> set rs'" "ce_satisfied (EvaluateCorrelation spec rs)"
  shows "ce_satisfied (EvaluateCorrelation spec rs')"
proof -
  have c: "card (correlated_events spec rs) \<le> card (correlated_events spec rs')"
    "card (correlated_values spec rs) \<le> card (correlated_values spec rs')"
    using assms(2) by (auto intro!: card_mono simp: correlated_events_def correlated_values_def)
  have w: "set (correlation_window spec rs) \<subseteq> set (correlation_window spec rs')"
    using assms(2) by (auto simp: set_correlation_window)
  have a: "assign (correlation_window spec rs) (cs_rules spec) [] \<noteq> None \<Longrightarrow>
           assign (correlation_window spec rs') (cs_rules spec) [] \<noteq> None"
    using assign_sound assign_complete represents_mono [OF _ w] by blast
  show ?thesis
    using assms(1,3) c a
    by (auto simp: EvaluateCorrelation_def Let_def matchTemporal_def temporal_evaluation_def no_evaluation_def
        length_uniqueEventIDs length_distinct_values split: if_splits option.splits)
qed

theorem correlation_monotone_witness:
  "ce_satisfied (EvaluateCorrelation (two_rules CorrelationTemporal)
     [sample_record ''A'' ''e1'' 5, sample_record ''B'' ''e2'' 7, sample_record ''B'' ''e3'' 9])"
proof (rule correlation_monotone [of _ "[sample_record ''A'' ''e1'' 5, sample_record ''B'' ''e2'' 7]"])
  show "ce_satisfied (EvaluateCorrelation (two_rules CorrelationTemporal)
      [sample_record ''A'' ''e1'' 5, sample_record ''B'' ''e2'' 7])"
    by (simp add: EvaluateCorrelation_def matchTemporal_def correlation_window_def two_rules_def
        sample_record_def correlation_types temporal_evaluation_def Let_def)
qed (auto simp: two_rules_def correlation_types)

fun observe_all :: "correlation_observation list \<Rightarrow> correlation_state \<Rightarrow> correlation_state" where
  "observe_all [] s = s"
| "observe_all (x # xs) s = observe_all xs (snd (observe x s))"

lemma observe_all_emissions: "mc_emissions s k \<Longrightarrow> mc_emissions (observe_all xs s) k"
  by (induction xs s rule: observe_all.induct) (simp_all add: observe_emissions_grow)

text \<open>Emission is edge-triggered and happens once: a triggered observation turned a window that did
  not satisfy the correlation into one that does, its fingerprint had not been emitted before, and
  no later observation can emit the same fingerprint.\<close>

theorem correlation_emits_once:
  assumes "observe input s = (ev, s')" "ce_triggered ev"
  shows "ce_satisfied ev \<and>
    \<not> ce_satisfied (EvaluateCorrelation (co_spec input) (filter (in_window input) (mc_records s (correlation_key input)))) \<and>
    (\<forall>later again ev' s''. observe again (observe_all later s') = (ev', s'') \<and> ce_triggered ev' \<longrightarrow>
       CorrelationFingerprint again ev' \<noteq> CorrelationFingerprint input ev)"
proof -
  from observe_triggered [OF assms] have t: "ce_satisfied ev"
    "\<not> ce_satisfied (EvaluateCorrelation (co_spec input) (filter (in_window input) (mc_records s (correlation_key input))))"
    "mc_emissions s' (CorrelationFingerprint input ev)" by auto
  have "CorrelationFingerprint again ev' \<noteq> CorrelationFingerprint input ev"
    if "observe again (observe_all later s') = (ev', s'')" "ce_triggered ev'" for later again ev' s''
    using observe_triggered [OF that] observe_all_emissions [OF t(3), of later] by metis
  with t show ?thesis by blast
qed

definition sample_observation :: "string \<Rightarrow> time \<Rightarrow> correlation_observation" where
  "sample_observation event t = \<lparr>co_tenant = ''acme'', co_rule = ''R'', co_version = ''1'', co_group = ''global'',
     co_sources = [''A''], co_event = event, co_time = t, co_value = [],
     co_spec = \<lparr>cs_type = CorrelationEventCount, cs_rules = [''A''], cs_group_by = [], cs_value_field = [],
                cs_timespan = 300, cs_threshold = 2\<rparr>\<rparr>"

lemma trim_A: "trim_space ''A'' = ''A''"
  by code_simp

lemma sample_sources: "uniqueStrings (co_sources (sample_observation e t)) = [''A'']"
  by (simp add: uniqueStrings_def sample_observation_def trim_A)

lemma sample_key_inj: "observation_key (sample_observation e t) ''A'' = observation_key (sample_observation e' t') ''A'' \<longleftrightarrow> e = e'"
  by (simp add: observation_key_def correlation_key_def sample_observation_def)

lemma sample_key: "correlation_key (sample_observation e t) = correlation_key (sample_observation ''e1'' 0)"
  by (simp add: correlation_key_def sample_observation_def)

lemma observe_first:
  "observe (sample_observation e t) NewMemoryCorrelationStore =
     (EvaluateCorrelation (co_spec (sample_observation e t)) [new_record (sample_observation e t) ''A''],
      NewMemoryCorrelationStore
        \<lparr>mc_observation := (\<lambda>_. False)(observation_key (sample_observation e t) ''A'' := True),
         mc_records := (\<lambda>_. [])(correlation_key (sample_observation ''e1'' 0) := [new_record (sample_observation e t) ''A''])\<rparr>)"
proof -
  have "\<not> ce_satisfied (EvaluateCorrelation (co_spec (sample_observation e t)) [new_record (sample_observation e t) ''A''])"
    by (simp add: EvaluateCorrelation_def sample_observation_def new_record_def correlation_window_def
        uniqueEventIDs_def Let_def)
  then show ?thesis
    by (simp add: observe_def sample_sources sample_key [of e t] NewMemoryCorrelationStore_def Let_def)
qed

text \<open>The second event of two, five seconds after or before the first.\<close>

lemma observe_second:
  assumes "e \<noteq> ''e1''" "e \<noteq> []"
  shows "ce_triggered (fst (observe (sample_observation e t)
      (snd (observe (sample_observation ''e1'' t1) NewMemoryCorrelationStore)))) \<longleftrightarrow>
    t1 \<le> t \<and> t - 300 * go_second \<le> t1"
proof -
  let ?o = "sample_observation e t"
  let ?old = "[new_record (sample_observation ''e1'' t1) ''A'']"
  let ?spec = "co_spec ?o"
  define s0 where "s0 = snd (observe (sample_observation ''e1'' t1) NewMemoryCorrelationStore)"
  have s0: "s0 = NewMemoryCorrelationStore
        \<lparr>mc_observation := (\<lambda>_. False)(observation_key (sample_observation ''e1'' t1) ''A'' := True),
         mc_records := (\<lambda>_. [])(correlation_key (sample_observation ''e1'' 0) := ?old)\<rparr>"
    by (simp only: s0_def observe_first snd_conv)
  have s: "mc_records s0 (correlation_key ?o) = ?old" "\<not> mc_observation s0 (observation_key ?o ''A'')"
    "\<not> mc_emissions s0 k" for k
    using assms by (auto simp: s0 sample_key [of e t] sample_key_inj NewMemoryCorrelationStore_def)
  have one: "\<not> ce_satisfied (EvaluateCorrelation ?spec [new_record x ''A''])" for x
    by (simp add: EvaluateCorrelation_def sample_observation_def new_record_def correlation_window_def
        uniqueEventIDs_def Let_def)
  have none: "\<not> ce_satisfied (EvaluateCorrelation ?spec [])"
    by (simp add: EvaluateCorrelation_def sample_observation_def correlation_window_def uniqueEventIDs_def Let_def)
  have "card (correlated_events ?spec (?old @ [new_record ?o ''A''])) = 2"
  proof -
    have "correlated_events ?spec (?old @ [new_record ?o ''A'']) = {''e1'', e}"
      using assms(2) by (auto simp: correlated_events_def sample_observation_def new_record_def)
    with assms(1) show ?thesis by simp
  qed
  then have two: "ce_satisfied (EvaluateCorrelation ?spec (?old @ [new_record ?o ''A'']))"
    by (simp add: EvaluateCorrelation_def length_uniqueEventIDs Let_def sample_observation_def)
  have win: "in_window ?o (new_record (sample_observation ''e1'' t1) ''A'') \<longleftrightarrow> t1 \<le> t \<and> t - 300 * go_second \<le> t1"
    by (auto simp: in_window_def window_span_def sample_observation_def new_record_def)
  show ?thesis
    unfolding s0_def [symmetric] using s one none two
    by (auto simp: observe_def [of ?o] sample_sources Let_def win)
qed

theorem correlation_emits_once_witness:
  "let s = snd (observe (sample_observation ''e1'' 10) NewMemoryCorrelationStore)
   in ce_triggered (fst (observe (sample_observation ''e2'' 15) s)) \<and> ce_satisfied (fst (observe (sample_observation ''e2'' 15) s))"
proof -
  let ?s = "snd (observe (sample_observation ''e1'' 10) NewMemoryCorrelationStore)"
  have t: "ce_triggered (fst (observe (sample_observation ''e2'' 15) ?s))"
    by (simp add: observe_second duration_defs)
  from correlation_emits_once [OF surjective_pairing t] t show ?thesis by simp
qed

text \<open>Whether a burst is detected depends on the order of arrival: two matching events five seconds
  apart reach a threshold of two when they arrive in the order they happened, and never when the
  later one arrives first, because the window of an observation ends at its own event's time.\<close>

theorem correlation_misses_late_events:
  "ce_triggered (fst (observe (sample_observation ''e2'' (5 * go_second))
      (snd (observe (sample_observation ''e1'' 0) NewMemoryCorrelationStore)))) \<and>
   \<not> ce_triggered (fst (observe (sample_observation ''e2'' 0)
      (snd (observe (sample_observation ''e1'' (5 * go_second)) NewMemoryCorrelationStore))))"
  by (simp add: observe_second go_second_def)

text \<open>Observing is idempotent: repeating an observation on the state it left reports nothing and
  changes nothing.\<close>

theorem observe_idempotent:
  "observe input (snd (observe input s)) = (no_evaluation, snd (observe input s))"
  by (rule observe_again)

text \<open>The state of a correlation is bounded by its window: after an observation that was new, every
  record kept under its key is less than two windows older than the observed event, and no
  other correlation, group or tenant has changed.\<close>

theorem correlation_state_bounded:
  assumes "validateCorrelationObservation input = Inr ()"
    and "fst (fresh_records input (uniqueStrings (co_sources input)) (mc_observation s)) \<noteq> []"
  shows "(\<forall>r \<in> set (mc_records (snd (observe input s)) (correlation_key input)).
            co_time input - 2 * window_span input \<le> cr_time r) \<and>
         (\<forall>key. key \<noteq> correlation_key input \<longrightarrow> mc_records (snd (observe input s)) key = mc_records s key)"
proof -
  have "0 \<le> window_span input"
    using assms(1) by (auto simp: validateCorrelationObservation_def window_span_def go_second_def split: if_splits)
  with observe_expires [OF assms(2)] observe_other_key show ?thesis by blast
qed

theorem correlation_state_bounded_witness:
  "filter (\<lambda>r. cr_time r < 10 - 600 * go_second)
     (mc_records (snd (observe (sample_observation ''e1'' 10) NewMemoryCorrelationStore))
       (correlation_key (sample_observation ''e1'' 10))) = []"
proof -
  have "trim_space ''acme'' = ''acme''" "trim_space ''R'' = ''R''" "trim_space ''1'' = ''1''"
    "trim_space ''global'' = ''global''" "trim_space ''e1'' = ''e1''"
    by (code_simp)+
  then have v: "validateCorrelationObservation (sample_observation ''e1'' 10) = Inr ()"
    by (simp add: validateCorrelationObservation_def sample_observation_def is_zero_def duration_defs)
  have f: "fst (fresh_records (sample_observation ''e1'' 10) (uniqueStrings (co_sources (sample_observation ''e1'' 10)))
      (mc_observation NewMemoryCorrelationStore)) \<noteq> []"
    by (simp add: sample_sources NewMemoryCorrelationStore_def)
  have "window_span (sample_observation ''e1'' 10) = 300 * go_second" "co_time (sample_observation ''e1'' 10) = 10"
    by (simp_all add: window_span_def sample_observation_def)
  with correlation_state_bounded [OF v f] show ?thesis by (auto simp: filter_empty_conv)
qed

end
