(* ===== verification/Sigma_Condition.thy ===== *)
theory Sigma_Condition
  imports Sigma_Match
begin

text \<open>
  The condition language of Sigma rules, \<^verbatim>\<open>internal/detection/compiler.go\<close>: the syntax tree and its
  evaluation, the tokenizer, the recursive-descent parser and the expansion of quantifiers. The
  parser is written with fuel, one unit per call; four units per token and three more always
  suffice, and printing a tree and parsing it back gives the tree.
\<close>

subsection \<open>Syntax trees\<close>

datatype condition_node =
    SelectionNode string
  | NotNode condition_node
  | AndNode condition_node condition_node
  | OrNode condition_node condition_node

fun node_evaluate :: "(string \<Rightarrow> bool) \<Rightarrow> condition_node \<Rightarrow> bool" where
  "node_evaluate vals (SelectionNode s) = vals s"
| "node_evaluate vals (NotNode c) = (\<not> node_evaluate vals c)"
| "node_evaluate vals (AndNode l r) = (node_evaluate vals l \<and> node_evaluate vals r)"
| "node_evaluate vals (OrNode l r) = (node_evaluate vals l \<or> node_evaluate vals r)"

fun node_names :: "condition_node \<Rightarrow> string set" where
  "node_names (SelectionNode s) = {s}"
| "node_names (NotNode c) = node_names c"
| "node_names (AndNode l r) = node_names l \<union> node_names r"
| "node_names (OrNode l r) = node_names l \<union> node_names r"

subsection \<open>Tokens\<close>

text \<open>\<^verbatim>\<open>strings.Fields\<close>: the maximal runs without a space.\<close>

fun go_fields_fuel :: "nat \<Rightarrow> string \<Rightarrow> string \<Rightarrow> string list" where
  "go_fields_fuel 0 cur s = (if cur = [] then [] else [cur])"
| "go_fields_fuel (Suc n) cur s =
     (if s = [] then (if cur = [] then [] else [cur])
      else case filter (has_prefix s) space_runes of
             p # _ \<Rightarrow> (if cur = [] then [] else [cur]) @ go_fields_fuel n [] (drop (length p) s)
           | [] \<Rightarrow> go_fields_fuel n (cur @ [hd s]) (tl s))"

definition go_fields :: "string \<Rightarrow> string list" where
  "go_fields s = go_fields_fuel (length s) [] s"

definition space_parens :: "string \<Rightarrow> string" where
  "space_parens s = concat (map (\<lambda>c. if c = CHR ''('' then '' ( '' else if c = CHR '')'' then '' ) '' else [c]) s)"

definition tokenizeCondition :: "string \<Rightarrow> string list" where
  "tokenizeCondition s = go_fields (space_parens s)"

subsection \<open>The parser\<close>

definition peek :: "string \<Rightarrow> string list \<Rightarrow> bool" where
  "peek word ts = (case ts of [] \<Rightarrow> False | t # _ \<Rightarrow> equal_fold t word)"

text \<open>\<open>None\<close> is an exhausted fuel; an error of the parser is \<open>Some (Inl e)\<close>.\<close>

type_synonym parsed = "(condition_node \<times> string list) result option"

definition then_parse :: "parsed \<Rightarrow> (condition_node \<Rightarrow> string list \<Rightarrow> parsed) \<Rightarrow> parsed" where
  "then_parse r f =
    (case r of None \<Rightarrow> None | Some (Inl e) \<Rightarrow> Some (Inl e) | Some (Inr (node, ts)) \<Rightarrow> f node ts)"

lemma then_parse_simps [simp]:
  "then_parse None f = None" "then_parse (Some (Inl e)) f = Some (Inl e)"
  "then_parse (Some (Inr (node, ts))) f = f node ts"
  by (simp_all add: then_parse_def)

definition syntax_error :: parsed where
  "syntax_error = Some (Inl ErrInvalidRule)"

datatype grammar_symbol =
    ParseOr | OrLoop condition_node | ParseAnd | AndLoop condition_node | ParseUnary

text \<open>
  The methods \<^verbatim>\<open>parseOr\<close>, \<^verbatim>\<open>parseAnd\<close> and \<^verbatim>\<open>parseUnary\<close> of the parser, with the loops of the first two
  as nonterminals of their own, which carry the tree built so far.
\<close>

fun parse :: "(string \<Rightarrow> bool) \<Rightarrow> nat \<Rightarrow> grammar_symbol \<Rightarrow> string list \<Rightarrow> parsed" where
  "parse known 0 nt ts = None"
| "parse known (Suc n) ParseOr ts =
     then_parse (parse known n ParseAnd ts) (\<lambda>left ts'. parse known n (OrLoop left) ts')"
| "parse known (Suc n) (OrLoop left) ts =
     (if peek ''or'' ts
      then then_parse (parse known n ParseAnd (tl ts)) (\<lambda>right ts'. parse known n (OrLoop (OrNode left right)) ts')
      else Some (Inr (left, ts)))"
| "parse known (Suc n) ParseAnd ts =
     then_parse (parse known n ParseUnary ts) (\<lambda>left ts'. parse known n (AndLoop left) ts')"
| "parse known (Suc n) (AndLoop left) ts =
     (if peek ''and'' ts
      then then_parse (parse known n ParseUnary (tl ts)) (\<lambda>right ts'. parse known n (AndLoop (AndNode left right)) ts')
      else Some (Inr (left, ts)))"
| "parse known (Suc n) ParseUnary ts =
     (if peek ''not'' ts then
        then_parse (parse known n ParseUnary (tl ts)) (\<lambda>child ts'. Some (Inr (NotNode child, ts')))
      else if peek ''('' ts then
        then_parse (parse known n ParseOr (tl ts))
          (\<lambda>node ts'. if peek '')'' ts' then Some (Inr (node, tl ts')) else syntax_error)
      else case ts of
             [] \<Rightarrow> syntax_error
           | name # ts' \<Rightarrow> if known name then Some (Inr (SelectionNode name, ts')) else syntax_error)"

definition parse_fuel :: "string list \<Rightarrow> nat" where
  "parse_fuel ts = 4 * length ts + 3"

definition parse_tokens :: "(string \<Rightarrow> bool) \<Rightarrow> string list \<Rightarrow> condition_node result" where
  "parse_tokens known ts =
    (if ts = [] then Inl ErrInvalidRule
     else case parse known (parse_fuel ts) ParseOr ts of
            None \<Rightarrow> Inl (ErrStorage ''out of fuel'')
          | Some (Inl e) \<Rightarrow> Inl e
          | Some (Inr (node, rest)) \<Rightarrow> if rest \<noteq> [] then Inl ErrInvalidRule else Inr node)"

definition parseCondition :: "(string \<Rightarrow> bool) \<Rightarrow> string \<Rightarrow> condition_node result" where
  "parseCondition known input = parse_tokens known (tokenizeCondition input)"

subsection \<open>Quantifiers\<close>

definition word_char :: "char \<Rightarrow> bool" where
  "word_char c \<longleftrightarrow> (let n = of_char c :: nat in
     (48 \<le> n \<and> n \<le> 57) \<or> (65 \<le> n \<and> n \<le> 90) \<or> (97 \<le> n \<and> n \<le> 122) \<or> n = 95)"

text \<open>
  The target class \<^verbatim>\<open>[a-zA-Z0-9_.*-]\<close> under case folding, which adds the long s and the Kelvin
  sign to the letters: the number of bytes of the class's rune at the head, 0 where there is none.
\<close>

definition target_rune :: "string \<Rightarrow> nat" where
  "target_rune s =
    (if s = [] then 0
     else if word_char (hd s) \<or> hd s = CHR ''.'' \<or> hd s = CHR ''*'' \<or> hd s = CHR ''-'' then 1
     else if has_prefix s [CHR 0xC5, CHR 0xBF] then 2
     else if has_prefix s [CHR 0xE2, CHR 0x84, CHR 0xAA] then 3
     else 0)"

fun take_target :: "nat \<Rightarrow> string \<Rightarrow> string" where
  "take_target 0 s = []"
| "take_target (Suc n) s =
     (let k = target_rune s in if k = 0 then [] else take k s @ take_target n (drop k s))"

definition regex_space :: "char \<Rightarrow> bool" where
  "regex_space c \<longleftrightarrow> c \<in> {CHR 0x09, CHR 0x0A, CHR 0x0C, CHR 0x0D, CHR '' ''}"

text \<open>\<^verbatim>\<open>\s+\<close>: the rest after at least one space.\<close>

definition skip_spaces :: "string \<Rightarrow> string option" where
  "skip_spaces s = (if s \<noteq> [] \<and> regex_space (hd s) then Some (dropWhile regex_space s) else None)"

definition fold_prefix :: "string \<Rightarrow> string \<Rightarrow> bool" where
  "fold_prefix s word \<longleftrightarrow> map lower_byte (take (length word) s) = word"

definition quantifier_target :: "string \<Rightarrow> string" where
  "quantifier_target s = (if fold_prefix s ''them'' then take 4 s else take_target (length s) s)"

text \<open>
  \<^verbatim>\<open>(?i)\b(1|all)\s+of\s+(them|[a-zA-Z0-9_.*-]+)\<close> at the head of a string, after the word boundary:
  whether all selections are asked for, the target and the rest of the string.
\<close>

definition quantifier_at :: "string \<Rightarrow> (bool \<times> string \<times> string) option" where
  "quantifier_at s =
    (let is_all = fold_prefix s ''all'';
         head = (if is_all then 3 else if fold_prefix s ''1'' then 1 else 0 :: nat)
     in if head = 0 then None
        else case skip_spaces (drop head s) of
               None \<Rightarrow> None
             | Some s1 \<Rightarrow>
                 if \<not> fold_prefix s1 ''of'' then None
                 else case skip_spaces (drop 2 s1) of
                        None \<Rightarrow> None
                      | Some s2 \<Rightarrow>
                          (let target = quantifier_target s2
                           in if target = [] then None else Some (is_all, target, drop (length target) s2)))"

definition quantified :: "string list \<Rightarrow> string \<Rightarrow> string list" where
  "quantified names target =
    (if equal_fold target ''them'' then names
     else filter (\<lambda>name. path_match (to_lower target) (to_lower name)) names)"

definition quantifier_text :: "bool \<Rightarrow> string list \<Rightarrow> string" where
  "quantifier_text is_all selected =
    ''('' @ join (if is_all then '' and '' else '' or '') selected @ '')''"

text \<open>
  The replacement of every match from left to right; \<open>prev\<close> says whether the byte before is a word
  character. A quantifier without selections is an error of the whole expansion. Every step
  drops at least one byte, so the length is fuel enough.
\<close>

fun expand_fuel :: "nat \<Rightarrow> string list \<Rightarrow> bool \<Rightarrow> string \<Rightarrow> string result" where
  "expand_fuel 0 names prev s = Inr s"
| "expand_fuel (Suc n) names prev s =
     (if s = [] then Inr []
      else case (if prev then None else quantifier_at s) of
             Some (is_all, target, rest) \<Rightarrow>
               (let selected = quantified names target
                in if selected = [] then Inl ErrInvalidRule
                   else bind_ok (expand_fuel n names (word_char (last target)) rest)
                          (\<lambda>r. Inr (quantifier_text is_all selected @ r)))
           | None \<Rightarrow> bind_ok (expand_fuel n names (word_char (hd s)) (tl s)) (\<lambda>r. Inr (hd s # r)))"

definition expandQuantifiers :: "string \<Rightarrow> string list \<Rightarrow> string result" where
  "expandQuantifiers condition names = expand_fuel (length condition) (sort names) False condition"

section \<open>Facts about the parser\<close>

subsection \<open>Fuel\<close>

text \<open>Every symbol but the loops consumes a token, and no symbol gives tokens back.\<close>

definition consumes :: "grammar_symbol \<Rightarrow> nat" where
  "consumes nt = (case nt of OrLoop _ \<Rightarrow> 0 | AndLoop _ \<Rightarrow> 0 | _ \<Rightarrow> 1)"

lemma consumes_simps [simp]:
  "consumes ParseOr = 1" "consumes ParseAnd = 1" "consumes ParseUnary = 1"
  "consumes (OrLoop c) = 0" "consumes (AndLoop c) = 0"
  by (simp_all add: consumes_def)

lemma then_parse_Inr:
  "then_parse r f = Some (Inr x) \<longleftrightarrow> (\<exists>node ts. r = Some (Inr (node, ts)) \<and> f node ts = Some (Inr x))"
  by (auto simp: then_parse_def split: option.splits sum.splits)

lemma then_parse_None:
  "then_parse r f = None \<longleftrightarrow> r = None \<or> (\<exists>node ts. r = Some (Inr (node, ts)) \<and> f node ts = None)"
  by (auto simp: then_parse_def split: option.splits sum.splits)

lemma then_parse_total:
  "r \<noteq> None \<Longrightarrow> (\<And>node ts. r = Some (Inr (node, ts)) \<Longrightarrow> f node ts \<noteq> None) \<Longrightarrow> then_parse r f \<noteq> None"
  by (auto simp only: then_parse_None)

lemma peek_nonempty: "peek w ts \<Longrightarrow> ts \<noteq> []"
  by (cases ts) (simp_all add: peek_def)

lemma length_tl_peek: "peek w ts \<Longrightarrow> Suc (length (tl ts)) = length ts"
  by (cases ts) (simp_all add: peek_def)

lemma parse_consumes: "parse known n nt ts = Some (Inr (node, rest)) \<Longrightarrow> length rest + consumes nt \<le> length ts"
proof (induction known n nt ts arbitrary: node rest rule: parse.induct)
  case (2 known n ts)
  from 2(3) obtain l ts' where l: "parse known n ParseAnd ts = Some (Inr (l, ts'))"
    and r: "parse known n (OrLoop l) ts' = Some (Inr (node, rest))" by (auto simp: then_parse_Inr)
  from 2(1) [OF l] 2(2) [OF r] show ?case by simp
next
  case (3 known n left ts)
  show ?case
  proof (cases "peek ''or'' ts")
    case True
    with 3(3) obtain l ts' where l: "parse known n ParseAnd (tl ts) = Some (Inr (l, ts'))"
      and r: "parse known n (OrLoop (OrNode left l)) ts' = Some (Inr (node, rest))" by (auto simp: then_parse_Inr)
    from 3(1) [OF True l] 3(2) [OF True r] show ?thesis by simp
  qed (use 3(3) in simp)
next
  case (4 known n ts)
  from 4(3) obtain l ts' where l: "parse known n ParseUnary ts = Some (Inr (l, ts'))"
    and r: "parse known n (AndLoop l) ts' = Some (Inr (node, rest))" by (auto simp: then_parse_Inr)
  from 4(1) [OF l] 4(2) [OF r] show ?case by simp
next
  case (5 known n left ts)
  show ?case
  proof (cases "peek ''and'' ts")
    case True
    with 5(3) obtain l ts' where l: "parse known n ParseUnary (tl ts) = Some (Inr (l, ts'))"
      and r: "parse known n (AndLoop (AndNode left l)) ts' = Some (Inr (node, rest))" by (auto simp: then_parse_Inr)
    from 5(1) [OF True l] 5(2) [OF True r] show ?thesis by simp
  qed (use 5(3) in simp)
next
  case (6 known n ts)
  show ?case
  proof (cases "peek ''not'' ts")
    case True
    with 6(3) obtain l where l: "parse known n ParseUnary (tl ts) = Some (Inr (l, rest))"
      by (auto simp: then_parse_Inr)
    from 6(1) [OF True l] length_tl_peek [OF True] show ?thesis by simp
  next
    case nt: False
    show ?thesis
    proof (cases "peek ''('' ts")
      case True
      with 6(3) nt obtain l ts' where l: "parse known n ParseOr (tl ts) = Some (Inr (l, ts'))"
        and r: "peek '')'' ts'" "rest = tl ts'"
        by (auto simp: then_parse_Inr syntax_error_def split: if_splits)
      from 6(2) [OF nt True l] r length_tl_peek [OF True] show ?thesis by simp
    next
      case False
      with 6(3) nt show ?thesis by (auto simp: syntax_error_def split: list.splits if_splits)
    qed
  qed
qed simp

definition fuel_needed :: "grammar_symbol \<Rightarrow> nat \<Rightarrow> nat" where
  "fuel_needed nt len =
    (case nt of ParseOr \<Rightarrow> 4 * len + 3 | ParseAnd \<Rightarrow> 4 * len + 2 | _ \<Rightarrow> 4 * len + 1)"

lemma fuel_needed_simps [simp]:
  "fuel_needed ParseOr k = 4 * k + 3" "fuel_needed ParseAnd k = 4 * k + 2" "fuel_needed ParseUnary k = 4 * k + 1"
  "fuel_needed (OrLoop c) k = 4 * k + 1" "fuel_needed (AndLoop c) k = 4 * k + 1"
  by (simp_all add: fuel_needed_def)

lemma parse_total: "fuel_needed nt (length ts) \<le> n \<Longrightarrow> parse known n nt ts \<noteq> None"
proof (induction known n nt ts rule: parse.induct)
  case (1 known nt ts)
  then show ?case by (cases nt) simp_all
next
  case (2 known n ts)
  have "parse known n ParseAnd ts \<noteq> None" using 2 by simp
  moreover have "parse known n (OrLoop l) ts' \<noteq> None" if "parse known n ParseAnd ts = Some (Inr (l, ts'))" for l ts'
    using parse_consumes [OF that] 2 by simp
  ultimately show ?case by (auto simp: then_parse_None)
next
  case (3 known n left ts)
  show ?case
  proof (cases "peek ''or'' ts")
    case True
    have "parse known n ParseAnd (tl ts) \<noteq> None" using 3 True length_tl_peek [OF True] by simp
    moreover have "parse known n (OrLoop (OrNode left l)) ts' \<noteq> None"
      if "parse known n ParseAnd (tl ts) = Some (Inr (l, ts'))" for l ts'
      using parse_consumes [OF that] 3 True length_tl_peek [OF True] by simp
    ultimately show ?thesis using True by (auto simp: then_parse_None)
  qed simp
next
  case (4 known n ts)
  have "parse known n ParseUnary ts \<noteq> None" using 4 by simp
  moreover have "parse known n (AndLoop l) ts' \<noteq> None" if "parse known n ParseUnary ts = Some (Inr (l, ts'))" for l ts'
    using parse_consumes [OF that] 4 by simp
  ultimately show ?case by (auto simp: then_parse_None)
next
  case (5 known n left ts)
  show ?case
  proof (cases "peek ''and'' ts")
    case True
    have "parse known n ParseUnary (tl ts) \<noteq> None" using 5 True length_tl_peek [OF True] by simp
    moreover have "parse known n (AndLoop (AndNode left l)) ts' \<noteq> None"
      if "parse known n ParseUnary (tl ts) = Some (Inr (l, ts'))" for l ts'
      using parse_consumes [OF that] 5 True length_tl_peek [OF True] by simp
    ultimately show ?thesis using True by (auto simp: then_parse_None)
  qed simp
next
  case (6 known n ts)
  have u: "parse known n ParseUnary (tl ts) \<noteq> None" if "peek ''not'' ts"
    using 6(1) [OF that] 6(3) length_tl_peek [OF that] by simp
  have o: "parse known n ParseOr (tl ts) \<noteq> None" if "\<not> peek ''not'' ts" "peek ''('' ts"
    using 6(2) [OF that] 6(3) length_tl_peek [OF that(2)] by simp
  show ?case
  proof (cases "peek ''not'' ts")
    case True
    with u have "then_parse (parse known n ParseUnary (tl ts)) (\<lambda>child ts'. Some (Inr (NotNode child, ts'))) \<noteq> None"
      by (intro then_parse_total) simp_all
    with True show ?thesis by simp
  next
    case nt: False
    show ?thesis
    proof (cases "peek ''('' ts")
      case True
      with o nt have "then_parse (parse known n ParseOr (tl ts))
          (\<lambda>node ts'. if peek '')'' ts' then Some (Inr (node, tl ts')) else syntax_error) \<noteq> None"
        by (intro then_parse_total) (simp_all add: syntax_error_def)
      with True nt show ?thesis by simp
    next
      case False
      with nt show ?thesis by (simp add: syntax_error_def split: list.split)
    qed
  qed
qed

text \<open>More fuel changes no answer.\<close>

lemma then_parse_mono:
  "then_parse r f = Some x \<Longrightarrow> (\<And>y. r = Some y \<Longrightarrow> r' = Some y) \<Longrightarrow>
   (\<And>node ts y. f node ts = Some y \<Longrightarrow> f' node ts = Some y) \<Longrightarrow> then_parse r' f' = Some x"
  by (cases r) (auto simp: then_parse_def split: sum.splits prod.splits)

lemma parse_mono: "parse known n nt ts = Some x \<Longrightarrow> n \<le> k \<Longrightarrow> parse known k nt ts = Some x"
proof (induction n arbitrary: k nt ts x)
  case (Suc n)
  from Suc.prems(2) obtain k' where k: "k = Suc k'" "n \<le> k'" by (cases k) auto
  have IH: "parse known n nt ts = Some y \<Longrightarrow> parse known k' nt ts = Some y" for nt ts y
    using Suc.IH k(2) by blast
  have seq: "then_parse (parse known n nt1 ts1) f = Some y \<Longrightarrow>
      (\<And>node ts y. f node ts = Some y \<Longrightarrow> f' node ts = Some y) \<Longrightarrow>
      then_parse (parse known k' nt1 ts1) f' = Some y" for nt1 ts1 f f' y
    by (erule then_parse_mono) (auto intro: IH)
  show ?case
  proof (cases nt)
    case ParseOr
    with Suc.prems(1) k(1) show ?thesis by simp (erule seq, erule IH)
  next
    case (OrLoop left)
    show ?thesis
    proof (cases "peek ''or'' ts")
      case True
      with OrLoop Suc.prems(1) k(1) show ?thesis by simp (erule seq, erule IH)
    qed (use OrLoop Suc.prems(1) k(1) in simp)
  next
    case ParseAnd
    with Suc.prems(1) k(1) show ?thesis by simp (erule seq, erule IH)
  next
    case (AndLoop left)
    show ?thesis
    proof (cases "peek ''and'' ts")
      case True
      with AndLoop Suc.prems(1) k(1) show ?thesis by simp (erule seq, erule IH)
    qed (use AndLoop Suc.prems(1) k(1) in simp)
  next
    case ParseUnary
    show ?thesis
    proof (cases "peek ''not'' ts")
      case True
      with ParseUnary Suc.prems(1) k(1) show ?thesis by simp (erule seq)
    next
      case nt: False
      show ?thesis
      proof (cases "peek ''('' ts")
        case True
        with nt ParseUnary Suc.prems(1) k(1) show ?thesis by simp (erule seq)
      qed (use nt ParseUnary Suc.prems(1) k(1) in simp)
    qed
  qed
qed simp

subsection \<open>Printing and parsing\<close>

definition parens :: "bool \<Rightarrow> string list \<Rightarrow> string list" where
  "parens b ts = (if b then ''('' # ts @ ['')''] else ts)"

text \<open>The tokens of a tree in a context: 0 for a disjunction, 1 for a conjunction, 2 for an operand.\<close>

fun print_node :: "nat \<Rightarrow> condition_node \<Rightarrow> string list" where
  "print_node k (SelectionNode s) = [s]"
| "print_node k (NotNode c) = ''not'' # print_node 2 c"
| "print_node k (AndNode l r) = parens (1 < k) (print_node 1 l @ ''and'' # print_node 2 r)"
| "print_node k (OrNode l r) = parens (0 < k) (print_node 0 l @ ''or'' # print_node 1 r)"

definition keyword :: "string \<Rightarrow> bool" where
  "keyword s \<longleftrightarrow> list_ex (equal_fold s) [''or'', ''and'', ''not'', ''('', '')'']"

definition good_names :: "(string \<Rightarrow> bool) \<Rightarrow> condition_node \<Rightarrow> bool" where
  "good_names known c \<longleftrightarrow> (\<forall>s \<in> node_names c. known s \<and> \<not> keyword s)"

lemma good_names_simps [simp]:
  "good_names known (SelectionNode s) \<longleftrightarrow> known s \<and> \<not> keyword s"
  "good_names known (NotNode c) \<longleftrightarrow> good_names known c"
  "good_names known (AndNode l r) \<longleftrightarrow> good_names known l \<and> good_names known r"
  "good_names known (OrNode l r) \<longleftrightarrow> good_names known l \<and> good_names known r"
  by (auto simp: good_names_def)

text \<open>\<open>settles f v\<close>: with enough fuel \<open>f\<close> answers \<open>v\<close>.\<close>

definition settles :: "(nat \<Rightarrow> 'a) \<Rightarrow> 'a \<Rightarrow> bool" where
  "settles f v \<longleftrightarrow> (\<exists>n0. \<forall>n \<ge> n0. f n = v)"

lemma settles_Suc: "(\<And>n. n0 \<le> n \<Longrightarrow> f (Suc n) = v) \<Longrightarrow> settles f v"
  unfolding settles_def by (metis Suc_le_D Suc_le_mono)

lemma settles_step:
  assumes "settles f v" "settles g w" "\<And>n. f n = v \<Longrightarrow> g n = w \<Longrightarrow> h (Suc n) = u"
  shows "settles h u"
proof -
  from assms(1,2) obtain n1 n2 where "\<forall>n \<ge> n1. f n = v" "\<forall>n \<ge> n2. g n = w" by (auto simp: settles_def)
  then show ?thesis using assms(3) by (intro settles_Suc [of "max n1 n2"]) simp
qed

text \<open>One rule per production: the parts settle, so the whole does.\<close>

lemma settles_and:
  assumes "settles (\<lambda>n. parse known n ParseUnary ts) (Some (Inr (node, ts')))"
    "settles (\<lambda>n. parse known n (AndLoop node) ts') v"
  shows "settles (\<lambda>n. parse known n ParseAnd ts) v"
  by (rule settles_step [OF assms]) simp

lemma settles_or:
  assumes "settles (\<lambda>n. parse known n ParseAnd ts) (Some (Inr (node, ts')))"
    "settles (\<lambda>n. parse known n (OrLoop node) ts') v"
  shows "settles (\<lambda>n. parse known n ParseOr ts) v"
  by (rule settles_step [OF assms]) simp

lemma settles_and_loop:
  assumes "settles (\<lambda>n. parse known n ParseUnary ts) (Some (Inr (right, ts')))"
    "settles (\<lambda>n. parse known n (AndLoop (AndNode left right)) ts') v" "peek ''and'' (t # ts)"
  shows "settles (\<lambda>n. parse known n (AndLoop left) (t # ts)) v"
  by (rule settles_step [OF assms(1,2)]) (simp add: assms(3))

lemma settles_or_loop:
  assumes "settles (\<lambda>n. parse known n ParseAnd ts) (Some (Inr (right, ts')))"
    "settles (\<lambda>n. parse known n (OrLoop (OrNode left right)) ts') v" "peek ''or'' (t # ts)"
  shows "settles (\<lambda>n. parse known n (OrLoop left) (t # ts)) v"
  by (rule settles_step [OF assms(1,2)]) (simp add: assms(3))

lemma settles_not:
  assumes "settles (\<lambda>n. parse known n ParseUnary ts) (Some (Inr (child, ts')))" "peek ''not'' (t # ts)"
  shows "settles (\<lambda>n. parse known n ParseUnary (t # ts)) (Some (Inr (NotNode child, ts')))"
  by (rule settles_step [OF assms(1,1)]) (simp add: assms(2))

lemma settles_parens:
  assumes "settles (\<lambda>n. parse known n ParseOr ts) (Some (Inr (node, t' # ts')))"
    "\<not> peek ''not'' (t # ts)" "peek ''('' (t # ts)" "peek '')'' (t' # ts')"
  shows "settles (\<lambda>n. parse known n ParseUnary (t # ts)) (Some (Inr (node, ts')))"
  by (rule settles_step [OF assms(1,1)]) (simp add: assms(2-4))

lemma settles_name:
  assumes "known s" "\<not> peek ''not'' (s # ts)" "\<not> peek ''('' (s # ts)"
  shows "settles (\<lambda>n. parse known n ParseUnary (s # ts)) (Some (Inr (SelectionNode s, ts)))"
  by (rule settles_Suc) (simp add: assms)

lemma loops_stop:
  "\<not> peek ''and'' rest \<Longrightarrow> settles (\<lambda>n. parse known n (AndLoop c) rest) (Some (Inr (c, rest)))"
  "\<not> peek ''or'' rest \<Longrightarrow> settles (\<lambda>n. parse known n (OrLoop c) rest) (Some (Inr (c, rest)))"
  by (rule settles_Suc, simp)+

lemma peek_other: "\<not> keyword s \<Longrightarrow> w \<in> {''or'', ''and'', ''not'', ''('', '')''} \<Longrightarrow> \<not> peek w (s # ts)"
  by (auto simp: keyword_def peek_def)

lemma keywords_apart: "\<not> peek ''not'' (''('' # ts)" "\<not> peek ''and'' ('')'' # ts)" "\<not> peek ''or'' ('')'' # ts)"
  "\<not> peek ''and'' (''or'' # ts)"
  "peek ''not'' (''not'' # ts)" "peek ''('' (''('' # ts)" "peek '')'' ('')'' # ts)" "peek ''or'' (''or'' # ts)"
  "peek ''and'' (''and'' # ts)"
  by (simp_all add: peek_def) (simp_all add: equal_fold_def fold_case.simps lower_byte_def)

text \<open>
  What holds of a tree in each context: an operand is parsed by \<open>ParseUnary\<close>; a conjunction is parsed
  by \<open>ParseAnd\<close> as if its loop started with the whole conjunction as its tree, whatever follows;
  and a disjunction likewise.
\<close>

definition unary_ok :: "(string \<Rightarrow> bool) \<Rightarrow> condition_node \<Rightarrow> bool" where
  "unary_ok known c \<longleftrightarrow>
     (\<forall>rest. settles (\<lambda>n. parse known n ParseUnary (print_node 2 c @ rest)) (Some (Inr (c, rest))))"

definition and_ok :: "(string \<Rightarrow> bool) \<Rightarrow> condition_node \<Rightarrow> bool" where
  "and_ok known c \<longleftrightarrow>
     (\<forall>rest v. settles (\<lambda>n. parse known n (AndLoop c) rest) v \<longrightarrow>
               settles (\<lambda>n. parse known n ParseAnd (print_node 1 c @ rest)) v)"

definition or_ok :: "(string \<Rightarrow> bool) \<Rightarrow> condition_node \<Rightarrow> bool" where
  "or_ok known c \<longleftrightarrow>
     (\<forall>rest v. \<not> peek ''and'' rest \<longrightarrow> settles (\<lambda>n. parse known n (OrLoop c) rest) v \<longrightarrow>
               settles (\<lambda>n. parse known n ParseOr (print_node 0 c @ rest)) v)"

lemma and_of_unary: "unary_ok known c \<Longrightarrow> print_node 1 c = print_node 2 c \<Longrightarrow> and_ok known c"
  unfolding and_ok_def unary_ok_def by (metis settles_and)

lemma or_of_and: "and_ok known c \<Longrightarrow> print_node 0 c = print_node 1 c \<Longrightarrow> or_ok known c"
  unfolding or_ok_def and_ok_def by (metis settles_or loops_stop(1))

lemma parens_parse:
  assumes "or_ok known c"
  shows "settles (\<lambda>n. parse known n ParseUnary (''('' # print_node 0 c @ '')'' # rest)) (Some (Inr (c, rest)))"
proof (rule settles_parens)
  show "settles (\<lambda>n. parse known n ParseOr (print_node 0 c @ '')'' # rest)) (Some (Inr (c, '')'' # rest)))"
    using assms loops_stop(2) keywords_apart(2,3) unfolding or_ok_def by blast
qed (simp_all add: keywords_apart)

lemma unary_of_or:
  "or_ok known c \<Longrightarrow> print_node 2 c = ''('' # print_node 0 c @ ['')''] \<Longrightarrow> unary_ok known c"
  using parens_parse [of known c] by (simp add: unary_ok_def)

lemma print_parse: "good_names known c \<Longrightarrow> unary_ok known c \<and> and_ok known c \<and> or_ok known c"
proof (induction c)
  case (SelectionNode s)
  have "unary_ok known (SelectionNode s)"
    unfolding unary_ok_def print_node.simps append.simps
    by (intro allI settles_name) (use SelectionNode in \<open>simp_all add: peek_other\<close>)
  then show ?case using and_of_unary or_of_and by simp
next
  case (NotNode c)
  then have "unary_ok known c" by simp
  then have "unary_ok known (NotNode c)"
    unfolding unary_ok_def print_node.simps append.simps
    by (intro allI settles_not) (simp_all add: keywords_apart)
  then show ?case using and_of_unary or_of_and by simp
next
  case (AndNode l r)
  have l: "and_ok known l" and r: "unary_ok known r" using AndNode by simp_all
  have a: "and_ok known (AndNode l r)"
    unfolding and_ok_def
  proof (intro allI impI)
    fix rest v
    assume v: "settles (\<lambda>n. parse known n (AndLoop (AndNode l r)) rest) v"
    have "settles (\<lambda>n. parse known n ParseUnary (print_node 2 r @ rest)) (Some (Inr (r, rest)))"
      using r by (simp only: unary_ok_def)
    from settles_and_loop [OF this v keywords_apart(9)] l
    show "settles (\<lambda>n. parse known n ParseAnd (print_node 1 (AndNode l r) @ rest)) v"
      by (simp add: and_ok_def parens_def)
  qed
  from or_of_and [OF a] have o: "or_ok known (AndNode l r)" by (simp add: parens_def)
  from unary_of_or [OF o] a o show ?case by (simp add: parens_def)
next
  case (OrNode l r)
  have l: "or_ok known l" and r: "and_ok known r" using OrNode by simp_all
  have o: "or_ok known (OrNode l r)"
    unfolding or_ok_def
  proof (intro allI impI)
    fix rest v
    assume p: "\<not> peek ''and'' rest" and v: "settles (\<lambda>n. parse known n (OrLoop (OrNode l r)) rest) v"
    have "settles (\<lambda>n. parse known n ParseAnd (print_node 1 r @ rest)) (Some (Inr (r, rest)))"
      using r loops_stop(1) [OF p] by (simp only: and_ok_def)
    from settles_or_loop [OF this v keywords_apart(8)] l keywords_apart(4)
    show "settles (\<lambda>n. parse known n ParseOr (print_node 0 (OrNode l r) @ rest)) v"
      by (simp add: or_ok_def parens_def)
  qed
  from unary_of_or [OF o] have u: "unary_ok known (OrNode l r)" by (simp add: parens_def)
  from and_of_unary [OF u] u o show ?case by (simp add: parens_def)
qed

text \<open>The fuel of \<open>parse_tokens\<close> is past the point where the parser has settled.\<close>

lemma settles_parse:
  assumes "settles (\<lambda>n. parse known n ParseOr ts) (Some x)"
  shows "parse known (parse_fuel ts) ParseOr ts = Some x"
proof -
  have "parse known (parse_fuel ts) ParseOr ts \<noteq> None" by (rule parse_total) (simp add: parse_fuel_def)
  then obtain y where y: "parse known (parse_fuel ts) ParseOr ts = Some y" by blast
  from assms obtain n0 where "\<forall>n \<ge> n0. parse known n ParseOr ts = Some x" by (auto simp: settles_def)
  with parse_mono [OF y, of "max n0 (parse_fuel ts)"] y show ?thesis by simp
qed

lemma print_nonempty: "print_node k c \<noteq> []"
  by (cases c) (simp_all add: parens_def)

lemma parse_print:
  assumes "good_names known c"
  shows "parse_tokens known (print_node 0 c) = Inr c"
proof -
  have "settles (\<lambda>n. parse known n ParseOr (print_node 0 c @ [])) (Some (Inr (c, [])))"
    using print_parse [OF assms] loops_stop(2) [of "[]" known c] unfolding or_ok_def
    by (metis peek_nonempty)
  from settles_parse [OF this] show ?thesis
    by (simp add: parse_tokens_def print_nonempty)
qed

text \<open>A quantifier expands to a parenthesised chain, which parses to its disjunction or conjunction.\<close>

fun chain :: "bool \<Rightarrow> condition_node \<Rightarrow> string list \<Rightarrow> condition_node" where
  "chain is_all c [] = c"
| "chain is_all c (s # ss) = chain is_all (if is_all then AndNode c (SelectionNode s) else OrNode c (SelectionNode s)) ss"

fun chain_tokens :: "bool \<Rightarrow> string list \<Rightarrow> string list" where
  "chain_tokens is_all [] = []"
| "chain_tokens is_all (s # ss) = (if is_all then ''and'' else ''or'') # s # chain_tokens is_all ss"

lemma print_chain_or:
  "print_node 0 (chain False c ss) = print_node 0 c @ chain_tokens False ss"
  by (induction ss arbitrary: c) (simp_all add: parens_def)

lemma print_chain_and:
  "print_node 1 c = print_node 0 c \<Longrightarrow> print_node 0 (chain True c ss) = print_node 0 c @ chain_tokens True ss"
  by (induction ss arbitrary: c) (simp_all add: parens_def)

lemma good_chain: "good_names known c \<Longrightarrow> \<forall>s \<in> set ss. known s \<and> \<not> keyword s \<Longrightarrow> good_names known (chain is_all c ss)"
  by (induction ss arbitrary: c) auto

lemma evaluate_chain:
  "node_evaluate vals (chain False c ss) \<longleftrightarrow> node_evaluate vals c \<or> list_ex vals ss"
  "node_evaluate vals (chain True c ss) \<longleftrightarrow> node_evaluate vals c \<and> list_all vals ss"
  by (induction ss arbitrary: c) auto

end
