(* ===== verification/Sigma_Compiler.thy ===== *)
theory Sigma_Compiler
  imports Sigma_Condition Correlation
begin

text \<open>
  The Sigma compiler, \<^verbatim>\<open>internal/detection/compiler.go\<close>: decoded documents, the compilation of
  selections, of correlations and of whole rules, and the evaluation of a compiled rule on an
  event. The YAML decoder is not part of the repository: it is the argument \<open>decode\<close> of \<open>Compile\<close>,
  a function from the text to the decoded document. A decoded mapping is an association list
  with distinct keys, in an arbitrary order; the sources iterate over Go maps, whose order is
  arbitrary too, and sort what they keep.
\<close>

subsection \<open>Documents\<close>

record sigma_correlation =
  sc_type :: string
  sc_rules :: json
  sc_group_by :: "string list"
  sc_timespan :: string
  sc_gte :: int
  sc_field :: string

record sigma_document =
  sd_title :: string
  sd_id :: string
  sd_description :: string
  sd_author :: json
  sd_level :: string
  sd_confidence :: int
  sd_tags :: "string list"
  sd_false_positives :: "string list"
  sd_log_source :: "(string \<times> json) list"
  sd_detection :: "(string \<times> json) list"
  sd_correlation :: "sigma_correlation option"

record detection_content =
  dc_tenant :: tenant
  dc_rule_id :: string
  dc_version :: string
  dc_state :: string
  dc_sigma_yaml :: string
  dc_updated_at :: time

record compiled_rule =
  cp_rule :: detection_rule
  cp_selections :: "(string \<times> compiled_selection) list"
  cp_condition :: "condition_node option"
  cp_correlation :: "correlation_spec option"

subsection \<open>Metadata of a rule\<close>

definition sigmaSeverity :: "string \<Rightarrow> severity" where
  "sigmaSeverity level =
    (let l = to_lower (trim_space level)
     in if l = ''critical'' then SeverityCritical else if l = ''high'' then SeverityHigh
        else if l = ''medium'' then SeverityMedium else if l = ''low'' then SeverityLow
        else SeverityInformational)"

definition sigmaTechniques :: "string list \<Rightarrow> string list" where
  "sigmaTechniques tags =
    sort (add_unseen []
      (filter (\<lambda>v. has_prefix v ''T'')
        (map (\<lambda>tag. to_upper (trim_prefix (to_lower (trim_space tag)) ''attack.'')) tags)))"

definition or_null :: "json option \<Rightarrow> json" where
  "or_null v = (case v of None \<Rightarrow> JNull | Some x \<Rightarrow> x)"

definition sigmaDataSources :: "(string \<times> json) list \<Rightarrow> string list" where
  "sigmaDataSources log_source =
    (let parts = filter (\<lambda>v. v \<noteq> [] \<and> v \<noteq> ''<nil>'')
           (map (\<lambda>key. trim_space (sprint (or_null (map_of log_source key)))) [''category'', ''product'', ''service''])
     in if parts = [] then [] else [join ''/'' parts])"

definition sigmaAuthor :: "json \<Rightarrow> string" where
  "sigmaAuthor value =
    (case value of
       JStr s \<Rightarrow> trim_space s
     | JArr items \<Rightarrow> join '', '' (map sprint items)
     | _ \<Rightarrow> ''KCSP Detection Engineering'')"

subsection \<open>Durations\<close>

text \<open>
  \<^verbatim>\<open>time.ParseDuration\<close> with exact arithmetic. Go computes a fraction in floating point, which is
  exact for fractions of up to nine digits, and reports an error for durations beyond 292
  years, which the caller rejects anyway.
\<close>

definition is_digit :: "char \<Rightarrow> bool" where
  "is_digit c \<longleftrightarrow> 48 \<le> (of_char c :: nat) \<and> (of_char c :: nat) \<le> 57"

definition digits_value :: "string \<Rightarrow> int" where
  "digits_value s = foldl (\<lambda>v c. 10 * v + (of_char c - 48)) 0 s"

definition duration_units :: "(string \<times> duration) list" where
  "duration_units =
    [(''ns'', 1), (''us'', 1000), ([CHR 0xC2, CHR 0xB5, CHR ''s''], 1000),
     ([CHR 0xCE, CHR 0xBC, CHR ''s''], 1000), (''ms'', 1000000), (''s'', go_second), (''m'', minute), (''h'', hour)]"

definition duration_term :: "string \<Rightarrow> (duration \<times> string) option" where
  "duration_term s =
    (let whole = takeWhile is_digit s;
         s1 = dropWhile is_digit s;
         dotted = (s1 \<noteq> [] \<and> hd s1 = CHR ''.'');
         frac = (if dotted then takeWhile is_digit (tl s1) else []);
         s2 = (if dotted then dropWhile is_digit (tl s1) else s1);
         unit = takeWhile (\<lambda>c. c \<noteq> CHR ''.'' \<and> \<not> is_digit c) s2;
         rest = dropWhile (\<lambda>c. c \<noteq> CHR ''.'' \<and> \<not> is_digit c) s2
     in if whole = [] \<and> frac = [] then None
        else case map_of duration_units unit of
               None \<Rightarrow> None
             | Some u \<Rightarrow> Some (digits_value whole * u + digits_value frac * u div 10 ^ length frac, rest))"

fun duration_terms :: "nat \<Rightarrow> string \<Rightarrow> duration \<Rightarrow> duration option" where
  "duration_terms 0 s d = (if s = [] then Some d else None)"
| "duration_terms (Suc n) s d =
     (if s = [] then Some d
      else case duration_term s of None \<Rightarrow> None | Some (v, rest) \<Rightarrow> duration_terms n rest (d + v))"

definition ParseDuration :: "string \<Rightarrow> duration option" where
  "ParseDuration s =
    (let neg = (s \<noteq> [] \<and> hd s = CHR ''-'');
         s1 = (if s \<noteq> [] \<and> (hd s = CHR ''-'' \<or> hd s = CHR ''+'') then tl s else s)
     in if s1 = ''0'' then Some 0
        else if s1 = [] then None
        else map_option (\<lambda>d. if neg then - d else d) (duration_terms (length s1) s1 0))"

subsection \<open>Selections\<close>

definition scalar_value :: "json \<Rightarrow> string result" where
  "scalar_value item =
    (case item of
       JStr s \<Rightarrow> Inr s
     | JBool b \<Rightarrow> Inr (if b then ''true'' else ''false'')
     | JInt i \<Rightarrow> Inr (sprint (JInt i))
     | JFloat f \<Rightarrow> Inr f
     | _ \<Rightarrow> Inl ErrInvalidRule)"

fun map_ok :: "('a \<Rightarrow> 'b result) \<Rightarrow> 'a list \<Rightarrow> 'b list result" where
  "map_ok f [] = Inr []"
| "map_ok f (x # xs) = bind_ok (f x) (\<lambda>y. bind_ok (map_ok f xs) (\<lambda>ys. Inr (y # ys)))"

definition scalarValues :: "json \<Rightarrow> string list result" where
  "scalarValues raw =
    (let items = (case raw of JArr xs \<Rightarrow> xs | _ \<Rightarrow> [raw])
     in if items = [] then Inl ErrInvalidRule else map_ok scalar_value items)"

text \<open>One key of a mapping, \<^verbatim>\<open>field|modifier|...\<close>, with its values.\<close>

fun apply_modifiers :: "string list \<Rightarrow> field_predicate \<Rightarrow> field_predicate result" where
  "apply_modifiers [] p = Inr p"
| "apply_modifiers (m # ms) p =
     (let modifier = to_lower (trim_space m)
      in if modifier = ''contains'' \<or> modifier = ''startswith'' \<or> modifier = ''endswith''
         then apply_modifiers ms (p\<lparr>fp_modifier := modifier\<rparr>)
         else if modifier = ''all'' then apply_modifiers ms (p\<lparr>fp_all := True\<rparr>)
         else Inl ErrInvalidRule)"

definition compile_predicate :: "string \<times> json \<Rightarrow> field_predicate result" where
  "compile_predicate entry =
    (let parts = split_char (CHR ''|'') (fst entry);
         field = trim_space (hd parts)
     in if field = [] then Inl ErrInvalidRule
        else bind_ok (apply_modifiers (tl parts)
                \<lparr>fp_field = field, fp_modifier = ''equals'', fp_all = False, fp_values = []\<rparr>) (\<lambda>p.
             bind_ok (scalarValues (snd entry)) (\<lambda>values. Inr (p\<lparr>fp_values := values\<rparr>))))"

definition compileAlternative :: "(string \<times> json) list \<Rightarrow> selection_alternative result" where
  "compileAlternative mapping =
    bind_ok (map_ok compile_predicate mapping) (\<lambda>ps.
      if ps = [] then Inl ErrInvalidRule else Inr (sort_key fp_field ps))"

definition compileSelection :: "json \<Rightarrow> compiled_selection result" where
  "compileSelection raw =
    (case raw of
       JObj mapping \<Rightarrow> bind_ok (compileAlternative mapping) (\<lambda>alt. Inr [alt])
     | JArr items \<Rightarrow>
         bind_ok (map_ok (\<lambda>item. case item of JObj mapping \<Rightarrow> compileAlternative mapping
                                            | _ \<Rightarrow> Inl ErrInvalidRule) items) (\<lambda>alts.
         if alts = [] then Inl ErrInvalidRule else Inr alts)
     | _ \<Rightarrow> Inl ErrInvalidRule)"

subsection \<open>Correlations\<close>

definition correlation_kinds :: "string list" where
  "correlation_kinds =
    [CorrelationEventCount, CorrelationValueCount, CorrelationTemporal, CorrelationTemporalOrdered]"

definition rule_reference :: "string \<Rightarrow> string \<Rightarrow> string result" where
  "rule_reference rid raw =
    (let value = trim_space raw
     in if value = [] \<or> value = rid then Inl ErrInvalidRule else Inr value)"

definition group_field :: "string \<Rightarrow> string result" where
  "group_field raw =
    (let field = trim_space raw in if field = [] \<or> 128 < length field then Inl ErrInvalidRule else Inr field)"

definition compileCorrelation :: "string \<Rightarrow> sigma_correlation \<Rightarrow> correlation_spec result" where
  "compileCorrelation rid doc =
    (let kind = to_lower (replace_char (CHR ''-'') (CHR ''_'') (trim_space (sc_type doc)));
         counting = (kind = CorrelationEventCount \<or> kind = CorrelationValueCount);
         value_field = trim_space (sc_field doc)
     in if kind \<notin> set correlation_kinds then Inl ErrInvalidRule
        else bind_ok (scalarValues (sc_rules doc)) (\<lambda>raw_rules.
             bind_ok (map_ok (rule_reference rid) raw_rules) (\<lambda>refs.
             let rules = add_unseen [] refs
             in if rules = [] \<or> 32 < length rules then Inl ErrInvalidRule
                else if \<not> counting \<and> length rules < 2 then Inl ErrInvalidRule
                else case ParseDuration (trim_space (sc_timespan doc)) of
                       None \<Rightarrow> Inl ErrInvalidRule
                     | Some timespan \<Rightarrow>
                         if timespan < go_second \<or> 24 * hour < timespan then Inl ErrInvalidRule
                         else bind_ok (map_ok group_field (sc_group_by doc)) (\<lambda>group_by.
                              if 8 < length group_by then Inl ErrInvalidRule
                              else if counting \<and> (sc_gte doc < 2 \<or> 1000000 < sc_gte doc) then Inl ErrInvalidRule
                              else if kind = CorrelationValueCount \<and> value_field = [] then Inl ErrInvalidRule
                              else Inr \<lparr>cs_type = kind, cs_rules = rules, cs_group_by = group_by,
                                        cs_value_field = value_field,
                                        cs_timespan = timespan div go_second,
                                        cs_threshold = (if counting then sc_gte doc else int (length rules))\<rparr>))))"

subsection \<open>Rules\<close>

definition compiled_metadata :: "detection_content \<Rightarrow> sigma_document \<Rightarrow> string \<Rightarrow> string \<Rightarrow> detection_rule" where
  "compiled_metadata content doc rid title =
    \<lparr>dr_id = rid, dr_title = title, dr_description = trim_space (sd_description doc),
     dr_version = trim_space (dc_version content), dr_severity = sigmaSeverity (sd_level doc),
     dr_confidence = (if sd_confidence doc \<le> 0 \<or> 100 < sd_confidence doc then 70 else sd_confidence doc),
     dr_mitre = sigmaTechniques (sd_tags doc), dr_data_sources = sigmaDataSources (sd_log_source doc),
     dr_false_positives = sd_false_positives doc, dr_owner = sigmaAuthor (sd_author doc),
     dr_state = dc_state content, dr_updated_at = dc_updated_at content\<rparr>"

definition condition_text :: "sigma_document \<Rightarrow> string" where
  "condition_text doc =
    (case map_of (sd_detection doc) ''condition'' of Some (JStr s) \<Rightarrow> s | _ \<Rightarrow> [])"

definition compile_named :: "string \<times> json \<Rightarrow> (string \<times> compiled_selection) result" where
  "compile_named entry = bind_ok (compileSelection (snd entry)) (\<lambda>s. Inr (fst entry, s))"

definition compile_detection ::
  "sigma_document \<Rightarrow> ((string \<times> compiled_selection) list \<times> condition_node) result" where
  "compile_detection doc =
    (if trim_space (condition_text doc) = [] then Inl ErrInvalidRule
     else bind_ok (map_ok compile_named
            (filter (\<lambda>(name, _). name \<noteq> ''condition'' \<and> name \<noteq> ''timeframe'') (sd_detection doc))) (\<lambda>selections.
          if selections = [] then Inl ErrInvalidRule
          else bind_ok (expandQuantifiers (condition_text doc) (map fst selections)) (\<lambda>expanded.
               bind_ok (parseCondition (\<lambda>name. name \<in> set (map fst selections)) expanded) (\<lambda>node.
               Inr (selections, node)))))"

definition Compile :: "(string \<Rightarrow> sigma_document option) \<Rightarrow> detection_content \<Rightarrow> compiled_rule result" where
  "Compile decode content =
    (case decode (dc_sigma_yaml content) of
       None \<Rightarrow> Inl ErrInvalidRule
     | Some doc \<Rightarrow>
         (let rid = trim_space (sd_id doc);
              title = trim_space (sd_title doc);
              rule = compiled_metadata content doc rid title
          in if rid = [] \<or> title = [] then Inl ErrInvalidRule
             else if dc_rule_id content \<noteq> [] \<and> dc_rule_id content \<noteq> rid then Inl ErrInvalidRule
             else if trim_space (dc_version content) = [] then Inl ErrInvalidRule
             else case sd_correlation doc of
                    Some c \<Rightarrow>
                      bind_ok (compileCorrelation rid c) (\<lambda>spec.
                        Inr \<lparr>cp_rule = rule, cp_selections = [], cp_condition = None, cp_correlation = Some spec\<rparr>)
                  | None \<Rightarrow>
                      bind_ok (compile_detection doc) (\<lambda>(selections, node).
                        Inr \<lparr>cp_rule = rule, cp_selections = selections, cp_condition = Some node,
                             cp_correlation = None\<rparr>)))"

definition IsCorrelation :: "compiled_rule \<Rightarrow> bool" where
  "IsCorrelation rule \<longleftrightarrow> cp_correlation rule \<noteq> None"

definition CorrelationSpec :: "compiled_rule \<Rightarrow> correlation_spec option" where
  "CorrelationSpec rule = cp_correlation rule"

text \<open>A name that is not a selection is false in the results map.\<close>

definition selection_results :: "compiled_rule \<Rightarrow> canonical_event \<Rightarrow> string \<Rightarrow> bool" where
  "selection_results rule event name =
    (case map_of (cp_selections rule) name of
       None \<Rightarrow> False | Some s \<Rightarrow> fst (selection_evaluate s event))"

definition matched_fields :: "compiled_rule \<Rightarrow> canonical_event \<Rightarrow> string list" where
  "matched_fields rule event =
    sort (add_unseen []
      (concat (map (\<lambda>(_, s). let (ok, fs) = selection_evaluate s event in if ok then fs else []) (cp_selections rule))))"

definition rule_Evaluate :: "compiled_rule \<Rightarrow> canonical_event \<Rightarrow> bool \<times> string list" where
  "rule_Evaluate rule event =
    (if cp_correlation rule \<noteq> None then (False, [])
     else case cp_condition rule of
            None \<Rightarrow> (False, [])
          | Some node \<Rightarrow>
              if \<not> node_evaluate (selection_results rule event) node then (False, [])
              else (True, matched_fields rule event))"

end
