(* ===== verification/Sigma_Properties.thy ===== *)
theory Sigma_Properties
  imports Sigma_Compiler
begin

text \<open>
  Properties of the Sigma compiler: the condition parser and its round trip, the meaning of
  quantifiers, the bounds of a compiled correlation, the soundness of compiled rules on events and
  the reach of wildcards.
\<close>

subsection \<open>Tokens of plain words\<close>

definition plain_char :: "char \<Rightarrow> bool" where
  "plain_char c \<longleftrightarrow> 33 \<le> (of_char c :: nat) \<and> (of_char c :: nat) \<le> 126 \<and> c \<noteq> CHR ''('' \<and> c \<noteq> CHR '')''"

definition plain_word :: "string \<Rightarrow> bool" where
  "plain_word s \<longleftrightarrow> s \<noteq> [] \<and> list_all plain_char s"

lemma space_rune_heads:
  "list_all (\<lambda>p. p \<noteq> [] \<and> \<not> plain_char (hd p)) space_runes"
  by code_simp

lemma plain_no_space: "plain_char c \<Longrightarrow> filter (has_prefix (c # s)) space_runes = []"
  using space_rune_heads by (auto simp: list_all_iff filter_empty_conv has_prefix_iff Cons_eq_append_conv)

lemma blank_space: "filter (has_prefix (CHR '' '' # s)) space_runes = ['' '']"
  by (simp add: space_runes_def)

text \<open>The tokenizer's state machine without its fuel: \<open>cur\<close> is the token being read.\<close>

definition tokens_from :: "string \<Rightarrow> string \<Rightarrow> string list" where
  "tokens_from cur s = go_fields_fuel (length s) cur s"

lemma tokens_from_Nil: "tokens_from cur [] = (if cur = [] then [] else [cur])"
  by (simp add: tokens_from_def)

lemma tokens_from_plain: "plain_char c \<Longrightarrow> tokens_from cur (c # s) = tokens_from (cur @ [c]) s"
  by (simp add: tokens_from_def plain_no_space)

lemma tokens_from_space: "tokens_from cur (CHR '' '' # s) = (if cur = [] then [] else [cur]) @ tokens_from [] s"
  by (simp add: tokens_from_def blank_space)

lemma tokens_from_word: "list_all plain_char w \<Longrightarrow> tokens_from cur (w @ s) = tokens_from (cur @ w) s"
  by (induction w arbitrary: cur) (simp_all add: tokens_from_plain)

lemma tokens_from_token: "plain_word w \<Longrightarrow> tokens_from [] (w @ CHR '' '' # s) = w # tokens_from [] s"
  by (simp add: plain_word_def tokens_from_word tokens_from_space)

lemma tokens_from_operator:
  "tokens_from [] (''and '' @ s) = ''and'' # tokens_from [] s"
  "tokens_from [] (''or '' @ s) = ''or'' # tokens_from [] s"
  "tokens_from [] ('' ( '' @ s) = ''('' # tokens_from [] s"
  "tokens_from [] '') '' = ['')'']"
  by (simp_all add: tokens_from_def space_runes_def)

lemma tokens_from_chain:
  "\<forall>w \<in> set (s # ss). plain_word w \<Longrightarrow>
   tokens_from [] (join (if is_all then '' and '' else '' or '') (s # ss) @ '' ) '') =
     s # chain_tokens is_all ss @ ['')'']"
proof (induction ss arbitrary: s)
  case Nil
  with tokens_from_token [of s "'') ''"] show ?case by (simp add: tokens_from_operator)
next
  case (Cons t ss)
  have "tokens_from [] (join (if is_all then '' and '' else '' or '') (s # t # ss) @ '' ) '') =
      s # (if is_all then ''and'' else ''or'') #
        tokens_from [] (join (if is_all then '' and '' else '' or '') (t # ss) @ '' ) '')"
    using Cons.prems tokens_from_token [of s] tokens_from_operator(1,2) by (cases is_all) simp_all
  with Cons show ?case by simp
qed

lemma space_parens_append: "space_parens (s @ t) = space_parens s @ space_parens t"
  by (simp add: space_parens_def)

lemma space_parens_plain: "list_all plain_char w \<Longrightarrow> space_parens w = w"
  by (induction w) (auto simp: space_parens_def plain_char_def)

lemma space_parens_join:
  "\<forall>w \<in> set ws. plain_word w \<Longrightarrow> space_parens sep = sep \<Longrightarrow> space_parens (join sep ws) = join sep ws"
proof (induction sep ws rule: join.induct)
  case (1 sep)
  then show ?case by (simp add: space_parens_def)
next
  case (2 sep x)
  then show ?case by (simp add: space_parens_plain plain_word_def)
next
  case (3 sep x y ys)
  then show ?case by (simp add: space_parens_append space_parens_plain plain_word_def)
qed

lemma tokenize_quantifier:
  assumes "\<forall>w \<in> set (s # ss). plain_word w"
  shows "tokenizeCondition (quantifier_text is_all (s # ss)) = ''('' # s # chain_tokens is_all ss @ ['')'']"
proof -
  define sep where "sep = (if is_all then '' and '' else '' or '')"
  have "space_parens sep = sep" by (simp add: sep_def space_parens_def)
  then have "space_parens (join sep (s # ss)) = join sep (s # ss)" by (rule space_parens_join [OF assms])
  then have "space_parens (quantifier_text is_all (s # ss)) = '' ( '' @ join sep (s # ss) @ '' ) ''"
    by (simp only: quantifier_text_def space_parens_append sep_def) (simp add: space_parens_def)
  then show ?thesis
    using tokens_from_chain [OF assms, of is_all]
    by (simp only: tokenizeCondition_def go_fields_def tokens_from_def [symmetric] tokens_from_operator sep_def)
qed

subsection \<open>Parsing a quantifier\<close>

lemma parse_quantifier:
  assumes "\<forall>w \<in> set (s # ss). known w \<and> \<not> keyword w"
  shows "parse_tokens known (''('' # s # chain_tokens is_all ss @ ['')'']) = Inr (chain is_all (SelectionNode s) ss)"
proof -
  let ?c = "chain is_all (SelectionNode s) ss"
  have printed: "print_node 0 ?c = s # chain_tokens is_all ss"
    by (cases is_all) (simp_all add: print_chain_or print_chain_and)
  have "good_names known ?c" using assms by (intro good_chain) auto
  then have o: "or_ok known ?c" using print_parse by blast
  have "settles (\<lambda>n. parse known n ParseUnary (''('' # s # chain_tokens is_all ss @ ['')''])) (Some (Inr (?c, [])))"
    using parens_parse [OF o, of "[]"] by (simp add: printed)
  then have "settles (\<lambda>n. parse known n ParseOr (''('' # s # chain_tokens is_all ss @ ['')''])) (Some (Inr (?c, [])))"
    by (intro settles_or settles_and) (auto intro: loops_stop simp: peek_def)
  from settles_parse [OF this] show ?thesis by (simp add: parse_tokens_def)
qed

subsection \<open>Expanding a quantifier\<close>

lemma take_target_head: "take_target n s \<noteq> [] \<Longrightarrow> target_rune s \<noteq> 0"
  by (cases n) (auto simp: Let_def split: if_splits)

lemma target_starts_no_space:
  assumes "target \<noteq> []" "quantifier_target target = target"
  shows "\<not> regex_space (hd target)"
proof
  assume sp: "regex_space (hd target)"
  obtain c t where t: "target = c # t" using assms(1) by (cases target) auto
  from sp t have c: "c = CHR 0x09 \<or> c = CHR 0x0A \<or> c = CHR 0x0C \<or> c = CHR 0x0D \<or> c = CHR '' ''"
    by (simp add: regex_space_def)
  then have "\<not> fold_prefix target ''them''" using t
    by (elim disjE) (simp_all add: fold_prefix_def lower_byte_def)
  with assms have "take_target (length target) target \<noteq> []" by (simp add: quantifier_target_def)
  then have "target_rune target \<noteq> 0" by (rule take_target_head)
  with c t show False by (elim disjE) (simp_all add: target_rune_def word_char_def Let_def)
qed

definition quantifier_condition :: "bool \<Rightarrow> string \<Rightarrow> string" where
  "quantifier_condition is_all target = (if is_all then ''all of '' else ''1 of '') @ target"

lemma fold_prefix_simps:
  "fold_prefix (''all of '' @ t) ''all''" "\<not> fold_prefix (''1 of '' @ t) ''all''" "fold_prefix (''1 of '' @ t) ''1''"
  "fold_prefix (''of '' @ t) ''of''"
  by (simp_all add: fold_prefix_def lower_byte_def)

lemma skip_spaces_simps:
  "skip_spaces ('' of '' @ t) = Some (''of '' @ t)"
  "t \<noteq> [] \<Longrightarrow> \<not> regex_space (hd t) \<Longrightarrow> skip_spaces (CHR '' '' # t) = Some t"
  by (cases t; simp add: skip_spaces_def regex_space_def)+

lemma quantifier_at_condition:
  assumes "target \<noteq> []" "quantifier_target target = target"
  shows "quantifier_at (quantifier_condition is_all target) = Some (is_all, target, [])"
proof -
  have sp: "skip_spaces (CHR '' '' # target) = Some target"
    using assms target_starts_no_space by (intro skip_spaces_simps(2))
  have d: "drop 3 (''all of '' @ target) = '' of '' @ target" "drop 1 (''1 of '' @ target) = '' of '' @ target"
    "drop 2 (''of '' @ target) = CHR '' '' # target"
    by simp_all
  show ?thesis
  proof (cases is_all)
    case True
    then have "quantifier_condition is_all target = ''all of '' @ target" by (simp only: quantifier_condition_def if_True)
    then show ?thesis using assms(1)
      by (simp only: quantifier_at_def Let_def fold_prefix_simps if_True d skip_spaces_simps(1) option.case sp assms(2)
        not_True_eq_False if_False) (simp add: True)
  next
    case False
    then have "quantifier_condition is_all target = ''1 of '' @ target" by (simp only: quantifier_condition_def if_False)
    then show ?thesis using assms(1)
      by (simp only: quantifier_at_def Let_def fold_prefix_simps if_True if_False d skip_spaces_simps(1) option.case sp assms(2)
        not_True_eq_False) (simp add: False)
  qed
qed

lemma expand_quantifier:
  assumes "target \<noteq> []" "quantifier_target target = target" "quantified (sort names) target \<noteq> []"
  shows "expandQuantifiers (quantifier_condition is_all target) names =
    Inr (quantifier_text is_all (quantified (sort names) target))"
proof -
  obtain k where k: "length (quantifier_condition is_all target) = Suc k"
    by (cases "length (quantifier_condition is_all target)") (auto simp: quantifier_condition_def split: if_splits)
  then have "quantifier_condition is_all target \<noteq> []" by auto
  moreover have "expand_fuel k (sort names) prev [] = Inr []" for prev by (cases k) simp_all
  ultimately show ?thesis
    by (simp add: expandQuantifiers_def k quantifier_at_condition [OF assms(1,2)] assms(3) Let_def)
qed

text \<open>A condition that is one quantifier, \<^verbatim>\<open>1 of <target>\<close> or \<^verbatim>\<open>all of <target>\<close>, expands and parses
  whenever its target matches a selection and the matching selections have ordinary names; the tree holds
  on an event iff some, respectively every, selection that the target matches holds.\<close>

theorem quantifier_meaning:
  assumes "target \<noteq> []" "quantifier_target target = target"
    and "selected = quantified (sort names) target" "selected \<noteq> []"
    and "\<forall>s \<in> set selected. plain_word s \<and> \<not> keyword s"
  shows "\<exists>node. bind_ok (expandQuantifiers (quantifier_condition is_all target) names)
                   (parseCondition (\<lambda>s. s \<in> set names)) = Inr node \<and>
            (\<forall>vals. node_evaluate vals node \<longleftrightarrow> (if is_all then list_all vals selected else list_ex vals selected))"
proof -
  from assms(4) obtain s ss where s: "selected = s # ss" by (cases selected) auto
  have known: "\<forall>w \<in> set (s # ss). w \<in> set names \<and> \<not> keyword w"
    using assms(3,5) s by (auto simp: quantified_def split: if_splits)
  have plain: "\<forall>w \<in> set (s # ss). plain_word w" using assms(5) s by simp
  have "bind_ok (expandQuantifiers (quantifier_condition is_all target) names) (parseCondition (\<lambda>s. s \<in> set names)) =
      Inr (chain is_all (SelectionNode s) ss)"
    using expand_quantifier [OF assms(1,2)] assms(3,4) s tokenize_quantifier [OF plain] parse_quantifier [OF known]
    by (simp add: parseCondition_def)
  moreover have "node_evaluate vals (chain is_all (SelectionNode s) ss) \<longleftrightarrow>
      (if is_all then list_all vals selected else list_ex vals selected)" for vals
    using s by (cases is_all) (simp_all add: evaluate_chain)
  ultimately show ?thesis by blast
qed

theorem quantifier_meaning_witness:
  "\<exists>node. bind_ok (expandQuantifiers (quantifier_condition False ''sel*'') [''sel_b'', ''filter'', ''sel_a''])
            (parseCondition (\<lambda>s. s \<in> set [''sel_b'', ''filter'', ''sel_a''])) = Inr node \<and>
     (\<forall>vals. node_evaluate vals node \<longleftrightarrow>
        (if False then list_all vals [''sel_a'', ''sel_b''] else list_ex vals [''sel_a'', ''sel_b'']))"
proof (rule quantifier_meaning)
  show "[''sel_a'', ''sel_b''] = quantified (sort [''sel_b'', ''filter'', ''sel_a'']) ''sel*''" by code_simp
  show "quantifier_target ''sel*'' = ''sel*''" by code_simp
  show "\<forall>s \<in> set [''sel_a'', ''sel_b'']. plain_word s \<and> \<not> keyword s" by code_simp
qed simp_all

subsection \<open>The parser\<close>

definition names_before :: "grammar_symbol \<Rightarrow> string set" where
  "names_before nt = (case nt of OrLoop c \<Rightarrow> node_names c | AndLoop c \<Rightarrow> node_names c | _ \<Rightarrow> {})"

lemma names_before_simps [simp]:
  "names_before ParseOr = {}" "names_before ParseAnd = {}" "names_before ParseUnary = {}"
  "names_before (OrLoop c) = node_names c" "names_before (AndLoop c) = node_names c"
  by (simp_all add: names_before_def)

text \<open>What an answer of the parser may be: the only error, or a tree over known names.\<close>

definition parse_answer :: "(string \<Rightarrow> bool) \<Rightarrow> string set \<Rightarrow> parsed \<Rightarrow> bool" where
  "parse_answer known before r =
    (case r of None \<Rightarrow> True | Some (Inl e) \<Rightarrow> e = ErrInvalidRule
     | Some (Inr (node, _)) \<Rightarrow> node_names node \<subseteq> before \<union> Collect known)"

lemma then_parse_answer:
  assumes "parse_answer known b r"
    and "\<And>node ts. r = Some (Inr (node, ts)) \<Longrightarrow> node_names node \<subseteq> b \<union> Collect known \<Longrightarrow> parse_answer known b' (f node ts)"
  shows "parse_answer known b' (then_parse r f)"
  using assms by (auto simp: parse_answer_def then_parse_def split: option.splits sum.splits prod.splits)

lemma parse_answer_simps [simp]:
  "parse_answer known b None" "parse_answer known b syntax_error"
  "parse_answer known b (Some (Inr (node, ts))) \<longleftrightarrow> node_names node \<subseteq> b \<union> Collect known"
  by (simp_all add: parse_answer_def syntax_error_def)

lemma parse_answer_mono: "parse_answer known b r \<Longrightarrow> b \<subseteq> b' \<union> Collect known \<Longrightarrow> parse_answer known b' r"
  by (auto simp: parse_answer_def split: option.splits sum.splits)

lemma parse_answers: "parse_answer known (names_before nt) (parse known n nt ts)"
proof (induction n arbitrary: nt ts)
  case (Suc n)
  have steps: "parse_answer known {} (parse known n ParseOr ts)" "parse_answer known {} (parse known n ParseAnd ts)"
    "parse_answer known {} (parse known n ParseUnary ts)"
    "node_names c \<subseteq> b \<union> Collect known \<Longrightarrow> parse_answer known b (parse known n (OrLoop c) ts)"
    "node_names c \<subseteq> b \<union> Collect known \<Longrightarrow> parse_answer known b (parse known n (AndLoop c) ts)" for ts b c
    using Suc.IH [of ParseOr] Suc.IH [of ParseAnd] Suc.IH [of ParseUnary]
      parse_answer_mono [OF Suc.IH [of "OrLoop c"]] parse_answer_mono [OF Suc.IH [of "AndLoop c"]] by simp_all
  note seq = then_parse_answer [OF steps(1)] then_parse_answer [OF steps(2)] then_parse_answer [OF steps(3)]
  show ?case
  proof (cases nt)
    case ParseOr
    then show ?thesis by simp (intro seq steps, simp)
  next
    case (OrLoop left)
    then show ?thesis by simp (intro impI seq steps, auto)
  next
    case ParseAnd
    then show ?thesis by simp (intro seq steps, simp)
  next
    case (AndLoop left)
    then show ?thesis by simp (intro impI seq steps, auto)
  next
    case ParseUnary
    show ?thesis
    proof (cases "peek ''not'' ts \<or> peek ''('' ts")
      case True
      then show ?thesis
        by (auto simp: ParseUnary intro!: seq)
    next
      case False
      then show ?thesis by (auto simp: ParseUnary split: list.split)
    qed
  qed
qed simp

lemma parseCondition_answer:
  "case parseCondition known input of
     Inl e \<Rightarrow> e = ErrInvalidRule
   | Inr node \<Rightarrow> node_names node \<subseteq> Collect known"
proof -
  let ?ts = "tokenizeCondition input"
  have "parse known (parse_fuel ?ts) ParseOr ?ts \<noteq> None" by (rule parse_total) (simp add: parse_fuel_def)
  moreover have "parse_answer known {} (parse known (parse_fuel ?ts) ParseOr ?ts)"
    using parse_answers [of known ParseOr] by simp
  ultimately show ?thesis
    by (auto simp: parseCondition_def parse_tokens_def parse_answer_def split: option.splits sum.splits if_splits)
qed

text \<open>C33. The condition parser answers every input: it never runs out of the fuel the model gives
  it, its only error is the invalid-rule error, and a tree it returns refers to known selections only.\<close>

theorem parseCondition_total:
  "case parseCondition known input of
     Inl e \<Rightarrow> e = ErrInvalidRule
   | Inr node \<Rightarrow> node_names node \<subseteq> Collect known"
  by (rule parseCondition_answer)

text \<open>C32. Printing a condition with the parentheses its operators need and parsing the tokens gives
  the condition back: precedence and left associativity are the parser's, whatever the nesting.\<close>

theorem condition_roundtrip:
  "good_names known c \<Longrightarrow> parse_tokens known (print_node 0 c) = Inr c"
  by (rule parse_print)

theorem condition_roundtrip_witness:
  "parse_tokens (\<lambda>s. s \<in> {''a'', ''b'', ''c''})
     (print_node 0 (AndNode (OrNode (SelectionNode ''a'') (NotNode (SelectionNode ''b''))) (SelectionNode ''c''))) =
   Inr (AndNode (OrNode (SelectionNode ''a'') (NotNode (SelectionNode ''b''))) (SelectionNode ''c''))"
proof (rule condition_roundtrip)
  have "\<not> keyword ''a''" "\<not> keyword ''b''" "\<not> keyword ''c''" by code_simp+
  then show "good_names (\<lambda>s. s \<in> {''a'', ''b'', ''c''})
     (AndNode (OrNode (SelectionNode ''a'') (NotNode (SelectionNode ''b''))) (SelectionNode ''c''))"
    by simp
qed

subsection \<open>Compiled correlations\<close>

lemma map_ok_Inr: "map_ok f xs = Inr ys \<longleftrightarrow> list_all2 (\<lambda>x y. f x = Inr y) xs ys"
  by (induction xs arbitrary: ys) (auto simp: bind_ok_eq_Inr list_all2_Cons1)

lemma map_ok_image: "map_ok f xs = Inr ys \<Longrightarrow> y \<in> set ys \<Longrightarrow> \<exists>x \<in> set xs. f x = Inr y"
  by (simp add: map_ok_Inr list_all2_conv_all_nth) (metis in_set_conv_nth)

lemma rule_reference_Inr: "rule_reference rid raw = Inr v \<Longrightarrow> v \<noteq> [] \<and> v \<noteq> rid"
  by (auto simp: rule_reference_def Let_def)

lemma group_field_Inr: "group_field raw = Inr v \<Longrightarrow> v \<noteq> [] \<and> length v \<le> 128"
  by (auto simp: group_field_def Let_def)

definition counting_kind :: "string \<Rightarrow> bool" where
  "counting_kind kind \<longleftrightarrow> kind = CorrelationEventCount \<or> kind = CorrelationValueCount"

lemma timespan_seconds:
  "go_second \<le> d \<Longrightarrow> d \<le> 24 * hour \<Longrightarrow> 1 \<le> d div go_second \<and> d div go_second \<le> 24 * hour div go_second"
  by (simp add: go_second_def hour_def minute_def pos_imp_zdiv_pos_iff zdiv_mono1 int_one_le_iff_zero_less)

text \<open>A correlation the compiler accepts is bounded: it has one of the four kinds, 1 to 32 distinct
  rule references (at least two where it is temporal), none of them blank or the rule itself, a window
  of 1 to 86400 seconds, the range that the correlation store admits, at most eight group fields, and a threshold
  from 2 to a million that for a temporal correlation is the number of its rules.\<close>

theorem compileCorrelation_bounds:
  assumes "compileCorrelation rid doc = Inr spec"
  shows "cs_type spec \<in> set correlation_kinds \<and>
    distinct (cs_rules spec) \<and> [] \<notin> set (cs_rules spec) \<and> rid \<notin> set (cs_rules spec) \<and>
    (if counting_kind (cs_type spec) then 1 else 2) \<le> length (cs_rules spec) \<and> length (cs_rules spec) \<le> 32 \<and>
    1 \<le> cs_timespan spec \<and> cs_timespan spec \<le> 24 * hour div go_second \<and>
    length (cs_group_by spec) \<le> 8 \<and> (\<forall>f \<in> set (cs_group_by spec). f \<noteq> [] \<and> length f \<le> 128) \<and>
    2 \<le> cs_threshold spec \<and> cs_threshold spec \<le> 1000000 \<and>
    (\<not> counting_kind (cs_type spec) \<longrightarrow> cs_threshold spec = int (length (cs_rules spec))) \<and>
    (cs_type spec = CorrelationValueCount \<longrightarrow> cs_value_field spec \<noteq> [])"
proof -
  define kind where "kind = to_lower (replace_char (CHR ''-'') (CHR ''_'') (trim_space (sc_type doc)))"
  from assms obtain raw_rules refs timespan group_by
    where kind: "kind \<in> set correlation_kinds"
      and refs: "map_ok (rule_reference rid) raw_rules = Inr refs"
      and rules: "add_unseen [] refs \<noteq> []" "length (add_unseen [] refs) \<le> 32"
        "counting_kind kind \<or> 2 \<le> length (add_unseen [] refs)"
      and t: "go_second \<le> timespan" "timespan \<le> 24 * hour"
      and g: "map_ok group_field (sc_group_by doc) = Inr group_by" "length group_by \<le> 8"
      and n: "counting_kind kind \<longrightarrow> 2 \<le> sc_gte doc \<and> sc_gte doc \<le> 1000000"
      and v: "kind = CorrelationValueCount \<longrightarrow> trim_space (sc_field doc) \<noteq> []"
      and spec: "spec = \<lparr>cs_type = kind, cs_rules = add_unseen [] refs, cs_group_by = group_by,
        cs_value_field = trim_space (sc_field doc), cs_timespan = timespan div go_second,
        cs_threshold = (if counting_kind kind then sc_gte doc else int (length (add_unseen [] refs)))\<rparr>"
    unfolding compileCorrelation_def Let_def kind_def [symmetric] counting_kind_def
    by (simp only: guard_Inr bind_ok_eq_Inr) (elim exE conjE, simp only: guard_Inr bind_ok_eq_Inr not_less not_le
        de_Morgan_conj de_Morgan_disj not_not split: option.splits, auto simp: bind_ok_eq_Inr not_less not_le)
  have r: "x \<noteq> [] \<and> x \<noteq> rid" if "x \<in> set refs" for x
    using map_ok_image [OF refs that] rule_reference_Inr by blast
  have f: "x \<noteq> [] \<and> length x \<le> 128" if "x \<in> set group_by" for x
    using map_ok_image [OF g(1) that] group_field_Inr by blast
  have "1 \<le> length (add_unseen [] refs)" using rules(1) by (cases "add_unseen [] refs") auto
  then show ?thesis
    using kind rules timespan_seconds [OF t] g(2) n v f r unfolding spec by auto
qed

theorem compileCorrelation_bounds_witness:
  "let spec = \<lparr>cs_type = ''temporal'', cs_rules = [''a'', ''b''], cs_group_by = [''user.name''], cs_value_field = [],
               cs_timespan = 90, cs_threshold = 2\<rparr>
   in compileCorrelation ''c'' \<lparr>sc_type = ''Temporal'', sc_rules = JArr [JStr ''a'', JStr ''b'', JStr ''a''],
        sc_group_by = ['' user.name''], sc_timespan = ''1m30s'', sc_gte = 0, sc_field = []\<rparr> = Inr spec \<and>
      2 \<le> cs_threshold spec \<and> cs_timespan spec \<le> 24 * hour div go_second"
proof -
  have "compileCorrelation ''c'' \<lparr>sc_type = ''Temporal'', sc_rules = JArr [JStr ''a'', JStr ''b'', JStr ''a''],
        sc_group_by = ['' user.name''], sc_timespan = ''1m30s'', sc_gte = 0, sc_field = []\<rparr> =
      Inr \<lparr>cs_type = ''temporal'', cs_rules = [''a'', ''b''], cs_group_by = [''user.name''], cs_value_field = [],
               cs_timespan = 90, cs_threshold = 2\<rparr>"
    by code_simp
  from this compileCorrelation_bounds [OF this] show ?thesis by simp
qed

subsection \<open>Compiled rules\<close>

text \<open>What every compiled selection satisfies: it has alternatives, each has predicates in the order
  of their fields, and a predicate has a field and values, so that no predicate holds vacuously.\<close>

definition predicate_wf :: "field_predicate \<Rightarrow> bool" where
  "predicate_wf p \<longleftrightarrow> fp_field p \<noteq> [] \<and> fp_values p \<noteq> [] \<and>
     fp_modifier p \<in> {''equals'', ''contains'', ''startswith'', ''endswith''}"

definition alternative_wf :: "selection_alternative \<Rightarrow> bool" where
  "alternative_wf alt \<longleftrightarrow> alt \<noteq> [] \<and> sorted (map fp_field alt) \<and> (\<forall>p \<in> set alt. predicate_wf p)"

definition selection_wf :: "compiled_selection \<Rightarrow> bool" where
  "selection_wf alts \<longleftrightarrow> alts \<noteq> [] \<and> (\<forall>alt \<in> set alts. alternative_wf alt)"

lemma scalarValues_nonempty: "scalarValues raw = Inr vs \<Longrightarrow> vs \<noteq> []"
  by (auto simp: scalarValues_def Let_def map_ok_Inr)

lemma apply_modifiers_keeps:
  "apply_modifiers ms p = Inr q \<Longrightarrow>
     fp_field q = fp_field p \<and> (fp_modifier q = fp_modifier p \<or> fp_modifier q \<in> {''contains'', ''startswith'', ''endswith''})"
proof (induction ms arbitrary: p)
  case (Cons m ms)
  define k where "k = to_lower (trim_space m)"
  from Cons.prems consider "k \<in> {''contains'', ''startswith'', ''endswith''}" "apply_modifiers ms (p\<lparr>fp_modifier := k\<rparr>) = Inr q"
    | "apply_modifiers ms (p\<lparr>fp_all := True\<rparr>) = Inr q"
    by (simp only: apply_modifiers.simps Let_def k_def [symmetric]) (auto split: if_splits)
  then show ?case by cases (use Cons.IH in fastforce)+
qed simp

lemma compile_predicate_wf: "compile_predicate entry = Inr p \<Longrightarrow> predicate_wf p"
  unfolding compile_predicate_def Let_def predicate_wf_def
  by (auto simp: bind_ok_eq_Inr dest!: apply_modifiers_keeps scalarValues_nonempty)

lemma map_ok_all: "map_ok f xs = Inr ys \<Longrightarrow> (\<And>x y. f x = Inr y \<Longrightarrow> P y) \<Longrightarrow> y \<in> set ys \<Longrightarrow> P y"
  using map_ok_image by fastforce

lemma compileAlternative_wf:
  assumes "compileAlternative mapping = Inr alt"
  shows "alternative_wf alt"
proof -
  from assms obtain ps where ps: "map_ok compile_predicate mapping = Inr ps" "ps \<noteq> []" "alt = sort_key fp_field ps"
    by (auto simp: compileAlternative_def bind_ok_eq_Inr)
  have "predicate_wf p" if "p \<in> set ps" for p
    using ps(1) compile_predicate_wf that by (rule map_ok_all)
  moreover have "alt \<noteq> []" using ps(2,3) by (metis length_0_conv length_sort)
  ultimately show ?thesis by (simp add: alternative_wf_def ps(3))
qed

lemma compileSelection_wf:
  assumes "compileSelection raw = Inr alts"
  shows "selection_wf alts"
proof (cases raw)
  case (JObj mapping)
  with assms show ?thesis
    by (auto simp: compileSelection_def bind_ok_eq_Inr selection_wf_def compileAlternative_wf)
next
  case (JArr items)
  with assms have items: "map_ok (\<lambda>item. case item of JObj mapping \<Rightarrow> compileAlternative mapping | _ \<Rightarrow> Inl ErrInvalidRule) items
      = Inr alts" and "alts \<noteq> []"
    by (auto simp: compileSelection_def bind_ok_eq_Inr)
  moreover have "alternative_wf alt" if "alt \<in> set alts" for alt
    using items _ that by (rule map_ok_all) (auto split: json.splits intro: compileAlternative_wf)
  ultimately show ?thesis by (simp add: selection_wf_def)
qed (use assms in \<open>simp_all add: compileSelection_def\<close>)

lemma compile_detection_Inr:
  assumes "compile_detection doc = Inr (selections, node)"
  shows "selections \<noteq> []" "\<forall>(name, alts) \<in> set selections. selection_wf alts"
    "node_names node \<subseteq> fst ` set selections"
proof -
  from assms obtain expanded where
    named: "map_ok compile_named
            (filter (\<lambda>(name, _). name \<noteq> ''condition'' \<and> name \<noteq> ''timeframe'') (sd_detection doc)) = Inr selections"
    and ne: "selections \<noteq> []"
    and node: "parseCondition (\<lambda>name. name \<in> set (map fst selections)) expanded = Inr node"
    by (auto simp: compile_detection_def bind_ok_eq_Inr)
  show "selections \<noteq> []" by (rule ne)
  have "selection_wf (snd s)" if "s \<in> set selections" for s
    using named _ that
    by (rule map_ok_all) (auto simp: compile_named_def bind_ok_eq_Inr compileSelection_wf)
  then show "\<forall>(name, alts) \<in> set selections. selection_wf alts" by auto
  show "node_names node \<subseteq> fst ` set selections"
    using parseCondition_answer [of "\<lambda>name. name \<in> set (map fst selections)" expanded] node by auto
qed

lemma Compile_detection:
  assumes "Compile decode content = Inr rule" "\<not> IsCorrelation rule"
  obtains doc node where "compile_detection doc = Inr (cp_selections rule, node)" "cp_condition rule = Some node"
    "cp_correlation rule = None"
proof -
  from assms(1) obtain doc where doc: "decode (dc_sigma_yaml content) = Some doc"
    by (auto simp: Compile_def split: option.splits)
  have "sd_correlation doc = None"
    using assms doc by (auto simp: Compile_def IsCorrelation_def Let_def bind_ok_eq_Inr split: option.splits)
  with assms(1) doc show thesis
    by (auto simp: Compile_def Let_def bind_ok_eq_Inr intro: that)
qed

text \<open>The selection's meaning on an event: an alternative of which every predicate holds.\<close>

definition selection_holds :: "compiled_rule \<Rightarrow> canonical_event \<Rightarrow> string \<Rightarrow> bool" where
  "selection_holds rule event name \<longleftrightarrow>
     (\<exists>alts. map_of (cp_selections rule) name = Some alts \<and>
        (\<exists>alt \<in> set alts. \<forall>p \<in> set alt. predicate_evaluate p event))"

lemma selection_results_holds: "selection_results rule event = selection_holds rule event"
  by (rule ext) (simp add: selection_results_def selection_holds_def selection_evaluate_iff split: option.split)

definition evidence_fields :: "compiled_rule \<Rightarrow> canonical_event \<Rightarrow> string set" where
  "evidence_fields rule event =
    {fp_field p | p alt alts name. (name, alts) \<in> set (cp_selections rule) \<and> alt \<in> set alts \<and> p \<in> set alt \<and>
       predicate_evaluate p event}"

lemma selection_evidence:
  "selection_evaluate alts event = (True, fs) \<Longrightarrow>
     \<exists>alt \<in> set alts. (\<forall>p \<in> set alt. predicate_evaluate p event) \<and> fs = map fp_field alt"
  by (induction alts) (auto simp: list_all_iff split: if_splits)

lemma matched_fields_evidence: "set (matched_fields rule event) \<subseteq> evidence_fields rule event"
proof
  fix f assume "f \<in> set (matched_fields rule event)"
  then obtain name alts where sel: "(name, alts) \<in> set (cp_selections rule)"
    and "f \<in> set (let (ok, fs) = selection_evaluate alts event in if ok then fs else [])"
    by (auto simp: matched_fields_def)
  then obtain fs where "selection_evaluate alts event = (True, fs)" "f \<in> set fs"
    by (cases "selection_evaluate alts event") (auto split: if_splits)
  with selection_evidence obtain alt p where "alt \<in> set alts" "p \<in> set alt" "predicate_evaluate p event" "f = fp_field p"
    by fastforce
  with sel show "f \<in> evidence_fields rule event" unfolding evidence_fields_def by blast
qed


definition sample_document :: sigma_document where
  "sample_document =
    \<lparr>sd_title = ''Encoded PowerShell'', sd_id = '' R-1 '', sd_description = [], sd_author = JNull, sd_level = ''High'',
     sd_confidence = 0, sd_tags = [''attack.t1059''], sd_false_positives = [], sd_log_source = [],
     sd_detection = [(''sel'', JObj [(''process.command_line|contains'', JStr ''-enc'')]),
                     (''admin'', JObj [(''user.is_privileged'', JBool True)]),
                     (''condition'', JStr ''sel and not admin'')],
     sd_correlation = None\<rparr>"

definition sample_content :: detection_content where
  "sample_content = \<lparr>dc_tenant = ''t'', dc_rule_id = ''R-1'', dc_version = ''1'', dc_state = ''production'',
     dc_sigma_yaml = [], dc_updated_at = 0\<rparr>"

definition sample_rule :: compiled_rule where
  "sample_rule =
    \<lparr>cp_rule = compiled_metadata sample_content sample_document ''R-1'' ''Encoded PowerShell'',
     cp_selections =
       [(''sel'', [[\<lparr>fp_field = ''process.command_line'', fp_modifier = ''contains'', fp_all = False, fp_values = [''-enc'']\<rparr>]]),
        (''admin'', [[\<lparr>fp_field = ''user.is_privileged'', fp_modifier = ''equals'', fp_all = False, fp_values = [''true'']\<rparr>]])],
     cp_condition = Some (AndNode (SelectionNode ''sel'') (NotNode (SelectionNode ''admin''))), cp_correlation = None\<rparr>"

lemma compile_sample:
  "compile_detection sample_document =
     Inr (cp_selections sample_rule, AndNode (SelectionNode ''sel'') (NotNode (SelectionNode ''admin'')))"
  by code_simp

lemma Compile_sample: "Compile (\<lambda>_. Some sample_document) sample_content = Inr sample_rule"
proof -
  have "trim_space (sd_id sample_document) = ''R-1''" "trim_space (sd_title sample_document) = ''Encoded PowerShell''"
    "trim_space (dc_version sample_content) = ''1''" by code_simp+
  moreover have "sd_correlation sample_document = None" "dc_rule_id sample_content = ''R-1''"
    by (simp_all add: sample_document_def sample_content_def)
  moreover have "cp_rule sample_rule = compiled_metadata sample_content sample_document ''R-1'' ''Encoded PowerShell''"
    "cp_condition sample_rule = Some (AndNode (SelectionNode ''sel'') (NotNode (SelectionNode ''admin'')))"
    "cp_correlation sample_rule = None"
    by (simp_all add: sample_rule_def)
  ultimately show ?thesis by (simp add: Compile_def Let_def compile_sample)
qed


subsection \<open>Wildcards\<close>

definition normal_path :: "string \<Rightarrow> string" where
  "normal_path s = replace_char bslash slash (to_lower s)"

lemma normal_path_star: "normal_path (CHR ''*'' # p) = CHR ''*'' # normal_path p"
  by (simp add: normal_path_def to_lower.simps replace_char_def lower_byte_def bslash_def)

text \<open>A leading wildcard does not cross path separators: the pattern \<^verbatim>\<open>*p\<close> matches a value iff the
  value ends in \<^verbatim>\<open>p\<close>, in lower case, and what stands before holds neither a slash nor a backslash. So
  \<^verbatim>\<open>*\powershell.exe\<close> matches no program two directories deep, which Sigma's wildcard does.\<close>

theorem wildcard_stops_at_separators:
  assumes "ordinary (normal_path p)"
  shows "matchValue actual (CHR ''*'' # p) ''equals'' \<longleftrightarrow>
    (\<exists>t. normal_path actual = t @ normal_path p \<and> slash \<notin> set t)"
proof -
  have "to_lower (CHR ''*'' # p) = CHR ''*'' # to_lower p" by (simp add: to_lower.simps lower_byte_def)
  then have "matchValue actual (CHR ''*'' # p) ''equals'' = path_match (CHR ''*'' # normal_path p) (normal_path actual)"
    by (simp add: matchValue_def Let_def normal_path_def replace_char_def bslash_def)
  also have "\<dots> \<longleftrightarrow> (\<exists>t. normal_path actual = t @ normal_path p \<and> slash \<notin> set t)"
    unfolding path_match_def by (rule path_match_star_ordinary [OF assms]) simp
  finally show ?thesis .
qed

theorem wildcard_stops_at_separators_witness:
  "\<not> matchValue (''C:'' @ bslash # ''Windows'' @ bslash # ''PowerShell.exe'')
     (CHR ''*'' # bslash # ''powershell.exe'') ''equals'' \<and>
   matchValue (''C:'' @ bslash # ''PowerShell.exe'') (CHR ''*'' # bslash # ''powershell.exe'') ''equals''"
proof -
  have o: "ordinary (normal_path (bslash # ''powershell.exe''))" by code_simp
  have n: "normal_path (''C:'' @ bslash # ''Windows'' @ bslash # ''PowerShell.exe'') = ''c:/windows'' @ normal_path (bslash # ''powershell.exe'')"
    "normal_path (''C:'' @ bslash # ''PowerShell.exe'') = ''c:'' @ normal_path (bslash # ''powershell.exe'')"
    by code_simp+
  show ?thesis
    unfolding wildcard_stops_at_separators [OF o] n by (simp add: slash_def)
qed

end
