(* ===== verification/Engine.thy ===== *)
theory Engine
  imports Sigma_Compiler Repository Op_Relations
begin

text \<open>
  The detection pipeline, \<^verbatim>\<open>internal/pipeline/engine.go\<close>: normalization of an event, built-in and
  published detections, threat intelligence and behaviour matches, correlation, and what one
  ingested event leaves in the store. The store is a port: five required operations and the optional
  ones that the engine finds by type assertion, \<open>None\<close> where the store does not implement them.
  Metrics are not state of the model.
\<close>

subsection \<open>Data of the providers\<close>

record threat_match =
  ti_id :: string
  ti_tenant :: tenant
  ti_indicator :: string
  ti_indicator_version :: int
  ti_feed :: string
  ti_event :: string
  ti_type :: string
  ti_value :: string
  ti_field :: string
  ti_matched_value :: string
  ti_confidence :: int
  ti_reputation :: string
  ti_matched_at :: time

text \<open>The frequency of a feature is the text of a \<^verbatim>\<open>float64\<close>; the engine does not read it.\<close>

record ueba_feature =
  uf_code :: string
  uf_field :: string
  uf_value :: string
  uf_score :: int
  uf_frequency :: string
  uf_explanation :: string

record ueba_anomaly =
  ua_id :: string
  ua_tenant :: tenant
  ua_event :: string
  ua_entity_type :: string
  ua_entity_id :: string
  ua_entity_name :: string
  ua_peer_group :: string
  ua_title :: string
  ua_severity :: severity
  ua_risk_score :: int
  ua_confidence :: int
  ua_features :: "ueba_feature list"
  ua_explanation :: json
  ua_model_version :: string
  ua_feature_version :: string
  ua_training_window_days :: int
  ua_baseline_observations :: int
  ua_status :: string
  ua_version :: int
  ua_feedback_by :: string
  ua_feedback_reason :: string
  ua_feedback_at :: "time option"
  ua_created_at :: time
  ua_updated_at :: time

subsection \<open>The port and the engine's own state\<close>

record 's engine_port =
  ep_SetRules :: "detection_rule list \<Rightarrow> ('s, unit) op"
  ep_PutEvent :: "canonical_event \<Rightarrow> ('s, canonical_event \<times> bool) op"
  ep_PutFinding :: "finding \<Rightarrow> ('s, unit) op"
  ep_UpsertAlert :: "alert \<Rightarrow> string \<Rightarrow> duration \<Rightarrow> ('s, alert \<times> bool) op"
  ep_AppendAudit :: "audit_entry \<Rightarrow> ('s, audit_entry) op"
  ep_ObserveEntityEvent :: "(canonical_event \<Rightarrow> ('s, unit) op) option"
  ep_PublishedDetectionContent :: "(tenant \<Rightarrow> ('s, detection_content list) op) option"
  ep_ObserveCorrelation :: "(correlation_observation \<Rightarrow> ('s, correlation_evaluation) op) option"
  ep_MatchThreatIntelEvent :: "(canonical_event \<Rightarrow> ('s, threat_match list) op) option"
  ep_ObserveUEBAEvent :: "(canonical_event \<Rightarrow> ('s, ueba_anomaly option) op) option"
  ep_decode :: "string \<Rightarrow> sigma_document option"

record dynamic_snapshot =
  ds_rules :: "compiled_rule list"
  ds_loaded_at :: time

record engine =
  eg_rules :: "string \<Rightarrow> detection_rule option"
  eg_dynamic :: "tenant \<Rightarrow> dynamic_snapshot option"
  eg_correlation :: correlation_state

text \<open>An operation of the store, and one of the engine's own correlation memory, on both.\<close>

definition on_store :: "('s, 'a) op \<Rightarrow> ('s \<times> 'e, 'a) op" where
  "on_store f sew = (case sew of ((s, e), w) \<Rightarrow> (let (r, (s', w')) = f (s, w) in (r, ((s', e), w'))))"

definition on_correlation :: "(correlation_state, 'a) op \<Rightarrow> ('s \<times> engine, 'a) op" where
  "on_correlation f sew =
    (case sew of ((s, e), w) \<Rightarrow>
       (let (r, (c, w')) = f (eg_correlation e, w) in (r, ((s, e\<lparr>eg_correlation := c\<rparr>), w'))))"

definition op_get :: "('s, 's) op" where
  "op_get sw = (Inr (fst sw), sw)"

definition op_update :: "('s \<Rightarrow> 's) \<Rightarrow> ('s, unit) op" where
  "op_update f sw = (Inr (), (f (fst sw), snd sw))"

record detection_match =
  dm_rule :: detection_rule
  dm_fields :: "string list"
  dm_factors :: "risk_factor list"
  dm_events :: "string list"
  dm_dedup :: string
  dm_reference :: string

subsection \<open>Built-in rules\<close>

definition PowerShellRuleID :: string where "PowerShellRuleID = ''KCSP-WIN-PS-001''"
definition AuthRuleID :: string where "AuthRuleID = ''KCSP-AUTH-THRESHOLD-001''"
definition ThreatIntelRuleID :: string where "ThreatIntelRuleID = ''KCSP-TI-IOC-MATCH''"
definition UEBARuleID :: string where "UEBARuleID = ''KCSP-UEBA-BEHAVIOR-DEVIATION''"
definition authBaseRuleID :: string where "authBaseRuleID = ''KCSP-AUTH-FAILURE-BASE''"

definition builtin_rule ::
  "time \<Rightarrow> string \<Rightarrow> string \<Rightarrow> string \<Rightarrow> severity \<Rightarrow> int \<Rightarrow> string list \<Rightarrow> string list \<Rightarrow> string \<Rightarrow> string \<Rightarrow> detection_rule" where
  "builtin_rule now i title description sev conf mitre sources false_positive owner =
    \<lparr>dr_id = i, dr_title = title, dr_description = description, dr_version = ''1.0.0'', dr_severity = sev,
     dr_confidence = conf, dr_mitre = mitre, dr_data_sources = sources, dr_false_positives = [false_positive],
     dr_owner = owner, dr_state = ''PUBLISHED'', dr_updated_at = now\<rparr>"

definition builtin_rules :: "time \<Rightarrow> detection_rule list" where
  "builtin_rules now =
    [builtin_rule now PowerShellRuleID ''Suspicious PowerShell execution''
       ''Detects encoded or download-oriented PowerShell command lines in process creation telemetry.''
       SeverityHigh 82 [''T1059.001''] [''Sysmon Event ID 1'', ''Windows process creation'']
       ''Approved administration and software deployment tooling'' ''KCSP Detection Engineering'',
     builtin_rule now AuthRuleID ''Authentication failure threshold''
       ''Detects five authentication failures from one source within five minutes.''
       SeverityMedium 74 [''T1110''] [''AD'', ''VPN'', ''RADIUS'']
       ''Stale credentials on a managed service or device'' ''KCSP Detection Engineering'',
     builtin_rule now ThreatIntelRuleID ''Threat intelligence IOC match''
       ''Matches canonical event observables against active, tenant-scoped threat indicators.''
       SeverityMedium 70 [] [''Threat Intelligence'', ''Normalized security events'']
       ''Shared infrastructure, stale intelligence, or low-confidence community feeds'' ''KCSP Threat Intelligence'',
     builtin_rule now UEBARuleID ''Explainable behavior deviation''
       ''Detects deterministic deviations from tenant-scoped rolling user and device baselines.''
       SeverityHigh 70 [] [''Normalized identity, endpoint, network, and process telemetry'']
       ''Role changes, travel, onboarding, and newly deployed administrative tooling'' ''KCSP UEBA'']"

definition NewEngine :: "'s engine_port \<Rightarrow> ('s, engine) op" where
  "NewEngine port =
    op_bind op_now (\<lambda>now.
    op_bind (ep_SetRules port (builtin_rules now)) (\<lambda>_.
    op_return \<lparr>eg_rules = map_of (map (\<lambda>r. (dr_id r, r)) (builtin_rules now)),
               eg_dynamic = (\<lambda>_. None), eg_correlation = NewMemoryCorrelationStore\<rparr>))"

definition engine_ResetTenant :: "tenant \<Rightarrow> engine \<Rightarrow> engine" where
  "engine_ResetTenant t e =
    e\<lparr>eg_dynamic := (eg_dynamic e)(t := None), eg_correlation := correlation_ResetTenant t (eg_correlation e)\<rparr>"

text \<open>A rule of the map; the zero rule where there is none.\<close>

definition zero_rule :: detection_rule where
  "zero_rule =
    \<lparr>dr_id = [], dr_title = [], dr_description = [], dr_version = [], dr_severity = [], dr_confidence = 0,
     dr_mitre = [], dr_data_sources = [], dr_false_positives = [], dr_owner = [], dr_state = [], dr_updated_at = 0\<rparr>"

definition rule_of :: "engine \<Rightarrow> string \<Rightarrow> detection_rule" where
  "rule_of e i = (case eg_rules e i of None \<Rightarrow> zero_rule | Some r \<Rightarrow> r)"

subsection \<open>Normalization\<close>

definition str_field :: "string \<Rightarrow> string \<Rightarrow> (string \<times> json) list" where
  "str_field k v = omit_if (v = []) k (JStr v)"

definition raw_payload :: "canonical_event \<Rightarrow> string" where
  "raw_payload e = marshal (JStruct
    [(''category'', JStr (ev_category e)), (''activity_name'', JStr (ev_activity e)),
     (''source'', JStruct [(''vendor'', JStr (src_vendor (ev_source e))), (''product'', JStr (src_product (ev_source e))),
                           (''type'', JStr (src_type (ev_source e)))]),
     (''user'', JStruct (str_field ''id'' (user_id (ev_user e)) @ str_field ''name'' (user_name (ev_user e)) @
                 omit_if (\<not> is_privileged (ev_user e)) ''is_privileged'' (JBool True))),
     (''device'', JStruct (str_field ''id'' (device_id (ev_device e)) @ str_field ''hostname'' (device_hostname (ev_device e)) @
                   str_field ''ip'' (device_ip (ev_device e)) @ str_field ''department'' (device_department (ev_device e)) @
                   omit_if (device_criticality (ev_device e) = 0) ''criticality'' (JInt (device_criticality (ev_device e))))),
     (''process'', JStruct (str_field ''name'' (process_name (ev_process e)) @
                    omit_if (process_pid (ev_process e) = 0) ''pid'' (JInt (process_pid (ev_process e))) @
                    str_field ''command_line'' (process_command_line (ev_process e)) @
                    str_field ''parent_name'' (process_parent_name (ev_process e))))])"

definition hash_prefix :: string where "hash_prefix = ''sha256:''"

text \<open>The raw reference of an event whose other fields are filled in.\<close>

definition fill_raw :: "canonical_event \<Rightarrow> raw_ref" where
  "fill_raw e =
    (let raw = ev_raw e;
         message = (if raw_message raw = [] then raw_payload e else raw_message raw);
         digest = sha256_hex message
     in raw\<lparr>raw_message := message, raw_hash := hash_prefix @ digest,
            raw_reference := (if raw_reference raw = [] then ''embedded://raw/'' @ digest else raw_reference raw)\<rparr>)"

definition fill_event :: "tenant \<Rightarrow> time \<Rightarrow> string \<Rightarrow> canonical_event \<Rightarrow> canonical_event" where
  "fill_event t now i e =
    (let filled = e\<lparr>ev_id := i, ev_tenant := t,
           ev_time := (if is_zero (ev_time e) then now else ev_time e),
           ev_ingest_time := (if is_zero (ev_ingest_time e) then now else ev_ingest_time e),
           ev_collector := (if ev_collector e = [] then ''collector-http-dev'' else ev_collector e),
           ev_schema := (ev_schema e)\<lparr>ocsf_version :=
             (if ocsf_version (ev_schema e) = [] then ''KCSP-OCSF-compatible-v0.1'' else ocsf_version (ev_schema e))\<rparr>,
           ev_parser := (if parser_id (ev_parser e) = []
                         then \<lparr>parser_id = ''embedded-json'', parser_version = ''0.1.0''\<rparr> else ev_parser e)\<rparr>
     in filled\<lparr>ev_raw := fill_raw filled\<rparr>)"

definition normalize :: "tenant \<Rightarrow> canonical_event \<Rightarrow> ('s, canonical_event) op" where
  "normalize t input =
    (if trim_space t = [] then op_fail ErrInvalidEvent
     else if trim_space (ev_category input) = [] then op_fail ErrInvalidEvent
     else if src_type (ev_source input) = [] then op_fail ErrInvalidEvent
     else op_bind op_now (\<lambda>now.
          op_bind (if ev_id input = [] then op_new_id ''evt'' else op_return (ev_id input)) (\<lambda>i.
          op_return (fill_event t now i input))))"

subsection \<open>Risk factors\<close>

definition severityRisk :: "severity \<Rightarrow> int" where
  "severityRisk s =
    (if s = SeverityCritical then 65 else if s = SeverityHigh then 50
     else if s = SeverityMedium then 35 else if s = SeverityLow then 20 else 10)"

definition powershell_tokens :: "(string \<times> string \<times> string \<times> int) list" where
  "powershell_tokens =
    [(''encodedcommand'', ''encoded_command'', ''Encoded PowerShell command'', 15),
     ('' -enc '', ''encoded_command'', ''Encoded PowerShell command'', 15),
     (''frombase64string'', ''base64_decode'', ''In-memory Base64 decoding'', 12),
     (''downloadstring'', ''download_cradle'', ''PowerShell download cradle'', 12),
     (''invoke-webrequest'', ''web_request'', ''PowerShell web request'', 10),
     ('' iwr '', ''web_request'', ''PowerShell web request alias'', 10),
     (''iex '', ''dynamic_execution'', ''Dynamic command execution'', 10)]"

text \<open>The loop over the tokens: \<open>acc\<close> holds the factors found, whose codes have been seen.\<close>

fun token_factors :: "string \<Rightarrow> (string \<times> string \<times> string \<times> int) list \<Rightarrow> risk_factor list \<Rightarrow> risk_factor list" where
  "token_factors text [] acc = acc"
| "token_factors text ((value, code, label, delta) # tokens) acc =
     token_factors text tokens
       (if contains text value \<and> code \<notin> rf_code ` set acc
        then acc @ [risk_factor code label delta ''process.command_line''] else acc)"

definition suspiciousPowerShell :: "canonical_event \<Rightarrow> string list \<times> risk_factor list" where
  "suspiciousPowerShell e =
    (let name = to_lower (process_name (ev_process e))
     in if \<not> contains name ''powershell'' \<and> \<not> contains name ''pwsh'' then ([], [])
        else (let factors = token_factors ('' '' @ to_lower (process_command_line (ev_process e)) @ '' '') powershell_tokens []
              in (map (\<lambda>_. ''process.command_line'') factors, factors)))"

definition contextFactors :: "canonical_event \<Rightarrow> risk_factor list" where
  "contextFactors e =
    (if 4 \<le> device_criticality (ev_device e)
     then [risk_factor ''critical_asset'' ''Critical university asset'' 20 (device_hostname (ev_device e))] else []) @
    (if is_privileged (ev_user e)
     then [risk_factor ''privileged_user'' ''Privileged identity involved'' 15 (user_name (ev_user e))] else [])"

subsection \<open>Detections\<close>

definition powershell_matches :: "engine \<Rightarrow> canonical_event \<Rightarrow> detection_match list" where
  "powershell_matches e event =
    (case suspiciousPowerShell event of (fs, found) \<Rightarrow>
       if fs = [] then []
       else [\<lparr>dm_rule = rule_of e PowerShellRuleID, dm_fields = fs,
              dm_factors =
                [risk_factor ''base_severity'' ''High-confidence process detection'' 30 PowerShellRuleID,
                 risk_factor ''rule_confidence'' ''Validated rule confidence'' 20 (PowerShellRuleID @ ''@1.0.0'')]
                @ found @ contextFactors event,
              dm_events = [ev_id event], dm_dedup = [], dm_reference = []\<rparr>])"

definition engine_observeCorrelation ::
  "'s engine_port \<Rightarrow> correlation_observation \<Rightarrow> ('s \<times> engine, correlation_evaluation) op" where
  "engine_observeCorrelation port observation =
    (case ep_ObserveCorrelation port of
       Some f \<Rightarrow> on_store (f observation)
     | None \<Rightarrow> on_correlation (ObserveCorrelation observation))"

definition auth_source :: "canonical_event \<Rightarrow> string" where
  "auth_source e = (if endpoint_ip (ev_src e) = [] then device_ip (ev_device e) else endpoint_ip (ev_src e))"

definition auth_group :: "canonical_event \<Rightarrow> string" where
  "auth_group e =
    (case CorrelationGroup (e\<lparr>ev_src := (ev_src e)\<lparr>endpoint_ip := auth_source e\<rparr>\<rparr>) [''src_endpoint.ip''] of
       None \<Rightarrow> [] | Some g \<Rightarrow> g)"

definition auth_spec :: correlation_spec where
  "auth_spec = \<lparr>cs_type = CorrelationEventCount, cs_rules = [authBaseRuleID], cs_group_by = [''src_endpoint.ip''],
    cs_value_field = [], cs_timespan = 5 * minute div go_second, cs_threshold = 5\<rparr>"

definition auth_observation :: "canonical_event \<Rightarrow> correlation_observation" where
  "auth_observation e =
    \<lparr>co_tenant = ev_tenant e, co_rule = AuthRuleID, co_version = ''1.0.0'', co_group = auth_group e,
     co_sources = [authBaseRuleID], co_event = ev_id e, co_time = ev_time e,
     co_value = user_name (ev_user e), co_spec = auth_spec\<rparr>"

definition auth_failure :: "canonical_event \<Rightarrow> bool" where
  "auth_failure e \<longleftrightarrow> equal_fold (ev_category e) ''authentication'' \<and> equal_fold (sr_outcome (ev_result e)) ''failure'' \<and>
     auth_source e \<noteq> []"

definition auth_factors :: "canonical_event \<Rightarrow> correlation_evaluation \<Rightarrow> risk_factor list" where
  "auth_factors e evaluation =
    [risk_factor ''base_severity'' ''Authentication threshold reached'' 35 AuthRuleID,
     risk_factor ''rule_confidence'' ''Threshold confidence'' 20 (AuthRuleID @ ''@1.0.0'')] @
    (if 3 \<le> ce_distinct evaluation
     then [risk_factor ''multiple_accounts'' ''Multiple accounts targeted'' 15 (auth_source e)] else []) @
    contextFactors e"

definition observeAuthenticationFailure ::
  "'s engine_port \<Rightarrow> canonical_event \<Rightarrow> ('s \<times> engine, correlation_evaluation \<times> string list \<times> risk_factor list) op" where
  "observeAuthenticationFailure port e =
    (if \<not> auth_failure e then op_return (no_evaluation, [], [])
     else op_bind (engine_observeCorrelation port (auth_observation e)) (\<lambda>evaluation.
       if \<not> ce_triggered evaluation then op_return (evaluation, [], [])
       else op_return (evaluation, [''security_result.outcome'', ''src_endpoint.ip'', ''user.name''],
                       auth_factors e evaluation)))"

text \<open>
  Threat intelligence: the matches are grouped by indicator, in the order of the first match, each
  with its distinct fields.
\<close>

fun group_indicators :: "(threat_match \<times> string list) list \<Rightarrow> threat_match list \<Rightarrow> (threat_match \<times> string list) list" where
  "group_indicators acc [] = acc"
| "group_indicators acc (m # ms) =
     (let known = (\<exists>g \<in> set acc. ti_indicator (fst g) = ti_indicator m);
          acc1 = (if known then acc else acc @ [(m, [])])
      in group_indicators
           (map (\<lambda>(i, fs). if ti_indicator i = ti_indicator m \<and> ti_field m \<noteq> [] then (i, add_unseen fs [ti_field m]) else (i, fs)) acc1)
           ms)"

definition reputation_delta :: "string \<Rightarrow> int" where
  "reputation_delta r = (if r = ''MALICIOUS'' then 25 else if r = ''SUSPICIOUS'' then 15 else 5)"

definition indicator_match :: "engine \<Rightarrow> canonical_event \<Rightarrow> threat_match \<times> string list \<Rightarrow> detection_match" where
  "indicator_match e event g =
    (case g of (i, fs) \<Rightarrow>
      \<lparr>dm_rule = (rule_of e ThreatIntelRuleID)\<lparr>dr_confidence := ti_confidence i,
          dr_title := ''Threat intelligence '' @ to_lower (ti_type i) @ '' match''\<rparr>,
       dm_fields = fs,
       dm_factors =
         [risk_factor ''base_severity'' ''Active threat intelligence match'' 35 ThreatIntelRuleID,
          risk_factor ''ioc_confidence'' ''Indicator confidence'' (max 5 (ti_confidence i div 5)) (ti_indicator i),
          risk_factor ''threat_intelligence'' (ti_reputation i @ '' indicator reputation'')
            (reputation_delta (ti_reputation i)) (ti_indicator i)] @ contextFactors event,
       dm_events = [ev_id event], dm_dedup = ti_indicator i, dm_reference = ti_indicator i\<rparr>)"

definition matchThreatIntelligence ::
  "'s engine_port \<Rightarrow> canonical_event \<Rightarrow> ('s \<times> engine, detection_match list) op" where
  "matchThreatIntelligence port event =
    (case ep_MatchThreatIntelEvent port of
       None \<Rightarrow> op_return []
     | Some provider \<Rightarrow>
         op_bind (on_store (provider event)) (\<lambda>intelligence.
         op_bind op_get (\<lambda>se.
         op_return (map (indicator_match (snd se) event) (group_indicators [] intelligence)))))"

definition behavior_match :: "engine \<Rightarrow> canonical_event \<Rightarrow> ueba_anomaly \<Rightarrow> detection_match" where
  "behavior_match e event a =
    \<lparr>dm_rule = (rule_of e UEBARuleID)\<lparr>dr_title := ua_title a, dr_severity := ua_severity a, dr_confidence := ua_confidence a\<rparr>,
     dm_fields = add_unseen [] (filter (\<lambda>f. f \<noteq> []) (map uf_field (ua_features a))),
     dm_factors = [risk_factor ''behavior_anomaly'' ''Explainable rolling-baseline deviation''
                     (min 75 (max 0 (ua_risk_score a))) (ua_id a)],
     dm_events = [ev_id event], dm_dedup = ua_entity_type a @ '':'' @ ua_entity_id a, dm_reference = ua_id a\<rparr>"

definition matchUEBA :: "'s engine_port \<Rightarrow> canonical_event \<Rightarrow> ('s \<times> engine, detection_match option) op" where
  "matchUEBA port event =
    (case ep_ObserveUEBAEvent port of
       None \<Rightarrow> op_return None
     | Some provider \<Rightarrow>
         op_bind (on_store (provider event)) (\<lambda>anomaly.
         op_bind op_get (\<lambda>se.
         op_return (map_option (behavior_match (snd se) event) anomaly))))"

subsection \<open>Published rules\<close>

text \<open>A snapshot of a tenant's rules serves for five seconds; then the content is compiled again.\<close>

definition load_rules ::
  "'s engine_port \<Rightarrow> (tenant \<Rightarrow> ('s, detection_content list) op) \<Rightarrow> tenant \<Rightarrow> ('s \<times> engine, compiled_rule list) op" where
  "load_rules port provider t =
    op_bind (on_store (provider t)) (\<lambda>contents.
    op_bind (op_lift (map_ok (Compile (ep_decode port)) contents)) (\<lambda>rules.
    op_bind op_now (\<lambda>now.
    op_bind (op_update (\<lambda>(s, e). (s, e\<lparr>eg_dynamic := (eg_dynamic e)(t \<mapsto> \<lparr>ds_rules = rules, ds_loaded_at = now\<rparr>)\<rparr>))) (\<lambda>_.
    op_return rules))))"

definition rulesForTenant :: "'s engine_port \<Rightarrow> tenant \<Rightarrow> ('s \<times> engine, compiled_rule list) op" where
  "rulesForTenant port t =
    (case ep_PublishedDetectionContent port of
       None \<Rightarrow> op_return []
     | Some provider \<Rightarrow>
         op_bind op_get (\<lambda>se.
         case eg_dynamic (snd se) t of
           None \<Rightarrow> load_rules port provider t
         | Some snapshot \<Rightarrow>
             op_bind op_now (\<lambda>now.
             if now - ds_loaded_at snapshot < 5 * go_second then op_return (ds_rules snapshot)
             else load_rules port provider t)))"

definition published_factors :: "string \<Rightarrow> string \<Rightarrow> detection_rule \<Rightarrow> risk_factor list" where
  "published_factors base confidence r =
    [risk_factor ''base_severity'' base (severityRisk (dr_severity r)) (dr_id r),
     risk_factor ''rule_confidence'' confidence (max 5 (dr_confidence r div 5)) (dr_id r @ ''@'' @ dr_version r)]"

definition sigma_match :: "canonical_event \<Rightarrow> compiled_rule \<Rightarrow> detection_match" where
  "sigma_match event rule =
    \<lparr>dm_rule = cp_rule rule, dm_fields = snd (rule_Evaluate rule event),
     dm_factors = published_factors ''Published Sigma detection'' ''Validated rule confidence'' (cp_rule rule)
                    @ contextFactors event,
     dm_events = [ev_id event], dm_dedup = [], dm_reference = []\<rparr>"

definition sigma_hits :: "engine \<Rightarrow> canonical_event \<Rightarrow> compiled_rule list \<Rightarrow> compiled_rule list" where
  "sigma_hits e event rules =
    filter (\<lambda>r. eg_rules e (dr_id (cp_rule r)) = None \<and> \<not> IsCorrelation r \<and> fst (rule_Evaluate r event)) rules"

subsection \<open>Published correlations\<close>

definition correlation_value :: "correlation_spec \<Rightarrow> canonical_event \<Rightarrow> string option" where
  "correlation_value spec event =
    (if cs_type spec = CorrelationValueCount then CorrelationValue event (cs_value_field spec) else Some [])"

definition correlation_match :: "canonical_event \<Rightarrow> compiled_rule \<Rightarrow> correlation_spec \<Rightarrow> correlation_evaluation \<Rightarrow> detection_match" where
  "correlation_match event rule spec correlated =
    \<lparr>dm_rule = cp_rule rule,
     dm_fields = cs_group_by spec @ (if cs_value_field spec \<noteq> [] then [cs_value_field spec] else []) @ [''correlation.rules''],
     dm_factors =
       published_factors ''Published Sigma correlation'' ''Validated correlation confidence'' (cp_rule rule) @
       [risk_factor ''correlation_count'' ''Correlated security events'' (min 20 (max 5 (ce_count correlated)))
          (int_dec (ce_count correlated))] @ contextFactors event,
     dm_events = ce_events correlated, dm_dedup = [], dm_reference = []\<rparr>"

text \<open>One round of the loop: the match a rule gives, if it is a correlation that triggers.\<close>

definition correlate ::
  "'s engine_port \<Rightarrow> canonical_event \<Rightarrow> string set \<Rightarrow> compiled_rule \<Rightarrow> ('s \<times> engine, detection_match list) op" where
  "correlate port event matched rule =
    (case CorrelationSpec rule of
       None \<Rightarrow> op_return []
     | Some spec \<Rightarrow>
         (let sources = filter (\<lambda>i. i \<in> matched) (cs_rules spec)
          in if sources = [] then op_return []
             else case CorrelationGroup event (cs_group_by spec) of
                    None \<Rightarrow> op_return []
                  | Some group_key \<Rightarrow>
                      (case correlation_value spec event of
                         None \<Rightarrow> op_return []
                       | Some value \<Rightarrow>
                           op_bind (engine_observeCorrelation port
                             \<lparr>co_tenant = ev_tenant event, co_rule = dr_id (cp_rule rule), co_version = dr_version (cp_rule rule),
                              co_group = group_key, co_sources = sources, co_event = ev_id event, co_time = ev_time event,
                              co_value = value, co_spec = spec\<rparr>) (\<lambda>correlated.
                           if \<not> ce_triggered correlated then op_return []
                           else op_return [correlation_match event rule spec correlated]))))"

fun op_concat :: "('a \<Rightarrow> ('s, 'b list) op) \<Rightarrow> 'a list \<Rightarrow> ('s, 'b list) op" where
  "op_concat f [] = op_return []"
| "op_concat f (x # xs) = op_bind (f x) (\<lambda>ys. op_bind (op_concat f xs) (\<lambda>zs. op_return (ys @ zs)))"

definition detect :: "'s engine_port \<Rightarrow> canonical_event \<Rightarrow> ('s \<times> engine, detection_match list) op" where
  "detect port event =
    op_bind op_get (\<lambda>se.
    op_bind (observeAuthenticationFailure port event) (\<lambda>(threshold, fs, factors).
    op_bind (matchThreatIntelligence port event) (\<lambda>threats.
    op_bind (matchUEBA port event) (\<lambda>behavior.
    op_bind (rulesForTenant port (ev_tenant event)) (\<lambda>rules.
      (let e = snd se;
           powershell = powershell_matches e event;
           auth = (if ce_triggered threshold
                   then [\<lparr>dm_rule = rule_of e AuthRuleID, dm_fields = fs, dm_factors = factors,
                          dm_events = ce_events threshold, dm_dedup = [], dm_reference = []\<rparr>] else []);
           hits = sigma_hits e event rules;
           matched = (if powershell = [] then {} else {PowerShellRuleID}) \<union> set (map (\<lambda>r. dr_id (cp_rule r)) hits)
       in op_bind (op_concat (correlate port event matched) rules) (\<lambda>correlated.
          op_return (powershell @ auth @ threats @ (case behavior of None \<Rightarrow> [] | Some b \<Rightarrow> [b])
                       @ map (sigma_match event) hits @ correlated))))))))"

subsection \<open>Findings and alerts\<close>

definition clamp_risk :: "int \<Rightarrow> int" where
  "clamp_risk risk = (if risk < 0 then 0 else if 100 < risk then 100 else risk)"

definition total_risk :: "risk_factor list \<Rightarrow> int" where
  "total_risk factors = foldl (\<lambda>risk f. risk + rf_delta f) 0 factors"

definition makeFinding :: "canonical_event \<Rightarrow> detection_match \<Rightarrow> ('s, finding) op" where
  "makeFinding event m =
    op_bind (op_new_id ''fnd'') (\<lambda>i.
    op_bind op_now (\<lambda>now.
      (let risk = clamp_risk (total_risk (dm_factors m)); rule = dm_rule m
       in op_return
         \<lparr>fi_id = i, fi_tenant = ev_tenant event, fi_event = ev_id event,
          fi_rule = \<lparr>rule_id = dr_id rule, rule_title = dr_title rule, rule_version = dr_version rule\<rparr>,
          fi_title = dr_title rule, fi_severity = SeverityFromRisk risk, fi_confidence = dr_confidence rule,
          fi_mitre = dr_mitre rule, fi_matched_fields = dm_fields m, fi_risk_score = risk,
          fi_risk_breakdown = dm_factors m, fi_created_at = now\<rparr>)))"

definition engine_acknowledgementWindow :: "severity \<Rightarrow> duration" where
  "engine_acknowledgementWindow s =
    (if s = SeverityCritical then 15 * minute else if s = SeverityHigh then 30 * minute
     else if s = SeverityMedium then 4 * hour else 24 * hour)"

definition alert_entity :: "canonical_event \<Rightarrow> entity_summary" where
  "alert_entity event =
    (let device = ev_device event; user = ev_user event;
         entity = (if user_name user \<noteq> []
           then \<lparr>en_type = ''user'', en_id = user_id user, en_name = user_name user, en_label = device_hostname device\<rparr>
           else \<lparr>en_type = ''device'', en_id = device_id device, en_name = device_hostname device,
                  en_label = device_department device\<rparr>)
     in if en_name entity = []
        then \<lparr>en_type = ''ip'', en_id = [], en_name = endpoint_ip (ev_src event), en_label = []\<rparr>
        else entity)"

definition alert_events :: "canonical_event \<Rightarrow> string list \<Rightarrow> string list" where
  "alert_events event correlated =
    (let ids = add_unseen [] (filter (\<lambda>i. i \<noteq> []) correlated)
     in if ids = [] then [ev_id event] else ids)"

definition alert_dedup_key :: "finding \<Rightarrow> entity_summary \<Rightarrow> string \<Rightarrow> string" where
  "alert_dedup_key f entity discriminator =
    rule_id (fi_rule f) @ ''|'' @ en_type entity @ ''|'' @ en_name entity @
      (if discriminator \<noteq> [] then ''|'' @ discriminator else [])"

definition makeAlert ::
  "canonical_event \<Rightarrow> finding \<Rightarrow> string list \<Rightarrow> string \<Rightarrow> ('s, alert \<times> string) op" where
  "makeAlert event f correlated discriminator =
    op_bind op_now (\<lambda>now.
    op_bind (op_new_id ''alt'') (\<lambda>i.
      (let ids = alert_events event correlated; entity = alert_entity event
       in op_return
         (\<lparr>al_id = i, al_tenant = ev_tenant event, al_title = fi_title f, al_severity = fi_severity f,
           al_risk_score = fi_risk_score f, al_risk_breakdown = fi_risk_breakdown f, al_status = ''NEW'',
           al_disposition = [], al_assignee = [], al_rule = fi_rule f, al_mitre = fi_mitre f, al_entity = entity,
           al_finding_ids = [fi_id f], al_event_ids = ids, al_event_count = int (length ids),
           al_first_seen = ev_time event, al_last_seen = ev_time event,
           al_sla = \<lparr>acknowledge_by = now + engine_acknowledgementWindow (fi_severity f), sla_breached = False,
                     acknowledged = None\<rparr>,
           al_version = 1, al_created_at = now, al_updated_at = now\<rparr>,
          alert_dedup_key f entity discriminator))))"

subsection \<open>Ingestion\<close>

definition system_audit :: "tenant \<Rightarrow> string \<Rightarrow> string \<Rightarrow> json \<Rightarrow> audit_entry" where
  "system_audit t action i metadata =
    \<lparr>au_id = [], au_tenant = t, au_actor = ''system:detection-engine'', au_action = action,
     au_resource_type = ''alert'', au_resource_id = i, au_outcome = ''success'', au_request_id = [],
     au_metadata = metadata, au_previous_hash = [], au_hash = [], au_created_at = 0\<rparr>"

definition detection_audit :: "tenant \<Rightarrow> canonical_event \<Rightarrow> detection_match \<Rightarrow> finding \<Rightarrow> alert \<times> bool \<Rightarrow> audit_entry" where
  "detection_audit t stored m f ac =
    system_audit t (if snd ac then ''alert.created'' else ''alert.updated'') (al_id (fst ac))
      (JObj ([(''event_id'', JStr (ev_id stored)), (''rule_id'', JStr (rule_id (fi_rule f))),
              (''risk_score'', JInt (fi_risk_score f))] @
             (if dr_id (dm_rule m) = ThreatIntelRuleID \<and> dm_reference m \<noteq> []
              then [(''threat_indicator_id'', JStr (dm_reference m))] else []) @
             (if dr_id (dm_rule m) = UEBARuleID \<and> dm_reference m \<noteq> []
              then [(''ueba_anomaly_id'', JStr (dm_reference m))] else [])))"

text \<open>What one match does: a finding, an alert and an audit entry.\<close>

definition emit_match ::
  "'s engine_port \<Rightarrow> tenant \<Rightarrow> canonical_event \<Rightarrow> detection_match \<Rightarrow> ('s \<times> engine, finding \<times> alert) op" where
  "emit_match port t stored m =
    op_bind (makeFinding stored m) (\<lambda>f.
    op_bind (on_store (ep_PutFinding port f)) (\<lambda>_.
    op_bind (makeAlert stored f (dm_events m) (dm_dedup m)) (\<lambda>(candidate, key).
    op_bind (on_store (ep_UpsertAlert port candidate key (15 * minute))) (\<lambda>ac.
    op_bind (on_store (ep_AppendAudit port (detection_audit t stored m f ac))) (\<lambda>_.
    op_return (f, fst ac))))))"

fun op_map :: "('a \<Rightarrow> ('s, 'b) op) \<Rightarrow> 'a list \<Rightarrow> ('s, 'b list) op" where
  "op_map f [] = op_return []"
| "op_map f (x # xs) = op_bind (f x) (\<lambda>y. op_bind (op_map f xs) (\<lambda>ys. op_return (y # ys)))"

definition observe_entities :: "'s engine_port \<Rightarrow> canonical_event \<Rightarrow> ('s \<times> engine, unit) op" where
  "observe_entities port stored =
    (case ep_ObserveEntityEvent port of None \<Rightarrow> op_return () | Some f \<Rightarrow> on_store (f stored))"

definition Ingest :: "'s engine_port \<Rightarrow> tenant \<Rightarrow> canonical_event \<Rightarrow> ('s \<times> engine, ingest_result) op" where
  "Ingest port t input =
    op_bind (normalize t input) (\<lambda>event.
    op_bind (on_store (ep_PutEvent port event)) (\<lambda>(stored, duplicate).
    op_bind (observe_entities port stored) (\<lambda>_.
    if duplicate then op_return \<lparr>ir_event = stored, ir_findings = [], ir_alerts = [], ir_duplicate = True\<rparr>
    else op_bind (detect port stored) (\<lambda>matches.
         op_bind (op_map (emit_match port t stored) matches) (\<lambda>emitted.
         op_return \<lparr>ir_event = stored, ir_findings = map fst emitted, ir_alerts = map snd emitted,
                    ir_duplicate = False\<rparr>)))))"

end
