(* ===== verification/Engine_Contract.thy ===== *)
theory Engine_Contract
  imports Engine Soc_Contract
begin

text \<open>
  The contract between the pipeline and its store: \<open>ingest_contract R port t\<close> says that every port
  method the engine calls while it ingests for tenant \<open>t\<close> relates the store before and after by \<open>R\<close>;
  then so does \<open>Ingest\<close>. The interpretations are on the embedded store beside arbitrary optional
  providers with a state of their own.
\<close>

context step_relation
begin

text \<open>A bind where the second operation only needs to be related for results the first can have.\<close>

lemma rel_bind_result:
  assumes "op_rel R f" "\<And>x s w s' w'. f (s, w) = (Inr x, (s', w')) \<Longrightarrow> op_rel R (g x)"
  shows "op_rel R (op_bind f g)"
proof (rule op_relI)
  fix s w r s' w'
  assume b: "op_bind f g (s, w) = (r, (s', w'))"
  obtain q s1 w1 where f: "f (s, w) = (q, (s1, w1))" by (metis prod.exhaust)
  then have R1: "R s s1" using assms(1) by (rule op_relD [rotated])
  show "R s s'"
  proof (cases q)
    case (Inl e)
    with b f R1 show ?thesis by (simp add: op_bind_def)
  next
    case (Inr x)
    with b f have "g x (s1, w1) = (r, (s', w'))" by (simp add: op_bind_def)
    moreover have "op_rel R (g x)" using f Inr by (intro assms(2)) simp
    ultimately have "R s1 s'" by (rule op_relD [rotated])
    with R1 show ?thesis by (rule R_trans)
  qed
qed

lemma rel_get: "op_rel R op_get"
  by (rule op_relI) (auto simp: op_get_def R_refl)

lemma rel_concat: "(\<And>x. op_rel R (f x)) \<Longrightarrow> op_rel R (op_concat f xs)"
  by (induction xs) (auto intro!: rel_intros)

lemma rel_map: "(\<And>x. op_rel R (f x)) \<Longrightarrow> op_rel R (op_map f xs)"
  by (induction xs) (auto intro!: rel_intros)

end

text \<open>A relation on the first component of a state.\<close>

definition on_first :: "('s \<Rightarrow> 's \<Rightarrow> bool) \<Rightarrow> 's \<times> 'e \<Rightarrow> 's \<times> 'e \<Rightarrow> bool" where
  "on_first R p q \<longleftrightarrow> R (fst p) (fst q)"

lemma rel_on_store: "op_rel R f \<Longrightarrow> op_rel (on_first R) (on_store f)"
  unfolding op_rel_def on_first_def on_store_def by (fastforce split: prod.splits)

lemma rel_on_correlation: "(\<And>s. R s s) \<Longrightarrow> op_rel (on_first R) (on_correlation f)"
  unfolding op_rel_def on_first_def on_correlation_def by (fastforce split: prod.splits)

lemma rel_update_second: "(\<And>s. R s s) \<Longrightarrow> (\<And>s e. fst (g (s, e)) = s) \<Longrightarrow> op_rel (on_first R) (op_update g)"
  unfolding op_rel_def on_first_def op_update_def by (auto, metis fst_conv)

lemma op_return_Inr: "op_return x sw = (Inr y, sw') \<longleftrightarrow> y = x \<and> sw' = sw"
  by (auto simp: op_return_def)

lemma fill_event_tenant: "ev_tenant (fill_event t now i e) = t" "ev_id (fill_event t now i e) = i"
  by (simp_all add: fill_event_def Let_def)

lemma normalize_event:
  assumes "normalize t input sw = (Inr e, sw')"
  shows "ev_tenant e = t \<and> (\<exists>now i. e = fill_event t now i input \<and> (ev_id input \<noteq> [] \<longrightarrow> i = ev_id input) \<and> i \<noteq> []) \<and>
    fst sw' = fst sw"
proof -
  from assms have "op_bind op_now (\<lambda>now.
      op_bind (if ev_id input = [] then op_new_id ''evt'' else op_return (ev_id input)) (\<lambda>i.
      op_return (fill_event t now i input))) sw = (Inr e, sw')"
    by (simp only: normalize_def op_fail_def split: if_splits) simp_all
  then obtain now i sw1 where "op_now sw = (Inr now, sw1)"
    and i: "(if ev_id input = [] then op_new_id ''evt'' else op_return (ev_id input)) sw1 = (Inr i, sw')"
    and e: "e = fill_event t now i input"
    unfolding op_bind_eq_Inr op_return_Inr by blast
  then have "fst sw1 = fst sw" by (auto simp: op_now_def split: prod.splits)
  moreover have "fst sw' = fst sw1 \<and> i \<noteq> [] \<and> (ev_id input \<noteq> [] \<longrightarrow> i = ev_id input)"
  proof (cases "ev_id input = []")
    case True
    with i have "i = fst (new_id ''evt'' (snd sw1))" "fst sw' = fst sw1"
      by (auto simp: op_new_id_def split: prod.splits)
    with True show ?thesis by simp
  next
    case False
    with i show ?thesis by (simp add: op_return_Inr)
  qed
  ultimately show ?thesis using e fill_event_tenant by auto
qed

locale detection_contract = step_relation R for R :: "'s \<Rightarrow> 's \<Rightarrow> bool" +
  fixes port :: "'s engine_port" and t :: tenant
  assumes entities: "ep_ObserveEntityEvent port = Some fe \<Longrightarrow> op_rel R (fe e)"
    and published: "ep_PublishedDetectionContent port = Some fp \<Longrightarrow> op_rel R (fp t)"
    and correlation: "ep_ObserveCorrelation port = Some fc \<Longrightarrow> op_rel R (fc ob)"
    and threat: "ep_MatchThreatIntelEvent port = Some ft \<Longrightarrow> op_rel R (ft e)"
    and behavior: "ep_ObserveUEBAEvent port = Some fu \<Longrightarrow> op_rel R (fu e)"

sublocale detection_contract \<subseteq> pair: step_relation "on_first R :: 's \<times> engine \<Rightarrow> 's \<times> engine \<Rightarrow> bool"
  by unfold_locales (auto simp: on_first_def R_refl intro: R_trans)

context detection_contract
begin

lemma observe_correlation_rel: "op_rel (on_first R) (engine_observeCorrelation port ob)"
  unfolding engine_observeCorrelation_def
  by (auto split: option.split intro!: rel_on_store rel_on_correlation R_refl correlation)

lemma auth_rel: "op_rel (on_first R) (observeAuthenticationFailure port event)"
  unfolding observeAuthenticationFailure_def
  by (auto intro!: pair.rel_intros observe_correlation_rel)

lemma threat_rel: "op_rel (on_first R) (matchThreatIntelligence port event)"
  unfolding matchThreatIntelligence_def
  by (auto split: option.split intro!: pair.rel_intros pair.rel_get rel_on_store threat)

lemma ueba_rel: "op_rel (on_first R) (matchUEBA port event)"
  unfolding matchUEBA_def
  by (auto split: option.split intro!: pair.rel_intros pair.rel_get rel_on_store behavior)

lemma load_rel: "ep_PublishedDetectionContent port = Some f \<Longrightarrow> op_rel (on_first R) (load_rules port f t)"
  unfolding load_rules_def
  by (auto intro!: pair.rel_intros rel_on_store rel_update_second R_refl published)

lemma rules_rel: "op_rel (on_first R) (rulesForTenant port t)"
  unfolding rulesForTenant_def
  by (auto split: option.split intro!: pair.rel_intros pair.rel_get load_rel)

lemma correlate_rel: "op_rel (on_first R) (correlate port event matched rule)"
  unfolding correlate_def Let_def
  by (auto split: option.split intro!: pair.rel_intros observe_correlation_rel)

lemma detect_rel:
  assumes "ev_tenant event = t"
  shows "op_rel (on_first R) (detect port event)"
  unfolding detect_def Let_def case_prod_beta assms
  by (intro pair.rel_intros pair.rel_get auth_rel threat_rel ueba_rel rules_rel pair.rel_concat correlate_rel)

lemma make_finding_rel: "op_rel (on_first R) (makeFinding event m :: ('s \<times> engine, finding) op)"
  unfolding makeFinding_def Let_def by (intro pair.rel_intros)

lemma make_alert_rel: "op_rel (on_first R) (makeAlert event f is d :: ('s \<times> engine, alert \<times> string) op)"
  unfolding makeAlert_def Let_def by (intro pair.rel_intros)

lemma entities_rel: "op_rel (on_first R) (observe_entities port event)"
  unfolding observe_entities_def
  by (auto split: option.split intro!: pair.rel_intros rel_on_store entities)

end

lemma makeFinding_tenant: "makeFinding event m sw = (Inr f, sw') \<Longrightarrow> fi_tenant f = ev_tenant event"
  by (auto simp: makeFinding_def op_bind_eq_Inr op_return_def Let_def)

lemma makeAlert_tenant: "makeAlert event f is d sw = (Inr (a, k), sw') \<Longrightarrow> al_tenant a = ev_tenant event"
  by (auto simp: makeAlert_def op_bind_eq_Inr op_return_def Let_def)

locale ingest_contract = detection_contract R port t
  for R :: "'s \<Rightarrow> 's \<Rightarrow> bool" and port :: "'s engine_port" and t :: tenant +
  assumes put_event: "ev_tenant e = t \<Longrightarrow> op_rel R (ep_PutEvent port e)"
    and put_event_new: "ep_PutEvent port e sw = (Inr (stored, False), sw') \<Longrightarrow> ev_tenant stored = ev_tenant e"
    and put_finding: "fi_tenant f = t \<Longrightarrow> op_rel R (ep_PutFinding port f)"
    and upsert: "al_tenant a = t \<Longrightarrow> op_rel R (ep_UpsertAlert port a k win)"
    and audit: "au_tenant entry = t \<Longrightarrow> op_rel R (ep_AppendAudit port entry)"
begin

lemma emit_rel:
  assumes "ev_tenant event = t"
  shows "op_rel (on_first R) (emit_match port t event m)"
  unfolding emit_match_def case_prod_beta
  by (intro pair.rel_bind_result make_finding_rel make_alert_rel rel_on_store put_finding upsert audit pair.rel_return)
     (auto simp: assms detection_audit_def system_audit_def dest!: makeFinding_tenant makeAlert_tenant)

lemma normalize_rel: "op_rel (on_first R) (normalize t input :: ('s \<times> engine, canonical_event) op)"
  unfolding normalize_def by (auto intro!: pair.rel_intros)

lemma normalize_tenant: "normalize t' input sw = (Inr e, sw') \<Longrightarrow> ev_tenant e = t'"
  by (rule normalize_event [THEN conjunct1])

lemma ingest_rel: "op_rel (on_first R) (Ingest port t input)"
  unfolding Ingest_def
proof (rule pair.rel_bind_result [OF normalize_rel], goal_cases)
  case (1 event)
  then have e: "ev_tenant event = t" by (rule normalize_tenant)
  show ?case
  proof (rule pair.rel_bind_result, goal_cases)
    case 1
    show ?case by (intro rel_on_store put_event e)
  next
    case (2 sd s w s' w')
    obtain stored d where sd: "sd = (stored, d)" by (cases sd)
    have "\<not> d \<Longrightarrow> ev_tenant stored = t"
      using 2 put_event_new e by (auto simp: sd on_store_def split: prod.splits)
    then show ?case unfolding sd
      by (auto intro!: pair.rel_intros entities_rel detect_rel pair.rel_map emit_rel)
  qed
qed

end

subsection \<open>The embedded store and optional providers\<close>

text \<open>
  The optional providers of a store that keeps its core objects in memory: operations on a state of
  their own, which a database or a separate in-memory structure holds.
\<close>

record 'x engine_providers =
  px_entities :: "(canonical_event \<Rightarrow> ('x, unit) op) option"
  px_published :: "(tenant \<Rightarrow> ('x, detection_content list) op) option"
  px_correlation :: "(correlation_observation \<Rightarrow> ('x, correlation_evaluation) op) option"
  px_threat :: "(canonical_event \<Rightarrow> ('x, threat_match list) op) option"
  px_behavior :: "(canonical_event \<Rightarrow> ('x, ueba_anomaly option) op) option"
  px_decode :: "string \<Rightarrow> sigma_document option"

definition on_second :: "('x, 'a) op \<Rightarrow> ('s \<times> 'x, 'a) op" where
  "on_second f sxw = (case sxw of ((s, x), w) \<Rightarrow> (let (r, (x', w')) = f (x, w) in (r, ((s, x'), w'))))"

definition memory_engine_port :: "'x engine_providers \<Rightarrow> (memory \<times> 'x) engine_port" where
  "memory_engine_port px =
    \<lparr>ep_SetRules = (\<lambda>rs. on_store (repo_SetRules rs)),
     ep_PutEvent = (\<lambda>e. on_store (repo_PutEvent e)),
     ep_PutFinding = (\<lambda>f. on_store (repo_PutFinding f)),
     ep_UpsertAlert = (\<lambda>a k win. on_store (repo_UpsertAlert a k win)),
     ep_AppendAudit = (\<lambda>e. on_store (repo_AppendAudit e)),
     ep_ObserveEntityEvent = map_option (\<lambda>f e. on_second (f e)) (px_entities px),
     ep_PublishedDetectionContent = map_option (\<lambda>f t. on_second (f t)) (px_published px),
     ep_ObserveCorrelation = map_option (\<lambda>f ob. on_second (f ob)) (px_correlation px),
     ep_MatchThreatIntelEvent = map_option (\<lambda>f e. on_second (f e)) (px_threat px),
     ep_ObserveUEBAEvent = map_option (\<lambda>f e. on_second (f e)) (px_behavior px),
     ep_decode = px_decode px\<rparr>"

lemma rel_on_second: "(\<And>s. R s s) \<Longrightarrow> op_rel (on_first R) (on_second f)"
  unfolding op_rel_def on_first_def on_second_def by (fastforce split: prod.splits)

lemma rel_state_op: "(\<And>m. R m (snd (f m))) \<Longrightarrow> op_rel R (state_op f)"
  unfolding op_rel_def state_op_def by (auto simp: Let_def case_prod_beta)

lemma PutEvent_new: "PutEvent e m = ((stored, False), m') \<Longrightarrow> stored = e"
  by (auto simp: PutEvent_def split: option.splits)

lemma repo_PutEvent_new:
  "on_store (repo_PutEvent e) sw = (Inr (stored, False), sw') \<Longrightarrow> ev_tenant stored = ev_tenant e"
  by (auto simp: on_store_def repo_PutEvent_def guarded_def state_op_def Let_def split: prod.splits if_splits
      dest: PutEvent_new)

text \<open>Detection alone writes nothing to the embedded store.\<close>

interpretation detection_frame: detection_contract "on_first ((=) :: memory \<Rightarrow> memory \<Rightarrow> bool)" "memory_engine_port px" t
  for px :: "'x engine_providers" and t
  by unfold_locales (auto simp: memory_engine_port_def on_first_def intro!: rel_on_second)

text \<open>A relation that each write of tenant \<open>t\<close> to the embedded store keeps is one that the engine keeps.\<close>

locale store_relation = step_relation R for R :: "memory \<Rightarrow> memory \<Rightarrow> bool" +
  fixes t :: tenant
  assumes write_event: "ev_tenant e = t \<Longrightarrow> R m (snd (PutEvent e m))"
    and write_finding: "fi_tenant f = t \<Longrightarrow> R m (PutFinding f m)"
    and write_alert: "al_tenant a = t \<Longrightarrow> R m (snd (UpsertAlert a k win m))"
    and write_audit: "au_tenant entry = t \<Longrightarrow> AppendAudit entry (m, w) = (e', (m', w')) \<Longrightarrow> R m m'"

sublocale store_relation \<subseteq> embedded: ingest_contract "on_first R" "memory_engine_port px" t
  for px :: "'x engine_providers"
proof (unfold_locales, goal_cases)
  case (2 s1 s2 s3)
  then show ?case by (auto simp: on_first_def intro: R_trans)
next
  case (8 e)
  then show ?case
    by (simp add: memory_engine_port_def repo_PutEvent_def)
       (intro rel_on_store rel_guarded rel_state_op R_refl write_event)
next
  case (9 e sw stored sw')
  then show ?case by (intro repo_PutEvent_new) (simp add: memory_engine_port_def)
next
  case (10 f)
  then show ?case
    by (simp add: memory_engine_port_def repo_PutFinding_def)
       (intro rel_on_store rel_guarded rel_state_op R_refl, simp add: write_finding)
next
  case (11 a k win)
  then show ?case
    by (simp add: memory_engine_port_def repo_UpsertAlert_def)
       (intro rel_on_store rel_guarded rel_state_op R_refl write_alert)
next
  case (12 entry)
  then show ?case
    by (simp add: memory_engine_port_def) (intro rel_on_store AppendAudit_rel R_refl write_audit)
qed (auto simp: memory_engine_port_def on_first_def intro!: rel_on_second R_refl)

text \<open>A tenant's ingest touches no other tenant.\<close>

interpretation ingest_isolation: store_relation "only_tenant t" t for t
proof (unfold_locales, goal_cases)
  case (1 e m)
  then show ?case
    using events_log.put_other_tenant [of _ e m] by (auto simp: only_tenant_def tenant_view_def frame_simps)
next
  case (2 f m)
  then show ?case
    using findings_log.put_other_tenant [of _ f m] by (auto simp: only_tenant_def tenant_view_def frame_simps)
qed (auto simp: only_tenant_def view_UpsertAlert dest: view_AppendAudit)

text \<open>
  What an ingest adds to a store: no event, finding or audit entry is lost or changed, and incidents and
  rules stay as they are.
\<close>

definition ingest_grows :: "memory \<Rightarrow> memory \<Rightarrow> bool" where
  "ingest_grows m m' \<longleftrightarrow>
     (\<forall>t i e. me_events m t i = Some e \<longrightarrow> me_events m' t i = Some e) \<and>
     (\<forall>t i f. me_findings m t i = Some f \<longrightarrow> me_findings m' t i = Some f) \<and>
     (\<forall>t. prefix (me_audit m t) (me_audit m' t)) \<and>
     me_incidents m' = me_incidents m \<and> me_incident_order m' = me_incident_order m \<and> me_rules m' = me_rules m"

interpretation ingest_growth: store_relation ingest_grows t for t
proof (unfold_locales, goal_cases)
  case (2 m1 m2 m3)
  then show ?case
    unfolding ingest_grows_def by (metis prefix_order.trans)
next
  case (3 e m)
  then show ?case
    by (auto simp: ingest_grows_def frame_simps intro: events_log.look_put_keeps)
next
  case (4 f m)
  then show ?case
    by (auto simp: ingest_grows_def frame_simps intro: findings_log.look_put_keeps)
next
  case (5 a m k win)
  then show ?case by (simp add: ingest_grows_def frame_simps)
next
  case (6 entry m w e' m' w')
  then show ?case
    by (auto simp: ingest_grows_def dest!: AppendAudit_cases(4))
qed (simp add: ingest_grows_def)

text \<open>The audit chains stay verifiable.\<close>

definition audit_intact :: "memory \<Rightarrow> bool" where
  "audit_intact m \<longleftrightarrow> (\<forall>t. VerifyAudit t m)"

interpretation ingest_chain: store_relation "keeps audit_intact" t for t
proof (unfold_locales, goal_cases)
  case (4 entry m w e' m' w')
  then show ?case using memory_audit.append_verify [OF 4(2)] by (simp add: keeps_def audit_intact_def)
qed (simp_all add: keeps_def audit_intact_def VerifyAudit_def frame_simps)

end
