(* ===== verification/Auth_Threshold.thy ===== *)
theory Auth_Threshold
  imports Engine_Contract
begin

text \<open>
  The built-in authentication threshold, \<^verbatim>\<open>observeAuthenticationFailure\<close> of
  \<^verbatim>\<open>internal/pipeline/engine.go\<close>, on the engine's own correlation memory: a burst of failures from
  one source triggers at the fifth, and only there.
\<close>

subsection \<open>The observation of a failure\<close>

lemma auth_group_source:
  assumes "auth_source e \<noteq> []"
  shows "auth_group e = marshal (JArr [JObj [(''field'', JStr ''src_endpoint.ip''), (''values'', str_list [auth_source e])]])"
proof -
  let ?e = "e\<lparr>ev_src := (ev_src e)\<lparr>endpoint_ip := auth_source e\<rparr>\<rparr>"
  have l: "to_lower ''src_endpoint.ip'' = ''src_endpoint.ip''" by code_simp
  have "field_value ?e ''src_endpoint.ip'' = JStr (auth_source e)"
    unfolding field_value_def l by (simp add: builtin_fields_def)
  with assms have "eventFieldValues ?e ''src_endpoint.ip'' = [auth_source e]"
    by (simp add: eventFieldValues_def)
  then show ?thesis by (simp add: auth_group_def CorrelationGroup_def Let_def)
qed

lemma rune_brackets: "list_all (\<lambda>p. p \<noteq> [] \<and> hd p \<noteq> CHR ''['' \<and> last p \<noteq> CHR '']'') space_runes"
  by code_simp

lemma trim_array: "trim_space (''['' @ s @ '']'') = ''['' @ s @ '']''"
proof (rule trim_space_id)
  fix p assume p: "p \<in> set space_runes"
  with rune_brackets have h: "p \<noteq> []" "hd p \<noteq> CHR ''[''" "last p \<noteq> CHR '']''" by (auto simp: list_all_iff)
  then show "\<not> has_prefix (''['' @ s @ '']'') p" by (auto simp: has_prefix_iff Cons_eq_append_conv)
  show "\<not> has_suffix (''['' @ s @ '']'') p"
  proof
    assume "has_suffix (''['' @ s @ '']'') p"
    then obtain u where "''['' @ s @ '']'' = u @ p" by (auto simp: has_suffix_iff)
    then have "last (''['' @ s @ '']'') = last p" using h(1) by (metis last_appendR)
    with h(3) show False by simp
  qed
qed

lemma marshal_array_nonblank: "trim_space (marshal (JArr xs)) \<noteq> []"
  unfolding marshal.simps trim_array by simp

lemma auth_group_nonblank: "auth_source e \<noteq> [] \<Longrightarrow> trim_space (auth_group e) \<noteq> []"
  by (simp add: auth_group_source marshal_array_nonblank del: marshal.simps)

definition auth_key :: "tenant \<Rightarrow> string \<Rightarrow> string" where
  "auth_key t src = join record_separator
    [t, AuthRuleID, ''1.0.0'', marshal (JArr [JObj [(''field'', JStr ''src_endpoint.ip''), (''values'', str_list [src])]])]"

lemma auth_key_eq:
  "auth_source e \<noteq> [] \<Longrightarrow> correlation_key (auth_observation e) = auth_key (ev_tenant e) (auth_source e)"
  using auth_group_source [of e]
  by (simp add: correlation_key_def auth_observation_def auth_key_def del: join.simps marshal.simps)

lemma auth_sources: "uniqueStrings [authBaseRuleID] = [authBaseRuleID]"
  by code_simp

definition auth_mark :: "tenant \<Rightarrow> string \<Rightarrow> string \<Rightarrow> string" where
  "auth_mark t src i = auth_key t src @ record_separator @ authBaseRuleID @ record_separator @ i"

lemma auth_mark_eq:
  "auth_source e \<noteq> [] \<Longrightarrow>
     observation_key (auth_observation e) authBaseRuleID = auth_mark (ev_tenant e) (auth_source e) (ev_id e)"
  by (simp add: observation_key_def auth_key_eq auth_mark_def) (simp add: auth_observation_def)

lemma auth_mark_inj: "auth_mark t src i = auth_mark t src j \<longleftrightarrow> i = j"
  by (simp add: auth_mark_def)

definition auth_record :: "canonical_event \<Rightarrow> correlation_record" where
  "auth_record e = new_record (auth_observation e) authBaseRuleID"

lemma auth_record_simps [simp]:
  "cr_source (auth_record e) = authBaseRuleID" "cr_event (auth_record e) = ev_id e" "cr_time (auth_record e) = ev_time e"
  by (simp_all add: auth_record_def new_record_def auth_observation_def)

text \<open>The records of a burst satisfy the specification iff there are five of them.\<close>

lemma auth_satisfied:
  assumes "distinct (map ev_id es)" "\<forall>e \<in> set es. ev_id e \<noteq> []"
  shows "ce_satisfied (EvaluateCorrelation auth_spec (map auth_record es)) \<longleftrightarrow> 5 \<le> length es"
proof -
  have "correlated_events auth_spec (map auth_record es) = set (map ev_id es)"
    using assms(2) by (auto simp: correlated_events_def auth_spec_def)
  then have "card (correlated_events auth_spec (map auth_record es)) = length es"
    using assms(1) by (metis distinct_card length_map)
  then show ?thesis
    by (simp add: EvaluateCorrelation_def Let_def length_uniqueEventIDs) (simp add: auth_spec_def)
qed

text \<open>An observation none of whose records is known or out of the window.\<close>

lemma observe_fresh:
  assumes "fresh_records input (uniqueStrings (co_sources input)) (mc_observation s) = (news, seen)" "news \<noteq> []"
    and "filter (in_window input) (mc_records s (correlation_key input)) = old"
    and "filter (retained input) (mc_records s (correlation_key input)) = old"
  shows "\<exists>ev s'. observe input s = (ev, s') \<and>
    mc_records s' = (mc_records s)(correlation_key input := old @ news) \<and> mc_observation s' = seen \<and>
    (ce_triggered ev \<longleftrightarrow> \<not> ce_satisfied (EvaluateCorrelation (co_spec input) old) \<and>
       ce_satisfied (EvaluateCorrelation (co_spec input) (old @ news)) \<and>
       \<not> mc_emissions s (CorrelationFingerprint input (EvaluateCorrelation (co_spec input) (old @ news)))) \<and>
    (\<not> ce_triggered ev \<longrightarrow> mc_emissions s' = mc_emissions s)"
  using assms by (auto simp: observe_def Let_def)

text \<open>The correlation memory after the events \<open>es\<close> of a burst.\<close>

definition burst_state :: "tenant \<Rightarrow> string \<Rightarrow> canonical_event list \<Rightarrow> correlation_state \<Rightarrow> bool" where
  "burst_state t src es s \<longleftrightarrow>
     mc_records s (auth_key t src) = map auth_record es \<and>
     (\<forall>i. mc_observation s (auth_mark t src i) \<longleftrightarrow> i \<in> ev_id ` set es) \<and>
     (length es \<le> 4 \<longrightarrow> mc_emissions s = (\<lambda>_. False))"

definition auth_burst :: "tenant \<Rightarrow> string \<Rightarrow> canonical_event list \<Rightarrow> bool" where
  "auth_burst t src es \<longleftrightarrow>
     (\<forall>e \<in> set es. auth_failure e \<and> ev_tenant e = t \<and> auth_source e = src \<and> trim_space (ev_id e) \<noteq> [] \<and> \<not> is_zero (ev_time e)) \<and>
     distinct (map ev_id es) \<and> sorted (map ev_time es) \<and>
     (\<forall>e \<in> set es. \<forall>e' \<in> set es. ev_time e' - ev_time e \<le> 5 * minute)"

lemma auth_burst_prefix: "auth_burst t src (es @ es') \<Longrightarrow> auth_burst t src es"
  by (auto simp: auth_burst_def sorted_append)

lemma observe_burst:
  assumes "auth_burst t src (es @ [e])" "burst_state t src es s"
  obtains ev s' where "observe (auth_observation e) s = (ev, s')" "burst_state t src (es @ [e]) s'"
    "ce_triggered ev \<longleftrightarrow> length es = 4"
proof -
  let ?o = "auth_observation e"
  have e: "auth_source e \<noteq> []" "ev_tenant e = t" "auth_source e = src" "ev_id e \<noteq> []"
    using assms(1) by (auto simp: auth_burst_def auth_failure_def)
  have key: "correlation_key ?o = auth_key t src" and mark: "observation_key ?o authBaseRuleID = auth_mark t src (ev_id e)"
    using auth_key_eq auth_mark_eq e by simp_all
  have spec: "co_spec ?o = auth_spec" and time: "co_time ?o = ev_time e" and sources: "uniqueStrings (co_sources ?o) = [authBaseRuleID]"
    by (simp_all add: auth_observation_def auth_sources)
  have span: "window_span ?o = 5 * minute"
    by (simp add: window_span_def spec auth_spec_def minute_def go_second_def)
  have recs: "mc_records s (auth_key t src) = map auth_record es" using assms(2) by (simp add: burst_state_def)
  have "ev_id e \<notin> ev_id ` set es" using assms(1) by (auto simp: auth_burst_def)
  then have fresh: "fresh_records ?o [authBaseRuleID] (mc_observation s) =
      ([auth_record e], (mc_observation s)(auth_mark t src (ev_id e) := True))"
    using assms(2) by (simp add: burst_state_def mark auth_record_def)
  have times: "ev_time x \<le> ev_time e \<and> ev_time e - ev_time x \<le> 5 * minute" if "x \<in> set es" for x
    using assms(1) that by (auto simp: auth_burst_def sorted_append)
  have win: "filter (in_window ?o) (map auth_record es) = map auth_record es"
    using times by (fastforce simp: filter_id_conv in_window_def time span)
  have ret: "filter (retained ?o) (map auth_record es) = map auth_record es"
    using times by (fastforce simp: filter_id_conv retained_def time span minute_def go_second_def)
  have ids: "\<forall>x \<in> set (es @ [e]). ev_id x \<noteq> []" "distinct (map ev_id (es @ [e]))"
    using assms(1) by (auto simp: auth_burst_def)
  have before: "ce_satisfied (EvaluateCorrelation auth_spec (map auth_record es)) \<longleftrightarrow> 5 \<le> length es"
    using ids by (intro auth_satisfied) auto
  have after: "ce_satisfied (EvaluateCorrelation auth_spec (map auth_record es @ [auth_record e])) \<longleftrightarrow> 4 \<le> length es"
    using auth_satisfied [OF ids(2,1)] by simp
  from observe_fresh [of ?o s, unfolded sources, OF fresh] win ret obtain ev s' where o: "observe ?o s = (ev, s')"
    and r: "mc_records s' = (mc_records s)(auth_key t src := map auth_record es @ [auth_record e])"
    and m: "mc_observation s' = (mc_observation s)(auth_mark t src (ev_id e) := True)"
    and tr: "ce_triggered ev \<longleftrightarrow> \<not> 5 \<le> length es \<and> 4 \<le> length es \<and>
      \<not> mc_emissions s (CorrelationFingerprint ?o (EvaluateCorrelation auth_spec (map auth_record es @ [auth_record e])))"
    and em: "\<not> ce_triggered ev \<Longrightarrow> mc_emissions s' = mc_emissions s"
    by (auto simp: key recs spec before after)
  have no: "mc_emissions s = (\<lambda>_. False)" if "length es \<le> 4" using assms(2) that by (simp add: burst_state_def)
  have trig: "ce_triggered ev \<longleftrightarrow> length es = 4" using tr no by auto
  have "mc_emissions s' = (\<lambda>_. False)" if "length (es @ [e]) \<le> 4"
    using em trig no that by simp
  then have "burst_state t src (es @ [e]) s'"
    using assms(2) by (auto simp: burst_state_def auth_mark_inj r m)
  with o trig that show thesis by blast
qed

subsection \<open>A burst of failures\<close>

lemma auth_run_step:
  assumes "auth_burst t src (es @ [e])" "burst_state t src es (eg_correlation eg)"
    and "trim_space t \<noteq> []" "live w" "ep_ObserveCorrelation port = None"
  obtains ev rest eg' w' where "observeAuthenticationFailure port e ((s, eg), w) = (Inr (ev, rest), ((s, eg'), w'))"
    "burst_state t src (es @ [e]) (eg_correlation eg')" "ce_triggered ev \<longleftrightarrow> length es = 4" "live w'"
proof -
  have e: "auth_failure e" "ev_tenant e = t" "trim_space (ev_id e) \<noteq> []" "\<not> is_zero (ev_time e)"
    using assms(1) by (auto simp: auth_burst_def)
  obtain ev c where o: "observe (auth_observation e) (eg_correlation eg) = (ev, c)"
    and c: "burst_state t src (es @ [e]) c" and tr: "ce_triggered ev \<longleftrightarrow> length es = 4"
    by (rule observe_burst [OF assms(1,2)])
  have ne: "trim_space AuthRuleID \<noteq> []" "trim_space ''1.0.0'' \<noteq> []" by code_simp+
  have g: "trim_space (auth_group e) \<noteq> []" using e(1) by (intro auth_group_nonblank) (simp add: auth_failure_def)
  have "validateCorrelationObservation (auth_observation e) = Inr ()"
    using e assms(3) ne g
    by (simp add: validateCorrelationObservation_def auth_observation_def auth_spec_def minute_def go_second_def hour_def)
  then have "ObserveCorrelation (auth_observation e) (eg_correlation eg, w) = (Inr ev, (c, snd (ctx_err w)))"
    using assms(4) o by (simp add: ObserveCorrelation_def case_prod_beta)
  then have "engine_observeCorrelation port (auth_observation e) ((s, eg), w) =
      (Inr ev, ((s, eg\<lparr>eg_correlation := c\<rparr>), snd (ctx_err w)))"
    by (simp add: engine_observeCorrelation_def assms(5) on_correlation_def)
  then have "\<exists>rest. observeAuthenticationFailure port e ((s, eg), w) =
      (Inr (ev, rest), ((s, eg\<lparr>eg_correlation := c\<rparr>), snd (ctx_err w)))"
    using e(1) by (simp add: observeAuthenticationFailure_def op_bind_def op_return_def)
  then show thesis using that c tr assms(4) by fastforce
qed

lemma auth_run:
  assumes "auth_burst t src (done @ es)" "burst_state t src done (eg_correlation eg)"
    and "trim_space t \<noteq> []" "live w" "ep_ObserveCorrelation port = None"
  shows "\<exists>rs sw'. op_map (observeAuthenticationFailure port) es ((s, eg), w) = (Inr rs, sw') \<and>
    map (\<lambda>r. ce_triggered (fst r)) rs = map (\<lambda>i. i = 4) [length done ..< length done + length es]"
  using assms
proof (induction es arbitrary: "done" eg w)
  case Nil
  then show ?case by (simp add: op_return_def)
next
  case (Cons e es)
  have "auth_burst t src (done @ [e])" using Cons.prems(1) auth_burst_prefix [of t src "done @ [e]" es] by simp
  from auth_run_step [OF this Cons.prems(2-5)] obtain ev rest eg' w' where
    o: "observeAuthenticationFailure port e ((s, eg), w) = (Inr (ev, rest), ((s, eg'), w'))"
    and b: "burst_state t src (done @ [e]) (eg_correlation eg')" "ce_triggered ev \<longleftrightarrow> length done = 4" and l: "live w'" by metis
  from Cons.IH [OF _ b(1) Cons.prems(3) l Cons.prems(5)] Cons.prems(1) obtain rs sw' where
    rs: "op_map (observeAuthenticationFailure port) es ((s, eg'), w') = (Inr rs, sw')"
    "map (\<lambda>r. ce_triggered (fst r)) rs = map (\<lambda>i. i = 4) [Suc (length done) ..< Suc (length done + length es)]"
    by auto
  have "[length done ..< Suc (length done + length es)] = length done # [Suc (length done) ..< Suc (length done + length es)]"
    by (simp add: upt_conv_Cons del: upt_Suc)
  with o rs b(2) show ?case by (simp add: op_bind_def op_return_def del: upt_Suc)
qed

text \<open>C40. Authentication failures of one tenant from one source, in any number, with distinct identifiers, in the order
  of their times and all within five minutes, are all accepted, and exactly the fifth triggers the built-in threshold
  rule: the first four are not enough, and the later ones are part of the incident that has been raised.\<close>

theorem auth_threshold_fifth:
  assumes "auth_burst t src es" "trim_space t \<noteq> []" "live w"
    and "ep_ObserveCorrelation port = None" "eg_correlation eg = NewMemoryCorrelationStore"
  shows "\<exists>rs sw'. op_map (observeAuthenticationFailure port) es ((s, eg), w) = (Inr rs, sw') \<and>
    map (\<lambda>r. ce_triggered (fst r)) rs = map (\<lambda>i. i = 4) [0 ..< length es]"
  using auth_run [of t src "[]" es eg w port s] assms
  by (simp add: burst_state_def NewMemoryCorrelationStore_def)

definition sample_failure :: "nat \<Rightarrow> canonical_event" where
  "sample_failure k = zero_event\<lparr>ev_id := ''e'' @ nat_dec k, ev_tenant := ''uni'', ev_time := int (Suc k) * go_second,
     ev_category := ''Authentication'', ev_result := \<lparr>sr_action = ''logon'', sr_outcome = ''FAILURE''\<rparr>,
     ev_src := \<lparr>endpoint_ip = ''10.0.0.9'', endpoint_port = 0, endpoint_hostname = []\<rparr>\<rparr>"

definition calm_world :: world where
  "calm_world = \<lparr>clock = (\<lambda>n. 63000000000 * go_second + int n), ticks = 0, entropy = (\<lambda>n. Some (map (\<lambda>i. char_of (n + i)) [0 ..< 12])),
     drawn = 0, ctx_done = (\<lambda>_. False), polls = 0\<rparr>"

definition bare_port :: "unit engine_port" where
  "bare_port = \<lparr>ep_SetRules = (\<lambda>_. op_return ()), ep_PutEvent = (\<lambda>e. op_return (e, False)), ep_PutFinding = (\<lambda>_. op_return ()),
     ep_UpsertAlert = (\<lambda>a _ _. op_return (a, True)), ep_AppendAudit = op_return, ep_ObserveEntityEvent = None,
     ep_PublishedDetectionContent = None, ep_ObserveCorrelation = None, ep_MatchThreatIntelEvent = None,
     ep_ObserveUEBAEvent = None, ep_decode = (\<lambda>_. None)\<rparr>"

lemma sample_burst: "auth_burst ''uni'' ''10.0.0.9'' (map sample_failure [0, 1, 2, 3, 4, 5])"
proof -
  have f: "auth_failure (sample_failure k)" "ev_tenant (sample_failure k) = ''uni''" "auth_source (sample_failure k) = ''10.0.0.9''"
    "\<not> is_zero (ev_time (sample_failure k))" for k
  proof -
    have "equal_fold ''Authentication'' ''authentication''" "equal_fold ''FAILURE'' ''failure''" by code_simp+
    then show "auth_failure (sample_failure k)" "ev_tenant (sample_failure k) = ''uni''" "auth_source (sample_failure k) = ''10.0.0.9''"
      "\<not> is_zero (ev_time (sample_failure k))"
      by (simp_all add: sample_failure_def auth_failure_def auth_source_def is_zero_def go_second_def)
  qed
  have t: "ev_time (sample_failure k) = 1000000000 * (int k + 1)" for k
    by (simp add: sample_failure_def go_second_def)
  have "list_all (\<lambda>k. trim_space (ev_id (sample_failure k)) \<noteq> []) [0, 1, 2, 3, 4, 5]"
    "distinct (map ev_id (map sample_failure [0, 1, 2, 3, 4, 5]))"
    by code_simp+
  moreover have "sorted (map ev_time (map sample_failure [0, 1, 2, 3, 4, 5]))"
    by (simp add: t)
  moreover have "\<forall>e \<in> set (map sample_failure [0, 1, 2, 3, 4, 5]). \<forall>e' \<in> set (map sample_failure [0, 1, 2, 3, 4, 5]).
      ev_time e' - ev_time e \<le> 5 * minute"
    by (simp add: t minute_def go_second_def)
  ultimately show ?thesis using f unfolding auth_burst_def list_all_iff set_map by blast
qed

theorem auth_threshold_fifth_witness:
  "\<exists>rs sw'. op_map (observeAuthenticationFailure bare_port) (map sample_failure [0, 1, 2, 3, 4, 5])
      (((), \<lparr>eg_rules = (\<lambda>_. None), eg_dynamic = (\<lambda>_. None), eg_correlation = NewMemoryCorrelationStore\<rparr>), calm_world) = (Inr rs, sw') \<and>
    map (\<lambda>r. ce_triggered (fst r)) rs = [False, False, False, False, True, False]"
proof -
  have "trim_space ''uni'' \<noteq> []" by code_simp
  moreover have "live calm_world" by (simp add: live_def calm_world_def)
  ultimately show ?thesis
    using auth_threshold_fifth [OF sample_burst, of calm_world bare_port
        "\<lparr>eg_rules = (\<lambda>_. None), eg_dynamic = (\<lambda>_. None), eg_correlation = NewMemoryCorrelationStore\<rparr>" "()"]
    by (simp add: bare_port_def upt_rec)
qed

end
