(* ===== verification/Engine_Properties.thy ===== *)
theory Engine_Properties
  imports Auth_Threshold Soc_Runs
begin

text \<open>
  Properties of the pipeline: what a match leaves in the store, the bounds of risk scores, the
  accounting of a successful ingest, its idempotence, tenant isolation, what a failed detection loses, and the
  authentication threshold.
\<close>

subsection \<open>Runs of the emitting operations\<close>

lemma on_store_Inr:
  "on_store f ((s, e), w) = (Inr x, ((s', e'), w')) \<longleftrightarrow> f (s, w) = (Inr x, (s', w')) \<and> e' = e"
  by (auto simp: on_store_def split: prod.splits)

lemma state_op_Inr: "state_op f (m, w) = (Inr x, (m', w')) \<longleftrightarrow> f m = (x, m') \<and> w' = w"
  by (auto simp: state_op_def split: prod.splits)

lemma guarded_state_Inr: "guarded (state_op f) (m, w) = (Inr x, (m', w')) \<Longrightarrow> f m = (x, m')"
  by (auto dest!: guarded_Inr simp: state_op_Inr)

definition finding_for :: "canonical_event \<Rightarrow> detection_match \<Rightarrow> finding \<Rightarrow> bool" where
  "finding_for event m f \<longleftrightarrow> fi_id f \<noteq> [] \<and>
     fi_tenant f = ev_tenant event \<and> fi_event f = ev_id event \<and> rule_id (fi_rule f) = dr_id (dm_rule m) \<and>
     fi_risk_breakdown f = dm_factors m \<and> fi_risk_score f = clamp_risk (total_risk (dm_factors m)) \<and>
     fi_severity f = SeverityFromRisk (fi_risk_score f) \<and> fi_matched_fields f = dm_fields m"

lemma new_id_Nil: "new_id p w \<noteq> ([], w')"
  by (metis fst_conv new_id_nonempty)

lemma makeFinding_Inr:
  assumes "makeFinding event m sw = (Inr f, sw')"
  shows "finding_for event m f \<and> fst sw' = fst sw"
  using assms
  by (auto simp: new_id_Nil makeFinding_def op_bind_eq_Inr op_return_Inr op_new_id_def op_now_def Let_def finding_for_def
      split: prod.splits)

definition alert_for :: "canonical_event \<Rightarrow> finding \<Rightarrow> string list \<Rightarrow> alert \<Rightarrow> bool" where
  "alert_for event f correlated a \<longleftrightarrow>
     al_tenant a = ev_tenant event \<and> al_status a = ''NEW'' \<and> al_version a = 1 \<and>
     al_finding_ids a = [fi_id f] \<and> al_event_ids a = alert_events event correlated \<and>
     al_risk_score a = fi_risk_score f \<and> al_severity a = fi_severity f \<and> al_entity a = alert_entity event"

lemma makeAlert_Inr:
  assumes "makeAlert event f correlated d sw = (Inr (a, k), sw')"
  shows "alert_for event f correlated a \<and> k = alert_dedup_key f (alert_entity event) d \<and> fst sw' = fst sw"
  using assms
  by (auto simp: makeAlert_def op_bind_eq_Inr op_return_Inr op_new_id_def op_now_def Let_def alert_for_def
      split: prod.splits)

text \<open>A successful emission on the embedded store, step by step.\<close>

lemma emit_match_steps:
  assumes "emit_match (memory_engine_port px) t event m (((mm, x), e), w) = (Inr (f, a), (((mm', x'), e'), w'))"
  obtains candidate key created mm2 entry w1 where
    "finding_for event m f" "alert_for event f (dm_events m) candidate"
    "key = alert_dedup_key f (alert_entity event) (dm_dedup m)"
    "UpsertAlert candidate key (15 * minute) (PutFinding f mm) = ((a, created), mm2)"
    "AppendAudit (detection_audit t event m f (a, created)) (mm2, w1) = (entry, (mm', w'))"
    "x' = x" "e' = e"
proof -
  let ?port = "memory_engine_port px"
  from assms obtain sw1 sw2 sw3 sw4 candidate key ac entry where
    f: "makeFinding event m (((mm, x), e), w) = (Inr f, sw1)"
    and put: "on_store (ep_PutFinding ?port f) sw1 = (Inr (), sw2)"
    and alert: "makeAlert event f (dm_events m) (dm_dedup m) sw2 = (Inr (candidate, key), sw3)"
    and upsert: "on_store (ep_UpsertAlert ?port candidate key (15 * minute)) sw3 = (Inr ac, sw4)"
    and audit: "on_store (ep_AppendAudit ?port (detection_audit t event m f ac)) sw4 = (Inr entry, (((mm', x'), e'), w'))"
    and a: "a = fst ac"
    unfolding emit_match_def op_bind_eq_Inr op_return_Inr case_prod_beta by (auto simp: prod_eq_iff)
  obtain m1 x1 e1 v1 where sw1: "sw1 = (((m1, x1), e1), v1)" by (metis prod.exhaust)
  obtain m2 x2 e2 v2 where sw2: "sw2 = (((m2, x2), e2), v2)" by (metis prod.exhaust)
  obtain m3 x3 e3 v3 where sw3: "sw3 = (((m3, x3), e3), v3)" by (metis prod.exhaust)
  obtain m4 x4 e4 v4 where sw4: "sw4 = (((m4, x4), e4), v4)" by (metis prod.exhaust)
  from makeFinding_Inr [OF f] have ff: "finding_for event m f" and s1: "m1 = mm" "x1 = x" "e1 = e" by (simp_all add: sw1)
  from put have s2: "m2 = PutFinding f m1" "x2 = x1" "e2 = e1"
    by (auto simp: sw1 sw2 memory_engine_port_def on_store_Inr repo_PutFinding_def dest!: guarded_state_Inr)
  from makeAlert_Inr [OF alert] have fa: "alert_for event f (dm_events m) candidate"
    and k: "key = alert_dedup_key f (alert_entity event) (dm_dedup m)" and s3: "m3 = m2" "x3 = x2" "e3 = e2"
    by (simp_all add: sw2 sw3)
  from upsert have u: "UpsertAlert candidate key (15 * minute) m3 = (ac, m4)" and s4: "x4 = x3" "e4 = e3"
    by (auto simp: sw3 sw4 memory_engine_port_def on_store_Inr repo_UpsertAlert_def dest!: guarded_state_Inr)
  from audit have ap: "repo_AppendAudit (detection_audit t event m f ac) (m4, v4) = (Inr entry, (mm', w'))"
    and s5: "x' = x4" "e' = e4"
    by (auto simp: sw4 memory_engine_port_def on_store_Inr)
  from repo_AppendAudit_Inr [OF ap] obtain w1 where
    "AppendAudit (detection_audit t event m f ac) (m4, w1) = (entry, (mm', w'))" by blast
  with that [OF ff fa k _ _ s5(1) [unfolded s4 s3 s2 s1] s5(2) [unfolded s4 s3 s2 s1], of "snd ac" m4 w1 entry] u a
  show thesis by (simp add: s1 s2 s3)
qed

lemma op_map_result:
  "op_map f xs sw = (Inr ys, sw') \<Longrightarrow> y \<in> set ys \<Longrightarrow> \<exists>x \<in> set xs. \<exists>sw1 sw2. f x sw1 = (Inr y, sw2)"
proof (induction xs arbitrary: ys sw)
  case (Cons x xs)
  then obtain z sw1 zs where z: "f x sw = (Inr z, sw1)" and zs: "op_map f xs sw1 = (Inr zs, sw')" and ys: "ys = z # zs"
    by (auto simp: op_bind_eq_Inr op_return_Inr)
  show ?case
  proof (cases "y = z")
    case True
    show ?thesis by (rule bexI [of _ x]) (use z True in \<open>blast, simp\<close>)
  next
    case False
    with Cons.prems(2) ys Cons.IH [OF zs] show ?thesis by auto
  qed
qed (simp add: op_return_Inr)

text \<open>A successful ingest of a new event, in its four steps.\<close>

lemma Ingest_steps:
  assumes "Ingest port t input sw = (Inr res, sw')" "\<not> ir_duplicate res"
  obtains event stored sw1 sw2 sw3 sw4 matches emitted where
    "normalize t input sw = (Inr event, sw1)" "on_store (ep_PutEvent port event) sw1 = (Inr (stored, False), sw2)"
    "observe_entities port stored sw2 = (Inr (), sw3)" "detect port stored sw3 = (Inr matches, sw4)"
    "op_map (emit_match port t stored) matches sw4 = (Inr emitted, sw')"
    "ir_event res = stored" "ir_findings res = map fst emitted" "ir_alerts res = map snd emitted"
proof -
  from assms(1) obtain event sw1 sd sw2 sw3 where n: "normalize t input sw = (Inr event, sw1)"
    and p: "on_store (ep_PutEvent port event) sw1 = (Inr sd, sw2)"
    and o: "observe_entities port (fst sd) sw2 = (Inr (), sw3)"
    and r: "(if snd sd then op_return \<lparr>ir_event = fst sd, ir_findings = [], ir_alerts = [], ir_duplicate = True\<rparr>
      else op_bind (detect port (fst sd)) (\<lambda>matches.
         op_bind (op_map (emit_match port t (fst sd)) matches) (\<lambda>emitted.
         op_return \<lparr>ir_event = fst sd, ir_findings = map fst emitted, ir_alerts = map snd emitted,
                    ir_duplicate = False\<rparr>))) sw3 = (Inr res, sw')"
    unfolding Ingest_def op_bind_eq_Inr case_prod_beta by (auto simp: unit_eq)
  have d: "\<not> snd sd" using r assms(2) by (cases "snd sd") (simp_all add: op_return_Inr)
  with r obtain matches sw4 emitted where
    "detect port (fst sd) sw3 = (Inr matches, sw4)"
    "op_map (emit_match port t (fst sd)) matches sw4 = (Inr emitted, sw')"
    "res = \<lparr>ir_event = fst sd, ir_findings = map fst emitted, ir_alerts = map snd emitted, ir_duplicate = False\<rparr>"
    by (auto simp: op_bind_eq_Inr op_return_Inr)
  with n p o d that [of event sw1 "fst sd" sw2 sw3 matches sw4 emitted] show thesis by (cases sd) auto
qed

lemma total_risk_sum: "total_risk fs = (\<Sum>f \<leftarrow> fs. rf_delta f)"
proof -
  have "foldl (\<lambda>risk f. risk + rf_delta f) r fs = r + (\<Sum>f \<leftarrow> fs. rf_delta f)" for r
    by (induction fs arbitrary: r) (simp_all add: algebra_simps)
  then show ?thesis by (simp add: total_risk_def)
qed

lemma emit_match_finding:
  "emit_match port t event m sw = (Inr (f, a), sw') \<Longrightarrow> finding_for event m f"
  by (auto simp: emit_match_def op_bind_eq_Inr op_return_Inr case_prod_beta dest: makeFinding_Inr)

definition risk_explained :: "finding \<Rightarrow> bool" where
  "risk_explained f \<longleftrightarrow>
     0 \<le> fi_risk_score f \<and> fi_risk_score f \<le> 100 \<and>
     fi_risk_score f = max 0 (min 100 (\<Sum>r \<leftarrow> fi_risk_breakdown f. rf_delta r)) \<and>
     fi_severity f = SeverityFromRisk (fi_risk_score f)"

lemma finding_for_explained: "finding_for event m f \<Longrightarrow> risk_explained f"
  by (auto simp: finding_for_def risk_explained_def clamp_risk_def total_risk_sum)

lemma normalize_Inr:
  assumes "normalize t input sw = (Inr e, sw')"
  shows "ev_tenant e = t" "ev_id e \<noteq> []" "ev_id input \<noteq> [] \<Longrightarrow> ev_id e = ev_id input"
    "raw_hash (ev_raw e) = hash_prefix @ sha256_hex (raw_message (ev_raw e))" "fst sw' = fst sw"
proof -
  from normalize_event [OF assms] obtain now i where e: "e = fill_event t now i input"
    and i: "ev_id input \<noteq> [] \<longrightarrow> i = ev_id input" "i \<noteq> []" and s: "fst sw' = fst sw" by blast
  show "ev_tenant e = t" "ev_id e \<noteq> []" "ev_id input \<noteq> [] \<Longrightarrow> ev_id e = ev_id input" "fst sw' = fst sw"
    using e i s by (simp_all add: fill_event_tenant)
  have "raw_hash (fill_raw x) = hash_prefix @ sha256_hex (raw_message (fill_raw x))" for x
    by (simp add: fill_raw_def Let_def)
  then show "raw_hash (ev_raw e) = hash_prefix @ sha256_hex (raw_message (ev_raw e))"
    by (simp add: e fill_event_def Let_def)
qed

text \<open>C37. On any store, every finding of a successful ingest concerns the stored event and explains its risk: the
  score is the sum of the factors' deltas clamped to 0..100, and the severity is the one of the score; each
  finding comes with one alert.\<close>

theorem Ingest_findings_explained:
  assumes "Ingest port t input sw = (Inr res, sw')"
  shows "length (ir_alerts res) = length (ir_findings res) \<and>
    (\<forall>f \<in> set (ir_findings res). risk_explained f \<and> fi_event f = ev_id (ir_event res) \<and>
       fi_tenant f = ev_tenant (ir_event res))"
proof (cases "ir_duplicate res")
  case True
  then have "ir_findings res = [] \<and> ir_alerts res = []" using assms
    by (auto simp: Ingest_def op_bind_eq_Inr op_return_Inr split: if_splits)
  then show ?thesis by simp
next
  case False
  obtain event stored sw1 sw2 sw3 sw4 matches emitted where
    m: "op_map (emit_match port t stored) matches sw4 = (Inr emitted, sw')"
    and r: "ir_event res = stored" "ir_findings res = map fst emitted" "ir_alerts res = map snd emitted"
    by (rule Ingest_steps [OF assms False])
  have "\<exists>x. finding_for stored x (fst p)" if "p \<in> set emitted" for p
    using op_map_result [OF m that] emit_match_finding by (metis prod.collapse)
  then show ?thesis using r finding_for_explained by (fastforce simp: finding_for_def)
qed

subsection \<open>What a match leaves in the embedded store\<close>

lemma UpsertAlert_stored:
  assumes "UpsertAlert c k win m = ((a, created), m')" "filed al_tenant al_id (me_alerts m)"
  shows "me_alerts m' (al_tenant c) (al_id a) = Some a \<and> al_tenant a = al_tenant c \<and>
    set (al_finding_ids c) - {[]} \<subseteq> set (al_finding_ids a) \<and> set (al_event_ids c) - {[]} \<subseteq> set (al_event_ids a) \<and>
    al_risk_score c \<le> al_risk_score a \<and> filed al_tenant al_id (me_alerts m') \<and> me_findings m' = me_findings m \<and>
    me_audit m' = me_audit m"
proof (cases "merge_target c (dedup_key (al_tenant c) k) win m")
  case None
  with assms show ?thesis by (auto simp: UpsertAlert_insert insert_alert_def filed_upd2)
next
  case (Some p)
  obtain i b where p: "p = (i, b)" by fastforce
  with Some merge_target_Some have b: "me_alerts m (al_tenant c) i = Some b" by blast
  with assms(2) have "al_tenant b = al_tenant c" "al_id b = i" by (auto dest: filedD)
  with assms Some p show ?thesis by (auto simp: UpsertAlert_merge appendUnique_def filed_upd2)
qed

lemma PutFinding_stored: "me_findings (PutFinding f m) (fi_tenant f) (fi_id f) \<noteq> None"
  by (rule findings_log.look_put_self)

definition detection_entry :: "alert \<Rightarrow> audit_entry \<Rightarrow> bool" where
  "detection_entry a entry \<longleftrightarrow>
     au_tenant entry = al_tenant a \<and> au_actor entry = ''system:detection-engine'' \<and>
     au_resource_type entry = ''alert'' \<and> au_resource_id entry = al_id a \<and>
     au_action entry \<in> {''alert.created'', ''alert.updated''}"

lemma AppendAudit_fields:
  assumes "AppendAudit e (m, w) = (e', (m', w'))"
  shows "au_actor e' = au_actor e \<and> au_action e' = au_action e \<and> au_resource_type e' = au_resource_type e \<and>
    au_resource_id e' = au_resource_id e \<and> au_tenant e' = au_tenant e"
  using assms by (auto simp: AppendAudit_def stamp_audit_def Let_def split: prod.splits if_splits)

text \<open>The effect of one match, with the alerts of the store filed under their own identifiers.\<close>

lemma emit_match_effect:
  assumes "emit_match (memory_engine_port px) t event mt (((m, x), e), w) = (Inr (f, a), (((m', x'), e'), w'))"
    and "filed al_tenant al_id (me_alerts m)" "ev_tenant event = t"
  shows "me_findings m' t (fi_id f) \<noteq> None \<and> me_alerts m' t (al_id a) = Some a \<and> al_tenant a = t \<and>
    fi_id f \<in> set (al_finding_ids a) \<and> set (alert_events event (dm_events mt)) - {[]} \<subseteq> set (al_event_ids a) \<and>
    fi_risk_score f \<le> al_risk_score a \<and> risk_explained f \<and>
    (\<exists>entry. me_audit m' t = me_audit m t @ [entry] \<and> detection_entry a entry) \<and>
    filed al_tenant al_id (me_alerts m')"
proof -
  obtain candidate key created m2 entry w1 where
    f: "finding_for event mt f" and c: "alert_for event f (dm_events mt) candidate"
    and u: "UpsertAlert candidate key (15 * minute) (PutFinding f m) = ((a, created), m2)"
    and au: "AppendAudit (detection_audit t event mt f (a, created)) (m2, w1) = (entry, (m', w'))"
    using emit_match_steps [OF assms(1)] by metis
  have "filed al_tenant al_id (me_alerts (PutFinding f m))" using assms(2) by (simp add: frame_simps)
  from UpsertAlert_stored [OF u this] c assms(3)
  have s: "me_alerts m2 t (al_id a) = Some a" "al_tenant a = t" "fi_id f \<in> set (al_finding_ids a)"
    "set (alert_events event (dm_events mt)) - {[]} \<subseteq> set (al_event_ids a)" "fi_risk_score f \<le> al_risk_score a"
    "filed al_tenant al_id (me_alerts m2)" "me_findings m2 = me_findings (PutFinding f m)" "me_audit m2 = me_audit m"
    using f by (auto simp: alert_for_def finding_for_def frame_simps)
  have "fi_tenant f = t" using f assms(3) by (simp add: finding_for_def)
  then have ff: "me_findings m2 t (fi_id f) \<noteq> None" using s(7) PutFinding_stored [of f m] by simp
  have tn: "au_tenant (detection_audit t event mt f (a, created)) = t"
    by (simp add: detection_audit_def system_audit_def)
  have "detection_entry a entry"
    using AppendAudit_fields [OF au] s(2)
    by (auto simp: detection_entry_def detection_audit_def system_audit_def)
  then show ?thesis
    using s ff finding_for_explained [OF f] AppendAudit_cases(4) [OF au] by (simp add: tn)
qed


subsection \<open>Accounting of an ingest\<close>

lemma op_map_emit:
  assumes "op_map (emit_match (memory_engine_port px) t event) matches (((m, x), e), w) = (Inr emitted, (((m', x'), e'), w'))"
    and "filed al_tenant al_id (me_alerts m)" "ev_tenant event = t"
  shows "length emitted = length matches \<and>
    (\<exists>entries. me_audit m' t = me_audit m t @ entries \<and> list_all2 detection_entry (map snd emitted) entries) \<and>
    filed al_tenant al_id (me_alerts m')"
  using assms
proof (induction matches arbitrary: emitted m x e w)
  case Nil
  then show ?case by (auto simp: op_return_Inr)
next
  case (Cons mt matches)
  then obtain f a m1 x1 e1 w1 rest where
    h: "emit_match (memory_engine_port px) t event mt (((m, x), e), w) = (Inr (f, a), (((m1, x1), e1), w1))"
    and r: "op_map (emit_match (memory_engine_port px) t event) matches (((m1, x1), e1), w1) = (Inr rest, (((m', x'), e'), w'))"
    and em: "emitted = (f, a) # rest"
    by (auto simp: op_bind_eq_Inr op_return_Inr)
  note ef = emit_match_effect [OF h Cons.prems(2,3)]
  then obtain entry where en: "me_audit m1 t = me_audit m t @ [entry]" "detection_entry a entry" by blast
  from ef have "filed al_tenant al_id (me_alerts m1)" by blast
  from Cons.IH [OF r this Cons.prems(3)] obtain entries where
    "length rest = length matches" "me_audit m' t = me_audit m1 t @ entries"
    "list_all2 detection_entry (map snd rest) entries" "filed al_tenant al_id (me_alerts m')" by blast
  with en em show ?case by (auto intro!: exI [of _ "entry # entries"])
qed

lemma PutEvent_stored:
  "PutEvent e m = ((stored, d), m') \<Longrightarrow>
     me_events m' (ev_tenant e) (ev_id e) = Some stored \<and> me_audit m' = me_audit m \<and> me_alerts m' = me_alerts m"
  by (auto simp: PutEvent_def split: option.splits)

text \<open>The store between the steps of a successful ingest on the embedded store.\<close>

lemma Ingest_memory_steps:
  assumes "Ingest (memory_engine_port px) t input (((m, x), e), w) = (Inr res, (((m', x'), e'), w'))" "\<not> ir_duplicate res"
  obtains m1 x1 e1 w1 x2 e2 w2 matches emitted where
    "PutEvent (ir_event res) m = ((ir_event res, False), m1)" "ev_tenant (ir_event res) = t" "ev_id (ir_event res) \<noteq> []"
    "raw_hash (ev_raw (ir_event res)) = hash_prefix @ sha256_hex (raw_message (ev_raw (ir_event res)))"
    "detect (memory_engine_port px) (ir_event res) (((m1, x1), e1), w1) = (Inr matches, (((m1, x2), e2), w2))"
    "op_map (emit_match (memory_engine_port px) t (ir_event res)) matches (((m1, x2), e2), w2) =
      (Inr emitted, (((m', x'), e'), w'))"
    "ir_findings res = map fst emitted" "ir_alerts res = map snd emitted"
proof -
  let ?port = "memory_engine_port px"
  obtain event stored sw1 sw2 sw3 sw4 matches emitted where
    n: "normalize t input (((m, x), e), w) = (Inr event, sw1)"
    and p: "on_store (ep_PutEvent ?port event) sw1 = (Inr (stored, False), sw2)"
    and o: "observe_entities ?port stored sw2 = (Inr (), sw3)" and d: "detect ?port stored sw3 = (Inr matches, sw4)"
    and em: "op_map (emit_match ?port t stored) matches sw4 = (Inr emitted, (((m', x'), e'), w'))"
    and r: "ir_event res = stored" "ir_findings res = map fst emitted" "ir_alerts res = map snd emitted"
    by (rule Ingest_steps [OF assms])
  obtain m0 x0 e0 w0 where sw1: "sw1 = (((m0, x0), e0), w0)" by (metis prod.exhaust)
  obtain m1 x1 e1 w1 where sw2: "sw2 = (((m1, x1), e1), w1)" by (metis prod.exhaust)
  obtain m3 x3 e3 w3 where sw3: "sw3 = (((m3, x3), e3), w3)" by (metis prod.exhaust)
  obtain m4 x4 e4 w4 where sw4: "sw4 = (((m4, x4), e4), w4)" by (metis prod.exhaust)
  have m0: "m0 = m" using normalize_Inr(5) [OF n] by (simp add: sw1)
  from p have pe: "PutEvent event m = ((stored, False), m1)"
    by (auto simp: sw1 sw2 m0 memory_engine_port_def on_store_Inr repo_PutEvent_def dest!: guarded_state_Inr)
  then have st: "stored = event" by (rule PutEvent_new)
  from o have "m3 = m1"
    using op_relD [OF detection_frame.entities_rel, of _ stored "((m1, x1), e1)"] by (fastforce simp: sw2 sw3 on_first_def)
  moreover from d have "m4 = m3"
    using op_relD [OF detection_frame.detect_rel [of stored t], of px "((m3, x3), e3)"] normalize_Inr(1) [OF n] st
    by (fastforce simp: sw3 sw4 on_first_def)
  ultimately show thesis
    using that [of m1 x3 e3 w3 matches x4 e4 w4 emitted] pe d em r st normalize_Inr(1,2,4) [OF n] by (simp add: sw3 sw4)
qed

text \<open>A successful ingest of a new event on the embedded store leaves the normalized event, of the
  caller's tenant and with the digest of its raw message, retrievable under its identifier, and extends the tenant's
  audit log by exactly one detection entry per alert of the result, in that order, with the chain
  still intact.\<close>

theorem Ingest_audited:
  assumes "Ingest (memory_engine_port px) t input (((m, x), e), w) = (Inr res, (((m', x'), e'), w'))"
    and "\<not> ir_duplicate res" "mem_wf m"
  shows "me_events m t (ev_id (ir_event res)) = None \<and> me_events m' t (ev_id (ir_event res)) = Some (ir_event res) \<and>
    ev_tenant (ir_event res) = t \<and>
    raw_hash (ev_raw (ir_event res)) = hash_prefix @ sha256_hex (raw_message (ev_raw (ir_event res))) \<and>
    (\<exists>entries. me_audit m' t = me_audit m t @ entries \<and> list_all2 detection_entry (ir_alerts res) entries) \<and>
    VerifyAudit t m'"
proof -
  obtain m1 x1 e1 w1 x2 e2 w2 matches emitted where
    p: "PutEvent (ir_event res) m = ((ir_event res, False), m1)" and t: "ev_tenant (ir_event res) = t"
    and h: "raw_hash (ev_raw (ir_event res)) = hash_prefix @ sha256_hex (raw_message (ev_raw (ir_event res)))"
    and em: "op_map (emit_match (memory_engine_port px) t (ir_event res)) matches (((m1, x2), e2), w2) =
      (Inr emitted, (((m', x'), e'), w'))" and r: "ir_alerts res = map snd emitted"
    by (rule Ingest_memory_steps [OF assms(1,2)])
  have s: "me_events m1 t (ev_id (ir_event res)) = Some (ir_event res)" "me_audit m1 = me_audit m" "me_alerts m1 = me_alerts m"
    using PutEvent_stored [OF p] t by simp_all
  have "ingest_grows m1 m'"
    using op_relD [OF ingest_growth.embedded.pair.rel_map [OF ingest_growth.embedded.emit_rel [OF t]] em]
    by (simp add: on_first_def)
  then have "me_events m' t (ev_id (ir_event res)) = Some (ir_event res)" using s(1) by (simp add: ingest_grows_def)
  moreover have "me_events m t (ev_id (ir_event res)) = None" using p t by (auto simp: PutEvent_def split: option.splits)
  moreover have "filed al_tenant al_id (me_alerts m1)" using assms(3) s(3) by (simp add: mem_wf_def)
  note op_map_emit [OF em this t]
  moreover have "VerifyAudit t m'"
    using op_relD [OF ingest_chain.embedded.ingest_rel assms(1)] assms(3)
    by (simp add: on_first_def keeps_def audit_intact_def mem_wf_def)
  ultimately show ?thesis using s(2) t h r by simp
qed

subsection \<open>Repeated ingests\<close>

definition valid_input :: "tenant \<Rightarrow> canonical_event \<Rightarrow> bool" where
  "valid_input t input \<longleftrightarrow> trim_space t \<noteq> [] \<and> trim_space (ev_category input) \<noteq> [] \<and> src_type (ev_source input) \<noteq> []"

lemma normalize_accepts:
  assumes "valid_input t input"
  obtains event w' where "normalize t input (s, w) = (Inr event, (s, w'))" "live w' = live w"
proof -
  obtain now w1 where c: "time_now w = (now, w1)" by fastforce
  then have l1: "live w1 = live w" by (metis live_frame(1) snd_conv)
  obtain i w2 where d: "(if ev_id input = [] then op_new_id ''evt'' else op_return (ev_id input)) (s, w1) = (Inr i, (s, w2))"
    and l2: "live w2 = live w1"
  proof (cases "ev_id input = []")
    case True
    obtain j w2 where n: "new_id ''evt'' w1 = (j, w2)" by fastforce
    then have "live w2 = live w1" by (metis live_frame(2) snd_conv)
    with True n that [of j w2] show thesis by (simp add: op_new_id_def)
  next
    case False
    with that [of "ev_id input" w1] show thesis by (simp add: op_return_def)
  qed
  have "op_now (s, w) = (Inr now, (s, w1))" by (simp add: op_now_def c)
  then have "normalize t input (s, w) = (Inr (fill_event t now i input), (s, w2))"
    using assms d by (simp add: normalize_def valid_input_def op_bind_def op_return_def)
  with l1 l2 that show thesis by simp
qed

lemma put_event_live:
  assumes "live w"
  shows "on_store (ep_PutEvent (memory_engine_port px) event) (((m, x), e), w) =
    (Inr (fst (PutEvent event m)), (((snd (PutEvent event m), x), e), snd (ctx_err w)))"
  using assms
  by (simp add: memory_engine_port_def on_store_def repo_PutEvent_def guarded_live state_op_def case_prod_beta)

lemma no_entities:
  "px_entities px = None \<Longrightarrow> observe_entities (memory_engine_port px) stored sw = (Inr (), sw)"
  by (simp add: observe_entities_def memory_engine_port_def op_return_def)

lemma Ingest_known:
  assumes "live w" "px_entities px = None" "valid_input t input" "ev_id input \<noteq> []"
    and "me_events m t (ev_id input) = Some stored"
  shows "\<exists>w'. Ingest (memory_engine_port px) t input (((m, x), e), w) =
    (Inr \<lparr>ir_event = stored, ir_findings = [], ir_alerts = [], ir_duplicate = True\<rparr>, (((m, x), e), w'))"
proof -
  obtain event w1 where n: "normalize t input (((m, x), e), w) = (Inr event, (((m, x), e), w1))" and l: "live w1 = live w"
    by (rule normalize_accepts [OF assms(3)])
  have "PutEvent event m = ((stored, True), m)"
    using normalize_Inr(1,3) [OF n] assms(4,5) by (simp add: PutEvent_def)
  with put_event_live [of w1 px event m x e] l assms(1)
  have "on_store (ep_PutEvent (memory_engine_port px) event) (((m, x), e), w1) =
    (Inr (stored, True), (((m, x), e), snd (ctx_err w1)))" by simp
  with n assms(2) show ?thesis
    by (simp add: Ingest_def op_bind_def no_entities op_return_def)
qed

text \<open>Ingesting an event whose identifier the tenant already has answers with the stored event
  and does nothing: no finding, no alert, no audit entry, and no change of the store, the providers or the
  engine.\<close>

theorem Ingest_duplicate_silent:
  assumes "live w" "px_entities px = None" "valid_input t input" "ev_id input \<noteq> []"
    and "me_events m t (ev_id input) = Some stored"
  shows "\<exists>w'. Ingest (memory_engine_port px) t input (((m, x), e), w) =
    (Inr \<lparr>ir_event = stored, ir_findings = [], ir_alerts = [], ir_duplicate = True\<rparr>, (((m, x), e), w'))"
  by (rule Ingest_known [OF assms])

lemma Ingest_failed_stored:
  assumes "live w" "px_entities px = None" "valid_input t input" "ev_id input \<noteq> []"
    and "me_events m t (ev_id input) = None"
    and "Ingest (memory_engine_port px) t input (((m, x), e), w) = (Inl err, (((m', x'), e'), w'))"
  shows "me_events m' t (ev_id input) \<noteq> None"
proof -
  let ?port = "memory_engine_port px"
  obtain event w1 where n: "normalize t input (((m, x), e), w) = (Inr event, (((m, x), e), w1))" and l: "live w1 = live w"
    by (rule normalize_accepts [OF assms(3)])
  have ev: "ev_tenant event = t" "ev_id event = ev_id input" using normalize_Inr(1,3) [OF n] assms(4) by simp_all
  obtain m1 where p: "PutEvent event m = ((event, False), m1)"
    using ev assms(5) by (simp add: PutEvent_def)
  have put: "on_store (ep_PutEvent ?port event) (((m, x), e), w1) = (Inr (event, False), (((m1, x), e), snd (ctx_err w1)))"
    using put_event_live [of w1 px event m x e] l assms(1) p by simp
  define after where "after = op_bind (detect ?port event) (\<lambda>matches.
         op_bind (op_map (emit_match ?port t event) matches) (\<lambda>emitted.
         op_return \<lparr>ir_event = event, ir_findings = map fst emitted, ir_alerts = map snd emitted, ir_duplicate = False\<rparr>))"
  have "after (((m1, x), e), snd (ctx_err w1)) = (Inl err, (((m', x'), e'), w'))"
    using assms(6) n put by (simp add: Ingest_def op_bind_def [of "normalize t input"] op_bind_def [of "on_store _"]
        op_bind_def [of "observe_entities _ _"] no_entities [OF assms(2)] after_def)
  moreover have "op_rel (on_first (on_first ingest_grows)) after"
    unfolding after_def
    by (intro ingest_growth.embedded.pair.rel_intros ingest_growth.embedded.detect_rel [OF ev(1)]
        ingest_growth.embedded.pair.rel_map ingest_growth.embedded.emit_rel [OF ev(1)])
  ultimately have "ingest_grows m1 m'" using op_relD by (fastforce simp: on_first_def)
  moreover have "me_events m1 t (ev_id input) = Some event" using PutEvent_stored [OF p] ev by simp
  ultimately show ?thesis by (auto simp: ingest_grows_def)
qed


subsection \<open>Tenants\<close>

text \<open>Whatever an ingest of one tenant does, succeed or fail, with any providers: no object of another
  tenant changes, no event, finding or audit entry of anyone is lost or changed, and incidents and rules
  stay as they are.\<close>

theorem Ingest_isolated:
  assumes "Ingest (memory_engine_port px) t input (((m, x), e), w) = (r, (((m', x'), e'), w'))"
  shows "(\<forall>t'. t' \<noteq> t \<longrightarrow> tenant_view t' m' = tenant_view t' m) \<and> ingest_grows m m'"
  using op_relD [OF ingest_isolation.embedded.ingest_rel assms] op_relD [OF ingest_growth.embedded.ingest_rel assms]
  by (simp add: on_first_def only_tenant_def)

subsection \<open>Concrete runs\<close>

text \<open>Without optional providers and away from authentication failures an ingest on a live context succeeds.\<close>

definition no_providers :: "unit engine_providers" where
  "no_providers = \<lparr>px_entities = None, px_published = None, px_correlation = None, px_threat = None,
     px_behavior = None, px_decode = (\<lambda>_. None)\<rparr>"

lemma detect_plain:
  "\<not> auth_failure event \<Longrightarrow>
     detect (memory_engine_port no_providers) event ((s, e), w) = (Inr (powershell_matches e event), ((s, e), w))"
  by (simp add: detect_def op_bind_def op_get_def observeAuthenticationFailure_def matchThreatIntelligence_def
      matchUEBA_def rulesForTenant_def memory_engine_port_def no_providers_def op_return_def no_evaluation_def
      sigma_hits_def Let_def)

lemma emit_match_live:
  assumes "live w"
  shows "\<exists>f a m' x' e' w'. emit_match (memory_engine_port px) t event mt (((m, x), e), w) =
    (Inr (f, a), (((m', x'), e'), w')) \<and> live w'"
proof -
  obtain f w1 where f: "makeFinding event mt (((m, x), e), w) = (Inr f, (((m, x), e), w1))" and l1: "live w1"
    using assms by (simp add: makeFinding_def op_bind_def op_new_id_def op_now_def op_return_def Let_def case_prod_beta)
  obtain c k w2 where c: "makeAlert event f (dm_events mt) (dm_dedup mt) (((PutFinding f m, x), e), snd (ctx_err w1)) =
      (Inr (c, k), (((PutFinding f m, x), e), w2))" and l2: "live w2"
    using l1 by (simp add: makeAlert_def op_bind_def op_new_id_def op_now_def op_return_def Let_def case_prod_beta)
  obtain ac m3 where u: "UpsertAlert c k (15 * minute) (PutFinding f m) = (ac, m3)" by fastforce
  have "live (snd (ctx_err w2))" using l2 by simp
  from repo_AppendAudit_live_frame [OF this, of "detection_audit t event mt f ac" m3] obtain en m4 w4 where
    a: "repo_AppendAudit (detection_audit t event mt f ac) (m3, snd (ctx_err w2)) = (Inr en, (m4, w4))" and "live w4" by blast
  with f c u a l1 l2 show ?thesis
    by (simp add: emit_match_def op_bind_def memory_engine_port_def on_store_def repo_PutFinding_def repo_UpsertAlert_def
        guarded_live state_op_def op_return_def)
qed

lemma op_map_emit_live:
  assumes "live w"
  shows "\<exists>emitted s'. op_map (emit_match (memory_engine_port px) t event) matches (((m, x), e), w) = (Inr emitted, s') \<and>
    length emitted = length matches"
  using assms
proof (induction matches arbitrary: m x e w)
  case (Cons mt matches)
  from emit_match_live [OF Cons.prems, of px t event mt m x e] obtain f a m' x' e' w' where
    h: "emit_match (memory_engine_port px) t event mt (((m, x), e), w) = (Inr (f, a), (((m', x'), e'), w'))" "live w'" by blast
  from Cons.IH [OF h(2), of m' x' e'] h(1) show ?case by (auto simp: op_bind_def op_return_def)
qed (simp add: op_return_def)

lemma fill_event_keeps:
  "auth_failure (fill_event t now i e) = auth_failure e"
  "suspiciousPowerShell (fill_event t now i e) = suspiciousPowerShell e"
  by (simp_all add: fill_event_def Let_def auth_failure_def auth_source_def suspiciousPowerShell_def)

lemma Ingest_live:
  assumes "live w" "valid_input t input" "ev_id input \<noteq> []" "me_events m t (ev_id input) = None" "\<not> auth_failure input"
  shows "\<exists>res s'. Ingest (memory_engine_port no_providers) t input (((m, x), e), w) = (Inr res, s') \<and>
    \<not> ir_duplicate res \<and> length (ir_findings res) = (if fst (suspiciousPowerShell input) = [] then 0 else 1)"
proof -
  let ?port = "memory_engine_port no_providers"
  obtain event w1 where n: "normalize t input (((m, x), e), w) = (Inr event, (((m, x), e), w1))" and l: "live w1 = live w"
    by (rule normalize_accepts [OF assms(2)])
  have ev: "ev_tenant event = t" "ev_id event = ev_id input" using normalize_Inr(1,3) [OF n] assms(3) by simp_all
  from normalize_event [OF n] obtain now i where "event = fill_event t now i input" by blast
  then have keep: "auth_failure event = auth_failure input"
    "suspiciousPowerShell event = suspiciousPowerShell input" by (simp_all add: fill_event_keeps)
  obtain m1 where p: "PutEvent event m = ((event, False), m1)" using ev assms(4) by (simp add: PutEvent_def)
  have put: "on_store (ep_PutEvent ?port event) (((m, x), e), w1) = (Inr (event, False), (((m1, x), e), snd (ctx_err w1)))"
    using put_event_live [of w1 no_providers event m x e] l assms(1) p by simp
  have len: "length (powershell_matches e event) = (if fst (suspiciousPowerShell input) = [] then 0 else 1)"
    by (simp add: powershell_matches_def keep case_prod_beta)
  have "live (snd (ctx_err w1))" using l assms(1) by simp
  from op_map_emit_live [OF this, of no_providers t event "powershell_matches e event" m1 x e] obtain emitted s' where
    "op_map (emit_match ?port t event) (powershell_matches e event) (((m1, x), e), snd (ctx_err w1)) = (Inr emitted, s')"
    "length emitted = length (powershell_matches e event)" by blast
  then show ?thesis using n put assms(5) keep len
    by (simp add: Ingest_def op_bind_def [of "normalize t input"] op_bind_def [of "on_store _"] op_bind_def [of "observe_entities _ _"]
        op_bind_def [of "detect _ _"] op_bind_def [of "op_map _ _"] no_entities no_providers_def [THEN arg_cong, of px_entities]
        detect_plain op_return_def)
qed

definition sample_input :: canonical_event where
  "sample_input = zero_event\<lparr>ev_id := ''e1'', ev_category := ''process'',
     ev_source := \<lparr>src_vendor = [], src_product = [], src_type = ''sysmon''\<rparr>,
     ev_process := \<lparr>process_name = ''PowerShell.exe'', process_pid = 7,
                   process_command_line = ''powershell -enc aQBlAHgA'', process_parent_name = []\<rparr>\<rparr>"

definition sample_engine :: engine where
  "sample_engine = \<lparr>eg_rules = map_of (map (\<lambda>r. (dr_id r, r)) (builtin_rules 1)), eg_dynamic = (\<lambda>_. None),
     eg_correlation = NewMemoryCorrelationStore\<rparr>"

lemma sample_input_facts:
  "valid_input ''uni'' sample_input" "ev_id sample_input = ''e1''" "\<not> auth_failure sample_input"
  "fst (suspiciousPowerShell sample_input) \<noteq> []"
proof -
  have "\<not> equal_fold ''process'' ''authentication''" "trim_space ''uni'' \<noteq> []" "trim_space ''process'' \<noteq> []" by code_simp+
  then show "valid_input ''uni'' sample_input" "ev_id sample_input = ''e1''" "\<not> auth_failure sample_input"
    by (simp_all add: sample_input_def valid_input_def auth_failure_def)
  show "fst (suspiciousPowerShell sample_input) \<noteq> []" by code_simp
qed

lemma live_calm: "live calm_world"
  by (simp add: live_def calm_world_def)

lemma new_memory_facts: "me_events NewMemory t i = None" "mem_wf NewMemory"
  using mem_reachable_wf [OF mem_reachable.start] by (simp_all add: NewMemory_def)

lemma sample_run:
  "\<exists>res m' x' e' w'. Ingest (memory_engine_port no_providers) ''uni'' sample_input (((NewMemory, ()), sample_engine), calm_world) =
     (Inr res, (((m', x'), e'), w')) \<and> \<not> ir_duplicate res \<and> length (ir_findings res) = 1"
proof -
  have "ev_id sample_input \<noteq> []" by (simp add: sample_input_facts)
  from Ingest_live [OF live_calm sample_input_facts(1) this new_memory_facts(1) sample_input_facts(3), of "()" sample_engine]
  obtain res s' where "Ingest (memory_engine_port no_providers) ''uni'' sample_input
      (((NewMemory, ()), sample_engine), calm_world) = (Inr res, s')"
    "\<not> ir_duplicate res" "length (ir_findings res) = 1"
    using sample_input_facts(4) by auto
  then show ?thesis by (metis prod.exhaust)
qed

theorem Ingest_findings_explained_witness:
  "\<exists>res f a. fst (Ingest (memory_engine_port no_providers) ''uni'' sample_input (((NewMemory, ()), sample_engine), calm_world)) = Inr res \<and>
     ir_findings res = [f] \<and> ir_alerts res = [a] \<and> risk_explained f"
proof -
  from sample_run obtain res sw' where
    r: "Ingest (memory_engine_port no_providers) ''uni'' sample_input (((NewMemory, ()), sample_engine), calm_world) = (Inr res, sw')"
    and l: "length (ir_findings res) = 1" by blast
  from Ingest_findings_explained [OF r] l show ?thesis
    by (auto simp: r length_Suc_conv)
qed

theorem Ingest_audited_witness:
  "\<exists>res m' a entry. (\<exists>x' e' w'. Ingest (memory_engine_port no_providers) ''uni'' sample_input
       (((NewMemory, ()), sample_engine), calm_world) = (Inr res, (((m', x'), e'), w'))) \<and>
     me_events m' ''uni'' (ev_id (ir_event res)) = Some (ir_event res) \<and>
     list_all2 detection_entry (ir_alerts res) (me_audit m' ''uni'') \<and> VerifyAudit ''uni'' m'"
proof -
  from sample_run obtain res m' x' e' w' where
    r: "Ingest (memory_engine_port no_providers) ''uni'' sample_input (((NewMemory, ()), sample_engine), calm_world) =
      (Inr res, (((m', x'), e'), w'))" and d: "\<not> ir_duplicate res" by blast
  have "me_audit NewMemory ''uni'' = []" by (simp add: NewMemory_def)
  with Ingest_audited [OF r d new_memory_facts(2)] r show ?thesis by auto
qed


definition known_store :: memory where
  "known_store = snd (PutEvent (sample_input\<lparr>ev_tenant := ''uni''\<rparr>) NewMemory)"

theorem Ingest_duplicate_silent_witness:
  "\<exists>w'. Ingest (memory_engine_port no_providers) ''uni'' sample_input (((known_store, ()), sample_engine), calm_world) =
    (Inr \<lparr>ir_event = sample_input\<lparr>ev_tenant := ''uni''\<rparr>, ir_findings = [], ir_alerts = [], ir_duplicate = True\<rparr>,
     (((known_store, ()), sample_engine), w'))"
proof (rule Ingest_duplicate_silent [OF live_calm _ sample_input_facts(1)])
  show "px_entities no_providers = None" by (simp add: no_providers_def)
  show "ev_id sample_input \<noteq> []" by (simp add: sample_input_facts)
  show "me_events known_store ''uni'' (ev_id sample_input) = Some (sample_input\<lparr>ev_tenant := ''uni''\<rparr>)"
    by (simp add: known_store_def PutEvent_def new_memory_facts)
qed

text \<open>A threat-intelligence provider that is down.\<close>

definition failing_providers :: "unit engine_providers" where
  "failing_providers = no_providers\<lparr>px_threat := Some (\<lambda>_. op_fail (ErrStorage ''feed''))\<rparr>"

lemma detect_failing:
  "\<not> auth_failure event \<Longrightarrow>
     detect (memory_engine_port failing_providers) event (((m, x), e), w) = (Inl (ErrStorage ''feed''), (((m, x), e), w))"
  by (simp add: detect_def op_bind_def op_get_def observeAuthenticationFailure_def matchThreatIntelligence_def
      memory_engine_port_def no_providers_def failing_providers_def op_return_def on_store_def on_second_def op_fail_def)

lemma sample_failing_run:
  "\<exists>m' x' e' w'. Ingest (memory_engine_port failing_providers) ''uni'' sample_input (((NewMemory, ()), sample_engine), calm_world) =
     (Inl (ErrStorage ''feed''), (((m', x'), e'), w'))"
proof -
  obtain event w1 where n: "normalize ''uni'' sample_input (((NewMemory, ()), sample_engine), calm_world) =
      (Inr event, (((NewMemory, ()), sample_engine), w1))" and l: "live w1 = live calm_world"
    by (rule normalize_accepts [OF sample_input_facts(1)])
  from normalize_event [OF n] obtain now i where "event = fill_event ''uni'' now i sample_input" by blast
  then have a: "\<not> auth_failure event" by (simp add: fill_event_keeps sample_input_facts)
  have "fst (PutEvent event NewMemory) = (event, False)" by (simp add: PutEvent_def new_memory_facts)
  with put_event_live [of w1 failing_providers event NewMemory "()" sample_engine] l live_calm
  have "on_store (ep_PutEvent (memory_engine_port failing_providers) event) (((NewMemory, ()), sample_engine), w1) =
      (Inr (event, False), (((snd (PutEvent event NewMemory), ()), sample_engine), snd (ctx_err w1)))" by simp
  with n show ?thesis
    by (simp add: Ingest_def op_bind_def [of "normalize _ _"] op_bind_def [of "on_store _"] op_bind_def [of "observe_entities _ _"]
        op_bind_def [of "detect _ _"] no_entities failing_providers_def [THEN arg_cong, of px_entities]
        no_providers_def [THEN arg_cong, of px_entities] detect_failing [OF a])
qed


theorem Ingest_isolated_witness:
  "\<exists>m'. fst (fst (fst (snd (Ingest (memory_engine_port no_providers) ''uni'' sample_input
       (((NewMemory, ()), sample_engine), calm_world))))) = m' \<and>
     tenant_view ''other'' m' = tenant_view ''other'' NewMemory \<and> ingest_grows NewMemory m'"
proof -
  obtain r m' x' e' w' where
    r: "Ingest (memory_engine_port no_providers) ''uni'' sample_input (((NewMemory, ()), sample_engine), calm_world) =
      (r, (((m', x'), e'), w'))" by (metis prod.exhaust)
  from Ingest_isolated [OF r] show ?thesis by (simp add: r)
qed

end
