(* ===== verification/Sql.thy ===== *)
theory Sql
  imports Op_Relations Memory_Store
begin

text \<open>
  The interface to PostgreSQL that the durable store is written against. A database is a value of
  type \<open>'s\<close>; a statement runs one function on it. A statement can fail to complete at any time (a
  cancelled context, a lost connection): the world's sequence of interruptions decides, and an
  interrupted statement has changed nothing. A transaction runs its statements on the database and
  leaves it as it was unless it commits (\<^verbatim>\<open>defer tx.Rollback(ctx)\<close>). Row locks (\<^verbatim>\<open>FOR UPDATE\<close>) and
  advisory locks serialize the transactions that touch the same rows, so each is one step here.

  The columns of type \<^verbatim>\<open>JSONB\<close> hold the encoding of a struct. Decoding it gives back every field that
  has a JSON name; a field marked \<^verbatim>\<open>json:"-"\<close> comes back empty.
\<close>

definition statement :: "('s \<Rightarrow> 'a result \<times> 's) \<Rightarrow> ('s, 'a) op" where
  "statement f sw =
    (let (lost, w) = ctx_err (snd sw)
     in if lost then (Inl ErrContext, (fst sw, w))
        else (let (r, s) = f (fst sw) in (r, (s, w))))"

definition sql_query :: "('s \<Rightarrow> 'a result) \<Rightarrow> ('s, 'a) op" where
  "sql_query f = statement (\<lambda>s. (f s, s))"

definition sql_exec :: "('s \<Rightarrow> 's result) \<Rightarrow> ('s, unit) op" where
  "sql_exec f = statement (\<lambda>s. case f s of Inl e \<Rightarrow> (Inl e, s) | Inr s' \<Rightarrow> (Inr (), s'))"

definition rollback :: "('s, 'a) op \<Rightarrow> ('s, 'a) op" where
  "rollback f sw = (case f sw of (Inl e, (s, w)) \<Rightarrow> (Inl e, (fst sw, w)) | (Inr x, sw') \<Rightarrow> (Inr x, sw'))"

definition transaction :: "('s, 'a) op \<Rightarrow> ('s, 'a) op" where
  "transaction body =
    rollback (op_bind (sql_query (\<lambda>_. Inr ())) (\<lambda>_.
              op_bind body (\<lambda>x.
              op_bind (sql_query (\<lambda>_. Inr ())) (\<lambda>_. op_return x))))"

text \<open>
  \<^verbatim>\<open>INSERT ... ON CONFLICT DO NOTHING RETURNING\<close> that returned no row: the transaction is rolled back by
  hand and the caller goes on without it.
\<close>

definition transaction_try :: "('s, 'a option) op \<Rightarrow> ('s, 'a option) op" where
  "transaction_try body sw =
    (case op_bind (sql_query (\<lambda>_. Inr ())) (\<lambda>_. body) sw of
       (Inl e, (s, w)) \<Rightarrow> (Inl e, (fst sw, w))
     | (Inr None, (s, w)) \<Rightarrow> (Inr None, (fst sw, w))
     | (Inr (Some x), (s, w)) \<Rightarrow>
         (case sql_query (\<lambda>_. Inr ()) (s, w) of
            (Inl e, (_, w')) \<Rightarrow> (Inl e, (fst sw, w'))
          | (Inr _, sw') \<Rightarrow> (Inr (Some x), sw')))"

text \<open>The error a failed statement is answered with.\<close>

definition op_map_error :: "(error \<Rightarrow> error) \<Rightarrow> ('s, 'a) op \<Rightarrow> ('s, 'a) op" where
  "op_map_error g f sw = (case f sw of (Inl e, sw') \<Rightarrow> (Inl (g e), sw') | (Inr x, sw') \<Rightarrow> (Inr x, sw'))"

text \<open>Go code between two statements that only reads the clock and draws identifiers.\<close>

definition op_world :: "(world \<Rightarrow> 'a result \<times> world) \<Rightarrow> ('s, 'a) op" where
  "op_world f sw = (let (r, w) = f (snd sw) in (r, (fst sw, w)))"

text \<open>\<^verbatim>\<open>TIMESTAMPTZ\<close> columns keep microseconds; the driver drops the rest.\<close>

definition to_micro :: "time \<Rightarrow> time" where
  "to_micro t = t - t mod 1000"

lemma to_micro_idem [simp]: "to_micro (to_micro t) = to_micro t"
  by (simp add: to_micro_def)

lemma to_micro_le: "to_micro t \<le> t" "t - 1000 < to_micro t"
  by (simp_all add: to_micro_def)

text \<open>
  \<^verbatim>\<open>ORDER BY ... DESC LIMIT n\<close> over the rows in table order. SQL leaves the order of rows with equal
  keys open; the definition takes the table's.
\<close>

definition newest_first :: "('a \<Rightarrow> time) \<Rightarrow> int \<Rightarrow> 'a list \<Rightarrow> 'a list" where
  "newest_first key n rows = take (nat n) (sort_key (\<lambda>r. - key r) rows)"

lemma set_newest_first: "set (newest_first key n rows) \<subseteq> set rows"
  using set_take_subset [of "nat n" "sort_key (\<lambda>r. - key r) rows"] by (simp add: newest_first_def)

lemma newest_first_hd: "newest_first key n rows = r # rs \<Longrightarrow> r \<in> set rows"
  using set_newest_first [of key n rows] by simp

lemma length_newest_first: "length (newest_first key n rows) = min (nat n) (length rows)"
  by (simp add: newest_first_def min.commute)

subsection \<open>Rows\<close>

text \<open>\<^verbatim>\<open>UPDATE ... SET f WHERE P RETURNING ...\<close> on the list of a table's rows.\<close>

definition update_rows :: "('r \<Rightarrow> bool) \<Rightarrow> ('r \<Rightarrow> 'r) \<Rightarrow> 'r list \<Rightarrow> 'r list" where
  "update_rows P f rows = map (\<lambda>r. if P r then f r else r) rows"

definition returned_rows :: "('r \<Rightarrow> bool) \<Rightarrow> ('r \<Rightarrow> 'r) \<Rightarrow> 'r list \<Rightarrow> 'r list" where
  "returned_rows P f rows = map f (filter P rows)"

text \<open>The first row of a query, and the error a caller answers \<^verbatim>\<open>pgx.ErrNoRows\<close> with.\<close>

definition first_row :: "error \<Rightarrow> 'r list \<Rightarrow> ('s, 'r) op" where
  "first_row e rows = (case rows of [] \<Rightarrow> op_fail e | r # _ \<Rightarrow> op_return r)"

subsection \<open>Statements under a relation on the database\<close>

context step_relation
begin

lemma rel_statement:
  assumes "\<And>s r s'. f s = (r, s') \<Longrightarrow> R s s'"
  shows "op_rel R (statement f)"
  by (rule op_relI) (auto simp: statement_def R_refl Let_def assms split: prod.splits if_splits)

lemma rel_query: "op_rel R (sql_query f)"
  by (rule op_relI) (auto simp: sql_query_def statement_def R_refl Let_def split: prod.splits if_splits)

lemma rel_exec: "(\<And>s s'. f s = Inr s' \<Longrightarrow> R s s') \<Longrightarrow> op_rel R (sql_exec f)"
  by (rule op_relI) (auto simp: sql_exec_def statement_def R_refl Let_def split: prod.splits if_splits sum.splits)

lemma rel_world: "op_rel R (op_world f)"
  by (rule op_relI) (auto simp: op_world_def R_refl Let_def split: prod.splits)

lemma rel_rollback: "op_rel R f \<Longrightarrow> op_rel R (rollback f)"
  by (rule op_relI)
    (auto simp: rollback_def R_refl split: prod.splits sum.splits dest: op_relD)

lemma rel_transaction: "op_rel R body \<Longrightarrow> op_rel R (transaction body)"
  unfolding transaction_def by (intro rel_rollback rel_bind rel_query rel_return)

lemmas sql_intros = rel_query rel_world rel_transaction

end

subsection \<open>Atomicity\<close>

text \<open>A failed transaction has changed nothing.\<close>

lemma transaction_failed:
  "transaction body (s, w) = (Inl e, (s', w')) \<Longrightarrow> s' = s"
  by (auto simp: transaction_def rollback_def split: prod.splits sum.splits)

text \<open>A transaction that succeeded ran its body, on the database as it was.\<close>

lemma ctx_err_live: "ctx_err w = (b, w') \<Longrightarrow> live w' = live w"
  by (metis live_frame(3) snd_conv)

lemma sql_query_Inr:
  "sql_query f (s, w) = (Inr x, (s', w')) \<Longrightarrow> f s = Inr x \<and> s' = s \<and> live w' = live w"
  by (auto simp: sql_query_def statement_def Let_def ctx_err_live split: prod.splits if_splits)

lemma sql_exec_Inr:
  "sql_exec f (s, w) = (Inr x, (s', w')) \<Longrightarrow> f s = Inr s' \<and> live w' = live w"
  by (auto simp: sql_exec_def statement_def Let_def ctx_err_live split: prod.splits if_splits sum.splits)

lemma transaction_Inr:
  assumes "transaction body (s, w) = (Inr x, (s', w'))"
  obtains w1 w2 where "body (s, w1) = (Inr x, (s', w2))" "live w1 = live w"
proof -
  from assms have "op_bind (sql_query (\<lambda>_. Inr ())) (\<lambda>_. op_bind body (\<lambda>x.
      op_bind (sql_query (\<lambda>_. Inr ())) (\<lambda>_. op_return x))) (s, w) = (Inr x, (s', w'))"
    by (auto simp: transaction_def rollback_def split: prod.splits sum.splits)
  then obtain s1 w1 y sw2 u sw3 where
    1: "sql_query (\<lambda>_. Inr ()) (s, w) = (Inr (), (s1, w1))" and
    2: "body (s1, w1) = (Inr y, sw2)" and 3: "sql_query (\<lambda>_. Inr ()) sw2 = (Inr u, sw3)" and
    4: "op_return y sw3 = (Inr x, (s', w'))"
    unfolding op_bind_eq_Inr by (metis old.unit.exhaust prod.exhaust)
  from sql_query_Inr [OF 1] have s1: "s1 = s" "live w1 = live w" by simp_all
  obtain s2 w2 where sw2: "sw2 = (s2, w2)" by fastforce
  from 4 have "y = x" "sw3 = (s', w')" by (simp_all add: op_return_def)
  with 3 sw2 sql_query_Inr [of "\<lambda>_. Inr ()" s2 w2 u s' w'] have "s2 = s'" by simp
  with 2 s1 sw2 \<open>y = x\<close> that show ?thesis by simp
qed

text \<open>On a live connection the statements complete.\<close>

lemma sql_query_live:
  "live w \<Longrightarrow> sql_query f (s, w) = (f s, (s, snd (ctx_err w)))"
  by (simp add: sql_query_def statement_def case_prod_beta)

lemma sql_exec_live:
  "live w \<Longrightarrow> sql_exec f (s, w) =
     (case f s of Inl e \<Rightarrow> (Inl e, (s, snd (ctx_err w))) | Inr s' \<Rightarrow> (Inr (), (s', snd (ctx_err w))))"
  by (simp add: sql_exec_def statement_def case_prod_beta split: sum.split)

subsection \<open>Running a sequence of statements\<close>

text \<open>
  A sequence that succeeded passed each of its statements; as destruction rules these replay a body
  statement by statement.
\<close>

lemma op_bind_InrE:
  assumes "op_bind f g sw = (Inr y, sw')"
  obtains x s1 w1 where "f sw = (Inr x, (s1, w1))" "g x (s1, w1) = (Inr y, sw')"
proof -
  from assms obtain x sw1 where "f sw = (Inr x, sw1)" "g x sw1 = (Inr y, sw')"
    unfolding op_bind_eq_Inr by blast
  with that show thesis by (cases sw1) blast
qed

lemma statement_bind_Inr:
  assumes "op_bind (statement f) g (s, w) = (Inr y, sw)"
  shows "\<exists>x s1 w1. f s = (Inr x, s1) \<and> g x (s1, w1) = (Inr y, sw)"
  using assms by (auto simp: op_bind_def statement_def Let_def split: prod.splits sum.splits if_splits)

lemma query_bind_Inr:
  assumes "op_bind (sql_query f) g (s, w) = (Inr y, sw)"
  shows "\<exists>x w1. f s = Inr x \<and> g x (s, w1) = (Inr y, sw)"
  using statement_bind_Inr [OF assms [unfolded sql_query_def]] by auto

lemma exec_bind_Inr:
  assumes "op_bind (sql_exec f) g (s, w) = (Inr y, sw)"
  shows "\<exists>s1 w1. f s = Inr s1 \<and> g () (s1, w1) = (Inr y, sw)"
  using statement_bind_Inr [OF assms [unfolded sql_exec_def]] by (auto split: sum.splits)

lemma world_bind_Inr:
  assumes "op_bind (op_world f) g (s, w) = (Inr y, sw)"
  shows "\<exists>x w1. f w = (Inr x, w1) \<and> g x (s, w1) = (Inr y, sw)"
  using assms by (auto simp: op_bind_def op_world_def split: prod.splits sum.splits)

lemma now_bind_Inr:
  assumes "op_bind op_now g (s, w) = (Inr y, sw)"
  shows "\<exists>w1. g (fst (time_now w)) (s, w1) = (Inr y, sw)"
  using assms by (auto simp: op_bind_def op_now_def split: prod.splits)

lemma return_Inr: "op_return x (s, w) = (Inr y, (s', w')) \<longleftrightarrow> y = x \<and> s' = s \<and> w' = w"
  by (auto simp: op_return_def)

lemma fail_Inr [simp]: "op_fail e sw \<noteq> (Inr y, sw')"
  by (simp add: op_fail_def)

lemmas replay = statement_bind_Inr query_bind_Inr exec_bind_Inr world_bind_Inr now_bind_Inr

lemma sql_query_run: "sql_query f (s, w) = (Inr x, (s', w')) \<Longrightarrow> f s = Inr x \<and> s' = s"
  by (auto dest: sql_query_Inr)

lemma sql_exec_outcome:
  assumes "sql_exec f (s, w) = (r, (s', w'))"
  shows "(s' = s \<and> \<not> is_ok r) \<or> (f s = Inr s' \<and> r = Inr ())"
  using assms by (auto simp: sql_exec_def statement_def Let_def split: prod.splits sum.splits if_splits)

lemma op_map_error_outcome:
  assumes "op_map_error g f sw = (r, sw')"
  obtains q where "f sw = (q, sw')" "is_ok q = is_ok r" "is_ok q \<Longrightarrow> q = r"
  using assms by (auto simp: op_map_error_def split: prod.splits sum.splits)

text \<open>A transaction relates the databases before and after when its body does whenever it succeeds.\<close>

context step_relation
begin

lemma rel_committed:
  assumes "\<And>s w x s' w'. body (s, w) = (Inr x, (s', w')) \<Longrightarrow> R s s'"
  shows "op_rel R (transaction body)"
proof (rule op_relI)
  fix s w r s' w'
  assume run: "transaction body (s, w) = (r, (s', w'))"
  show "R s s'"
  proof (cases r)
    case (Inl e)
    with run transaction_failed R_refl show ?thesis by metis
  next
    case (Inr x)
    with run obtain w1 w2 where "body (s, w1) = (Inr x, (s', w2))" by (auto elim: transaction_Inr)
    then show ?thesis by (rule assms)
  qed
qed

lemma rel_committed_try:
  assumes "\<And>s w x s' w'. body (s, w) = (Inr (Some x), (s', w')) \<Longrightarrow> R s s'"
  shows "op_rel R (transaction_try body)"
proof (rule op_relI)
  fix s w r s' w'
  assume run: "transaction_try body (s, w) = (r, (s', w'))"
  show "R s s'"
  proof (cases "s' = s")
    case True
    then show ?thesis by (simp add: R_refl)
  next
    case False
    with run obtain x w1 sw where b: "op_bind (sql_query (\<lambda>_. Inr ())) (\<lambda>_. body) (s, w) = (Inr (Some x), sw)"
      "sql_query (\<lambda>_. Inr ()) sw = (Inr (), (s', w1))"
      by (auto simp: transaction_try_def split: prod.splits sum.splits option.splits)
    obtain s2 w2 where sw: "sw = (s2, w2)" by fastforce
    from query_bind_Inr [OF b(1)] obtain w3 where "body (s, w3) = (Inr (Some x), (s2, w2))" by (auto simp: sw)
    with assms b(2) sw show ?thesis by (auto dest: sql_query_run)
  qed
qed

end

lemma transaction_try_Inr:
  assumes "transaction_try body (s, w) = (Inr r, (s', w'))"
  shows "\<exists>w1 s1 w2. body (s, w1) = (Inr r, (s1, w2)) \<and> s' = (case r of None \<Rightarrow> s | Some _ \<Rightarrow> s1)"
proof -
  from assms obtain sw where b: "op_bind (sql_query (\<lambda>_. Inr ())) (\<lambda>_. body) (s, w) = (Inr r, sw)"
    and c: "r = None \<and> s' = s \<or> (\<exists>x w3. r = Some x \<and> sql_query (\<lambda>_. Inr ()) sw = (Inr (), (s', w3)))"
    by (auto simp: transaction_try_def split: prod.splits sum.splits option.splits)
  obtain s2 w2 where sw: "sw = (s2, w2)" by fastforce
  from query_bind_Inr [OF b] obtain w1 where "body (s, w1) = (Inr r, (s2, w2))" by (auto simp: sw)
  moreover have "s' = (case r of None \<Rightarrow> s | Some _ \<Rightarrow> s2)"
    using c sw by (auto dest: sql_query_run)
  ultimately show ?thesis by blast
qed

subsection \<open>All or nothing\<close>

text \<open>An atomic operation has changed nothing when it fails.\<close>

definition atomic :: "('s, 'a) op \<Rightarrow> bool" where
  "atomic f \<longleftrightarrow> (\<forall>s w e s' w'. f (s, w) = (Inl e, (s', w')) \<longrightarrow> s' = s)"

lemma atomicD: "atomic f \<Longrightarrow> f (s, w) = (Inl e, (s', w')) \<Longrightarrow> s' = s"
  unfolding atomic_def by blast

lemma atomic_transaction: "atomic (transaction body)"
  by (auto simp: atomic_def dest: transaction_failed)

lemma atomic_transaction_try: "atomic (transaction_try body)"
  by (auto simp: atomic_def transaction_try_def split: prod.splits sum.splits option.splits)

lemma atomic_fail: "atomic (op_fail e)"
  by (simp add: atomic_def op_fail_def)

lemma atomic_return: "atomic (op_return x)"
  by (simp add: atomic_def op_return_def)

lemma atomic_query: "atomic (sql_query f)"
  by (auto simp: atomic_def sql_query_def statement_def Let_def split: prod.splits if_splits)

lemma atomic_exec: "atomic (sql_exec f)"
  by (auto simp: atomic_def sql_exec_def statement_def Let_def split: prod.splits if_splits sum.splits)

lemma atomic_map_error:
  assumes "atomic f"
  shows "atomic (op_map_error g f)"
  unfolding atomic_def
proof (intro allI impI)
  fix s w e s' w'
  assume run: "op_map_error g f (s, w) = (Inl e, (s', w'))"
  then obtain q where "f (s, w) = (q, (s', w'))" "is_ok q = is_ok (Inl e :: 'b result)"
    by (rule op_map_error_outcome)
  with assms show "s' = s" by (cases q) (auto dest: atomicD)
qed

text \<open>
  A sequence is atomic when what precedes a possible failure has changed nothing: a read before
  an atomic operation, or an atomic operation before steps that cannot fail.
\<close>

definition read_only :: "('s, 'a) op \<Rightarrow> bool" where
  "read_only f \<longleftrightarrow> op_rel (=) f"

interpretation equal_rel: step_relation "(=)"
  by unfold_locales simp_all

lemma read_only_query: "read_only (sql_query f)"
  unfolding read_only_def by (rule equal_rel.rel_query)

lemma read_only_atomic: "read_only f \<Longrightarrow> atomic f"
  unfolding read_only_def atomic_def by (auto dest: op_relD)

lemma read_only_bind: "read_only f \<Longrightarrow> (\<And>x. read_only (g x)) \<Longrightarrow> read_only (op_bind f g)"
  unfolding read_only_def by (rule equal_rel.rel_bind)

lemma read_only_return: "read_only (op_return x)"
  unfolding read_only_def by (rule equal_rel.rel_return)

lemma read_only_fail: "read_only (op_fail e)"
  unfolding read_only_def by (rule equal_rel.rel_fail)

lemma atomic_read_bind:
  assumes "read_only f" "\<And>x. atomic (g x)"
  shows "atomic (op_bind f g)"
  unfolding atomic_def
proof (intro allI impI)
  fix s w e s' w'
  assume run: "op_bind f g (s, w) = (Inl e, (s', w'))"
  obtain r s1 w1 where f: "f (s, w) = (r, (s1, w1))" by (metis prod.exhaust)
  with assms(1) have "s1 = s" unfolding read_only_def by (auto dest: op_relD)
  with run f assms(2) show "s' = s" by (cases r) (auto simp: op_bind_def dest: atomicD)
qed

lemma atomic_bind_total:
  assumes "atomic f" "\<And>x sw. is_ok (fst (g x sw))"
  shows "atomic (op_bind f g)"
  unfolding atomic_def
proof (intro allI impI)
  fix s w e s' w'
  assume run: "op_bind f g (s, w) = (Inl e, (s', w'))"
  obtain r sw1 where f: "f (s, w) = (r, sw1)" by (metis prod.exhaust)
  show "s' = s"
  proof (cases r)
    case (Inl d)
    with run f assms(1) show ?thesis by (auto simp: op_bind_def dest: atomicD)
  next
    case (Inr x)
    with run f have "g x sw1 = (Inl e, (s', w'))" by (simp add: op_bind_def)
    with assms(2) [of x sw1] show ?thesis by simp
  qed
qed

text \<open>An insertion that found its row taken and went on to read it.\<close>

lemma atomic_on_conflict:
  assumes "read_only (g None)" "\<And>x sw. is_ok (fst (g (Some x) sw))"
  shows "atomic (op_bind (transaction_try body) g)"
  unfolding atomic_def
proof (intro allI impI)
  fix s w e s' w'
  assume run: "op_bind (transaction_try body) g (s, w) = (Inl e, (s', w'))"
  obtain r s1 w1 where f: "transaction_try body (s, w) = (r, (s1, w1))" by (metis prod.exhaust)
  show "s' = s"
  proof (cases r)
    case (Inl d)
    with run f show ?thesis by (auto simp: op_bind_def dest: atomicD [OF atomic_transaction_try])
  next
    case (Inr oc)
    with run f have rest: "g oc (s1, w1) = (Inl e, (s', w'))" by (simp add: op_bind_def)
    have oc: "oc = None"
    proof (rule ccontr)
      assume "oc \<noteq> None"
      then obtain x where "oc = Some x" by blast
      with rest assms(2) [of x "(s1, w1)"] show False by simp
    qed
    with rest assms(1) have "s' = s1" unfolding read_only_def by (auto dest: op_relD)
    with transaction_try_Inr f Inr oc show ?thesis by fastforce
  qed
qed

context step_relation
begin

lemma rel_atomic:
  assumes "atomic f" "\<And>s w x s' w'. f (s, w) = (Inr x, (s', w')) \<Longrightarrow> R s s'"
  shows "op_rel R f"
proof (rule op_relI)
  fix s w r s' w'
  assume "f (s, w) = (r, (s', w'))"
  with assms R_refl show "R s s'" by (cases r) (auto dest: atomicD)
qed

end

end
