(* ===== verification/Case_Model.thy ===== *)
theory Case_Model
  imports Core_Model
begin

text \<open>
  Cases and evidence: the structs of \<^verbatim>\<open>internal/core/case.go\<close> and \<^verbatim>\<open>internal/core/evidence.go\<close>, field
  by field in the sources' order. Statuses are strings, as in the sources; the database
  constrains those of a case.
\<close>

definition CaseStatusOpen :: string where "CaseStatusOpen = ''OPEN''"
definition CaseStatusInvestigation :: string where "CaseStatusInvestigation = ''INVESTIGATION''"
definition CaseStatusResponse :: string where "CaseStatusResponse = ''RESPONSE''"
definition CaseStatusClosed :: string where "CaseStatusClosed = ''CLOSED''"

lemmas case_status_defs = CaseStatusOpen_def CaseStatusInvestigation_def CaseStatusResponse_def
  CaseStatusClosed_def

definition CaseTaskOpen :: string where "CaseTaskOpen = ''OPEN''"
definition CaseTaskInProgress :: string where "CaseTaskInProgress = ''IN_PROGRESS''"
definition CaseTaskDone :: string where "CaseTaskDone = ''DONE''"
definition CaseTaskCancelled :: string where "CaseTaskCancelled = ''CANCELLED''"

lemmas task_status_defs = CaseTaskOpen_def CaseTaskInProgress_def CaseTaskDone_def CaseTaskCancelled_def

record case_participant =
  pa_user :: string
  pa_role :: string
  pa_added_by :: string
  pa_added_at :: time

record case_observable =
  ob_id :: string
  ob_type :: string
  ob_value :: string
  ob_source :: string
  ob_added_by :: string
  ob_created_at :: time

record case_task =
  ct_id :: string
  ct_title :: string
  ct_description :: string
  ct_status :: string
  ct_assignee :: string
  ct_due_at :: "time option"
  ct_created_by :: string
  ct_completed_by :: string
  ct_version :: int
  ct_created_at :: time
  ct_updated_at :: time
  ct_completed_at :: "time option"

record case_comment =
  cc_id :: string
  cc_body :: string
  cc_author :: string
  cc_created_at :: time

record case_history_entry =
  hi_id :: string
  hi_action :: string
  hi_message :: string
  hi_actor :: string
  hi_metadata :: json
  hi_created_at :: time

record case_sla =
  csla_due_at :: time
  csla_breached :: bool

record case_file =
  ca_id :: string
  ca_tenant :: tenant
  ca_request :: string
  ca_title :: string
  ca_description :: string
  ca_status :: string
  ca_severity :: severity
  ca_owner :: string
  ca_closure_summary :: string
  ca_incidents :: "string list"
  ca_evidence :: "string list"
  ca_participants :: "case_participant list"
  ca_observables :: "case_observable list"
  ca_tasks :: "case_task list"
  ca_comments :: "case_comment list"
  ca_history :: "case_history_entry list"
  ca_sla :: case_sla
  ca_allowed :: "string list"
  ca_version :: int
  ca_created_by :: string
  ca_updated_by :: string
  ca_created_at :: time
  ca_updated_at :: time
  ca_closed_at :: "time option"

record case_filter =
  cf_query :: string
  cf_status :: string
  cf_severity :: string
  cf_owner :: string
  cf_incident :: string
  cf_limit :: int

record evidence_item =
  ei_id :: string
  ei_tenant :: tenant
  ei_request :: string
  ei_case :: string
  ei_incident :: string
  ei_alert :: string
  ei_event :: string
  ei_filename :: string
  ei_content_type :: string
  ei_description :: string
  ei_size :: int
  ei_sha256 :: string
  ei_bucket :: string
  ei_object_key :: string
  ei_object_version :: string
  ei_etag :: string
  ei_status :: string
  ei_failure :: string
  ei_retain_until :: time
  ei_legal_hold :: bool
  ei_uploader :: string
  ei_metadata :: json
  ei_verified_at :: "time option"
  ei_head_hash :: string
  ei_created_at :: time
  ei_updated_at :: time

record evidence_mutation =
  em_actor :: string
  em_action :: string
  em_reason :: string
  em_request :: string
  em_metadata :: json

record custody_entry =
  cu_sequence :: int
  cu_id :: string
  cu_tenant :: tenant
  cu_evidence :: string
  cu_actor :: string
  cu_action :: string
  cu_reason :: string
  cu_request :: string
  cu_metadata :: json
  cu_previous_hash :: string
  cu_hash :: string
  cu_created_at :: time

record evidence_filter =
  vf_case :: string
  vf_incident :: string
  vf_alert :: string
  vf_event :: string
  vf_status :: string
  vf_limit :: int

record evidence_verification =
  vr_evidence :: string
  vr_expected :: string
  vr_actual :: string
  vr_size :: int
  vr_valid :: bool
  vr_verified_at :: time

end
