(* ===== verification/Postgres.thy ===== *)
theory Postgres
  imports Sql Case_Model Repository
begin

text \<open>
  The durable store, \<^verbatim>\<open>internal/store/postgres.go\<close>, over the tables of
  \<^verbatim>\<open>internal/store/migrations/0001_control_plane.sql\<close>: tenants, events, findings, alerts, incidents and
  the audit log. A table is a map from its primary key to its rows. Rows carry the encoded struct
  and the columns some statement of the modelled operations reads; the other columns repeat
  fields of the struct for the indexes. Statements that insert a row check the primary key and the
  foreign keys the migration declares.
\<close>

subsection \<open>Tables\<close>

record alert_row =
  row_dedup :: string
  row_status :: string
  row_last_seen :: time
  row_alert :: alert

record case_row =
  row_request :: string
  row_case_status :: string
  row_severity :: severity
  row_owner :: string
  row_version :: int
  row_case :: case_file

record pg =
  pg_tenants :: "tenant \<Rightarrow> string option"
  pg_events :: "tenant \<Rightarrow> string \<Rightarrow> canonical_event option"
  pg_event_keys :: "tenant \<Rightarrow> string list"
  pg_findings :: "tenant \<Rightarrow> string \<Rightarrow> finding option"
  pg_finding_keys :: "tenant \<Rightarrow> string list"
  pg_alerts :: "tenant \<Rightarrow> string \<Rightarrow> alert_row option"
  pg_alert_keys :: "tenant \<Rightarrow> string list"
  pg_incidents :: "tenant \<Rightarrow> string \<Rightarrow> incident option"
  pg_incident_keys :: "tenant \<Rightarrow> string list"
  pg_heads :: "tenant \<Rightarrow> string option"
  pg_audit :: "tenant \<Rightarrow> audit_entry list"
  pg_cases :: "tenant \<Rightarrow> string \<Rightarrow> case_row option"
  pg_case_keys :: "tenant \<Rightarrow> string list"
  pg_links :: "tenant \<Rightarrow> string \<Rightarrow> string list"
  pg_evidence :: "tenant \<Rightarrow> string \<Rightarrow> evidence_item option"
  pg_evidence_keys :: "tenant \<Rightarrow> string list"
  pg_custody :: "tenant \<Rightarrow> custody_entry list"
  pg_sequence :: int

definition empty_pg :: pg where
  "empty_pg =
    \<lparr>pg_tenants = (\<lambda>_. None), pg_events = (\<lambda>_ _. None), pg_event_keys = (\<lambda>_. []),
     pg_findings = (\<lambda>_ _. None), pg_finding_keys = (\<lambda>_. []),
     pg_alerts = (\<lambda>_ _. None), pg_alert_keys = (\<lambda>_. []), pg_incidents = (\<lambda>_ _. None), pg_incident_keys = (\<lambda>_. []),
     pg_heads = (\<lambda>_. None), pg_audit = (\<lambda>_. []), pg_cases = (\<lambda>_ _. None),
     pg_case_keys = (\<lambda>_. []), pg_links = (\<lambda>_ _. []), pg_evidence = (\<lambda>_ _. None),
     pg_evidence_keys = (\<lambda>_. []), pg_custody = (\<lambda>_. []), pg_sequence = 0\<rparr>"

definition duplicate_key :: error where "duplicate_key = ErrStorage ''duplicate key''"
definition foreign_key :: error where "foreign_key = ErrStorage ''foreign key''"
definition check_violation :: error where "check_violation = ErrStorage ''check constraint''"

lemmas constraint_defs = duplicate_key_def foreign_key_def check_violation_def

text \<open>A row read by its key: \<^verbatim>\<open>QueryRow(...).Scan(...)\<close>, where \<^verbatim>\<open>pgx.ErrNoRows\<close> becomes \<^verbatim>\<open>ErrNotFound\<close>.\<close>

definition found :: "'a option \<Rightarrow> 'a result" where
  "found x = (case x of None \<Rightarrow> Inl ErrNotFound | Some y \<Rightarrow> Inr y)"

lemma found_simps [simp]: "found None = Inl ErrNotFound" "found (Some y) = Inr y"
  "found x = Inr y \<longleftrightarrow> x = Some y"
  by (simp_all add: found_def split: option.split)

subsection \<open>Tenants\<close>

definition upsert_tenant :: "tenant \<Rightarrow> string \<Rightarrow> pg \<Rightarrow> pg result" where
  "upsert_tenant t name s = Inr (s\<lparr>pg_tenants := (pg_tenants s)(t \<mapsto> name)\<rparr>)"

text \<open>\<^verbatim>\<open>INSERT INTO audit_heads(tenant_id) VALUES($1) ON CONFLICT DO NOTHING\<close>\<close>

definition ensure_head :: "tenant \<Rightarrow> pg \<Rightarrow> pg result" where
  "ensure_head t s =
    (case pg_heads s t of
       Some _ \<Rightarrow> Inr s
     | None \<Rightarrow> if pg_tenants s t = None then Inl foreign_key
               else Inr (s\<lparr>pg_heads := (pg_heads s)(t \<mapsto> [])\<rparr>))"

definition EnsureTenant :: "tenant \<Rightarrow> string \<Rightarrow> (pg, unit) op" where
  "EnsureTenant tenant_id name =
    (let t = trim_space tenant_id; n = trim_space name
     in if t = [] \<or> n = [] then op_fail (ErrStorage ''tenant'')
        else transaction (op_bind (sql_exec (upsert_tenant t n)) (\<lambda>_. sql_exec (ensure_head t))))"

text \<open>
  \<^verbatim>\<open>ResetTenant\<close> deletes the tenant's rows table by table, evidence before cases before incidents so
  that no foreign key is violated, and empties the audit head. The tables outside the model are
  left out of the sequence.
\<close>

definition delete_rows :: "tenant \<Rightarrow> (pg \<Rightarrow> pg) list" where
  "delete_rows t =
    [\<lambda>s. s\<lparr>pg_audit := (pg_audit s)(t := [])\<rparr>,
     \<lambda>s. s\<lparr>pg_custody := (pg_custody s)(t := [])\<rparr>,
     \<lambda>s. s\<lparr>pg_evidence := (pg_evidence s)(t := Map.empty), pg_evidence_keys := (pg_evidence_keys s)(t := [])\<rparr>,
     \<lambda>s. s\<lparr>pg_links := (pg_links s)(t := \<lambda>_. [])\<rparr>,
     \<lambda>s. s\<lparr>pg_cases := (pg_cases s)(t := Map.empty), pg_case_keys := (pg_case_keys s)(t := [])\<rparr>,
     \<lambda>s. s\<lparr>pg_incidents := (pg_incidents s)(t := Map.empty), pg_incident_keys := (pg_incident_keys s)(t := [])\<rparr>,
     \<lambda>s. s\<lparr>pg_alerts := (pg_alerts s)(t := Map.empty), pg_alert_keys := (pg_alert_keys s)(t := [])\<rparr>,
     \<lambda>s. s\<lparr>pg_findings := (pg_findings s)(t := Map.empty), pg_finding_keys := (pg_finding_keys s)(t := [])\<rparr>,
     \<lambda>s. s\<lparr>pg_events := (pg_events s)(t := Map.empty), pg_event_keys := (pg_event_keys s)(t := [])\<rparr>]"

fun exec_all :: "(pg \<Rightarrow> pg) list \<Rightarrow> (pg, unit) op" where
  "exec_all [] = op_return ()"
| "exec_all (f # fs) = op_bind (sql_exec (\<lambda>s. Inr (f s))) (\<lambda>_. exec_all fs)"

definition reset_head :: "tenant \<Rightarrow> pg \<Rightarrow> pg result" where
  "reset_head t s =
    Inr (case pg_heads s t of None \<Rightarrow> s | Some _ \<Rightarrow> s\<lparr>pg_heads := (pg_heads s)(t \<mapsto> [])\<rparr>)"

definition pg_ResetTenant :: "tenant \<Rightarrow> (pg, unit) op" where
  "pg_ResetTenant t =
    transaction (op_bind (exec_all (delete_rows t)) (\<lambda>_. sql_exec (reset_head t)))"

subsection \<open>Events and findings\<close>

text \<open>\<^verbatim>\<open>INSERT ... ON CONFLICT DO NOTHING\<close>, answering whether a row was inserted.\<close>

definition insert_event :: "canonical_event \<Rightarrow> pg \<Rightarrow> bool result \<times> pg" where
  "insert_event e s =
    (case pg_events s (ev_tenant e) (ev_id e) of
       Some _ \<Rightarrow> (Inr False, s)
     | None \<Rightarrow> if pg_tenants s (ev_tenant e) = None then (Inl foreign_key, s)
               else (Inr True, s\<lparr>pg_events := upd2 (pg_events s) (ev_tenant e) (ev_id e) e,
                              pg_event_keys := snoc (pg_event_keys s) (ev_tenant e) (ev_id e)\<rparr>))"

definition pg_GetEvent :: "tenant \<Rightarrow> string \<Rightarrow> (pg, canonical_event) op" where
  "pg_GetEvent t i = sql_query (\<lambda>s. found (pg_events s t i))"

definition pg_PutEvent :: "canonical_event \<Rightarrow> (pg, canonical_event \<times> bool) op" where
  "pg_PutEvent e =
    op_bind (statement (insert_event e)) (\<lambda>inserted.
      if inserted then op_return (e, False)
      else op_bind (pg_GetEvent (ev_tenant e) (ev_id e)) (\<lambda>existing. op_return (existing, True)))"

definition insert_finding :: "finding \<Rightarrow> pg \<Rightarrow> pg result" where
  "insert_finding f s =
    (case pg_findings s (fi_tenant f) (fi_id f) of
       Some _ \<Rightarrow> Inr s
     | None \<Rightarrow>
         if pg_tenants s (fi_tenant f) = None \<or> pg_events s (fi_tenant f) (fi_event f) = None
         then Inl foreign_key
         else Inr (s\<lparr>pg_findings := upd2 (pg_findings s) (fi_tenant f) (fi_id f) f,
                     pg_finding_keys := snoc (pg_finding_keys s) (fi_tenant f) (fi_id f)\<rparr>))"

definition pg_PutFinding :: "finding \<Rightarrow> (pg, unit) op" where
  "pg_PutFinding f = sql_exec (insert_finding f)"

text \<open>
  The list queries filter on columns and, for a search, on the text of the payload: \<open>matches\<close> is
  \<^verbatim>\<open>payload::text ILIKE '%query%'\<close>, which depends on the database's encoding and collation.
\<close>

definition sql_lower_eq :: "string \<Rightarrow> string \<Rightarrow> bool" where
  "sql_lower_eq a b \<longleftrightarrow> to_lower a = to_lower b"

definition event_rows :: "tenant \<Rightarrow> pg \<Rightarrow> canonical_event list" where
  "event_rows t s = List.map_filter (pg_events s t) (pg_event_keys s t)"

definition pg_ListEvents :: "(canonical_event \<Rightarrow> string \<Rightarrow> bool) \<Rightarrow> tenant \<Rightarrow> event_filter \<Rightarrow> (pg, canonical_event list) op" where
  "pg_ListEvents matches t f =
    sql_query (\<lambda>s. Inr (newest_first (\<lambda>e. to_micro (ev_time e)) (normalizedLimit (ef_limit f))
      (filter (\<lambda>e. (ef_category f = [] \<or> sql_lower_eq (ev_category e) (ef_category f)) \<and>
                   (ef_severity f \<le> 0 \<or> ev_severity e = ef_severity f) \<and>
                   (trim_space (ef_query f) = [] \<or> matches e (trim_space (ef_query f))))
        (event_rows t s))))"

definition finding_rows :: "tenant \<Rightarrow> pg \<Rightarrow> finding list" where
  "finding_rows t s = List.map_filter (pg_findings s t) (pg_finding_keys s t)"

definition pg_ListFindings :: "tenant \<Rightarrow> string \<Rightarrow> int \<Rightarrow> (pg, finding list) op" where
  "pg_ListFindings t e limit =
    sql_query (\<lambda>s. Inr (newest_first (\<lambda>f. to_micro (fi_created_at f)) (normalizedLimit limit)
      (filter (\<lambda>f. e = [] \<or> fi_event f = e) (finding_rows t s))))"

subsection \<open>Alerts\<close>

definition pg_alert :: "pg \<Rightarrow> tenant \<Rightarrow> string \<Rightarrow> alert option" where
  "pg_alert s t i = map_option row_alert (pg_alerts s t i)"

definition alert_rows :: "tenant \<Rightarrow> pg \<Rightarrow> alert_row list" where
  "alert_rows t s = List.map_filter (pg_alerts s t) (pg_alert_keys s t)"

definition alert_columns :: "alert \<Rightarrow> string \<Rightarrow> alert_row" where
  "alert_columns a key =
    \<lparr>row_dedup = key, row_status = al_status a, row_last_seen = to_micro (al_last_seen a), row_alert = a\<rparr>"

text \<open>\<^verbatim>\<open>SELECT payload ... WHERE dedup_key=$2 AND status<>'CLOSED' ORDER BY last_seen DESC LIMIT 1\<close>\<close>

definition open_duplicate :: "tenant \<Rightarrow> string \<Rightarrow> pg \<Rightarrow> alert option" where
  "open_duplicate t key s =
    (case newest_first row_last_seen 1
            (filter (\<lambda>r. row_dedup r = key \<and> row_status r \<noteq> ''CLOSED'') (alert_rows t s)) of
       [] \<Rightarrow> None
     | r # _ \<Rightarrow> Some (row_alert r))"

definition updateAlertRow :: "alert \<Rightarrow> string \<Rightarrow> pg \<Rightarrow> pg result" where
  "updateAlertRow a key s =
    Inr (case pg_alerts s (al_tenant a) (al_id a) of
           None \<Rightarrow> s
         | Some _ \<Rightarrow> s\<lparr>pg_alerts := upd2 (pg_alerts s) (al_tenant a) (al_id a) (alert_columns a key)\<rparr>)"

definition insert_alert_row :: "alert \<Rightarrow> string \<Rightarrow> pg \<Rightarrow> pg result" where
  "insert_alert_row a key s =
    (if pg_alerts s (al_tenant a) (al_id a) \<noteq> None then Inl duplicate_key
     else if pg_tenants s (al_tenant a) = None then Inl foreign_key
     else Inr (s\<lparr>pg_alerts := upd2 (pg_alerts s) (al_tenant a) (al_id a) (alert_columns a key),
                 pg_alert_keys := snoc (pg_alert_keys s) (al_tenant a) (al_id a)\<rparr>))"

definition pg_UpsertAlert :: "alert \<Rightarrow> string \<Rightarrow> duration \<Rightarrow> (pg, alert \<times> bool) op" where
  "pg_UpsertAlert candidate key window =
    transaction
     (op_bind (sql_query (\<lambda>_. Inr ())) (\<lambda>_.
      op_bind (sql_query (\<lambda>s. Inr (open_duplicate (al_tenant candidate) key s))) (\<lambda>found_row.
      case (case found_row of
              Some existing \<Rightarrow>
                if al_last_seen candidate - al_last_seen existing \<le> window then Some existing else None
            | None \<Rightarrow> None) of
        Some existing \<Rightarrow>
          (let merged = merge_alert existing candidate
           in op_bind (sql_exec (updateAlertRow merged key)) (\<lambda>_. op_return (merged, False)))
      | None \<Rightarrow>
          op_bind (sql_exec (insert_alert_row candidate key)) (\<lambda>_. op_return (candidate, True)))))"

definition pg_GetAlert :: "tenant \<Rightarrow> string \<Rightarrow> (pg, alert) op" where
  "pg_GetAlert t i = sql_query (\<lambda>s. found (pg_alert s t i))"

definition pg_ListAlerts :: "(alert \<Rightarrow> string \<Rightarrow> bool) \<Rightarrow> tenant \<Rightarrow> alert_filter \<Rightarrow> (pg, alert list) op" where
  "pg_ListAlerts matches t f =
    sql_query (\<lambda>s. Inr (newest_first (\<lambda>a. to_micro (al_updated_at a)) (normalizedLimit (af_limit f))
      (filter (\<lambda>a. (af_status f = [] \<or> al_status a = to_upper (af_status f)) \<and>
                   (af_severity f = [] \<or> al_severity a = af_severity f) \<and>
                   (af_assignee f = [] \<or> sql_lower_eq (al_assignee a) (af_assignee f)) \<and>
                   (trim_space (af_query f) = [] \<or> matches a (trim_space (af_query f))))
        (map row_alert (alert_rows t s)))))"

text \<open>What the callback makes of the decoded struct, one version on.\<close>

definition change_alert :: "alert mutator \<Rightarrow> alert \<Rightarrow> world \<Rightarrow> alert result \<times> world" where
  "change_alert mutate a w =
    (case mutate a w of
       (Inl e, w1) \<Rightarrow> (Inl e, w1)
     | (Inr b, w1) \<Rightarrow>
         (let (now, w2) = time_now w1
          in (Inr (b\<lparr>al_version := al_version b + 1, al_updated_at := now\<rparr>), w2)))"

definition pg_MutateAlert :: "tenant \<Rightarrow> string \<Rightarrow> int \<Rightarrow> alert mutator \<Rightarrow> (pg, alert) op" where
  "pg_MutateAlert t i expected mutate =
    transaction
     (op_bind (sql_query (\<lambda>s. found (pg_alerts s t i))) (\<lambda>row.
      if 0 < expected \<and> al_version (row_alert row) \<noteq> expected then op_fail ErrVersionConflict
      else op_bind (op_world (change_alert mutate (row_alert row))) (\<lambda>b.
           op_bind (sql_exec (updateAlertRow b (row_dedup row))) (\<lambda>_. op_return b))))"

subsection \<open>Incidents\<close>

definition insert_incident :: "incident \<Rightarrow> pg \<Rightarrow> pg result" where
  "insert_incident x s =
    (if pg_incidents s (in_tenant x) (in_id x) \<noteq> None then Inl duplicate_key
     else if pg_tenants s (in_tenant x) = None then Inl foreign_key
     else Inr (s\<lparr>pg_incidents := upd2 (pg_incidents s) (in_tenant x) (in_id x) x,
                 pg_incident_keys := snoc (pg_incident_keys s) (in_tenant x) (in_id x)\<rparr>))"

definition duplicate_as_conflict :: "error \<Rightarrow> error" where
  "duplicate_as_conflict e =
    (case e of ErrStorage msg \<Rightarrow> if contains msg ''duplicate key'' then ErrVersionConflict else e | _ \<Rightarrow> e)"

definition pg_CreateIncident :: "incident \<Rightarrow> (pg, incident) op" where
  "pg_CreateIncident x =
    op_bind (op_map_error duplicate_as_conflict (sql_exec (insert_incident x))) (\<lambda>_. op_return x)"

definition pg_GetIncident :: "tenant \<Rightarrow> string \<Rightarrow> (pg, incident) op" where
  "pg_GetIncident t i = sql_query (\<lambda>s. found (pg_incidents s t i))"

definition incident_rows :: "tenant \<Rightarrow> pg \<Rightarrow> incident list" where
  "incident_rows t s = List.map_filter (pg_incidents s t) (pg_incident_keys s t)"

definition pg_ListIncidents :: "(incident \<Rightarrow> string \<Rightarrow> bool) \<Rightarrow> tenant \<Rightarrow> incident_filter \<Rightarrow> (pg, incident list) op" where
  "pg_ListIncidents matches t f =
    sql_query (\<lambda>s. Inr (newest_first (\<lambda>x. to_micro (in_updated_at x)) (normalizedLimit (if_limit f))
      (filter (\<lambda>x. (if_status f = [] \<or> in_status x = to_upper (if_status f)) \<and>
                   (if_severity f = [] \<or> in_severity x = if_severity f) \<and>
                   (trim_space (if_query f) = [] \<or> matches x (trim_space (if_query f))))
        (incident_rows t s))))"

definition update_incident_row :: "tenant \<Rightarrow> string \<Rightarrow> incident \<Rightarrow> pg \<Rightarrow> pg result" where
  "update_incident_row t i x s =
    Inr (case pg_incidents s t i of
           None \<Rightarrow> s
         | Some _ \<Rightarrow> s\<lparr>pg_incidents := upd2 (pg_incidents s) t i x\<rparr>)"

definition change_incident :: "incident mutator \<Rightarrow> incident \<Rightarrow> world \<Rightarrow> incident result \<times> world" where
  "change_incident mutate x w =
    (case mutate x w of
       (Inl e, w1) \<Rightarrow> (Inl e, w1)
     | (Inr y, w1) \<Rightarrow>
         (let (now, w2) = time_now w1
          in (Inr (y\<lparr>in_version := in_version y + 1, in_updated_at := now\<rparr>), w2)))"

definition pg_MutateIncident :: "tenant \<Rightarrow> string \<Rightarrow> int \<Rightarrow> incident mutator \<Rightarrow> (pg, incident) op" where
  "pg_MutateIncident t i expected mutate =
    transaction
     (op_bind (sql_query (\<lambda>s. found (pg_incidents s t i))) (\<lambda>x.
      if 0 < expected \<and> in_version x \<noteq> expected then op_fail ErrVersionConflict
      else op_bind (op_world (change_incident mutate x)) (\<lambda>y.
           op_bind (sql_exec (update_incident_row t i y)) (\<lambda>_. op_return y))))"

subsection \<open>The audit log\<close>

definition insert_audit :: "audit_entry \<Rightarrow> pg \<Rightarrow> pg result" where
  "insert_audit e s =
    (if au_id e \<in> au_id ` set (pg_audit s (au_tenant e)) then Inl duplicate_key
     else if pg_tenants s (au_tenant e) = None then Inl foreign_key
     else Inr (s\<lparr>pg_audit := snoc (pg_audit s) (au_tenant e) e\<rparr>))"

definition advance_head :: "tenant \<Rightarrow> string \<Rightarrow> pg \<Rightarrow> pg result" where
  "advance_head t h s =
    Inr (case pg_heads s t of None \<Rightarrow> s | Some _ \<Rightarrow> s\<lparr>pg_heads := (pg_heads s)(t \<mapsto> h)\<rparr>)"

text \<open>The entry is stamped and hashed under the lock on the tenant's head.\<close>

definition seal_audit :: "audit_entry \<Rightarrow> string \<Rightarrow> world \<Rightarrow> audit_entry result \<times> world" where
  "seal_audit entry previous w =
    (let (e1, w1) = stamp_audit (entry\<lparr>au_previous_hash := previous\<rparr>) w
     in (Inr (e1\<lparr>au_hash := auditHash e1\<rparr>), w1))"

definition appendAuditTx :: "audit_entry \<Rightarrow> (pg, audit_entry) op" where
  "appendAuditTx entry =
    op_bind (sql_exec (ensure_head (au_tenant entry))) (\<lambda>_.
    op_bind (sql_query (\<lambda>s. case pg_heads s (au_tenant entry) of
                              None \<Rightarrow> Inl (ErrStorage ''no rows'') | Some h \<Rightarrow> Inr h)) (\<lambda>previous.
    op_bind (op_world (seal_audit entry previous)) (\<lambda>e.
    op_bind (sql_exec (insert_audit e)) (\<lambda>_.
    op_bind (sql_exec (advance_head (au_tenant e) (au_hash e))) (\<lambda>_. op_return e)))))"

definition pg_AppendAudit :: "audit_entry \<Rightarrow> (pg, audit_entry) op" where
  "pg_AppendAudit entry = transaction (appendAuditTx entry)"

definition pg_ListAudit :: "tenant \<Rightarrow> int \<Rightarrow> (pg, audit_entry list) op" where
  "pg_ListAudit t limit = sql_query (\<lambda>s. Inr (take (nat (normalizedLimit limit)) (rev (pg_audit s t))))"

text \<open>The chain and its head are read by two statements outside a transaction.\<close>

definition audit_chain_end :: "tenant \<Rightarrow> (pg, string option) op" where
  "audit_chain_end t = sql_query (\<lambda>s. Inr (verify_from [] (pg_audit s t)))"

definition audit_head_is :: "tenant \<Rightarrow> string \<Rightarrow> (pg, bool) op" where
  "audit_head_is t previous =
    op_bind (sql_query (\<lambda>s. Inr (pg_heads s t))) (\<lambda>head.
    op_return (case head of None \<Rightarrow> previous = [] | Some h \<Rightarrow> previous = h))"

definition pg_VerifyAudit :: "tenant \<Rightarrow> (pg, bool) op" where
  "pg_VerifyAudit t =
    op_bind (audit_chain_end t) (\<lambda>chain_end.
      case chain_end of None \<Rightarrow> op_return False | Some previous \<Rightarrow> audit_head_is t previous)"

end
