(* ===== verification/Postgres_Cases.thy ===== *)
theory Postgres_Cases
  imports Postgres
begin

text \<open>
  The tables of cases, \<^verbatim>\<open>internal/store/cases.go\<close> over \<^verbatim>\<open>migrations/0015_cases.sql\<close>: a case is a row with
  its encoded struct, unique by the identity of the request that opened it, and the table
  \<^verbatim>\<open>case_incidents\<close> repeats the incidents of each case under foreign keys.
\<close>

text \<open>\<^verbatim>\<open>length\<close> of a \<^verbatim>\<open>TEXT\<close> value counts characters, which in UTF-8 are the bytes that continue none.\<close>

definition char_length :: "string \<Rightarrow> nat" where
  "char_length s = length (filter (\<lambda>c. \<not> cont_byte (of_char c)) s)"

lemma char_length_le: "char_length s \<le> length s"
  by (simp add: char_length_def)

subsection \<open>Rows\<close>

definition case_statuses :: "string list" where
  "case_statuses = [''OPEN'', ''INVESTIGATION'', ''RESPONSE'', ''CLOSED'']"

definition case_severities :: "string list" where
  "case_severities = [SeverityCritical, SeverityHigh, SeverityMedium, SeverityLow, SeverityInformational]"

definition between :: "nat \<Rightarrow> nat \<Rightarrow> nat \<Rightarrow> bool" where
  "between a n b \<longleftrightarrow> a \<le> n \<and> n \<le> b"

definition case_checks :: "case_row \<Rightarrow> bool" where
  "case_checks r \<longleftrightarrow>
     between 1 (char_length (row_request r)) 200 \<and> row_case_status r \<in> set case_statuses \<and>
     row_severity r \<in> set case_severities \<and> between 1 (char_length (row_owner r)) 255 \<and> 0 < row_version r"

text \<open>\<^verbatim>\<open>RequestID\<close> is marked \<^verbatim>\<open>json:"-"\<close>: the payload does not hold it.\<close>

definition case_json :: "case_file \<Rightarrow> case_file" where
  "case_json c = c\<lparr>ca_request := []\<rparr>"

definition case_columns :: "string \<Rightarrow> case_file \<Rightarrow> case_row" where
  "case_columns request c =
    \<lparr>row_request = request, row_case_status = ca_status c, row_severity = ca_severity c,
     row_owner = ca_owner c, row_version = ca_version c, row_case = case_json c\<rparr>"

text \<open>\<^verbatim>\<open>scanCase\<close>: the columns first, the payload over them, the severity from its column again.\<close>

definition scanCase :: "case_row \<Rightarrow> case_file" where
  "scanCase r = (row_case r)\<lparr>ca_request := row_request r, ca_severity := row_severity r\<rparr>"

definition pg_case :: "pg \<Rightarrow> tenant \<Rightarrow> string \<Rightarrow> case_file option" where
  "pg_case s t i = map_option scanCase (pg_cases s t i)"

subsection \<open>Incidents of a case\<close>

definition delete_links :: "case_file \<Rightarrow> pg \<Rightarrow> pg result" where
  "delete_links c s = Inr (s\<lparr>pg_links := (pg_links s)(ca_tenant c := (pg_links s (ca_tenant c))(ca_id c := []))\<rparr>)"

definition insert_link :: "case_file \<Rightarrow> string \<Rightarrow> pg \<Rightarrow> pg result" where
  "insert_link c i s =
    (let ks = pg_links s (ca_tenant c) (ca_id c)
     in if i \<in> set ks then Inl duplicate_key
        else if pg_incidents s (ca_tenant c) i = None then Inl foreign_key
        else Inr (s\<lparr>pg_links := (pg_links s)(ca_tenant c := (pg_links s (ca_tenant c))(ca_id c := ks @ [i]))\<rparr>))"

fun insert_links :: "case_file \<Rightarrow> string list \<Rightarrow> (pg, unit) op" where
  "insert_links c [] = op_return ()"
| "insert_links c (i # is) = op_bind (sql_exec (insert_link c i)) (\<lambda>_. insert_links c is)"

definition syncCaseIncidents :: "case_file \<Rightarrow> (pg, unit) op" where
  "syncCaseIncidents c = op_bind (sql_exec (delete_links c)) (\<lambda>_. insert_links c (ca_incidents c))"

subsection \<open>Creating and reading cases\<close>

definition case_rows :: "tenant \<Rightarrow> pg \<Rightarrow> case_row list" where
  "case_rows t s = List.map_filter (pg_cases s t) (pg_case_keys s t)"

definition case_by_request :: "tenant \<Rightarrow> string \<Rightarrow> pg \<Rightarrow> case_row option" where
  "case_by_request t request s = find (\<lambda>r. row_request r = request) (case_rows t s)"

definition caseByRequestID :: "tenant \<Rightarrow> string \<Rightarrow> (pg, case_file) op" where
  "caseByRequestID t request = sql_query (\<lambda>s. found (map_option scanCase (case_by_request t request s)))"

definition GetCase :: "tenant \<Rightarrow> string \<Rightarrow> (pg, case_file) op" where
  "GetCase t i = sql_query (\<lambda>s. found (pg_case s t i))"

text \<open>
  \<^verbatim>\<open>INSERT ... ON CONFLICT (tenant_id,request_id) DO NOTHING RETURNING\<close>: check constraints, then the
  conflict target, then the primary key, then the foreign key.
\<close>

definition insert_case :: "case_file \<Rightarrow> pg \<Rightarrow> case_file option result \<times> pg" where
  "insert_case c s =
    (let t = ca_tenant c; r = case_columns (ca_request c) c
     in if \<not> case_checks r then (Inl check_violation, s)
        else if case_by_request t (ca_request c) s \<noteq> None then (Inr None, s)
        else if pg_cases s t (ca_id c) \<noteq> None then (Inl duplicate_key, s)
        else if pg_tenants s t = None then (Inl foreign_key, s)
        else (Inr (Some (scanCase r)),
              s\<lparr>pg_cases := upd2 (pg_cases s) t (ca_id c) r,
                pg_case_keys := snoc (pg_case_keys s) t (ca_id c)\<rparr>))"

definition CreateCase :: "case_file \<Rightarrow> (pg, case_file \<times> bool) op" where
  "CreateCase c =
    (if ca_id c = [] \<or> ca_tenant c = [] \<or> ca_request c = [] \<or> ca_title c = [] \<or> ca_owner c = [] \<or>
        ca_version c < 1
     then op_fail (ErrStorage ''create case: required fields are missing'')
     else op_bind
       (transaction_try
         (op_bind (statement (insert_case c)) (\<lambda>inserted.
          case inserted of
            None \<Rightarrow> op_return None
          | Some created \<Rightarrow> op_bind (syncCaseIncidents created) (\<lambda>_. op_return (Some created)))))
       (\<lambda>outcome. case outcome of
          Some created \<Rightarrow> op_return (created, False)
        | None \<Rightarrow> op_bind (caseByRequestID (ca_tenant c) (ca_request c)) (\<lambda>existing.
                  op_return (existing, True))))"

subsection \<open>Changing a case\<close>

text \<open>The callback runs on the decoded payload; the identity must survive it.\<close>

definition change_case :: "tenant \<Rightarrow> string \<Rightarrow> case_file mutator \<Rightarrow> case_row \<Rightarrow> world \<Rightarrow> case_file result \<times> world" where
  "change_case t i mutate r w =
    (case mutate (row_case r) w of
       (Inl e, w1) \<Rightarrow> (Inl e, w1)
     | (Inr c, w1) \<Rightarrow>
         if ca_id c \<noteq> i \<or> ca_tenant c \<noteq> t
         then (Inl (ErrStorage ''case mutation changed immutable identity''), w1)
         else (let (now, w2) = time_now w1
               in (Inr (c\<lparr>ca_version := row_version r + 1, ca_updated_at := now\<rparr>), w2)))"

definition update_case :: "tenant \<Rightarrow> string \<Rightarrow> case_file \<Rightarrow> pg \<Rightarrow> case_file result \<times> pg" where
  "update_case t i c s =
    (case pg_cases s t i of
       None \<Rightarrow> (Inl (ErrStorage ''no rows''), s)
     | Some old \<Rightarrow>
         (let r = case_columns (row_request old) c
          in if \<not> case_checks r then (Inl check_violation, s)
             else (Inr (scanCase r), s\<lparr>pg_cases := upd2 (pg_cases s) t i r\<rparr>)))"

definition MutateCase :: "tenant \<Rightarrow> string \<Rightarrow> int \<Rightarrow> case_file mutator \<Rightarrow> (pg, case_file) op" where
  "MutateCase t i expected mutate =
    transaction
     (op_bind (sql_query (\<lambda>s. found (pg_cases s t i))) (\<lambda>r.
      if 0 < expected \<and> expected \<noteq> row_version r then op_fail ErrVersionConflict
      else op_bind (op_world (change_case t i mutate r)) (\<lambda>c.
           op_bind (statement (update_case t i c)) (\<lambda>updated.
           op_bind (syncCaseIncidents updated) (\<lambda>_. op_return updated)))))"

subsection \<open>Listing cases\<close>

text \<open>
  \<^verbatim>\<open>ILIKE\<close> compares under the database's collation and is a parameter: \<open>ilike value pattern\<close>. A blank
  description is left out of the payload, so that \<^verbatim>\<open>payload->>'description'\<close> is NULL and does not match.
\<close>

definition case_selected :: "(string \<Rightarrow> string \<Rightarrow> bool) \<Rightarrow> case_filter \<Rightarrow> (string \<Rightarrow> string list) \<Rightarrow> case_row \<Rightarrow> bool" where
  "case_selected ilike f links r \<longleftrightarrow>
     (cf_status f = [] \<or> row_case_status r = to_upper (cf_status f)) \<and>
     (cf_severity f = [] \<or> row_severity r = to_upper (cf_severity f)) \<and>
     (cf_owner f = [] \<or> row_owner r = cf_owner f) \<and>
     (cf_incident f = [] \<or> cf_incident f \<in> set (links (ca_id (row_case r)))) \<and>
     (cf_query f = [] \<or>
      (let pattern = ''%'' @ cf_query f @ ''%''
       in ilike (ca_id (row_case r)) pattern \<or> ilike (ca_title (row_case r)) pattern \<or>
          ca_description (row_case r) \<noteq> [] \<and> ilike (ca_description (row_case r)) pattern))"

definition ListCases :: "(string \<Rightarrow> string \<Rightarrow> bool) \<Rightarrow> tenant \<Rightarrow> case_filter \<Rightarrow> (pg, case_file list) op" where
  "ListCases ilike t f =
    sql_query (\<lambda>s. Inr (map scanCase
      (newest_first (\<lambda>r. to_micro (ca_updated_at (row_case r))) (normalizedLimit (cf_limit f))
        (filter (case_selected ilike f (pg_links s t)) (case_rows t s)))))"

end
