(* ===== verification/Postgres_Evidence.thy ===== *)
theory Postgres_Evidence
  imports Postgres_Cases
begin

text \<open>
  Evidence metadata and its chain of custody, \<^verbatim>\<open>internal/store/evidence.go\<close> over
  \<^verbatim>\<open>migrations/0007_evidence.sql\<close>: an item is reserved as PENDING, becomes AVAILABLE or FAILED once,
  and every step appends an entry to the item's hash chain, whose head the item carries.
\<close>

subsection \<open>The custody hash\<close>

text \<open>The hashed text is the JSON of a struct, so every field is delimited.\<close>

definition custody_text :: "custody_entry \<Rightarrow> string" where
  "custody_text e =
    marshal (JStruct
      [(''tenant_id'', JStr (cu_tenant e)), (''evidence_id'', JStr (cu_evidence e)),
       (''custody_id'', JStr (cu_id e)), (''actor'', JStr (cu_actor e)), (''action'', JStr (cu_action e)),
       (''reason'', JStr (cu_reason e)), (''request_id'', JStr (cu_request e)),
       (''metadata'', cu_metadata e), (''previous_hash'', JStr (cu_previous_hash e)),
       (''created_at'', JStr (rfc3339nano (cu_created_at e)))])"

definition evidenceCustodyHash :: "custody_entry \<Rightarrow> string" where
  "evidenceCustodyHash e = sha256_hex (custody_text e)"

lemma custody_hash_frame [simp]:
  "evidenceCustodyHash (e\<lparr>cu_hash := h\<rparr>) = evidenceCustodyHash e"
  "evidenceCustodyHash (e\<lparr>cu_sequence := n\<rparr>) = evidenceCustodyHash e"
  by (simp_all add: evidenceCustodyHash_def custody_text_def)

definition truncateEvidenceFailure :: "string \<Rightarrow> string" where
  "truncateEvidenceFailure value =
    (let v = trim_space value in if 2000 < length v then take 2000 v else v)"

subsection \<open>Custody entries\<close>

definition custody_of :: "tenant \<Rightarrow> string \<Rightarrow> pg \<Rightarrow> custody_entry list" where
  "custody_of t i s = filter (\<lambda>e. cu_evidence e = i) (pg_custody s t)"

definition custody_head :: "tenant \<Rightarrow> string \<Rightarrow> pg \<Rightarrow> string result" where
  "custody_head t i s = found (map_option ei_head_hash (pg_evidence s t i))"

definition seal_custody :: "tenant \<Rightarrow> string \<Rightarrow> evidence_mutation \<Rightarrow> string \<Rightarrow> world \<Rightarrow> custody_entry result \<times> world" where
  "seal_custody t i m previous w =
    (let (cid, w1) = new_id ''chain'' w;
         (now, w2) = time_now w1;
         e = \<lparr>cu_sequence = 0, cu_id = cid, cu_tenant = t, cu_evidence = i, cu_actor = em_actor m,
              cu_action = em_action m, cu_reason = em_reason m, cu_request = em_request m,
              cu_metadata = em_metadata m, cu_previous_hash = previous, cu_hash = [],
              cu_created_at = to_micro now\<rparr>
     in (Inr (e\<lparr>cu_hash := evidenceCustodyHash e\<rparr>), w2))"

text \<open>\<^verbatim>\<open>RETURNING sequence\<close>: the next value of the table's counter.\<close>

definition insert_custody :: "custody_entry \<Rightarrow> pg \<Rightarrow> custody_entry result \<times> pg" where
  "insert_custody e s =
    (if cu_id e \<in> cu_id ` set (pg_custody s (cu_tenant e)) then (Inl duplicate_key, s)
     else if pg_evidence s (cu_tenant e) (cu_evidence e) = None then (Inl foreign_key, s)
     else (let n = pg_sequence s + 1; e1 = e\<lparr>cu_sequence := n\<rparr>
           in (Inr e1, s\<lparr>pg_custody := snoc (pg_custody s) (cu_tenant e) e1, pg_sequence := n\<rparr>)))"

definition update_evidence :: "tenant \<Rightarrow> string \<Rightarrow> (evidence_item \<Rightarrow> evidence_item) \<Rightarrow> pg \<Rightarrow> pg result" where
  "update_evidence t i f s =
    Inr (case pg_evidence s t i of
           None \<Rightarrow> s
         | Some x \<Rightarrow> s\<lparr>pg_evidence := upd2 (pg_evidence s) t i (f x)\<rparr>)"

definition trim_mutation :: "evidence_mutation \<Rightarrow> evidence_mutation" where
  "trim_mutation m =
    m\<lparr>em_actor := trim_space (em_actor m), em_action := trim_space (em_action m),
      em_reason := trim_space (em_reason m)\<rparr>"

definition appendEvidenceCustodyTx :: "tenant \<Rightarrow> string \<Rightarrow> evidence_mutation \<Rightarrow> (pg, custody_entry) op" where
  "appendEvidenceCustodyTx t i mutation =
    (let m = trim_mutation mutation
     in if em_actor m = [] \<or> em_action m = [] \<or> em_reason m = [] \<or> 2000 < length (em_reason m)
        then op_fail (ErrStorage ''evidence custody actor, action and reason are required'')
        else op_bind (sql_query (custody_head t i)) (\<lambda>previous.
             op_bind (op_world (seal_custody t i m previous)) (\<lambda>sealed.
             op_bind (statement (insert_custody sealed)) (\<lambda>e.
             op_bind (sql_exec (update_evidence t i
                       (\<lambda>x. x\<lparr>ei_head_hash := cu_hash e, ei_updated_at := cu_created_at e\<rparr>))) (\<lambda>_.
             op_return e)))))"

definition AppendEvidenceCustody :: "tenant \<Rightarrow> string \<Rightarrow> evidence_mutation \<Rightarrow> (pg, custody_entry) op" where
  "AppendEvidenceCustody t i m = transaction (appendEvidenceCustodyTx t i m)"

definition ListEvidenceCustody :: "tenant \<Rightarrow> string \<Rightarrow> (pg, custody_entry list) op" where
  "ListEvidenceCustody t i = sql_query (\<lambda>s. Inr (custody_of t i s))"

subsection \<open>Items\<close>

definition Evidence :: "tenant \<Rightarrow> string \<Rightarrow> (pg, evidence_item) op" where
  "Evidence t i = sql_query (\<lambda>s. found (pg_evidence s t i))"

definition evidence_rows :: "tenant \<Rightarrow> pg \<Rightarrow> evidence_item list" where
  "evidence_rows t s = List.map_filter (pg_evidence s t) (pg_evidence_keys s t)"

definition evidence_by_request :: "tenant \<Rightarrow> string \<Rightarrow> pg \<Rightarrow> evidence_item option" where
  "evidence_by_request t request s = find (\<lambda>x. ei_request x = request) (evidence_rows t s)"

definition evidenceByRequestID :: "tenant \<Rightarrow> string \<Rightarrow> (pg, evidence_item) op" where
  "evidenceByRequestID t request = sql_query (\<lambda>s. found (evidence_by_request t request s))"

definition evidence_selected :: "evidence_filter \<Rightarrow> evidence_item \<Rightarrow> bool" where
  "evidence_selected f x \<longleftrightarrow>
     (vf_case f = [] \<or> ei_case x = vf_case f) \<and> (vf_incident f = [] \<or> ei_incident x = vf_incident f) \<and>
     (vf_alert f = [] \<or> ei_alert x = vf_alert f) \<and> (vf_event f = [] \<or> ei_event x = vf_event f) \<and>
     (to_upper (vf_status f) = [] \<or> ei_status x = to_upper (vf_status f))"

definition ListEvidence :: "tenant \<Rightarrow> evidence_filter \<Rightarrow> (pg, evidence_item list) op" where
  "ListEvidence t f =
    sql_query (\<lambda>s. Inr (newest_first ei_created_at (normalizedLimit (vf_limit f))
                          (filter (evidence_selected f) (evidence_rows t s))))"

subsection \<open>Reservation\<close>

definition reservation_incomplete :: "evidence_item \<Rightarrow> bool" where
  "reservation_incomplete x \<longleftrightarrow>
     ei_id x = [] \<or> ei_tenant x = [] \<or> ei_request x = [] \<or> ei_filename x = [] \<or> ei_content_type x = [] \<or>
     ei_sha256 x = [] \<or> ei_bucket x = [] \<or> ei_object_key x = [] \<or> ei_uploader x = [] \<or>
     is_zero (ei_retain_until x) \<or>
     (ei_case x = [] \<and> ei_incident x = [] \<and> ei_alert x = [] \<and> ei_event x = [])"

definition evidence_checks :: "evidence_item \<Rightarrow> bool" where
  "evidence_checks x \<longleftrightarrow>
     between 1 (char_length (ei_request x)) 200 \<and> between 1 (char_length (ei_filename x)) 255 \<and>
     between 1 (char_length (ei_content_type x)) 255 \<and> char_length (ei_description x) \<le> 4000 \<and>
     0 \<le> ei_size x \<and> char_length (ei_sha256 x) = 64 \<and> char_length (ei_failure x) \<le> 2000"

definition pending_row :: "evidence_item \<Rightarrow> time \<Rightarrow> evidence_item" where
  "pending_row x now =
    x\<lparr>ei_object_version := [], ei_etag := [], ei_status := ''PENDING'', ei_failure := [],
      ei_retain_until := to_micro (ei_retain_until x), ei_verified_at := None, ei_head_hash := [],
      ei_created_at := to_micro now, ei_updated_at := to_micro now\<rparr>"

definition insert_evidence :: "evidence_item \<Rightarrow> time \<Rightarrow> pg \<Rightarrow> evidence_item option result \<times> pg" where
  "insert_evidence x now s =
    (let t = ei_tenant x; r = pending_row x now
     in if \<not> evidence_checks r then (Inl check_violation, s)
        else if evidence_by_request t (ei_request x) s \<noteq> None then (Inr None, s)
        else if pg_evidence s t (ei_id x) \<noteq> None \<or> ei_object_key x \<in> ei_object_key ` set (evidence_rows t s)
          then (Inl duplicate_key, s)
        else if pg_tenants s t = None \<or> (ei_case x \<noteq> [] \<and> pg_cases s t (ei_case x) = None)
          then (Inl foreign_key, s)
        else (Inr (Some r),
              s\<lparr>pg_evidence := upd2 (pg_evidence s) t (ei_id x) r,
                pg_evidence_keys := snoc (pg_evidence_keys s) t (ei_id x)\<rparr>))"

definition case_exists :: "evidence_item \<Rightarrow> (pg, unit) op" where
  "case_exists x =
    (if ei_case x = [] then op_return ()
     else op_bind (sql_query (\<lambda>s. Inr (pg_cases s (ei_tenant x) (ei_case x) \<noteq> None))) (\<lambda>present.
          if present then op_return () else op_fail ErrNotFound))"

definition ReserveEvidence :: "evidence_item \<Rightarrow> evidence_mutation \<Rightarrow> (pg, evidence_item \<times> bool) op" where
  "ReserveEvidence x mutation =
    (if reservation_incomplete x then op_fail (ErrStorage ''reserve evidence: required fields are missing'')
     else op_bind (case_exists x) (\<lambda>_. op_bind
       (transaction_try
         (op_bind op_now (\<lambda>now.
          op_bind (statement (insert_evidence x now)) (\<lambda>inserted.
          case inserted of
            None \<Rightarrow> op_return None
          | Some reserved \<Rightarrow>
              op_bind (appendEvidenceCustodyTx (ei_tenant reserved) (ei_id reserved) mutation) (\<lambda>e.
              op_return (Some (reserved\<lparr>ei_head_hash := cu_hash e\<rparr>)))))))
       (\<lambda>outcome. case outcome of
          Some reserved \<Rightarrow> op_return (reserved, True)
        | None \<Rightarrow> op_bind (evidenceByRequestID (ei_tenant x) (ei_request x)) (\<lambda>existing.
                  op_return (existing, False)))))"

subsection \<open>Transitions and verification\<close>

definition current_status :: "tenant \<Rightarrow> string \<Rightarrow> pg \<Rightarrow> string result" where
  "current_status t i s = found (map_option ei_status (pg_evidence s t i))"

text \<open>\<^verbatim>\<open>UPDATE ... RETURNING\<close>: the row as updated; the reason's and failure's lengths are checked.\<close>

definition update_evidence_returning :: "tenant \<Rightarrow> string \<Rightarrow> (evidence_item \<Rightarrow> evidence_item) \<Rightarrow> pg \<Rightarrow> evidence_item result \<times> pg" where
  "update_evidence_returning t i f s =
    (case pg_evidence s t i of
       None \<Rightarrow> (Inl (ErrStorage ''no rows''), s)
     | Some x \<Rightarrow>
         if \<not> evidence_checks (f x) then (Inl check_violation, s)
         else (Inr (f x), s\<lparr>pg_evidence := upd2 (pg_evidence s) t i (f x)\<rparr>))"

definition transitionEvidence ::
  "tenant \<Rightarrow> string \<Rightarrow> string \<Rightarrow> string \<Rightarrow> string \<Rightarrow> string \<Rightarrow> evidence_mutation \<Rightarrow> (pg, evidence_item) op" where
  "transitionEvidence t i status object_version etag failure mutation =
    transaction
     (op_bind (sql_query (current_status t i)) (\<lambda>current.
      if current \<noteq> ''PENDING'' then op_fail ErrEvidenceState
      else op_bind op_now (\<lambda>now.
           op_bind (statement (update_evidence_returning t i
             (\<lambda>x. x\<lparr>ei_status := status, ei_object_version := object_version, ei_etag := etag,
                    ei_failure := failure, ei_updated_at := to_micro now\<rparr>))) (\<lambda>x.
           op_bind (appendEvidenceCustodyTx t i mutation) (\<lambda>e.
           op_return (x\<lparr>ei_head_hash := cu_hash e\<rparr>))))))"

definition FinalizeEvidence :: "tenant \<Rightarrow> string \<Rightarrow> string \<Rightarrow> string \<Rightarrow> evidence_mutation \<Rightarrow> (pg, evidence_item) op" where
  "FinalizeEvidence t i object_version etag mutation =
    transitionEvidence t i ''AVAILABLE'' object_version etag [] mutation"

definition FailEvidence :: "tenant \<Rightarrow> string \<Rightarrow> string \<Rightarrow> evidence_mutation \<Rightarrow> (pg, evidence_item) op" where
  "FailEvidence t i failure mutation =
    transitionEvidence t i ''FAILED'' [] [] (truncateEvidenceFailure failure) mutation"

definition RecordEvidenceVerification :: "tenant \<Rightarrow> string \<Rightarrow> bool \<Rightarrow> evidence_mutation \<Rightarrow> (pg, evidence_item) op" where
  "RecordEvidenceVerification t i valid mutation =
    transaction
     (op_bind (sql_query (current_status t i)) (\<lambda>status.
      if status \<noteq> ''AVAILABLE'' then op_fail ErrEvidenceState
      else op_bind op_now (\<lambda>now.
           op_bind (if valid
                    then sql_exec (update_evidence t i
                           (\<lambda>x. x\<lparr>ei_verified_at := Some (to_micro now), ei_updated_at := to_micro now\<rparr>))
                    else op_return ()) (\<lambda>_.
           op_bind (appendEvidenceCustodyTx t i mutation) (\<lambda>_.
           sql_query (\<lambda>s. found (pg_evidence s t i)))))))"

fun custody_from :: "string \<Rightarrow> custody_entry list \<Rightarrow> string option" where
  "custody_from previous [] = Some previous"
| "custody_from previous (e # es) =
     (if cu_previous_hash e \<noteq> previous \<or> evidenceCustodyHash e \<noteq> cu_hash e then None
      else custody_from (cu_hash e) es)"

definition VerifyEvidenceCustody :: "tenant \<Rightarrow> string \<Rightarrow> (pg, bool) op" where
  "VerifyEvidenceCustody t i =
    op_bind (ListEvidenceCustody t i) (\<lambda>items.
      if items = [] then op_return False
      else case custody_from [] items of
             None \<Rightarrow> op_return False
           | Some previous \<Rightarrow>
               op_bind (Evidence t i) (\<lambda>x. op_return (ei_head_hash x = previous)))"

end
