(* ===== verification/Postgres_Facts.thy ===== *)
theory Postgres_Facts
  imports Postgres_Evidence Soc_Contract
begin

text \<open>
  What the operations of the durable store do when they succeed: each is replayed statement by
  statement to the one update it makes. The stored incidents keep the optimistic contract of
  \<open>Store_Contracts\<close>.
\<close>

subsection \<open>Alerts and incidents\<close>

lemma pg_MutateAlert_cases:
  assumes "pg_MutateAlert t i n f (s, w) = (Inr b, (s', w'))"
  obtains r c w1 w2 where "pg_alerts s t i = Some r" "n \<le> 0 \<or> al_version (row_alert r) = n"
    "f (row_alert r) w1 = (Inr c, w2)"
    "b = c\<lparr>al_version := al_version c + 1, al_updated_at := fst (time_now w2)\<rparr>"
    "updateAlertRow b (row_dedup r) s = Inr s'"
proof -
  from assms [unfolded pg_MutateAlert_def] obtain u u' where
    "op_bind (sql_query (\<lambda>s. found (pg_alerts s t i))) (\<lambda>row.
      if 0 < n \<and> al_version (row_alert row) \<noteq> n then op_fail ErrVersionConflict
      else op_bind (op_world (change_alert f (row_alert row))) (\<lambda>b.
           op_bind (sql_exec (updateAlertRow b (row_dedup row))) (\<lambda>_. op_return b))) (s, u) = (Inr b, (s', u'))"
    by (rule transaction_Inr)
  then show thesis
    by (auto dest!: replay simp: return_Inr change_alert_def split: if_splits prod.splits sum.splits)
      (rule that, assumption, simp, assumption, simp, simp)+
qed

lemma pg_MutateIncident_cases:
  assumes "pg_MutateIncident t i n f (s, w) = (Inr y, (s', w'))"
  obtains x c w1 w2 where "pg_incidents s t i = Some x" "n \<le> 0 \<or> in_version x = n"
    "f x w1 = (Inr c, w2)" "y = c\<lparr>in_version := in_version c + 1, in_updated_at := fst (time_now w2)\<rparr>"
    "s' = s\<lparr>pg_incidents := upd2 (pg_incidents s) t i y\<rparr>"
proof -
  from assms [unfolded pg_MutateIncident_def] obtain u u' where
    "op_bind (sql_query (\<lambda>s. found (pg_incidents s t i))) (\<lambda>x.
      if 0 < n \<and> in_version x \<noteq> n then op_fail ErrVersionConflict
      else op_bind (op_world (change_incident f x)) (\<lambda>y.
           op_bind (sql_exec (update_incident_row t i y)) (\<lambda>_. op_return y))) (s, u) = (Inr y, (s', u'))"
    by (rule transaction_Inr)
  then show thesis
    by (auto dest!: replay simp: return_Inr change_incident_def update_incident_row_def
        split: if_splits prod.splits sum.splits)
      (rule that, assumption, simp, assumption, simp, simp)+
qed

interpretation durable_incidents: optimistic pg_incidents in_version pg_MutateIncident "\<lambda>x. x"
proof
  fix t i n f s w e s' w'
  assume "pg_MutateIncident t i n f (s, w) = (Inl e, (s', w'))"
  then show "s' = s"
    unfolding pg_MutateIncident_def by (rule atomicD [OF atomic_transaction])
next
  fix t i n f s w c s' w'
  assume "pg_MutateIncident t i n f (s, w) = (Inr c, (s', w'))"
  then obtain x b w1 w2 where "pg_incidents s t i = Some x" "n \<le> 0 \<or> in_version x = n" "f x w1 = (Inr b, w2)"
    "c = b\<lparr>in_version := in_version b + 1, in_updated_at := fst (time_now w2)\<rparr>"
    "s' = s\<lparr>pg_incidents := upd2 (pg_incidents s) t i c\<rparr>" by (rule pg_MutateIncident_cases)
  then show "\<exists>a b w1 w2. pg_incidents s t i = Some a \<and> (n \<le> 0 \<or> in_version a = n) \<and> f a w1 = (Inr b, w2) \<and>
      (in_version b = in_version a \<longrightarrow> in_version c = in_version a + 1) \<and> pg_incidents s' = upd2 (pg_incidents s) t i c"
    by fastforce
qed simp

lemma insert_incident_Inr:
  "insert_incident x s = Inr s' \<longleftrightarrow>
     pg_incidents s (in_tenant x) (in_id x) = None \<and> pg_tenants s (in_tenant x) \<noteq> None \<and>
     s' = s\<lparr>pg_incidents := upd2 (pg_incidents s) (in_tenant x) (in_id x) x,
            pg_incident_keys := snoc (pg_incident_keys s) (in_tenant x) (in_id x)\<rparr>"
  by (auto simp: insert_incident_def)

lemma pg_CreateIncident_cases:
  assumes "pg_CreateIncident x (s, w) = (r, (s', w'))"
  shows "(s' = s \<and> \<not> is_ok r) \<or> (insert_incident x s = Inr s' \<and> r = Inr x)"
proof -
  obtain q s1 w1 where q: "op_map_error duplicate_as_conflict (sql_exec (insert_incident x)) (s, w) = (q, (s1, w1))"
    by (metis prod.exhaust)
  with assms have r: "s' = s1" "r = (case q of Inl e \<Rightarrow> Inl e | Inr _ \<Rightarrow> Inr x)"
    by (auto simp: pg_CreateIncident_def op_bind_def op_return_def split: sum.splits)
  obtain p where p: "sql_exec (insert_incident x) (s, w) = (p, (s1, w1))" "is_ok p = is_ok q"
    using q by (rule op_map_error_outcome)
  from sql_exec_outcome [OF p(1)] p(2) r show ?thesis by (cases q) auto
qed

lemma updateAlertRow_cases:
  assumes "updateAlertRow b key s = Inr s'" "pg_alerts s (al_tenant b) (al_id b) = Some r"
  shows "s' = s\<lparr>pg_alerts := upd2 (pg_alerts s) (al_tenant b) (al_id b) (alert_columns b key)\<rparr>"
  using assms by (simp add: updateAlertRow_def)

lemma pg_UpsertAlert_cases:
  assumes "pg_UpsertAlert c key win (s, w) = (Inr (a, fresh), (s', w'))"
  shows "(fresh \<and> a = c \<and> pg_alerts s (al_tenant c) (al_id c) = None \<and> pg_tenants s (al_tenant c) \<noteq> None \<and>
       s' = s\<lparr>pg_alerts := upd2 (pg_alerts s) (al_tenant c) (al_id c) (alert_columns c key),
              pg_alert_keys := snoc (pg_alert_keys s) (al_tenant c) (al_id c)\<rparr>) \<or>
     (\<not> fresh \<and> (\<exists>existing. open_duplicate (al_tenant c) key s = Some existing \<and>
        al_last_seen c - al_last_seen existing \<le> win \<and> a = merge_alert existing c \<and>
        updateAlertRow a key s = Inr s'))"
proof -
  from assms [unfolded pg_UpsertAlert_def] obtain u u' where
    "op_bind (sql_query (\<lambda>_. Inr ())) (\<lambda>_.
      op_bind (sql_query (\<lambda>s. Inr (open_duplicate (al_tenant c) key s))) (\<lambda>found_row.
      case (case found_row of
              Some existing \<Rightarrow> if al_last_seen c - al_last_seen existing \<le> win then Some existing else None
            | None \<Rightarrow> None) of
        Some existing \<Rightarrow>
          (let merged = merge_alert existing c
           in op_bind (sql_exec (updateAlertRow merged key)) (\<lambda>_. op_return (merged, False)))
      | None \<Rightarrow> op_bind (sql_exec (insert_alert_row c key)) (\<lambda>_. op_return (c, True)))) (s, u)
     = (Inr (a, fresh), (s', u'))"
    by (rule transaction_Inr)
  then show ?thesis
    by (auto dest!: replay simp: return_Inr Let_def insert_alert_row_def split: option.splits if_splits)
qed

subsection \<open>The audit log\<close>

lemma stamp_audit_previous:
  "stamp_audit (e\<lparr>au_previous_hash := h\<rparr>) w =
     ((fst (stamp_audit e w))\<lparr>au_previous_hash := h\<rparr>, snd (stamp_audit e w))"
  by (simp add: stamp_audit_def Let_def case_prod_beta)

text \<open>Both stores seal an entry in the same way.\<close>

lemma seal_audit_append:
  assumes "seal_audit e h w = (Inr a, w')" "me_heads m (au_tenant e) = h"
  shows "AppendAudit e (m, w) =
    (a, (m\<lparr>me_audit := snoc (me_audit m) (au_tenant e) a, me_heads := (me_heads m)(au_tenant e := au_hash a)\<rparr>, w'))"
proof -
  obtain e1 w1 where st: "stamp_audit e w = (e1, w1)" by fastforce
  then have t: "au_tenant e1 = au_tenant e" by (rule stamp_audit_tenant)
  from assms(1) st have a: "a = e1\<lparr>au_previous_hash := h, au_hash := auditHash (e1\<lparr>au_previous_hash := h\<rparr>)\<rparr>" "w' = w1"
    by (auto simp: seal_audit_def stamp_audit_previous Let_def)
  with st t assms(2) show ?thesis by (simp add: AppendAudit_def Let_def)
qed

lemma seal_audit_Inr:
  assumes "seal_audit e h w = (Inr a, w')"
  shows "au_tenant a = au_tenant e" "au_previous_hash a = h" "au_hash a = auditHash a"
  using AppendAudit_cases(1-3) [OF seal_audit_append [OF assms, of "NewMemory\<lparr>me_heads := (\<lambda>_. h)\<rparr>"]]
  by simp_all

definition audit_appended :: "audit_entry \<Rightarrow> pg \<Rightarrow> pg" where
  "audit_appended a s =
    s\<lparr>pg_heads := (pg_heads s)(au_tenant a \<mapsto> au_hash a), pg_audit := snoc (pg_audit s) (au_tenant a) a\<rparr>"

lemma pg_AppendAudit_cases:
  assumes "pg_AppendAudit e (s, w) = (Inr a, (s', w'))"
  obtains w1 w2 where "seal_audit e (or_zero [] (pg_heads s (au_tenant e))) w1 = (Inr a, w2)"
    "pg_heads s (au_tenant e) \<noteq> None \<or> pg_tenants s (au_tenant e) \<noteq> None"
    "au_id a \<notin> au_id ` set (pg_audit s (au_tenant e))" "s' = audit_appended a s"
proof -
  let ?t = "au_tenant e"
  from assms [unfolded pg_AppendAudit_def] obtain u u' where "appendAuditTx e (s, u) = (Inr a, (s', u'))"
    by (rule transaction_Inr)
  then obtain s1 h w1 w2 s2 s3 where ensure: "ensure_head ?t s = Inr s1" and h: "pg_heads s1 ?t = Some h"
    and seal: "seal_audit e h w1 = (Inr a, w2)" and ins: "insert_audit a s1 = Inr s2"
    and adv: "advance_head (au_tenant a) (au_hash a) s2 = Inr s'"
    unfolding appendAuditTx_def
    by (auto dest!: replay simp: return_Inr split: option.splits)
  note a = seal_audit_Inr [OF seal]
  from ensure h have s1: "h = or_zero [] (pg_heads s ?t)" "pg_heads s ?t \<noteq> None \<or> pg_tenants s ?t \<noteq> None"
    "s1 = s\<lparr>pg_heads := (pg_heads s)(?t \<mapsto> h)\<rparr>"
    by (auto simp: ensure_head_def fun_upd_idem split: option.splits if_splits)
  from ins a s1 have s2: "au_id a \<notin> au_id ` set (pg_audit s ?t)" "s2 = s1\<lparr>pg_audit := snoc (pg_audit s1) ?t a\<rparr>"
    by (auto simp: insert_audit_def split: if_splits)
  with adv a s1 have "s' = audit_appended a s"
    by (auto simp: advance_head_def audit_appended_def)
  with seal s1 s2 that show thesis by blast
qed

subsection \<open>Cases\<close>

definition set_links :: "tenant \<Rightarrow> string \<Rightarrow> string list \<Rightarrow> pg \<Rightarrow> pg" where
  "set_links t i ks s = s\<lparr>pg_links := (pg_links s)(t := (pg_links s t)(i := ks))\<rparr>"

lemma set_links_simps [simp]:
  "pg_links (set_links t i ks s) t' i' = (if t' = t \<and> i' = i then ks else pg_links s t' i')"
  "pg_incidents (set_links t i ks s) = pg_incidents s" "pg_cases (set_links t i ks s) = pg_cases s"
  "pg_case_keys (set_links t i ks s) = pg_case_keys s" "pg_tenants (set_links t i ks s) = pg_tenants s"
  "set_links t i ks' (set_links t i ks s) = set_links t i ks' s"
  "pg_alerts (set_links t i ks s) = pg_alerts s" "pg_audit (set_links t i ks s) = pg_audit s"
  "pg_heads (set_links t i ks s) = pg_heads s" "pg_evidence (set_links t i ks s) = pg_evidence s"
  "pg_custody (set_links t i ks s) = pg_custody s" "pg_events (set_links t i ks s) = pg_events s"
  "pg_findings (set_links t i ks s) = pg_findings s" "pg_alert_keys (set_links t i ks s) = pg_alert_keys s"
  "pg_evidence_keys (set_links t i ks s) = pg_evidence_keys s" "pg_event_keys (set_links t i ks s) = pg_event_keys s"
  "pg_finding_keys (set_links t i ks s) = pg_finding_keys s" "pg_incident_keys (set_links t i ks s) = pg_incident_keys s"
  by (simp_all add: set_links_def)

lemma insert_links_Inr:
  assumes "insert_links c is (s, w) = (Inr u, (s', w'))"
  shows "s' = set_links (ca_tenant c) (ca_id c) (pg_links s (ca_tenant c) (ca_id c) @ is) s \<and>
    (\<forall>i \<in> set is. pg_incidents s (ca_tenant c) i \<noteq> None) \<and>
    (distinct (pg_links s (ca_tenant c) (ca_id c)) \<longrightarrow> distinct (pg_links s (ca_tenant c) (ca_id c) @ is))"
  using assms
proof (induction "is" arbitrary: s w)
  case Nil
  then show ?case by (simp add: return_Inr set_links_def)
next
  case (Cons i "is")
  let ?ks = "pg_links s (ca_tenant c) (ca_id c)"
  from Cons.prems obtain s1 w1 where 1: "insert_link c i s = Inr s1" and 2: "insert_links c is (s1, w1) = (Inr u, (s', w'))"
    by (auto dest!: exec_bind_Inr)
  from 1 have s1: "i \<notin> set ?ks" "pg_incidents s (ca_tenant c) i \<noteq> None"
    "s1 = set_links (ca_tenant c) (ca_id c) (?ks @ [i]) s"
    by (auto simp: insert_link_def Let_def set_links_def split: if_splits)
  from Cons.IH [OF 2] s1 show ?case by auto
qed

lemma syncCaseIncidents_Inr:
  assumes "syncCaseIncidents c (s, w) = (Inr u, (s', w'))"
  shows "s' = set_links (ca_tenant c) (ca_id c) (ca_incidents c) s"
    "\<forall>i \<in> set (ca_incidents c). pg_incidents s (ca_tenant c) i \<noteq> None" "distinct (ca_incidents c)"
proof -
  from assms obtain s1 w1 where "delete_links c s = Inr s1" "insert_links c (ca_incidents c) (s1, w1) = (Inr u, (s', w'))"
    by (auto simp: syncCaseIncidents_def dest!: exec_bind_Inr)
  moreover from this(1) have "s1 = set_links (ca_tenant c) (ca_id c) [] s"
    by (simp add: delete_links_def set_links_def)
  ultimately show "s' = set_links (ca_tenant c) (ca_id c) (ca_incidents c) s"
    "\<forall>i \<in> set (ca_incidents c). pg_incidents s (ca_tenant c) i \<noteq> None" "distinct (ca_incidents c)"
    by (auto dest!: insert_links_Inr)
qed

lemma scanCase_columns [simp]:
  "scanCase (case_columns request c) = c\<lparr>ca_request := request\<rparr>"
  by (simp add: scanCase_def case_columns_def case_json_def)

text \<open>A stored case and the row it is stored in.\<close>

definition store_case :: "case_row \<Rightarrow> pg \<Rightarrow> pg" where
  "store_case r s =
    set_links (ca_tenant (row_case r)) (ca_id (row_case r)) (ca_incidents (row_case r))
      (s\<lparr>pg_cases := upd2 (pg_cases s) (ca_tenant (row_case r)) (ca_id (row_case r)) r\<rparr>)"

lemma columns_simps [simp]:
  "ca_tenant (row_case (case_columns q c)) = ca_tenant c" "ca_id (row_case (case_columns q c)) = ca_id c"
  "ca_incidents (row_case (case_columns q c)) = ca_incidents c" "row_request (case_columns q c) = q"
  "row_version (case_columns q c) = ca_version c"
  by (simp_all add: case_columns_def case_json_def)

lemma MutateCase_cases:
  assumes "MutateCase t i n f (s, w) = (Inr c, (s', w'))"
  obtains r b w1 w2 now where "pg_cases s t i = Some r" "n \<le> 0 \<or> row_version r = n"
    "f (row_case r) w1 = (Inr b, w2)" "ca_id b = i" "ca_tenant b = t"
    "c = b\<lparr>ca_version := row_version r + 1, ca_updated_at := now, ca_request := row_request r\<rparr>"
    "case_checks (case_columns (row_request r) c)" "s' = store_case (case_columns (row_request r) c) s"
    "\<forall>j \<in> set (ca_incidents c). pg_incidents s t j \<noteq> None" "distinct (ca_incidents c)"
proof -
  from assms [unfolded MutateCase_def] obtain u u' where
    "op_bind (sql_query (\<lambda>s. found (pg_cases s t i))) (\<lambda>r.
      if 0 < n \<and> n \<noteq> row_version r then op_fail ErrVersionConflict
      else op_bind (op_world (change_case t i f r)) (\<lambda>c.
           op_bind (statement (update_case t i c)) (\<lambda>updated.
           op_bind (syncCaseIncidents updated) (\<lambda>_. op_return updated)))) (s, u) = (Inr c, (s', u'))"
    by (rule transaction_Inr)
  then obtain r w1 b w2 x s1 w3 where r: "pg_cases s t i = Some r" "n \<le> 0 \<or> row_version r = n"
    and b: "change_case t i f r w1 = (Inr b, w2)" and x: "update_case t i b s = (Inr x, s1)"
    and sync: "op_bind (syncCaseIncidents x) (\<lambda>_. op_return x) (s1, w3) = (Inr c, (s', u'))"
    by (auto dest!: replay split: if_splits)
  from b obtain b0 w4 now where b0: "f (row_case r) w1 = (Inr b0, w4)" "ca_id b0 = i" "ca_tenant b0 = t"
    "b = b0\<lparr>ca_version := row_version r + 1, ca_updated_at := now\<rparr>"
    by (auto simp: change_case_def split: prod.splits sum.splits if_splits)
  from x r have s1: "case_checks (case_columns (row_request r) b)" "x = b\<lparr>ca_request := row_request r\<rparr>"
    "s1 = s\<lparr>pg_cases := upd2 (pg_cases s) t i (case_columns (row_request r) b)\<rparr>"
    by (auto simp: update_case_def Let_def split: if_splits)
  from sync obtain u2 where c: "x = c" and "syncCaseIncidents x (s1, w3) = (Inr u2, (s', u'))"
    by (auto simp: op_bind_eq_Inr return_Inr)
  note l = syncCaseIncidents_Inr [OF this(2)]
  have cx: "c = b\<lparr>ca_request := row_request r\<rparr>" using c s1(2) by simp
  have col: "case_columns (row_request r) c = case_columns (row_request r) b"
    by (simp add: cx case_columns_def case_json_def)
  have cb: "c = b0\<lparr>ca_version := row_version r + 1, ca_updated_at := now, ca_request := row_request r\<rparr>"
    by (simp add: cx b0(4))
  show thesis
    by (rule that [OF r b0(1-3) cb])
      (use col s1 l b0 c in \<open>simp_all add: store_case_def\<close>)
qed

lemma CreateCase_cases:
  assumes "CreateCase c (s, w) = (Inr (d, again), (s', w'))"
  shows "(again \<and> s' = s \<and> (\<exists>r. case_by_request (ca_tenant c) (ca_request c) s = Some r \<and> d = scanCase r)) \<or>
    (\<not> again \<and> d = c \<and> case_by_request (ca_tenant c) (ca_request c) s = None \<and>
     pg_cases s (ca_tenant c) (ca_id c) = None \<and> pg_tenants s (ca_tenant c) \<noteq> None \<and>
     case_checks (case_columns (ca_request c) c) \<and>
     (\<forall>j \<in> set (ca_incidents c). pg_incidents s (ca_tenant c) j \<noteq> None) \<and> distinct (ca_incidents c) \<and>
     s' = (store_case (case_columns (ca_request c) c) s)
       \<lparr>pg_case_keys := snoc (pg_case_keys s) (ca_tenant c) (ca_id c)\<rparr>)"
proof -
  let ?body = "op_bind (statement (insert_case c)) (\<lambda>inserted. case inserted of None \<Rightarrow> op_return None
          | Some created \<Rightarrow> op_bind (syncCaseIncidents created) (\<lambda>_. op_return (Some created)))"
  let ?rest = "\<lambda>outcome. case outcome of Some created \<Rightarrow> op_return (created, False)
        | None \<Rightarrow> op_bind (caseByRequestID (ca_tenant c) (ca_request c)) (\<lambda>existing. op_return (existing, True))"
  from assms have "op_bind (transaction_try ?body) ?rest (s, w) = (Inr (d, again), (s', w'))"
    unfolding CreateCase_def guard_Inr op_fail_def by (simp split: if_splits)
  then obtain oc s1 w1 where try_run: "transaction_try ?body (s, w) = (Inr oc, (s1, w1))"
    and rest: "?rest oc (s1, w1) = (Inr (d, again), (s', w'))"
    by (rule op_bind_InrE)
  from transaction_try_Inr [OF try_run] obtain w2 s2 w3 where body: "?body (s, w2) = (Inr oc, (s2, w3))"
    and s1: "s1 = (case oc of None \<Rightarrow> s | Some _ \<Rightarrow> s2)" by blast
  from statement_bind_Inr [OF body] obtain ins s3 w4 where ins: "insert_case c s = (Inr ins, s3)"
    and cont: "(case ins of None \<Rightarrow> op_return None
          | Some created \<Rightarrow> op_bind (syncCaseIncidents created) (\<lambda>_. op_return (Some created))) (s3, w4) = (Inr oc, (s2, w3))"
    by blast
  show ?thesis
  proof (cases ins)
    case None
    with cont s1 have "oc = None" "s1 = s" by (auto simp: return_Inr)
    with rest have "op_bind (sql_query (\<lambda>s. found (map_option scanCase (case_by_request (ca_tenant c) (ca_request c) s))))
        (\<lambda>existing. op_return (existing, True)) (s, w1) = (Inr (d, again), (s', w'))"
      by (simp add: caseByRequestID_def)
    from query_bind_Inr [OF this] show ?thesis by (auto simp: return_Inr)
  next
    case (Some created)
    with cont obtain u where sync: "syncCaseIncidents created (s3, w4) = (Inr u, (s2, w3))" and oc: "oc = Some created"
      by (auto simp: op_bind_eq_Inr return_Inr)
    from ins Some have i: "created = c" "case_by_request (ca_tenant c) (ca_request c) s = None"
      "pg_cases s (ca_tenant c) (ca_id c) = None" "pg_tenants s (ca_tenant c) \<noteq> None"
      "case_checks (case_columns (ca_request c) c)"
      "s3 = s\<lparr>pg_cases := upd2 (pg_cases s) (ca_tenant c) (ca_id c) (case_columns (ca_request c) c),
              pg_case_keys := snoc (pg_case_keys s) (ca_tenant c) (ca_id c)\<rparr>"
      by (auto simp: insert_case_def Let_def split: if_splits)
    from rest oc s1 have "d = created" "\<not> again" "s' = s2" by (auto simp: return_Inr)
    with i syncCaseIncidents_Inr [OF sync] show ?thesis
      by (simp add: store_case_def set_links_def)
  qed
qed

subsection \<open>Evidence\<close>

definition custody_appended :: "custody_entry \<Rightarrow> evidence_item \<Rightarrow> pg \<Rightarrow> pg" where
  "custody_appended e x s =
    s\<lparr>pg_custody := snoc (pg_custody s) (cu_tenant e) e, pg_sequence := cu_sequence e,
      pg_evidence := upd2 (pg_evidence s) (cu_tenant e) (cu_evidence e)
        (x\<lparr>ei_head_hash := cu_hash e, ei_updated_at := cu_created_at e\<rparr>)\<rparr>"

lemma custody_appended_frame [simp]:
  "pg_events (custody_appended e x s) = pg_events s" "pg_findings (custody_appended e x s) = pg_findings s"
  "pg_alerts (custody_appended e x s) = pg_alerts s" "pg_alert_keys (custody_appended e x s) = pg_alert_keys s"
  "pg_incidents (custody_appended e x s) = pg_incidents s" "pg_heads (custody_appended e x s) = pg_heads s"
  "pg_audit (custody_appended e x s) = pg_audit s" "pg_cases (custody_appended e x s) = pg_cases s"
  "pg_case_keys (custody_appended e x s) = pg_case_keys s" "pg_links (custody_appended e x s) = pg_links s"
  "pg_event_keys (custody_appended e x s) = pg_event_keys s" "pg_finding_keys (custody_appended e x s) = pg_finding_keys s"
  "pg_incident_keys (custody_appended e x s) = pg_incident_keys s"
  "pg_tenants (custody_appended e x s) = pg_tenants s" "pg_evidence_keys (custody_appended e x s) = pg_evidence_keys s"
  by (simp_all add: custody_appended_def)

text \<open>The entry a mutation appends after the head \<open>previous\<close>.\<close>

definition custody_sealed :: "tenant \<Rightarrow> string \<Rightarrow> evidence_mutation \<Rightarrow> string \<Rightarrow> custody_entry \<Rightarrow> bool" where
  "custody_sealed t i m previous e \<longleftrightarrow>
     cu_tenant e = t \<and> cu_evidence e = i \<and> cu_actor e = trim_space (em_actor m) \<and>
     cu_action e = trim_space (em_action m) \<and> cu_reason e = trim_space (em_reason m) \<and>
     cu_request e = em_request m \<and> cu_metadata e = em_metadata m \<and>
     cu_previous_hash e = previous \<and> cu_hash e = evidenceCustodyHash e \<and>
     cu_actor e \<noteq> [] \<and> cu_action e \<noteq> [] \<and> cu_reason e \<noteq> []"

lemma seal_custody_Inr:
  assumes "seal_custody t i (trim_mutation m) previous w = (Inr e, w')"
    "em_actor (trim_mutation m) \<noteq> []" "em_action (trim_mutation m) \<noteq> []" "em_reason (trim_mutation m) \<noteq> []"
  shows "custody_sealed t i m previous (e\<lparr>cu_sequence := n\<rparr>)"
  using assms
  by (auto simp: seal_custody_def custody_sealed_def trim_mutation_def Let_def evidenceCustodyHash_def
      custody_text_def split: prod.splits)

lemma appendEvidenceCustodyTx_Inr:
  assumes "appendEvidenceCustodyTx t i m (s, w) = (Inr e, (s', w'))"
  obtains x where "pg_evidence s t i = Some x" "custody_sealed t i m (ei_head_hash x) e"
    "cu_sequence e = pg_sequence s + 1" "cu_id e \<notin> cu_id ` set (pg_custody s t)" "s' = custody_appended e x s"
proof -
  let ?m = "trim_mutation m"
  have ok: "em_actor ?m \<noteq> []" "em_action ?m \<noteq> []" "em_reason ?m \<noteq> []"
    and run: "op_bind (sql_query (custody_head t i)) (\<lambda>previous.
             op_bind (op_world (seal_custody t i ?m previous)) (\<lambda>sealed.
             op_bind (statement (insert_custody sealed)) (\<lambda>e.
             op_bind (sql_exec (update_evidence t i
                       (\<lambda>x. x\<lparr>ei_head_hash := cu_hash e, ei_updated_at := cu_created_at e\<rparr>))) (\<lambda>_.
             op_return e)))) (s, w) = (Inr e, (s', w'))"
    using assms by (auto simp: appendEvidenceCustodyTx_def Let_def split: if_splits)
  from run obtain h w1 e0 w2 e1 s1 where h: "custody_head t i s = Inr h"
    and e0: "seal_custody t i ?m h w1 = (Inr e0, w2)" and ins: "insert_custody e0 s = (Inr e1, s1)"
    and upd: "update_evidence t i (\<lambda>x. x\<lparr>ei_head_hash := cu_hash e1, ei_updated_at := cu_created_at e1\<rparr>) s1 = Inr s'"
    and e: "e = e1"
    by (auto dest!: replay simp: return_Inr)
  from h obtain x where x: "pg_evidence s t i = Some x" "h = ei_head_hash x"
    by (auto simp: custody_head_def)
  have sealed: "custody_sealed t i m h (e0\<lparr>cu_sequence := n\<rparr>)" for n
    by (rule seal_custody_Inr [OF e0 ok])
  from sealed [of "cu_sequence e0"] have te: "cu_tenant e0 = t" "cu_evidence e0 = i"
    by (simp_all add: custody_sealed_def)
  from ins te have i: "e1 = e0\<lparr>cu_sequence := pg_sequence s + 1\<rparr>" "cu_id e0 \<notin> cu_id ` set (pg_custody s t)"
    "s1 = s\<lparr>pg_custody := snoc (pg_custody s) t e1, pg_sequence := pg_sequence s + 1\<rparr>"
    by (auto simp: insert_custody_def Let_def split: if_splits)
  show thesis
  proof (rule that [OF x(1)])
    show "custody_sealed t i m (ei_head_hash x) e" using sealed e i x by simp
    show "cu_sequence e = pg_sequence s + 1" "cu_id e \<notin> cu_id ` set (pg_custody s t)" using e i by simp_all
    show "s' = custody_appended e x s"
      using upd e i x te by (simp add: update_evidence_def custody_appended_def)
  qed
qed

lemma AppendEvidenceCustody_Inr:
  assumes "AppendEvidenceCustody t i m (s, w) = (Inr e, (s', w'))"
  obtains x where "pg_evidence s t i = Some x" "custody_sealed t i m (ei_head_hash x) e"
    "cu_sequence e = pg_sequence s + 1" "cu_id e \<notin> cu_id ` set (pg_custody s t)" "s' = custody_appended e x s"
proof -
  from assms obtain w1 w2 where "appendEvidenceCustodyTx t i m (s, w1) = (Inr e, (s', w2))"
    unfolding AppendEvidenceCustody_def by (rule transaction_Inr)
  with that show thesis by (blast elim: appendEvidenceCustodyTx_Inr)
qed

text \<open>A transition replaces the item and then appends the entry.\<close>

definition store_evidence :: "evidence_item \<Rightarrow> pg \<Rightarrow> pg" where
  "store_evidence x s = s\<lparr>pg_evidence := upd2 (pg_evidence s) (ei_tenant x) (ei_id x) x\<rparr>"

lemma transitionEvidence_Inr:
  assumes "transitionEvidence t i status ver etag failure m (s, w) = (Inr y, (s', w'))"
  obtains x e now x1 where "pg_evidence s t i = Some x" "ei_status x = ''PENDING''"
    "x1 = x\<lparr>ei_status := status, ei_object_version := ver, ei_etag := etag, ei_failure := failure, ei_updated_at := now\<rparr>"
    "evidence_checks x1" "custody_sealed t i m (ei_head_hash x) e" "y = x1\<lparr>ei_head_hash := cu_hash e\<rparr>"
    "s' = custody_appended e x1 (s\<lparr>pg_evidence := upd2 (pg_evidence s) t i x1\<rparr>)"
proof -
  let ?f = "\<lambda>now x. x\<lparr>ei_status := status, ei_object_version := ver, ei_etag := etag,
                    ei_failure := failure, ei_updated_at := to_micro now\<rparr>"
  from assms [unfolded transitionEvidence_def] obtain u u' where
    "op_bind (sql_query (current_status t i)) (\<lambda>current.
      if current \<noteq> ''PENDING'' then op_fail ErrEvidenceState
      else op_bind op_now (\<lambda>now.
           op_bind (statement (update_evidence_returning t i (?f now))) (\<lambda>x.
           op_bind (appendEvidenceCustodyTx t i m) (\<lambda>e. op_return (x\<lparr>ei_head_hash := cu_hash e\<rparr>))))) (s, u) = (Inr y, (s', u'))"
    by (rule transaction_Inr)
  then obtain now x1 s1 w1 where st: "current_status t i s = Inr ''PENDING''"
    and up: "update_evidence_returning t i (?f now) s = (Inr x1, s1)"
    and app: "op_bind (appendEvidenceCustodyTx t i m) (\<lambda>e. op_return (x1\<lparr>ei_head_hash := cu_hash e\<rparr>)) (s1, w1) = (Inr y, (s', u'))"
    by (fastforce dest!: replay split: if_splits)
  from st obtain x where x: "pg_evidence s t i = Some x" "ei_status x = ''PENDING''"
    by (auto simp: current_status_def)
  with up have x1: "x1 = ?f now x" "evidence_checks x1" "s1 = s\<lparr>pg_evidence := upd2 (pg_evidence s) t i x1\<rparr>"
    by (auto simp: update_evidence_returning_def split: if_splits)
  from app obtain e w2 where e: "appendEvidenceCustodyTx t i m (s1, w1) = (Inr e, (s', w2))"
    "y = x1\<lparr>ei_head_hash := cu_hash e\<rparr>"
    by (auto simp: return_Inr elim!: op_bind_InrE)
  from e(1) obtain x2 where x2: "pg_evidence s1 t i = Some x2" "custody_sealed t i m (ei_head_hash x2) e"
    "s' = custody_appended e x2 s1" by (rule appendEvidenceCustodyTx_Inr)
  from x2(1) x1 have "x2 = x1" by simp
  with x2 x1 have "custody_sealed t i m (ei_head_hash x) e"
    "s' = custody_appended e x1 (s\<lparr>pg_evidence := upd2 (pg_evidence s) t i x1\<rparr>)" by simp_all
  with that [OF x x1(1,2) _ e(2)] show thesis by blast
qed

lemma RecordEvidenceVerification_Inr:
  assumes "RecordEvidenceVerification t i valid m (s, w) = (Inr y, (s', w'))"
  obtains x x1 e now where "pg_evidence s t i = Some x" "ei_status x = ''AVAILABLE''"
    "x1 = (if valid then x\<lparr>ei_verified_at := Some now, ei_updated_at := now\<rparr> else x)"
    "custody_sealed t i m (ei_head_hash x) e"
    "s' = custody_appended e x1 (s\<lparr>pg_evidence := upd2 (pg_evidence s) t i x1\<rparr>)" "pg_evidence s' t i = Some y"
proof -
  let ?f = "\<lambda>now x. x\<lparr>ei_verified_at := Some (to_micro now), ei_updated_at := to_micro now\<rparr>"
  from assms [unfolded RecordEvidenceVerification_def] obtain u u' where
    "op_bind (sql_query (current_status t i)) (\<lambda>status.
      if status \<noteq> ''AVAILABLE'' then op_fail ErrEvidenceState
      else op_bind op_now (\<lambda>now.
           op_bind (if valid then sql_exec (update_evidence t i (?f now)) else op_return ()) (\<lambda>_.
           op_bind (appendEvidenceCustodyTx t i m) (\<lambda>_.
           sql_query (\<lambda>s. found (pg_evidence s t i)))))) (s, u) = (Inr y, (s', u'))"
    by (rule transaction_Inr)
  then obtain now w1 where st: "current_status t i s = Inr ''AVAILABLE''"
    and run: "op_bind (if valid then sql_exec (update_evidence t i (?f now)) else op_return ()) (\<lambda>_.
           op_bind (appendEvidenceCustodyTx t i m) (\<lambda>_. sql_query (\<lambda>s. found (pg_evidence s t i)))) (s, w1) = (Inr y, (s', u'))"
    by (fastforce dest!: query_bind_Inr now_bind_Inr split: if_splits)
  from st obtain x where x: "pg_evidence s t i = Some x" "ei_status x = ''AVAILABLE''"
    by (auto simp: current_status_def)
  define x1 where "x1 = (if valid then ?f now x else x)"
  define s1 where "s1 = s\<lparr>pg_evidence := upd2 (pg_evidence s) t i x1\<rparr>"
  have noop: "s1 = s" if "\<not> valid"
    using that x by (simp add: s1_def x1_def upd2_def fun_upd_idem)
  from run obtain w2 where app: "op_bind (appendEvidenceCustodyTx t i m) (\<lambda>_. sql_query (\<lambda>s. found (pg_evidence s t i)))
       (s1, w2) = (Inr y, (s', u'))"
  proof (rule op_bind_InrE)
    fix v s2 w2
    assume a: "(if valid then sql_exec (update_evidence t i (?f now)) else op_return ()) (s, w1) = (Inr v, (s2, w2))"
      and b: "op_bind (appendEvidenceCustodyTx t i m) (\<lambda>_. sql_query (\<lambda>s. found (pg_evidence s t i))) (s2, w2) = (Inr y, (s', u'))"
    have "s2 = s1"
    proof (cases valid)
      case True
      with a have "update_evidence t i (?f now) s = Inr s2" by (auto dest: sql_exec_Inr)
      with x True show ?thesis by (simp add: update_evidence_def s1_def x1_def)
    next
      case False
      with a noop show ?thesis by (simp add: return_Inr)
    qed
    with b that show thesis by blast
  qed
  from app obtain e s2 w3 where e: "appendEvidenceCustodyTx t i m (s1, w2) = (Inr e, (s2, w3))"
    and y: "sql_query (\<lambda>s. found (pg_evidence s t i)) (s2, w3) = (Inr y, (s', u'))"
    by (rule op_bind_InrE)
  from sql_query_run [OF y] have y': "pg_evidence s' t i = Some y" "s2 = s'" by simp_all
  from e obtain x2 where x2: "pg_evidence s1 t i = Some x2" "custody_sealed t i m (ei_head_hash x2) e"
    "s2 = custody_appended e x2 s1" by (rule appendEvidenceCustodyTx_Inr)
  have "ei_head_hash x1 = ei_head_hash x" by (simp add: x1_def)
  moreover have "x2 = x1" using x2(1) by (simp add: s1_def)
  ultimately have seal: "custody_sealed t i m (ei_head_hash x) e" and s': "s' = custody_appended e x1 s1"
    using x2 y' by simp_all
  have x1: "x1 = (if valid then x\<lparr>ei_verified_at := Some (to_micro now), ei_updated_at := to_micro now\<rparr> else x)"
    by (simp only: x1_def)
  show thesis by (rule that [OF x x1 seal s' [unfolded s1_def] y'(1)])
qed

lemma ReserveEvidence_Inr:
  assumes "ReserveEvidence x m (s, w) = (Inr (y, created), (s', w'))"
  shows "(\<not> created \<and> s' = s \<and> evidence_by_request (ei_tenant x) (ei_request x) s = Some y) \<or>
    (created \<and> \<not> reservation_incomplete x \<and> evidence_by_request (ei_tenant x) (ei_request x) s = None \<and>
     pg_evidence s (ei_tenant x) (ei_id x) = None \<and>
     (ei_case x \<noteq> [] \<longrightarrow> pg_cases s (ei_tenant x) (ei_case x) \<noteq> None) \<and>
     (\<exists>now e. evidence_checks (pending_row x now) \<and> custody_sealed (ei_tenant x) (ei_id x) m [] e \<and>
        y = (pending_row x now)\<lparr>ei_head_hash := cu_hash e\<rparr> \<and>
        s' = custody_appended e (pending_row x now)
          (s\<lparr>pg_evidence := upd2 (pg_evidence s) (ei_tenant x) (ei_id x) (pending_row x now),
             pg_evidence_keys := snoc (pg_evidence_keys s) (ei_tenant x) (ei_id x)\<rparr>)))"
proof -
  let ?t = "ei_tenant x"
  let ?body = "op_bind op_now (\<lambda>now. op_bind (statement (insert_evidence x now)) (\<lambda>inserted. case inserted of
      None \<Rightarrow> op_return None
    | Some reserved \<Rightarrow> op_bind (appendEvidenceCustodyTx (ei_tenant reserved) (ei_id reserved) m) (\<lambda>e.
        op_return (Some (reserved\<lparr>ei_head_hash := cu_hash e\<rparr>)))))"
  let ?rest = "\<lambda>outcome. case outcome of Some reserved \<Rightarrow> op_return (reserved, True)
    | None \<Rightarrow> op_bind (evidenceByRequestID ?t (ei_request x)) (\<lambda>existing. op_return (existing, False))"
  from assms have complete: "\<not> reservation_incomplete x"
    and run: "op_bind (case_exists x) (\<lambda>_. op_bind (transaction_try ?body) ?rest) (s, w) = (Inr (y, created), (s', w'))"
    unfolding ReserveEvidence_def by (simp_all split: if_splits)
  from run obtain u s0 w0 where ce: "case_exists x (s, w) = (Inr u, (s0, w0))"
    and run1: "op_bind (transaction_try ?body) ?rest (s0, w0) = (Inr (y, created), (s', w'))" by (rule op_bind_InrE)
  from ce have s0: "s0 = s" "ei_case x \<noteq> [] \<longrightarrow> pg_cases s ?t (ei_case x) \<noteq> None"
    by (auto simp: case_exists_def return_Inr dest!: query_bind_Inr split: if_splits)
  from run1 obtain oc s1 w1 where try_run: "transaction_try ?body (s0, w0) = (Inr oc, (s1, w1))"
    and rest: "?rest oc (s1, w1) = (Inr (y, created), (s', w'))" by (rule op_bind_InrE)
  from transaction_try_Inr [OF try_run] s0 obtain w2 s2 w3 where body: "?body (s, w2) = (Inr oc, (s2, w3))"
    and s1: "s1 = (case oc of None \<Rightarrow> s | Some _ \<Rightarrow> s2)" by blast
  from now_bind_Inr [OF body] obtain now w5 where
    "op_bind (statement (insert_evidence x now)) (\<lambda>inserted. case inserted of None \<Rightarrow> op_return None
    | Some reserved \<Rightarrow> op_bind (appendEvidenceCustodyTx (ei_tenant reserved) (ei_id reserved) m) (\<lambda>e.
        op_return (Some (reserved\<lparr>ei_head_hash := cu_hash e\<rparr>)))) (s, w5) = (Inr oc, (s2, w3))" by blast
  from statement_bind_Inr [OF this] obtain ins s3 w4 where ins: "insert_evidence x now s = (Inr ins, s3)"
    and cont: "(case ins of None \<Rightarrow> op_return None
      | Some reserved \<Rightarrow> op_bind (appendEvidenceCustodyTx (ei_tenant reserved) (ei_id reserved) m) (\<lambda>e.
        op_return (Some (reserved\<lparr>ei_head_hash := cu_hash e\<rparr>)))) (s3, w4) = (Inr oc, (s2, w3))" by blast
  show ?thesis
  proof (cases ins)
    case None
    with cont s1 have "oc = None" "s1 = s" by (auto simp: return_Inr)
    with rest have "op_bind (sql_query (\<lambda>s. found (evidence_by_request ?t (ei_request x) s)))
        (\<lambda>existing. op_return (existing, False)) (s, w1) = (Inr (y, created), (s', w'))"
      by (simp add: evidenceByRequestID_def)
    from query_bind_Inr [OF this] show ?thesis by (auto simp: return_Inr)
  next
    case (Some reserved)
    from ins Some have i: "reserved = pending_row x now" "evidence_checks (pending_row x now)"
      "evidence_by_request ?t (ei_request x) s = None" "pg_evidence s ?t (ei_id x) = None"
      "s3 = s\<lparr>pg_evidence := upd2 (pg_evidence s) ?t (ei_id x) (pending_row x now),
              pg_evidence_keys := snoc (pg_evidence_keys s) ?t (ei_id x)\<rparr>"
      by (auto simp: insert_evidence_def Let_def split: if_splits)
    have key: "ei_tenant reserved = ?t" "ei_id reserved = ei_id x" "ei_head_hash reserved = []"
      by (simp_all add: i(1) pending_row_def)
    from cont Some key obtain e w6 where app: "appendEvidenceCustodyTx ?t (ei_id x) m (s3, w4) = (Inr e, (s2, w6))"
      and oc: "oc = Some (reserved\<lparr>ei_head_hash := cu_hash e\<rparr>)"
      by (auto simp: return_Inr elim!: op_bind_InrE)
    from app obtain x2 where x2: "pg_evidence s3 ?t (ei_id x) = Some x2"
      "custody_sealed ?t (ei_id x) m (ei_head_hash x2) e" "s2 = custody_appended e x2 s3"
      by (rule appendEvidenceCustodyTx_Inr)
    from x2(1) i have x2p: "x2 = reserved" by simp
    have "custody_sealed ?t (ei_id x) m [] e" using x2(2) key(3) by (simp add: x2p)
    moreover have "created" "y = (pending_row x now)\<lparr>ei_head_hash := cu_hash e\<rparr>" "s' = s2"
      using rest oc s1 i(1) by (auto simp: return_Inr)
    moreover have "s2 = custody_appended e (pending_row x now) s3" using x2(3) i(1) by (simp add: x2p)
    ultimately show ?thesis
      unfolding i(5) using complete i(2-4) s0(2) by blast
  qed
qed

end
