(* ===== verification/Postgres_Invariants.thy ===== *)
theory Postgres_Invariants
  imports Postgres_Facts
begin

text \<open>
  The invariants of the database: of events, findings, alerts, incidents and the audit log
  (\<open>core_wf\<close>), of the cases (\<open>case_wf\<close>) and of the evidence and its chains of custody
  (\<open>evidence_wf\<close>). Every operation of the durable store keeps them, so they hold in every state
  the store reaches.
\<close>

definition audit_sealed :: "tenant \<Rightarrow> pg \<Rightarrow> bool" where
  "audit_sealed t s \<longleftrightarrow> verify_from [] (pg_audit s t) = Some (or_zero [] (pg_heads s t))"

definition row_ok :: "tenant \<Rightarrow> string \<Rightarrow> alert_row \<Rightarrow> bool" where
  "row_ok t i r \<longleftrightarrow> al_tenant (row_alert r) = t \<and> al_id (row_alert r) = i \<and>
     r = alert_columns (row_alert r) (row_dedup r)"

definition core_wf :: "pg \<Rightarrow> bool" where
  "core_wf s \<longleftrightarrow>
     indexed (pg_events s) (pg_event_keys s) \<and> filed ev_tenant ev_id (pg_events s) \<and>
     indexed (pg_findings s) (pg_finding_keys s) \<and> filed fi_tenant fi_id (pg_findings s) \<and>
     (\<forall>t i f. pg_findings s t i = Some f \<longrightarrow> pg_events s t (fi_event f) \<noteq> None) \<and>
     indexed (pg_alerts s) (pg_alert_keys s) \<and> (\<forall>t i r. pg_alerts s t i = Some r \<longrightarrow> row_ok t i r) \<and>
     indexed (pg_incidents s) (pg_incident_keys s) \<and> filed in_tenant in_id (pg_incidents s) \<and>
     (\<forall>t. audit_sealed t s)"

definition case_row_ok :: "tenant \<Rightarrow> string \<Rightarrow> pg \<Rightarrow> case_row \<Rightarrow> bool" where
  "case_row_ok t i s r \<longleftrightarrow>
     ca_tenant (row_case r) = t \<and> ca_id (row_case r) = i \<and> r = case_columns (row_request r) (row_case r) \<and>
     case_checks r \<and> pg_links s t i = ca_incidents (row_case r) \<and> distinct (ca_incidents (row_case r)) \<and>
     (\<forall>j \<in> set (ca_incidents (row_case r)). pg_incidents s t j \<noteq> None)"

definition case_wf :: "pg \<Rightarrow> bool" where
  "case_wf s \<longleftrightarrow>
     indexed (pg_cases s) (pg_case_keys s) \<and>
     (\<forall>t i r. pg_cases s t i = Some r \<longrightarrow> case_row_ok t i s r) \<and>
     (\<forall>t i j r q. pg_cases s t i = Some r \<longrightarrow> pg_cases s t j = Some q \<longrightarrow> row_request r = row_request q \<longrightarrow> i = j)"

definition custody_ok :: "tenant \<Rightarrow> string \<Rightarrow> pg \<Rightarrow> bool" where
  "custody_ok t i s \<longleftrightarrow>
     (pg_evidence s t i = None \<longrightarrow> custody_of t i s = []) \<and>
     (\<forall>x. pg_evidence s t i = Some x \<longrightarrow>
        custody_of t i s \<noteq> [] \<and> custody_from [] (custody_of t i s) = Some (ei_head_hash x))"

definition evidence_wf :: "pg \<Rightarrow> bool" where
  "evidence_wf s \<longleftrightarrow>
     indexed (pg_evidence s) (pg_evidence_keys s) \<and> filed ei_tenant ei_id (pg_evidence s) \<and>
     (\<forall>t i. custody_ok t i s) \<and>
     (\<forall>t i x. pg_evidence s t i = Some x \<longrightarrow> ei_status x \<in> {''PENDING'', ''AVAILABLE'', ''FAILED''})"

definition pg_wf :: "pg \<Rightarrow> bool" where
  "pg_wf s \<longleftrightarrow> core_wf s \<and> case_wf s \<and> evidence_wf s"

text \<open>Each invariant speaks of its own tables only.\<close>

lemma core_wf_frame:
  "pg_events s' = pg_events s \<Longrightarrow> pg_event_keys s' = pg_event_keys s \<Longrightarrow> pg_findings s' = pg_findings s \<Longrightarrow>
   pg_finding_keys s' = pg_finding_keys s \<Longrightarrow> pg_incident_keys s' = pg_incident_keys s \<Longrightarrow> pg_alerts s' = pg_alerts s \<Longrightarrow>
   pg_alert_keys s' = pg_alert_keys s \<Longrightarrow> pg_incidents s' = pg_incidents s \<Longrightarrow> pg_audit s' = pg_audit s \<Longrightarrow>
   pg_heads s' = pg_heads s \<Longrightarrow> core_wf s' = core_wf s"
  by (simp add: core_wf_def audit_sealed_def)

lemma case_wf_frame:
  assumes "pg_cases s' = pg_cases s" "pg_case_keys s' = pg_case_keys s" "pg_links s' = pg_links s"
    and "\<And>t j. pg_incidents s t j \<noteq> None \<Longrightarrow> pg_incidents s' t j \<noteq> None"
  shows "case_wf s \<Longrightarrow> case_wf s'"
  using assms unfolding case_wf_def case_row_ok_def by fastforce

lemma evidence_wf_frame:
  assumes "pg_evidence s' = pg_evidence s" "pg_evidence_keys s' = pg_evidence_keys s" "pg_custody s' = pg_custody s"
  shows "evidence_wf s' = evidence_wf s"
proof -
  have "custody_of t i s' = custody_of t i s" for t i using assms(3) by (simp add: custody_of_def)
  with assms(1,2) show ?thesis unfolding evidence_wf_def custody_ok_def by simp
qed

lemma pg_wf_empty: "pg_wf empty_pg"
  by (simp add: pg_wf_def core_wf_def case_wf_def evidence_wf_def empty_pg_def audit_sealed_def custody_ok_def custody_of_def)

subsection \<open>Updates that keep them\<close>

lemma core_wf_alert:
  assumes "core_wf s" "pg_alerts s (al_tenant a) (al_id a) = Some r"
  shows "core_wf (s\<lparr>pg_alerts := upd2 (pg_alerts s) (al_tenant a) (al_id a) (alert_columns a key)\<rparr>)"
proof -
  have "row_ok (al_tenant a) (al_id a) (alert_columns a key)" by (simp add: row_ok_def alert_columns_def)
  with assms show ?thesis by (auto simp: core_wf_def audit_sealed_def indexed_update split: if_splits)
qed

lemma core_wf_new_alert:
  assumes "core_wf s" "pg_alerts s (al_tenant a) (al_id a) = None"
  shows "core_wf (s\<lparr>pg_alerts := upd2 (pg_alerts s) (al_tenant a) (al_id a) (alert_columns a key),
                    pg_alert_keys := snoc (pg_alert_keys s) (al_tenant a) (al_id a)\<rparr>)"
proof -
  have "row_ok (al_tenant a) (al_id a) (alert_columns a key)" by (simp add: row_ok_def alert_columns_def)
  with assms show ?thesis by (auto simp: core_wf_def audit_sealed_def indexed_insert split: if_splits)
qed

lemma core_wf_incident:
  assumes "core_wf s" "pg_incidents s t i = Some y" "in_tenant x = t" "in_id x = i"
  shows "core_wf (s\<lparr>pg_incidents := upd2 (pg_incidents s) t i x\<rparr>)"
  using assms by (auto simp: core_wf_def audit_sealed_def indexed_update intro: filed_upd2)

lemma core_wf_new_incident:
  assumes "core_wf s" "pg_incidents s (in_tenant x) (in_id x) = None"
  shows "core_wf (s\<lparr>pg_incidents := upd2 (pg_incidents s) (in_tenant x) (in_id x) x,
                    pg_incident_keys := snoc (pg_incident_keys s) (in_tenant x) (in_id x)\<rparr>)"
  using assms by (auto simp: core_wf_def audit_sealed_def indexed_insert intro: filed_upd2)

lemma core_wf_audit:
  assumes "core_wf s" "au_hash a = auditHash a" "au_previous_hash a = or_zero [] (pg_heads s (au_tenant a))"
  shows "core_wf (audit_appended a s)"
  using assms by (auto simp: core_wf_def audit_sealed_def audit_appended_def verify_from_snoc)

lemma case_row_stored:
  assumes "case_checks (case_columns q c)" "distinct (ca_incidents c)"
    and "\<forall>j \<in> set (ca_incidents c). pg_incidents s (ca_tenant c) j \<noteq> None"
  shows "case_row_ok (ca_tenant c) (ca_id c) (store_case (case_columns q c) s) (case_columns q c)"
proof -
  have "case_columns q c = case_columns q (row_case (case_columns q c))"
    by (simp add: case_columns_def case_json_def)
  with assms show ?thesis by (simp add: case_row_ok_def store_case_def)
qed

lemma case_row_elsewhere:
  "(t, i) \<noteq> (ca_tenant (row_case r), ca_id (row_case r)) \<Longrightarrow> case_row_ok t i (store_case r s) q = case_row_ok t i s q"
  by (auto simp: case_row_ok_def store_case_def)

lemma store_case_cases [simp]:
  "pg_cases (store_case r s) = upd2 (pg_cases s) (ca_tenant (row_case r)) (ca_id (row_case r)) r"
  "pg_case_keys (store_case r s) = pg_case_keys s"
  by (simp_all add: store_case_def)

text \<open>Storing a changed case under its request, and a new case under a new request.\<close>

lemma case_wf_update:
  assumes wf: "case_wf s" and old: "pg_cases s (ca_tenant c) (ca_id c) = Some r"
    and ok: "case_checks (case_columns (row_request r) c)" "distinct (ca_incidents c)"
      "\<forall>j \<in> set (ca_incidents c). pg_incidents s (ca_tenant c) j \<noteq> None"
  shows "case_wf (store_case (case_columns (row_request r) c) s)"
proof -
  let ?n = "case_columns (row_request r) c"
  have rows: "case_row_ok t i (store_case ?n s) q" if "pg_cases (store_case ?n s) t i = Some q" for t i q
  proof (cases "(t, i) = (ca_tenant c, ca_id c)")
    case True
    with that have "t = ca_tenant c" "i = ca_id c" "q = ?n" by auto
    with case_row_stored [OF ok] show ?thesis by (simp only:)
  next
    case False
    with that wf show ?thesis by (simp add: case_row_elsewhere case_wf_def split: if_splits)
  qed
  have uniq: "i = j" if "pg_cases (store_case ?n s) t i = Some q" "pg_cases (store_case ?n s) t j = Some p"
    "row_request q = row_request p" for t i j p q
  proof -
    from that obtain q' p' where "pg_cases s t i = Some q'" "pg_cases s t j = Some p'" "row_request q' = row_request p'"
      using old by (auto split: if_splits)
    with wf show ?thesis unfolding case_wf_def by blast
  qed
  from wf old have "indexed (pg_cases (store_case ?n s)) (pg_case_keys (store_case ?n s))"
    by (simp add: case_wf_def indexed_update)
  with rows uniq show ?thesis unfolding case_wf_def by blast
qed

lemma case_by_request_None:
  assumes "case_wf s" "case_by_request t q s = None" "pg_cases s t i = Some r"
  shows "row_request r \<noteq> q"
proof -
  from assms(1,3) have "i \<in> set (pg_case_keys s t)" by (auto simp: case_wf_def indexed_lookup)
  with assms(3) have "r \<in> set (case_rows t s)"
    by (auto simp: case_rows_def map_filter_def intro!: image_eqI [where x = i])
  with assms(2) show ?thesis by (auto simp: case_by_request_def find_None_iff)
qed

lemma case_wf_new:
  assumes wf: "case_wf s" and fresh: "pg_cases s (ca_tenant c) (ca_id c) = None" "case_by_request (ca_tenant c) q s = None"
    and ok: "case_checks (case_columns q c)" "distinct (ca_incidents c)"
      "\<forall>j \<in> set (ca_incidents c). pg_incidents s (ca_tenant c) j \<noteq> None"
  shows "case_wf ((store_case (case_columns q c) s)\<lparr>pg_case_keys := snoc (pg_case_keys s) (ca_tenant c) (ca_id c)\<rparr>)"
    (is "case_wf (?m\<lparr>pg_case_keys := ?k\<rparr>)")
proof -
  have row: "case_row_ok t i (?m\<lparr>pg_case_keys := ?k\<rparr>) r = case_row_ok t i ?m r" for t i r
    by (simp add: case_row_ok_def store_case_def set_links_def)
  have rows: "case_row_ok t i ?m r" if "pg_cases ?m t i = Some r" for t i r
  proof (cases "(t, i) = (ca_tenant c, ca_id c)")
    case True
    with that have "t = ca_tenant c" "i = ca_id c" "r = case_columns q c" by auto
    with case_row_stored [OF ok] show ?thesis by (simp only:)
  next
    case False
    with that wf show ?thesis by (simp add: case_row_elsewhere case_wf_def split: if_splits)
  qed
  have new: "row_request r \<noteq> q" if "pg_cases s (ca_tenant c) i = Some r" for i r
    by (rule case_by_request_None [OF wf fresh(2) that])
  have uniq: "i = j" if "pg_cases ?m t i = Some r" "pg_cases ?m t j = Some p" "row_request r = row_request p" for t i j p r
  proof (cases "t = ca_tenant c \<and> (i = ca_id c \<or> j = ca_id c)")
    case True
    with that show ?thesis by (auto dest: new split: if_splits)
  next
    case False
    with that(1,2) have "pg_cases s t i = Some r" "pg_cases s t j = Some p"
      unfolding store_case_cases upd2_apply columns_simps by (metis option.inject)+
    with wf that(3) show ?thesis unfolding case_wf_def by blast
  qed
  have sel: "pg_cases (?m\<lparr>pg_case_keys := ?k\<rparr>) = pg_cases ?m" "pg_case_keys (?m\<lparr>pg_case_keys := ?k\<rparr>) = ?k"
    by simp_all
  from wf fresh have "indexed (pg_cases ?m) ?k" by (simp add: case_wf_def indexed_insert)
  with rows uniq show ?thesis unfolding case_wf_def row sel by blast
qed

subsection \<open>Custody\<close>

lemma custody_from_snoc:
  "custody_from p (es @ [e]) = Some h \<longleftrightarrow>
     (\<exists>q. custody_from p es = Some q \<and> cu_previous_hash e = q \<and> evidenceCustodyHash e = cu_hash e \<and> h = cu_hash e)"
  by (induction p es rule: custody_from.induct) auto

lemma custody_of_appended:
  "custody_of t i (custody_appended e x s) =
     (if t = cu_tenant e \<and> i = cu_evidence e then custody_of t i s @ [e] else custody_of t i s)"
  by (simp add: custody_of_def custody_appended_def)

lemma custody_appended_evidence:
  "pg_evidence (custody_appended e x s) = upd2 (pg_evidence s) (cu_tenant e) (cu_evidence e)
     (x\<lparr>ei_head_hash := cu_hash e, ei_updated_at := cu_created_at e\<rparr>)"
  by (simp add: custody_appended_def)

lemma custody_of_frame [simp]:
  "custody_of t i (s\<lparr>pg_evidence := f\<rparr>) = custody_of t i s"
  "custody_of t i (s\<lparr>pg_evidence := f, pg_evidence_keys := k\<rparr>) = custody_of t i s"
  by (simp_all add: custody_of_def)

text \<open>
  An entry sealed after the head of an item extends the item's chain, whatever else of the item
  changes with it.
\<close>

lemma custody_ok_appended:
  assumes "custody_sealed t i m h e" "custody_from [] (custody_of t i s) = Some h"
    and "\<And>t' i'. (t', i') \<noteq> (t, i) \<Longrightarrow> custody_ok t' i' s"
  shows "custody_ok t' i' (custody_appended e x (s\<lparr>pg_evidence := upd2 (pg_evidence s) t i x\<rparr>))"
proof (cases "(t', i') = (t, i)")
  case True
  with assms(1,2) show ?thesis
    by (auto simp: custody_ok_def custody_of_appended custody_sealed_def custody_from_snoc custody_appended_evidence)
next
  case False
  with assms(1) assms(3) [OF False] show ?thesis
    by (auto simp: custody_ok_def custody_of_appended custody_sealed_def custody_appended_evidence)
qed

lemma evidence_wf_append:
  assumes wf: "evidence_wf s" and x: "pg_evidence s t i = Some x" and e: "custody_sealed t i m (ei_head_hash x) e"
    and x1: "ei_tenant x1 = ei_tenant x" "ei_id x1 = ei_id x" "ei_status x1 \<in> {''PENDING'', ''AVAILABLE'', ''FAILED''}"
  shows "evidence_wf (custody_appended e x1 (s\<lparr>pg_evidence := upd2 (pg_evidence s) t i x1\<rparr>))"
proof -
  from wf x have ti: "ei_tenant x = t" "ei_id x = i" by (auto simp: evidence_wf_def dest: filedD)
  from wf x have "custody_from [] (custody_of t i s) = Some (ei_head_hash x)"
    by (auto simp: evidence_wf_def custody_ok_def)
  from e this have ok: "custody_ok t' i' (custody_appended e x1 (s\<lparr>pg_evidence := upd2 (pg_evidence s) t i x1\<rparr>))" for t' i'
    by (rule custody_ok_appended) (use wf in \<open>simp add: evidence_wf_def\<close>)
  have te: "cu_tenant e = t" "cu_evidence e = i" using e by (simp_all add: custody_sealed_def)
  have ev: "pg_evidence (custody_appended e x1 (s\<lparr>pg_evidence := upd2 (pg_evidence s) t i x1\<rparr>)) =
      upd2 (pg_evidence s) t i (x1\<lparr>ei_head_hash := cu_hash e, ei_updated_at := cu_created_at e\<rparr>)"
    by (simp add: custody_appended_evidence te upd2_def)
  have keys: "pg_evidence_keys (custody_appended e x1 (s\<lparr>pg_evidence := upd2 (pg_evidence s) t i x1\<rparr>)) = pg_evidence_keys s"
    by simp
  show ?thesis
    unfolding evidence_wf_def ev keys
  proof (intro conjI allI impI ok)
    show "indexed (upd2 (pg_evidence s) t i (x1\<lparr>ei_head_hash := cu_hash e, ei_updated_at := cu_created_at e\<rparr>)) (pg_evidence_keys s)"
      using wf x by (simp add: evidence_wf_def indexed_update)
    show "filed ei_tenant ei_id (upd2 (pg_evidence s) t i (x1\<lparr>ei_head_hash := cu_hash e, ei_updated_at := cu_created_at e\<rparr>))"
      using wf x1 ti by (simp add: evidence_wf_def filed_upd2)
  next
    fix t' i' y
    assume "upd2 (pg_evidence s) t i (x1\<lparr>ei_head_hash := cu_hash e, ei_updated_at := cu_created_at e\<rparr>) t' i' = Some y"
    with wf x1(3) show "ei_status y \<in> {''PENDING'', ''AVAILABLE'', ''FAILED''}"
      by (auto simp: evidence_wf_def split: if_splits)
  qed
qed

end
