(* ===== verification/Postgres_Runs.thy ===== *)
theory Postgres_Runs
  imports Postgres_Invariants
begin

text \<open>
  The durable store as a transition system: \<open>pg_step t\<close> is one call of a store method on behalf of
  tenant \<open>t\<close>, successful or failed. Every step keeps \<open>pg_wf\<close>, so every reachable database is well
  formed.
\<close>

lemma pg_wfI: "core_wf s \<Longrightarrow> case_wf s \<Longrightarrow> evidence_wf s \<Longrightarrow> pg_wf s"
  by (simp add: pg_wf_def)

lemma pg_wfD: "pg_wf s \<Longrightarrow> core_wf s" "pg_wf s \<Longrightarrow> case_wf s" "pg_wf s \<Longrightarrow> evidence_wf s"
  by (simp_all add: pg_wf_def)

text \<open>An operation that touches the tables of one invariant only keeps the other two.\<close>

definition core_only :: "pg \<Rightarrow> pg \<Rightarrow> bool" where
  "core_only s s' \<longleftrightarrow>
     pg_cases s' = pg_cases s \<and> pg_case_keys s' = pg_case_keys s \<and> pg_links s' = pg_links s \<and>
     (\<forall>t j. pg_incidents s t j \<noteq> None \<longrightarrow> pg_incidents s' t j \<noteq> None) \<and>
     pg_evidence s' = pg_evidence s \<and> pg_evidence_keys s' = pg_evidence_keys s \<and> pg_custody s' = pg_custody s"

lemma wf_core_only: "pg_wf s \<Longrightarrow> core_only s s' \<Longrightarrow> core_wf s' \<Longrightarrow> pg_wf s'"
proof -
  assume wf: "pg_wf s" and only: "core_only s s'" and core: "core_wf s'"
  have only': "pg_cases s' = pg_cases s" "pg_case_keys s' = pg_case_keys s" "pg_links s' = pg_links s"
    "\<And>t j. pg_incidents s t j \<noteq> None \<Longrightarrow> pg_incidents s' t j \<noteq> None"
    "pg_evidence s' = pg_evidence s" "pg_evidence_keys s' = pg_evidence_keys s" "pg_custody s' = pg_custody s"
    using only unfolding core_only_def by blast+
  from wf have "case_wf s'" using case_wf_frame [OF only'(1-4)] by (simp add: pg_wf_def)
  moreover from wf have "evidence_wf s'" using evidence_wf_frame [OF only'(5-7)] by (simp add: pg_wf_def)
  ultimately show ?thesis using wf core by (simp add: pg_wf_def)
qed

definition same_core :: "pg \<Rightarrow> pg \<Rightarrow> bool" where
  "same_core s s' \<longleftrightarrow>
     pg_events s' = pg_events s \<and> pg_event_keys s' = pg_event_keys s \<and> pg_findings s' = pg_findings s \<and>
     pg_finding_keys s' = pg_finding_keys s \<and> pg_incident_keys s' = pg_incident_keys s \<and> pg_alerts s' = pg_alerts s \<and>
     pg_alert_keys s' = pg_alert_keys s \<and> pg_incidents s' = pg_incidents s \<and> pg_audit s' = pg_audit s \<and>
     pg_heads s' = pg_heads s"

lemma same_core_wf: "same_core s s' \<Longrightarrow> core_wf s' = core_wf s"
  unfolding same_core_def by (elim conjE) (rule core_wf_frame)

subsection \<open>Each operation\<close>

lemma core_only_refl [simp]: "core_only s s"
  by (simp add: core_only_def)

lemma upsert_tenant_keeps: "upsert_tenant x y s = Inr s' \<Longrightarrow> keeps pg_wf s s'"
proof (rule keepsI)
  assume "upsert_tenant x y s = Inr s'" and wf: "pg_wf s"
  then have s': "s' = s\<lparr>pg_tenants := (pg_tenants s)(x \<mapsto> y)\<rparr>" by (simp add: upsert_tenant_def)
  show "pg_wf s'"
    by (rule wf_core_only [OF wf])
      (use pg_wfD(1) [OF wf] in \<open>simp_all add: s' core_only_def core_wf_def audit_sealed_def\<close>)
qed

lemma ensure_head_keeps:
  assumes "ensure_head x s = Inr s'"
  shows "keeps pg_wf s s'"
proof (cases "pg_heads s x")
  case (Some h)
  with assms show ?thesis by (simp add: ensure_head_def keeps_def)
next
  case None
  with assms have s': "s' = s\<lparr>pg_heads := (pg_heads s)(x \<mapsto> [])\<rparr>"
    by (auto simp: ensure_head_def split: if_splits)
  have "or_zero [] (pg_heads s' t) = or_zero [] (pg_heads s t)" for t
    using None by (simp add: s')
  then have "core_wf s' = core_wf s"
    by (simp add: core_wf_def audit_sealed_def) (simp add: s')
  moreover have "core_only s s'" by (simp add: s' core_only_def)
  ultimately show ?thesis by (auto intro: keepsI wf_core_only dest: pg_wfD)
qed

lemma keeps_EnsureTenant: "op_rel (keeps pg_wf) (EnsureTenant t n)"
  unfolding EnsureTenant_def Let_def
  by (simp add: keeps_rel.rel_fail)
    (intro impI keeps_rel.rel_transaction keeps_rel.rel_bind keeps_rel.rel_exec upsert_tenant_keeps ensure_head_keeps)

lemma exec_all_Inr: "exec_all fs (s, w) = (Inr u, (s', w')) \<Longrightarrow> s' = fold (\<lambda>f. f) fs s"
  by (induction fs arbitrary: s w) (auto simp: return_Inr dest!: exec_bind_Inr)

text \<open>After a reset the tenant's tables are empty and every other tenant's are as they were.\<close>

definition reset_state :: "tenant \<Rightarrow> pg \<Rightarrow> pg" where
  "reset_state t s =
    s\<lparr>pg_audit := (pg_audit s)(t := []), pg_custody := (pg_custody s)(t := []),
      pg_evidence := (pg_evidence s)(t := Map.empty), pg_evidence_keys := (pg_evidence_keys s)(t := []),
      pg_links := (pg_links s)(t := \<lambda>_. []), pg_cases := (pg_cases s)(t := Map.empty),
      pg_case_keys := (pg_case_keys s)(t := []), pg_incidents := (pg_incidents s)(t := Map.empty),
      pg_incident_keys := (pg_incident_keys s)(t := []),
      pg_alerts := (pg_alerts s)(t := Map.empty), pg_alert_keys := (pg_alert_keys s)(t := []),
      pg_findings := (pg_findings s)(t := Map.empty), pg_finding_keys := (pg_finding_keys s)(t := []),
      pg_events := (pg_events s)(t := Map.empty), pg_event_keys := (pg_event_keys s)(t := []),
      pg_heads := (pg_heads s)(t := map_option (\<lambda>_. []) (pg_heads s t))\<rparr>"

lemma pg_ResetTenant_Inr:
  assumes "pg_ResetTenant t (s, w) = (Inr u, (s', w'))"
  shows "s' = reset_state t s"
proof -
  from assms obtain w1 w2 where
    "op_bind (exec_all (delete_rows t)) (\<lambda>_. sql_exec (reset_head t)) (s, w1) = (Inr u, (s', w2))"
    unfolding pg_ResetTenant_def by (rule transaction_Inr)
  then obtain v s1 w3 where 1: "exec_all (delete_rows t) (s, w1) = (Inr v, (s1, w3))"
    and 2: "sql_exec (reset_head t) (s1, w3) = (Inr u, (s', w2))" by (rule op_bind_InrE)
  from exec_all_Inr [OF 1] sql_exec_Inr [OF 2] show ?thesis
    by (auto simp: delete_rows_def reset_head_def reset_state_def fun_upd_idem split: option.splits)
qed

lemma keepsI_core: "(core_wf s \<Longrightarrow> core_wf s') \<Longrightarrow> core_only s s' \<Longrightarrow> keeps pg_wf s s'"
  unfolding keeps_def using wf_core_only pg_wfD(1) by blast

lemma keeps_ResetTenant: "op_rel (keeps pg_wf) (pg_ResetTenant t)"
proof (rule op_relI)
  fix s w r s' w'
  assume run: "pg_ResetTenant t (s, w) = (r, (s', w'))"
  show "keeps pg_wf s s'"
  proof (cases r)
    case (Inl e)
    with run have "s' = s" by (auto simp: pg_ResetTenant_def dest: transaction_failed)
    then show ?thesis by (simp add: keeps_def)
  next
    case (Inr u)
    with run have s': "s' = reset_state t s" by (simp add: pg_ResetTenant_Inr)
    show ?thesis
    proof (rule keepsI)
      assume wf: "pg_wf s"
      have "core_wf s'"
        using pg_wfD(1) [OF wf]
        by (auto simp: s' reset_state_def core_wf_def audit_sealed_def indexed_clear filed_clear or_zero_def
            split: option.splits)
      moreover have "case_wf s'"
        using pg_wfD(2) [OF wf]
        by (auto simp: s' reset_state_def case_wf_def case_row_ok_def indexed_clear split: if_splits)
      moreover have "evidence_wf s'"
        using pg_wfD(3) [OF wf]
        by (auto simp: s' reset_state_def evidence_wf_def custody_ok_def custody_of_def indexed_clear filed_clear
            split: if_splits)
      ultimately show "pg_wf s'" by (rule pg_wfI)
    qed
  qed
qed

lemma keeps_PutEvent: "op_rel (keeps pg_wf) (pg_PutEvent e)"
proof -
  have "keeps pg_wf s s'" if "insert_event e s = (r, s')" for s r s'
  proof (cases "s' = s")
    case True
    then show ?thesis by (simp add: keeps_def)
  next
    case False
    with that have s': "s' = s\<lparr>pg_events := upd2 (pg_events s) (ev_tenant e) (ev_id e) e,
        pg_event_keys := snoc (pg_event_keys s) (ev_tenant e) (ev_id e)\<rparr>" and fresh: "pg_events s (ev_tenant e) (ev_id e) = None"
      by (auto simp: insert_event_def split: option.splits if_splits)
    show ?thesis
      by (rule keepsI_core)
        (use fresh in \<open>auto simp: s' core_only_def core_wf_def audit_sealed_def indexed_insert intro: filed_upd2\<close>)
  qed
  then have "op_rel (keeps pg_wf) (statement (insert_event e))" by (rule keeps_rel.rel_statement)
  then show ?thesis
    unfolding pg_PutEvent_def pg_GetEvent_def
    by (auto intro!: keeps_rel.rel_bind keeps_rel.rel_return keeps_rel.rel_query)
qed

lemma keeps_PutFinding: "op_rel (keeps pg_wf) (pg_PutFinding f)"
  unfolding pg_PutFinding_def
proof (rule keeps_rel.rel_exec)
  fix s s'
  assume run: "insert_finding f s = Inr s'"
  show "keeps pg_wf s s'"
  proof (cases "s' = s")
    case True
    then show ?thesis by (simp add: keeps_def)
  next
    case False
    with run have s': "s' = s\<lparr>pg_findings := upd2 (pg_findings s) (fi_tenant f) (fi_id f) f,
        pg_finding_keys := snoc (pg_finding_keys s) (fi_tenant f) (fi_id f)\<rparr>"
      and fresh: "pg_findings s (fi_tenant f) (fi_id f) = None" and ev: "pg_events s (fi_tenant f) (fi_event f) \<noteq> None"
      by (auto simp: insert_finding_def split: option.splits if_splits)
    show ?thesis
      by (rule keepsI_core)
        (use ev fresh in \<open>auto simp: s' core_only_def core_wf_def audit_sealed_def indexed_insert intro: filed_upd2 split: if_splits\<close>)
  qed
qed

subsection \<open>The writes are atomic\<close>

lemma is_ok_return [simp]: "is_ok (fst (op_return x sw))"
  by (simp add: op_return_def)

lemma CreateCase_atomic: "atomic (CreateCase c)"
  unfolding CreateCase_def caseByRequestID_def
  by (auto intro!: atomic_fail atomic_on_conflict read_only_bind read_only_query read_only_return)

lemma ReserveEvidence_atomic: "atomic (ReserveEvidence x m)"
proof -
  have "read_only (case_exists x)"
    by (auto simp: case_exists_def intro!: read_only_bind read_only_query read_only_return read_only_fail)
  then have "atomic (op_bind (case_exists x) (\<lambda>_. op_bind (transaction_try body)
      (\<lambda>outcome. case outcome of Some reserved \<Rightarrow> op_return (reserved, True)
        | None \<Rightarrow> op_bind (evidenceByRequestID t q) (\<lambda>existing. op_return (existing, False)))))" for body t q
    by (rule atomic_read_bind)
      (auto simp: evidenceByRequestID_def intro!: atomic_on_conflict read_only_bind read_only_query read_only_return)
  then show ?thesis unfolding ReserveEvidence_def by (simp add: atomic_fail)
qed

lemma CreateIncident_atomic: "atomic (pg_CreateIncident x)"
  unfolding pg_CreateIncident_def
  by (intro atomic_bind_total atomic_map_error atomic_exec) simp

subsection \<open>Alerts, incidents and the audit log\<close>

lemma row_ok_status:
  assumes "row_ok t i r"
  shows "row_status r = al_status (row_alert r)" "al_tenant (row_alert r) = t" "al_id (row_alert r) = i"
proof -
  from assms have r: "r = alert_columns (row_alert r) (row_dedup r)" by (simp add: row_ok_def)
  show "row_status r = al_status (row_alert r)" by (subst r) (simp add: alert_columns_def)
  from assms show "al_tenant (row_alert r) = t" "al_id (row_alert r) = i" by (simp_all add: row_ok_def)
qed

lemma open_duplicate_Some:
  assumes "open_duplicate t key s = Some a" "core_wf s"
  shows "pg_alert s t (al_id a) = Some a \<and> al_tenant a = t \<and> al_status a \<noteq> ''CLOSED'' \<and>
    (\<exists>r. pg_alerts s t (al_id a) = Some r \<and> row_dedup r = key)"
proof -
  from assms(1) obtain r where r: "r \<in> set (alert_rows t s)" "row_dedup r = key" "row_status r \<noteq> ''CLOSED''" "a = row_alert r"
  proof -
    from assms(1) obtain rs r where nf: "newest_first row_last_seen 1
        (filter (\<lambda>r. row_dedup r = key \<and> row_status r \<noteq> ''CLOSED'') (alert_rows t s)) = r # rs" "a = row_alert r"
      by (auto simp: open_duplicate_def split: list.splits)
    from newest_first_hd [OF nf(1)] nf(2) that [of r] show thesis by simp
  qed
  then obtain i where i: "pg_alerts s t i = Some r" by (auto simp: alert_rows_def map_filter_def)
  with assms(2) have "row_ok t i r" by (simp add: core_wf_def)
  from row_ok_status [OF this] i r show ?thesis by (auto simp: pg_alert_def)
qed

lemma keeps_UpsertAlert: "op_rel (keeps pg_wf) (pg_UpsertAlert c key win)"
proof (rule keeps_rel.rel_atomic)
  show "atomic (pg_UpsertAlert c key win)" unfolding pg_UpsertAlert_def by (rule atomic_transaction)
next
  fix s w x s' w'
  assume run: "pg_UpsertAlert c key win (s, w) = (Inr x, (s', w'))"
  obtain a fresh where x: "x = (a, fresh)" by fastforce
  have row: "row_ok (al_tenant b) (al_id b) (alert_columns b k)" for b k
    by (simp add: row_ok_def alert_columns_def)
  from pg_UpsertAlert_cases [OF run [unfolded x]] show "keeps pg_wf s s'"
  proof (elim disjE conjE exE)
    assume n: "pg_alerts s (al_tenant c) (al_id c) = None" and s': "s' = s\<lparr>pg_alerts := upd2 (pg_alerts s) (al_tenant c) (al_id c) (alert_columns c key),
              pg_alert_keys := snoc (pg_alert_keys s) (al_tenant c) (al_id c)\<rparr>"
    from n show ?thesis
      by (intro keepsI_core) (simp_all add: s' core_wf_new_alert core_only_def)
  next
    fix existing
    assume o: "open_duplicate (al_tenant c) key s = Some existing" and a: "a = merge_alert existing c"
      and u: "updateAlertRow a key s = Inr s'"
    have id: "al_id a = al_id existing" "al_tenant a = al_tenant existing"
      by (simp_all add: a merge_alert_def Let_def)
    show ?thesis
    proof (rule keepsI_core)
      assume wf: "core_wf s"
      from open_duplicate_Some [OF o wf] obtain r where "pg_alerts s (al_tenant a) (al_id a) = Some r"
        by (auto simp: id)
      with wf u show "core_wf s'" by (auto dest: updateAlertRow_cases intro: core_wf_alert)
    next
      show "core_only s s'" using u by (auto simp: updateAlertRow_def core_only_def split: option.splits)
    qed
  qed
qed

lemma keeps_MutateAlert:
  assumes "keeps_alert_key f"
  shows "op_rel (keeps pg_wf) (pg_MutateAlert t i n f)"
proof (rule keeps_rel.rel_atomic)
  show "atomic (pg_MutateAlert t i n f)" unfolding pg_MutateAlert_def by (rule atomic_transaction)
next
  fix s w b s' w'
  assume run: "pg_MutateAlert t i n f (s, w) = (Inr b, (s', w'))"
  then obtain r c w1 w2 where m: "pg_alerts s t i = Some r" "f (row_alert r) w1 = (Inr c, w2)"
    "b = c\<lparr>al_version := al_version c + 1, al_updated_at := fst (time_now w2)\<rparr>" "updateAlertRow b (row_dedup r) s = Inr s'"
    by (rule pg_MutateAlert_cases)
  have "al_id c = al_id (row_alert r)" "al_tenant c = al_tenant (row_alert r)"
    using assms m(2) unfolding keeps_alert_key_def by blast+
  then have key: "al_id b = al_id (row_alert r)" "al_tenant b = al_tenant (row_alert r)" by (simp_all add: m(3))
  show "keeps pg_wf s s'"
  proof (rule keepsI_core)
    assume wf: "core_wf s"
    with m(1) have "pg_alerts s (al_tenant b) (al_id b) = Some r" by (simp add: core_wf_def row_ok_def key)
    with wf m(4) show "core_wf s'" by (auto dest: updateAlertRow_cases intro: core_wf_alert)
  next
    show "core_only s s'" using m(4) by (auto simp: updateAlertRow_def core_only_def split: option.splits)
  qed
qed

lemma keeps_CreateIncident: "op_rel (keeps pg_wf) (pg_CreateIncident x)"
proof (rule op_relI)
  fix s w r s' w'
  assume "pg_CreateIncident x (s, w) = (r, (s', w'))"
  from pg_CreateIncident_cases [OF this] show "keeps pg_wf s s'"
  proof (elim disjE conjE)
    assume "insert_incident x s = Inr s'"
    then have s': "s' = s\<lparr>pg_incidents := upd2 (pg_incidents s) (in_tenant x) (in_id x) x,
        pg_incident_keys := snoc (pg_incident_keys s) (in_tenant x) (in_id x)\<rparr>"
      and fresh: "pg_incidents s (in_tenant x) (in_id x) = None"
      by (simp_all add: insert_incident_Inr)
    show ?thesis by (rule keepsI_core) (simp_all add: s' fresh core_wf_new_incident core_only_def)
  qed (simp add: keeps_def)
qed

lemma keeps_MutateIncident:
  assumes "keeps_incident_key f"
  shows "op_rel (keeps pg_wf) (pg_MutateIncident t i n f)"
proof (rule keeps_rel.rel_atomic)
  show "atomic (pg_MutateIncident t i n f)" unfolding pg_MutateIncident_def by (rule atomic_transaction)
next
  fix s w y s' w'
  assume run: "pg_MutateIncident t i n f (s, w) = (Inr y, (s', w'))"
  then obtain x c w1 w2 where m: "pg_incidents s t i = Some x" "f x w1 = (Inr c, w2)"
    "y = c\<lparr>in_version := in_version c + 1, in_updated_at := fst (time_now w2)\<rparr>"
    "s' = s\<lparr>pg_incidents := upd2 (pg_incidents s) t i y\<rparr>"
    by (rule pg_MutateIncident_cases)
  have "in_id c = in_id x" "in_tenant c = in_tenant x"
    using assms m(2) unfolding keeps_incident_key_def by blast+
  then have key: "in_id y = in_id x" "in_tenant y = in_tenant x" by (simp_all add: m(3))
  show "keeps pg_wf s s'"
  proof (rule keepsI_core)
    assume wf: "core_wf s"
    with m(1) have "in_tenant y = t" "in_id y = i" by (auto simp: core_wf_def key dest: filedD)
    with core_wf_incident [OF wf m(1)] m(4) show "core_wf s'" by simp
  next
    show "core_only s s'" by (simp add: m(4) core_only_def)
  qed
qed

lemma keeps_AppendAudit: "op_rel (keeps pg_wf) (pg_AppendAudit e)"
proof (rule keeps_rel.rel_atomic)
  show "atomic (pg_AppendAudit e)" unfolding pg_AppendAudit_def by (rule atomic_transaction)
next
  fix s w a s' w'
  assume "pg_AppendAudit e (s, w) = (Inr a, (s', w'))"
  then obtain w1 w2 where seal: "seal_audit e (or_zero [] (pg_heads s (au_tenant e))) w1 = (Inr a, w2)"
    and s': "s' = audit_appended a s" by (rule pg_AppendAudit_cases)
  note a = seal_audit_Inr [OF seal]
  show "keeps pg_wf s s'"
    by (rule keepsI_core) (use a in \<open>simp_all add: s' core_wf_audit, simp add: audit_appended_def core_only_def\<close>)
qed

subsection \<open>Cases and evidence\<close>

lemma store_case_core [simp]: "same_core s (store_case r s)"
  by (simp add: same_core_def store_case_def)

lemma store_case_evidence:
  "pg_evidence (store_case r s) = pg_evidence s" "pg_evidence_keys (store_case r s) = pg_evidence_keys s"
  "pg_custody (store_case r s) = pg_custody s"
  by (simp_all add: store_case_def set_links_def)

lemma keepsI_case:
  assumes "same_core s s'" "case_wf s \<Longrightarrow> case_wf s'"
    and "pg_evidence s' = pg_evidence s" "pg_evidence_keys s' = pg_evidence_keys s" "pg_custody s' = pg_custody s"
  shows "keeps pg_wf s s'"
  using same_core_wf [OF assms(1)] evidence_wf_frame [OF assms(3-5)] assms(2)
  unfolding keeps_def pg_wf_def by blast

lemma keeps_MutateCase: "op_rel (keeps pg_wf) (MutateCase t i n f)"
proof (rule keeps_rel.rel_atomic)
  show "atomic (MutateCase t i n f)" unfolding MutateCase_def by (rule atomic_transaction)
next
  fix s w c s' w'
  assume "MutateCase t i n f (s, w) = (Inr c, (s', w'))"
  then obtain r b w1 w2 now where m: "pg_cases s t i = Some r" "ca_id b = i" "ca_tenant b = t"
    "c = b\<lparr>ca_version := row_version r + 1, ca_updated_at := now, ca_request := row_request r\<rparr>"
    "case_checks (case_columns (row_request r) c)" "s' = store_case (case_columns (row_request r) c) s"
    "\<forall>j \<in> set (ca_incidents c). pg_incidents s t j \<noteq> None" "distinct (ca_incidents c)"
    by (rule MutateCase_cases)
  have key: "ca_tenant c = t" "ca_id c = i" using m(2-4) by simp_all
  show "keeps pg_wf s s'"
    unfolding m(6)
  proof (rule keepsI_case)
    assume "case_wf s"
    then show "case_wf (store_case (case_columns (row_request r) c) s)"
      by (rule case_wf_update) (use m key in simp_all)
  qed (simp_all add: store_case_evidence)
qed

lemma keeps_CreateCase: "op_rel (keeps pg_wf) (CreateCase c)"
proof (rule keeps_rel.rel_atomic [OF CreateCase_atomic])
  fix s w x s' w'
  assume run: "CreateCase c (s, w) = (Inr x, (s', w'))"
  obtain d again where x: "x = (d, again)" by fastforce
  from CreateCase_cases [OF run [unfolded x]] show "keeps pg_wf s s'"
  proof (elim disjE conjE)
    assume n: "case_by_request (ca_tenant c) (ca_request c) s = None" "pg_cases s (ca_tenant c) (ca_id c) = None"
      "case_checks (case_columns (ca_request c) c)" "distinct (ca_incidents c)"
      "\<forall>j \<in> set (ca_incidents c). pg_incidents s (ca_tenant c) j \<noteq> None"
      and s': "s' = (store_case (case_columns (ca_request c) c) s)
       \<lparr>pg_case_keys := snoc (pg_case_keys s) (ca_tenant c) (ca_id c)\<rparr>"
    show ?thesis
      unfolding s'
    proof (rule keepsI_case)
      assume "case_wf s"
      then show "case_wf ((store_case (case_columns (ca_request c) c) s)
          \<lparr>pg_case_keys := snoc (pg_case_keys s) (ca_tenant c) (ca_id c)\<rparr>)"
        by (rule case_wf_new) (use n in simp_all)
    next
      show "same_core s ((store_case (case_columns (ca_request c) c) s)
          \<lparr>pg_case_keys := snoc (pg_case_keys s) (ca_tenant c) (ca_id c)\<rparr>)"
        using store_case_core [of s "case_columns (ca_request c) c"] by (simp add: same_core_def)
    qed (simp_all add: store_case_evidence)
  qed (simp add: keeps_def)
qed

lemma keepsI_evidence:
  assumes "same_core s s'" "pg_cases s' = pg_cases s" "pg_case_keys s' = pg_case_keys s" "pg_links s' = pg_links s"
    and "evidence_wf s \<Longrightarrow> evidence_wf s'"
  shows "keeps pg_wf s s'"
proof -
  have "pg_incidents s' = pg_incidents s" using assms(1) by (simp add: same_core_def)
  then have "case_wf s \<Longrightarrow> case_wf s'" by (intro case_wf_frame [OF assms(2-4)]) simp_all
  with same_core_wf [OF assms(1)] assms(5) show ?thesis unfolding keeps_def pg_wf_def by blast
qed

lemma keepsI_custody:
  assumes "evidence_wf s \<Longrightarrow> evidence_wf (custody_appended e x1 (s\<lparr>pg_evidence := g\<rparr>))"
  shows "keeps pg_wf s (custody_appended e x1 (s\<lparr>pg_evidence := g\<rparr>))"
  by (rule keepsI_evidence) (use assms in \<open>simp_all add: same_core_def\<close>)

lemma keeps_AppendEvidenceCustody: "op_rel (keeps pg_wf) (AppendEvidenceCustody t i m)"
proof (rule keeps_rel.rel_atomic)
  show "atomic (AppendEvidenceCustody t i m)" unfolding AppendEvidenceCustody_def by (rule atomic_transaction)
next
  fix s w e s' w'
  assume "AppendEvidenceCustody t i m (s, w) = (Inr e, (s', w'))"
  then obtain x where x: "pg_evidence s t i = Some x" "custody_sealed t i m (ei_head_hash x) e"
    "s' = custody_appended e x s" by (rule AppendEvidenceCustody_Inr)
  have same: "s\<lparr>pg_evidence := upd2 (pg_evidence s) t i x\<rparr> = s"
    using x(1) by (simp add: upd2_def fun_upd_idem)
  have "keeps pg_wf s (custody_appended e x (s\<lparr>pg_evidence := upd2 (pg_evidence s) t i x\<rparr>))"
  proof (rule keepsI_custody)
    assume wf: "evidence_wf s"
    then have "ei_status x \<in> {''PENDING'', ''AVAILABLE'', ''FAILED''}" using x(1) unfolding evidence_wf_def by blast
    with wf x(1,2) show "evidence_wf (custody_appended e x (s\<lparr>pg_evidence := upd2 (pg_evidence s) t i x\<rparr>))"
      by (intro evidence_wf_append) simp_all
  qed
  then show "keeps pg_wf s s'" by (simp only: same x(3))
qed

lemma keeps_transitionEvidence:
  assumes "status \<in> {''AVAILABLE'', ''FAILED''}"
  shows "op_rel (keeps pg_wf) (transitionEvidence t i status ver etag failure m)"
proof (rule keeps_rel.rel_atomic)
  show "atomic (transitionEvidence t i status ver etag failure m)"
    unfolding transitionEvidence_def by (rule atomic_transaction)
next
  fix s w y s' w'
  assume "transitionEvidence t i status ver etag failure m (s, w) = (Inr y, (s', w'))"
  then obtain x e now x1 where x: "pg_evidence s t i = Some x"
    "x1 = x\<lparr>ei_status := status, ei_object_version := ver, ei_etag := etag, ei_failure := failure, ei_updated_at := now\<rparr>"
    "custody_sealed t i m (ei_head_hash x) e"
    "s' = custody_appended e x1 (s\<lparr>pg_evidence := upd2 (pg_evidence s) t i x1\<rparr>)"
    by (rule transitionEvidence_Inr)
  have x1: "ei_tenant x1 = ei_tenant x" "ei_id x1 = ei_id x" "ei_status x1 = status" by (simp_all add: x(2))
  show "keeps pg_wf s s'"
    unfolding x(4)
  proof (rule keepsI_custody)
    assume "evidence_wf s"
    then show "evidence_wf (custody_appended e x1 (s\<lparr>pg_evidence := upd2 (pg_evidence s) t i x1\<rparr>))"
      by (rule evidence_wf_append [OF _ x(1,3) x1(1,2)]) (use assms x1(3) in auto)
  qed
qed

lemma keeps_RecordEvidenceVerification: "op_rel (keeps pg_wf) (RecordEvidenceVerification t i valid m)"
proof (rule keeps_rel.rel_atomic)
  show "atomic (RecordEvidenceVerification t i valid m)"
    unfolding RecordEvidenceVerification_def by (rule atomic_transaction)
next
  fix s w y s' w'
  assume "RecordEvidenceVerification t i valid m (s, w) = (Inr y, (s', w'))"
  then obtain x x1 e now where x: "pg_evidence s t i = Some x" "ei_status x = ''AVAILABLE''"
    "x1 = (if valid then x\<lparr>ei_verified_at := Some now, ei_updated_at := now\<rparr> else x)"
    "custody_sealed t i m (ei_head_hash x) e"
    "s' = custody_appended e x1 (s\<lparr>pg_evidence := upd2 (pg_evidence s) t i x1\<rparr>)"
    by (rule RecordEvidenceVerification_Inr)
  have x1: "ei_tenant x1 = ei_tenant x" "ei_id x1 = ei_id x" "ei_status x1 = ''AVAILABLE''"
    by (simp_all add: x(2,3))
  show "keeps pg_wf s s'"
    unfolding x(5)
  proof (rule keepsI_custody)
    assume "evidence_wf s"
    then show "evidence_wf (custody_appended e x1 (s\<lparr>pg_evidence := upd2 (pg_evidence s) t i x1\<rparr>))"
      by (rule evidence_wf_append [OF _ x(1,4) x1(1,2)]) (simp add: x1(3))
  qed
qed

lemma evidence_wf_new:
  assumes wf: "evidence_wf s" and fresh: "pg_evidence s (ei_tenant x) (ei_id x) = None" and st: "ei_status x = ''PENDING''"
    and e: "custody_sealed (ei_tenant x) (ei_id x) m [] e"
  shows "evidence_wf (custody_appended e x (s\<lparr>pg_evidence := upd2 (pg_evidence s) (ei_tenant x) (ei_id x) x,
           pg_evidence_keys := snoc (pg_evidence_keys s) (ei_tenant x) (ei_id x)\<rparr>))"
    (is "evidence_wf ?s'")
proof -
  let ?t = "ei_tenant x" and ?i = "ei_id x"
  let ?keyed = "s\<lparr>pg_evidence_keys := snoc (pg_evidence_keys s) ?t ?i\<rparr>"
  have te: "cu_tenant e = ?t" "cu_evidence e = ?i" using e by (simp_all add: custody_sealed_def)
  have "custody_of ?t ?i s = []" using wf fresh by (auto simp: evidence_wf_def custody_ok_def)
  then have "custody_from [] (custody_of ?t ?i ?keyed) = Some []" by (simp add: custody_of_def)
  moreover have "custody_ok t' i' ?keyed" for t' i'
    using wf by (simp add: evidence_wf_def custody_ok_def custody_of_def)
  ultimately have "custody_ok t' i' (custody_appended e x (?keyed\<lparr>pg_evidence := upd2 (pg_evidence ?keyed) ?t ?i x\<rparr>))" for t' i'
    using e by (intro custody_ok_appended) simp_all
  moreover have "?keyed\<lparr>pg_evidence := upd2 (pg_evidence ?keyed) ?t ?i x\<rparr> = s\<lparr>pg_evidence := upd2 (pg_evidence s) ?t ?i x,
      pg_evidence_keys := snoc (pg_evidence_keys s) ?t ?i\<rparr>" by (cases s) simp
  ultimately have ok: "custody_ok t' i' ?s'" for t' i' by (simp only:)
  have ev: "pg_evidence ?s' = upd2 (pg_evidence s) ?t ?i (x\<lparr>ei_head_hash := cu_hash e, ei_updated_at := cu_created_at e\<rparr>)"
    by (simp add: custody_appended_evidence te upd2_def)
  show ?thesis
    unfolding evidence_wf_def ev
  proof (intro conjI allI impI ok)
    show "indexed (upd2 (pg_evidence s) ?t ?i (x\<lparr>ei_head_hash := cu_hash e, ei_updated_at := cu_created_at e\<rparr>)) (pg_evidence_keys ?s')"
      using wf fresh by (simp add: evidence_wf_def indexed_insert)
    show "filed ei_tenant ei_id (upd2 (pg_evidence s) ?t ?i (x\<lparr>ei_head_hash := cu_hash e, ei_updated_at := cu_created_at e\<rparr>))"
      using wf by (simp add: evidence_wf_def filed_upd2)
  next
    fix t' i' y
    assume "upd2 (pg_evidence s) ?t ?i (x\<lparr>ei_head_hash := cu_hash e, ei_updated_at := cu_created_at e\<rparr>) t' i' = Some y"
    with wf st show "ei_status y \<in> {''PENDING'', ''AVAILABLE'', ''FAILED''}"
      by (auto simp: evidence_wf_def split: if_splits)
  qed
qed

lemma keeps_ReserveEvidence: "op_rel (keeps pg_wf) (ReserveEvidence x m)"
proof (rule keeps_rel.rel_atomic [OF ReserveEvidence_atomic])
  fix s w y s' w'
  assume run: "ReserveEvidence x m (s, w) = (Inr y, (s', w'))"
  obtain item created where y: "y = (item, created)" by fastforce
  from ReserveEvidence_Inr [OF run [unfolded y]] show "keeps pg_wf s s'"
  proof (elim disjE conjE exE)
    fix now e
    assume fresh: "pg_evidence s (ei_tenant x) (ei_id x) = None"
      and e: "custody_sealed (ei_tenant x) (ei_id x) m [] e"
      and s': "s' = custody_appended e (pending_row x now)
          (s\<lparr>pg_evidence := upd2 (pg_evidence s) (ei_tenant x) (ei_id x) (pending_row x now),
             pg_evidence_keys := snoc (pg_evidence_keys s) (ei_tenant x) (ei_id x)\<rparr>)"
    have p: "ei_tenant (pending_row x now) = ei_tenant x" "ei_id (pending_row x now) = ei_id x"
      "ei_status (pending_row x now) = ''PENDING''" by (simp_all add: pending_row_def)
    show ?thesis
    proof (rule keepsI_evidence)
      assume "evidence_wf s"
      from evidence_wf_new [OF this, of "pending_row x now" m e] show "evidence_wf s'"
        using fresh e p by (simp add: s')
    qed (simp_all add: s' same_core_def)
  qed (simp add: keeps_def)
qed

subsection \<open>Reachable databases\<close>

inductive pg_step :: "tenant \<Rightarrow> pg \<times> world \<Rightarrow> pg \<times> world \<Rightarrow> bool" where
  ensure: "EnsureTenant t n sw = (r, sw') \<Longrightarrow> pg_step t sw sw'"
| reset: "pg_ResetTenant t sw = (r, sw') \<Longrightarrow> pg_step t sw sw'"
| put_event: "ev_tenant e = t \<Longrightarrow> pg_PutEvent e sw = (re, sw') \<Longrightarrow> pg_step t sw sw'"
| put_finding: "fi_tenant f = t \<Longrightarrow> pg_PutFinding f sw = (r, sw') \<Longrightarrow> pg_step t sw sw'"
| upsert: "al_tenant c = t \<Longrightarrow> pg_UpsertAlert c key win sw = (ru, sw') \<Longrightarrow> pg_step t sw sw'"
| mutate_alert: "keeps_alert_key fa \<Longrightarrow> pg_MutateAlert t i n fa sw = (ra, sw') \<Longrightarrow> pg_step t sw sw'"
| create_incident: "in_tenant x = t \<Longrightarrow> pg_CreateIncident x sw = (ri, sw') \<Longrightarrow> pg_step t sw sw'"
| mutate_incident: "keeps_incident_key fi \<Longrightarrow> pg_MutateIncident t i n fi sw = (ri, sw') \<Longrightarrow> pg_step t sw sw'"
| append_audit: "au_tenant a = t \<Longrightarrow> pg_AppendAudit a sw = (rl, sw') \<Longrightarrow> pg_step t sw sw'"
| create_case: "ca_tenant c = t \<Longrightarrow> CreateCase c sw = (rc, sw') \<Longrightarrow> pg_step t sw sw'"
| mutate_case: "MutateCase t i n fc sw = (rm, sw') \<Longrightarrow> pg_step t sw sw'"
| reserve: "ei_tenant y = t \<Longrightarrow> ReserveEvidence y m sw = (rr, sw') \<Longrightarrow> pg_step t sw sw'"
| finalize: "FinalizeEvidence t i ver etag m sw = (rv, sw') \<Longrightarrow> pg_step t sw sw'"
| fail_evidence: "FailEvidence t i failure m sw = (rv, sw') \<Longrightarrow> pg_step t sw sw'"
| custody: "AppendEvidenceCustody t i m sw = (rk, sw') \<Longrightarrow> pg_step t sw sw'"
| verify: "RecordEvidenceVerification t i valid m sw = (rv, sw') \<Longrightarrow> pg_step t sw sw'"

inductive pg_reachable :: "pg \<times> world \<Rightarrow> bool" where
  start: "pg_reachable (empty_pg, w)"
| step: "pg_reachable sw \<Longrightarrow> pg_step t sw sw' \<Longrightarrow> pg_reachable sw'"

lemma keeps_run: "op_rel (keeps P) f \<Longrightarrow> f sw = (r, sw') \<Longrightarrow> P (fst sw) \<Longrightarrow> P (fst sw')"
  by (metis keeps_def op_relD prod.collapse)

lemmas keeps_ops = keeps_EnsureTenant keeps_ResetTenant keeps_PutEvent keeps_PutFinding keeps_UpsertAlert
  keeps_MutateAlert keeps_CreateIncident keeps_MutateIncident keeps_AppendAudit keeps_CreateCase
  keeps_MutateCase keeps_ReserveEvidence keeps_AppendEvidenceCustody keeps_RecordEvidenceVerification

lemma pg_step_wf: "pg_step t sw sw' \<Longrightarrow> pg_wf (fst sw) \<Longrightarrow> pg_wf (fst sw')"
proof (induction rule: pg_step.induct)
  case (finalize t i ver etag m sw rv sw')
  then show ?case
    unfolding FinalizeEvidence_def by (blast intro: keeps_run keeps_transitionEvidence)
next
  case (fail_evidence t i failure m sw rv sw')
  then show ?case
    unfolding FailEvidence_def by (blast intro: keeps_run keeps_transitionEvidence)
qed (blast intro: keeps_run keeps_ops)+

end
