(* ===== verification/Store_Refinement.thy ===== *)
theory Store_Refinement
  imports Postgres_Runs
begin

text \<open>
  The two adapters of the repository port compared. \<open>embedded\<close> reads a database as a state of the
  embedded store. Every answer of the durable store, other than a storage failure, is the answer
  of the embedded store on that state, and leads to corresponding states. The exception is
  \<^verbatim>\<open>UpsertAlert\<close>: the two stores remember different alerts under a deduplication key.
\<close>

definition embedded :: "pg \<Rightarrow> memory" where
  "embedded s =
    \<lparr>me_events = pg_events s, me_event_order = pg_event_keys s, me_findings = pg_findings s,
     me_finding_order = pg_finding_keys s, me_alerts = pg_alert s, me_alert_order = pg_alert_keys s,
     me_dedup = (\<lambda>_. None), me_incidents = pg_incidents s, me_incident_order = pg_incident_keys s,
     me_audit = pg_audit s, me_heads = (\<lambda>t. or_zero [] (pg_heads s t)), me_rules = []\<rparr>"

lemma embedded_simps [simp]:
  "me_events (embedded s) = pg_events s" "me_findings (embedded s) = pg_findings s"
  "me_alerts (embedded s) = pg_alert s" "me_incidents (embedded s) = pg_incidents s"
  "me_audit (embedded s) = pg_audit s" "me_heads (embedded s) t = or_zero [] (pg_heads s t)"
  "me_event_order (embedded s) = pg_event_keys s" "me_finding_order (embedded s) = pg_finding_keys s"
  "me_alert_order (embedded s) = pg_alert_keys s" "me_incident_order (embedded s) = pg_incident_keys s"
  by (simp_all add: embedded_def)

definition storage_error :: "error \<Rightarrow> bool" where
  "storage_error e = (case e of ErrContext \<Rightarrow> True | ErrStorage _ \<Rightarrow> True | _ \<Rightarrow> False)"

lemma storage_error_simps [simp]:
  "storage_error ErrContext" "storage_error (ErrStorage m)" "\<not> storage_error ErrNotFound"
  "\<not> storage_error ErrVersionConflict"
  by (simp_all add: storage_error_def)

definition storage_failure :: "'a result \<Rightarrow> bool" where
  "storage_failure r = (case r of Inl e \<Rightarrow> storage_error e | Inr _ \<Rightarrow> False)"

lemma storage_failure_simps [simp]:
  "storage_failure (Inl e) = storage_error e" "\<not> storage_failure (Inr x)"
  by (simp_all add: storage_failure_def)

definition simulates :: "(pg, 'a) op \<Rightarrow> (memory, 'a) op \<Rightarrow> bool" where
  "simulates f g \<longleftrightarrow>
     (\<forall>s w r s' w'. pg_wf s \<longrightarrow> f (s, w) = (r, (s', w')) \<longrightarrow> \<not> storage_failure r \<longrightarrow>
        (\<exists>w1 w2. g (embedded s, w1) = (r, (embedded s', w2))))"

lemma simulatesI:
  assumes "\<And>s w x s' w'. pg_wf s \<Longrightarrow> f (s, w) = (Inr x, (s', w')) \<Longrightarrow> \<exists>w1 w2. g (embedded s, w1) = (Inr x, (embedded s', w2))"
    and "\<And>s w e s' w'. pg_wf s \<Longrightarrow> f (s, w) = (Inl e, (s', w')) \<Longrightarrow> \<not> storage_error e \<Longrightarrow>
       \<exists>w1 w2. g (embedded s, w1) = (Inl e, (embedded s', w2))"
  shows "simulates f g"
  unfolding simulates_def
proof (intro allI impI)
  fix s w r s' w'
  assume a: "pg_wf s" "f (s, w) = (r, (s', w'))" "\<not> storage_failure r"
  show "\<exists>w1 w2. g (embedded s, w1) = (r, (embedded s', w2))"
  proof (cases r)
    case (Inl e)
    with assms(2) [of s w e s' w'] a show ?thesis by simp
  next
    case (Inr x)
    with assms(1) [of s w x s' w'] a show ?thesis by simp
  qed
qed

subsection \<open>Replaying a refusal\<close>

lemma query_bind_Inl:
  assumes "op_bind (sql_query f) g (s, w) = (Inl e, sw)" "\<not> storage_error e"
  shows "f s = Inl e \<or> (\<exists>x w1. f s = Inr x \<and> g x (s, w1) = (Inl e, sw))"
  using assms
  by (auto simp: op_bind_def sql_query_def statement_def Let_def split: prod.splits sum.splits if_splits)

lemma exec_bind_Inl:
  assumes "op_bind (sql_exec f) g (s, w) = (Inl e, sw)" "\<not> storage_error e"
  shows "f s = Inl e \<or> (\<exists>s1 w1. f s = Inr s1 \<and> g () (s1, w1) = (Inl e, sw))"
  using assms
  by (auto simp: op_bind_def sql_exec_def statement_def Let_def split: prod.splits sum.splits if_splits)

lemma world_bind_Inl:
  assumes "op_bind (op_world f) g (s, w) = (Inl e, sw)"
  shows "(\<exists>w1. f w = (Inl e, w1)) \<or> (\<exists>x w1. f w = (Inr x, w1) \<and> g x (s, w1) = (Inl e, sw))"
  using assms by (auto simp: op_bind_def op_world_def split: prod.splits sum.splits)

lemma transaction_Inl:
  assumes "transaction body (s, w) = (Inl e, (s', w'))" "\<not> storage_error e"
  shows "s' = s \<and> (\<exists>w1 sw. body (s, w1) = (Inl e, sw))"
proof
  show "s' = s" using assms(1) by (rule transaction_failed)
  from assms(1) obtain sw where "op_bind (sql_query (\<lambda>_. Inr ())) (\<lambda>_. op_bind body (\<lambda>x.
      op_bind (sql_query (\<lambda>_. Inr ())) (\<lambda>_. op_return x))) (s, w) = (Inl e, sw)"
    by (auto simp: transaction_def rollback_def split: prod.splits sum.splits)
  from query_bind_Inl [OF this assms(2)] obtain w1 where
    run: "op_bind body (\<lambda>x. op_bind (sql_query (\<lambda>_. Inr ())) (\<lambda>_. op_return x)) (s, w1) = (Inl e, sw)"
    by auto
  obtain r s1 w2 where b: "body (s, w1) = (r, (s1, w2))" by (metis prod.exhaust)
  show "\<exists>w1 sw. body (s, w1) = (Inl e, sw)"
  proof (cases r)
    case (Inl d)
    with run b show ?thesis by (auto simp: op_bind_def)
  next
    case (Inr x)
    with run b have "op_bind (sql_query (\<lambda>_. Inr ())) (\<lambda>_. op_return x) (s1, w2) = (Inl e, sw)"
      by (simp add: op_bind_def)
    from query_bind_Inl [OF this assms(2)] show ?thesis by (auto simp: op_return_def)
  qed
qed

subsection \<open>Alerts and incidents\<close>

lemma pg_alert_fun: "pg_alert s = (\<lambda>t i. map_option row_alert (pg_alerts s t i))"
  by (simp add: fun_eq_iff pg_alert_def)

lemma embedded_alert:
  "embedded (s\<lparr>pg_alerts := upd2 (pg_alerts s) t i (alert_columns b k)\<rparr>) =
     (embedded s)\<lparr>me_alerts := upd2 (pg_alert s) t i b\<rparr>"
proof -
  have "pg_alert (s\<lparr>pg_alerts := upd2 (pg_alerts s) t i (alert_columns b k)\<rparr>) = upd2 (pg_alert s) t i b"
    by (simp add: fun_eq_iff pg_alert_def alert_columns_def)
  then show ?thesis by (simp add: embedded_def)
qed

lemma pg_MutateAlert_simulates:
  assumes "keeps_alert_key f"
  shows "simulates (pg_MutateAlert t i n f) (MutateAlert t i n f)"
proof (rule simulatesI)
  fix s w b s' w'
  assume wf: "pg_wf s" and "pg_MutateAlert t i n f (s, w) = (Inr b, (s', w'))"
  from this(2) obtain r c w1 w2 where m: "pg_alerts s t i = Some r" "n \<le> 0 \<or> al_version (row_alert r) = n"
    "f (row_alert r) w1 = (Inr c, w2)" "b = c\<lparr>al_version := al_version c + 1, al_updated_at := fst (time_now w2)\<rparr>"
    "updateAlertRow b (row_dedup r) s = Inr s'"
    by (rule pg_MutateAlert_cases)
  have "al_id c = al_id (row_alert r)" "al_tenant c = al_tenant (row_alert r)"
    using assms m(3) unfolding keeps_alert_key_def by blast+
  moreover have "row_ok t i r" using wf m(1) by (simp add: pg_wf_def core_wf_def)
  ultimately have key: "al_id b = i" "al_tenant b = t" by (simp_all add: m(4) row_ok_status)
  have "s' = s\<lparr>pg_alerts := upd2 (pg_alerts s) t i (alert_columns b (row_dedup r))\<rparr>"
    using updateAlertRow_cases [OF m(5)] m(1) by (simp add: key)
  moreover have "MutateAlert t i n f (embedded s, w1) =
      (Inr b, ((embedded s)\<lparr>me_alerts := upd2 (pg_alert s) t i b\<rparr>, snd (time_now w2)))"
    using m(1-3) by (auto simp: MutateAlert_def pg_alert_def m(4) case_prod_beta Let_def)
  ultimately show "\<exists>w1 w2. MutateAlert t i n f (embedded s, w1) = (Inr b, (embedded s', w2))"
    by (auto simp: embedded_alert)
next
  fix s w e s' w'
  assume "pg_MutateAlert t i n f (s, w) = (Inl e, (s', w'))" and real: "\<not> storage_error e"
  from transaction_Inl [OF this(1) [unfolded pg_MutateAlert_def] real] obtain w1 sw where "s' = s"
    and body: "op_bind (sql_query (\<lambda>s. found (pg_alerts s t i))) (\<lambda>row.
      if 0 < n \<and> al_version (row_alert row) \<noteq> n then op_fail ErrVersionConflict
      else op_bind (op_world (change_alert f (row_alert row))) (\<lambda>b.
           op_bind (sql_exec (updateAlertRow b (row_dedup row))) (\<lambda>_. op_return b))) (s, w1) = (Inl e, sw)"
    by blast
  show "\<exists>w1 w2. MutateAlert t i n f (embedded s, w1) = (Inl e, (embedded s', w2))"
  proof (cases "pg_alerts s t i")
    case None
    with query_bind_Inl [OF body real] \<open>s' = s\<close> show ?thesis by (simp add: MutateAlert_def pg_alert_def)
  next
    case (Some row)
    with query_bind_Inl [OF body real] obtain w2 where 2: "(if 0 < n \<and> al_version (row_alert row) \<noteq> n then op_fail ErrVersionConflict
      else op_bind (op_world (change_alert f (row_alert row))) (\<lambda>b.
           op_bind (sql_exec (updateAlertRow b (row_dedup row))) (\<lambda>_. op_return b))) (s, w2) = (Inl e, sw)"
      by auto
    show ?thesis
    proof (cases "0 < n \<and> al_version (row_alert row) \<noteq> n")
      case True
      with 2 Some \<open>s' = s\<close> show ?thesis by (simp add: MutateAlert_def pg_alert_def op_fail_def)
    next
      case False
      with 2 have "op_bind (op_world (change_alert f (row_alert row))) (\<lambda>b.
           op_bind (sql_exec (updateAlertRow b (row_dedup row))) (\<lambda>_. op_return b)) (s, w2) = (Inl e, sw)"
        by simp
      from world_bind_Inl [OF this] obtain w3 where "change_alert f (row_alert row) w2 = (Inl e, w3)"
        by (auto dest!: exec_bind_Inl [OF _ real] simp: updateAlertRow_def op_return_def)
      then have "f (row_alert row) w2 = (Inl e, w3)"
        by (auto simp: change_alert_def split: prod.splits sum.splits)
      with False Some have "MutateAlert t i n f (embedded s, w2) = (Inl e, (embedded s, w3))"
        by (intro alerts_versioned.refused) (auto simp: pg_alert_def)
      with \<open>s' = s\<close> show ?thesis by auto
    qed
  qed
qed

lemma pg_MutateIncident_simulates:
  assumes "keeps_incident_key f"
  shows "simulates (pg_MutateIncident t i n f) (MutateIncident t i n f)"
proof (rule simulatesI)
  fix s w y s' w'
  assume wf: "pg_wf s" and "pg_MutateIncident t i n f (s, w) = (Inr y, (s', w'))"
  from this(2) obtain x c w1 w2 where m: "pg_incidents s t i = Some x" "n \<le> 0 \<or> in_version x = n"
    "f x w1 = (Inr c, w2)" "y = c\<lparr>in_version := in_version c + 1, in_updated_at := fst (time_now w2)\<rparr>"
    "s' = s\<lparr>pg_incidents := upd2 (pg_incidents s) t i y\<rparr>"
    by (rule pg_MutateIncident_cases)
  have "MutateIncident t i n f (embedded s, w1) =
      (Inr y, ((embedded s)\<lparr>me_incidents := upd2 (pg_incidents s) t i y\<rparr>, snd (time_now w2)))"
    using m(1-3) by (auto simp: MutateIncident_def m(4) case_prod_beta Let_def)
  then show "\<exists>w1 w2. MutateIncident t i n f (embedded s, w1) = (Inr y, (embedded s', w2))"
    by (auto simp: m(5) embedded_def pg_alert_fun)
next
  fix s w e s' w'
  assume "pg_MutateIncident t i n f (s, w) = (Inl e, (s', w'))" and real: "\<not> storage_error e"
  from transaction_Inl [OF this(1) [unfolded pg_MutateIncident_def] real] obtain w1 sw where "s' = s"
    and body: "op_bind (sql_query (\<lambda>s. found (pg_incidents s t i))) (\<lambda>x.
      if 0 < n \<and> in_version x \<noteq> n then op_fail ErrVersionConflict
      else op_bind (op_world (change_incident f x)) (\<lambda>y.
           op_bind (sql_exec (update_incident_row t i y)) (\<lambda>_. op_return y))) (s, w1) = (Inl e, sw)"
    by blast
  show "\<exists>w1 w2. MutateIncident t i n f (embedded s, w1) = (Inl e, (embedded s', w2))"
  proof (cases "pg_incidents s t i")
    case None
    with query_bind_Inl [OF body real] \<open>s' = s\<close> show ?thesis by (simp add: MutateIncident_def)
  next
    case (Some x)
    with query_bind_Inl [OF body real] obtain w2 where 2: "(if 0 < n \<and> in_version x \<noteq> n then op_fail ErrVersionConflict
      else op_bind (op_world (change_incident f x)) (\<lambda>y.
           op_bind (sql_exec (update_incident_row t i y)) (\<lambda>_. op_return y))) (s, w2) = (Inl e, sw)"
      by auto
    show ?thesis
    proof (cases "0 < n \<and> in_version x \<noteq> n")
      case True
      with 2 Some \<open>s' = s\<close> show ?thesis by (simp add: MutateIncident_def op_fail_def)
    next
      case False
      with 2 have "op_bind (op_world (change_incident f x)) (\<lambda>y.
           op_bind (sql_exec (update_incident_row t i y)) (\<lambda>_. op_return y)) (s, w2) = (Inl e, sw)"
        by simp
      from world_bind_Inl [OF this] obtain w3 where "change_incident f x w2 = (Inl e, w3)"
        by (auto dest!: exec_bind_Inl [OF _ real] simp: update_incident_row_def op_return_def)
      then have "f x w2 = (Inl e, w3)"
        by (auto simp: change_incident_def split: prod.splits sum.splits)
      with False Some have "MutateIncident t i n f (embedded s, w2) = (Inl e, (embedded s, w3))"
        by (intro incidents_versioned.refused) auto
      with \<open>s' = s\<close> show ?thesis by auto
    qed
  qed
qed

definition create_embedded :: "incident \<Rightarrow> (memory, incident) op" where
  "create_embedded x mw = (let (r, m) = CreateIncident x (fst mw) in (r, (m, snd mw)))"

lemma pg_CreateIncident_simulates: "simulates (pg_CreateIncident x) (create_embedded x)"
proof (rule simulatesI)
  fix s w y s' w'
  assume "pg_CreateIncident x (s, w) = (Inr y, (s', w'))"
  from pg_CreateIncident_cases [OF this] have "insert_incident x s = Inr s'" "y = x" by auto
  then have "create_embedded x (embedded s, w) = (Inr y, (embedded s', w))"
    by (simp add: insert_incident_Inr create_embedded_def CreateIncident_def) (simp add: embedded_def pg_alert_fun)
  then show "\<exists>w1 w2. create_embedded x (embedded s, w1) = (Inr y, (embedded s', w2))" by blast
next
  fix s w e s' w'
  assume run: "pg_CreateIncident x (s, w) = (Inl e, (s', w'))" and real: "\<not> storage_error e"
  from pg_CreateIncident_cases [OF run] have s': "s' = s" by auto
  from run have "op_map_error duplicate_as_conflict (sql_exec (insert_incident x)) (s, w) = (Inl e, (s', w'))"
    by (auto simp: pg_CreateIncident_def op_bind_def op_return_def split: prod.splits sum.splits)
  then obtain d where d: "sql_exec (insert_incident x) (s, w) = (Inl d, (s', w'))" "e = duplicate_as_conflict d"
    by (auto simp: op_map_error_def split: prod.splits sum.splits)
  have ins: "insert_incident x s = Inl d" if "d \<noteq> ErrContext"
    using d(1) that by (auto simp: sql_exec_def statement_def Let_def split: prod.splits sum.splits if_splits)
  have "d \<noteq> ErrContext" using d(2) real by (auto simp: duplicate_as_conflict_def)
  with ins have "insert_incident x s = Inl d" by blast
  moreover have "pg_incidents s (in_tenant x) (in_id x) \<noteq> None"
  proof
    assume "pg_incidents s (in_tenant x) (in_id x) = None"
    with \<open>insert_incident x s = Inl d\<close> have "d = foreign_key" by (simp add: insert_incident_def split: if_splits)
    moreover have "\<not> contains ''foreign key'' ''duplicate key''" by code_simp
    ultimately show False using d(2) real by (simp add: duplicate_as_conflict_def foreign_key_def)
  qed
  moreover have dup: "contains ''duplicate key'' ''duplicate key''" by code_simp
  ultimately have "d = duplicate_key" by (simp add: insert_incident_def)
  with dup have "e = ErrVersionConflict"
    using d(2) by (simp add: duplicate_as_conflict_def duplicate_key_def)
  with \<open>pg_incidents s (in_tenant x) (in_id x) \<noteq> None\<close> s'
  show "\<exists>w1 w2. create_embedded x (embedded s, w1) = (Inl e, (embedded s', w2))"
    by (auto simp: create_embedded_def CreateIncident_def)
qed

subsection \<open>Events, findings and the audit log\<close>

lemma embedded_event:
  "embedded (s\<lparr>pg_events := upd2 (pg_events s) t i e, pg_event_keys := snoc (pg_event_keys s) t i\<rparr>) =
     (embedded s)\<lparr>me_events := upd2 (pg_events s) t i e, me_event_order := snoc (pg_event_keys s) t i\<rparr>"
  by (simp add: embedded_def pg_alert_fun)

lemma pg_PutEvent_simulates: "simulates (pg_PutEvent e) (state_op (PutEvent e))"
proof (rule simulatesI)
  fix s w x s' w'
  assume "pg_PutEvent e (s, w) = (Inr x, (s', w'))"
  from statement_bind_Inr [OF this [unfolded pg_PutEvent_def]] obtain ins s1 w1 where
    ins: "insert_event e s = (Inr ins, s1)" and rest: "(if ins then op_return (e, False)
      else op_bind (pg_GetEvent (ev_tenant e) (ev_id e)) (\<lambda>existing. op_return (existing, True))) (s1, w1) = (Inr x, (s', w'))"
    by blast
  show "\<exists>w1 w2. state_op (PutEvent e) (embedded s, w1) = (Inr x, (embedded s', w2))"
  proof (cases ins)
    case True
    with ins have "pg_events s (ev_tenant e) (ev_id e) = None"
      "s1 = s\<lparr>pg_events := upd2 (pg_events s) (ev_tenant e) (ev_id e) e, pg_event_keys := snoc (pg_event_keys s) (ev_tenant e) (ev_id e)\<rparr>"
      by (auto simp: insert_event_def split: option.splits if_splits)
    with True rest show ?thesis by (auto simp: state_op_def PutEvent_def return_Inr embedded_event)
  next
    case False
    with ins obtain old where old: "pg_events s (ev_tenant e) (ev_id e) = Some old" "s1 = s"
      by (auto simp: insert_event_def split: option.splits if_splits)
    from False rest have "op_bind (sql_query (\<lambda>s. found (pg_events s (ev_tenant e) (ev_id e))))
        (\<lambda>existing. op_return (existing, True)) (s1, w1) = (Inr x, (s', w'))"
      by (simp add: pg_GetEvent_def)
    from query_bind_Inr [OF this] old show ?thesis by (auto simp: state_op_def PutEvent_def return_Inr)
  qed
next
  fix s w d s' w'
  assume run: "pg_PutEvent e (s, w) = (Inl d, (s', w'))" and real: "\<not> storage_error d"
  have "storage_error d"
  proof -
    obtain r s1 w1 where st: "statement (insert_event e) (s, w) = (r, (s1, w1))" by (metis prod.exhaust)
    show ?thesis
    proof (cases r)
      case (Inl c)
      with st have "c = ErrContext \<or> c = foreign_key"
        by (auto simp: statement_def insert_event_def Let_def split: prod.splits if_splits option.splits)
      moreover from run st Inl have "d = c" by (simp add: pg_PutEvent_def op_bind_def)
      ultimately show ?thesis by (auto simp: foreign_key_def)
    next
      case (Inr ins)
      with run st have rest: "(if ins then op_return (e, False) else op_bind (pg_GetEvent (ev_tenant e) (ev_id e))
          (\<lambda>existing. op_return (existing, True))) (s1, w1) = (Inl d, (s', w'))"
        by (simp add: pg_PutEvent_def op_bind_def)
      then have "\<not> ins" by (auto simp: op_return_def)
      with st Inr obtain old where old: "pg_events s1 (ev_tenant e) (ev_id e) = Some old"
        by (auto simp: statement_def insert_event_def Let_def split: prod.splits if_splits option.splits)
      from rest \<open>\<not> ins\<close> have "op_bind (sql_query (\<lambda>s. found (pg_events s (ev_tenant e) (ev_id e))))
          (\<lambda>existing. op_return (existing, True)) (s1, w1) = (Inl d, (s', w'))" by (simp add: pg_GetEvent_def)
      from query_bind_Inl [OF this real] old show ?thesis by (auto simp: op_return_def)
    qed
  qed
  with real show "\<exists>w1 w2. state_op (PutEvent e) (embedded s, w1) = (Inl d, (embedded s', w2))" by simp
qed

definition append_embedded :: "audit_entry \<Rightarrow> (memory, audit_entry) op" where
  "append_embedded e mw = (let (a, mw') = AppendAudit e mw in (Inr a, mw'))"

lemma pg_AppendAudit_simulates: "simulates (pg_AppendAudit e) (append_embedded e)"
proof (rule simulatesI)
  fix s w a s' w'
  assume "pg_AppendAudit e (s, w) = (Inr a, (s', w'))"
  then obtain w1 w2 where seal: "seal_audit e (or_zero [] (pg_heads s (au_tenant e))) w1 = (Inr a, w2)"
    and s': "s' = audit_appended a s" by (rule pg_AppendAudit_cases)
  have "me_heads (embedded s) (au_tenant e) = or_zero [] (pg_heads s (au_tenant e))" by simp
  from seal_audit_append [OF seal this] have "AppendAudit e (embedded s, w1) = (a, (embedded s', w2))"
    using seal_audit_Inr(1) [OF seal]
    by (simp add: s' audit_appended_def) (simp add: embedded_def pg_alert_fun fun_eq_iff)
  then have "append_embedded e (embedded s, w1) = (Inr a, (embedded s', w2))"
    by (simp add: append_embedded_def)
  then show "\<exists>w1 w2. append_embedded e (embedded s, w1) = (Inr a, (embedded s', w2))" by blast
next
  fix s w d s' w'
  assume "pg_AppendAudit e (s, w) = (Inl d, (s', w'))" and real: "\<not> storage_error d"
  from transaction_Inl [OF this(1) [unfolded pg_AppendAudit_def] real] obtain w1 sw where
    "appendAuditTx e (s, w1) = (Inl d, sw)" by blast
  then have False
    unfolding appendAuditTx_def using real
    by (auto dest!: query_bind_Inl [OF _ real] exec_bind_Inl [OF _ real] world_bind_Inl
        simp: ensure_head_def insert_audit_def advance_head_def seal_audit_def constraint_defs op_return_def
        split: option.splits if_splits prod.splits)
  then show "\<exists>w1 w2. append_embedded e (embedded s, w1) = (Inl d, (embedded s', w2))" ..
qed

lemma pg_PutFinding_simulates: "simulates (pg_PutFinding f) (state_op (\<lambda>m. ((), PutFinding f m)))"
proof (rule simulatesI)
  fix s w u s' w'
  assume "pg_PutFinding f (s, w) = (Inr u, (s', w'))"
  then have ins: "insert_finding f s = Inr s'" by (auto simp: pg_PutFinding_def dest: sql_exec_Inr)
  have "embedded s' = PutFinding f (embedded s)"
  proof (cases "pg_findings s (fi_tenant f) (fi_id f)")
    case None
    with ins have "s' = s\<lparr>pg_findings := upd2 (pg_findings s) (fi_tenant f) (fi_id f) f,
        pg_finding_keys := snoc (pg_finding_keys s) (fi_tenant f) (fi_id f)\<rparr>"
      by (simp add: insert_finding_def split: if_splits)
    with None show ?thesis by (simp add: PutFinding_def) (simp add: embedded_def pg_alert_fun)
  next
    case (Some g)
    with ins show ?thesis by (simp add: insert_finding_def PutFinding_def)
  qed
  then show "\<exists>w1 w2. state_op (\<lambda>m. ((), PutFinding f m)) (embedded s, w1) = (Inr u, (embedded s', w2))"
    by (simp add: state_op_def)
next
  fix s w d s' w'
  assume "pg_PutFinding f (s, w) = (Inl d, (s', w'))" and real: "\<not> storage_error d"
  then have "storage_error d"
    by (auto simp: pg_PutFinding_def sql_exec_def statement_def insert_finding_def Let_def foreign_key_def
        split: prod.splits sum.splits if_splits option.splits)
  with real show "\<exists>w1 w2. state_op (\<lambda>m. ((), PutFinding f m)) (embedded s, w1) = (Inl d, (embedded s', w2))" ..
qed

lemma query_simulates:
  assumes "\<And>s. f s = g (embedded s)"
  shows "simulates (sql_query f) (pure_op g)"
  unfolding simulates_def
  by (auto simp: sql_query_def statement_def pure_op_def assms Let_def split: prod.splits if_splits)

lemma reads_simulate:
  "simulates (pg_GetEvent t i) (pure_op (GetEvent t i))"
  "simulates (pg_GetAlert t i) (pure_op (GetAlert t i))"
  "simulates (pg_GetIncident t i) (pure_op (GetIncident t i))"
  unfolding pg_GetEvent_def pg_GetAlert_def pg_GetIncident_def
  by (rule query_simulates, simp add: GetEvent_def GetAlert_def GetIncident_def found_def)+

lemma pg_VerifyAudit_simulates: "simulates (pg_VerifyAudit t) (pure_op (\<lambda>m. Inr (VerifyAudit t m)))"
proof (rule simulatesI)
  fix s w b s' w'
  assume run: "pg_VerifyAudit t (s, w) = (Inr b, (s', w'))"
  from query_bind_Inr [OF run [unfolded pg_VerifyAudit_def audit_chain_end_def]] obtain w1 where
    rest: "(case verify_from [] (pg_audit s t) of None \<Rightarrow> op_return False
      | Some previous \<Rightarrow> audit_head_is t previous) (s, w1) = (Inr b, (s', w'))" by auto
  have "s' = s \<and> b = VerifyAudit t (embedded s)"
  proof (cases "verify_from [] (pg_audit s t)")
    case None
    with rest show ?thesis by (simp add: return_Inr VerifyAudit_def)
  next
    case (Some previous)
    with rest have "op_bind (sql_query (\<lambda>s. Inr (pg_heads s t))) (\<lambda>head.
        op_return (case head of None \<Rightarrow> previous = [] | Some h \<Rightarrow> previous = h)) (s, w1) = (Inr b, (s', w'))"
      by (simp add: audit_head_is_def)
    from query_bind_Inr [OF this] Some show ?thesis
      by (auto simp: return_Inr VerifyAudit_def or_zero_def split: option.splits)
  qed
  then show "\<exists>w1 w2. pure_op (\<lambda>m. Inr (VerifyAudit t m)) (embedded s, w1) = (Inr b, (embedded s', w2))"
    by (simp add: pure_op_def)
next
  fix s w d s' w'
  assume run: "pg_VerifyAudit t (s, w) = (Inl d, (s', w'))" and real: "\<not> storage_error d"
  from query_bind_Inl [OF run [unfolded pg_VerifyAudit_def audit_chain_end_def] real] obtain w1 where
    "(case verify_from [] (pg_audit s t) of None \<Rightarrow> op_return False
      | Some previous \<Rightarrow> audit_head_is t previous) (s, w1) = (Inl d, (s', w'))" by auto
  then have False
    by (auto simp: op_return_def audit_head_is_def dest!: query_bind_Inl [OF _ real] split: option.splits)
  then show "\<exists>w1 w2. pure_op (\<lambda>m. Inr (VerifyAudit t m)) (embedded s, w1) = (Inl d, (embedded s', w2))" ..
qed

end
