(* ===== verification/Postgres_Soc.thy ===== *)
theory Postgres_Soc
  imports Store_Refinement Soc_Properties
begin

text \<open>
  The SOC service on the durable store. The contract of \<open>Soc_Contract\<close> is interpreted a second time,
  on \<open>pg_soc_port\<close>: the relations are those of the embedded store, carried over along the
  refinement of \<open>Store_Refinement\<close>.
\<close>

definition pg_soc_port :: "(incident \<Rightarrow> string \<Rightarrow> bool) \<Rightarrow> pg soc_port" where
  "pg_soc_port matches =
    \<lparr>port_ListIncidents = pg_ListIncidents matches, port_GetAlert = pg_GetAlert,
     port_MutateAlert = pg_MutateAlert, port_CreateIncident = pg_CreateIncident,
     port_MutateIncident = pg_MutateIncident, port_AppendAudit = pg_AppendAudit\<rparr>"

lemma pg_soc_port_simps [simp]:
  "port_ListIncidents (pg_soc_port q) = pg_ListIncidents q" "port_GetAlert (pg_soc_port q) = pg_GetAlert"
  "port_MutateAlert (pg_soc_port q) = pg_MutateAlert" "port_CreateIncident (pg_soc_port q) = pg_CreateIncident"
  "port_MutateIncident (pg_soc_port q) = pg_MutateIncident" "port_AppendAudit (pg_soc_port q) = pg_AppendAudit"
  by (simp_all add: pg_soc_port_def)

definition durable :: "(memory \<Rightarrow> memory \<Rightarrow> bool) \<Rightarrow> pg \<Rightarrow> pg \<Rightarrow> bool" where
  "durable R s s' \<longleftrightarrow> (pg_wf s \<longrightarrow> pg_wf s' \<and> R (embedded s) (embedded s'))"

text \<open>
  A relation the embedded operation keeps, the durable one keeps: where it answers it simulates,
  where it fails it has changed nothing.
\<close>

lemma durable_transfer:
  assumes sim: "simulates f g" and atom: "atomic f" and wf: "op_rel (keeps pg_wf) f"
    and rel: "op_rel R g" and refl: "\<And>m. R m m"
  shows "op_rel (durable R) f"
proof (rule op_relI)
  fix s w r s' w'
  assume run: "f (s, w) = (r, (s', w'))"
  show "durable R s s'"
    unfolding durable_def
  proof (intro impI conjI)
    assume s: "pg_wf s"
    with op_relD [OF wf run] show "pg_wf s'" by (simp add: keeps_def)
    show "R (embedded s) (embedded s')"
    proof (cases "storage_failure r")
      case True
      then obtain e where "r = Inl e" by (auto simp: storage_failure_def split: sum.splits)
      with atom run have "s' = s" by (auto dest: atomicD)
      then show ?thesis by (simp add: refl)
    next
      case False
      with sim s run obtain w1 w2 where "g (embedded s, w1) = (r, (embedded s', w2))"
        unfolding simulates_def by blast
      with rel show ?thesis by (rule op_relD)
    qed
  qed
qed

lemma durable_read: "(\<And>m. R m m) \<Longrightarrow> op_rel (durable R) (sql_query f)"
  by (rule op_relI) (auto simp: durable_def sql_query_def statement_def Let_def split: prod.splits if_splits)

lemma durable_refl: "(\<And>m. R m m) \<Longrightarrow> durable R s s"
  by (simp add: durable_def)

lemma durable_trans:
  assumes "\<And>a b c. R a b \<Longrightarrow> R b c \<Longrightarrow> R a c" "durable R s1 s2" "durable R s2 s3"
  shows "durable R s1 s3"
  using assms unfolding durable_def by blast

lemma durable_MutateAlert:
  assumes "keeps_alert_key f" "op_rel R (MutateAlert t i n f)" "\<And>m. R m m"
  shows "op_rel (durable R) (pg_MutateAlert t i n f)"
  by (rule durable_transfer [OF pg_MutateAlert_simulates [OF assms(1)] _ keeps_MutateAlert [OF assms(1)] assms(2,3)])
    (simp add: pg_MutateAlert_def atomic_transaction)

lemma durable_MutateIncident:
  assumes "keeps_incident_key f" "op_rel R (MutateIncident t i n f)" "\<And>m. R m m"
  shows "op_rel (durable R) (pg_MutateIncident t i n f)"
  by (rule durable_transfer [OF pg_MutateIncident_simulates [OF assms(1)] _ keeps_MutateIncident [OF assms(1)] assms(2,3)])
    (simp add: pg_MutateIncident_def atomic_transaction)

lemma durable_CreateIncident:
  assumes "op_rel R (create_embedded x)" "\<And>m. R m m"
  shows "op_rel (durable R) (pg_CreateIncident x)"
  by (rule durable_transfer [OF pg_CreateIncident_simulates CreateIncident_atomic keeps_CreateIncident assms])

lemma durable_AppendAudit:
  assumes "op_rel R (append_embedded e)" "\<And>m. R m m"
  shows "op_rel (durable R) (pg_AppendAudit e)"
  by (rule durable_transfer [OF pg_AppendAudit_simulates _ keeps_AppendAudit assms])
    (simp add: pg_AppendAudit_def atomic_transaction)

lemma alert_change_keeps_key: "keeps_alert_key (alert_change now p)"
  unfolding keeps_alert_key_def using alert_change_Inr(2,3) by blast

lemma link_change_keeps_key: "keeps_alert_key (link_change input)"
  unfolding keeps_alert_key_def by (auto dest: link_change_simps)

lemma incident_change_keeps_key: "keeps_incident_key (incident_change now actor p)"
  unfolding keeps_incident_key_def using incident_change_key(1,2) by blast

lemmas change_keys = alert_change_keeps_key link_change_keeps_key incident_change_keeps_key

lemma create_embedded_rel:
  assumes "\<And>m. R m m" "\<And>m. me_incidents m (in_tenant x) (in_id x) = None \<Longrightarrow> R m (snd (CreateIncident x m))"
  shows "op_rel R (create_embedded x)"
proof (rule op_relI)
  fix s w r s' w'
  assume "create_embedded x (s, w) = (r, (s', w'))"
  then have s': "s' = snd (CreateIncident x s)" by (auto simp: create_embedded_def case_prod_beta)
  show "R s s'"
  proof (cases "me_incidents s (in_tenant x) (in_id x)")
    case None
    then show ?thesis by (simp add: s' assms(2))
  next
    case (Some y)
    then show ?thesis by (simp add: s' CreateIncident_def assms(1))
  qed
qed

lemma append_embedded_rel:
  assumes "\<And>m e' w w' m'. AppendAudit e (m, w) = (e', (m', w')) \<Longrightarrow> R m m'"
  shows "op_rel R (append_embedded e)"
proof (rule op_relI)
  fix s w r s' w'
  assume "append_embedded e (s, w) = (r, (s', w'))"
  then have "AppendAudit e (s, w) = (fst (AppendAudit e (s, w)), (s', w'))"
    by (cases "AppendAudit e (s, w)") (simp add: append_embedded_def)
  then show "R s s'" by (rule assms)
qed

subsection \<open>The contract, interpreted\<close>

interpretation durable_history: soc_contract "durable soc_advances" "pg_soc_port matches" t for matches t
proof (unfold_locales, goal_cases)
  case (1 s)
  show ?case by (simp add: durable_refl)
next
  case (2 s1 s2 s3)
  then show ?case using durable_trans soc_advances_trans by blast
next
  case (3 f)
  show ?case by (simp add: pg_ListIncidents_def durable_read)
next
  case (4 i)
  show ?case by (simp add: pg_GetAlert_def durable_read)
next
  case (5 i n now p)
  show ?case
    by (auto simp: soc_advances_def change_keys intro!: durable_MutateAlert MutateAlert_op_rel dest!: alert_change_advances)
next
  case (6 i input)
  show ?case
    by (auto simp: soc_advances_def change_keys intro!: durable_MutateAlert MutateAlert_op_rel dest!: link_change_advances)
next
  case (7 x)
  show ?case
    by (auto simp: soc_advances_def CreateIncident_def intro!: durable_CreateIncident create_embedded_rel)
next
  case (8 i n now actor q)
  show ?case
    by (auto simp: soc_advances_def change_keys intro!: durable_MutateIncident MutateIncident_op_rel
        dest!: incident_change_advances)
next
  case (9 e)
  show ?case
    by (auto simp: soc_advances_def intro!: durable_AppendAudit append_embedded_rel dest!: AppendAudit_cases(4))
qed

interpretation durable_isolation: soc_contract "durable (only_tenant t)" "pg_soc_port matches" t for matches t
proof (unfold_locales, goal_cases)
  case (1 s)
  show ?case by (simp add: durable_refl only_tenant_def)
next
  case (2 s1 s2 s3)
  then show ?case by (rule durable_trans [rotated]) (simp add: only_tenant_def)
next
  case (3 f)
  show ?case by (simp add: pg_ListIncidents_def durable_read only_tenant_def)
next
  case (4 i)
  show ?case by (simp add: pg_GetAlert_def durable_read only_tenant_def)
next
  case (5 i n now p)
  show ?case
    by (auto simp: only_tenant_def tenant_view_def change_keys intro!: durable_MutateAlert MutateAlert_op_rel)
next
  case (6 i input)
  show ?case
    by (auto simp: only_tenant_def tenant_view_def change_keys intro!: durable_MutateAlert MutateAlert_op_rel)
next
  case (7 x)
  then show ?case
    by (auto simp: only_tenant_def tenant_view_def CreateIncident_def intro!: durable_CreateIncident create_embedded_rel)
next
  case (8 i n now actor q)
  show ?case
    by (auto simp: only_tenant_def tenant_view_def change_keys intro!: durable_MutateIncident MutateIncident_op_rel)
next
  case (9 e)
  then show ?case
    by (auto simp: only_tenant_def tenant_view_def intro!: durable_AppendAudit append_embedded_rel dest!: AppendAudit_cases(4))
qed

end
