(* ===== verification/Postgres_Properties.thy ===== *)
theory Postgres_Properties
  imports Postgres_Soc
begin

text \<open>
  The properties of the durable store: its invariant, its refinement of the embedded store, and
  the SOC service on it.
\<close>

subsection \<open>A sample database\<close>

lemma transaction_run:
  assumes "live w" "body (s, snd (ctx_err w)) = (Inr x, (s', w'))" "live w'"
  shows "transaction body (s, w) = (Inr x, (s', snd (ctx_err w')))"
  using assms by (simp add: transaction_def rollback_def op_bind_def op_return_def sql_query_live)

definition sample_db :: pg where
  "sample_db = empty_pg\<lparr>pg_tenants := [''acme'' \<mapsto> ''Acme''], pg_heads := [''acme'' \<mapsto> []]\<rparr>"

lemma sample_ensured:
  "\<exists>w. EnsureTenant ''acme'' '' Acme '' (empty_pg, sample_world) = (Inr (), (sample_db, w)) \<and> live w"
proof -
  have t: "trim_space ''acme'' = ''acme''" "trim_space '' Acme '' = ''Acme''" by (code_simp)+
  let ?body = "op_bind (sql_exec (upsert_tenant ''acme'' ''Acme'')) (\<lambda>_. sql_exec (ensure_head ''acme''))"
  have body: "?body (empty_pg, snd (ctx_err sample_world)) =
      (Inr (), (sample_db, snd (ctx_err (snd (ctx_err (snd (ctx_err sample_world)))))))"
    by (simp add: op_bind_def sql_exec_live upsert_tenant_def ensure_head_def sample_db_def empty_pg_def fun_eq_iff)
  have "transaction ?body (empty_pg, sample_world) =
      (Inr (), (sample_db, snd (ctx_err (snd (ctx_err (snd (ctx_err (snd (ctx_err sample_world)))))))))"
    by (rule transaction_run [where body = ?body, OF live_sample body]) simp
  then show ?thesis by (simp add: EnsureTenant_def t Let_def)
qed

lemma sample_db_reachable: "\<exists>w. pg_reachable (sample_db, w) \<and> live w"
  using sample_ensured pg_reachable.step [OF pg_reachable.start pg_step.ensure] by blast

lemma sample_db_wf: "pg_wf sample_db"
  by (simp add: sample_db_def pg_wf_def core_wf_def case_wf_def evidence_wf_def empty_pg_def audit_sealed_def
      custody_ok_def custody_of_def or_zero_def)

section \<open>Properties\<close>





subsection \<open>The SOC service on the durable store\<close>

fun durable_handle :: "(incident \<Rightarrow> string \<Rightarrow> bool) \<Rightarrow> soc_request \<Rightarrow> pg \<times> world \<Rightarrow> pg \<times> world" where
  "durable_handle q (Triage t i actor req p) sw = snd (UpdateAlert (pg_soc_port q) t i actor req p sw)"
| "durable_handle q (Promote t actor input) sw = snd (SocCreateIncident (pg_soc_port q) t actor input sw)"
| "durable_handle q (Progress t i actor p) sw = snd (UpdateIncident (pg_soc_port q) t i actor p sw)"

fun durable_serve :: "(incident \<Rightarrow> string \<Rightarrow> bool) \<Rightarrow> soc_request list \<Rightarrow> pg \<times> world \<Rightarrow> pg \<times> world" where
  "durable_serve q [] sw = sw"
| "durable_serve q (r # rs) sw = durable_serve q rs (durable_handle q r sw)"

lemma durable_handle_history: "durable soc_advances (fst sw) (fst (durable_handle q r sw))"
  by (cases r) (simp_all add: op_rel_snd durable_history.update_alert_rel durable_history.create_incident_rel
      durable_history.update_incident_rel)

lemma durable_handle_isolated: "durable (only_tenant (request_tenant r)) (fst sw) (fst (durable_handle q r sw))"
  by (cases r) (simp_all add: op_rel_snd durable_isolation.update_alert_rel durable_isolation.create_incident_rel
      durable_isolation.update_incident_rel)

lemma durable_serve_history: "durable soc_advances (fst sw) (fst (durable_serve q rs sw))"
proof (induction q rs sw rule: durable_serve.induct)
  case (2 q r rs sw)
  show ?case
    using durable_trans [OF soc_advances_trans durable_handle_history 2] by simp
qed (simp add: durable_refl)

lemma durable_serve_isolated:
  "t \<notin> request_tenant ` set rs \<Longrightarrow> pg_wf (fst sw) \<Longrightarrow>
   tenant_view t (embedded (fst (durable_serve q rs sw))) = tenant_view t (embedded (fst sw))"
proof (induction q rs sw rule: durable_serve.induct)
  case (2 q r rs sw)
  then show ?case
    using durable_handle_isolated [of r sw q] by (auto simp: only_tenant_def durable_def)
qed simp

text \<open>On the durable store, whatever SOC requests are served and wherever their statements are
  interrupted, the database stays well formed, no alert or incident is lost, statuses only move
  forward, timelines and audit logs are only extended, and a tenant that issued none of the
  requests sees no change.\<close>

theorem durable_soc_histories:
  assumes "pg_wf s"
  shows "pg_wf (fst (durable_serve q requests (s, w))) \<and>
    soc_advances (embedded s) (embedded (fst (durable_serve q requests (s, w)))) \<and>
    (\<forall>t. t \<notin> request_tenant ` set requests \<longrightarrow>
       tenant_view t (embedded (fst (durable_serve q requests (s, w)))) = tenant_view t (embedded s))"
  using assms durable_serve_history [of "(s, w)" q requests] durable_serve_isolated [where rs = requests and sw = "(s, w)"]
  by (simp add: durable_def)

theorem durable_soc_histories_witness:
  "let s = fst (durable_serve (\<lambda>_ _. False) [Triage ''acme'' ''alt_1'' ''bob'' ''req'' close_patch] (sample_db, sample_world))
   in pg_wf s \<and> soc_advances (embedded sample_db) (embedded s) \<and>
      tenant_view ''other'' (embedded s) = tenant_view ''other'' (embedded sample_db)"
  using durable_soc_histories [OF sample_db_wf,
      of "\<lambda>_ _. False" "[Triage ''acme'' ''alt_1'' ''bob'' ''req'' close_patch]" sample_world]
  by (simp add: Let_def)

end
