(* ===== verification/Json_Text.thy ===== *)
theory Json_Text
  imports Go_Json Go_Time
begin

text \<open>
  What a JSON text determines. A quoted string delimits itself: its closing quote is found by
  reading, so that fields written one after the other can be told apart. A string of plain
  characters is quoted as it stands, so that it can be found from the end of a text as well.
\<close>

subsection \<open>Quoted strings delimit themselves\<close>

definition dquote :: char where "dquote = CHR 0x22"

text \<open>What follows the closing quote of a string whose opening quote has been read.\<close>

fun string_end :: "string \<Rightarrow> string option" where
  "string_end [] = None"
| "string_end [c] = (if c = dquote then Some [] else None)"
| "string_end (c # d # r) =
     (if c = dquote then Some (d # r) else if c = bslash then string_end r else string_end (d # r))"

lemma string_end_quote [simp]: "string_end (dquote # r) = Some r"
  by (cases r) simp_all

lemma string_end_escape [simp]: "string_end (bslash # c # r) = string_end r"
  by (simp add: dquote_def bslash_def)

definition plain :: "char \<Rightarrow> bool" where
  "plain c \<longleftrightarrow> c \<noteq> dquote \<and> c \<noteq> bslash"

lemma string_end_plain: "plain c \<Longrightarrow> string_end (c # r) = string_end r"
  by (cases r) (simp_all add: plain_def)

declare string_end.simps [simp del]

lemma string_end_plains: "list_all plain ps \<Longrightarrow> string_end (ps @ r) = string_end r"
  by (induction ps) (simp_all add: string_end_plain)

lemma plain_char_of: "b < 256 \<Longrightarrow> b \<noteq> 34 \<Longrightarrow> b \<noteq> 92 \<Longrightarrow> plain (char_of (b :: nat))"
  by (auto simp: plain_def dquote_def bslash_def char_of_eq_iff take_bit_eq_mod)

lemma utf8_bytes:
  assumes "0 < utf8_len (b # bs)" "128 \<le> b"
  shows "list_all plain (map char_of (take (utf8_len (b # bs)) (b # bs)))"
  using assms
  by (auto simp: utf8_len_def cont_byte_def numeral_eq_Suc plain_char_of split: if_splits list.splits)

lemma hex_digit_plain: "d < 16 \<Longrightarrow> plain (hex_digit d)"
  by (auto simp: hex_digit_def intro: plain_char_of)

lemma escape_ascii_cases:
  assumes "b < 128"
  shows "(\<exists>x. escape_ascii b = [bslash, x]) \<or>
    escape_ascii b = bslash # CHR ''u'' # CHR ''0'' # CHR ''0'' # [hex_digit (b div 16), hex_digit (b mod 16)] \<or>
    escape_ascii b = [char_of b] \<and> plain (char_of b)"
  using assms by (simp add: escape_ascii_def plain_char_of)

lemma string_end_unicode [simp]:
  "string_end (CHR ''f'' # CHR ''f'' # CHR ''f'' # CHR ''d'' # r) = string_end r"
  "string_end (CHR ''2'' # CHR ''0'' # CHR ''2'' # CHR ''8'' # r) = string_end r"
  "string_end (CHR ''2'' # CHR ''0'' # CHR ''2'' # CHR ''9'' # r) = string_end r"
  "string_end (CHR ''0'' # CHR ''0'' # r) = string_end r"
  by (simp_all add: string_end_plain plain_def dquote_def bslash_def)

lemma string_end_ascii [simp]:
  assumes "b < 128"
  shows "string_end (escape_ascii b @ r) = string_end r"
  using escape_ascii_cases [OF assms] assms by (auto simp: string_end_plain hex_digit_plain)

lemma string_end_escape_bytes:
  assumes "length bs \<le> n"
  shows "string_end (escape_bytes n bs @ dquote # r) = Some r"
  using assms
proof (induction n bs rule: escape_bytes.induct)
  case (3 n b bs)
  show ?case
  proof (cases "b < 128")
    case True
    with 3 show ?thesis by (simp add: string_end_ascii)
  next
    case False
    let ?k = "utf8_len (b # bs)"
    consider (bad) "?k = 0" | (sep) "0 < ?k" "take 3 (b # bs) = [226, 128, 168]"
      | (par) "0 < ?k" "take 3 (b # bs) = [226, 128, 169]"
      | (raw) "0 < ?k" "take 3 (b # bs) \<noteq> [226, 128, 168]" "take 3 (b # bs) \<noteq> [226, 128, 169]" by blast
    then show ?thesis
    proof cases
      case bad
      with False 3 show ?thesis by (simp add: Let_def)
    next
      case sep
      with False 3 show ?thesis by (simp add: Let_def)
    next
      case par
      with False 3 show ?thesis by (simp add: Let_def)
    next
      case raw
      have "string_end (map char_of (take ?k (b # bs)) @ escape_bytes n (drop (?k - 1) bs) @ dquote # r) = Some r"
        using raw False 3 utf8_bytes [of b bs] by (simp only: string_end_plains not_less) simp
      with raw False show ?thesis by (auto simp: Let_def)
    qed
  qed
qed simp_all

lemma quote_delimited:
  assumes "quote a @ r = quote b @ r'"
  shows "quote a = quote b \<and> r = r'"
proof -
  have "string_end (tl (quote x @ t)) = Some t" for x t
    using string_end_escape_bytes [of "map of_char x" "length x" t] by (simp add: quote_def dquote_def)
  then have "Some r = Some r'" using assms by metis
  with assms show ?thesis by simp
qed

subsection \<open>Text that is quoted as it stands\<close>

definition safe :: "char \<Rightarrow> bool" where
  "safe c \<longleftrightarrow> (let b = of_char c :: nat in 32 \<le> b \<and> b < 127 \<and> b \<notin> {34, 92, 60, 62, 38})"

lemma safe_not_quote: "safe c \<Longrightarrow> c \<noteq> dquote"
  by (auto simp: safe_def dquote_def Let_def)

lemma escape_safe: "list_all safe s \<Longrightarrow> length s \<le> n \<Longrightarrow> escape_bytes n (map of_char s) = s"
proof (induction s arbitrary: n)
  case (Cons c s)
  then obtain m where "n = Suc m" "length s \<le> m" by (cases n) auto
  with Cons show ?case by (auto simp: safe_def Let_def escape_ascii_def)
qed simp

lemma quote_safe: "list_all safe s \<Longrightarrow> quote s = dquote # s @ [dquote]"
  by (simp add: quote_def escape_safe dquote_def)

lemma last_field:
  assumes "a @ dquote # x = b @ dquote # y" "list_all safe x" "list_all safe y"
  shows "a = b \<and> x = y"
proof -
  have "takeWhile (\<lambda>c. c \<noteq> dquote) (rev (u @ dquote # v)) = rev v" if "list_all safe v" for u v
  proof -
    from that have "\<And>c. c \<in> set (rev v) \<Longrightarrow> c \<noteq> dquote" by (auto simp: list_all_iff dest: safe_not_quote)
    then have "takeWhile (\<lambda>c. c \<noteq> dquote) (rev v @ dquote # rev u) = rev v @ takeWhile (\<lambda>c. c \<noteq> dquote) (dquote # rev u)"
      by (rule takeWhile_append2)
    then show ?thesis by simp
  qed
  then have "rev x = rev y" using assms by metis
  with assms(1) show ?thesis by simp
qed

lemma last_field_before:
  assumes "a @ dquote # x @ t = b @ dquote # y @ t" "list_all safe x" "list_all safe y"
  shows "a = b \<and> x = y"
proof (rule last_field [OF _ assms(2,3)])
  have "(a @ dquote # x) @ t = (b @ dquote # y) @ t" using assms(1) by simp
  then show "a @ dquote # x = b @ dquote # y" by (simp only: append_same_eq)
qed

lemma safe_digit: "d < 10 \<Longrightarrow> safe (digit d)"
  by (auto simp: safe_def digit_def Let_def)

lemma safe_nat_dec: "list_all safe (nat_dec n)"
proof (induction n rule: nat_dec.induct)
  case (1 n)
  then show ?case by (subst nat_dec.simps) (simp add: safe_digit)
qed

lemma safe_chars: "safe (CHR ''0'')" "safe (CHR ''-'')" "safe (CHR ''T'')" "safe (CHR '':'')" "safe (CHR ''.'')"
  "safe (CHR ''Z'')"
  by (simp_all add: safe_def)

lemma safe_zero_pad: "list_all safe (zero_pad w n)"
proof -
  have "list_all safe (replicate k (CHR ''0''))" for k by (induction k) (simp_all add: safe_chars)
  then show ?thesis by (simp add: zero_pad_def Let_def safe_nat_dec)
qed

lemma safe_drop_zeros: "list_all safe s \<Longrightarrow> list_all safe (drop_zeros s)"
  unfolding drop_zeros_def list_all_iff set_rev by (auto dest: set_dropWhileD)

lemma safe_rfc3339nano: "list_all safe (rfc3339nano t)"
  by (simp add: rfc3339nano_def two_def year4_def safe_zero_pad safe_drop_zeros safe_chars Let_def split: prod.split)

lemma safe_hex_digit: "d < 16 \<Longrightarrow> safe (hex_digit d)"
  by (auto simp: safe_def hex_digit_def Let_def)

lemma safe_hex_encode: "list_all safe (hex_encode s)"
proof (induction s)
  case (Cons c s)
  have "(of_char c :: nat) < 256" by simp
  then have "(of_char c :: nat) div 16 < 16" by (intro less_mult_imp_div_less) simp
  with Cons show ?case by (simp add: hex_encode_def hex_byte_def Let_def safe_hex_digit)
qed (simp add: hex_encode_def)

end
