(* ===== verification/Evidence_Properties.thy ===== *)
theory Evidence_Properties
  imports Postgres_Properties Json_Text
begin

text \<open>
  The properties of the evidence store: the chain of custody binds who did what to an item and
  why, and the life of an item only moves forward.
\<close>

subsection \<open>What the hashed text of an entry determines\<close>

lemma custody_text_eq:
  "custody_text e =
     ''{'' @ quote ''tenant_id'' @ '':'' @ quote (cu_tenant e) @ '','' @
     quote ''evidence_id'' @ '':'' @ quote (cu_evidence e) @ '','' @
     quote ''custody_id'' @ '':'' @ quote (cu_id e) @ '','' @
     quote ''actor'' @ '':'' @ quote (cu_actor e) @ '','' @
     quote ''action'' @ '':'' @ quote (cu_action e) @ '','' @
     quote ''reason'' @ '':'' @ quote (cu_reason e) @ '','' @
     quote ''request_id'' @ '':'' @ quote (cu_request e) @ '','' @
     quote ''metadata'' @ '':'' @ marshal (cu_metadata e) @ '','' @
     quote ''previous_hash'' @ '':'' @ quote (cu_previous_hash e) @ '','' @
     quote ''created_at'' @ '':'' @ quote (rfc3339nano (cu_created_at e)) @ ''}''"
  by (simp add: custody_text_def)

text \<open>Who did what to which item and why, and what was recorded with it, as JSON writes it.\<close>

definition custody_record :: "custody_entry \<Rightarrow> string list" where
  "custody_record e =
    map quote [cu_tenant e, cu_evidence e, cu_id e, cu_actor e, cu_action e, cu_reason e, cu_request e] @
    [marshal (cu_metadata e), cu_previous_hash e, rfc3339nano (cu_created_at e)]"

lemma custody_text_inj:
  assumes "custody_text e = custody_text f" "list_all safe (cu_previous_hash e)" "list_all safe (cu_previous_hash f)"
  shows "custody_record e = custody_record f"
proof -
  let ?m = "\<lambda>e. quote ''metadata'' @ '':'' @ marshal (cu_metadata e) @ '','' @ quote ''previous_hash'' @ '':''"
  let ?c = "'','' @ quote ''created_at'' @ '':''"
  let ?q = "\<lambda>e. quote (cu_previous_hash e)"
  let ?t = "\<lambda>e. rfc3339nano (cu_created_at e)"
  let ?r = "\<lambda>e. ?m e @ ?q e @ ?c @ quote (?t e) @ ''}''"
  from assms(1) have fields: "map quote [cu_tenant e, cu_evidence e, cu_id e, cu_actor e, cu_action e, cu_reason e, cu_request e] =
      map quote [cu_tenant f, cu_evidence f, cu_id f, cu_actor f, cu_action f, cu_reason f, cu_request f]"
    and rest: "?r e = ?r f"
    by (auto simp: custody_text_eq dest!: quote_delimited)
  have h: "?r x = (?m x @ ?q x @ ?c) @ dquote # ?t x @ (dquote # ''}'')" for x
    by (simp only: quote_safe [OF safe_rfc3339nano] append_assoc append_Cons append_Nil)
  have "(?m e @ ?q e @ ?c) @ dquote # ?t e @ (dquote # ''}'') = (?m f @ ?q f @ ?c) @ dquote # ?t f @ (dquote # ''}'')"
    by (rule trans [OF h [symmetric] trans [OF rest h]])
  from last_field_before [OF this safe_rfc3339nano safe_rfc3339nano]
  have created: "?t e = ?t f" and mid: "?m e @ ?q e @ ?c = ?m f @ ?q f @ ?c" by (rule conjunct2, rule conjunct1)
  have k: "?m x @ ?q x @ ?c = ?m x @ dquote # cu_previous_hash x @ (dquote # ?c)"
    if "list_all safe (cu_previous_hash x)" for x
    by (simp only: quote_safe [OF that] append_assoc append_Cons append_Nil)
  have "?m e @ dquote # cu_previous_hash e @ (dquote # ?c) = ?m f @ dquote # cu_previous_hash f @ (dquote # ?c)"
    by (rule trans [OF k [OF assms(2), symmetric] trans [OF mid k [OF assms(3)]]])
  from last_field_before [OF this assms(2,3)]
  have prev: "cu_previous_hash e = cu_previous_hash f" and m: "?m e = ?m f" by (rule conjunct2, rule conjunct1)
  from m have "(quote ''metadata'' @ '':'') @ marshal (cu_metadata e) @ ('','' @ quote ''previous_hash'' @ '':'') =
      (quote ''metadata'' @ '':'') @ marshal (cu_metadata f) @ ('','' @ quote ''previous_hash'' @ '':'')"
    by (simp only: append_assoc)
  then have "marshal (cu_metadata e) = marshal (cu_metadata f)" by (simp only: same_append_eq append_same_eq)
  with fields created prev show ?thesis by (simp add: custody_record_def)
qed

subsection \<open>Chains with the same head\<close>

definition custody_collision :: "custody_entry list \<Rightarrow> custody_entry list \<Rightarrow> bool" where
  "custody_collision es fs \<longleftrightarrow>
     (\<exists>e \<in> set es. \<exists>f \<in> set fs. custody_text e \<noteq> custody_text f \<and> sha256 (custody_text e) = sha256 (custody_text f))"

lemma custody_from_end:
  assumes "custody_from [] es = Some h"
  shows "list_all safe h \<and> (h = [] \<longleftrightarrow> es = [])"
proof (cases es rule: rev_cases)
  case Nil
  with assms show ?thesis by simp
next
  case (snoc fs f)
  with assms have "h = sha256_hex (custody_text f)"
    by (auto simp: custody_from_snoc evidenceCustodyHash_def)
  with snoc show ?thesis by (simp add: sha256_hex_def safe_hex_encode) (metis sha256_hex_def sha256_hex_nonempty)
qed

lemma custody_same_head:
  assumes "custody_from [] es = Some h" "custody_from [] fs = Some h" "\<not> custody_collision es fs"
  shows "map custody_record es = map custody_record fs"
  using assms
proof (induction es arbitrary: fs h rule: rev_induct)
  case Nil
  then have "fs = []" using custody_from_end by auto
  then show ?case by simp
next
  case (snoc e es)
  from snoc.prems(1,2) have "fs \<noteq> []" using custody_from_end by blast
  then obtain fs' f where fs: "fs = fs' @ [f]" by (metis rev_exhaust)
  from snoc.prems(1) obtain q where q: "custody_from [] es = Some q" "cu_previous_hash e = q"
    "evidenceCustodyHash e = h" by (auto simp: custody_from_snoc)
  from snoc.prems(2) fs obtain r where r: "custody_from [] fs' = Some r" "cu_previous_hash f = r"
    "evidenceCustodyHash f = h" by (auto simp: custody_from_snoc)
  from q(3) r(3) have "sha256 (custody_text e) = sha256 (custody_text f)"
    by (simp add: evidenceCustodyHash_def sha256_hex_eq_iff [symmetric])
  then have "custody_text e = custody_text f"
    using snoc.prems(3) fs by (auto simp: custody_collision_def)
  then have same: "custody_record e = custody_record f"
    by (rule custody_text_inj) (use q r custody_from_end in auto)
  then have "q = r" using q(2) r(2) by (simp add: custody_record_def)
  with q(1) r(1) have "map custody_record es = map custody_record fs'"
    using snoc.IH [of q fs'] snoc.prems(3) fs by (auto simp: custody_collision_def)
  with same fs show ?case by simp
qed

lemma VerifyEvidenceCustody_True:
  assumes "VerifyEvidenceCustody t i (s, w) = (Inr True, (s', w'))"
  obtains x where "pg_evidence s t i = Some x" "custody_of t i s \<noteq> []"
    "custody_from [] (custody_of t i s) = Some (ei_head_hash x)"
proof -
  from query_bind_Inr [OF assms [unfolded VerifyEvidenceCustody_def ListEvidenceCustody_def]] obtain w1 where
    run: "(if custody_of t i s = [] then op_return False
      else case custody_from [] (custody_of t i s) of None \<Rightarrow> op_return False
        | Some previous \<Rightarrow> op_bind (Evidence t i) (\<lambda>x. op_return (ei_head_hash x = previous))) (s, w1) = (Inr True, (s', w'))"
    by auto
  then obtain previous where p: "custody_of t i s \<noteq> []" "custody_from [] (custody_of t i s) = Some previous"
    "op_bind (Evidence t i) (\<lambda>x. op_return (ei_head_hash x = previous)) (s, w1) = (Inr True, (s', w'))"
    by (auto simp: op_return_def split: if_splits option.splits)
  from query_bind_Inr [OF p(3) [unfolded Evidence_def]] p(1,2) that show thesis
    by (auto simp: return_Inr)
qed

subsection \<open>The life of an item\<close>

text \<open>The fields no operation changes.\<close>

definition item_identity :: "evidence_item \<Rightarrow> evidence_item" where
  "item_identity x =
    x\<lparr>ei_status := [], ei_object_version := [], ei_etag := [], ei_failure := [], ei_verified_at := None,
      ei_head_hash := [], ei_updated_at := 0\<rparr>"

definition item_advances :: "evidence_item \<Rightarrow> evidence_item \<Rightarrow> bool" where
  "item_advances x y \<longleftrightarrow>
     item_identity y = item_identity x \<and>
     (ei_status x = ''PENDING'' \<or>
      ei_status y = ei_status x \<and> ei_object_version y = ei_object_version x \<and> ei_etag y = ei_etag x \<and>
      ei_failure y = ei_failure x) \<and>
     (ei_verified_at x = None \<or> ei_verified_at y \<noteq> None)"

definition evidence_advances :: "pg \<Rightarrow> pg \<Rightarrow> bool" where
  "evidence_advances s s' \<longleftrightarrow>
     (\<forall>t i x. pg_evidence s t i = Some x \<longrightarrow> (\<exists>y. pg_evidence s' t i = Some y \<and> item_advances x y)) \<and>
     (\<forall>t i. prefix (custody_of t i s) (custody_of t i s'))"

lemma item_advances_refl [simp]: "item_advances x x"
  by (auto simp: item_advances_def)

lemma item_advances_trans: "item_advances x y \<Longrightarrow> item_advances y z \<Longrightarrow> item_advances x z"
  by (auto simp: item_advances_def)

lemma evidence_advances_trans: "evidence_advances s1 s2 \<Longrightarrow> evidence_advances s2 s3 \<Longrightarrow> evidence_advances s1 s3"
  unfolding evidence_advances_def by (meson item_advances_trans prefix_order.trans)

interpretation evidence_history: step_relation evidence_advances
proof
  show "evidence_advances s s" for s by (simp add: evidence_advances_def)
  show "evidence_advances s1 s2 \<Longrightarrow> evidence_advances s2 s3 \<Longrightarrow> evidence_advances s1 s3" for s1 s2 s3
    by (rule evidence_advances_trans)
qed

text \<open>An entry appended to an item that advances.\<close>

lemma custody_appended_advances:
  assumes x: "pg_evidence s t i = Some x" and e: "custody_sealed t i m h e" and adv: "item_advances x x1"
  shows "evidence_advances s (custody_appended e x1 (s\<lparr>pg_evidence := upd2 (pg_evidence s) t i x1\<rparr>))"
proof -
  have te: "cu_tenant e = t" "cu_evidence e = i" using e by (simp_all add: custody_sealed_def)
  have "item_advances x (x1\<lparr>ei_head_hash := cu_hash e, ei_updated_at := cu_created_at e\<rparr>)"
    using adv by (simp add: item_advances_def item_identity_def)
  with x show ?thesis
    by (simp add: evidence_advances_def custody_of_appended custody_appended_evidence te)
qed

lemma history_AppendEvidenceCustody: "op_rel evidence_advances (AppendEvidenceCustody t i m)"
proof (rule evidence_history.rel_atomic)
  show "atomic (AppendEvidenceCustody t i m)" unfolding AppendEvidenceCustody_def by (rule atomic_transaction)
next
  fix s w e s' w'
  assume "AppendEvidenceCustody t i m (s, w) = (Inr e, (s', w'))"
  then obtain x where x: "pg_evidence s t i = Some x" "custody_sealed t i m (ei_head_hash x) e"
    "s' = custody_appended e x s" by (rule AppendEvidenceCustody_Inr)
  have same: "s\<lparr>pg_evidence := upd2 (pg_evidence s) t i x\<rparr> = s"
    using x(1) by (simp add: upd2_def fun_upd_idem)
  show "evidence_advances s s'"
    using custody_appended_advances [OF x(1,2) item_advances_refl] by (simp only: same x(3))
qed

lemma history_transitionEvidence: "op_rel evidence_advances (transitionEvidence t i status ver etag failure m)"
proof (rule evidence_history.rel_atomic)
  show "atomic (transitionEvidence t i status ver etag failure m)"
    unfolding transitionEvidence_def by (rule atomic_transaction)
next
  fix s w y s' w'
  assume "transitionEvidence t i status ver etag failure m (s, w) = (Inr y, (s', w'))"
  then obtain x e now x1 where x: "pg_evidence s t i = Some x" "ei_status x = ''PENDING''"
    "x1 = x\<lparr>ei_status := status, ei_object_version := ver, ei_etag := etag, ei_failure := failure, ei_updated_at := now\<rparr>"
    "custody_sealed t i m (ei_head_hash x) e"
    "s' = custody_appended e x1 (s\<lparr>pg_evidence := upd2 (pg_evidence s) t i x1\<rparr>)"
    by (rule transitionEvidence_Inr)
  have "item_advances x x1" using x(2) by (auto simp: item_advances_def item_identity_def x(3))
  from custody_appended_advances [OF x(1,4) this] show "evidence_advances s s'" by (simp only: x(5))
qed

lemma history_RecordEvidenceVerification: "op_rel evidence_advances (RecordEvidenceVerification t i valid m)"
proof (rule evidence_history.rel_atomic)
  show "atomic (RecordEvidenceVerification t i valid m)"
    unfolding RecordEvidenceVerification_def by (rule atomic_transaction)
next
  fix s w y s' w'
  assume "RecordEvidenceVerification t i valid m (s, w) = (Inr y, (s', w'))"
  then obtain x x1 e now where x: "pg_evidence s t i = Some x"
    "x1 = (if valid then x\<lparr>ei_verified_at := Some now, ei_updated_at := now\<rparr> else x)"
    "custody_sealed t i m (ei_head_hash x) e"
    "s' = custody_appended e x1 (s\<lparr>pg_evidence := upd2 (pg_evidence s) t i x1\<rparr>)"
    by (rule RecordEvidenceVerification_Inr)
  have "item_advances x x1" by (auto simp: item_advances_def item_identity_def x(2))
  from custody_appended_advances [OF x(1,3) this] show "evidence_advances s s'" by (simp only: x(4))
qed

lemma history_ReserveEvidence: "op_rel evidence_advances (ReserveEvidence x m)"
proof (rule evidence_history.rel_atomic [OF ReserveEvidence_atomic])
  fix s w y s' w'
  assume run: "ReserveEvidence x m (s, w) = (Inr y, (s', w'))"
  obtain item created where y: "y = (item, created)" by fastforce
  from ReserveEvidence_Inr [OF run [unfolded y]] show "evidence_advances s s'"
  proof (elim disjE conjE exE)
    fix now e
    assume fresh: "pg_evidence s (ei_tenant x) (ei_id x) = None"
      and e: "custody_sealed (ei_tenant x) (ei_id x) m [] e"
      and s': "s' = custody_appended e (pending_row x now)
          (s\<lparr>pg_evidence := upd2 (pg_evidence s) (ei_tenant x) (ei_id x) (pending_row x now),
             pg_evidence_keys := snoc (pg_evidence_keys s) (ei_tenant x) (ei_id x)\<rparr>)"
    have "cu_tenant e = ei_tenant x" "cu_evidence e = ei_id x" using e by (simp_all add: custody_sealed_def)
    with fresh show ?thesis
      by (auto simp: s' evidence_advances_def custody_of_appended custody_appended_evidence)
  qed (simp add: evidence_advances_def)
qed

text \<open>The operations on other tables leave the evidence alone.\<close>

definition same_evidence :: "pg \<Rightarrow> pg \<Rightarrow> bool" where
  "same_evidence s s' \<longleftrightarrow> pg_evidence s' = pg_evidence s \<and> pg_custody s' = pg_custody s"

interpretation untouched: step_relation same_evidence
  by unfold_locales (simp_all add: same_evidence_def)

lemma same_evidence_advances: "op_rel same_evidence f \<Longrightarrow> op_rel evidence_advances f"
  unfolding op_rel_def same_evidence_def evidence_advances_def custody_of_def by force

lemmas untouched_intros = untouched.rel_transaction untouched.rel_bind untouched.rel_query untouched.rel_return
  untouched.rel_fail untouched.rel_world untouched.rel_exec untouched.rel_statement

lemma untouched_statements:
  "upsert_tenant t n s = Inr s' \<Longrightarrow> same_evidence s s'" "ensure_head t s = Inr s' \<Longrightarrow> same_evidence s s'"
  "insert_event ev s = (re, s') \<Longrightarrow> same_evidence s s'" "insert_finding f s = Inr s' \<Longrightarrow> same_evidence s s'"
  "updateAlertRow a key s = Inr s' \<Longrightarrow> same_evidence s s'" "insert_alert_row a key s = Inr s' \<Longrightarrow> same_evidence s s'"
  "insert_incident x s = Inr s' \<Longrightarrow> same_evidence s s'" "update_incident_row t i x s = Inr s' \<Longrightarrow> same_evidence s s'"
  "insert_audit e s = Inr s' \<Longrightarrow> same_evidence s s'" "advance_head t h s = Inr s' \<Longrightarrow> same_evidence s s'"
  by (auto simp: same_evidence_def upsert_tenant_def ensure_head_def insert_event_def insert_finding_def
      updateAlertRow_def insert_alert_row_def insert_incident_def update_incident_row_def insert_audit_def
      advance_head_def split: option.splits if_splits)

lemma untouched_insert_links: "op_rel same_evidence (insert_links c is)"
proof (induction "is")
  case (Cons i js)
  have "same_evidence s s'" if "insert_link c i s = Inr s'" for s s'
    using that by (auto simp: insert_link_def same_evidence_def Let_def split: if_splits)
  with Cons show ?case by (auto intro!: untouched_intros)
qed (simp add: untouched.rel_return)

lemma untouched_syncCaseIncidents: "op_rel same_evidence (syncCaseIncidents c)"
  unfolding syncCaseIncidents_def
  by (intro untouched_intros untouched_insert_links) (auto simp: delete_links_def same_evidence_def)

lemma untouched_core:
  "op_rel same_evidence (EnsureTenant t n)" "op_rel same_evidence (pg_PutEvent ev)"
  "op_rel same_evidence (pg_PutFinding f)" "op_rel same_evidence (pg_UpsertAlert a key win)"
  "op_rel same_evidence (pg_MutateAlert t i k fa)" "op_rel same_evidence (pg_MutateIncident t i k fi)"
  "op_rel same_evidence (pg_AppendAudit e)"
  unfolding EnsureTenant_def pg_PutEvent_def pg_GetEvent_def pg_PutFinding_def pg_UpsertAlert_def pg_MutateAlert_def
    pg_MutateIncident_def pg_AppendAudit_def appendAuditTx_def
  by (auto simp: Let_def intro!: untouched_intros elim!: untouched_statements split: option.split)

lemma untouched_CreateIncident: "op_rel same_evidence (pg_CreateIncident x)"
proof (rule untouched.rel_atomic [OF CreateIncident_atomic])
  fix s w y s' w'
  assume "pg_CreateIncident x (s, w) = (Inr y, (s', w'))"
  from pg_CreateIncident_cases [OF this] show "same_evidence s s'"
    by (elim disjE conjE) (auto dest: untouched_statements simp: untouched.R_refl)
qed

lemma store_case_untouched: "same_evidence s (store_case r s)"
  by (simp add: same_evidence_def store_case_evidence)

lemma untouched_MutateCase: "op_rel same_evidence (MutateCase t i n f)"
proof (rule untouched.rel_atomic)
  show "atomic (MutateCase t i n f)" unfolding MutateCase_def by (rule atomic_transaction)
next
  fix s w c s' w'
  assume "MutateCase t i n f (s, w) = (Inr c, (s', w'))"
  then show "same_evidence s s'" by (rule MutateCase_cases) (simp add: store_case_untouched)
qed

lemma untouched_CreateCase: "op_rel same_evidence (CreateCase c)"
proof (rule untouched.rel_atomic [OF CreateCase_atomic])
  fix s w x s' w'
  assume run: "CreateCase c (s, w) = (Inr x, (s', w'))"
  obtain d again where x: "x = (d, again)" by fastforce
  from CreateCase_cases [OF run [unfolded x]] show "same_evidence s s'"
    by (elim disjE conjE) (simp_all add: same_evidence_def store_case_evidence)
qed

lemma advances_run:
  "op_rel evidence_advances f \<Longrightarrow> f sw = (r, sw') \<Longrightarrow> evidence_advances (fst sw) (fst sw')"
  by (metis op_relD prod.collapse)

lemmas advances_ops =
  untouched_core [THEN same_evidence_advances] untouched_CreateIncident [THEN same_evidence_advances]
  untouched_MutateCase [THEN same_evidence_advances] untouched_CreateCase [THEN same_evidence_advances]
  history_ReserveEvidence history_transitionEvidence history_AppendEvidenceCustody history_RecordEvidenceVerification

lemma step_advances:
  assumes "pg_step t sw sw'"
  shows "evidence_advances (fst sw) (fst sw') \<or> (\<exists>r. pg_ResetTenant t sw = (r, sw'))"
  using assms
proof cases
  case finalize
  then show ?thesis unfolding FinalizeEvidence_def using advances_run [OF history_transitionEvidence] by blast
next
  case fail_evidence
  then show ?thesis unfolding FailEvidence_def using advances_run [OF history_transitionEvidence] by blast
qed (blast intro: advances_run advances_ops)+

subsection \<open>A sample item\<close>

definition sample_item :: evidence_item where
  "sample_item =
    \<lparr>ei_id = ''evd_1'', ei_tenant = ''acme'', ei_request = ''req_1'', ei_case = [], ei_incident = ''inc_1'',
     ei_alert = [], ei_event = [], ei_filename = ''disk.img'', ei_content_type = ''application/octet-stream'',
     ei_description = [], ei_size = 42, ei_sha256 = replicate 64 (CHR ''a''), ei_bucket = ''evidence'',
     ei_object_key = ''acme/evd_1'', ei_object_version = [], ei_etag = [], ei_status = ''PENDING'',
     ei_failure = [], ei_retain_until = 5000, ei_legal_hold = False, ei_uploader = ''ann'', ei_metadata = JNull,
     ei_verified_at = None, ei_head_hash = [], ei_created_at = 0, ei_updated_at = 0\<rparr>"

definition sample_bare :: custody_entry where
  "sample_bare =
    \<lparr>cu_sequence = 1, cu_id = ''chain_1'', cu_tenant = ''acme'', cu_evidence = ''evd_1'', cu_actor = ''ann'',
     cu_action = ''RESERVED'', cu_reason = ''imaging'', cu_request = ''req_1'', cu_metadata = JNull,
     cu_previous_hash = [], cu_hash = [], cu_created_at = 1000\<rparr>"

definition sample_custody :: custody_entry where
  "sample_custody = sample_bare\<lparr>cu_hash := evidenceCustodyHash sample_bare\<rparr>"

definition sample_evidence_db :: pg where
  "sample_evidence_db = custody_appended sample_custody sample_item sample_db"

lemma sample_evidence_simps [simp]:
  "pg_evidence sample_evidence_db ''acme'' ''evd_1'' =
     Some (sample_item\<lparr>ei_head_hash := cu_hash sample_custody, ei_updated_at := 1000\<rparr>)"
  "custody_of ''acme'' ''evd_1'' sample_evidence_db = [sample_custody]"
  by (simp_all add: sample_evidence_db_def custody_appended_def custody_of_def sample_db_def empty_pg_def
      sample_custody_def sample_bare_def)

lemma sample_custody_from: "custody_from [] [sample_custody] = Some (cu_hash sample_custody)"
proof -
  have "cu_previous_hash sample_custody = []" by (simp add: sample_custody_def sample_bare_def)
  moreover have "evidenceCustodyHash sample_custody = cu_hash sample_custody" by (simp add: sample_custody_def)
  ultimately show ?thesis by simp
qed

lemma sample_custody_verifies:
  "\<exists>w. VerifyEvidenceCustody ''acme'' ''evd_1'' (sample_evidence_db, sample_world) = (Inr True, (sample_evidence_db, w))"
  by (simp add: VerifyEvidenceCustody_def ListEvidenceCustody_def Evidence_def op_bind_def sql_query_live
      sample_custody_from op_return_def del: custody_from.simps)

section \<open>Properties\<close>

text \<open>C25. The chain of custody is tamper evident field by field: when the verification accepts an
  item in two databases that hold the same head hash for it, then the two histories have the same
  entries in the same order - the same tenant, item, actor, action, reason, request, metadata and
  time as JSON writes them - unless they contain two texts with the same SHA-256 digest.\<close>

theorem custody_tamper_evident:
  assumes "VerifyEvidenceCustody t i (s, w) = (Inr True, sw1)" "VerifyEvidenceCustody t i (s', w') = (Inr True, sw2)"
    and "map_option ei_head_hash (pg_evidence s t i) = map_option ei_head_hash (pg_evidence s' t i)"
    and "\<not> custody_collision (custody_of t i s) (custody_of t i s')"
  shows "map custody_record (custody_of t i s) = map custody_record (custody_of t i s')"
proof -
  obtain x where x: "pg_evidence s t i = Some x" "custody_from [] (custody_of t i s) = Some (ei_head_hash x)"
    using assms(1) by (cases sw1) (blast elim: VerifyEvidenceCustody_True)
  obtain y where y: "pg_evidence s' t i = Some y" "custody_from [] (custody_of t i s') = Some (ei_head_hash y)"
    using assms(2) by (cases sw2) (blast elim: VerifyEvidenceCustody_True)
  show ?thesis by (rule custody_same_head [OF x(2)]) (use x(1) y assms(3,4) in auto)
qed

theorem custody_tamper_evident_witness:
  "\<exists>w. VerifyEvidenceCustody ''acme'' ''evd_1'' (sample_evidence_db, sample_world) = (Inr True, (sample_evidence_db, w)) \<and>
     map custody_record (custody_of ''acme'' ''evd_1'' sample_evidence_db) = [custody_record sample_custody]"
proof -
  obtain w where v: "VerifyEvidenceCustody ''acme'' ''evd_1'' (sample_evidence_db, sample_world) = (Inr True, (sample_evidence_db, w))"
    using sample_custody_verifies by blast
  have "\<not> custody_collision [sample_custody] [sample_custody]" by (simp add: custody_collision_def)
  then have "map custody_record (custody_of ''acme'' ''evd_1'' sample_evidence_db) =
      map custody_record (custody_of ''acme'' ''evd_1'' sample_evidence_db)"
    by (intro custody_tamper_evident [OF v v]) simp_all
  with v show ?thesis by auto
qed

text \<open>C26. The life of evidence only moves forward: no operation of the store other than the reset of
  the tenant loses an item, changes what was uploaded, where it is kept or how long, takes an item
  out of AVAILABLE or FAILED, withdraws a verification, or rewrites an entry of a chain of custody;
  chains are only extended.\<close>

theorem evidence_moves_forward:
  assumes "pg_step t sw sw'"
  shows "evidence_advances (fst sw) (fst sw') \<or> (\<exists>r. pg_ResetTenant t sw = (r, sw'))"
  using step_advances [OF assms] .

theorem evidence_moves_forward_witness:
  "let sw' = snd (FailEvidence ''acme'' ''evd_1'' ''lost'' \<lparr>em_actor = ''ann'', em_action = ''FAILED'', em_reason = ''lost'',
       em_request = [], em_metadata = JNull\<rparr> (sample_evidence_db, sample_world))
   in evidence_advances sample_evidence_db (fst sw') \<or>
      (\<exists>r. pg_ResetTenant ''acme'' (sample_evidence_db, sample_world) = (r, sw'))"
  unfolding Let_def
  using evidence_moves_forward [OF pg_step.fail_evidence [OF prod.collapse [symmetric]]] by (metis fst_conv)

end
