(* ===== verification/Case_Service.thy ===== *)
theory Case_Service
  imports Postgres_Evidence Soc_Service
begin

text \<open>
  The case service, \<^verbatim>\<open>internal/cases/service.go\<close>: collaborative cases over incidents, with tasks,
  comments, participants and observables, each change with its history entry and audit record. The
  service is a client of the port \<open>case_port\<close>; the theorems run it on the durable store, the only
  adapter that has cases.
\<close>

subsection \<open>Port and inputs\<close>

record 's case_port =
  cp_CreateCase :: "case_file \<Rightarrow> ('s, case_file \<times> bool) op"
  cp_GetCase :: "tenant \<Rightarrow> string \<Rightarrow> ('s, case_file) op"
  cp_ListCases :: "tenant \<Rightarrow> case_filter \<Rightarrow> ('s, case_file list) op"
  cp_MutateCase :: "tenant \<Rightarrow> string \<Rightarrow> int \<Rightarrow> case_file mutator \<Rightarrow> ('s, case_file) op"
  cp_GetIncident :: "tenant \<Rightarrow> string \<Rightarrow> ('s, incident) op"
  cp_ListEvidence :: "tenant \<Rightarrow> evidence_filter \<Rightarrow> ('s, evidence_item list) op"
  cp_AppendAudit :: "audit_entry \<Rightarrow> ('s, audit_entry) op"

record participant_input =
  pi_user :: string
  pi_role :: string

record observable_input =
  oi_type :: string
  oi_value :: string
  oi_source :: string

record case_input =
  cn_title :: string
  cn_description :: string
  cn_severity :: severity
  cn_owner :: string
  cn_incidents :: "string list"
  cn_participants :: "participant_input list"
  cn_observables :: "observable_input list"
  cn_request :: string

record case_patch =
  cx_title :: string
  cx_description :: "string option"
  cx_status :: string
  cx_severity :: severity
  cx_owner :: string
  cx_closure_summary :: string
  cx_version :: int
  cx_request :: string

record task_input =
  ti_title :: string
  ti_description :: string
  ti_assignee :: string
  ti_due_at :: "time option"
  ti_version :: int

record task_patch =
  tx_status :: string
  tx_assignee :: string
  tx_description :: "string option"
  tx_due_at :: "time option"
  tx_version :: int

subsection \<open>Lifecycles and helpers\<close>

definition case_transitions :: "(string \<times> string list) list" where
  "case_transitions =
    [(CaseStatusOpen, [CaseStatusInvestigation, CaseStatusClosed]),
     (CaseStatusInvestigation, [CaseStatusResponse, CaseStatusClosed]),
     (CaseStatusResponse, [CaseStatusInvestigation, CaseStatusClosed]),
     (CaseStatusClosed, [])]"

definition case_AllowedTransitions :: "string \<Rightarrow> string list" where
  "case_AllowedTransitions status = lookup_list case_transitions (to_upper status)"

definition task_transitions :: "(string \<times> string list) list" where
  "task_transitions =
    [(CaseTaskOpen, [CaseTaskInProgress, CaseTaskDone, CaseTaskCancelled]),
     (CaseTaskInProgress, [CaseTaskDone, CaseTaskCancelled]),
     (CaseTaskDone, []),
     (CaseTaskCancelled, [])]"

definition validTaskTransition :: "string \<Rightarrow> string \<Rightarrow> bool" where
  "validTaskTransition current nxt \<longleftrightarrow> nxt \<in> set (lookup_list task_transitions current)"

definition validSeverity :: "severity \<Rightarrow> bool" where
  "validSeverity v \<longleftrightarrow>
     v = SeverityCritical \<or> v = SeverityHigh \<or> v = SeverityMedium \<or> v = SeverityLow \<or> v = SeverityInformational"

definition caseWindow :: "severity \<Rightarrow> duration" where
  "caseWindow v =
    (if v = SeverityCritical then 4 * hour else if v = SeverityHigh then 12 * hour
     else if v = SeverityMedium then 48 * hour else 7 * 24 * hour)"

definition case_appendUnique :: "string list \<Rightarrow> string list \<Rightarrow> string list" where
  "case_appendUnique values additions =
     add_unseen values (filter (\<lambda>v. v \<noteq> []) (map trim_space additions))"

definition case_uniqueSorted :: "string list \<Rightarrow> string list" where
  "case_uniqueSorted values = sort (case_appendUnique [] values)"

definition newHistory :: "string \<Rightarrow> string \<Rightarrow> string \<Rightarrow> json \<Rightarrow> time \<Rightarrow> world \<Rightarrow> case_history_entry \<times> world" where
  "newHistory action message actor meta at w =
    (let (i, w1) = new_id ''hist'' w
     in (\<lparr>hi_id = i, hi_action = action, hi_message = message, hi_actor = actor, hi_metadata = meta,
          hi_created_at = at\<rparr>, w1))"

definition newObservable :: "observable_input \<Rightarrow> string \<Rightarrow> time \<Rightarrow> ('s, case_observable) op" where
  "newObservable input actor now =
    (let kind = to_upper (trim_space (oi_type input)); v = trim_space (oi_value input)
     in if kind = [] \<or> v = [] \<or> 2048 < length v then op_fail ErrInvalidCase
        else op_bind (op_new_id ''obs'') (\<lambda>i.
             op_return \<lparr>ob_id = i, ob_type = kind, ob_value = v, ob_source = trim_space (oi_source input),
                        ob_added_by = actor, ob_created_at = now\<rparr>))"

text \<open>The role of a participant who is already there is replaced, in place.\<close>

fun set_role :: "case_participant list \<Rightarrow> string \<Rightarrow> string \<Rightarrow> case_participant list" where
  "set_role [] user role = []"
| "set_role (p # ps) user role =
     (if pa_user p = user then p\<lparr>pa_role := role\<rparr> # ps else p # set_role ps user role)"

definition appendParticipant ::
  "case_participant list \<Rightarrow> participant_input \<Rightarrow> string \<Rightarrow> time \<Rightarrow> case_participant list" where
  "appendParticipant values input actor now =
    (let user = trim_space (pi_user input); role0 = to_upper (trim_space (pi_role input))
     in if user = [] then values
        else (let role = (if role0 = [] then ''MEMBER'' else role0)
              in if user \<in> pa_user ` set values then set_role values user role
                 else values @ [\<lparr>pa_user = user, pa_role = role, pa_added_by = actor, pa_added_at = now\<rparr>]))"

definition observableExists :: "case_observable list \<Rightarrow> string \<Rightarrow> string \<Rightarrow> bool" where
  "observableExists values kind v \<longleftrightarrow> list_ex (\<lambda>x. ob_type x = kind \<and> equal_fold (ob_value x) v) values"

definition case_audit ::
  "'s case_port \<Rightarrow> tenant \<Rightarrow> string \<Rightarrow> string \<Rightarrow> string \<Rightarrow> string \<Rightarrow> json \<Rightarrow> ('s, unit) op" where
  "case_audit port t actor action case_id request meta =
    op_bind (cp_AppendAudit port (new_audit t actor action ''case'' case_id ''SUCCESS'' request meta)) (\<lambda>_. op_return ())"

subsection \<open>Reading\<close>

definition Cases :: "'s case_port \<Rightarrow> tenant \<Rightarrow> case_filter \<Rightarrow> ('s, case_file list) op" where
  "Cases port t f =
    (if cf_limit f < 0 \<or> 1000 < cf_limit f then op_fail ErrInvalidCase
     else cp_ListCases port t
       (f\<lparr>cf_query := trim_space (cf_query f), cf_status := to_upper (trim_space (cf_status f)),
          cf_severity := to_upper (trim_space (cf_severity f)), cf_owner := trim_space (cf_owner f),
          cf_incident := trim_space (cf_incident f)\<rparr>))"

definition case_evidence_filter :: "string \<Rightarrow> evidence_filter" where
  "case_evidence_filter i =
    \<lparr>vf_case = i, vf_incident = [], vf_alert = [], vf_event = [], vf_status = [], vf_limit = 1000\<rparr>"

definition Case :: "'s case_port \<Rightarrow> tenant \<Rightarrow> string \<Rightarrow> ('s, case_file) op" where
  "Case port t case_id =
    op_bind (cp_GetCase port t (trim_space case_id)) (\<lambda>c.
    op_bind (cp_ListEvidence port t (case_evidence_filter (ca_id c))) (\<lambda>evidence.
    op_return (c\<lparr>ca_evidence := map ei_id evidence\<rparr>)))"

subsection \<open>Opening a case\<close>

fun gather_severity :: "'s case_port \<Rightarrow> tenant \<Rightarrow> string list \<Rightarrow> severity \<Rightarrow> ('s, severity) op" where
  "gather_severity port t [] v = op_return v"
| "gather_severity port t (i # is) v =
     op_bind (cp_GetIncident port t i) (\<lambda>x.
     gather_severity port t is (if SeverityRank v < SeverityRank (in_severity x) then in_severity x else v))"

fun gather_observables ::
  "observable_input list \<Rightarrow> string \<Rightarrow> time \<Rightarrow> case_observable list \<Rightarrow> ('s, case_observable list) op" where
  "gather_observables [] actor now obs = op_return obs"
| "gather_observables (x # xs) actor now obs =
     op_bind (newObservable x actor now) (\<lambda>o1.
     gather_observables xs actor now
       (if observableExists obs (ob_type o1) (ob_value o1) then obs else obs @ [o1]))"

definition first_participants :: "case_input \<Rightarrow> string \<Rightarrow> string \<Rightarrow> time \<Rightarrow> case_participant list" where
  "first_participants input owner actor now =
    foldl (\<lambda>ps p. appendParticipant ps p actor now)
      [\<lparr>pa_user = owner, pa_role = ''OWNER'', pa_added_by = actor, pa_added_at = now\<rparr>] (cn_participants input)"

definition build_case ::
  "tenant \<Rightarrow> string \<Rightarrow> case_input \<Rightarrow> string list \<Rightarrow> severity \<Rightarrow> string \<Rightarrow> case_observable list \<Rightarrow> time \<Rightarrow>
   string \<Rightarrow> case_history_entry \<Rightarrow> case_file" where
  "build_case t actor input incident_ids sev owner obs now case_id opened =
    \<lparr>ca_id = case_id, ca_tenant = t, ca_request = trim_space (cn_request input), ca_title = trim_space (cn_title input),
     ca_description = trim_space (cn_description input), ca_status = CaseStatusOpen, ca_severity = sev,
     ca_owner = owner, ca_closure_summary = [], ca_incidents = incident_ids, ca_evidence = [],
     ca_participants = first_participants input owner actor now, ca_observables = obs, ca_tasks = [],
     ca_comments = [], ca_history = [opened], ca_sla = \<lparr>csla_due_at = now + caseWindow sev, csla_breached = False\<rparr>,
     ca_allowed = case_AllowedTransitions CaseStatusOpen, ca_version = 1, ca_created_by = actor, ca_updated_by = actor,
     ca_created_at = now, ca_updated_at = now, ca_closed_at = None\<rparr>"

definition case_input_invalid :: "tenant \<Rightarrow> string \<Rightarrow> case_input \<Rightarrow> bool" where
  "case_input_invalid t actor input \<longleftrightarrow>
     t = [] \<or> actor = [] \<or> trim_space (cn_title input) = [] \<or> 300 < length (trim_space (cn_title input)) \<or>
     10000 < length (trim_space (cn_description input)) \<or> trim_space (cn_request input) = []"

definition open_case :: "tenant \<Rightarrow> string \<Rightarrow> case_input \<Rightarrow> string list \<Rightarrow> severity \<Rightarrow> ('s, case_file) op" where
  "open_case t actor input incident_ids sev =
    (let owner = (if trim_space (cn_owner input) = [] then actor else trim_space (cn_owner input))
     in op_bind op_now (\<lambda>now.
        op_bind (gather_observables (cn_observables input) actor now []) (\<lambda>obs.
        op_bind (op_new_id ''case'') (\<lambda>case_id.
        op_bind (op_new_id ''hist'') (\<lambda>hist_id.
        op_return (build_case t actor input incident_ids sev owner obs now case_id
          \<lparr>hi_id = hist_id, hi_action = ''case.created'', hi_message = ''Case opened'', hi_actor = actor,
           hi_metadata = JObj [(''incident_ids'', nil_list incident_ids)], hi_created_at = now\<rparr>))))))"

definition case_Create :: "'s case_port \<Rightarrow> tenant \<Rightarrow> string \<Rightarrow> case_input \<Rightarrow> ('s, case_file \<times> bool) op" where
  "case_Create port tenant_id actor_name input =
    (let t = trim_space tenant_id; actor = trim_space actor_name;
         incident_ids = case_uniqueSorted (cn_incidents input)
     in if case_input_invalid t actor input then op_fail ErrInvalidCase
        else op_bind (gather_severity port t incident_ids
                       (if cn_severity input = [] then SeverityMedium else cn_severity input)) (\<lambda>sev.
             if \<not> validSeverity sev then op_fail ErrInvalidCase
             else op_bind (open_case t actor input incident_ids sev) (\<lambda>item.
                  op_bind (cp_CreateCase port item) (\<lambda>(created, duplicate).
                  if duplicate
                  then op_bind (Case port t (ca_id created)) (\<lambda>existing. op_return (existing, True))
                  else op_bind (case_audit port t actor ''case.created'' (ca_id created) (trim_space (cn_request input))
                         (JObj [(''incident_ids'', nil_list incident_ids), (''severity'', JStr sev)])) (\<lambda>_.
                       op_return (created, False))))))"

subsection \<open>Changing a case\<close>

text \<open>The callback of \<^verbatim>\<open>Update\<close>: fields, owner, status, and what follows from them.\<close>

definition case_fields_change :: "case_patch \<Rightarrow> case_file \<Rightarrow> case_file result" where
  "case_fields_change p c =
    bind_ok (if trim_space (cx_title p) = [] then Inr c
             else if 300 < length (trim_space (cx_title p)) then Inl ErrInvalidCase
             else Inr (c\<lparr>ca_title := trim_space (cx_title p)\<rparr>)) (\<lambda>c1.
    bind_ok (case cx_description p of
               None \<Rightarrow> Inr c1
             | Some d \<Rightarrow> if 10000 < length (trim_space d) then Inl ErrInvalidCase
                         else Inr (c1\<lparr>ca_description := trim_space d\<rparr>)) (\<lambda>c2.
    if cx_severity p = [] then Inr c2
    else if \<not> validSeverity (cx_severity p) then Inl ErrInvalidCase
    else Inr (c2\<lparr>ca_severity := cx_severity p\<rparr>)))"

definition case_owner_change :: "time \<Rightarrow> string \<Rightarrow> case_patch \<Rightarrow> case_file \<Rightarrow> world \<Rightarrow> case_file \<times> world" where
  "case_owner_change now actor p c w =
    (let owner = trim_space (cx_owner p)
     in if owner = [] \<or> owner = ca_owner c then (c, w)
        else (let (h, w1) = newHistory ''case.assigned'' ''Case owner changed'' actor (JObj [(''owner'', JStr owner)]) now w
              in (c\<lparr>ca_owner := owner,
                    ca_participants := appendParticipant (ca_participants c) \<lparr>pi_user = owner, pi_role = ''OWNER''\<rparr> actor now,
                    ca_history := ca_history c @ [h]\<rparr>, w1)))"

definition case_close :: "time \<Rightarrow> case_patch \<Rightarrow> case_file \<Rightarrow> case_file result" where
  "case_close now p c =
    (let summary = trim_space (cx_closure_summary p)
     in if summary = [] then Inl CaseErrClosureDetails
        else Inr (c\<lparr>ca_closure_summary := summary, ca_closed_at := Some now,
                    ca_sla := (ca_sla c)\<lparr>csla_breached := after now (csla_due_at (ca_sla c))\<rparr>\<rparr>))"

definition case_status_change :: "time \<Rightarrow> string \<Rightarrow> case_patch \<Rightarrow> case_file mutator" where
  "case_status_change now actor p c w =
    (if cx_status p = [] then (Inr c, w)
     else (let nxt = to_upper (trim_space (cx_status p))
           in if nxt \<noteq> ca_status c \<and> nxt \<notin> set (case_AllowedTransitions (ca_status c)) then (Inl CaseErrInvalidTransition, w)
              else (case (if nxt = CaseStatusClosed then case_close now p c else Inr c) of
                      Inl e \<Rightarrow> (Inl e, w)
                    | Inr c1 \<Rightarrow>
                        if nxt = ca_status c1 then (Inr c1, w)
                        else (let (h, w1) = newHistory ''case.status_changed'' (ca_status c1 @ '' -> '' @ nxt) actor JNull now w
                              in (Inr (c1\<lparr>ca_status := nxt, ca_history := ca_history c1 @ [h]\<rparr>), w1)))))"

definition case_change :: "time \<Rightarrow> string \<Rightarrow> case_patch \<Rightarrow> case_file mutator" where
  "case_change now actor p c w =
    (case case_fields_change p c of
       Inl e \<Rightarrow> (Inl e, w)
     | Inr c1 \<Rightarrow>
         (let (c2, w1) = case_owner_change now actor p c1 w
          in case case_status_change now actor p c2 w1 of
               (Inl e, w2) \<Rightarrow> (Inl e, w2)
             | (Inr c3, w2) \<Rightarrow>
                 (Inr (c3\<lparr>ca_allowed := case_AllowedTransitions (ca_status c3), ca_updated_by := actor\<rparr>), w2)))"

text \<open>The other callbacks: one addition, its history entry, and the actor.\<close>

definition comment_change :: "time \<Rightarrow> string \<Rightarrow> string \<Rightarrow> case_file mutator" where
  "comment_change now actor body c w =
    (let (i, w1) = new_id ''cmt'' w;
         (h, w2) = newHistory ''case.comment_added'' ''Investigation comment added'' actor (JObj [(''comment_id'', JStr i)]) now w1
     in (Inr (c\<lparr>ca_comments := ca_comments c @ [\<lparr>cc_id = i, cc_body = body, cc_author = actor, cc_created_at = now\<rparr>],
                ca_history := ca_history c @ [h], ca_updated_by := actor\<rparr>), w2))"

definition task_added :: "time \<Rightarrow> string \<Rightarrow> task_input \<Rightarrow> case_file mutator" where
  "task_added now actor input c w =
    (let (i, w1) = new_id ''task'' w;
         task = \<lparr>ct_id = i, ct_title = trim_space (ti_title input), ct_description = trim_space (ti_description input),
                 ct_status = CaseTaskOpen, ct_assignee = trim_space (ti_assignee input), ct_due_at = ti_due_at input,
                 ct_created_by = actor, ct_completed_by = [], ct_version = 1, ct_created_at = now, ct_updated_at = now,
                 ct_completed_at = None\<rparr>;
         (h, w2) = newHistory ''case.task_created'' (''Task created: '' @ ct_title task) actor (JObj [(''task_id'', JStr i)]) now w1
     in (Inr (c\<lparr>ca_tasks := ca_tasks c @ [task], ca_history := ca_history c @ [h], ca_updated_by := actor\<rparr>), w2))"

definition task_status_change :: "time \<Rightarrow> string \<Rightarrow> task_patch \<Rightarrow> case_task \<Rightarrow> case_task result" where
  "task_status_change now actor p task =
    (if tx_status p = [] then Inr task
     else (let nxt = to_upper (trim_space (tx_status p))
           in if nxt \<noteq> ct_status task \<and> \<not> validTaskTransition (ct_status task) nxt then Inl ErrTaskTransition
              else if nxt = CaseTaskDone
              then Inr (task\<lparr>ct_status := nxt, ct_completed_at := Some now, ct_completed_by := actor\<rparr>)
              else Inr (task\<lparr>ct_status := nxt\<rparr>)))"

definition patch_task :: "time \<Rightarrow> string \<Rightarrow> task_patch \<Rightarrow> case_task \<Rightarrow> case_task result" where
  "patch_task now actor p task =
    bind_ok (task_status_change now actor p task) (\<lambda>t1.
      let t2 = (if tx_assignee p \<noteq> [] then t1\<lparr>ct_assignee := trim_space (tx_assignee p)\<rparr> else t1);
          t3 = (case tx_description p of None \<Rightarrow> t2 | Some d \<Rightarrow> t2\<lparr>ct_description := trim_space d\<rparr>);
          t4 = (case tx_due_at p of None \<Rightarrow> t3 | Some d \<Rightarrow> t3\<lparr>ct_due_at := Some d\<rparr>)
      in Inr (t4\<lparr>ct_version := ct_version t4 + 1, ct_updated_at := now\<rparr>))"

text \<open>The loop over the tasks stops at the first with the identifier; there it fails or changes it.\<close>

fun patch_tasks :: "time \<Rightarrow> string \<Rightarrow> task_patch \<Rightarrow> string \<Rightarrow> case_task list \<Rightarrow> (case_task \<times> case_task list) result" where
  "patch_tasks now actor p task_id [] = Inl ErrInvalidCase"
| "patch_tasks now actor p task_id (x # xs) =
     (if ct_id x \<noteq> task_id
      then bind_ok (patch_tasks now actor p task_id xs) (\<lambda>(t, ys). Inr (t, x # ys))
      else bind_ok (patch_task now actor p x) (\<lambda>t. Inr (t, t # xs)))"

definition task_change :: "time \<Rightarrow> string \<Rightarrow> string \<Rightarrow> task_patch \<Rightarrow> case_file mutator" where
  "task_change now actor task_id p c w =
    (case patch_tasks now actor p task_id (ca_tasks c) of
       Inl e \<Rightarrow> (Inl e, w)
     | Inr (task, tasks) \<Rightarrow>
         (let (h, w1) = newHistory ''case.task_updated'' (''Task updated: '' @ ct_title task) actor
                          (JObj [(''task_id'', JStr (ct_id task)), (''status'', JStr (ct_status task))]) now w
          in (Inr (c\<lparr>ca_tasks := tasks, ca_history := ca_history c @ [h], ca_updated_by := actor\<rparr>), w1)))"

definition participant_change :: "time \<Rightarrow> string \<Rightarrow> participant_input \<Rightarrow> case_file mutator" where
  "participant_change now actor input c w =
    (let (h, w1) = newHistory ''case.participant_added'' ''Participant added'' actor
                     (JObj [(''user_id'', JStr (pi_user input)), (''role'', JStr (pi_role input))]) now w
     in (Inr (c\<lparr>ca_participants := appendParticipant (ca_participants c) input actor now,
                ca_history := ca_history c @ [h], ca_updated_by := actor\<rparr>), w1))"

definition observable_change :: "time \<Rightarrow> string \<Rightarrow> case_observable \<Rightarrow> case_file mutator" where
  "observable_change now actor v c w =
    (let (h, w1) = newHistory ''case.observable_added'' ''Observable added'' actor
                     (JObj [(''type'', JStr (ob_type v)), (''value'', JStr (ob_value v))]) now w
     in (Inr (c\<lparr>ca_observables := (if observableExists (ca_observables c) (ob_type v) (ob_value v) then ca_observables c
                                  else ca_observables c @ [v]),
                ca_history := ca_history c @ [h], ca_updated_by := actor\<rparr>), w1))"

definition incident_link_change :: "time \<Rightarrow> string \<Rightarrow> string \<Rightarrow> case_file mutator" where
  "incident_link_change now actor incident_id c w =
    (let (h, w1) = newHistory ''case.incident_linked'' ''Incident linked'' actor
                     (JObj [(''incident_id'', JStr incident_id)]) now w
     in (Inr (c\<lparr>ca_incidents := case_appendUnique (ca_incidents c) [incident_id],
                ca_history := ca_history c @ [h], ca_updated_by := actor\<rparr>), w1))"

subsection \<open>Requests\<close>

text \<open>Every change is stored, audited, and read back with the case's evidence.\<close>

definition change_and_audit ::
  "'s case_port \<Rightarrow> tenant \<Rightarrow> string \<Rightarrow> string \<Rightarrow> string \<Rightarrow> string \<Rightarrow> int \<Rightarrow> (case_file \<Rightarrow> json) \<Rightarrow> case_file mutator \<Rightarrow>
   ('s, case_file) op" where
  "change_and_audit port t case_id actor action request version meta mutate =
    op_bind (cp_MutateCase port t case_id version mutate) (\<lambda>item.
    op_bind (case_audit port t actor action (ca_id item) request (meta item)) (\<lambda>_.
    Case port t (ca_id item)))"

definition case_Update :: "'s case_port \<Rightarrow> tenant \<Rightarrow> string \<Rightarrow> string \<Rightarrow> case_patch \<Rightarrow> ('s, case_file) op" where
  "case_Update port t case_id actor p =
    op_bind op_now (\<lambda>now.
    change_and_audit port t case_id actor ''case.updated'' (cx_request p) (cx_version p)
      (\<lambda>c. JObj [(''status'', JStr (ca_status c)), (''owner'', JStr (ca_owner c))]) (case_change now actor p))"

definition AddComment :: "'s case_port \<Rightarrow> tenant \<Rightarrow> string \<Rightarrow> string \<Rightarrow> string \<Rightarrow> string \<Rightarrow> int \<Rightarrow> ('s, case_file) op" where
  "AddComment port t case_id actor text request version =
    (let body = trim_space text
     in if body = [] \<or> 10000 < length body then op_fail ErrInvalidCase
        else op_bind op_now (\<lambda>now.
             change_and_audit port t case_id actor ''case.comment_added'' request version (\<lambda>_. JNull)
               (comment_change now actor body)))"

definition AddTask :: "'s case_port \<Rightarrow> tenant \<Rightarrow> string \<Rightarrow> string \<Rightarrow> string \<Rightarrow> task_input \<Rightarrow> ('s, case_file) op" where
  "AddTask port t case_id actor request input =
    (if trim_space (ti_title input) = [] \<or> 300 < length (trim_space (ti_title input)) \<or>
        5000 < length (trim_space (ti_description input))
     then op_fail ErrInvalidCase
     else op_bind op_now (\<lambda>now.
          change_and_audit port t case_id actor ''case.task_created'' request (ti_version input) (\<lambda>_. JNull)
            (task_added now actor input)))"

definition UpdateTask :: "'s case_port \<Rightarrow> tenant \<Rightarrow> string \<Rightarrow> string \<Rightarrow> string \<Rightarrow> string \<Rightarrow> task_patch \<Rightarrow> ('s, case_file) op" where
  "UpdateTask port t case_id task_id actor request p =
    op_bind op_now (\<lambda>now.
    change_and_audit port t case_id actor ''case.task_updated'' request (tx_version p)
      (\<lambda>_. JObj [(''task_id'', JStr task_id)]) (task_change now actor task_id p))"

definition AddParticipant ::
  "'s case_port \<Rightarrow> tenant \<Rightarrow> string \<Rightarrow> string \<Rightarrow> string \<Rightarrow> participant_input \<Rightarrow> int \<Rightarrow> ('s, case_file) op" where
  "AddParticipant port t case_id actor request input version =
    op_bind op_now (\<lambda>now.
    let p = \<lparr>pi_user = trim_space (pi_user input), pi_role = to_upper (trim_space (pi_role input))\<rparr>
    in if pi_user p = [] then op_fail ErrInvalidCase
       else change_and_audit port t case_id actor ''case.participant_added'' request version
              (\<lambda>_. JObj [(''user_id'', JStr (pi_user p))]) (participant_change now actor p))"

definition AddObservable ::
  "'s case_port \<Rightarrow> tenant \<Rightarrow> string \<Rightarrow> string \<Rightarrow> string \<Rightarrow> observable_input \<Rightarrow> int \<Rightarrow> ('s, case_file) op" where
  "AddObservable port t case_id actor request input version =
    op_bind op_now (\<lambda>now.
    op_bind (newObservable input actor now) (\<lambda>v.
    change_and_audit port t case_id actor ''case.observable_added'' request version
      (\<lambda>_. JObj [(''observable_id'', JStr (ob_id v))]) (observable_change now actor v)))"

definition LinkIncident :: "'s case_port \<Rightarrow> tenant \<Rightarrow> string \<Rightarrow> string \<Rightarrow> string \<Rightarrow> string \<Rightarrow> int \<Rightarrow> ('s, case_file) op" where
  "LinkIncident port t case_id incident actor request version =
    (let incident_id = trim_space incident
     in op_bind (cp_GetIncident port t incident_id) (\<lambda>_.
        op_bind op_now (\<lambda>now.
        change_and_audit port t case_id actor ''case.incident_linked'' request version
          (\<lambda>_. JObj [(''incident_id'', JStr incident_id)]) (incident_link_change now actor incident_id))))"

end
