(* ===== verification/Case_Facts.thy ===== *)
theory Case_Facts
  imports Case_Service Postgres_Runs "HOL-Library.Sublist"
begin

text \<open>
  What one change does to a case. \<open>case_moves\<close> relates a case to a later version of it: nothing that
  was recorded is lost and statuses only move forward. \<open>case_ok\<close> is the invariant of a case. Every
  callback of the service moves the case forward and keeps the invariant.
\<close>

subsection \<open>A case moves forward\<close>

definition task_rank :: "string \<Rightarrow> nat" where
  "task_rank s = (if s = CaseTaskOpen then 0 else if s = CaseTaskInProgress then 1 else 2)"

definition case_rank :: "string \<Rightarrow> nat" where
  "case_rank s = (if s = CaseStatusOpen then 0 else if s = CaseStatusClosed then 2 else 1)"

definition task_moves :: "case_task \<Rightarrow> case_task \<Rightarrow> bool" where
  "task_moves x y \<longleftrightarrow>
     ct_id y = ct_id x \<and> ct_title y = ct_title x \<and> ct_created_by y = ct_created_by x \<and>
     ct_created_at y = ct_created_at x \<and> ct_version x \<le> ct_version y \<and>
     task_rank (ct_status x) \<le> task_rank (ct_status y) \<and>
     (task_rank (ct_status x) = 2 \<longrightarrow> ct_status y = ct_status x)"

definition tasks_move :: "case_task list \<Rightarrow> case_task list \<Rightarrow> bool" where
  "tasks_move xs ys \<longleftrightarrow> (\<exists>zs us. ys = zs @ us \<and> list_all2 task_moves xs zs)"

definition case_moves :: "case_file \<Rightarrow> case_file \<Rightarrow> bool" where
  "case_moves c d \<longleftrightarrow>
     ca_created_by d = ca_created_by c \<and> ca_created_at d = ca_created_at c \<and>
     case_rank (ca_status c) \<le> case_rank (ca_status d) \<and>
     (ca_closed_at c \<noteq> None \<longrightarrow> ca_closed_at d \<noteq> None) \<and>
     prefix (ca_history c) (ca_history d) \<and> prefix (ca_comments c) (ca_comments d) \<and>
     prefix (ca_observables c) (ca_observables d) \<and> prefix (ca_incidents c) (ca_incidents d) \<and>
     prefix (map pa_user (ca_participants c)) (map pa_user (ca_participants d)) \<and>
     tasks_move (ca_tasks c) (ca_tasks d)"

lemma task_moves_refl [simp]: "task_moves x x"
  by (simp add: task_moves_def)

lemma task_moves_trans: "task_moves x y \<Longrightarrow> task_moves y z \<Longrightarrow> task_moves x z"
  by (auto simp: task_moves_def)

lemma tasks_move_append [simp]: "tasks_move xs (xs @ us)" "tasks_move xs xs"
  unfolding tasks_move_def by (metis append_Nil2 list_all2_refl task_moves_refl)+

lemma tasks_move_trans:
  assumes "tasks_move xs ys" "tasks_move ys zs"
  shows "tasks_move xs zs"
proof -
  from assms obtain ts us ts' us' where t: "ys = ts @ us" "list_all2 task_moves xs ts"
    "zs = ts' @ us'" "list_all2 task_moves ys ts'" by (auto simp: tasks_move_def)
  from t(1,4) obtain vs ws where v: "ts' = vs @ ws" "list_all2 task_moves ts vs"
    by (auto simp: list_all2_append1)
  have "list_all2 task_moves xs vs" using list_all2_trans [OF task_moves_trans t(2) v(2)] .
  with t(3) v(1) show ?thesis unfolding tasks_move_def by auto
qed

lemma case_moves_refl [simp]: "case_moves c c"
  by (simp add: case_moves_def)

lemma case_moves_trans: "case_moves c d \<Longrightarrow> case_moves d e \<Longrightarrow> case_moves c e"
  unfolding case_moves_def by (auto intro: prefix_order.trans tasks_move_trans)

text \<open>The store sets the version, the time of the change and the request's identity.\<close>

lemma case_moves_stored [simp]:
  "case_moves c (d\<lparr>ca_version := n, ca_updated_at := u, ca_request := q\<rparr>) = case_moves c d"
  "case_moves (c\<lparr>ca_request := q\<rparr>) d = case_moves c d"
  by (simp_all add: case_moves_def)

subsection \<open>The invariant of a case\<close>

definition observable_key :: "case_observable \<Rightarrow> string \<times> string" where
  "observable_key x = (ob_type x, fold_case (ob_value x))"

definition task_ok :: "case_task \<Rightarrow> bool" where
  "task_ok x \<longleftrightarrow>
     ct_status x \<in> {CaseTaskOpen, CaseTaskInProgress, CaseTaskDone, CaseTaskCancelled} \<and> ct_title x \<noteq> [] \<and>
     (ct_status x = CaseTaskDone \<longrightarrow> ct_completed_at x \<noteq> None)"

definition case_ok :: "case_file \<Rightarrow> bool" where
  "case_ok c \<longleftrightarrow>
     ca_title c \<noteq> [] \<and> length (ca_title c) \<le> 300 \<and> length (ca_description c) \<le> 10000 \<and>
     validSeverity (ca_severity c) \<and> ca_history c \<noteq> [] \<and>
     ca_allowed c = case_AllowedTransitions (ca_status c) \<and>
     (ca_status c = CaseStatusClosed \<longrightarrow> ca_closure_summary c \<noteq> [] \<and> ca_closed_at c \<noteq> None) \<and>
     distinct (map pa_user (ca_participants c)) \<and> ca_owner c \<in> pa_user ` set (ca_participants c) \<and>
     distinct (map observable_key (ca_observables c)) \<and> (\<forall>x \<in> set (ca_tasks c). task_ok x) \<and>
     distinct (ca_incidents c) \<and> [] \<notin> set (ca_incidents c)"

lemma case_ok_stored [simp]:
  "case_ok (d\<lparr>ca_version := n, ca_updated_at := u, ca_request := q\<rparr>) = case_ok d"
  "case_ok (c\<lparr>ca_request := q\<rparr>) = case_ok c"
  "case_ok (c\<lparr>ca_version := n, ca_updated_at := u\<rparr>) = case_ok c"
  by (simp_all add: case_ok_def)

text \<open>A callback that moves cases forward, keeps their identity and their invariant.\<close>

definition case_good :: "case_file \<Rightarrow> case_file \<Rightarrow> bool" where
  "case_good c d \<longleftrightarrow>
     case_moves c d \<and> ca_id d = ca_id c \<and> ca_tenant d = ca_tenant c \<and> (case_ok c \<longrightarrow> case_ok d)"

lemma case_good_refl [simp]: "case_good c c"
  by (simp add: case_good_def)

lemma case_good_trans: "case_good c d \<Longrightarrow> case_good d e \<Longrightarrow> case_good c e"
  by (auto simp: case_good_def intro: case_moves_trans)

definition case_step :: "case_file mutator \<Rightarrow> bool" where
  "case_step f \<longleftrightarrow> (\<forall>c w d w'. f c w = (Inr d, w') \<longrightarrow> case_good c d)"

lemma case_stepI: "(\<And>c w d w'. f c w = (Inr d, w') \<Longrightarrow> case_good c d) \<Longrightarrow> case_step f"
  unfolding case_step_def by blast

subsection \<open>Participants, observables and incidents\<close>

lemma map_set_role [simp]: "map pa_user (set_role ps u r) = map pa_user ps"
  by (induction ps) simp_all

lemma appendParticipant_users:
  "map pa_user (appendParticipant ps i actor now) =
     (if trim_space (pi_user i) = [] \<or> trim_space (pi_user i) \<in> pa_user ` set ps then map pa_user ps
      else map pa_user ps @ [trim_space (pi_user i)])"
  by (simp add: appendParticipant_def Let_def)

lemma appendParticipant_keeps:
  "prefix (map pa_user ps) (map pa_user (appendParticipant ps i actor now))"
  "distinct (map pa_user (appendParticipant ps i actor now)) = distinct (map pa_user ps)"
  by (auto simp: appendParticipant_users)

lemma appendParticipant_set:
  "pa_user ` set (appendParticipant ps i actor now) =
     (if trim_space (pi_user i) = [] then pa_user ` set ps else insert (trim_space (pi_user i)) (pa_user ` set ps))"
proof -
  have "pa_user ` set (appendParticipant ps i actor now) = set (map pa_user (appendParticipant ps i actor now))" by simp
  then show ?thesis unfolding appendParticipant_users by auto
qed

lemma observableExists_key:
  "observableExists xs k v \<longleftrightarrow> (k, fold_case v) \<in> observable_key ` set xs"
  by (induction xs) (auto simp: observableExists_def equal_fold_def observable_key_def)

lemma case_appendUnique_one:
  "case_appendUnique xs [i] = (if trim_space i = [] \<or> trim_space i \<in> set xs then xs else xs @ [trim_space i])"
  by (simp add: case_appendUnique_def)

lemma case_uniqueSorted_ok: "distinct (case_uniqueSorted xs)" "[] \<notin> set (case_uniqueSorted xs)" "sorted (case_uniqueSorted xs)"
  by (auto simp: case_uniqueSorted_def case_appendUnique_def)

subsection \<open>Each callback\<close>

lemmas moves_defs = case_good_def case_moves_def case_ok_def

lemma comment_change_step: "case_step (comment_change now actor body)"
  by (rule case_stepI) (auto simp: comment_change_def moves_defs Let_def split: prod.splits)

lemma participant_change_step: "case_step (participant_change now actor i)"
  by (rule case_stepI)
    (auto simp: participant_change_def moves_defs Let_def appendParticipant_keeps appendParticipant_set
      split: prod.splits)

lemma observable_change_step: "case_step (observable_change now actor v)"
proof (rule case_stepI)
  fix c w d w'
  assume run: "observable_change now actor v c w = (Inr d, w')"
  have "distinct (map observable_key (ca_observables c @ [v]))"
    if "distinct (map observable_key (ca_observables c))" "\<not> observableExists (ca_observables c) (ob_type v) (ob_value v)"
    using that by (auto simp: observableExists_key observable_key_def)
  with run show "case_good c d"
    by (auto simp: observable_change_def moves_defs Let_def split: prod.splits)
qed

lemma incident_link_change_step: "case_step (incident_link_change now actor i)"
  by (rule case_stepI)
    (auto simp: incident_link_change_def moves_defs Let_def case_appendUnique_one split: prod.splits if_splits)

lemma task_added_step:
  assumes "trim_space (ti_title input) \<noteq> []"
  shows "case_step (task_added now actor input)"
  by (rule case_stepI)
    (use assms in \<open>auto simp: task_added_def moves_defs Let_def task_ok_def task_status_defs split: prod.splits\<close>)

text \<open>Tasks: the lifecycle of one, and the loop over all.\<close>

lemma validTaskTransition_cases:
  assumes "validTaskTransition s t"
  shows "task_rank s < task_rank t \<and> t \<in> {CaseTaskInProgress, CaseTaskDone, CaseTaskCancelled}"
  using assms
  by (auto simp: validTaskTransition_def lookup_list_def task_transitions_def task_status_defs task_rank_def
      split: if_splits option.splits)

lemma task_rank_le: "task_rank s \<le> 2"
  by (simp add: task_rank_def)

lemma task_status_change_Inr:
  assumes "task_status_change now actor p x = Inr y"
  shows "task_moves x y \<and> (task_ok x \<longrightarrow> task_ok y)"
proof (cases "tx_status p = []")
  case True
  with assms show ?thesis by (simp add: task_status_change_def)
next
  case False
  let ?n = "to_upper (trim_space (tx_status p))"
  from False assms have ok: "?n = ct_status x \<or> validTaskTransition (ct_status x) ?n"
    and y: "y = (if ?n = CaseTaskDone then x\<lparr>ct_status := ?n, ct_completed_at := Some now, ct_completed_by := actor\<rparr>
                 else x\<lparr>ct_status := ?n\<rparr>)"
    by (auto simp: task_status_change_def Let_def split: if_splits)
  from ok show ?thesis
  proof
    assume "?n = ct_status x"
    then show ?thesis by (auto simp: y task_moves_def task_ok_def)
  next
    assume "validTaskTransition (ct_status x) ?n"
    from validTaskTransition_cases [OF this] task_rank_le [of ?n] show ?thesis
      by (auto simp: y task_moves_def task_ok_def)
  qed
qed

lemma patch_task_Inr:
  assumes "patch_task now actor p x = Inr y"
  shows "task_moves x y \<and> (task_ok x \<longrightarrow> task_ok y)"
proof -
  from assms obtain z where z: "task_status_change now actor p x = Inr z"
    by (auto simp: patch_task_def bind_ok_eq_Inr)
  from assms z have "ct_id y = ct_id z" "ct_title y = ct_title z" "ct_created_by y = ct_created_by z"
    "ct_created_at y = ct_created_at z" "ct_version y = ct_version z + 1" "ct_status y = ct_status z"
    "ct_completed_at y = ct_completed_at z"
    by (auto simp: patch_task_def Let_def split: option.splits if_splits)
  with task_status_change_Inr [OF z] show ?thesis by (auto simp: task_moves_def task_ok_def)
qed

lemma patch_tasks_Inr:
  "patch_tasks now actor p i xs = Inr (t, ys) \<Longrightarrow>
     list_all2 task_moves xs ys \<and> (list_all task_ok xs \<longrightarrow> list_all task_ok ys) \<and> ct_id t = i \<and> t \<in> set ys"
proof (induction xs arbitrary: ys)
  case (Cons x xs)
  show ?case
  proof (cases "ct_id x = i")
    case True
    with Cons.prems have "patch_task now actor p x = Inr t" "ys = t # xs" by (auto simp: bind_ok_eq_Inr)
    with patch_task_Inr [of now actor p x t] True show ?thesis
      by (auto simp: list_all2_refl task_moves_def)
  next
    case False
    with Cons.prems obtain zs where "patch_tasks now actor p i xs = Inr (t, zs)" "ys = x # zs"
      by (auto simp: bind_ok_eq_Inr)
    with Cons.IH show ?thesis by auto
  qed
qed simp

lemma task_change_step: "case_step (task_change now actor i p)"
proof (rule case_stepI)
  fix c w d w'
  assume run: "task_change now actor i p c w = (Inr d, w')"
  then obtain t ts where p: "patch_tasks now actor p i (ca_tasks c) = Inr (t, ts)"
    by (auto simp: task_change_def split: sum.splits prod.splits)
  from patch_tasks_Inr [OF p] have m: "tasks_move (ca_tasks c) ts" "list_all task_ok (ca_tasks c) \<longrightarrow> list_all task_ok ts"
    unfolding tasks_move_def by (metis append_Nil2, blast)
  from run p obtain h where "d = c\<lparr>ca_tasks := ts, ca_history := ca_history c @ [h], ca_updated_by := actor\<rparr>"
    by (auto simp: task_change_def Let_def split: prod.splits)
  with m show "case_good c d"
    by (auto simp: moves_defs list_all_iff)
qed

text \<open>The update: its fields, owner and status in turn.\<close>

lemma case_fields_change_step:
  assumes "case_fields_change p c = Inr d"
  shows "case_good c d"
proof -
  from assms obtain c1 c2 where
    1: "(if trim_space (cx_title p) = [] then Inr c
         else if 300 < length (trim_space (cx_title p)) then Inl ErrInvalidCase
         else Inr (c\<lparr>ca_title := trim_space (cx_title p)\<rparr>)) = Inr c1" and
    2: "(case cx_description p of None \<Rightarrow> Inr c1
         | Some x \<Rightarrow> if 10000 < length (trim_space x) then Inl ErrInvalidCase
                     else Inr (c1\<lparr>ca_description := trim_space x\<rparr>)) = Inr c2" and
    3: "(if cx_severity p = [] then Inr c2 else if \<not> validSeverity (cx_severity p) then Inl ErrInvalidCase
         else Inr (c2\<lparr>ca_severity := cx_severity p\<rparr>)) = Inr d"
    unfolding case_fields_change_def bind_ok_eq_Inr by blast
  from 1 have "case_good c c1" by (auto simp: moves_defs split: if_splits)
  moreover from 2 have "case_good c1 c2" by (auto simp: moves_defs split: option.splits if_splits)
  moreover from 3 have "case_good c2 d" by (auto simp: moves_defs split: if_splits)
  ultimately show ?thesis by (blast intro: case_good_trans)
qed

lemma case_owner_change_step:
  assumes "case_owner_change now actor p c w = (d, w')"
  shows "case_good c d"
  using assms
  by (auto simp: case_owner_change_def moves_defs Let_def appendParticipant_keeps appendParticipant_set
      split: prod.splits if_splits)

lemma case_AllowedTransitions_rank:
  assumes "t \<in> set (case_AllowedTransitions s)"
  shows "case_rank s \<le> case_rank t \<and> s \<noteq> CaseStatusClosed"
proof -
  have up: "to_upper CaseStatusClosed = CaseStatusClosed" "to_upper CaseStatusOpen = CaseStatusOpen" by code_simp+
  from assms show ?thesis
    by (auto simp: case_AllowedTransitions_def lookup_list_def case_transitions_def case_rank_def up
        split: if_splits option.splits) (auto simp: case_status_defs)
qed

text \<open>The status is changed before the allowed transitions that depend on it.\<close>

definition allow_next :: "case_file \<Rightarrow> case_file" where
  "allow_next c = c\<lparr>ca_allowed := case_AllowedTransitions (ca_status c)\<rparr>"

lemma case_status_change_step:
  assumes "case_status_change now actor p c w = (Inr d, w')"
  shows "case_good c (allow_next d)"
proof (cases "cx_status p = []")
  case True
  with assms show ?thesis by (auto simp: case_status_change_def moves_defs allow_next_def)
next
  case False
  let ?n = "to_upper (trim_space (cx_status p))"
  from False assms have legal: "?n = ca_status c \<or> ?n \<in> set (case_AllowedTransitions (ca_status c))"
    by (auto simp: case_status_change_def Let_def split: if_splits)
  then have rank: "case_rank (ca_status c) \<le> case_rank ?n" using case_AllowedTransitions_rank by auto
  obtain c1 where c1: "(if ?n = CaseStatusClosed then case_close now p c else Inr c) = Inr c1"
    using False assms legal by (auto simp: case_status_change_def Let_def split: sum.splits)
  have c1_good: "case_good c c1" "ca_status c1 = ca_status c"
    "?n = CaseStatusClosed \<longrightarrow> ca_closure_summary c1 \<noteq> [] \<and> ca_closed_at c1 \<noteq> None"
    using c1 by (auto simp: case_close_def Let_def moves_defs split: if_splits)
  obtain hs where d: "d = c1\<lparr>ca_status := ?n, ca_history := ca_history c1 @ hs\<rparr>"
  proof (cases "?n = ca_status c1")
    case True
    with False assms legal c1 have "d = c1\<lparr>ca_status := ?n, ca_history := ca_history c1 @ []\<rparr>"
      by (auto simp: case_status_change_def Let_def)
    then show thesis by (rule that)
  next
    case F: False
    with False assms legal c1 show thesis
      by (auto simp: case_status_change_def Let_def split: prod.splits intro: that)
  qed
  have "case_good c1 (allow_next d)"
    using rank c1_good(2,3) by (auto simp: d allow_next_def moves_defs)
  with c1_good(1) show ?thesis by (rule case_good_trans)
qed

lemma case_change_step: "case_step (case_change now actor p)"
proof (rule case_stepI)
  fix c w d w'
  assume "case_change now actor p c w = (Inr d, w')"
  then obtain c1 c2 c3 w1 where s: "case_fields_change p c = Inr c1" "case_owner_change now actor p c1 w = (c2, w1)"
    "case_status_change now actor p c2 w1 = (Inr c3, w')"
    "d = c3\<lparr>ca_allowed := case_AllowedTransitions (ca_status c3), ca_updated_by := actor\<rparr>"
    by (auto simp: case_change_def split: sum.splits prod.splits)
  from case_fields_change_step [OF s(1)] case_owner_change_step [OF s(2)] case_status_change_step [OF s(3)]
  have "case_good c (allow_next c3)" by (blast intro: case_good_trans)
  moreover have "case_good (allow_next c3) d" by (simp add: s(4) moves_defs allow_next_def)
  ultimately show "case_good c d" by (rule case_good_trans)
qed

end
