(* ===== verification/Case_Contract.thy ===== *)
theory Case_Contract
  imports Case_Facts
begin

text \<open>
  The contract between the case service and its store, as \<open>Soc_Contract\<close> states it for the SOC
  service: the store's operations relate the database before and after by \<open>R\<close>, given that new cases
  satisfy the invariant and callbacks are steps; then so does every request. The interpretations
  are on the durable store.
\<close>

subsection \<open>What an operation can return\<close>

definition yields :: "('s, 'a) op \<Rightarrow> 'a \<Rightarrow> bool" where
  "yields f x \<longleftrightarrow> (\<exists>sw sw'. f sw = (Inr x, sw'))"

lemma yields_bind: "yields (op_bind f g) y \<Longrightarrow> \<exists>x. yields f x \<and> yields (g x) y"
  unfolding yields_def op_bind_eq_Inr by blast

lemma yields_return [simp]: "yields (op_return x) y \<longleftrightarrow> y = x"
  by (auto simp: yields_def op_return_def)

lemma yields_fail [simp]: "\<not> yields (op_fail e) y"
  by (auto simp: yields_def op_fail_def)

context step_relation
begin

lemma rel_bind_yields:
  assumes "op_rel R f" "\<And>x. yields f x \<Longrightarrow> op_rel R (g x)"
  shows "op_rel R (op_bind f g)"
proof (rule op_relI)
  fix s w r s' w'
  assume b: "op_bind f g (s, w) = (r, (s', w'))"
  obtain q s1 w1 where f: "f (s, w) = (q, (s1, w1))" by (metis prod.exhaust)
  then have R1: "R s s1" using assms(1) by (rule op_relD [rotated])
  show "R s s'"
  proof (cases q)
    case (Inl e)
    with b f R1 show ?thesis by (simp add: op_bind_def)
  next
    case (Inr x)
    with b f have g: "g x (s1, w1) = (r, (s', w'))" by (simp add: op_bind_def)
    from f Inr have "yields f x" unfolding yields_def by blast
    then have "R s1 s'" using g assms(2) by (blast dest: op_relD)
    with R1 show ?thesis by (rule R_trans)
  qed
qed

end

subsection \<open>A new case satisfies the invariant\<close>

lemma gather_observables_ok:
  "yields (gather_observables xs actor now obs :: ('s, case_observable list) op) res \<Longrightarrow> distinct (map observable_key obs) \<Longrightarrow>
   distinct (map observable_key res)"
proof (induction xs arbitrary: obs)
  case (Cons x xs)
  from yields_bind [OF Cons.prems(1) [simplified]] obtain v where
    "yields (gather_observables xs actor now
       (if observableExists obs (ob_type v) (ob_value v) then obs else obs @ [v]) :: ('s, case_observable list) op) res"
    by blast
  from Cons.IH [OF this] Cons.prems(2) show ?case
    by (auto simp: observableExists_key observable_key_def split: if_splits)
qed simp

lemma first_participants_users:
  "\<exists>us. map pa_user (first_participants input owner actor now) = owner # us \<and> distinct (owner # us)"
proof -
  have "\<exists>vs. map pa_user (foldl (\<lambda>ps p. appendParticipant ps p actor now) ps xs) = map pa_user ps @ vs \<and>
      (distinct (map pa_user ps) \<longrightarrow> distinct (map pa_user ps @ vs))" for ps xs
  proof (induction xs arbitrary: ps)
    case (Cons x xs)
    let ?q = "appendParticipant ps x actor now"
    from appendParticipant_keeps(1) [of ps x actor now] obtain us where
      us: "map pa_user ?q = map pa_user ps @ us" by (auto simp: prefix_def)
    from Cons.IH [of ?q] obtain vs where
      "map pa_user (foldl (\<lambda>ps p. appendParticipant ps p actor now) ?q xs) = map pa_user ?q @ vs"
      "distinct (map pa_user ?q) \<longrightarrow> distinct (map pa_user ?q @ vs)" by blast
    then have "map pa_user (foldl (\<lambda>ps p. appendParticipant ps p actor now) ps (x # xs)) = map pa_user ps @ us @ vs"
      "distinct (map pa_user ps) \<longrightarrow> distinct (map pa_user ps @ us @ vs)"
      using us appendParticipant_keeps(2) [of ps x actor now] by auto
    then show ?case by blast
  qed simp
  from this [of "[\<lparr>pa_user = owner, pa_role = ''OWNER'', pa_added_by = actor, pa_added_at = now\<rparr>]" "cn_participants input"]
  show ?thesis by (simp add: first_participants_def)
qed

lemma open_case_ok:
  assumes "yields (open_case t actor input (case_uniqueSorted is) sev) c"
    and "\<not> case_input_invalid t actor input" "validSeverity sev"
  shows "case_ok c \<and> ca_tenant c = t"
proof -
  from assms(1) obtain owner obs now i h where obs: "distinct (map observable_key obs)"
    and c: "c = build_case t actor input (case_uniqueSorted is) sev owner obs now i h"
    unfolding open_case_def Let_def
    by (auto dest!: yields_bind dest: gather_observables_ok)
  have "distinct (map pa_user (first_participants input owner actor now))"
    "owner \<in> pa_user ` set (first_participants input owner actor now)"
    using first_participants_users [of input owner actor now]
    by (metis, metis list.set_intros(1) list.set_map)
  with obs assms(2,3) show ?thesis
    by (simp add: c build_case_def case_ok_def case_input_invalid_def case_uniqueSorted_ok case_status_defs)
qed

subsection \<open>The contract\<close>

locale case_contract = step_relation R for R :: "'s \<Rightarrow> 's \<Rightarrow> bool" +
  fixes port :: "'s case_port" and t :: tenant
  assumes create: "ca_tenant c = t \<Longrightarrow> case_ok c \<Longrightarrow> op_rel R (cp_CreateCase port c)"
    and get_case: "op_rel R (cp_GetCase port t i)"
    and list_cases: "op_rel R (cp_ListCases port t f)"
    and change: "case_step m \<Longrightarrow> op_rel R (cp_MutateCase port t i n m)"
    and get_incident: "op_rel R (cp_GetIncident port t i)"
    and list_evidence: "op_rel R (cp_ListEvidence port t v)"
    and audit: "au_tenant e = t \<Longrightarrow> op_rel R (cp_AppendAudit port e)"
begin

lemma case_audit_rel: "op_rel R (case_audit port t actor action i request meta)"
  unfolding case_audit_def by (intro rel_intros audit) simp

lemma Case_rel: "op_rel R (Case port t i)"
  unfolding Case_def by (intro rel_intros get_case list_evidence)

lemma Cases_rel: "op_rel R (Cases port t f)"
  unfolding Cases_def by (auto intro!: rel_intros list_cases)

lemma gather_severity_rel: "op_rel R (gather_severity port t is v)"
  by (induction "is" arbitrary: v) (auto intro!: rel_intros get_incident)

lemma newObservable_rel: "op_rel R (newObservable x actor now)"
  unfolding newObservable_def Let_def by (auto intro!: rel_intros)

lemma gather_observables_rel: "op_rel R (gather_observables xs actor now obs)"
  by (induction xs arbitrary: obs) (auto intro!: rel_intros newObservable_rel)

lemma open_case_rel: "op_rel R (open_case t actor input is sev)"
  unfolding open_case_def Let_def by (intro rel_intros gather_observables_rel)

lemma create_rel:
  assumes "trim_space tenant_id = t"
  shows "op_rel R (case_Create port tenant_id actor_name input)"
proof -
  let ?ids = "case_uniqueSorted (cn_incidents input)" and ?actor = "trim_space actor_name"
  have new: "op_rel R (cp_CreateCase port item)"
    if "yields (open_case t ?actor input ?ids sev) item" "\<not> case_input_invalid t ?actor input" "validSeverity sev" for item sev
    using open_case_ok [OF that] by (intro create) simp_all
  show ?thesis
    unfolding case_Create_def Let_def assms
    by (auto intro!: rel_bind_yields rel_fail rel_return gather_severity_rel open_case_rel new Case_rel case_audit_rel
        split: prod.split)
qed

lemma change_and_audit_rel: "case_step m \<Longrightarrow> op_rel R (change_and_audit port t i actor action request n meta m)"
  unfolding change_and_audit_def by (intro rel_intros change case_audit_rel Case_rel)

lemma update_rel: "op_rel R (case_Update port t i actor p)"
  unfolding case_Update_def by (intro rel_intros change_and_audit_rel case_change_step)

lemma comment_rel: "op_rel R (AddComment port t i actor body request n)"
  unfolding AddComment_def Let_def by (auto intro!: rel_intros change_and_audit_rel comment_change_step)

lemma add_task_rel: "op_rel R (AddTask port t i actor request input)"
  unfolding AddTask_def by (auto intro!: rel_intros change_and_audit_rel task_added_step)

lemma update_task_rel: "op_rel R (UpdateTask port t i task actor request p)"
  unfolding UpdateTask_def by (intro rel_intros change_and_audit_rel task_change_step)

lemma participant_rel: "op_rel R (AddParticipant port t i actor request input n)"
  unfolding AddParticipant_def Let_def by (auto intro!: rel_intros change_and_audit_rel participant_change_step)

lemma observable_rel: "op_rel R (AddObservable port t i actor request input n)"
  unfolding AddObservable_def by (intro rel_intros newObservable_rel change_and_audit_rel observable_change_step)

lemma link_rel: "op_rel R (LinkIncident port t i incident actor request n)"
  unfolding LinkIncident_def Let_def
  by (intro rel_intros get_incident change_and_audit_rel incident_link_change_step)

end

end
