(* ===== verification/Case_Durable.thy ===== *)
theory Case_Durable
  imports Case_Contract Postgres_Properties
begin

text \<open>
  The case service on the durable store: the contract of \<open>Case_Contract\<close> interpreted twice, for the
  histories of cases under the invariant and for the isolation of tenants.
\<close>

definition pg_case_port :: "(string \<Rightarrow> string \<Rightarrow> bool) \<Rightarrow> pg case_port" where
  "pg_case_port ilike =
    \<lparr>cp_CreateCase = CreateCase, cp_GetCase = GetCase, cp_ListCases = ListCases ilike, cp_MutateCase = MutateCase,
     cp_GetIncident = pg_GetIncident, cp_ListEvidence = ListEvidence, cp_AppendAudit = pg_AppendAudit\<rparr>"

lemma pg_case_port_simps [simp]:
  "cp_CreateCase (pg_case_port q) = CreateCase" "cp_GetCase (pg_case_port q) = GetCase"
  "cp_ListCases (pg_case_port q) = ListCases q" "cp_MutateCase (pg_case_port q) = MutateCase"
  "cp_GetIncident (pg_case_port q) = pg_GetIncident" "cp_ListEvidence (pg_case_port q) = ListEvidence"
  "cp_AppendAudit (pg_case_port q) = pg_AppendAudit"
  by (simp_all add: pg_case_port_def)

lemma case_reads:
  "step_relation R \<Longrightarrow> op_rel R (GetCase t i)" "step_relation R \<Longrightarrow> op_rel R (ListCases q t f)"
  "step_relation R \<Longrightarrow> op_rel R (pg_GetIncident t i)" "step_relation R \<Longrightarrow> op_rel R (ListEvidence t v)"
  unfolding GetCase_def ListCases_def pg_GetIncident_def ListEvidence_def
  by (rule step_relation.rel_query, assumption)+

lemma AppendAudit_step:
  assumes "step_relation R" "\<And>s a. au_tenant a = au_tenant e \<Longrightarrow> au_hash a = auditHash a \<Longrightarrow>
      au_previous_hash a = or_zero [] (pg_heads s (au_tenant e)) \<Longrightarrow> R s (audit_appended a s)"
  shows "op_rel R (pg_AppendAudit e)"
proof (rule step_relation.rel_atomic [OF assms(1)])
  show "atomic (pg_AppendAudit e)" unfolding pg_AppendAudit_def by (rule atomic_transaction)
next
  fix s w a s' w'
  assume "pg_AppendAudit e (s, w) = (Inr a, (s', w'))"
  then obtain w1 w2 where seal: "seal_audit e (or_zero [] (pg_heads s (au_tenant e))) w1 = (Inr a, w2)"
    and s': "s' = audit_appended a s" by (rule pg_AppendAudit_cases)
  from assms(2) [OF seal_audit_Inr(1,3,2) [OF seal]] show "R s s'" by (simp add: s')
qed

subsection \<open>The invariant and the histories\<close>

definition cases_ok :: "pg \<Rightarrow> bool" where
  "cases_ok s \<longleftrightarrow> (\<forall>t i c. pg_case s t i = Some c \<longrightarrow> case_ok c)"

definition cases_advance :: "pg \<Rightarrow> pg \<Rightarrow> bool" where
  "cases_advance s s' \<longleftrightarrow>
     (\<forall>t i c. pg_case s t i = Some c \<longrightarrow>
        (\<exists>d. pg_case s' t i = Some d \<and> case_moves c d \<and> ca_version c \<le> ca_version d)) \<and>
     (\<forall>t. prefix (pg_audit s t) (pg_audit s' t))"

definition case_history :: "pg \<Rightarrow> pg \<Rightarrow> bool" where
  "case_history s s' \<longleftrightarrow> (pg_wf s \<and> cases_ok s \<longrightarrow> pg_wf s' \<and> cases_ok s' \<and> cases_advance s s')"

lemma cases_advance_refl [simp]: "cases_advance s s"
  by (simp add: cases_advance_def)

lemma cases_advance_trans:
  assumes "cases_advance s1 s2" "cases_advance s2 s3"
  shows "cases_advance s1 s3"
  unfolding cases_advance_def
proof (intro conjI allI impI)
  fix t i c
  assume "pg_case s1 t i = Some c"
  with assms(1) obtain d where d: "pg_case s2 t i = Some d" "case_moves c d" "ca_version c \<le> ca_version d"
    unfolding cases_advance_def by blast
  from d(1) assms(2) obtain e where e: "pg_case s3 t i = Some e" "case_moves d e" "ca_version d \<le> ca_version e"
    unfolding cases_advance_def by blast
  from e(1) case_moves_trans [OF d(2) e(2)] d(3) e(3)
  show "\<exists>d. pg_case s3 t i = Some d \<and> case_moves c d \<and> ca_version c \<le> ca_version d" by fastforce
next
  fix t
  show "prefix (pg_audit s1 t) (pg_audit s3 t)"
    using assms unfolding cases_advance_def by (blast intro: prefix_order.trans)
qed

lemma case_history_step: "step_relation case_history"
proof
  show "case_history s s" for s by (simp add: case_history_def)
  show "case_history s1 s2 \<Longrightarrow> case_history s2 s3 \<Longrightarrow> case_history s1 s3" for s1 s2 s3
    unfolding case_history_def by (blast intro: cases_advance_trans)
qed

text \<open>Under the invariant a row is the columns of the case read from it.\<close>

lemma row_case_scan:
  assumes "pg_wf s" "pg_cases s t i = Some r"
  shows "scanCase r = (row_case r)\<lparr>ca_request := row_request r\<rparr>" "row_version r = ca_version (row_case r)"
    "ca_tenant (row_case r) = t" "ca_id (row_case r) = i"
proof -
  from assms have ok: "case_row_ok t i s r" unfolding pg_wf_def case_wf_def by blast
  then have r: "r = case_columns (row_request r) (row_case r)" unfolding case_row_ok_def by blast
  show "scanCase r = (row_case r)\<lparr>ca_request := row_request r\<rparr>"
    by (subst (1) r) (rule scanCase_columns)
  show "row_version r = ca_version (row_case r)"
    by (subst (1) r) (rule columns_simps)
  from ok show "ca_tenant (row_case r) = t" "ca_id (row_case r) = i" by (simp_all add: case_row_ok_def)
qed

lemma pg_case_stored:
  "pg_case (store_case (case_columns q c) s) t i =
     (if t = ca_tenant c \<and> i = ca_id c then Some (c\<lparr>ca_request := q\<rparr>) else pg_case s t i)"
  by (simp add: pg_case_def)

lemma history_MutateCase:
  assumes "case_step m"
  shows "op_rel case_history (MutateCase t i n m)"
proof (rule step_relation.rel_atomic [OF case_history_step])
  show "atomic (MutateCase t i n m)" unfolding MutateCase_def by (rule atomic_transaction)
next
  fix s w c s' w'
  assume run: "MutateCase t i n m (s, w) = (Inr c, (s', w'))"
  then obtain r b w1 w2 now where m: "pg_cases s t i = Some r" "m (row_case r) w1 = (Inr b, w2)" "ca_id b = i" "ca_tenant b = t"
    "c = b\<lparr>ca_version := row_version r + 1, ca_updated_at := now, ca_request := row_request r\<rparr>"
    "s' = store_case (case_columns (row_request r) c) s"
    by (rule MutateCase_cases)
  show "case_history s s'"
    unfolding case_history_def
  proof (intro impI conjI)
    assume ok: "pg_wf s \<and> cases_ok s"
    show "pg_wf s'"
      using op_relD [OF keeps_MutateCase run] ok by (simp add: keeps_def)
    note row = row_case_scan [OF conjunct1 [OF ok] m(1)]
    have key: "ca_tenant c = t" "ca_id c = i" "ca_request c = row_request r" "ca_version c = row_version r + 1"
      using m(3-5) by simp_all
    have good: "case_good (row_case r) b" using assms m(2) unfolding case_step_def by blast
    have old: "pg_case s t i = Some ((row_case r)\<lparr>ca_request := row_request r\<rparr>)"
      using m(1) row(1) by (simp add: pg_case_def)
    have c: "case_moves (row_case r) c" "case_ok (row_case r) \<longrightarrow> case_ok c"
      using good by (simp_all add: case_good_def m(5))
    have same: "c\<lparr>ca_request := row_request r\<rparr> = c" using key(3) by (cases c) simp
    have new: "pg_case s' t' i' = (if t' = t \<and> i' = i then Some c else pg_case s t' i')" for t' i'
      by (simp add: m(6) pg_case_stored key same)
    from ok old have "case_ok (row_case r)" unfolding cases_ok_def by (metis case_ok_stored(2))
    with c(2) ok show "cases_ok s'" by (auto simp: cases_ok_def new split: if_splits)
    have audit: "pg_audit s' = pg_audit s" by (simp add: m(6) store_case_def set_links_def)
    show "cases_advance s s'"
      using old c(1) key(4) row(2) by (auto simp: cases_advance_def new audit)
  qed
qed

lemma history_CreateCase:
  assumes "case_ok c"
  shows "op_rel case_history (CreateCase c)"
proof (rule step_relation.rel_atomic [OF case_history_step CreateCase_atomic])
  fix s w x s' w'
  assume run: "CreateCase c (s, w) = (Inr x, (s', w'))"
  obtain d again where x: "x = (d, again)" by fastforce
  show "case_history s s'"
    unfolding case_history_def
  proof (intro impI)
    assume ok: "pg_wf s \<and> cases_ok s"
    have wf: "pg_wf s'" using op_relD [OF keeps_CreateCase run] ok by (simp add: keeps_def)
    from CreateCase_cases [OF run [unfolded x]] show "pg_wf s' \<and> cases_ok s' \<and> cases_advance s s'"
    proof (elim disjE conjE)
      assume fresh: "pg_cases s (ca_tenant c) (ca_id c) = None"
        and s': "s' = (store_case (case_columns (ca_request c) c) s)
          \<lparr>pg_case_keys := snoc (pg_case_keys s) (ca_tenant c) (ca_id c)\<rparr>"
      have same: "c\<lparr>ca_request := ca_request c\<rparr> = c" by (cases c) simp
      have frame: "pg_case (u\<lparr>pg_case_keys := k\<rparr>) = pg_case u" for u k by (simp add: fun_eq_iff pg_case_def)
      have new: "pg_case s' t' i' = (if t' = ca_tenant c \<and> i' = ca_id c then Some c else pg_case s t' i')" for t' i'
        by (simp add: s' frame pg_case_stored same)
      have audit: "pg_audit s' = pg_audit s" by (simp add: s' store_case_def set_links_def)
      have "pg_case s (ca_tenant c) (ca_id c) = None" using fresh by (simp add: pg_case_def)
      then have "cases_advance s s'" by (auto simp: cases_advance_def new audit)
      moreover have "cases_ok s'" using ok assms by (auto simp: cases_ok_def new split: if_splits)
      ultimately show ?thesis using wf by blast
    qed (use ok in simp)
  qed
qed

lemma history_AppendAudit: "op_rel case_history (pg_AppendAudit e)"
proof (rule AppendAudit_step [OF case_history_step])
  fix s :: pg and a
  assume a: "au_tenant a = au_tenant e" "au_hash a = auditHash a" "au_previous_hash a = or_zero [] (pg_heads s (au_tenant e))"
  have "keeps pg_wf s (audit_appended a s)"
    by (rule keepsI_core) (use a in \<open>simp_all add: core_wf_audit, simp add: audit_appended_def core_only_def\<close>)
  moreover have "pg_case (audit_appended a s) = pg_case s" by (simp add: fun_eq_iff pg_case_def audit_appended_def)
  moreover have "prefix (pg_audit s t) (pg_audit (audit_appended a s) t)" for t by (simp add: audit_appended_def)
  ultimately show "case_history s (audit_appended a s)"
    by (auto simp: case_history_def keeps_def cases_ok_def cases_advance_def)
qed

interpretation durable_cases: case_contract case_history "pg_case_port ilike" t for ilike t
  by (intro case_contract.intro case_contract_axioms.intro case_history_step)
    (simp_all add: case_reads case_history_step history_CreateCase history_MutateCase history_AppendAudit)

subsection \<open>Tenants\<close>

text \<open>Everything the modelled tables hold for a tenant.\<close>

definition pg_view :: "tenant \<Rightarrow> pg \<Rightarrow> pg" where
  "pg_view t s =
    empty_pg\<lparr>pg_events := (\<lambda>_. pg_events s t), pg_event_keys := (\<lambda>_. pg_event_keys s t),
      pg_findings := (\<lambda>_. pg_findings s t), pg_finding_keys := (\<lambda>_. pg_finding_keys s t),
      pg_alerts := (\<lambda>_. pg_alerts s t), pg_alert_keys := (\<lambda>_. pg_alert_keys s t),
      pg_incidents := (\<lambda>_. pg_incidents s t), pg_incident_keys := (\<lambda>_. pg_incident_keys s t),
      pg_heads := (\<lambda>_. pg_heads s t), pg_audit := (\<lambda>_. pg_audit s t), pg_cases := (\<lambda>_. pg_cases s t),
      pg_case_keys := (\<lambda>_. pg_case_keys s t), pg_links := (\<lambda>_. pg_links s t),
      pg_evidence := (\<lambda>_. pg_evidence s t), pg_evidence_keys := (\<lambda>_. pg_evidence_keys s t),
      pg_custody := (\<lambda>_. pg_custody s t)\<rparr>"

definition only_pg_tenant :: "tenant \<Rightarrow> pg \<Rightarrow> pg \<Rightarrow> bool" where
  "only_pg_tenant t s s' \<longleftrightarrow> (\<forall>t'. t' \<noteq> t \<longrightarrow> pg_view t' s' = pg_view t' s)"

lemma only_pg_tenant_step: "step_relation (only_pg_tenant t)"
  by unfold_locales (simp_all add: only_pg_tenant_def)

lemma isolated_MutateCase: "op_rel (only_pg_tenant t) (MutateCase t i n m)"
proof (rule step_relation.rel_atomic [OF only_pg_tenant_step])
  show "atomic (MutateCase t i n m)" unfolding MutateCase_def by (rule atomic_transaction)
next
  fix s w c s' w'
  assume run: "MutateCase t i n m (s, w) = (Inr c, (s', w'))"
  have "ca_tenant c = t \<and> (\<exists>q. s' = store_case (case_columns q c) s)"
    using run by (rule MutateCase_cases) auto
  then show "only_pg_tenant t s s'"
    by (auto simp: only_pg_tenant_def pg_view_def store_case_def set_links_def)
qed

lemma isolated_CreateCase: "op_rel (only_pg_tenant (ca_tenant c)) (CreateCase c)"
proof (rule step_relation.rel_atomic [OF only_pg_tenant_step CreateCase_atomic])
  fix s w x s' w'
  assume run: "CreateCase c (s, w) = (Inr x, (s', w'))"
  obtain d again where x: "x = (d, again)" by fastforce
  from CreateCase_cases [OF run [unfolded x]] show "only_pg_tenant (ca_tenant c) s s'"
    by (elim disjE conjE) (simp_all add: only_pg_tenant_def pg_view_def store_case_def set_links_def)
qed

interpretation isolated_cases: case_contract "only_pg_tenant t" "pg_case_port ilike" t for ilike t
proof (intro case_contract.intro case_contract_axioms.intro only_pg_tenant_step, goal_cases)
  case (1 c)
  then show ?case using isolated_CreateCase [of c] by simp
next
  case (7 e)
  then show ?case
    by (auto intro!: AppendAudit_step only_pg_tenant_step simp: only_pg_tenant_def pg_view_def audit_appended_def)
qed (simp_all add: case_reads only_pg_tenant_step isolated_MutateCase)

end
