(* ===== verification/Case_Effects.thy ===== *)
theory Case_Effects
  imports Case_Durable
begin

text \<open>
  Runs of the case service on the durable store: lists of requests, and what a request that succeeds
  did - the creation of a case, and a change with its audit entry and the case read back.
\<close>

subsection \<open>Requests\<close>

datatype case_request =
    OpenCase tenant string case_input
  | ChangeCase tenant string string case_patch
  | CommentCase tenant string string string string int
  | NewTask tenant string string string task_input
  | ChangeTask tenant string string string string task_patch
  | JoinCase tenant string string string participant_input int
  | ObserveCase tenant string string string observable_input int
  | LinkCase tenant string string string string int

fun case_tenant :: "case_request \<Rightarrow> tenant" where
  "case_tenant (OpenCase t actor input) = trim_space t"
| "case_tenant (ChangeCase t i actor p) = t"
| "case_tenant (CommentCase t i actor body req n) = t"
| "case_tenant (NewTask t i actor req input) = t"
| "case_tenant (ChangeTask t i task actor req p) = t"
| "case_tenant (JoinCase t i actor req input n) = t"
| "case_tenant (ObserveCase t i actor req input n) = t"
| "case_tenant (LinkCase t i incident actor req n) = t"

fun case_handle :: "pg case_port \<Rightarrow> case_request \<Rightarrow> pg \<times> world \<Rightarrow> pg \<times> world" where
  "case_handle port (OpenCase t actor input) sw = snd (case_Create port t actor input sw)"
| "case_handle port (ChangeCase t i actor p) sw = snd (case_Update port t i actor p sw)"
| "case_handle port (CommentCase t i actor body req n) sw = snd (AddComment port t i actor body req n sw)"
| "case_handle port (NewTask t i actor req input) sw = snd (AddTask port t i actor req input sw)"
| "case_handle port (ChangeTask t i task actor req p) sw = snd (UpdateTask port t i task actor req p sw)"
| "case_handle port (JoinCase t i actor req input n) sw = snd (AddParticipant port t i actor req input n sw)"
| "case_handle port (ObserveCase t i actor req input n) sw = snd (AddObservable port t i actor req input n sw)"
| "case_handle port (LinkCase t i incident actor req n) sw = snd (LinkIncident port t i incident actor req n sw)"

fun case_serve :: "pg case_port \<Rightarrow> case_request list \<Rightarrow> pg \<times> world \<Rightarrow> pg \<times> world" where
  "case_serve port [] sw = sw"
| "case_serve port (r # rs) sw = case_serve port rs (case_handle port r sw)"

lemma case_handle_history: "case_history (fst sw) (fst (case_handle (pg_case_port q) r sw))"
  by (cases r)
    (simp_all add: op_rel_snd durable_cases.create_rel [OF refl] durable_cases.update_rel durable_cases.comment_rel
      durable_cases.add_task_rel durable_cases.update_task_rel durable_cases.participant_rel
      durable_cases.observable_rel durable_cases.link_rel)

lemma case_handle_isolated: "only_pg_tenant (case_tenant r) (fst sw) (fst (case_handle (pg_case_port q) r sw))"
  by (cases r)
    (simp_all add: op_rel_snd isolated_cases.create_rel [OF refl] isolated_cases.update_rel isolated_cases.comment_rel
      isolated_cases.add_task_rel isolated_cases.update_task_rel isolated_cases.participant_rel
      isolated_cases.observable_rel isolated_cases.link_rel)

lemma case_serve_history: "case_history (fst sw) (fst (case_serve (pg_case_port q) rs sw))"
proof (induction rs arbitrary: sw)
  case (Cons r rs)
  from Cons [of "case_handle (pg_case_port q) r sw"] case_handle_history [of sw q r] show ?case
    unfolding case_history_def by (auto intro: cases_advance_trans)
qed (simp add: case_history_def)

lemma case_serve_isolated:
  "t \<notin> case_tenant ` set rs \<Longrightarrow> pg_view t (fst (case_serve (pg_case_port q) rs sw)) = pg_view t (fst sw)"
proof (induction rs arbitrary: sw)
  case (Cons r rs)
  then show ?case using case_handle_isolated [of r sw q] by (auto simp: only_pg_tenant_def)
qed simp

subsection \<open>A change, its audit entry and the case read back\<close>

lemma pg_case_audit [simp]: "pg_case (audit_appended a s) = pg_case s"
  by (simp add: fun_eq_iff pg_case_def audit_appended_def)

lemma Case_Inr:
  assumes "Case (pg_case_port q) t i (s, w) = (Inr c, (s', w'))"
  shows "s' = s \<and> (\<exists>d ids. pg_case s t (trim_space i) = Some d \<and> c = d\<lparr>ca_evidence := ids\<rparr>)"
proof -
  from query_bind_Inr [OF assms [unfolded Case_def pg_case_port_simps GetCase_def]] obtain d w1 where
    d: "pg_case s t (trim_space i) = Some d" and
    run: "op_bind (ListEvidence t (case_evidence_filter (ca_id d))) (\<lambda>evidence.
      op_return (d\<lparr>ca_evidence := map ei_id evidence\<rparr>)) (s, w1) = (Inr c, (s', w'))" by auto
  from query_bind_Inr [OF run [unfolded ListEvidence_def]] d show ?thesis by (auto simp: return_Inr)
qed

lemma case_audit_Inr:
  assumes "case_audit (pg_case_port q) t actor action i request meta (s, w) = (Inr u, (s', w'))"
  shows "\<exists>a. s' = audit_appended a s \<and> au_tenant a = t \<and> au_actor a = actor \<and> au_action a = action \<and>
    au_resource_id a = i \<and> au_request_id a = request"
proof -
  from assms obtain a s1 w1 where run: "pg_AppendAudit (new_audit t actor action ''case'' i ''SUCCESS'' request meta) (s, w) = (Inr a, (s1, w1))"
    and "s' = s1" by (auto simp: case_audit_def return_Inr elim!: op_bind_InrE)
  from run obtain w2 w3 h where seal: "seal_audit (new_audit t actor action ''case'' i ''SUCCESS'' request meta) h w2 = (Inr a, w3)"
    and s1: "s1 = audit_appended a s" by (rule pg_AppendAudit_cases)
  have "au_tenant a = t \<and> au_actor a = actor \<and> au_action a = action \<and> au_resource_id a = i \<and> au_request_id a = request"
    using seal by (auto simp: seal_audit_def stamp_audit_def new_audit_def Let_def split: prod.splits)
  with s1 \<open>s' = s1\<close> show ?thesis by blast
qed

lemma change_and_audit_Inr:
  assumes "change_and_audit (pg_case_port q) t i actor action request n meta m (s, w) = (Inr c, (s', w'))"
    and "pg_wf s" "trim_space i = i"
  obtains r b d a w1 w2 ids where "pg_cases s t i = Some r" "n \<le> 0 \<or> ca_version (row_case r) = n"
    "m (row_case r) w1 = (Inr b, w2)" "pg_case s' t i = Some d" "c = d\<lparr>ca_evidence := ids\<rparr>"
    "\<exists>u. d = b\<lparr>ca_version := ca_version (row_case r) + 1, ca_updated_at := u, ca_request := row_request r\<rparr>"
    "\<And>t' i'. (t', i') \<noteq> (t, i) \<Longrightarrow> pg_case s' t' i' = pg_case s t' i'"
    "pg_audit s' = snoc (pg_audit s) t a" "au_action a = action" "au_actor a = actor" "au_resource_id a = i"
    "au_request_id a = request"
proof -
  from assms(1) [unfolded change_and_audit_def pg_case_port_simps] obtain d s1 w1 where
    mut: "MutateCase t i n m (s, w) = (Inr d, (s1, w1))" and
    run: "op_bind (case_audit (pg_case_port q) t actor action (ca_id d) request (meta d)) (\<lambda>_.
      Case (pg_case_port q) t (ca_id d)) (s1, w1) = (Inr c, (s', w'))" by (rule op_bind_InrE)
  from mut obtain r b w3 w4 now where r: "pg_cases s t i = Some r" "n \<le> 0 \<or> row_version r = n"
    "m (row_case r) w3 = (Inr b, w4)" "ca_id b = i" "ca_tenant b = t"
    "d = b\<lparr>ca_version := row_version r + 1, ca_updated_at := now, ca_request := row_request r\<rparr>"
    "s1 = store_case (case_columns (row_request r) d) s" by (rule MutateCase_cases)
  have v: "row_version r = ca_version (row_case r)" by (rule row_case_scan(2) [OF assms(2) r(1)])
  have key: "ca_id d = i" "ca_tenant d = t" "ca_request d = row_request r" by (simp_all add: r(4-6))
  have same: "d\<lparr>ca_request := row_request r\<rparr> = d" using key(3) by (cases d) simp
  have s1: "pg_case s1 t' i' = (if t' = t \<and> i' = i then Some d else pg_case s t' i')" for t' i'
    by (simp add: r(7) pg_case_stored key same)
  have log: "pg_audit s1 = pg_audit s" by (simp add: r(7) store_case_def set_links_def)
  from run obtain u s2 w2 where au: "case_audit (pg_case_port q) t actor action i request (meta d) (s1, w1) = (Inr u, (s2, w2))"
    and rd: "Case (pg_case_port q) t i (s2, w2) = (Inr c, (s', w'))" unfolding key(1) by (rule op_bind_InrE)
  from case_audit_Inr [OF au] obtain a where a: "s2 = audit_appended a s1" "au_tenant a = t" "au_actor a = actor"
    "au_action a = action" "au_resource_id a = i" "au_request_id a = request" by blast
  from Case_Inr [OF rd] assms(3) obtain e ids where e: "s' = s2" "pg_case s2 t i = Some e" "c = e\<lparr>ca_evidence := ids\<rparr>"
    by auto
  have "e = d" using e(2) by (simp add: a(1) s1)
  have ex: "\<exists>u. d = b\<lparr>ca_version := ca_version (row_case r) + 1, ca_updated_at := u, ca_request := row_request r\<rparr>"
    using r(6) v by auto
  have s': "pg_case s' = pg_case s1" "pg_audit s' = snoc (pg_audit s) t a"
    unfolding e(1) a(1) pg_case_audit by (simp_all add: audit_appended_def log a(2))
  have st: "pg_case s' t i = Some d" unfolding s'(1) by (simp add: s1)
  have other: "pg_case s' t' i' = pg_case s t' i'" if "(t', i') \<noteq> (t, i)" for t' i'
    unfolding s'(1) using that by (auto simp: s1)
  have c: "c = d\<lparr>ca_evidence := ids\<rparr>" using e(3) \<open>e = d\<close> by simp
  show thesis
    by (rule that [OF r(1) r(2) [unfolded v] r(3) st c ex other s'(2) a(4) a(3) a(5) a(6)])
qed

subsection \<open>Opening a case\<close>

lemma gather_severity_Inr:
  "gather_severity (pg_case_port q) t is v (s, w) = (Inr v', (s', w')) \<Longrightarrow>
   s' = s \<and> SeverityRank v \<le> SeverityRank v' \<and>
   (\<forall>i \<in> set is. \<exists>x. pg_incidents s t i = Some x \<and> SeverityRank (in_severity x) \<le> SeverityRank v') \<and>
   (v' = v \<or> (\<exists>i \<in> set is. \<exists>x. pg_incidents s t i = Some x \<and> v' = in_severity x))"
proof (induction "is" arbitrary: v s w)
  case (Cons i js)
  from query_bind_Inr [OF Cons.prems [unfolded gather_severity.simps pg_case_port_simps pg_GetIncident_def]]
  obtain x w1 where x: "pg_incidents s t i = Some x" and
    run: "gather_severity (pg_case_port q) t js (if SeverityRank v < SeverityRank (in_severity x) then in_severity x else v)
      (s, w1) = (Inr v', (s', w'))" by auto
  from Cons.IH [OF run] x show ?case by (auto split: if_splits)
qed (simp add: return_Inr)

lemma newObservable_world: "newObservable x actor now (s, w) = (r, (s', w')) \<Longrightarrow> s' = s"
  by (auto simp: newObservable_def Let_def op_fail_def op_bind_def op_new_id_def op_return_def
      split: if_splits prod.splits sum.splits)

lemma gather_observables_world:
  "gather_observables xs actor now obs (s, w) = (Inr res, (s', w')) \<Longrightarrow> s' = s"
  by (induction xs arbitrary: obs s w)
    (auto simp: return_Inr elim!: op_bind_InrE dest!: newObservable_world)

lemma case_by_request_Some:
  assumes "pg_wf s" "case_by_request t q s = Some x"
  shows "row_request x = q" "pg_cases s t (ca_id (row_case x)) = Some x"
proof -
  from assms(2) have x: "x \<in> set (case_rows t s)" "row_request x = q"
    by (auto simp: case_by_request_def find_Some_iff)
  from x(1) obtain i where "pg_cases s t i = Some x" by (auto simp: case_rows_def map_filter_def)
  with row_case_scan(4) [OF assms(1) this] x(2)
  show "row_request x = q" "pg_cases s t (ca_id (row_case x)) = Some x" by simp_all
qed

lemma open_case_Inr:
  assumes "open_case t actor input ids sev (s, w) = (Inr c, (s', w'))"
  shows "s' = s \<and> (\<exists>obs now i h. c = build_case t actor input ids sev
    (if trim_space (cn_owner input) = [] then actor else trim_space (cn_owner input)) obs now i h)"
  using assms unfolding open_case_def Let_def
  by (auto simp: return_Inr op_now_def op_new_id_def elim!: op_bind_InrE dest!: gather_observables_world split: prod.splits)
    blast+

lemma case_Create_Inr:
  assumes "case_Create (pg_case_port q) tenant_id actor_name input (s, w) = (Inr (c, again), (s', w'))"
  obtains sev item created s1 w1 w2 w3 where
    "\<not> case_input_invalid (trim_space tenant_id) (trim_space actor_name) input"
    "gather_severity (pg_case_port q) (trim_space tenant_id) (case_uniqueSorted (cn_incidents input))
       (if cn_severity input = [] then SeverityMedium else cn_severity input) (s, w) = (Inr sev, (s, w1))"
    "validSeverity sev"
    "open_case (trim_space tenant_id) (trim_space actor_name) input (case_uniqueSorted (cn_incidents input)) sev (s, w1) =
       (Inr item, (s, w2))"
    "CreateCase item (s, w2) = (Inr (created, again), (s1, w3))"
    "again \<longrightarrow> s' = s1 \<and> (\<exists>d ids. pg_case s1 (trim_space tenant_id) (trim_space (ca_id created)) = Some d \<and> c = d\<lparr>ca_evidence := ids\<rparr>)"
    "\<not> again \<longrightarrow> c = created \<and> (\<exists>a. s' = audit_appended a s1 \<and> au_tenant a = trim_space tenant_id \<and>
       au_actor a = trim_space actor_name \<and> au_action a = ''case.created'' \<and> au_resource_id a = ca_id created \<and>
       au_request_id a = trim_space (cn_request input))"
proof -
  let ?t = "trim_space tenant_id" and ?a = "trim_space actor_name" and ?ids = "case_uniqueSorted (cn_incidents input)"
  let ?sev = "if cn_severity input = [] then SeverityMedium else cn_severity input"
  let ?rest = "\<lambda>X (created, duplicate). if duplicate
      then op_bind (Case (pg_case_port q) ?t (ca_id created)) (\<lambda>existing. op_return (existing, True))
      else op_bind (case_audit (pg_case_port q) ?t ?a ''case.created'' (ca_id created) (trim_space (cn_request input))
             (JObj [(''incident_ids'', nil_list ?ids), (''severity'', JStr X)])) (\<lambda>_. op_return (created, False))"
  from assms have valid: "\<not> case_input_invalid ?t ?a input"
    by (auto simp: case_Create_def Let_def)
  with assms obtain sev s0 w1 where sev: "gather_severity (pg_case_port q) ?t ?ids ?sev (s, w) = (Inr sev, (s0, w1))"
    and run: "(if \<not> validSeverity sev then op_fail ErrInvalidCase
      else op_bind (open_case ?t ?a input ?ids sev) (\<lambda>item.
           op_bind (cp_CreateCase (pg_case_port q) item) (?rest sev))) (s0, w1) = (Inr (c, again), (s', w'))"
    unfolding case_Create_def Let_def by (auto elim!: op_bind_InrE)
  from gather_severity_Inr [OF sev] have s0: "s0 = s" by simp
  from run have v: "validSeverity sev" by (auto split: if_splits)
  with run have "op_bind (open_case ?t ?a input ?ids sev) (\<lambda>item. op_bind (CreateCase item) (?rest sev)) (s0, w1) =
      (Inr (c, again), (s', w'))" by simp
  then obtain item sx w2 where item: "open_case ?t ?a input ?ids sev (s0, w1) = (Inr item, (sx, w2))"
    and run1: "op_bind (CreateCase item) (?rest sev) (sx, w2) = (Inr (c, again), (s', w'))"
    by (rule op_bind_InrE)
  from open_case_Inr [OF item] s0 have sx: "sx = s" by simp
  from run1 obtain cd s1 w3 where cr0: "CreateCase item (sx, w2) = (Inr cd, (s1, w3))"
    and run2': "?rest sev cd (s1, w3) = (Inr (c, again), (s', w'))" by (rule op_bind_InrE)
  obtain created dup where "cd = (created, dup)" by fastforce
  with cr0 run2' have cr: "CreateCase item (sx, w2) = (Inr (created, dup), (s1, w3))"
    and run2: "?rest sev (created, dup) (s1, w3) = (Inr (c, again), (s', w'))" by simp_all
  show thesis
  proof (cases dup)
    case True
    with run2 obtain sy wy where rd: "Case (pg_case_port q) ?t (ca_id created) (s1, w3) = (Inr c, (sy, wy))" "again" "s' = sy"
      by (auto simp: return_Inr elim!: op_bind_InrE)
    from Case_Inr [OF rd(1)] rd(2,3) that [OF valid sev [unfolded s0] v item [unfolded s0 sx], of created s1 w3] cr sx True
    show thesis by simp
  next
    case False
    with run2 obtain u sy wy where au: "case_audit (pg_case_port q) ?t ?a ''case.created'' (ca_id created)
        (trim_space (cn_request input)) (JObj [(''incident_ids'', nil_list ?ids), (''severity'', JStr sev)]) (s1, w3) = (Inr u, (sy, wy))"
      and c: "\<not> again" "s' = sy" "c = created"
      by (auto simp: return_Inr elim!: op_bind_InrE)
    from case_audit_Inr [OF au] c that [OF valid sev [unfolded s0] v item [unfolded s0 sx], of created s1 w3] cr sx False
    show thesis by simp
  qed
qed

subsection \<open>What an update does\<close>

lemma case_fields_change_Inr:
  assumes "case_fields_change p c = Inr d"
  shows "\<exists>ti de se. d = c\<lparr>ca_title := ti, ca_description := de, ca_severity := se\<rparr> \<and>
    se = (if cx_severity p = [] then ca_severity c else cx_severity p) \<and>
    ti = (if trim_space (cx_title p) = [] then ca_title c else trim_space (cx_title p)) \<and>
    de = (case cx_description p of None \<Rightarrow> ca_description c | Some x \<Rightarrow> trim_space x)"
  using assms
  by (cases c) (auto simp: case_fields_change_def bind_ok_eq_Inr split: if_splits option.splits)

lemma case_owner_change_Inr:
  assumes "case_owner_change now actor p c w = (d, w')"
  shows "\<exists>ps hs. d = c\<lparr>ca_owner := (if trim_space (cx_owner p) = [] then ca_owner c else trim_space (cx_owner p)),
      ca_participants := ps, ca_history := ca_history c @ hs\<rparr> \<and>
    (hs = [] \<longleftrightarrow> trim_space (cx_owner p) \<in> {[], ca_owner c})"
proof (cases "trim_space (cx_owner p) = [] \<or> trim_space (cx_owner p) = ca_owner c")
  case True
  with assms have "d = c" by (auto simp: case_owner_change_def Let_def)
  with True show ?thesis by (cases c) auto
next
  case False
  with assms show ?thesis
    by (cases c) (auto simp: case_owner_change_def Let_def split: prod.splits)
qed

lemma case_status_change_Inr:
  assumes "case_status_change now actor p c w = (Inr d, w')"
  defines "v \<equiv> (if cx_status p = [] then ca_status c else to_upper (trim_space (cx_status p)))"
  shows "(v = ca_status c \<or> v \<in> set (case_AllowedTransitions (ca_status c))) \<and>
    (\<exists>summary closed sla hs. d = c\<lparr>ca_status := v, ca_closure_summary := summary, ca_closed_at := closed, ca_sla := sla,
        ca_history := ca_history c @ hs\<rparr> \<and> (hs = [] \<longleftrightarrow> v = ca_status c) \<and>
      (if cx_status p \<noteq> [] \<and> v = CaseStatusClosed
       then summary = trim_space (cx_closure_summary p) \<and> summary \<noteq> [] \<and> closed = Some now
       else summary = ca_closure_summary c \<and> closed = ca_closed_at c))"
proof (cases "cx_status p = []")
  case True
  with assms have "d = c" "v = ca_status c" by (simp_all add: case_status_change_def)
  with True show ?thesis by (cases c) auto
next
  case False
  then have v: "v = to_upper (trim_space (cx_status p))" by (simp add: v_def)
  from False assms(1) have legal: "v = ca_status c \<or> v \<in> set (case_AllowedTransitions (ca_status c))"
    unfolding v by (auto simp: case_status_change_def Let_def split: if_splits)
  let ?close = "if v = CaseStatusClosed then case_close now p c else Inr c"
  let ?rest = "\<lambda>c1. if v = ca_status c1 then (Inr c1 :: case_file result, w)
       else (let (h, w1) = newHistory ''case.status_changed'' (ca_status c1 @ '' -> '' @ v) actor JNull now w
             in (Inr (c1\<lparr>ca_status := v, ca_history := ca_history c1 @ [h]\<rparr>), w1))"
  have change: "(case ?close of Inl e \<Rightarrow> (Inl e, w) | Inr c1 \<Rightarrow> ?rest c1) = (Inr d, w')"
    using False assms(1) legal unfolding v case_status_change_def Let_def by (simp only: if_False) (auto split: if_splits)
  obtain c1 where c1: "?close = Inr c1"
  proof (cases ?close)
    case (Inl e)
    from change [unfolded Inl] show thesis by simp
  qed (rule that)
  have run: "?rest c1 = (Inr d, w')" using change unfolding c1 sum.case .
  from c1 obtain summary closed sla where c1': "c1 = c\<lparr>ca_closure_summary := summary, ca_closed_at := closed, ca_sla := sla\<rparr>"
    "if cx_status p \<noteq> [] \<and> v = CaseStatusClosed
     then summary = trim_space (cx_closure_summary p) \<and> summary \<noteq> [] \<and> closed = Some now
     else summary = ca_closure_summary c \<and> closed = ca_closed_at c"
    using False by (cases c) (auto simp: case_close_def Let_def split: if_splits)
  have "\<exists>hs. d = c1\<lparr>ca_status := v, ca_history := ca_history c1 @ hs\<rparr> \<and> (hs = [] \<longleftrightarrow> v = ca_status c)"
  proof (cases "v = ca_status c1")
    case True
    with run have "d = c1" by simp
    then have "d = c1\<lparr>ca_status := v, ca_history := ca_history c1 @ []\<rparr>" using True by (cases c1) simp
    moreover have "v = ca_status c" using True by (simp add: c1'(1))
    ultimately show ?thesis by blast
  next
    case False
    with run show ?thesis by (auto simp: Let_def c1'(1) split: prod.splits)
  qed
  then obtain hs where "d = c1\<lparr>ca_status := v, ca_history := ca_history c1 @ hs\<rparr>" "hs = [] \<longleftrightarrow> v = ca_status c" by blast
  then have "d = c\<lparr>ca_status := v, ca_closure_summary := summary, ca_closed_at := closed, ca_sla := sla,
        ca_history := ca_history c @ hs\<rparr>" "hs = [] \<longleftrightarrow> v = ca_status c"
    by (simp_all add: c1'(1))
  with legal c1'(2) show ?thesis by blast
qed

text \<open>What an accepted patch makes of a case, field by field.\<close>

definition case_patched :: "case_patch \<Rightarrow> string \<Rightarrow> case_file \<Rightarrow> case_file \<Rightarrow> bool" where
  "case_patched p actor old new \<longleftrightarrow>
     ca_title new = (if trim_space (cx_title p) = [] then ca_title old else trim_space (cx_title p)) \<and>
     ca_description new = (case cx_description p of None \<Rightarrow> ca_description old | Some x \<Rightarrow> trim_space x) \<and>
     ca_severity new = (if cx_severity p = [] then ca_severity old else cx_severity p) \<and>
     ca_owner new = (if trim_space (cx_owner p) = [] then ca_owner old else trim_space (cx_owner p)) \<and>
     ca_status new = (if cx_status p = [] then ca_status old else to_upper (trim_space (cx_status p))) \<and>
     (ca_status new = ca_status old \<or> ca_status new \<in> set (case_AllowedTransitions (ca_status old))) \<and>
     (if cx_status p \<noteq> [] \<and> ca_status new = CaseStatusClosed
      then ca_closure_summary new = trim_space (cx_closure_summary p) \<and> ca_closure_summary new \<noteq> [] \<and> ca_closed_at new \<noteq> None
      else ca_closure_summary new = ca_closure_summary old \<and> ca_closed_at new = ca_closed_at old) \<and>
     (\<exists>hs. ca_history new = ca_history old @ hs \<and>
        (hs = [] \<longleftrightarrow> ca_status new = ca_status old \<and> ca_owner new = ca_owner old)) \<and>
     ca_allowed new = case_AllowedTransitions (ca_status new) \<and> ca_updated_by new = actor \<and>
     ca_tasks new = ca_tasks old \<and> ca_comments new = ca_comments old \<and> ca_observables new = ca_observables old \<and>
     ca_incidents new = ca_incidents old \<and> ca_created_by new = ca_created_by old \<and> ca_created_at new = ca_created_at old"

lemma case_change_patched:
  assumes "case_change now actor p c w = (Inr d, w')"
  shows "case_patched p actor c d"
proof -
  from assms obtain c1 c2 c3 w1 where s: "case_fields_change p c = Inr c1" "case_owner_change now actor p c1 w = (c2, w1)"
    "case_status_change now actor p c2 w1 = (Inr c3, w')"
    "d = c3\<lparr>ca_allowed := case_AllowedTransitions (ca_status c3), ca_updated_by := actor\<rparr>"
    by (auto simp: case_change_def split: sum.splits prod.splits)
  from case_fields_change_Inr [OF s(1)] obtain ti de se where f: "c1 = c\<lparr>ca_title := ti, ca_description := de, ca_severity := se\<rparr>"
    "se = (if cx_severity p = [] then ca_severity c else cx_severity p)"
    "ti = (if trim_space (cx_title p) = [] then ca_title c else trim_space (cx_title p))"
    "de = (case cx_description p of None \<Rightarrow> ca_description c | Some x \<Rightarrow> trim_space x)" by blast
  from case_owner_change_Inr [OF s(2)] obtain ps hs where
    o1: "c2 = c1\<lparr>ca_owner := (if trim_space (cx_owner p) = [] then ca_owner c1 else trim_space (cx_owner p)),
      ca_participants := ps, ca_history := ca_history c1 @ hs\<rparr>" "hs = [] \<longleftrightarrow> trim_space (cx_owner p) \<in> {[], ca_owner c1}" by blast
  have hs: "hs = [] \<longleftrightarrow> ca_owner c2 = ca_owner c" using o1(2) by (auto simp: o1(1) f(1))
  define v where "v = (if cx_status p = [] then ca_status c2 else to_upper (trim_space (cx_status p)))"
  from case_status_change_Inr [OF s(3), folded v_def] obtain summary closed sla ks where
    t: "v = ca_status c2 \<or> v \<in> set (case_AllowedTransitions (ca_status c2))"
    "c3 = c2\<lparr>ca_status := v, ca_closure_summary := summary, ca_closed_at := closed, ca_sla := sla, ca_history := ca_history c2 @ ks\<rparr>"
    "ks = [] \<longleftrightarrow> v = ca_status c2"
    "if cx_status p \<noteq> [] \<and> v = CaseStatusClosed
     then summary = trim_space (cx_closure_summary p) \<and> summary \<noteq> [] \<and> closed = Some now
     else summary = ca_closure_summary c2 \<and> closed = ca_closed_at c2" by blast
  have st: "ca_status c2 = ca_status c" "ca_closure_summary c2 = ca_closure_summary c" "ca_closed_at c2 = ca_closed_at c"
    "ca_history c2 = ca_history c @ hs" by (simp_all add: o1(1) f(1))
  have d: "ca_status d = v" "ca_owner d = ca_owner c2" "ca_closure_summary d = summary" "ca_closed_at d = closed"
    "ca_history d = ca_history c @ hs @ ks" by (simp_all add: s(4) t(2) st)
  have log: "\<exists>hs. ca_history d = ca_history c @ hs \<and> (hs = [] \<longleftrightarrow> ca_status d = ca_status c \<and> ca_owner d = ca_owner c)"
    unfolding d using hs t(3) st(1) by (intro exI [of _ "hs @ ks"]) auto
  have life: "if cx_status p \<noteq> [] \<and> ca_status d = CaseStatusClosed
      then ca_closure_summary d = trim_space (cx_closure_summary p) \<and> ca_closure_summary d \<noteq> [] \<and> ca_closed_at d \<noteq> None
      else ca_closure_summary d = ca_closure_summary c \<and> ca_closed_at d = ca_closed_at c"
    unfolding d using t(4) unfolding st by (cases "cx_status p \<noteq> [] \<and> v = CaseStatusClosed") auto
  have legal: "ca_status d = ca_status c \<or> ca_status d \<in> set (case_AllowedTransitions (ca_status c))"
    unfolding d using t(1) unfolding st .
  have v: "ca_status d = (if cx_status p = [] then ca_status c else to_upper (trim_space (cx_status p)))"
    unfolding d v_def st ..
  have fields: "ca_title d = ti" "ca_description d = de" "ca_severity d = se"
    "ca_owner d = (if trim_space (cx_owner p) = [] then ca_owner c else trim_space (cx_owner p))"
    "ca_allowed d = case_AllowedTransitions (ca_status d)" "ca_updated_by d = actor"
    "ca_tasks d = ca_tasks c" "ca_comments d = ca_comments c" "ca_observables d = ca_observables c"
    "ca_incidents d = ca_incidents c" "ca_created_by d = ca_created_by c" "ca_created_at d = ca_created_at c"
    by (simp_all add: s(4) t(2) o1(1) f(1))
  show ?thesis
    unfolding case_patched_def
    by (intro conjI) (fact fields(1) [unfolded f(3)] fields(2) [unfolded f(4)] fields(3) [unfolded f(2)] fields v legal life log)+
qed

lemma case_patched_stored:
  "case_patched p actor c (d\<lparr>ca_version := n, ca_updated_at := u, ca_request := q\<rparr>) = case_patched p actor c d"
  "case_patched p actor (c\<lparr>ca_request := q\<rparr>) d = case_patched p actor c d"
  by (cases "cx_description p"; simp add: case_patched_def)+

end
