(* ===== verification/Case_Sample.thy ===== *)
theory Case_Sample
  imports Case_Effects
begin

text \<open>
  Concrete runs on a live connection: a database with a case, the creation of a case and its
  repetition, and an update. They show that the hypotheses of the properties can hold.
\<close>

subsection \<open>A sample case\<close>

lemma transaction_try_live:
  assumes "live w" "body (s, snd (ctx_err w)) = (Inr (Some x), (s', w'))" "live w'"
  shows "transaction_try body (s, w) = (Inr (Some x), (s', snd (ctx_err w')))"
  using assms by (simp add: transaction_try_def op_bind_def sql_query_live)

definition sample_history :: case_history_entry where
  "sample_history = \<lparr>hi_id = ''hist_1'', hi_action = ''case.created'', hi_message = ''Case opened'', hi_actor = ''ann'',
     hi_metadata = JNull, hi_created_at = 5\<rparr>"

definition sample_case :: case_file where
  "sample_case =
    \<lparr>ca_id = ''case_1'', ca_tenant = ''acme'', ca_request = ''req_1'', ca_title = ''Phish'', ca_description = [],
     ca_status = ''OPEN'', ca_severity = ''HIGH'', ca_owner = ''ann'', ca_closure_summary = [], ca_incidents = [],
     ca_evidence = [], ca_participants = [\<lparr>pa_user = ''ann'', pa_role = ''OWNER'', pa_added_by = ''ann'', pa_added_at = 5\<rparr>],
     ca_observables = [], ca_tasks = [], ca_comments = [], ca_history = [sample_history],
     ca_sla = \<lparr>csla_due_at = 50, csla_breached = False\<rparr>, ca_allowed = case_AllowedTransitions ''OPEN'', ca_version = 1,
     ca_created_by = ''ann'', ca_updated_by = ''ann'', ca_created_at = 5, ca_updated_at = 5, ca_closed_at = None\<rparr>"

definition sample_case_db :: pg where
  "sample_case_db = (store_case (case_columns ''req_1'' sample_case) sample_db)
     \<lparr>pg_case_keys := snoc (pg_case_keys sample_db) ''acme'' ''case_1''\<rparr>"

lemma sample_case_simps [simp]:
  "ca_id sample_case = ''case_1''" "ca_tenant sample_case = ''acme''" "ca_request sample_case = ''req_1''"
  "ca_incidents sample_case = []" "ca_status sample_case = ''OPEN''" "ca_version sample_case = 1"
  by (simp_all add: sample_case_def)

lemma sample_case_row [simp]:
  "pg_cases sample_case_db ''acme'' ''case_1'' = Some (case_columns ''req_1'' sample_case)"
  "pg_case sample_case_db t i = (if t = ''acme'' \<and> i = ''case_1'' then Some sample_case else None)"
  by (simp_all add: sample_case_db_def pg_case_def store_case_def sample_db_def empty_pg_def)

lemma sample_case_checks: "case_checks (case_columns ''req_1'' sample_case)"
  unfolding sample_case_def by code_simp

lemma sample_case_ok: "case_ok sample_case"
  unfolding sample_case_def by code_simp

lemma sample_case_db_ok: "cases_ok sample_case_db"
  by (simp add: cases_ok_def sample_case_ok)

lemma sample_case_db_wf: "pg_wf sample_case_db"
proof -
  have "keeps pg_wf sample_db sample_case_db"
  proof (rule keepsI_case)
    assume wf: "case_wf sample_db"
    have "case_wf ((store_case (case_columns ''req_1'' sample_case) sample_db)
        \<lparr>pg_case_keys := snoc (pg_case_keys sample_db) (ca_tenant sample_case) (ca_id sample_case)\<rparr>)"
      by (rule case_wf_new [OF wf])
        (simp_all add: sample_case_checks case_by_request_def case_rows_def sample_db_def empty_pg_def List.map_filter_def)
    then show "case_wf sample_case_db" by (simp add: sample_case_db_def)
  next
    show "same_core sample_db sample_case_db"
      using store_case_core [of sample_db "case_columns ''req_1'' sample_case"]
      by (simp add: same_core_def sample_case_db_def)
  qed (simp_all add: sample_case_db_def store_case_evidence)
  then show ?thesis using sample_db_wf by (simp add: keeps_def)
qed

text \<open>Opening a case on a live connection, in the sample database and once more in the one with the case.\<close>

definition sample_input :: case_input where
  "sample_input = \<lparr>cn_title = ''Phish'', cn_description = [], cn_severity = ''HIGH'', cn_owner = [], cn_incidents = [],
     cn_participants = [], cn_observables = [], cn_request = ''req_1''\<rparr>"

lemma sample_input_simps:
  "trim_space ''acme'' = ''acme''" "trim_space ''ann'' = ''ann''" "trim_space (cn_request sample_input) = ''req_1''"
  "trim_space (cn_owner sample_input) = []" "case_uniqueSorted (cn_incidents sample_input) = []"
  "cn_severity sample_input = ''HIGH''" "cn_observables sample_input = []"
  "case_input_invalid ''acme'' ''ann'' sample_input = False" "validSeverity ''HIGH'' = True"
  "cn_request sample_input = ''req_1''" "trim_space ''req_1'' = ''req_1''" "trim_space ''case_1'' = ''case_1''"
  unfolding sample_input_def by code_simp+

lemma sample_open_case:
  assumes "live w"
  shows "\<exists>c w'. open_case ''acme'' ''ann'' sample_input [] ''HIGH'' (s, w) = (Inr c, (s, w')) \<and> live w' \<and>
    ca_id c \<noteq> [] \<and> ca_tenant c = ''acme'' \<and> ca_request c = ''req_1'' \<and> ca_incidents c = [] \<and>
    case_checks (case_columns ''req_1'' c) \<and> ca_title c \<noteq> [] \<and> ca_owner c \<noteq> [] \<and> ca_version c = 1"
proof -
  have checks: "between 1 (char_length ''req_1'') 200" "between 1 (char_length ''ann'') 255"
    "''HIGH'' \<in> set case_severities" "''OPEN'' \<in> set case_statuses" "trim_space (cn_title sample_input) = ''Phish''"
    unfolding sample_input_def by code_simp+
  let ?w = "snd (time_now w)"
  obtain i w1 where i: "new_id ''case'' ?w = (i, w1)" by fastforce
  obtain h w2 where h: "new_id ''hist'' w1 = (h, w2)" by fastforce
  have "i \<noteq> []" using i by (auto simp: new_id_def Let_def split: option.splits prod.splits)
  moreover have "live w2"
    using assms live_frame(2) [of "''hist''" w1] live_frame(2) [of "''case''" ?w] by (simp add: i h)
  ultimately show ?thesis
    using checks i h
    by (simp add: open_case_def Let_def op_bind_def op_now_def op_new_id_def op_return_def sample_input_simps
        build_case_def case_checks_def case_columns_def case_status_defs case_prod_beta case_json_def)
qed

lemma appendAuditTx_runs:
  assumes "live w" "pg_tenants s (au_tenant e) \<noteq> None" "pg_audit s (au_tenant e) = []"
  shows "\<exists>a s' w'. appendAuditTx e (s, w) = (Inr a, (s', w')) \<and> live w' \<and> clock w' = clock w \<and> entropy w' = entropy w \<and>
    pg_tenants s' = pg_tenants s"
proof -
  let ?t = "au_tenant e"
  obtain s1 where s1: "ensure_head ?t s = Inr s1" "pg_tenants s1 = pg_tenants s" "pg_audit s1 = pg_audit s"
    "pg_heads s1 ?t \<noteq> None"
    by (rule that [of "if pg_heads s ?t = None then s\<lparr>pg_heads := (pg_heads s)(?t \<mapsto> [])\<rparr> else s"])
      (use assms(2) in \<open>auto simp: ensure_head_def split: option.split\<close>)
  from s1(4) obtain h where h: "pg_heads s1 ?t = Some h" by blast
  let ?w1 = "snd (ctx_err (snd (ctx_err w)))"
  obtain a w2 where a: "seal_audit e h ?w1 = (Inr a, w2)"
    by (cases "stamp_audit (e\<lparr>au_previous_hash := h\<rparr>) ?w1") (auto simp: seal_audit_def)
  have at: "au_tenant a = ?t" by (rule seal_audit_Inr(1) [OF a])
  have l2: "live w2"
    using a assms(1) stamp_audit_live [of "e\<lparr>au_previous_hash := h\<rparr>" ?w1] by (auto simp: seal_audit_def split: prod.splits)
  have w2: "clock w2 = clock w" "entropy w2 = entropy w"
    using a by (auto simp: seal_audit_def stamp_audit_def Let_def case_prod_beta)
  have ins: "insert_audit a s1 = Inr (s1\<lparr>pg_audit := snoc (pg_audit s1) ?t a\<rparr>)"
    using assms(2,3) by (auto simp: insert_audit_def at s1)
  have adv: "advance_head ?t (au_hash a) (s1\<lparr>pg_audit := snoc (pg_audit s1) ?t a\<rparr>) =
      Inr (s1\<lparr>pg_audit := snoc (pg_audit s1) ?t a, pg_heads := (pg_heads s1)(?t \<mapsto> au_hash a)\<rparr>)"
    by (simp add: advance_head_def h)
  have "appendAuditTx e (s, w) =
      (Inr a, (s1\<lparr>pg_audit := snoc (pg_audit s1) ?t a, pg_heads := (pg_heads s1)(?t \<mapsto> au_hash a)\<rparr>,
        snd (ctx_err (snd (ctx_err w2)))))"
    using assms(1) l2 by (simp add: appendAuditTx_def op_bind_def sql_exec_live sql_query_live s1(1) h op_world_def a at ins adv op_return_def)
  then show ?thesis using l2 s1(2) w2 by simp
qed

lemma AppendAudit_runs:
  assumes "live w" "pg_tenants s (au_tenant e) \<noteq> None" "pg_audit s (au_tenant e) = []"
  shows "\<exists>a s' w'. pg_AppendAudit e (s, w) = (Inr a, (s', w')) \<and> live w'"
proof -
  have "live (snd (ctx_err w))" using assms(1) by simp
  from appendAuditTx_runs [OF this assms(2,3)] obtain a s' w' where
    run: "appendAuditTx e (s, snd (ctx_err w)) = (Inr a, (s', w'))" "live w'" by blast
  from transaction_run [where body = "appendAuditTx e", OF assms(1) run] run(2) show ?thesis
    unfolding pg_AppendAudit_def by simp
qed

lemma sample_audit_runs:
  assumes "live w" "pg_tenants s ''acme'' \<noteq> None" "pg_audit s ''acme'' = []"
  shows "\<exists>s' w'. case_audit (pg_case_port q) ''acme'' actor action i request meta (s, w) = (Inr (), (s', w')) \<and> live w'"
proof -
  have "au_tenant (new_audit ''acme'' actor action ''case'' i ''SUCCESS'' request meta) = ''acme''"
    by (simp add: new_audit_def)
  with AppendAudit_runs [OF assms(1), of s "new_audit ''acme'' actor action ''case'' i ''SUCCESS'' request meta"] assms(2,3)
  show ?thesis by (auto simp: case_audit_def op_bind_def op_return_def)
qed

text \<open>The creation in the sample database, and its repetition.\<close>

lemma sample_opened:
  "\<exists>c s' w'. case_Create (pg_case_port q) ''acme'' ''ann'' sample_input (sample_db, sample_world) = (Inr (c, False), (s', w'))"
proof -
  let ?w = "sample_world"
  from sample_open_case [OF live_sample, of sample_db] obtain c w1 where
    c: "open_case ''acme'' ''ann'' sample_input [] ''HIGH'' (sample_db, ?w) = (Inr c, (sample_db, w1))" "live w1"
    "ca_id c \<noteq> []" "ca_tenant c = ''acme''" "ca_request c = ''req_1''" "ca_incidents c = []"
    "case_checks (case_columns ''req_1'' c)" "ca_title c \<noteq> []" "ca_owner c \<noteq> []" "ca_version c = 1" by blast
  have same: "scanCase (case_columns ''req_1'' c) = c" using c(5) by (cases c) (simp add: scanCase_columns)
  let ?s = "sample_db\<lparr>pg_cases := upd2 (pg_cases sample_db) ''acme'' (ca_id c) (case_columns ''req_1'' c),
    pg_case_keys := snoc (pg_case_keys sample_db) ''acme'' (ca_id c)\<rparr>"
  have ins: "insert_case c sample_db = (Inr (Some c), ?s)"
    using c(4-7) same by (simp add: insert_case_def Let_def case_by_request_def case_rows_def sample_db_def empty_pg_def
        List.map_filter_def)
  obtain s1 where del: "delete_links c ?s = Inr s1" "pg_tenants s1 = pg_tenants sample_db" "pg_audit s1 = pg_audit sample_db"
    by (simp add: delete_links_def)
  obtain w2 where cr: "CreateCase c (sample_db, w1) = (Inr (c, False), (s1, w2))" "live w2"
  proof -
    let ?body = "op_bind (statement (insert_case c)) (\<lambda>inserted. case inserted of None \<Rightarrow> op_return None
          | Some created \<Rightarrow> op_bind (syncCaseIncidents created) (\<lambda>_. op_return (Some created)))"
    have "?body (sample_db, snd (ctx_err w1)) = (Inr (Some c), (s1, snd (ctx_err (snd (ctx_err (snd (ctx_err w1)))))))"
      using c(2,6) by (simp add: op_bind_def statement_def case_prod_beta ins syncCaseIncidents_def sql_exec_live del(1) op_return_def)
    from transaction_try_live [where body = ?body, OF c(2) this] c(2,3,4,5,8-10)
    have "CreateCase c (sample_db, w1) = (Inr (c, False), (s1, snd (ctx_err (snd (ctx_err (snd (ctx_err (snd (ctx_err w1)))))))))"
      by (simp add: CreateCase_def op_bind_def op_return_def)
    then show thesis by (rule that) (use c(2) in simp)
  qed
  from sample_audit_runs [OF cr(2), of s1 q "''ann''" "''case.created''" "ca_id c" "''req_1''"
      "JObj [(''incident_ids'', nil_list []), (''severity'', JStr ''HIGH'')]"] del(2,3)
  obtain s2 w3 where au: "case_audit (pg_case_port q) ''acme'' ''ann'' ''case.created'' (ca_id c) ''req_1''
      (JObj [(''incident_ids'', nil_list []), (''severity'', JStr ''HIGH'')]) (s1, w2) = (Inr (), (s2, w3))"
    by (auto simp: sample_db_def empty_pg_def)
  have "case_Create (pg_case_port q) ''acme'' ''ann'' sample_input (sample_db, ?w) = (Inr (c, False), (s2, w3))"
    unfolding case_Create_def sample_input_simps Let_def
    by (simp add: sample_input_simps op_bind_def op_return_def c(1) cr(1) au)
  then show ?thesis by blast
qed

lemma sample_case_read:
  assumes "live w"
  shows "\<exists>w'. Case (pg_case_port q) ''acme'' ''case_1'' (sample_case_db, w) = (Inr (sample_case\<lparr>ca_evidence := []\<rparr>), (sample_case_db, w'))"
proof -
  have "evidence_rows ''acme'' sample_case_db = []"
    by (simp add: evidence_rows_def sample_case_db_def store_case_evidence sample_db_def empty_pg_def List.map_filter_def)
  with assms show ?thesis
    by (simp add: Case_def GetCase_def ListEvidence_def op_bind_def sql_query_live op_return_def sample_input_simps
        newest_first_def)
qed

lemma sample_repeated:
  "\<exists>c w'. case_Create (pg_case_port q) ''acme'' ''ann'' sample_input (sample_case_db, sample_world) = (Inr (c, True), (sample_case_db, w'))"
proof -
  let ?w = "sample_world" and ?s = sample_case_db
  from sample_open_case [OF live_sample, of ?s] obtain c w1 where
    c: "open_case ''acme'' ''ann'' sample_input [] ''HIGH'' (?s, ?w) = (Inr c, (?s, w1))" "live w1"
    "ca_id c \<noteq> []" "ca_tenant c = ''acme''" "ca_request c = ''req_1''" "ca_incidents c = []"
    "case_checks (case_columns ''req_1'' c)" "ca_title c \<noteq> []" "ca_owner c \<noteq> []" "ca_version c = 1" by blast
  have known: "case_by_request ''acme'' ''req_1'' ?s = Some (case_columns ''req_1'' sample_case)"
  proof -
    have "pg_case_keys ?s ''acme'' = [''case_1'']" by (simp add: sample_case_db_def sample_db_def empty_pg_def)
    then show ?thesis by (simp add: case_by_request_def case_rows_def List.map_filter_def)
  qed
  have ins: "insert_case c ?s = (Inr None, ?s)"
    using c(4,5,7) known by (simp add: insert_case_def Let_def)
  have row: "scanCase (case_columns ''req_1'' sample_case) = sample_case"
    using sample_case_row(2) [of "''acme''" "''case_1''"] by (simp add: pg_case_def)
  let ?body = "op_bind (statement (insert_case c)) (\<lambda>inserted. case inserted of None \<Rightarrow> op_return None
          | Some created \<Rightarrow> op_bind (syncCaseIncidents created) (\<lambda>_. op_return (Some created)))"
  have "transaction_try ?body (?s, w1) = (Inr None, (?s, snd (ctx_err (snd (ctx_err w1)))))"
    using c(2) by (simp add: transaction_try_def op_bind_def sql_query_live statement_def case_prod_beta ins op_return_def)
  with c(2,3,4,5,8-10) have "CreateCase c (?s, w1) = (Inr (sample_case, True), (?s, snd (ctx_err (snd (ctx_err (snd (ctx_err w1)))))))"
    by (simp add: CreateCase_def op_bind_def op_return_def caseByRequestID_def sql_query_live known row)
  then obtain w2 where cr: "CreateCase c (?s, w1) = (Inr (sample_case, True), (?s, w2))" "live w2" using c(2) by simp
  from sample_case_read [OF cr(2)] obtain w3 where
    rd: "Case (pg_case_port q) ''acme'' ''case_1'' (?s, w2) = (Inr (sample_case\<lparr>ca_evidence := []\<rparr>), (?s, w3))" by blast
  have "case_Create (pg_case_port q) ''acme'' ''ann'' sample_input (?s, ?w) = (Inr (sample_case\<lparr>ca_evidence := []\<rparr>, True), (?s, w3))"
    unfolding case_Create_def sample_input_simps Let_def
    by (simp add: sample_input_simps op_bind_def op_return_def c(1) cr(1) rd)
  then show ?thesis by blast
qed

text \<open>An update of the sample case.\<close>

definition sample_case_patch :: case_patch where
  "sample_case_patch = \<lparr>cx_title = [], cx_description = None, cx_status = ''investigation'', cx_severity = [],
     cx_owner = [], cx_closure_summary = [], cx_version = 1, cx_request = ''req_2''\<rparr>"

lemma sample_case_patch_simps:
  "trim_space (cx_title sample_case_patch) = []" "cx_description sample_case_patch = None"
  "(cx_status sample_case_patch = []) = False" "to_upper (trim_space (cx_status sample_case_patch)) = ''INVESTIGATION''"
  "cx_severity sample_case_patch = []" "trim_space (cx_owner sample_case_patch) = []" "cx_version sample_case_patch = 1"
  "''INVESTIGATION'' \<in> set (case_AllowedTransitions ''OPEN'')"
  unfolding sample_case_patch_def by code_simp+

lemma sample_case_changed:
  assumes "live w"
  shows "\<exists>d w'. case_change now ''bob'' sample_case_patch (case_json sample_case) w = (Inr d, w') \<and> live w' \<and>
    ca_id d = ''case_1'' \<and> ca_tenant d = ''acme'' \<and> ca_incidents d = [] \<and>
    (\<forall>u. case_checks (case_columns ''req_1'' (d\<lparr>ca_version := 2, ca_updated_at := u\<rparr>)))"
proof -
  have checks: "between 1 (char_length ''req_1'') 200" "between 1 (char_length ''ann'') 255"
    "''HIGH'' \<in> set case_severities" "''INVESTIGATION'' \<in> set case_statuses"
    by code_simp+
  obtain h w1 where h: "new_id ''hist'' w = (h, w1)" by fastforce
  have f: "case_fields_change sample_case_patch (case_json sample_case) = Inr (case_json sample_case)"
    by (simp add: case_fields_change_def sample_case_patch_simps)
  have o1: "case_owner_change now ''bob'' sample_case_patch (case_json sample_case) w = (case_json sample_case, w)"
    by (simp add: case_owner_change_def sample_case_patch_simps)
  let ?h = "\<lparr>hi_id = h, hi_action = ''case.status_changed'', hi_message = ''OPEN'' @ '' -> '' @ ''INVESTIGATION'', hi_actor = ''bob'',
     hi_metadata = JNull, hi_created_at = now\<rparr>"
  have st: "case_status_change now ''bob'' sample_case_patch (case_json sample_case) w =
      (Inr ((case_json sample_case)\<lparr>ca_status := ''INVESTIGATION'', ca_history := ca_history sample_case @ [?h]\<rparr>), w1)"
    using sample_case_patch_simps(8)
    by (simp add: case_status_change_def sample_case_patch_simps Let_def newHistory_def h case_json_def case_status_defs)
  have "live w1" using assms live_frame(2) [of "''hist''" w] by (simp add: h)
  let ?d = "(case_json sample_case)\<lparr>ca_status := ''INVESTIGATION'', ca_history := ca_history sample_case @ [?h],
     ca_allowed := case_AllowedTransitions ''INVESTIGATION'', ca_updated_by := ''bob''\<rparr>"
  have "case_change now ''bob'' sample_case_patch (case_json sample_case) w = (Inr ?d, w1)"
    by (simp add: case_change_def f o1 st)
  moreover have "case_checks (case_columns ''req_1'' (?d\<lparr>ca_version := 2, ca_updated_at := u\<rparr>))" for u
    using checks by (simp add: case_checks_def case_columns_def case_json_def sample_case_def)
  ultimately show ?thesis
    using \<open>live w1\<close> by (intro exI [of _ ?d] exI [of _ w1]) (simp add: case_json_def)
qed

lemma sample_updated:
  "\<exists>c s' w'. case_Update (pg_case_port q) ''acme'' ''case_1'' ''bob'' sample_case_patch (sample_case_db, sample_world) =
     (Inr c, (s', w'))"
proof -
  let ?s = sample_case_db and ?w = "snd (time_now sample_world)" and ?now = "fst (time_now sample_world)"
  let ?r = "case_columns ''req_1'' sample_case"
  have lw: "live ?w" by simp
  let ?w1 = "snd (ctx_err (snd (ctx_err ?w)))"
  have "live ?w1" using lw by simp
  from sample_case_changed [OF this, of ?now] obtain d w2 where
    d: "case_change ?now ''bob'' sample_case_patch (case_json sample_case) ?w1 = (Inr d, w2)" "live w2"
    "ca_id d = ''case_1''" "ca_tenant d = ''acme''" "ca_incidents d = []"
    "\<And>u. case_checks (case_columns ''req_1'' (d\<lparr>ca_version := 2, ca_updated_at := u\<rparr>))" by blast
  have row: "row_case ?r = case_json sample_case" "row_version ?r = 1" "row_request ?r = ''req_1''"
    by (simp_all add: case_columns_def)
  let ?e = "d\<lparr>ca_version := 2, ca_updated_at := fst (time_now w2)\<rparr>"
  have ch: "change_case ''acme'' ''case_1'' (case_change ?now ''bob'' sample_case_patch) ?r ?w1 = (Inr ?e, snd (time_now w2))"
    by (simp add: change_case_def row d(1,3,4) case_prod_beta)
  let ?s1 = "?s\<lparr>pg_cases := upd2 (pg_cases ?s) ''acme'' ''case_1'' (case_columns ''req_1'' ?e)\<rparr>"
  let ?x = "?e\<lparr>ca_request := ''req_1''\<rparr>"
  have up: "update_case ''acme'' ''case_1'' ?e ?s = (Inr ?x, ?s1)"
    using d(6) by (simp add: update_case_def Let_def row(3) scanCase_columns)
  obtain s2 where del: "delete_links ?x ?s1 = Inr s2" "pg_tenants s2 = pg_tenants ?s" "pg_audit s2 = pg_audit ?s"
    by (simp add: delete_links_def)
  let ?body = "op_bind (sql_query (\<lambda>s. found (pg_cases s ''acme'' ''case_1''))) (\<lambda>r.
      if 0 < (1::int) \<and> 1 \<noteq> row_version r then op_fail ErrVersionConflict
      else op_bind (op_world (change_case ''acme'' ''case_1'' (case_change ?now ''bob'' sample_case_patch) r)) (\<lambda>c.
           op_bind (statement (update_case ''acme'' ''case_1'' c)) (\<lambda>updated.
           op_bind (syncCaseIncidents updated) (\<lambda>_. op_return updated))))"
  let ?w3 = "snd (ctx_err (snd (ctx_err (snd (time_now w2)))))"
  have body: "?body (?s, snd (ctx_err ?w)) = (Inr ?x, (s2, ?w3))"
    using lw d(2) by (simp add: op_bind_def sql_query_live row(2) op_world_def ch statement_def case_prod_beta up
        syncCaseIncidents_def d(5) sql_exec_live del(1) op_return_def)
  have mut: "MutateCase ''acme'' ''case_1'' 1 (case_change ?now ''bob'' sample_case_patch) (?s, ?w) =
      (Inr ?x, (s2, snd (ctx_err ?w3)))"
    unfolding MutateCase_def by (rule transaction_run [where body = ?body, OF lw body]) (use d(2) in simp)
  have audit: "pg_tenants s2 ''acme'' \<noteq> None" "pg_audit s2 ''acme'' = []"
    by (simp_all add: del sample_case_db_def store_case_def set_links_def sample_db_def empty_pg_def)
  have l3: "live (snd (ctx_err ?w3))" using d(2) by simp
  from sample_audit_runs [OF l3 audit, of q "''bob''" "''case.updated''" "''case_1''" "''req_2''"
      "JObj [(''status'', JStr (ca_status ?x)), (''owner'', JStr (ca_owner ?x))]"]
  obtain s3 w4 where au: "case_audit (pg_case_port q) ''acme'' ''bob'' ''case.updated'' ''case_1'' ''req_2''
      (JObj [(''status'', JStr (ca_status ?x)), (''owner'', JStr (ca_owner ?x))]) (s2, snd (ctx_err ?w3)) = (Inr (), (s3, w4))"
    "live w4" by blast
  from case_audit_Inr [OF au(1)] obtain a where "s3 = audit_appended a s2" by blast
  then have "pg_case s3 = pg_case s2" by simp
  moreover have "pg_case s2 ''acme'' ''case_1'' \<noteq> None"
    using del(1) by (auto simp: delete_links_def pg_case_def)
  ultimately obtain f where f: "pg_case s3 ''acme'' ''case_1'' = Some f" by auto
  have "\<exists>c w'. Case (pg_case_port q) ''acme'' ''case_1'' (s3, w4) = (Inr c, (s3, w'))"
    using au(2) f by (simp add: Case_def GetCase_def ListEvidence_def op_bind_def sql_query_live op_return_def sample_input_simps)
  then obtain c w5 where rd: "Case (pg_case_port q) ''acme'' ''case_1'' (s3, w4) = (Inr c, (s3, w5))" by blast
  have "cx_request sample_case_patch = ''req_2''" by (simp add: sample_case_patch_def)
  then have "case_Update (pg_case_port q) ''acme'' ''case_1'' ''bob'' sample_case_patch (?s, sample_world) = (Inr c, (s3, w5))"
    using au(1) rd by (simp add: case_Update_def change_and_audit_def op_bind_def op_now_def case_prod_beta
        sample_case_patch_simps mut d(3))
  then show ?thesis by blast
qed

end
