(* ===== verification/Case_Properties.thy ===== *)
theory Case_Properties
  imports Case_Sample
begin

text \<open>
  The properties of the case service on the durable store: what opening and updating a case do,
  that a request identity opens one case, and that the histories of cases only grow.
\<close>

section \<open>Properties\<close>



text \<open>A request identity opens one case: while the database holds a case that the request opened,
  a repetition of the request, whatever it asks for now, changes nothing, reports the repetition and
  answers the case as it is stored now.\<close>

theorem case_request_opens_one_case:
  assumes "pg_wf s" "pg_cases s (trim_space tenant_id) i = Some r" "row_request r = trim_space (cn_request input)"
    and "case_Create (pg_case_port q) tenant_id actor input (s, w) = (Inr (c, again), (s', w'))"
  shows "again \<and> s' = s \<and>
    (\<exists>d ids. pg_case s (trim_space tenant_id) (trim_space i) = Some d \<and> c = d\<lparr>ca_evidence := ids\<rparr>)"
  using assms(4)
proof (rule case_Create_Inr)
  let ?t = "trim_space tenant_id"
  fix sev item created s1 w1 w2 w3
  assume item: "open_case ?t (trim_space actor) input (case_uniqueSorted (cn_incidents input)) sev (s, w1) = (Inr item, (s, w2))"
    and cr: "CreateCase item (s, w2) = (Inr (created, again), (s1, w3))"
    and rd: "again \<longrightarrow> s' = s1 \<and> (\<exists>d ids. pg_case s1 ?t (trim_space (ca_id created)) = Some d \<and> c = d\<lparr>ca_evidence := ids\<rparr>)"
  from open_case_Inr [OF item] have key: "ca_tenant item = ?t" "ca_request item = trim_space (cn_request input)"
    by (auto simp: build_case_def)
  obtain x where x: "case_by_request ?t (row_request r) s = Some x"
    using assms(1,2) case_by_request_None [of s ?t "row_request r" i r] by (auto simp: pg_wf_def)
  from CreateCase_cases [OF cr] key assms(3) x have dup: "again" "s1 = s" "created = scanCase x" by auto
  from case_by_request_Some [OF assms(1) x] have xr: "pg_cases s ?t (ca_id (row_case x)) = Some x" "row_request x = row_request r"
    by simp_all
  with assms(1,2) have "ca_id (row_case x) = i" unfolding pg_wf_def case_wf_def by blast
  then have "ca_id created = i" by (simp add: dup(3) scanCase_def)
  with rd dup(1,2) show ?thesis by simp
qed

theorem case_request_opens_one_case_witness:
  "\<exists>c w'. case_Create (pg_case_port (\<lambda>_ _. False)) ''acme'' ''ann'' sample_input (sample_case_db, sample_world) =
      (Inr (c, True), (sample_case_db, w')) \<and> (\<exists>ids. c = sample_case\<lparr>ca_evidence := ids\<rparr>)"
proof -
  obtain c w' where run: "case_Create (pg_case_port (\<lambda>_ _. False)) ''acme'' ''ann'' sample_input (sample_case_db, sample_world) =
      (Inr (c, True), (sample_case_db, w'))" using sample_repeated by blast
  have row: "pg_cases sample_case_db (trim_space ''acme'') ''case_1'' = Some (case_columns ''req_1'' sample_case)"
    by (simp add: sample_input_simps)
  have req: "row_request (case_columns ''req_1'' sample_case) = trim_space (cn_request sample_input)"
    by (simp add: sample_input_simps)
  from case_request_opens_one_case [OF sample_case_db_wf row req run] run show ?thesis
    by (auto simp: sample_input_simps)
qed





end
