(* ===== verification/Hunt_Query.thy ===== *)
theory Hunt_Query
  imports Go_Encoding Go_Time Core_Model
begin

text \<open>
  Hunt queries, \<^verbatim>\<open>internal/hunt/query.go\<close> over the structs of \<^verbatim>\<open>internal/core/hunt.go\<close>: normalization
  of a request, validation of its expression tree, saved templates, and compilation of the tree
  to a ClickHouse condition with placeholders. The database that runs the condition is not part
  of the repository.
\<close>

subsection \<open>Requests and expressions\<close>

record hunt_predicate =
  hp_field :: string
  hp_comparator :: string
  hp_value :: string
  hp_values :: "string list"

datatype hunt_expression = HuntExpression
  (he_all: "hunt_expression list")
  (he_any: "hunt_expression list")
  (he_not: "hunt_expression option")
  (he_predicate: "hunt_predicate option")

record hunt_request =
  hr_start :: time
  hr_end :: time
  hr_lookback :: int
  hr_expression :: "hunt_expression option"
  hr_limit :: int
  hr_cursor :: string

definition DefaultLookback :: duration where "DefaultLookback = 24 * hour"
definition MaximumLookback :: duration where "MaximumLookback = 31 * 24 * hour"
definition DefaultLimit :: int where "DefaultLimit = 100"
definition MaximumLimit :: int where "MaximumLimit = 1000"

text \<open>\<^verbatim>\<open>time.Duration(seconds) * time.Second\<close> multiplies 64-bit integers, so it wraps around.\<close>

definition int64 :: "int \<Rightarrow> int" where
  "int64 i = (i + 2 ^ 63) mod 2 ^ 64 - 2 ^ 63"

definition seconds :: "int \<Rightarrow> duration" where
  "seconds n = int64 (n * go_second)"

text \<open>
  \<^verbatim>\<open>strconv.ParseInt(s, 10, 64)\<close>: the value, which is 0 after a syntax error and the nearest bound
  after a range error, and whether there was no error. A number that is out of range is reported
  where the digits leave the range, whatever follows them.
\<close>

datatype parse_error = SyntaxError | RangeError

definition is_digit :: "char \<Rightarrow> bool" where
  "is_digit c \<longleftrightarrow> CHR ''0'' \<le> c \<and> c \<le> CHR ''9''"

definition digit_value :: "char \<Rightarrow> nat" where
  "digit_value c = of_char c - 48"

fun parse_uint :: "nat \<Rightarrow> string \<Rightarrow> nat \<times> parse_error option" where
  "parse_uint n [] = (n, None)"
| "parse_uint n (c # cs) =
     (if \<not> is_digit c then (0, Some SyntaxError)
      else if 2 ^ 64 \<le> 10 * n + digit_value c then (2 ^ 64 - 1, Some RangeError)
      else parse_uint (10 * n + digit_value c) cs)"

definition parse_int :: "string \<Rightarrow> int \<times> bool" where
  "parse_int s =
    (let neg = (s \<noteq> [] \<and> hd s = CHR ''-'');
         ds = (if s \<noteq> [] \<and> (hd s = CHR ''-'' \<or> hd s = CHR ''+'') then tl s else s)
     in if ds = [] then (0, False)
        else (let (n, err) = parse_uint 0 ds
              in if err = Some SyntaxError then (0, False)
                 else if \<not> neg \<and> 2 ^ 63 \<le> n then (2 ^ 63 - 1, False)
                 else if neg \<and> 2 ^ 63 < n then (- (2 ^ 63), False)
                 else (if neg then - int n else int n, err = None)))"

subsection \<open>Fields\<close>

record field_definition =
  fd_expression :: string
  fd_kind :: string

definition column :: "string \<Rightarrow> string \<Rightarrow> field_definition" where
  "column e k = \<lparr>fd_expression = e, fd_kind = k\<rparr>"

text \<open>\<open>sq\<close> is the single quote of SQL literals.\<close>

abbreviation sq :: string where "sq \<equiv> [CHR 0x27]"

definition extract_string :: "string list \<Rightarrow> string" where
  "extract_string path = ''JSONExtractString(payload'' @ concat (map (\<lambda>k. '', '' @ sq @ k @ sq) path) @ '')''"

definition hunt_fields :: "(string \<times> field_definition) list" where
  "hunt_fields =
    [(''event_id'', column ''event_id'' ''string''),
     (''category'', column ''category'' ''string''),
     (''severity'', column ''severity'' ''number''),
     (''source.vendor'', column ''source_vendor'' ''string''),
     (''source.product'', column ''source_product'' ''string''),
     (''source.type'', column ''source_type'' ''string''),
     (''user.name'', column ''user_name'' ''string''),
     (''device.hostname'', column ''device_hostname'' ''string''),
     (''device.ip'', column (extract_string [''device'', ''ip'']) ''string''),
     (''src_endpoint.ip'', column ''src_ip'' ''string''),
     (''dst_endpoint.ip'', column ''dst_ip'' ''string''),
     (''src_endpoint.hostname'', column (extract_string [''src_endpoint'', ''hostname'']) ''string''),
     (''dst_endpoint.hostname'', column (extract_string [''dst_endpoint'', ''hostname'']) ''string''),
     (''activity_name'', column (extract_string [''activity_name'']) ''string''),
     (''collector_id'', column (extract_string [''collector_id'']) ''string''),
     (''process.name'', column (extract_string [''process'', ''name'']) ''string''),
     (''process.command_line'', column (extract_string [''process'', ''command_line'']) ''string''),
     (''security_result.action'', column (extract_string [''security_result'', ''action'']) ''string''),
     (''security_result.outcome'', column (extract_string [''security_result'', ''outcome'']) ''string''),
     (''raw'', column ''payload'' ''text'')]"

text \<open>The pattern \<^verbatim>\<open>^metadata(?:\.[A-Za-z0-9_-]{1,64}){1,8}$\<close>.\<close>

definition name_char :: "char \<Rightarrow> bool" where
  "name_char c \<longleftrightarrow>
     (CHR ''A'' \<le> c \<and> c \<le> CHR ''Z'') \<or> (CHR ''a'' \<le> c \<and> c \<le> CHR ''z'') \<or> is_digit c \<or> c = CHR ''_'' \<or> c = CHR ''-''"

definition metadata_name :: "string \<Rightarrow> bool" where
  "metadata_name name \<longleftrightarrow>
     (case split_char (CHR ''.'') name of
        [] \<Rightarrow> False
      | root # segments \<Rightarrow>
          root = ''metadata'' \<and> 1 \<le> length segments \<and> length segments \<le> 8 \<and>
          list_all (\<lambda>s. 1 \<le> length s \<and> length s \<le> 64 \<and> list_all name_char s) segments)"

definition resolveField :: "string \<Rightarrow> field_definition result" where
  "resolveField field_name =
    (let name = to_lower (trim_space field_name)
     in case map_of hunt_fields name of
          Some f \<Rightarrow> Inr f
        | None \<Rightarrow>
            if metadata_name name then Inr (column (''JSON_VALUE(payload, '' @ sq @ ''$.'' @ name @ sq @ '')'') ''string'')
            else Inl ErrInvalidQuery)"

subsection \<open>Validation\<close>

definition validateValue :: "string \<Rightarrow> string \<Rightarrow> unit result" where
  "validateValue kind v =
    (if v = [] \<or> 1024 < length v then Inl ErrInvalidQuery
     else if kind = ''number'' \<and> \<not> snd (parse_int v) then Inl ErrInvalidQuery
     else Inr ())"

fun validateValues :: "string \<Rightarrow> string list \<Rightarrow> unit result" where
  "validateValues kind [] = Inr ()"
| "validateValues kind (v # vs) = bind_ok (validateValue kind v) (\<lambda>_. validateValues kind vs)"

definition allowed_comparators :: "string \<Rightarrow> string list" where
  "allowed_comparators kind =
    [''eq'', ''neq'', ''exists'', ''not_exists''] @
    (if kind = ''string'' \<or> kind = ''text'' then [''contains'', ''starts_with'', ''ends_with'', ''in''] else []) @
    (if kind = ''number'' then [''gt'', ''gte'', ''lt'', ''lte'', ''in''] else [])"

definition comparator_of :: "hunt_predicate \<Rightarrow> string" where
  "comparator_of p = to_lower (trim_space (hp_comparator p))"

definition validatePredicate :: "hunt_predicate \<Rightarrow> unit result" where
  "validatePredicate p =
    bind_ok (resolveField (hp_field p)) (\<lambda>field.
      if comparator_of p \<notin> set (allowed_comparators (fd_kind field)) then Inl ErrInvalidQuery
      else if comparator_of p = ''exists'' \<or> comparator_of p = ''not_exists'' then Inr ()
      else if comparator_of p = ''in''
      then if hp_values p = [] \<or> 100 < length (hp_values p) then Inl ErrInvalidQuery
           else validateValues (fd_kind field) (hp_values p)
      else validateValue (fd_kind field) (hp_value p))"

definition branches :: "hunt_expression \<Rightarrow> nat" where
  "branches e =
    of_bool (he_all e \<noteq> []) + of_bool (he_any e \<noteq> []) + of_bool (he_not e \<noteq> None) + of_bool (he_predicate e \<noteq> None)"

definition children :: "hunt_expression \<Rightarrow> hunt_expression list" where
  "children e = (if he_any e \<noteq> [] then he_any e else he_all e)"

lemma size_children [termination_simp]: "size_list size (children e) < size e"
  by (cases e) (simp add: children_def)

lemma size_not [termination_simp]: "he_not e = Some x \<Longrightarrow> size x < size e"
  by (cases e) auto

text \<open>The counter of predicates is threaded through the tree; an accepted tree returns it.\<close>

function (sequential)
  validateExpression :: "hunt_expression \<Rightarrow> nat \<Rightarrow> nat \<Rightarrow> nat result" and
  validateChildren :: "hunt_expression list \<Rightarrow> nat \<Rightarrow> nat \<Rightarrow> nat result" where
  "validateExpression e depth count =
     (if 8 < depth then Inl ErrInvalidQuery
      else if branches e \<noteq> 1 then Inl ErrInvalidQuery
      else if children e \<noteq> []
      then if 32 < length (children e) then Inl ErrInvalidQuery
           else validateChildren (children e) (depth + 1) count
      else case he_not e of
             Some x \<Rightarrow> validateExpression x (depth + 1) count
           | None \<Rightarrow>
               if 64 < count + 1 then Inl ErrInvalidQuery
               else bind_ok (validatePredicate (the (he_predicate e))) (\<lambda>_. Inr (count + 1)))"
| "validateChildren [] depth count = Inr count"
| "validateChildren (x # xs) depth count =
     bind_ok (validateExpression x depth count) (\<lambda>count1. validateChildren xs depth count1)"
  by pat_completeness auto
termination
  by (relation "measure (case_sum (\<lambda>(e, _). size e) (\<lambda>(es, _). size_list size es))")
    (auto simp: size_children size_not)

subsection \<open>Normalization and templates\<close>

definition validate_root :: "hunt_request \<Rightarrow> unit result" where
  "validate_root r =
    (case hr_expression r of
       None \<Rightarrow> Inr ()
     | Some e \<Rightarrow> bind_ok (validateExpression e 1 0) (\<lambda>_. Inr ()))"

text \<open>The interval: both ends given, or the lookback before now.\<close>

definition normalize_range :: "hunt_request \<Rightarrow> time \<Rightarrow> hunt_request result" where
  "normalize_range r now =
    (if is_zero (hr_start r) \<and> is_zero (hr_end r)
     then if hr_cursor r \<noteq> [] then Inl ErrInvalidQuery
          else (let lookback = (if 0 < hr_lookback r then seconds (hr_lookback r) else DefaultLookback)
                in Inr (r\<lparr>hr_end := now, hr_start := now - lookback\<rparr>))
     else if is_zero (hr_start r) \<or> is_zero (hr_end r) then Inl ErrInvalidQuery
     else Inr r)"

definition Normalize :: "hunt_request \<Rightarrow> time \<Rightarrow> hunt_request result" where
  "Normalize request now =
    (let r0 = request\<lparr>hr_cursor := trim_space (hr_cursor request)\<rparr>
     in if 4096 < length (hr_cursor r0) then Inl ErrInvalidQuery
        else bind_ok (normalize_range r0 now) (\<lambda>r1.
          let window = hr_end r1 - hr_start r1
          in if window \<le> 0 \<or> MaximumLookback < window then Inl ErrInvalidQuery
             else if after (hr_end r1) (now + 5 * minute) then Inl ErrInvalidQuery
             else (let limit = (if hr_limit r1 = 0 then DefaultLimit else hr_limit r1);
                       r2 = r1\<lparr>hr_lookback := 0, hr_limit := limit\<rparr>
                   in if limit < 1 \<or> MaximumLimit < limit then Inl ErrInvalidQuery
                      else bind_ok (validate_root r2) (\<lambda>_. Inr r2))))"

definition ValidateTemplate :: "hunt_request \<Rightarrow> time \<Rightarrow> hunt_request result" where
  "ValidateTemplate request now =
    (if trim_space (hr_cursor request) \<noteq> [] then Inl ErrInvalidQuery
     else (let r = (if is_zero (hr_start request) \<and> is_zero (hr_end request) \<and> hr_lookback request = 0
                    then request\<lparr>hr_lookback := DefaultLookback div go_second\<rparr> else request)
           in if 0 < hr_lookback r
              then (let lookback = seconds (hr_lookback r)
                    in if lookback < minute \<or> MaximumLookback < lookback then Inl ErrInvalidQuery
                       else bind_ok (Normalize (r\<lparr>hr_start := 0, hr_end := 0\<rparr>) now) (\<lambda>_.
                            Inr (r\<lparr>hr_cursor := []\<rparr>)))
              else bind_ok (Normalize r now) (\<lambda>_. Inr r)))"

definition ResolveTemplate :: "hunt_request \<Rightarrow> time \<Rightarrow> hunt_request result" where
  "ResolveTemplate request now =
    Normalize (if 0 < hr_lookback request then request\<lparr>hr_start := 0, hr_end := 0\<rparr> else request) now"

subsection \<open>Compilation\<close>

datatype hunt_arg = ArgString string | ArgInt int

definition hunt_arg :: "string \<Rightarrow> string \<Rightarrow> hunt_arg" where
  "hunt_arg kind v = (if kind = ''number'' then ArgInt (fst (parse_int v)) else ArgString v)"

definition lowerPlaceholders :: "string list \<Rightarrow> string list" where
  "lowerPlaceholders placeholders = map (\<lambda>_. ''lowerUTF8(?)'') placeholders"

definition number_operators :: "(string \<times> string) list" where
  "number_operators =
    [(''eq'', ''=''), (''neq'', ''!=''), (''gt'', ''>''), (''gte'', ''>=''), (''lt'', ''<''), (''lte'', ''<='')]"

text \<open>The condition on one field; \<open>n\<close> is the number of values.\<close>

definition predicate_text :: "field_definition \<Rightarrow> string \<Rightarrow> nat \<Rightarrow> string result" where
  "predicate_text field comparator n =
    (let expression = fd_expression field
     in if comparator = ''exists'' then Inr (expression @ '' != '' @ sq @ sq)
        else if comparator = ''not_exists'' then Inr (expression @ '' = '' @ sq @ sq)
        else if comparator = ''in''
        then (if fd_kind field = ''number''
              then Inr (expression @ '' IN ('' @ join '','' (replicate n ''?'') @ '')'')
              else Inr (''lowerUTF8('' @ expression @ '') IN ('' @ join '','' (lowerPlaceholders (replicate n ''?'')) @ '')''))
        else if fd_kind field = ''number''
        then Inr (expression @ '' '' @ (case map_of number_operators comparator of None \<Rightarrow> [] | Some q \<Rightarrow> q) @ '' ?'')
        else if comparator = ''eq'' then Inr (''lowerUTF8('' @ expression @ '') = lowerUTF8(?)'')
        else if comparator = ''neq'' then Inr (''lowerUTF8('' @ expression @ '') != lowerUTF8(?)'')
        else if comparator = ''contains'' then Inr (''positionCaseInsensitiveUTF8('' @ expression @ '', ?) > 0'')
        else if comparator = ''starts_with'' then Inr (''startsWith(lowerUTF8('' @ expression @ ''), lowerUTF8(?))'')
        else if comparator = ''ends_with'' then Inr (''endsWith(lowerUTF8('' @ expression @ ''), lowerUTF8(?))'')
        else Inl ErrInvalidQuery)"

definition predicate_values :: "hunt_predicate \<Rightarrow> string list" where
  "predicate_values p =
    (if comparator_of p = ''exists'' \<or> comparator_of p = ''not_exists'' then []
     else if comparator_of p = ''in'' then hp_values p else [hp_value p])"

definition compilePredicate :: "hunt_predicate \<Rightarrow> (string \<times> hunt_arg list) result" where
  "compilePredicate p =
    bind_ok (resolveField (hp_field p)) (\<lambda>field.
    let values = predicate_values p; args = map (hunt_arg (fd_kind field)) values
    in bind_ok (predicate_text field (comparator_of p) (length args)) (\<lambda>text. Inr (text, args)))"

function (sequential)
  compileNode :: "hunt_expression \<Rightarrow> (string \<times> hunt_arg list) result" and
  compileChildren :: "hunt_expression list \<Rightarrow> (string list \<times> hunt_arg list) result" where
  "compileNode e =
     (if he_all e \<noteq> [] \<or> he_any e \<noteq> []
      then bind_ok (compileChildren (children e)) (\<lambda>(parts, args).
             Inr (join (if he_any e \<noteq> [] then '' OR '' else '' AND '') parts, args))
      else case he_not e of
             Some x \<Rightarrow> bind_ok (compileNode x) (\<lambda>(part, args). Inr (''NOT ('' @ part @ '')'', args))
           | None \<Rightarrow>
               (case he_predicate e of
                  None \<Rightarrow> Inl ErrInvalidQuery
                | Some p \<Rightarrow> compilePredicate p))"
| "compileChildren [] = Inr ([], [])"
| "compileChildren (x # xs) =
     bind_ok (compileNode x) (\<lambda>(part, args).
     bind_ok (compileChildren xs) (\<lambda>(parts, rest). Inr ((''('' @ part @ '')'') # parts, args @ rest)))"
  by pat_completeness auto
termination
  by (relation "measure (case_sum size (size_list size))") (auto simp: size_children size_not)

definition CompileExpression :: "hunt_expression option \<Rightarrow> (string \<times> hunt_arg list) result" where
  "CompileExpression expression =
    (case expression of None \<Rightarrow> Inr ([], []) | Some e \<Rightarrow> compileNode e)"

subsection \<open>The identity of a query\<close>

text \<open>\<^verbatim>\<open>json.Marshal\<close> of the request; a time outside the years 0 to 9999 cannot be encoded and the error is dropped.\<close>

definition predicate_json :: "hunt_predicate \<Rightarrow> json" where
  "predicate_json p = JStruct
    ([(''field'', JStr (hp_field p)), (''comparator'', JStr (hp_comparator p))] @
     omit_if (hp_value p = []) ''value'' (JStr (hp_value p)) @
     omit_if (hp_values p = []) ''values'' (str_list (hp_values p)))"

fun expression_json :: "hunt_expression \<Rightarrow> json" where
  "expression_json (HuntExpression every some_of negated p) = JStruct
    (omit_if (every = []) ''all'' (JArr (map expression_json every)) @
     omit_if (some_of = []) ''any'' (JArr (map expression_json some_of)) @
     (case negated of None \<Rightarrow> [] | Some x \<Rightarrow> [(''not'', expression_json x)]) @
     (case p of None \<Rightarrow> [] | Some q \<Rightarrow> [(''predicate'', predicate_json q)]))"

definition time_encodable :: "time \<Rightarrow> bool" where
  "time_encodable t \<longleftrightarrow> (case civil (t div (24 * hour)) of (y, _, _) \<Rightarrow> 0 \<le> y \<and> y \<le> 9999)"

definition request_json :: "hunt_request \<Rightarrow> json" where
  "request_json r = JStruct
    ([(''start'', JStr (rfc3339nano (hr_start r))), (''end'', JStr (rfc3339nano (hr_end r)))] @
     omit_if (hr_lookback r = 0) ''lookback_seconds'' (JInt (hr_lookback r)) @
     (case hr_expression r of None \<Rightarrow> [] | Some e \<Rightarrow> [(''expression'', expression_json e)]) @
     omit_if (hr_limit r = 0) ''limit'' (JInt (hr_limit r)) @
     omit_if (hr_cursor r = []) ''cursor'' (JStr (hr_cursor r)))"

definition QueryHash :: "hunt_request \<Rightarrow> string" where
  "QueryHash request =
    (let r = request\<lparr>hr_cursor := []\<rparr>
     in sha256_hex (if time_encodable (hr_start r) \<and> time_encodable (hr_end r) then marshal (request_json r) else []))"

end
