(* ===== verification/Hunt_Properties.thy ===== *)
theory Hunt_Properties
  imports Hunt_Query
begin

text \<open>
  The properties of hunt queries: which expressions are accepted, that an accepted query compiles
  to a condition that no searched value enters, and what normalization and saved templates promise.
\<close>

subsection \<open>Accepted numbers\<close>

definition decimal :: "nat \<Rightarrow> string \<Rightarrow> nat" where
  "decimal n ds = foldl (\<lambda>n c. 10 * n + digit_value c) n ds"

lemma decimal_simps [simp]: "decimal n [] = n" "decimal n (c # cs) = decimal (10 * n + digit_value c) cs"
  by (simp_all add: decimal_def)

lemma decimal_mono: "n \<le> decimal n ds"
proof (induction ds arbitrary: n)
  case (Cons c ds)
  from Cons [of "10 * n + digit_value c"] show ?case by simp
qed simp

lemma parse_uint_iff:
  "n < 2 ^ 64 \<Longrightarrow> parse_uint n ds = (k, None) \<longleftrightarrow> list_all is_digit ds \<and> decimal n ds < 2 ^ 64 \<and> k = decimal n ds"
proof (induction ds arbitrary: n)
  case (Cons c ds)
  show ?case
  proof (cases "2 ^ 64 \<le> 10 * n + digit_value c")
    case True
    with decimal_mono [of "10 * n + digit_value c" ds] show ?thesis by auto
  next
    case False
    with Cons.IH [of "10 * n + digit_value c"] show ?thesis by auto
  qed
qed auto

text \<open>The integers a signed numeral of 64 bits denotes.\<close>

definition numeral_of :: "string \<Rightarrow> int option" where
  "numeral_of s =
    (let neg = (s \<noteq> [] \<and> hd s = CHR ''-'');
         ds = (if s \<noteq> [] \<and> (hd s = CHR ''-'' \<or> hd s = CHR ''+'') then tl s else s);
         i = (if neg then - int (decimal 0 ds) else int (decimal 0 ds))
     in if ds \<noteq> [] \<and> list_all is_digit ds \<and> - (2 ^ 63) \<le> i \<and> i < 2 ^ 63 then Some i else None)"

lemma parse_int_numeral: "parse_int s = (i, True) \<longleftrightarrow> numeral_of s = Some i"
proof -
  define neg where "neg \<longleftrightarrow> s \<noteq> [] \<and> hd s = CHR ''-''"
  define ds where "ds = (if s \<noteq> [] \<and> (hd s = CHR ''-'' \<or> hd s = CHR ''+'') then tl s else s)"
  obtain n err where p: "parse_uint 0 ds = (n, err)" by fastforce
  have iff: "err = None \<longleftrightarrow> list_all is_digit ds \<and> decimal 0 ds < 2 ^ 64" "err = None \<Longrightarrow> n = decimal 0 ds"
    using parse_uint_iff [of 0 ds n] p parse_uint_iff [of 0 ds "decimal 0 ds"] by auto
  have "parse_int s = (i, True) \<longleftrightarrow> ds \<noteq> [] \<and> err = None \<and> (if neg then n \<le> 2 ^ 63 \<and> i = - int n else n < 2 ^ 63 \<and> i = int n)"
    unfolding parse_int_def Let_def neg_def [symmetric] ds_def [symmetric] p by (auto simp: not_le)
  also have "\<dots> \<longleftrightarrow> numeral_of s = Some i"
    unfolding numeral_of_def Let_def neg_def [symmetric] ds_def [symmetric] using iff by auto
  finally show ?thesis .
qed

subsection \<open>Accepted expressions\<close>

definition value_valid :: "string \<Rightarrow> string \<Rightarrow> bool" where
  "value_valid kind v \<longleftrightarrow> v \<noteq> [] \<and> length v \<le> 1024 \<and> (kind = ''number'' \<longrightarrow> numeral_of v \<noteq> None)"

definition predicate_valid :: "hunt_predicate \<Rightarrow> bool" where
  "predicate_valid p \<longleftrightarrow>
     (\<exists>field. resolveField (hp_field p) = Inr field \<and> comparator_of p \<in> set (allowed_comparators (fd_kind field)) \<and>
        (comparator_of p = ''in'' \<longrightarrow> hp_values p \<noteq> [] \<and> length (hp_values p) \<le> 100) \<and>
        list_all (value_valid (fd_kind field)) (predicate_values p))"

lemma child_smaller [termination_simp]: "x \<in> set (children e) \<Longrightarrow> size x < size e"
  using size_children [of e] size_list_estimation' [of x "children e" "size x" size] by simp

function hunt_depth :: "hunt_expression \<Rightarrow> nat" where
  "hunt_depth e =
     Suc (max (foldr max (map hunt_depth (children e)) 0) (case he_not e of None \<Rightarrow> 0 | Some x \<Rightarrow> hunt_depth x))"
  by auto
termination by (relation "measure size") (auto simp: child_smaller size_not)

function predicate_count :: "hunt_expression \<Rightarrow> nat" where
  "predicate_count e =
     sum_list (map predicate_count (children e)) + (case he_not e of None \<Rightarrow> 0 | Some x \<Rightarrow> predicate_count x) +
     (case he_predicate e of None \<Rightarrow> 0 | Some _ \<Rightarrow> 1)"
  by auto
termination by (relation "measure size") (auto simp: child_smaller size_not)

function hunt_valid :: "hunt_expression \<Rightarrow> bool" where
  "hunt_valid e \<longleftrightarrow>
     branches e = 1 \<and> length (children e) \<le> 32 \<and> (\<forall>x \<in> set (children e). hunt_valid x) \<and>
     (case he_not e of None \<Rightarrow> True | Some x \<Rightarrow> hunt_valid x) \<and>
     (case he_predicate e of None \<Rightarrow> True | Some p \<Rightarrow> predicate_valid p)"
  by auto
termination by (relation "measure size") (auto simp: child_smaller size_not)

declare hunt_depth.simps [simp del] predicate_count.simps [simp del] hunt_valid.simps [simp del]
  validateExpression.simps [simp del] compileNode.simps [simp del]

lemma validateValue_iff: "validateValue kind v = Inr u \<longleftrightarrow> value_valid kind v"
  using parse_int_numeral [of v] by (cases "parse_int v") (auto simp: validateValue_def value_valid_def)

lemma validateValues_iff: "validateValues kind vs = Inr u \<longleftrightarrow> list_all (value_valid kind) vs"
  by (induction vs) (auto simp: bind_ok_eq_Inr validateValue_iff)

lemma validatePredicate_iff: "validatePredicate p = Inr u \<longleftrightarrow> predicate_valid p"
  by (auto simp: validatePredicate_def predicate_valid_def predicate_values_def bind_ok_eq_Inr validateValue_iff
      validateValues_iff split: if_splits)

text \<open>The four shapes of an expression with exactly one branch.\<close>

lemma branches_cases:
  assumes "branches e = 1"
  obtains (group) "children e \<noteq> []" "he_not e = None" "he_predicate e = None" "he_all e = [] \<or> he_any e = []"
  | (negation) x where "children e = []" "he_not e = Some x" "he_predicate e = None" "he_all e = []" "he_any e = []"
  | (leaf) p where "children e = []" "he_not e = None" "he_predicate e = Some p" "he_all e = []" "he_any e = []"
  using assms
  by (cases "he_all e"; cases "he_any e"; cases "he_not e"; cases "he_predicate e")
    (auto simp: branches_def children_def)

lemma foldr_max_le: "d + foldr max (map f xs) 0 \<le> k \<longleftrightarrow> d \<le> k \<and> (\<forall>x \<in> set xs. d + f x \<le> (k::nat))"
  by (induction xs) auto

lemma validate_iff:
  "validateExpression e d c = Inr n \<longleftrightarrow>
     hunt_valid e \<and> d + hunt_depth e \<le> 9 \<and> c + predicate_count e \<le> 64 \<and> n = c + predicate_count e"
  "validateChildren es d c = Inr n \<longleftrightarrow>
     (\<forall>x \<in> set es. hunt_valid x \<and> d + hunt_depth x \<le> 9) \<and>
     (es \<noteq> [] \<longrightarrow> c + sum_list (map predicate_count es) \<le> 64) \<and> n = c + sum_list (map predicate_count es)"
proof (induction e d c and es d c arbitrary: n and n rule: validateExpression_validateChildren.induct)
  case (1 e d c)
  show ?case
  proof (cases "branches e = 1 \<and> d \<le> 8")
    case False
    then show ?thesis
      by (auto simp: validateExpression.simps [of e] hunt_valid.simps [of e] hunt_depth.simps [of e])
  next
    case True
    then have b: "branches e = 1" and d: "d \<le> 8" by simp_all
    from b show ?thesis
    proof (cases rule: branches_cases)
      case group
      with 1(1) b d show ?thesis
        by (auto simp: validateExpression.simps [of e] hunt_valid.simps [of e] hunt_depth.simps [of e]
            predicate_count.simps [of e] foldr_max_le)
    next
      case (negation x)
      with 1(2) b d show ?thesis
        by (auto simp: validateExpression.simps [of e] hunt_valid.simps [of e] hunt_depth.simps [of e]
            predicate_count.simps [of e])
    next
      case (leaf p)
      with b d show ?thesis
        by (auto simp: validateExpression.simps [of e] hunt_valid.simps [of e] hunt_depth.simps [of e]
            predicate_count.simps [of e] bind_ok_eq_Inr validatePredicate_iff)
    qed
  qed
next
  case (3 x xs d c)
  show ?case by (auto simp: bind_ok_eq_Inr 3)
qed auto

subsection \<open>The condition and its arguments\<close>

text \<open>A query without the values it searches for; how many there are stays.\<close>

definition predicate_shape :: "hunt_predicate \<Rightarrow> hunt_predicate" where
  "predicate_shape p = p\<lparr>hp_value := [], hp_values := map (\<lambda>_. []) (hp_values p)\<rparr>"

fun shape :: "hunt_expression \<Rightarrow> hunt_expression" where
  "shape (HuntExpression every some_of negated p) =
     HuntExpression (map shape every) (map shape some_of) (map_option shape negated) (map_option predicate_shape p)"

text \<open>The arguments in the order of the predicates, numbers as integers.\<close>

definition predicate_args :: "hunt_predicate \<Rightarrow> hunt_arg list" where
  "predicate_args p =
    (case resolveField (hp_field p) of
       Inl e \<Rightarrow> []
     | Inr f \<Rightarrow> map (\<lambda>v. if fd_kind f = ''number'' then ArgInt (the (numeral_of v)) else ArgString v) (predicate_values p))"

function hunt_args :: "hunt_expression \<Rightarrow> hunt_arg list" where
  "hunt_args e =
     concat (map hunt_args (children e)) @ (case he_not e of None \<Rightarrow> [] | Some x \<Rightarrow> hunt_args x) @
     (case he_predicate e of None \<Rightarrow> [] | Some p \<Rightarrow> predicate_args p)"
  by auto
termination by (relation "measure size") (auto simp: child_smaller size_not)

declare hunt_args.simps [simp del]

lemma children_shape [simp]: "children (shape e) = map shape (children e)"
  by (cases e) (simp add: children_def)

lemma shape_sel [simp]:
  "he_not (shape e) = map_option shape (he_not e)" "he_predicate (shape e) = map_option predicate_shape (he_predicate e)"
  "he_any (shape e) = map shape (he_any e)" "he_all (shape e) = map shape (he_all e)"
  by (cases e; simp)+

text \<open>The characters of the fixed texts, and of the names of metadata fields.\<close>

definition sql_char :: "char \<Rightarrow> bool" where
  "sql_char c \<longleftrightarrow> name_char c \<or> c \<in> set ''.,()?$=!<> '' \<or> c = CHR 0x27"

definition clean :: "string \<Rightarrow> bool" where
  "clean s \<longleftrightarrow> list_all sql_char s \<and> CHR ''?'' \<notin> set s"

lemma name_char_sql: "name_char c \<Longrightarrow> sql_char c \<and> c \<noteq> CHR ''?''"
  unfolding sql_char_def name_char_def is_digit_def by (auto simp: less_eq_char_def)

lemma clean_simps [simp]: "clean []" "clean (c # s) \<longleftrightarrow> sql_char c \<and> c \<noteq> CHR ''?'' \<and> clean s"
  "clean (s @ t) \<longleftrightarrow> clean s \<and> clean t"
  by (auto simp: clean_def)

lemma clean_append: "clean s \<Longrightarrow> clean t \<Longrightarrow> clean (s @ t)"
  by simp

lemma clean_join: "clean d \<Longrightarrow> (\<And>x. x \<in> set xs \<Longrightarrow> clean x) \<Longrightarrow> clean (join d xs)"
  by (induction d xs rule: join.induct) auto

lemma metadata_clean:
  assumes "metadata_name name"
  shows "clean name"
proof -
  from assms obtain segments where s: "split_char (CHR ''.'') name = ''metadata'' # segments"
    "list_all (\<lambda>s. 1 \<le> length s \<and> length s \<le> 64 \<and> list_all name_char s) segments"
    by (auto simp: metadata_name_def split: list.splits)
  have "clean x" if "list_all name_char x" for x
    using that by (induction x) (auto dest: name_char_sql)
  moreover have "clean ''metadata''" unfolding clean_def by code_simp
  ultimately have "clean x" if "x \<in> set (split_char (CHR ''.'') name)" for x
    using that s by (auto simp: list_all_iff)
  moreover have "clean ''.''" by (simp add: sql_char_def)
  ultimately have "clean (join ''.'' (split_char (CHR ''.'') name))" by (intro clean_join)
  then show ?thesis by (simp only: join_split_char)
qed

lemma fields_clean: "list_all (\<lambda>(k, f). clean (fd_expression f)) hunt_fields"
  unfolding clean_def by code_simp

lemma resolveField_clean:
  assumes "resolveField name = Inr f"
  shows "clean (fd_expression f)"
proof -
  let ?n = "to_lower (trim_space name)"
  from assms consider "map_of hunt_fields ?n = Some f" | "metadata_name ?n"
    "f = column (''JSON_VALUE(payload, '' @ sq @ ''$.'' @ ?n @ sq @ '')'') ''string''"
    by (auto simp: resolveField_def Let_def split: option.splits if_splits)
  then show ?thesis
  proof cases
    case 1
    with fields_clean show ?thesis by (auto simp: list_all_iff dest!: map_of_SomeD)
  next
    case 2
    have "clean (''JSON_VALUE(payload, '' @ sq @ ''$.'')" "clean (sq @ '')'')" unfolding clean_def by code_simp+
    with metadata_clean [OF 2(1)] show ?thesis by (simp add: 2(2) column_def)
  qed
qed

text \<open>A condition with \<open>n\<close> placeholders.\<close>

definition condition :: "nat \<Rightarrow> string \<Rightarrow> bool" where
  "condition n s \<longleftrightarrow> list_all sql_char s \<and> count_list s (CHR ''?'') = n"

lemma condition_clean: "clean s \<Longrightarrow> condition 0 s"
  by (simp add: clean_def condition_def count_list_0_iff)

lemma condition_append: "condition m s \<Longrightarrow> condition n t \<Longrightarrow> condition (m + n) (s @ t)"
  by (simp add: condition_def)

lemma condition_wrap: "clean s \<Longrightarrow> clean u \<Longrightarrow> condition n t \<Longrightarrow> condition n (s @ t @ u)"
  using condition_append [of 0 s n "t @ u"] condition_append [of n t 0 u] condition_clean by auto

lemma condition_join:
  "clean d \<Longrightarrow> list_all2 condition ns xs \<Longrightarrow> condition (sum_list ns) (join d xs)"
proof (induction d xs arbitrary: ns rule: join.induct)
  case (1 sep)
  then show ?case by (simp add: condition_def)
next
  case (2 sep x)
  then show ?case by (auto simp: list_all2_Cons2)
next
  case (3 sep x y ys)
  then obtain n ms where n: "ns = n # ms" "condition n x" "list_all2 condition ms (y # ys)"
    by (auto simp: list_all2_Cons2)
  from condition_append [OF n(2) condition_append [OF condition_clean [OF 3(2)] 3(1) [OF 3(2) n(3)]]] n(1)
  show ?case by simp
qed

lemma fixed_texts:
  "clean '' != ''" "clean sq" "clean '' = ''" "clean '' IN (''" "clean '')''" "clean '',''" "clean ''lowerUTF8(''" "clean '') IN (''"
  "clean '' ''" "condition 1 '' ?''" "condition 1 '') = lowerUTF8(?)''" "condition 1 '') != lowerUTF8(?)''"
  "clean ''positionCaseInsensitiveUTF8(''" "condition 1 '', ?) > 0''" "clean ''startsWith(lowerUTF8(''"
  "condition 1 ''), lowerUTF8(?))''" "clean ''endsWith(lowerUTF8(''" "condition 1 ''?''" "condition 1 ''lowerUTF8(?)''"
  "clean '' AND ''" "clean '' OR ''" "clean ''NOT (''" "clean ''(''"
  unfolding clean_def condition_def by code_simp+

lemma operators_clean: "map_of number_operators c = Some q \<Longrightarrow> clean q"
proof -
  have "list_all (\<lambda>(k, q). clean q) number_operators" unfolding clean_def by code_simp
  then show "map_of number_operators c = Some q \<Longrightarrow> clean q" by (auto simp: list_all_iff dest!: map_of_SomeD)
qed

lemma placeholders:
  "condition n (join '','' (replicate n ''?''))" "condition n (join '','' (lowerPlaceholders (replicate n ''?'')))"
proof -
  have "condition (sum_list (replicate n 1)) (join '','' (replicate n ''?''))"
    by (rule condition_join [OF fixed_texts(6)]) (use fixed_texts(18) in \<open>simp add: list_all2_conv_all_nth\<close>)
  then show "condition n (join '','' (replicate n ''?''))" by (simp add: sum_list_replicate)
  have "condition (sum_list (replicate n 1)) (join '','' (lowerPlaceholders (replicate n ''?'')))"
    by (rule condition_join [OF fixed_texts(6)])
      (use fixed_texts(19) in \<open>simp add: list_all2_conv_all_nth lowerPlaceholders_def\<close>)
  then show "condition n (join '','' (lowerPlaceholders (replicate n ''?'')))" by (simp add: sum_list_replicate)
qed

lemma condition_tail: "clean s \<Longrightarrow> condition n t \<Longrightarrow> condition n (s @ t)"
  using condition_append [of 0 s n t] condition_clean by auto

lemma predicate_text_condition:
  assumes "predicate_text f (comparator_of p) (length (predicate_values p)) = Inr s" "clean (fd_expression f)"
  shows "condition (length (predicate_values p)) s"
proof -
  let ?e = "fd_expression f" and ?c = "comparator_of p" and ?n = "length (predicate_values p)"
  note e = assms(2)
  consider (test) "?c = ''exists'' \<or> ?c = ''not_exists''" | (member) "?c = ''in''"
    | (single) "?c \<noteq> ''exists''" "?c \<noteq> ''not_exists''" "?c \<noteq> ''in''" by blast
  then show ?thesis
  proof cases
    case test
    then have "?n = 0" by (simp add: predicate_values_def)
    moreover from test assms(1) have "clean s"
      using e fixed_texts(1-3) by (auto simp: predicate_text_def Let_def)
    ultimately show ?thesis by (simp add: condition_clean)
  next
    case member
    then have "?c \<noteq> ''exists''" "?c \<noteq> ''not_exists''" by simp_all
    with member assms(1) consider "s = (?e @ '' IN ('') @ join '','' (replicate ?n ''?'') @ '')''"
      | "s = (''lowerUTF8('' @ ?e @ '') IN ('') @ join '','' (lowerPlaceholders (replicate ?n ''?'')) @ '')''"
      unfolding predicate_text_def Let_def by (simp split: if_splits)
    then show ?thesis
    proof cases
      case 1
      have "clean (?e @ '' IN ('')" by (intro clean_append e fixed_texts)
      from condition_wrap [OF this fixed_texts(5) placeholders(1)] show ?thesis unfolding 1 .
    next
      case 2
      have "clean (''lowerUTF8('' @ ?e @ '') IN ('')" by (intro clean_append e fixed_texts)
      from condition_wrap [OF this fixed_texts(5) placeholders(2)] show ?thesis unfolding 2 .
    qed
  next
    case single
    then have n: "?n = 1" by (simp add: predicate_values_def)
    let ?q = "case map_of number_operators ?c of None \<Rightarrow> [] | Some q \<Rightarrow> q"
    have q: "clean ?q" by (auto split: option.split dest: operators_clean)
    from single assms(1) consider "s = (?e @ '' '' @ ?q) @ '' ?''" | "s = (''lowerUTF8('' @ ?e) @ '') = lowerUTF8(?)''"
      | "s = (''lowerUTF8('' @ ?e) @ '') != lowerUTF8(?)''" | "s = (''positionCaseInsensitiveUTF8('' @ ?e) @ '', ?) > 0''"
      | "s = (''startsWith(lowerUTF8('' @ ?e) @ ''), lowerUTF8(?))''" | "s = (''endsWith(lowerUTF8('' @ ?e) @ ''), lowerUTF8(?))''"
      unfolding predicate_text_def Let_def by (simp only: if_False append_assoc split: if_splits) auto
    then have "condition 1 s"
    proof cases
      case 1
      have "clean (?e @ '' '' @ ?q)" by (intro clean_append e q fixed_texts)
      from condition_tail [OF this fixed_texts(10)] show ?thesis unfolding 1 by (simp only: append_assoc)
    qed (simp_all only:, (intro condition_tail clean_append e fixed_texts)+)
    then show ?thesis by (simp add: n)
  qed
qed

text \<open>An accepted predicate compiles, to a text that its values do not enter.\<close>

lemma comparator_shape [simp]: "comparator_of (predicate_shape p) = comparator_of p"
  by (simp add: comparator_of_def predicate_shape_def)

lemma predicate_values_shape [simp]: "length (predicate_values (predicate_shape p)) = length (predicate_values p)"
  by (simp add: predicate_values_def) (simp add: predicate_shape_def)

lemma numeral_arg: "numeral_of v \<noteq> None \<Longrightarrow> fst (parse_int v) = the (numeral_of v)"
  using parse_int_numeral [of v "the (numeral_of v)"] by auto

lemma kinds: "resolveField name = Inr f \<Longrightarrow> fd_kind f \<in> {''string'', ''number'', ''text''}"
proof -
  have "list_all (\<lambda>(k, f). fd_kind f \<in> {''string'', ''number'', ''text''}) hunt_fields" by code_simp
  then show "resolveField name = Inr f \<Longrightarrow> fd_kind f \<in> {''string'', ''number'', ''text''}"
    by (auto simp: resolveField_def Let_def list_all_iff column_def split: option.splits if_splits dest!: map_of_SomeD)
qed

lemma compilePredicate_valid:
  assumes "predicate_valid p"
  shows "\<exists>s. compilePredicate p = Inr (s, predicate_args p) \<and> condition (length (predicate_args p)) s \<and>
    (\<exists>args. compilePredicate (predicate_shape p) = Inr (s, args))"
proof -
  from assms obtain f where f: "resolveField (hp_field p) = Inr f" "comparator_of p \<in> set (allowed_comparators (fd_kind f))"
    "list_all (value_valid (fd_kind f)) (predicate_values p)" by (auto simp: predicate_valid_def)
  have "\<exists>s. predicate_text f (comparator_of p) n = Inr s" for n
    using f(2) kinds [OF f(1)] by (auto simp: predicate_text_def Let_def allowed_comparators_def split: if_splits)
  then obtain s where s: "predicate_text f (comparator_of p) (length (predicate_values p)) = Inr s" by blast
  have "hunt_arg (fd_kind f) v = (if fd_kind f = ''number'' then ArgInt (the (numeral_of v)) else ArgString v)"
    if "v \<in> set (predicate_values p)" for v
    using f(3) that numeral_arg [of v] by (auto simp: hunt_arg_def list_all_iff value_valid_def)
  then have args: "map (hunt_arg (fd_kind f)) (predicate_values p) = predicate_args p"
    by (simp add: predicate_args_def f(1))
  have "compilePredicate p = Inr (s, predicate_args p)"
    using args s by (simp add: compilePredicate_def f(1))
  moreover have "condition (length (predicate_args p)) s"
    using predicate_text_condition [OF s resolveField_clean [OF f(1)]] by (simp add: args [symmetric])
  moreover have "\<exists>args. compilePredicate (predicate_shape p) = Inr (s, args)"
    using s f(1) by (simp add: compilePredicate_def) (simp add: predicate_shape_def)
  ultimately show ?thesis by blast
qed

lemma compile_valid:
  "hunt_valid e \<Longrightarrow> \<exists>s. compileNode e = Inr (s, hunt_args e) \<and> condition (length (hunt_args e)) s \<and>
     (\<exists>args. compileNode (shape e) = Inr (s, args))"
  "\<forall>x \<in> set es. hunt_valid x \<Longrightarrow> \<exists>ss. compileChildren es = Inr (ss, concat (map hunt_args es)) \<and>
     list_all2 condition (map (length \<circ> hunt_args) es) ss \<and> (\<exists>args. compileChildren (map shape es) = Inr (ss, args))"
proof (induction e and es rule: compileNode_compileChildren.induct)
  case (1 e)
  then have b: "branches e = 1" and v: "\<forall>x \<in> set (children e). hunt_valid x"
    "case he_not e of None \<Rightarrow> True | Some x \<Rightarrow> hunt_valid x" "case he_predicate e of None \<Rightarrow> True | Some p \<Rightarrow> predicate_valid p"
    by (simp_all add: hunt_valid.simps [of e])
  from b show ?case
  proof (cases rule: branches_cases)
    case group
    then have g: "he_all e \<noteq> [] \<or> he_any e \<noteq> []" by (auto simp: children_def split: if_splits)
    with 1(1) v(1) obtain ss args where ss: "compileChildren (children e) = Inr (ss, concat (map hunt_args (children e)))"
      "list_all2 condition (map (length \<circ> hunt_args) (children e)) ss"
      "compileChildren (map shape (children e)) = Inr (ss, args)" by blast
    let ?d = "if he_any e \<noteq> [] then '' OR '' else '' AND ''"
    have "clean ?d" using fixed_texts by simp
    from condition_join [OF this ss(2)] g group ss(1,3) show ?thesis
      by (simp add: compileNode.simps [of e] compileNode.simps [of "shape e"] hunt_args.simps [of e] length_concat
          o_def map_map)
  next
    case (negation x)
    with 1(2) v(2) obtain s args where s: "compileNode x = Inr (s, hunt_args x)" "condition (length (hunt_args x)) s"
      "compileNode (shape x) = Inr (s, args)" by auto
    have "condition (length (hunt_args x)) (''NOT ('' @ s @ '')'')"
      by (rule condition_wrap [OF fixed_texts(22,5) s(2)])
    with s negation show ?thesis
      by (simp add: compileNode.simps [of e] compileNode.simps [of "shape e"] hunt_args.simps [of e])
  next
    case (leaf p)
    with v(3) have "predicate_valid p" by simp
    from compilePredicate_valid [OF this] leaf show ?thesis
      by (simp add: compileNode.simps [of e] compileNode.simps [of "shape e"] hunt_args.simps [of e])
  qed
next
  case (3 x xs)
  then obtain s args where s: "compileNode x = Inr (s, hunt_args x)" "condition (length (hunt_args x)) s"
    "compileNode (shape x) = Inr (s, args)" by auto
  with 3 obtain ss args' where ss: "compileChildren xs = Inr (ss, concat (map hunt_args xs))"
    "list_all2 condition (map (length \<circ> hunt_args) xs) ss" "compileChildren (map shape xs) = Inr (ss, args')"
    by (metis list.set_intros(2))
  have "condition (length (hunt_args x)) (''('' @ s @ '')'')"
    by (rule condition_wrap [OF fixed_texts(23,5) s(2)])
  with s ss show ?case by (simp add: o_def)
qed simp

subsection \<open>Normalization\<close>

lemma validate_root_frame [simp]:
  "validate_root (r\<lparr>hr_start := a\<rparr>) = validate_root r" "validate_root (r\<lparr>hr_end := a\<rparr>) = validate_root r"
  "validate_root (r\<lparr>hr_lookback := n\<rparr>) = validate_root r" "validate_root (r\<lparr>hr_limit := n\<rparr>) = validate_root r"
  "validate_root (r\<lparr>hr_cursor := c\<rparr>) = validate_root r"
  by (simp_all add: validate_root_def)

lemma validate_root_Some:
  "validate_root r = Inr u \<Longrightarrow> hr_expression r = Some e \<Longrightarrow>
   hunt_valid e \<and> hunt_depth e \<le> 8 \<and> predicate_count e \<le> 64"
  by (auto simp: validate_root_def bind_ok_eq_Inr validate_iff)

text \<open>The range a request asks for at a time.\<close>

definition hunt_range :: "hunt_request \<Rightarrow> time \<Rightarrow> time \<times> time" where
  "hunt_range r now =
    (if is_zero (hr_start r) \<and> is_zero (hr_end r)
     then (now - (if 0 < hr_lookback r then seconds (hr_lookback r) else DefaultLookback), now)
     else (hr_start r, hr_end r))"

lemma normalize_range_Inr:
  "normalize_range r now = Inr q \<longleftrightarrow>
     is_zero (hr_start r) = is_zero (hr_end r) \<and> (hr_cursor r = [] \<or> \<not> is_zero (hr_start r)) \<and>
     q = r\<lparr>hr_start := fst (hunt_range r now), hr_end := snd (hunt_range r now)\<rparr>"
  by (cases r) (auto simp: normalize_range_def hunt_range_def Let_def)

lemma Normalize_iff:
  "Normalize request now = Inr r \<longleftrightarrow>
     (let c = trim_space (hr_cursor request); (a, b) = hunt_range request now;
          limit = (if hr_limit request = 0 then DefaultLimit else hr_limit request)
      in length c \<le> 4096 \<and> is_zero (hr_start request) = is_zero (hr_end request) \<and>
         (c = [] \<or> \<not> is_zero (hr_start request)) \<and>
         a < b \<and> b - a \<le> MaximumLookback \<and> b \<le> now + 5 * minute \<and> 1 \<le> limit \<and> limit \<le> MaximumLimit \<and>
         validate_root request = Inr () \<and>
         r = \<lparr>hr_start = a, hr_end = b, hr_lookback = 0, hr_expression = hr_expression request, hr_limit = limit,
              hr_cursor = c\<rparr>)"
proof -
  let ?c = "trim_space (hr_cursor request)" and ?h = "hunt_range request now"
  let ?limit = "if hr_limit request = 0 then DefaultLimit else hr_limit request"
  let ?q = "\<lparr>hr_start = fst ?h, hr_end = snd ?h, hr_lookback = 0, hr_expression = hr_expression request, hr_limit = ?limit,
      hr_cursor = ?c\<rparr>"
  have h: "hunt_range (request\<lparr>hr_cursor := ?c\<rparr>) now = ?h" by (simp add: hunt_range_def)
  have q: "request\<lparr>hr_cursor := ?c, hr_start := fst ?h, hr_end := snd ?h, hr_lookback := 0, hr_limit := ?limit\<rparr> = ?q"
    by (cases request) simp
  show ?thesis
    unfolding Normalize_def Let_def guard_Inr bind_ok_eq_Inr normalize_range_Inr h
    by (simp add: q case_prod_beta after_def) (auto simp: not_less not_le)
qed

lemma Normalize_later:
  assumes "Normalize t now = Inr q" "now \<le> later"
  shows "\<exists>r. Normalize t later = Inr r \<and> hr_expression r = hr_expression t"
proof -
  obtain a b where ab: "hunt_range t now = (a, b)" by fastforce
  obtain a' b' where ab': "hunt_range t later = (a', b')" by fastforce
  from assms(1) ab have n: "a < b" "b - a \<le> MaximumLookback" "b \<le> now + 5 * minute"
    by (simp_all add: Normalize_iff Let_def)
  have "0 \<le> minute" by (simp add: minute_def go_second_def)
  with ab ab' n assms(2) have n': "a' < b'" "b' - a' \<le> MaximumLookback" "b' \<le> later + 5 * minute"
    by (auto simp: hunt_range_def split: if_splits)
  from assms(1) n' show ?thesis unfolding Normalize_iff ab ab' Let_def prod.case by auto
qed

section \<open>Properties\<close>

text \<open>C36. The validator accepts exactly the well-formed query trees: every node is one of a group, a
  negation or a predicate, groups have at most 32 children, predicates use a searchable field with
  a comparator of its kind and values it can be compared with, the tree is at most 8 deep and has at
  most 64 predicates, whose number the validator returns.\<close>

theorem hunt_expression_accepted_iff:
  "validateExpression e 1 0 = Inr n \<longleftrightarrow>
     hunt_valid e \<and> hunt_depth e \<le> 8 \<and> predicate_count e \<le> 64 \<and> n = predicate_count e"
  by (auto simp: validate_iff)

text \<open>C35. No searched value enters the condition: an accepted query compiles to a text over a fixed
  alphabet in which each placeholder stands for one argument, the arguments are the query's values in
  order, as integers where the field is a number, and the same text results whatever the values are.\<close>

theorem hunt_values_stay_out:
  assumes "Normalize request now = Inr r" "hr_expression r = Some e"
  shows "\<exists>text. CompileExpression (hr_expression r) = Inr (text, hunt_args e) \<and> list_all sql_char text \<and>
    count_list text (CHR ''?'') = length (hunt_args e) \<and>
    (\<exists>args. CompileExpression (Some (shape e)) = Inr (text, args))"
proof -
  from assms have "validate_root request = Inr ()" "hr_expression request = Some e"
    by (auto simp: Normalize_iff Let_def)
  then have "hunt_valid e" using validate_root_Some by blast
  from compile_valid(1) [OF this] assms(2) show ?thesis
    by (auto simp: CompileExpression_def condition_def)
qed

definition sample_login :: hunt_predicate where
  "sample_login = \<lparr>hp_field = ''Category'', hp_comparator = ''EQ'', hp_value = ''login'', hp_values = []\<rparr>"

definition sample_severity :: hunt_predicate where
  "sample_severity = \<lparr>hp_field = ''severity'', hp_comparator = ''in'', hp_value = [], hp_values = [''3'', ''-4'']\<rparr>"

lemma sample_fields:
  "resolveField (hp_field sample_login) = Inr (column ''category'' ''string'')"
  "resolveField (hp_field sample_severity) = Inr (column ''severity'' ''number'')"
  "comparator_of sample_login = ''eq''" "comparator_of sample_severity = ''in''"
  unfolding sample_login_def sample_severity_def by code_simp+

lemma sample_numerals: "numeral_of ''3'' = Some 3" "numeral_of ''-4'' = Some (- 4)"
  by (simp_all add: numeral_of_def is_digit_def digit_value_def less_eq_char_def)

definition sample_hunt :: hunt_request where
  "sample_hunt = \<lparr>hr_start = 0, hr_end = 0, hr_lookback = 3600,
     hr_expression = Some (HuntExpression
       [HuntExpression [] [] None (Some sample_login), HuntExpression [] [] None (Some sample_severity)]
       [] None None),
     hr_limit = 0, hr_cursor = []\<rparr>"

definition sample_now :: time where "sample_now = 40 * 24 * hour"

lemmas tree_simps =
  hunt_valid.simps [of "HuntExpression a b n p" for a b n p] hunt_depth.simps [of "HuntExpression a b n p" for a b n p]
  predicate_count.simps [of "HuntExpression a b n p" for a b n p] hunt_args.simps [of "HuntExpression a b n p" for a b n p]

lemma sample_hunt_valid: "validate_root sample_hunt = Inr ()"
proof -
  have "validate_root sample_hunt = Inr () \<longleftrightarrow> hunt_valid (the (hr_expression sample_hunt)) \<and>
      hunt_depth (the (hr_expression sample_hunt)) \<le> 8 \<and> predicate_count (the (hr_expression sample_hunt)) \<le> 64"
    by (auto simp: validate_root_def sample_hunt_def bind_ok_eq_Inr validate_iff)
  moreover have "predicate_valid sample_login" "predicate_valid sample_severity"
    unfolding predicate_valid_def using sample_fields sample_numerals
    by (auto simp: predicate_values_def value_valid_def allowed_comparators_def column_def)
      (simp_all add: sample_login_def sample_severity_def value_valid_def sample_numerals)
  ultimately show ?thesis
    by (simp add: sample_hunt_def tree_simps children_def branches_def)
qed

lemma sample_hunt_normalized:
  "\<exists>r. Normalize sample_hunt sample_now = Inr r \<and> hr_expression r = hr_expression sample_hunt"
proof -
  have r: "hunt_range sample_hunt sample_now = (sample_now - 3600 * go_second, sample_now)"
    by (simp add: hunt_range_def sample_hunt_def is_zero_def seconds_def int64_def go_second_def)
  have "trim_space (hr_cursor sample_hunt) = []" unfolding sample_hunt_def by code_simp
  with sample_hunt_valid show ?thesis
    unfolding Normalize_iff r Let_def
    by (simp add: sample_hunt_def is_zero_def go_second_def minute_def hour_def MaximumLookback_def DefaultLimit_def
        MaximumLimit_def)
qed

theorem hunt_values_stay_out_witness:
  "\<exists>r text. Normalize sample_hunt sample_now = Inr r \<and>
     CompileExpression (hr_expression r) = Inr (text, [ArgString ''login'', ArgInt 3, ArgInt (- 4)]) \<and>
     count_list text (CHR ''?'') = 3"
proof -
  obtain r where r: "Normalize sample_hunt sample_now = Inr r" "hr_expression r = hr_expression sample_hunt"
    using sample_hunt_normalized by blast
  then obtain e where e: "hr_expression r = Some e" "hr_expression sample_hunt = Some e" by (auto simp: sample_hunt_def)
  have "predicate_args sample_login = [ArgString ''login'']"
    by (simp add: predicate_args_def predicate_values_def sample_fields column_def) (simp add: sample_login_def)
  moreover have "predicate_args sample_severity = [ArgInt 3, ArgInt (- 4)]"
    by (simp add: predicate_args_def predicate_values_def sample_fields column_def)
      (simp add: sample_severity_def sample_numerals)
  ultimately have "hunt_args e = [ArgString ''login'', ArgInt 3, ArgInt (- 4)]" using e(2)
    by (auto simp: sample_hunt_def tree_simps children_def)
  with hunt_values_stay_out [OF r(1) e(1)] r(1) show ?thesis by auto
qed

text \<open>A normalized request is bounded - its range is not empty, at most 31 days long and ends at
  most five minutes ahead, its limit is between 1 and 1000 - asks for the same expression, and
  normalizing it again at any later time changes nothing.\<close>

theorem Normalize_stable:
  assumes "Normalize request now = Inr r" "MaximumLookback < now" "now \<le> later"
  shows "hr_start r < hr_end r \<and> hr_end r - hr_start r \<le> MaximumLookback \<and> hr_end r \<le> now + 5 * minute \<and>
    1 \<le> hr_limit r \<and> hr_limit r \<le> MaximumLimit \<and> hr_expression r = hr_expression request \<and>
    Normalize r later = Inr r"
proof -
  let ?a = "fst (hunt_range request now)" and ?b = "snd (hunt_range request now)"
  from assms(1) have z: "is_zero (hr_start request) = is_zero (hr_end request)" and
    b: "?a < ?b" "?b - ?a \<le> MaximumLookback" "?b \<le> now + 5 * minute" and
    l: "1 \<le> hr_limit r" "hr_limit r \<le> MaximumLimit" and v: "validate_root request = Inr ()" and
    c: "length (hr_cursor r) \<le> 4096" "trim_space (hr_cursor r) = hr_cursor r" and
    r: "hr_start r = ?a" "hr_end r = ?b" "hr_lookback r = 0" "hr_expression r = hr_expression request"
    by (auto simp: Normalize_iff Let_def split: prod.splits)
  have "\<not> is_zero ?a \<and> \<not> is_zero ?b"
  proof (cases "is_zero (hr_start request)")
    case True
    with z b(2) assms(2) have "?b = now" "0 < ?a" by (auto simp: hunt_range_def)
    moreover have "0 < MaximumLookback" by (simp add: MaximumLookback_def hour_def minute_def go_second_def)
    ultimately show ?thesis using assms(2) by (simp add: is_zero_def)
  qed (use z in \<open>simp add: hunt_range_def\<close>)
  then have nz: "\<not> is_zero (hr_start r)" "\<not> is_zero (hr_end r)" by (simp_all add: r)
  have range: "hunt_range r later = (hr_start r, hr_end r)" using nz by (simp add: hunt_range_def)
  have valid: "validate_root r = Inr ()" using v by (simp add: validate_root_def r(4))
  have "Normalize r later = Inr r"
    unfolding Normalize_iff range Let_def prod.case
    using nz b l c valid assms(3) r by (cases r) auto
  with b l r show ?thesis by simp
qed

theorem Normalize_stable_witness:
  "\<exists>r. Normalize sample_hunt sample_now = Inr r \<and> Normalize r (sample_now + 7) = Inr r \<and> hr_limit r \<le> 1000"
proof -
  obtain r where r: "Normalize sample_hunt sample_now = Inr r" using sample_hunt_normalized by blast
  have "MaximumLookback < sample_now"
    by (simp add: MaximumLookback_def sample_now_def hour_def minute_def go_second_def)
  from Normalize_stable [OF r this, of "sample_now + 7"] r show ?thesis by (auto simp: MaximumLimit_def)
qed

text \<open>A saved hunt can always be run: a template that was accepted resolves at every later time, to
  a request for the same expression, and a template with a lookback to the range of that length
  that ends then.\<close>

theorem saved_hunt_resolves:
  assumes "ValidateTemplate request now = Inr t" "now \<le> later"
  shows "\<exists>r. ResolveTemplate t later = Inr r \<and> hr_expression r = hr_expression request \<and>
    (0 < hr_lookback t \<longrightarrow> hr_end r = later \<and> hr_start r = later - seconds (hr_lookback t))"
proof -
  define r0 where "r0 = (if is_zero (hr_start request) \<and> is_zero (hr_end request) \<and> hr_lookback request = 0
      then request\<lparr>hr_lookback := DefaultLookback div go_second\<rparr> else request)"
  have e0: "hr_expression r0 = hr_expression request" by (simp add: r0_def)
  from assms(1) have run: "(if 0 < hr_lookback r0
      then if seconds (hr_lookback r0) < minute \<or> MaximumLookback < seconds (hr_lookback r0) then Inl ErrInvalidQuery
           else bind_ok (Normalize (r0\<lparr>hr_start := 0, hr_end := 0\<rparr>) now) (\<lambda>_. Inr (r0\<lparr>hr_cursor := []\<rparr>))
      else bind_ok (Normalize r0 now) (\<lambda>_. Inr r0)) = Inr t"
    unfolding ValidateTemplate_def r0_def [symmetric] Let_def by (simp split: if_splits)
  show ?thesis
  proof (cases "0 < hr_lookback r0")
    case True
    with run obtain q where q: "Normalize (r0\<lparr>hr_start := 0, hr_end := 0\<rparr>) now = Inr q" and t: "t = r0\<lparr>hr_cursor := []\<rparr>"
      and window: "minute \<le> seconds (hr_lookback r0)" "seconds (hr_lookback r0) \<le> MaximumLookback"
      by (auto simp: bind_ok_eq_Inr)
    from q have ok: "validate_root r0 = Inr ()"
      "1 \<le> (if hr_limit r0 = 0 then DefaultLimit else hr_limit r0)"
      "(if hr_limit r0 = 0 then DefaultLimit else hr_limit r0) \<le> MaximumLimit"
      by (cases "hr_limit r0 = 0"; simp add: Normalize_iff Let_def split: prod.splits)+
    have "trim_space [] = []" by code_simp
    with ok window True have "\<exists>r. Normalize (t\<lparr>hr_start := 0, hr_end := 0\<rparr>) later = Inr r \<and> hr_expression r = hr_expression r0 \<and>
        hr_end r = later \<and> hr_start r = later - seconds (hr_lookback r0)"
      by (cases "hr_limit r0 = 0") (simp_all add: t Normalize_iff Let_def hunt_range_def is_zero_def minute_def go_second_def)
    with True t e0 show ?thesis by (simp add: ResolveTemplate_def)
  next
    case False
    with run have "bind_ok (Normalize r0 now) (\<lambda>_. Inr r0) = Inr t" by (simp only: if_False)
    then obtain q where q: "Normalize r0 now = Inr q" "t = r0" unfolding bind_ok_eq_Inr by blast
    from Normalize_later [OF q(1) assms(2)] False e0 show ?thesis by (simp add: ResolveTemplate_def q(2))
  qed
qed

theorem saved_hunt_resolves_witness:
  "\<exists>t r. ValidateTemplate sample_hunt sample_now = Inr t \<and> ResolveTemplate t (sample_now + 5) = Inr r \<and>
     hr_end r = sample_now + 5 \<and> hr_start r = sample_now + 5 - 3600 * go_second"
proof -
  obtain r where r: "Normalize sample_hunt sample_now = Inr r" using sample_hunt_normalized by blast
  have c: "trim_space (hr_cursor sample_hunt) = []" unfolding sample_hunt_def by code_simp
  have l: "hr_lookback sample_hunt = 3600" "sample_hunt\<lparr>hr_start := 0, hr_end := 0\<rparr> = sample_hunt"
    "sample_hunt\<lparr>hr_cursor := []\<rparr> = sample_hunt" by (simp_all add: sample_hunt_def)
  have s: "seconds 3600 = 3600 * go_second" by (simp add: seconds_def int64_def go_second_def)
  have "ValidateTemplate sample_hunt sample_now = Inr sample_hunt"
    using r c by (simp add: ValidateTemplate_def l s Let_def minute_def go_second_def MaximumLookback_def hour_def)
  with saved_hunt_resolves [OF this, of "sample_now + 5"] show ?thesis by (auto simp: l s)
qed

end
