(* ===== verification/Soar_Model.thy ===== *)
theory Soar_Model
  imports Core_Model
begin

text \<open>
  The data model of automated response, \<^verbatim>\<open>internal/core/soar.go\<close>: playbook graphs, their validation
  reports, published versions, executions with one row per node, approvals and action attempts.

  A \<^verbatim>\<open>map[string]interface{}\<close> is an association list with distinct keys. \<^term>\<open>JInt\<close> stands for a Go
  integer and for an integral \<^verbatim>\<open>float64\<close>, which is what a decoded JSON number without a fraction
  becomes; \<^term>\<open>JFloat\<close> is a \<^verbatim>\<open>float64\<close> with a fraction. A nil map or slice is the empty one: the
  modelled code distinguishes them nowhere except in the printed form of a playbook without nodes.
\<close>

type_synonym config = "(string \<times> json) list"

subsection \<open>Playbooks\<close>

record soar_retry =
  sr_maximum_attempts :: int
  sr_backoff :: int
  sr_maximum_backoff :: int

record soar_node =
  sn_id :: string
  sn_type :: string
  sn_name :: string
  sn_depends_on :: "string list"
  sn_timeout :: int
  sn_retry :: soar_retry
  sn_config :: config

record soar_spec =
  sp_schema_version :: string
  sp_trigger_type :: string
  sp_nodes :: "soar_node list"

record soar_issue =
  is_level :: string
  is_code :: string
  is_path :: string
  is_message :: string

record soar_report =
  rp_valid :: bool
  rp_spec_hash :: string
  rp_node_count :: int
  rp_issues :: "soar_issue list"
  rp_validated_at :: time

record soar_playbook =
  pb_id :: string
  pb_tenant :: tenant
  pb_name :: string
  pb_description :: string
  pb_state :: string
  pb_latest_version :: int
  pb_published_version :: int
  pb_revision :: int
  pb_created_by :: string
  pb_updated_by :: string
  pb_created_at :: time
  pb_updated_at :: time

record soar_version =
  pv_tenant :: tenant
  pv_playbook :: string
  pv_version :: int
  pv_state :: string
  pv_spec :: soar_spec
  pv_spec_hash :: string
  pv_validation :: soar_report
  pv_created_by :: string
  pv_created_at :: time
  pv_validated_at :: "time option"
  pv_published_at :: "time option"

record soar_details =
  pd_playbook :: soar_playbook
  pd_versions :: "soar_version list"

subsection \<open>Executions\<close>

record soar_node_execution =
  nx_id :: string
  nx_tenant :: tenant
  nx_execution :: string
  nx_node :: string
  nx_type :: string
  nx_name :: string
  nx_depends_on :: "string list"
  nx_config :: config
  nx_timeout :: int
  nx_retry :: soar_retry
  nx_status :: string
  nx_attempt :: int
  nx_available_at :: time
  nx_output :: config
  nx_error_code :: string
  nx_error_detail :: string
  nx_lease_owner :: string
  nx_lease_until :: "time option"
  nx_started_at :: "time option"
  nx_completed_at :: "time option"
  nx_created_at :: time
  nx_updated_at :: time

record soar_execution =
  ex_id :: string
  ex_tenant :: tenant
  ex_playbook :: string
  ex_playbook_version :: int
  ex_request :: string
  ex_trigger_type :: string
  ex_resource_type :: string
  ex_resource_id :: string
  ex_context :: config
  ex_status :: string
  ex_version :: int
  ex_triggered_by :: string
  ex_created_at :: time
  ex_updated_at :: time
  ex_started_at :: "time option"
  ex_completed_at :: "time option"
  ex_nodes :: "soar_node_execution list"

record soar_work_item =
  wi_execution :: soar_execution
  wi_node :: soar_node_execution

subsection \<open>Approvals and actions\<close>

record soar_decision =
  de_approver :: string
  de_decision :: string
  de_reason :: string
  de_decided_at :: time

record soar_approval =
  av_id :: string
  av_tenant :: tenant
  av_execution :: string
  av_node_execution :: string
  av_risk_level :: int
  av_required :: int
  av_status :: string
  av_version :: int
  av_requested_by :: string
  av_requested_at :: time
  av_expires_at :: time
  av_decided_at :: "time option"
  av_decisions :: "soar_decision list"

record soar_approval_command =
  cm_decision :: string
  cm_reason :: string
  cm_version :: int
  cm_request_id :: string
  cm_correlation_id :: string
  cm_actor_type :: string
  cm_source :: config

record soar_approval_filter =
  apf_status :: string
  apf_execution :: string
  apf_limit :: int

record soar_action_attempt =
  at_id :: string
  at_tenant :: tenant
  at_execution :: string
  at_node_execution :: string
  at_idempotency_key :: string
  at_connector :: string
  at_action_type :: string
  at_risk_level :: int
  at_mode :: string
  at_status :: string
  at_request :: config
  at_result :: config
  at_error_class :: string
  at_error_detail :: string
  at_verification :: string
  at_compensation :: string
  at_created_at :: time
  at_updated_at :: time

record soar_execution_filter =
  xf_playbook :: string
  xf_status :: string
  xf_limit :: int

definition decision_valid :: "string \<Rightarrow> bool" where
  "decision_valid d \<longleftrightarrow> d = ''APPROVE'' \<or> d = ''REJECT''"

subsection \<open>Configuration values\<close>

text \<open>
  \<^verbatim>\<open>configString\<close> and \<^verbatim>\<open>workerConfigString\<close>, \<^verbatim>\<open>configInt\<close> and \<^verbatim>\<open>workerConfigInt\<close>. An integral value
  outside the range of a 64-bit \<^verbatim>\<open>int\<close> is refused, as the conversion does not give it back. The
  \<^verbatim>\<open>json.Number\<close> branch of \<^verbatim>\<open>configInt\<close> is not taken: no decoder of a playbook uses \<^verbatim>\<open>UseNumber\<close>.
\<close>

definition configString :: "config \<Rightarrow> string \<Rightarrow> string \<times> bool" where
  "configString cfg key =
    (case map_of cfg key of
       Some (JStr value) \<Rightarrow> (trim_space value, trim_space value \<noteq> [])
     | _ \<Rightarrow> ([], False))"

definition configInt :: "config \<Rightarrow> string \<Rightarrow> int \<times> bool" where
  "configInt cfg key =
    (case map_of cfg key of
       Some (JInt value) \<Rightarrow> if - (2 ^ 63) \<le> value \<and> value < 2 ^ 63 then (value, True) else (0, False)
     | _ \<Rightarrow> (0, False))"

lemma configString_ok: "snd (configString cfg key) \<longleftrightarrow> fst (configString cfg key) \<noteq> []"
  by (simp add: configString_def split: option.split json.split)

subsection \<open>Encoding\<close>

text \<open>The encoding of a playbook that its hash is taken of.\<close>

definition retry_json :: "soar_retry \<Rightarrow> json" where
  "retry_json r = JStruct [(''maximum_attempts'', JInt (sr_maximum_attempts r)),
     (''backoff_seconds'', JInt (sr_backoff r)), (''maximum_backoff_seconds'', JInt (sr_maximum_backoff r))]"

definition node_json :: "soar_node \<Rightarrow> json" where
  "node_json n = JStruct
    ([(''id'', JStr (sn_id n)), (''type'', JStr (sn_type n)), (''name'', JStr (sn_name n))]
     @ omit_if (sn_depends_on n = []) ''depends_on'' (str_list (sn_depends_on n))
     @ omit_if (sn_timeout n = 0) ''timeout_seconds'' (JInt (sn_timeout n))
     @ [(''retry'', retry_json (sn_retry n))]
     @ omit_if (sn_config n = []) ''config'' (JObj (sn_config n)))"

definition spec_json :: "soar_spec \<Rightarrow> json" where
  "spec_json s = JStruct
    [(''schema_version'', JStr (sp_schema_version s)),
     (''trigger'', JStruct [(''type'', JStr (sp_trigger_type s))]),
     (''nodes'', if sp_nodes s = [] then JNull else JArr (map node_json (sp_nodes s)))]"

end
