(* ===== verification/Soar_Graph.thy ===== *)
theory Soar_Graph
  imports Soar_Model
begin

text \<open>
  The graph of a playbook: \<^verbatim>\<open>detectCycle\<close> and \<^verbatim>\<open>maximumApprovalAncestors\<close> of
  \<^verbatim>\<open>internal/soar/validate.go\<close>, two recursive depth-first searches over the nodes by their
  identifiers, with the graph properties they decide. The Go map from identifiers to nodes is the
  list of its nodes; the searches look a node up in it and start from its keys in order.
\<close>

definition node_at :: "soar_node list \<Rightarrow> string \<Rightarrow> soar_node option" where
  "node_at nodes i = find (\<lambda>n. sn_id n = i) nodes"

definition node_keys :: "soar_node list \<Rightarrow> string list" where
  "node_keys nodes = map sn_id nodes"

definition depends :: "soar_node list \<Rightarrow> string \<Rightarrow> string list" where
  "depends nodes i = (case node_at nodes i of None \<Rightarrow> [] | Some n \<Rightarrow> sn_depends_on n)"

lemma node_at_Some: "node_at nodes i = Some n \<Longrightarrow> n \<in> set nodes \<and> sn_id n = i"
  unfolding node_at_def by (auto simp: find_Some_iff)

lemma node_at_key: "(\<exists>n. node_at nodes i = Some n) \<longleftrightarrow> i \<in> set (node_keys nodes)"
  "node_at nodes i = None \<longleftrightarrow> i \<notin> set (node_keys nodes)"
  by (auto simp: node_keys_def find_None_iff node_at_def image_iff not_None_eq [symmetric] simp del: not_None_eq)

lemma node_at_unique: "distinct (node_keys nodes) \<Longrightarrow> n \<in> set nodes \<Longrightarrow> node_at nodes (sn_id n) = Some n"
  unfolding node_at_def node_keys_def
  by (induction nodes) auto

lemma depends_absent: "i \<notin> set (node_keys nodes) \<Longrightarrow> depends nodes i = []"
  by (simp add: depends_def node_at_key(2) [THEN iffD2])

text \<open>An edge leads from a node to one of its dependencies that exists.\<close>

definition edges :: "soar_node list \<Rightarrow> (string \<times> string) set" where
  "edges nodes = {(i, d). d \<in> set (depends nodes i) \<and> d \<in> set (node_keys nodes)}"

lemma edge_source: "(i, d) \<in> edges nodes \<Longrightarrow> i \<in> set (node_keys nodes)"
  by (rule ccontr) (auto simp: edges_def depends_absent)

lemma finite_edges: "finite (edges nodes)"
proof (rule finite_subset)
  show "edges nodes \<subseteq> set (node_keys nodes) \<times> set (node_keys nodes)"
    using edge_source by (auto simp: edges_def)
qed simp

subsection \<open>Cycles\<close>

text \<open>
  The search's state: \<^verbatim>\<open>state\<close> is 1 for a node being visited and 2 for a finished one, \<^verbatim>\<open>stack\<close> the path
  from a root to the current node. \<open>visit_list\<close> visits the identifiers of a list one by one, which
  is the loop over the dependencies of a node and the loop over the roots alike, and stops at the
  first cycle. Its measure counts the nodes not yet visited.
\<close>

type_synonym dfs = "(string \<Rightarrow> nat) \<times> string list"

definition marked :: "nat \<Rightarrow> bool" where
  "marked v \<longleftrightarrow> v = 1 \<or> v = 2"

definition unvisited :: "soar_node list \<Rightarrow> (string \<Rightarrow> nat) \<Rightarrow> nat" where
  "unvisited nodes st = card {i \<in> set (node_keys nodes). \<not> marked (st i)}"

definition cycle_from :: "string \<Rightarrow> string list \<Rightarrow> string list" where
  "cycle_from i stack = (if i \<in> set stack then dropWhile (\<lambda>x. x \<noteq> i) stack @ [i] else [i, i])"

function (sequential) visit_list :: "soar_node list \<Rightarrow> string list \<Rightarrow> dfs \<Rightarrow> string list \<times> dfs" where
  "visit_list nodes [] d = ([], d)"
| "visit_list nodes (i # rest) (st, stack) =
     (if st i = 1 then (cycle_from i stack, (st, stack))
      else if st i = 2 then visit_list nodes rest (st, stack)
      else (case visit_list nodes (filter (\<lambda>d. d \<in> set (node_keys nodes)) (depends nodes i))
                       (st(i := 1), stack @ [i]) of
              ([], (st', stack')) \<Rightarrow> visit_list nodes rest (st'(i := 2), butlast stack')
            | (c, d') \<Rightarrow> (c, d')))"
  by pat_completeness auto

lemma unvisited_mono:
  "(\<And>x. marked (st x) \<Longrightarrow> marked (st' x)) \<Longrightarrow> unvisited nodes st' \<le> unvisited nodes st"
  unfolding unvisited_def by (rule card_mono) auto

lemma unvisited_visit:
  "i \<in> set (node_keys nodes) \<Longrightarrow> \<not> marked (st i) \<Longrightarrow> marked v \<Longrightarrow> unvisited nodes (st(i := v)) < unvisited nodes st"
  unfolding unvisited_def by (rule psubset_card_mono) auto

lemma visit_list_keeps:
  "visit_list_dom (nodes, ids, d) \<Longrightarrow> marked (fst d x) \<Longrightarrow> marked (fst (snd (visit_list nodes ids d)) x)"
proof (induction nodes ids d rule: visit_list.pinduct)
  case (1 nodes d)
  then show ?case by (simp add: visit_list.psimps)
next
  case (2 nodes i rest st stack)
  let ?ds = "filter (\<lambda>d. d \<in> set (node_keys nodes)) (depends nodes i)"
  show ?case
  proof (cases "marked (st i)")
    case True
    with 2 show ?thesis by (auto simp: visit_list.psimps marked_def)
  next
    case False
    then have new: "st i \<noteq> 1" "st i \<noteq> 2" by (simp_all add: marked_def)
    obtain c st' stack' where v: "visit_list nodes ?ds (st(i := 1), stack @ [i]) = (c, (st', stack'))"
      by (metis prod.exhaust)
    have "marked (fst (st(i := 1), stack @ [i]) x)"
      using 2(5) by (simp add: marked_def)
    from 2(3) [OF new this] v have st': "marked (st' x)" by simp
    show ?thesis
    proof (cases c)
      case Nil
      have "marked (fst (st'(i := 2), butlast stack') x)" using st' by (simp add: marked_def)
      from 2(4) [OF new v [symmetric] Nil refl this] 2(1) new v Nil show ?thesis
        by (simp add: visit_list.psimps)
    next
      case (Cons a list)
      with 2(1) new v st' show ?thesis by (simp add: visit_list.psimps)
    qed
  qed
qed

termination visit_list
proof (relation "inv_image (less_than <*lex*> less_than) (\<lambda>(nodes, ids, (st, stack)). (unvisited nodes st, length ids))",
    goal_cases)
  case 1
  then show ?case by auto
next
  case (2 nodes i rest st stack)
  then show ?case by simp
next
  case (3 nodes i rest st stack)
  then show ?case
  proof (cases "i \<in> set (node_keys nodes)")
    case True
    with 3 unvisited_visit [of i nodes st 1] show ?thesis by (simp add: marked_def)
  next
    case False
    then have "unvisited nodes (st(i := 1)) = unvisited nodes st"
      unfolding unvisited_def by (metis fun_upd_apply)
    with False show ?thesis by (simp add: depends_absent)
  qed
next
  case (4 nodes i rest st stack x y st' stack')
  have "unvisited nodes (st'(i := 2)) \<le> unvisited nodes st"
  proof (rule unvisited_mono)
    fix z assume "marked (st z)"
    then have "marked (fst (st(i := 1), stack @ [i]) z)" by (simp add: marked_def)
    moreover have "visit_list nodes (filter (\<lambda>d. d \<in> set (node_keys nodes)) (depends nodes i))
        (st(i := 1), stack @ [i]) = ([], (st', stack'))"
      using 4(3,4,5) by simp
    ultimately have "marked (st' z)" using visit_list_keeps [OF 4(6), of z] by simp
    then show "marked ((st'(i := 2)) z)" by (simp add: marked_def)
  qed
  then show ?case by auto
qed

definition detectCycle :: "soar_node list \<Rightarrow> string list" where
  "detectCycle nodes = fst (visit_list nodes (sort (node_keys nodes)) (\<lambda>_. 0, []))"

text \<open>
  A cycle is a path that returns to its start. While the search is under way the nodes marked 1 are
  those of the stack, which is a path to the node whose dependencies are looked at, and no path from a
  node marked 2 goes on for ever.
\<close>

definition edge_path :: "soar_node list \<Rightarrow> string list \<Rightarrow> bool" where
  "edge_path nodes xs \<longleftrightarrow> successively (\<lambda>a b. (a, b) \<in> edges nodes) xs"

definition is_cycle :: "soar_node list \<Rightarrow> string list \<Rightarrow> bool" where
  "is_cycle nodes c \<longleftrightarrow> 2 \<le> length c \<and> hd c = last c \<and> edge_path nodes c"

definition on_path :: "soar_node list \<Rightarrow> (string \<Rightarrow> nat) \<Rightarrow> string list \<Rightarrow> bool" where
  "on_path nodes st stack \<longleftrightarrow>
     (\<forall>x. st x = 1 \<longleftrightarrow> x \<in> set stack) \<and> edge_path nodes stack \<and>
     (\<forall>x. st x = 2 \<longrightarrow> x \<in> Wellfounded.acc ((edges nodes)\<inverse>))"

definition leads_to :: "soar_node list \<Rightarrow> string list \<Rightarrow> string list \<Rightarrow> bool" where
  "leads_to nodes stack ids \<longleftrightarrow> (stack \<noteq> [] \<longrightarrow> (\<forall>d \<in> set ids. (last stack, d) \<in> edges nodes))"

lemma edge_path_snoc:
  "edge_path nodes xs \<Longrightarrow> (xs \<noteq> [] \<Longrightarrow> (last xs, i) \<in> edges nodes) \<Longrightarrow> edge_path nodes (xs @ [i])"
  unfolding edge_path_def by (cases "xs = []") (simp_all add: successively_append_iff)

lemma cycle_from_cycle:
  assumes "i \<in> set stack" "edge_path nodes stack" "(last stack, i) \<in> edges nodes"
  shows "is_cycle nodes (cycle_from i stack)"
proof -
  from assms(1) obtain xs ys where s: "stack = xs @ i # ys" "i \<notin> set xs" by (metis split_list_first)
  then have dw: "dropWhile (\<lambda>x. x \<noteq> i) stack = i # ys"
    by (subst s(1), subst dropWhile_append2) auto
  from assms(2) s(1) have "edge_path nodes (i # ys)"
    unfolding edge_path_def by (auto simp: successively_append_iff)
  moreover have "last (i # ys) = last stack" using s(1) by simp
  ultimately have "edge_path nodes ((i # ys) @ [i])"
    using assms(3) by (intro edge_path_snoc) simp_all
  with dw assms(1) show ?thesis by (simp add: is_cycle_def cycle_from_def)
qed

lemma visit_list_correct:
  assumes "on_path nodes (fst d) (snd d)" "leads_to nodes (snd d) ids"
    and "visit_list nodes ids d = (c, d')"
  shows "if c = [] then snd d' = snd d \<and> on_path nodes (fst d') (snd d) \<and>
           (\<forall>x. fst d x = 2 \<or> x \<in> set ids \<longrightarrow> fst d' x = 2)
         else is_cycle nodes c"
  using assms
proof (induction nodes ids d arbitrary: c d' rule: visit_list.induct)
  case (1 nodes d)
  then show ?case by auto
next
  case (2 nodes i rest st stack)
  let ?ds = "filter (\<lambda>d. d \<in> set (node_keys nodes)) (depends nodes i)"
  have rest: "leads_to nodes stack rest" and last: "stack \<noteq> [] \<Longrightarrow> (last stack, i) \<in> edges nodes"
    using 2(5) by (simp_all add: leads_to_def)
  consider "st i = 1" | "st i = 2" | "st i \<noteq> 1" "st i \<noteq> 2" by blast
  then show ?case
  proof cases
    case 1
    with 2(4) have "i \<in> set stack" "edge_path nodes stack" by (simp_all add: on_path_def)
    moreover from this(1) have "(last stack, i) \<in> edges nodes" by (intro last) auto
    ultimately have "is_cycle nodes (cycle_from i stack)" by (rule cycle_from_cycle)
    with 1 2(6) show ?thesis by (auto simp: is_cycle_def)
  next
    case b: 2
    with 2(6) have "visit_list nodes rest (st, stack) = (c, d')" by simp
    from 2(1) [OF _ b 2(4) _ this] b rest show ?thesis by auto
  next
    case 3
    obtain c1 st1 stack1 where v: "visit_list nodes ?ds (st(i := 1), stack @ [i]) = (c1, (st1, stack1))"
      by (metis prod.exhaust)
    have p: "on_path nodes (st(i := 1)) (stack @ [i])"
      using 2(4) 3 last by (auto simp: on_path_def intro: edge_path_snoc)
    have l: "leads_to nodes (stack @ [i]) ?ds" by (auto simp: leads_to_def edges_def)
    note child = 2(2) [OF 3, simplified fst_conv snd_conv, OF p l v]
    show ?thesis
    proof (cases c1)
      case Nil
      with child have s1: "stack1 = stack @ [i]" and p1: "on_path nodes st1 (stack @ [i])"
        and fin: "\<And>x. (st(i := 1)) x = 2 \<or> x \<in> set ?ds \<Longrightarrow> st1 x = 2" by auto
      have "i \<in> Wellfounded.acc ((edges nodes)\<inverse>)"
      proof (rule accI)
        fix y assume "(y, i) \<in> (edges nodes)\<inverse>"
        then have "st1 y = 2" using fin by (auto simp: edges_def)
        with p1 show "y \<in> Wellfounded.acc ((edges nodes)\<inverse>)" by (simp add: on_path_def)
      qed
      then have p2: "on_path nodes (st1(i := 2)) stack"
        using p1 3 2(4) by (auto simp: on_path_def)
      have r: "visit_list nodes rest (st1(i := 2), stack) = (c, d')"
        using 2(6) 3 v Nil s1 by simp
      from 2(3) [OF 3 v [symmetric] Nil refl, simplified s1 butlast_snoc fst_conv snd_conv, OF p2 rest r]
      show ?thesis using fin by (auto split: if_splits)
    next
      case (Cons a list)
      with child v 3 2(6) show ?thesis by auto
    qed
  qed
qed

lemma is_cycle_not_acyclic:
  assumes "is_cycle nodes c"
  shows "\<not> acyclic (edges nodes)"
proof -
  have "edge_path nodes xs \<Longrightarrow> xs \<noteq> [] \<Longrightarrow> (hd xs, last xs) \<in> (edges nodes)\<^sup>*" for xs
  proof (induction xs rule: induct_list012)
    case (3 x y zs)
    then show ?case by (auto simp: edge_path_def intro: converse_rtrancl_into_rtrancl)
  qed auto
  then have path: "edge_path nodes xs \<Longrightarrow> xs \<noteq> [] \<Longrightarrow> (hd xs, last xs) \<in> (edges nodes)\<^sup>*" for xs .
  from assms obtain x y zs where c: "c = x # y # zs" "last (y # zs) = x" "edge_path nodes (x # y # zs)"
    unfolding is_cycle_def by (cases c; cases "tl c") auto
  then have "(x, y) \<in> edges nodes" "(y, x) \<in> (edges nodes)\<^sup>*"
    using path [of "y # zs"] by (auto simp: edge_path_def)
  then show ?thesis by (meson acyclic_def rtrancl_into_trancl2)
qed

text \<open>\<^verbatim>\<open>detectCycle\<close> reports a cycle of the graph exactly when there is one.\<close>

lemma detectCycle_correct:
  "detectCycle nodes = [] \<longleftrightarrow> acyclic (edges nodes)"
  "detectCycle nodes \<noteq> [] \<Longrightarrow> is_cycle nodes (detectCycle nodes)"
proof -
  obtain c d' where v: "visit_list nodes (sort (node_keys nodes)) (\<lambda>_. 0, []) = (c, d')"
    by (metis prod.exhaust)
  have "on_path nodes (\<lambda>_. 0) []" "leads_to nodes [] ids" for ids
    by (simp_all add: on_path_def leads_to_def edge_path_def)
  with visit_list_correct [of nodes "(\<lambda>_. 0, [])", OF _ _ v]
  have r: "if c = [] then on_path nodes (fst d') [] \<and> (\<forall>x \<in> set (node_keys nodes). fst d' x = 2)
           else is_cycle nodes c" by (auto split: if_splits)
  have c: "c = detectCycle nodes" using v by (simp add: detectCycle_def)
  show "detectCycle nodes \<noteq> [] \<Longrightarrow> is_cycle nodes (detectCycle nodes)" using r c by simp
  show "detectCycle nodes = [] \<longleftrightarrow> acyclic (edges nodes)"
  proof
    assume "detectCycle nodes = []"
    with r c have "\<forall>x \<in> set (node_keys nodes). x \<in> Wellfounded.acc ((edges nodes)\<inverse>)"
      by (simp add: on_path_def)
    then have "x \<in> Wellfounded.acc ((edges nodes)\<inverse>)" for x
      by (rule_tac accI) (auto simp: edges_def)
    then have "wf ((edges nodes)\<inverse>)" by (simp add: wf_iff_acc)
    then show "acyclic (edges nodes)" using wf_acyclic by fastforce
  next
    assume "acyclic (edges nodes)"
    with r c is_cycle_not_acyclic show "detectCycle nodes = []" by metis
  qed
qed

subsection \<open>Approvals above a node\<close>

text \<open>
  The number of approvals an approval node asks for, if its configuration gives one, and the search
  for the largest number among the ancestors of a node.
\<close>

definition approvals_of :: "soar_node \<Rightarrow> int option" where
  "approvals_of n =
    (if sn_type n = ''HUMAN_APPROVAL'' \<and> snd (configInt (sn_config n) ''required_approvals'')
     then Some (fst (configInt (sn_config n) ''required_approvals'')) else None)"

definition raise_maximum :: "soar_node \<Rightarrow> int \<Rightarrow> int" where
  "raise_maximum n m = (case approvals_of n of Some count \<Rightarrow> if m < count then count else m | None \<Rightarrow> m)"

function (sequential) walk_ancestors ::
  "soar_node list \<Rightarrow> string list \<Rightarrow> string list \<times> int \<Rightarrow> string list \<times> int" where
  "walk_ancestors nodes [] vm = vm"
| "walk_ancestors nodes (d # ds) (visited, m) =
     (if d \<in> set visited then walk_ancestors nodes ds (visited, m)
      else case node_at nodes d of
        None \<Rightarrow> walk_ancestors nodes ds (d # visited, m)
      | Some n \<Rightarrow> walk_ancestors nodes ds (walk_ancestors nodes (sn_depends_on n) (d # visited, raise_maximum n m)))"
  by pat_completeness auto

lemma walk_ancestors_grows:
  "walk_ancestors_dom (nodes, ds, vm) \<Longrightarrow> set (fst vm) \<subseteq> set (fst (walk_ancestors nodes ds vm))"
proof (induction nodes ds vm rule: walk_ancestors.pinduct)
  case (1 nodes vm)
  then show ?case by (simp add: walk_ancestors.psimps)
next
  case (2 nodes d ds visited m)
  then show ?case
    by (simp add: walk_ancestors.psimps split: option.split) blast
qed

termination walk_ancestors
proof (relation "inv_image (less_than <*lex*> less_than)
    (\<lambda>(nodes, ds, vm). (card (set (node_keys nodes) - set (fst vm)), length ds))", goal_cases)
  case 1
  then show ?case by auto
next
  case (2 nodes d ds visited m)
  then show ?case by simp
next
  case (3 nodes d ds visited m)
  then show ?case by (simp add: node_at_key)
next
  case (4 nodes d ds visited m n)
  then have "d \<in> set (node_keys nodes)" using node_at_key(1) by blast
  with 4 have "card (set (node_keys nodes) - set (d # visited)) < card (set (node_keys nodes) - set visited)"
    by (intro psubset_card_mono) auto
  then show ?case by simp
next
  case (5 nodes d ds visited m n)
  from walk_ancestors_grows [OF 5(3)] have "set (d # visited) \<subseteq> set (fst (walk_ancestors nodes (sn_depends_on n) (d # visited, raise_maximum n m)))"
    by simp
  then have "card (set (node_keys nodes) - set (fst (walk_ancestors nodes (sn_depends_on n) (d # visited, raise_maximum n m))))
      \<le> card (set (node_keys nodes) - set visited)"
    by (intro card_mono) auto
  then show ?case by auto
qed

definition maximumApprovalAncestors :: "string \<Rightarrow> soar_node list \<Rightarrow> int" where
  "maximumApprovalAncestors i nodes = snd (walk_ancestors nodes (depends nodes i) ([], 0))"

text \<open>
  What one search adds: the nodes newly visited are closed under dependencies, the maximum is an upper
  bound of their approvals, and it is the old one or the number of a node that was reached.
\<close>

definition asks_for :: "soar_node list \<Rightarrow> string \<Rightarrow> int \<Rightarrow> bool" where
  "asks_for nodes x k \<longleftrightarrow> (\<exists>n. node_at nodes x = Some n \<and> approvals_of n = Some k)"

definition explored :: "soar_node list \<Rightarrow> string list \<Rightarrow> string list \<times> int \<Rightarrow> string list \<times> int \<Rightarrow> bool" where
  "explored nodes ds vm vm' \<longleftrightarrow>
     set (fst vm) \<union> set ds \<subseteq> set (fst vm') \<and> snd vm \<le> snd vm' \<and>
     (\<forall>x \<in> set (fst vm') - set (fst vm).
        set (depends nodes x) \<subseteq> set (fst vm') \<and> (\<forall>k. asks_for nodes x k \<longrightarrow> k \<le> snd vm')) \<and>
     (snd vm' = snd vm \<or> (\<exists>d \<in> set ds. \<exists>x. d \<in> set (node_keys nodes) \<and> (d, x) \<in> (edges nodes)\<^sup>* \<and> asks_for nodes x (snd vm')))"

lemma explored_trans:
  assumes "explored nodes ds vm vm1" "explored nodes es vm1 vm2" "set ds \<union> set es \<subseteq> set fs"
    "set fs \<subseteq> set (fst vm2)"
  shows "explored nodes fs vm vm2"
  using assms unfolding explored_def
  apply (intro conjI)
  apply blast
  apply linarith
  subgoal by (smt (verit) DiffD1 DiffD2 DiffI dual_order.trans le_supE subset_iff)
  subgoal by (metis UnCI subset_iff)
  done

lemma explored_step:
  assumes "d \<notin> set visited" "node_at nodes d = Some n"
    and "explored nodes (sn_depends_on n) (d # visited, raise_maximum n m) vm"
  shows "explored nodes [d] (visited, m) vm"
proof -
  have dep: "depends nodes d = sn_depends_on n" using assms(2) by (simp add: depends_def)
  have key: "d \<in> set (node_keys nodes)" using assms(2) node_at_key(1) by blast
  have up: "m \<le> raise_maximum n m" "\<And>k. asks_for nodes d k \<Longrightarrow> k \<le> raise_maximum n m"
    and alt: "raise_maximum n m = m \<or> asks_for nodes d (raise_maximum n m)"
    using assms(2) by (auto simp: raise_maximum_def asks_for_def split: option.split)
  have reach: "(d, x) \<in> (edges nodes)\<^sup>*"
    if "e \<in> set (sn_depends_on n)" "e \<in> set (node_keys nodes)" "(e, x) \<in> (edges nodes)\<^sup>*" for e x
    using that dep by (intro converse_rtrancl_into_rtrancl [of d e]) (auto simp: edges_def)
  have new: "set visited \<union> {d} \<subseteq> set (fst vm)" "set (sn_depends_on n) \<subseteq> set (fst vm)" "raise_maximum n m \<le> snd vm"
    using assms(3) by (auto simp: explored_def)
  have closed: "set (depends nodes x) \<subseteq> set (fst vm) \<and> (\<forall>k. asks_for nodes x k \<longrightarrow> k \<le> snd vm)"
    if "x \<in> set (fst vm) - set visited" for x
  proof (cases "x = d")
    case True
    with new(1,2) dep up(2) new(3) show ?thesis by (auto dest!: up(2))
  next
    case False
    with assms(3) that show ?thesis by (auto simp: explored_def)
  qed
  have "snd vm = raise_maximum n m \<or> (\<exists>e \<in> set (sn_depends_on n). \<exists>x. e \<in> set (node_keys nodes) \<and>
      (e, x) \<in> (edges nodes)\<^sup>* \<and> asks_for nodes x (snd vm))"
    using assms(3) by (simp add: explored_def)
  then have "snd vm = m \<or> (\<exists>x. (d, x) \<in> (edges nodes)\<^sup>* \<and> asks_for nodes x (snd vm))"
    using alt reach by auto
  with new up(1) closed key show ?thesis unfolding explored_def by auto
qed

lemma walk_ancestors_explores: "explored nodes ds vm (walk_ancestors nodes ds vm)"
proof (induction nodes ds vm rule: walk_ancestors.induct)
  case (1 nodes vm)
  then show ?case by (simp add: explored_def)
next
  case (2 nodes d ds visited m)
  show ?case
  proof (cases "d \<in> set visited")
    case True
    with 2(1) show ?thesis by (auto simp: explored_def)
  next
    case False
    show ?thesis
    proof (cases "node_at nodes d")
      case None
      then have "d \<notin> set (node_keys nodes)" by (simp add: node_at_key)
      moreover from None have "\<not> asks_for nodes d k" for k
        unfolding asks_for_def by (metis option.distinct(1))
      ultimately have "explored nodes [d] (visited, m) (d # visited, m)"
        using False by (auto simp: explored_def depends_absent)
      moreover note rest = 2(2) [OF False None]
      ultimately have "explored nodes (d # ds) (visited, m) (walk_ancestors nodes ds (d # visited, m))"
        by (rule explored_trans) (use rest in \<open>auto simp: explored_def\<close>)
      with False None show ?thesis by simp
    next
      case (Some n)
      note child = explored_step [OF False Some 2(3) [OF False Some]]
      note rest = 2(4) [OF False Some]
      have "explored nodes (d # ds) (visited, m)
          (walk_ancestors nodes ds (walk_ancestors nodes (sn_depends_on n) (d # visited, raise_maximum n m)))"
        by (rule explored_trans [OF child rest]) (use child rest in \<open>auto simp: explored_def\<close>)
      with False Some show ?thesis by simp
    qed
  qed
qed

text \<open>
  \<^verbatim>\<open>maximumApprovalAncestors\<close> is at least \<open>k\<close> exactly when some ancestor of the node is an approval
  node that asks for at least \<open>k\<close> approvals.
\<close>

lemma maximumApprovalAncestors_ge:
  assumes "0 < k"
  shows "k \<le> maximumApprovalAncestors i nodes \<longleftrightarrow>
    (\<exists>a j. (i, a) \<in> (edges nodes)\<^sup>+ \<and> asks_for nodes a j \<and> k \<le> j)"
proof
  note ex = walk_ancestors_explores [of nodes "depends nodes i" "([], 0)"]
  assume k: "k \<le> maximumApprovalAncestors i nodes"
  with assms ex obtain d x where "d \<in> set (depends nodes i)" "d \<in> set (node_keys nodes)" "(d, x) \<in> (edges nodes)\<^sup>*"
    "asks_for nodes x (maximumApprovalAncestors i nodes)"
    by (auto simp: explored_def maximumApprovalAncestors_def)
  with k show "\<exists>a j. (i, a) \<in> (edges nodes)\<^sup>+ \<and> asks_for nodes a j \<and> k \<le> j"
    by (metis (mono_tags, lifting) case_prodI edges_def mem_Collect_eq rtrancl_into_trancl2)
next
  let ?vm = "walk_ancestors nodes (depends nodes i) ([], 0)"
  have ex: "set (depends nodes i) \<subseteq> set (fst ?vm)"
    "\<And>x. x \<in> set (fst ?vm) \<Longrightarrow> set (depends nodes x) \<subseteq> set (fst ?vm)"
    "\<And>x j. x \<in> set (fst ?vm) \<Longrightarrow> asks_for nodes x j \<Longrightarrow> j \<le> snd ?vm"
    using walk_ancestors_explores [of nodes "depends nodes i" "([], 0)"] by (auto simp: explored_def)
  assume "\<exists>a j. (i, a) \<in> (edges nodes)\<^sup>+ \<and> asks_for nodes a j \<and> k \<le> j"
  then obtain a j where a: "(i, a) \<in> (edges nodes)\<^sup>+" "asks_for nodes a j" "k \<le> j" by blast
  from a(1) have "a \<in> set (fst ?vm)"
    by induction (use ex(1,2) in \<open>auto simp: edges_def\<close>)
  with ex(3) a(2,3) show "k \<le> maximumApprovalAncestors i nodes"
    by (fastforce simp: maximumApprovalAncestors_def)
qed

end
