(* ===== verification/Soar_Validate.thy ===== *)
theory Soar_Validate
  imports Soar_Graph "HOL-Library.Product_Lexorder"
begin

text \<open>
  The playbook validator, \<^verbatim>\<open>internal/soar/validate.go\<close>: the server-side action catalog, the checks of
  one node, of its dependencies and of the actions, and \<^verbatim>\<open>Validate\<close>, which reports all issues. Then
  the rules a playbook must obey, stated without the validator, and the proof that it accepts exactly
  the playbooks that obey them.
\<close>

subsection \<open>The action catalog\<close>

record soar_action =
  ac_type :: string
  ac_level :: int
  ac_reversible :: bool

type_synonym action_catalog = "string \<Rightarrow> soar_action option"

definition action_of :: "string \<Rightarrow> int \<Rightarrow> bool \<Rightarrow> string \<times> soar_action" where
  "action_of t level reversible = (t, \<lparr>ac_type = t, ac_level = level, ac_reversible = reversible\<rparr>)"

definition DefaultActionCatalog :: action_catalog where
  "DefaultActionCatalog = map_of
    [action_of ''kcsp.enrich.threat_intel'' 0 False, action_of ''kcsp.ticket.create'' 1 False,
     action_of ''kcsp.ticket.update'' 1 False, action_of ''kcsp.ticket.comment'' 1 False,
     action_of ''kcsp.ticket.close'' 2 False, action_of ''kcsp.notification.send'' 2 False,
     action_of ''endpoint.isolate'' 3 True, action_of ''endpoint.release'' 3 False,
     action_of ''identity.disable_account'' 4 True, action_of ''identity.enable_account'' 4 False,
     action_of ''firewall.block_ip'' 5 True, action_of ''firewall.unblock_ip'' 5 False,
     action_of ''threat_intel.indicator.submit'' 1 False, action_of ''destructive.erase_evidence'' 6 False]"

subsection \<open>Checks of one node\<close>

definition ascii_letter :: "char \<Rightarrow> bool" where
  "ascii_letter c \<longleftrightarrow> (CHR ''A'' \<le> c \<and> c \<le> CHR ''Z'') \<or> (CHR ''a'' \<le> c \<and> c \<le> CHR ''z'')"

definition id_char :: "char \<Rightarrow> bool" where
  "id_char c \<longleftrightarrow> ascii_letter c \<or> (CHR ''0'' \<le> c \<and> c \<le> CHR ''9'') \<or> c = CHR ''_'' \<or> c = CHR ''-''"

definition valid_node_id :: "string \<Rightarrow> bool" where
  "valid_node_id s = (case s of [] \<Rightarrow> False | c # cs \<Rightarrow> ascii_letter c \<and> length cs \<le> 63 \<and> list_all id_char cs)"

definition forbidden_key :: "string \<Rightarrow> bool" where
  "forbidden_key k \<longleftrightarrow> to_lower (trim_space k) \<in> {''script'', ''shell'', ''command'', ''code'', ''exec''}"

fun dangerous :: "json \<Rightarrow> bool" where
  "dangerous (JObj kvs) = (\<exists>kv \<in> set kvs. forbidden_key (fst kv) \<or> dangerous (snd kv))"
| "dangerous (JArr xs) = (\<exists>x \<in> set xs. dangerous x)"
| "dangerous v = False"

definition issue_error :: "string \<Rightarrow> string \<Rightarrow> string \<Rightarrow> soar_issue" where
  "issue_error code path message =
    \<lparr>is_level = ''ERROR'', is_code = code, is_path = path, is_message = message\<rparr>"

definition issue_when :: "bool \<Rightarrow> string \<Rightarrow> string \<Rightarrow> string \<Rightarrow> soar_issue list" where
  "issue_when c code path message = (if c then [issue_error code path message] else [])"

definition allowed_types :: "string set" where
  "allowed_types = {''TRIGGER'', ''CONDITION'', ''ACTION'', ''TRANSFORM'', ''LOOP'', ''PARALLEL'', ''DELAY'',
     ''RETRY'', ''HUMAN_APPROVAL'', ''SUB_PLAYBOOK'', ''MANUAL_TASK'', ''WEBHOOK'', ''NOTIFICATION''}"

definition node_mode :: "config \<Rightarrow> string" where
  "node_mode cfg = to_upper (fst (configString cfg ''mode''))"

definition retry_out_of_bounds :: "soar_retry \<Rightarrow> bool" where
  "retry_out_of_bounds r \<longleftrightarrow>
     sr_maximum_attempts r < 0 \<or> 5 < sr_maximum_attempts r \<or> sr_backoff r < 0 \<or> 3600 < sr_backoff r \<or>
     sr_maximum_backoff r < 0 \<or> 86400 < sr_maximum_backoff r"

definition int_outside :: "config \<Rightarrow> string \<Rightarrow> int \<Rightarrow> int \<Rightarrow> bool" where
  "int_outside cfg key lo hi \<longleftrightarrow>
     (let (value, ok) = configInt cfg key in \<not> ok \<or> value < lo \<or> hi < value)"

definition action_issues :: "action_catalog \<Rightarrow> config \<Rightarrow> string \<Rightarrow> soar_issue list" where
  "action_issues actions cfg path =
    (let (action_type, ok) = configString cfg ''action_type''
     in if \<not> ok then [issue_error ''action_type'' (path @ ''.config.action_type'') ''action_type is required'']
        else case actions action_type of
          None \<Rightarrow> [issue_error ''unknown_action'' (path @ ''.config.action_type'')
                     ''action is not present in the server-side catalog'']
        | Some descriptor \<Rightarrow>
            issue_when (node_mode cfg \<noteq> [] \<and> node_mode cfg \<noteq> ''DRY_RUN'' \<and> node_mode cfg \<noteq> ''LIVE'')
              ''action_mode'' (path @ ''.config.mode'') ''mode must be DRY_RUN or LIVE'' @
            (let (requested, given) = configInt cfg ''risk_level''
             in issue_when (given \<and> requested \<noteq> ac_level descriptor) ''risk_spoofing'' (path @ ''.config.risk_level'')
                  ''risk level is assigned by the server action catalog''))"

definition validateNode :: "action_catalog \<Rightarrow> soar_node \<Rightarrow> string \<Rightarrow> soar_issue list" where
  "validateNode actions node path =
    issue_when (sn_type node \<notin> allowed_types) ''node_type'' (path @ ''.type'') (''unsupported node type '' @ sn_type node) @
    issue_when (trim_space (sn_name node) = [] \<or> 160 < length (sn_name node)) ''node_name'' (path @ ''.name'')
      ''node name must contain 1 to 160 characters'' @
    issue_when (sn_timeout node < 0 \<or> 3600 < sn_timeout node) ''timeout'' (path @ ''.timeout_seconds'')
      ''timeout must be between 0 and 3600 seconds'' @
    issue_when (retry_out_of_bounds (sn_retry node)) ''retry_policy'' (path @ ''.retry'') ''retry policy exceeds safe bounds'' @
    issue_when (dangerous (JObj (sn_config node))) ''arbitrary_code'' (path @ ''.config'')
      ''script, shell, command, code, and exec configuration is forbidden'' @
    (if sn_type node = ''ACTION'' then action_issues actions (sn_config node) path
     else if sn_type node = ''HUMAN_APPROVAL'' then
       issue_when (int_outside (sn_config node) ''required_approvals'' 1 2) ''approval_count''
         (path @ ''.config.required_approvals'') ''required_approvals must be 1 or 2''
     else if sn_type node = ''DELAY'' then
       issue_when (int_outside (sn_config node) ''duration_seconds'' 1 86400) ''delay''
         (path @ ''.config.duration_seconds'') ''delay must be between 1 second and 24 hours''
     else if sn_type node = ''LOOP'' then
       issue_when (int_outside (sn_config node) ''maximum_iterations'' 1 100) ''loop_bound''
         (path @ ''.config.maximum_iterations'') ''loop requires a maximum of 1 to 100 iterations''
     else if sn_type node = ''WEBHOOK'' then
       [\<lparr>is_level = ''WARNING'', is_code = ''connector_required'', is_path = path,
         is_message = ''webhook execution requires a registered connector and secret binding''\<rparr>]
     else [])"

subsection \<open>The validator\<close>

definition node_path :: "nat \<Rightarrow> string" where
  "node_path i = ''nodes['' @ nat_dec i @ '']''"

text \<open>The nodes are put into a map by their identifiers; one with a malformed or a taken identifier is left out.\<close>

fun collect_nodes :: "action_catalog \<Rightarrow> nat \<Rightarrow> soar_node list \<Rightarrow> soar_node list \<Rightarrow> soar_issue list \<times> soar_node list" where
  "collect_nodes actions i [] nodes = ([], nodes)"
| "collect_nodes actions i (n # ns) nodes =
     (if \<not> valid_node_id (sn_id n) then
        (let (issues, m) = collect_nodes actions (Suc i) ns nodes
         in (issue_error ''node_id'' (node_path i @ ''.id'') ''node id must be a stable 1-64 character identifier'' # issues, m))
      else if sn_id n \<in> set (node_keys nodes) then
        (let (issues, m) = collect_nodes actions (Suc i) ns nodes
         in (issue_error ''duplicate_node'' (node_path i @ ''.id'') ''node id must be unique'' # issues, m))
      else
        (let (issues, m) = collect_nodes actions (Suc i) ns (nodes @ [n])
         in (validateNode actions n (node_path i) @ issues, m)))"

fun dependency_issues :: "soar_node list \<Rightarrow> string \<Rightarrow> string \<Rightarrow> string list \<Rightarrow> string list \<Rightarrow> soar_issue list" where
  "dependency_issues nodes path self [] seen = []"
| "dependency_issues nodes path self (d # ds) seen =
     (if d = self then [issue_error ''self_dependency'' path ''node cannot depend on itself'']
      else if d \<notin> set (node_keys nodes) then
        [issue_error ''unknown_dependency'' path (''dependency '' @ d @ '' does not exist'')]
      else if d \<in> set seen then
        [issue_error ''duplicate_dependency'' path (''dependency '' @ d @ '' is repeated'')]
      else []) @ dependency_issues nodes path self ds (d # seen)"

definition required_approvals :: "int \<Rightarrow> int" where
  "required_approvals level = (if level = 4 then 1 else if level = 5 \<or> level = 6 then 2 else 0)"

definition effective_mode :: "config \<Rightarrow> string" where
  "effective_mode cfg = (if node_mode cfg = [] then ''DRY_RUN'' else node_mode cfg)"

definition verify_flag :: "config \<Rightarrow> bool" where
  "verify_flag cfg \<longleftrightarrow> map_of cfg ''verify'' = Some (JBool True)"

definition risk_issues :: "action_catalog \<Rightarrow> soar_node list \<Rightarrow> nat \<Rightarrow> soar_node \<Rightarrow> soar_issue list" where
  "risk_issues actions nodes i node =
    (if sn_type node \<noteq> ''ACTION'' then []
     else case actions (fst (configString (sn_config node) ''action_type'')) of
       None \<Rightarrow> []
     | Some descriptor \<Rightarrow>
         (let mode = effective_mode (sn_config node); level = ac_level descriptor; required = required_approvals level
          in issue_when (level = 6 \<and> mode = ''LIVE'') ''destructive_disabled'' (node_path i @ ''.config.mode'')
               ''A6 live actions are disabled for university deployments'' @
             issue_when (0 < required \<and> maximumApprovalAncestors (sn_id node) nodes < required) ''approval_required''
               (node_path i @ ''.depends_on'')
               (''A'' @ int_dec level @ '' action requires an approval ancestor with at least '' @ int_dec required @
                '' independent approval(s)'') @
             issue_when (3 \<le> level \<and> mode = ''LIVE'' \<and> \<not> verify_flag (sn_config node)) ''verification_required''
               (node_path i @ ''.config.verify'') ''live containment actions require verification'' @
             issue_when (level = 3 \<and> mode = ''LIVE'' \<and>
                 (\<not> ac_reversible descriptor \<or> fst (configString (sn_config node) ''compensation_action'') = []))
               ''compensation_required'' (node_path i @ ''.config.compensation_action'')
               ''A3 live containment requires a reversible compensation action''))"

definition sort_issues :: "soar_issue list \<Rightarrow> soar_issue list" where
  "sort_issues = sort_key (\<lambda>x. (is_level x \<noteq> ''ERROR'', is_path x))"

definition spec_hash :: "soar_spec \<Rightarrow> string" where
  "spec_hash spec = sha256_hex (marshal (spec_json spec))"

definition has_error :: "soar_issue list \<Rightarrow> bool" where
  "has_error issues \<longleftrightarrow> (\<exists>x \<in> set issues. is_level x = ''ERROR'')"

definition trigger_allowed :: "string \<Rightarrow> bool" where
  "trigger_allowed t \<longleftrightarrow> to_upper (trim_space t) \<in> {''MANUAL'', ''ALERT'', ''INCIDENT''}"

definition validation_issues :: "action_catalog \<Rightarrow> soar_spec \<Rightarrow> soar_issue list" where
  "validation_issues actions spec =
    (let ns = sp_nodes spec;
         (node_issues, nodes) = collect_nodes actions 0 ns [];
         cycle = detectCycle nodes
     in issue_when (sp_schema_version spec \<noteq> ''1.0'') ''schema_version'' ''schema_version'' ''schema_version must be 1.0'' @
        issue_when (\<not> trigger_allowed (sp_trigger_type spec)) ''trigger_type'' ''trigger.type''
          ''trigger type must be MANUAL, ALERT, or INCIDENT'' @
        issue_when (ns = [] \<or> 100 < length ns) ''node_count'' ''nodes'' ''playbook must contain between 1 and 100 nodes'' @
        node_issues @
        concat (map (\<lambda>(i, n). dependency_issues nodes (node_path i @ ''.depends_on'') (sn_id n) (sn_depends_on n) [])
                  (List.enumerate 0 ns)) @
        issue_when (filter (\<lambda>n. sn_depends_on n = []) ns = [] \<and> ns \<noteq> []) ''missing_root'' ''nodes''
          ''playbook must have at least one root node'' @
        issue_when (cycle \<noteq> []) ''cycle'' ''nodes'' (''playbook graph contains a cycle: '' @ join '' -> '' cycle) @
        concat (map (\<lambda>(i, n). risk_issues actions nodes i n) (List.enumerate 0 ns)))"

definition Validate :: "action_catalog \<Rightarrow> soar_spec \<Rightarrow> time \<Rightarrow> soar_report" where
  "Validate actions spec now =
    (let issues = sort_issues (validation_issues actions spec)
     in \<lparr>rp_valid = \<not> has_error issues, rp_spec_hash = spec_hash spec,
         rp_node_count = int (length (sp_nodes spec)), rp_issues = issues, rp_validated_at = now\<rparr>)"

subsection \<open>The rules\<close>

text \<open>
  What a playbook must obey, node by node and as a graph. The approvals a privileged action needs are
  asked for by a single node above it. That there is a root is not a rule of its own: an acyclic graph
  with nodes has one.
\<close>

definition node_rules :: "action_catalog \<Rightarrow> soar_node \<Rightarrow> bool" where
  "node_rules actions n \<longleftrightarrow>
     sn_type n \<in> allowed_types \<and> trim_space (sn_name n) \<noteq> [] \<and> length (sn_name n) \<le> 160 \<and>
     0 \<le> sn_timeout n \<and> sn_timeout n \<le> 3600 \<and> \<not> retry_out_of_bounds (sn_retry n) \<and>
     \<not> dangerous (JObj (sn_config n)) \<and>
     (sn_type n = ''ACTION'' \<longrightarrow>
        (\<exists>d. actions (fst (configString (sn_config n) ''action_type'')) = Some d \<and>
             snd (configString (sn_config n) ''action_type'') \<and>
             node_mode (sn_config n) \<in> {[], ''DRY_RUN'', ''LIVE''} \<and>
             (snd (configInt (sn_config n) ''risk_level'') \<longrightarrow>
                fst (configInt (sn_config n) ''risk_level'') = ac_level d))) \<and>
     (sn_type n = ''HUMAN_APPROVAL'' \<longrightarrow> \<not> int_outside (sn_config n) ''required_approvals'' 1 2) \<and>
     (sn_type n = ''DELAY'' \<longrightarrow> \<not> int_outside (sn_config n) ''duration_seconds'' 1 86400) \<and>
     (sn_type n = ''LOOP'' \<longrightarrow> \<not> int_outside (sn_config n) ''maximum_iterations'' 1 100)"

definition risk_rules :: "soar_node list \<Rightarrow> soar_action \<Rightarrow> soar_node \<Rightarrow> bool" where
  "risk_rules nodes d n \<longleftrightarrow>
     (0 < required_approvals (ac_level d) \<longrightarrow>
        (\<exists>a k. (sn_id n, a) \<in> (edges nodes)\<^sup>+ \<and> asks_for nodes a k \<and> required_approvals (ac_level d) \<le> k)) \<and>
     (effective_mode (sn_config n) = ''LIVE'' \<longrightarrow>
        ac_level d \<noteq> 6 \<and> (3 \<le> ac_level d \<longrightarrow> verify_flag (sn_config n)) \<and>
        (ac_level d = 3 \<longrightarrow> ac_reversible d \<and> fst (configString (sn_config n) ''compensation_action'') \<noteq> []))"

definition playbook_rules :: "action_catalog \<Rightarrow> soar_spec \<Rightarrow> bool" where
  "playbook_rules actions spec \<longleftrightarrow>
     (let ns = sp_nodes spec
      in sp_schema_version spec = ''1.0'' \<and> trigger_allowed (sp_trigger_type spec) \<and>
         ns \<noteq> [] \<and> length ns \<le> 100 \<and> distinct (node_keys ns) \<and> acyclic (edges ns) \<and>
         (\<forall>n \<in> set ns. valid_node_id (sn_id n) \<and> node_rules actions n \<and>
            distinct (sn_depends_on n) \<and> set (sn_depends_on n) \<subseteq> set (node_keys ns) - {sn_id n} \<and>
            (\<forall>d. sn_type n = ''ACTION'' \<and> actions (fst (configString (sn_config n) ''action_type'')) = Some d \<longrightarrow>
               risk_rules ns d n)))"

subsection \<open>The validator decides the rules\<close>

lemma has_error_simps [simp]:
  "has_error [] = False" "has_error (issue_error c p m # xs) = True"
  "has_error (xs @ ys) \<longleftrightarrow> has_error xs \<or> has_error ys"
  "has_error (issue_when b c p m) = b"
  "has_error (concat xss) \<longleftrightarrow> (\<exists>xs \<in> set xss. has_error xs)"
  by (auto simp: has_error_def issue_error_def issue_when_def)

lemma has_error_sort [simp]: "has_error (sort_issues xs) = has_error xs"
  by (simp add: has_error_def sort_issues_def)

lemma validateNode_error: "has_error (validateNode actions n p) \<longleftrightarrow> \<not> node_rules actions n"
proof -
  have warn: "\<not> has_error [\<lparr>is_level = ''WARNING'', is_code = c, is_path = q, is_message = m\<rparr>]" for c q m
    by (simp add: has_error_def)
  have act: "has_error (action_issues actions cfg p) \<longleftrightarrow>
      \<not> (\<exists>d. actions (fst (configString cfg ''action_type'')) = Some d \<and> snd (configString cfg ''action_type'') \<and>
           node_mode cfg \<in> {[], ''DRY_RUN'', ''LIVE''} \<and>
           (snd (configInt cfg ''risk_level'') \<longrightarrow> fst (configInt cfg ''risk_level'') = ac_level d))" for cfg
    unfolding action_issues_def
    by (auto simp: Let_def case_prod_beta split: option.split)
  show ?thesis
    unfolding validateNode_def node_rules_def
    by (simp only: has_error_simps act warn de_Morgan_conj not_imp not_le not_less if_distrib [of has_error]) auto
qed

lemma collect_nodes_error:
  "has_error (fst (collect_nodes actions i ns nodes)) \<longleftrightarrow>
     \<not> ((\<forall>n \<in> set ns. valid_node_id (sn_id n) \<and> node_rules actions n) \<and>
        distinct (node_keys ns) \<and> set (node_keys ns) \<inter> set (node_keys nodes) = {})"
proof (induction actions i ns nodes rule: collect_nodes.induct)
  case (2 actions i n ns nodes)
  then show ?case
    by (auto simp: case_prod_beta Let_def validateNode_error node_keys_def)
qed (simp add: node_keys_def)

lemma collect_nodes_all:
  assumes "\<not> has_error (fst (collect_nodes actions i ns nodes))"
  shows "snd (collect_nodes actions i ns nodes) = nodes @ ns"
  using assms
  by (induction actions i ns nodes rule: collect_nodes.induct)
    (auto simp: case_prod_beta Let_def split: if_splits)

lemma dependency_issues_error:
  "has_error (dependency_issues nodes p self ds marks) \<longleftrightarrow>
     \<not> (distinct ds \<and> set ds \<inter> set marks = {} \<and> set ds \<subseteq> set (node_keys nodes) - {self})"
  by (induction nodes p self ds marks rule: dependency_issues.induct) auto

lemma risk_issues_error:
  "has_error (risk_issues actions nodes i n) \<longleftrightarrow>
     \<not> (\<forall>d. sn_type n = ''ACTION'' \<and> actions (fst (configString (sn_config n) ''action_type'')) = Some d \<longrightarrow>
          risk_rules nodes d n)"
proof -
  have ge: "(0 < k \<longrightarrow> (\<exists>a j. (i, a) \<in> (edges nodes)\<^sup>+ \<and> asks_for nodes a j \<and> k \<le> j)) \<longleftrightarrow>
      \<not> (0 < k \<and> maximumApprovalAncestors i nodes < k)" for i k
    by (cases "0 < k") (auto simp: not_less maximumApprovalAncestors_ge)
  show ?thesis
    unfolding risk_issues_def risk_rules_def ge
    by (auto simp: Let_def split: option.split)
qed

lemma acyclic_root:
  assumes "acyclic (edges ns)" "ns \<noteq> []" "distinct (node_keys ns)"
    and "\<And>n. n \<in> set ns \<Longrightarrow> set (sn_depends_on n) \<subseteq> set (node_keys ns)"
  shows "filter (\<lambda>n. sn_depends_on n = []) ns \<noteq> []"
proof -
  have "wf ((edges ns)\<inverse>)"
    using assms(1) finite_edges by (simp add: finite_acyclic_wf_converse)
  moreover obtain n where "n \<in> set ns" using assms(2) by (cases ns) auto
  then have "sn_id n \<in> set (node_keys ns)" by (simp add: node_keys_def)
  ultimately obtain r where r: "r \<in> set (node_keys ns)" "\<And>y. (y, r) \<in> (edges ns)\<inverse> \<Longrightarrow> y \<notin> set (node_keys ns)"
    by (metis wfE_min)
  then obtain m where m: "m \<in> set ns" "sn_id m = r" by (auto simp: node_keys_def)
  then have "depends ns r = sn_depends_on m" using node_at_unique [OF assms(3)] by (auto simp: depends_def)
  with r(2) assms(4) [OF m(1)] have "sn_depends_on m = []"
    by (cases "sn_depends_on m") (auto simp: edges_def)
  with m show ?thesis by (auto simp: filter_empty_conv)
qed

lemma enumerate_any: "(\<exists>x \<in> set (List.enumerate k xs). P (snd x)) \<longleftrightarrow> (\<exists>x \<in> set xs. P x)"
  by (metis (no_types, lifting) image_iff list.set_map map_snd_enumerate)

lemma Validate_decides: "rp_valid (Validate actions spec now) \<longleftrightarrow> playbook_rules actions spec"
proof -
  let ?ns = "sp_nodes spec"
  obtain issues nodes where c: "collect_nodes actions 0 ?ns [] = (issues, nodes)" by fastforce
  have err: "has_error issues \<longleftrightarrow> \<not> ((\<forall>n \<in> set ?ns. valid_node_id (sn_id n) \<and> node_rules actions n) \<and> distinct (node_keys ?ns))"
    using collect_nodes_error [of actions 0 ?ns "[]"] c by (simp add: node_keys_def)
  show ?thesis
  proof (cases "has_error issues")
    case True
    with err c show ?thesis
      by (auto simp: Validate_def validation_issues_def Let_def playbook_rules_def)
  next
    case False
    with collect_nodes_all [of actions 0 ?ns "[]"] c have nodes: "nodes = ?ns" by simp
    have deps: "has_error (concat (map (\<lambda>(i, n). dependency_issues ?ns (node_path i @ ''.depends_on'') (sn_id n) (sn_depends_on n) [])
          (List.enumerate 0 ?ns))) \<longleftrightarrow>
        \<not> (\<forall>n \<in> set ?ns. distinct (sn_depends_on n) \<and> set (sn_depends_on n) \<subseteq> set (node_keys ?ns) - {sn_id n})"
      using enumerate_any [of 0 ?ns "\<lambda>n. has_error (dependency_issues ?ns p (sn_id n) (sn_depends_on n) [])" for p]
      by (simp add: case_prod_beta dependency_issues_error)
    have risks: "has_error (concat (map (\<lambda>(i, n). risk_issues actions ?ns i n) (List.enumerate 0 ?ns))) \<longleftrightarrow>
        \<not> (\<forall>n \<in> set ?ns. \<forall>d. sn_type n = ''ACTION'' \<and> actions (fst (configString (sn_config n) ''action_type'')) = Some d \<longrightarrow>
             risk_rules ?ns d n)"
      using enumerate_any [of 0 ?ns "\<lambda>n. has_error (risk_issues actions ?ns i n)" for i]
      by (simp add: case_prod_beta risk_issues_error)
    have root: "filter (\<lambda>n. sn_depends_on n = []) ?ns \<noteq> []"
      if "acyclic (edges ?ns)" "?ns \<noteq> []" "distinct (node_keys ?ns)"
        "\<forall>n \<in> set ?ns. distinct (sn_depends_on n) \<and> set (sn_depends_on n) \<subseteq> set (node_keys ?ns) - {sn_id n}"
      using that by (intro acyclic_root) auto
    have "rp_valid (Validate actions spec now) \<longleftrightarrow>
        sp_schema_version spec = ''1.0'' \<and> trigger_allowed (sp_trigger_type spec) \<and> ?ns \<noteq> [] \<and> length ?ns \<le> 100 \<and>
        \<not> has_error issues \<and>
        (\<forall>n \<in> set ?ns. distinct (sn_depends_on n) \<and> set (sn_depends_on n) \<subseteq> set (node_keys ?ns) - {sn_id n}) \<and>
        filter (\<lambda>n. sn_depends_on n = []) ?ns \<noteq> [] \<and> acyclic (edges ?ns) \<and>
        (\<forall>n \<in> set ?ns. \<forall>d. sn_type n = ''ACTION'' \<and> actions (fst (configString (sn_config n) ''action_type'')) = Some d \<longrightarrow>
             risk_rules ?ns d n)"
      unfolding Validate_def validation_issues_def Let_def c nodes prod.case
      by (simp only: soar_report.select_convs has_error_sort has_error_simps(1-4) deps risks detectCycle_correct(1) not_not
          de_Morgan_disj not_less de_Morgan_conj) blast
    with err root show ?thesis unfolding playbook_rules_def Let_def by blast
  qed
qed

end
