(* ===== verification/Soar_Store.thy ===== *)
theory Soar_Store
  imports Soar_Validate Postgres
begin

text \<open>
  Playbooks, their versions and executions in PostgreSQL: \<^verbatim>\<open>internal/store/soar.go\<close> over the tables of
  \<^verbatim>\<open>0009_soar.sql\<close>, \<^verbatim>\<open>0010_soar_runtime.sql\<close> and \<^verbatim>\<open>0027_soar_approval_version.sql\<close>. A table is the list of
  its rows. An \<^verbatim>\<open>UPDATE\<close> maps the rows its condition selects, a \<^verbatim>\<open>SELECT\<close> filters them, and an \<^verbatim>\<open>INSERT\<close>
  checks the keys and constraints the migrations declare. The tenants and the audit log are those of
  the durable store.
\<close>

subsection \<open>Tables\<close>

record soar_decision_row =
  dr_tenant :: tenant
  dr_approval :: string
  dr_decision :: soar_decision

record soar_db =
  so_pg :: pg
  so_playbooks :: "soar_playbook list"
  so_versions :: "soar_version list"
  so_executions :: "soar_execution list"
  so_nodes :: "soar_node_execution list"
  so_approvals :: "soar_approval list"
  so_decisions :: "soar_decision_row list"
  so_attempts :: "soar_action_attempt list"

definition empty_soar :: "pg \<Rightarrow> soar_db" where
  "empty_soar p = \<lparr>so_pg = p, so_playbooks = [], so_versions = [], so_executions = [], so_nodes = [],
     so_approvals = [], so_decisions = [], so_attempts = []\<rparr>"

text \<open>A statement of the durable store run in the same database.\<close>

definition on_pg :: "(pg, 'a) op \<Rightarrow> (soar_db, 'a) op" where
  "on_pg f sw = (let (r, (p, w)) = f (so_pg (fst sw), snd sw) in (r, ((fst sw)\<lparr>so_pg := p\<rparr>, w)))"

text \<open>
  \<^verbatim>\<open>UPDATE ... SET f WHERE P RETURNING ...\<close> on each table. The number of returned rows is what
  \<^verbatim>\<open>RowsAffected\<close> reports.
\<close>

definition update_playbooks :: "(soar_playbook \<Rightarrow> bool) \<Rightarrow> (soar_playbook \<Rightarrow> soar_playbook) \<Rightarrow> (soar_db, soar_playbook list) op" where
  "update_playbooks P f = statement (\<lambda>s.
     (Inr (returned_rows P f (so_playbooks s)), s\<lparr>so_playbooks := update_rows P f (so_playbooks s)\<rparr>))"

definition update_versions :: "(soar_version \<Rightarrow> bool) \<Rightarrow> (soar_version \<Rightarrow> soar_version) \<Rightarrow> (soar_db, soar_version list) op" where
  "update_versions P f = statement (\<lambda>s.
     (Inr (returned_rows P f (so_versions s)), s\<lparr>so_versions := update_rows P f (so_versions s)\<rparr>))"

definition update_executions :: "(soar_execution \<Rightarrow> bool) \<Rightarrow> (soar_execution \<Rightarrow> soar_execution) \<Rightarrow> (soar_db, soar_execution list) op" where
  "update_executions P f = statement (\<lambda>s.
     (Inr (returned_rows P f (so_executions s)), s\<lparr>so_executions := update_rows P f (so_executions s)\<rparr>))"

definition update_nodes ::
  "(soar_node_execution \<Rightarrow> bool) \<Rightarrow> (soar_node_execution \<Rightarrow> soar_node_execution) \<Rightarrow> (soar_db, soar_node_execution list) op" where
  "update_nodes P f = statement (\<lambda>s.
     (Inr (returned_rows P f (so_nodes s)), s\<lparr>so_nodes := update_rows P f (so_nodes s)\<rparr>))"

definition update_approvals :: "(soar_approval \<Rightarrow> bool) \<Rightarrow> (soar_approval \<Rightarrow> soar_approval) \<Rightarrow> (soar_db, soar_approval list) op" where
  "update_approvals P f = statement (\<lambda>s.
     (Inr (returned_rows P f (so_approvals s)), s\<lparr>so_approvals := update_rows P f (so_approvals s)\<rparr>))"

definition update_attempts ::
  "(soar_action_attempt \<Rightarrow> bool) \<Rightarrow> (soar_action_attempt \<Rightarrow> soar_action_attempt) \<Rightarrow> (soar_db, soar_action_attempt list) op" where
  "update_attempts P f = statement (\<lambda>s.
     (Inr (returned_rows P f (so_attempts s)), s\<lparr>so_attempts := update_rows P f (so_attempts s)\<rparr>))"

text \<open>
  A transaction whose body decides to roll back and go on without it: \<^term>\<open>Inl\<close> is what it then
  answers.
\<close>

definition transaction_or :: "('s, 'b + 'a) op \<Rightarrow> ('s, 'b + 'a) op" where
  "transaction_or body sw =
    (case op_bind (sql_query (\<lambda>_. Inr ())) (\<lambda>_. body) sw of
       (Inl e, (s, w)) \<Rightarrow> (Inl e, (fst sw, w))
     | (Inr (Inl b), (s, w)) \<Rightarrow> (Inr (Inl b), (fst sw, w))
     | (Inr (Inr x), (s, w)) \<Rightarrow>
         (case sql_query (\<lambda>_. Inr ()) (s, w) of
            (Inl e, (_, w')) \<Rightarrow> (Inl e, (fst sw, w'))
          | (Inr _, sw') \<Rightarrow> (Inr (Inr x), sw')))"

subsection \<open>Playbooks and versions\<close>

definition is_playbook :: "tenant \<Rightarrow> string \<Rightarrow> soar_playbook \<Rightarrow> bool" where
  "is_playbook t i p \<longleftrightarrow> pb_tenant p = t \<and> pb_id p = i"

definition is_version :: "tenant \<Rightarrow> string \<Rightarrow> int \<Rightarrow> soar_version \<Rightarrow> bool" where
  "is_version t i v r \<longleftrightarrow> pv_tenant r = t \<and> pv_playbook r = i \<and> pv_version r = v"

definition insert_playbook :: "soar_playbook \<Rightarrow> soar_db \<Rightarrow> soar_db result" where
  "insert_playbook p s =
    (if \<exists>r \<in> set (so_playbooks s). pb_tenant r = pb_tenant p \<and> (pb_id r = pb_id p \<or> sql_lower_eq (pb_name r) (pb_name p))
     then Inl ErrAlreadyExists
     else if pg_tenants (so_pg s) (pb_tenant p) = None then Inl foreign_key
     else if pb_state p \<notin> {''DRAFT'', ''PUBLISHED'', ''DISABLED''} \<or> pb_latest_version p \<le> 0 \<or>
        pb_published_version p < 0 \<or> pb_revision p \<le> 0 then Inl check_violation
     else Inr (s\<lparr>so_playbooks := so_playbooks s @
       [p\<lparr>pb_created_at := to_micro (pb_created_at p), pb_updated_at := to_micro (pb_updated_at p)\<rparr>]\<rparr>))"

definition insert_version :: "soar_version \<Rightarrow> soar_db \<Rightarrow> soar_db result" where
  "insert_version v s =
    (if \<exists>r \<in> set (so_versions s). is_version (pv_tenant v) (pv_playbook v) (pv_version v) r then Inl duplicate_key
     else if \<not> (\<exists>p \<in> set (so_playbooks s). is_playbook (pv_tenant v) (pv_playbook v) p) then Inl foreign_key
     else if pv_version v \<le> 0 \<or> pv_state v \<notin> {''DRAFT'', ''VALIDATED'', ''PUBLISHED'', ''RETIRED''} then Inl check_violation
     else Inr (s\<lparr>so_versions := so_versions s @
       [v\<lparr>pv_created_at := to_micro (pv_created_at v), pv_validated_at := None, pv_published_at := None\<rparr>]\<rparr>))"

definition CreateSOARPlaybook :: "soar_playbook \<Rightarrow> soar_version \<Rightarrow> (soar_db, soar_details) op" where
  "CreateSOARPlaybook playbook version =
    transaction
     (op_bind (sql_exec (insert_playbook playbook)) (\<lambda>_.
      op_bind (sql_exec (insert_version version)) (\<lambda>_.
      op_return \<lparr>pd_playbook = playbook, pd_versions = [version]\<rparr>)))"

definition draft_version :: "tenant \<Rightarrow> string \<Rightarrow> int \<Rightarrow> string \<Rightarrow> soar_spec \<Rightarrow> soar_report \<Rightarrow> time \<Rightarrow> soar_version" where
  "draft_version t i n actor spec report now =
    \<lparr>pv_tenant = t, pv_playbook = i, pv_version = n, pv_state = ''DRAFT'', pv_spec = spec,
     pv_spec_hash = rp_spec_hash report, pv_validation = report, pv_created_by = actor, pv_created_at = now,
     pv_validated_at = None, pv_published_at = None\<rparr>"

definition CreateSOARPlaybookVersion ::
  "tenant \<Rightarrow> string \<Rightarrow> string \<Rightarrow> soar_spec \<Rightarrow> soar_report \<Rightarrow> (soar_db, soar_version) op" where
  "CreateSOARPlaybookVersion t i actor spec report =
    transaction
     (op_bind (sql_query (\<lambda>_. Inr ())) (\<lambda>_.
      op_bind (sql_query (\<lambda>s. Inr (filter (is_playbook t i) (so_playbooks s)))) (\<lambda>rows.
      op_bind (first_row ErrNotFound rows) (\<lambda>p.
      op_bind op_now (\<lambda>now.
      let version = draft_version t i (pb_latest_version p + 1) actor spec report now
      in op_bind (sql_exec (insert_version version)) (\<lambda>_.
         op_bind (update_playbooks (is_playbook t i)
           (\<lambda>r. r\<lparr>pb_latest_version := pv_version version, pb_revision := pb_revision r + 1,
                  pb_updated_by := actor, pb_updated_at := to_micro now\<rparr>)) (\<lambda>_.
         op_return version)))))))"

definition GetSOARPlaybook :: "tenant \<Rightarrow> string \<Rightarrow> (soar_db, soar_details) op" where
  "GetSOARPlaybook t i =
    op_bind (sql_query (\<lambda>s. Inr (filter (is_playbook t i) (so_playbooks s)))) (\<lambda>rows.
    op_bind (first_row ErrNotFound rows) (\<lambda>p.
    op_bind (sql_query (\<lambda>s. Inr (sort_key (\<lambda>v. - pv_version v)
      (filter (\<lambda>v. pv_tenant v = t \<and> pv_playbook v = i) (so_versions s))))) (\<lambda>versions.
    op_return \<lparr>pd_playbook = p, pd_versions = versions\<rparr>)))"

definition ListSOARPlaybooks :: "tenant \<Rightarrow> (soar_db, soar_playbook list) op" where
  "ListSOARPlaybooks t =
    sql_query (\<lambda>s. Inr (sort_key (\<lambda>p. (- pb_updated_at p, pb_id p)) (filter (\<lambda>p. pb_tenant p = t) (so_playbooks s))))"

definition SaveSOARValidation :: "tenant \<Rightarrow> string \<Rightarrow> int \<Rightarrow> soar_report \<Rightarrow> (soar_db, soar_version) op" where
  "SaveSOARValidation t i version report =
    op_bind (update_versions (\<lambda>r. is_version t i version r \<and> pv_state r \<in> {''DRAFT'', ''VALIDATED''})
      (\<lambda>r. r\<lparr>pv_state := (if rp_valid report then ''VALIDATED'' else ''DRAFT''), pv_validation := report,
             pv_spec_hash := rp_spec_hash report,
             pv_validated_at := (if rp_valid report then Some (to_micro (rp_validated_at report)) else None)\<rparr>))
    (first_row SoarErrInvalidState)"

definition PublishSOARPlaybookVersion :: "tenant \<Rightarrow> string \<Rightarrow> int \<Rightarrow> string \<Rightarrow> (soar_db, soar_details) op" where
  "PublishSOARPlaybookVersion t i version actor =
    op_bind (transaction
     (op_bind (sql_query (\<lambda>s. Inr (filter (is_version t i version) (so_versions s)))) (\<lambda>rows.
      op_bind (first_row ErrNotFound rows) (\<lambda>v.
      if pv_state v \<noteq> ''VALIDATED'' then op_fail SoarErrInvalidState
      else op_bind op_now (\<lambda>now.
           op_bind (update_versions (\<lambda>r. pv_tenant r = t \<and> pv_playbook r = i \<and> pv_state r = ''PUBLISHED'')
             (\<lambda>r. r\<lparr>pv_state := ''RETIRED''\<rparr>)) (\<lambda>_.
           op_bind (update_versions (is_version t i version)
             (\<lambda>r. r\<lparr>pv_state := ''PUBLISHED'', pv_published_at := Some (to_micro now)\<rparr>)) (\<lambda>_.
           op_bind (update_playbooks (is_playbook t i)
             (\<lambda>r. r\<lparr>pb_state := ''PUBLISHED'', pb_published_version := version, pb_revision := pb_revision r + 1,
                    pb_updated_by := actor, pb_updated_at := to_micro now\<rparr>)) (\<lambda>_.
           op_return ()))))))))
    (\<lambda>_. GetSOARPlaybook t i)"

definition DisableSOARPlaybook :: "tenant \<Rightarrow> string \<Rightarrow> string \<Rightarrow> (soar_db, soar_playbook) op" where
  "DisableSOARPlaybook t i actor =
    op_bind op_now (\<lambda>now.
    op_bind (update_playbooks (is_playbook t i)
      (\<lambda>r. r\<lparr>pb_state := ''DISABLED'', pb_revision := pb_revision r + 1, pb_updated_by := actor,
             pb_updated_at := to_micro now\<rparr>))
    (first_row ErrNotFound))"

subsection \<open>Executions\<close>

definition is_execution :: "tenant \<Rightarrow> string \<Rightarrow> soar_execution \<Rightarrow> bool" where
  "is_execution t i e \<longleftrightarrow> ex_tenant e = t \<and> ex_id e = i"

definition nodes_of :: "tenant \<Rightarrow> string \<Rightarrow> soar_db \<Rightarrow> soar_node_execution list" where
  "nodes_of t i s = filter (\<lambda>n. nx_tenant n = t \<and> nx_execution n = i) (so_nodes s)"

definition listSOARNodeExecutions :: "tenant \<Rightarrow> string \<Rightarrow> (soar_db, soar_node_execution list) op" where
  "listSOARNodeExecutions t i =
    sql_query (\<lambda>s. Inr (sort_key (\<lambda>n. (nx_created_at n, nx_node n)) (nodes_of t i s)))"

definition GetSOARExecution :: "tenant \<Rightarrow> string \<Rightarrow> (soar_db, soar_execution) op" where
  "GetSOARExecution t i =
    op_bind (sql_query (\<lambda>s. Inr (filter (is_execution t i) (so_executions s)))) (\<lambda>rows.
    op_bind (first_row ErrNotFound rows) (\<lambda>e.
    op_bind (listSOARNodeExecutions t i) (\<lambda>nodes.
    op_return (e\<lparr>ex_nodes := nodes\<rparr>))))"

fun load_nodes :: "tenant \<Rightarrow> soar_execution list \<Rightarrow> (soar_db, soar_execution list) op" where
  "load_nodes t [] = op_return []"
| "load_nodes t (e # es) =
     op_bind (listSOARNodeExecutions t (ex_id e)) (\<lambda>nodes.
     op_bind (load_nodes t es) (\<lambda>items. op_return (e\<lparr>ex_nodes := nodes\<rparr> # items)))"

definition soar_limit :: "int \<Rightarrow> int" where
  "soar_limit n = (if n \<le> 0 \<or> 500 < n then 100 else n)"

definition ListSOARExecutions :: "tenant \<Rightarrow> soar_execution_filter \<Rightarrow> (soar_db, soar_execution list) op" where
  "ListSOARExecutions t f =
    op_bind (sql_query (\<lambda>s. Inr (take (nat (soar_limit (xf_limit f)))
      (sort_key (\<lambda>e. (- ex_created_at e, ex_id e))
        (filter (\<lambda>e. ex_tenant e = t \<and> (xf_playbook f = [] \<or> ex_playbook e = xf_playbook f) \<and>
                     (xf_status f = [] \<or> ex_status e = xf_status f)) (so_executions s))))))
    (load_nodes t)"

definition insert_execution :: "soar_execution \<Rightarrow> soar_db \<Rightarrow> soar_db result" where
  "insert_execution e s =
    (if \<exists>r \<in> set (so_executions s). ex_tenant r = ex_tenant e \<and> (ex_id r = ex_id e \<or> ex_request r = ex_request e)
     then Inl duplicate_key
     else if \<not> (\<exists>v \<in> set (so_versions s). is_version (ex_tenant e) (ex_playbook e) (ex_playbook_version e) v) then Inl foreign_key
     else if ex_trigger_type e \<notin> {''MANUAL'', ''ALERT'', ''INCIDENT''} \<or> ex_version e \<le> 0 \<or>
        ex_status e \<notin> {''QUEUED'', ''RUNNING'', ''WAITING_APPROVAL'', ''WAITING_MANUAL'', ''SUCCEEDED'', ''FAILED'', ''CANCELLED''}
     then Inl check_violation
     else Inr (s\<lparr>so_executions := so_executions s @
       [e\<lparr>ex_created_at := to_micro (ex_created_at e), ex_updated_at := to_micro (ex_updated_at e),
          ex_started_at := None, ex_completed_at := None, ex_nodes := []\<rparr>]\<rparr>))"

definition default_timeout :: "int \<Rightarrow> int" where
  "default_timeout n = (if n \<le> 0 then 60 else n)"

definition default_retry :: "soar_retry \<Rightarrow> soar_retry" where
  "default_retry r =
    (let attempts = (if sr_maximum_attempts r \<le> 0 then 1 else sr_maximum_attempts r);
         backoff = (if sr_backoff r \<le> 0 then 1 else sr_backoff r);
         maximum = (if sr_maximum_backoff r \<le> 0 then 60 else sr_maximum_backoff r)
     in \<lparr>sr_maximum_attempts = attempts, sr_backoff = backoff,
         sr_maximum_backoff = (if maximum < backoff then backoff else maximum)\<rparr>)"

definition node_snapshot :: "soar_execution \<Rightarrow> soar_node \<Rightarrow> string \<Rightarrow> soar_node_execution" where
  "node_snapshot e n i =
    \<lparr>nx_id = i, nx_tenant = ex_tenant e, nx_execution = ex_id e, nx_node = sn_id n, nx_type = sn_type n,
     nx_name = sn_name n, nx_depends_on = sn_depends_on n, nx_config = sn_config n,
     nx_timeout = default_timeout (sn_timeout n), nx_retry = default_retry (sn_retry n),
     nx_status = (if sn_depends_on n = [] then ''READY'' else ''PENDING''), nx_attempt = 0,
     nx_available_at = to_micro (ex_created_at e), nx_output = [], nx_error_code = [], nx_error_detail = [],
     nx_lease_owner = [], nx_lease_until = None, nx_started_at = None, nx_completed_at = None,
     nx_created_at = to_micro (ex_created_at e), nx_updated_at = to_micro (ex_created_at e)\<rparr>"

definition insert_node :: "soar_node_execution \<Rightarrow> soar_db \<Rightarrow> soar_db result" where
  "insert_node n s =
    (if \<exists>r \<in> set (so_nodes s). nx_tenant r = nx_tenant n \<and>
        (nx_id r = nx_id n \<or> nx_execution r = nx_execution n \<and> nx_node r = nx_node n) then Inl duplicate_key
     else if \<not> (\<exists>e \<in> set (so_executions s). is_execution (nx_tenant n) (nx_execution n) e) then Inl foreign_key
     else if nx_timeout n < 1 \<or> 3600 < nx_timeout n then Inl check_violation
     else Inr (s\<lparr>so_nodes := so_nodes s @ [n]\<rparr>))"

fun insert_snapshots :: "soar_execution \<Rightarrow> soar_node list \<Rightarrow> (soar_db, unit) op" where
  "insert_snapshots e [] = op_return ()"
| "insert_snapshots e (n # ns) =
     op_bind (op_new_id ''snx'') (\<lambda>i.
     op_bind (sql_exec (insert_node (node_snapshot e n i))) (\<lambda>_.
     insert_snapshots e ns))"

text \<open>\<^verbatim>\<open>SELECT p.state,v.state FROM soar_playbooks p JOIN soar_playbook_versions v ...\<close>\<close>

definition launch_states :: "tenant \<Rightarrow> string \<Rightarrow> int \<Rightarrow> soar_db \<Rightarrow> (string \<times> string) list" where
  "launch_states t i version s =
    concat (map (\<lambda>p. map (\<lambda>v. (pb_state p, pv_state v)) (filter (is_version t i version) (so_versions s)))
              (filter (is_playbook t i) (so_playbooks s)))"

definition CreateSOARExecution :: "soar_execution \<Rightarrow> soar_node list \<Rightarrow> (soar_db, soar_execution \<times> bool) op" where
  "CreateSOARExecution e nodes =
    op_bind (transaction_or
     (op_bind (sql_query (\<lambda>_. Inr ())) (\<lambda>_.
      op_bind (sql_query (\<lambda>s. Inr (filter (\<lambda>r. ex_tenant r = ex_tenant e \<and> ex_request r = ex_request e) (so_executions s)))) (\<lambda>existing.
      case existing of
        r # _ \<Rightarrow> op_return (Inl (ex_id r))
      | [] \<Rightarrow>
          op_bind (sql_query (\<lambda>s. Inr (launch_states (ex_tenant e) (ex_playbook e) (ex_playbook_version e) s))) (\<lambda>states.
          op_bind (first_row ErrNotFound states) (\<lambda>(published, version).
          if published \<noteq> ''PUBLISHED'' \<or> version \<noteq> ''PUBLISHED'' then op_fail SoarErrInvalidState
          else op_bind (sql_exec (insert_execution e)) (\<lambda>_.
               op_bind (insert_snapshots e nodes) (\<lambda>_. op_return (Inr ())))))))))
    (\<lambda>outcome. case outcome of
       Inl existing \<Rightarrow> op_bind (GetSOARExecution (ex_tenant e) existing) (\<lambda>stored. op_return (stored, False))
     | Inr _ \<Rightarrow> op_bind (GetSOARExecution (ex_tenant e) (ex_id e)) (\<lambda>stored. op_return (stored, True)))"

end
