(* ===== verification/Soar_Runtime.thy ===== *)
theory Soar_Runtime
  imports Soar_Store
begin

text \<open>
  The durable runtime of executions, \<^verbatim>\<open>internal/store/soar_runtime.go\<close>: workers claim nodes under a
  lease and report their outcome, approvals and manual tasks hold nodes back, and every settled node
  promotes its dependents and reconciles the status of its execution. Row locks and \<^verbatim>\<open>SKIP LOCKED\<close>
  serialize the transactions, so each is one step here.
\<close>

definition active_statuses :: "string set" where
  "active_statuses = {''PENDING'', ''READY'', ''RUNNING'', ''WAITING_APPROVAL'', ''WAITING_MANUAL''}"

definition is_node :: "tenant \<Rightarrow> string \<Rightarrow> soar_node_execution \<Rightarrow> bool" where
  "is_node t i n \<longleftrightarrow> nx_tenant n = t \<and> nx_id n = i"

definition leased_node :: "tenant \<Rightarrow> string \<Rightarrow> string \<Rightarrow> soar_node_execution \<Rightarrow> bool" where
  "leased_node t i worker n \<longleftrightarrow> is_node t i n \<and> nx_status n = ''RUNNING'' \<and> nx_lease_owner n = worker"

subsection \<open>Promotion and reconciliation\<close>

text \<open>
  A pending node becomes ready when every dependency has a row in its execution and that row has
  succeeded or was skipped.
\<close>

definition dependency_met :: "soar_node_execution list \<Rightarrow> soar_node_execution \<Rightarrow> string \<Rightarrow> bool" where
  "dependency_met rows n d \<longleftrightarrow>
     (\<exists>p \<in> set rows. nx_tenant p = nx_tenant n \<and> nx_execution p = nx_execution n \<and> nx_node p = d) \<and>
     (\<forall>p \<in> set rows. nx_tenant p = nx_tenant n \<and> nx_execution p = nx_execution n \<and> nx_node p = d \<longrightarrow>
        nx_status p \<in> {''SUCCEEDED'', ''SKIPPED''})"

definition dependencies_met :: "soar_node_execution list \<Rightarrow> soar_node_execution \<Rightarrow> bool" where
  "dependencies_met rows n \<longleftrightarrow> (\<forall>d \<in> set (nx_depends_on n). dependency_met rows n d)"

definition promote_nodes :: "tenant \<Rightarrow> string \<Rightarrow> time \<Rightarrow> soar_db \<Rightarrow> soar_db" where
  "promote_nodes t e now s =
    s\<lparr>so_nodes := update_rows
      (\<lambda>n. nx_tenant n = t \<and> nx_execution n = e \<and> nx_status n = ''PENDING'' \<and> dependencies_met (so_nodes s) n)
      (\<lambda>n. n\<lparr>nx_status := ''READY'', nx_available_at := to_micro now, nx_updated_at := to_micro now\<rparr>) (so_nodes s)\<rparr>"

definition count_status :: "string set \<Rightarrow> soar_node_execution list \<Rightarrow> nat" where
  "count_status S ns = length (filter (\<lambda>n. nx_status n \<in> S) ns)"

definition cancel_branches :: "tenant \<Rightarrow> string \<Rightarrow> time \<Rightarrow> soar_db \<Rightarrow> soar_db" where
  "cancel_branches t e now s =
    s\<lparr>so_nodes := update_rows
      (\<lambda>n. nx_tenant n = t \<and> nx_execution n = e \<and> nx_status n \<in> active_statuses)
      (\<lambda>n. n\<lparr>nx_status := ''CANCELLED'', nx_lease_owner := [], nx_lease_until := None,
             nx_completed_at := Some (to_micro now), nx_updated_at := to_micro now\<rparr>) (so_nodes s)\<rparr>"

text \<open>The status of an execution and whether it is complete, from the statuses of its nodes.\<close>

definition reconciled_status :: "soar_node_execution list \<Rightarrow> string \<times> bool" where
  "reconciled_status ns =
    (if 0 < count_status {''FAILED''} ns then (''FAILED'', True)
     else if count_status active_statuses ns = 0 then (''SUCCEEDED'', True)
     else if 0 < count_status {''WAITING_APPROVAL''} ns then (''WAITING_APPROVAL'', False)
     else if 0 < count_status {''WAITING_MANUAL''} ns then (''WAITING_MANUAL'', False)
     else (''RUNNING'', False))"

definition promoteAndReconcileSOAR :: "tenant \<Rightarrow> string \<Rightarrow> time \<Rightarrow> (soar_db, unit) op" where
  "promoteAndReconcileSOAR t e now =
    op_bind (sql_exec (\<lambda>s. Inr (promote_nodes t e now s))) (\<lambda>_.
    op_bind (sql_query (\<lambda>s. Inr (reconciled_status (nodes_of t e s)))) (\<lambda>(status, completed).
    op_bind (if status = ''FAILED'' then sql_exec (\<lambda>s. Inr (cancel_branches t e now s)) else op_return ()) (\<lambda>_.
    op_bind (update_executions (is_execution t e)
      (\<lambda>r. r\<lparr>ex_status := status, ex_version := ex_version r + 1, ex_updated_at := to_micro now,
             ex_completed_at := (if completed then Some (to_micro now) else None)\<rparr>)) (\<lambda>rows.
    if length rows \<noteq> 1 then op_fail ErrNotFound else op_return ()))))"

subsection \<open>Expired approvals\<close>

text \<open>
  Every pending approval past its time expires, whichever tenant it belongs to, and its node fails. The
  executions concerned are collected in a Go map by tenant and execution and reconciled one by one; the
  order of that iteration is open and they are different rows, so the model takes them in table order.
\<close>

definition approval_due :: "time \<Rightarrow> soar_approval \<Rightarrow> bool" where
  "approval_due now a \<longleftrightarrow> av_status a = ''PENDING'' \<and> av_expires_at a \<le> to_micro now"

definition expire_node :: "tenant \<Rightarrow> string \<Rightarrow> time \<Rightarrow> soar_db \<Rightarrow> soar_db" where
  "expire_node t i now s =
    s\<lparr>so_nodes := update_rows (\<lambda>n. is_node t i n \<and> nx_status n = ''WAITING_APPROVAL'')
      (\<lambda>n. n\<lparr>nx_status := ''FAILED'', nx_error_code := ''approval_expired'', nx_error_detail := ''approval window expired'',
             nx_completed_at := Some (to_micro now), nx_updated_at := to_micro now\<rparr>) (so_nodes s)\<rparr>"

fun op_each :: "('a \<Rightarrow> ('s, unit) op) \<Rightarrow> 'a list \<Rightarrow> ('s, unit) op" where
  "op_each f [] = op_return ()"
| "op_each f (x # xs) = op_bind (f x) (\<lambda>_. op_each f xs)"

text \<open>The values of a Go map that was filled in the order of the list: one entry per key, the last one put.\<close>

definition last_by_key :: "('a \<Rightarrow> 'k) \<Rightarrow> 'a list \<Rightarrow> 'a list" where
  "last_by_key key xs = map (\<lambda>k. the (find (\<lambda>x. key x = k) (rev xs))) (remdups (map key xs))"

definition approval_key :: "soar_approval \<Rightarrow> string" where
  "approval_key a = av_tenant a @ ''|'' @ av_execution a"

definition expireSOARApprovals :: "time \<Rightarrow> (soar_db, unit) op" where
  "expireSOARApprovals now =
    op_bind (update_approvals (approval_due now)
      (\<lambda>a. a\<lparr>av_status := ''EXPIRED'', av_decided_at := Some (to_micro now), av_version := av_version a + 1\<rparr>)) (\<lambda>expired.
    op_bind (op_each (\<lambda>a. sql_exec (\<lambda>s. Inr (expire_node (av_tenant a) (av_node_execution a) now s))) expired) (\<lambda>_.
    op_each (\<lambda>a. promoteAndReconcileSOAR (av_tenant a) (av_execution a) now) (last_by_key approval_key expired)))"

subsection \<open>Claiming a node\<close>

definition claimable :: "time \<Rightarrow> tenant \<Rightarrow> soar_db \<Rightarrow> soar_node_execution \<Rightarrow> bool" where
  "claimable now scope s n \<longleftrightarrow>
     (\<exists>e \<in> set (so_executions s). is_execution (nx_tenant n) (nx_execution n) e \<and>
        ex_status e \<in> {''QUEUED'', ''RUNNING'', ''WAITING_APPROVAL'', ''WAITING_MANUAL''}) \<and>
     (scope = [] \<or> nx_tenant n = scope) \<and> nx_available_at n \<le> to_micro now \<and>
     (nx_status n = ''READY'' \<or>
      nx_status n = ''RUNNING'' \<and> (case nx_lease_until n of None \<Rightarrow> True | Some u \<Rightarrow> u \<le> to_micro now))"

definition claim_queue :: "time \<Rightarrow> tenant \<Rightarrow> soar_db \<Rightarrow> soar_node_execution list" where
  "claim_queue now scope s =
    sort_key (\<lambda>n. (nx_available_at n, nx_created_at n, nx_id n)) (filter (claimable now scope s) (so_nodes s))"

definition ClaimSOARNode :: "string \<Rightarrow> tenant \<Rightarrow> duration \<Rightarrow> (soar_db, soar_work_item option) op" where
  "ClaimSOARNode worker_id tenant_scope lease =
    (let worker = trim_space worker_id; scope = trim_space tenant_scope
     in if worker = [] \<or> lease \<le> 0 then op_fail ErrInvalidExecution
        else transaction_try
         (op_bind op_now (\<lambda>now.
          op_bind (expireSOARApprovals now) (\<lambda>_.
          op_bind (sql_query (\<lambda>s. Inr (claim_queue now scope s))) (\<lambda>queue.
          case queue of
            [] \<Rightarrow> op_return None
          | c # _ \<Rightarrow>
              op_bind (update_nodes (is_node (nx_tenant c) (nx_id c))
                (\<lambda>n. n\<lparr>nx_status := ''RUNNING'', nx_attempt := nx_attempt n + 1, nx_lease_owner := worker,
                       nx_lease_until := Some (to_micro (now + lease)),
                       nx_started_at := (case nx_started_at n of None \<Rightarrow> Some (to_micro now) | Some u \<Rightarrow> Some u),
                       nx_updated_at := to_micro now\<rparr>)) (\<lambda>rows.
              op_bind (first_row (ErrStorage ''no rows'') rows) (\<lambda>node.
              op_bind (update_executions (is_execution (nx_tenant c) (nx_execution node))
                (\<lambda>e. e\<lparr>ex_status := ''RUNNING'', ex_version := ex_version e + 1,
                       ex_started_at := (case ex_started_at e of None \<Rightarrow> Some (to_micro now) | Some u \<Rightarrow> Some u),
                       ex_updated_at := to_micro now\<rparr>)) (\<lambda>_.
              op_bind (sql_query (\<lambda>s. Inr (filter (is_execution (nx_tenant c) (nx_execution node)) (so_executions s)))) (\<lambda>es.
              op_bind (first_row (ErrStorage ''no rows'') es) (\<lambda>e.
              op_return (Some \<lparr>wi_execution = e, wi_node = node\<rparr>)))))))))))"

subsection \<open>Settling a claimed node\<close>

text \<open>\<^verbatim>\<open>encodeSOARObject\<close>: what is stored is the object itself, if its encoding is at most 1 MiB long.\<close>

definition encodeSOARObject :: "config \<Rightarrow> config result" where
  "encodeSOARObject value = (if 1048576 < length (marshal (JObj value)) then Inl ErrInvalidExecution else Inr value)"

definition CompleteSOARNode :: "tenant \<Rightarrow> string \<Rightarrow> string \<Rightarrow> config \<Rightarrow> (soar_db, unit) op" where
  "CompleteSOARNode t i worker output =
    op_bind (op_lift (encodeSOARObject output)) (\<lambda>payload.
    transaction
     (op_bind op_now (\<lambda>now.
      op_bind (update_nodes (leased_node t i worker)
        (\<lambda>n. n\<lparr>nx_status := ''SUCCEEDED'', nx_output := payload, nx_error_code := [], nx_error_detail := [],
               nx_lease_owner := [], nx_lease_until := None, nx_completed_at := Some (to_micro now),
               nx_updated_at := to_micro now\<rparr>)) (\<lambda>rows.
      op_bind (first_row SoarErrInvalidState rows) (\<lambda>n.
      promoteAndReconcileSOAR t (nx_execution n) now)))))"

text \<open>\<^verbatim>\<open>UPDATE soar_executions SET status='RUNNING',version=version+1\<close> after a node went back to the queue.\<close>

definition resume_execution :: "tenant \<Rightarrow> string \<Rightarrow> time \<Rightarrow> (soar_db, unit) op" where
  "resume_execution t e now =
    op_bind (update_executions (is_execution t e)
      (\<lambda>r. r\<lparr>ex_status := ''RUNNING'', ex_version := ex_version r + 1, ex_updated_at := to_micro now\<rparr>))
    (\<lambda>_. op_return ())"

definition DeferSOARNode :: "tenant \<Rightarrow> string \<Rightarrow> string \<Rightarrow> time \<Rightarrow> config \<Rightarrow> (soar_db, unit) op" where
  "DeferSOARNode t i worker available output =
    op_bind (op_lift (encodeSOARObject output)) (\<lambda>payload.
    transaction
     (op_bind op_now (\<lambda>now.
      op_bind (update_nodes (leased_node t i worker)
        (\<lambda>n. n\<lparr>nx_status := ''READY'', nx_available_at := to_micro available, nx_output := payload,
               nx_lease_owner := [], nx_lease_until := None, nx_updated_at := to_micro now\<rparr>)) (\<lambda>rows.
      op_bind (first_row SoarErrInvalidState rows) (\<lambda>n.
      resume_execution t (nx_execution n) now)))))"

definition RetrySOARNode :: "tenant \<Rightarrow> string \<Rightarrow> string \<Rightarrow> time \<Rightarrow> string \<Rightarrow> string \<Rightarrow> (soar_db, unit) op" where
  "RetrySOARNode t i worker available code detail =
    transaction
     (op_bind op_now (\<lambda>now.
      op_bind (update_nodes (leased_node t i worker)
        (\<lambda>n. n\<lparr>nx_status := ''READY'', nx_available_at := to_micro available, nx_error_code := trim_space code,
               nx_error_detail := trim_space detail, nx_lease_owner := [], nx_lease_until := None,
               nx_updated_at := to_micro now\<rparr>)) (\<lambda>rows.
      op_bind (first_row SoarErrInvalidState rows) (\<lambda>n.
      resume_execution t (nx_execution n) now))))"

definition FailSOARNode :: "tenant \<Rightarrow> string \<Rightarrow> string \<Rightarrow> string \<Rightarrow> string \<Rightarrow> (soar_db, unit) op" where
  "FailSOARNode t i worker code detail =
    transaction
     (op_bind op_now (\<lambda>now.
      op_bind (update_nodes (leased_node t i worker)
        (\<lambda>n. n\<lparr>nx_status := ''FAILED'', nx_error_code := trim_space code, nx_error_detail := trim_space detail,
               nx_lease_owner := [], nx_lease_until := None, nx_completed_at := Some (to_micro now),
               nx_updated_at := to_micro now\<rparr>)) (\<lambda>rows.
      op_bind (first_row SoarErrInvalidState rows) (\<lambda>n.
      promoteAndReconcileSOAR t (nx_execution n) now))))"

subsection \<open>Waiting for people\<close>

definition is_approval :: "tenant \<Rightarrow> string \<Rightarrow> soar_approval \<Rightarrow> bool" where
  "is_approval t i a \<longleftrightarrow> av_tenant a = t \<and> av_id a = i"

definition decisions_of :: "tenant \<Rightarrow> string \<Rightarrow> soar_db \<Rightarrow> soar_decision list" where
  "decisions_of t i s = map dr_decision (filter (\<lambda>d. dr_tenant d = t \<and> dr_approval d = i) (so_decisions s))"

definition listSOARApprovalDecisions :: "tenant \<Rightarrow> string \<Rightarrow> (soar_db, soar_decision list) op" where
  "listSOARApprovalDecisions t i =
    sql_query (\<lambda>s. Inr (sort_key (\<lambda>d. (de_decided_at d, de_approver d)) (decisions_of t i s)))"

definition getSOARApproval :: "tenant \<Rightarrow> string \<Rightarrow> (soar_db, soar_approval) op" where
  "getSOARApproval t i =
    op_bind (sql_query (\<lambda>s. Inr (filter (is_approval t i) (so_approvals s)))) (\<lambda>rows.
    op_bind (first_row ErrNotFound rows) (\<lambda>a.
    op_bind (listSOARApprovalDecisions t i) (\<lambda>ds. op_return (a\<lparr>av_decisions := ds\<rparr>))))"

text \<open>\<^verbatim>\<open>INSERT INTO soar_approvals ... ON CONFLICT (tenant_id,node_execution_id) DO NOTHING\<close>\<close>

definition insert_approval :: "soar_approval \<Rightarrow> soar_db \<Rightarrow> soar_db result" where
  "insert_approval a s =
    (if av_risk_level a < 0 \<or> 6 < av_risk_level a \<or> av_required a < 1 \<or> 2 < av_required a then Inl check_violation
     else if \<exists>r \<in> set (so_approvals s). av_tenant r = av_tenant a \<and> av_node_execution r = av_node_execution a then Inr s
     else if \<exists>r \<in> set (so_approvals s). is_approval (av_tenant a) (av_id a) r then Inl duplicate_key
     else if \<not> (\<exists>e \<in> set (so_executions s). is_execution (av_tenant a) (av_execution a) e) \<or>
        \<not> (\<exists>n \<in> set (so_nodes s). is_node (av_tenant a) (av_node_execution a) n) then Inl foreign_key
     else Inr (s\<lparr>so_approvals := so_approvals s @ [a]\<rparr>))"

definition new_approval :: "soar_work_item \<Rightarrow> string \<Rightarrow> string \<Rightarrow> int \<Rightarrow> int \<Rightarrow> time \<Rightarrow> time \<Rightarrow> soar_approval" where
  "new_approval item i e risk required now expires =
    \<lparr>av_id = i, av_tenant = nx_tenant (wi_node item), av_execution = e, av_node_execution = nx_id (wi_node item),
     av_risk_level = risk, av_required = required, av_status = ''PENDING'', av_version = 1,
     av_requested_by = ex_triggered_by (wi_execution item), av_requested_at = to_micro now,
     av_expires_at = to_micro expires, av_decided_at = None, av_decisions = []\<rparr>"

definition wait_node :: "soar_work_item \<Rightarrow> string \<Rightarrow> time \<Rightarrow> (soar_db, unit) op" where
  "wait_node item status now =
    op_bind (update_nodes (leased_node (nx_tenant (wi_node item)) (nx_id (wi_node item)) (nx_lease_owner (wi_node item)))
      (\<lambda>n. n\<lparr>nx_status := status, nx_lease_owner := [], nx_lease_until := None, nx_updated_at := to_micro now\<rparr>)) (\<lambda>rows.
    if length rows \<noteq> 1 then op_fail SoarErrInvalidState else op_return ())"

definition RequestSOARApproval :: "soar_work_item \<Rightarrow> int \<Rightarrow> int \<Rightarrow> time \<Rightarrow> (soar_db, soar_approval) op" where
  "RequestSOARApproval item risk required expires =
    (let t = nx_tenant (wi_node item)
     in op_bind (transaction
      (op_bind (sql_query (\<lambda>s. Inr (filter (is_node t (nx_id (wi_node item))) (so_nodes s)))) (\<lambda>rows.
       op_bind (first_row ErrNotFound rows) (\<lambda>n.
       if nx_status n \<noteq> ''RUNNING'' \<or> nx_lease_owner n \<noteq> nx_lease_owner (wi_node item) \<or>
          nx_execution n \<noteq> ex_id (wi_execution item) then op_fail SoarErrInvalidState
       else op_bind op_now (\<lambda>now.
            op_bind (op_new_id ''sap'') (\<lambda>i.
            op_bind (sql_exec (insert_approval (new_approval item i (nx_execution n) risk required now expires))) (\<lambda>_.
            op_bind (sql_query (\<lambda>s. Inr (filter (\<lambda>a. av_tenant a = t \<and> av_node_execution a = nx_id (wi_node item)) (so_approvals s)))) (\<lambda>as.
            op_bind (first_row (ErrStorage ''no rows'') as) (\<lambda>a.
            op_bind (wait_node item ''WAITING_APPROVAL'' now) (\<lambda>_.
            op_bind (promoteAndReconcileSOAR t (nx_execution n) now) (\<lambda>_.
            op_return (av_id a))))))))))))
     (getSOARApproval t))"

definition RequestSOARManualTask :: "soar_work_item \<Rightarrow> (soar_db, unit) op" where
  "RequestSOARManualTask item =
    transaction
     (op_bind op_now (\<lambda>now.
      op_bind (wait_node item ''WAITING_MANUAL'' now) (\<lambda>_.
      promoteAndReconcileSOAR (nx_tenant (wi_node item)) (ex_id (wi_execution item)) now)))"

definition CompleteSOARManualTask :: "tenant \<Rightarrow> string \<Rightarrow> string \<Rightarrow> config \<Rightarrow> (soar_db, soar_execution) op" where
  "CompleteSOARManualTask t e node output =
    op_bind (op_lift (encodeSOARObject output)) (\<lambda>payload.
    op_bind (transaction
     (op_bind op_now (\<lambda>now.
      op_bind (update_nodes (\<lambda>n. nx_tenant n = t \<and> nx_execution n = e \<and> nx_node n = node \<and> nx_status n = ''WAITING_MANUAL'')
        (\<lambda>n. n\<lparr>nx_status := ''SUCCEEDED'', nx_output := payload, nx_completed_at := Some (to_micro now),
               nx_updated_at := to_micro now\<rparr>)) (\<lambda>rows.
      if length rows \<noteq> 1 then op_fail SoarErrInvalidState
      else promoteAndReconcileSOAR t e now))))
    (\<lambda>_. GetSOARExecution t e))"

subsection \<open>Actions\<close>

text \<open>
  \<^verbatim>\<open>INSERT ... ON CONFLICT (tenant_id,idempotency_key) DO NOTHING RETURNING\<close>: the row, or nothing
  when the key is taken.
\<close>

definition insert_attempt :: "soar_action_attempt \<Rightarrow> soar_db \<Rightarrow> soar_action_attempt option result \<times> soar_db" where
  "insert_attempt a s =
    (let row = a\<lparr>at_created_at := to_micro (at_created_at a), at_updated_at := to_micro (at_updated_at a)\<rparr>
     in if at_risk_level a < 0 \<or> 6 < at_risk_level a \<or> at_mode a \<notin> {''DRY_RUN'', ''LIVE''} \<or>
          at_status a \<notin> {''PLANNED'', ''RUNNING'', ''SUCCEEDED'', ''FAILED'', ''VERIFICATION_FAILED'', ''COMPENSATED''}
        then (Inl check_violation, s)
        else if \<exists>r \<in> set (so_attempts s). at_tenant r = at_tenant a \<and> at_idempotency_key r = at_idempotency_key a
        then (Inr None, s)
        else if \<exists>r \<in> set (so_attempts s). at_tenant r = at_tenant a \<and> at_id r = at_id a then (Inl duplicate_key, s)
        else if \<not> (\<exists>e \<in> set (so_executions s). is_execution (at_tenant a) (at_execution a) e) \<or>
           \<not> (\<exists>n \<in> set (so_nodes s). is_node (at_tenant a) (at_node_execution a) n) then (Inl foreign_key, s)
        else (Inr (Some row), s\<lparr>so_attempts := so_attempts s @ [row]\<rparr>))"

definition BeginSOARAction :: "soar_action_attempt \<Rightarrow> (soar_db, soar_action_attempt \<times> bool) op" where
  "BeginSOARAction a =
    op_bind (op_lift (encodeSOARObject (at_request a))) (\<lambda>request.
    op_bind (op_lift (encodeSOARObject (at_result a))) (\<lambda>res.
    op_bind (statement (insert_attempt (a\<lparr>at_request := request, at_result := res\<rparr>))) (\<lambda>inserted.
    case inserted of
      Some stored \<Rightarrow> op_return (stored, True)
    | None \<Rightarrow>
        op_bind (sql_query (\<lambda>s. Inr (filter (\<lambda>r. at_tenant r = at_tenant a \<and> at_idempotency_key r = at_idempotency_key a)
          (so_attempts s)))) (\<lambda>rows.
        op_bind (first_row (ErrStorage ''no rows'') rows) (\<lambda>stored. op_return (stored, False))))))"

definition FinishSOARAction ::
  "tenant \<Rightarrow> string \<Rightarrow> string \<Rightarrow> config \<Rightarrow> string \<Rightarrow> string \<Rightarrow> string \<Rightarrow> (soar_db, soar_action_attempt) op" where
  "FinishSOARAction t i status res error_class error_detail verification =
    op_bind (op_lift (encodeSOARObject res)) (\<lambda>payload.
    op_bind op_now (\<lambda>now.
    op_bind (update_attempts (\<lambda>a. at_tenant a = t \<and> at_id a = i)
      (\<lambda>a. a\<lparr>at_status := to_upper (trim_space status), at_result := payload, at_error_class := trim_space error_class,
             at_error_detail := trim_space error_detail, at_verification := trim_space verification,
             at_updated_at := to_micro now\<rparr>))
    (first_row ErrNotFound)))"

definition ListSOARActionAttempts :: "tenant \<Rightarrow> string \<Rightarrow> int \<Rightarrow> (soar_db, soar_action_attempt list) op" where
  "ListSOARActionAttempts t e limit =
    sql_query (\<lambda>s. Inr (take (nat (soar_limit limit)) (sort_key (\<lambda>a. (at_created_at a, at_id a))
      (filter (\<lambda>a. at_tenant a = t \<and> at_execution a = e) (so_attempts s)))))"

subsection \<open>Approval decisions\<close>

fun load_decisions :: "tenant \<Rightarrow> soar_approval list \<Rightarrow> (soar_db, soar_approval list) op" where
  "load_decisions t [] = op_return []"
| "load_decisions t (a # as) =
     op_bind (listSOARApprovalDecisions t (av_id a)) (\<lambda>ds.
     op_bind (load_decisions t as) (\<lambda>items. op_return (a\<lparr>av_decisions := ds\<rparr> # items)))"

definition ListSOARApprovals :: "tenant \<Rightarrow> soar_approval_filter \<Rightarrow> (soar_db, soar_approval list) op" where
  "ListSOARApprovals t f =
    op_bind (sql_query (\<lambda>s. Inr (take (nat (soar_limit (apf_limit f)))
      (sort_key (\<lambda>a. (- av_requested_at a, av_id a))
        (filter (\<lambda>a. av_tenant a = t \<and> (apf_status f = [] \<or> av_status a = apf_status f) \<and>
                     (apf_execution f = [] \<or> av_execution a = apf_execution f)) (so_approvals s))))))
    (load_decisions t)"

text \<open>\<^verbatim>\<open>INSERT INTO soar_approval_decisions ... ON CONFLICT DO NOTHING\<close>, answering whether a row was inserted.\<close>

definition insert_decision :: "tenant \<Rightarrow> string \<Rightarrow> soar_decision \<Rightarrow> soar_db \<Rightarrow> bool result \<times> soar_db" where
  "insert_decision t i d s =
    (if \<not> decision_valid (de_decision d) then (Inl check_violation, s)
     else if \<exists>r \<in> set (so_decisions s). dr_tenant r = t \<and> dr_approval r = i \<and> de_approver (dr_decision r) = de_approver d
     then (Inr False, s)
     else if \<not> (\<exists>a \<in> set (so_approvals s). is_approval t i a) then (Inl foreign_key, s)
     else (Inr True, s\<lparr>so_decisions := so_decisions s @ [\<lparr>dr_tenant = t, dr_approval = i, dr_decision = d\<rparr>]\<rparr>))"

definition approve_count :: "tenant \<Rightarrow> string \<Rightarrow> soar_db \<Rightarrow> int" where
  "approve_count t i s = int (length (filter (\<lambda>d. de_decision d = ''APPROVE'') (decisions_of t i s)))"

text \<open>The final status of the approval after the decision was recorded, empty while it stays pending.\<close>

definition final_status :: "soar_approval \<Rightarrow> soar_approval_command \<Rightarrow> (soar_db, string) op" where
  "final_status a cm =
    (if cm_decision cm = ''REJECT'' then op_return ''REJECTED''
     else op_bind (sql_query (\<lambda>s. Inr (approve_count (av_tenant a) (av_id a) s))) (\<lambda>approvals.
          op_return (if av_required a \<le> approvals then ''APPROVED'' else [])))"

definition settle_approval_node :: "soar_approval \<Rightarrow> string \<Rightarrow> string \<Rightarrow> time \<Rightarrow> soar_node_execution \<Rightarrow> soar_node_execution" where
  "settle_approval_node a final reason now n =
    (if final = ''REJECTED''
     then n\<lparr>nx_status := ''FAILED'', nx_error_code := ''approval_rejected'', nx_error_detail := reason,
            nx_completed_at := Some (to_micro now), nx_updated_at := to_micro now\<rparr>
     else n\<lparr>nx_status := ''SUCCEEDED'',
            nx_output := [(''approval_id'', JStr (av_id a)), (''approved'', JBool True), (''required_approvals'', JInt (av_required a))],
            nx_completed_at := Some (to_micro now), nx_updated_at := to_micro now\<rparr>)"

definition finalize_approval :: "tenant \<Rightarrow> soar_approval \<Rightarrow> soar_approval_command \<Rightarrow> string \<Rightarrow> time \<Rightarrow> (soar_db, unit) op" where
  "finalize_approval t a cm final now =
    op_bind (update_approvals (is_approval t (av_id a))
      (\<lambda>r. r\<lparr>av_status := final, av_decided_at := Some (to_micro now), av_version := av_version r + 1\<rparr>)) (\<lambda>_.
    op_bind (update_nodes (\<lambda>n. is_node t (av_node_execution a) n \<and> nx_status n = ''WAITING_APPROVAL'')
      (settle_approval_node a final (cm_reason cm) now)) (\<lambda>rows.
    if length rows \<noteq> 1 then op_fail SoarErrInvalidState
    else promoteAndReconcileSOAR t (av_execution a) now))"

definition decision_audit :: "tenant \<Rightarrow> string \<Rightarrow> soar_approval \<Rightarrow> soar_approval_command \<Rightarrow> string \<Rightarrow> time \<Rightarrow> audit_entry" where
  "decision_audit t approver a cm new_status now =
    (let actor_type = (if trim_space (cm_actor_type cm) = [] then ''USER'' else trim_space (cm_actor_type cm));
         correlation = (if trim_space (cm_correlation_id cm) = [] then trim_space (cm_request_id cm)
                        else trim_space (cm_correlation_id cm))
     in \<lparr>au_id = [], au_tenant = t, au_actor = approver, au_action = ''soar.approval.'' @ to_lower (cm_decision cm),
         au_resource_type = ''soar_approval'', au_resource_id = av_id a, au_outcome = ''SUCCESS'',
         au_request_id = cm_request_id cm,
         au_metadata = JObj
           [(''actor_id'', JStr approver), (''actor_type'', JStr actor_type), (''tenant_id'', JStr t),
            (''approval_request_id'', JStr (av_id a)), (''playbook_run_id'', JStr (av_execution a)),
            (''action_id'', JStr (av_node_execution a)), (''decision'', JStr (cm_decision cm)),
            (''previous_status'', JStr (av_status a)), (''new_status'', JStr new_status), (''reason'', JStr (cm_reason cm)),
            (''timestamp'', JStr (rfc3339nano now)), (''correlation_id'', JStr correlation),
            (''request_id'', JStr (cm_request_id cm)), (''optimistic_version'', JInt (av_version a + 1)),
            (''source'', JObj (cm_source cm))],
         au_previous_hash = [], au_hash = [], au_created_at = 0\<rparr>)"

text \<open>A decision that comes too late expires the approval, and that is committed before the error is returned.\<close>

definition expire_late :: "tenant \<Rightarrow> soar_approval \<Rightarrow> time \<Rightarrow> (soar_db, unit) op" where
  "expire_late t a now =
    op_bind (update_approvals (is_approval t (av_id a))
      (\<lambda>r. r\<lparr>av_status := ''EXPIRED'', av_decided_at := Some (to_micro now), av_version := av_version r + 1\<rparr>)) (\<lambda>_.
    op_bind (sql_exec (\<lambda>s. Inr (expire_node t (av_node_execution a) now s))) (\<lambda>_.
    promoteAndReconcileSOAR t (av_execution a) now))"

definition record_decision ::
  "tenant \<Rightarrow> soar_approval \<Rightarrow> string \<Rightarrow> soar_approval_command \<Rightarrow> time \<Rightarrow> (soar_db, unit) op" where
  "record_decision t a approver cm now =
    op_bind (statement (insert_decision t (av_id a)
      \<lparr>de_approver = approver, de_decision = cm_decision cm, de_reason = cm_reason cm, de_decided_at = to_micro now\<rparr>)) (\<lambda>inserted.
    if \<not> inserted then op_fail ErrAlreadyExists
    else op_bind (final_status a cm) (\<lambda>final.
         op_bind (if final \<noteq> [] then finalize_approval t a cm final now
                  else op_bind (update_approvals (is_approval t (av_id a)) (\<lambda>r. r\<lparr>av_version := av_version r + 1\<rparr>))
                         (\<lambda>_. op_return ())) (\<lambda>_.
         op_bind (on_pg (appendAuditTx (decision_audit t approver a cm (if final \<noteq> [] then final else ''PENDING'') now))) (\<lambda>_.
         op_return ()))))"

definition DecideSOARApproval :: "tenant \<Rightarrow> string \<Rightarrow> string \<Rightarrow> soar_approval_command \<Rightarrow> (soar_db, soar_approval) op" where
  "DecideSOARApproval t i approver cm =
    op_bind (transaction
     (op_bind (sql_query (\<lambda>s. Inr (filter (is_approval t i) (so_approvals s)))) (\<lambda>rows.
      op_bind (first_row ErrNotFound rows) (\<lambda>a.
      op_bind op_now (\<lambda>now.
      if av_version a \<noteq> cm_version cm then op_fail ErrApprovalVersionConflict
      else if av_status a \<noteq> ''PENDING'' then op_fail SoarErrInvalidState
      else if \<not> now < av_expires_at a then op_bind (expire_late t a now) (\<lambda>_. op_return False)
      else if av_requested_by a = approver then op_fail SoarErrInvalidState
      else op_bind (record_decision t a approver cm now) (\<lambda>_. op_return True))))))
    (\<lambda>decided. if decided then getSOARApproval t i else op_fail SoarErrInvalidState)"

end
