(* ===== verification/Op_Triples.thy ===== *)
theory Op_Triples
  imports Sql
begin

text \<open>
  Pre- and postconditions of operations: \<open>triple P f Q\<close> says that a run of \<open>f\<close> that succeeds on a
  database satisfying \<open>P\<close> ends in one satisfying \<open>Q\<close> of its result. Failed transactions have changed
  nothing, so an atomic operation keeps an invariant as soon as its successful runs do.
\<close>

named_theorems triple_intros \<open>rules of the triples, one per construct\<close>

definition triple :: "('s \<Rightarrow> bool) \<Rightarrow> ('s, 'a) op \<Rightarrow> ('a \<Rightarrow> 's \<Rightarrow> bool) \<Rightarrow> bool" where
  "triple P f Q \<longleftrightarrow> (\<forall>s w x s' w'. P s \<longrightarrow> f (s, w) = (Inr x, (s', w')) \<longrightarrow> Q x s')"

lemma tripleI: "(\<And>s w x s' w'. P s \<Longrightarrow> f (s, w) = (Inr x, (s', w')) \<Longrightarrow> Q x s') \<Longrightarrow> triple P f Q"
  by (simp add: triple_def)

lemma tripleD: "triple P f Q \<Longrightarrow> P s \<Longrightarrow> f (s, w) = (Inr x, (s', w')) \<Longrightarrow> Q x s'"
  unfolding triple_def by blast

lemma triple_conseq:
  "triple P f Q \<Longrightarrow> (\<And>s. P' s \<Longrightarrow> P s) \<Longrightarrow> (\<And>x s. Q x s \<Longrightarrow> Q' x s) \<Longrightarrow> triple P' f Q'"
  unfolding triple_def by blast

lemma triple_pre: "triple P f Q \<Longrightarrow> (\<And>s. P' s \<Longrightarrow> P s) \<Longrightarrow> triple P' f Q"
  unfolding triple_def by blast

lemma triple_post: "triple P f Q \<Longrightarrow> (\<And>x s. Q x s \<Longrightarrow> Q' x s) \<Longrightarrow> triple P f Q'"
  unfolding triple_def by blast

lemma triple_false: "triple (\<lambda>_. False) f Q"
  by (simp add: triple_def)

lemma triple_pure: "(b \<Longrightarrow> triple P f Q) \<Longrightarrow> triple (\<lambda>s. b \<and> P s) f Q"
  unfolding triple_def by blast

lemma triple_bind [triple_intros]:
  assumes "triple P f Q" "\<And>x. triple (Q x) (g x) R"
  shows "triple P (op_bind f g) R"
proof (rule tripleI)
  fix s w x s' w'
  assume "P s" "op_bind f g (s, w) = (Inr x, (s', w'))"
  moreover from this(2) obtain y s1 w1 where "f (s, w) = (Inr y, (s1, w1))" "g y (s1, w1) = (Inr x, (s', w'))"
    by (rule op_bind_InrE)
  ultimately show "R x s'" using assms by (blast dest: tripleD)
qed

lemma triple_return: "(\<And>s. P s \<Longrightarrow> Q x s) \<Longrightarrow> triple P (op_return x) Q"
  by (simp add: triple_def return_Inr)

lemma triple_fail [triple_intros]: "triple P (op_fail e) Q"
  by (simp add: triple_def)

lemma triple_lift: "(\<And>x s. r = Inr x \<Longrightarrow> P s \<Longrightarrow> Q x s) \<Longrightarrow> triple P (op_lift r) Q"
  by (auto simp: triple_def op_lift_def)

lemma triple_query: "(\<And>s x. P s \<Longrightarrow> f s = Inr x \<Longrightarrow> Q x s) \<Longrightarrow> triple P (sql_query f) Q"
  by (auto simp: triple_def dest!: sql_query_run)

lemma triple_exec: "(\<And>s s'. P s \<Longrightarrow> f s = Inr s' \<Longrightarrow> Q () s') \<Longrightarrow> triple P (sql_exec f) Q"
  by (auto simp: triple_def dest!: sql_exec_Inr)

lemma statement_run: "statement f (s, w) = (Inr x, (s', w')) \<Longrightarrow> f s = (Inr x, s')"
  by (auto simp: statement_def Let_def split: prod.splits if_splits)

lemma triple_statement: "(\<And>s x s'. P s \<Longrightarrow> f s = (Inr x, s') \<Longrightarrow> Q x s') \<Longrightarrow> triple P (statement f) Q"
  by (auto simp: triple_def dest!: statement_run)

lemma triple_now: "(\<And>t s. P s \<Longrightarrow> Q t s) \<Longrightarrow> triple P op_now Q"
  by (auto simp: triple_def op_now_def split: prod.splits)

lemma triple_new_id: "(\<And>i s. P s \<Longrightarrow> Q i s) \<Longrightarrow> triple P (op_new_id p) Q"
  by (auto simp: triple_def op_new_id_def split: prod.splits)

text \<open>Reading the clock and drawing an identifier leave what is known of the database.\<close>

lemma triple_bind_now: "(\<And>t. triple P (g t) Q) \<Longrightarrow> triple P (op_bind op_now g) Q"
  by (rule triple_bind [OF triple_now [where Q = "\<lambda>_. P"]])

lemma triple_bind_new_id: "(\<And>i. triple P (g i) Q) \<Longrightarrow> triple P (op_bind (op_new_id p) g) Q"
  by (rule triple_bind [OF triple_new_id [where Q = "\<lambda>_. P"]])

lemma triple_transaction [triple_intros]: "triple P body Q \<Longrightarrow> triple P (transaction body) Q"
  by (rule tripleI) (auto elim!: transaction_Inr dest: tripleD)

lemma triple_if [triple_intros]:
  "(b \<Longrightarrow> triple P f Q) \<Longrightarrow> (\<not> b \<Longrightarrow> triple P g Q) \<Longrightarrow> triple P (if b then f else g) Q"
  by simp

lemma triple_transaction_try:
  assumes "triple P body (\<lambda>x s. case x of None \<Rightarrow> True | Some y \<Rightarrow> Q (Some y) s)" "\<And>s. P s \<Longrightarrow> Q None s"
  shows "triple P (transaction_try body) Q"
proof (rule tripleI)
  fix s w x s' w'
  assume P: "P s" and run: "transaction_try body (s, w) = (Inr x, (s', w'))"
  from transaction_try_Inr [OF run] obtain w1 s1 w2 where
    "body (s, w1) = (Inr x, (s1, w2))" "s' = (case x of None \<Rightarrow> s | Some _ \<Rightarrow> s1)" by blast
  with assms P show "Q x s'" by (cases x) (auto dest: tripleD)
qed

text \<open>An operation that only reads keeps what was known.\<close>

lemma triple_read_only: "read_only f \<Longrightarrow> triple P f (\<lambda>_. P)"
  unfolding read_only_def triple_def by (metis op_relD)

subsection \<open>Keeping an invariant\<close>

lemma keeps_atomic:
  assumes "atomic f" "triple P f (\<lambda>_. P)"
  shows "op_rel (keeps P) f"
  by (rule keeps_rel.rel_atomic [OF assms(1)]) (auto simp: keeps_def dest: tripleD [OF assms(2)])

lemma keeps_read_only: "read_only f \<Longrightarrow> op_rel (keeps P) f"
  unfolding read_only_def op_rel_def keeps_def by blast

end
