(* ===== verification/Soar_Invariants.thy ===== *)
theory Soar_Invariants
  imports Soar_Runtime Op_Triples
begin

text \<open>
  What holds of the tables of automated response at every moment, and that each kind of statement
  keeps it: the nodes of an execution are the nodes of a version that obeys the playbook rules, a node
  leaves the pending state only when its dependencies are met, and an approval node succeeds only
  through an approval with enough decisions by people other than the one who started the execution.
\<close>

subsection \<open>Nodes\<close>

text \<open>What no statement ever changes in a row.\<close>

definition node_shape :: "soar_node_execution \<Rightarrow> string \<times> string \<times> string \<times> string \<times> string \<times> string list \<times> config" where
  "node_shape n = (nx_tenant n, nx_id n, nx_execution n, nx_node n, nx_type n, nx_depends_on n, nx_config n)"

definition node_key :: "soar_node_execution \<Rightarrow> tenant \<times> string" where
  "node_key n = (nx_tenant n, nx_id n)"

definition started :: "soar_node_execution \<Rightarrow> bool" where
  "started n \<longleftrightarrow> nx_status n \<notin> {''PENDING'', ''CANCELLED''}"

text \<open>Every dependency has a row that succeeded: what remains of \<open>dependencies_met\<close> ever after.\<close>

definition deps_done :: "soar_node_execution list \<Rightarrow> soar_node_execution \<Rightarrow> bool" where
  "deps_done ns n \<longleftrightarrow>
     (\<forall>d \<in> set (nx_depends_on n). \<exists>p \<in> set ns. nx_tenant p = nx_tenant n \<and> nx_execution p = nx_execution n \<and>
        nx_node p = d \<and> nx_status p = ''SUCCEEDED'')"

text \<open>The statuses a node can have, and what a cancelled node has seen: a failure in its execution.\<close>

definition node_statuses :: "string set" where
  "node_statuses = active_statuses \<union> {''SUCCEEDED'', ''FAILED'', ''CANCELLED''}"

definition failed_in :: "soar_node_execution list \<Rightarrow> soar_node_execution \<Rightarrow> bool" where
  "failed_in ns n \<longleftrightarrow>
     (\<exists>f \<in> set ns. nx_tenant f = nx_tenant n \<and> nx_execution f = nx_execution n \<and> nx_status f = ''FAILED'')"

definition nodes_inv :: "soar_node_execution list \<Rightarrow> bool" where
  "nodes_inv ns \<longleftrightarrow>
     distinct (map node_key ns) \<and>
     (\<forall>n \<in> set ns. nx_status n \<in> node_statuses \<and> (nx_status n = ''CANCELLED'' \<longrightarrow> failed_in ns n) \<and>
        (started n \<longrightarrow> deps_done ns n) \<and>
        (nx_status n = ''WAITING_MANUAL'' \<longrightarrow> nx_type n = ''MANUAL_TASK''))"

text \<open>The changes of status that the statements make.\<close>

definition held_statuses :: "string set" where
  "held_statuses = {''READY'', ''RUNNING'', ''WAITING_APPROVAL'', ''WAITING_MANUAL''}"

definition moves :: "soar_node_execution list \<Rightarrow> soar_node_execution \<Rightarrow> string \<Rightarrow> bool" where
  "moves ns n status \<longleftrightarrow>
     (nx_status n = ''PENDING'' \<and> status = ''READY'' \<and> dependencies_met ns n) \<or>
     (nx_status n \<in> held_statuses \<and> status \<in> held_statuses \<union> {''SUCCEEDED'', ''FAILED''} \<and>
        (status = ''WAITING_MANUAL'' \<longrightarrow> nx_type n = ''MANUAL_TASK'')) \<or>
     (nx_status n \<in> active_statuses \<and> status = ''CANCELLED'' \<and> failed_in ns n)"

definition node_moved :: "soar_node_execution list \<Rightarrow> soar_node_execution \<Rightarrow> soar_node_execution \<Rightarrow> bool" where
  "node_moved ns n n' \<longleftrightarrow> node_shape n' = node_shape n \<and> (n' = n \<or> moves ns n (nx_status n'))"

lemma node_shapeD:
  "node_shape n' = node_shape n \<Longrightarrow>
     nx_tenant n' = nx_tenant n \<and> nx_id n' = nx_id n \<and> nx_execution n' = nx_execution n \<and> nx_node n' = nx_node n \<and>
     nx_type n' = nx_type n \<and> nx_depends_on n' = nx_depends_on n \<and> nx_config n' = nx_config n"
  by (simp add: node_shape_def)

lemma settled_stays: "node_moved ns n n' \<Longrightarrow> nx_status n \<in> {''SUCCEEDED'', ''FAILED''} \<Longrightarrow> n' = n"
  by (auto simp: node_moved_def moves_def held_statuses_def active_statuses_def)

lemma status_known: "node_moved ns n n' \<Longrightarrow> nx_status n \<in> node_statuses \<Longrightarrow> nx_status n' \<in> node_statuses"
  by (auto simp: node_moved_def moves_def held_statuses_def active_statuses_def node_statuses_def)

lemma deps_done_cong:
  "nx_tenant n' = nx_tenant n \<Longrightarrow> nx_execution n' = nx_execution n \<Longrightarrow> nx_depends_on n' = nx_depends_on n \<Longrightarrow>
   deps_done ns n' = deps_done ns n"
  by (simp add: deps_done_def)

lemma deps_done_append: "deps_done ns n \<Longrightarrow> deps_done (ns @ rows) n"
  by (fastforce simp: deps_done_def)

lemma dependencies_met_done:
  "dependencies_met ns n \<Longrightarrow> nodes_inv ns \<Longrightarrow> deps_done ns n"
  by (fastforce simp: dependencies_met_def dependency_met_def deps_done_def nodes_inv_def node_statuses_def active_statuses_def)

text \<open>What has succeeded does not change any more.\<close>

lemma deps_done_moved:
  assumes "\<And>p. p \<in> set ns \<Longrightarrow> node_moved ns p (h p)" "deps_done ns n"
  shows "deps_done (map h ns) n"
  unfolding deps_done_def
proof
  fix d assume "d \<in> set (nx_depends_on n)"
  with assms(2) obtain p where p: "p \<in> set ns" "nx_tenant p = nx_tenant n" "nx_execution p = nx_execution n" "nx_node p = d"
    "nx_status p = ''SUCCEEDED''" by (auto simp: deps_done_def)
  with settled_stays [OF assms(1)] have "h p = p" by simp
  with p show "\<exists>p \<in> set (map h ns). nx_tenant p = nx_tenant n \<and> nx_execution p = nx_execution n \<and>
      nx_node p = d \<and> nx_status p = ''SUCCEEDED''" by force
qed

lemma failed_in_moved:
  assumes "\<And>p. p \<in> set ns \<Longrightarrow> node_moved ns p (h p)" "failed_in ns n" "nx_tenant n' = nx_tenant n" "nx_execution n' = nx_execution n"
  shows "failed_in (map h ns) n'"
proof -
  from assms(2) obtain f where f: "f \<in> set ns" "nx_tenant f = nx_tenant n" "nx_execution f = nx_execution n"
    "nx_status f = ''FAILED''" by (auto simp: failed_in_def)
  with settled_stays [OF assms(1)] have "h f = f" by simp
  with f assms(3,4) show ?thesis unfolding failed_in_def by force
qed

lemma nodes_inv_moved:
  assumes inv: "nodes_inv ns" and m: "\<And>p. p \<in> set ns \<Longrightarrow> node_moved ns p (h p)"
  shows "nodes_inv (map h ns)"
proof -
  have "map node_key (map h ns) = map node_key ns"
    using m by (auto simp: node_key_def node_moved_def dest: node_shapeD)
  with inv have key: "distinct (map node_key (map h ns))" by (simp only: nodes_inv_def)
  have st: "started (h p) \<longrightarrow> deps_done ns p" "nx_status (h p) = ''WAITING_MANUAL'' \<longrightarrow> nx_type (h p) = ''MANUAL_TASK''"
    if "p \<in> set ns" for p
    using that m [OF that] inv node_shapeD [of "h p" p] dependencies_met_done [OF _ inv, of p]
    by (auto simp: node_moved_def moves_def nodes_inv_def started_def held_statuses_def)
  have shape: "nx_tenant (h p) = nx_tenant p \<and> nx_execution (h p) = nx_execution p \<and> nx_depends_on (h p) = nx_depends_on p"
    if "p \<in> set ns" for p
    using m [OF that] by (auto simp: node_moved_def dest: node_shapeD)
  have cancelled: "failed_in (map h ns) (h p)" if p: "p \<in> set ns" "nx_status (h p) = ''CANCELLED''" for p
  proof (rule failed_in_moved [OF m])
    show "failed_in ns p"
    proof (cases "h p = p")
      case True
      with inv p show ?thesis by (simp add: nodes_inv_def)
    next
      case False
      with m [OF p(1)] p(2) show ?thesis by (auto simp: node_moved_def moves_def held_statuses_def)
    qed
  qed (use shape [OF p(1)] in simp_all)
  have known: "nx_status (h p) \<in> node_statuses" if "p \<in> set ns" for p
    by (rule status_known [OF m [OF that]]) (use inv that in \<open>simp add: nodes_inv_def\<close>)
  have "deps_done (map h ns) (h p)" if "p \<in> set ns" "started (h p)" for p
    using deps_done_cong [of "h p" p "map h ns"] shape [OF that(1)] deps_done_moved [OF m, of p] st(1) [OF that(1)] that(2)
    by simp
  with key st(2) cancelled known show ?thesis
    unfolding nodes_inv_def by simp
qed

subsection \<open>All tables\<close>

definition row_shape :: "soar_node_execution \<Rightarrow> string \<times> string \<times> string list \<times> config" where
  "row_shape n = (nx_node n, nx_type n, nx_depends_on n, nx_config n)"

definition spec_shape :: "soar_node \<Rightarrow> string \<times> string \<times> string list \<times> config" where
  "spec_shape n = (sn_id n, sn_type n, sn_depends_on n, sn_config n)"

definition versions_inv :: "action_catalog \<Rightarrow> soar_version list \<Rightarrow> bool" where
  "versions_inv actions vs \<longleftrightarrow>
     distinct (map (\<lambda>v. (pv_tenant v, pv_playbook v, pv_version v)) vs) \<and>
     (\<forall>v \<in> set vs. pv_state v \<in> {''VALIDATED'', ''PUBLISHED'', ''RETIRED''} \<longrightarrow> playbook_rules actions (pv_spec v))"

definition in_execution :: "soar_execution \<Rightarrow> soar_node_execution \<Rightarrow> bool" where
  "in_execution e n \<longleftrightarrow> nx_tenant n = ex_tenant e \<and> nx_execution n = ex_id e"

definition snapshot_of :: "action_catalog \<Rightarrow> soar_node_execution list \<Rightarrow> soar_execution \<Rightarrow> bool" where
  "snapshot_of actions ns e \<longleftrightarrow>
     (\<exists>spec. playbook_rules actions spec \<and>
        map row_shape (filter (in_execution e) ns) = map spec_shape (sp_nodes spec))"

definition executions_inv :: "action_catalog \<Rightarrow> soar_execution list \<Rightarrow> soar_node_execution list \<Rightarrow> bool" where
  "executions_inv actions es ns \<longleftrightarrow>
     distinct (map (\<lambda>e. (ex_tenant e, ex_id e)) es) \<and>
     (\<forall>n \<in> set ns. \<exists>e \<in> set es. in_execution e n) \<and> (\<forall>e \<in> set es. snapshot_of actions ns e)"

definition asks_node :: "soar_approval \<Rightarrow> soar_node_execution \<Rightarrow> bool" where
  "asks_node a n \<longleftrightarrow>
     nx_tenant n = av_tenant a \<and> nx_id n = av_node_execution a \<and> nx_execution n = av_execution a \<and>
     nx_type n = ''HUMAN_APPROVAL'' \<and> configInt (nx_config n) ''required_approvals'' = (av_required a, True)"

definition asked_by :: "soar_approval \<Rightarrow> soar_execution \<Rightarrow> bool" where
  "asked_by a e \<longleftrightarrow> ex_tenant e = av_tenant a \<and> ex_id e = av_execution a \<and> ex_triggered_by e = av_requested_by a"

definition approvals_inv :: "soar_execution list \<Rightarrow> soar_node_execution list \<Rightarrow> soar_approval list \<Rightarrow> bool" where
  "approvals_inv es ns as \<longleftrightarrow>
     distinct (map (\<lambda>a. (av_tenant a, av_id a)) as) \<and>
     (\<forall>a \<in> set as. (\<exists>n \<in> set ns. asks_node a n) \<and> (\<exists>e \<in> set es. asked_by a e))"

definition approvers_of :: "soar_decision_row list \<Rightarrow> soar_approval \<Rightarrow> string list" where
  "approvers_of ds a =
    map (\<lambda>d. de_approver (dr_decision d))
      (filter (\<lambda>d. dr_tenant d = av_tenant a \<and> dr_approval d = av_id a \<and> de_decision (dr_decision d) = ''APPROVE'') ds)"

definition decisions_inv :: "soar_approval list \<Rightarrow> soar_decision_row list \<Rightarrow> bool" where
  "decisions_inv as ds \<longleftrightarrow>
     distinct (map (\<lambda>d. (dr_tenant d, dr_approval d, de_approver (dr_decision d))) ds) \<and>
     (\<forall>d \<in> set ds. \<exists>a \<in> set as. is_approval (dr_tenant d) (dr_approval d) a \<and> de_approver (dr_decision d) \<noteq> av_requested_by a) \<and>
     (\<forall>a \<in> set as. av_status a = ''APPROVED'' \<longrightarrow> av_required a \<le> int (length (approvers_of ds a)))"

definition approved :: "soar_approval list \<Rightarrow> soar_node_execution \<Rightarrow> bool" where
  "approved as n \<longleftrightarrow>
     (\<exists>a \<in> set as. av_tenant a = nx_tenant n \<and> av_node_execution a = nx_id n \<and> av_status a = ''APPROVED'')"

definition quorum_inv :: "soar_node_execution list \<Rightarrow> soar_approval list \<Rightarrow> bool" where
  "quorum_inv ns as \<longleftrightarrow>
     (\<forall>n \<in> set ns. nx_type n = ''HUMAN_APPROVAL'' \<and> nx_status n = ''SUCCEEDED'' \<longrightarrow> approved as n)"

definition attempt_of :: "action_catalog \<Rightarrow> soar_node_execution list \<Rightarrow> soar_action_attempt \<Rightarrow> soar_node_execution \<Rightarrow> bool" where
  "attempt_of actions ns x n \<longleftrightarrow>
     is_node (at_tenant x) (at_node_execution x) n \<and> nx_execution n = at_execution x \<and> nx_type n = ''ACTION'' \<and>
     deps_done ns n \<and> fst (configString (nx_config n) ''action_type'') = at_action_type x \<and>
     map_option ac_level (actions (at_action_type x)) = Some (at_risk_level x)"

definition attempts_inv :: "action_catalog \<Rightarrow> soar_node_execution list \<Rightarrow> soar_action_attempt list \<Rightarrow> bool" where
  "attempts_inv actions ns ats \<longleftrightarrow> (\<forall>x \<in> set ats. \<exists>n \<in> set ns. attempt_of actions ns x n)"

definition soar_inv :: "action_catalog \<Rightarrow> soar_db \<Rightarrow> bool" where
  "soar_inv actions s \<longleftrightarrow>
     versions_inv actions (so_versions s) \<and> nodes_inv (so_nodes s) \<and>
     executions_inv actions (so_executions s) (so_nodes s) \<and>
     approvals_inv (so_executions s) (so_nodes s) (so_approvals s) \<and>
     decisions_inv (so_approvals s) (so_decisions s) \<and> quorum_inv (so_nodes s) (so_approvals s) \<and>
     attempts_inv actions (so_nodes s) (so_attempts s)"

lemma soar_invD:
  assumes "soar_inv actions s"
  shows "versions_inv actions (so_versions s)" "nodes_inv (so_nodes s)"
    "executions_inv actions (so_executions s) (so_nodes s)"
    "approvals_inv (so_executions s) (so_nodes s) (so_approvals s)"
    "decisions_inv (so_approvals s) (so_decisions s)" "quorum_inv (so_nodes s) (so_approvals s)"
    "attempts_inv actions (so_nodes s) (so_attempts s)"
  using assms by (simp_all add: soar_inv_def)

lemma empty_soar_inv: "soar_inv actions (empty_soar p)"
  by (simp add: soar_inv_def empty_soar_def versions_inv_def nodes_inv_def executions_inv_def approvals_inv_def
      decisions_inv_def quorum_inv_def attempts_inv_def)

subsection \<open>Each kind of statement\<close>

lemma update_rows_map: "update_rows P f rows = map (\<lambda>r. if P r then f r else r) rows"
  by (simp add: update_rows_def)

text \<open>Nodes move.\<close>

lemma filter_map_shape:
  assumes "\<And>n. n \<in> set ns \<Longrightarrow> node_shape (h n) = node_shape n"
  shows "map row_shape (filter (in_execution e) (map h ns)) = map row_shape (filter (in_execution e) ns)"
  using assms
proof (induction ns)
  case (Cons n ns)
  then have "in_execution e (h n) = in_execution e n" "row_shape (h n) = row_shape n"
    using node_shapeD [of "h n" n] by (simp_all add: in_execution_def row_shape_def)
  with Cons show ?case by simp
qed simp

lemma moved_inv:
  assumes inv: "soar_inv actions s"
    and m: "\<And>n. n \<in> set (so_nodes s) \<Longrightarrow> node_moved (so_nodes s) n (h n)"
    and q: "\<And>n. n \<in> set (so_nodes s) \<Longrightarrow> nx_type n = ''HUMAN_APPROVAL'' \<Longrightarrow> nx_status (h n) = ''SUCCEEDED'' \<Longrightarrow>
              nx_status n \<noteq> ''SUCCEEDED'' \<Longrightarrow> approved (so_approvals s) n"
  shows "soar_inv actions (s\<lparr>so_nodes := map h (so_nodes s)\<rparr>)"
proof -
  let ?ns = "so_nodes s"
  have sh: "node_shape (h n) = node_shape n" if "n \<in> set ?ns" for n
    using m [OF that] by (simp add: node_moved_def)
  have field: "nx_tenant (h n) = nx_tenant n" "nx_id (h n) = nx_id n" "nx_execution (h n) = nx_execution n"
    "nx_type (h n) = nx_type n" "nx_config (h n) = nx_config n" if "n \<in> set ?ns" for n
    using node_shapeD [OF sh [OF that]] by simp_all
  have nodes: "nodes_inv (map h ?ns)" using nodes_inv_moved [OF soar_invD(2) [OF inv] m] by simp
  have "executions_inv actions (so_executions s) (map h ?ns)"
    using soar_invD(3) [OF inv] filter_map_shape [of ?ns h, OF sh] field
    by (auto simp: executions_inv_def snapshot_of_def in_execution_def)
  moreover have "approvals_inv (so_executions s) (map h ?ns) (so_approvals s)"
  proof -
    have "\<exists>n \<in> set (map h ?ns). asks_node a n" if "\<exists>n \<in> set ?ns. asks_node a n" for a
      using that field by (fastforce simp: asks_node_def)
    with soar_invD(4) [OF inv] show ?thesis by (auto simp: approvals_inv_def)
  qed
  moreover have "quorum_inv (map h ?ns) (so_approvals s)"
    unfolding quorum_inv_def
  proof (intro ballI impI)
    fix k assume "k \<in> set (map h ?ns)" and k: "nx_type k = ''HUMAN_APPROVAL'' \<and> nx_status k = ''SUCCEEDED''"
    then obtain n where n: "n \<in> set ?ns" "k = h n" by auto
    have "approved (so_approvals s) n"
      using soar_invD(6) [OF inv] q n k field [OF n(1)] by (auto simp: quorum_inv_def)
    with field [OF n(1)] n show "approved (so_approvals s) k" by (simp add: approved_def)
  qed
  moreover have "attempts_inv actions (map h ?ns) (so_attempts s)"
    unfolding attempts_inv_def
  proof
    fix x assume "x \<in> set (so_attempts s)"
    with soar_invD(7) [OF inv] obtain n where n: "n \<in> set ?ns" "attempt_of actions ?ns x n"
      by (auto simp: attempts_inv_def)
    have "deps_done (map h ?ns) (h n)"
      using deps_done_moved [OF m] n deps_done_cong [of "h n" n "map h ?ns"]
        node_shapeD [OF sh [OF n(1)]]
      by (auto simp: attempt_of_def)
    with n field [OF n(1)] have "attempt_of actions (map h ?ns) x (h n)"
      by (simp add: attempt_of_def is_node_def)
    with n(1) show "\<exists>n \<in> set (map h ?ns). attempt_of actions (map h ?ns) x n" by auto
  qed
  ultimately show ?thesis using inv nodes by (simp add: soar_inv_def)
qed

text \<open>The form for an \<^verbatim>\<open>UPDATE\<close>: only the selected rows move.\<close>

definition node_update_ok ::
  "soar_db \<Rightarrow> (soar_node_execution \<Rightarrow> bool) \<Rightarrow> (soar_node_execution \<Rightarrow> soar_node_execution) \<Rightarrow> bool" where
  "node_update_ok s P f \<longleftrightarrow>
     (\<forall>n \<in> set (so_nodes s). P n \<longrightarrow> node_shape (f n) = node_shape n \<and> moves (so_nodes s) n (nx_status (f n)) \<and>
        (nx_type n = ''HUMAN_APPROVAL'' \<longrightarrow> nx_status (f n) = ''SUCCEEDED'' \<longrightarrow> approved (so_approvals s) n))"

lemma update_nodes_inv:
  assumes "soar_inv actions s" "node_update_ok s P f"
  shows "soar_inv actions (s\<lparr>so_nodes := update_rows P f (so_nodes s)\<rparr>)"
  unfolding update_rows_map
  by (rule moved_inv [OF assms(1)]) (use assms(2) in \<open>auto simp: node_update_ok_def node_moved_def split: if_splits\<close>)

text \<open>Executions change their status, version and times only.\<close>

definition same_execution :: "soar_execution \<Rightarrow> soar_execution \<Rightarrow> bool" where
  "same_execution e e' \<longleftrightarrow> ex_tenant e' = ex_tenant e \<and> ex_id e' = ex_id e \<and> ex_triggered_by e' = ex_triggered_by e"

lemma update_executions_inv:
  assumes "soar_inv actions s" "\<And>e. same_execution e (f e)"
  shows "soar_inv actions (s\<lparr>so_executions := update_rows P f (so_executions s)\<rparr>)"
proof -
  define h where "h e = (if P e then f e else e)" for e
  have h: "same_execution e (h e)" for e
    using assms(2) by (simp add: h_def same_execution_def)
  have in_h: "in_execution (h e) = in_execution e" for e
    using h [of e] by (simp add: same_execution_def in_execution_def fun_eq_iff)
  have in_h': "snapshot_of actions ns (h e) = snapshot_of actions ns e" "asked_by a (h e) = asked_by a e"
    "ex_tenant (h e) = ex_tenant e" "ex_id (h e) = ex_id e" for e ns a
    using h [of e] by (simp_all add: same_execution_def snapshot_of_def asked_by_def in_h)
  have "executions_inv actions (map h (so_executions s)) (so_nodes s)"
    using soar_invD(3) [OF assms(1)] by (simp add: executions_inv_def in_h in_h' comp_def)
  moreover have "approvals_inv (map h (so_executions s)) (so_nodes s) (so_approvals s)"
    using soar_invD(4) [OF assms(1)] by (simp add: approvals_inv_def in_h')
  ultimately show ?thesis
    using assms(1) by (simp add: soar_inv_def update_rows_map h_def [symmetric])
qed

text \<open>Approvals change status and version; an approved one stays approved, and one becomes approved with its quorum.\<close>

definition approval_update_ok :: "soar_db \<Rightarrow> (soar_approval \<Rightarrow> bool) \<Rightarrow> (soar_approval \<Rightarrow> soar_approval) \<Rightarrow> bool" where
  "approval_update_ok s P f \<longleftrightarrow>
     (\<forall>a \<in> set (so_approvals s). P a \<longrightarrow>
        av_tenant (f a) = av_tenant a \<and> av_id (f a) = av_id a \<and> av_execution (f a) = av_execution a \<and>
        av_node_execution (f a) = av_node_execution a \<and> av_required (f a) = av_required a \<and>
        av_requested_by (f a) = av_requested_by a \<and>
        (av_status a = ''APPROVED'' \<longrightarrow> av_status (f a) = ''APPROVED'') \<and>
        (av_status (f a) = ''APPROVED'' \<longrightarrow> av_status a = ''APPROVED'' \<or>
           av_required a \<le> int (length (approvers_of (so_decisions s) a))))"

lemma update_approvals_inv:
  assumes inv: "soar_inv actions s" and ok: "approval_update_ok s P f"
  shows "soar_inv actions (s\<lparr>so_approvals := update_rows P f (so_approvals s)\<rparr>)"
proof -
  define h where "h a = (if P a then f a else a)" for a
  let ?as = "so_approvals s"
  have h: "av_tenant (h a) = av_tenant a" "av_id (h a) = av_id a" "av_execution (h a) = av_execution a"
    "av_node_execution (h a) = av_node_execution a" "av_required (h a) = av_required a"
    "av_requested_by (h a) = av_requested_by a" "av_status a = ''APPROVED'' \<Longrightarrow> av_status (h a) = ''APPROVED''"
    "av_status (h a) = ''APPROVED'' \<Longrightarrow> av_status a = ''APPROVED'' \<or> av_required a \<le> int (length (approvers_of (so_decisions s) a))"
    if "a \<in> set ?as" for a
    using ok that by (auto simp: approval_update_ok_def h_def split: if_splits)
  have "map (\<lambda>a. (av_tenant a, av_id a)) (map h ?as) = map (\<lambda>a. (av_tenant a, av_id a)) ?as"
    by (simp add: h)
  then have keys: "distinct (map (\<lambda>a. (av_tenant a, av_id a)) (map h ?as))"
    using soar_invD(4) [OF inv] by (simp only: approvals_inv_def)
  have "approvals_inv (so_executions s) (so_nodes s) (map h ?as)"
    using soar_invD(4) [OF inv] keys unfolding approvals_inv_def by (simp add: asks_node_def asked_by_def h)
  moreover have "decisions_inv (map h ?as) (so_decisions s)"
  proof -
    have "\<exists>a \<in> set (map h ?as). is_approval t i a \<and> w \<noteq> av_requested_by a"
      if "\<exists>a \<in> set ?as. is_approval t i a \<and> w \<noteq> av_requested_by a" for t i w
      using that by (auto simp: is_approval_def h)
    moreover have "av_required (h a) \<le> int (length (approvers_of (so_decisions s) (h a)))"
      if a: "a \<in> set ?as" "av_status (h a) = ''APPROVED''" for a
    proof -
      have "approvers_of (so_decisions s) (h a) = approvers_of (so_decisions s) a"
        by (simp add: approvers_of_def h(1,2) [OF a(1)])
      with h(5,8) [OF a(1)] a soar_invD(5) [OF inv] show ?thesis by (auto simp: decisions_inv_def)
    qed
    ultimately show ?thesis using soar_invD(5) [OF inv] by (auto simp: decisions_inv_def)
  qed
  moreover have "quorum_inv (so_nodes s) (map h ?as)"
  proof -
    have "approved (map h ?as) n" if "approved ?as n" for n
      using that by (auto simp: approved_def h)
    with soar_invD(6) [OF inv] show ?thesis by (auto simp: quorum_inv_def)
  qed
  ultimately show ?thesis
    using inv by (simp add: soar_inv_def update_rows_map h_def [symmetric])
qed

subsection \<open>New rows\<close>

lemma insert_approval_inv:
  assumes inv: "soar_inv actions s" and run: "insert_approval a s = Inr s'"
    and new: "av_status a \<noteq> ''APPROVED''" "n \<in> set (so_nodes s)" "asks_node a n" "e \<in> set (so_executions s)" "asked_by a e"
  shows "soar_inv actions s'"
proof (cases "s' = s")
  case False
  with run have s': "s' = s\<lparr>so_approvals := so_approvals s @ [a]\<rparr>"
    and fresh: "\<And>r. r \<in> set (so_approvals s) \<Longrightarrow> \<not> (av_tenant r = av_tenant a \<and> av_id r = av_id a)"
    by (auto simp: insert_approval_def is_approval_def split: if_splits)
  have "approvals_inv (so_executions s) (so_nodes s) (so_approvals s @ [a])"
    using soar_invD(4) [OF inv] fresh new(2-5) by (fastforce simp: approvals_inv_def)
  moreover have "decisions_inv (so_approvals s @ [a]) (so_decisions s)"
    using soar_invD(5) [OF inv] new(1) by (auto simp: decisions_inv_def)
  moreover have "quorum_inv (so_nodes s) (so_approvals s @ [a])"
    using soar_invD(6) [OF inv] by (auto simp: quorum_inv_def approved_def)
  ultimately show ?thesis using inv by (simp add: s' soar_inv_def)
qed (use inv in simp)

lemma insert_decision_inv:
  assumes inv: "soar_inv actions s" and run: "insert_decision t i d s = (r, s')"
    and a: "a \<in> set (so_approvals s)" "is_approval t i a" "de_approver d \<noteq> av_requested_by a"
  shows "soar_inv actions s'"
proof (cases "s' = s")
  case False
  let ?row = "\<lparr>dr_tenant = t, dr_approval = i, dr_decision = d\<rparr>"
  from False run have s': "s' = s\<lparr>so_decisions := so_decisions s @ [?row]\<rparr>"
    and fresh: "(t, i, de_approver d) \<notin> (\<lambda>r. (dr_tenant r, dr_approval r, de_approver (dr_decision r))) ` set (so_decisions s)"
    by (auto simp: insert_decision_def split: if_splits)
  have "length (approvers_of (so_decisions s) b) \<le> length (approvers_of (so_decisions s @ [?row]) b)" for b
    by (simp add: approvers_of_def)
  then have more: "int (length (approvers_of (so_decisions s) b)) \<le> int (length (approvers_of (so_decisions s @ [?row]) b))" for b
    by simp
  have "decisions_inv (so_approvals s) (so_decisions s @ [?row])"
    using soar_invD(5) [OF inv] fresh a order_trans [OF _ more]
    unfolding decisions_inv_def by (simp add: more) (use a order_trans [OF _ more] in blast)
  then show ?thesis using inv by (simp add: s' soar_inv_def)
qed (use inv in simp)

lemma insert_attempt_inv:
  assumes inv: "soar_inv actions s" and run: "insert_attempt x s = (r, s')"
    and n: "n \<in> set (so_nodes s)" "attempt_of actions (so_nodes s) x n"
  shows "soar_inv actions s'"
proof (cases "s' = s")
  case False
  let ?row = "x\<lparr>at_created_at := to_micro (at_created_at x), at_updated_at := to_micro (at_updated_at x)\<rparr>"
  from False run have s': "s' = s\<lparr>so_attempts := so_attempts s @ [?row]\<rparr>"
    by (auto simp: insert_attempt_def Let_def split: if_splits)
  have "attempt_of actions (so_nodes s) ?row n" using n(2) by (simp add: attempt_of_def)
  with n(1) inv show ?thesis by (auto simp: s' soar_inv_def attempts_inv_def)
qed (use inv in simp)

lemma update_attempts_inv:
  assumes inv: "soar_inv actions s"
    and same: "\<And>x. at_tenant (f x) = at_tenant x \<and> at_execution (f x) = at_execution x \<and>
        at_node_execution (f x) = at_node_execution x \<and> at_action_type (f x) = at_action_type x \<and>
        at_risk_level (f x) = at_risk_level x"
  shows "soar_inv actions (s\<lparr>so_attempts := update_rows P f (so_attempts s)\<rparr>)"
proof -
  define h where "h x = (if P x then f x else x)" for x
  have "attempt_of actions (so_nodes s) (h x) n = attempt_of actions (so_nodes s) x n" for x n
    using same [of x] by (simp add: h_def attempt_of_def)
  then show ?thesis using inv by (simp add: soar_inv_def attempts_inv_def update_rows_map h_def [symmetric])
qed

text \<open>Tables the invariant does not mention.\<close>

lemma other_tables_inv [simp]:
  "soar_inv actions (s\<lparr>so_playbooks := ps\<rparr>) = soar_inv actions s"
  "soar_inv actions (s\<lparr>so_pg := p\<rparr>) = soar_inv actions s"
  by (simp_all add: soar_inv_def)

lemma update_versions_inv:
  assumes "soar_inv actions s"
    and "\<And>v. v \<in> set (so_versions s) \<Longrightarrow> P v \<Longrightarrow>
           pv_tenant (f v) = pv_tenant v \<and> pv_playbook (f v) = pv_playbook v \<and> pv_version (f v) = pv_version v \<and>
           pv_spec (f v) = pv_spec v \<and> (pv_state (f v) \<noteq> ''DRAFT'' \<longrightarrow> playbook_rules actions (pv_spec v))"
  shows "soar_inv actions (s\<lparr>so_versions := update_rows P f (so_versions s)\<rparr>)"
proof -
  let ?key = "\<lambda>v. (pv_tenant v, pv_playbook v, pv_version v)" and ?h = "\<lambda>v. if P v then f v else v"
  have "map ?key (map ?h (so_versions s)) = map ?key (so_versions s)" using assms(2) by auto
  then have "distinct (map ?key (map ?h (so_versions s)))"
    using soar_invD(1) [OF assms(1)] by (simp only: versions_inv_def)
  then have "versions_inv actions (map ?h (so_versions s))"
    using soar_invD(1) [OF assms(1)] assms(2) unfolding versions_inv_def by auto
  then show ?thesis using assms(1) by (simp add: soar_inv_def update_rows_map)
qed

lemma insert_version_inv:
  assumes "soar_inv actions s" "insert_version v s = Inr s'" "pv_state v = ''DRAFT''"
  shows "soar_inv actions s'"
proof -
  let ?key = "\<lambda>v. (pv_tenant v, pv_playbook v, pv_version v)"
  let ?v = "v\<lparr>pv_created_at := to_micro (pv_created_at v), pv_validated_at := None, pv_published_at := None\<rparr>"
  from assms(2) have "s' = s\<lparr>so_versions := so_versions s @ [?v]\<rparr>" "?key ?v \<notin> ?key ` set (so_versions s)"
    by (auto simp: insert_version_def is_version_def split: if_splits)
  with assms(1,3) show ?thesis by (simp add: soar_inv_def versions_inv_def)
qed

subsection \<open>A new execution\<close>

lemma insert_snapshots_run:
  assumes "insert_snapshots e ns (s, w) = (Inr u, (s', w'))"
  shows "\<exists>rows. s' = s\<lparr>so_nodes := so_nodes s @ rows\<rparr> \<and> list_all2 (\<lambda>n r. \<exists>i. r = node_snapshot e n i) ns rows \<and>
    (distinct (map node_key (so_nodes s)) \<longrightarrow> distinct (map node_key (so_nodes s @ rows)))"
  using assms
proof (induction ns arbitrary: s w)
  case Nil
  then show ?case by (auto simp: return_Inr)
next
  case (Cons n ns)
  then obtain i s1 w1 s2 w2 where 1: "op_new_id ''snx'' (s, w) = (Inr i, (s1, w1))"
    and 2: "sql_exec (insert_node (node_snapshot e n i)) (s1, w1) = (Inr (), (s2, w2))"
    and 3: "insert_snapshots e ns (s2, w2) = (Inr u, (s', w'))"
    by (auto elim!: op_bind_InrE)
  from 1 have "s1 = s" by (auto simp: op_new_id_def split: prod.splits)
  with sql_exec_Inr [OF 2] have s2: "s2 = s\<lparr>so_nodes := so_nodes s @ [node_snapshot e n i]\<rparr>"
    and fresh: "node_key (node_snapshot e n i) \<notin> node_key ` set (so_nodes s)"
    by (auto simp: insert_node_def node_key_def split: if_splits)
  from Cons.IH [OF 3] obtain rows where r: "s' = s2\<lparr>so_nodes := so_nodes s2 @ rows\<rparr>"
    "list_all2 (\<lambda>n r. \<exists>i. r = node_snapshot e n i) ns rows"
    "distinct (map node_key (so_nodes s2)) \<longrightarrow> distinct (map node_key (so_nodes s2 @ rows))" by blast
  have "distinct (map node_key (so_nodes s)) \<longrightarrow> distinct (map node_key (so_nodes s @ node_snapshot e n i # rows))"
    using r(3) fresh s2 by auto
  with r s2 show ?case by (intro exI [of _ "node_snapshot e n i # rows"]) auto
qed

lemma snapshot_row:
  "in_execution e (node_snapshot e n i)" "row_shape (node_snapshot e n i) = spec_shape n"
  "nx_status (node_snapshot e n i) = (if nx_depends_on (node_snapshot e n i) = [] then ''READY'' else ''PENDING'')"
  by (simp_all add: node_snapshot_def in_execution_def row_shape_def spec_shape_def)

lemma snapshots_shape:
  assumes "list_all2 (\<lambda>n r. \<exists>i. r = node_snapshot e n i) ns rows"
  shows "map row_shape rows = map spec_shape ns"
    "\<And>r. r \<in> set rows \<Longrightarrow> in_execution e r \<and> nx_status r \<in> {''READY'', ''PENDING''} \<and> (nx_status r = ''READY'' \<longleftrightarrow> nx_depends_on r = [])"
  using assms by (induction rule: list_all2_induct) (auto simp: snapshot_row split: if_splits)

lemma new_execution_inv:
  assumes inv: "soar_inv actions s" and run: "insert_execution e s = Inr s1"
    and rows: "list_all2 (\<lambda>n r. \<exists>i. r = node_snapshot e n i) (sp_nodes spec) rows"
    and keys: "distinct (map node_key (so_nodes s @ rows))" and rules: "playbook_rules actions spec"
  shows "soar_inv actions (s1\<lparr>so_nodes := so_nodes s @ rows\<rparr>)"
proof -
  let ?ns = "so_nodes s"
  from run obtain e1 where s1: "s1 = s\<lparr>so_executions := so_executions s @ [e1]\<rparr>"
    and e1: "ex_tenant e1 = ex_tenant e" "ex_id e1 = ex_id e"
    and fresh: "\<And>r. r \<in> set (so_executions s) \<Longrightarrow> \<not> (ex_tenant r = ex_tenant e \<and> ex_id r = ex_id e)"
    by (auto simp: insert_execution_def split: if_splits)
  have fresh': "(ex_tenant e, ex_id e) \<notin> (\<lambda>x. (ex_tenant x, ex_id x)) ` set (so_executions s)"
    using fresh by fastforce
  note row = snapshots_shape [OF rows]
  have old: "\<exists>x \<in> set (so_executions s). in_execution x n" if "n \<in> set ?ns" for n
    using soar_invD(3) [OF inv] that by (auto simp: executions_inv_def)
  have nodes: "nodes_inv (?ns @ rows)"
  proof -
    have "nx_status r \<in> node_statuses \<and> nx_status r \<noteq> ''CANCELLED'' \<and> (started r \<longrightarrow> deps_done (?ns @ rows) r) \<and>
        nx_status r \<noteq> ''WAITING_MANUAL''" if "r \<in> set rows" for r
      using row(2) [OF that] by (auto simp: started_def deps_done_def node_statuses_def active_statuses_def)
    moreover have "failed_in (?ns @ rows) n" if "failed_in ?ns n" for n using that by (auto simp: failed_in_def)
    ultimately show ?thesis
      using soar_invD(2) [OF inv] keys by (auto simp: nodes_inv_def intro: deps_done_append)
  qed
  have "filter (in_execution e1) ?ns = []"
    using old fresh e1 by (fastforce simp: in_execution_def filter_empty_conv)
  moreover have "filter (in_execution e1) rows = rows"
    using row(2) e1 by (auto simp: in_execution_def filter_id_conv)
  ultimately have "snapshot_of actions (?ns @ rows) e1"
    using row(1) rules by (auto simp: snapshot_of_def)
  moreover have "snapshot_of actions (?ns @ rows) x" if x: "x \<in> set (so_executions s)" for x
  proof -
    have "filter (in_execution x) rows = []"
      using row(2) fresh [OF x] by (auto simp: in_execution_def filter_empty_conv)
    with soar_invD(3) [OF inv] x show ?thesis by (auto simp: executions_inv_def snapshot_of_def)
  qed
  moreover have "\<exists>x \<in> set (so_executions s @ [e1]). in_execution x n" if "n \<in> set (?ns @ rows)" for n
    using that old row(2) e1 by (fastforce simp: in_execution_def)
  ultimately have exs: "executions_inv actions (so_executions s @ [e1]) (?ns @ rows)"
    using soar_invD(3) [OF inv] fresh' e1 by (simp add: executions_inv_def)
  have "attempts_inv actions (?ns @ rows) (so_attempts s)"
    using soar_invD(7) [OF inv] by (fastforce simp: attempts_inv_def attempt_of_def intro: deps_done_append)
  moreover have "quorum_inv (?ns @ rows) (so_approvals s)"
    using soar_invD(6) [OF inv] row(2) by (fastforce simp: quorum_inv_def)
  moreover have "approvals_inv (so_executions s @ [e1]) (?ns @ rows) (so_approvals s)"
    using soar_invD(4) [OF inv] by (auto simp: approvals_inv_def)
  ultimately show ?thesis using inv nodes exs by (simp add: s1 soar_inv_def)
qed

end
