(* ===== verification/Soar_Runs.thy ===== *)
theory Soar_Runs
  imports Soar_Invariants
begin

text \<open>
  Every operation of the store keeps the invariant and only lets the tables grow: rows keep their
  identity, successes stay, and nothing is deleted. \<open>soar_ok actions s0 s\<close> says both of a database
  \<open>s\<close> that a run starting in \<open>s0\<close> has reached.
\<close>

definition soar_grows :: "soar_db \<Rightarrow> soar_db \<Rightarrow> bool" where
  "soar_grows s s' \<longleftrightarrow>
     (\<forall>n \<in> set (so_nodes s). \<exists>n' \<in> set (so_nodes s'). node_shape n' = node_shape n \<and>
        (nx_status n = ''SUCCEEDED'' \<longrightarrow> nx_status n' = ''SUCCEEDED'')) \<and>
     (\<forall>e \<in> set (so_executions s). \<exists>e' \<in> set (so_executions s'). same_execution e e') \<and>
     (\<forall>v \<in> set (so_versions s). \<exists>v' \<in> set (so_versions s').
        pv_tenant v' = pv_tenant v \<and> pv_playbook v' = pv_playbook v \<and> pv_version v' = pv_version v \<and> pv_spec v' = pv_spec v)"

lemma soar_grows_refl [simp]: "soar_grows s s"
  by (auto simp: soar_grows_def same_execution_def)

lemma soar_grows_trans: "soar_grows s1 s2 \<Longrightarrow> soar_grows s2 s3 \<Longrightarrow> soar_grows s1 s3"
  unfolding soar_grows_def same_execution_def by (intro conjI ballI; metis)

definition soar_ok :: "action_catalog \<Rightarrow> soar_db \<Rightarrow> soar_db \<Rightarrow> bool" where
  "soar_ok actions s0 s \<longleftrightarrow> soar_inv actions s \<and> soar_grows s0 s"

lemma soar_ok_inv: "soar_ok actions s0 s \<Longrightarrow> soar_inv actions s"
  by (simp add: soar_ok_def)

lemma soar_ok_step: "soar_ok actions s0 s \<Longrightarrow> soar_inv actions s' \<Longrightarrow> soar_grows s s' \<Longrightarrow> soar_ok actions s0 s'"
  using soar_grows_trans by (auto simp: soar_ok_def)

text \<open>The tables that a statement leaves alone.\<close>

lemma soar_grows_same:
  "so_nodes s' = so_nodes s \<Longrightarrow> so_executions s' = so_executions s \<Longrightarrow> so_versions s' = so_versions s \<Longrightarrow> soar_grows s s'"
  by (auto simp: soar_grows_def same_execution_def)

subsection \<open>Statements\<close>

lemma ok_update_nodes:
  assumes "soar_ok actions s0 s" "node_update_ok s P f"
  shows "soar_ok actions s0 (s\<lparr>so_nodes := update_rows P f (so_nodes s)\<rparr>)"
proof (rule soar_ok_step [OF assms(1) update_nodes_inv [OF soar_ok_inv [OF assms(1)] assms(2)]])
  have "\<exists>n' \<in> set (update_rows P f (so_nodes s)). node_shape n' = node_shape n \<and>
      (nx_status n = ''SUCCEEDED'' \<longrightarrow> nx_status n' = ''SUCCEEDED'')" if "n \<in> set (so_nodes s)" for n
    using assms(2) that
    by (intro bexI [of _ "if P n then f n else n"])
      (auto simp: node_update_ok_def update_rows_def moves_def held_statuses_def active_statuses_def)
  then show "soar_grows s (s\<lparr>so_nodes := update_rows P f (so_nodes s)\<rparr>)"
    by (auto simp: soar_grows_def same_execution_def)
qed

lemma ok_update_executions:
  assumes "soar_ok actions s0 s" "\<And>e. same_execution e (f e)"
  shows "soar_ok actions s0 (s\<lparr>so_executions := update_rows P f (so_executions s)\<rparr>)"
proof (rule soar_ok_step [OF assms(1) update_executions_inv [OF soar_ok_inv [OF assms(1)] assms(2)]])
  have "\<exists>e' \<in> set (update_rows P f (so_executions s)). same_execution e e'" if "e \<in> set (so_executions s)" for e
    using assms(2) that
    by (intro bexI [of _ "if P e then f e else e"]) (auto simp: update_rows_def same_execution_def)
  then show "soar_grows s (s\<lparr>so_executions := update_rows P f (so_executions s)\<rparr>)"
    by (auto simp: soar_grows_def)
qed

lemma ok_update_approvals:
  "soar_ok actions s0 s \<Longrightarrow> approval_update_ok s P f \<Longrightarrow>
   soar_ok actions s0 (s\<lparr>so_approvals := update_rows P f (so_approvals s)\<rparr>)"
  by (rule soar_ok_step, assumption, rule update_approvals_inv, erule soar_ok_inv, assumption, rule soar_grows_same) simp_all

lemma ok_update_playbooks: "soar_ok actions s0 s \<Longrightarrow> soar_ok actions s0 (s\<lparr>so_playbooks := ps\<rparr>)"
  by (rule soar_ok_step, assumption, simp add: soar_ok_def, rule soar_grows_same) simp_all

lemma ok_on_pg: "soar_ok actions s0 s \<Longrightarrow> soar_ok actions s0 (s\<lparr>so_pg := p\<rparr>)"
  by (rule soar_ok_step, assumption, simp add: soar_ok_def, rule soar_grows_same) simp_all

lemma ok_update_versions:
  assumes "soar_ok actions s0 s"
    and f: "\<And>v. v \<in> set (so_versions s) \<Longrightarrow> P v \<Longrightarrow>
           pv_tenant (f v) = pv_tenant v \<and> pv_playbook (f v) = pv_playbook v \<and> pv_version (f v) = pv_version v \<and>
           pv_spec (f v) = pv_spec v \<and> (pv_state (f v) \<noteq> ''DRAFT'' \<longrightarrow> playbook_rules actions (pv_spec v))"
  shows "soar_ok actions s0 (s\<lparr>so_versions := update_rows P f (so_versions s)\<rparr>)"
proof (rule soar_ok_step [OF assms(1) update_versions_inv [OF soar_ok_inv [OF assms(1)] f]])
  have "\<exists>v' \<in> set (update_rows P f (so_versions s)). pv_tenant v' = pv_tenant v \<and> pv_playbook v' = pv_playbook v \<and>
      pv_version v' = pv_version v \<and> pv_spec v' = pv_spec v" if "v \<in> set (so_versions s)" for v
    using f that by (intro bexI [of _ "if P v then f v else v"]) (auto simp: update_rows_def)
  then show "soar_grows s (s\<lparr>so_versions := update_rows P f (so_versions s)\<rparr>)"
    by (auto simp: soar_grows_def same_execution_def)
qed

lemma ok_insert_version:
  assumes "soar_ok actions s0 s" "insert_version v s = Inr s'" "pv_state v = ''DRAFT''"
  shows "soar_ok actions s0 s'"
proof (rule soar_ok_step [OF assms(1) insert_version_inv [OF soar_ok_inv [OF assms(1)] assms(2,3)]])
  show "soar_grows s s'"
    using assms(2) by (auto simp: insert_version_def soar_grows_def same_execution_def split: if_splits)
qed

lemma ok_insert_playbook: "soar_ok actions s0 s \<Longrightarrow> insert_playbook p s = Inr s' \<Longrightarrow> soar_ok actions s0 s'"
  by (auto simp: insert_playbook_def intro: ok_update_playbooks split: if_splits)

lemma ok_insert_approval:
  assumes "soar_ok actions s0 s" "insert_approval a s = Inr s'" "av_status a \<noteq> ''APPROVED''"
    "n \<in> set (so_nodes s)" "asks_node a n" "e \<in> set (so_executions s)" "asked_by a e"
  shows "soar_ok actions s0 s'"
proof (rule soar_ok_step [OF assms(1) insert_approval_inv [OF soar_ok_inv [OF assms(1)] assms(2-7)]])
  show "soar_grows s s'"
    by (rule soar_grows_same) (use assms(2) in \<open>auto simp: insert_approval_def split: if_splits\<close>)
qed

lemma ok_insert_decision:
  assumes "soar_ok actions s0 s" "insert_decision t i d s = (r, s')"
    "a \<in> set (so_approvals s)" "is_approval t i a" "de_approver d \<noteq> av_requested_by a"
  shows "soar_ok actions s0 s'"
proof (rule soar_ok_step [OF assms(1) insert_decision_inv [OF soar_ok_inv [OF assms(1)] assms(2-5)]])
  show "soar_grows s s'"
    by (rule soar_grows_same) (use assms(2) in \<open>auto simp: insert_decision_def split: if_splits\<close>)
qed

lemma ok_insert_attempt:
  assumes "soar_ok actions s0 s" "insert_attempt x s = (r, s')"
    "n \<in> set (so_nodes s)" "attempt_of actions (so_nodes s) x n"
  shows "soar_ok actions s0 s'"
proof (rule soar_ok_step [OF assms(1) insert_attempt_inv [OF soar_ok_inv [OF assms(1)] assms(2-4)]])
  show "soar_grows s s'"
    by (rule soar_grows_same) (use assms(2) in \<open>auto simp: insert_attempt_def Let_def split: if_splits\<close>)
qed

subsection \<open>Running a sequence of statements\<close>

text \<open>\<open>ok_run\<close>: every run of an operation, failed or not, keeps what has been established so far.\<close>

definition ok_run :: "action_catalog \<Rightarrow> soar_db \<Rightarrow> (soar_db, 'a) op \<Rightarrow> bool" where
  "ok_run actions s0 f \<longleftrightarrow> op_rel (keeps (soar_ok actions s0)) f"

named_theorems ok_intros \<open>an operation keeps what has been established\<close>

lemma ok_runD: "ok_run a s0 f \<Longrightarrow> soar_ok a s0 s \<Longrightarrow> f (s, w) = (r, (s', w')) \<Longrightarrow> soar_ok a s0 s'"
  unfolding ok_run_def op_rel_def keeps_def by blast

lemma ok_run_triple: "ok_run a s0 f \<Longrightarrow> triple (soar_ok a s0) f (\<lambda>_. soar_ok a s0)"
  by (rule tripleI) (rule ok_runD)

lemma ok_bind [ok_intros]: "ok_run a s0 f \<Longrightarrow> (\<And>x. ok_run a s0 (g x)) \<Longrightarrow> ok_run a s0 (op_bind f g)"
  unfolding ok_run_def by (rule keeps_rel.rel_bind)

lemma ok_first_row: "ok_run a s0 (first_row e rows)"
  unfolding ok_run_def first_row_def by (auto intro: keeps_rel.rel_return keeps_rel.rel_fail split: list.split)

lemmas ok_read [ok_intros] =
  keeps_rel.rel_return [of "soar_ok a s0" for a s0, folded ok_run_def]
  keeps_rel.rel_fail [of "soar_ok a s0" for a s0, folded ok_run_def]
  keeps_rel.rel_lift [of "soar_ok a s0" for a s0, folded ok_run_def]
  keeps_rel.rel_query [of "soar_ok a s0" for a s0, folded ok_run_def]
  keeps_rel.rel_now [of "soar_ok a s0" for a s0, folded ok_run_def]
  keeps_rel.rel_new_id [of "soar_ok a s0" for a s0, folded ok_run_def]
  ok_first_row

lemma ok_if [ok_intros]: "(b \<Longrightarrow> ok_run a s0 f) \<Longrightarrow> (\<not> b \<Longrightarrow> ok_run a s0 g) \<Longrightarrow> ok_run a s0 (if b then f else g)"
  by simp

lemma ok_atomic: "atomic f \<Longrightarrow> triple (soar_ok a s0) f (\<lambda>_. soar_ok a s0) \<Longrightarrow> ok_run a s0 f"
  unfolding ok_run_def by (rule keeps_atomic)

lemma ok_committed: "triple (soar_ok a s0) f (\<lambda>_. soar_ok a s0) \<Longrightarrow> ok_run a s0 (transaction f)"
  by (rule ok_atomic [OF atomic_transaction]) (rule triple_transaction)

lemma ok_transaction [ok_intros]: "ok_run a s0 f \<Longrightarrow> ok_run a s0 (transaction f)"
  by (rule ok_committed) (rule ok_run_triple)

lemma ok_statement: "(\<And>s r s'. soar_ok a s0 s \<Longrightarrow> f s = (r, s') \<Longrightarrow> soar_ok a s0 s') \<Longrightarrow> ok_run a s0 (statement f)"
  unfolding ok_run_def by (rule keeps_rel.rel_statement) (auto simp: keeps_def)

lemma ok_exec: "(\<And>s s'. soar_ok a s0 s \<Longrightarrow> f s = Inr s' \<Longrightarrow> soar_ok a s0 s') \<Longrightarrow> ok_run a s0 (sql_exec f)"
  unfolding ok_run_def by (rule keeps_rel.rel_exec) (auto simp: keeps_def)

lemma ok_nodes:
  "(\<And>s. soar_ok a s0 s \<Longrightarrow> node_update_ok s P f) \<Longrightarrow> ok_run a s0 (update_nodes P f)"
  unfolding update_nodes_def by (rule ok_statement) (auto intro: ok_update_nodes)

lemma ok_executions [ok_intros]: "(\<And>e. same_execution e (f e)) \<Longrightarrow> ok_run a s0 (update_executions P f)"
  unfolding update_executions_def by (rule ok_statement) (auto intro: ok_update_executions)

lemma ok_playbooks [ok_intros]: "ok_run a s0 (update_playbooks P f)"
  unfolding update_playbooks_def by (rule ok_statement) (auto intro: ok_update_playbooks)

lemma ok_pg [ok_intros]: "ok_run a s0 (on_pg f)"
  unfolding ok_run_def on_pg_def by (rule op_relI) (auto simp: keeps_def Let_def intro: ok_on_pg split: prod.splits)

lemma ok_attempts [ok_intros]:
  assumes "\<And>x. at_tenant (f x) = at_tenant x \<and> at_execution (f x) = at_execution x \<and>
        at_node_execution (f x) = at_node_execution x \<and> at_action_type (f x) = at_action_type x \<and>
        at_risk_level (f x) = at_risk_level x"
  shows "ok_run a s0 (update_attempts P f)"
  unfolding update_attempts_def
proof (rule ok_statement)
  fix s r s'
  assume ok: "soar_ok a s0 s" and "(Inr (returned_rows P f (so_attempts s)),
      s\<lparr>so_attempts := update_rows P f (so_attempts s)\<rparr>) = (r :: soar_action_attempt list result, s')"
  then have "s' = s\<lparr>so_attempts := update_rows P f (so_attempts s)\<rparr>" by simp
  with update_attempts_inv [OF soar_ok_inv [OF ok] assms] show "soar_ok a s0 s'"
    by (auto intro!: soar_ok_step [OF ok] soar_grows_same)
qed

lemma ok_each [ok_intros]: "(\<And>x. ok_run a s0 (f x)) \<Longrightarrow> ok_run a s0 (op_each f xs)"
  by (induction xs) (auto intro: ok_intros)

text \<open>Updates of nodes that need no more than the status of the row.\<close>

lemma node_update_okI:
  assumes "\<And>n. n \<in> set (so_nodes s) \<Longrightarrow> P n \<Longrightarrow> node_shape (f n) = node_shape n"
    and "\<And>n. n \<in> set (so_nodes s) \<Longrightarrow> P n \<Longrightarrow> moves (so_nodes s) n (nx_status (f n))"
    and "\<And>n. n \<in> set (so_nodes s) \<Longrightarrow> P n \<Longrightarrow> nx_type n = ''HUMAN_APPROVAL'' \<Longrightarrow> nx_status (f n) = ''SUCCEEDED'' \<Longrightarrow>
           approved (so_approvals s) n"
  shows "node_update_ok s P f"
  using assms by (simp add: node_update_ok_def)

lemma failed_count:
  "0 < count_status {''FAILED''} (nodes_of t e s) \<Longrightarrow> nx_tenant n = t \<Longrightarrow> nx_execution n = e \<Longrightarrow> failed_in (so_nodes s) n"
  by (auto simp: count_status_def nodes_of_def failed_in_def filter_empty_conv)

text \<open>A step that relies on what a query has just answered.\<close>

definition ends_in :: "('s \<Rightarrow> bool) \<Rightarrow> ('s, 'a) op \<Rightarrow> ('s \<Rightarrow> bool) \<Rightarrow> bool" where
  "ends_in P f Q \<longleftrightarrow> (\<forall>s w r s' w'. P s \<longrightarrow> f (s, w) = (r, (s', w')) \<longrightarrow> Q s')"

lemma ok_bind_query:
  assumes "\<And>x. ends_in (\<lambda>s. soar_ok a s0 s \<and> q s = Inr x) (g x) (soar_ok a s0)"
  shows "ok_run a s0 (op_bind (sql_query q) g)"
  unfolding ok_run_def
proof (rule op_relI, unfold keeps_def, intro impI)
  fix s w r s' w'
  assume run: "op_bind (sql_query q) g (s, w) = (r, (s', w'))" and ok: "soar_ok a s0 s"
  obtain y s1 w1 where q: "sql_query q (s, w) = (y, (s1, w1))" by (metis prod.exhaust)
  have s1: "s1 = s" using q read_only_query [of q] unfolding read_only_def by (auto dest: op_relD)
  show "soar_ok a s0 s'"
  proof (cases y)
    case (Inl e)
    with run q s1 ok show ?thesis by (simp add: op_bind_def)
  next
    case (Inr x)
    with run q have "g x (s1, w1) = (r, (s', w'))" by (simp add: op_bind_def)
    with assms [of x] ok s1 sql_query_run [OF q [unfolded Inr]] show ?thesis unfolding ends_in_def by blast
  qed
qed

lemma ends_bind:
  assumes "ends_in P f (soar_ok a s0)" "\<And>x. ok_run a s0 (g x)"
  shows "ends_in P (op_bind f g) (soar_ok a s0)"
  unfolding ends_in_def
proof (intro allI impI)
  fix s w r s' w'
  assume P: "P s" and run: "op_bind f g (s, w) = (r, (s', w'))"
  obtain y s1 w1 where f: "f (s, w) = (y, (s1, w1))" by (metis prod.exhaust)
  with assms(1) P have ok: "soar_ok a s0 s1" unfolding ends_in_def by blast
  show "soar_ok a s0 s'"
  proof (cases y)
    case (Inl e)
    with run f ok show ?thesis by (simp add: op_bind_def)
  next
    case (Inr x)
    with run f have "g x (s1, w1) = (r, (s', w'))" by (simp add: op_bind_def)
    from ok_runD [OF assms(2) ok this] show ?thesis .
  qed
qed

lemma ok_promoteAndReconcile [ok_intros]: "ok_run a s0 (promoteAndReconcileSOAR t e now)"
proof -
  have promote: "ok_run a s0 (sql_exec (\<lambda>s. Inr (promote_nodes t e now s)))"
  proof (rule ok_exec)
    fix s s' assume ok: "soar_ok a s0 s" and "Inr (promote_nodes t e now s) = (Inr s' :: soar_db result)"
    moreover have "soar_ok a s0 (promote_nodes t e now s)"
      unfolding promote_nodes_def
      by (rule ok_update_nodes [OF ok], rule node_update_okI) (auto simp: node_shape_def moves_def)
    ultimately show "soar_ok a s0 s'" by simp
  qed
  have cancelled: "soar_ok a s0 (cancel_branches t e now s)"
    if "soar_ok a s0 s" "0 < count_status {''FAILED''} (nodes_of t e s)" for s
    unfolding cancel_branches_def
    by (rule ok_update_nodes [OF that(1)], rule node_update_okI)
      (auto simp: node_shape_def moves_def intro: failed_count [OF that(2)])
  have cancel: "ends_in (\<lambda>s. soar_ok a s0 s \<and> Inr (reconciled_status (nodes_of t e s)) = (Inr (status, completed) :: _ result))
      (if status = ''FAILED'' then sql_exec (\<lambda>s. Inr (cancel_branches t e now s)) else op_return ()) (soar_ok a s0)"
    for status completed
    unfolding ends_in_def
  proof (intro allI impI)
    fix s w r s' w'
    assume pre: "soar_ok a s0 s \<and> Inr (reconciled_status (nodes_of t e s)) = (Inr (status, completed) :: _ result)"
      and run: "(if status = ''FAILED'' then sql_exec (\<lambda>s. Inr (cancel_branches t e now s)) else op_return ()) (s, w) = (r, (s', w'))"
    show "soar_ok a s0 s'"
    proof (cases "status = ''FAILED''")
      case True
      with pre have "0 < count_status {''FAILED''} (nodes_of t e s)" by (auto simp: reconciled_status_def split: if_splits)
      with pre cancelled have "soar_ok a s0 (cancel_branches t e now s)" by blast
      with pre sql_exec_outcome run True show ?thesis by fastforce
    next
      case False
      with pre run show ?thesis by (simp add: op_return_def)
    qed
  qed
  show ?thesis
    unfolding promoteAndReconcileSOAR_def
  proof (rule ok_bind [OF promote], rule ok_bind_query)
    fix x :: "string \<times> bool"
    obtain status completed where x: "x = (status, completed)" by fastforce
    show "ends_in (\<lambda>s. soar_ok a s0 s \<and> Inr (reconciled_status (nodes_of t e s)) = (Inr x :: (string \<times> bool) result))
      (case x of (status, completed) \<Rightarrow>
        op_bind (if status = ''FAILED'' then sql_exec (\<lambda>s. Inr (cancel_branches t e now s)) else op_return ()) (\<lambda>_.
        op_bind (update_executions (is_execution t e)
          (\<lambda>r. r\<lparr>ex_status := status, ex_version := ex_version r + 1, ex_updated_at := to_micro now,
                 ex_completed_at := (if completed then Some (to_micro now) else None)\<rparr>)) (\<lambda>rows.
        if length rows \<noteq> 1 then op_fail ErrNotFound else op_return ()))) (soar_ok a s0)"
      unfolding x prod.case
      by (rule ends_bind [OF cancel], intro ok_intros) (simp add: same_execution_def)
  qed
qed

lemma ok_expire_node: "ok_run a s0 (sql_exec (\<lambda>s. Inr (expire_node t i now s)))"
proof -
  have "soar_ok a s0 (expire_node t i now s)" if "soar_ok a s0 s" for s
    unfolding expire_node_def
    by (rule ok_update_nodes [OF that], rule node_update_okI) (auto simp: node_shape_def moves_def held_statuses_def)
  then show ?thesis by (auto intro: ok_exec)
qed

lemma ok_expireSOARApprovals [ok_intros]: "ok_run a s0 (expireSOARApprovals now)"
proof -
  have "ok_run a s0 (update_approvals (approval_due now)
      (\<lambda>a. a\<lparr>av_status := ''EXPIRED'', av_decided_at := Some (to_micro now), av_version := av_version a + 1\<rparr>))"
    unfolding update_approvals_def
    by (rule ok_statement)
      (auto intro!: ok_update_approvals simp: approval_update_ok_def approval_due_def)
  then show ?thesis unfolding expireSOARApprovals_def by (intro ok_intros ok_expire_node)
qed

lemma bind_first_row: "op_bind (first_row e (r # rs)) g = g r" "op_bind (first_row e []) g = op_fail e"
  by (simp_all add: first_row_def fun_eq_iff op_bind_def op_fail_def op_return_def)

text \<open>A row that was selected is one of the table's.\<close>

lemma triple_select:
  assumes "\<And>r. triple (\<lambda>s. P s \<and> r \<in> set (tab s) \<and> C r) (g r) Q"
  shows "triple P (op_bind (sql_query (\<lambda>s. Inr (filter C (tab s)))) (\<lambda>rows. op_bind (first_row e rows) g)) Q"
proof (rule triple_bind [OF triple_query [where Q = "\<lambda>rows s. P s \<and> rows = filter C (tab s)"]], simp)
  fix rows
  show "triple (\<lambda>s. P s \<and> rows = filter C (tab s)) (op_bind (first_row e rows) g) Q"
  proof (cases rows)
    case Nil
    then show ?thesis by (simp add: first_row_def triple_def op_bind_def op_fail_def)
  next
    case (Cons r rs)
    have "triple (\<lambda>s. P s \<and> rows = filter C (tab s)) (g r) Q"
      by (rule triple_pre [OF assms [of r]]) (metis (mono_tags) Cons filter_eq_ConsD in_set_conv_decomp)
    with Cons show ?thesis by (simp add: first_row_def triple_def)
  qed
qed

text \<open>Updates with what is known afterwards.\<close>

lemma triple_versions:
  "(\<And>s. P s \<Longrightarrow> Q (s\<lparr>so_versions := update_rows C f (so_versions s)\<rparr>)) \<Longrightarrow> triple P (update_versions C f) (\<lambda>_. Q)"
  unfolding update_versions_def by (rule triple_statement) auto

lemma ok_versions:
  "(\<And>s. soar_ok a s0 s \<Longrightarrow> soar_ok a s0 (s\<lparr>so_versions := update_rows C f (so_versions s)\<rparr>)) \<Longrightarrow>
   ok_run a s0 (update_versions C f)"
  unfolding update_versions_def by (rule ok_statement) auto

lemma triple_nodes:
  "(\<And>s. P s \<Longrightarrow> Q (returned_rows C f (so_nodes s)) (s\<lparr>so_nodes := update_rows C f (so_nodes s)\<rparr>)) \<Longrightarrow>
   triple P (update_nodes C f) Q"
  unfolding update_nodes_def by (rule triple_statement) auto

lemma triple_approvals:
  "(\<And>s. P s \<Longrightarrow> Q (s\<lparr>so_approvals := update_rows C f (so_approvals s)\<rparr>)) \<Longrightarrow> triple P (update_approvals C f) (\<lambda>_. Q)"
  unfolding update_approvals_def by (rule triple_statement) auto

subsection \<open>Playbooks\<close>

lemma ok_CreateSOARPlaybook:
  assumes "pv_state v = ''DRAFT''"
  shows "ok_run a s0 (CreateSOARPlaybook p v)"
  unfolding CreateSOARPlaybook_def
  by (intro ok_intros ok_exec) (blast intro: ok_insert_playbook ok_insert_version assms)+

lemma ok_CreateSOARPlaybookVersion: "ok_run a s0 (CreateSOARPlaybookVersion t i actor spec report)"
  unfolding CreateSOARPlaybookVersion_def Let_def
  by (intro ok_intros ok_exec) (auto intro: ok_insert_version simp: draft_version_def)

lemma ok_GetSOARPlaybook [ok_intros]: "ok_run a s0 (GetSOARPlaybook t i)"
  unfolding GetSOARPlaybook_def by (intro ok_intros)

lemma ok_GetSOARExecution [ok_intros]: "ok_run a s0 (GetSOARExecution t i)"
  unfolding GetSOARExecution_def listSOARNodeExecutions_def by (intro ok_intros)

lemma ok_getSOARApproval [ok_intros]: "ok_run a s0 (getSOARApproval t i)"
  unfolding getSOARApproval_def listSOARApprovalDecisions_def by (intro ok_intros)

lemma ok_DisableSOARPlaybook: "ok_run a s0 (DisableSOARPlaybook t i actor)"
  unfolding DisableSOARPlaybook_def by (intro ok_intros)

text \<open>A version is found again with its playbook, and the key determines it.\<close>

lemma versions_unique:
  assumes "versions_inv a vs" "v \<in> set vs" "u \<in> set vs" "is_version t i k v" "is_version t i k u"
  shows "u = v"
  using assms by (auto simp: versions_inv_def is_version_def distinct_map dest: inj_onD)

lemma version_stays:
  assumes "soar_ok a s0 s" "v \<in> set (so_versions s0)" "is_version t i k v" "u \<in> set (so_versions s)" "is_version t i k u"
  shows "pv_spec u = pv_spec v"
proof -
  from assms(1,2) obtain v' where v': "v' \<in> set (so_versions s)" "pv_tenant v' = pv_tenant v"
    "pv_playbook v' = pv_playbook v" "pv_version v' = pv_version v" "pv_spec v' = pv_spec v"
    by (auto simp: soar_ok_def soar_grows_def)
  with assms(3) have "is_version t i k v'" by (simp add: is_version_def)
  with versions_unique [OF soar_invD(1) [OF soar_ok_inv [OF assms(1)]] v'(1) assms(4) _ assms(5)] v'(5)
  show ?thesis by simp
qed

lemma ok_SaveSOARValidation:
  assumes "v \<in> set (so_versions s0)" "is_version t i k v"
  shows "ok_run a s0 (SaveSOARValidation t i k (Validate a (pv_spec v) now))"
proof -
  have "soar_ok a s0 (s\<lparr>so_versions := update_rows (\<lambda>r. is_version t i k r \<and> pv_state r \<in> {''DRAFT'', ''VALIDATED''})
      (\<lambda>r. r\<lparr>pv_state := (if rp_valid (Validate a (pv_spec v) now) then ''VALIDATED'' else ''DRAFT''),
             pv_validation := Validate a (pv_spec v) now, pv_spec_hash := rp_spec_hash (Validate a (pv_spec v) now),
             pv_validated_at := (if rp_valid (Validate a (pv_spec v) now)
                then Some (to_micro (rp_validated_at (Validate a (pv_spec v) now))) else None)\<rparr>) (so_versions s)\<rparr>)"
    if "soar_ok a s0 s" for s
    by (rule ok_update_versions [OF that])
      (use version_stays [OF that assms] in \<open>simp add: Validate_decides\<close>)
  then show ?thesis
    unfolding SaveSOARValidation_def by (rule ok_bind [OF ok_versions]) (assumption, rule ok_read)
qed

text \<open>
  Publishing: the row is read in the transaction and is validated, so its playbook obeys the rules; what
  is retired was published before.
\<close>

lemma ok_PublishSOARPlaybookVersion: "ok_run a s0 (PublishSOARPlaybookVersion t i k actor)"
proof -
  let ?OK = "soar_ok a s0"
  let ?V = "\<lambda>s. ?OK s \<and> (\<exists>v \<in> set (so_versions s). is_version t i k v \<and> playbook_rules a (pv_spec v))"
  let ?pub = "\<lambda>r. pv_tenant r = t \<and> pv_playbook r = i \<and> pv_state r = ''PUBLISHED''"
  let ?retire = "\<lambda>r :: soar_version. r\<lparr>pv_state := ''RETIRED''\<rparr>"
  have retire: "triple ?V (update_versions ?pub ?retire) (\<lambda>_. ?V)"
  proof (rule triple_versions)
    fix s assume V: "?V s"
    let ?s = "s\<lparr>so_versions := update_rows ?pub ?retire (so_versions s)\<rparr>"
    have "?OK ?s"
      by (rule ok_update_versions)
        (use V soar_invD(1) [OF soar_ok_inv, of a s0 s] in \<open>auto simp: versions_inv_def\<close>)
    moreover from V obtain v where "v \<in> set (so_versions s)" "is_version t i k v" "playbook_rules a (pv_spec v)" by blast
    then have "\<exists>u \<in> set (so_versions ?s). is_version t i k u \<and> playbook_rules a (pv_spec u)"
      by (intro bexI [of _ "if pv_state v = ''PUBLISHED'' then ?retire v else v"])
        (auto simp: update_rows_def is_version_def)
    ultimately show "?V ?s" by blast
  qed
  have publish: "triple ?V (update_versions (is_version t i k)
      (\<lambda>r. r\<lparr>pv_state := ''PUBLISHED'', pv_published_at := Some (to_micro now)\<rparr>)) (\<lambda>_. ?OK)" for now
  proof (rule triple_versions)
    fix s assume V: "?V s"
    then have ok: "?OK s" by blast
    have "playbook_rules a (pv_spec u)" if "u \<in> set (so_versions s)" "is_version t i k u" for u
      using V that versions_unique [OF soar_invD(1) [OF soar_ok_inv [OF ok]]] by metis
    then show "?OK (s\<lparr>so_versions := update_rows (is_version t i k)
        (\<lambda>r. r\<lparr>pv_state := ''PUBLISHED'', pv_published_at := Some (to_micro now)\<rparr>) (so_versions s)\<rparr>)"
      by (intro ok_update_versions [OF ok]) (auto simp: is_version_def)
  qed
  have read: "?OK s \<and> v \<in> set (so_versions s) \<and> is_version t i k v \<Longrightarrow> \<not> pv_state v \<noteq> ''VALIDATED'' \<Longrightarrow> ?V s" for s v
    using soar_invD(1) [OF soar_ok_inv] by (fastforce simp: versions_inv_def)
  show ?thesis
    unfolding PublishSOARPlaybookVersion_def
  proof (rule ok_bind, goal_cases)
    case 1
    show ?case
      by (rule ok_committed, rule triple_select, rule triple_if, rule triple_fail,
          rule triple_bind [OF triple_now [where Q = "\<lambda>_. ?V"]], erule (1) read,
          rule triple_bind [OF retire], rule triple_bind [OF publish], rule ok_run_triple, intro ok_intros)
  qed (rule ok_GetSOARPlaybook)
qed

subsection \<open>Executions\<close>

lemma transaction_or_Inr:
  assumes "transaction_or body (s, w) = (Inr r, (s', w'))"
  shows "\<exists>w1 s1 w2. body (s, w1) = (Inr r, (s1, w2)) \<and> s' = (case r of Inl _ \<Rightarrow> s | Inr _ \<Rightarrow> s1)"
proof -
  from assms obtain sw where b: "op_bind (sql_query (\<lambda>_. Inr ())) (\<lambda>_. body) (s, w) = (Inr r, sw)"
    and c: "(\<exists>x. r = Inl x) \<and> s' = s \<or> (\<exists>x w3. r = Inr x \<and> sql_query (\<lambda>_. Inr ()) sw = (Inr (), (s', w3)))"
    by (auto simp: transaction_or_def split: prod.splits sum.splits)
  obtain s2 w2 where sw: "sw = (s2, w2)" by fastforce
  from query_bind_Inr [OF b] obtain w1 where "body (s, w1) = (Inr r, (s2, w2))" by (auto simp: sw)
  moreover have "s' = (case r of Inl _ \<Rightarrow> s | Inr _ \<Rightarrow> s2)"
    using c sw by (auto dest: sql_query_run)
  ultimately show ?thesis by blast
qed

lemma atomic_transaction_or: "atomic (transaction_or body)"
  by (auto simp: atomic_def transaction_or_def split: prod.splits sum.splits)

lemma ok_transaction_or:
  assumes "triple (soar_ok a s0) body (\<lambda>_. soar_ok a s0)"
  shows "ok_run a s0 (transaction_or body)"
proof (rule ok_atomic [OF atomic_transaction_or], rule tripleI)
  fix s w x s' w'
  assume ok: "soar_ok a s0 s" and run: "transaction_or body (s, w) = (Inr x, (s', w'))"
  from transaction_or_Inr [OF run] obtain w1 s1 w2 where
    "body (s, w1) = (Inr x, (s1, w2))" "s' = (case x of Inl _ \<Rightarrow> s | Inr _ \<Rightarrow> s1)" by blast
  with assms ok show "soar_ok a s0 s'" by (cases x) (auto dest: tripleD)
qed

lemma insert_rows_ok:
  assumes rules: "playbook_rules a spec"
  shows "triple (soar_ok a s0) (op_bind (sql_exec (insert_execution e)) (\<lambda>_.
           op_bind (insert_snapshots e (sp_nodes spec)) (\<lambda>_. op_return x))) (\<lambda>_. soar_ok a s0)"
proof (rule tripleI)
  fix s w y s' w'
  assume ok: "soar_ok a s0 s" and "op_bind (sql_exec (insert_execution e)) (\<lambda>_.
      op_bind (insert_snapshots e (sp_nodes spec)) (\<lambda>_. op_return x)) (s, w) = (Inr y, (s', w'))"
  then obtain s1 w1 s2 w2 where 1: "sql_exec (insert_execution e) (s, w) = (Inr (), (s1, w1))"
    and 2: "insert_snapshots e (sp_nodes spec) (s1, w1) = (Inr (), (s2, w2))" and 3: "s' = s2"
    by (auto elim!: op_bind_InrE simp: return_Inr)
  from sql_exec_Inr [OF 1] have ins: "insert_execution e s = Inr s1" by simp
  then have frame: "so_nodes s1 = so_nodes s" "so_versions s1 = so_versions s"
    "\<exists>e1. so_executions s1 = so_executions s @ [e1]"
    by (auto simp: insert_execution_def split: if_splits)
  from insert_snapshots_run [OF 2] obtain rows where r: "s2 = s1\<lparr>so_nodes := so_nodes s @ rows\<rparr>"
    "list_all2 (\<lambda>n r. \<exists>i. r = node_snapshot e n i) (sp_nodes spec) rows"
    "distinct (map node_key (so_nodes s)) \<longrightarrow> distinct (map node_key (so_nodes s @ rows))"
    using frame(1) by auto
  have "distinct (map node_key (so_nodes s @ rows))"
    using r(3) soar_invD(2) [OF soar_ok_inv [OF ok]] by (simp add: nodes_inv_def)
  from new_execution_inv [OF soar_ok_inv [OF ok] ins r(2) this rules] r(1) 3 have "soar_inv a s'" by simp
  moreover have "soar_grows s s'"
    using frame r(1) 3 by (auto simp: soar_grows_def same_execution_def)
  ultimately show "soar_ok a s0 s'" by (rule soar_ok_step [OF ok])
qed

lemma launch_states_mem:
  "(p, q) \<in> set (launch_states t i k s) \<Longrightarrow> \<exists>v \<in> set (so_versions s). is_version t i k v \<and> pv_state v = q"
  by (auto simp: launch_states_def)

lemma ok_CreateSOARExecution:
  assumes v: "v \<in> set (so_versions s0)" "is_version (ex_tenant e) (ex_playbook e) (ex_playbook_version e) v"
  shows "ok_run a s0 (CreateSOARExecution e (sp_nodes (pv_spec v)))"
proof -
  let ?key = "is_version (ex_tenant e) (ex_playbook e) (ex_playbook_version e)"
  let ?states = "launch_states (ex_tenant e) (ex_playbook e) (ex_playbook_version e)"
  let ?ins = "op_bind (sql_exec (insert_execution e)) (\<lambda>_.
      op_bind (insert_snapshots e (sp_nodes (pv_spec v))) (\<lambda>_. op_return (Inr () :: string + unit)))"
  have launch: "triple (soar_ok a s0) (op_bind (sql_query (\<lambda>s. Inr (?states s))) (\<lambda>states.
      op_bind (first_row ErrNotFound states) (\<lambda>(published, version).
      if published \<noteq> ''PUBLISHED'' \<or> version \<noteq> ''PUBLISHED'' then op_fail SoarErrInvalidState else ?ins))) (\<lambda>_. soar_ok a s0)"
  proof (rule triple_bind [OF triple_query [where Q = "\<lambda>states s. soar_ok a s0 s \<and> states = ?states s"]], simp)
    fix states
    show "triple (\<lambda>s. soar_ok a s0 s \<and> states = ?states s) (op_bind (first_row ErrNotFound states) (\<lambda>(published, version).
      if published \<noteq> ''PUBLISHED'' \<or> version \<noteq> ''PUBLISHED'' then op_fail SoarErrInvalidState else ?ins)) (\<lambda>_. soar_ok a s0)"
    proof (cases states)
      case Nil
      then show ?thesis by (simp add: first_row_def triple_def op_bind_def op_fail_def)
    next
      case (Cons st rest)
      obtain p q where st: "st = (p, q)" by fastforce
      have "triple (\<lambda>s. soar_ok a s0 s \<and> states = ?states s) ?ins (\<lambda>_. soar_ok a s0)" if pq: "q = ''PUBLISHED''"
      proof (rule tripleI)
        fix s w x s' w'
        assume pre: "soar_ok a s0 s \<and> states = ?states s" and run: "?ins (s, w) = (Inr x, (s', w'))"
        from pre Cons st have "(p, q) \<in> set (?states s)" by (metis list.set_intros(1))
        then obtain u where u: "u \<in> set (so_versions s)" "?key u" "pv_state u = ''PUBLISHED''"
          using launch_states_mem pq by blast
        with pre version_stays [OF _ v u(1,2)] soar_invD(1) [OF soar_ok_inv, of a s0 s]
        have "playbook_rules a (pv_spec v)" by (auto simp: versions_inv_def)
        from tripleD [OF insert_rows_ok [OF this] conjunct1 [OF pre] run]
        show "soar_ok a s0 s'" .
      qed
      note ins = this [unfolded Cons st]
      show ?thesis
        unfolding Cons st bind_first_row prod.case by (rule triple_if, rule triple_fail, rule ins, blast)
    qed
  qed
  show ?thesis
    unfolding CreateSOARExecution_def
  proof (rule ok_bind, rule ok_transaction_or, rule triple_bind [OF ok_run_triple], rule ok_read,
      rule triple_bind [OF ok_run_triple], rule ok_read, goal_cases)
    case (1 u existing)
    then show ?case by (cases existing) (simp_all only: list.case launch ok_run_triple [OF ok_read(1)])
  next
    case (2 outcome)
    then show ?case by (cases outcome) (auto intro!: ok_intros)
  qed
qed

subsection \<open>Claimed nodes\<close>

text \<open>
  A work item is held when its node has a row of the same identity, type and configuration whose
  dependencies have succeeded. A claimed item is held from then on, whatever other workers do.
\<close>

definition held :: "soar_db \<Rightarrow> soar_work_item \<Rightarrow> bool" where
  "held s item \<longleftrightarrow>
     (\<exists>n \<in> set (so_nodes s). \<exists>e \<in> set (so_executions s). node_shape n = node_shape (wi_node item) \<and>
        deps_done (so_nodes s) n \<and> in_execution e n \<and> same_execution e (wi_execution item))"

lemma deps_done_grows:
  assumes "soar_grows s s'" "deps_done (so_nodes s) n" "node_shape n' = node_shape n"
  shows "deps_done (so_nodes s') n'"
  unfolding deps_done_def
proof
  fix d assume "d \<in> set (nx_depends_on n')"
  with assms(2) node_shapeD [OF assms(3)] obtain p where p: "p \<in> set (so_nodes s)" "nx_tenant p = nx_tenant n"
    "nx_execution p = nx_execution n" "nx_node p = d" "nx_status p = ''SUCCEEDED''" by (auto simp: deps_done_def)
  with assms(1) obtain p' where "p' \<in> set (so_nodes s')" "node_shape p' = node_shape p" "nx_status p' = ''SUCCEEDED''"
    by (auto simp: soar_grows_def)
  with p node_shapeD [OF this(2)] node_shapeD [OF assms(3)]
  show "\<exists>p \<in> set (so_nodes s'). nx_tenant p = nx_tenant n' \<and> nx_execution p = nx_execution n' \<and>
      nx_node p = d \<and> nx_status p = ''SUCCEEDED''" by auto
qed

lemma held_grows:
  assumes "soar_grows s s'" "held s item"
  shows "held s' item"
proof -
  from assms(2) obtain n e where n: "n \<in> set (so_nodes s)" "e \<in> set (so_executions s)"
    "node_shape n = node_shape (wi_node item)" "deps_done (so_nodes s) n" "in_execution e n"
    "same_execution e (wi_execution item)" by (auto simp: held_def)
  from assms(1) n(1,2) obtain n' e' where "n' \<in> set (so_nodes s')" "node_shape n' = node_shape n"
    "e' \<in> set (so_executions s')" "same_execution e e'" unfolding soar_grows_def by metis
  moreover from this n have "in_execution e' n'" "same_execution e' (wi_execution item)"
    using node_shapeD [of n' n] by (simp_all add: in_execution_def same_execution_def)
  ultimately show ?thesis using n deps_done_grows [OF assms(1) n(4)] unfolding held_def by metis
qed

lemma nodes_unique:
  "nodes_inv ns \<Longrightarrow> n \<in> set ns \<Longrightarrow> m \<in> set ns \<Longrightarrow> is_node t i n \<Longrightarrow> is_node t i m \<Longrightarrow> m = n"
  by (auto simp: nodes_inv_def is_node_def distinct_map node_key_def inj_on_def)

text \<open>The row of a held item, read later by its key.\<close>

lemma held_row:
  assumes ok: "soar_ok a s0 s" and held: "held s0 item"
    and n: "n \<in> set (so_nodes s)" "is_node (nx_tenant (wi_node item)) (nx_id (wi_node item)) n"
  obtains e where "node_shape n = node_shape (wi_node item)" "deps_done (so_nodes s) n"
    "e \<in> set (so_executions s)" "in_execution e n" "same_execution e (wi_execution item)"
proof -
  from ok held have "held s item" by (auto simp: soar_ok_def intro: held_grows)
  then obtain m e where m: "m \<in> set (so_nodes s)" "e \<in> set (so_executions s)" "node_shape m = node_shape (wi_node item)"
    "deps_done (so_nodes s) m" "in_execution e m" "same_execution e (wi_execution item)" by (auto simp: held_def)
  from node_shapeD [OF m(3)] have "is_node (nx_tenant (wi_node item)) (nx_id (wi_node item)) m" by (simp add: is_node_def)
  with nodes_unique [OF soar_invD(2) [OF soar_ok_inv [OF ok]] n(1) m(1) n(2)] have "m = n" by simp
  with m that show thesis by simp
qed

subsection \<open>The worker's calls\<close>

lemma claim_update_ok:
  assumes ok: "soar_ok a s0 s" and c: "c \<in> set (so_nodes s)" "nx_status c \<in> {''READY'', ''RUNNING''}"
    and f: "\<And>n. node_shape (f n) = node_shape n" "\<And>n. nx_status (f n) = ''RUNNING''"
  shows "node_update_ok s (is_node (nx_tenant c) (nx_id c)) f"
proof (rule node_update_okI)
  fix n assume n: "n \<in> set (so_nodes s)" "is_node (nx_tenant c) (nx_id c) n"
  with nodes_unique [OF soar_invD(2) [OF soar_ok_inv [OF ok]] c(1) n(1) _ n(2)] have "n = c" by (simp add: is_node_def)
  with c(2) f show "moves (so_nodes s) n (nx_status (f n))" by (auto simp: moves_def held_statuses_def)
qed (simp_all add: f)

lemma ClaimSOARNode_triple:
  "triple (soar_ok a s0) (ClaimSOARNode worker scope lease)
     (\<lambda>claimed s. soar_ok a s0 s \<and> (\<forall>item. claimed = Some item \<longrightarrow> held s item))"
proof -
  let ?OK = "soar_ok a s0" and ?Q = "\<lambda>claimed s. soar_ok a s0 s \<and> (\<forall>item. claimed = Some item \<longrightarrow> held s item)"
  let ?scope = "trim_space scope"
  have lease: "triple (\<lambda>s. ?OK s \<and> c \<in> set (so_nodes s) \<and> claimable now ?scope s c)
     (update_nodes (is_node (nx_tenant c) (nx_id c)) f)
     (\<lambda>rows s. ?OK s \<and> (\<forall>r \<in> set rows. r \<in> set (so_nodes s) \<and> nx_tenant r = nx_tenant c \<and> nx_status r = ''RUNNING''))"
    if f: "\<And>n. node_shape (f n) = node_shape n" "\<And>n. nx_status (f n) = ''RUNNING''" for c f now
  proof (rule triple_nodes)
    fix s assume P: "?OK s \<and> c \<in> set (so_nodes s) \<and> claimable now ?scope s c"
    then have "nx_status c \<in> {''READY'', ''RUNNING''}" by (auto simp: claimable_def)
    with P f have "node_update_ok s (is_node (nx_tenant c) (nx_id c)) f" by (intro claim_update_ok) auto
    moreover have "nx_tenant (f n) = nx_tenant n" for n using node_shapeD [OF f(1)] by simp
    moreover from calculation P have "?OK (s\<lparr>so_nodes := update_rows (is_node (nx_tenant c) (nx_id c)) f (so_nodes s)\<rparr>)"
      by (intro ok_update_nodes) auto
    ultimately show "?OK (s\<lparr>so_nodes := update_rows (is_node (nx_tenant c) (nx_id c)) f (so_nodes s)\<rparr>) \<and>
        (\<forall>r \<in> set (returned_rows (is_node (nx_tenant c) (nx_id c)) f (so_nodes s)).
           r \<in> set (so_nodes (s\<lparr>so_nodes := update_rows (is_node (nx_tenant c) (nx_id c)) f (so_nodes s)\<rparr>)) \<and>
           nx_tenant r = nx_tenant c \<and> nx_status r = ''RUNNING'')"
      using f(2) by (auto simp: returned_rows_def update_rows_def is_node_def)
  qed
  have execs: "triple (\<lambda>s. ?OK s \<and> r \<in> set (so_nodes s)) (update_executions P f) (\<lambda>_ s. ?OK s \<and> r \<in> set (so_nodes s))" if "\<And>e. same_execution e (f e)" for r P f
    unfolding update_executions_def by (rule triple_statement) (use that in \<open>auto intro: ok_update_executions\<close>)
  have item: "held s \<lparr>wi_execution = e, wi_node = r\<rparr>"
    if "?OK s" "r \<in> set (so_nodes s)" "nx_status r = ''RUNNING''" "e \<in> set (so_executions s)"
      "is_execution (nx_tenant r) (nx_execution r) e" for s r e
  proof -
    have "deps_done (so_nodes s) r"
      using soar_invD(2) [OF soar_ok_inv [OF that(1)]] that(2,3) by (auto simp: nodes_inv_def started_def)
    moreover have "in_execution e r" using that(5) by (simp add: in_execution_def is_execution_def)
    ultimately show ?thesis using that unfolding held_def by (fastforce simp: same_execution_def)
  qed
  show ?thesis
    unfolding ClaimSOARNode_def Let_def
    apply (rule triple_if, rule triple_fail)
    apply (rule triple_transaction_try)
     prefer 2 subgoal by simp
    apply (rule triple_bind [OF triple_now [where Q = "\<lambda>_. ?OK"]], assumption)
    apply (rule triple_bind [OF ok_run_triple [OF ok_expireSOARApprovals]])
    subgoal for now u
      apply (rule triple_bind [OF triple_query [where
            Q = "\<lambda>queue s. ?OK s \<and> (\<forall>c \<in> set queue. c \<in> set (so_nodes s) \<and> claimable now ?scope s c)"]])
       subgoal by (auto simp: claim_queue_def)
      subgoal for queue
        apply (cases queue)
         subgoal by (auto intro: triple_return)
        subgoal for c rest
          apply (simp only: list.case)
          apply (rule triple_bind [OF triple_pre [OF lease [where now = now]]])
             subgoal by (simp add: node_shape_def)
            subgoal by simp
           subgoal by auto
          subgoal for rows
            apply (cases rows)
             subgoal by (simp add: bind_first_row triple_fail)
            subgoal for r rs
              apply (simp only: bind_first_row)
              apply (rule triple_pre [where P = "\<lambda>s. (nx_tenant r = nx_tenant c \<and> nx_status r = ''RUNNING'') \<and> ?OK s \<and> r \<in> set (so_nodes s)"])
               apply (rule triple_pure)
               apply (rule triple_bind [OF execs])
                subgoal by (simp add: same_execution_def)
               apply (rule triple_select)
               apply (rule triple_return)
               subgoal using item by auto
              subgoal by auto
              done
            done
          done
        done
      done
    done
qed

lemma moves_held:
  "nx_status n \<in> held_statuses \<Longrightarrow> status \<in> {''READY'', ''RUNNING'', ''WAITING_APPROVAL'', ''SUCCEEDED'', ''FAILED''} \<Longrightarrow>
   moves ns n status"
  by (auto simp: moves_def held_statuses_def)

lemma leased_held: "leased_node t i worker n \<Longrightarrow> nx_status n \<in> held_statuses"
  by (simp add: leased_node_def held_statuses_def)

lemma ok_CompleteSOARNode:
  assumes "held s0 item" "nx_type (wi_node item) \<noteq> ''HUMAN_APPROVAL''"
  shows "ok_run a s0 (CompleteSOARNode (nx_tenant (wi_node item)) (nx_id (wi_node item)) worker output)"
proof -
  have "node_update_ok s (leased_node (nx_tenant (wi_node item)) (nx_id (wi_node item)) worker)
      (\<lambda>n. n\<lparr>nx_status := ''SUCCEEDED'', nx_output := payload, nx_error_code := [], nx_error_detail := [],
             nx_lease_owner := [], nx_lease_until := None, nx_completed_at := Some (to_micro now),
             nx_updated_at := to_micro now\<rparr>)" if "soar_ok a s0 s" for s payload now
  proof (rule node_update_okI)
    fix n assume n: "n \<in> set (so_nodes s)" "leased_node (nx_tenant (wi_node item)) (nx_id (wi_node item)) worker n"
    from held_row [OF that assms(1) n(1)] n(2) have "node_shape n = node_shape (wi_node item)"
      by (auto simp: leased_node_def)
    with assms(2) node_shapeD [OF this] show "nx_type n = ''HUMAN_APPROVAL'' \<Longrightarrow> approved (so_approvals s) n" by simp
  qed (auto simp: node_shape_def intro: moves_held leased_held)
  then show ?thesis
    unfolding CompleteSOARNode_def by (intro ok_intros ok_nodes)
qed

lemma ok_leased_update:
  assumes "\<And>n. node_shape (f n) = node_shape n" "\<And>n. nx_status (f n) \<in> {''READY'', ''FAILED'', ''WAITING_APPROVAL''}"
  shows "ok_run a s0 (update_nodes (leased_node t i worker) f)"
proof (rule ok_nodes, rule node_update_okI)
  fix s n
  show "leased_node t i worker n \<Longrightarrow> moves (so_nodes s) n (nx_status (f n))"
    by (rule moves_held [OF leased_held]) (use assms(2) [of n] in auto)
  show "nx_status (f n) = ''SUCCEEDED'' \<Longrightarrow> approved (so_approvals s) n" using assms(2) [of n] by simp
qed (rule assms(1))

lemma ok_resume_execution [ok_intros]: "ok_run a s0 (resume_execution t e now)"
  unfolding resume_execution_def by (intro ok_intros) (simp add: same_execution_def)

lemma ok_DeferSOARNode: "ok_run a s0 (DeferSOARNode t i worker available output)"
  unfolding DeferSOARNode_def by (intro ok_intros ok_leased_update) (simp_all add: node_shape_def)

lemma ok_RetrySOARNode: "ok_run a s0 (RetrySOARNode t i worker available code detail)"
  unfolding RetrySOARNode_def by (intro ok_intros ok_leased_update) (simp_all add: node_shape_def)

lemma ok_FailSOARNode: "ok_run a s0 (FailSOARNode t i worker code detail)"
  unfolding FailSOARNode_def by (intro ok_intros ok_leased_update) (simp_all add: node_shape_def)

lemma ok_RequestSOARManualTask:
  assumes "held s0 item" "nx_type (wi_node item) = ''MANUAL_TASK''"
  shows "ok_run a s0 (RequestSOARManualTask item)"
proof -
  have "node_update_ok s (leased_node (nx_tenant (wi_node item)) (nx_id (wi_node item)) (nx_lease_owner (wi_node item)))
      (\<lambda>n. n\<lparr>nx_status := ''WAITING_MANUAL'', nx_lease_owner := [], nx_lease_until := None, nx_updated_at := to_micro now\<rparr>)"
    if "soar_ok a s0 s" for s now
  proof (rule node_update_okI)
    fix n assume n: "n \<in> set (so_nodes s)"
      "leased_node (nx_tenant (wi_node item)) (nx_id (wi_node item)) (nx_lease_owner (wi_node item)) n"
    from held_row [OF that assms(1) n(1)] n(2) have "node_shape n = node_shape (wi_node item)"
      by (auto simp: leased_node_def)
    with assms(2) node_shapeD [OF this] leased_held [OF n(2)]
    show "moves (so_nodes s) n (nx_status (n\<lparr>nx_status := ''WAITING_MANUAL'', nx_lease_owner := [],
        nx_lease_until := None, nx_updated_at := to_micro now\<rparr>))"
      by (simp add: moves_def held_statuses_def)
  qed (simp_all add: node_shape_def)
  then show ?thesis
    unfolding RequestSOARManualTask_def wait_node_def by (intro ok_intros ok_nodes)
qed

lemma ok_RequestSOARApproval:
  assumes held: "held s0 item" and type: "nx_type (wi_node item) = ''HUMAN_APPROVAL''"
    and count: "configInt (nx_config (wi_node item)) ''required_approvals'' = (required, True)"
  shows "ok_run a s0 (RequestSOARApproval item risk required expires)"
proof -
  let ?t = "nx_tenant (wi_node item)" and ?i = "nx_id (wi_node item)" and ?OK = "soar_ok a s0"
  have insert: "triple (\<lambda>s. ?OK s \<and> n \<in> set (so_nodes s) \<and> is_node ?t ?i n)
      (sql_exec (insert_approval (new_approval item i (nx_execution n) risk required now expires))) (\<lambda>_. ?OK)" for n i now
  proof (rule triple_exec)
    fix s s' assume P: "?OK s \<and> n \<in> set (so_nodes s) \<and> is_node ?t ?i n"
      and run: "insert_approval (new_approval item i (nx_execution n) risk required now expires) s = Inr s'"
    from P obtain e where e: "node_shape n = node_shape (wi_node item)" "e \<in> set (so_executions s)"
      "in_execution e n" "same_execution e (wi_execution item)" by (auto elim: held_row [OF _ held])
    let ?a = "new_approval item i (nx_execution n) risk required now expires"
    have "asks_node ?a n"
      using node_shapeD [OF e(1)] type count P by (simp add: asks_node_def new_approval_def is_node_def)
    moreover have "asked_by ?a e"
      using e node_shapeD [OF e(1)] by (simp add: asked_by_def new_approval_def in_execution_def same_execution_def)
    ultimately show "?OK s'"
      using ok_insert_approval [OF _ run, of a s0 n e] P e(2) by (simp add: new_approval_def)
  qed
  have wait: "ok_run a s0 (wait_node item ''WAITING_APPROVAL'' now)" for now
    unfolding wait_node_def by (intro ok_intros ok_leased_update) (simp_all add: node_shape_def)
  show ?thesis
    unfolding RequestSOARApproval_def Let_def
    apply (rule ok_bind, rule ok_committed)
     apply (rule triple_select, rule triple_if, rule triple_fail)
     apply (rule triple_bind_now, rule triple_bind_new_id, rule triple_bind [OF insert])
     apply (rule ok_run_triple)
     apply (intro ok_intros wait)+
    done
qed

lemma ok_CompleteSOARManualTask: "ok_run a s0 (CompleteSOARManualTask t e node output)"
proof -
  have "node_update_ok s (\<lambda>n. nx_tenant n = t \<and> nx_execution n = e \<and> nx_node n = node \<and> nx_status n = ''WAITING_MANUAL'')
      (\<lambda>n. n\<lparr>nx_status := ''SUCCEEDED'', nx_output := payload, nx_completed_at := Some (to_micro now),
             nx_updated_at := to_micro now\<rparr>)" if "soar_ok a s0 s" for s payload now
    by (rule node_update_okI)
      (use soar_invD(2) [OF soar_ok_inv [OF that]] in
        \<open>auto simp: node_shape_def nodes_inv_def intro: moves_held simp: held_statuses_def\<close>)
  then show ?thesis unfolding CompleteSOARManualTask_def by (intro ok_intros ok_nodes)
qed

definition attempt_for :: "action_catalog \<Rightarrow> soar_work_item \<Rightarrow> soar_action_attempt \<Rightarrow> bool" where
  "attempt_for actions item x \<longleftrightarrow>
     at_tenant x = nx_tenant (wi_node item) \<and> at_node_execution x = nx_id (wi_node item) \<and>
     at_execution x = ex_id (wi_execution item) \<and> nx_type (wi_node item) = ''ACTION'' \<and>
     at_action_type x = fst (configString (nx_config (wi_node item)) ''action_type'') \<and>
     map_option ac_level (actions (at_action_type x)) = Some (at_risk_level x)"

lemma ok_BeginSOARAction:
  assumes held: "held s0 item" and x: "attempt_for a item x"
  shows "ok_run a s0 (BeginSOARAction x)"
proof -
  have "ok_run a s0 (statement (insert_attempt (x\<lparr>at_request := req, at_result := res\<rparr>)))" for req res
  proof (rule ok_statement)
    fix s y s' assume ok: "soar_ok a s0 s" and run: "insert_attempt (x\<lparr>at_request := req, at_result := res\<rparr>) s = (y, s')"
    from ok held have "held s item" by (auto simp: soar_ok_def intro: held_grows)
    then obtain n e where n: "n \<in> set (so_nodes s)" "node_shape n = node_shape (wi_node item)" "deps_done (so_nodes s) n"
      "in_execution e n" "same_execution e (wi_execution item)" by (auto simp: held_def)
    then have "attempt_of a (so_nodes s) (x\<lparr>at_request := req, at_result := res\<rparr>) n"
      using x node_shapeD [OF n(2)]
      by (auto simp: attempt_of_def attempt_for_def is_node_def in_execution_def same_execution_def
          simp del: map_option_eq_Some)
    with ok_insert_attempt [OF ok run n(1)] show "soar_ok a s0 s'" by blast
  qed
  then show ?thesis
    unfolding BeginSOARAction_def
    by (intro ok_intros) (auto split: option.split intro: ok_intros)
qed

lemma ok_FinishSOARAction: "ok_run a s0 (FinishSOARAction t i status res c d v)"
  unfolding FinishSOARAction_def by (intro ok_intros) simp

subsection \<open>Decisions\<close>

lemma approvals_unique:
  "approvals_inv es ns as \<Longrightarrow> b \<in> set as \<Longrightarrow> c \<in> set as \<Longrightarrow> is_approval t i b \<Longrightarrow> is_approval t i c \<Longrightarrow> c = b"
  by (auto simp: approvals_inv_def is_approval_def distinct_map inj_on_def)

lemma approve_count_eq: "approve_count (av_tenant b) (av_id b) s = int (length (approvers_of (so_decisions s) b))"
  by (simp add: approve_count_def decisions_of_def approvers_of_def filter_map comp_def filter_filter conj_assoc)

text \<open>An approval that was read as pending and is updated by its key.\<close>

definition pending_approval :: "tenant \<Rightarrow> string \<Rightarrow> soar_approval \<Rightarrow> soar_db \<Rightarrow> bool" where
  "pending_approval t i b s \<longleftrightarrow> b \<in> set (so_approvals s) \<and> is_approval t i b \<and> av_status b = ''PENDING''"

lemma pending_update_ok:
  assumes ok: "soar_ok a s0 s" and b: "pending_approval t i b s"
    and f: "\<And>r. av_tenant (f r) = av_tenant r \<and> av_id (f r) = av_id r \<and> av_execution (f r) = av_execution r \<and>
        av_node_execution (f r) = av_node_execution r \<and> av_required (f r) = av_required r \<and>
        av_requested_by (f r) = av_requested_by r"
    and q: "av_status (f b) = ''APPROVED'' \<Longrightarrow> av_required b \<le> int (length (approvers_of (so_decisions s) b))"
  shows "soar_ok a s0 (s\<lparr>so_approvals := update_rows (is_approval t i) f (so_approvals s)\<rparr>)"
proof (rule ok_update_approvals [OF ok], unfold approval_update_ok_def, intro ballI impI)
  fix r assume "r \<in> set (so_approvals s)" "is_approval t i r"
  with b approvals_unique [OF soar_invD(4) [OF soar_ok_inv [OF ok]], of b r t i] have "r = b"
    by (simp add: pending_approval_def)
  with f q b show "av_tenant (f r) = av_tenant r \<and> av_id (f r) = av_id r \<and> av_execution (f r) = av_execution r \<and>
      av_node_execution (f r) = av_node_execution r \<and> av_required (f r) = av_required r \<and>
      av_requested_by (f r) = av_requested_by r \<and>
      (av_status r = ''APPROVED'' \<longrightarrow> av_status (f r) = ''APPROVED'') \<and>
      (av_status (f r) = ''APPROVED'' \<longrightarrow> av_status r = ''APPROVED'' \<or>
         av_required r \<le> int (length (approvers_of (so_decisions s) r)))"
    by (simp add: pending_approval_def)
qed

lemma expire_late_triple:
  "triple (\<lambda>s. soar_ok a s0 s \<and> pending_approval t (av_id b) b s) (expire_late t b now) (\<lambda>_. soar_ok a s0)"
  unfolding expire_late_def
proof (rule triple_bind)
  show "triple (\<lambda>s. soar_ok a s0 s \<and> pending_approval t (av_id b) b s) (update_approvals (is_approval t (av_id b))
      (\<lambda>r. r\<lparr>av_status := ''EXPIRED'', av_decided_at := Some (to_micro now), av_version := av_version r + 1\<rparr>))
      (\<lambda>_. soar_ok a s0)"
    by (rule triple_approvals) (auto intro: pending_update_ok)
  show "triple (soar_ok a s0) (op_bind (sql_exec (\<lambda>s. Inr (expire_node t (av_node_execution b) now s)))
      (\<lambda>_. promoteAndReconcileSOAR t (av_execution b) now)) (\<lambda>_. soar_ok a s0)"
    by (rule ok_run_triple) (intro ok_intros ok_expire_node)
qed

text \<open>What is known when the final status has been determined.\<close>

definition decided :: "tenant \<Rightarrow> soar_approval \<Rightarrow> string \<Rightarrow> soar_db \<Rightarrow> bool" where
  "decided t b final s \<longleftrightarrow>
     pending_approval t (av_id b) b s \<and> final \<in> {[], ''REJECTED'', ''APPROVED''} \<and>
     (final = ''APPROVED'' \<longrightarrow> av_required b \<le> int (length (approvers_of (so_decisions s) b)))"

lemma final_status_triple:
  "triple (\<lambda>s. soar_ok a s0 s \<and> pending_approval t (av_id b) b s) (final_status b cm) (\<lambda>final s. soar_ok a s0 s \<and> decided t b final s)"
  unfolding final_status_def
proof (rule triple_if)
  show "triple (\<lambda>s. soar_ok a s0 s \<and> pending_approval t (av_id b) b s) (op_return ''REJECTED'')
      (\<lambda>final s. soar_ok a s0 s \<and> decided t b final s)"
    by (rule triple_return) (simp add: decided_def)
  show "triple (\<lambda>s. soar_ok a s0 s \<and> pending_approval t (av_id b) b s)
      (op_bind (sql_query (\<lambda>s. Inr (approve_count (av_tenant b) (av_id b) s)))
        (\<lambda>approvals. op_return (if av_required b \<le> approvals then ''APPROVED'' else [])))
      (\<lambda>final s. soar_ok a s0 s \<and> decided t b final s)"
    by (rule triple_bind [OF triple_query [where Q = "\<lambda>k s. (soar_ok a s0 s \<and> pending_approval t (av_id b) b s) \<and>
          k = int (length (approvers_of (so_decisions s) b))"]])
      (auto simp: approve_count_eq decided_def intro!: triple_return)
qed

lemma finalize_approval_triple:
  assumes "final \<noteq> []"
  shows "triple (\<lambda>s. soar_ok a s0 s \<and> decided t b final s) (finalize_approval t b cm final now) (\<lambda>_. soar_ok a s0)"
  unfolding finalize_approval_def
proof (rule triple_bind)
  let ?done = "\<lambda>s. soar_ok a s0 s \<and> (final = ''REJECTED'' \<or>
      (\<exists>c \<in> set (so_approvals s). av_tenant c = t \<and> av_node_execution c = av_node_execution b \<and> av_status c = ''APPROVED''))"
  let ?f = "\<lambda>r. r\<lparr>av_status := final, av_decided_at := Some (to_micro now), av_version := av_version r + 1\<rparr>"
  show "triple (\<lambda>s. soar_ok a s0 s \<and> decided t b final s) (update_approvals (is_approval t (av_id b)) ?f) (\<lambda>_. ?done)"
  proof (rule triple_approvals)
    fix s assume P: "soar_ok a s0 s \<and> decided t b final s"
    let ?s = "s\<lparr>so_approvals := update_rows (is_approval t (av_id b)) ?f (so_approvals s)\<rparr>"
    have "soar_ok a s0 ?s"
      by (rule pending_update_ok [where b = b]) (use P in \<open>auto simp: decided_def\<close>)
    moreover have "?f b \<in> set (so_approvals ?s)" "av_tenant b = t"
      using P by (auto simp: decided_def pending_approval_def update_rows_def is_approval_def)
    moreover have "final = ''REJECTED'' \<or> final = ''APPROVED''" using P assms by (auto simp: decided_def)
    ultimately show "?done ?s" by force
  qed
  show "triple ?done (op_bind (update_nodes (\<lambda>n. is_node t (av_node_execution b) n \<and> nx_status n = ''WAITING_APPROVAL'')
      (settle_approval_node b final (cm_reason cm) now)) (\<lambda>rows.
      if length rows \<noteq> 1 then op_fail SoarErrInvalidState else promoteAndReconcileSOAR t (av_execution b) now))
      (\<lambda>_. soar_ok a s0)"
  proof (rule triple_bind [OF triple_nodes])
    fix s assume P: "?done s"
    show "soar_ok a s0 (s\<lparr>so_nodes := update_rows (\<lambda>n. is_node t (av_node_execution b) n \<and> nx_status n = ''WAITING_APPROVAL'')
        (settle_approval_node b final (cm_reason cm) now) (so_nodes s)\<rparr>)"
    proof (rule ok_update_nodes [OF conjunct1 [OF P]], rule node_update_okI)
      fix n assume n: "is_node t (av_node_execution b) n \<and> nx_status n = ''WAITING_APPROVAL''"
      show "node_shape (settle_approval_node b final (cm_reason cm) now n) = node_shape n"
        by (simp add: settle_approval_node_def node_shape_def)
      show "moves (so_nodes s) n (nx_status (settle_approval_node b final (cm_reason cm) now n))"
        by (rule moves_held) (use n in \<open>simp_all add: settle_approval_node_def held_statuses_def\<close>)
      assume "nx_status (settle_approval_node b final (cm_reason cm) now n) = ''SUCCEEDED''"
      then have "final \<noteq> ''REJECTED''" by (auto simp: settle_approval_node_def)
      with P n show "approved (so_approvals s) n" by (auto simp: approved_def is_node_def)
    qed
  next
    fix rows :: "soar_node_execution list"
    show "triple (soar_ok a s0) (if length rows \<noteq> 1 then op_fail SoarErrInvalidState
        else promoteAndReconcileSOAR t (av_execution b) now) (\<lambda>_. soar_ok a s0)"
      by (rule ok_run_triple) (intro ok_intros)
  qed
qed

lemma record_decision_triple:
  assumes "av_requested_by b \<noteq> approver"
  shows "triple (\<lambda>s. soar_ok a s0 s \<and> pending_approval t (av_id b) b s) (record_decision t b approver cm now) (\<lambda>_. soar_ok a s0)"
  unfolding record_decision_def
proof (rule triple_bind)
  let ?P = "\<lambda>s. soar_ok a s0 s \<and> pending_approval t (av_id b) b s"
  let ?d = "\<lparr>de_approver = approver, de_decision = cm_decision cm, de_reason = cm_reason cm, de_decided_at = to_micro now\<rparr>"
  show "triple ?P (statement (insert_decision t (av_id b) ?d)) (\<lambda>_. ?P)"
  proof (rule triple_statement)
    fix s x s' assume P: "?P s" and run: "insert_decision t (av_id b) ?d s = (Inr x, s')"
    have "so_approvals s' = so_approvals s" using run by (auto simp: insert_decision_def split: if_splits)
    with P ok_insert_decision [OF conjunct1 [OF P] run, of b] assms show "?P s'"
      by (auto simp: pending_approval_def)
  qed
  fix inserted
  show "triple ?P (if \<not> inserted then op_fail ErrAlreadyExists
    else op_bind (final_status b cm) (\<lambda>final.
         op_bind (if final \<noteq> [] then finalize_approval t b cm final now
                  else op_bind (update_approvals (is_approval t (av_id b)) (\<lambda>r. r\<lparr>av_version := av_version r + 1\<rparr>))
                         (\<lambda>_. op_return ())) (\<lambda>_.
         op_bind (on_pg (appendAuditTx (decision_audit t approver b cm (if final \<noteq> [] then final else ''PENDING'') now))) (\<lambda>_.
         op_return ())))) (\<lambda>_. soar_ok a s0)"
  proof (rule triple_if, rule triple_fail, rule triple_bind [OF final_status_triple], rule triple_bind, rule triple_if,
      erule finalize_approval_triple)
    fix final
    show "triple (\<lambda>s. soar_ok a s0 s \<and> decided t b final s)
        (op_bind (update_approvals (is_approval t (av_id b)) (\<lambda>r. r\<lparr>av_version := av_version r + 1\<rparr>)) (\<lambda>_. op_return ()))
        (\<lambda>_. soar_ok a s0)"
      by (rule triple_bind [OF triple_approvals [where Q = "soar_ok a s0"]])
        (auto simp: decided_def pending_approval_def intro!: triple_return intro: pending_update_ok [where b = b])
  next
    fix final
    show "triple (soar_ok a s0) (op_bind (on_pg (appendAuditTx (decision_audit t approver b cm
        (if final \<noteq> [] then final else ''PENDING'') now))) (\<lambda>_. op_return ())) (\<lambda>_. soar_ok a s0)"
      by (rule ok_run_triple) (intro ok_intros)
  qed
qed

lemma ok_DecideSOARApproval: "ok_run a s0 (DecideSOARApproval t i approver cm)"
proof -
  have row: "soar_ok a s0 s \<and> b \<in> set (so_approvals s) \<and> is_approval t i b \<Longrightarrow> \<not> av_status b \<noteq> ''PENDING'' \<Longrightarrow>
      soar_ok a s0 s \<and> pending_approval t (av_id b) b s" for s b
    by (auto simp: pending_approval_def is_approval_def)
  show ?thesis
    unfolding DecideSOARApproval_def
    apply (rule ok_bind, rule ok_committed)
     apply (rule triple_select, rule triple_bind_now)
     apply (rule triple_if, rule triple_fail, rule triple_if, rule triple_fail, rule triple_if)
      apply (rule triple_bind [OF triple_pre [OF expire_late_triple]], erule (1) row, rule triple_return, assumption)
     apply (rule triple_if, rule triple_fail)
     apply (rule triple_bind [OF triple_pre [OF record_decision_triple]], assumption, erule (1) row, rule triple_return, assumption)
    apply (intro ok_intros)
    done
qed

end
