(* ===== verification/Soar_Worker.thy ===== *)
theory Soar_Worker
  imports Soar_Runtime
begin

text \<open>
  The worker, \<^verbatim>\<open>internal/soar/worker.go\<close>: it claims one node, runs it according to its type and settles it,
  or puts it back with an exponential backoff, or fails it. The connectors behind \<^verbatim>\<open>ActionExecutor\<close> are a
  parameter, and so is the handling of connector tests that \<^verbatim>\<open>ProcessOne\<close> tries first. An error of type
  \<^verbatim>\<open>*NodeError\<close> is the constructor \<^term>\<open>NodeError\<close>.
\<close>

subsection \<open>Configuration and executor\<close>

record soar_worker_config =
  wk_id :: string
  wk_tenant :: tenant
  wk_lease :: duration

definition worker_config :: "soar_worker_config \<Rightarrow> soar_worker_config" where
  "worker_config c =
    c\<lparr>wk_id := (if trim_space (wk_id c) = [] then ''soar-worker'' else wk_id c),
      wk_lease := (if wk_lease c \<le> 0 then 30 * go_second else wk_lease c)\<rparr>"

record soar_action_request =
  rq_attempt :: soar_action_attempt
  rq_execution :: soar_execution
  rq_node :: soar_node_execution

text \<open>A result, a \<^verbatim>\<open>*NodeError\<close>, or any other error with its text.\<close>

datatype exec_outcome = Executed config string | NodeFailure string string bool | OtherFailure string

type_synonym executor = "soar_action_request \<Rightarrow> world \<Rightarrow> exec_outcome \<times> world"

definition run_executor :: "executor \<Rightarrow> soar_action_request \<Rightarrow> (soar_db, exec_outcome) op" where
  "run_executor execute req = op_world (\<lambda>w. let (out, w') = execute req w in (Inr out, w'))"

definition SafeActionExecutor :: executor where
  "SafeActionExecutor req w =
    (let a = rq_attempt req
     in (if at_mode a = ''DRY_RUN'' then
           Executed [(''dry_run'', JBool True), (''action_type'', JStr (at_action_type a)),
                     (''connector_id'', JStr (at_connector a)), (''parameters'', JObj (at_request a))] ''DRY_RUN_VERIFIED''
         else if at_action_type a = ''kcsp.enrich.threat_intel'' then
           Executed [(''enriched'', JBool True), (''source'', JStr ''kcsp-threat-intelligence''),
                     (''context_preserved'', JBool True)] ''VERIFIED''
         else NodeFailure ''connector_unavailable'' ''live execution requires a configured connector implementation'' True, w))"

subsection \<open>Conditions and transformations\<close>

fun path_value :: "json \<Rightarrow> string list \<Rightarrow> json option" where
  "path_value v [] = Some v"
| "path_value (JObj kvs) (seg # segs) = (case map_of kvs seg of None \<Rightarrow> None | Some v \<Rightarrow> path_value v segs)"
| "path_value v (seg # segs) = None"

definition contextPath :: "config \<Rightarrow> string \<Rightarrow> json option" where
  "contextPath data path = path_value (JObj data) (split_char CHR ''.'' path)"

text \<open>
  What \<^verbatim>\<open>fmt.Sprint\<close> prints for a decoded number: \<^verbatim>\<open>%g\<close> of a \<^verbatim>\<open>float64\<close> with an exponent from seven
  digits on.
\<close>

definition float_text :: "int \<Rightarrow> string" where
  "float_text i =
    (let digits = nat_dec (nat \<bar>i\<bar>); e = length digits - 1; m = drop_zeros digits
     in (if i < 0 then ''-'' else []) @
        (if e < 6 then digits
         else hd m # (if tl m = [] then [] else CHR ''.'' # tl m) @ ''e+'' @ zero_pad 2 e))"

fun decoded :: "json \<Rightarrow> json" where
  "decoded (JInt i) = JFloat (float_text i)"
| "decoded (JArr xs) = JArr (map decoded xs)"
| "decoded (JObj kvs) = JObj (map (\<lambda>(k, v). (k, decoded v)) kvs)"
| "decoded v = v"

definition sprint_value :: "json option \<Rightarrow> string" where
  "sprint_value v = (case v of None \<Rightarrow> ''<nil>'' | Some x \<Rightarrow> sprint (decoded x))"

definition evaluateCondition :: "config \<Rightarrow> config \<Rightarrow> bool result" where
  "evaluateCondition data cfg =
    (let (field, ok) = configString cfg ''field''; comparator = to_lower (fst (configString cfg ''comparator''));
         actual = contextPath data field;
         equal = (sprint_value actual = sprint_value (map_of cfg ''value''))
     in if \<not> ok then Inl (NodeError ''invalid_condition'' ''field is required'' True)
        else if comparator = ''exists'' then Inr (actual \<noteq> None)
        else if comparator = ''not_exists'' then Inr (actual = None)
        else if comparator = ''eq'' then Inr (actual \<noteq> None \<and> equal)
        else if comparator = ''neq'' then Inr (actual \<noteq> None \<and> \<not> equal)
        else Inl (NodeError ''invalid_condition'' ''unsupported comparator'' True))"

definition is_str :: "json \<Rightarrow> bool" where
  "is_str v = (case v of JStr _ \<Rightarrow> True | _ \<Rightarrow> False)"

definition mapped_value :: "config \<Rightarrow> string \<times> json \<Rightarrow> (string \<times> json) option" where
  "mapped_value data kv =
    (case snd kv of JStr source \<Rightarrow> map_option (\<lambda>v. (fst kv, v)) (contextPath data source) | _ \<Rightarrow> None)"

definition transformContext :: "config \<Rightarrow> config \<Rightarrow> config result" where
  "transformContext data cfg =
    (case map_of cfg ''mappings'' of
       Some (JObj mappings) \<Rightarrow>
         if mappings = [] \<or> 50 < length mappings
         then Inl (NodeError ''invalid_transform'' ''mappings must contain 1 to 50 entries'' True)
         else if \<not> list_all (\<lambda>kv. is_str (snd kv)) mappings
         then Inl (NodeError ''invalid_transform'' ''mapping source must be a context path'' True)
         else Inr (List.map_filter (mapped_value data) mappings)
     | _ \<Rightarrow> Inl (NodeError ''invalid_transform'' ''mappings must contain 1 to 50 entries'' True))"

subsection \<open>Actions\<close>

definition fail_node :: "string \<Rightarrow> string \<Rightarrow> (soar_db, 'a) op" where
  "fail_node code detail = op_fail (NodeError code detail True)"

definition complete_item :: "soar_worker_config \<Rightarrow> soar_work_item \<Rightarrow> config \<Rightarrow> (soar_db, unit) op" where
  "complete_item cfg item output = CompleteSOARNode (nx_tenant (wi_node item)) (nx_id (wi_node item)) (wk_id cfg) output"

definition action_attempt :: "soar_work_item \<Rightarrow> string \<Rightarrow> soar_action \<Rightarrow> string \<Rightarrow> time \<Rightarrow> soar_action_attempt" where
  "action_attempt item action_type descriptor i now =
    (let cfg = nx_config (wi_node item); connector = fst (configString cfg ''connector_id'')
     in \<lparr>at_id = i, at_tenant = nx_tenant (wi_node item), at_execution = ex_id (wi_execution item),
         at_node_execution = nx_id (wi_node item),
         at_idempotency_key = ex_id (wi_execution item) @ ''|'' @ nx_node (wi_node item) @ ''|'' @ action_type,
         at_connector = (if connector = [] then ''kcsp-internal'' else connector), at_action_type = action_type,
         at_risk_level = ac_level descriptor, at_mode = effective_mode cfg, at_status = ''RUNNING'',
         at_request = (case map_of cfg ''parameters'' of Some (JObj m) \<Rightarrow> m | _ \<Rightarrow> []), at_result = [],
         at_error_class = [], at_error_detail = [], at_verification = [], at_compensation = [],
         at_created_at = now, at_updated_at = now\<rparr>)"

definition fail_attempt :: "soar_action_attempt \<Rightarrow> string \<Rightarrow> string \<Rightarrow> bool \<Rightarrow> (soar_db, unit) op" where
  "fail_attempt stored code detail permanent =
    op_bind (FinishSOARAction (at_tenant stored) (at_id stored) ''FAILED'' [] code detail [])
      (\<lambda>_. op_fail (NodeError code detail permanent))"

definition executeAction ::
  "action_catalog \<Rightarrow> executor \<Rightarrow> soar_worker_config \<Rightarrow> soar_work_item \<Rightarrow> (soar_db, unit) op" where
  "executeAction actions execute cfg item =
    (let (action_type, ok) = configString (nx_config (wi_node item)) ''action_type''
     in if \<not> ok then fail_node ''invalid_action'' ''action_type is required''
        else case actions action_type of
          None \<Rightarrow> fail_node ''unknown_action'' ''action is not registered''
        | Some descriptor \<Rightarrow>
            op_bind op_now (\<lambda>now.
            op_bind (op_new_id ''sat'') (\<lambda>i.
            op_bind (BeginSOARAction (action_attempt item action_type descriptor i now)) (\<lambda>(stored, created).
            if \<not> created \<and> at_status stored = ''SUCCEEDED'' then complete_item cfg item (at_result stored)
            else op_bind (run_executor execute \<lparr>rq_attempt = stored, rq_execution = wi_execution item, rq_node = wi_node item\<rparr>) (\<lambda>out.
              case out of
                NodeFailure code detail permanent \<Rightarrow> fail_attempt stored code detail permanent
              | OtherFailure text \<Rightarrow> fail_attempt stored ''connector_error'' text False
              | Executed output verification \<Rightarrow>
                  op_bind (FinishSOARAction (at_tenant stored) (at_id stored) ''SUCCEEDED'' output [] [] verification) (\<lambda>finished.
                  complete_item cfg item (at_result finished)))))))"

subsection \<open>One node\<close>

definition process :: "action_catalog \<Rightarrow> executor \<Rightarrow> soar_worker_config \<Rightarrow> soar_work_item \<Rightarrow> (soar_db, unit) op" where
  "process actions execute cfg item =
    (let node = wi_node item; ty = nx_type node
     in if ty = ''ACTION'' then executeAction actions execute cfg item
        else if ty = ''HUMAN_APPROVAL'' then
          (let (required, ok) = configInt (nx_config node) ''required_approvals''
           in if \<not> ok \<or> required < 1 \<or> 2 < required
              then fail_node ''invalid_approval'' ''required_approvals must be 1 or 2''
              else op_bind op_now (\<lambda>now.
                   op_bind (RequestSOARApproval item (if required = 2 then 5 else 4) required (now + 24 * hour)) (\<lambda>_.
                   op_return ())))
        else if ty = ''MANUAL_TASK'' then RequestSOARManualTask item
        else if ty = ''DELAY'' then
          (if map_of (nx_output node) ''delay_until'' = None then
             (let (seconds, ok) = configInt (nx_config node) ''duration_seconds''
              in if \<not> ok \<or> seconds < 1 \<or> 86400 < seconds
                 then fail_node ''invalid_delay'' ''duration_seconds is outside safe bounds''
                 else op_bind op_now (\<lambda>now.
                      let until = now + seconds * go_second
                      in DeferSOARNode (nx_tenant node) (nx_id node) (wk_id cfg) until
                           [(''delay_until'', JStr (rfc3339nano until))]))
           else complete_item cfg item (nx_output node))
        else if ty = ''CONDITION'' then
          op_bind (op_lift (evaluateCondition (ex_context (wi_execution item)) (nx_config node))) (\<lambda>holds.
          complete_item cfg item [(''condition_result'', JBool holds)])
        else if ty = ''TRANSFORM'' then
          op_bind (op_lift (transformContext (ex_context (wi_execution item)) (nx_config node))) (complete_item cfg item)
        else if ty \<in> {''TRIGGER'', ''PARALLEL'', ''RETRY''} then complete_item cfg item [(''completed'', JBool True)]
        else fail_node ''unsupported_node'' (''node type '' @ ty @ '' has no enabled runtime''))"

definition retry_delay :: "soar_node_execution \<Rightarrow> duration" where
  "retry_delay node =
    (let backoff = (if sr_backoff (nx_retry node) < 1 then 1 else sr_backoff (nx_retry node));
         maximum = (if sr_maximum_backoff (nx_retry node) < backoff then backoff else sr_maximum_backoff (nx_retry node))
     in min maximum (backoff * 2 ^ nat (nx_attempt node - 1)) * go_second)"

definition handle_failure :: "soar_worker_config \<Rightarrow> soar_work_item \<Rightarrow> string \<Rightarrow> string \<Rightarrow> bool \<Rightarrow> (soar_db, unit) op" where
  "handle_failure cfg item code detail permanent =
    (let node = wi_node item;
         maximum = (if sr_maximum_attempts (nx_retry node) < 1 then 1 else sr_maximum_attempts (nx_retry node))
     in if \<not> permanent \<and> nx_attempt node < maximum
        then op_bind op_now (\<lambda>now.
             RetrySOARNode (nx_tenant node) (nx_id node) (wk_id cfg) (now + retry_delay node) code detail)
        else FailSOARNode (nx_tenant node) (nx_id node) (wk_id cfg) code detail)"

text \<open>A claimed node is run, and what its failure is depends on the kind of the error.\<close>

definition work_on :: "action_catalog \<Rightarrow> executor \<Rightarrow> soar_worker_config \<Rightarrow> soar_work_item \<Rightarrow> (soar_db, unit) op" where
  "work_on actions execute cfg item sw =
    (case process actions execute cfg item sw of
       (Inl (NodeError code detail permanent), sw') \<Rightarrow> handle_failure cfg item code detail permanent sw'
     | outcome \<Rightarrow> outcome)"

definition ProcessOne ::
  "action_catalog \<Rightarrow> executor \<Rightarrow> (soar_db, bool) op option \<Rightarrow> soar_worker_config \<Rightarrow> (soar_db, bool) op" where
  "ProcessOne actions execute connector_tests cfg =
    op_bind (case connector_tests of None \<Rightarrow> op_return False | Some tests \<Rightarrow> tests) (\<lambda>worked.
    if worked then op_return True
    else op_bind (ClaimSOARNode (wk_id cfg) (wk_tenant cfg) (wk_lease cfg)) (\<lambda>claimed.
         case claimed of
           None \<Rightarrow> op_return False
         | Some item \<Rightarrow> op_bind (work_on actions execute cfg item) (\<lambda>_. op_return True)))"

end
