(* ===== verification/Soar_Service.thy ===== *)
theory Soar_Service
  imports Soar_Runtime
begin

text \<open>
  The playbook service, \<^verbatim>\<open>internal/soar/service.go\<close>: drafts are validated when they are written and again
  before they are published, only published versions run, and people decide approvals and complete
  manual tasks. The store is the durable one, so the assertion that it controls the runtime holds.
\<close>

record soar_draft =
  dft_name :: string
  dft_description :: string
  dft_spec :: soar_spec

record soar_execution_request =
  xr_playbook :: string
  xr_request :: string
  xr_trigger_type :: string
  xr_resource_type :: string
  xr_resource_id :: string
  xr_context :: config

definition CreatePlaybook :: "action_catalog \<Rightarrow> tenant \<Rightarrow> string \<Rightarrow> soar_draft \<Rightarrow> (soar_db, soar_details) op" where
  "CreatePlaybook actions t actor draft =
    (let name = trim_space (dft_name draft); description = trim_space (dft_description draft)
     in if t = [] \<or> actor = [] \<or> length name < 2 \<or> 160 < length name \<or> 4000 < length description
        then op_fail ErrInvalidPlaybook
        else op_bind op_now (\<lambda>validated.
             let report = Validate actions (dft_spec draft) validated
             in op_bind op_now (\<lambda>now.
                op_bind (op_new_id ''pbk'') (\<lambda>i.
                CreateSOARPlaybook
                  \<lparr>pb_id = i, pb_tenant = t, pb_name = name, pb_description = description, pb_state = ''DRAFT'',
                   pb_latest_version = 1, pb_published_version = 0, pb_revision = 1, pb_created_by = actor,
                   pb_updated_by = actor, pb_created_at = now, pb_updated_at = now\<rparr>
                  (draft_version t i 1 actor (dft_spec draft) report now)))))"

definition CreateVersion ::
  "action_catalog \<Rightarrow> tenant \<Rightarrow> string \<Rightarrow> string \<Rightarrow> soar_spec \<Rightarrow> (soar_db, soar_version) op" where
  "CreateVersion actions t i actor spec =
    (if actor = [] \<or> trim_space i = [] then op_fail ErrInvalidPlaybook
     else op_bind op_now (\<lambda>now. CreateSOARPlaybookVersion t i actor spec (Validate actions spec now)))"

text \<open>The first version of the list with the number, as the loop over the details finds it.\<close>

definition ValidateVersion :: "action_catalog \<Rightarrow> tenant \<Rightarrow> string \<Rightarrow> int \<Rightarrow> (soar_db, soar_version) op" where
  "ValidateVersion actions t i version =
    op_bind (GetSOARPlaybook t i) (\<lambda>details.
    case find (\<lambda>v. pv_version v = version) (pd_versions details) of
      None \<Rightarrow> op_fail ErrInvalidPlaybook
    | Some item \<Rightarrow>
        if pv_state item = ''PUBLISHED'' \<or> pv_state item = ''RETIRED'' then op_fail SoarErrInvalidState
        else op_bind op_now (\<lambda>now. SaveSOARValidation t i version (Validate actions (pv_spec item) now)))"

definition PublishVersion :: "action_catalog \<Rightarrow> tenant \<Rightarrow> string \<Rightarrow> int \<Rightarrow> string \<Rightarrow> (soar_db, soar_details) op" where
  "PublishVersion actions t i version actor =
    op_bind (ValidateVersion actions t i version) (\<lambda>validated.
    if \<not> rp_valid (pv_validation validated) then op_fail ErrValidationFailed
    else PublishSOARPlaybookVersion t i version actor)"

definition published_of :: "soar_details \<Rightarrow> soar_version option" where
  "published_of d =
    find (\<lambda>v. pv_version v = pb_published_version (pd_playbook d) \<and> pv_state v = ''PUBLISHED'') (pd_versions d)"

definition trimmed_request :: "soar_execution_request \<Rightarrow> soar_execution_request" where
  "trimmed_request r =
    r\<lparr>xr_playbook := trim_space (xr_playbook r), xr_request := trim_space (xr_request r),
      xr_trigger_type := to_upper (trim_space (xr_trigger_type r)),
      xr_resource_type := trim_space (xr_resource_type r), xr_resource_id := trim_space (xr_resource_id r)\<rparr>"

definition new_execution :: "tenant \<Rightarrow> string \<Rightarrow> soar_execution_request \<Rightarrow> int \<Rightarrow> string \<Rightarrow> time \<Rightarrow> soar_execution" where
  "new_execution t actor r version i now =
    \<lparr>ex_id = i, ex_tenant = t, ex_playbook = xr_playbook r, ex_playbook_version = version, ex_request = xr_request r,
     ex_trigger_type = xr_trigger_type r, ex_resource_type = xr_resource_type r, ex_resource_id = xr_resource_id r,
     ex_context = xr_context r, ex_status = ''QUEUED'', ex_version = 1, ex_triggered_by = actor,
     ex_created_at = now, ex_updated_at = now, ex_started_at = None, ex_completed_at = None, ex_nodes = []\<rparr>"

text \<open>A version number of 0 is that of the zero struct: no published version was found.\<close>

definition StartExecution ::
  "tenant \<Rightarrow> string \<Rightarrow> soar_execution_request \<Rightarrow> (soar_db, soar_execution \<times> bool) op" where
  "StartExecution t actor request =
    (let r = trimmed_request request
     in if actor = [] \<or> xr_playbook r = [] \<or> length (xr_request r) < 8 \<or> 200 < length (xr_request r)
        then op_fail ErrInvalidExecution
        else op_bind (GetSOARPlaybook t (xr_playbook r)) (\<lambda>details.
          if pb_state (pd_playbook details) \<noteq> ''PUBLISHED'' \<or> pb_published_version (pd_playbook details) < 1
          then op_fail SoarErrInvalidState
          else case published_of details of
            None \<Rightarrow> op_fail SoarErrInvalidState
          | Some published \<Rightarrow>
              if xr_trigger_type r \<noteq> to_upper (sp_trigger_type (pv_spec published)) then op_fail ErrInvalidExecution
              else if xr_trigger_type r \<noteq> ''MANUAL'' \<and> (xr_resource_type r = [] \<or> xr_resource_id r = [])
              then op_fail ErrInvalidExecution
              else if 1048576 < length (marshal (JObj (xr_context r))) then op_fail ErrInvalidExecution
              else op_bind op_now (\<lambda>now.
                   op_bind (op_new_id ''sex'') (\<lambda>i.
                   CreateSOARExecution (new_execution t actor r (pv_version published) i now)
                     (sp_nodes (pv_spec published))))))"

definition clamp_limit :: "int \<Rightarrow> int" where
  "clamp_limit n = (let m = (if n \<le> 0 then 100 else n) in if 500 < m then 500 else m)"

definition Executions :: "tenant \<Rightarrow> soar_execution_filter \<Rightarrow> (soar_db, soar_execution list) op" where
  "Executions t f =
    ListSOARExecutions t (f\<lparr>xf_limit := clamp_limit (xf_limit f), xf_status := to_upper (trim_space (xf_status f))\<rparr>)"

definition Approvals :: "tenant \<Rightarrow> soar_approval_filter \<Rightarrow> (soar_db, soar_approval list) op" where
  "Approvals t f =
    (let status = to_upper (trim_space (apf_status f))
     in if status \<notin> {[], ''PENDING'', ''APPROVED'', ''REJECTED'', ''EXPIRED'', ''CANCELLED''} then op_fail ErrInvalidExecution
        else ListSOARApprovals t \<lparr>apf_status = status, apf_execution = trim_space (apf_execution f),
               apf_limit = clamp_limit (apf_limit f)\<rparr>)"

definition DecideApproval :: "tenant \<Rightarrow> string \<Rightarrow> string \<Rightarrow> soar_approval_command \<Rightarrow> (soar_db, soar_approval) op" where
  "DecideApproval t approval_id actor_id request =
    (let i = trim_space approval_id; actor = trim_space actor_id; reason = trim_space (cm_reason request)
     in if i = [] \<or> actor = [] then op_fail ErrInvalidExecution
        else if \<not> decision_valid (cm_decision request) then op_fail ErrInvalidApprovalDecision
        else if length reason < 2 \<or> 2000 < length reason then op_fail ErrInvalidApprovalReason
        else if cm_version request < 1 then op_fail ErrInvalidApprovalDecision
        else DecideSOARApproval t i actor (request\<lparr>cm_reason := reason\<rparr>))"

text \<open>
  The output is copied and stamped; the stamp replaces a value the caller gave. The time is stored as the
  text it is encoded to.
\<close>

definition put_key :: "string \<Rightarrow> json \<Rightarrow> config \<Rightarrow> config" where
  "put_key k v cfg = filter (\<lambda>kv. fst kv \<noteq> k) cfg @ [(k, v)]"

definition CompleteManualTask :: "tenant \<Rightarrow> string \<Rightarrow> string \<Rightarrow> string \<Rightarrow> config \<Rightarrow> (soar_db, soar_execution) op" where
  "CompleteManualTask t execution_id node_id actor_id output =
    (let e = trim_space execution_id; node = trim_space node_id; actor = trim_space actor_id
     in if e = [] \<or> node = [] \<or> actor = [] then op_fail ErrInvalidExecution
        else if 1048576 < length (marshal (JObj output)) then op_fail ErrInvalidExecution
        else op_bind op_now (\<lambda>now.
             CompleteSOARManualTask t e node
               (put_key ''completed_at'' (JStr (rfc3339nano now)) (put_key ''completed_by'' (JStr actor) output))))"

definition ActionAttempts :: "tenant \<Rightarrow> string \<Rightarrow> int \<Rightarrow> (soar_db, soar_action_attempt list) op" where
  "ActionAttempts t execution_id limit =
    (let e = trim_space execution_id
     in if e = [] then op_fail ErrInvalidExecution else ListSOARActionAttempts t e (clamp_limit limit))"

end
