(* ===== verification/Soar_Steps.thy ===== *)
theory Soar_Steps
  imports Soar_Runs Soar_Worker Soar_Service
begin

text \<open>
  Automated response as a transition system. Any number of workers and service requests run at the
  same time, and each of their calls of the store is one step. A step carries the guarantee under which
  the code makes the call: that the item was claimed, that its node has the right type, that the version
  was read. The state is the database together with what has been learned from it so far: the items
  workers have claimed and the versions requests have read. A worker that stops, or loses its lease,
  simply takes no further step.
\<close>

type_synonym soar_system = "soar_db \<times> soar_work_item set \<times> soar_version set"

inductive soar_step :: "action_catalog \<Rightarrow> soar_system \<Rightarrow> soar_system \<Rightarrow> bool" for actions :: action_catalog where
  create_playbook:
    "CreateSOARPlaybook p v (s, w) = (r, (s', w')) \<Longrightarrow> pv_state v = ''DRAFT'' \<Longrightarrow>
     soar_step actions (s, W, V) (s', W, V)"
| create_version:
    "CreateSOARPlaybookVersion t i actor spec report (s, w) = (r, (s', w')) \<Longrightarrow> soar_step actions (s, W, V) (s', W, V)"
| read_playbook:
    "GetSOARPlaybook t i (s, w) = (Inr d, (s', w')) \<Longrightarrow>
     soar_step actions (s, W, V) (s', W, set (pd_versions d) \<union> V)"
| save_validation:
    "SaveSOARValidation t i k (Validate actions (pv_spec v) now) (s, w) = (r, (s', w')) \<Longrightarrow> v \<in> V \<Longrightarrow>
     is_version t i k v \<Longrightarrow> soar_step actions (s, W, V) (s', W, V)"
| publish:
    "PublishSOARPlaybookVersion t i k actor (s, w) = (r, (s', w')) \<Longrightarrow> soar_step actions (s, W, V) (s', W, V)"
| disable:
    "DisableSOARPlaybook t i actor (s, w) = (r, (s', w')) \<Longrightarrow> soar_step actions (s, W, V) (s', W, V)"
| start_execution:
    "CreateSOARExecution e (sp_nodes (pv_spec v)) (s, w) = (r, (s', w')) \<Longrightarrow> v \<in> V \<Longrightarrow>
     is_version (ex_tenant e) (ex_playbook e) (ex_playbook_version e) v \<Longrightarrow> soar_step actions (s, W, V) (s', W, V)"
| claim:
    "ClaimSOARNode worker scope lease (s, w) = (Inr (Some item), (s', w')) \<Longrightarrow>
     soar_step actions (s, W, V) (s', insert item W, V)"
| complete:
    "CompleteSOARNode (nx_tenant (wi_node item)) (nx_id (wi_node item)) worker output (s, w) = (r, (s', w')) \<Longrightarrow>
     item \<in> W \<Longrightarrow> nx_type (wi_node item) \<noteq> ''HUMAN_APPROVAL'' \<Longrightarrow> soar_step actions (s, W, V) (s', W, V)"
| defer_node:
    "DeferSOARNode t i worker available output (s, w) = (r, (s', w')) \<Longrightarrow> soar_step actions (s, W, V) (s', W, V)"
| retry:
    "RetrySOARNode t i worker available code detail (s, w) = (r, (s', w')) \<Longrightarrow> soar_step actions (s, W, V) (s', W, V)"
| fail:
    "FailSOARNode t i worker code detail (s, w) = (r, (s', w')) \<Longrightarrow> soar_step actions (s, W, V) (s', W, V)"
| request_approval:
    "RequestSOARApproval item risk required expires (s, w) = (r, (s', w')) \<Longrightarrow> item \<in> W \<Longrightarrow>
     nx_type (wi_node item) = ''HUMAN_APPROVAL'' \<Longrightarrow>
     configInt (nx_config (wi_node item)) ''required_approvals'' = (required, True) \<Longrightarrow>
     soar_step actions (s, W, V) (s', W, V)"
| request_manual:
    "RequestSOARManualTask item (s, w) = (r, (s', w')) \<Longrightarrow> item \<in> W \<Longrightarrow> nx_type (wi_node item) = ''MANUAL_TASK'' \<Longrightarrow>
     soar_step actions (s, W, V) (s', W, V)"
| begin_action:
    "BeginSOARAction x (s, w) = (r, (s', w')) \<Longrightarrow> item \<in> W \<Longrightarrow> attempt_for actions item x \<Longrightarrow>
     soar_step actions (s, W, V) (s', W, V)"
| finish_action:
    "FinishSOARAction t i status res code detail verification (s, w) = (r, (s', w')) \<Longrightarrow>
     soar_step actions (s, W, V) (s', W, V)"
| decide:
    "DecideSOARApproval t i approver cm (s, w) = (r, (s', w')) \<Longrightarrow> soar_step actions (s, W, V) (s', W, V)"
| complete_manual:
    "CompleteSOARManualTask t e node output (s, w) = (r, (s', w')) \<Longrightarrow> soar_step actions (s, W, V) (s', W, V)"
| elsewhere:
    "soar_step actions (s, W, V) (s\<lparr>so_pg := p\<rparr>, W, V)"

definition soar_reachable :: "action_catalog \<Rightarrow> soar_system \<Rightarrow> bool" where
  "soar_reachable actions S \<longleftrightarrow> (\<exists>p. (soar_step actions)\<^sup>*\<^sup>* (empty_soar p, {}, {}) S)"

subsection \<open>The invariant of the system\<close>

text \<open>A version that was read still has its specification.\<close>

definition on_file :: "soar_db \<Rightarrow> soar_version \<Rightarrow> bool" where
  "on_file s v \<longleftrightarrow> (\<exists>v' \<in> set (so_versions s).
     pv_tenant v' = pv_tenant v \<and> pv_playbook v' = pv_playbook v \<and> pv_version v' = pv_version v \<and> pv_spec v' = pv_spec v)"

lemma on_file_grows: "soar_grows s s' \<Longrightarrow> on_file s v \<Longrightarrow> on_file s' v"
  unfolding soar_grows_def on_file_def by metis

definition system_inv :: "action_catalog \<Rightarrow> soar_system \<Rightarrow> bool" where
  "system_inv actions S \<longleftrightarrow>
     soar_inv actions (fst S) \<and> (\<forall>item \<in> fst (snd S). held (fst S) item) \<and> (\<forall>v \<in> snd (snd S). on_file (fst S) v)"

lemma system_inv_grows:
  "system_inv a (s, W, V) \<Longrightarrow> soar_ok a s s' \<Longrightarrow> system_inv a (s', W, V)"
  by (auto simp: system_inv_def soar_ok_def intro: held_grows on_file_grows)

lemma ok_here:
  assumes "ok_run a s f" "f (s, w) = (r, (s', w'))" "system_inv a (s, W, V)"
  shows "system_inv a (s', W, V)"
proof -
  from assms(3) have "soar_ok a s s" by (simp add: system_inv_def soar_ok_def)
  from system_inv_grows [OF assms(3) ok_runD [OF assms(1) this assms(2)]] show ?thesis .
qed

lemma ok_run_on_file:
  assumes "on_file s v" "\<And>u. u \<in> set (so_versions s) \<Longrightarrow> pv_spec u = pv_spec v \<Longrightarrow> pv_tenant u = pv_tenant v \<Longrightarrow>
      pv_playbook u = pv_playbook v \<Longrightarrow> pv_version u = pv_version v \<Longrightarrow> ok_run a s f"
  shows "ok_run a s f"
  using assms unfolding on_file_def by metis

lemma GetSOARPlaybook_Inr:
  assumes "GetSOARPlaybook t i (s, w) = (Inr d, (s', w'))"
  shows "s' = s \<and> set (pd_versions d) = {v \<in> set (so_versions s). pv_tenant v = t \<and> pv_playbook v = i}"
proof -
  from query_bind_Inr [OF assms [unfolded GetSOARPlaybook_def]] obtain w1 where
    "op_bind (first_row ErrNotFound (filter (is_playbook t i) (so_playbooks s))) (\<lambda>p.
       op_bind (sql_query (\<lambda>s. Inr (sort_key (\<lambda>v. - pv_version v)
         (filter (\<lambda>v. pv_tenant v = t \<and> pv_playbook v = i) (so_versions s))))) (\<lambda>versions.
       op_return \<lparr>pd_playbook = p, pd_versions = versions\<rparr>)) (s, w1) = (Inr d, (s', w'))" by auto
  note run = this
  show ?thesis
  proof (cases "filter (is_playbook t i) (so_playbooks s)")
    case Nil
    from run [unfolded Nil bind_first_row] show ?thesis by simp
  next
    case (Cons p ps)
    from query_bind_Inr [OF run [unfolded Cons bind_first_row]]
    have "s' = s" "pd_versions d = sort_key (\<lambda>v. - pv_version v)
        (filter (\<lambda>v. pv_tenant v = t \<and> pv_playbook v = i) (so_versions s))"
      by (simp_all add: return_Inr)
    then show ?thesis by simp
  qed
qed

lemma soar_step_inv: "soar_step a S S' \<Longrightarrow> system_inv a S \<Longrightarrow> system_inv a S'"
proof (induction rule: soar_step.induct)
  case (create_playbook p v s w r s' w' W V)
  from ok_here [OF ok_CreateSOARPlaybook [OF create_playbook(2)] create_playbook(1,3)] show ?case .
next
  case (create_version t i actor spec report s w r s' w' W V)
  from ok_here [OF ok_CreateSOARPlaybookVersion create_version] show ?case .
next
  case (read_playbook t i s w d s' w' W V)
  from GetSOARPlaybook_Inr [OF read_playbook.hyps] have "s' = s" "\<forall>v \<in> set (pd_versions d). on_file s v"
    unfolding on_file_def by blast+
  with read_playbook.prems show ?case by (simp add: system_inv_def ball_Un)
next
  case (save_validation t i k v now s w r s' w' V W)
  have "ok_run a s (SaveSOARValidation t i k (Validate a (pv_spec v) now))"
  proof (rule ok_run_on_file)
    show "on_file s v" using save_validation by (auto simp: system_inv_def)
    fix u assume u: "u \<in> set (so_versions s)" "pv_spec u = pv_spec v" "pv_tenant u = pv_tenant v"
      "pv_playbook u = pv_playbook v" "pv_version u = pv_version v"
    with save_validation(3) ok_SaveSOARValidation [OF u(1), of t i k a now]
    show "ok_run a s (SaveSOARValidation t i k (Validate a (pv_spec v) now))" by (simp add: is_version_def)
  qed
  from ok_here [OF this save_validation(1,4)] show ?case .
next
  case (publish t i k actor s w r s' w' W V)
  from ok_here [OF ok_PublishSOARPlaybookVersion publish] show ?case .
next
  case (disable t i actor s w r s' w' W V)
  from ok_here [OF ok_DisableSOARPlaybook disable] show ?case .
next
  case (start_execution e v s w r s' w' V W)
  have "ok_run a s (CreateSOARExecution e (sp_nodes (pv_spec v)))"
  proof (rule ok_run_on_file)
    show "on_file s v" using start_execution by (auto simp: system_inv_def)
    fix u assume u: "u \<in> set (so_versions s)" "pv_spec u = pv_spec v" "pv_tenant u = pv_tenant v"
      "pv_playbook u = pv_playbook v" "pv_version u = pv_version v"
    with start_execution(3) ok_CreateSOARExecution [OF u(1), of e a]
    show "ok_run a s (CreateSOARExecution e (sp_nodes (pv_spec v)))" by (simp add: is_version_def)
  qed
  from ok_here [OF this start_execution(1,4)] show ?case .
next
  case (claim worker scope lease s w item s' w' W V)
  then have "soar_ok a s s" by (simp add: system_inv_def soar_ok_def)
  from tripleD [OF ClaimSOARNode_triple this claim.hyps] have "soar_ok a s s'" "held s' item" by simp_all
  with system_inv_grows [OF claim.prems] show ?case by (simp add: system_inv_def)
next
  case (complete item worker res s w r s' w' W V)
  then have "held s item" by (simp add: system_inv_def)
  from ok_here [OF ok_CompleteSOARNode [OF this complete(3)] complete(1,4)] show ?case .
next
  case (defer_node t i worker available res s w r s' w' W V)
  from ok_here [OF ok_DeferSOARNode defer_node] show ?case .
next
  case (retry t i worker available code detail s w r s' w' W V)
  from ok_here [OF ok_RetrySOARNode retry] show ?case .
next
  case (fail t i worker code detail s w r s' w' W V)
  from ok_here [OF ok_FailSOARNode fail] show ?case .
next
  case (request_approval item risk required expires s w r s' w' W V)
  then have "held s item" by (simp add: system_inv_def)
  from ok_here [OF ok_RequestSOARApproval [OF this request_approval(3,4)] request_approval(1,5)] show ?case .
next
  case (request_manual item s w r s' w' W V)
  then have "held s item" by (simp add: system_inv_def)
  from ok_here [OF ok_RequestSOARManualTask [OF this request_manual(3)] request_manual(1,4)] show ?case .
next
  case (begin_action x s w r s' w' item W V)
  then have "held s item" by (simp add: system_inv_def)
  from ok_here [OF ok_BeginSOARAction [OF this begin_action(3)] begin_action(1,4)] show ?case .
next
  case (finish_action t i status res code detail verification s w r s' w' W V)
  from ok_here [OF ok_FinishSOARAction finish_action] show ?case .
next
  case (decide t i approver cm s w r s' w' W V)
  from ok_here [OF ok_DecideSOARApproval decide] show ?case .
next
  case (complete_manual t e node res s w r s' w' W V)
  from ok_here [OF ok_CompleteSOARManualTask complete_manual] show ?case .
next
  case (elsewhere s W V p)
  then have "soar_ok a s s" by (simp add: system_inv_def soar_ok_def)
  from system_inv_grows [OF elsewhere ok_on_pg [OF this]] show ?case .
qed

lemma reachable_inv: "soar_reachable actions S \<Longrightarrow> system_inv actions S"
proof -
  assume "soar_reachable actions S"
  then obtain p where "(soar_step actions)\<^sup>*\<^sup>* (empty_soar p, {}, {}) S" by (auto simp: soar_reachable_def)
  then show ?thesis
    by (induction rule: rtranclp_induct) (simp_all add: system_inv_def [of _ "(empty_soar p, {}, {})"] empty_soar_inv soar_step_inv)
qed

lemma reachable_soar_inv: "soar_reachable actions (s, W, V) \<Longrightarrow> soar_inv actions s"
  using reachable_inv [of actions "(s, W, V)"] by (simp add: system_inv_def)

lemma reachable_step: "soar_reachable a S \<Longrightarrow> (soar_step a)\<^sup>*\<^sup>* S S' \<Longrightarrow> soar_reachable a S'"
  unfolding soar_reachable_def by (meson rtranclp_trans)

end
