(* ===== verification/Soar_Composition.thy ===== *)
theory Soar_Composition
  imports Soar_Steps
begin

text \<open>
  The worker's loop and the service's requests are sequences of the steps of the transition system.
  \<open>knows\<close> says what a piece of such a run has to know when it starts: the items it works on were claimed
  and the versions it refers to were read. As a relation between databases it is reflexive and
  transitive for every such knowledge, so it is closed under the code's sequencing.
\<close>

definition knows :: "action_catalog \<Rightarrow> soar_work_item set \<Rightarrow> soar_version set \<Rightarrow> soar_db \<Rightarrow> soar_db \<Rightarrow> bool" where
  "knows a I R s s' \<longleftrightarrow>
     (\<forall>W V. I \<subseteq> W \<and> R \<subseteq> V \<longrightarrow> (\<exists>W' V'. W \<subseteq> W' \<and> V \<subseteq> V' \<and> (soar_step a)\<^sup>*\<^sup>* (s, W, V) (s', W', V')))"

lemma knowsI:
  "(\<And>W V. I \<subseteq> W \<Longrightarrow> R \<subseteq> V \<Longrightarrow> (soar_step a)\<^sup>*\<^sup>* (s, W, V) (s', W, V)) \<Longrightarrow> knows a I R s s'"
  unfolding knows_def by blast

interpretation knows_rel: step_relation "knows a I R" for a I R
proof unfold_locales
  show "knows a I R s s" for s by (rule knowsI) simp
  fix s1 s2 s3
  assume 12: "knows a I R s1 s2" and 23: "knows a I R s2 s3"
  show "knows a I R s1 s3"
    unfolding knows_def
  proof (intro allI impI)
    fix W V
    assume "I \<subseteq> W \<and> R \<subseteq> V"
    with 12 obtain W1 V1 where 1: "W \<subseteq> W1" "V \<subseteq> V1" "(soar_step a)\<^sup>*\<^sup>* (s1, W, V) (s2, W1, V1)" "I \<subseteq> W1 \<and> R \<subseteq> V1"
      unfolding knows_def by (meson subset_trans)
    with 23 obtain W2 V2 where "W1 \<subseteq> W2" "V1 \<subseteq> V2" "(soar_step a)\<^sup>*\<^sup>* (s2, W1, V1) (s3, W2, V2)"
      unfolding knows_def by meson
    with 1 show "\<exists>W' V'. W \<subseteq> W' \<and> V \<subseteq> V' \<and> (soar_step a)\<^sup>*\<^sup>* (s1, W, V) (s3, W', V')"
      by (meson subset_trans rtranclp_trans)
  qed
qed

lemma knows_weaken: "knows a I R s s' \<Longrightarrow> I \<subseteq> I' \<Longrightarrow> R \<subseteq> R' \<Longrightarrow> knows a I' R' s s'"
  unfolding knows_def by (meson subset_trans)

lemma op_knows_weaken: "op_rel (knows a I R) f \<Longrightarrow> I \<subseteq> I' \<Longrightarrow> R \<subseteq> R' \<Longrightarrow> op_rel (knows a I' R') f"
  unfolding op_rel_def by (blast intro: knows_weaken)

lemma op_knowsI:
  assumes "\<And>s w r s' w' W V. f (s, w) = (r, (s', w')) \<Longrightarrow> I \<subseteq> W \<Longrightarrow> R \<subseteq> V \<Longrightarrow> soar_step a (s, W, V) (s', W, V)"
  shows "op_rel (knows a I R) f"
  by (rule op_relI, rule knowsI) (blast intro: assms)

named_theorems run_intros \<open>pieces of runs\<close>

lemmas [run_intros] = knows_rel.rel_bind knows_rel.rel_return knows_rel.rel_fail knows_rel.rel_lift
  knows_rel.rel_now knows_rel.rel_new_id knows_rel.rel_query

lemma knows_if [run_intros]:
  "(b \<Longrightarrow> op_rel (knows a I R) f) \<Longrightarrow> (\<not> b \<Longrightarrow> op_rel (knows a I R) g) \<Longrightarrow> op_rel (knows a I R) (if b then f else g)"
  by simp

subsection \<open>Calls\<close>

lemma knows_calls [run_intros]:
  "op_rel (knows a I R) (CreateSOARPlaybookVersion t i actor spec report)"
  "op_rel (knows a I R) (PublishSOARPlaybookVersion t i k actor)"
  "op_rel (knows a I R) (DisableSOARPlaybook t i actor)"
  "op_rel (knows a I R) (DeferSOARNode t i worker available payload)"
  "op_rel (knows a I R) (RetrySOARNode t i worker available code detail)"
  "op_rel (knows a I R) (FailSOARNode t i worker code detail)"
  "op_rel (knows a I R) (FinishSOARAction t i status payload code detail verification)"
  "op_rel (knows a I R) (DecideSOARApproval t i approver cm)"
  "op_rel (knows a I R) (CompleteSOARManualTask t e node payload)"
  by (rule op_knowsI, erule soar_step.intros)+

lemma knows_CreateSOARPlaybook: "pv_state v = ''DRAFT'' \<Longrightarrow> op_rel (knows a I R) (CreateSOARPlaybook p v)"
  by (rule op_knowsI, erule soar_step.create_playbook)

lemma knows_SaveSOARValidation:
  "v \<in> R \<Longrightarrow> is_version t i k v \<Longrightarrow> op_rel (knows a I R) (SaveSOARValidation t i k (Validate a (pv_spec v) now))"
  by (rule op_knowsI, erule soar_step.save_validation) auto

lemma knows_CreateSOARExecution:
  "v \<in> R \<Longrightarrow> is_version (ex_tenant e) (ex_playbook e) (ex_playbook_version e) v \<Longrightarrow>
   op_rel (knows a I R) (CreateSOARExecution e (sp_nodes (pv_spec v)))"
  by (rule op_knowsI, erule soar_step.start_execution) auto

lemma knows_CompleteSOARNode:
  "item \<in> I \<Longrightarrow> nx_type (wi_node item) \<noteq> ''HUMAN_APPROVAL'' \<Longrightarrow>
   op_rel (knows a I R) (CompleteSOARNode (nx_tenant (wi_node item)) (nx_id (wi_node item)) worker payload)"
  by (rule op_knowsI, erule soar_step.complete) auto

lemma knows_RequestSOARApproval:
  "item \<in> I \<Longrightarrow> nx_type (wi_node item) = ''HUMAN_APPROVAL'' \<Longrightarrow>
   configInt (nx_config (wi_node item)) ''required_approvals'' = (required, True) \<Longrightarrow>
   op_rel (knows a I R) (RequestSOARApproval item risk required expires)"
  by (rule op_knowsI, erule soar_step.request_approval) auto

lemma knows_RequestSOARManualTask:
  "item \<in> I \<Longrightarrow> nx_type (wi_node item) = ''MANUAL_TASK'' \<Longrightarrow> op_rel (knows a I R) (RequestSOARManualTask item)"
  by (rule op_knowsI, erule soar_step.request_manual) auto

lemma knows_BeginSOARAction:
  "item \<in> I \<Longrightarrow> attempt_for a item x \<Longrightarrow> op_rel (knows a I R) (BeginSOARAction x)"
  by (rule op_knowsI, erule soar_step.begin_action) auto

subsection \<open>The worker\<close>

lemma knows_run_executor [run_intros]: "op_rel (knows a I R) (run_executor execute req)"
  unfolding run_executor_def by (rule knows_rel.rel_world)

lemma knows_fail_attempt [run_intros]: "op_rel (knows a I R) (fail_attempt stored code detail permanent)"
  unfolding fail_attempt_def by (intro run_intros)

lemma action_attempt_for:
  assumes "nx_type (wi_node item) = ''ACTION''" "configString (nx_config (wi_node item)) ''action_type'' = (ty, True)"
    "a ty = Some d"
  shows "attempt_for a item (action_attempt item ty d i now)"
  using assms by (simp add: attempt_for_def action_attempt_def Let_def)

lemma knows_complete_item:
  "item \<in> I \<Longrightarrow> nx_type (wi_node item) \<noteq> ''HUMAN_APPROVAL'' \<Longrightarrow> op_rel (knows a I R) (complete_item cfg item payload)"
  unfolding complete_item_def by (rule knows_CompleteSOARNode)

lemma knows_executeAction:
  assumes "item \<in> I" and type: "nx_type (wi_node item) = ''ACTION''"
  shows "op_rel (knows a I R) (executeAction a execute cfg item)"
proof -
  obtain ty ok where ty: "configString (nx_config (wi_node item)) ''action_type'' = (ty, ok)" by fastforce
  have complete: "op_rel (knows a I R) (complete_item cfg item payload)" for payload
    by (rule knows_complete_item) (simp_all add: assms)
  show ?thesis
  proof (cases "ok \<and> (\<exists>d. a ty = Some d)")
    case False
    then show ?thesis
      unfolding executeAction_def ty Let_def prod.case fail_node_def
      by (auto intro: run_intros split: option.split)
  next
    case True
    then obtain d where d: "ok" "a ty = Some d" by blast
    have begin_it: "op_rel (knows a I R) (BeginSOARAction (action_attempt item ty d i now))" for i now
      by (rule knows_BeginSOARAction [OF assms(1)], rule action_attempt_for) (use type ty d in simp_all)
    have outcome: "op_rel (knows a I R) (case out of
        NodeFailure code detail permanent \<Rightarrow> fail_attempt stored code detail permanent
      | OtherFailure text \<Rightarrow> fail_attempt stored ''connector_error'' text False
      | Executed payload verification \<Rightarrow>
          op_bind (FinishSOARAction (at_tenant stored) (at_id stored) ''SUCCEEDED'' payload [] [] verification) (\<lambda>finished.
          complete_item cfg item (at_result finished)))" for out stored
      by (cases out) (simp_all add: run_intros complete)
    show ?thesis
      unfolding executeAction_def ty Let_def prod.case d(2) option.case if_not_P [OF iffD2 [OF not_not d(1)]]
      by (intro run_intros begin_it) (auto intro!: run_intros complete outcome split: prod.split)
  qed
qed

lemma knows_process:
  assumes item: "item \<in> I"
  shows "op_rel (knows a I R) (process a execute cfg item)"
proof -
  have fail: "op_rel (knows a I R) (fail_node code detail)" for code detail
    unfolding fail_node_def by (rule run_intros)
  obtain required ok where c: "configInt (nx_config (wi_node item)) ''required_approvals'' = (required, ok)" by fastforce
  obtain seconds given where d: "configInt (nx_config (wi_node item)) ''duration_seconds'' = (seconds, given)" by fastforce
  show ?thesis
    unfolding process_def Let_def c d prod.case
    by (intro run_intros fail knows_executeAction knows_complete_item knows_RequestSOARApproval
        knows_RequestSOARManualTask item) (use c in auto)
qed

lemma knows_work_on:
  assumes item: "item \<in> I"
  shows "op_rel (knows a I R) (work_on a execute cfg item)"
proof (rule op_relI)
  fix s w r s' w'
  assume run: "work_on a execute cfg item (s, w) = (r, (s', w'))"
  obtain q s1 w1 where p: "process a execute cfg item (s, w) = (q, (s1, w1))" by (metis prod.exhaust)
  from op_relD [OF knows_process [OF item] p] have 1: "knows a I R s s1" .
  have failure: "op_rel (knows a I R) (handle_failure cfg item code detail permanent)" for code detail permanent
    unfolding handle_failure_def Let_def by (intro run_intros)
  show "knows a I R s s'"
  proof (cases "\<exists>code detail permanent. q = Inl (NodeError code detail permanent)")
    case True
    with run p obtain code detail permanent where
      "handle_failure cfg item code detail permanent (s1, w1) = (r, (s', w'))" by (auto simp: work_on_def)
    from knows_rel.R_trans [OF 1 op_relD [OF failure this]] show ?thesis .
  next
    case False
    with run p have "s' = s1" by (auto simp: work_on_def split: sum.splits error.splits)
    with 1 show ?thesis by simp
  qed
qed

text \<open>A claim that finds no node, or fails, has changed nothing.\<close>

lemma transaction_try_nothing:
  assumes "transaction_try body (s, w) = (r, (s', w'))" "\<forall>x. r \<noteq> Inr (Some x)"
  shows "s' = s"
  using assms by (auto simp: transaction_try_def split: prod.splits sum.splits option.splits)

lemma ClaimSOARNode_nothing:
  assumes "ClaimSOARNode worker scope lease (s, w) = (r, (s', w'))" "\<forall>item. r \<noteq> Inr (Some item)"
  shows "s' = s"
  using assms unfolding ClaimSOARNode_def Let_def
  by (auto simp: op_fail_def dest: transaction_try_nothing split: if_splits)

text \<open>A claim that finds a node hands it to what follows.\<close>

lemma knows_claim:
  assumes "\<And>item. op_rel (knows a (insert item I) R) (g (Some item))" "op_rel (knows a I R) (g None)"
  shows "op_rel (knows a I R) (op_bind (ClaimSOARNode worker scope lease) g)"
proof (rule op_relI)
  fix s w r s' w'
  assume run: "op_bind (ClaimSOARNode worker scope lease) g (s, w) = (r, (s', w'))"
  obtain q s1 w1 where c: "ClaimSOARNode worker scope lease (s, w) = (q, (s1, w1))" by (metis prod.exhaust)
  show "knows a I R s s'"
  proof (cases "\<exists>item. q = Inr (Some item)")
    case True
    then obtain item where q: "q = Inr (Some item)" by blast
    with run c have "g (Some item) (s1, w1) = (r, (s', w'))" by (simp add: op_bind_def)
    from op_relD [OF assms(1) this] have next_steps: "knows a (insert item I) R s1 s'" .
    show ?thesis
      unfolding knows_def
    proof (intro allI impI)
      fix W V
      assume "I \<subseteq> W \<and> R \<subseteq> V"
      then have "insert item I \<subseteq> insert item W \<and> R \<subseteq> V" by blast
      with next_steps obtain W' V' where "insert item W \<subseteq> W'" "V \<subseteq> V'"
        "(soar_step a)\<^sup>*\<^sup>* (s1, insert item W, V) (s', W', V')" unfolding knows_def by meson
      moreover have "soar_step a (s, W, V) (s1, insert item W, V)"
        using c q by (auto intro: soar_step.claim)
      ultimately show "\<exists>W' V'. W \<subseteq> W' \<and> V \<subseteq> V' \<and> (soar_step a)\<^sup>*\<^sup>* (s, W, V) (s', W', V')"
        by (meson converse_rtranclp_into_rtranclp subset_insertI subset_trans)
    qed
  next
    case False
    then have "\<forall>item. q \<noteq> Inr (Some item)" by blast
    with ClaimSOARNode_nothing [OF c] have s1: "s1 = s" by blast
    show ?thesis
    proof (cases "q = Inr None")
      case True
      with run c s1 have "g None (s, w1) = (r, (s', w'))" by (simp add: op_bind_def)
      from op_relD [OF assms(2) this] show ?thesis .
    next
      case no_item: False
      with False obtain e where "q = Inl e" by (metis sum.exhaust option.exhaust)
      with run c s1 have "s' = s" by (simp add: op_bind_def)
      then show ?thesis by (simp add: knows_rel.R_refl)
    qed
  qed
qed

lemma knows_ProcessOne:
  assumes "\<And>tests. connector_tests = Some tests \<Longrightarrow> op_rel (\<lambda>s s'. \<exists>p. s' = s\<lparr>so_pg := p\<rparr>) tests"
  shows "op_rel (knows a I R) (ProcessOne a execute connector_tests cfg)"
proof -
  have "op_rel (knows a I R) (case connector_tests of None \<Rightarrow> op_return False | Some tests \<Rightarrow> tests)"
  proof (cases connector_tests)
    case None
    then show ?thesis by (simp add: run_intros)
  next
    case (Some tests)
    have "knows a I R s (s\<lparr>so_pg := p\<rparr>)" for s p
      by (rule knowsI) (blast intro: soar_step.elsewhere)
    with assms [OF Some] Some show ?thesis unfolding op_rel_def by fastforce
  qed
  then show ?thesis
    unfolding ProcessOne_def
    by (intro run_intros knows_claim) (auto intro!: run_intros knows_work_on)
qed

subsection \<open>The service\<close>

text \<open>The versions of a playbook that was read.\<close>

lemma knows_read:
  assumes "\<And>d. (\<And>v. v \<in> set (pd_versions d) \<Longrightarrow> pv_tenant v = t \<and> pv_playbook v = i) \<Longrightarrow>
     op_rel (knows a I (set (pd_versions d) \<union> R)) (g d)"
  shows "op_rel (knows a I R) (op_bind (GetSOARPlaybook t i) g)"
proof (rule op_relI)
  fix s w r s' w'
  assume run: "op_bind (GetSOARPlaybook t i) g (s, w) = (r, (s', w'))"
  obtain q s1 w1 where c: "GetSOARPlaybook t i (s, w) = (q, (s1, w1))" by (metis prod.exhaust)
  show "knows a I R s s'"
  proof (cases q)
    case (Inl e)
    with run c have "s' = s1" by (simp add: op_bind_def)
    moreover have "read_only (GetSOARPlaybook t i)"
      unfolding GetSOARPlaybook_def first_row_def
      by (auto intro!: read_only_bind read_only_query read_only_return read_only_fail split: list.split)
    ultimately have "s' = s" using c unfolding read_only_def by (auto dest: op_relD)
    then show ?thesis by (simp add: knows_rel.R_refl)
  next
    case (Inr d)
    with run c have g: "g d (s1, w1) = (r, (s', w'))" by (simp add: op_bind_def)
    from c Inr GetSOARPlaybook_Inr have s1: "s1 = s" and
      d: "set (pd_versions d) = {v \<in> set (so_versions s). pv_tenant v = t \<and> pv_playbook v = i}" by blast+
    from d have "op_rel (knows a I (set (pd_versions d) \<union> R)) (g d)" by (intro assms) blast
    from op_relD [OF this g] have rest: "knows a I (set (pd_versions d) \<union> R) s s'" by (simp add: s1)
    show ?thesis
      unfolding knows_def
    proof (intro allI impI)
      fix W V
      assume "I \<subseteq> W \<and> R \<subseteq> V"
      then have "I \<subseteq> W \<and> set (pd_versions d) \<union> R \<subseteq> set (pd_versions d) \<union> V" by blast
      with rest obtain W' V' where "W \<subseteq> W'" "set (pd_versions d) \<union> V \<subseteq> V'"
        "(soar_step a)\<^sup>*\<^sup>* (s, W, set (pd_versions d) \<union> V) (s', W', V')" unfolding knows_def by meson
      moreover have "soar_step a (s, W, V) (s, W, set (pd_versions d) \<union> V)"
        using c Inr s1 by (auto intro: soar_step.read_playbook)
      ultimately show "\<exists>W' V'. W \<subseteq> W' \<and> V \<subseteq> V' \<and> (soar_step a)\<^sup>*\<^sup>* (s, W, V) (s', W', V')"
        by (meson converse_rtranclp_into_rtranclp Un_subset_iff)
    qed
  qed
qed

lemma knows_CreatePlaybook: "op_rel (knows a I R) (CreatePlaybook a t actor draft)"
  unfolding CreatePlaybook_def Let_def by (intro run_intros knows_CreateSOARPlaybook) (simp add: draft_version_def)

lemma knows_CreateVersion: "op_rel (knows a I R) (CreateVersion a t i actor spec)"
  unfolding CreateVersion_def by (intro run_intros)

lemma knows_ValidateVersion: "op_rel (knows a I R) (ValidateVersion a t i k)"
  unfolding ValidateVersion_def
proof (rule knows_read)
  fix d
  assume d: "\<And>v. v \<in> set (pd_versions d) \<Longrightarrow> pv_tenant v = t \<and> pv_playbook v = i"
  show "op_rel (knows a I (set (pd_versions d) \<union> R)) (case find (\<lambda>v. pv_version v = k) (pd_versions d) of
      None \<Rightarrow> op_fail ErrInvalidPlaybook
    | Some item \<Rightarrow> if pv_state item = ''PUBLISHED'' \<or> pv_state item = ''RETIRED'' then op_fail SoarErrInvalidState
        else op_bind op_now (\<lambda>now. SaveSOARValidation t i k (Validate a (pv_spec item) now)))"
  proof (cases "find (\<lambda>v. pv_version v = k) (pd_versions d)")
    case None
    then show ?thesis by (simp add: run_intros)
  next
    case (Some item)
    then have "item \<in> set (pd_versions d)" "pv_version item = k" by (auto simp: find_Some_iff)
    with Some d show ?thesis by (auto intro!: run_intros knows_SaveSOARValidation simp: is_version_def)
  qed
qed

lemma knows_PublishVersion: "op_rel (knows a I R) (PublishVersion a t i k actor)"
  unfolding PublishVersion_def by (intro run_intros knows_ValidateVersion)

lemma knows_StartExecution: "op_rel (knows a I R) (StartExecution t actor request)"
proof -
  let ?r = "trimmed_request request"
  have start: "op_rel (knows a I (set (pd_versions d) \<union> R)) (case published_of d of
      None \<Rightarrow> op_fail SoarErrInvalidState
    | Some published \<Rightarrow>
        if xr_trigger_type ?r \<noteq> to_upper (sp_trigger_type (pv_spec published)) then op_fail ErrInvalidExecution
        else if xr_trigger_type ?r \<noteq> ''MANUAL'' \<and> (xr_resource_type ?r = [] \<or> xr_resource_id ?r = []) then op_fail ErrInvalidExecution
        else if 1048576 < length (marshal (JObj (xr_context ?r))) then op_fail ErrInvalidExecution
        else op_bind op_now (\<lambda>now. op_bind (op_new_id ''sex'') (\<lambda>i.
             CreateSOARExecution (new_execution t actor ?r (pv_version published) i now) (sp_nodes (pv_spec published)))))"
    if d: "\<And>v. v \<in> set (pd_versions d) \<Longrightarrow> pv_tenant v = t \<and> pv_playbook v = xr_playbook ?r" for d
  proof (cases "published_of d")
    case None
    then show ?thesis by (simp add: run_intros)
  next
    case (Some v)
    then have v: "v \<in> set (pd_versions d)" by (auto simp: published_of_def find_Some_iff)
    have "op_rel (knows a I (set (pd_versions d) \<union> R))
        (CreateSOARExecution (new_execution t actor ?r (pv_version v) i now) (sp_nodes (pv_spec v)))" for i now
      by (rule knows_CreateSOARExecution) (use v d in \<open>simp_all add: is_version_def new_execution_def\<close>)
    with Some show ?thesis unfolding Some option.case by (intro run_intros)
  qed
  show ?thesis
    unfolding StartExecution_def Let_def
    by (intro run_intros knows_read start) blast
qed

lemma knows_DecideApproval: "op_rel (knows a I R) (DecideApproval t i actor cm)"
  unfolding DecideApproval_def Let_def by (intro run_intros)

lemma knows_CompleteManualTask: "op_rel (knows a I R) (CompleteManualTask t e node actor payload)"
  unfolding CompleteManualTask_def Let_def by (intro run_intros)

end
