(* ===== verification/Soar_Sample.thy ===== *)
theory Soar_Sample
  imports Soar_Composition Memory_Properties
begin

text \<open>
  A sample playbook with an approval above a privileged action, and databases with it, on which the
  properties of automated response are exercised.
\<close>

lemma run_exhaust:
  fixes f :: "('s, 'a) op"
  obtains q s1 w1 where "f sw = (q, (s1, w1))"
  by (cases "f sw") auto

lemma is_ok_run:
  fixes f :: "('s, 'a) op"
  assumes "is_ok (fst (f sw))"
  obtains x s' w' where "f sw = (Inr x, (s', w'))"
  using assms by (cases "f sw", cases "fst (f sw)") auto

definition sample_retry :: soar_retry where
  "sample_retry = \<lparr>sr_maximum_attempts = 1, sr_backoff = 1, sr_maximum_backoff = 60\<rparr>"

definition sample_playbook_spec :: soar_spec where
  "sample_playbook_spec = \<lparr>sp_schema_version = ''1.0'', sp_trigger_type = ''MANUAL'', sp_nodes =
    [\<lparr>sn_id = ''ask'', sn_type = ''HUMAN_APPROVAL'', sn_name = ''Ask'', sn_depends_on = [], sn_timeout = 0,
      sn_retry = sample_retry, sn_config = [(''required_approvals'', JInt 1)]\<rparr>,
     \<lparr>sn_id = ''act'', sn_type = ''ACTION'', sn_name = ''Act'', sn_depends_on = [''ask''], sn_timeout = 0,
      sn_retry = sample_retry, sn_config = [(''action_type'', JStr ''identity.disable_account'')]\<rparr>]\<rparr>"

lemma sample_playbook_valid: "validation_issues DefaultActionCatalog sample_playbook_spec = []"
  by code_simp

definition sample_tenants :: pg where
  "sample_tenants = empty_pg\<lparr>pg_tenants := [''acme'' \<mapsto> ''Acme'']\<rparr>"

definition sample_playbook :: soar_playbook where
  "sample_playbook = \<lparr>pb_id = ''pbk_1'', pb_tenant = ''acme'', pb_name = ''Disable'', pb_description = [],
     pb_state = ''DRAFT'', pb_latest_version = 1, pb_published_version = 0, pb_revision = 1, pb_created_by = ''ann'',
     pb_updated_by = ''ann'', pb_created_at = 1000, pb_updated_at = 1000\<rparr>"

definition sample_report :: "string \<Rightarrow> soar_report" where
  "sample_report h = \<lparr>rp_valid = True, rp_spec_hash = h, rp_node_count = 2, rp_issues = [], rp_validated_at = 1000\<rparr>"

definition sample_version :: soar_version where
  "sample_version = draft_version ''acme'' ''pbk_1'' 1 ''ann'' sample_playbook_spec (sample_report ''hash'') 1000"

definition sample_playbook_db :: "string \<Rightarrow> soar_db" where
  "sample_playbook_db state = (empty_soar sample_tenants)
     \<lparr>so_playbooks := [sample_playbook\<lparr>pb_state := state, pb_published_version := 1\<rparr>],
      so_versions := [sample_version\<lparr>pv_state := state\<rparr>]\<rparr>"

definition sample_execution :: soar_execution where
  "sample_execution = \<lparr>ex_id = ''sex_1'', ex_tenant = ''acme'', ex_playbook = ''pbk_1'', ex_playbook_version = 1,
     ex_request = ''req-0001'', ex_trigger_type = ''MANUAL'', ex_resource_type = [], ex_resource_id = [], ex_context = [],
     ex_status = ''QUEUED'', ex_version = 1, ex_triggered_by = ''ann'', ex_created_at = 0, ex_updated_at = 0,
     ex_started_at = None, ex_completed_at = None, ex_nodes = []\<rparr>"

text \<open>An execution that waits for an approval which is overdue.\<close>

definition overdue_db :: soar_db where
  "overdue_db = (sample_playbook_db ''PUBLISHED'')
     \<lparr>so_executions := [sample_execution\<lparr>ex_status := ''WAITING_APPROVAL''\<rparr>],
      so_nodes := [(node_snapshot sample_execution (hd (sp_nodes sample_playbook_spec)) ''snx_1'')\<lparr>nx_status := ''WAITING_APPROVAL''\<rparr>],
      so_approvals := [\<lparr>av_id = ''sap_1'', av_tenant = ''acme'', av_execution = ''sex_1'', av_node_execution = ''snx_1'',
        av_risk_level = 4, av_required = 1, av_status = ''PENDING'', av_version = 1, av_requested_by = ''ann'',
        av_requested_at = 0, av_expires_at = 0, av_decided_at = None, av_decisions = []\<rparr>]\<rparr>"

subsection \<open>A run of the system\<close>

text \<open>
  The playbook is created, validated, published and started; a worker claims its first node and asks for
  the approval. \<open>after_call\<close> is the database after a call, with the other tables as they were.
\<close>

definition after_call :: "(soar_db, 'a) op \<Rightarrow> soar_db \<Rightarrow> soar_db" where
  "after_call f s = (fst (snd (f (s, sample_world))))\<lparr>so_pg := so_pg s\<rparr>"

lemma empty_reachable: "soar_reachable actions (empty_soar p, {}, {})"
  by (auto simp: soar_reachable_def)

lemma step_after_call:
  assumes "\<And>r s' w'. f (s, sample_world) = (r, (s', w')) \<Longrightarrow> soar_step a (s, W, V) (s', W, V)"
    and "soar_reachable a (s, W, V)"
  shows "soar_reachable a (after_call f s, W, V)"
proof -
  obtain r s' w' where run: "f (s, sample_world) = (r, (s', w'))" by (rule run_exhaust)
  then have "after_call f s = s'\<lparr>so_pg := so_pg s\<rparr>" by (simp add: after_call_def)
  with assms(1) [OF run] have "(soar_step a)\<^sup>*\<^sup>* (s, W, V) (after_call f s, W, V)"
    by (metis converse_rtranclp_into_rtranclp r_into_rtranclp soar_step.elsewhere)
  with assms(2) show ?thesis by (rule reachable_step)
qed

definition run_created :: soar_db where
  "run_created = after_call (CreateSOARPlaybook sample_playbook sample_version) (empty_soar sample_tenants)"

definition run_validated :: "string \<Rightarrow> soar_db" where
  "run_validated h = after_call (SaveSOARValidation ''acme'' ''pbk_1'' 1 (sample_report h)) run_created"

definition run_published :: "string \<Rightarrow> soar_db" where
  "run_published h = after_call (PublishSOARPlaybookVersion ''acme'' ''pbk_1'' 1 ''ann'') (run_validated h)"

definition run_started :: "string \<Rightarrow> soar_db" where
  "run_started h = after_call (CreateSOARExecution sample_execution (sp_nodes sample_playbook_spec)) (run_published h)"

definition sample_claim :: "soar_db \<Rightarrow> soar_work_item option" where
  "sample_claim s = (case fst (ClaimSOARNode ''worker'' [] go_second (s, sample_world)) of Inr item \<Rightarrow> item | Inl _ \<Rightarrow> None)"

definition run_claimed :: "string \<Rightarrow> soar_db" where
  "run_claimed h = after_call (ClaimSOARNode ''worker'' [] go_second) (run_started h)"

definition run_asked :: "string \<Rightarrow> soar_db" where
  "run_asked h = after_call (RequestSOARApproval (the (sample_claim (run_started h))) 4 1 hour) (run_claimed h)"

lemma run_asked_tables:
  "map nx_status (so_nodes (run_asked h)) = [''WAITING_APPROVAL'', ''PENDING''] \<and> map av_status (so_approvals (run_asked h)) = [''PENDING'']"
  by code_simp

abbreviation run_hash :: string where
  "run_hash \<equiv> spec_hash sample_playbook_spec"

lemma sample_validation: "Validate DefaultActionCatalog sample_playbook_spec 1000 = sample_report run_hash"
proof -
  have "length (sp_nodes sample_playbook_spec) = 2" by code_simp
  then show ?thesis
    by (simp add: Validate_def sample_report_def sample_playbook_valid sort_issues_def has_error_def)
qed

lemma run_created_versions: "map pv_spec (so_versions run_created) = [sample_playbook_spec] \<and>
    map (is_version ''acme'' ''pbk_1'' 1) (so_versions run_created) = [True]"
  by code_simp

text \<open>The version that the service reads, and the item that the worker claims.\<close>

definition read_version :: soar_version where
  "read_version = hd (so_versions run_created)"

definition claimed_item :: "string \<Rightarrow> soar_work_item" where
  "claimed_item h = the (sample_claim (run_started h))"

lemma sample_claims:
  "sample_claim (run_started h) \<noteq> None \<and> nx_type (wi_node (claimed_item h)) = ''HUMAN_APPROVAL'' \<and>
   configInt (nx_config (wi_node (claimed_item h))) ''required_approvals'' = (1, True)"
  by code_simp

lemma sample_read: "is_ok (fst (GetSOARPlaybook ''acme'' ''pbk_1'' (run_created, sample_world)))"
  by code_simp

lemma run_asked_reachable:
  "soar_reachable DefaultActionCatalog (run_asked run_hash, {claimed_item run_hash}, {read_version})"
proof -
  let ?a = DefaultActionCatalog and ?v = read_version and ?item = "claimed_item run_hash"
  have v: "pv_spec ?v = sample_playbook_spec" "is_version ''acme'' ''pbk_1'' 1 ?v" "so_versions run_created = [?v]"
    using run_created_versions by (auto simp: read_version_def)
  have report: "sample_report run_hash = Validate ?a (pv_spec ?v) 1000" by (simp add: v(1) sample_validation)
  have "pv_state sample_version = ''DRAFT''" by (simp add: sample_version_def draft_version_def)
  then have "soar_reachable ?a (run_created, {}, {})"
    unfolding run_created_def by (intro step_after_call empty_reachable) (rule soar_step.create_playbook)
  moreover obtain d s' w' where read: "GetSOARPlaybook ''acme'' ''pbk_1'' (run_created, sample_world) = (Inr d, (s', w'))"
    using sample_read by (rule is_ok_run)
  from GetSOARPlaybook_Inr [OF read] v have "s' = run_created" "set (pd_versions d) = {?v}"
    by (auto simp: is_version_def)
  with soar_step.read_playbook [OF read, of ?a "{}" "{}"] have "soar_step ?a (run_created, {}, {}) (run_created, {}, {?v})" by simp
  ultimately have "soar_reachable ?a (run_created, {}, {?v})" by (rule reachable_step [OF _ r_into_rtranclp])
  then have "soar_reachable ?a (run_validated run_hash, {}, {?v})"
    unfolding run_validated_def report
    by (rule step_after_call [rotated]) (rule soar_step.save_validation, assumption, simp, rule v)
  then have "soar_reachable ?a (run_published run_hash, {}, {?v})"
    unfolding run_published_def by (rule step_after_call [rotated]) (rule soar_step.publish)
  then have started: "soar_reachable ?a (run_started run_hash, {}, {?v})"
    unfolding run_started_def v(1) [symmetric]
    by (rule step_after_call [rotated]) (rule soar_step.start_execution, assumption, use v in \<open>simp_all add: sample_execution_def\<close>)
  obtain r s2 w2 where claim: "ClaimSOARNode ''worker'' [] go_second (run_started run_hash, sample_world) = (r, (s2, w2))"
    by (rule run_exhaust)
  with sample_claims [of run_hash] have r: "r = Inr (Some ?item)"
    by (auto simp: sample_claim_def claimed_item_def split: sum.splits)
  have claimed: "run_claimed run_hash = s2\<lparr>so_pg := so_pg (run_started run_hash)\<rparr>"
    by (simp add: run_claimed_def after_call_def claim)
  from soar_step.claim [OF claim [unfolded r], of ?a "{}" "{?v}"]
  have "(soar_step ?a)\<^sup>*\<^sup>* (run_started run_hash, {}, {?v}) (run_claimed run_hash, {?item}, {?v})"
    unfolding claimed by (metis converse_rtranclp_into_rtranclp r_into_rtranclp soar_step.elsewhere)
  with started have "soar_reachable ?a (run_claimed run_hash, {?item}, {?v})" by (rule reachable_step)
  then show ?thesis
    unfolding run_asked_def claimed_item_def [symmetric]
    by (rule step_after_call [rotated]) (rule soar_step.request_approval, assumption, use sample_claims in simp_all)
qed

definition asked_execution :: "string \<Rightarrow> soar_execution" where
  "asked_execution h = hd (so_executions (run_asked h))"

lemma asked_execution_key:
  "so_executions (run_asked h) \<noteq> [] \<and> ex_tenant (asked_execution h) = ''acme'' \<and> ex_id (asked_execution h) = ''sex_1''"
  by code_simp

lemma asked_execution_open:
  "fst (reconciled_status (nodes_of ''acme'' ''sex_1'' (promote_nodes ''acme'' ''sex_1'' 2000 (run_asked h)))) = ''WAITING_APPROVAL''"
  by code_simp

end
