(* ===== verification/Soar_Properties.thy ===== *)
theory Soar_Properties
  imports Soar_Sample
begin

text \<open>
  What automated response guarantees in every state that any number of workers, requests and approvers
  can lead to, and the functional contracts of its operations.
\<close>

subsection \<open>Consequences of the invariant\<close>

text \<open>An approval that was given by enough people, none of whom started the execution.\<close>

definition approved_by_others :: "soar_db \<Rightarrow> soar_approval \<Rightarrow> int \<Rightarrow> bool" where
  "approved_by_others s ap k \<longleftrightarrow>
     av_status ap = ''APPROVED'' \<and> k \<le> int (card (set (approvers_of (so_decisions s) ap))) \<and>
     (\<forall>e \<in> set (so_executions s). is_execution (av_tenant ap) (av_execution ap) e \<longrightarrow>
        ex_triggered_by e \<notin> set (approvers_of (so_decisions s) ap))"

definition actions_authorised :: "soar_db \<Rightarrow> bool" where
  "actions_authorised s \<longleftrightarrow>
     (\<forall>x \<in> set (so_attempts s). 0 < required_approvals (at_risk_level x) \<longrightarrow>
        (\<exists>ap \<in> set (so_approvals s). av_tenant ap = at_tenant x \<and> av_execution ap = at_execution x \<and>
           approved_by_others s ap (required_approvals (at_risk_level x))))"

definition approvals_earned :: "soar_db \<Rightarrow> bool" where
  "approvals_earned s \<longleftrightarrow>
     (\<forall>ap \<in> set (so_approvals s). av_status ap = ''APPROVED'' \<longrightarrow> approved_by_others s ap (av_required ap))"

definition nodes_in_order :: "soar_db \<Rightarrow> bool" where
  "nodes_in_order s \<longleftrightarrow>
     (\<forall>n \<in> set (so_nodes s). nx_status n \<notin> {''PENDING'', ''CANCELLED''} \<longrightarrow>
        (\<forall>d \<in> set (nx_depends_on n). \<exists>p \<in> set (so_nodes s). nx_tenant p = nx_tenant n \<and>
           nx_execution p = nx_execution n \<and> nx_node p = d \<and> nx_status p = ''SUCCEEDED''))"

lemma inv_nodes_in_order: "soar_inv a s \<Longrightarrow> nodes_in_order s"
  using soar_invD(2) [of a s] by (auto simp: nodes_in_order_def nodes_inv_def started_def deps_done_def)

lemma executions_unique:
  "executions_inv a es ns \<Longrightarrow> e \<in> set es \<Longrightarrow> f \<in> set es \<Longrightarrow> ex_tenant e = ex_tenant f \<Longrightarrow> ex_id e = ex_id f \<Longrightarrow> e = f"
  by (auto simp: executions_inv_def distinct_map inj_on_def)

lemma distinct_approvers:
  assumes "decisions_inv as ds"
  shows "distinct (approvers_of ds ap)"
proof -
  have "distinct (map (\<lambda>d. (dr_tenant d, dr_approval d, de_approver (dr_decision d))) ds)"
    using assms by (simp add: decisions_inv_def)
  then have "distinct ds" "inj_on (\<lambda>d. (dr_tenant d, dr_approval d, de_approver (dr_decision d))) (set ds)"
    by (simp_all add: distinct_map)
  then show ?thesis unfolding approvers_of_def distinct_map by (auto simp: inj_on_def)
qed

lemma inv_approvals_earned:
  assumes "soar_inv a s"
  shows "approvals_earned s"
  unfolding approvals_earned_def approved_by_others_def
proof (intro ballI impI conjI)
  fix ap assume ap: "ap \<in> set (so_approvals s)" and st: "av_status ap = ''APPROVED''"
  note d = soar_invD(5) [OF assms]
  from st show "av_status ap = ''APPROVED''" .
  have "av_required ap \<le> int (length (approvers_of (so_decisions s) ap))"
    using d ap st by (simp add: decisions_inv_def)
  with distinct_approvers [OF d] show "av_required ap \<le> int (card (set (approvers_of (so_decisions s) ap)))"
    by (simp add: distinct_card)
  fix e assume e: "e \<in> set (so_executions s)" "is_execution (av_tenant ap) (av_execution ap) e"
  from soar_invD(4) [OF assms] ap obtain f where f: "f \<in> set (so_executions s)" "asked_by ap f"
    by (auto simp: approvals_inv_def)
  have "e = f"
    by (rule executions_unique [OF soar_invD(3) [OF assms] e(1) f(1)])
      (use e f in \<open>simp_all add: is_execution_def asked_by_def\<close>)
  have other: "de_approver (dr_decision r) \<noteq> av_requested_by ap"
    if r: "r \<in> set (so_decisions s)" "dr_tenant r = av_tenant ap" "dr_approval r = av_id ap" for r
  proof -
    from d r(1) obtain b where b: "b \<in> set (so_approvals s)" "is_approval (dr_tenant r) (dr_approval r) b"
      "de_approver (dr_decision r) \<noteq> av_requested_by b" by (auto simp: decisions_inv_def)
    with approvals_unique [OF soar_invD(4) [OF assms] b(1) ap b(2)] r show ?thesis by (simp add: is_approval_def)
  qed
  show "ex_triggered_by e \<notin> set (approvers_of (so_decisions s) ap)"
    using f(2) other by (auto simp: \<open>e = f\<close> approvers_of_def asked_by_def) metis
qed

text \<open>The rows of an execution are the nodes of its specification.\<close>

lemma row_of_spec:
  assumes "map row_shape (filter (in_execution e) ns) = map spec_shape (sp_nodes spec)" "n \<in> set ns" "in_execution e n"
  obtains m where "m \<in> set (sp_nodes spec)" "sn_id m = nx_node n" "sn_type m = nx_type n"
    "sn_depends_on m = nx_depends_on n" "sn_config m = nx_config n"
proof -
  have "row_shape n \<in> set (map row_shape (filter (in_execution e) ns))" using assms(2,3) by simp
  then obtain m where "m \<in> set (sp_nodes spec)" "row_shape n = spec_shape m" unfolding assms(1) by auto
  with that show thesis by (simp add: row_shape_def spec_shape_def)
qed

lemma depends_row:
  assumes "distinct (node_keys nodes)" "m \<in> set nodes"
  shows "node_at nodes (sn_id m) = Some m" "depends nodes (sn_id m) = sn_depends_on m"
  using node_at_unique [OF assms] by (simp_all add: depends_def)

text \<open>Everything a started node can reach along the dependencies has succeeded.\<close>

lemma ancestors_succeeded:
  assumes inv: "nodes_inv ns" and snap: "map row_shape (filter (in_execution e) ns) = map spec_shape (sp_nodes spec)"
    and keys: "distinct (node_keys (sp_nodes spec))"
    and n: "n \<in> set ns" "in_execution e n" "deps_done ns n"
    and path: "(nx_node n, a) \<in> (edges (sp_nodes spec))\<^sup>+"
  shows "\<exists>p \<in> set ns. in_execution e p \<and> nx_node p = a \<and> nx_status p = ''SUCCEEDED''"
proof -
  have dep: "\<exists>p \<in> set ns. in_execution e p \<and> nx_node p = d \<and> nx_status p = ''SUCCEEDED''"
    if m: "m \<in> set ns" "in_execution e m" "deps_done ns m" and d: "(nx_node m, d) \<in> edges (sp_nodes spec)" for m d
  proof -
    from row_of_spec [OF snap m(1,2)] obtain k where k: "k \<in> set (sp_nodes spec)" "sn_id k = nx_node m"
      "sn_depends_on k = nx_depends_on m" by metis
    with depends_row [OF keys k(1)] d have "d \<in> set (nx_depends_on m)" by (simp add: edges_def)
    with m(2,3) show ?thesis by (auto simp: deps_done_def in_execution_def)
  qed
  from path show ?thesis
  proof (induction rule: trancl_induct)
    case (base a)
    with dep [OF n] show ?case .
  next
    case (step b c)
    then obtain p where p: "p \<in> set ns" "in_execution e p" "nx_node p = b" "nx_status p = ''SUCCEEDED''" by blast
    with inv have "deps_done ns p" by (simp add: nodes_inv_def started_def)
    with p step.hyps(2) dep [of p c] show ?case by simp
  qed
qed

text \<open>The approval that an ancestor of an action asked for.\<close>

lemma ancestor_approved:
  assumes inv: "soar_inv a s" and n: "n \<in> set (so_nodes s)" "deps_done (so_nodes s) n"
    and e: "in_execution e n" "map row_shape (filter (in_execution e) (so_nodes s)) = map spec_shape (sp_nodes spec)"
    and keys: "distinct (node_keys (sp_nodes spec))"
    and path: "(nx_node n, i) \<in> (edges (sp_nodes spec))\<^sup>+" "asks_for (sp_nodes spec) i k"
  shows "\<exists>ap \<in> set (so_approvals s). av_tenant ap = nx_tenant n \<and> av_execution ap = nx_execution n \<and>
    av_status ap = ''APPROVED'' \<and> av_required ap = k"
proof -
  from ancestors_succeeded [OF soar_invD(2) [OF inv] e(2) keys n(1) e(1) n(2) path(1)] obtain p where
    p: "p \<in> set (so_nodes s)" "in_execution e p" "nx_node p = i" "nx_status p = ''SUCCEEDED''" by blast
  from row_of_spec [OF e(2) p(1,2)] obtain m where m: "m \<in> set (sp_nodes spec)" "sn_id m = i"
    "sn_type m = nx_type p" "sn_config m = nx_config p" by (metis p(3))
  with path(2) depends_row(1) [OF keys m(1)] have k: "nx_type p = ''HUMAN_APPROVAL''"
    "configInt (nx_config p) ''required_approvals'' = (k, True)"
    by (auto simp: asks_for_def approvals_of_def prod_eq_iff split: if_splits)
  from soar_invD(6) [OF inv] p k(1) have "approved (so_approvals s) p" by (simp add: quorum_inv_def)
  then obtain ap where ap: "ap \<in> set (so_approvals s)" "av_tenant ap = nx_tenant p" "av_node_execution ap = nx_id p"
    "av_status ap = ''APPROVED''" by (auto simp: approved_def)
  from soar_invD(4) [OF inv] ap(1) obtain q where q: "q \<in> set (so_nodes s)" "asks_node ap q"
    by (auto simp: approvals_inv_def)
  with ap nodes_unique [OF soar_invD(2) [OF inv] p(1) q(1), of "nx_tenant p" "nx_id p"] have "q = p"
    by (simp add: asks_node_def is_node_def)
  with q k ap e(1) p(2) show ?thesis by (auto simp: asks_node_def in_execution_def)
qed

lemma inv_actions_authorised:
  assumes inv: "soar_inv a s"
  shows "actions_authorised s"
  unfolding actions_authorised_def
proof (intro ballI impI)
  fix x assume x: "x \<in> set (so_attempts s)" and level: "0 < required_approvals (at_risk_level x)"
  from soar_invD(7) [OF inv] x obtain n where n: "n \<in> set (so_nodes s)" "attempt_of a (so_nodes s) x n"
    by (auto simp: attempts_inv_def)
  from soar_invD(3) [OF inv] n(1) obtain e spec where e: "in_execution e n"
    "map row_shape (filter (in_execution e) (so_nodes s)) = map spec_shape (sp_nodes spec)" "playbook_rules a spec"
    unfolding executions_inv_def snapshot_of_def by blast
  from e(3) have keys: "distinct (node_keys (sp_nodes spec))" by (simp add: playbook_rules_def Let_def)
  from row_of_spec [OF e(2) n(1) e(1)] obtain m where m: "m \<in> set (sp_nodes spec)" "sn_id m = nx_node n"
    "sn_type m = nx_type n" "sn_config m = nx_config n" by metis
  from n(2) obtain d where d: "a (at_action_type x) = Some d" "ac_level d = at_risk_level x"
    by (auto simp: attempt_of_def)
  have "risk_rules (sp_nodes spec) d m"
    using e(3) m n(2) d by (auto simp: playbook_rules_def Let_def attempt_of_def)
  with level d m(2) obtain i k where k: "(nx_node n, i) \<in> (edges (sp_nodes spec))\<^sup>+" "asks_for (sp_nodes spec) i k"
    "required_approvals (at_risk_level x) \<le> k" by (auto simp: risk_rules_def)
  from n(2) have "deps_done (so_nodes s) n" "nx_tenant n = at_tenant x" "nx_execution n = at_execution x"
    by (simp_all add: attempt_of_def is_node_def)
  with ancestor_approved [OF inv n(1) _ e(1,2) keys k(1,2)] obtain ap where
    ap: "ap \<in> set (so_approvals s)" "av_tenant ap = at_tenant x" "av_execution ap = at_execution x"
      "av_status ap = ''APPROVED''" "av_required ap = k" by auto
  with inv_approvals_earned [OF inv] k(3)
  show "\<exists>ap \<in> set (so_approvals s). av_tenant ap = at_tenant x \<and> av_execution ap = at_execution x \<and>
      approved_by_others s ap (required_approvals (at_risk_level x))"
    unfolding approvals_earned_def approved_by_others_def by (metis order_trans)
qed

subsection \<open>No dead ends\<close>

text \<open>An acyclic graph with a pending node has a pending node all of whose dependencies are not pending.\<close>

lemma minimal_pending:
  assumes "acyclic (edges nodes)" "P i" "i \<in> set (node_keys nodes)"
  obtains j where "j \<in> set (node_keys nodes)" "P j" "\<And>d. (j, d) \<in> edges nodes \<Longrightarrow> \<not> P d"
proof -
  have wf: "wf ((edges nodes)\<inverse>)"
    using assms(1) finite_edges by (simp add: finite_acyclic_wf_converse)
  have mem: "i \<in> {j \<in> set (node_keys nodes). P j}" using assms by simp
  show thesis
  proof (rule wfE_min [OF wf mem])
    fix j assume j: "j \<in> {j \<in> set (node_keys nodes). P j}"
      "\<And>d. (d, j) \<in> (edges nodes)\<inverse> \<Longrightarrow> d \<notin> {j \<in> set (node_keys nodes). P j}"
    have "\<not> P d" if "(j, d) \<in> edges nodes" for d
    proof -
      from that have "d \<in> set (node_keys nodes)" by (simp add: edges_def)
      with j(2) [of d] that show ?thesis by simp
    qed
    with j(1) show thesis by (intro that [of j]) auto
  qed
qed

lemma nodes_of_in_execution: "nodes_of (ex_tenant e) (ex_id e) s = filter (in_execution e) (so_nodes s)"
  unfolding nodes_of_def by (rule filter_cong) (simp_all add: in_execution_def)

lemma node_keys_filter:
  assumes "map row_shape (filter (in_execution e) ns) = map spec_shape (sp_nodes spec)"
  shows "map nx_node (filter (in_execution e) ns) = node_keys (sp_nodes spec)"
proof -
  have "map fst (map row_shape (filter (in_execution e) ns)) = map fst (map spec_shape (sp_nodes spec))"
    by (simp only: assms)
  then show ?thesis by (simp add: row_shape_def spec_shape_def node_keys_def comp_def)
qed

text \<open>After a promotion a pending node waits for one that can still move, has failed or was cancelled.\<close>

lemma pending_waits:
  assumes inv: "nodes_inv (so_nodes s)" and e: "map row_shape (filter (in_execution e) (so_nodes s)) = map spec_shape (sp_nodes spec)"
    and rules: "playbook_rules a spec"
    and n: "n \<in> set (so_nodes (promote_nodes (ex_tenant e) (ex_id e) now s))" "in_execution e n" "nx_status n = ''PENDING''"
  shows "\<exists>m \<in> set (so_nodes (promote_nodes (ex_tenant e) (ex_id e) now s)). in_execution e m \<and>
    nx_status m \<notin> {''PENDING'', ''SUCCEEDED''}"
proof (rule ccontr)
  let ?s = "promote_nodes (ex_tenant e) (ex_id e) now s" and ?rows = "filter (in_execution e) (so_nodes s)"
  let ?ready = "\<lambda>n. nx_tenant n = ex_tenant e \<and> nx_execution n = ex_id e \<and> nx_status n = ''PENDING'' \<and> dependencies_met (so_nodes s) n"
  assume "\<not> ?thesis"
  then have only: "nx_status m \<in> {''PENDING'', ''SUCCEEDED''}" if "m \<in> set (so_nodes ?s)" "in_execution e m" for m
    using that by blast
  have kept: "m \<in> set (so_nodes ?s) \<and> \<not> ?ready m \<and> nx_status m \<in> {''PENDING'', ''SUCCEEDED''}"
    if m: "m \<in> set (so_nodes s)" "in_execution e m" for m
  proof -
    let ?m = "if ?ready m then m\<lparr>nx_status := ''READY'', nx_available_at := to_micro now, nx_updated_at := to_micro now\<rparr> else m"
    have "?m \<in> set (so_nodes ?s)" using m(1) by (auto simp: promote_nodes_def update_rows_def)
    with only [of ?m] m(2) show ?thesis by (auto simp: in_execution_def split: if_splits)
  qed
  have rows: "m \<in> set (so_nodes s)" if "m \<in> set (so_nodes ?s)" "nx_status m \<noteq> ''READY''" for m
    using that by (auto simp: promote_nodes_def update_rows_def)
  have keys: "map nx_node ?rows = node_keys (sp_nodes spec)" by (rule node_keys_filter [OF e])
  from rules have d: "distinct (node_keys (sp_nodes spec))" "acyclic (edges (sp_nodes spec))"
    by (simp_all add: playbook_rules_def Let_def)
  have unique: "p = q" if "p \<in> set ?rows" "q \<in> set ?rows" "nx_node p = nx_node q" for p q
    using d(1) that unfolding keys [symmetric] distinct_map by (auto dest: inj_onD)
  let ?P = "\<lambda>i. \<exists>m \<in> set ?rows. nx_node m = i \<and> nx_status m = ''PENDING''"
  have "n \<in> set ?rows" using rows n by simp
  then have "nx_node n \<in> set (map nx_node ?rows)" "?P (nx_node n)" using n(3) by auto
  then obtain j where j: "?P j" "\<And>i. (j, i) \<in> edges (sp_nodes spec) \<Longrightarrow> \<not> ?P i"
    using minimal_pending [OF d(2), of ?P "nx_node n"] unfolding keys by metis
  then obtain m where m: "m \<in> set ?rows" "nx_node m = j" "nx_status m = ''PENDING''" by blast
  from row_of_spec [OF e, of m] m(1) obtain k where k: "k \<in> set (sp_nodes spec)" "sn_id k = j"
    "sn_depends_on k = nx_depends_on m" using m(2) by auto
  have "dependency_met (so_nodes s) m i" if i: "i \<in> set (nx_depends_on m)" for i
  proof -
    have "set (sn_depends_on k) \<subseteq> set (node_keys (sp_nodes spec)) - {sn_id k}"
      using rules k(1) by (simp add: playbook_rules_def Let_def)
    with k(3) i have known: "i \<in> set (node_keys (sp_nodes spec))" by auto
    with i k depends_row(2) [OF d(1) k(1)] have "(j, i) \<in> edges (sp_nodes spec)" by (simp add: edges_def)
    with j(2) have not_pending: "\<not> ?P i" .
    from known obtain p where p: "p \<in> set ?rows" "nx_node p = i" unfolding keys [symmetric] by auto
    have st: "nx_status q = ''SUCCEEDED''" if "q \<in> set ?rows" "nx_node q = i" for q
      using kept [of q] that not_pending by auto
    show ?thesis
      unfolding dependency_met_def
      using p st m(1) by (auto simp: in_execution_def)
  qed
  then have "?ready m" using m by (auto simp: in_execution_def dependencies_met_def)
  with kept [of m] m(1) show False by simp
qed

subsection \<open>Playbooks\<close>

text \<open>C17. The search for cycles answers nothing exactly when the dependencies of a playbook are acyclic, and
  otherwise answers a cycle of them.\<close>

theorem detectCycle_finds_a_cycle:
  "if acyclic (edges nodes) then detectCycle nodes = [] else is_cycle nodes (detectCycle nodes)"
  using detectCycle_correct [of nodes] by auto

text \<open>C16. The validator accepts exactly the playbooks that obey the rules: known node types within their
  bounds, distinct identifiers, existing dependencies, no cycle, and above every privileged action an
  approval node that asks for enough people.\<close>

theorem Validate_accepts_exactly: "rp_valid (Validate actions spec now) \<longleftrightarrow> playbook_rules actions spec"
  by (rule Validate_decides)

subsection \<open>Runs\<close>



text \<open>C13. Every request of the playbook service that changes the store, served, refused or interrupted, is a
  sequence of the steps of the transition system.\<close>

theorem requests_refine_steps:
  "op_rel (knows actions {} {}) (CreatePlaybook actions t actor draft) \<and>
   op_rel (knows actions {} {}) (CreateVersion actions t i actor spec) \<and>
   op_rel (knows actions {} {}) (ValidateVersion actions t i k) \<and>
   op_rel (knows actions {} {}) (PublishVersion actions t i k actor) \<and>
   op_rel (knows actions {} {}) (DisableSOARPlaybook t i actor) \<and>
   op_rel (knows actions {} {}) (StartExecution t actor request) \<and>
   op_rel (knows actions {} {}) (DecideApproval t i actor cm) \<and>
   op_rel (knows actions {} {}) (CompleteManualTask t e node actor payload)"
  by (intro conjI knows_CreatePlaybook knows_CreateVersion knows_ValidateVersion knows_PublishVersion
      knows_calls(3) knows_StartExecution knows_DecideApproval knows_CompleteManualTask)

text \<open>C10. In every reachable state each attempt to run an action of risk level 4 or more belongs to an
  execution with an approval that enough different people gave, none of whom started the execution.\<close>

theorem privileged_actions_are_approved: "soar_reachable actions (s, W, V) \<Longrightarrow> actions_authorised s"
  by (rule inv_actions_authorised) (rule reachable_soar_inv)

theorem privileged_actions_are_approved_witness:
  "soar_reachable DefaultActionCatalog (run_asked run_hash, {claimed_item run_hash}, {read_version}) \<and>
   actions_authorised (run_asked run_hash)"
  using run_asked_reachable privileged_actions_are_approved [OF run_asked_reachable] by blast

text \<open>C11. In every reachable state an approved approval has at least as many different approvers as it asked
  for, and the person who started the execution is not among them.\<close>

theorem approvals_are_earned: "soar_reachable actions (s, W, V) \<Longrightarrow> approvals_earned s"
  by (rule inv_approvals_earned) (rule reachable_soar_inv)

theorem approvals_are_earned_witness:
  "soar_reachable DefaultActionCatalog (run_asked run_hash, {claimed_item run_hash}, {read_version}) \<and>
   approvals_earned (run_asked run_hash)"
  using run_asked_reachable approvals_are_earned [OF run_asked_reachable] by blast

text \<open>C14. In every reachable state a node that is not pending or cancelled has had all its dependencies
  succeed.\<close>

theorem nodes_run_in_order: "soar_reachable actions (s, W, V) \<Longrightarrow> nodes_in_order s"
  by (rule inv_nodes_in_order) (rule reachable_soar_inv)

theorem nodes_run_in_order_witness:
  "soar_reachable DefaultActionCatalog (run_asked run_hash, {claimed_item run_hash}, {read_version}) \<and>
   nodes_in_order (run_asked run_hash)"
  using run_asked_reachable nodes_run_in_order [OF run_asked_reachable] by blast

lemma reconciled_open:
  assumes "fst (reconciled_status ns) \<notin> {''SUCCEEDED'', ''FAILED''}"
  obtains n where "n \<in> set ns" "nx_status n \<in> active_statuses" "\<forall>m \<in> set ns. nx_status m \<noteq> ''FAILED''"
proof -
  from assms have "count_status {''FAILED''} ns = 0" "count_status active_statuses ns \<noteq> 0"
    by (auto simp: reconciled_status_def split: if_splits)
  with that show thesis by (auto simp: count_status_def filter_empty_conv)
qed



end
