(* ===== verification/Soar_Contracts.thy ===== *)
theory Soar_Contracts
  imports Soar_Sample
begin

text \<open>
  The contracts of single operations of automated response: what publishing, starting, claiming and
  deciding do to the tables, and the delay before a retry.
\<close>

lemma read_only_GetSOARPlaybook: "read_only (GetSOARPlaybook t i)"
  unfolding GetSOARPlaybook_def first_row_def
  by (auto intro!: read_only_bind read_only_query read_only_return read_only_fail split: list.split)

lemma read_only_GetSOARExecution: "read_only (GetSOARExecution t i)"
  unfolding GetSOARExecution_def listSOARNodeExecutions_def first_row_def
  by (auto intro!: read_only_bind read_only_query read_only_return read_only_fail split: list.split)

lemma read_onlyD: "read_only f \<Longrightarrow> f (s, w) = (r, (s', w')) \<Longrightarrow> s' = s"
  unfolding read_only_def by (auto dest: op_relD)

subsection \<open>Publishing\<close>

definition published_versions :: "tenant \<Rightarrow> string \<Rightarrow> soar_db \<Rightarrow> int set" where
  "published_versions t i s =
    {k. \<exists>v \<in> set (so_versions s). is_version t i k v \<and> pv_state v = ''PUBLISHED''}"

definition published_row :: "tenant \<Rightarrow> string \<Rightarrow> int \<Rightarrow> time \<Rightarrow> soar_version \<Rightarrow> soar_version" where
  "published_row t i k now r =
    (let retired = (if pv_tenant r = t \<and> pv_playbook r = i \<and> pv_state r = ''PUBLISHED'' then r\<lparr>pv_state := ''RETIRED''\<rparr> else r)
     in if is_version t i k retired then retired\<lparr>pv_state := ''PUBLISHED'', pv_published_at := Some (to_micro now)\<rparr> else retired)"

lemma published_row:
  "is_version t i j (published_row t i k now r) \<and> pv_state (published_row t i k now r) = ''PUBLISHED'' \<longleftrightarrow>
     is_version t i j r \<and> j = k"
  "(\<lambda>v. (pv_tenant v, pv_playbook v, pv_version v, pv_spec v)) (published_row t i k now r) =
     (pv_tenant r, pv_playbook r, pv_version r, pv_spec r)"
  by (auto simp: published_row_def is_version_def Let_def)

lemma published_rows:
  assumes "so_versions s' = map (published_row t i k now) (so_versions s)" "v \<in> set (so_versions s)" "is_version t i k v"
  shows "published_versions t i s' = {k}"
  using assms published_row(1) [of t i _ k now] by (auto simp: published_versions_def)

lemma publish_triple:
  "triple (\<lambda>s. s = s0) (PublishSOARPlaybookVersion t i k actor)
     (\<lambda>_ s. (\<exists>v \<in> set (so_versions s0). is_version t i k v \<and> pv_state v = ''VALIDATED'') \<and>
        (\<exists>now. so_versions s = map (published_row t i k now) (so_versions s0)))" (is "triple _ _ (\<lambda>_. ?done)")
  unfolding PublishSOARPlaybookVersion_def
  apply (rule triple_bind [OF triple_transaction triple_read_only [OF read_only_GetSOARPlaybook]])
  apply (rule triple_select, rule triple_if, rule triple_fail, rule triple_bind_now)
  apply (rule triple_bind [OF triple_versions [where
        Q = "\<lambda>s. (\<exists>v \<in> set (so_versions s0). is_version t i k v \<and> pv_state v = ''VALIDATED'') \<and>
          so_versions s = update_rows (\<lambda>r. pv_tenant r = t \<and> pv_playbook r = i \<and> pv_state r = ''PUBLISHED'')
            (\<lambda>r. r\<lparr>pv_state := ''RETIRED''\<rparr>) (so_versions s0)"]])
   apply force
  apply (rule triple_bind [OF triple_versions [where Q = ?done]])
   apply (force simp: update_rows_def published_row_def Let_def)
  apply (rule triple_bind [where Q = "\<lambda>_. ?done"])
   apply (unfold update_playbooks_def, rule triple_statement, force)
  apply (rule triple_return)
  apply assumption
  done

text \<open>C19. Publishing a version asks for a validated one, retires the version published before it, and leaves
  exactly this one published; no version is added, lost or edited.\<close>

theorem publish_leaves_one_version:
  assumes "PublishSOARPlaybookVersion t i k actor (s, w) = (Inr d, (s', w'))"
  shows "(\<exists>v \<in> set (so_versions s). is_version t i k v \<and> pv_state v = ''VALIDATED'') \<and>
    published_versions t i s' = {k} \<and>
    map (\<lambda>v. (pv_tenant v, pv_playbook v, pv_version v, pv_spec v)) (so_versions s') =
    map (\<lambda>v. (pv_tenant v, pv_playbook v, pv_version v, pv_spec v)) (so_versions s)"
proof -
  from tripleD [OF publish_triple refl assms] obtain v now where
    "v \<in> set (so_versions s)" "is_version t i k v" "pv_state v = ''VALIDATED''"
    "so_versions s' = map (published_row t i k now) (so_versions s)" by blast
  with published_rows [OF this(4,1,2)] show ?thesis by (auto simp: published_row(2))
qed

theorem publish_leaves_one_version_witness:
  "\<exists>d s' w'. PublishSOARPlaybookVersion ''acme'' ''pbk_1'' 1 ''ann'' (sample_playbook_db ''VALIDATED'', sample_world) = (Inr d, (s', w')) \<and>
     published_versions ''acme'' ''pbk_1'' s' = {1}"
proof -
  have "is_ok (fst (PublishSOARPlaybookVersion ''acme'' ''pbk_1'' 1 ''ann'' (sample_playbook_db ''VALIDATED'', sample_world)))"
    by code_simp
  then obtain d s' w' where
    "PublishSOARPlaybookVersion ''acme'' ''pbk_1'' 1 ''ann'' (sample_playbook_db ''VALIDATED'', sample_world) = (Inr d, (s', w'))"
    by (rule is_ok_run)
  with publish_leaves_one_version [OF this] show ?thesis by blast
qed

subsection \<open>Starting an execution\<close>

lemma insert_rows_triple:
  "triple (\<lambda>s. s = s0) (op_bind (sql_exec (insert_execution e)) (\<lambda>_. op_bind (insert_snapshots e nodes) (\<lambda>_. op_return x)))
     (\<lambda>y s. y = x \<and> (\<exists>e1 rows. so_executions s = so_executions s0 @ [e1] \<and> ex_id e1 = ex_id e \<and>
        ex_tenant e1 = ex_tenant e \<and> so_nodes s = so_nodes s0 @ rows \<and>
        list_all2 (\<lambda>n r. \<exists>i. r = node_snapshot e n i) nodes rows))"
proof (rule tripleI)
  fix s w y s' w'
  assume s: "s = s0" and "op_bind (sql_exec (insert_execution e)) (\<lambda>_. op_bind (insert_snapshots e nodes) (\<lambda>_. op_return x)) (s, w) =
    (Inr y, (s', w'))"
  then obtain s1 w1 s2 w2 where 1: "sql_exec (insert_execution e) (s, w) = (Inr (), (s1, w1))"
    and 2: "insert_snapshots e nodes (s1, w1) = (Inr (), (s2, w2))" and 3: "s' = s2" "y = x"
    by (auto elim!: op_bind_InrE simp: return_Inr)
  from sql_exec_Inr [OF 1] obtain e1 where "s1 = s\<lparr>so_executions := so_executions s @ [e1]\<rparr>"
    "ex_id e1 = ex_id e" "ex_tenant e1 = ex_tenant e" by (auto simp: insert_execution_def split: if_splits)
  with insert_snapshots_run [OF 2] s 3 show "y = x \<and> (\<exists>e1 rows. so_executions s' = so_executions s0 @ [e1] \<and> ex_id e1 = ex_id e \<and>
      ex_tenant e1 = ex_tenant e \<and> so_nodes s' = so_nodes s0 @ rows \<and>
      list_all2 (\<lambda>n r. \<exists>i. r = node_snapshot e n i) nodes rows)" by auto
qed

definition same_request :: "soar_execution \<Rightarrow> soar_execution \<Rightarrow> bool" where
  "same_request e r \<longleftrightarrow> ex_tenant r = ex_tenant e \<and> ex_request r = ex_request e"

definition started_from :: "soar_execution \<Rightarrow> soar_node list \<Rightarrow> soar_db \<Rightarrow> soar_db \<Rightarrow> bool" where
  "started_from e nodes s s' \<longleftrightarrow>
     (\<exists>e1 rows. so_executions s' = so_executions s @ [e1] \<and> ex_id e1 = ex_id e \<and> ex_tenant e1 = ex_tenant e \<and>
        so_nodes s' = so_nodes s @ rows \<and>
        list_all2 (\<lambda>n r. in_execution e r \<and> row_shape r = spec_shape n \<and>
          nx_status r = (if sn_depends_on n = [] then ''READY'' else ''PENDING'')) nodes rows)"

lemma started_fromI:
  "\<exists>e1 rows. so_executions s' = so_executions s @ [e1] \<and> ex_id e1 = ex_id e \<and> ex_tenant e1 = ex_tenant e \<and>
     so_nodes s' = so_nodes s @ rows \<and> list_all2 (\<lambda>n r. \<exists>i. r = node_snapshot e n i) nodes rows \<Longrightarrow>
   started_from e nodes s s'"
  unfolding started_from_def
  by (elim exE conjE, intro exI conjI, assumption+, erule list_all2_mono)
    (auto simp: node_snapshot_def in_execution_def row_shape_def spec_shape_def)

lemma triple_transaction_or:
  assumes "triple P body (\<lambda>x s. case x of Inl b \<Rightarrow> B b | Inr y \<Rightarrow> Q (Inr y) s)" "\<And>s b. P s \<Longrightarrow> B b \<Longrightarrow> Q (Inl b) s"
  shows "triple P (transaction_or body) Q"
proof (rule tripleI)
  fix s w x s' w'
  assume P: "P s" and run: "transaction_or body (s, w) = (Inr x, (s', w'))"
  from transaction_or_Inr [OF run] obtain w1 s1 w2 where
    "body (s, w1) = (Inr x, (s1, w2))" "s' = (case x of Inl _ \<Rightarrow> s | Inr _ \<Rightarrow> s1)" by blast
  with assms P show "Q x s'" by (cases x) (fastforce dest: tripleD)+
qed

lemma GetSOARExecution_triple:
  "triple P (GetSOARExecution t i) (\<lambda>e s. P s \<and> ex_tenant e = t \<and> ex_id e = i)"
  unfolding GetSOARExecution_def listSOARNodeExecutions_def
  by (rule triple_select, rule triple_bind [OF triple_query [where Q = "\<lambda>_ s. P s \<and> ex_tenant r = t \<and> ex_id r = i" for r]])
    (auto simp: is_execution_def intro!: triple_return)

lemma CreateSOARExecution_triple:
  "triple (\<lambda>s. s = s0) (CreateSOARExecution e nodes) (\<lambda>(stored, created) s.
     if \<exists>r \<in> set (so_executions s0). same_request e r
     then \<not> created \<and> s = s0 \<and> (\<exists>r \<in> set (so_executions s0). same_request e r \<and> ex_id stored = ex_id r)
     else created \<and> started_from e nodes s0 s)"
proof -
  let ?again = "\<exists>r \<in> set (so_executions s0). same_request e r"
  let ?Q = "\<lambda>x s. case x of Inl i \<Rightarrow> s = s0 \<and> (\<exists>r \<in> set (so_executions s0). same_request e r \<and> ex_id r = i)
      | Inr _ \<Rightarrow> \<not> ?again \<and> started_from e nodes s0 s"
  let ?query = "sql_query (\<lambda>s. Inr (filter (\<lambda>r. ex_tenant r = ex_tenant e \<and> ex_request r = ex_request e) (so_executions s)))"
  let ?ins = "op_bind (sql_exec (insert_execution e)) (\<lambda>_. op_bind (insert_snapshots e nodes) (\<lambda>_. op_return (Inr () :: string + unit)))"
  have launch: "triple (\<lambda>s. s = s0) (op_bind (sql_query (\<lambda>s. Inr (launch_states (ex_tenant e) (ex_playbook e) (ex_playbook_version e) s))) (\<lambda>states.
      op_bind (first_row ErrNotFound states) (\<lambda>(published, version).
      if published \<noteq> ''PUBLISHED'' \<or> version \<noteq> ''PUBLISHED'' then op_fail SoarErrInvalidState else ?ins)))
      (\<lambda>x s. x = Inr () \<and> started_from e nodes s0 s)"
  proof (rule triple_bind [OF triple_query [where Q = "\<lambda>_ s. s = s0"]], assumption)
    fix states
    show "triple (\<lambda>s. s = s0) (op_bind (first_row ErrNotFound states) (\<lambda>(published, version).
        if published \<noteq> ''PUBLISHED'' \<or> version \<noteq> ''PUBLISHED'' then op_fail SoarErrInvalidState else ?ins))
        (\<lambda>x s. x = Inr () \<and> started_from e nodes s0 s)"
      by (cases states) (auto simp only: bind_first_row prod.case split: prod.split
          intro!: triple_fail triple_if triple_post [OF insert_rows_triple] started_fromI)
  qed
  have body: "triple (\<lambda>s. s = s0) (op_bind ?query (\<lambda>existing. case existing of
        r # _ \<Rightarrow> op_return (Inl (ex_id r))
      | [] \<Rightarrow> op_bind (sql_query (\<lambda>s. Inr (launch_states (ex_tenant e) (ex_playbook e) (ex_playbook_version e) s))) (\<lambda>states.
          op_bind (first_row ErrNotFound states) (\<lambda>(published, version).
          if published \<noteq> ''PUBLISHED'' \<or> version \<noteq> ''PUBLISHED'' then op_fail SoarErrInvalidState else ?ins))))
      (\<lambda>x s. case x of Inl i \<Rightarrow> \<exists>r \<in> set (so_executions s0). same_request e r \<and> ex_id r = i | Inr y \<Rightarrow> ?Q (Inr y) s)"
  proof (rule triple_bind [OF triple_query [where
        Q = "\<lambda>rows s. s = s0 \<and> rows = filter (same_request e) (so_executions s0)"]], goal_cases)
    case (1 s x)
    then show ?case by (auto simp: same_request_def intro: filter_cong)
  next
    case (2 rows)
    show ?case
    proof (cases rows)
      case Nil
      have "triple (\<lambda>s. s = s0 \<and> [] = filter (same_request e) (so_executions s0))
          (op_bind (sql_query (\<lambda>s. Inr (launch_states (ex_tenant e) (ex_playbook e) (ex_playbook_version e) s))) (\<lambda>states.
          op_bind (first_row ErrNotFound states) (\<lambda>(published, version).
          if published \<noteq> ''PUBLISHED'' \<or> version \<noteq> ''PUBLISHED'' then op_fail SoarErrInvalidState else ?ins)))
          (\<lambda>x s. case x of Inl i \<Rightarrow> \<exists>r \<in> set (so_executions s0). same_request e r \<and> ex_id r = i | Inr y \<Rightarrow> ?Q (Inr y) s)"
      proof (cases ?again)
        case True
        then have "[] \<noteq> filter (same_request e) (so_executions s0)" by (metis filter_empty_conv)
        then show ?thesis by (simp add: triple_def)
      next
        case False
        show ?thesis
          by (rule triple_conseq [OF launch]) (use False in auto)
      qed
      with Nil show ?thesis by simp
    next
      case (Cons r rs)
      have "r \<in> set (so_executions s0) \<and> same_request e r" if "rows = filter (same_request e) (so_executions s0)"
        using that Cons by (metis (mono_tags) filter_eq_ConsD in_set_conv_decomp)
      with Cons show ?thesis by (auto intro!: triple_return)
    qed
  qed
  show ?thesis
    unfolding CreateSOARExecution_def
  proof (rule triple_bind [OF triple_transaction_or [where Q = ?Q]])
    show "triple (\<lambda>s. s = s0) (op_bind (sql_query (\<lambda>_. Inr ())) (\<lambda>_. op_bind ?query (\<lambda>existing. case existing of
        [] \<Rightarrow> op_bind (sql_query (\<lambda>s. Inr (launch_states (ex_tenant e) (ex_playbook e) (ex_playbook_version e) s))) (\<lambda>states.
          op_bind (first_row ErrNotFound states) (\<lambda>(published, version).
          if published \<noteq> ''PUBLISHED'' \<or> version \<noteq> ''PUBLISHED'' then op_fail SoarErrInvalidState else ?ins))
      | r # _ \<Rightarrow> op_return (Inl (ex_id r)))))
      (\<lambda>x s. case x of Inl i \<Rightarrow> \<exists>r \<in> set (so_executions s0). same_request e r \<and> ex_id r = i | Inr y \<Rightarrow> ?Q (Inr y) s)"
      by (rule triple_bind [OF triple_query [where Q = "\<lambda>_ s. s = s0"] body]) simp
  next
    fix s i assume "s = s0" "\<exists>r \<in> set (so_executions s0). same_request e r \<and> ex_id r = i"
    then show "?Q (Inl i :: string + unit) s" by simp
  next
    fix x :: "string + unit"
    show "triple (?Q x) (case x of
          Inl existing \<Rightarrow> op_bind (GetSOARExecution (ex_tenant e) existing) (\<lambda>stored. op_return (stored, False))
        | Inr _ \<Rightarrow> op_bind (GetSOARExecution (ex_tenant e) (ex_id e)) (\<lambda>stored. op_return (stored, True)))
      (\<lambda>(stored, created) s. if ?again then \<not> created \<and> s = s0 \<and> (\<exists>r \<in> set (so_executions s0). same_request e r \<and> ex_id stored = ex_id r)
        else created \<and> started_from e nodes s0 s)"
      by (cases x) (auto intro!: triple_bind [OF GetSOARExecution_triple] triple_return)
  qed
qed

text \<open>C18. A request identifier starts one execution: when the tenant has used it before, the stored execution is
  answered and nothing changes; otherwise one execution is added with one row per node of the playbook, in
  which exactly the nodes without dependencies are ready.\<close>

theorem request_starts_one_execution:
  assumes "CreateSOARExecution e nodes (s, w) = (Inr (stored, created), (s', w'))"
  shows "if \<exists>r \<in> set (so_executions s). same_request e r
     then \<not> created \<and> s' = s \<and> (\<exists>r \<in> set (so_executions s). same_request e r \<and> ex_id stored = ex_id r)
     else created \<and> started_from e nodes s s'"
  using tripleD [OF CreateSOARExecution_triple refl assms] by simp

theorem request_starts_one_execution_witness:
  "\<exists>stored s' w'. CreateSOARExecution sample_execution (sp_nodes sample_playbook_spec)
       (sample_playbook_db ''PUBLISHED'', sample_world) = (Inr (stored, True), (s', w')) \<and>
     started_from sample_execution (sp_nodes sample_playbook_spec) (sample_playbook_db ''PUBLISHED'') s'"
proof -
  have "is_ok (fst (CreateSOARExecution sample_execution (sp_nodes sample_playbook_spec)
      (sample_playbook_db ''PUBLISHED'', sample_world)))"
    by code_simp
  then obtain d s' w' where run: "CreateSOARExecution sample_execution (sp_nodes sample_playbook_spec)
      (sample_playbook_db ''PUBLISHED'', sample_world) = (Inr d, (s', w'))"
    by (rule is_ok_run)
  obtain stored created where d: "d = (stored, created)" by fastforce
  have "so_executions (sample_playbook_db ''PUBLISHED'') = []" by (simp add: sample_playbook_db_def empty_soar_def)
  with request_starts_one_execution [OF run [unfolded d]] run d show ?thesis by auto
qed

subsection \<open>Claiming\<close>

text \<open>A claim that finds no node to run changes nothing, even when approvals are overdue: they expire only in
  a transaction that also claims a node.\<close>

theorem idle_claim_changes_nothing:
  "ClaimSOARNode worker scope lease (s, w) = (Inr None, (s', w')) \<Longrightarrow> s' = s"
  using ClaimSOARNode_nothing by fastforce

theorem idle_claim_changes_nothing_witness:
  "\<exists>w'. ClaimSOARNode ''worker'' [] go_second (overdue_db, sample_world) = (Inr None, (overdue_db, w')) \<and>
     (\<exists>ap \<in> set (so_approvals overdue_db). approval_due (fst (time_now sample_world)) ap)"
proof -
  have run: "(case ClaimSOARNode ''worker'' [] go_second (overdue_db, sample_world) of (Inr None, _) \<Rightarrow> True | _ \<Rightarrow> False)"
    by code_simp
  obtain s' w' where c: "ClaimSOARNode ''worker'' [] go_second (overdue_db, sample_world) = (Inr None, (s', w'))"
    by (rule run_exhaust [of "ClaimSOARNode ''worker'' [] go_second" "(overdue_db, sample_world)"])
      (use run in \<open>auto split: sum.splits option.splits\<close>)
  have "approval_due (fst (time_now sample_world)) (hd (so_approvals overdue_db)) \<and> so_approvals overdue_db \<noteq> []"
    by code_simp
  then have "\<exists>ap \<in> set (so_approvals overdue_db). approval_due (fst (time_now sample_world)) ap"
    by (metis hd_in_set)
  with c idle_claim_changes_nothing [OF c] show ?thesis by blast
qed

subsection \<open>The delay before a retry\<close>

text \<open>The delay is the backoff of the node, at least a second, doubled for every attempt before and cut at the
  node's maximum; under the validator's bounds it never exceeds a day.\<close>

theorem retry_delay_bounds:
  assumes "sr_backoff (nx_retry n) \<le> 3600" "sr_maximum_backoff (nx_retry n) \<le> 86400"
  shows "go_second \<le> retry_delay n \<and> max 1 (sr_backoff (nx_retry n)) * go_second \<le> retry_delay n \<and>
    retry_delay n \<le> 86400 * go_second"
proof -
  let ?b = "if sr_backoff (nx_retry n) < 1 then 1 else sr_backoff (nx_retry n)"
  have "?b * 1 \<le> ?b * 2 ^ nat (nx_attempt n - 1)" by (rule mult_left_mono) simp_all
  moreover have "1 \<le> ?b" by simp
  ultimately have "1 \<le> ?b * 2 ^ nat (nx_attempt n - 1)" "?b \<le> ?b * 2 ^ nat (nx_attempt n - 1)" by linarith+
  then show ?thesis using assms by (auto simp: retry_delay_def Let_def min_def max_def go_second_def)
qed

theorem retry_delay_bounds_witness:
  "retry_delay (node_snapshot sample_execution (hd (sp_nodes sample_playbook_spec)) ''snx_1'') \<le> 86400 * go_second"
proof -
  let ?n = "node_snapshot sample_execution (hd (sp_nodes sample_playbook_spec)) ''snx_1''"
  have "sr_backoff (nx_retry ?n) \<le> 3600" "sr_maximum_backoff (nx_retry ?n) \<le> 86400" by code_simp+
  with retry_delay_bounds [of ?n] show ?thesis by blast
qed

subsection \<open>Deciding\<close>

text \<open>Everything but the insertion of a decision leaves the decisions as they are.\<close>

abbreviation decisions_are :: "soar_decision_row list \<Rightarrow> soar_db \<Rightarrow> bool" where
  "decisions_are ds s \<equiv> so_decisions s = ds"

named_theorems decision_frames \<open>operations that leave the decisions alone\<close>

lemma frame_bind [decision_frames]:
  "triple (decisions_are ds) f (\<lambda>_. decisions_are ds) \<Longrightarrow> (\<And>x. triple (decisions_are ds) (g x) (\<lambda>_. decisions_are ds)) \<Longrightarrow>
   triple (decisions_are ds) (op_bind f g) (\<lambda>_. decisions_are ds)"
  by (rule triple_bind)

lemma frame_rules [decision_frames]:
  "triple (decisions_are ds) (op_return x) (\<lambda>_. decisions_are ds)"
  "triple (decisions_are ds) (op_fail err) (\<lambda>_. decisions_are ds)"
  "triple (decisions_are ds) (sql_query q) (\<lambda>_. decisions_are ds)"
  "triple (decisions_are ds) (update_nodes P f) (\<lambda>_. decisions_are ds)"
  "triple (decisions_are ds) (update_executions P' g) (\<lambda>_. decisions_are ds)"
  "triple (decisions_are ds) (update_approvals P'' h) (\<lambda>_. decisions_are ds)"
  "triple (decisions_are ds) (on_pg k) (\<lambda>_. decisions_are ds)"
  "triple (decisions_are ds) (sql_exec (\<lambda>s. Inr (promote_nodes t e now s))) (\<lambda>_. decisions_are ds)"
  "triple (decisions_are ds) (sql_exec (\<lambda>s. Inr (cancel_branches t e now s))) (\<lambda>_. decisions_are ds)"
  "triple (decisions_are ds) (sql_exec (\<lambda>s. Inr (expire_node t i now s))) (\<lambda>_. decisions_are ds)"
  unfolding update_nodes_def update_executions_def update_approvals_def
  by (auto intro!: triple_return triple_fail triple_query triple_statement triple_exec
      simp: promote_nodes_def cancel_branches_def expire_node_def)
    (auto intro!: tripleI simp: on_pg_def Let_def split: prod.splits)

lemma frame_if [decision_frames]:
  "(b \<Longrightarrow> triple P f Q) \<Longrightarrow> (\<not> b \<Longrightarrow> triple P g Q) \<Longrightarrow> triple P (if b then f else g) Q"
  by (rule triple_if)

lemma frame_promote [decision_frames]:
  "triple (decisions_are ds) (promoteAndReconcileSOAR t e now) (\<lambda>_. decisions_are ds)"
  unfolding promoteAndReconcileSOAR_def by (intro decision_frames) (auto split: prod.split intro!: decision_frames)

lemma frame_expire_late [decision_frames]: "triple (decisions_are ds) (expire_late t b now) (\<lambda>_. decisions_are ds)"
  unfolding expire_late_def by (intro decision_frames)

lemma frame_finalize [decision_frames]: "triple (decisions_are ds) (finalize_approval t b cm final now) (\<lambda>_. decisions_are ds)"
  unfolding finalize_approval_def by (intro decision_frames)

lemma frame_final_status [decision_frames]: "triple (decisions_are ds) (final_status b cm) (\<lambda>_. decisions_are ds)"
  unfolding final_status_def by (intro decision_frames)

text \<open>What may have happened to the decisions: nothing, or one was added by someone entitled to it.\<close>

definition decision_recorded :: "tenant \<Rightarrow> string \<Rightarrow> string \<Rightarrow> soar_approval_command \<Rightarrow> soar_db \<Rightarrow> soar_db \<Rightarrow> bool" where
  "decision_recorded t i approver cm s s' \<longleftrightarrow>
     so_decisions s' = so_decisions s \<or>
     (\<exists>b \<in> set (so_approvals s). is_approval t i b \<and> av_version b = cm_version cm \<and> av_status b = ''PENDING'' \<and>
        av_requested_by b \<noteq> approver \<and> decision_valid (cm_decision cm) \<and>
        approver \<notin> set (map de_approver (decisions_of t i s)) \<and>
        (\<exists>now < av_expires_at b. so_decisions s' = so_decisions s @
           [\<lparr>dr_tenant = t, dr_approval = i, dr_decision =
              \<lparr>de_approver = approver, de_decision = cm_decision cm, de_reason = cm_reason cm,
               de_decided_at = to_micro now\<rparr>\<rparr>]))"

lemma triple_keep_pure: "triple P f Q \<Longrightarrow> triple (\<lambda>s. b \<and> P s) f (\<lambda>x s. b \<and> Q x s)"
  unfolding triple_def by blast

lemma record_decision_adds:
  "triple (\<lambda>s. s = s0) (record_decision t b approver cm now)
     (\<lambda>_ s. decision_valid (cm_decision cm) \<and> approver \<notin> set (map de_approver (decisions_of t (av_id b) s0)) \<and>
        so_decisions s = so_decisions s0 @ [\<lparr>dr_tenant = t, dr_approval = av_id b, dr_decision =
          \<lparr>de_approver = approver, de_decision = cm_decision cm, de_reason = cm_reason cm, de_decided_at = to_micro now\<rparr>\<rparr>])"
proof -
  let ?d = "\<lparr>de_approver = approver, de_decision = cm_decision cm, de_reason = cm_reason cm, de_decided_at = to_micro now\<rparr>"
  let ?new = "so_decisions s0 @ [\<lparr>dr_tenant = t, dr_approval = av_id b, dr_decision = ?d\<rparr>]"
  let ?fresh = "decision_valid (cm_decision cm) \<and> approver \<notin> set (map de_approver (decisions_of t (av_id b) s0))"
  have insert: "triple (\<lambda>s. s = s0) (statement (insert_decision t (av_id b) ?d))
      (\<lambda>inserted s. inserted \<longrightarrow> ?fresh \<and> decisions_are ?new s)"
    by (rule triple_statement)
      (auto simp: insert_decision_def decisions_of_def split: if_splits)
  show ?thesis
    unfolding record_decision_def
  proof (rule triple_bind [OF insert])
    fix inserted
    show "triple (\<lambda>s. inserted \<longrightarrow> ?fresh \<and> decisions_are ?new s)
      (if \<not> inserted then op_fail ErrAlreadyExists
       else op_bind (final_status b cm) (\<lambda>final.
         op_bind (if final \<noteq> [] then finalize_approval t b cm final now
                  else op_bind (update_approvals (is_approval t (av_id b)) (\<lambda>r. r\<lparr>av_version := av_version r + 1\<rparr>))
                         (\<lambda>_. op_return ())) (\<lambda>_.
         op_bind (on_pg (appendAuditTx (decision_audit t approver b cm (if final \<noteq> [] then final else ''PENDING'') now)))
         (\<lambda>_. op_return ()))))
      (\<lambda>_ s. decision_valid (cm_decision cm) \<and> approver \<notin> set (map de_approver (decisions_of t (av_id b) s0)) \<and> decisions_are ?new s)"
    proof (rule triple_if)
      assume "\<not> \<not> inserted"
      have frame: "triple (decisions_are ?new) (op_bind (final_status b cm) (\<lambda>final.
         op_bind (if final \<noteq> [] then finalize_approval t b cm final now
                  else op_bind (update_approvals (is_approval t (av_id b)) (\<lambda>r. r\<lparr>av_version := av_version r + 1\<rparr>))
                         (\<lambda>_. op_return ())) (\<lambda>_.
         op_bind (on_pg (appendAuditTx (decision_audit t approver b cm (if final \<noteq> [] then final else ''PENDING'') now)))
         (\<lambda>_. op_return ())))) (\<lambda>_. decisions_are ?new)"
        by (intro decision_frames)
      show "triple (\<lambda>s. inserted \<longrightarrow> ?fresh \<and> decisions_are ?new s) (op_bind (final_status b cm) (\<lambda>final.
         op_bind (if final \<noteq> [] then finalize_approval t b cm final now
                  else op_bind (update_approvals (is_approval t (av_id b)) (\<lambda>r. r\<lparr>av_version := av_version r + 1\<rparr>))
                         (\<lambda>_. op_return ())) (\<lambda>_.
         op_bind (on_pg (appendAuditTx (decision_audit t approver b cm (if final \<noteq> [] then final else ''PENDING'') now)))
         (\<lambda>_. op_return ()))))
        (\<lambda>_ s. decision_valid (cm_decision cm) \<and> approver \<notin> set (map de_approver (decisions_of t (av_id b) s0)) \<and> decisions_are ?new s)"
        by (rule triple_conseq [OF triple_keep_pure [OF frame, where b = ?fresh]]) (use \<open>\<not> \<not> inserted\<close> in simp_all)
    qed (rule triple_fail)
  qed
qed

lemma decide_triple:
  "triple (\<lambda>s. s = s0)
     (op_bind (sql_query (\<lambda>s. Inr (filter (is_approval t i) (so_approvals s)))) (\<lambda>rows.
      op_bind (first_row ErrNotFound rows) (\<lambda>b.
      op_bind op_now (\<lambda>now.
      if av_version b \<noteq> cm_version cm then op_fail ErrApprovalVersionConflict
      else if av_status b \<noteq> ''PENDING'' then op_fail SoarErrInvalidState
      else if \<not> now < av_expires_at b then op_bind (expire_late t b now) (\<lambda>_. op_return False)
      else if av_requested_by b = approver then op_fail SoarErrInvalidState
      else op_bind (record_decision t b approver cm now) (\<lambda>_. op_return True)))))
     (\<lambda>_ s. decision_recorded t i approver cm s0 s)"
proof (rule triple_select, rule triple_bind_now, rule triple_if, rule triple_fail, rule triple_if, rule triple_fail, rule triple_if)
  fix b :: soar_approval and now
  show "triple (\<lambda>s. s = s0 \<and> b \<in> set (so_approvals s) \<and> is_approval t i b) (op_bind (expire_late t b now) (\<lambda>_. op_return False))
      (\<lambda>_ s. decision_recorded t i approver cm s0 s)"
    by (rule triple_conseq [OF frame_bind [OF frame_expire_late frame_rules(1), of "so_decisions s0"]])
      (simp_all add: decision_recorded_def)
next
  fix b :: soar_approval and now
  assume c: "\<not> av_version b \<noteq> cm_version cm" "\<not> av_status b \<noteq> ''PENDING''" "\<not> \<not> now < av_expires_at b"
  show "triple (\<lambda>s. s = s0 \<and> b \<in> set (so_approvals s) \<and> is_approval t i b)
      (if av_requested_by b = approver then op_fail SoarErrInvalidState
       else op_bind (record_decision t b approver cm now) (\<lambda>_. op_return True))
      (\<lambda>_ s. decision_recorded t i approver cm s0 s)"
  proof (rule triple_if, rule triple_fail, rule triple_pre [where P = "\<lambda>s. (b \<in> set (so_approvals s0) \<and> is_approval t i b) \<and> s = s0"],
      rule triple_pure, rule triple_bind [OF record_decision_adds], rule triple_return)
    fix s :: soar_db and x :: unit
    assume d: "av_requested_by b \<noteq> approver" "b \<in> set (so_approvals s0) \<and> is_approval t i b"
      "decision_valid (cm_decision cm) \<and> approver \<notin> set (map de_approver (decisions_of t (av_id b) s0)) \<and>
        so_decisions s = so_decisions s0 @ [\<lparr>dr_tenant = t, dr_approval = av_id b, dr_decision =
          \<lparr>de_approver = approver, de_decision = cm_decision cm, de_reason = cm_reason cm, de_decided_at = to_micro now\<rparr>\<rparr>]"
    then have "av_id b = i" by (simp add: is_approval_def)
    with c d show "decision_recorded t i approver cm s0 s" unfolding decision_recorded_def by auto
  qed simp
qed

text \<open>Whatever the outcome of a decision, the decisions on record stay, and one is added only while the
  approval is pending, at the version the approver saw, before it expires, and for an approver who neither
  started the execution nor decided before.\<close>

theorem decisions_are_entitled:
  "op_rel (decision_recorded t i approver cm) (DecideSOARApproval t i approver cm)"
proof (rule op_relI)
  fix s w r s' w'
  let ?tx = "transaction (op_bind (sql_query (\<lambda>s. Inr (filter (is_approval t i) (so_approvals s)))) (\<lambda>rows.
      op_bind (first_row ErrNotFound rows) (\<lambda>b.
      op_bind op_now (\<lambda>now.
      if av_version b \<noteq> cm_version cm then op_fail ErrApprovalVersionConflict
      else if av_status b \<noteq> ''PENDING'' then op_fail SoarErrInvalidState
      else if \<not> now < av_expires_at b then op_bind (expire_late t b now) (\<lambda>_. op_return False)
      else if av_requested_by b = approver then op_fail SoarErrInvalidState
      else op_bind (record_decision t b approver cm now) (\<lambda>_. op_return True)))))"
  assume "DecideSOARApproval t i approver cm (s, w) = (r, (s', w'))"
  then have run: "op_bind ?tx (\<lambda>decided. if decided then getSOARApproval t i else op_fail SoarErrInvalidState) (s, w) = (r, (s', w'))"
    by (simp only: DecideSOARApproval_def)
  have answer: "read_only (if decided then getSOARApproval t i else op_fail SoarErrInvalidState)" for decided
    unfolding getSOARApproval_def listSOARApprovalDecisions_def first_row_def
    by (auto intro!: read_only_bind read_only_query read_only_return read_only_fail split: list.split)
  obtain q s1 w1 where tx: "?tx (s, w) = (q, (s1, w1))" by (rule run_exhaust)
  show "decision_recorded t i approver cm s s'"
  proof (cases q)
    case (Inl e)
    from tx [unfolded Inl] have "s1 = s" by (rule transaction_failed)
    moreover from run tx Inl have "s' = s1" by (simp only: op_bind_def prod.case sum.case) simp
    ultimately show ?thesis by (simp add: decision_recorded_def)
  next
    case (Inr x)
    with run tx have "(if x then getSOARApproval t i else op_fail SoarErrInvalidState) (s1, w1) = (r, (s', w'))"
      by (simp only: op_bind_def [of ?tx]) simp
    from read_onlyD [OF answer this] have s': "s' = s1" .
    from tripleD [OF triple_transaction [OF decide_triple] refl tx [unfolded Inr]] show ?thesis unfolding s' .
  qed
qed

end
