(* ===== verification/Access_Roles.thy ===== *)
theory Access_Roles
  imports Core_Model
begin

text \<open>
  Principals and their permissions: \<^verbatim>\<open>internal/platform/auth/auth.go\<close>, the role tables of
  \<^verbatim>\<open>internal/platform/auth/oidc.go\<close> and \<^verbatim>\<open>internal/platform/tenant/id.go\<close>. A \<^verbatim>\<open>map[string]bool\<close> that is only
  ever set to true is the list of its keys.
\<close>

subsection \<open>Tenant identifiers\<close>

definition lower_alphanumeric :: "char \<Rightarrow> bool" where
  "lower_alphanumeric c \<longleftrightarrow> CHR ''a'' \<le> c \<and> c \<le> CHR ''z'' \<or> CHR ''0'' \<le> c \<and> c \<le> CHR ''9''"

definition tenant_valid :: "string \<Rightarrow> bool" where
  "tenant_valid value \<longleftrightarrow>
     value \<noteq> [] \<and> length value \<le> 63 \<and> lower_alphanumeric (hd value) \<and> lower_alphanumeric (last value) \<and>
     list_all (\<lambda>c. lower_alphanumeric c \<or> c = CHR ''-'') (butlast (tl value))"

subsection \<open>Roles\<close>

definition rolePermissions :: "(string \<times> string list) list" where
  "rolePermissions =
    [(''platform_super_admin'', [''*'']),
     (''platform_administrator'', [''*'']),
     (''tenant_admin'', [''platform.overview.read'', ''admin.users.manage'', ''admin.roles.manage'',
       ''admin.config.manage'', ''platform.audit.read'', ''platform.service_accounts.read'',
       ''platform.service_accounts.write'', ''platform.collectors.read'', ''platform.collectors.manage'',
       ''siem.parsers.read'', ''siem.parsers.write'', ''siem.parsers.publish'', ''siem.mitre.read'',
       ''soc.entities.read'', ''licenses.read'', ''licenses.install'', ''reports.read'', ''reports.generate'',
       ''siem.events.read'', ''siem.events.export'', ''siem.findings.read'', ''detection.rules.read'',
       ''siem.rules.read'', ''siem.hunt.read'', ''siem.hunt.execute'', ''siem.hunt.manage'',
       ''platform.retention.read'', ''platform.retention.manage'', ''ti.indicators.read'', ''ti.indicators.manage'',
       ''soc.alerts.read'', ''soc.alerts.manage'', ''soc.alerts.triage'', ''soc.incidents.read'',
       ''soc.incidents.create'', ''soc.incidents.manage'', ''soc.cases.manage'', ''soc.evidence.read'',
       ''soc.evidence.write'', ''soar.playbooks.read'', ''soar.playbooks.write'', ''soar.playbooks.execute'',
       ''soar.actions.approve'', ''soar.connectors.read'', ''soar.connectors.manage'', ''soar.connectors.test'',
       ''ueba.read'', ''ueba.feedback'', ''ai.read'', ''ai.request'', ''ai.decide'', ''ai.policy.manage'']),
     (''soc_manager'', [''platform.overview.read'', ''platform.collectors.read'', ''siem.events.read'',
       ''siem.events.export'', ''siem.findings.read'', ''detection.rules.read'', ''siem.rules.read'',
       ''siem.parsers.read'', ''siem.mitre.read'', ''soc.entities.read'', ''licenses.read'', ''reports.read'',
       ''reports.generate'', ''siem.hunt.read'', ''siem.hunt.execute'', ''siem.hunt.manage'',
       ''platform.retention.read'', ''ti.indicators.read'', ''soc.alerts.read'', ''soc.alerts.manage'',
       ''soc.alerts.triage'', ''soc.incidents.read'', ''soc.incidents.create'', ''soc.incidents.manage'',
       ''soc.cases.manage'', ''soc.evidence.read'', ''soc.evidence.write'', ''soar.playbooks.read'',
       ''soar.playbooks.write'', ''soar.playbooks.execute'', ''soar.actions.approve'', ''soar.connectors.read'',
       ''soar.connectors.manage'', ''soar.connectors.test'', ''ueba.read'', ''ueba.feedback'', ''ai.read'',
       ''ai.request'', ''ai.decide'']),
     (''soc_l1'', [''platform.overview.read'', ''platform.collectors.read'', ''siem.events.read'', ''siem.findings.read'',
       ''detection.rules.read'', ''siem.rules.read'', ''siem.parsers.read'', ''siem.mitre.read'',
       ''soc.entities.read'', ''licenses.read'', ''reports.read'', ''soc.cases.read'', ''soc.evidence.read'',
       ''soar.playbooks.read'', ''soar.connectors.read'', ''siem.hunt.read'', ''siem.hunt.execute'',
       ''siem.hunt.manage'', ''platform.retention.read'', ''ti.indicators.read'', ''soc.alerts.read'',
       ''soc.alerts.manage'', ''soc.alerts.triage'', ''soc.incidents.read'', ''soc.incidents.create'', ''ueba.read'',
       ''ai.read'', ''ai.request'']),
     (''soc_l2'', [''platform.overview.read'', ''platform.collectors.read'', ''siem.events.read'', ''siem.events.export'',
       ''siem.findings.read'', ''detection.rules.read'', ''siem.rules.read'', ''siem.parsers.read'',
       ''siem.mitre.read'', ''soc.entities.read'', ''licenses.read'', ''reports.read'', ''reports.generate'',
       ''siem.hunt.read'', ''siem.hunt.execute'', ''siem.hunt.manage'', ''platform.retention.read'',
       ''ti.indicators.read'', ''soc.alerts.read'', ''soc.alerts.manage'', ''soc.alerts.triage'',
       ''soc.incidents.read'', ''soc.incidents.create'', ''soc.incidents.manage'', ''soc.cases.manage'',
       ''soc.evidence.read'', ''soc.evidence.write'', ''soar.playbooks.read'', ''soar.playbooks.execute'',
       ''soar.connectors.read'', ''platform.audit.read'', ''ueba.read'', ''ueba.feedback'', ''ai.read'',
       ''ai.request'', ''ai.decide'']),
     (''soc_l3'', [''platform.overview.read'', ''platform.collectors.read'', ''siem.events.read'', ''siem.events.export'',
       ''siem.findings.read'', ''detection.rules.read'', ''siem.rules.read'', ''siem.parsers.read'',
       ''siem.mitre.read'', ''soc.entities.read'', ''licenses.read'', ''reports.read'', ''reports.generate'',
       ''siem.hunt.read'', ''siem.hunt.execute'', ''siem.hunt.manage'', ''platform.retention.read'',
       ''ti.indicators.read'', ''soc.alerts.read'', ''soc.alerts.manage'', ''soc.alerts.triage'',
       ''soc.incidents.read'', ''soc.incidents.create'', ''soc.incidents.manage'', ''soc.cases.manage'',
       ''soc.evidence.read'', ''soc.evidence.write'', ''soar.playbooks.read'', ''soar.playbooks.execute'',
       ''soar.actions.approve'', ''soar.connectors.read'', ''soar.connectors.test'', ''platform.audit.read'',
       ''ueba.read'', ''ueba.feedback'', ''ai.read'', ''ai.request'', ''ai.decide'']),
     (''threat_hunter'', [''platform.overview.read'', ''siem.events.read'', ''siem.events.export'', ''siem.findings.read'',
       ''siem.rules.read'', ''siem.parsers.read'', ''siem.mitre.read'', ''soc.entities.read'', ''siem.hunt.read'',
       ''siem.hunt.execute'', ''siem.hunt.manage'', ''platform.retention.read'', ''ti.indicators.read'',
       ''soc.alerts.read'', ''soc.incidents.read'', ''soc.incidents.create'', ''soc.cases.manage'',
       ''soc.evidence.read'', ''soc.evidence.write'', ''ueba.read'', ''ueba.feedback'', ''ai.read'', ''ai.request'',
       ''ai.decide'']),
     (''detection_engineer'', [''platform.overview.read'', ''platform.collectors.read'', ''siem.events.read'',
       ''siem.findings.read'', ''detection.rules.read'', ''siem.rules.read'', ''siem.rules.write'',
       ''siem.rules.publish'', ''siem.parsers.read'', ''siem.parsers.write'', ''siem.parsers.publish'',
       ''siem.mitre.read'', ''siem.hunt.read'', ''siem.hunt.execute'', ''platform.retention.read'',
       ''ti.indicators.read'', ''ueba.read'', ''ai.read'', ''ai.request'']),
     (''threat_intelligence_analyst'', [''platform.overview.read'', ''siem.events.read'', ''soc.alerts.read'',
       ''soc.incidents.read'', ''ti.indicators.read'', ''ti.indicators.manage'', ''ai.read'', ''ai.request'']),
     (''soar_engineer'', [''platform.overview.read'', ''soc.alerts.read'', ''soc.incidents.read'', ''soar.playbooks.read'',
       ''soar.playbooks.write'', ''soar.playbooks.execute'', ''soar.actions.approve'', ''soar.connectors.read'',
       ''soar.connectors.manage'', ''soar.connectors.test'']),
     (''auditor'', [''platform.overview.read'', ''siem.events.read'', ''siem.rules.read'', ''siem.parsers.read'',
       ''siem.mitre.read'', ''soc.alerts.read'', ''soc.incidents.read'', ''soc.cases.read'', ''soc.evidence.read'',
       ''soc.entities.read'', ''platform.audit.read'', ''platform.service_accounts.read'', ''audit.read'',
       ''ti.indicators.read'', ''ueba.read'', ''ai.read'', ''licenses.read'', ''reports.read'']),
     (''mssp_manager'', [''platform.overview.read'', ''soc.alerts.read'', ''soc.incidents.read'', ''platform.audit.read'',
       ''licenses.read'', ''reports.read'', ''mssp.tenants.read'']),
     (''collector'', [''siem.events.ingest'', ''platform.collectors.heartbeat'']),
     (''service_collector'', [''siem.events.ingest'', ''platform.collectors.heartbeat''])]"

definition permissionImplications :: "(string \<times> string list) list" where
  "permissionImplications =
    [(''platform.service_accounts.write'', [''platform.service_accounts.read'']),
     (''siem.events.export'', [''siem.events.read'']),
     (''platform.collectors.manage'', [''platform.collectors.read'']),
     (''siem.rules.write'', [''siem.rules.read'']),
     (''siem.rules.publish'', [''siem.rules.write'']),
     (''siem.hunt.execute'', [''siem.hunt.read'']),
     (''siem.hunt.manage'', [''siem.hunt.read'']),
     (''platform.retention.manage'', [''platform.retention.read'']),
     (''soc.evidence.write'', [''soc.evidence.read'']),
     (''soc.cases.manage'', [''soc.cases.read'']),
     (''siem.parsers.write'', [''siem.parsers.read'']),
     (''siem.parsers.publish'', [''siem.parsers.write'']),
     (''reports.generate'', [''reports.read'']),
     (''licenses.install'', [''licenses.read'']),
     (''ti.indicators.manage'', [''ti.indicators.read'']),
     (''soc.alerts.manage'', [''soc.alerts.read'']),
     (''soc.alerts.triage'', [''soc.alerts.read'']),
     (''soc.incidents.create'', [''soc.incidents.read'']),
     (''soc.incidents.manage'', [''soc.incidents.read'']),
     (''soar.playbooks.write'', [''soar.playbooks.read'']),
     (''soar.playbooks.execute'', [''soar.playbooks.read'']),
     (''soar.connectors.manage'', [''soar.connectors.read'']),
     (''soar.connectors.test'', [''soar.connectors.read'']),
     (''ueba.feedback'', [''ueba.read'']),
     (''ai.request'', [''ai.read'']),
     (''ai.decide'', [''ai.read'']),
     (''ai.policy.manage'', [''ai.read''])]"

definition roleDisplayNames :: "(string \<times> string) list" where
  "roleDisplayNames =
    [(''platform_super_admin'', ''Platform Super Admin''),
     (''platform_administrator'', ''Platform Super Admin''),
     (''tenant_admin'', ''Tenant Admin''),
     (''mssp_manager'', ''MSSP Manager''),
     (''soc_manager'', ''SOC Manager''),
     (''soc_l1'', ''SOC L1''),
     (''soc_l2'', ''SOC L2''),
     (''soc_l3'', ''SOC L3''),
     (''threat_hunter'', ''Threat Hunter''),
     (''detection_engineer'', ''Detection Engineer''),
     (''threat_intelligence_analyst'', ''Threat Intelligence Analyst''),
     (''soar_engineer'', ''SOAR Engineer''),
     (''auditor'', ''Auditor''),
     (''collector'', ''Collector Service''),
     (''service_collector'', ''Collector Service'')]"

subsection \<open>Permissions\<close>

definition implied :: "string \<Rightarrow> string list" where
  "implied p = (case map_of permissionImplications p of None \<Rightarrow> [] | Some ps \<Rightarrow> ps)"

lemma implied_key: "implied p \<noteq> [] \<Longrightarrow> p \<in> fst ` set permissionImplications"
  by (auto simp: implied_def split: option.splits dest: map_of_SomeD intro: image_eqI [rotated])

text \<open>
  \<^verbatim>\<open>grantPermission\<close> marks a permission and then grants what it implies, one after the other. The list
  holds the calls that are still to be made; a permission that is marked already stops the recursion.
\<close>

function (sequential) grant_each :: "string list \<Rightarrow> string list \<Rightarrow> string list" where
  "grant_each granted [] = granted"
| "grant_each granted (p # ps) =
     (if p \<in> set granted then grant_each granted ps else grant_each (granted @ [p]) (implied p @ ps))"
  by pat_completeness auto

termination
proof (relation "inv_image (less_than <*lex*> less_than)
    (\<lambda>(granted, ps). (card (fst ` set permissionImplications - set granted), length ps))")
  fix granted ps :: "string list" and p
  assume new: "p \<notin> set granted"
  let ?K = "fst ` set permissionImplications"
  show "((granted @ [p], implied p @ ps), (granted, p # ps)) \<in>
      inv_image (less_than <*lex*> less_than) (\<lambda>(granted, ps). (card (?K - set granted), length ps))"
  proof (cases "p \<in> ?K")
    case True
    then have "?K - set (granted @ [p]) \<subset> ?K - set granted" using new by auto
    then have "card (?K - set (granted @ [p])) < card (?K - set granted)" by (intro psubset_card_mono) auto
    then show ?thesis by simp
  next
    case False
    then have "implied p = []" "?K - set (granted @ [p]) = ?K - set granted" using implied_key by auto
    then show ?thesis by simp
  qed
qed auto

definition grantPermission :: "string list \<Rightarrow> string \<Rightarrow> string list" where
  "grantPermission granted p = grant_each granted [p]"

definition knownPermissions :: "string list" where
  "knownPermissions = foldl grantPermission []
     (filter (\<lambda>p. p \<noteq> ''*'') (concat (map snd rolePermissions)))"

definition IsKnownPermission :: "string \<Rightarrow> bool" where
  "IsKnownPermission p \<longleftrightarrow> trim_space p \<in> set knownPermissions"

definition PermissionsForScopes :: "string list \<Rightarrow> string list" where
  "PermissionsForScopes scopes =
    foldl (\<lambda>granted scope. if trim_space scope \<in> set knownPermissions then grantPermission granted (trim_space scope)
                      else granted) [''platform.session.read''] scopes"

definition role_permissions :: "string \<Rightarrow> string list" where
  "role_permissions role = (case map_of rolePermissions role of None \<Rightarrow> [] | Some ps \<Rightarrow> ps)"

definition permissionsForRoles :: "string list \<Rightarrow> string list \<times> string list \<times> bool" where
  "permissionsForRoles roles =
    (foldl grantPermission [''platform.session.read''] (concat (map role_permissions roles)),
     sort (add_unseen [] (concat (map (\<lambda>r. case map_of roleDisplayNames r of None \<Rightarrow> [] | Some d \<Rightarrow> [d]) roles))),
     list_ex (\<lambda>r. r = ''mssp_manager'' \<or> ''*'' \<in> set (role_permissions r)) roles)"

subsection \<open>Principals\<close>

record principal =
  pr_id :: string
  pr_display_name :: string
  pr_role :: string
  pr_permissions :: "string list"
  pr_allowed_tenants :: "string list"
  pr_platform_scope :: bool

definition principal_can :: "principal \<Rightarrow> string \<Rightarrow> bool" where
  "principal_can p permission \<longleftrightarrow> ''*'' \<in> set (pr_permissions p) \<or> permission \<in> set (pr_permissions p)"

definition CanAccessTenant :: "principal \<Rightarrow> tenant \<Rightarrow> bool" where
  "CanAccessTenant p t \<longleftrightarrow> tenant_valid t \<and> (pr_platform_scope p \<or> t \<in> set (pr_allowed_tenants p))"

subsection \<open>What a set of permissions implies\<close>

text \<open>The permissions a list of permissions leads to.\<close>

inductive_set implies :: "string set \<Rightarrow> string set" for P :: "string set" where
  given: "p \<in> P \<Longrightarrow> p \<in> implies P"
| implied: "p \<in> implies P \<Longrightarrow> q \<in> set (implied p) \<Longrightarrow> q \<in> implies P"

definition implication_closed :: "string set \<Rightarrow> bool" where
  "implication_closed P \<longleftrightarrow> (\<forall>p \<in> P. set (implied p) \<subseteq> P)"

lemma implies_least: "implication_closed Q \<Longrightarrow> P \<subseteq> Q \<Longrightarrow> implies P \<subseteq> Q"
proof
  fix p assume Q: "implication_closed Q" "P \<subseteq> Q" and "p \<in> implies P"
  from \<open>p \<in> implies P\<close> show "p \<in> Q"
    by induction (use Q in \<open>auto simp: implication_closed_def\<close>)
qed

lemma implies_closed: "implication_closed (implies P)"
  by (auto simp: implication_closed_def intro: implies.implied)

text \<open>
  The recursion keeps, as it goes, that what is granted or still to be granted contains everything
  the granted permissions imply; so it ends in the least closed set.
\<close>

lemma set_grant_each:
  assumes "\<And>p. p \<in> set granted \<Longrightarrow> set (implied p) \<subseteq> set granted \<union> set ps"
  shows "set (grant_each granted ps) = implies (set granted \<union> set ps)"
  using assms
proof (induction granted ps rule: grant_each.induct)
  case (1 granted)
  then have "implication_closed (set granted)" by (auto simp: implication_closed_def)
  then show ?case using implies_least [of "set granted" "set granted"] by (auto intro: implies.given)
next
  case (2 granted p ps)
  show ?case
  proof (cases "p \<in> set granted")
    case True
    then have "set granted \<union> set (p # ps) = set granted \<union> set ps" by auto
    with True 2(1, 3) show ?thesis by simp
  next
    case False
    have "set (grant_each (granted @ [p]) (implied p @ ps)) = implies (set (granted @ [p]) \<union> set (implied p @ ps))"
      by (rule 2(2) [OF False]) (use 2(3) in auto)
    also have "\<dots> = implies (set granted \<union> set (p # ps))"
    proof
      show "implies (set (granted @ [p]) \<union> set (implied p @ ps)) \<subseteq> implies (set granted \<union> set (p # ps))"
        by (rule implies_least [OF implies_closed]) (auto intro: implies.given implies.implied [OF implies.given])
      show "implies (set granted \<union> set (p # ps)) \<subseteq> implies (set (granted @ [p]) \<union> set (implied p @ ps))"
        by (rule implies_least [OF implies_closed]) (auto intro: implies.given)
    qed
    finally show ?thesis using False by simp
  qed
qed

lemma implication_closed_grant:
  assumes "implication_closed (set granted)"
  shows "set (grantPermission granted p) = implies (insert p (set granted))"
  unfolding grantPermission_def
  by (subst set_grant_each) (use assms in \<open>auto simp: implication_closed_def\<close>)

lemma implies_Un_implies: "implies (P \<union> implies Q) = implies (P \<union> Q)"
proof
  have "implies Q \<subseteq> implies (P \<union> Q)" by (rule implies_least [OF implies_closed]) (auto intro: implies.given)
  then show "implies (P \<union> implies Q) \<subseteq> implies (P \<union> Q)"
    by (intro implies_least [OF implies_closed]) (auto intro: implies.given)
  show "implies (P \<union> Q) \<subseteq> implies (P \<union> implies Q)"
    by (rule implies_least [OF implies_closed]) (auto intro: implies.given)
qed

lemma set_foldl_grant:
  assumes "implication_closed (set granted)"
  shows "set (foldl grantPermission granted ps) = implies (set granted \<union> set ps)"
  using assms
proof (induction ps arbitrary: granted)
  case Nil
  then show ?case using implies_least [of "set granted" "set granted"] by (auto intro: implies.given)
next
  case (Cons p ps)
  have "implication_closed (set (grantPermission granted p))"
    by (simp add: implication_closed_grant [OF Cons.prems] implies_closed)
  from Cons.IH [OF this] have "set (foldl grantPermission granted (p # ps)) = implies (set ps \<union> implies (insert p (set granted)))"
    by (simp add: implication_closed_grant [OF Cons.prems] Un_commute)
  then show ?case by (simp add: implies_Un_implies Un_commute)
qed

lemma session_closed: "implication_closed {''platform.session.read''}"
  by (auto simp: implication_closed_def implied_def permissionImplications_def)

theorem set_PermissionsForScopes:
  "set (PermissionsForScopes scopes) = implies (insert ''platform.session.read''
     (set (map trim_space scopes) \<inter> set knownPermissions))"
proof -
  have "PermissionsForScopes scopes = foldl grantPermission [''platform.session.read'']
      (filter (\<lambda>p. p \<in> set knownPermissions) (map trim_space scopes))"
    unfolding PermissionsForScopes_def by (induction scopes rule: rev_induct) simp_all
  moreover have "set (filter (\<lambda>p. p \<in> set knownPermissions) (map trim_space scopes)) =
      set (map trim_space scopes) \<inter> set knownPermissions" by auto
  moreover have "set [''platform.session.read''] = {''platform.session.read''}" by simp
  ultimately show ?thesis using set_foldl_grant [of "[''platform.session.read'']"] session_closed
    by (metis insert_is_Un)
qed

lemma set_permissionsForRoles:
  "set (fst (permissionsForRoles roles)) = implies (insert ''platform.session.read'' (\<Union>r \<in> set roles. set (role_permissions r)))"
  using set_foldl_grant [of "[''platform.session.read'']"] session_closed by (simp add: permissionsForRoles_def)

lemma roles_closed: "implication_closed (set (fst (permissionsForRoles roles)))"
  by (simp add: set_permissionsForRoles implies_closed)

lemma knownPermissions_eq: "set knownPermissions = implies (set (concat (map snd rolePermissions)) - {''*''})"
  using set_foldl_grant [of "[]"] by (simp add: knownPermissions_def implication_closed_def set_diff_eq)

end
