(* ===== verification/Access_Model.thy ===== *)
theory Access_Model
  imports Access_Roles Postgres
begin

text \<open>
  What the credentials of machines are made of: service accounts (\<^verbatim>\<open>internal/core/service_account.go\<close>),
  enrollment tokens and agent credentials (\<^verbatim>\<open>internal/core/agent_enrollment.go\<close>) and the collectors they
  belong to (\<^verbatim>\<open>internal/core/collector.go\<close>). The health and the operational view of a collector are
  derived from the other fields whenever it is read; they are not fields of the model.
\<close>

record service_account =
  sv_id :: string
  sv_tenant :: tenant
  sv_name :: string
  sv_description :: string
  sv_scopes :: "string list"
  sv_state :: string
  sv_token_version :: int
  sv_created_by :: string
  sv_created_at :: time
  sv_updated_at :: time
  sv_expires_at :: time
  sv_last_used_at :: "time option"
  sv_revoked_at :: "time option"

record account_issue =
  si_access_token :: string
  si_token_type :: string
  si_account :: service_account

record enrollment_token =
  tk_id :: string
  tk_tenant :: tenant
  tk_label :: string
  tk_collector_type :: string
  tk_capabilities :: "string list"
  tk_state :: string
  tk_expires_at :: time
  tk_max_uses :: int
  tk_use_count :: int
  tk_created_by :: string
  tk_created_at :: time
  tk_last_used_at :: "time option"

record token_issue =
  ti_enrollment_token :: string
  ti_token :: enrollment_token

record agent_credential =
  gc_id :: string
  gc_tenant :: tenant
  gc_collector :: string
  gc_auth_subject :: string
  gc_expires_at :: time
  gc_created_at :: time
  gc_last_used_at :: "time option"
  gc_revoked_at :: "time option"

record enrollment_request =
  nq_enrollment_token :: string
  nq_agent_id :: string
  nq_name :: string
  nq_hostname :: string
  nq_version :: string
  nq_platform :: string
  nq_architecture :: string

record credential_grant =
  gg_access_token :: string
  gg_token_type :: string
  gg_expires_at :: time

record collector =
  cl_id :: string
  cl_tenant :: tenant
  cl_name :: string
  cl_type :: string
  cl_auth_subject :: string
  cl_state :: string
  cl_capabilities :: "string list"
  cl_version :: string
  cl_observed_ip :: string
  cl_health_metadata :: "(string \<times> json) list"
  cl_last_seen_at :: "time option"
  cl_created_at :: time
  cl_updated_at :: time

record collector_heartbeat =
  hb_version :: string
  hb_metadata :: "(string \<times> json) list"

record enrollment_response =
  nr_collector :: collector
  nr_credential :: credential_grant

definition account_state :: "time \<Rightarrow> service_account \<Rightarrow> string" where
  "account_state now a =
    (if sv_revoked_at a \<noteq> None then ''REVOKED'' else if \<not> now < sv_expires_at a then ''EXPIRED'' else ''ACTIVE'')"

definition token_state :: "time \<Rightarrow> enrollment_token \<Rightarrow> string" where
  "token_state now t = (if tk_state t = ''ACTIVE'' \<and> \<not> now < tk_expires_at t then ''EXPIRED'' else tk_state t)"

definition normalizedCapabilities :: "string list \<Rightarrow> string list" where
  "normalizedCapabilities values =
    add_unseen [] (filter (\<lambda>v. v \<noteq> [] \<and> length v \<le> 64) (map (\<lambda>v. to_lower (trim_space v)) values))"

definition serviceAccountAudit :: "service_account \<Rightarrow> string \<Rightarrow> string \<Rightarrow> audit_entry" where
  "serviceAccountAudit a actor action =
    \<lparr>au_id = [], au_tenant = sv_tenant a, au_actor = actor, au_action = action,
     au_resource_type = ''service_account'', au_resource_id = sv_id a, au_outcome = ''success'', au_request_id = [],
     au_metadata = JObj
       [(''name'', JStr (sv_name a)), (''scopes'', nil_list (sv_scopes a)), (''token_version'', JInt (sv_token_version a)),
        (''expires_at'', JStr (rfc3339nano (sv_expires_at a)))],
     au_previous_hash = [], au_hash = [], au_created_at = 0\<rparr>"

end
