(* ===== verification/Access_Store.thy ===== *)
theory Access_Store
  imports Access_Model "HOL-Library.Product_Lexorder"
begin

text \<open>
  Service accounts, enrollment tokens, agent credentials and collectors in PostgreSQL:
  \<^verbatim>\<open>internal/store/service_accounts.go\<close>, \<^verbatim>\<open>internal/store/agent_enrollment.go\<close> and
  \<^verbatim>\<open>internal/store/collectors.go\<close> over the tables of \<^verbatim>\<open>0002_collectors.sql\<close>, \<^verbatim>\<open>0020_agent_enrollment.sql\<close>
  and \<^verbatim>\<open>0024_service_accounts.sql\<close>. Secrets are stored as their SHA-256 digests only. The tenants and
  the audit log are those of the durable store.
\<close>

subsection \<open>Tables\<close>

record account_row =
  ar_account :: service_account
  ar_hash :: string

record token_row =
  tr_token :: enrollment_token
  tr_hash :: string

record credential_row =
  gr_credential :: agent_credential
  gr_hash :: string

record access_db =
  ac_pg :: pg
  ac_accounts :: "account_row list"
  ac_tokens :: "token_row list"
  ac_credentials :: "credential_row list"
  ac_collectors :: "collector list"

definition empty_access :: "pg \<Rightarrow> access_db" where
  "empty_access p = \<lparr>ac_pg = p, ac_accounts = [], ac_tokens = [], ac_credentials = [], ac_collectors = []\<rparr>"

text \<open>The audit entry of a change, appended in the transaction that makes it.\<close>

definition audited :: "audit_entry \<Rightarrow> (access_db, unit) op" where
  "audited e sw =
    (case appendAuditTx e (ac_pg (fst sw), snd sw) of
       (Inl err, (p, w)) \<Rightarrow> (Inl err, ((fst sw)\<lparr>ac_pg := p\<rparr>, w))
     | (Inr _, (p, w)) \<Rightarrow> (Inr (), ((fst sw)\<lparr>ac_pg := p\<rparr>, w)))"

definition audit_of :: "tenant \<Rightarrow> string \<Rightarrow> string \<Rightarrow> string \<Rightarrow> string \<Rightarrow> time \<Rightarrow> (string \<times> json) list \<Rightarrow> audit_entry" where
  "audit_of t actor action resource_type resource_id at metadata =
    \<lparr>au_id = [], au_tenant = t, au_actor = actor, au_action = action, au_resource_type = resource_type,
     au_resource_id = resource_id, au_outcome = ''success'', au_request_id = [], au_metadata = JObj metadata,
     au_previous_hash = [], au_hash = [], au_created_at = at\<rparr>"

subsection \<open>Service accounts\<close>

definition is_account :: "tenant \<Rightarrow> string \<Rightarrow> account_row \<Rightarrow> bool" where
  "is_account t i r \<longleftrightarrow> sv_tenant (ar_account r) = t \<and> sv_id (ar_account r) = i"

definition scan_account :: "service_account \<Rightarrow> ('s, service_account) op" where
  "scan_account a =
    (if sv_revoked_at a \<noteq> None then op_return (a\<lparr>sv_state := ''REVOKED''\<rparr>)
     else op_bind op_now (\<lambda>now. op_return (a\<lparr>sv_state := account_state now a\<rparr>)))"

fun scan_accounts :: "account_row list \<Rightarrow> ('s, service_account list) op" where
  "scan_accounts [] = op_return []"
| "scan_accounts (r # rs) =
     op_bind (scan_account (ar_account r)) (\<lambda>a. op_bind (scan_accounts rs) (\<lambda>as. op_return (a # as)))"

definition stored_account :: "service_account \<Rightarrow> service_account" where
  "stored_account a =
    a\<lparr>sv_state := [], sv_token_version := 1, sv_created_at := to_micro (sv_created_at a),
      sv_updated_at := to_micro (sv_created_at a), sv_expires_at := to_micro (sv_expires_at a),
      sv_last_used_at := None, sv_revoked_at := None\<rparr>"

definition insert_account :: "service_account \<Rightarrow> string \<Rightarrow> access_db \<Rightarrow> service_account result \<times> access_db" where
  "insert_account a h s =
    (if sv_scopes a = [] \<or> 32 < length (sv_scopes a) \<or> length h \<noteq> 32 then (Inl check_violation, s)
     else if \<exists>r \<in> set (ac_accounts s). is_account (sv_tenant a) (sv_id a) r \<or> ar_hash r = h \<or>
         sv_tenant (ar_account r) = sv_tenant a \<and> sv_name (ar_account r) = sv_name a then (Inl ErrAlreadyExists, s)
     else if pg_tenants (ac_pg s) (sv_tenant a) = None then (Inl foreign_key, s)
     else (Inr (stored_account a),
           s\<lparr>ac_accounts := ac_accounts s @ [\<lparr>ar_account = stored_account a, ar_hash = h\<rparr>]\<rparr>))"

definition CreateServiceAccount :: "service_account \<Rightarrow> string \<Rightarrow> (access_db, service_account) op" where
  "CreateServiceAccount a h =
    (if length h \<noteq> 32 then op_fail (ErrStorage ''token hash'')
     else transaction
      (op_bind (statement (insert_account a h)) (\<lambda>row.
       op_bind (scan_account row) (\<lambda>created.
       op_bind (audited (serviceAccountAudit created (sv_created_by created) ''service_account.created'')) (\<lambda>_.
       op_return created)))))"

definition ListServiceAccounts :: "tenant \<Rightarrow> (access_db, service_account list) op" where
  "ListServiceAccounts t =
    op_bind (sql_query (\<lambda>s. Inr (sort_key (\<lambda>r. (- sv_created_at (ar_account r), sv_id (ar_account r)))
      (filter (\<lambda>r. sv_tenant (ar_account r) = t) (ac_accounts s))))) scan_accounts"

definition update_accounts :: "(account_row \<Rightarrow> bool) \<Rightarrow> (account_row \<Rightarrow> account_row) \<Rightarrow> (access_db, account_row list) op" where
  "update_accounts P f = statement (\<lambda>s.
     (Inr (returned_rows P f (ac_accounts s)), s\<lparr>ac_accounts := update_rows P f (ac_accounts s)\<rparr>))"

text \<open>A new digest must not be the one of another account.\<close>

definition rotate_row :: "string \<Rightarrow> time \<Rightarrow> time \<Rightarrow> account_row \<Rightarrow> account_row" where
  "rotate_row h expires now r =
    \<lparr>ar_account = (ar_account r)\<lparr>sv_token_version := sv_token_version (ar_account r) + 1,
       sv_expires_at := to_micro expires, sv_updated_at := to_micro now, sv_last_used_at := None\<rparr>, ar_hash = h\<rparr>"

definition rotate_account ::
  "tenant \<Rightarrow> string \<Rightarrow> string \<Rightarrow> time \<Rightarrow> time \<Rightarrow> access_db \<Rightarrow> account_row list result \<times> access_db" where
  "rotate_account t i h expires now s =
    (let rotated = (\<lambda>r. is_account t i r \<and> sv_revoked_at (ar_account r) = None)
     in if (\<exists>r \<in> set (ac_accounts s). rotated r) \<and> (\<exists>r \<in> set (ac_accounts s). \<not> rotated r \<and> ar_hash r = h)
        then (Inl duplicate_key, s)
        else (Inr (returned_rows rotated (rotate_row h expires now) (ac_accounts s)),
              s\<lparr>ac_accounts := update_rows rotated (rotate_row h expires now) (ac_accounts s)\<rparr>))"

definition RotateServiceAccountToken ::
  "tenant \<Rightarrow> string \<Rightarrow> string \<Rightarrow> string \<Rightarrow> time \<Rightarrow> (access_db, service_account) op" where
  "RotateServiceAccountToken t i actor h expires =
    (if length h \<noteq> 32 then op_fail (ErrStorage ''token hash'')
     else transaction
      (op_bind op_now (\<lambda>now.
       op_bind (statement (rotate_account t i h expires now)) (\<lambda>rows.
       op_bind (first_row ErrNotFound rows) (\<lambda>row.
       op_bind (scan_account (ar_account row)) (\<lambda>account.
       op_bind (audited (serviceAccountAudit account actor ''service_account.token_rotated'')) (\<lambda>_.
       op_return account)))))))"

definition revoke_row :: "time \<Rightarrow> account_row \<Rightarrow> account_row" where
  "revoke_row now r =
    r\<lparr>ar_account := (ar_account r)\<lparr>sv_revoked_at := Some (to_micro now), sv_updated_at := to_micro now\<rparr>\<rparr>"

definition RevokeServiceAccount :: "tenant \<Rightarrow> string \<Rightarrow> string \<Rightarrow> (access_db, service_account) op" where
  "RevokeServiceAccount t i actor =
    transaction
     (op_bind op_now (\<lambda>now.
      op_bind (update_accounts (\<lambda>r. is_account t i r \<and> sv_revoked_at (ar_account r) = None) (revoke_row now)) (\<lambda>rows.
      op_bind (first_row ErrNotFound rows) (\<lambda>row.
      op_bind (scan_account (ar_account row)) (\<lambda>account.
      op_bind (audited (serviceAccountAudit account actor ''service_account.revoked'')) (\<lambda>_.
      op_return account))))))"

definition authenticates :: "string \<Rightarrow> time \<Rightarrow> account_row \<Rightarrow> bool" where
  "authenticates h checked r \<longleftrightarrow>
     ar_hash r = h \<and> sv_revoked_at (ar_account r) = None \<and> to_micro checked < sv_expires_at (ar_account r)"

definition use_row :: "time \<Rightarrow> account_row \<Rightarrow> account_row" where
  "use_row checked r = r\<lparr>ar_account := (ar_account r)\<lparr>sv_last_used_at := Some (to_micro checked)\<rparr>\<rparr>"

definition ServiceAccountByTokenHash :: "string \<Rightarrow> time \<Rightarrow> (access_db, service_account) op" where
  "ServiceAccountByTokenHash h at =
    (if length h \<noteq> 32 then op_fail ErrNotFound
     else op_bind (if is_zero at then op_now else op_return at) (\<lambda>checked.
          op_bind (update_accounts (authenticates h checked) (use_row checked)) (\<lambda>rows.
          op_bind (first_row ErrNotFound rows) (\<lambda>row. scan_account (ar_account row)))))"

subsection \<open>Collectors\<close>

definition is_collector :: "tenant \<Rightarrow> string \<Rightarrow> collector \<Rightarrow> bool" where
  "is_collector t i c \<longleftrightarrow> cl_tenant c = t \<and> cl_id c = i"

definition stored_collector :: "collector \<Rightarrow> time \<Rightarrow> collector" where
  "stored_collector c now =
    c\<lparr>cl_last_seen_at := map_option to_micro (cl_last_seen_at c), cl_created_at := to_micro now, cl_updated_at := to_micro now\<rparr>"

definition insert_collector :: "collector \<Rightarrow> time \<Rightarrow> access_db \<Rightarrow> collector result \<times> access_db" where
  "insert_collector c now s =
    (if cl_state c \<notin> {''ACTIVE'', ''REVOKED''} then (Inl check_violation, s)
     else if \<exists>r \<in> set (ac_collectors s). cl_tenant r = cl_tenant c \<and>
         (cl_id r = cl_id c \<or> cl_auth_subject r = cl_auth_subject c) then (Inl ErrAlreadyExists, s)
     else if pg_tenants (ac_pg s) (cl_tenant c) = None then (Inl foreign_key, s)
     else (Inr (stored_collector c now), s\<lparr>ac_collectors := ac_collectors s @ [stored_collector c now]\<rparr>))"

definition update_collectors :: "(collector \<Rightarrow> bool) \<Rightarrow> (collector \<Rightarrow> collector) \<Rightarrow> (access_db, collector list) op" where
  "update_collectors P f = statement (\<lambda>s.
     (Inr (returned_rows P f (ac_collectors s)), s\<lparr>ac_collectors := update_rows P f (ac_collectors s)\<rparr>))"

definition RegisterCollector :: "collector \<Rightarrow> (access_db, collector) op" where
  "RegisterCollector input =
    (let c = input\<lparr>cl_id := trim_space (cl_id input), cl_tenant := trim_space (cl_tenant input),
               cl_name := trim_space (cl_name input), cl_type := trim_space (cl_type input),
               cl_auth_subject := trim_space (cl_auth_subject input)\<rparr>
     in if cl_id c = [] \<or> cl_tenant c = [] \<or> cl_name c = [] \<or> cl_type c = [] \<or> cl_auth_subject c = []
        then op_fail (ErrStorage ''collector fields'')
        else if 128 < length (cl_id c) \<or> 256 < length (cl_auth_subject c) \<or> 256 < length (cl_name c) \<or> 64 < length (cl_type c)
        then op_fail (ErrStorage ''collector length'')
        else op_bind op_now (\<lambda>now.
             statement (insert_collector
               (c\<lparr>cl_state := ''ACTIVE'', cl_capabilities := normalizedCapabilities (cl_capabilities c)\<rparr>) now)))"

definition ListCollectors :: "tenant \<Rightarrow> (access_db, collector list) op" where
  "ListCollectors t =
    sql_query (\<lambda>s. Inr (sort_key (\<lambda>c. (cl_name c, cl_id c)) (filter (\<lambda>c. cl_tenant c = t) (ac_collectors s))))"

definition CollectorBySubject :: "tenant \<Rightarrow> string \<Rightarrow> (access_db, collector) op" where
  "CollectorBySubject t subject =
    op_bind (sql_query (\<lambda>s. Inr (filter (\<lambda>c. cl_tenant c = t \<and> cl_auth_subject c = subject) (ac_collectors s))))
      (first_row ErrNotFound)"

definition HeartbeatCollector ::
  "tenant \<Rightarrow> string \<Rightarrow> collector_heartbeat \<Rightarrow> string \<Rightarrow> (access_db, collector) op" where
  "HeartbeatCollector t subject beat observed_ip =
    (if 128 < length (hb_version beat) \<or> 128 < length observed_ip then op_fail (ErrStorage ''heartbeat length'')
     else op_bind op_now (\<lambda>now.
          op_bind (update_collectors (\<lambda>c. cl_tenant c = t \<and> cl_auth_subject c = subject \<and> cl_state c = ''ACTIVE'')
            (\<lambda>c. c\<lparr>cl_version := trim_space (hb_version beat), cl_observed_ip := observed_ip,
                   cl_health_metadata := hb_metadata beat, cl_last_seen_at := Some (to_micro now),
                   cl_updated_at := to_micro now\<rparr>))
          (first_row ErrNotFound)))"

definition SetCollectorState :: "tenant \<Rightarrow> string \<Rightarrow> string \<Rightarrow> (access_db, collector) op" where
  "SetCollectorState t i state =
    (let st = to_upper (trim_space state)
     in if st \<noteq> ''ACTIVE'' \<and> st \<noteq> ''REVOKED'' then op_fail (ErrStorage ''collector state'')
        else op_bind op_now (\<lambda>now.
             op_bind (update_collectors (is_collector t i) (\<lambda>c. c\<lparr>cl_state := st, cl_updated_at := to_micro now\<rparr>))
             (first_row ErrNotFound)))"

subsection \<open>Enrollment tokens\<close>

definition is_token :: "tenant \<Rightarrow> string \<Rightarrow> token_row \<Rightarrow> bool" where
  "is_token t i r \<longleftrightarrow> tk_tenant (tr_token r) = t \<and> tk_id (tr_token r) = i"

definition scan_token :: "enrollment_token \<Rightarrow> ('s, enrollment_token) op" where
  "scan_token t =
    (if tk_state t = ''ACTIVE'' then op_bind op_now (\<lambda>now. op_return (t\<lparr>tk_state := token_state now t\<rparr>))
     else op_return t)"

fun scan_tokens :: "token_row list \<Rightarrow> ('s, enrollment_token list) op" where
  "scan_tokens [] = op_return []"
| "scan_tokens (r # rs) =
     op_bind (scan_token (tr_token r)) (\<lambda>t. op_bind (scan_tokens rs) (\<lambda>ts. op_return (t # ts)))"

definition stored_token :: "enrollment_token \<Rightarrow> enrollment_token" where
  "stored_token t =
    t\<lparr>tk_state := ''ACTIVE'', tk_expires_at := to_micro (tk_expires_at t), tk_use_count := 0,
      tk_created_at := to_micro (tk_created_at t), tk_last_used_at := None\<rparr>"

definition insert_token :: "enrollment_token \<Rightarrow> string \<Rightarrow> access_db \<Rightarrow> enrollment_token result \<times> access_db" where
  "insert_token t h s =
    (if length h \<noteq> 32 \<or> tk_max_uses t < 1 \<or> 10000 < tk_max_uses t then (Inl check_violation, s)
     else if \<exists>r \<in> set (ac_tokens s). is_token (tk_tenant t) (tk_id t) r \<or> tr_hash r = h then (Inl ErrAlreadyExists, s)
     else if pg_tenants (ac_pg s) (tk_tenant t) = None then (Inl foreign_key, s)
     else (Inr (stored_token t), s\<lparr>ac_tokens := ac_tokens s @ [\<lparr>tr_token = stored_token t, tr_hash = h\<rparr>]\<rparr>))"

definition CreateAgentEnrollmentToken :: "enrollment_token \<Rightarrow> string \<Rightarrow> (access_db, enrollment_token) op" where
  "CreateAgentEnrollmentToken t h =
    (if length h \<noteq> 32 then op_fail (ErrStorage ''token hash'')
     else transaction
      (op_bind (statement (insert_token t h)) (\<lambda>row.
       op_bind (scan_token row) (\<lambda>created.
       op_bind (audited (audit_of (tk_tenant created) (tk_created_by created) ''agent.enrollment_token.created''
         ''agent_enrollment_token'' (tk_id created) 0
         [(''label'', JStr (tk_label created)), (''collector_type'', JStr (tk_collector_type created)),
          (''capabilities'', nil_list (tk_capabilities created)), (''expires_at'', JStr (rfc3339nano (tk_expires_at created))),
          (''max_uses'', JInt (tk_max_uses created))])) (\<lambda>_.
       op_return created)))))"

definition ListAgentEnrollmentTokens :: "tenant \<Rightarrow> (access_db, enrollment_token list) op" where
  "ListAgentEnrollmentTokens t =
    op_bind (sql_query (\<lambda>s. Inr (sort_key (\<lambda>r. (- tk_created_at (tr_token r), tk_id (tr_token r)))
      (filter (\<lambda>r. tk_tenant (tr_token r) = t) (ac_tokens s))))) scan_tokens"

definition update_tokens :: "(token_row \<Rightarrow> bool) \<Rightarrow> (enrollment_token \<Rightarrow> enrollment_token) \<Rightarrow> (access_db, token_row list) op" where
  "update_tokens P f = statement (\<lambda>s.
     (Inr (returned_rows P (\<lambda>r. r\<lparr>tr_token := f (tr_token r)\<rparr>) (ac_tokens s)),
      s\<lparr>ac_tokens := update_rows P (\<lambda>r. r\<lparr>tr_token := f (tr_token r)\<rparr>) (ac_tokens s)\<rparr>))"

definition RevokeAgentEnrollmentToken :: "tenant \<Rightarrow> string \<Rightarrow> string \<Rightarrow> (access_db, enrollment_token) op" where
  "RevokeAgentEnrollmentToken t i actor =
    transaction
     (op_bind (update_tokens (is_token t i) (\<lambda>k. k\<lparr>tk_state := ''REVOKED''\<rparr>)) (\<lambda>rows.
      op_bind (first_row ErrNotFound rows) (\<lambda>row.
      op_bind (scan_token (tr_token row)) (\<lambda>item.
      op_bind (audited (audit_of (tk_tenant item) actor ''agent.enrollment_token.revoked''
        ''agent_enrollment_token'' (tk_id item) 0
        [(''label'', JStr (tk_label item)), (''collector_type'', JStr (tk_collector_type item)),
         (''use_count'', JInt (tk_use_count item)), (''max_uses'', JInt (tk_max_uses item))])) (\<lambda>_.
      op_return item)))))"

subsection \<open>Enrollment\<close>

definition insert_credential :: "agent_credential \<Rightarrow> string \<Rightarrow> access_db \<Rightarrow> access_db result" where
  "insert_credential c h s =
    (if length h \<noteq> 32 then Inl check_violation
     else if \<exists>r \<in> set (ac_credentials s). gc_id (gr_credential r) = gc_id c \<or> gr_hash r = h then Inl duplicate_key
     else if \<not> (\<exists>k \<in> set (ac_collectors s). is_collector (gc_tenant c) (gc_collector c) k) then Inl foreign_key
     else Inr (s\<lparr>ac_credentials := ac_credentials s @
       [\<lparr>gr_credential = c\<lparr>gc_expires_at := to_micro (gc_expires_at c), gc_created_at := to_micro (gc_created_at c),
           gc_last_used_at := None, gc_revoked_at := None\<rparr>, gr_hash = h\<rparr>]\<rparr>))"

definition enrolled_collector :: "collector \<Rightarrow> enrollment_token \<Rightarrow> collector" where
  "enrolled_collector c t =
    c\<lparr>cl_tenant := tk_tenant t, cl_type := tk_collector_type t, cl_capabilities := tk_capabilities t, cl_state := ''ACTIVE'',
      cl_last_seen_at := None\<rparr>"

definition consume_token :: "enrollment_token \<Rightarrow> time \<Rightarrow> access_db \<Rightarrow> access_db result" where
  "consume_token t now s =
    (let uses = tk_use_count t + 1;
         spent = (\<lambda>k. k\<lparr>tk_use_count := uses, tk_state := (if tk_max_uses t \<le> uses then ''EXHAUSTED'' else ''ACTIVE''),
                        tk_last_used_at := Some (to_micro now)\<rparr>)
     in if \<exists>r \<in> set (ac_tokens s). is_token (tk_tenant t) (tk_id t) r \<and> tk_max_uses (tr_token r) < uses
        then Inl check_violation
        else Inr (s\<lparr>ac_tokens := update_rows (is_token (tk_tenant t) (tk_id t))
          (\<lambda>r. r\<lparr>tr_token := spent (tr_token r)\<rparr>) (ac_tokens s)\<rparr>))"

text \<open>The credential a collector is enrolled with, and the one a rotation gives it.\<close>

definition credential_for :: "agent_credential \<Rightarrow> tenant \<Rightarrow> string \<Rightarrow> string \<Rightarrow> time \<Rightarrow> agent_credential" where
  "credential_for c t collector subject now =
    c\<lparr>gc_tenant := t, gc_collector := collector, gc_auth_subject := subject, gc_created_at := now\<rparr>"

definition ConsumeAgentEnrollment ::
  "string \<Rightarrow> collector \<Rightarrow> agent_credential \<Rightarrow> string \<Rightarrow> (access_db, collector) op" where
  "ConsumeAgentEnrollment token_hash collector credential credential_hash =
    (if length token_hash \<noteq> 32 \<or> length credential_hash \<noteq> 32 then op_fail ErrEnrollmentRejected
     else transaction
      (op_bind (sql_query (\<lambda>s. Inr (filter (\<lambda>r. tr_hash r = token_hash) (ac_tokens s)))) (\<lambda>rows.
       op_bind (first_row ErrEnrollmentRejected rows) (\<lambda>row.
       op_bind (scan_token (tr_token row)) (\<lambda>token.
       op_bind op_now (\<lambda>now.
       if tk_state token \<noteq> ''ACTIVE'' \<or> \<not> now < tk_expires_at token \<or> tk_max_uses token \<le> tk_use_count token
       then op_fail ErrEnrollmentRejected
       else op_bind (statement (insert_collector (enrolled_collector collector token) now)) (\<lambda>created.
            if \<not> now < gc_expires_at credential then op_fail (ErrStorage ''credential expiry'')
            else op_bind (sql_exec (insert_credential
                   (credential_for credential (cl_tenant created) (cl_id created) (cl_auth_subject created) now)
                   credential_hash)) (\<lambda>_.
                 op_bind (sql_exec (consume_token token now)) (\<lambda>_.
                 op_bind (audited (audit_of (cl_tenant created) (cl_auth_subject created) ''agent.enrolled'' ''collector''
                   (cl_id created) now
                   [(''enrollment_token_id'', JStr (tk_id token)), (''credential_id'', JStr (gc_id credential)),
                    (''collector_type'', JStr (cl_type created)), (''version'', JStr (cl_version created)),
                    (''observed_ip'', JStr (cl_observed_ip created))])) (\<lambda>_.
                 op_return created))))))))))"

definition live_credential :: "time \<Rightarrow> access_db \<Rightarrow> string \<Rightarrow> credential_row \<Rightarrow> bool" where
  "live_credential now s h r \<longleftrightarrow>
     gr_hash r = h \<and> gc_revoked_at (gr_credential r) = None \<and> to_micro now < gc_expires_at (gr_credential r) \<and>
     (\<exists>k \<in> set (ac_collectors s). is_collector (gc_tenant (gr_credential r)) (gc_collector (gr_credential r)) k \<and>
        cl_state k = ''ACTIVE'')"

definition AgentCredentialByHash :: "string \<Rightarrow> (access_db, agent_credential) op" where
  "AgentCredentialByHash h =
    (if length h \<noteq> 32 then op_fail ErrNotFound
     else op_bind op_now (\<lambda>now.
          op_bind (sql_query (\<lambda>s. Inr (map gr_credential (filter (live_credential now s h) (ac_credentials s)))))
            (first_row ErrNotFound)))"

definition revoke_credential :: "string \<Rightarrow> time \<Rightarrow> access_db \<Rightarrow> access_db" where
  "revoke_credential i now s =
    s\<lparr>ac_credentials := update_rows (\<lambda>r. gc_id (gr_credential r) = i)
       (\<lambda>r. r\<lparr>gr_credential := (gr_credential r)\<lparr>gc_revoked_at := Some (to_micro now)\<rparr>\<rparr>) (ac_credentials s)\<rparr>"

definition RotateAgentCredential :: "string \<Rightarrow> agent_credential \<Rightarrow> string \<Rightarrow> (access_db, agent_credential) op" where
  "RotateAgentCredential old_hash replacement replacement_hash =
    (if length old_hash \<noteq> 32 \<or> length replacement_hash \<noteq> 32 then op_fail ErrNotFound
     else transaction
      (op_bind (sql_query (\<lambda>s. Inr (filter (\<lambda>r. gr_hash r = old_hash) (ac_credentials s)))) (\<lambda>rows.
       op_bind (first_row ErrNotFound rows) (\<lambda>row.
       let current = gr_credential row
       in if gc_revoked_at current \<noteq> None then op_fail ErrNotFound
          else op_bind op_now (\<lambda>checked.
          if \<not> checked < gc_expires_at current then op_fail ErrNotFound
          else op_bind (sql_query (\<lambda>s. Inr (filter (is_collector (gc_tenant current) (gc_collector current)) (ac_collectors s)))) (\<lambda>ks.
               op_bind (first_row ErrNotFound ks) (\<lambda>k.
               if cl_state k \<noteq> ''ACTIVE'' then op_fail ErrNotFound
               else op_bind op_now (\<lambda>now.
                    if \<not> now < gc_expires_at replacement then op_fail (ErrStorage ''credential expiry'')
                    else let new = credential_for replacement (gc_tenant current) (gc_collector current) (gc_auth_subject current) now
                         in op_bind (sql_exec (insert_credential new replacement_hash)) (\<lambda>_.
                            op_bind (sql_exec (\<lambda>s. Inr (revoke_credential (gc_id current) now s))) (\<lambda>_.
                            op_bind (audited (audit_of (gc_tenant current) (gc_auth_subject current) ''agent.credential.rotated''
                              ''agent_credential'' (gc_id new) now
                              [(''collector_id'', JStr (gc_collector current)), (''replaced_credential_id'', JStr (gc_id current)),
                               (''replacement_credential_id'', JStr (gc_id new)),
                               (''expires_at'', JStr (rfc3339nano (gc_expires_at new)))])) (\<lambda>_.
                            op_return new)))))))))))"

end
