(* ===== verification/Access_Memory.thy ===== *)
theory Access_Memory
  imports Access_Model
begin

text \<open>
  Service accounts in the embedded store, the methods of \<^verbatim>\<open>MemoryRepository\<close> in
  \<^verbatim>\<open>internal/store/service_accounts.go\<close>: a map of accounts by tenant and identifier, and a map from the
  hexadecimal digest of a token to the account it was issued for. The maps are lists with one entry
  per key. A method changes them under one lock and then appends to the audit log of the embedded store
  under that store's own.
\<close>

record access_memory =
  am_memory :: memory
  am_accounts :: "service_account list"
  am_tokens :: "(string \<times> tenant \<times> string) list"

definition empty_access_memory :: "memory \<Rightarrow> access_memory" where
  "empty_access_memory m = \<lparr>am_memory = m, am_accounts = [], am_tokens = []\<rparr>"

definition under_context :: "('s, 'a) op \<Rightarrow> ('s, 'a) op" where
  "under_context f sw =
    (let (cancelled, w) = ctx_err (snd sw) in if cancelled then (Inl ErrContext, (fst sw, w)) else f (fst sw, w))"

definition op_state :: "('s \<Rightarrow> 'a result \<times> 's) \<Rightarrow> ('s, 'a) op" where
  "op_state f sw = (let (r, s) = f (fst sw) in (r, (s, snd sw)))"

definition log_audit :: "audit_entry \<Rightarrow> (access_memory, unit) op" where
  "log_audit e sw =
    (let (_, (m, w)) = AppendAudit e (am_memory (fst sw), snd sw) in (Inr (), ((fst sw)\<lparr>am_memory := m\<rparr>, w)))"

definition same_account :: "tenant \<Rightarrow> string \<Rightarrow> service_account \<Rightarrow> bool" where
  "same_account t i a \<longleftrightarrow> sv_tenant a = t \<and> sv_id a = i"

definition find_account :: "access_memory \<Rightarrow> tenant \<Rightarrow> string \<Rightarrow> service_account option" where
  "find_account s t i = find (same_account t i) (am_accounts s)"

definition put_account :: "service_account \<Rightarrow> service_account list \<Rightarrow> service_account list" where
  "put_account a as = filter (\<lambda>b. \<not> same_account (sv_tenant a) (sv_id a) b) as @ [a]"

definition put_token :: "string \<Rightarrow> tenant \<times> string \<Rightarrow> (string \<times> tenant \<times> string) list \<Rightarrow> (string \<times> tenant \<times> string) list" where
  "put_token h reference ts = filter (\<lambda>e. fst e \<noteq> hex_encode h) ts @ [(hex_encode h, reference)]"

definition drop_tokens :: "tenant \<Rightarrow> string \<Rightarrow> (string \<times> tenant \<times> string) list \<Rightarrow> (string \<times> tenant \<times> string) list" where
  "drop_tokens t i ts = filter (\<lambda>e. snd e \<noteq> (t, i)) ts"

definition add_account :: "service_account \<Rightarrow> string \<Rightarrow> access_memory \<Rightarrow> service_account result \<times> access_memory" where
  "add_account a h s =
    (if list_ex (\<lambda>b. sv_tenant b = sv_tenant a \<and> equal_fold (sv_name b) (sv_name a)) (am_accounts s)
     then (Inl ErrAlreadyExists, s)
     else let created = a\<lparr>sv_token_version := 1, sv_state := ''ACTIVE''\<rparr>
          in (Inr created,
              s\<lparr>am_accounts := put_account created (am_accounts s),
                am_tokens := put_token h (sv_tenant created, sv_id created) (am_tokens s)\<rparr>))"

definition mem_CreateServiceAccount :: "service_account \<Rightarrow> string \<Rightarrow> (access_memory, service_account) op" where
  "mem_CreateServiceAccount a h =
    under_context
     (if length h \<noteq> 32 then op_fail (ErrStorage ''token hash'')
      else op_bind (op_state (add_account a h)) (\<lambda>created.
           op_bind (log_audit (serviceAccountAudit created (sv_created_by created) ''service_account.created'')) (\<lambda>_.
           op_return created)))"

text \<open>Accounts created at the same instant come in the order of the map, which Go leaves open; here it is the list's.\<close>

definition mem_ListServiceAccounts :: "tenant \<Rightarrow> (access_memory, service_account list) op" where
  "mem_ListServiceAccounts t =
    under_context (op_state (\<lambda>s.
      (Inr (sort_key (\<lambda>a. - sv_created_at a) (filter (\<lambda>a. sv_tenant a = t) (am_accounts s))), s)))"

definition replace_token ::
  "tenant \<Rightarrow> string \<Rightarrow> string \<Rightarrow> time \<Rightarrow> time \<Rightarrow> access_memory \<Rightarrow> service_account result \<times> access_memory" where
  "replace_token t i h expires now s =
    (case find_account s t i of
       None \<Rightarrow> (Inl ErrNotFound, s)
     | Some a \<Rightarrow>
         (let rotated = a\<lparr>sv_token_version := sv_token_version a + 1, sv_expires_at := expires, sv_updated_at := now,
                          sv_last_used_at := None, sv_state := ''ACTIVE''\<rparr>
          in (Inr rotated,
              s\<lparr>am_accounts := put_account rotated (am_accounts s),
                am_tokens := put_token h (t, i) (drop_tokens t i (am_tokens s))\<rparr>)))"

text \<open>The guard of a rotation and a revocation: an account that is not revoked.\<close>

definition unrevoked :: "tenant \<Rightarrow> string \<Rightarrow> (access_memory, unit) op" where
  "unrevoked t i = op_state (\<lambda>s.
     (case find_account s t i of
        None \<Rightarrow> Inl ErrNotFound
      | Some a \<Rightarrow> if sv_revoked_at a \<noteq> None then Inl ErrNotFound else Inr (), s))"

definition mem_RotateServiceAccountToken ::
  "tenant \<Rightarrow> string \<Rightarrow> string \<Rightarrow> string \<Rightarrow> time \<Rightarrow> (access_memory, service_account) op" where
  "mem_RotateServiceAccountToken t i actor h expires =
    under_context
     (if length h \<noteq> 32 then op_fail (ErrStorage ''token hash'')
      else op_bind (unrevoked t i) (\<lambda>_.
           op_bind op_now (\<lambda>now.
           op_bind (op_state (replace_token t i h expires now)) (\<lambda>account.
           op_bind (log_audit (serviceAccountAudit account actor ''service_account.token_rotated'')) (\<lambda>_.
           op_return account)))))"

definition drop_account ::
  "tenant \<Rightarrow> string \<Rightarrow> time \<Rightarrow> access_memory \<Rightarrow> service_account result \<times> access_memory" where
  "drop_account t i now s =
    (case find_account s t i of
       None \<Rightarrow> (Inl ErrNotFound, s)
     | Some a \<Rightarrow>
         (let revoked = a\<lparr>sv_revoked_at := Some now, sv_updated_at := now, sv_state := ''REVOKED''\<rparr>
          in (Inr revoked,
              s\<lparr>am_accounts := put_account revoked (am_accounts s), am_tokens := drop_tokens t i (am_tokens s)\<rparr>)))"

definition mem_RevokeServiceAccount :: "tenant \<Rightarrow> string \<Rightarrow> string \<Rightarrow> (access_memory, service_account) op" where
  "mem_RevokeServiceAccount t i actor =
    under_context
     (op_bind (unrevoked t i) (\<lambda>_.
      op_bind op_now (\<lambda>now.
      op_bind (op_state (drop_account t i now)) (\<lambda>account.
      op_bind (log_audit (serviceAccountAudit account actor ''service_account.revoked'')) (\<lambda>_.
      op_return account)))))"

definition use_account :: "string \<Rightarrow> time \<Rightarrow> access_memory \<Rightarrow> service_account result \<times> access_memory" where
  "use_account h checked s =
    (case map_of (am_tokens s) (hex_encode h) of
       None \<Rightarrow> (Inl ErrNotFound, s)
     | Some (t, i) \<Rightarrow>
         (case find_account s t i of
            None \<Rightarrow> (Inl ErrNotFound, s)
          | Some a \<Rightarrow>
              if sv_revoked_at a \<noteq> None \<or> \<not> checked < sv_expires_at a then (Inl ErrNotFound, s)
              else let used = a\<lparr>sv_last_used_at := Some checked\<rparr>
                   in (Inr used, s\<lparr>am_accounts := put_account used (am_accounts s)\<rparr>)))"

definition known_token :: "string \<Rightarrow> (access_memory, unit) op" where
  "known_token h = op_state (\<lambda>s.
     (case map_of (am_tokens s) (hex_encode h) of None \<Rightarrow> Inl ErrNotFound | Some _ \<Rightarrow> Inr (), s))"

definition mem_ServiceAccountByTokenHash :: "string \<Rightarrow> time \<Rightarrow> (access_memory, service_account) op" where
  "mem_ServiceAccountByTokenHash h at =
    under_context
     (if length h \<noteq> 32 then op_fail ErrNotFound
      else op_bind (known_token h) (\<lambda>_.
           op_bind (if is_zero at then op_now else op_return at) (\<lambda>checked.
           op_state (use_account h checked))))"

definition resetServiceAccounts :: "tenant \<Rightarrow> access_memory \<Rightarrow> access_memory" where
  "resetServiceAccounts t s =
    s\<lparr>am_accounts := filter (\<lambda>a. sv_tenant a \<noteq> t) (am_accounts s),
      am_tokens := filter (\<lambda>e. fst (snd e) \<noteq> t) (am_tokens s)\<rparr>"

end
