(* ===== verification/Access_Service.thy ===== *)
theory Access_Service
  imports Access_Store Access_Memory
begin

text \<open>
  The services that hand out credentials, \<^verbatim>\<open>internal/serviceaccount/service.go\<close> and
  \<^verbatim>\<open>internal/enrollment/service.go\<close>, and the authenticators that accept them,
  \<^verbatim>\<open>internal/platform/auth/service_account.go\<close> and \<^verbatim>\<open>internal/platform/auth/agent.go\<close>. A request is
  authenticated by the value of its \<^verbatim>\<open>Authorization\<close> header.
\<close>

subsection \<open>Secrets\<close>

text \<open>\<^verbatim>\<open>rand.Read\<close> into a buffer of 32 bytes.\<close>

definition op_secret :: "('s, string) op" where
  "op_secret = op_world (\<lambda>w.
     (case random_bytes w of (None, w') \<Rightarrow> (Inl (ErrStorage ''random''), w') | (Some b, w') \<Rightarrow> (Inr b, w')))"

definition raw_secret :: "string \<Rightarrow> string \<Rightarrow> string \<Rightarrow> string" where
  "raw_secret prefix i secret = prefix @ ''_'' @ i @ ''.'' @ base64_raw_url secret"

definition generateSecret :: "string \<Rightarrow> string \<Rightarrow> ('s, string \<times> string) op" where
  "generateSecret prefix i =
    op_bind op_secret (\<lambda>secret.
    let raw = raw_secret prefix i secret in op_return (raw, sha256 raw))"

definition generateToken :: "string \<Rightarrow> ('s, string \<times> string) op" where
  "generateToken account =
    op_bind op_secret (\<lambda>secret.
    let raw = ''kcsp_sat_'' @ account @ ''.'' @ base64_raw_url secret in op_return (raw, sha256 raw))"

text \<open>What follows \<^verbatim>\<open>Bearer\<close> in an authorization header, when it starts as the tokens of a kind do.\<close>

definition bearer :: "string \<Rightarrow> string \<Rightarrow> string option" where
  "bearer kind header =
    (let value = trim_space header; token = trim_space (trim_prefix value ''Bearer '')
     in if \<not> has_prefix value ''Bearer '' then None
        else if \<not> has_prefix token kind \<or> 512 < length token then None else Some token)"

subsection \<open>Service accounts\<close>

record 's account_port =
  ap_create :: "service_account \<Rightarrow> string \<Rightarrow> ('s, service_account) op"
  ap_list :: "tenant \<Rightarrow> ('s, service_account list) op"
  ap_rotate :: "tenant \<Rightarrow> string \<Rightarrow> string \<Rightarrow> string \<Rightarrow> time \<Rightarrow> ('s, service_account) op"
  ap_revoke :: "tenant \<Rightarrow> string \<Rightarrow> string \<Rightarrow> ('s, service_account) op"
  ap_by_hash :: "string \<Rightarrow> time \<Rightarrow> ('s, service_account) op"

definition durable_accounts :: "access_db account_port" where
  "durable_accounts = \<lparr>ap_create = CreateServiceAccount, ap_list = ListServiceAccounts, ap_rotate = RotateServiceAccountToken,
     ap_revoke = RevokeServiceAccount, ap_by_hash = ServiceAccountByTokenHash\<rparr>"

definition embedded_accounts :: "access_memory account_port" where
  "embedded_accounts = \<lparr>ap_create = mem_CreateServiceAccount, ap_list = mem_ListServiceAccounts,
     ap_rotate = mem_RotateServiceAccountToken, ap_revoke = mem_RevokeServiceAccount,
     ap_by_hash = mem_ServiceAccountByTokenHash\<rparr>"

record account_config =
  ag_default_ttl :: duration
  ag_maximum_ttl :: duration

definition account_defaults :: "account_config \<Rightarrow> account_config" where
  "account_defaults c =
    (let d = (if ag_default_ttl c \<le> 0 then 90 * 24 * hour else ag_default_ttl c)
     in \<lparr>ag_default_ttl = d, ag_maximum_ttl = (if ag_maximum_ttl c < d then 365 * 24 * hour else ag_maximum_ttl c)\<rparr>)"

record account_request =
  aq_name :: string
  aq_description :: string
  aq_scopes :: "string list"
  aq_expires_in :: int

definition account_char :: "char \<Rightarrow> bool" where
  "account_char c \<longleftrightarrow> CHR ''A'' \<le> c \<and> c \<le> CHR ''Z'' \<or> lower_alphanumeric c \<or> c \<in> set '' ._@/-''"

definition alphanumeric :: "char \<Rightarrow> bool" where
  "alphanumeric c \<longleftrightarrow> CHR ''A'' \<le> c \<and> c \<le> CHR ''Z'' \<or> lower_alphanumeric c"

definition valid_account_name :: "string \<Rightarrow> bool" where
  "valid_account_name n \<longleftrightarrow>
     (case n of [] \<Rightarrow> False
      | c # cs \<Rightarrow> alphanumeric c \<and> 2 \<le> length cs \<and> length cs \<le> 127 \<and> list_all account_char cs)"

definition humanOnlyScopes :: "string list" where
  "humanOnlyScopes =
    [''platform.service_accounts.write'', ''admin.users.manage'', ''admin.roles.manage'', ''admin.config.manage'',
     ''licenses.install'', ''soar.actions.approve'', ''ai.decide'']"

definition scope_denied :: "principal \<Rightarrow> string \<Rightarrow> bool" where
  "scope_denied actor scope \<longleftrightarrow>
     (let v = trim_space scope
      in v = [] \<or> v = ''*'' \<or> \<not> IsKnownPermission v \<or> v \<in> set humanOnlyScopes \<or> \<not> principal_can actor v)"

definition grantableScopes :: "principal \<Rightarrow> string list \<Rightarrow> string list result" where
  "grantableScopes actor scopes =
    (if scopes = [] \<or> 32 < length scopes then Inl ErrInvalidRequest
     else if list_ex (scope_denied actor) scopes then Inl ErrScopeDenied
     else Inr (sort (add_unseen [] (map trim_space scopes))))"

definition account_ttl :: "account_config \<Rightarrow> int \<Rightarrow> duration result" where
  "account_ttl c seconds =
    (if seconds < 0 \<or> ag_maximum_ttl c div go_second < seconds then Inl ErrInvalidRequest
     else if seconds = 0 then Inr (ag_default_ttl c)
     else Inr (seconds * go_second))"

definition new_account ::
  "string \<Rightarrow> tenant \<Rightarrow> principal \<Rightarrow> account_request \<Rightarrow> string list \<Rightarrow> time \<Rightarrow> duration \<Rightarrow> service_account" where
  "new_account i t actor request scopes now ttl =
    \<lparr>sv_id = i, sv_tenant = t, sv_name = trim_space (aq_name request), sv_description = trim_space (aq_description request),
     sv_scopes = scopes, sv_state = ''ACTIVE'', sv_token_version = 1, sv_created_by = pr_id actor,
     sv_created_at = now, sv_updated_at = now, sv_expires_at = now + ttl, sv_last_used_at = None, sv_revoked_at = None\<rparr>"

definition sa_Create ::
  "'s account_port \<Rightarrow> account_config \<Rightarrow> tenant \<Rightarrow> principal \<Rightarrow> account_request \<Rightarrow> ('s, account_issue) op" where
  "sa_Create port cfg tenant_id actor request =
    (let t = trim_space tenant_id
     in op_bind (op_lift (grantableScopes actor (aq_scopes request))) (\<lambda>scopes.
        if \<not> tenant_valid t \<or> \<not> CanAccessTenant actor t \<or> trim_space (pr_id actor) = [] \<or>
           \<not> valid_account_name (trim_space (aq_name request)) \<or> 1024 < length (trim_space (aq_description request))
        then op_fail ErrInvalidRequest
        else op_bind (op_lift (account_ttl cfg (aq_expires_in request))) (\<lambda>ttl.
             op_bind op_now (\<lambda>now.
             op_bind (op_new_id ''svc'') (\<lambda>i.
             op_bind (generateToken i) (\<lambda>(raw, h).
             op_bind (ap_create port (new_account i t actor request scopes now ttl) h) (\<lambda>created.
             op_return \<lparr>si_access_token = raw, si_token_type = ''Bearer'', si_account = created\<rparr>)))))))"

definition sa_List :: "'s account_port \<Rightarrow> tenant \<Rightarrow> ('s, service_account list) op" where
  "sa_List port t = ap_list port (trim_space t)"

definition sa_refused :: "principal \<Rightarrow> tenant \<Rightarrow> string \<Rightarrow> bool" where
  "sa_refused actor t i \<longleftrightarrow> \<not> tenant_valid t \<or> \<not> CanAccessTenant actor t \<or> i = [] \<or> pr_id actor = []"

definition sa_Rotate ::
  "'s account_port \<Rightarrow> account_config \<Rightarrow> tenant \<Rightarrow> string \<Rightarrow> principal \<Rightarrow> int \<Rightarrow> ('s, account_issue) op" where
  "sa_Rotate port cfg tenant_id account_id actor expires_in =
    (let t = trim_space tenant_id; i = trim_space account_id
     in if sa_refused actor t i then op_fail ErrInvalidRequest
        else op_bind (op_lift (account_ttl cfg expires_in)) (\<lambda>ttl.
             op_bind (generateToken i) (\<lambda>(raw, h).
             op_bind op_now (\<lambda>now.
             op_bind (ap_rotate port t i (pr_id actor) h (now + ttl)) (\<lambda>account.
             op_return \<lparr>si_access_token = raw, si_token_type = ''Bearer'', si_account = account\<rparr>)))))"

definition sa_Revoke :: "'s account_port \<Rightarrow> tenant \<Rightarrow> string \<Rightarrow> principal \<Rightarrow> ('s, service_account) op" where
  "sa_Revoke port tenant_id account_id actor =
    (let t = trim_space tenant_id; i = trim_space account_id
     in if sa_refused actor t i then op_fail ErrInvalidRequest else ap_revoke port t i (pr_id actor))"

definition account_principal :: "service_account \<Rightarrow> principal" where
  "account_principal a =
    \<lparr>pr_id = ''service-account:'' @ sv_id a, pr_display_name = sv_name a, pr_role = ''Service Account'',
     pr_permissions = PermissionsForScopes (sv_scopes a), pr_allowed_tenants = [sv_tenant a], pr_platform_scope = False\<rparr>"

definition sa_Authenticate :: "'s account_port \<Rightarrow> string \<Rightarrow> ('s, principal) op" where
  "sa_Authenticate port header =
    (case bearer ''kcsp_sat_'' header of
       None \<Rightarrow> op_fail ErrUnauthenticated
     | Some token \<Rightarrow>
         op_bind op_now (\<lambda>checked.
         op_bind (op_map_error (\<lambda>_. ErrUnauthenticated) (ap_by_hash port (sha256 token) checked)) (\<lambda>a.
         if sv_revoked_at a \<noteq> None \<or> \<not> checked < sv_expires_at a \<or> \<not> tenant_valid (sv_tenant a) \<or>
            trim_space (sv_id a) = [] \<or> sv_scopes a = []
         then op_fail ErrUnauthenticated
         else op_return (account_principal a))))"

subsection \<open>Enrollment of agents\<close>

record enrollment_config =
  eg_credential_ttl :: duration
  eg_maximum_ttl :: duration

definition enrollment_defaults :: "enrollment_config \<Rightarrow> enrollment_config" where
  "enrollment_defaults c =
    \<lparr>eg_credential_ttl = (if eg_credential_ttl c \<le> 0 then 30 * 24 * hour else eg_credential_ttl c),
     eg_maximum_ttl = (if eg_maximum_ttl c \<le> 0 then 7 * 24 * hour else eg_maximum_ttl c)\<rparr>"

record token_request =
  tq_label :: string
  tq_collector_type :: string
  tq_capabilities :: "string list"
  tq_expires_in :: int
  tq_max_uses :: int

definition token_type :: "token_request \<Rightarrow> string" where
  "token_type q = (let v = to_lower (trim_space (tq_collector_type q)) in if v = [] then ''lightweight-agent'' else v)"

definition token_ttl :: "enrollment_config \<Rightarrow> int \<Rightarrow> duration result" where
  "token_ttl c seconds =
    (if seconds < 0 \<or> eg_maximum_ttl c div go_second < seconds then Inl ErrInvalidRequest
     else let ttl = (if seconds * go_second = 0 then 24 * hour else seconds * go_second)
          in if eg_maximum_ttl c < ttl then Inl ErrInvalidRequest else Inr ttl)"

definition CreateToken :: "enrollment_config \<Rightarrow> tenant \<Rightarrow> string \<Rightarrow> token_request \<Rightarrow> (access_db, token_issue) op" where
  "CreateToken cfg tenant_id who q =
    (let t = trim_space tenant_id; actor = trim_space who; label = trim_space (tq_label q);
         capabilities = normalizedCapabilities (tq_capabilities q);
         max_uses = (if tq_max_uses q = 0 then 1 else tq_max_uses q)
     in if \<not> tenant_valid t \<or> actor = [] \<or> label = [] \<or> 256 < length label \<or> 64 < length (token_type q) \<or> capabilities = []
        then op_fail ErrInvalidRequest
        else if max_uses < 1 \<or> 10000 < max_uses then op_fail ErrInvalidRequest
        else op_bind (op_lift (token_ttl cfg (tq_expires_in q))) (\<lambda>ttl.
             op_bind op_now (\<lambda>now.
             op_bind (op_new_id ''enr'') (\<lambda>i.
             op_bind (generateSecret ''kcsp_enroll'' i) (\<lambda>(raw, h).
             op_bind (CreateAgentEnrollmentToken
               \<lparr>tk_id = i, tk_tenant = t, tk_label = label, tk_collector_type = token_type q, tk_capabilities = capabilities,
                tk_state = ''ACTIVE'', tk_expires_at = now + ttl, tk_max_uses = max_uses, tk_use_count = 0,
                tk_created_by = actor, tk_created_at = now, tk_last_used_at = None\<rparr> h) (\<lambda>created.
             op_return \<lparr>ti_enrollment_token = raw, ti_token = created\<rparr>))))))"

definition ListTokens :: "tenant \<Rightarrow> (access_db, enrollment_token list) op" where
  "ListTokens t = ListAgentEnrollmentTokens (trim_space t)"

definition RevokeToken :: "tenant \<Rightarrow> string \<Rightarrow> string \<Rightarrow> (access_db, enrollment_token) op" where
  "RevokeToken tenant_id token_id who =
    (let t = trim_space tenant_id; i = trim_space token_id; actor = trim_space who
     in if \<not> tenant_valid t \<or> i = [] \<or> actor = [] then op_fail ErrInvalidRequest
        else RevokeAgentEnrollmentToken t i actor)"

definition agent_char :: "char \<Rightarrow> bool" where
  "agent_char c \<longleftrightarrow> alphanumeric c \<or> c \<in> set ''._-''"

definition valid_agent_id :: "string \<Rightarrow> bool" where
  "valid_agent_id n \<longleftrightarrow>
     (case n of [] \<Rightarrow> False
      | c # cs \<Rightarrow> alphanumeric c \<and> 2 \<le> length cs \<and> length cs \<le> 127 \<and> list_all agent_char cs)"

definition trimmed_enrollment :: "enrollment_request \<Rightarrow> enrollment_request" where
  "trimmed_enrollment q =
    \<lparr>nq_enrollment_token = trim_space (nq_enrollment_token q), nq_agent_id = trim_space (nq_agent_id q),
     nq_name = trim_space (nq_name q), nq_hostname = trim_space (nq_hostname q), nq_version = trim_space (nq_version q),
     nq_platform = to_lower (trim_space (nq_platform q)), nq_architecture = to_lower (trim_space (nq_architecture q))\<rparr>"

definition agent_collector :: "enrollment_request \<Rightarrow> string \<Rightarrow> collector" where
  "agent_collector q observed_ip =
    \<lparr>cl_id = nq_agent_id q, cl_tenant = [], cl_name = nq_name q, cl_type = [], cl_auth_subject = ''agent:'' @ nq_agent_id q,
     cl_state = [], cl_capabilities = [], cl_version = nq_version q, cl_observed_ip = trim_space observed_ip,
     cl_health_metadata =
       [(''hostname'', JStr (nq_hostname q)), (''platform'', JStr (nq_platform q)),
        (''architecture'', JStr (nq_architecture q)), (''enrollment'', JStr ''one-time-token'')],
     cl_last_seen_at = None, cl_created_at = 0, cl_updated_at = 0\<rparr>"

definition fresh_credential :: "string \<Rightarrow> time \<Rightarrow> time \<Rightarrow> agent_credential" where
  "fresh_credential i expires now =
    \<lparr>gc_id = i, gc_tenant = [], gc_collector = [], gc_auth_subject = [], gc_expires_at = expires, gc_created_at = now,
     gc_last_used_at = None, gc_revoked_at = None\<rparr>"

text \<open>The errors of the store that a caller learns nothing about.\<close>

definition hide_rejection :: "error \<Rightarrow> error" where
  "hide_rejection e = (if e = ErrEnrollmentRejected \<or> e = ErrNotFound then ErrInvalidToken else e)"

definition Enroll :: "enrollment_config \<Rightarrow> enrollment_request \<Rightarrow> string \<Rightarrow> (access_db, enrollment_response) op" where
  "Enroll cfg request observed_ip =
    (let q = trimmed_enrollment request
     in if \<not> has_prefix (nq_enrollment_token q) ''kcsp_enroll_'' \<or> 512 < length (nq_enrollment_token q)
        then op_fail ErrInvalidToken
        else if \<not> valid_agent_id (nq_agent_id q) \<or> nq_name q = [] \<or> 256 < length (nq_name q) \<or> 256 < length (nq_hostname q) \<or>
           128 < length (nq_version q) \<or> 64 < length (nq_platform q) \<or> 64 < length (nq_architecture q) \<or> 128 < length observed_ip
        then op_fail ErrInvalidRequest
        else op_bind (op_new_id ''cred'') (\<lambda>i.
             op_bind (generateSecret ''kcsp_agent'' i) (\<lambda>(raw, h).
             op_bind op_now (\<lambda>now.
             let credential = fresh_credential i (now + eg_credential_ttl cfg) now
             in op_bind (op_map_error hide_rejection
                  (ConsumeAgentEnrollment (sha256 (nq_enrollment_token q)) (agent_collector q observed_ip) credential h)) (\<lambda>c.
                op_return \<lparr>nr_collector = c, nr_credential =
                  \<lparr>gg_access_token = raw, gg_token_type = ''Bearer'', gg_expires_at = gc_expires_at credential\<rparr>\<rparr>)))))"

definition RotateCredential :: "enrollment_config \<Rightarrow> string \<Rightarrow> (access_db, credential_grant) op" where
  "RotateCredential cfg token =
    (let current = trim_space token
     in if \<not> has_prefix current ''kcsp_agent_'' \<or> 512 < length current then op_fail ErrInvalidToken
        else op_bind (op_new_id ''cred'') (\<lambda>i.
             op_bind (generateSecret ''kcsp_agent'' i) (\<lambda>(raw, h).
             op_bind op_now (\<lambda>now.
             op_bind (op_map_error (\<lambda>e. if e = ErrNotFound then ErrInvalidToken else e)
               (RotateAgentCredential (sha256 current) (fresh_credential i (now + eg_credential_ttl cfg) 0) h)) (\<lambda>created.
             op_return \<lparr>gg_access_token = raw, gg_token_type = ''Bearer'', gg_expires_at = gc_expires_at created\<rparr>)))))"

definition agent_principal :: "agent_credential \<Rightarrow> principal" where
  "agent_principal c =
    \<lparr>pr_id = gc_auth_subject c, pr_display_name = gc_collector c, pr_role = ''Service Account'',
     pr_permissions = [''siem.events.ingest'', ''platform.collectors.heartbeat''],
     pr_allowed_tenants = [gc_tenant c], pr_platform_scope = False\<rparr>"

definition agent_Authenticate :: "string \<Rightarrow> (access_db, principal) op" where
  "agent_Authenticate header =
    (case bearer ''kcsp_agent_'' header of
       None \<Rightarrow> op_fail ErrUnauthenticated
     | Some token \<Rightarrow>
         op_bind (op_map_error (\<lambda>_. ErrUnauthenticated) (AgentCredentialByHash (sha256 token))) (\<lambda>c.
         if gc_revoked_at c \<noteq> None then op_fail ErrUnauthenticated
         else op_bind op_now (\<lambda>now.
              if \<not> now < gc_expires_at c \<or> \<not> tenant_valid (gc_tenant c) \<or> trim_space (gc_collector c) = [] \<or>
                 trim_space (gc_auth_subject c) = []
              then op_fail ErrUnauthenticated
              else op_return (agent_principal c))))"

text \<open>Authenticators are asked in turn; the first one that accepts the request decides.\<close>

fun chain_Authenticate :: "(string \<Rightarrow> ('s, principal) op) list \<Rightarrow> string \<Rightarrow> ('s, principal) op" where
  "chain_Authenticate [] header = op_fail ErrUnauthenticated"
| "chain_Authenticate (a # as) header = (\<lambda>sw.
     (case a header sw of (Inr p, sw') \<Rightarrow> (Inr p, sw') | (Inl _, sw') \<Rightarrow> chain_Authenticate as header sw'))"

end
