(* ===== verification/Access_Contract.thy ===== *)
theory Access_Contract
  imports Access_Service Op_Triples
begin

text \<open>
  The contract of a store of service accounts: which account a token digest is good for, what its
  operations may change of that, and that revoked accounts have no good digests. What follows for the
  authenticator is proved once and holds on both stores.
\<close>

subsection \<open>Histories of account requests\<close>

inductive account_step :: "'s account_port \<Rightarrow> ('s \<Rightarrow> service_account \<Rightarrow> bool) \<Rightarrow> 's \<Rightarrow> 's \<Rightarrow> bool"
  for port :: "'s account_port" and fresh :: "'s \<Rightarrow> service_account \<Rightarrow> bool" where
  create: "ap_create port a h (s, w) = (r, (s', w')) \<Longrightarrow> fresh s a \<Longrightarrow> account_step port fresh s s'"
| rotate: "ap_rotate port t i actor h e (s, w) = (r, (s', w')) \<Longrightarrow> account_step port fresh s s'"
| revoke: "ap_revoke port t i actor (s, w) = (r, (s', w')) \<Longrightarrow> account_step port fresh s s'"
| authenticate: "ap_by_hash port h checked (s, w) = (r, (s', w')) \<Longrightarrow> account_step port fresh s s'"

subsection \<open>The contract\<close>

locale account_registry =
  fixes port :: "'s account_port"
    and fresh :: "'s \<Rightarrow> service_account \<Rightarrow> bool"
    and good :: "'s \<Rightarrow> string \<Rightarrow> (tenant \<times> string) option"
    and revoked :: "'s \<Rightarrow> (tenant \<times> string) set"
    and ok :: "'s \<Rightarrow> bool"
  assumes create_law: "ok s \<Longrightarrow> fresh s a \<Longrightarrow> ap_create port a h (s, w) = (r, (s', w')) \<Longrightarrow>
      ok s' \<and> revoked s \<subseteq> revoked s' \<and> (is_ok r \<longrightarrow> good s' h = Some (sv_tenant a, sv_id a))"
    and rotate_law: "ok s \<Longrightarrow> ap_rotate port t i actor h e (s, w) = (r, (s', w')) \<Longrightarrow>
      ok s' \<and> revoked s \<subseteq> revoked s' \<and> (is_ok r \<longrightarrow> (\<forall>h'. good s' h' = Some (t, i) \<longleftrightarrow> h' = h))"
    and revoke_law: "ok s \<Longrightarrow> ap_revoke port t i actor (s, w) = (r, (s', w')) \<Longrightarrow>
      ok s' \<and> revoked s \<subseteq> revoked s' \<and> (is_ok r \<longrightarrow> (t, i) \<in> revoked s')"
    and by_hash_law: "ok s \<Longrightarrow> ap_by_hash port h checked (s, w) = (r, (s', w')) \<Longrightarrow>
      ok s' \<and> revoked s \<subseteq> revoked s' \<and> (\<forall>a. r = Inr a \<longrightarrow> good s h = Some (sv_tenant a, sv_id a))"
    and good_not_revoked: "ok s \<Longrightarrow> good s h = Some k \<Longrightarrow> k \<notin> revoked s"
begin

lemma step_keeps: "account_step port fresh s s' \<Longrightarrow> ok s \<Longrightarrow> ok s' \<and> revoked s \<subseteq> revoked s'"
  by (induction rule: account_step.induct) (auto dest: create_law rotate_law revoke_law by_hash_law)

lemma history_keeps: "(account_step port fresh)\<^sup>*\<^sup>* s s' \<Longrightarrow> ok s \<Longrightarrow> ok s' \<and> revoked s \<subseteq> revoked s'"
  by (induction rule: rtranclp_induct) (auto dest: step_keeps)

lemma authenticated_account:
  assumes "sa_Authenticate port header (s, w) = (Inr p, (s', w'))"
  shows "\<exists>token a. bearer ''kcsp_sat_'' header = Some token \<and> p = account_principal a \<and>
    (\<exists>checked w1 s2 w2. ap_by_hash port (sha256 token) checked (s, w1) = (Inr a, (s2, w2)))"
  using assms unfolding sa_Authenticate_def
  by (auto split: option.splits if_splits elim!: op_bind_InrE
      simp: op_now_def op_return_def op_fail_def op_map_error_def split: prod.splits sum.splits) blast

lemma authenticated_good:
  assumes "ok s" "sa_Authenticate port header (s, w) = (Inr p, (s', w'))"
  shows "\<exists>token t i. bearer ''kcsp_sat_'' header = Some token \<and> good s (sha256 token) = Some (t, i) \<and>
    pr_id p = ''service-account:'' @ i \<and> pr_allowed_tenants p = [t] \<and> \<not> pr_platform_scope p"
  using authenticated_account [OF assms(2)] by_hash_law [OF assms(1)]
  by (auto simp: account_principal_def)

lemma revoked_stays_out:
  assumes "ok s" "(t, i) \<in> revoked s" "(account_step port fresh)\<^sup>*\<^sup>* s s'"
    and "sa_Authenticate port header (s', w) = (Inr p, sw)"
  shows "\<not> (pr_id p = ''service-account:'' @ i \<and> pr_allowed_tenants p = [t])"
proof -
  obtain s2 w2 where sw: "sw = (s2, w2)" by fastforce
  from history_keeps [OF assms(3, 1)] assms(2) have ok: "ok s'" and r: "(t, i) \<in> revoked s'" by auto
  from authenticated_good [OF ok assms(4) [unfolded sw]] good_not_revoked [OF ok] r show ?thesis by auto
qed

lemma rotation_replaces:
  assumes "ok s" "ap_rotate port t i actor h e (s, w) = (Inr a, (s', w'))"
    and "sa_Authenticate port header (s', w2) = (Inr p, sw)" "bearer ''kcsp_sat_'' header = Some token" "sha256 token \<noteq> h"
  shows "\<not> (pr_id p = ''service-account:'' @ i \<and> pr_allowed_tenants p = [t])"
proof -
  obtain s3 w3 where sw: "sw = (s3, w3)" by fastforce
  from rotate_law [OF assms(1, 2)] have "ok s'" and g: "\<And>h'. good s' h' = Some (t, i) \<longleftrightarrow> h' = h" by auto
  from authenticated_good [OF this(1) assms(3) [unfolded sw]] obtain t' i' where
    "good s' (sha256 token) = Some (t', i')" "pr_id p = ''service-account:'' @ i'" "pr_allowed_tenants p = [t']"
    using assms(4) by auto
  with g [of "sha256 token"] assms(5) show ?thesis by auto
qed

end

subsection \<open>Replaying the operations\<close>

lemma transaction_ran: "transaction body (s, w) = (Inr x, (s', w')) \<Longrightarrow> \<exists>w1 w2. body (s, w1) = (Inr x, (s', w2))"
  by (erule transaction_Inr) blast

lemma audited_keeps:
  "audited e (s, w) = (r, (s', w')) \<Longrightarrow> ac_accounts s' = ac_accounts s \<and> ac_tokens s' = ac_tokens s \<and>
     ac_credentials s' = ac_credentials s \<and> ac_collectors s' = ac_collectors s"
  by (auto simp: audited_def split: prod.splits sum.splits)

lemma scan_account_run:
  "scan_account a (s, w) = (r, (s', w')) \<Longrightarrow> s' = s \<and> (\<exists>st. r = Inr (a\<lparr>sv_state := st\<rparr>))"
  by (auto simp: scan_account_def op_return_def op_bind_def op_now_def split: if_splits prod.splits)

lemma first_row_Inr: "first_row e rows (s, w) = (Inr x, (s', w')) \<longleftrightarrow> (\<exists>rs. rows = x # rs) \<and> s' = s \<and> w' = w"
  by (auto simp: first_row_def return_Inr split: list.splits)

lemma op_now_run: "op_now (s, w) = (r, (s', w')) \<Longrightarrow> s' = s \<and> r = Inr (fst (time_now w)) \<and> w' = snd (time_now w)"
  by (auto simp: op_now_def split: prod.splits)

lemma filter_head: "z # zs = filter P xs \<Longrightarrow> z \<in> set xs \<and> P z" "filter P xs = z # zs \<Longrightarrow> z \<in> set xs \<and> P z"
  by (metis list.set_intros(1) mem_Collect_eq set_filter)+

lemmas replay_runs = transaction_ran statement_run scan_account_run op_now_run audited_keeps sql_query_run

subsection \<open>The durable store\<close>

definition account_key :: "account_row \<Rightarrow> tenant \<times> string" where
  "account_key r = (sv_tenant (ar_account r), sv_id (ar_account r))"

lemma is_account_key: "is_account t i r \<longleftrightarrow> account_key r = (t, i)"
  by (auto simp: is_account_def account_key_def)

definition active :: "account_row \<Rightarrow> bool" where
  "active r \<longleftrightarrow> sv_revoked_at (ar_account r) = None"

definition rows_ok :: "account_row list \<Rightarrow> bool" where
  "rows_ok rows \<longleftrightarrow> distinct (map account_key rows) \<and> distinct (map ar_hash rows)"

definition good_row :: "account_row list \<Rightarrow> string \<Rightarrow> (tenant \<times> string) option" where
  "good_row rows h = map_option account_key (find (\<lambda>r. ar_hash r = h \<and> active r) rows)"

definition revoked_rows :: "account_row list \<Rightarrow> (tenant \<times> string) set" where
  "revoked_rows rows = account_key ` {r \<in> set rows. \<not> active r}"

lemma good_row_iff:
  assumes "rows_ok rows"
  shows "good_row rows h = Some k \<longleftrightarrow> (\<exists>r \<in> set rows. ar_hash r = h \<and> active r \<and> account_key r = k)"
proof
  assume "good_row rows h = Some k"
  then show "\<exists>r \<in> set rows. ar_hash r = h \<and> active r \<and> account_key r = k"
    by (auto simp: good_row_def find_Some_iff)
next
  assume "\<exists>r \<in> set rows. ar_hash r = h \<and> active r \<and> account_key r = k"
  then obtain r where r: "r \<in> set rows" "ar_hash r = h" "active r" "account_key r = k" by blast
  then obtain q where q: "find (\<lambda>r. ar_hash r = h \<and> active r) rows = Some q"
    by (metis (mono_tags, lifting) find_None_iff not_None_eq)
  then have "q \<in> set rows" "ar_hash q = h" by (auto simp: find_Some_iff)
  with r assms have "q = r" by (auto simp: rows_ok_def distinct_map dest: inj_onD)
  with q r show "good_row rows h = Some k" by (simp add: good_row_def)
qed

lemma CreateServiceAccount_run:
  assumes "CreateServiceAccount a h (s, w) = (Inr x, (s', w'))"
  shows "ac_accounts s' = ac_accounts s @ [\<lparr>ar_account = stored_account a, ar_hash = h\<rparr>] \<and>
    (\<forall>r \<in> set (ac_accounts s). account_key r \<noteq> (sv_tenant a, sv_id a) \<and> ar_hash r \<noteq> h) \<and>
    (\<exists>st. x = (stored_account a)\<lparr>sv_state := st\<rparr>)"
  using assms unfolding CreateServiceAccount_def
  by (auto elim!: op_bind_InrE dest!: replay_runs simp: return_Inr insert_account_def is_account_key split: if_splits)

definition rotated_rows :: "tenant \<Rightarrow> string \<Rightarrow> string \<Rightarrow> time \<Rightarrow> time \<Rightarrow> account_row list \<Rightarrow> account_row list" where
  "rotated_rows t i h e now = map (\<lambda>r. if account_key r = (t, i) \<and> active r then rotate_row h e now r else r)"

lemma rotate_account_eq:
  "rotate_account t i h e now s =
    (if (\<exists>r \<in> set (ac_accounts s). account_key r = (t, i) \<and> active r) \<and>
        (\<exists>r \<in> set (ac_accounts s). \<not> (account_key r = (t, i) \<and> active r) \<and> ar_hash r = h) then (Inl duplicate_key, s)
     else (Inr (returned_rows (\<lambda>r. account_key r = (t, i) \<and> active r) (rotate_row h e now) (ac_accounts s)),
           s\<lparr>ac_accounts := rotated_rows t i h e now (ac_accounts s)\<rparr>))"
  by (simp add: rotate_account_def Let_def update_rows_def rotated_rows_def is_account_key active_def)

lemma RotateServiceAccountToken_run:
  assumes "RotateServiceAccountToken t i actor h e (s, w) = (Inr x, (s', w'))"
  shows "\<exists>now. ac_accounts s' = rotated_rows t i h e now (ac_accounts s) \<and>
    (\<exists>r \<in> set (ac_accounts s). account_key r = (t, i) \<and> active r) \<and>
    (\<forall>r \<in> set (ac_accounts s). ar_hash r = h \<longrightarrow> account_key r = (t, i) \<and> active r)"
  using assms unfolding RotateServiceAccountToken_def
  by (auto elim!: op_bind_InrE dest!: replay_runs filter_head simp: return_Inr first_row_Inr rotate_account_eq
      returned_rows_def split: if_splits)

definition revoked_now :: "tenant \<Rightarrow> string \<Rightarrow> time \<Rightarrow> account_row list \<Rightarrow> account_row list" where
  "revoked_now t i now = map (\<lambda>r. if account_key r = (t, i) \<and> active r then revoke_row now r else r)"

lemma RevokeServiceAccount_run:
  assumes "RevokeServiceAccount t i actor (s, w) = (Inr x, (s', w'))"
  shows "\<exists>now. ac_accounts s' = revoked_now t i now (ac_accounts s) \<and>
    (\<exists>r \<in> set (ac_accounts s). account_key r = (t, i) \<and> active r)"
  using assms unfolding RevokeServiceAccount_def update_accounts_def
  by (auto elim!: op_bind_InrE dest!: replay_runs filter_head simp: return_Inr first_row_Inr returned_rows_def
      update_rows_def revoked_now_def is_account_key active_def split: if_splits)

lemma ServiceAccountByTokenHash_run:
  assumes "ServiceAccountByTokenHash h at (s, w) = (r, (s', w'))"
  shows "s' = s \<or> (\<exists>checked. ac_accounts s' = update_rows (authenticates h checked) (use_row checked) (ac_accounts s))"
  using assms unfolding ServiceAccountByTokenHash_def update_accounts_def
  by (auto simp: op_bind_def op_fail_def op_return_def op_now_def statement_def Let_def first_row_def scan_account_def
      split: if_splits prod.splits sum.splits list.splits)

lemma ServiceAccountByTokenHash_Inr:
  assumes "ServiceAccountByTokenHash h at (s, w) = (Inr a, (s', w'))"
  shows "\<exists>r \<in> set (ac_accounts s). \<exists>checked st. authenticates h checked r \<and> a = (ar_account (use_row checked r))\<lparr>sv_state := st\<rparr>"
  using assms unfolding ServiceAccountByTokenHash_def update_accounts_def
  by (auto elim!: op_bind_InrE dest!: replay_runs filter_head simp: return_Inr first_row_Inr returned_rows_def
      split: if_splits) blast+

lemma row_keys [simp]:
  "account_key (rotate_row h e now r) = account_key r" "active (rotate_row h e now r) = active r"
  "ar_hash (rotate_row h e now r) = h"
  "account_key (revoke_row now r) = account_key r" "\<not> active (revoke_row now r)" "ar_hash (revoke_row now r) = ar_hash r"
  "account_key (use_row now r) = account_key r" "active (use_row now r) = active r" "ar_hash (use_row now r) = ar_hash r"
  by (simp_all add: account_key_def active_def rotate_row_def revoke_row_def use_row_def)

lemma stored_row [simp]:
  "account_key \<lparr>ar_account = stored_account a, ar_hash = h\<rparr> = (sv_tenant a, sv_id a)"
  "active \<lparr>ar_account = stored_account a, ar_hash = h\<rparr>"
  by (simp_all add: account_key_def active_def stored_account_def)

text \<open>A change of rows that keeps their keys.\<close>

lemma rows_ok_map:
  assumes "rows_ok rows" "\<And>r. account_key (f r) = account_key r"
    and "\<And>q r. q \<in> set rows \<Longrightarrow> r \<in> set rows \<Longrightarrow> ar_hash (f q) = ar_hash (f r) \<Longrightarrow> q = r"
  shows "rows_ok (map f rows)"
proof -
  have "map account_key (map f rows) = map account_key rows" using assms(2) by simp
  moreover have "distinct rows" using assms(1) by (auto simp: rows_ok_def distinct_map)
  then have "distinct (map (ar_hash \<circ> f) rows)" using assms(3) by (auto simp: distinct_map inj_on_def)
  ultimately show ?thesis using assms(1) by (simp only: rows_ok_def map_map)
qed

lemma same_key: "rows_ok rows \<Longrightarrow> q \<in> set rows \<Longrightarrow> r \<in> set rows \<Longrightarrow> account_key q = account_key r \<Longrightarrow> q = r"
  by (auto simp: rows_ok_def distinct_map dest: inj_onD)

lemma same_hash: "rows_ok rows \<Longrightarrow> q \<in> set rows \<Longrightarrow> r \<in> set rows \<Longrightarrow> ar_hash q = ar_hash r \<Longrightarrow> q = r"
  by (auto simp: rows_ok_def distinct_map dest: inj_onD)

lemma rotated_ok:
  assumes "rows_ok rows" "\<forall>r \<in> set rows. ar_hash r = h \<longrightarrow> account_key r = (t, i) \<and> active r"
  shows "rows_ok (rotated_rows t i h e now rows)"
  unfolding rotated_rows_def
proof (rule rows_ok_map [OF assms(1)])
  fix q r assume qr: "q \<in> set rows" "r \<in> set rows"
    "ar_hash (if account_key q = (t, i) \<and> active q then rotate_row h e now q else q) =
     ar_hash (if account_key r = (t, i) \<and> active r then rotate_row h e now r else r)"
  with assms(2) show "q = r"
    by (auto split: if_splits intro: same_key [OF assms(1)] same_hash [OF assms(1)])
qed simp

lemma rotated_good:
  assumes "rows_ok rows" "r \<in> set rows" "account_key r = (t, i)" "active r"
    and "\<forall>r \<in> set rows. ar_hash r = h \<longrightarrow> account_key r = (t, i) \<and> active r"
  shows "good_row (rotated_rows t i h e now rows) h' = Some (t, i) \<longleftrightarrow> h' = h"
proof -
  have "good_row (rotated_rows t i h e now rows) h' = Some (t, i) \<longleftrightarrow>
      (\<exists>q \<in> set (rotated_rows t i h e now rows). ar_hash q = h' \<and> active q \<and> account_key q = (t, i))"
    by (rule good_row_iff [OF rotated_ok [OF assms(1, 5)]])
  also have "\<dots> \<longleftrightarrow> h' = h"
  proof
    assume "h' = h"
    moreover have "rotate_row h e now r \<in> set (rotated_rows t i h e now rows)"
      using assms(2-4) by (force simp: rotated_rows_def)
    ultimately show "\<exists>q \<in> set (rotated_rows t i h e now rows). ar_hash q = h' \<and> active q \<and> account_key q = (t, i)"
      using assms(3, 4) by (intro bexI [of _ "rotate_row h e now r"]) simp_all
  qed (auto simp: rotated_rows_def)
  finally show ?thesis .
qed

lemma revoked_map:
  "(\<And>r. account_key (f r) = account_key r) \<Longrightarrow> (\<And>r. \<not> active r \<Longrightarrow> \<not> active (f r)) \<Longrightarrow>
     revoked_rows rows \<subseteq> revoked_rows (map f rows)"
proof
  fix k assume f: "\<And>r. account_key (f r) = account_key r" "\<And>r. \<not> active r \<Longrightarrow> \<not> active (f r)"
    and "k \<in> revoked_rows rows"
  then obtain r where "r \<in> set rows" "\<not> active r" "k = account_key r" by (auto simp: revoked_rows_def)
  then show "k \<in> revoked_rows (map f rows)" using f unfolding revoked_rows_def by (intro image_eqI [of _ _ "f r"]) auto
qed

lemma good_active:
  assumes "rows_ok rows" "good_row rows h = Some k"
  shows "k \<notin> revoked_rows rows"
  using assms(2) unfolding good_row_iff [OF assms(1)] by (auto simp: revoked_rows_def dest: same_key [OF assms(1)])

lemma account_failed:
  "CreateServiceAccount a h (s, w) = (Inl e, (s', w')) \<Longrightarrow> s' = s"
  "RotateServiceAccountToken t i actor h x (s, w) = (Inl e, (s', w')) \<Longrightarrow> s' = s"
  "RevokeServiceAccount t i actor (s, w) = (Inl e, (s', w')) \<Longrightarrow> s' = s"
  by (auto simp: CreateServiceAccount_def RotateServiceAccountToken_def RevokeServiceAccount_def op_fail_def
      dest: transaction_failed split: if_splits)

lemma used_rows:
  assumes "rows_ok rows"
  shows "rows_ok (update_rows (authenticates h checked) (use_row checked) rows)"
    "revoked_rows rows \<subseteq> revoked_rows (update_rows (authenticates h checked) (use_row checked) rows)"
  unfolding update_rows_def
  by (rule rows_ok_map [OF assms], simp, force split: if_splits dest: same_hash [OF assms])
    (rule revoked_map, simp_all)

lemma revoked_now_ok:
  assumes "rows_ok rows"
  shows "rows_ok (revoked_now t i now rows)" "revoked_rows rows \<subseteq> revoked_rows (revoked_now t i now rows)"
  unfolding revoked_now_def
  by (rule rows_ok_map [OF assms], simp, force split: if_splits dest: same_hash [OF assms])
    (rule revoked_map, simp_all)

lemma revoked_now_revokes:
  "r \<in> set rows \<Longrightarrow> account_key r = (t, i) \<Longrightarrow> active r \<Longrightarrow> (t, i) \<in> revoked_rows (revoked_now t i now rows)"
  unfolding revoked_rows_def revoked_now_def by (intro image_eqI [of _ _ "revoke_row now r"]) force+

interpretation durable_registry: account_registry durable_accounts "\<lambda>_ _. True" "\<lambda>s. good_row (ac_accounts s)"
  "\<lambda>s. revoked_rows (ac_accounts s)" "\<lambda>s. rows_ok (ac_accounts s)"
proof
  fix s :: access_db and a h w r s' w'
  assume ok: "rows_ok (ac_accounts s)" and run: "ap_create durable_accounts a h (s, w) = (r, (s', w'))"
  show "rows_ok (ac_accounts s') \<and> revoked_rows (ac_accounts s) \<subseteq> revoked_rows (ac_accounts s') \<and>
      (is_ok r \<longrightarrow> good_row (ac_accounts s') h = Some (sv_tenant a, sv_id a))"
  proof (cases r)
    case (Inl e)
    with run ok show ?thesis by (auto simp: durable_accounts_def dest: account_failed)
  next
    case (Inr x)
    with run have new: "ac_accounts s' = ac_accounts s @ [\<lparr>ar_account = stored_account a, ar_hash = h\<rparr>]"
      "\<forall>r \<in> set (ac_accounts s). account_key r \<noteq> (sv_tenant a, sv_id a) \<and> ar_hash r \<noteq> h"
      using CreateServiceAccount_run [of a h s w x s' w'] by (simp_all add: durable_accounts_def)
    then have ok': "rows_ok (ac_accounts s')" using ok by (force simp: rows_ok_def)
    with new show ?thesis by (auto simp: good_row_iff revoked_rows_def)
  qed
next
  fix s :: access_db and t i actor h e w r s' w'
  assume ok: "rows_ok (ac_accounts s)" and run: "ap_rotate durable_accounts t i actor h e (s, w) = (r, (s', w'))"
  show "rows_ok (ac_accounts s') \<and> revoked_rows (ac_accounts s) \<subseteq> revoked_rows (ac_accounts s') \<and>
      (is_ok r \<longrightarrow> (\<forall>h'. good_row (ac_accounts s') h' = Some (t, i) \<longleftrightarrow> h' = h))"
  proof (cases r)
    case (Inl e)
    with run ok show ?thesis by (auto simp: durable_accounts_def dest: account_failed)
  next
    case (Inr x)
    with run obtain now q where new: "ac_accounts s' = rotated_rows t i h e now (ac_accounts s)"
      "q \<in> set (ac_accounts s)" "account_key q = (t, i)" "active q"
      "\<forall>r \<in> set (ac_accounts s). ar_hash r = h \<longrightarrow> account_key r = (t, i) \<and> active r"
      using RotateServiceAccountToken_run [of t i actor h e s w x s' w'] by (auto simp: durable_accounts_def)
    have "revoked_rows (ac_accounts s) \<subseteq> revoked_rows (rotated_rows t i h e now (ac_accounts s))"
      unfolding rotated_rows_def by (rule revoked_map) auto
    with new rotated_ok [OF ok new(5)] rotated_good [OF ok new(2-5)] show ?thesis by simp
  qed
next
  fix s :: access_db and t i actor w r s' w'
  assume ok: "rows_ok (ac_accounts s)" and run: "ap_revoke durable_accounts t i actor (s, w) = (r, (s', w'))"
  show "rows_ok (ac_accounts s') \<and> revoked_rows (ac_accounts s) \<subseteq> revoked_rows (ac_accounts s') \<and>
      (is_ok r \<longrightarrow> (t, i) \<in> revoked_rows (ac_accounts s'))"
  proof (cases r)
    case (Inl e)
    with run ok show ?thesis by (auto simp: durable_accounts_def dest: account_failed)
  next
    case (Inr x)
    with run RevokeServiceAccount_run [of t i actor s w x s' w'] show ?thesis
      by (auto simp: durable_accounts_def revoked_now_ok [OF ok] revoked_now_revokes
          dest: subsetD [OF revoked_now_ok(2) [OF ok]])
  qed
next
  fix s :: access_db and h checked w r s' w'
  assume ok: "rows_ok (ac_accounts s)" and run: "ap_by_hash durable_accounts h checked (s, w) = (r, (s', w'))"
  then have run': "ServiceAccountByTokenHash h checked (s, w) = (r, (s', w'))" by (simp add: durable_accounts_def)
  have "rows_ok (ac_accounts s') \<and> revoked_rows (ac_accounts s) \<subseteq> revoked_rows (ac_accounts s')"
    using ServiceAccountByTokenHash_run [OF run']
  proof
    assume "\<exists>checked. ac_accounts s' = update_rows (authenticates h checked) (use_row checked) (ac_accounts s)"
    then show ?thesis using used_rows [OF ok] by (elim exE) simp
  qed (simp add: ok)
  moreover have "good_row (ac_accounts s) h = Some (sv_tenant a, sv_id a)" if r: "r = Inr a" for a
  proof -
    from ServiceAccountByTokenHash_Inr [OF run' [unfolded r]] obtain q where "q \<in> set (ac_accounts s)"
      "ar_hash q = h" "active q" "account_key q = (sv_tenant a, sv_id a)"
      by (auto simp: authenticates_def active_def account_key_def use_row_def)
    then show ?thesis by (auto simp: good_row_iff [OF ok])
  qed
  ultimately show "rows_ok (ac_accounts s') \<and> revoked_rows (ac_accounts s) \<subseteq> revoked_rows (ac_accounts s') \<and>
      (\<forall>a. r = Inr a \<longrightarrow> good_row (ac_accounts s) h = Some (sv_tenant a, sv_id a))" by blast
next
  fix s :: access_db and h k
  assume "rows_ok (ac_accounts s)" "good_row (ac_accounts s) h = Some k"
  then show "k \<notin> revoked_rows (ac_accounts s)" by (rule good_active)
qed

end
