(* ===== verification/Access_Agents.thy ===== *)
theory Access_Agents
  imports Access_Contract
begin

text \<open>
  Enrollment as a transition system over the database: what every history of requests keeps of the
  tables of tokens, credentials and collectors, with the digests of the enrollments it made.
\<close>

subsection \<open>Steps\<close>

text \<open>A step is one request, whatever became of it, or a change of the rest of the durable store; its label is the
  token digest of an enrollment it made.\<close>

inductive access_step :: "access_db \<Rightarrow> string list \<Rightarrow> access_db \<Rightarrow> bool" where
  create_account: "CreateServiceAccount a h (s, w) = (r, (s', w')) \<Longrightarrow> access_step s [] s'"
| rotate_account: "RotateServiceAccountToken t i actor h e (s, w) = (r, (s', w')) \<Longrightarrow> access_step s [] s'"
| revoke_account: "RevokeServiceAccount t i actor (s, w) = (r, (s', w')) \<Longrightarrow> access_step s [] s'"
| use_account: "ServiceAccountByTokenHash h checked (s, w) = (r, (s', w')) \<Longrightarrow> access_step s [] s'"
| register: "RegisterCollector c (s, w) = (r, (s', w')) \<Longrightarrow> access_step s [] s'"
| heartbeat: "HeartbeatCollector t subject beat ip (s, w) = (r, (s', w')) \<Longrightarrow> access_step s [] s'"
| set_state: "SetCollectorState t i st (s, w) = (r, (s', w')) \<Longrightarrow> access_step s [] s'"
| create_token: "CreateAgentEnrollmentToken k h (s, w) = (r, (s', w')) \<Longrightarrow> access_step s [] s'"
| revoke_token: "RevokeAgentEnrollmentToken t i actor (s, w) = (r, (s', w')) \<Longrightarrow> access_step s [] s'"
| enroll: "ConsumeAgentEnrollment h c k kh (s, w) = (r, (s', w')) \<Longrightarrow> access_step s (if is_ok r then [h] else []) s'"
| rotate_credential: "RotateAgentCredential h k kh (s, w) = (r, (s', w')) \<Longrightarrow> access_step s [] s'"
| elsewhere: "access_step s [] (s\<lparr>ac_pg := p\<rparr>)"

inductive access_history :: "access_db \<Rightarrow> string list \<Rightarrow> access_db \<Rightarrow> bool" where
  start: "access_history s [] s"
| step: "access_history s hs s1 \<Longrightarrow> access_step s1 h s2 \<Longrightarrow> access_history s (hs @ h) s2"

subsection \<open>What the requests do to the tables\<close>

text \<open>Requests for service accounts leave the tables of the agents alone.\<close>

definition same_agents :: "access_db \<Rightarrow> access_db \<Rightarrow> bool" where
  "same_agents s s' \<longleftrightarrow>
     ac_tokens s' = ac_tokens s \<and> ac_credentials s' = ac_credentials s \<and> ac_collectors s' = ac_collectors s"

interpretation agents_rel: step_relation same_agents
  by unfold_locales (auto simp: same_agents_def)

lemma same_agents_audited: "op_rel same_agents (audited e)"
  by (rule op_relI) (auto simp: same_agents_def dest: audited_keeps)

lemma same_agents_scan: "op_rel same_agents (scan_account a)"
  by (rule op_relI) (auto simp: agents_rel.R_refl dest!: scan_account_run)

lemma same_agents_first: "op_rel same_agents (first_row e rows)"
  by (auto simp: first_row_def agents_rel.rel_fail agents_rel.rel_return split: list.split)

lemmas agents_intros = same_agents_audited same_agents_scan same_agents_first
  agents_rel.rel_intros agents_rel.sql_intros agents_rel.rel_statement

lemma account_requests:
  "op_rel same_agents (CreateServiceAccount a h)"
  "op_rel same_agents (RotateServiceAccountToken t i actor h e)"
  "op_rel same_agents (RevokeServiceAccount t i actor)"
  "op_rel same_agents (ServiceAccountByTokenHash h checked)"
  by (auto simp: CreateServiceAccount_def RotateServiceAccountToken_def RevokeServiceAccount_def ServiceAccountByTokenHash_def
      update_accounts_def insert_account_def rotate_account_def same_agents_def Let_def intro!: agents_intros split: if_splits)

text \<open>Registering inserts a collector; the others update the row of one.\<close>

lemma RegisterCollector_run:
  assumes "RegisterCollector input (s, w) = (r, (s', w'))"
  shows "s' = s \<or> (\<exists>c now q. insert_collector c now s = (q, s'))"
  using assms unfolding RegisterCollector_def
  by (auto simp: op_fail_def op_bind_def op_now_def statement_def Let_def split: if_splits prod.splits)

lemma insert_collector_Inr:
  "insert_collector c now s = (Inr x, s') \<Longrightarrow> x = stored_collector c now \<and> ac_collectors s' = ac_collectors s @ [x] \<and>
     (\<forall>r \<in> set (ac_collectors s). cl_tenant r = cl_tenant c \<longrightarrow> cl_id r \<noteq> cl_id c \<and> cl_auth_subject r \<noteq> cl_auth_subject c) \<and>
     ac_tokens s' = ac_tokens s \<and> ac_credentials s' = ac_credentials s"
  by (auto simp: insert_collector_def split: if_splits)

lemma insert_collector_Inl: "insert_collector c now s = (Inl e, s') \<Longrightarrow> s' = s"
  by (auto simp: insert_collector_def split: if_splits)

definition moved_collectors :: "access_db \<Rightarrow> access_db \<Rightarrow> bool" where
  "moved_collectors s s' \<longleftrightarrow> ac_tokens s' = ac_tokens s \<and> ac_credentials s' = ac_credentials s \<and>
     (\<exists>f. ac_collectors s' = map f (ac_collectors s) \<and>
        (\<forall>c. cl_tenant (f c) = cl_tenant c \<and> cl_id (f c) = cl_id c \<and> cl_auth_subject (f c) = cl_auth_subject c))"

lemma moved_refl: "moved_collectors s s"
  by (auto simp: moved_collectors_def intro: exI [of _ "\<lambda>c. c"])

lemma moved_update:
  "(\<And>c. cl_tenant (f c) = cl_tenant c \<and> cl_id (f c) = cl_id c \<and> cl_auth_subject (f c) = cl_auth_subject c) \<Longrightarrow>
   moved_collectors s (s\<lparr>ac_collectors := update_rows P f (ac_collectors s)\<rparr>)"
  unfolding moved_collectors_def update_rows_def by (auto intro!: exI [of _ "\<lambda>c. if P c then f c else c"])

lemma update_collectors_run:
  assumes "update_collectors P f (s, w) = (r, (s', w'))"
    and "\<And>c. cl_tenant (f c) = cl_tenant c \<and> cl_id (f c) = cl_id c \<and> cl_auth_subject (f c) = cl_auth_subject c"
  shows "moved_collectors s s'"
  using assms(1) moved_update [of f s P] assms(2)
  by (auto simp: update_collectors_def statement_def Let_def moved_refl split: if_splits prod.splits)

lemma collector_updates:
  "HeartbeatCollector t subject beat ip (s, w) = (r, (s', w')) \<Longrightarrow> moved_collectors s s'"
  "SetCollectorState t i st (s, w) = (r, (s', w')) \<Longrightarrow> moved_collectors s s'"
  unfolding HeartbeatCollector_def SetCollectorState_def
  by (auto simp: op_fail_def op_return_def op_bind_def op_now_def first_row_def Let_def moved_refl
      dest!: update_collectors_run split: if_splits prod.splits sum.splits list.splits)

subsection \<open>Tokens\<close>

lemma scan_token_run:
  "scan_token k (s, w) = (r, (s', w')) \<Longrightarrow>
     s' = s \<and> (\<exists>st. r = Inr (k\<lparr>tk_state := st\<rparr>) \<and> (st = ''ACTIVE'' \<longrightarrow> tk_state k = ''ACTIVE'') \<and> (tk_state k \<noteq> ''ACTIVE'' \<longrightarrow> st = tk_state k))"
  by (auto simp: scan_token_def token_state_def op_return_def op_bind_def op_now_def split: if_splits prod.splits
      intro: exI [of _ "tk_state k"])

lemma token_failed:
  "CreateAgentEnrollmentToken k h (s, w) = (Inl e, (s', w')) \<Longrightarrow> s' = s"
  "RevokeAgentEnrollmentToken t i actor (s, w) = (Inl e, (s', w')) \<Longrightarrow> s' = s"
  "ConsumeAgentEnrollment h c cr kh (s, w) = (Inl e, (s', w')) \<Longrightarrow> s' = s"
  "RotateAgentCredential h cr kh (s, w) = (Inl e, (s', w')) \<Longrightarrow> s' = s"
  by (auto simp: CreateAgentEnrollmentToken_def RevokeAgentEnrollmentToken_def ConsumeAgentEnrollment_def
      RotateAgentCredential_def op_fail_def dest: transaction_failed split: if_splits)

lemmas agent_runs = transaction_ran statement_run scan_token_run op_now_run audited_keeps sql_query_run sql_exec_Inr

lemma CreateAgentEnrollmentToken_run:
  assumes "CreateAgentEnrollmentToken k h (s, w) = (Inr x, (s', w'))"
  shows "ac_tokens s' = ac_tokens s @ [\<lparr>tr_token = stored_token k, tr_hash = h\<rparr>] \<and> 1 \<le> tk_max_uses k \<and> tk_max_uses k \<le> 10000 \<and>
    (\<forall>r \<in> set (ac_tokens s). \<not> is_token (tk_tenant k) (tk_id k) r \<and> tr_hash r \<noteq> h) \<and>
    ac_credentials s' = ac_credentials s \<and> ac_collectors s' = ac_collectors s"
  using assms unfolding CreateAgentEnrollmentToken_def
  by (auto elim!: op_bind_InrE dest!: agent_runs simp: return_Inr insert_token_def split: if_splits)

lemma RevokeAgentEnrollmentToken_run:
  assumes "RevokeAgentEnrollmentToken t i actor (s, w) = (Inr x, (s', w'))"
  shows "ac_tokens s' = update_rows (is_token t i) (\<lambda>r. r\<lparr>tr_token := (tr_token r)\<lparr>tk_state := ''REVOKED''\<rparr>\<rparr>) (ac_tokens s) \<and>
    (\<exists>r \<in> set (ac_tokens s). is_token t i r) \<and>
    ac_credentials s' = ac_credentials s \<and> ac_collectors s' = ac_collectors s"
  using assms unfolding RevokeAgentEnrollmentToken_def update_tokens_def
  by (auto elim!: op_bind_InrE dest!: agent_runs filter_head simp: return_Inr first_row_Inr returned_rows_def split: if_splits)

subsection \<open>Enrollment and rotation\<close>

definition token_key :: "token_row \<Rightarrow> tenant \<times> string" where
  "token_key r = (tk_tenant (tr_token r), tk_id (tr_token r))"

definition collector_key :: "collector \<Rightarrow> tenant \<times> string" where
  "collector_key c = (cl_tenant c, cl_id c)"

definition subject_key :: "collector \<Rightarrow> tenant \<times> string" where
  "subject_key c = (cl_tenant c, cl_auth_subject c)"

definition credential_key :: "credential_row \<Rightarrow> tenant \<times> string" where
  "credential_key r = (gc_tenant (gr_credential r), gc_collector (gr_credential r))"

definition usable :: "credential_row \<Rightarrow> bool" where
  "usable r \<longleftrightarrow> gc_revoked_at (gr_credential r) = None"

lemma insert_credential_Inr:
  assumes "insert_credential c h s = Inr s'"
  shows "\<exists>r. ac_credentials s' = ac_credentials s @ [r] \<and> gr_hash r = h \<and> usable r \<and> credential_key r = (gc_tenant c, gc_collector c) \<and>
    gc_id (gr_credential r) = gc_id c \<and> gc_auth_subject (gr_credential r) = gc_auth_subject c \<and>
    (\<forall>q \<in> set (ac_credentials s). gc_id (gr_credential q) \<noteq> gc_id c \<and> gr_hash q \<noteq> h) \<and>
    ac_tokens s' = ac_tokens s \<and> ac_collectors s' = ac_collectors s"
  using assms by (auto simp: insert_credential_def usable_def credential_key_def split: if_splits)

definition spent :: "enrollment_token \<Rightarrow> time \<Rightarrow> token_row \<Rightarrow> token_row" where
  "spent t now r = r\<lparr>tr_token := (tr_token r)\<lparr>tk_use_count := tk_use_count t + 1,
     tk_state := (if tk_max_uses t \<le> tk_use_count t + 1 then ''EXHAUSTED'' else ''ACTIVE''),
     tk_last_used_at := Some (to_micro now)\<rparr>\<rparr>"

lemma consume_token_Inr:
  assumes "consume_token t now s = Inr s'"
  shows "ac_tokens s' = update_rows (is_token (tk_tenant t) (tk_id t)) (spent t now) (ac_tokens s) \<and>
    ac_credentials s' = ac_credentials s \<and> ac_collectors s' = ac_collectors s"
  using assms by (auto simp: consume_token_def Let_def spent_def [abs_def] split: if_splits)

lemma stored_collector_simps [simp]:
  "cl_tenant (stored_collector c now) = cl_tenant c" "cl_id (stored_collector c now) = cl_id c"
  "cl_auth_subject (stored_collector c now) = cl_auth_subject c"
  by (simp_all add: stored_collector_def)

lemma credential_for_simps [simp]:
  "gc_tenant (credential_for cr t i subject now) = t" "gc_collector (credential_for cr t i subject now) = i"
  "gc_auth_subject (credential_for cr t i subject now) = subject" "gc_id (credential_for cr t i subject now) = gc_id cr"
  by (simp_all add: credential_for_def)

lemma ConsumeAgentEnrollment_run:
  assumes "ConsumeAgentEnrollment h c cr kh (s, w) = (Inr x, (s', w'))"
  shows "\<exists>row r now. row \<in> set (ac_tokens s) \<and> tr_hash row = h \<and> tk_state (tr_token row) = ''ACTIVE'' \<and>
    now < tk_expires_at (tr_token row) \<and> tk_use_count (tr_token row) < tk_max_uses (tr_token row) \<and>
    x = stored_collector (enrolled_collector c (tr_token row)) now \<and> ac_collectors s' = ac_collectors s @ [x] \<and>
    (\<forall>k \<in> set (ac_collectors s). cl_tenant k = cl_tenant x \<longrightarrow> cl_id k \<noteq> cl_id x \<and> cl_auth_subject k \<noteq> cl_auth_subject x) \<and>
    ac_credentials s' = ac_credentials s @ [r] \<and> gr_hash r = kh \<and> usable r \<and> credential_key r = collector_key x \<and>
    gc_id (gr_credential r) = gc_id cr \<and> gc_auth_subject (gr_credential r) = cl_auth_subject x \<and>
    (\<forall>q \<in> set (ac_credentials s). gc_id (gr_credential q) \<noteq> gc_id cr \<and> gr_hash q \<noteq> kh) \<and>
    ac_tokens s' = update_rows (is_token (tk_tenant (tr_token row)) (tk_id (tr_token row))) (spent (tr_token row) now) (ac_tokens s)"
proof -
  have same: "k\<lparr>tk_state := ''ACTIVE''\<rparr> = k" if "tk_state k = ''ACTIVE''" for k
    using that by (cases k) simp
  from assms obtain row now s1 s2 s3 where row: "row \<in> set (ac_tokens s)" "tr_hash row = h" "tk_state (tr_token row) = ''ACTIVE''"
      "now < tk_expires_at (tr_token row)" "tk_use_count (tr_token row) < tk_max_uses (tr_token row)"
    and runs: "insert_collector (enrolled_collector c (tr_token row)) now s = (Inr x, s1)"
      "insert_credential (credential_for cr (cl_tenant x) (cl_id x) (cl_auth_subject x) now) kh s1 = Inr s2"
      "consume_token (tr_token row) now s2 = Inr s3" "same_agents s3 s'"
    unfolding ConsumeAgentEnrollment_def same_agents_def
    by (auto elim!: op_bind_InrE dest!: agent_runs filter_head simp: return_Inr first_row_Inr same not_le split: if_splits) blast+
  from insert_credential_Inr [OF runs(2)] obtain r where "ac_credentials s2 = ac_credentials s1 @ [r]" "gr_hash r = kh" "usable r"
      "credential_key r = collector_key x" "gc_id (gr_credential r) = gc_id cr" "gc_auth_subject (gr_credential r) = cl_auth_subject x"
      "\<forall>q \<in> set (ac_credentials s1). gc_id (gr_credential q) \<noteq> gc_id cr \<and> gr_hash q \<noteq> kh"
      "ac_tokens s2 = ac_tokens s1" "ac_collectors s2 = ac_collectors s1"
    by (auto simp: collector_key_def)
  with row runs(4) insert_collector_Inr [OF runs(1)] consume_token_Inr [OF runs(3)] show ?thesis
    by (intro exI [of _ row] exI [of _ r] exI [of _ now]) (auto simp: same_agents_def)
qed

definition retire :: "string \<Rightarrow> time \<Rightarrow> credential_row list \<Rightarrow> credential_row list" where
  "retire i now = update_rows (\<lambda>r. gc_id (gr_credential r) = i)
     (\<lambda>r. r\<lparr>gr_credential := (gr_credential r)\<lparr>gc_revoked_at := Some (to_micro now)\<rparr>\<rparr>)"

lemma revoke_credential_simps:
  "ac_credentials (revoke_credential i now s) = retire i now (ac_credentials s)"
  "ac_tokens (revoke_credential i now s) = ac_tokens s" "ac_collectors (revoke_credential i now s) = ac_collectors s"
  by (simp_all add: revoke_credential_def retire_def)

lemma RotateAgentCredential_run:
  assumes "RotateAgentCredential h cr kh (s, w) = (Inr x, (s', w'))"
  shows "\<exists>old new now. old \<in> set (ac_credentials s) \<and> gr_hash old = h \<and> usable old \<and>
    gr_hash new = kh \<and> usable new \<and> credential_key new = credential_key old \<and> gc_id (gr_credential new) = gc_id cr \<and>
    gc_auth_subject (gr_credential new) = gc_auth_subject (gr_credential old) \<and>
    (\<forall>q \<in> set (ac_credentials s). gc_id (gr_credential q) \<noteq> gc_id cr \<and> gr_hash q \<noteq> kh) \<and>
    ac_credentials s' = retire (gc_id (gr_credential old)) now (ac_credentials s @ [new]) \<and>
    ac_tokens s' = ac_tokens s \<and> ac_collectors s' = ac_collectors s"
proof -
  from assms obtain old now s1 where old: "old \<in> set (ac_credentials s)" "gr_hash old = h" "usable old"
    and run: "insert_credential (credential_for cr (gc_tenant (gr_credential old)) (gc_collector (gr_credential old))
        (gc_auth_subject (gr_credential old)) now) kh s = Inr s1"
      "same_agents (revoke_credential (gc_id (gr_credential old)) now s1) s'"
    unfolding RotateAgentCredential_def same_agents_def usable_def
    by (auto elim!: op_bind_InrE dest!: agent_runs filter_head simp: return_Inr first_row_Inr Let_def split: if_splits)
  from insert_credential_Inr [OF run(1)] obtain r where "ac_credentials s1 = ac_credentials s @ [r]" "gr_hash r = kh" "usable r"
      "credential_key r = credential_key old" "gc_id (gr_credential r) = gc_id cr"
      "gc_auth_subject (gr_credential r) = gc_auth_subject (gr_credential old)"
      "\<forall>q \<in> set (ac_credentials s). gc_id (gr_credential q) \<noteq> gc_id cr \<and> gr_hash q \<noteq> kh"
      "ac_tokens s1 = ac_tokens s" "ac_collectors s1 = ac_collectors s"
    by (auto simp: credential_key_def)
  with old run(2) show ?thesis
    by (intro exI [of _ old] exI [of _ r] exI [of _ now]) (auto simp: same_agents_def revoke_credential_simps)
qed

end
