(* ===== verification/Access_Invariants.thy ===== *)
theory Access_Invariants
  imports Access_Agents
begin

text \<open>
  The invariants of enrollment: tokens count the enrollments they were used for and stay within what they
  allow, every collector has at most one credential in use, and revoked tokens stay revoked.
\<close>

subsection \<open>Tokens count enrollments\<close>

definition counted :: "string list \<Rightarrow> token_row \<Rightarrow> bool" where
  "counted hs r \<longleftrightarrow> tk_use_count (tr_token r) = int (count_list hs (tr_hash r)) \<and>
     tk_use_count (tr_token r) \<le> tk_max_uses (tr_token r) \<and> tk_max_uses (tr_token r) \<le> 10000"

definition token_counts :: "string list \<Rightarrow> token_row list \<Rightarrow> bool" where
  "token_counts hs rows \<longleftrightarrow> distinct (map tr_hash rows) \<and> distinct (map token_key rows) \<and>
     set hs \<subseteq> tr_hash ` set rows \<and> (\<forall>r \<in> set rows. counted hs r)"

lemma token_counts_map:
  assumes "token_counts hs rows" "\<And>r. tr_hash (f r) = tr_hash r" "\<And>r. token_key (f r) = token_key r"
    and "\<And>r. r \<in> set rows \<Longrightarrow> counted hs' (f r)"
    and "set hs' \<subseteq> tr_hash ` set rows"
  shows "token_counts hs' (map f rows)"
proof -
  have "tr_hash \<circ> f = tr_hash" "token_key \<circ> f = token_key" using assms(2, 3) by (simp_all add: fun_eq_iff)
  then show ?thesis using assms by (simp add: token_counts_def image_image)
qed

lemma is_token_key: "is_token t i r \<longleftrightarrow> token_key r = (t, i)"
  by (auto simp: is_token_def token_key_def)

lemma spent_simps [simp]:
  "tr_hash (spent t now r) = tr_hash r" "token_key (spent t now r) = token_key r"
  "tk_use_count (tr_token (spent t now r)) = tk_use_count t + 1"
  "tk_max_uses (tr_token (spent t now r)) = tk_max_uses (tr_token r)"
  by (simp_all add: spent_def token_key_def)

lemma token_counts_spent:
  assumes ok: "token_counts hs rows" and row: "row \<in> set rows" "tk_use_count (tr_token row) < tk_max_uses (tr_token row)"
  shows "token_counts (hs @ [tr_hash row])
    (update_rows (is_token (tk_tenant (tr_token row)) (tk_id (tr_token row))) (spent (tr_token row) now) rows)"
  unfolding update_rows_def
proof (rule token_counts_map [OF ok])
  fix r assume r: "r \<in> set rows"
  have "is_token (tk_tenant (tr_token row)) (tk_id (tr_token row)) r \<longleftrightarrow> token_key r = token_key row"
    by (simp add: is_token_def token_key_def)
  also have "\<dots> \<longleftrightarrow> r = row" using ok r row(1) by (auto simp: token_counts_def distinct_map dest: inj_onD)
  finally have key: "is_token (tk_tenant (tr_token row)) (tk_id (tr_token row)) r \<longleftrightarrow> r = row" .
  have hash: "tr_hash r \<noteq> tr_hash row" if "r \<noteq> row"
    using ok r row(1) that by (auto simp: token_counts_def distinct_map dest: inj_onD)
  have c: "counted hs r" "counted hs row" using ok r row(1) by (auto simp: token_counts_def)
  show "counted (hs @ [tr_hash row])
      (if is_token (tk_tenant (tr_token row)) (tk_id (tr_token row)) r then spent (tr_token row) now r else r)"
    unfolding key by (cases "r = row") (use c row(2) hash in \<open>simp_all add: counted_def\<close>)
next
  show "set (hs @ [tr_hash row]) \<subseteq> tr_hash ` set rows" using ok row(1) by (auto simp: token_counts_def)
qed auto

lemma token_counts_new:
  assumes "token_counts hs rows" "\<forall>r \<in> set rows. token_key r \<noteq> (tk_tenant k, tk_id k) \<and> tr_hash r \<noteq> h"
    and "1 \<le> tk_max_uses k" "tk_max_uses k \<le> 10000"
  shows "token_counts hs (rows @ [\<lparr>tr_token = stored_token k, tr_hash = h\<rparr>])"
proof -
  have "h \<notin> set hs" using assms(1, 2) by (auto simp: token_counts_def)
  then have "count_list hs h = 0" by (simp add: count_list_0_iff)
  then show ?thesis using assms by (fastforce simp: token_counts_def counted_def stored_token_def token_key_def)
qed

lemma token_counts_revoked:
  assumes "token_counts hs rows"
  shows "token_counts hs (update_rows P (\<lambda>r. r\<lparr>tr_token := (tr_token r)\<lparr>tk_state := st\<rparr>\<rparr>) rows)"
  unfolding update_rows_def by (rule token_counts_map [OF assms]) (use assms in \<open>auto simp: token_counts_def counted_def token_key_def\<close>)

text \<open>What a step does to the tokens, and when it is labelled.\<close>

definition token_change :: "token_row list \<Rightarrow> string list \<Rightarrow> token_row list \<Rightarrow> bool" where
  "token_change rows hs rows' \<longleftrightarrow> hs = [] \<and> rows' = rows \<or>
     (\<exists>k h. hs = [] \<and> rows' = rows @ [\<lparr>tr_token = stored_token k, tr_hash = h\<rparr>] \<and> 1 \<le> tk_max_uses k \<and> tk_max_uses k \<le> 10000 \<and>
        (\<forall>r \<in> set rows. token_key r \<noteq> (tk_tenant k, tk_id k) \<and> tr_hash r \<noteq> h)) \<or>
     (\<exists>t i. hs = [] \<and> rows' = update_rows (is_token t i) (\<lambda>r. r\<lparr>tr_token := (tr_token r)\<lparr>tk_state := ''REVOKED''\<rparr>\<rparr>) rows) \<or>
     (\<exists>row now. hs = [tr_hash row] \<and> row \<in> set rows \<and> tk_state (tr_token row) = ''ACTIVE'' \<and>
        tk_use_count (tr_token row) < tk_max_uses (tr_token row) \<and>
        rows' = update_rows (is_token (tk_tenant (tr_token row)) (tk_id (tr_token row))) (spent (tr_token row) now) rows)"

lemma token_unchanged: "token_change rows [] rows"
  by (simp add: token_change_def)

lemma account_requests_same:
  "CreateServiceAccount a h (s, w) = (r, (s', w')) \<Longrightarrow> same_agents s s'"
  "RotateServiceAccountToken t i actor h e (s, w) = (r, (s', w')) \<Longrightarrow> same_agents s s'"
  "RevokeServiceAccount t i actor (s, w) = (r, (s', w')) \<Longrightarrow> same_agents s s'"
  "ServiceAccountByTokenHash h checked (s, w) = (r, (s', w')) \<Longrightarrow> same_agents s s'"
  by (erule op_relD [rotated], rule account_requests)+

lemma registered:
  "RegisterCollector c (s, w) = (r, (s', w')) \<Longrightarrow> s' = s \<or> (\<exists>c now x. insert_collector c now s = (Inr x, s'))"
  by (drule RegisterCollector_run) (metis insert_collector_Inl sum.exhaust)

lemma step_tokens: "access_step s hs s' \<Longrightarrow> token_change (ac_tokens s) hs (ac_tokens s')"
proof (induction rule: access_step.induct)
  case (register c s w r s' w')
  from registered [OF this] show ?case by (auto simp: token_unchanged dest: insert_collector_Inr)
next
  case (create_token k h s w r s' w')
  show ?case
  proof (cases r)
    case (Inl e)
    with create_token show ?thesis by (auto simp: token_unchanged dest: token_failed)
  next
    case (Inr x)
    with create_token CreateAgentEnrollmentToken_run [of k h s w x s' w'] show ?thesis
      unfolding token_change_def is_token_key by (intro disjI2 disjI1 exI [of _ k] exI [of _ h]) auto
  qed
next
  case (revoke_token t i actor s w r s' w')
  show ?case
  proof (cases r)
    case (Inl e)
    with revoke_token show ?thesis by (auto simp: token_unchanged dest: token_failed)
  next
    case (Inr x)
    with revoke_token RevokeAgentEnrollmentToken_run [of t i actor s w x s' w'] show ?thesis
      unfolding token_change_def by (intro disjI2 disjI1 exI [of _ t] exI [of _ i]) auto
  qed
next
  case (enroll h c k kh s w r s' w')
  show ?case
  proof (cases r)
    case (Inl e)
    with enroll show ?thesis by (auto simp: token_unchanged dest: token_failed)
  next
    case (Inr x)
    with enroll ConsumeAgentEnrollment_run [of h c k kh s w x s' w'] show ?thesis
      by (auto simp: token_change_def)
  qed
next
  case (rotate_credential h k kh s w r s' w')
  then show ?case
    by (cases r) (auto simp: token_unchanged dest: token_failed dest!: RotateAgentCredential_run)
qed (auto simp: token_unchanged same_agents_def moved_collectors_def dest!: account_requests_same collector_updates)

lemma token_counts_change: "token_change rows h rows' \<Longrightarrow> token_counts hs rows \<Longrightarrow> token_counts (hs @ h) rows'"
  unfolding token_change_def by (auto intro: token_counts_new token_counts_revoked token_counts_spent)

lemma history_tokens:
  "access_history s hs s' \<Longrightarrow> ac_tokens s = [] \<Longrightarrow> token_counts hs (ac_tokens s')"
  by (induction rule: access_history.induct) (auto simp: token_counts_def [of "[]" "[]"] intro: token_counts_change step_tokens)

text \<open>A revoked token stays revoked and enrolls nobody.\<close>

definition revoked_token :: "string \<Rightarrow> token_row list \<Rightarrow> bool" where
  "revoked_token h rows \<longleftrightarrow> (\<exists>r \<in> set rows. tr_hash r = h \<and> tk_state (tr_token r) = ''REVOKED'')"

lemma revoked_token_change:
  assumes "token_change rows hs rows'" "token_counts gs rows" "revoked_token h rows"
  shows "revoked_token h rows' \<and> h \<notin> set hs"
proof -
  from assms(3) obtain r where r: "r \<in> set rows" "tr_hash r = h" "tk_state (tr_token r) = ''REVOKED''"
    by (auto simp: revoked_token_def)
  have keys: "q = r" if "q \<in> set rows" "token_key q = token_key r \<or> tr_hash q = tr_hash r" for q
    using assms(2) r(1) that by (auto simp: token_counts_def distinct_map dest: inj_onD)
  from assms(1) show ?thesis unfolding token_change_def
  proof (elim disjE exE conjE)
    fix row now assume row: "hs = [tr_hash row]" "row \<in> set rows" "tk_state (tr_token row) = ''ACTIVE''"
      "rows' = update_rows (is_token (tk_tenant (tr_token row)) (tk_id (tr_token row))) (spent (tr_token row) now) rows"
    have "row \<noteq> r" using row(3) r(3) by auto
    with keys row(2) have "token_key row \<noteq> token_key r" "tr_hash row \<noteq> tr_hash r" by blast+
    then show ?thesis using r row(1, 4)
      by (auto simp: revoked_token_def update_rows_def is_token_def token_key_def)
  next
    fix t i assume "hs = []" "rows' = update_rows (is_token t i) (\<lambda>r. r\<lparr>tr_token := (tr_token r)\<lparr>tk_state := ''REVOKED''\<rparr>\<rparr>) rows"
    with r show ?thesis unfolding revoked_token_def update_rows_def
      by (cases "is_token t i r") (force intro: rev_bexI)+
  qed (use r in \<open>auto simp: revoked_token_def\<close>)
qed

lemma history_revoked:
  "access_history s hs s' \<Longrightarrow> token_counts gs (ac_tokens s) \<Longrightarrow> revoked_token h (ac_tokens s) \<Longrightarrow>
     token_counts (gs @ hs) (ac_tokens s') \<and> revoked_token h (ac_tokens s') \<and> h \<notin> set hs"
proof (induction rule: access_history.induct)
  case (step s hs s1 h1 s2)
  note IH = step.IH [OF step.prems] and change = step_tokens [OF step.hyps(2)]
  from IH have "token_counts (gs @ hs) (ac_tokens s1)" "revoked_token h (ac_tokens s1)" by simp_all
  with IH token_counts_change [OF change, of "gs @ hs"] revoked_token_change [OF change] show ?case by auto
qed simp

subsection \<open>One credential in use\<close>

definition credentials_ok :: "collector list \<Rightarrow> credential_row list \<Rightarrow> bool" where
  "credentials_ok ks rows \<longleftrightarrow> distinct (map collector_key ks) \<and> distinct (map subject_key ks) \<and>
     distinct (map gr_hash rows) \<and> distinct (map (\<lambda>r. gc_id (gr_credential r)) rows) \<and>
     (\<forall>r \<in> set rows. \<exists>k \<in> set ks. collector_key k = credential_key r \<and> cl_auth_subject k = gc_auth_subject (gr_credential r)) \<and>
     (\<forall>r \<in> set rows. \<forall>q \<in> set rows. usable r \<longrightarrow> usable q \<longrightarrow> credential_key r = credential_key q \<longrightarrow> r = q)"

lemma credentials_ok_map:
  assumes "credentials_ok ks rows"
    and "\<And>c. cl_tenant (f c) = cl_tenant c \<and> cl_id (f c) = cl_id c \<and> cl_auth_subject (f c) = cl_auth_subject c"
  shows "credentials_ok (map f ks) rows"
proof -
  have "collector_key \<circ> f = collector_key" "subject_key \<circ> f = subject_key"
    using assms(2) by (auto simp: collector_key_def subject_key_def)
  moreover have "collector_key (f c) = collector_key c" for c using assms(2) by (simp add: collector_key_def)
  ultimately show ?thesis using assms by (simp add: credentials_ok_def)
qed

lemma credentials_ok_collector:
  assumes "credentials_ok ks rows" "\<forall>k \<in> set ks. cl_tenant k = cl_tenant x \<longrightarrow> cl_id k \<noteq> cl_id x \<and> cl_auth_subject k \<noteq> cl_auth_subject x"
  shows "credentials_ok (ks @ [x]) rows"
  using assms unfolding credentials_ok_def by (auto simp: collector_key_def subject_key_def)

lemma credentials_ok_enrolled:
  assumes "credentials_ok ks rows" "\<forall>k \<in> set ks. cl_tenant k = cl_tenant x \<longrightarrow> cl_id k \<noteq> cl_id x \<and> cl_auth_subject k \<noteq> cl_auth_subject x"
    and "credential_key r = collector_key x" "gc_auth_subject (gr_credential r) = cl_auth_subject x"
    and "\<forall>q \<in> set rows. gc_id (gr_credential q) \<noteq> gc_id (gr_credential r) \<and> gr_hash q \<noteq> gr_hash r"
  shows "credentials_ok (ks @ [x]) (rows @ [r])"
proof -
  have new: "credential_key q \<noteq> credential_key r" if "q \<in> set rows" for q
    using assms(1-3) that by (fastforce simp: credentials_ok_def collector_key_def credential_key_def)
  have "credentials_ok (ks @ [x]) rows" by (rule credentials_ok_collector [OF assms(1, 2)])
  then show ?thesis using assms(3-5) new unfolding credentials_ok_def by (auto dest: new)
qed

definition retired :: "string \<Rightarrow> time \<Rightarrow> credential_row \<Rightarrow> credential_row" where
  "retired i now r = (if gc_id (gr_credential r) = i
     then r\<lparr>gr_credential := (gr_credential r)\<lparr>gc_revoked_at := Some (to_micro now)\<rparr>\<rparr> else r)"

lemma retire_map: "retire i now rows = map (retired i now) rows"
  by (simp add: retire_def update_rows_def retired_def [abs_def])

lemma retired_simps [simp]:
  "gr_hash (retired i now r) = gr_hash r" "gc_id (gr_credential (retired i now r)) = gc_id (gr_credential r)"
  "credential_key (retired i now r) = credential_key r"
  "gc_auth_subject (gr_credential (retired i now r)) = gc_auth_subject (gr_credential r)"
  "usable (retired i now r) \<longleftrightarrow> usable r \<and> gc_id (gr_credential r) \<noteq> i"
  by (auto simp: retired_def credential_key_def usable_def)

lemma retired_other: "gc_id (gr_credential r) \<noteq> i \<Longrightarrow> retired i now r = r"
  by (simp add: retired_def)

lemma credentials_ok_rotated:
  assumes ok: "credentials_ok ks rows" and old: "old \<in> set rows" "usable old"
    and new: "credential_key new = credential_key old" "gc_auth_subject (gr_credential new) = gc_auth_subject (gr_credential old)"
      "\<forall>q \<in> set rows. gc_id (gr_credential q) \<noteq> gc_id (gr_credential new) \<and> gr_hash q \<noteq> gr_hash new"
  shows "credentials_ok ks (retire (gc_id (gr_credential old)) now (rows @ [new]))"
proof -
  let ?f = "retired (gc_id (gr_credential old)) now"
  have others: "credential_key q \<noteq> credential_key old" if "q \<in> set rows" "usable (?f q)" for q
    using ok old that unfolding credentials_ok_def by auto
  have "gr_hash \<circ> ?f = gr_hash" "(\<lambda>r. gc_id (gr_credential r)) \<circ> ?f = (\<lambda>r. gc_id (gr_credential r))" by auto
  then have d: "distinct (map gr_hash (map ?f (rows @ [new])))" "distinct (map (\<lambda>r. gc_id (gr_credential r)) (map ?f (rows @ [new])))"
    using ok new(3) by (auto simp: credentials_ok_def)
  have refs: "\<forall>r \<in> set (map ?f (rows @ [new])). \<exists>k \<in> set ks. collector_key k = credential_key r \<and>
      cl_auth_subject k = gc_auth_subject (gr_credential r)"
    using ok old new(1, 2) by (auto simp: credentials_ok_def)
  have one: "?f r = ?f q" if "r \<in> set (rows @ [new])" "q \<in> set (rows @ [new])" "usable (?f r)" "usable (?f q)"
    "credential_key r = credential_key q" for r q
  proof (cases "r \<in> set rows \<and> q \<in> set rows")
    case True
    with that ok show ?thesis by (auto simp: credentials_ok_def)
  next
    case False
    with that others [of r] others [of q] new(1) show ?thesis by auto
  qed
  show ?thesis unfolding credentials_ok_def retire_map
    using ok d refs one by (auto simp: credentials_ok_def)
qed

lemma step_credentials:
  "access_step s hs s' \<Longrightarrow> credentials_ok (ac_collectors s) (ac_credentials s) \<Longrightarrow> credentials_ok (ac_collectors s') (ac_credentials s')"
proof (induction rule: access_step.induct)
  case (register c s w r s' w')
  from registered [OF register(1)] register(2) show ?case
    by (auto dest!: insert_collector_Inr intro!: credentials_ok_collector)
next
  case (create_token k h s w r s' w')
  then show ?case by (cases r) (auto dest: token_failed CreateAgentEnrollmentToken_run)
next
  case (revoke_token t i actor s w r s' w')
  then show ?case by (cases r) (auto dest: token_failed RevokeAgentEnrollmentToken_run)
next
  case (enroll h c k kh s w r s' w')
  show ?case
  proof (cases r)
    case (Inl e)
    with enroll show ?thesis by (auto dest: token_failed)
  next
    case (Inr x)
    with enroll ConsumeAgentEnrollment_run [of h c k kh s w x s' w'] show ?thesis
      by (auto intro!: credentials_ok_enrolled)
  qed
next
  case (rotate_credential h k kh s w r s' w')
  show ?case
  proof (cases r)
    case (Inl e)
    with rotate_credential show ?thesis by (auto dest: token_failed)
  next
    case (Inr x)
    with rotate_credential RotateAgentCredential_run [of h k kh s w x s' w'] show ?thesis
      by (auto intro!: credentials_ok_rotated)
  qed
qed (auto simp: same_agents_def moved_collectors_def dest!: account_requests_same collector_updates intro!: credentials_ok_map)

lemma history_credentials:
  "access_history s hs s' \<Longrightarrow> credentials_ok (ac_collectors s) (ac_credentials s) \<Longrightarrow> credentials_ok (ac_collectors s') (ac_credentials s')"
  by (induction rule: access_history.induct) (auto intro: step_credentials)

end
