(* ===== verification/Access_Embedded.thy ===== *)
theory Access_Embedded
  imports Access_Contract
begin

text \<open>
  The embedded store of service accounts meets the contract too, as long as new accounts get identifiers
  that are not in use: its map has no constraint that would refuse them. The service makes new accounts
  with \<^verbatim>\<open>RevokedAt\<close> unset.
\<close>

definition key_of :: "service_account \<Rightarrow> tenant \<times> string" where
  "key_of a = (sv_tenant a, sv_id a)"

lemma same_account_key: "same_account t i a \<longleftrightarrow> key_of a = (t, i)"
  by (auto simp: same_account_def key_of_def)

definition maps_ok :: "access_memory \<Rightarrow> bool" where
  "maps_ok s \<longleftrightarrow> distinct (map key_of (am_accounts s)) \<and> distinct (map fst (am_tokens s)) \<and>
     (\<forall>e \<in> set (am_tokens s). \<exists>a \<in> set (am_accounts s). key_of a = snd e \<and> sv_revoked_at a = None)"

definition good_token :: "access_memory \<Rightarrow> string \<Rightarrow> (tenant \<times> string) option" where
  "good_token s h = map_of (am_tokens s) (hex_encode h)"

definition revoked_accounts :: "access_memory \<Rightarrow> (tenant \<times> string) set" where
  "revoked_accounts s = key_of ` {a \<in> set (am_accounts s). sv_revoked_at a \<noteq> None}"

definition unused_id :: "access_memory \<Rightarrow> service_account \<Rightarrow> bool" where
  "unused_id s a \<longleftrightarrow> find_account s (sv_tenant a) (sv_id a) = None \<and> sv_revoked_at a = None"

lemma find_account_Some: "find_account s t i = Some a \<Longrightarrow> a \<in> set (am_accounts s) \<and> key_of a = (t, i)"
  by (auto simp: find_account_def find_Some_iff same_account_key)

lemma find_account_None: "find_account s t i = None \<longleftrightarrow> (\<forall>a \<in> set (am_accounts s). key_of a \<noteq> (t, i))"
  by (auto simp: find_account_def find_None_iff same_account_key)

lemma set_put_account: "set (put_account a as) = {b \<in> set as. key_of b \<noteq> key_of a} \<union> {a}"
  by (auto simp: put_account_def same_account_key key_of_def)

lemma distinct_put_account: "distinct (map key_of as) \<Longrightarrow> distinct (map key_of (put_account a as))"
  by (auto simp: put_account_def same_account_key key_of_def distinct_map_filter)

lemma map_of_drop:
  "distinct (map fst ts) \<Longrightarrow> map_of (drop_tokens t i ts) x = (case map_of ts x of None \<Rightarrow> None | Some k \<Rightarrow> if k = (t, i) then None else Some k)"
  by (induction ts) (auto simp: drop_tokens_def split: option.splits dest: map_of_SomeD intro: rev_image_eqI)

lemma map_of_put: "map_of (put_token h k ts) x = (if x = hex_encode h then Some k else map_of ts x)"
proof -
  have "map_of (filter (\<lambda>e. fst e \<noteq> y) ts) x = (if x = y then None else map_of ts x)" for y
    by (induction ts) auto
  then show ?thesis by (auto simp: put_token_def map_add_def split: option.split)
qed

lemma token_keys:
  "distinct (map fst ts) \<Longrightarrow> distinct (map fst (put_token h k ts))"
  "distinct (map fst ts) \<Longrightarrow> distinct (map fst (drop_tokens t i ts))"
  by (auto simp: put_token_def drop_tokens_def distinct_map_filter)

lemma token_sets:
  "set (put_token h k ts) = {e \<in> set ts. fst e \<noteq> hex_encode h} \<union> {(hex_encode h, k)}"
  "set (drop_tokens t i ts) = {e \<in> set ts. snd e \<noteq> (t, i)}"
  by (auto simp: put_token_def drop_tokens_def)

lemma hex_inj [simp]: "hex_encode x = hex_encode y \<longleftrightarrow> x = y"
  by (auto dest: hex_encode_inj)

subsection \<open>Runs\<close>

lemma log_audit_run:
  "log_audit e (s, w) = (r, (s', w')) \<Longrightarrow> r = Inr () \<and> am_accounts s' = am_accounts s \<and> am_tokens s' = am_tokens s"
  by (auto simp: log_audit_def Let_def split: prod.splits)

lemmas run_defs = under_context_def op_bind_def op_state_def op_fail_def op_return_def op_now_def Let_def

lemma mem_Create_run:
  assumes "mem_CreateServiceAccount a h (s, w) = (r, (s', w'))"
  shows "s' = s \<and> \<not> is_ok r \<or> am_accounts s' = put_account (a\<lparr>sv_token_version := 1, sv_state := ''ACTIVE''\<rparr>) (am_accounts s) \<and>
    am_tokens s' = put_token h (key_of a) (am_tokens s)"
  using assms unfolding mem_CreateServiceAccount_def add_account_def
  by (auto simp: run_defs key_of_def dest!: log_audit_run split: if_splits prod.splits sum.splits)

lemma mem_Rotate_run:
  assumes "mem_RotateServiceAccountToken t i actor h e (s, w) = (r, (s', w'))"
  shows "s' = s \<and> \<not> is_ok r \<or> (\<exists>a now. find_account s t i = Some a \<and> sv_revoked_at a = None \<and>
    am_accounts s' = put_account (a\<lparr>sv_token_version := sv_token_version a + 1, sv_expires_at := e, sv_updated_at := now,
      sv_last_used_at := None, sv_state := ''ACTIVE''\<rparr>) (am_accounts s) \<and>
    am_tokens s' = put_token h (t, i) (drop_tokens t i (am_tokens s)))"
  using assms unfolding mem_RotateServiceAccountToken_def unrevoked_def replace_token_def
  by (auto simp: run_defs key_of_def dest!: log_audit_run split: if_splits prod.splits sum.splits option.splits)

lemma mem_Revoke_run:
  assumes "mem_RevokeServiceAccount t i actor (s, w) = (r, (s', w'))"
  shows "s' = s \<and> \<not> is_ok r \<or> (\<exists>a now. find_account s t i = Some a \<and>
    am_accounts s' = put_account (a\<lparr>sv_revoked_at := Some now, sv_updated_at := now, sv_state := ''REVOKED''\<rparr>) (am_accounts s) \<and>
    am_tokens s' = drop_tokens t i (am_tokens s))"
  using assms unfolding mem_RevokeServiceAccount_def unrevoked_def drop_account_def
  by (auto simp: run_defs key_of_def dest!: log_audit_run split: if_splits prod.splits sum.splits option.splits)

lemma mem_ByTokenHash_run:
  assumes "mem_ServiceAccountByTokenHash h at (s, w) = (r, (s', w'))"
  shows "s' = s \<and> \<not> is_ok r \<or> (\<exists>t i a now. good_token s h = Some (t, i) \<and> find_account s t i = Some a \<and>
    r = Inr (a\<lparr>sv_last_used_at := Some now\<rparr>) \<and>
    am_accounts s' = put_account (a\<lparr>sv_last_used_at := Some now\<rparr>) (am_accounts s) \<and> am_tokens s' = am_tokens s)"
  using assms unfolding mem_ServiceAccountByTokenHash_def known_token_def use_account_def
  by (auto simp: run_defs good_token_def split: if_splits prod.splits sum.splits option.splits)

subsection \<open>The contract\<close>

text \<open>Putting back an account under the key it was found under.\<close>

lemma put_back:
  assumes "maps_ok s" "find_account s t i = Some a" "key_of b = key_of a" "sv_revoked_at b = sv_revoked_at a"
    and "am_accounts s' = put_account b (am_accounts s)"
    and "distinct (map fst (am_tokens s'))"
    and "\<And>e. e \<in> set (am_tokens s') \<Longrightarrow> e \<in> set (am_tokens s) \<or> snd e = key_of a \<and> sv_revoked_at a = None"
  shows "maps_ok s' \<and> revoked_accounts s \<subseteq> revoked_accounts s'"
proof
  have d: "distinct (map key_of (am_accounts s))" and a: "a \<in> set (am_accounts s)"
    using assms(1, 2) by (auto simp: maps_ok_def dest: find_account_Some)
  have same: "c = a" if "c \<in> set (am_accounts s)" "key_of c = key_of a" for c
    using d a that by (auto simp: distinct_map dest: inj_onD)
  have "\<exists>c \<in> set (am_accounts s'). key_of c = snd e \<and> sv_revoked_at c = None" if e: "e \<in> set (am_tokens s')" for e
  proof (cases "snd e = key_of a")
    case True
    then have "sv_revoked_at a = None"
      using assms(1) assms(7) [OF e] same by (fastforce simp: maps_ok_def)
    then show ?thesis using assms(3-5) True by (auto simp: set_put_account)
  next
    case False
    with assms(1) assms(7) [OF e] obtain c where "c \<in> set (am_accounts s)" "key_of c = snd e" "sv_revoked_at c = None"
      by (auto simp: maps_ok_def)
    then show ?thesis using assms(3, 5) False by (auto simp: set_put_account)
  qed
  then show "maps_ok s'" using assms(5, 6) d by (simp add: maps_ok_def distinct_put_account)
  show "revoked_accounts s \<subseteq> revoked_accounts s'"
  proof
    fix k assume "k \<in> revoked_accounts s"
    then obtain c where c: "c \<in> set (am_accounts s)" "sv_revoked_at c \<noteq> None" "k = key_of c" by (auto simp: revoked_accounts_def)
    show "k \<in> revoked_accounts s'"
    proof (cases "key_of c = key_of a")
      case True
      then have "c = a" by (rule same [OF c(1)])
      with c assms(3-5) show ?thesis by (auto simp: revoked_accounts_def set_put_account intro!: image_eqI [of _ _ b])
    next
      case False
      with c assms(3, 5) show ?thesis by (auto simp: revoked_accounts_def set_put_account)
    qed
  qed
qed

lemma good_not_revoked_memory:
  assumes "maps_ok s" "good_token s h = Some k"
  shows "k \<notin> revoked_accounts s"
proof -
  from assms obtain a where a: "a \<in> set (am_accounts s)" "key_of a = k" "sv_revoked_at a = None"
    by (fastforce simp: maps_ok_def good_token_def dest: map_of_SomeD)
  then show ?thesis using assms(1) by (auto simp: revoked_accounts_def maps_ok_def distinct_map dest: inj_onD)
qed

interpretation embedded_registry: account_registry embedded_accounts unused_id good_token revoked_accounts maps_ok
proof
  fix s a h w r s' w'
  assume ok: "maps_ok s" and new: "unused_id s a" and run: "ap_create embedded_accounts a h (s, w) = (r, (s', w'))"
  from mem_Create_run [of a h s w r s' w'] run consider "s' = s" "\<not> is_ok r"
    | "am_accounts s' = put_account (a\<lparr>sv_token_version := 1, sv_state := ''ACTIVE''\<rparr>) (am_accounts s)"
      "am_tokens s' = put_token h (key_of a) (am_tokens s)"
    by (auto simp: embedded_accounts_def)
  then show "maps_ok s' \<and> revoked_accounts s \<subseteq> revoked_accounts s' \<and>
      (is_ok r \<longrightarrow> good_token s' h = Some (sv_tenant a, sv_id a))"
  proof cases
    case 1
    with ok show ?thesis by simp
  next
    case 2
    let ?b = "a\<lparr>sv_token_version := 1, sv_state := ''ACTIVE''\<rparr>"
    have b: "key_of ?b = key_of a" by (simp add: key_of_def)
    have n: "key_of c \<noteq> key_of a" if "c \<in> set (am_accounts s)" for c
      using new that by (auto simp: unused_id_def find_account_None key_of_def)
    have "sv_revoked_at a = None" using new by (simp add: unused_id_def)
    then have "\<exists>c \<in> set (am_accounts s'). key_of c = snd e \<and> sv_revoked_at c = None" if "e \<in> set (am_tokens s')" for e
      using ok 2 b n that by (fastforce simp: maps_ok_def set_put_account token_sets)
    then have "maps_ok s'" using ok 2 by (simp add: maps_ok_def distinct_put_account token_keys)
    moreover have "revoked_accounts s \<subseteq> revoked_accounts s'"
      using 2 b n by (auto simp: revoked_accounts_def set_put_account)
    moreover have "good_token s' h = Some (sv_tenant a, sv_id a)"
      using 2 by (simp add: good_token_def map_of_put key_of_def)
    ultimately show ?thesis by simp
  qed
next
  fix s t i actor h e w r s' w'
  assume ok: "maps_ok s" and run: "ap_rotate embedded_accounts t i actor h e (s, w) = (r, (s', w'))"
  from mem_Rotate_run [of t i actor h e s w r s' w'] run consider "s' = s" "\<not> is_ok r"
    | a now where "find_account s t i = Some a" "sv_revoked_at a = None"
      "am_accounts s' = put_account (a\<lparr>sv_token_version := sv_token_version a + 1, sv_expires_at := e, sv_updated_at := now,
         sv_last_used_at := None, sv_state := ''ACTIVE''\<rparr>) (am_accounts s)"
      "am_tokens s' = put_token h (t, i) (drop_tokens t i (am_tokens s))"
    by (auto simp: embedded_accounts_def)
  then show "maps_ok s' \<and> revoked_accounts s \<subseteq> revoked_accounts s' \<and>
      (is_ok r \<longrightarrow> (\<forall>h'. good_token s' h' = Some (t, i) \<longleftrightarrow> h' = h))"
  proof cases
    case 1
    with ok show ?thesis by simp
  next
    case 2
    have "maps_ok s' \<and> revoked_accounts s \<subseteq> revoked_accounts s'"
      by (rule put_back [OF ok 2(1) _ _ 2(3)])
        (use ok 2 in \<open>auto simp: maps_ok_def token_keys token_sets key_of_def dest: find_account_Some\<close>)
    moreover have "good_token s' h' = Some (t, i) \<longleftrightarrow> h' = h" for h'
      using ok 2 by (auto simp: good_token_def map_of_put map_of_drop maps_ok_def split: option.splits if_splits)
    ultimately show ?thesis by simp
  qed
next
  fix s t i actor w r s' w'
  assume ok: "maps_ok s" and run: "ap_revoke embedded_accounts t i actor (s, w) = (r, (s', w'))"
  from mem_Revoke_run [of t i actor s w r s' w'] run consider "s' = s" "\<not> is_ok r"
    | a now where "find_account s t i = Some a"
      "am_accounts s' = put_account (a\<lparr>sv_revoked_at := Some now, sv_updated_at := now, sv_state := ''REVOKED''\<rparr>) (am_accounts s)"
      "am_tokens s' = drop_tokens t i (am_tokens s)"
    by (auto simp: embedded_accounts_def)
  then show "maps_ok s' \<and> revoked_accounts s \<subseteq> revoked_accounts s' \<and> (is_ok r \<longrightarrow> (t, i) \<in> revoked_accounts s')"
  proof cases
    case 1
    with ok show ?thesis by simp
  next
    case 2
    let ?b = "a\<lparr>sv_revoked_at := Some now, sv_updated_at := now, sv_state := ''REVOKED''\<rparr>"
    have k: "key_of ?b = (t, i)" "key_of a = (t, i)" "a \<in> set (am_accounts s)"
      using find_account_Some [OF 2(1)] by (simp_all add: key_of_def)
    have "\<exists>c \<in> set (am_accounts s'). key_of c = snd e \<and> sv_revoked_at c = None" if "e \<in> set (am_tokens s')" for e
      using ok 2 k that by (fastforce simp: maps_ok_def set_put_account token_sets)
    then have "maps_ok s'" using ok 2 by (simp add: maps_ok_def distinct_put_account token_keys)
    moreover have "(t, i) \<in> revoked_accounts s'" using 2 k
      by (auto simp: revoked_accounts_def set_put_account intro!: image_eqI [of _ _ ?b])
    moreover have "revoked_accounts s \<subseteq> revoked_accounts s'"
    proof
      fix x assume "x \<in> revoked_accounts s"
      then obtain c where "c \<in> set (am_accounts s)" "sv_revoked_at c \<noteq> None" "x = key_of c" by (auto simp: revoked_accounts_def)
      then show "x \<in> revoked_accounts s'" using 2 k \<open>(t, i) \<in> revoked_accounts s'\<close>
        by (cases "x = (t, i)") (auto simp: revoked_accounts_def set_put_account)
    qed
    ultimately show ?thesis by simp
  qed
next
  fix s h checked w r s' w'
  assume ok: "maps_ok s" and run: "ap_by_hash embedded_accounts h checked (s, w) = (r, (s', w'))"
  from mem_ByTokenHash_run [of h checked s w r s' w'] run consider "s' = s" "\<not> is_ok r"
    | t i a now where "good_token s h = Some (t, i)" "find_account s t i = Some a"
      "r = Inr (a\<lparr>sv_last_used_at := Some now\<rparr>)"
      "am_accounts s' = put_account (a\<lparr>sv_last_used_at := Some now\<rparr>) (am_accounts s)" "am_tokens s' = am_tokens s"
    by (auto simp: embedded_accounts_def)
  then show "maps_ok s' \<and> revoked_accounts s \<subseteq> revoked_accounts s' \<and>
      (\<forall>x. r = Inr x \<longrightarrow> good_token s h = Some (sv_tenant x, sv_id x))"
  proof cases
    case 1
    with ok show ?thesis by auto
  next
    case 2
    have "maps_ok s' \<and> revoked_accounts s \<subseteq> revoked_accounts s'"
      by (rule put_back [OF ok 2(2) _ _ 2(4)]) (use ok 2 in \<open>auto simp: maps_ok_def key_of_def\<close>)
    with 2 find_account_Some [OF 2(2)] show ?thesis by (auto simp: key_of_def)
  qed
next
  fix s h k
  assume "maps_ok s" "good_token s h = Some k"
  then show "k \<notin> revoked_accounts s" by (rule good_not_revoked_memory)
qed

end
