(* ===== verification/Access_Sample.thy ===== *)
theory Access_Sample
  imports Access_Invariants Access_Embedded Case_Sample
begin

text \<open>
  Databases with a service account and with an enrolled agent, reached by the operations, on which the
  properties of the credentials of machines are exercised. \<open>runs f s Q\<close> says that \<open>f\<close> succeeds on \<open>s\<close> in any
  sample world, with \<open>Q\<close> of its result.
\<close>

definition ready :: "world \<Rightarrow> bool" where
  "ready w \<longleftrightarrow> live w \<and> clock w = (\<lambda>_. 1000000) \<and> entropy w = (\<lambda>_. Some (replicate 16 CHR ''x''))"

definition access_world :: world where
  "access_world = sample_world\<lparr>clock := \<lambda>_. 1000000, entropy := \<lambda>_. Some (replicate 16 CHR ''x'')\<rparr>"

lemma ready_access_world: "ready access_world"
  by (simp add: ready_def access_world_def live_def sample_world_def)

lemma ready_frame [simp]:
  "ready (snd (time_now w)) = ready w" "ready (snd (new_id p w)) = ready w" "ready (snd (ctx_err w)) = ready w"
  by (simp_all add: ready_def)

definition runs :: "('s, 'a) op \<Rightarrow> 's \<Rightarrow> ('a \<Rightarrow> 's \<Rightarrow> bool) \<Rightarrow> bool" where
  "runs f s Q \<longleftrightarrow> (\<forall>w. ready w \<longrightarrow> (\<exists>x s' w'. f (s, w) = (Inr x, (s', w')) \<and> ready w' \<and> Q x s'))"

lemma runsI: "(\<And>w. ready w \<Longrightarrow> \<exists>x s' w'. f (s, w) = (Inr x, (s', w')) \<and> ready w' \<and> Q x s') \<Longrightarrow> runs f s Q"
  by (simp add: runs_def)

lemma runsD: "runs f s Q \<Longrightarrow> \<exists>x s' w'. f (s, access_world) = (Inr x, (s', w')) \<and> Q x s'"
  using ready_access_world by (auto simp: runs_def)

lemma runs_bind:
  assumes "runs f s P" "\<And>x s1. P x s1 \<Longrightarrow> runs (g x) s1 Q"
  shows "runs (op_bind f g) s Q"
proof (rule runsI)
  fix w assume "ready w"
  with assms(1) obtain x s1 w1 where f: "f (s, w) = (Inr x, (s1, w1))" "ready w1" "P x s1" by (auto simp: runs_def)
  with assms(2) [OF f(3)] show "\<exists>x s' w'. op_bind f g (s, w) = (Inr x, (s', w')) \<and> ready w' \<and> Q x s'"
    by (auto simp: runs_def op_bind_def)
qed

lemma runs_return: "Q x s \<Longrightarrow> runs (op_return x) s Q"
  by (auto simp: runs_def op_return_def)

lemma runs_now: "Q 1000000 s \<Longrightarrow> runs op_now s Q"
proof (rule runsI)
  fix w assume w: "ready w" and Q: "Q 1000000 s"
  then have "fst (time_now w) = 1000000" by (simp add: ready_def time_now_def)
  with w Q show "\<exists>x s' w'. op_now (s, w) = (Inr x, (s', w')) \<and> ready w' \<and> Q x s'"
    by (auto simp: op_now_def case_prod_beta)
qed

definition sample_hex :: string where
  "sample_hex = hex_encode (replicate 16 CHR ''x'')"

lemma runs_new_id: "Q (p @ ''_'' @ sample_hex) s \<Longrightarrow> runs (op_new_id p) s Q"
proof (rule runsI)
  fix w assume w: "ready w" and Q: "Q (p @ ''_'' @ sample_hex) s"
  have "fst (new_id p w) = p @ ''_'' @ sample_hex" using w by (simp add: ready_def new_id_def Let_def sample_hex_def)
  then show "\<exists>x s' w'. op_new_id p (s, w) = (Inr x, (s', w')) \<and> ready w' \<and> Q x s'"
    using w Q by (auto simp: op_new_id_def case_prod_beta)
qed

lemma runs_secret: "(\<And>u. length u = 16 \<Longrightarrow> Q u s) \<Longrightarrow> runs op_secret s Q"
proof (rule runsI)
  fix w assume "ready w" and "\<And>u. length u = 16 \<Longrightarrow> Q u s"
  then show "\<exists>x s' w'. op_secret (s, w) = (Inr x, (s', w')) \<and> ready w' \<and> Q x s'"
    by (simp add: op_secret_def op_world_def random_bytes_def ready_def live_def)
qed

lemma runs_statement: "f s = (Inr x, s') \<Longrightarrow> Q x s' \<Longrightarrow> runs (statement f) s Q"
proof (rule runsI)
  fix w assume "ready w" "f s = (Inr x, s')" "Q x s'"
  moreover from this(1) have "fst (ctx_err w) = False" by (simp add: ready_def)
  ultimately show "\<exists>x s' w'. statement f (s, w) = (Inr x, (s', w')) \<and> ready w' \<and> Q x s'"
    by (auto simp: statement_def Let_def case_prod_beta)
qed

lemma runs_query: "f s = Inr x \<Longrightarrow> Q x s \<Longrightarrow> runs (sql_query f) s Q"
  unfolding sql_query_def by (rule runs_statement) auto

lemma runs_exec: "f s = Inr s' \<Longrightarrow> Q () s' \<Longrightarrow> runs (sql_exec f) s Q"
  unfolding sql_exec_def by (rule runs_statement) auto

lemma runs_first_row: "rows = x # rs \<Longrightarrow> Q x s \<Longrightarrow> runs (first_row e rows) s Q"
  by (simp add: first_row_def runs_return)

lemma runs_transaction: "runs body s Q \<Longrightarrow> runs (transaction body) s Q"
  unfolding transaction_def
proof (rule runsI)
  fix w assume body: "runs body s Q" and w: "ready w"
  have "runs (op_bind (sql_query (\<lambda>_. Inr ())) (\<lambda>_. op_bind body (\<lambda>x. op_bind (sql_query (\<lambda>_. Inr ())) (\<lambda>_. op_return x)))) s Q"
    by (rule runs_bind [OF runs_query [where Q = "\<lambda>_ s'. s' = s"]], simp, simp)
      (simp, rule runs_bind [OF body], rule runs_bind [OF runs_query [where Q = "\<lambda>_ s'. s' = s2" for s2]],
        auto intro: runs_return)
  with w show "\<exists>x s' w'. rollback (op_bind (sql_query (\<lambda>_. Inr ())) (\<lambda>_. op_bind body
      (\<lambda>x. op_bind (sql_query (\<lambda>_. Inr ())) (\<lambda>_. op_return x)))) (s, w) = (Inr x, (s', w')) \<and> ready w' \<and> Q x s'"
    by (auto simp: runs_def rollback_def)
qed

lemma runs_audited:
  assumes "pg_tenants (ac_pg s) (au_tenant e) \<noteq> None" "pg_audit (ac_pg s) (au_tenant e) = []"
    and "\<And>p. Q () (s\<lparr>ac_pg := p\<rparr>)"
  shows "runs (audited e) s Q"
proof (rule runsI)
  fix w assume "ready w"
  then have "live w" by (simp add: ready_def)
  from appendAuditTx_runs [OF this assms(1,2)] \<open>ready w\<close> assms(3)
  show "\<exists>x s' w'. audited e (s, w) = (Inr x, (s', w')) \<and> ready w' \<and> Q x s'"
    by (fastforce simp: audited_def ready_def)
qed

lemma runs_lift: "r = Inr x \<Longrightarrow> Q x s \<Longrightarrow> runs (op_lift r) s Q"
  by (simp add: runs_return)

lemma runs_scan_account: "(\<And>st. Q (a\<lparr>sv_state := st\<rparr>) s) \<Longrightarrow> runs (scan_account a) s Q"
  unfolding scan_account_def
  by (cases "sv_revoked_at a = None")
    (auto intro!: runs_return runs_bind [OF runs_now [where Q = "\<lambda>_ s'. s' = s"]])

lemma runs_scan_token: "tk_state k = ''ACTIVE'' \<Longrightarrow> 1000000 < tk_expires_at k \<Longrightarrow> Q k s \<Longrightarrow> runs (scan_token k) s Q"
  unfolding scan_token_def
  by (cases k) (auto simp: token_state_def intro!: runs_return runs_bind [OF runs_now [where Q = "\<lambda>n s'. n = 1000000 \<and> s' = s"]])

subsection \<open>A service account\<close>

definition sample_admin :: principal where
  "sample_admin = \<lparr>pr_id = ''ann'', pr_display_name = ''Ann'', pr_role = ''Tenant Admin'',
     pr_permissions = fst (permissionsForRoles [''tenant_admin'']), pr_allowed_tenants = [''acme''], pr_platform_scope = False\<rparr>"

definition sample_request :: account_request where
  "sample_request = \<lparr>aq_name = ''reader'', aq_description = [], aq_scopes = ['' siem.events.read '', ''siem.events.read''], aq_expires_in = 0\<rparr>"

definition sample_config :: account_config where
  "sample_config = account_defaults \<lparr>ag_default_ttl = 0, ag_maximum_ttl = 0\<rparr>"

lemma sample_scope:
  "''siem.events.read'' \<in> set knownPermissions" "principal_can sample_admin ''siem.events.read''"
proof -
  have r: "''siem.events.read'' \<in> set (role_permissions ''tenant_admin'')" by code_simp
  have "(''tenant_admin'', role_permissions ''tenant_admin'') \<in> set rolePermissions" by code_simp
  with r have "''siem.events.read'' \<in> set (concat (map snd rolePermissions)) - {''*''}" by force
  then show "''siem.events.read'' \<in> set knownPermissions" unfolding knownPermissions_eq by (rule implies.given)
  have "''siem.events.read'' \<in> set (pr_permissions sample_admin)"
    using r by (auto simp: sample_admin_def set_permissionsForRoles intro: implies.given)
  then show "principal_can sample_admin ''siem.events.read''" by (simp add: principal_can_def)
qed

lemma sample_granted: "grantableScopes sample_admin (aq_scopes sample_request) = Inr [''siem.events.read'']"
proof -
  have t: "trim_space '' siem.events.read '' = ''siem.events.read''" "trim_space ''siem.events.read'' = ''siem.events.read''"
    by code_simp+
  then have "\<not> scope_denied sample_admin '' siem.events.read ''" "\<not> scope_denied sample_admin ''siem.events.read''"
    using sample_scope by (simp_all add: scope_denied_def IsKnownPermission_def humanOnlyScopes_def)
  then show ?thesis by (simp add: grantableScopes_def sample_request_def t)
qed

lemma CreateServiceAccount_runs:
  assumes "length h = 32" "sv_scopes a \<noteq> []" "length (sv_scopes a) \<le> 32" "ac_accounts s = []"
    and "pg_tenants (ac_pg s) (sv_tenant a) \<noteq> None" "pg_audit (ac_pg s) (sv_tenant a) = []"
  shows "runs (CreateServiceAccount a h) s (\<lambda>x s'. \<exists>p st. x = (stored_account a)\<lparr>sv_state := st\<rparr> \<and>
    s' = s\<lparr>ac_accounts := [\<lparr>ar_account = stored_account a, ar_hash = h\<rparr>], ac_pg := p\<rparr>)"
proof -
  let ?s = "s\<lparr>ac_accounts := [\<lparr>ar_account = stored_account a, ar_hash = h\<rparr>]\<rparr>"
  have "insert_account a h s = (Inr (stored_account a), ?s)" using assms by (auto simp: insert_account_def)
  then have "runs (statement (insert_account a h)) s (\<lambda>x s'. x = stored_account a \<and> s' = ?s)" by (rule runs_statement) simp
  then show ?thesis unfolding CreateServiceAccount_def using assms(1)
    apply (simp only: refl not_True_eq_False if_False)
    apply (rule runs_transaction)
    apply (erule runs_bind)
    apply (elim conjE, hypsubst)
    apply (rule runs_bind [where P = "\<lambda>x s'. (\<exists>st. x = (stored_account a)\<lparr>sv_state := st\<rparr>) \<and> s' = ?s"])
     apply (rule runs_scan_account, blast)
    apply (elim conjE exE, hypsubst)
    apply (rule runs_bind [where P = "\<lambda>_ s'. \<exists>p. s' = ?s\<lparr>ac_pg := p\<rparr>"])
     apply (rule runs_audited)
    using assms(5, 6) by (auto simp: serviceAccountAudit_def stored_account_def intro!: runs_return)
qed

lemma runs_generateToken:
  "runs (generateToken i) s (\<lambda>x s'. s' = s \<and> (\<exists>raw. length raw \<le> length i + 50 \<and> x = (raw, sha256 raw)))"
proof -
  have "length (base64_raw_url u) \<le> 40" if "length u = 16" for u
    using base64_length [of u] that by linarith
  then show ?thesis unfolding generateToken_def Let_def
    by (auto intro!: runs_bind [OF runs_secret [where Q = "\<lambda>u s'. length u = 16 \<and> s' = s"]] runs_return)
qed

definition sample_id :: string where
  "sample_id = ''svc_'' @ sample_hex"

lemma sample_issued:
  "runs (sa_Create durable_accounts sample_config ''acme'' sample_admin sample_request) (empty_access sample_db)
     (\<lambda>x s'. length (si_access_token x) \<le> 512 \<and> 1000000 < sv_expires_at (si_account x) \<and>
       (\<exists>p r. s' = (empty_access sample_db)\<lparr>ac_accounts := [r], ac_pg := p\<rparr> \<and> active r \<and>
          account_key r = (''acme'', sample_id)))"
proof -
  have l: "length sample_id = 36" by (simp add: sample_id_def) code_simp
  have t: "trim_space ''acme'' = ''acme''" "tenant_valid ''acme''" "CanAccessTenant sample_admin ''acme''"
    "trim_space (pr_id sample_admin) \<noteq> []" "valid_account_name (trim_space (aq_name sample_request))"
    "length (trim_space (aq_description sample_request)) \<le> 1024"
    by (simp_all add: sample_admin_def sample_request_def CanAccessTenant_def) code_simp+
  have ttl: "account_ttl sample_config (aq_expires_in sample_request) = Inr (2160 * hour)" by code_simp
  let ?a = "\<lambda>i. new_account i ''acme'' sample_admin sample_request [''siem.events.read''] 1000000 (2160 * hour)"
  have db: "pg_tenants (ac_pg (empty_access sample_db)) ''acme'' \<noteq> None" "pg_audit (ac_pg (empty_access sample_db)) ''acme'' = []"
    "ac_accounts (empty_access sample_db) = []"
    by (simp_all add: empty_access_def sample_db_def empty_pg_def)
  have e: "1000000 < sv_expires_at (stored_account (?a i))" for i
  proof -
    have "to_micro (1000000 + 2160 * hour) = 1000000 + 2160 * hour" by code_simp
    then show ?thesis by (simp add: stored_account_def new_account_def hour_def minute_def go_second_def)
  qed
  have c: "runs (CreateServiceAccount (?a i) h) (empty_access sample_db) (\<lambda>x s'. \<exists>p st. x = (stored_account (?a i))\<lparr>sv_state := st\<rparr> \<and>
    s' = (empty_access sample_db)\<lparr>ac_accounts := [\<lparr>ar_account = stored_account (?a i), ar_hash = h\<rparr>], ac_pg := p\<rparr>)"
    if "length h = 32" for i h
    by (rule CreateServiceAccount_runs) (use that db in \<open>simp_all add: new_account_def\<close>)
  show ?thesis
    unfolding sa_Create_def Let_def durable_accounts_def account_port.simps t(1) sample_granted ttl op_lift_simps op_bind_return
    using t(2-6)
    apply simp
    apply (rule runs_bind [OF runs_now [where Q = "\<lambda>n s'. n = 1000000 \<and> s' = empty_access sample_db"]], simp)
    apply (elim conjE, hypsubst)
    apply (rule runs_bind [OF runs_new_id [where Q = "\<lambda>i s'. i = sample_id \<and> s' = empty_access sample_db"]], simp add: sample_id_def)
    apply (elim conjE, hypsubst)
    apply (rule runs_bind [OF runs_generateToken])
    apply (elim conjE exE, hypsubst)
    apply (simp only: split)
    apply (rule runs_bind [OF c])
    apply simp
    apply (elim conjE exE, hypsubst)
    apply (rule runs_return)
    apply (intro conjI exI)
    using e by (simp_all add: l account_key_def active_def new_account_def stored_account_def)+
qed

lemma RevokeServiceAccount_runs:
  assumes "ac_accounts s = [r]" "active r" "account_key r = (t, i)"
    and "pg_tenants (ac_pg s) t \<noteq> None" "pg_audit (ac_pg s) t = []"
  shows "runs (RevokeServiceAccount t i actor) s (\<lambda>_ _. True)"
proof -
  let ?P = "\<lambda>r. is_account t i r \<and> sv_revoked_at (ar_account r) = None"
  let ?r = "revoke_row 1000000 r" and ?s = "s\<lparr>ac_accounts := [revoke_row 1000000 r]\<rparr>"
  have P: "?P r" using assms(2,3) by (auto simp: is_account_key active_def)
  have u: "runs (update_accounts ?P (revoke_row 1000000)) s (\<lambda>x s'. x = [?r] \<and> s' = ?s)"
    unfolding update_accounts_def using P by (intro runs_statement) (auto simp: assms(1) returned_rows_def update_rows_def)
  have k: "sv_tenant (ar_account ?r) = t" using assms(3) by (simp add: account_key_def revoke_row_def)
  show ?thesis unfolding RevokeServiceAccount_def
    apply (rule runs_transaction)
    apply (rule runs_bind [OF runs_now [where Q = "\<lambda>n s'. n = 1000000 \<and> s' = s"]], simp)
    apply (elim conjE, hypsubst)
    apply (rule runs_bind [OF u])
    apply (elim conjE, hypsubst)
    apply (rule runs_bind [OF runs_first_row [where Q = "\<lambda>x s'. x = ?r \<and> s' = ?s"]], simp, simp)
    apply (elim conjE, hypsubst)
    apply (rule runs_bind [OF runs_scan_account [where Q = "\<lambda>x s'. sv_tenant x = t \<and> s' = ?s"]])
     apply (simp add: k)
    apply (elim conjE, hypsubst)
    apply (rule runs_bind [OF runs_audited [where Q = "\<lambda>_ _. True"]])
    using assms(4, 5) by (auto simp: serviceAccountAudit_def intro!: runs_return)
qed

subsection \<open>An enrolled agent\<close>

definition sample_token :: enrollment_token where
  "sample_token = \<lparr>tk_id = ''enr_1'', tk_tenant = ''acme'', tk_label = ''lab'', tk_collector_type = ''lightweight-agent'',
     tk_capabilities = [''syslog''], tk_state = ''ACTIVE'', tk_expires_at = 2000000, tk_max_uses = 2, tk_use_count = 0,
     tk_created_by = ''ann'', tk_created_at = 0, tk_last_used_at = None\<rparr>"

definition sample_collector :: collector where
  "sample_collector = agent_collector \<lparr>nq_enrollment_token = [], nq_agent_id = ''agent-1'', nq_name = ''Agent'', nq_hostname = [],
     nq_version = [], nq_platform = [], nq_architecture = []\<rparr> []"

definition token_digest :: string where
  "token_digest = sha256 ''kcsp_enroll_enr_1.secret''"

definition agent_secret :: string where
  "agent_secret = ''kcsp_agent_cred_1.secret''"

definition token_db :: access_db where
  "token_db = (empty_access sample_db)\<lparr>ac_tokens := [\<lparr>tr_token = stored_token sample_token, tr_hash = token_digest\<rparr>]\<rparr>"

lemma token_created:
  "runs (CreateAgentEnrollmentToken sample_token token_digest) (empty_access sample_db) (\<lambda>_ s'. \<exists>p. s' = token_db\<lparr>ac_pg := p\<rparr>)"
proof -
  have i: "insert_token sample_token token_digest (empty_access sample_db) = (Inr (stored_token sample_token), token_db)"
    by (simp add: insert_token_def token_digest_def sample_token_def empty_access_def sample_db_def empty_pg_def token_db_def)
  have k: "tk_state (stored_token sample_token) = ''ACTIVE''" "1000000 < tk_expires_at (stored_token sample_token)"
    "tk_tenant (stored_token sample_token) = ''acme''"
    by (simp_all add: stored_token_def sample_token_def to_micro_def)
  show ?thesis unfolding CreateAgentEnrollmentToken_def
    apply (simp add: token_digest_def del: op_bind_return)
    apply (fold token_digest_def)
    apply (rule runs_transaction)
    apply (rule runs_bind [OF runs_statement [where Q = "\<lambda>x s'. x = stored_token sample_token \<and> s' = token_db"]], rule i, simp)
    apply (elim conjE, hypsubst)
    apply (rule runs_bind [OF runs_scan_token [where Q = "\<lambda>x s'. x = stored_token sample_token \<and> s' = token_db"]])
       apply (simp_all add: k)
    apply (rule runs_bind [OF runs_audited [where Q = "\<lambda>_ s'. \<exists>p. s' = token_db\<lparr>ac_pg := p\<rparr>"]])
       apply (simp_all add: audit_of_def k token_db_def empty_access_def sample_db_def empty_pg_def)
    by (erule exE) (rule runs_return, blast)
qed

subsection \<open>Its enrollment\<close>

definition sample_credential :: agent_credential where
  "sample_credential = fresh_credential ''cred_1'' 9000000 1000000"

definition enrolled :: collector where
  "enrolled = stored_collector (enrolled_collector sample_collector (stored_token sample_token)) 1000000"

definition agent_row :: credential_row where
  "agent_row = \<lparr>gr_credential = (credential_for sample_credential ''acme'' ''agent-1'' ''agent:agent-1'' 1000000), gr_hash = sha256 agent_secret\<rparr>"

definition agent_db :: access_db where
  "agent_db = token_db\<lparr>ac_tokens := [spent (stored_token sample_token) 1000000 (hd (ac_tokens token_db))],
     ac_collectors := [enrolled], ac_credentials := [agent_row]\<rparr>"

lemma agent_enrolled:
  "runs (ConsumeAgentEnrollment token_digest sample_collector sample_credential (sha256 agent_secret)) token_db
     (\<lambda>_ s'. \<exists>p. s' = agent_db\<lparr>ac_pg := p\<rparr>)"
proof -
  let ?row = "\<lparr>tr_token = stored_token sample_token, tr_hash = token_digest\<rparr>" and ?k = "stored_token sample_token"
  let ?s1 = "token_db\<lparr>ac_collectors := [enrolled]\<rparr>" and ?s2 = "token_db\<lparr>ac_collectors := [enrolled], ac_credentials := [agent_row]\<rparr>"
  have k: "tk_state ?k = ''ACTIVE''" "1000000 < tk_expires_at ?k" "\<not> tk_max_uses ?k \<le> tk_use_count ?k" "tk_tenant ?k = ''acme''"
    by (simp_all add: stored_token_def sample_token_def to_micro_def)
  have e: "cl_tenant enrolled = ''acme''" "cl_id enrolled = ''agent-1''" "cl_auth_subject enrolled = ''agent:agent-1''"
    by (simp_all add: enrolled_def enrolled_collector_def sample_collector_def agent_collector_def k)
  have g: "gc_expires_at sample_credential = 9000000" by (simp add: sample_credential_def fresh_credential_def)
  have ins: "insert_collector (enrolled_collector sample_collector ?k) 1000000 token_db = (Inr enrolled, ?s1)"
    by (simp add: insert_collector_def enrolled_def token_db_def empty_access_def sample_db_def empty_pg_def
        enrolled_collector_def k sample_collector_def agent_collector_def)
  have cr: "insert_credential (credential_for sample_credential ''acme'' ''agent-1'' ''agent:agent-1'' 1000000) (sha256 agent_secret) ?s1 = Inr ?s2"
    by (simp add: insert_credential_def token_db_def empty_access_def is_collector_def e agent_row_def sample_credential_def
        fresh_credential_def credential_for_def to_micro_def)
  have use: "consume_token ?k 1000000 ?s2 = Inr agent_db"
    by (simp add: consume_token_def Let_def token_db_def agent_db_def update_rows_def is_token_def spent_def sample_token_def stored_token_def)
  show ?thesis unfolding ConsumeAgentEnrollment_def
    apply (simp add: token_digest_def del: op_bind_return)
    apply (fold token_digest_def)
    apply (rule runs_transaction)
    apply (rule runs_bind [OF runs_query [where Q = "\<lambda>x s'. x = [?row] \<and> s' = token_db"]], simp, simp add: token_db_def)
    apply (elim conjE, hypsubst)
    apply (rule runs_bind [OF runs_first_row [where Q = "\<lambda>x s'. x = ?row \<and> s' = token_db"]], simp, simp)
    apply (elim conjE, hypsubst)
    apply (rule runs_bind [OF runs_scan_token [where Q = "\<lambda>x s'. x = ?k \<and> s' = token_db"]])
       apply (simp_all add: k)
    apply (rule runs_bind [OF runs_now [where Q = "\<lambda>n s'. n = 1000000 \<and> s' = token_db"]], simp)
    apply (elim conjE, hypsubst)
    apply (simp add: k)
    apply (rule runs_bind [OF runs_statement [where Q = "\<lambda>x s'. x = enrolled \<and> s' = ?s1"]], rule ins, simp)
    apply (simp add: e g)
    apply (rule runs_bind [OF runs_exec [where Q = "\<lambda>_ s'. s' = ?s2"]], rule cr, simp)
    apply hypsubst
    apply (rule runs_bind [OF runs_exec [where Q = "\<lambda>_ s'. s' = agent_db"]], rule use, simp)
    apply hypsubst
    apply (rule runs_bind [OF runs_audited [where Q = "\<lambda>_ s'. \<exists>p. s' = agent_db\<lparr>ac_pg := p\<rparr>"]])
       apply (simp_all add: audit_of_def agent_db_def token_db_def empty_access_def sample_db_def empty_pg_def)
    by (erule exE) (rule runs_return, blast)
qed

lemma agent_reached: "\<exists>p. access_history (empty_access sample_db) [token_digest] (agent_db\<lparr>ac_pg := p\<rparr>)"
proof -
  from runsD [OF token_created] obtain x w1 p where
    "CreateAgentEnrollmentToken sample_token token_digest (empty_access sample_db, access_world) = (Inr x, (token_db\<lparr>ac_pg := p\<rparr>, w1))"
    by blast
  from access_history.step [OF access_history.start access_step.create_token [OF this]]
  have "access_history (empty_access sample_db) [] (token_db\<lparr>ac_pg := p\<rparr>)" by simp
  from access_history.step [OF this access_step.elsewhere [of _ "ac_pg token_db"]]
  have h: "access_history (empty_access sample_db) [] token_db" by simp
  from runsD [OF agent_enrolled] obtain y w2 q where
    "ConsumeAgentEnrollment token_digest sample_collector sample_credential (sha256 agent_secret) (token_db, access_world) =
      (Inr y, (agent_db\<lparr>ac_pg := q\<rparr>, w2))" by blast
  from access_history.step [OF h access_step.enroll [OF this]] show ?thesis by auto
qed

lemma agent_authenticates:
  "runs (agent_Authenticate (''Bearer '' @ agent_secret)) (agent_db\<lparr>ac_pg := p\<rparr>) (\<lambda>_ _. True)"
  "bearer ''kcsp_agent_'' (''Bearer '' @ agent_secret) = Some agent_secret"
proof -
  let ?s = "agent_db\<lparr>ac_pg := p\<rparr>" and ?c = "gr_credential agent_row"
  show b: "bearer ''kcsp_agent_'' (''Bearer '' @ agent_secret) = Some agent_secret" unfolding agent_secret_def by code_simp
  have c: "gc_revoked_at ?c = None" "gc_expires_at ?c = 9000000" "tenant_valid (gc_tenant ?c)" "trim_space (gc_collector ?c) \<noteq> []"
    "trim_space (gc_auth_subject ?c) \<noteq> []"
    by (simp_all add: agent_row_def sample_credential_def fresh_credential_def credential_for_def) code_simp+
  have e: "is_collector (gc_tenant ?c) (gc_collector ?c) enrolled" "cl_state enrolled = ''ACTIVE''"
    by (simp_all add: agent_row_def enrolled_def enrolled_collector_def stored_collector_def sample_collector_def agent_collector_def
        is_collector_def stored_token_def sample_token_def credential_for_def)
  have live: "filter (live_credential 1000000 ?s (sha256 agent_secret)) (ac_credentials agent_db) = [agent_row]"
    using c e by (simp add: agent_db_def live_credential_def to_micro_def agent_row_def)
  have "runs (AgentCredentialByHash (sha256 agent_secret)) ?s (\<lambda>x s'. x = ?c \<and> s' = ?s)"
    unfolding AgentCredentialByHash_def
    apply simp
    apply (rule runs_bind [OF runs_now [where Q = "\<lambda>n s'. n = 1000000 \<and> s' = ?s"]], simp)
    apply (elim conjE, hypsubst)
    apply (rule runs_bind [OF runs_query [where Q = "\<lambda>x s'. x = [?c] \<and> s' = ?s"]], simp, simp add: live)
    apply (elim conjE, hypsubst)
    by (rule runs_first_row) simp_all
  then have f: "runs (op_map_error (\<lambda>_. ErrUnauthenticated) (AgentCredentialByHash (sha256 agent_secret))) ?s (\<lambda>x s'. x = ?c \<and> s' = ?s)"
    by (fastforce simp: runs_def op_map_error_def)
  show "runs (agent_Authenticate (''Bearer '' @ agent_secret)) ?s (\<lambda>_ _. True)"
    unfolding agent_Authenticate_def b option.case
    apply (rule runs_bind [OF f])
    apply (elim conjE, hypsubst)
    apply (simp add: c)
    apply (rule runs_bind [OF runs_now [where Q = "\<lambda>n s'. n = 1000000"]], simp)
    using c by (simp add: runs_return)
qed

end
