(* ===== verification/Access_Properties.thy ===== *)
theory Access_Properties
  imports Access_Sample
begin

text \<open>
  The properties of the credentials of machines: a service account can do no more than who created it, the
  token it was issued with works until it is revoked or replaced and not after, an agent has one credential in
  use, and an enrollment token enrolls as often as it allows.
\<close>

subsection \<open>Service accounts over a history\<close>

definition same_accounts :: "access_db \<Rightarrow> access_db \<Rightarrow> bool" where
  "same_accounts s s' \<longleftrightarrow> ac_accounts s' = ac_accounts s"

interpretation accounts_rel: step_relation same_accounts
  by unfold_locales (auto simp: same_accounts_def)

lemma same_accounts_audited: "op_rel same_accounts (audited e)"
  by (rule op_relI) (auto simp: same_accounts_def dest: audited_keeps)

lemma same_accounts_token: "op_rel same_accounts (scan_token k)"
  by (rule op_relI) (auto simp: accounts_rel.R_refl dest!: scan_token_run)

lemma same_accounts_first: "op_rel same_accounts (first_row e rows)"
  by (auto simp: first_row_def accounts_rel.rel_fail accounts_rel.rel_return split: list.split)

lemmas accounts_intros = same_accounts_audited same_accounts_token same_accounts_first
  accounts_rel.rel_intros accounts_rel.sql_intros accounts_rel.rel_statement accounts_rel.rel_exec

lemma agent_requests:
  "op_rel same_accounts (RegisterCollector c)"
  "op_rel same_accounts (HeartbeatCollector t subject beat ip)"
  "op_rel same_accounts (SetCollectorState t i st)"
  "op_rel same_accounts (CreateAgentEnrollmentToken k h)"
  "op_rel same_accounts (RevokeAgentEnrollmentToken t i actor)"
  "op_rel same_accounts (ConsumeAgentEnrollment h c cr kh)"
  "op_rel same_accounts (RotateAgentCredential h cr kh)"
  by (auto simp: RegisterCollector_def HeartbeatCollector_def SetCollectorState_def CreateAgentEnrollmentToken_def
      RevokeAgentEnrollmentToken_def ConsumeAgentEnrollment_def RotateAgentCredential_def update_collectors_def
      update_tokens_def insert_collector_def insert_token_def insert_credential_def consume_token_def revoke_credential_def
      same_accounts_def Let_def intro!: accounts_intros split: if_splits)

lemma access_account_step:
  "access_step s hs s' \<Longrightarrow> account_step durable_accounts (\<lambda>_ _. True) s s' \<or> same_accounts s s'"
  by (induction rule: access_step.induct)
    (auto simp: same_accounts_def durable_accounts_def dest: op_relD [OF agent_requests(1)] op_relD [OF agent_requests(2)]
      op_relD [OF agent_requests(3)] op_relD [OF agent_requests(4)] op_relD [OF agent_requests(5)]
      op_relD [OF agent_requests(6)] op_relD [OF agent_requests(7)]
      intro: account_step.intros [of durable_accounts, unfolded durable_accounts_def account_port.simps])

lemma history_accounts:
  assumes "access_history s hs s'" "rows_ok (ac_accounts s)"
  shows "rows_ok (ac_accounts s') \<and> revoked_rows (ac_accounts s) \<subseteq> revoked_rows (ac_accounts s')"
  using assms
proof (induction rule: access_history.induct)
  case (step s hs s1 h s2)
  from access_account_step [OF step.hyps(2)] durable_registry.step_keeps [of s1 s2] step.IH [OF step.prems] show ?case
    by (auto simp: same_accounts_def)
qed simp

lemma empty_rows_ok: "rows_ok (ac_accounts (empty_access p))"
  by (simp add: empty_access_def rows_ok_def)

text \<open>C22. A revoked service account stays out.
\<close>

theorem revoked_account_never_authenticates:
  assumes "access_history (empty_access p) hs s"
    and "sa_Revoke durable_accounts t i actor (s, w) = (Inr a, (s1, w1))"
    and "access_history s1 gs s2"
  shows "\<not> (\<exists>header w2 q sw. sa_Authenticate durable_accounts header (s2, w2) = (Inr q, sw) \<and>
      pr_id q = ''service-account:'' @ trim_space i \<and> pr_allowed_tenants q = [trim_space t])"
proof clarify
  fix header w2 q s3 w3
  assume run: "sa_Authenticate durable_accounts header (s2, w2) = (Inr q, (s3, w3))"
    and q: "pr_id q = ''service-account:'' @ trim_space i" "pr_allowed_tenants q = [trim_space t]"
  have ok: "rows_ok (ac_accounts s)" using history_accounts [OF assms(1) empty_rows_ok] ..
  from assms(2) have "ap_revoke durable_accounts (trim_space t) (trim_space i) (pr_id actor) (s, w) = (Inr a, (s1, w1))"
    by (auto simp: sa_Revoke_def Let_def split: if_splits)
  from durable_registry.revoke_law [OF ok this] have ok1: "rows_ok (ac_accounts s1)"
    and out: "(trim_space t, trim_space i) \<in> revoked_rows (ac_accounts s1)" by auto
  from history_accounts [OF assms(3) ok1] out have "rows_ok (ac_accounts s2)"
    "(trim_space t, trim_space i) \<in> revoked_rows (ac_accounts s2)" by auto
  from durable_registry.revoked_stays_out [OF this rtranclp.rtrancl_refl run] q show False by simp
qed

text \<open>The embedded store keeps revoked accounts out as well, when new accounts get unused identifiers.\<close>

theorem embedded_revoked_stays_out:
  assumes "(account_step embedded_accounts unused_id)\<^sup>*\<^sup>* (empty_access_memory m) s"
    and "sa_Revoke embedded_accounts t i actor (s, w) = (Inr a, (s1, w1))"
    and "(account_step embedded_accounts unused_id)\<^sup>*\<^sup>* s1 s2"
    and "sa_Authenticate embedded_accounts header (s2, w2) = (Inr q, sw)"
  shows "\<not> (pr_id q = ''service-account:'' @ trim_space i \<and> pr_allowed_tenants q = [trim_space t])"
proof -
  have "maps_ok (empty_access_memory m)" by (simp add: maps_ok_def empty_access_memory_def)
  from embedded_registry.history_keeps [OF assms(1) this] have ok: "maps_ok s" ..
  from assms(2) have "ap_revoke embedded_accounts (trim_space t) (trim_space i) (pr_id actor) (s, w) = (Inr a, (s1, w1))"
    by (auto simp: sa_Revoke_def Let_def split: if_splits)
  from embedded_registry.revoke_law [OF ok this] have "maps_ok s1" "(trim_space t, trim_space i) \<in> revoked_accounts s1" by auto
  from embedded_registry.revoked_stays_out [OF this assms(3,4)] show ?thesis .
qed

subsection \<open>What an account is granted\<close>

lemma grantableScopes_Inr:
  assumes "grantableScopes actor scopes = Inr granted"
  shows "sorted granted \<and> distinct granted \<and> set granted = set (map trim_space scopes) \<and> granted \<noteq> [] \<and> length granted \<le> 32 \<and>
    (\<forall>v \<in> set granted. trim_space v = v \<and> v \<in> set knownPermissions \<and> v \<notin> set humanOnlyScopes \<and> principal_can actor v)"
proof -
  have ok: "scopes \<noteq> []" "length scopes \<le> 32" "\<not> list_ex (scope_denied actor) scopes"
    and g: "granted = sort (add_unseen [] (map trim_space scopes))"
    using assms by (auto simp: grantableScopes_def split: if_splits)
  have set: "set granted = set (map trim_space scopes)" by (simp add: g)
  have "length granted \<le> length scopes" unfolding g using length_add_unseen_le [of "[]" "map trim_space scopes"] by simp
  moreover have "granted \<noteq> []" using set ok(1) by auto
  moreover have "\<forall>v \<in> set granted. trim_space v = v \<and> v \<in> set knownPermissions \<and> v \<notin> set humanOnlyScopes \<and> principal_can actor v"
    using ok(3) unfolding set by (auto simp: list_ex_iff scope_denied_def IsKnownPermission_def Let_def)
  ultimately show ?thesis using ok(2) set by (auto simp: g)
qed

lemma sa_Create_run:
  assumes "sa_Create durable_accounts cfg t actor q (s, w) = (Inr issue, (s', w'))"
  shows "\<exists>scopes ttl now i secret w1 w2. grantableScopes actor (aq_scopes q) = Inr scopes \<and> account_ttl cfg (aq_expires_in q) = Inr ttl \<and>
    tenant_valid (trim_space t) \<and> CanAccessTenant actor (trim_space t) \<and>
    (\<exists>w0. i = fst (new_id ''svc'' w0)) \<and> si_access_token issue = ''kcsp_sat_'' @ i @ ''.'' @ base64_raw_url secret \<and>
    CreateServiceAccount (new_account i (trim_space t) actor q scopes now ttl) (sha256 (si_access_token issue)) (s, w1) =
      (Inr (si_account issue), (s', w2))"
proof -
  have n: "op_new_id p (s1, w1) = (Inr i, (s2, w2)) \<Longrightarrow> i = fst (new_id p w1) \<and> s2 = s1" for p i w1 w2 and s1 s2 :: access_db
    by (auto simp: op_new_id_def split: prod.splits)
  have g: "generateToken i (s1, w1) = (Inr x, (s2, w2)) \<Longrightarrow>
      \<exists>secret. x = (''kcsp_sat_'' @ i @ ''.'' @ base64_raw_url secret, sha256 (''kcsp_sat_'' @ i @ ''.'' @ base64_raw_url secret)) \<and> s2 = s1"
    for i x w1 w2 and s1 s2 :: access_db
    by (auto simp: generateToken_def op_secret_def op_world_def op_bind_def op_return_def Let_def
        split: prod.splits sum.splits option.splits)
  have l: "op_lift r (s1, w1) = (Inr x, (s2, w2)) \<Longrightarrow> r = Inr x \<and> s2 = s1" for r x w1 w2 and s1 s2 :: access_db
    by (auto simp: op_lift_def)
  from assms show ?thesis unfolding sa_Create_def Let_def durable_accounts_def
    apply (elim op_bind_InrE)
    apply (simp split: if_splits)
    apply (elim op_bind_InrE)
    apply (drule l n g op_now_run)+
    apply clarsimp
    apply (elim op_bind_InrE)
    apply (simp only: return_Inr append_Cons append_Nil)
    apply (elim conjE)
    apply hypsubst
    apply (simp only: account_issue.simps append_Cons append_Nil)
    apply blast
    done
qed

lemma session_granted: "P \<subseteq> {p. principal_can actor p} \<Longrightarrow> implication_closed {p. principal_can actor p} \<Longrightarrow>
    implies (insert ''platform.session.read'' P) \<subseteq> insert ''platform.session.read'' {p. principal_can actor p}"
  by (rule implies_least) (use session_closed in \<open>auto simp: implication_closed_def\<close>)

lemma can_closed: "implication_closed (set (pr_permissions actor)) \<Longrightarrow> implication_closed {p. principal_can actor p}"
  by (auto simp: implication_closed_def principal_can_def)


subsection \<open>The token an account is issued with\<close>

definition visible :: "char \<Rightarrow> bool" where
  "visible c \<longleftrightarrow> 32 < (of_char c :: nat) \<and> (of_char c :: nat) < 127"

lemma runes_invisible: "list_all (\<lambda>p. p \<noteq> [] \<and> \<not> visible (hd p) \<and> \<not> visible (last p)) space_runes"
  by code_simp

lemma visible_ends:
  assumes "s \<noteq> []" "visible (hd s)" "visible (last s)"
  shows "trim_space s = s"
proof (rule trim_space_id)
  fix p assume "p \<in> set space_runes"
  with runes_invisible have p: "p \<noteq> []" "\<not> visible (hd p)" "\<not> visible (last p)" by (auto simp: list_all_iff)
  with assms show "\<not> has_prefix s p" "\<not> has_suffix s p" by (auto simp: has_prefix_iff has_suffix_iff)
qed

lemma trim_by_eats: "trim_by n ps s = [] \<Longrightarrow> s \<noteq> [] \<Longrightarrow> \<exists>p \<in> set ps. p \<noteq> [] \<and> last p = last s"
proof (induction n ps s rule: trim_by.induct)
  case (2 n ps s)
  show ?case
  proof (cases "filter (has_prefix s) ps")
    case Nil
    with 2(2, 3) show ?thesis by simp
  next
    case (Cons q qs)
    then have "q \<in> set (filter (has_prefix s) ps)" by simp
    then have q: "q \<in> set ps" "has_prefix s q" by auto
    then obtain u where s: "s = q @ u" by (auto simp: has_prefix_iff)
    show ?thesis
    proof (cases "u = []")
      case True
      with s q(1) 2(3) show ?thesis by auto
    next
      case False
      from Cons 2(2) s have "trim_by n ps (drop (length q) s) = []" by simp
      from 2(1) [OF Cons this] s False show ?thesis by simp
    qed
  qed
qed simp

lemma visible_nonblank:
  assumes "visible c"
  shows "trim_space (c # s) \<noteq> []"
proof
  assume blank: "trim_space (c # s) = []"
  have hd: "\<not> visible (hd p)" "p \<noteq> []" if "p \<in> set space_runes" for p
    using runes_invisible that by (auto simp: list_all_iff)
  have "trim_left (c # s) = c # s"
    unfolding trim_left_def by (rule trim_by_id) (use hd assms in \<open>force simp: has_prefix_iff Cons_eq_append_conv\<close>)
  with blank have "trim_by (length (c # s)) (map rev space_runes) (rev (c # s)) = []"
    by (simp add: trim_space_def trim_right_def)
  from trim_by_eats [OF this] obtain p where "p \<in> set space_runes" "last (rev p) = c" by auto
  with hd [of p] assms show False by (simp add: last_rev)
qed

lemma visible_base64: "s \<noteq> [] \<Longrightarrow> base64_raw_url s \<noteq> [] \<and> visible (last (base64_raw_url s))"
proof -
  have v: "visible (base64_digit n)" if "n < 64" for n
    using that by (simp add: base64_digit_def visible_def) (auto simp: nth_Cons' )
  assume "s \<noteq> []"
  then show ?thesis
  proof (induction s rule: base64_raw_url.induct)
    case (4 a b c s)
    then show ?case by (cases "s = []") (simp_all add: Let_def v)
  qed (simp_all add: Let_def v)
qed

lemma bearer_token:
  assumes "token = ''kcsp_sat_'' @ i @ ''.'' @ base64_raw_url secret" "length token \<le> 512"
  shows "bearer ''kcsp_sat_'' (''Bearer '' @ token) = Some token"
proof -
  have v: "visible CHR ''B''" "visible CHR ''k''" "visible CHR ''.''" by (simp_all add: visible_def)
  have l: "visible (last token)"
    using visible_base64 [of secret] v(3) by (cases "secret = []") (simp_all add: assms(1))
  have "trim_space token = token" by (rule visible_ends) (use l v(2) in \<open>simp_all add: assms(1)\<close>)
  moreover have "trim_space (''Bearer '' @ token) = ''Bearer '' @ token"
    by (rule visible_ends) (use l v(1) in \<open>simp_all add: assms(1)\<close>)
  moreover have "has_prefix token ''kcsp_sat_''" by (simp add: assms(1))
  ultimately show ?thesis using assms(2) by (simp add: bearer_def Let_def trim_prefix_def)
qed

lemma ServiceAccountByTokenHash_works:
  assumes "ac_accounts s = rows @ [r]" "\<forall>q \<in> set rows. ar_hash q \<noteq> h" "ar_hash r = h" "length h = 32"
    and "active r" "to_micro at < sv_expires_at (ar_account r)" "\<not> is_zero at" "live w"
  shows "\<exists>st s' w'. ServiceAccountByTokenHash h at (s, w) = (Inr ((ar_account (use_row at r))\<lparr>sv_state := st\<rparr>), (s', w'))"
proof -
  have "filter (authenticates h at) rows = []" using assms(2) by (auto simp: filter_empty_conv authenticates_def)
  moreover have "authenticates h at r" using assms(3, 5, 6) by (simp add: authenticates_def active_def)
  ultimately have "returned_rows (authenticates h at) (use_row at) (ac_accounts s) = [use_row at r]"
    by (simp add: returned_rows_def assms(1))
  moreover have "sv_revoked_at (ar_account (use_row at r)) = None" using assms(5) by (simp add: use_row_def active_def)
  ultimately show ?thesis using assms(4, 7, 8)
    by (auto simp: ServiceAccountByTokenHash_def update_accounts_def op_bind_def op_return_def op_now_def statement_def
        first_row_def scan_account_def Let_def case_prod_beta)
qed

lemma new_id_head: "\<exists>u. fst (new_id ''svc'' w) = CHR ''s'' # u"
  by (auto simp: new_id_def Let_def split: option.split prod.split)


subsection \<open>Enrollment\<close>

text \<open>C24. An enrollment token counts the agents it enrolled and enrolls no more than it allows; once revoked it
  enrolls nobody.
\<close>

theorem enrollments_are_counted:
  assumes "access_history (empty_access p) hs s" "r \<in> set (ac_tokens s)"
  shows "tk_use_count (tr_token r) = int (count_list hs (tr_hash r)) \<and> tk_use_count (tr_token r) \<le> tk_max_uses (tr_token r) \<and>
    tk_max_uses (tr_token r) \<le> 10000 \<and>
    (tk_state (tr_token r) = ''REVOKED'' \<longrightarrow> \<not> (\<exists>gs s'. access_history s gs s' \<and> tr_hash r \<in> set gs))"
proof -
  have counts: "token_counts hs (ac_tokens s)"
    using history_tokens [OF assms(1)] by (simp add: empty_access_def)
  have "tr_hash r \<notin> set gs" if "tk_state (tr_token r) = ''REVOKED''" "access_history s gs s'" for gs s'
    using history_revoked [OF that(2) counts, of "tr_hash r"] that(1) assms(2) by (auto simp: revoked_token_def)
  then show ?thesis using counts assms(2) by (auto simp: token_counts_def counted_def)
qed

lemma agent_Authenticate_run:
  assumes "agent_Authenticate header (s, w) = (Inr p, sw)"
  shows "\<exists>token r. bearer ''kcsp_agent_'' header = Some token \<and> r \<in> set (ac_credentials s) \<and> gr_hash r = sha256 token \<and> usable r \<and>
    pr_id p = gc_auth_subject (gr_credential r) \<and> pr_allowed_tenants p = [gc_tenant (gr_credential r)] \<and>
    pr_permissions p = [''siem.events.ingest'', ''platform.collectors.heartbeat'']"
proof -
  obtain s' w' where sw: "sw = (s', w')" by fastforce
  have m: "op_map_error g f (s1, w1) = (Inr x, sw1) \<Longrightarrow> f (s1, w1) = (Inr x, sw1)" for g and f :: "(access_db, 'a) op" and s1 w1 x sw1
    by (auto simp: op_map_error_def split: prod.splits sum.splits)
  from assms show ?thesis unfolding sw agent_Authenticate_def AgentCredentialByHash_def
    by (auto elim!: op_bind_InrE dest!: m sql_query_run op_now_run filter_head simp: return_Inr first_row_Inr live_credential_def
        agent_principal_def usable_def split: option.splits if_splits) blast
qed

text \<open>C23. At any time one secret alone authenticates an agent.
\<close>

theorem agent_has_one_credential:
  assumes "access_history (empty_access p) hs s"
    and "agent_Authenticate header (s, w) = (Inr a, sw)" "agent_Authenticate header' (s, w') = (Inr b, sw')"
    and "pr_id a = pr_id b" "pr_allowed_tenants a = pr_allowed_tenants b"
    and "bearer ''kcsp_agent_'' header = Some token" "bearer ''kcsp_agent_'' header' = Some token'"
  shows "sha256 token = sha256 token'"
proof -
  have ok: "credentials_ok (ac_collectors s) (ac_credentials s)"
    by (rule history_credentials [OF assms(1)]) (simp add: empty_access_def credentials_ok_def)
  from agent_Authenticate_run [OF assms(2)] agent_Authenticate_run [OF assms(3)] assms(4-7) obtain r q where
    r: "r \<in> set (ac_credentials s)" "gr_hash r = sha256 token" "usable r" and
    q: "q \<in> set (ac_credentials s)" "gr_hash q = sha256 token'" "usable q" and
    same: "gc_auth_subject (gr_credential r) = gc_auth_subject (gr_credential q)"
      "gc_tenant (gr_credential r) = gc_tenant (gr_credential q)" by auto
  from ok r q obtain k l where k: "k \<in> set (ac_collectors s)" "collector_key k = credential_key r"
      "cl_auth_subject k = gc_auth_subject (gr_credential r)"
    and l: "l \<in> set (ac_collectors s)" "collector_key l = credential_key q" "cl_auth_subject l = gc_auth_subject (gr_credential q)"
    unfolding credentials_ok_def by blast
  with same have "subject_key k = subject_key l" by (auto simp: subject_key_def collector_key_def credential_key_def)
  with k(1) l(1) ok have "k = l" by (auto simp: credentials_ok_def distinct_map dest: inj_onD)
  with k(2) l(2) have "credential_key r = credential_key q" by simp
  with ok r q have "r = q" unfolding credentials_ok_def by blast
  with r q show ?thesis by simp
qed

subsection \<open>The sample runs\<close>

lemma created_history:
  assumes "sa_Create durable_accounts cfg t actor q (empty_access p, w) = (Inr x, (s', w'))"
  shows "access_history (empty_access p) [] s'"
proof -
  from sa_Create_run [OF assms] obtain a h w1 w2 where "CreateServiceAccount a h (empty_access p, w1) = (Inr (si_account x), (s', w2))"
    by blast
  from access_history.step [OF access_history.start access_step.create_account [OF this]] show ?thesis by simp
qed

lemma sample_id_trim: "trim_space sample_id = sample_id" "sample_id \<noteq> []"
  by (code_simp, simp add: sample_id_def)

lemma sample_revoked:
  assumes "ac_accounts s = [r]" "active r" "account_key r = (''acme'', sample_id)" "ac_pg s = sample_db"
  shows "\<exists>x s' w'. sa_Revoke durable_accounts ''acme'' sample_id sample_admin (s, access_world) = (Inr x, (s', w'))"
proof -
  have t: "trim_space ''acme'' = ''acme''" "tenant_valid ''acme''" by code_simp+
  have "\<not> sa_refused sample_admin ''acme'' sample_id"
    by (simp add: sa_refused_def t sample_id_trim CanAccessTenant_def sample_admin_def)
  moreover have "runs (RevokeServiceAccount ''acme'' sample_id (pr_id sample_admin)) s (\<lambda>_ _. True)"
    by (rule RevokeServiceAccount_runs [OF assms(1-3)]) (simp_all add: assms(4) sample_db_def empty_pg_def)
  ultimately show ?thesis
    using runsD by (fastforce simp: sa_Revoke_def Let_def t sample_id_trim durable_accounts_def)
qed

lemma sample_account_reached:
  "\<exists>s r. access_history (empty_access sample_db) [] s \<and> ac_accounts s = [r] \<and> active r \<and> account_key r = (''acme'', sample_id) \<and>
     ac_pg s = sample_db"
proof -
  from runsD [OF sample_issued] obtain x s' w' p r where
    run: "sa_Create durable_accounts sample_config ''acme'' sample_admin sample_request (empty_access sample_db, access_world) = (Inr x, (s', w'))"
    and r: "s' = (empty_access sample_db)\<lparr>ac_accounts := [r], ac_pg := p\<rparr>" "active r" "account_key r = (''acme'', sample_id)" by blast
  from access_history.step [OF created_history [OF run] access_step.elsewhere [of s' sample_db]]
  have "access_history (empty_access sample_db) [] (s'\<lparr>ac_pg := sample_db\<rparr>)" by simp
  with r show ?thesis by (intro exI [of _ "s'\<lparr>ac_pg := sample_db\<rparr>"] exI [of _ r]) simp
qed

theorem revoked_account_never_authenticates_witness:
  "\<exists>s w a s1 w1. sa_Revoke durable_accounts ''acme'' sample_id sample_admin (s, w) = (Inr a, (s1, w1)) \<and>
     \<not> (\<exists>header w2 q sw. sa_Authenticate durable_accounts header (s1, w2) = (Inr q, sw) \<and>
       pr_id q = ''service-account:'' @ trim_space sample_id \<and> pr_allowed_tenants q = [trim_space ''acme''])"
proof -
  from sample_account_reached obtain s r where h: "access_history (empty_access sample_db) [] s" and
    r: "ac_accounts s = [r]" "active r" "account_key r = (''acme'', sample_id)" "ac_pg s = sample_db" by blast
  from sample_revoked [OF r] obtain a s1 w1 where
    run: "sa_Revoke durable_accounts ''acme'' sample_id sample_admin (s, access_world) = (Inr a, (s1, w1))" by blast
  from run revoked_account_never_authenticates [OF h run access_history.start] show ?thesis by blast
qed



theorem enrollments_are_counted_witness:
  "\<exists>s r. access_history (empty_access sample_db) [token_digest] s \<and> r \<in> set (ac_tokens s) \<and> tk_use_count (tr_token r) = 1 \<and>
     tk_use_count (tr_token r) \<le> tk_max_uses (tr_token r)"
proof -
  from agent_reached obtain p where h: "access_history (empty_access sample_db) [token_digest] (agent_db\<lparr>ac_pg := p\<rparr>)" by blast
  let ?r = "hd (ac_tokens agent_db)"
  have r: "?r \<in> set (ac_tokens (agent_db\<lparr>ac_pg := p\<rparr>))" "tr_hash ?r = token_digest" by (simp_all add: agent_db_def token_db_def)
  from h r enrollments_are_counted [OF h r(1)] show ?thesis by (intro exI [of _ "agent_db\<lparr>ac_pg := p\<rparr>"] exI [of _ ?r]) simp
qed

theorem agent_has_one_credential_witness:
  "\<exists>s w a sw. access_history (empty_access sample_db) [token_digest] s \<and>
     agent_Authenticate (''Bearer '' @ agent_secret) (s, w) = (Inr a, sw) \<and>
     (\<exists>token. bearer ''kcsp_agent_'' (''Bearer '' @ agent_secret) = Some token \<and> sha256 token = sha256 agent_secret)"
proof -
  from agent_reached obtain p where h: "access_history (empty_access sample_db) [token_digest] (agent_db\<lparr>ac_pg := p\<rparr>)" by blast
  from runsD [OF agent_authenticates(1)] obtain a s' w' where
    run: "agent_Authenticate (''Bearer '' @ agent_secret) (agent_db\<lparr>ac_pg := p\<rparr>, access_world) = (Inr a, (s', w'))" by blast
  from h run agent_authenticates(2) agent_has_one_credential [OF h run run refl refl agent_authenticates(2) agent_authenticates(2)]
  show ?thesis by blast
qed

end
