(* ===== verification/Spec2Isabelle.thy ===== *)
theory Spec2Isabelle
  imports Memory_Properties Soc_Properties Correlation_Properties Sigma_Properties Engine_Properties
    Auth_Threshold Evidence_Properties Case_Properties Hunt_Properties Soar_Properties Soar_Contracts
    Access_Properties
begin

text \<open>
  A verification library of the SIEM server, a Go program under \<^verbatim>\<open>src/\<close>. Paths below are relative to
  \<^verbatim>\<open>src/internal\<close>.

  \<^bold>\<open>The program.\<close> Collectors deliver events to the detection pipeline (\<^verbatim>\<open>pipeline/engine.go\<close>). The
  pipeline normalizes an event, stores it once, runs the built-in and the published Sigma
  detections (\<^verbatim>\<open>detection/compiler.go\<close>) and the stateful correlations (\<^verbatim>\<open>detection/correlation.go\<close>) on it, and
  turns each match into a finding, an alert that may join an open one, and an audit entry. Analysts
  triage alerts, promote them to incidents and work the incidents through their lifecycle
  (\<^verbatim>\<open>soc/service.go\<close>), collect cases over incidents (\<^verbatim>\<open>cases/service.go\<close>), keep evidence under a chain of
  custody (\<^verbatim>\<open>store/evidence.go\<close>) and hunt through the events (\<^verbatim>\<open>hunt/query.go\<close>). Response is automated by playbooks:
  graphs of nodes that are validated and published (\<^verbatim>\<open>soar/validate.go\<close>, \<^verbatim>\<open>soar/service.go\<close>) and executed by
  any number of workers (\<^verbatim>\<open>soar/worker.go\<close>) over a table of leased nodes, approvals by people and action
  attempts (\<^verbatim>\<open>store/soar.go\<close>, \<^verbatim>\<open>store/soar_runtime.go\<close>). Machines authenticate by tokens of service accounts
  (\<^verbatim>\<open>serviceaccount/service.go\<close>) and by the credentials agents get when they enroll (\<^verbatim>\<open>enrollment/service.go\<close>);
  what a principal may do follows from its roles or scopes (\<^verbatim>\<open>platform/auth\<close>). All of them go through a
  repository port with two adapters: the embedded store (\<^verbatim>\<open>store/memory.go\<close> behind
  \<^verbatim>\<open>store/repository.go\<close>) and the durable store on PostgreSQL (\<^verbatim>\<open>store/postgres.go\<close>, \<^verbatim>\<open>store/cases.go\<close>,
  \<^verbatim>\<open>store/evidence.go\<close>). Every record belongs to a tenant, every change is audited in a hash chain per
  tenant, and writers are coordinated by versions.

  \<^bold>\<open>The language and its library.\<close>
  \<^item> \<open>Prelude\<close>: results of fallible functions, first occurrences, folds, and the shared collections of rules.
  \<^item> \<open>Go_Strings\<close>, \<open>Go_Json\<close>, \<open>Go_Encoding\<close>, \<open>Go_Time\<close>: strings as byte sequences with the operations of
    package \<^verbatim>\<open>strings\<close>; \<^verbatim>\<open>encoding/json\<close> on the values the code marshals; hexadecimal and SHA-256 computed
    on 32-bit words; times in nanoseconds since year 1, clock, random bytes and request contexts.
  \<^item> \<open>Json_Text\<close>: what a JSON text determines of the values written in it.
  \<^item> \<open>Op_Relations\<close>: operations that thread a store and the world, and the locale \<open>step_relation\<close>: a
    reflexive and transitive relation that every call keeps holds of every sequence of calls, also of
    one that stops at an error; \<open>lifecycle\<close> and \<open>acyclic_lifecycle\<close>, tables of allowed transitions.
  \<^item> \<open>Op_Triples\<close>: what an operation that succeeds establishes from a condition on the store before it.
  \<^item> \<open>Sql\<close>: statements that the context may interrupt, transactions that roll back, and the rules to
    replay a transaction that succeeded.
  \<^item> \<open>Store_Contracts\<close>: the interfaces of a store as locales - \<open>write_once\<close> tables, \<open>versioned\<close> and
    \<open>optimistic\<close> records, a \<open>chained_log\<close> - with what a client may conclude from them.

  \<^bold>\<open>The model\<close>, one theory per source file, the operations under the names the code gives them (those
  of the durable store that the embedded store has too are prefixed \<open>pg_\<close>; case and incident services
  share names, so some carry the prefix \<open>case_\<close> or \<open>Soc\<close>):
  \<^item> \<open>Core_Model\<close> (\<^verbatim>\<open>core/model.go\<close>) and \<open>Case_Model\<close> (\<^verbatim>\<open>core/case.go\<close>, \<^verbatim>\<open>core/evidence.go\<close>): the records and the
    sentinel errors.
  \<^item> \<open>Memory_Store\<close> (\<^verbatim>\<open>store/memory.go\<close>) and \<open>Repository\<close> (\<^verbatim>\<open>store/repository.go\<close>): the state \<open>memory\<close> is the struct's
    maps and order slices. A method holds the mutex from its first to its last access, so it is one
    function from state to state.
  \<^item> \<open>Postgres\<close>, \<open>Postgres_Cases\<close>, \<open>Postgres_Evidence\<close>: the state \<open>pg\<close> is the tables of the migrations, each
    statement a function with its constraint checks, each method the sequence of its statements, every
    one of which a cancelled context may cut off.
  \<^item> \<open>Soc_Service\<close> and \<open>Case_Service\<close>: the services over a record of the port's methods; callbacks are
    functions of the record they change.
  \<^item> \<open>Sigma_Condition\<close>, \<open>Sigma_Compiler\<close>, \<open>Sigma_Match\<close> (\<^verbatim>\<open>detection/compiler.go\<close>): the lexer, the quantifier
    expansion and the recursive-descent parser of conditions, the compilation of rules and their
    evaluation on events.
  \<^item> \<open>Correlation\<close> (\<^verbatim>\<open>detection/correlation.go\<close>): evaluation of windows, temporal matching by backtracking, the
    state store. \<open>Engine\<close> (\<^verbatim>\<open>pipeline/engine.go\<close>): the whole ingest.
  \<^item> \<open>Hunt_Query\<close> (\<^verbatim>\<open>hunt/query.go\<close>, \<^verbatim>\<open>core/hunt.go\<close>).
  \<^item> \<open>Soar_Model\<close> (\<^verbatim>\<open>core/soar.go\<close>), \<open>Soar_Graph\<close> and \<open>Soar_Validate\<close> (\<^verbatim>\<open>soar/validate.go\<close>): playbooks, the two
    depth-first searches over their nodes and the rules; the maps of nodes are lists in the order of the
    playbook with distinct keys. \<open>Soar_Store\<close> (\<^verbatim>\<open>store/soar.go\<close>) and \<open>Soar_Runtime\<close>
    (\<^verbatim>\<open>store/soar_runtime.go\<close>): the state \<open>soar_db\<close> is the tables of the migrations on top of \<open>pg\<close>, every method
    the sequence of its statements. \<open>Soar_Worker\<close> (\<^verbatim>\<open>soar/worker.go\<close>): one turn of a worker over an executor of
    actions, which is a parameter. \<open>Soar_Service\<close> (\<^verbatim>\<open>soar/service.go\<close>): the requests.
  \<^item> \<open>Access_Roles\<close> (\<^verbatim>\<open>platform/auth/oidc.go\<close>, \<^verbatim>\<open>platform/auth/auth.go\<close>, \<^verbatim>\<open>platform/tenant/id.go\<close>): roles, permissions
    and what they imply. \<open>Access_Model\<close>, \<open>Access_Store\<close> (\<^verbatim>\<open>store/service_accounts.go\<close>,
    \<^verbatim>\<open>store/agent_enrollment.go\<close>, \<^verbatim>\<open>store/collectors.go\<close>): the state \<open>access_db\<close> is the tables of accounts, tokens,
    credentials and collectors on top of \<open>pg\<close>. \<open>Access_Memory\<close>: accounts in the embedded store. \<open>Access_Service\<close>:
    the services and the authenticators of \<^verbatim>\<open>platform/auth/service_account.go\<close> and \<^verbatim>\<open>platform/auth/agent.go\<close>,
    over a port of either store.

  \<^bold>\<open>What is shown.\<close>
  \<^item> Embedded store (\<open>Memory_Invariants\<close>, \<open>Memory_Properties\<close>): an invariant of every reachable state by rule
    induction over \<open>mem_step\<close>, isolation of tenants, write-once events, deduplication of alerts, and that a
    verifying audit chain pins its entries up to a collision of SHA-256.
  \<^item> Durable store (\<open>Postgres_Facts\<close>, \<open>Postgres_Invariants\<close>, \<open>Postgres_Runs\<close>, \<open>Postgres_Properties\<close>): each operation is
    replayed to the one update it makes; an invariant over the reachable databases; \<open>Store_Refinement\<close>: it
    refines the embedded store under the abstraction \<open>embedded\<close>, operation by operation.
  \<^item> SOC service (\<open>Soc_Facts\<close>, \<open>Soc_Contract\<close>, \<open>Soc_Runs\<close>, \<open>Soc_Properties\<close>, \<open>Postgres_Soc\<close>): the locale \<open>soc_contract\<close> states
    what the service needs of a store; its interpretations on both stores give that histories only
    grow and tenants stay apart. Exact effects of triage, promotion and incident updates.
  \<^item> Case service (\<open>Case_Facts\<close>, \<open>Case_Contract\<close>, \<open>Case_Durable\<close>, \<open>Case_Effects\<close>, \<open>Case_Sample\<close>, \<open>Case_Properties\<close>): the same
    on the durable store, the only one with cases: \<open>case_moves\<close> and the invariant \<open>case_ok\<close> through every
    callback, the effect of opening and updating a case, one case per request identity.
  \<^item> Evidence (\<open>Evidence_Properties\<close>): the chain of custody determines every field of its entries up to a
    collision; items only move forward.
  \<^item> Sigma (\<open>Sigma_Properties\<close>): the condition parser is total and inverts printing, quantifiers mean what
    they say, compiled rules match exactly when their condition holds. Correlation
    (\<open>Correlation_Properties\<close>): counts and temporal matches decided exactly, one emission per edge, bounded
    state. Pipeline (\<open>Engine_Contract\<close>, \<open>Engine_Properties\<close>, \<open>Auth_Threshold\<close>): what an ingest leaves in the store, on any
    store for the bounds and on the embedded one for the effects; the built-in threshold.
  \<^item> Hunts (\<open>Hunt_Properties\<close>): the validator against a declarative description of query trees, separation of
    the condition's text from the searched values, bounds and stability of normalization.
  \<^item> Automated response: \<open>Soar_Graph\<close> shows that the searches decide acyclicity and compute the highest number of
    approvals among the ancestors, \<open>Soar_Validate\<close> states the rules a playbook has to obey. \<open>Soar_Steps\<close> is the
    transition system of all calls workers, requests and approvers make, in any interleaving, with the
    items that were claimed and the versions that were read as what a caller may refer to. \<open>Soar_Invariants\<close>
    holds its invariant table by table, \<open>Soar_Runs\<close> that every call keeps it, also when it is
    interrupted. \<open>Soar_Composition\<close>: the turns of a worker and the requests are sequences of its steps.
    \<open>Soar_Properties\<close> and \<open>Soar_Contracts\<close> conclude what holds of every reachable database and of single
    operations; \<open>Soar_Sample\<close> holds a reachable example.
  \<^item> Credentials of machines: the locale \<open>account_registry\<close> (\<open>Access_Contract\<close>) states what the authenticator needs
    of a store of accounts; it is interpreted on both stores (\<open>Access_Embedded\<close> for the embedded one). \<open>Access_Agents\<close>
    is the transition system of all requests for accounts, agents and collectors, \<open>Access_Invariants\<close> its
    invariants, \<open>Access_Properties\<close> what follows: no more rights than the creator has, tokens that work until they
    are revoked and not after, one credential per agent, counted enrollments; \<open>Access_Sample\<close> holds runs of them.

  \<^bold>\<open>Fuel.\<close> Recursion is structural or by a measure wherever the code's is. Fuel remains in \<open>trim_by\<close>,
  \<open>escape_bytes\<close>, \<open>go_fields_fuel\<close> and \<open>expand_fuel\<close> (the length of the text, of which each step takes at least a
  byte) and in the condition parser (one unit per call, four per token and three more;
  \<open>parseCondition_total\<close> shows that it is never used up).

  \<^bold>\<open>Decisions.\<close> Strings are byte lists and \<^verbatim>\<open>len\<close> counts bytes; case mapping is exact on ASCII, which is all the
  code compares with. Counters are unbounded integers; where the code computes at the edge of 64 bits
  (lookbacks, parsed numbers) the wrap-around or range check is written out. A nil inner map is the empty
  one. Errors keep their sentinel, their texts are not modelled; a panic the code can reach is an
  error value of its own. The context is a sequence of answers \<open>ctx_done\<close>; clock and random bytes are
  sequences too, so no theorem assumes that identifiers are fresh unless it says so. JSONB columns
  decode to what was encoded, without fields tagged \<^verbatim>\<open>json:"-"\<close>; times in them keep microseconds. Ties
  under \<^verbatim>\<open>ORDER BY\<close> come in insertion order. \<^verbatim>\<open>ILIKE\<close>, the YAML decoder and the optional providers of the pipeline
  (threat intelligence, behaviour analytics, entity graph), the executor of actions and the handling of
  connector tests are parameters. Where the code ranges over a map of executions to reconcile, the model takes them in
  the order of the table; each is reconciled alone, so the order does not matter. Columns of type
  \<^verbatim>\<open>INTEGER\<close> do not overflow in the model.

  \<^bold>\<open>Not modelled.\<close> Text of error messages and logs, metrics; of the stores the counting views (\<^verbatim>\<open>Overview\<close>),
  health checks, migrations and connection handling; floating-point formatting; the paging cursor
  of hunts. Of the other components: the HTTP API, authentication by JWT and OIDC libraries, the
  ClickHouse and hybrid stores, the connectors of automated response and the timer loop of its worker,
  behaviour analytics, threat
  intelligence, the entity graph, event parsers, collectors and agent, licensing, the AI
  assistant, reporting and disaster recovery. They are clients of the same repository port or adapters to outside
  services; none of the modelled operations calls them except through the parameters above.
\<close>

end
